(* ===== verification/Prelude.thy ===== *)
theory Prelude
  imports Main "HOL-Library.Code_Target_Numeral"
begin

text \<open>
  Prelude of the development: how a Rust computation and a Rust \<open>str\<close> are represented.

  A call returns a \<open>result\<close>: \<open>Ok\<close> and \<open>Err\<close> are the two constructors of Rust's
  \<open>Result\<close>, \<open>Panic\<close> is an unwinding panic (a slice off a character boundary, an index out
  of range, a division by zero), \<open>Diverge\<close> says that the fuel of a fuelled recursion was used
  up. Every component that uses fuel proves that \<open>Diverge\<close> never comes out of its entry point.

  A \<open>str\<close> is the list of its UTF-8 bytes, which is what Rust stores and what byte offsets,
  \<open>len\<close> and slicing count. The character operations the code uses (\<open>chars\<close>, \<open>trim\<close>,
  \<open>is_whitespace\<close>, \<open>eq_ignore_ascii_case\<close>, \<open>to_lowercase\<close>) are defined on the bytes.
\<close>

section \<open>Results of a call\<close>

datatype ('a, 'e) result = Ok 'a | Err 'e | Panic | Diverge

named_theorems bind_simps \<open>evaluation of the sequencing operators on each outcome\<close>
named_theorems str_simps \<open>byte-level facts of the string operations\<close>

text \<open>The \<open>?\<close> operator: go on with the value, pass every other outcome to the caller.\<close>

fun and_then :: "('a, 'e) result \<Rightarrow> ('a \<Rightarrow> ('b, 'e) result) \<Rightarrow> ('b, 'e) result" where
  "and_then (Ok x) f = f x"
| "and_then (Err e) f = Err e"
| "and_then Panic f = Panic"
| "and_then Diverge f = Diverge"

declare and_then.simps [bind_simps]

fun map_err :: "('e \<Rightarrow> 'f) \<Rightarrow> ('a, 'e) result \<Rightarrow> ('a, 'f) result" where
  "map_err f (Ok x) = Ok x"
| "map_err f (Err e) = Err (f e)"
| "map_err f Panic = Panic"
| "map_err f Diverge = Diverge"

definition ok_or :: "'e \<Rightarrow> 'a option \<Rightarrow> ('a, 'e) result" where
  "ok_or e x = (case x of None \<Rightarrow> Err e | Some v \<Rightarrow> Ok v)"

lemma ok_or_simps [simp, bind_simps]:
  "ok_or e None = Err e" "ok_or e (Some v) = Ok v"
  by (simp_all add: ok_or_def)

lemma ok_or_eq_Ok [simp]: "ok_or e x = Ok v \<longleftrightarrow> x = Some v"
  by (cases x) auto

lemma and_then_eq_Ok:
  "and_then r f = Ok y \<longleftrightarrow> (\<exists>x. r = Ok x \<and> f x = Ok y)"
  by (cases r) auto

lemma and_then_eq_Err:
  "and_then r f = Err e \<longleftrightarrow> r = Err e \<or> (\<exists>x. r = Ok x \<and> f x = Err e)"
  by (cases r) auto

lemma and_then_eq_Panic:
  "and_then r f = Panic \<longleftrightarrow> r = Panic \<or> (\<exists>x. r = Ok x \<and> f x = Panic)"
  by (cases r) auto

lemma and_then_eq_Diverge:
  "and_then r f = Diverge \<longleftrightarrow> r = Diverge \<or> (\<exists>x. r = Ok x \<and> f x = Diverge)"
  by (cases r) auto

lemmas and_then_eqs = and_then_eq_Ok and_then_eq_Err and_then_eq_Panic and_then_eq_Diverge

lemma and_then_cong [fundef_cong]:
  "r = r' \<Longrightarrow> (\<And>x. r' = Ok x \<Longrightarrow> f x = g x) \<Longrightarrow> and_then r f = and_then r' g"
  by (cases r') auto

lemma and_then_OkE [elim!]:
  assumes "and_then r f = Ok y"
  obtains x where "r = Ok x" and "f x = Ok y"
  using assms by (cases r) auto

lemma and_then_no_Diverge:
  "r \<noteq> Diverge \<Longrightarrow> (\<And>x. r = Ok x \<Longrightarrow> f x \<noteq> Diverge) \<Longrightarrow> and_then r f \<noteq> Diverge"
  by (cases r) auto

lemma and_then_no_Panic:
  "r \<noteq> Panic \<Longrightarrow> (\<And>x. r = Ok x \<Longrightarrow> f x \<noteq> Panic) \<Longrightarrow> and_then r f \<noteq> Panic"
  by (cases r) auto

text \<open>\<open>collect::<Result<Vec<_>, _>>\<close> over an iterator that is mapped with a fallible function.\<close>

fun collect_results :: "('a \<Rightarrow> ('b, 'e) result) \<Rightarrow> 'a list \<Rightarrow> ('b list, 'e) result" where
  "collect_results f [] = Ok []"
| "collect_results f (x # xs) =
     and_then (f x) (\<lambda>y. and_then (collect_results f xs) (\<lambda>ys. Ok (y # ys)))"

lemma collect_results_Ok_list_all2:
  "collect_results f xs = Ok ys \<Longrightarrow> list_all2 (\<lambda>x y. f x = Ok y) xs ys"
  by (induction xs arbitrary: ys) auto

lemma collect_results_Ok_iff:
  "collect_results f xs = Ok ys \<longleftrightarrow> list_all2 (\<lambda>x y. f x = Ok y) xs ys"
proof
  assume "list_all2 (\<lambda>x y. f x = Ok y) xs ys"
  then show "collect_results f xs = Ok ys"
    by (induction rule: list_all2_induct) simp_all
qed (rule collect_results_Ok_list_all2)

lemma collect_results_cong [fundef_cong]:
  "xs = ys \<Longrightarrow> (\<And>x. x \<in> set ys \<Longrightarrow> f x = g x) \<Longrightarrow> collect_results f xs = collect_results g ys"
  by (induction ys arbitrary: xs) auto

section \<open>Characters and bytes\<close>

definition byte :: "char \<Rightarrow> nat" where
  "byte c = of_char c"

lemma byte_Char [simp]: "byte (Char b0 b1 b2 b3 b4 b5 b6 b7) = of_char (Char b0 b1 b2 b3 b4 b5 b6 b7)"
  by (simp add: byte_def)

lemma byte_less_256: "byte c < 256"
  by (simp add: byte_def)

lemma byte_inject: "byte c = byte d \<longleftrightarrow> c = d"
  by (simp add: byte_def)

definition is_ascii :: "char \<Rightarrow> bool" where
  "is_ascii c \<longleftrightarrow> byte c < 128"

definition is_ascii_digit :: "char \<Rightarrow> bool" where
  "is_ascii_digit c \<longleftrightarrow> 48 \<le> byte c \<and> byte c \<le> 57"

definition is_ascii_upper :: "char \<Rightarrow> bool" where
  "is_ascii_upper c \<longleftrightarrow> 65 \<le> byte c \<and> byte c \<le> 90"

definition is_ascii_lower :: "char \<Rightarrow> bool" where
  "is_ascii_lower c \<longleftrightarrow> 97 \<le> byte c \<and> byte c \<le> 122"

definition is_ascii_alphabetic :: "char \<Rightarrow> bool" where
  "is_ascii_alphabetic c \<longleftrightarrow> is_ascii_upper c \<or> is_ascii_lower c"

definition is_ascii_alphanumeric :: "char \<Rightarrow> bool" where
  "is_ascii_alphanumeric c \<longleftrightarrow> is_ascii_alphabetic c \<or> is_ascii_digit c"

lemmas ascii_class_defs = is_ascii_def is_ascii_digit_def is_ascii_upper_def is_ascii_lower_def
  is_ascii_alphabetic_def is_ascii_alphanumeric_def

text \<open>\<open>char::to_ascii_lowercase\<close>, on a byte.\<close>

definition ascii_lower :: "char \<Rightarrow> char" where
  "ascii_lower c = (if is_ascii_upper c then char_of (byte c + 32) else c)"

text \<open>A UTF-8 continuation byte, and \<open>str::is_char_boundary\<close>.\<close>

definition is_continuation :: "char \<Rightarrow> bool" where
  "is_continuation c \<longleftrightarrow> 128 \<le> byte c \<and> byte c < 192"

definition is_char_boundary :: "string \<Rightarrow> nat \<Rightarrow> bool" where
  "is_char_boundary s n \<longleftrightarrow>
     n = 0 \<or> n = length s \<or> (n < length s \<and> \<not> is_continuation (s ! n))"

lemma ascii_not_continuation: "is_ascii c \<Longrightarrow> \<not> is_continuation c"
  by (simp add: is_ascii_def is_continuation_def)

lemma ascii_boundary: "list_all is_ascii s \<Longrightarrow> n \<le> length s \<Longrightarrow> is_char_boundary s n"
  by (auto simp: is_char_boundary_def list_all_length ascii_not_continuation)

text \<open>The number of bytes of the character that starts with the given byte.\<close>

definition utf8_len :: "char \<Rightarrow> nat" where
  "utf8_len c = (if byte c < 128 then 1 else if byte c < 224 then 2
     else if byte c < 240 then 3 else 4)"

lemma utf8_len_pos [simp]: "0 < utf8_len c"
  by (simp add: utf8_len_def)

lemma Suc_diff_utf8_len [simp]: "Suc n - utf8_len c \<le> n"
  by (simp add: utf8_len_def)

lemma utf8_len_ascii [simp]: "is_ascii c \<Longrightarrow> utf8_len c = Suc 0"
  by (simp add: utf8_len_def is_ascii_def)

text \<open>
  \<open>char::is_whitespace\<close> (the Unicode property White\_Space): the length in bytes of the
  whitespace character at the start of the string, 0 where the first character is none.
\<close>

definition ws_len :: "string \<Rightarrow> nat" where
  "ws_len s = (case map byte (take 3 s) of
       [] \<Rightarrow> 0
     | a # rest \<Rightarrow>
         if (9 \<le> a \<and> a \<le> 13) \<or> a = 32 then 1
         else (case rest of
             [] \<Rightarrow> 0
           | b # rest' \<Rightarrow>
               if a = 194 \<and> (b = 133 \<or> b = 160) then 2
               else (case rest' of
                   [] \<Rightarrow> 0
                 | c # _ \<Rightarrow>
                     if (a = 225 \<and> b = 154 \<and> c = 128)
                       \<or> (a = 226 \<and> b = 128 \<and> ((128 \<le> c \<and> c \<le> 138) \<or> c = 168 \<or> c = 169 \<or> c = 175))
                       \<or> (a = 226 \<and> b = 129 \<and> c = 159)
                       \<or> (a = 227 \<and> b = 128 \<and> c = 128)
                     then 3 else 0)))"

lemma ws_len_Nil [simp]: "ws_len [] = 0"
  by (simp add: ws_len_def)

lemma ws_len_le: "ws_len s \<le> length s"
  by (cases s rule: list.exhaust; cases "tl s"; cases "tl (tl s)") (auto simp: ws_len_def)

lemma ws_len_ascii:
  "is_ascii c \<Longrightarrow> ws_len (c # s) = (if (9 \<le> byte c \<and> byte c \<le> 13) \<or> byte c = 32 then 1 else 0)"
  by (cases s; cases "tl s") (auto simp: ws_len_def is_ascii_def)

end
