(* ===== verification/Rust_Str.thy ===== *)
theory Rust_Str
  imports Prelude
begin

text \<open>
  The operations of Rust's \<open>str\<close> and \<open>String\<close> that the program calls, on lists of bytes:
  case folding, trimming, splitting, searching, joining, replacing, and the decimal parsers and
  printers of the integer types. The lemmas are the ones the parsers and the SQL builders share.
\<close>

section \<open>Case folding and comparison\<close>

definition eq_ignore_ascii_case :: "string \<Rightarrow> string \<Rightarrow> bool" where
  "eq_ignore_ascii_case s t \<longleftrightarrow> map ascii_lower s = map ascii_lower t"

text \<open>
  \<open>str::to_lowercase\<close>, as far as a comparison with an ASCII literal can see: ASCII letters are
  folded and so is the Kelvin sign (bytes E2 84 AA), the only non-ASCII character whose lower
  case is ASCII. Every other non-ASCII character has a lower case with a non-ASCII character in
  it and keeps its bytes here; the program only ever compares the result with ASCII literals.
\<close>

fun to_lowercase :: "string \<Rightarrow> string" where
  "to_lowercase [] = []"
| "to_lowercase [c] = [ascii_lower c]"
| "to_lowercase [c, d] = [ascii_lower c, ascii_lower d]"
| "to_lowercase (c # d # e # s) =
     (if byte c = 226 \<and> byte d = 132 \<and> byte e = 170 then CHR ''k'' # to_lowercase s
      else ascii_lower c # to_lowercase (d # e # s))"

lemma to_lowercase_ascii: "list_all is_ascii s \<Longrightarrow> to_lowercase s = map ascii_lower s"
  by (induction s rule: to_lowercase.induct) (auto simp: is_ascii_def)

section \<open>Searching, splitting, joining\<close>

definition starts_with :: "string \<Rightarrow> string \<Rightarrow> bool" where
  "starts_with p s \<longleftrightarrow> take (length p) s = p"

definition ends_with :: "string \<Rightarrow> string \<Rightarrow> bool" where
  "ends_with p s \<longleftrightarrow> length p \<le> length s \<and> drop (length s - length p) s = p"

definition strip_prefix :: "string \<Rightarrow> string \<Rightarrow> string option" where
  "strip_prefix p s = (if starts_with p s then Some (drop (length p) s) else None)"

lemma starts_with_append [simp]: "starts_with p (p @ s)"
  by (simp add: starts_with_def)

lemma strip_prefix_append [simp]: "strip_prefix p (p @ s) = Some s"
  by (simp add: strip_prefix_def)

lemma starts_with_iff: "starts_with p s \<longleftrightarrow> (\<exists>t. s = p @ t)"
  by (metis append_take_drop_id starts_with_append starts_with_def)

lemma strip_prefix_Some: "strip_prefix p s = Some t \<longleftrightarrow> s = p @ t"
  by (auto simp: strip_prefix_def starts_with_iff)

text \<open>\<open>str::find\<close> of an ASCII character: the byte offset of its first occurrence.\<close>

fun find_char :: "char \<Rightarrow> string \<Rightarrow> nat option" where
  "find_char c [] = None"
| "find_char c (d # s) = (if d = c then Some 0 else map_option Suc (find_char c s))"

lemma find_char_None: "find_char c s = None \<longleftrightarrow> c \<notin> set s"
  by (induction s) auto

lemma find_char_Some:
  "find_char c s = Some n \<Longrightarrow> s = take n s @ c # drop (Suc n) s \<and> c \<notin> set (take n s) \<and> n < length s"
  by (induction s arbitrary: n) (auto split: if_splits)

lemma find_char_append: "c \<notin> set p \<Longrightarrow> find_char c (p @ c # s) = Some (length p)"
  by (induction p) auto

lemma find_char_less: "find_char c s = Some n \<Longrightarrow> n < length s"
  by (simp add: find_char_Some)

text \<open>\<open>str::split\<close> on an ASCII character: always at least one piece.\<close>

fun split_char :: "char \<Rightarrow> string \<Rightarrow> string list" where
  "split_char c [] = [[]]"
| "split_char c (d # s) =
     (if d = c then [] # split_char c s
      else (case split_char c s of [] \<Rightarrow> [[d]] | p # ps \<Rightarrow> (d # p) # ps))"

lemma split_char_nonempty [simp]: "split_char c s \<noteq> []"
  by (cases s) (auto split: list.splits)

lemma length_split_char: "length (split_char c s) = Suc (count_list s c)"
  by (induction s) (auto split: list.splits)

lemma split_char_no_sep: "p \<in> set (split_char c s) \<Longrightarrow> c \<notin> set p"
  by (induction s arbitrary: p) (auto split: if_splits list.splits)

lemma split_char_single: "c \<notin> set s \<Longrightarrow> split_char c s = [s]"
  by (induction s) auto

lemma split_char_append: "c \<notin> set p \<Longrightarrow> split_char c (p @ c # s) = p # split_char c s"
  by (induction p) auto

text \<open>\<open>[T]::join\<close>.\<close>

fun join :: "string \<Rightarrow> string list \<Rightarrow> string" where
  "join sep [] = []"
| "join sep [x] = x"
| "join sep (x # y # xs) = x @ sep @ join sep (y # xs)"

lemma join_Cons: "join sep (x # xs) = (if xs = [] then x else x @ sep @ join sep xs)"
  by (cases xs) auto

lemma join_split_char [simp]: "join [c] (split_char c s) = s"
  by (induction s) (auto simp: join_Cons split: list.splits)

lemma split_char_join:
  "xs \<noteq> [] \<Longrightarrow> \<forall>x \<in> set xs. c \<notin> set x \<Longrightarrow> split_char c (join [c] xs) = xs"
  by (induction "[c]" xs rule: join.induct) (auto simp: split_char_single split_char_append)

text \<open>\<open>str::replace\<close> of an ASCII character by a string.\<close>

definition replace_char :: "char \<Rightarrow> string \<Rightarrow> string \<Rightarrow> string" where
  "replace_char c t s = concat (map (\<lambda>d. if d = c then t else [d]) s)"

lemma replace_char_simps [simp]:
  "replace_char c t [] = []"
  "replace_char c t (d # s) = (if d = c then t else [d]) @ replace_char c t s"
  by (simp_all add: replace_char_def)

section \<open>Trimming\<close>

lemma ws_len_drop_less: "0 < ws_len s \<Longrightarrow> length s - ws_len s < length s"
  using ws_len_le [of s] by (cases s) auto

function trim_start :: "string \<Rightarrow> string" where
  "trim_start s = (if ws_len s = 0 then s else trim_start (drop (ws_len s) s))"
  by pat_completeness auto
termination
  by (relation "measure length") (auto simp: ws_len_drop_less)

declare trim_start.simps [simp del]

text \<open>The byte length of the whitespace character at the end of the string, 0 for none.\<close>

definition ws_len_end :: "string \<Rightarrow> nat" where
  "ws_len_end s =
     (let n = length s in
      if 1 \<le> n \<and> ws_len (drop (n - 1) s) = 1 then 1
      else if 2 \<le> n \<and> ws_len (drop (n - 2) s) = 2 then 2
      else if 3 \<le> n \<and> ws_len (drop (n - 3) s) = 3 then 3
      else 0)"

lemma ws_len_end_take_less: "0 < ws_len_end s \<Longrightarrow> length s - ws_len_end s < length s"
  by (cases s) (auto simp: ws_len_end_def Let_def split: if_splits)

function trim_end :: "string \<Rightarrow> string" where
  "trim_end s = (if ws_len_end s = 0 then s else trim_end (take (length s - ws_len_end s) s))"
  by pat_completeness auto
termination
  by (relation "measure length") (auto simp: ws_len_end_take_less)

declare trim_end.simps [simp del]

definition trim :: "string \<Rightarrow> string" where
  "trim s = trim_end (trim_start s)"

lemma trim_start_suffix: "\<exists>p. s = p @ trim_start s"
proof (induction s rule: trim_start.induct)
  case (1 s)
  show ?case
  proof (cases "ws_len s = 0")
    case True
    then show ?thesis by (simp add: trim_start.simps [of s])
  next
    case False
    with "1.IH" obtain p where "drop (ws_len s) s = p @ trim_start (drop (ws_len s) s)" by blast
    then have "s = (take (ws_len s) s @ p) @ trim_start (drop (ws_len s) s)"
      by (metis append.assoc append_take_drop_id)
    with False show ?thesis by (metis trim_start.simps)
  qed
qed

lemma length_trim_start: "length (trim_start s) \<le> length s"
  using trim_start_suffix [of s] by (metis length_append le_add2)

lemma trim_start_ws_len [simp]: "ws_len (trim_start s) = 0"
  by (induction s rule: trim_start.induct) (simp add: trim_start.simps)

lemma trim_end_prefix: "\<exists>p. s = trim_end s @ p"
proof (induction s rule: trim_end.induct)
  case (1 s)
  show ?case
  proof (cases "ws_len_end s = 0")
    case True
    then show ?thesis by (simp add: trim_end.simps [of s])
  next
    case False
    let ?t = "take (length s - ws_len_end s) s"
    from False "1.IH" obtain p where "?t = trim_end ?t @ p" by blast
    then have "s = trim_end ?t @ (p @ drop (length s - ws_len_end s) s)"
      by (metis append.assoc append_take_drop_id)
    with False show ?thesis by (metis trim_end.simps)
  qed
qed

lemma length_trim_end: "length (trim_end s) \<le> length s"
  using trim_end_prefix [of s] by (metis length_append le_add1)

lemma length_trim: "length (trim s) \<le> length s"
  unfolding trim_def using length_trim_end length_trim_start le_trans by blast

lemma set_trim: "set (trim s) \<subseteq> set s"
proof -
  obtain p where p: "s = p @ trim_start s" using trim_start_suffix by blast
  obtain q where q: "trim_start s = trim_end (trim_start s) @ q" using trim_end_prefix by blast
  have "set (trim s) \<subseteq> set (trim_start s)" unfolding trim_def by (subst q) auto
  also have "\<dots> \<subseteq> set s" by (subst p) auto
  finally show ?thesis .
qed

lemma trim_id:
  "ws_len s = 0 \<Longrightarrow> ws_len_end s = 0 \<Longrightarrow> trim s = s"
  by (simp add: trim_def trim_start.simps [of s] trim_end.simps [of s])

section \<open>Decimal numbers\<close>

definition digit_val :: "char \<Rightarrow> nat" where
  "digit_val c = byte c - 48"

definition digits_val :: "string \<Rightarrow> nat" where
  "digits_val s = foldl (\<lambda>acc c. 10 * acc + digit_val c) 0 s"

text \<open>
  \<open>str::parse\<close> for the integer types: an optional sign (\<open>-\<close> only for a signed type), at least
  one ASCII digit, nothing else, and the value in range.
\<close>

definition parse_unsigned :: "nat \<Rightarrow> string \<Rightarrow> nat option" where
  "parse_unsigned bound s =
     (let ds = (case s of [] \<Rightarrow> [] | c # r \<Rightarrow> if c = CHR ''+'' then r else s) in
      if ds \<noteq> [] \<and> list_all is_ascii_digit ds \<and> digits_val ds < bound
      then Some (digits_val ds) else None)"

abbreviation parse_u32 :: "string \<Rightarrow> nat option" where
  "parse_u32 \<equiv> parse_unsigned (2 ^ 32)"

definition parse_i64 :: "string \<Rightarrow> int option" where
  "parse_i64 s =
     (case s of
        [] \<Rightarrow> None
      | c # r \<Rightarrow>
          if c = CHR ''-'' then
            (if r \<noteq> [] \<and> list_all is_ascii_digit r \<and> digits_val r \<le> 2 ^ 63
             then Some (- int (digits_val r)) else None)
          else (let ds = (if c = CHR ''+'' then r else s) in
            if ds \<noteq> [] \<and> list_all is_ascii_digit ds \<and> digits_val ds < 2 ^ 63
            then Some (int (digits_val ds)) else None))"

lemma parse_unsigned_bound: "parse_unsigned b s = Some n \<Longrightarrow> n < b"
  by (auto simp: parse_unsigned_def Let_def split: if_splits list.splits)

lemma parse_i64_range:
  assumes "parse_i64 s = Some i"
  shows "- (2 ^ 63) \<le> i \<and> i < 2 ^ 63"
proof -
  have nat63: "int n \<le> 2 ^ 63" if "n \<le> (2::nat) ^ 63" for n
    using that by (metis of_nat_le_iff of_nat_numeral of_nat_power)
  have nat63': "int n < 2 ^ 63" if "n < (2::nat) ^ 63" for n
    using that by (metis of_nat_less_iff of_nat_numeral of_nat_power)
  from assms show ?thesis
    by (cases s) (fastforce simp: parse_i64_def Let_def split: if_splits dest: nat63 nat63')+
qed

text \<open>\<open>ToString\<close> of the unsigned and signed integer types.\<close>

definition digit_char :: "nat \<Rightarrow> char" where
  "digit_char d = char_of (48 + d)"

fun show_nat :: "nat \<Rightarrow> string" where
  "show_nat n = (if n < 10 then [digit_char n] else show_nat (n div 10) @ [digit_char (n mod 10)])"

declare show_nat.simps [simp del]

definition show_int :: "int \<Rightarrow> string" where
  "show_int i = (if i < 0 then CHR ''-'' # show_nat (nat (- i)) else show_nat (nat i))"

lemma byte_digit_char: "d < 10 \<Longrightarrow> byte (digit_char d) = 48 + d"
  by (simp add: byte_def digit_char_def of_char_of take_bit_eq_mod)

lemma digit_val_digit_char [simp]: "d < 10 \<Longrightarrow> digit_val (digit_char d) = d"
  by (simp add: digit_val_def byte_digit_char)

lemma is_ascii_digit_digit_char [simp]: "d < 10 \<Longrightarrow> is_ascii_digit (digit_char d)"
  by (simp add: is_ascii_digit_def byte_digit_char)

lemma digits_val_snoc [simp]: "digits_val (s @ [c]) = 10 * digits_val s + digit_val c"
  by (simp add: digits_val_def)

lemma digits_val_show_nat [simp]: "digits_val (show_nat n) = n"
proof (induction n rule: show_nat.induct)
  case (1 n)
  then show ?case
    by (cases "n < 10") (auto simp: show_nat.simps [of n] digits_val_def)
qed

lemma show_nat_nonempty [simp]: "show_nat n \<noteq> []"
  by (subst show_nat.simps) simp

lemma show_nat_digits [simp]: "list_all is_ascii_digit (show_nat n)"
proof (induction n rule: show_nat.induct)
  case (1 n)
  then show ?case
    by (cases "n < 10") (auto simp: show_nat.simps [of n])
qed

lemma show_nat_inj: "show_nat m = show_nat n \<Longrightarrow> m = n"
  by (metis digits_val_show_nat)

lemma digit_not_sign: "is_ascii_digit c \<Longrightarrow> c \<noteq> CHR ''+'' \<and> c \<noteq> CHR ''-''"
  by (auto simp: is_ascii_digit_def)

lemma parse_unsigned_show_nat: "n < b \<Longrightarrow> parse_unsigned b (show_nat n) = Some n"
  using show_nat_digits [of n] digits_val_show_nat [of n] show_nat_nonempty [of n]
  by (cases "show_nat n") (auto simp: parse_unsigned_def Let_def dest: digit_not_sign)

lemma parse_i64_show_nat: "n < 2 ^ 63 \<Longrightarrow> parse_i64 (show_nat n) = Some (int n)"
  using show_nat_digits [of n] digits_val_show_nat [of n] show_nat_nonempty [of n]
  by (cases "show_nat n") (auto simp: parse_i64_def Let_def dest: digit_not_sign)

end
