(* ===== verification/F64.thy ===== *)
theory F64
  imports Rust_Str
begin

text \<open>
  The part of Rust's \<open>f64\<close> the program uses: parsing a decimal literal (correctly rounded, ties
  to even), printing with \<open>Display\<close> (the shortest decimal that reads back as the same value,
  never in exponent form), multiplication and division of non-negative values, and the
  saturating cast to an integer. A finite value is \<open>(-1)^s * m * 2^e\<close> in its canonical form
  (\<open>m < 2^53\<close>, \<open>e\<close> at least -1074, and \<open>m \<ge> 2^52\<close> unless \<open>e\<close> is -1074).
\<close>

datatype f64 = FNan | FInf bool | FFin bool nat int

section \<open>Rounding a ratio\<close>

definition round_div :: "nat \<Rightarrow> nat \<Rightarrow> nat" where
  "round_div n d =
     (let q = n div d; r = n mod d in
      if 2 * r < d \<or> (2 * r = d \<and> even q) then q else Suc q)"

fun nlog2 :: "nat \<Rightarrow> nat" where
  "nlog2 n = (if n < 2 then 0 else Suc (nlog2 (n div 2)))"

declare nlog2.simps [simp del]

definition pow_pos :: "nat \<Rightarrow> int \<Rightarrow> nat" where
  "pow_pos b e = b ^ nat (max 0 e)"

text \<open>The double nearest to \<open>n / d\<close> (\<open>d > 0\<close>), with sign \<open>s\<close>.\<close>

definition f64_of_ratio :: "bool \<Rightarrow> nat \<Rightarrow> nat \<Rightarrow> f64" where
  "f64_of_ratio s n d =
     (if n = 0 then FFin s 0 (- 1074)
      else
        let x0 = int (nlog2 n) - int (nlog2 d);
            x = (if n * pow_pos 2 (- x0) < d * pow_pos 2 x0 then x0 - 1 else x0);
            e = max (x - 52) (- 1074);
            m = round_div (n * pow_pos 2 (- e)) (d * pow_pos 2 e);
            (m', e') = (if m = 2 ^ 53 then (2 ^ 52, e + 1) else (m, e))
        in if 971 < e' then FInf s else FFin s m' e')"

text \<open>Numerator and denominator of a finite non-negative value.\<close>

definition f64_num :: "nat \<Rightarrow> int \<Rightarrow> nat" where
  "f64_num m e = m * pow_pos 2 e"

definition f64_den :: "int \<Rightarrow> nat" where
  "f64_den e = pow_pos 2 (- e)"

section \<open>Parsing\<close>

text \<open>\<open>digits . digits * 10 ^ x\<close>, as the parser has it after it has checked the syntax.\<close>

definition f64_of_decimal :: "bool \<Rightarrow> string \<Rightarrow> string \<Rightarrow> int \<Rightarrow> f64" where
  "f64_of_decimal s ip fp x =
     (let n = digits_val (ip @ fp); k = x - int (length fp) in
      f64_of_ratio s (n * pow_pos 10 k) (pow_pos 10 (- k)))"

definition parse_exp :: "string \<Rightarrow> int option" where
  "parse_exp s =
     (case s of
        [] \<Rightarrow> Some 0
      | c # r \<Rightarrow>
          if c = CHR ''e'' \<or> c = CHR ''E'' then
            (let (neg, ds) = (case r of
                 [] \<Rightarrow> (False, [])
               | d # r' \<Rightarrow> if d = CHR ''-'' then (True, r')
                          else if d = CHR ''+'' then (False, r') else (False, r))
             in if ds \<noteq> [] \<and> list_all is_ascii_digit ds
                then Some (if neg then - int (digits_val ds) else int (digits_val ds)) else None)
          else None)"

text \<open>\<open><f64 as FromStr>::from_str\<close>.\<close>

definition parse_f64 :: "string \<Rightarrow> f64 option" where
  "parse_f64 str =
     (let (s, body) = (case str of
            [] \<Rightarrow> (False, [])
          | c # r \<Rightarrow> if c = CHR ''-'' then (True, r) else if c = CHR ''+'' then (False, r) else (False, str))
      in
      if eq_ignore_ascii_case body ''inf'' \<or> eq_ignore_ascii_case body ''infinity'' then Some (FInf s)
      else if eq_ignore_ascii_case body ''nan'' then Some FNan
      else
        let ip = takeWhile is_ascii_digit body;
            r1 = dropWhile is_ascii_digit body;
            (fp, r2) = (case r1 of
                [] \<Rightarrow> ([], [])
              | c # r \<Rightarrow> if c = CHR ''.'' then (takeWhile is_ascii_digit r, dropWhile is_ascii_digit r)
                        else ([], r1))
        in if ip = [] \<and> fp = [] then None
           else map_option (f64_of_decimal s ip fp) (parse_exp r2))"

text \<open>
  A digit string with one dot in it and a digit before the dot, which is all the policy lexer
  collects, always parses.
\<close>

lemma parse_f64_digits_dot:
  assumes "ip \<noteq> []" "list_all is_ascii_digit ip" "list_all is_ascii_digit fp"
  shows "parse_f64 (ip @ CHR ''.'' # fp) = Some (f64_of_decimal False ip fp 0)"
proof -
  obtain d ds where ip: "ip = d # ds" using assms(1) by (cases ip) auto
  have d: "is_ascii_digit d" using assms(2) ip by simp
  then have low: "ascii_lower d = d"
    by (simp add: ascii_lower_def ascii_class_defs)
  have "\<not> is_ascii_digit CHR ''.''" by (simp add: is_ascii_digit_def)
  then have tw: "takeWhile is_ascii_digit (ip @ CHR ''.'' # fp) = ip"
      "dropWhile is_ascii_digit (ip @ CHR ''.'' # fp) = CHR ''.'' # fp"
    using assms(2) by (simp_all add: takeWhile_append dropWhile_append list.pred_set)
  have fp: "takeWhile is_ascii_digit fp = fp" "dropWhile is_ascii_digit fp = []"
    using assms(3) by (simp_all add: takeWhile_eq_all_conv dropWhile_eq_Nil_conv list.pred_set)
  have sign: "d \<noteq> CHR ''-''" "d \<noteq> CHR ''+''" using digit_not_sign [OF d] by auto
  have names: "d \<noteq> CHR ''i''" "d \<noteq> CHR ''n''" using d by (auto simp: is_ascii_digit_def)
  have ci: "ascii_lower CHR ''i'' = CHR ''i''" "ascii_lower CHR ''n'' = CHR ''n''"
    by (simp_all add: ascii_lower_def is_ascii_upper_def)
  show ?thesis
    using tw sign names low ci assms(1)
    by (simp add: parse_f64_def Let_def ip eq_ignore_ascii_case_def parse_exp_def fp d)
qed

section \<open>Printing\<close>

text \<open>The decimal exponent: the least \<open>x\<close> (from a starting guess) with \<open>n / d < 10^x\<close>.\<close>

fun dec_exp_up :: "nat \<Rightarrow> int \<Rightarrow> nat \<Rightarrow> nat \<Rightarrow> int" where
  "dec_exp_up 0 x n d = x"
| "dec_exp_up (Suc k) x n d =
     (if n * pow_pos 10 (- x) < d * pow_pos 10 x then x else dec_exp_up k (x + 1) n d)"

text \<open>The first of \<open>n\<close>, \<open>n + 1\<close>, ... significant digits that reads back as the value.\<close>

fun shortest :: "nat \<Rightarrow> nat \<Rightarrow> bool \<Rightarrow> nat \<Rightarrow> int \<Rightarrow> int \<Rightarrow> nat \<times> int" where
  "shortest 0 k s m e x = (0, 0)"
| "shortest (Suc fuel) k s m e x =
     (let sc = x - int k;
          num = f64_num m e * pow_pos 10 (- sc);
          den = f64_den e * pow_pos 10 sc;
          lo = num div den; hi = Suc lo;
          back = (\<lambda>c. f64_of_ratio s (c * pow_pos 10 sc) (pow_pos 10 (- sc)) = FFin s m e);
          near_lo = (2 * (num mod den) \<le> den)
      in if back lo \<and> (near_lo \<or> \<not> back hi) then (lo, sc)
         else if back hi then (hi, sc)
         else shortest fuel (Suc k) s m e x)"

definition show_decimal :: "nat \<Rightarrow> int \<Rightarrow> string" where
  "show_decimal c sc =
     (if 0 \<le> sc then show_nat c @ replicate (nat sc) CHR ''0''
      else let k = nat (- sc); ds = show_nat c;
               ps = replicate (Suc k - length ds) CHR ''0'' @ ds
           in take (length ps - k) ps @ CHR ''.'' # drop (length ps - k) ps)"

definition show_f64 :: "f64 \<Rightarrow> string" where
  "show_f64 f =
     (case f of
        FNan \<Rightarrow> ''NaN''
      | FInf s \<Rightarrow> if s then ''-inf'' else ''inf''
      | FFin s m e \<Rightarrow>
          (if s then ''-'' else []) @
          (if m = 0 then ''0''
           else let x = dec_exp_up 700 (- 324) (f64_num m e) (f64_den e);
                    (c, sc) = shortest 18 1 s m e x
                in show_decimal c sc))"

section \<open>Arithmetic on non-negative values\<close>

definition f64_of_nat :: "nat \<Rightarrow> f64" where
  "f64_of_nat n = f64_of_ratio False n 1"

fun f64_mult :: "f64 \<Rightarrow> f64 \<Rightarrow> f64" where
  "f64_mult (FFin s m e) (FFin t n f) =
     f64_of_ratio (s \<noteq> t) (f64_num m e * f64_num n f) (f64_den e * f64_den f)"
| "f64_mult (FInf s) (FFin t n f) = (if n = 0 then FNan else FInf (s \<noteq> t))"
| "f64_mult (FFin s m e) (FInf t) = (if m = 0 then FNan else FInf (s \<noteq> t))"
| "f64_mult (FInf s) (FInf t) = FInf (s \<noteq> t)"
| "f64_mult _ _ = FNan"

fun f64_div :: "f64 \<Rightarrow> f64 \<Rightarrow> f64" where
  "f64_div (FFin s m e) (FFin t n f) =
     (if n = 0 then (if m = 0 then FNan else FInf (s \<noteq> t))
      else f64_of_ratio (s \<noteq> t) (f64_num m e * f64_den f) (f64_den e * f64_num n f))"
| "f64_div (FInf s) (FFin t n f) = FInf (s \<noteq> t)"
| "f64_div (FFin s m e) (FInf t) = FFin (s \<noteq> t) 0 (- 1074)"
| "f64_div _ _ = FNan"

text \<open>\<open>as u64\<close>: towards zero, saturating, NaN to 0.\<close>

definition f64_as_u64 :: "f64 \<Rightarrow> nat" where
  "f64_as_u64 f =
     (case f of
        FNan \<Rightarrow> 0
      | FInf s \<Rightarrow> if s then 0 else 2 ^ 64 - 1
      | FFin s m e \<Rightarrow> if s then 0 else min (2 ^ 64 - 1) (f64_num m e div f64_den e))"

lemma f64_as_u64_bound: "f64_as_u64 f < 2 ^ 64"
  by (cases f) (auto simp: f64_as_u64_def min_def)

lemma f64_of_nat_0: "f64_of_nat 0 = FFin False 0 (- 1074)"
  by (simp add: f64_of_nat_def f64_of_ratio_def)

text \<open>Zero divided by anything and multiplied by anything is zero (or not a number) as a \<open>u64\<close>.\<close>

lemma f64_zero_rate: "f64_as_u64 (f64_mult (f64_div (FFin False 0 e) x) y) = 0"
  by (cases x; cases y) (auto simp: f64_of_ratio_def f64_as_u64_def f64_num_def)

text \<open>
  JSON values as the program sees a \<open>serde_json::Value\<close>. A number is known by what its accessors
  return: \<open>as_i64\<close>, \<open>as_f64\<close> and its text. An object is the list of its entries in the order
  the map iterates, with distinct keys.
\<close>

record json_number =
  num_i64 :: "int option"
  num_f64 :: "f64 option"
  num_text :: string

datatype json =
    JNull | JBool bool | JNumber json_number | JString string
  | JArray "json list" | JObject "(string \<times> json) list"

type_synonym json_object = "(string \<times> json) list"

text \<open>\<open>Value::get\<close> with a string key.\<close>

fun json_get :: "json \<Rightarrow> string \<Rightarrow> json option" where
  "json_get (JObject obj) key = map_of obj key"
| "json_get _ key = None"

definition json_int :: "int \<Rightarrow> json" where
  "json_int n = JNumber \<lparr>num_i64 = Some n, num_f64 = Some (f64_of_ratio (n < 0) (nat \<bar>n\<bar>) 1), num_text = show_int n\<rparr>"

end
