(* ===== verification/Quota_Bucket.thy ===== *)
theory Quota_Bucket
  imports F64 "HOL-Library.Word"
begin

text \<open>
  The token bucket of the request rate limit (\<open>crates/reactor-server/src/quota/bucket.rs\<close>), on
  64-bit words as in the code: token counts and the refill rate are scaled by 1000, time is the
  wall clock in milliseconds (an argument of every operation that reads it). \<open>+\<close> and \<open>*\<close> wrap,
  as in a release build; a division by zero panics. First each method run without interference,
  then the same methods as threads that interleave at every atomic access.
\<close>

type_synonym u64 = "64 word"
type_synonym u32 = "32 word"

section \<open>The methods\<close>

record token_bucket =
  tokens :: u64
  capacity :: u64
  refill_rate :: u64
  last_refill :: u64

definition bucket_new :: "u32 \<Rightarrow> f64 \<Rightarrow> u64 \<Rightarrow> token_bucket" where
  "bucket_new cap refill_rate_per_sec now =
     (let capacity_scaled = ucast cap * 1000;
          refill_rate_scaled = of_nat (f64_as_u64 (f64_mult refill_rate_per_sec (f64_of_nat 1000)))
      in \<lparr>tokens = capacity_scaled, capacity = capacity_scaled,
          refill_rate = refill_rate_scaled, last_refill = now\<rparr>)"

definition for_requests_per_minute :: "u32 \<Rightarrow> u64 \<Rightarrow> token_bucket" where
  "for_requests_per_minute rpm now =
     (let burst = rpm div 6; rate = f64_div (f64_of_nat (unat rpm)) (f64_of_nat 60)
      in bucket_new (max burst 1) rate now)"

definition refill :: "token_bucket \<Rightarrow> u64 \<Rightarrow> token_bucket" where
  "refill b now =
     (if now \<le> last_refill b then b
      else
        let elapsed_ms = now - last_refill b;
            tokens_to_add = (elapsed_ms * refill_rate b) div 1000
        in if tokens_to_add = 0 then b
           else b\<lparr>last_refill := now, tokens := min (tokens b + tokens_to_add) (capacity b)\<rparr>)"

definition try_consume_n :: "token_bucket \<Rightarrow> u32 \<Rightarrow> u64 \<Rightarrow> token_bucket \<times> bool" where
  "try_consume_n b n now =
     (let cost = ucast n * 1000; b' = refill b now in
      if tokens b' < cost then (b', False)
      else (b'\<lparr>tokens := tokens b' - cost\<rparr>, True))"

definition try_consume :: "token_bucket \<Rightarrow> u64 \<Rightarrow> token_bucket \<times> bool" where
  "try_consume b now = try_consume_n b 1 now"

definition available :: "token_bucket \<Rightarrow> u64 \<Rightarrow> token_bucket \<times> u32" where
  "available b now = (let b' = refill b now in (b', ucast (tokens b' div 1000)))"

text \<open>\<open>a / b\<close> on \<open>u64\<close> panics on a zero divisor.\<close>

definition checked_div :: "u64 \<Rightarrow> u64 \<Rightarrow> (u64, 'e) result" where
  "checked_div a b = (if b = 0 then Panic else Ok (a div b))"

definition time_to_full :: "token_bucket \<Rightarrow> (u64, 'e) result" where
  "time_to_full b =
     (if capacity b \<le> tokens b then Ok 0
      else and_then (checked_div (capacity b - tokens b) (refill_rate b)) (\<lambda>secs. Ok (max secs 1)))"

definition retry_after :: "token_bucket \<Rightarrow> (u64, 'e) result" where
  "retry_after b =
     (if 1000 \<le> tokens b then Ok 0
      else
        let needed = 1000 - tokens b in
        and_then (checked_div (needed + refill_rate b - 1) (refill_rate b)) (\<lambda>secs. Ok (max secs 1)))"

section \<open>Words\<close>

lemma unat_add_le: "unat (a + b) \<le> unat a + unat (b :: 'a::len word)"
  by (simp add: unat_word_ariths)

lemma unat_mult_le: "unat (a * b) \<le> unat a * unat (b :: 'a::len word)"
  by (simp add: unat_word_ariths)

lemma unat_diff: "b \<le> a \<Longrightarrow> unat (a - b) = unat a - unat (b :: 'a::len word)"
  by (rule unat_sub)

lemma unat_min: "unat (min a b) = min (unat a) (unat (b :: 'a::len word))"
  by (simp add: min_def word_le_nat_alt)

lemma unat_max: "unat (max a b) = max (unat a) (unat (b :: 'a::len word))"
  by (simp add: max_def word_le_nat_alt)

lemma u32_scaled: "unat (ucast (n :: u32) * 1000 :: u64) = unat n * 1000"
proof -
  have "unat n < 2 ^ 32" using unsigned_less [of n] by simp
  then show ?thesis by (simp add: unat_word_ariths unsigned_ucast_eq take_bit_nat_eq_self)
qed

lemma unat_less64: "unat (w :: u64) < 2 ^ 64"
  using unsigned_less [of w] by simp

section \<open>What the methods keep\<close>

definition bucket_ok :: "token_bucket \<Rightarrow> bool" where
  "bucket_ok b \<longleftrightarrow> tokens b \<le> capacity b"

lemma refill_sel [simp]: "capacity (refill b now) = capacity b" "refill_rate (refill b now) = refill_rate b"
  by (simp_all add: refill_def Let_def)

lemma refill_ok: "bucket_ok b \<Longrightarrow> bucket_ok (refill b now)"
  by (simp add: refill_def Let_def bucket_ok_def)

lemma try_consume_n_ok: "bucket_ok b \<Longrightarrow> bucket_ok (fst (try_consume_n b n now))"
proof -
  assume "bucket_ok b"
  then have "bucket_ok (refill b now)" by (rule refill_ok)
  then show ?thesis
    by (auto simp: try_consume_n_def Let_def bucket_ok_def not_less)
      (metis order_trans word_sub_le)
qed

lemma bucket_new_ok: "bucket_ok (bucket_new cap rate now)"
  by (simp add: bucket_new_def Let_def bucket_ok_def)

text \<open>A refill brings at most the time that passed is worth.\<close>

lemma refill_gain:
  assumes "refill b now = b'"
  shows "last_refill b \<le> last_refill b' \<and> (last_refill b' = last_refill b \<or> last_refill b' = now) \<and>
    1000 * unat (tokens b') \<le> 1000 * unat (tokens b) +
      (unat (last_refill b') - unat (last_refill b)) * unat (refill_rate b)"
proof (cases "now \<le> last_refill b \<or> (now - last_refill b) * refill_rate b div 1000 = 0")
  case True
  with assms show ?thesis by (auto simp: refill_def Let_def)
next
  case False
  let ?add = "(now - last_refill b) * refill_rate b div 1000"
  have b': "last_refill b' = now" "tokens b' = min (tokens b + ?add) (capacity b)"
    using assms False by (auto simp: refill_def Let_def)
  have "1000 * unat ?add \<le> unat ((now - last_refill b) * refill_rate b)"
    by (simp add: unat_div)
  also have "\<dots> \<le> unat (now - last_refill b) * unat (refill_rate b)" by (rule unat_mult_le)
  finally have "1000 * unat ?add \<le> (unat now - unat (last_refill b)) * unat (refill_rate b)"
    using False unat_diff [of "last_refill b" now] by (simp add: not_le less_imp_le)
  moreover have "unat (tokens b') \<le> unat (tokens b) + unat ?add"
    using unat_add_le [of "tokens b" ?add] b' by (simp add: unat_min)
  ultimately show ?thesis using False b' by (auto simp: not_le)
qed

section \<open>The interface of a rate limiter\<close>

text \<open>
  A limiter has a stock, a clock and a flow; a take may add what the flow brought since the clock
  last moved, and a granted take costs a fixed price.
\<close>

locale rate_limiter =
  fixes grab :: "'b \<Rightarrow> u64 \<Rightarrow> 'b \<times> bool"
    and stock :: "'b \<Rightarrow> nat" and clock :: "'b \<Rightarrow> nat" and flow :: "'b \<Rightarrow> nat" and price :: nat
  assumes grab_flow: "flow (fst (grab b t)) = flow b"
    and grab_clock: "clock b \<le> clock (fst (grab b t))" "clock (fst (grab b t)) \<le> max (clock b) (unat t)"
    and grab_cost: "stock (fst (grab b t)) + (if snd (grab b t) then price else 0) \<le>
      stock b + (clock (fst (grab b t)) - clock b) * flow b"
begin

fun run :: "'b \<Rightarrow> u64 list \<Rightarrow> 'b \<times> nat" where
  "run b [] = (b, 0)"
| "run b (t # ts) =
     (let (b1, ok) = grab b t; (b2, n) = run b1 ts in (b2, n + (if ok then 1 else 0)))"

lemma run_bound:
  "run b ts = (b', n) \<Longrightarrow>
     flow b' = flow b \<and> clock b \<le> clock b' \<and> clock b' \<le> foldr (\<lambda>t m. max (unat t) m) ts (clock b) \<and>
     stock b' + n * price \<le> stock b + (clock b' - clock b) * flow b"
proof (induction ts arbitrary: b b' n)
  case (Cons t ts)
  obtain b1 ok where g: "grab b t = (b1, ok)" by fastforce
  obtain b2 k where r: "run b1 ts = (b2, k)" by fastforce
  have b': "b' = b2" "n = k + (if ok then 1 else 0)" using Cons.prems g r by auto
  have mono: "foldr (\<lambda>t m. max (unat t) m) ts x \<le> max y (foldr (\<lambda>t m. max (unat t) m) ts z)"
    if "x \<le> max y z" for x y z
    using that by (induction ts) auto
  note one = grab_flow [of b t] grab_clock [of b t] grab_cost [of b t]
  note ih = Cons.IH [OF r]
  have le: "clock b \<le> clock b1" "clock b1 \<le> clock b2" "flow b1 = flow b" using one ih g by auto
  then have "(clock b1 - clock b) * flow b + (clock b2 - clock b1) * flow b = (clock b2 - clock b) * flow b"
    by (simp add: add_mult_distrib [symmetric])
  moreover have "stock b2 + k * price \<le> stock b1 + (clock b2 - clock b1) * flow b" using ih le by simp
  moreover have "stock b1 + (if ok then price else 0) \<le> stock b + (clock b1 - clock b) * flow b"
    using one g by simp
  moreover have "clock b2 \<le> max (unat t) (foldr (\<lambda>t m. max (unat t) m) ts (clock b))"
    using ih mono [of "clock b1" "unat t" "clock b"] one g by (simp add: max.commute)
  ultimately show ?case using b' le ih by (auto split: if_splits)
qed simp

end

text \<open>The bucket: the stock is in millionths of a token, the clock in milliseconds.\<close>

lemma try_consume_cost:
  assumes "try_consume b now = (b', ok)"
  shows "1000 * unat (tokens b') + (if ok then 1000000 else 0) = 1000 * unat (tokens (refill b now))"
    and "last_refill b' = last_refill (refill b now)" "refill_rate b' = refill_rate b" "capacity b' = capacity b"
proof -
  have "unat (tokens (refill b now) - 1000) = unat (tokens (refill b now)) - 1000"
    if "\<not> tokens (refill b now) < 1000"
    using that by (simp add: unat_diff not_less)
  moreover have "\<not> tokens (refill b now) < 1000 \<Longrightarrow> 1000 \<le> unat (tokens (refill b now))"
    by (simp add: word_less_nat_alt)
  ultimately show "1000 * unat (tokens b') + (if ok then 1000000 else 0) = 1000 * unat (tokens (refill b now))"
    using assms by (auto simp: try_consume_def try_consume_n_def Let_def split: if_splits)
qed (use assms in \<open>auto simp: try_consume_def try_consume_n_def Let_def split: if_splits\<close>)

interpretation bucket: rate_limiter try_consume "\<lambda>b. 1000 * unat (tokens b)" "\<lambda>b. unat (last_refill b)"
  "\<lambda>b. unat (refill_rate b)" 1000000
proof
  fix b :: token_bucket and t
  obtain b' ok where r: "try_consume b t = (b', ok)" by fastforce
  note cost = try_consume_cost [OF r] and gain = refill_gain [of b t, OF refl]
  show "unat (refill_rate (fst (try_consume b t))) = unat (refill_rate b)" using r cost by simp
  show "unat (last_refill b) \<le> unat (last_refill (fst (try_consume b t)))"
    using r cost gain by (simp add: word_le_nat_alt)
  show "unat (last_refill (fst (try_consume b t))) \<le> max (unat (last_refill b)) (unat t)"
    using r cost gain by auto
  show "1000 * unat (tokens (fst (try_consume b t))) + (if snd (try_consume b t) then 1000000 else 0) \<le>
      1000 * unat (tokens b) + (unat (last_refill (fst (try_consume b t))) - unat (last_refill b)) * unat (refill_rate b)"
    using r cost(1,2) gain by simp
qed

section \<open>Waiting\<close>

text \<open>What a refill brings when nothing wraps.\<close>

lemma refill_exact:
  assumes "last_refill b \<le> now" "unat (now - last_refill b) * unat (refill_rate b) < 2 ^ 64"
    and "unat (tokens b) + unat (now - last_refill b) * unat (refill_rate b) < 2 ^ 64" "bucket_ok b"
  shows "unat (tokens (refill b now)) =
     min (unat (tokens b) + unat (now - last_refill b) * unat (refill_rate b) div 1000) (unat (capacity b))"
proof -
  let ?add = "(now - last_refill b) * refill_rate b div 1000"
  have add: "unat ?add = unat (now - last_refill b) * unat (refill_rate b) div 1000"
    using assms(2) by (simp add: unat_div unat_word_ariths)
  have sum: "unat (tokens b + ?add) = unat (tokens b) + unat ?add"
    using assms(3) add by (subst unat_add_lem [THEN iffD1]) (auto intro: le_less_trans [OF add_left_mono])
  show ?thesis
  proof (cases "now \<le> last_refill b \<or> ?add = 0")
    case True
    then have "unat ?add = 0" using assms(1) by auto
    moreover have "unat (tokens b) \<le> unat (capacity b)"
      using assms(4) by (simp add: bucket_ok_def word_le_nat_alt)
    moreover have "refill b now = b" using True by (auto simp: refill_def Let_def)
    ultimately show ?thesis using add by (simp add: min_def)
  next
    case False
    then have "tokens (refill b now) = min (tokens b + ?add) (capacity b)" by (simp add: refill_def Let_def)
    then show ?thesis using add sum by (simp add: unat_min)
  qed
qed

lemma u64_sum: "unat a + unat b < 2 ^ 64 \<Longrightarrow> unat (a + b :: u64) = unat a + unat b"
  by (simp add: unat_word_ariths)

lemma ceil_div: "0 < (r :: nat) \<Longrightarrow> 0 < k \<Longrightarrow> k \<le> (k + r - 1) div r * r"
  using div_mult_mod_eq [of "k + r - 1" r] mod_less_divisor [of r "k + r - 1"] by linarith

lemma retry_after_wait:
  assumes "retry_after b = Ok secs" "tokens b < 1000" "unat (refill_rate b) + 1000 < 2 ^ 64"
  shows "1 \<le> unat secs \<and> 1000 - unat (tokens b) \<le> unat secs * unat (refill_rate b)"
proof -
  let ?n = "1000 - tokens b" and ?r = "refill_rate b"
  have r: "?r \<noteq> 0" and secs: "secs = max ((?n + ?r - 1) div ?r) 1"
    using assms(1,2) by (auto simp: retry_after_def checked_div_def Let_def not_le split: if_splits)
  have n: "unat ?n = 1000 - unat (tokens b)" "0 < unat ?n"
    using assms(2) unat_diff [of "tokens b" 1000] by (auto simp: word_less_nat_alt less_imp_le)
  have sum: "unat (?n + ?r) = unat ?n + unat ?r" using n assms(3) by (intro u64_sum) simp
  have "1 \<le> ?n + ?r" using sum n by (simp add: word_le_nat_alt)
  from unat_diff [OF this] sum have "unat ((?n + ?r - 1) div ?r) = (unat ?n + unat ?r - 1) div unat ?r"
    by (simp add: unat_div)
  moreover have "0 < unat ?r" using r by (simp add: unat_gt_0)
  ultimately have "unat ?n \<le> unat ((?n + ?r - 1) div ?r) * unat ?r" using ceil_div n(2) by simp
  also have "\<dots> \<le> unat secs * unat ?r" by (simp add: secs unat_max)
  finally show ?thesis using n(1) by (simp add: secs unat_max)
qed

section \<open>Properties\<close>

text \<open>A sequence of requests at the given times, and how many of them were let through.\<close>

fun requests :: "token_bucket \<Rightarrow> u64 list \<Rightarrow> token_bucket \<times> nat" where
  "requests b [] = (b, 0)"
| "requests b (t # ts) =
     (let (b1, ok) = try_consume b t; (b2, n) = requests b1 ts in (b2, n + (if ok then 1 else 0)))"

lemma requests_run: "requests b ts = bucket.run b ts"
  by (induction ts arbitrary: b) (auto split: prod.split)

text \<open>
  The rate limit: whatever the times of the requests, even if the clock jumps and even if the
  arithmetic wraps, the number of requests let through until time \<open>T\<close> is at most what was in
  the bucket plus what the refill rate brings until then (in thousandths of a token, at
  \<open>refill_rate\<close> per second).
\<close>

theorem bucket_rate_bound:
  assumes "requests b ts = (b', n)" and "\<forall>t \<in> set ts. unat t \<le> T" and "unat (last_refill b) \<le> T"
  shows "n * 1000000 \<le> 1000 * unat (tokens b) + (T - unat (last_refill b)) * unat (refill_rate b)"
proof -
  note run = bucket.run_bound [OF assms(1) [unfolded requests_run]]
  have "foldr (\<lambda>t m. max (unat t) m) ts (unat (last_refill b)) \<le> T"
    using assms(2,3) by (induction ts) auto
  with run have "unat (last_refill b') - unat (last_refill b) \<le> T - unat (last_refill b)" by linarith
  then have "(unat (last_refill b') - unat (last_refill b)) * unat (refill_rate b) \<le>
      (T - unat (last_refill b)) * unat (refill_rate b)" by (rule mult_le_mono1)
  with run show ?thesis by linarith
qed

text \<open>
  The answer of a refused request is honest: who waits the \<open>Retry-After\<close> seconds is let
  through by a bucket that holds at least one token (without wrap-around, and if nobody else takes
  the token in between).
\<close>

theorem retry_after_honest:
  assumes "bucket_ok b" and "1000 \<le> capacity b" and "retry_after b = Ok secs"
    and "last_refill b \<le> now" and "unat now + 1000 * unat secs \<le> unat later"
    and "unat (tokens b) + (unat later - unat (last_refill b)) * unat (refill_rate b) < 2 ^ 64"
  shows "snd (try_consume b later)"
proof -
  let ?el = "unat later - unat (last_refill b)" and ?r = "unat (refill_rate b)"
  have le: "last_refill b \<le> later" using assms(4,5) by (simp add: word_le_nat_alt)
  have el: "unat (later - last_refill b) = ?el" by (rule unat_diff [OF le])
  have toks: "unat (tokens (refill b later)) = min (unat (tokens b) + ?el * ?r div 1000) (unat (capacity b))"
    using refill_exact [OF le _ _ assms(1)] assms(6) by (simp add: el)
  have "1000 \<le> unat (tokens b) + ?el * ?r div 1000"
  proof (cases "tokens b < 1000")
    case False
    then show ?thesis by (simp add: word_less_nat_alt)
  next
    case True
    have one: "1 \<le> unat secs"
      using assms(3) True
      by (auto simp: retry_after_def checked_div_def Let_def not_le unat_max split: if_splits)
    have el1: "1000 * unat secs \<le> ?el" using assms(4,5) by (simp add: word_le_nat_alt)
    with one have "1000 * ?r \<le> ?el * ?r" by (intro mult_le_mono1) linarith
    with assms(6) have "1000 * ?r < 2 ^ 64" by linarith
    then have "?r + 1000 < 2 ^ 64" by simp
    from retry_after_wait [OF assms(3) True this] have "1000 - unat (tokens b) \<le> unat secs * ?r" by simp
    also have "\<dots> = (1000 * unat secs * ?r) div 1000" by simp
    also have "\<dots> \<le> ?el * ?r div 1000" using el1 by (intro div_le_mono mult_le_mono1)
    finally show ?thesis by simp
  qed
  with toks assms(2) have "\<not> tokens (refill b later) < 1000"
    by (simp add: word_less_nat_alt word_le_nat_alt)
  then show ?thesis by (simp add: try_consume_def try_consume_n_def Let_def)
qed

definition sample_bucket :: token_bucket where
  "sample_bucket = \<lparr>tokens = 0, capacity = 5000, refill_rate = 500, last_refill = 10000\<rparr>"

lemma bucket_rate_bound_witness:
  "requests sample_bucket [11000, 12500, 12600] = (\<lparr>tokens = 300, capacity = 5000, refill_rate = 500, last_refill = 12600\<rparr>, 1)
   \<and> (1 :: nat) * 1000000 \<le> 1000 * 0 + (12600 - 10000) * 500"
proof -
  have r: "requests sample_bucket [11000, 12500, 12600] =
      (\<lparr>tokens = 300, capacity = 5000, refill_rate = 500, last_refill = 12600\<rparr>, 1)"
    by code_simp
  have "\<forall>t \<in> set [11000, 12500, 12600 :: u64]. unat t \<le> 12600" by simp
  from bucket_rate_bound [OF r this] r show ?thesis by (simp add: sample_bucket_def)
qed

lemma retry_after_honest_witness: "retry_after sample_bucket = Ok 2 \<and> snd (try_consume sample_bucket 12000)"
proof -
  have r: "retry_after sample_bucket = (Ok 2 :: (u64, unit) result)" by code_simp
  have "snd (try_consume sample_bucket 12000)"
    by (rule retry_after_honest [OF _ _ r, of 10000]) (simp_all add: sample_bucket_def bucket_ok_def)
  then show ?thesis by (simp add: retry_after_def sample_bucket_def checked_div_def)
qed

end
