(* ===== verification/Quota_Threads.thy ===== *)
theory Quota_Threads
  imports Quota_Bucket
begin

text \<open>
  The token bucket shared by threads (\<open>crates/reactor-server/src/quota/bucket.rs\<close>): the same
  methods as in \<open>Quota_Bucket\<close>, cut at every atomic access. A thread in the middle of
  \<open>try_consume\<close> holds the values it has loaded; \<open>compare_exchange\<close> writes only if the cell
  still holds the value loaded, and the weak form may fail at will. The clock of a thread is
  arbitrary.
\<close>

section \<open>One thread\<close>

text \<open>
  \<open>TStart now\<close>: the clock is read. \<open>TSwap now prev\<close>: about to exchange \<open>last_refill\<close>.
  \<open>TAdd add\<close>, \<open>TAddSwap add cur\<close>: in the loop that adds tokens. \<open>TTake\<close>, \<open>TTakeSwap cur\<close>:
  in the loop that consumes one token. \<open>TDone ok\<close>: returned.
\<close>

datatype thread_pc =
    TIdle | TStart u64 | TSwap u64 u64 | TAdd u64 | TAddSwap u64 u64 | TTake | TTakeSwap u64 | TDone bool

definition added :: "token_bucket \<Rightarrow> u64 \<Rightarrow> u64 \<Rightarrow> u64" where
  "added b now prev = ((now - prev) * refill_rate b) div 1000"

inductive thread_step :: "token_bucket \<Rightarrow> thread_pc \<Rightarrow> token_bucket \<Rightarrow> thread_pc \<Rightarrow> bool" where
  call: "thread_step b TIdle b (TStart now)"
| no_time: "now \<le> last_refill b \<or> added b now (last_refill b) = 0 \<Longrightarrow> thread_step b (TStart now) b TTake"
| time: "last_refill b < now \<Longrightarrow> added b now (last_refill b) \<noteq> 0 \<Longrightarrow>
     thread_step b (TStart now) b (TSwap now (last_refill b))"
| swapped: "last_refill b = prev \<Longrightarrow>
     thread_step b (TSwap now prev) (b\<lparr>last_refill := now\<rparr>) (TAdd (added b now prev))"
| lost: "last_refill b \<noteq> prev \<Longrightarrow> thread_step b (TSwap now prev) b TTake"
| add_load: "thread_step b (TAdd a) b (TAddSwap a (tokens b))"
| add_swapped: "tokens b = cur \<Longrightarrow>
     thread_step b (TAddSwap a cur) (b\<lparr>tokens := min (cur + a) (capacity b)\<rparr>) TTake"
| add_again: "thread_step b (TAddSwap a cur) b (TAdd a)"
| refused: "tokens b < 1000 \<Longrightarrow> thread_step b TTake b (TDone False)"
| take_load: "\<not> tokens b < 1000 \<Longrightarrow> thread_step b TTake b (TTakeSwap (tokens b))"
| taken: "tokens b = cur \<Longrightarrow>
     thread_step b (TTakeSwap cur) (b\<lparr>tokens := cur - 1000\<rparr>) (TDone True)"
| take_again: "thread_step b (TTakeSwap cur) b TTake"
| return: "thread_step b (TDone ok) b TIdle"

inductive_cases thread_stepE: "thread_step b pc b' pc'"

section \<open>All threads\<close>

record bucket_system =
  shared :: token_bucket
  threads :: "thread_pc list"
  grants :: nat

inductive system_step :: "bucket_system \<Rightarrow> bucket_system \<Rightarrow> bool" where
  "i < length (threads s) \<Longrightarrow> thread_step (shared s) (threads s ! i) b pc \<Longrightarrow>
   system_step s \<lparr>shared = b, threads = (threads s)[i := pc],
     grants = grants s + (if pc = TDone True then 1 else 0)\<rparr>"

inductive_cases system_stepE: "system_step s s'"

definition start_system :: "token_bucket \<Rightarrow> nat \<Rightarrow> bucket_system" where
  "start_system b k = \<lparr>shared = b, threads = replicate k TIdle, grants = 0\<rparr>"

inductive reachable_from :: "bucket_system \<Rightarrow> bucket_system \<Rightarrow> bool" for s0 where
  start: "reachable_from s0 s0"
| step: "reachable_from s0 s \<Longrightarrow> system_step s s' \<Longrightarrow> reachable_from s0 s'"

section \<open>The invariant\<close>

text \<open>Tokens that a thread has taken from the clock and not yet put into the bucket.\<close>

fun in_flight :: "thread_pc \<Rightarrow> nat" where
  "in_flight (TAdd a) = 1000 * unat a"
| "in_flight (TAddSwap a cur) = 1000 * unat a"
| "in_flight _ = 0"

fun pc_ok :: "thread_pc \<Rightarrow> bool" where
  "pc_ok (TSwap now prev) \<longleftrightarrow> prev < now"
| "pc_ok (TTakeSwap cur) \<longleftrightarrow> \<not> cur < 1000"
| "pc_ok _ \<longleftrightarrow> True"

definition credit :: "token_bucket \<Rightarrow> bucket_system \<Rightarrow> nat" where
  "credit b0 s = 1000 * unat (tokens b0) +
     (unat (last_refill (shared s)) - unat (last_refill b0)) * unat (refill_rate b0)"

definition spent :: "bucket_system \<Rightarrow> nat" where
  "spent s = 1000000 * grants s + 1000 * unat (tokens (shared s)) + sum_list (map in_flight (threads s))"

definition system_inv :: "token_bucket \<Rightarrow> bucket_system \<Rightarrow> bool" where
  "system_inv b0 s \<longleftrightarrow>
     tokens (shared s) \<le> capacity (shared s) \<and>
     capacity (shared s) = capacity b0 \<and> refill_rate (shared s) = refill_rate b0 \<and>
     last_refill b0 \<le> last_refill (shared s) \<and> list_all pc_ok (threads s) \<and> spent s \<le> credit b0 s"

lemma added_bound:
  assumes "prev < now"
  shows "1000 * unat (added b now prev) \<le> (unat now - unat prev) * unat (refill_rate b)"
proof -
  have "1000 * unat (added b now prev) \<le> unat ((now - prev) * refill_rate b)"
    by (simp add: added_def unat_div)
  also have "\<dots> \<le> unat (now - prev) * unat (refill_rate b)" by (rule unat_mult_le)
  finally show ?thesis using assms unat_diff [of prev now] by (simp add: less_imp_le)
qed

text \<open>One step of a thread: what it spends is covered by what it brings from the clock.\<close>

lemma thread_step_inv:
  assumes "thread_step b pc b' pc'" "pc_ok pc" "tokens b \<le> capacity b"
  shows "pc_ok pc' \<and> tokens b' \<le> capacity b' \<and> capacity b' = capacity b \<and> refill_rate b' = refill_rate b \<and>
    last_refill b \<le> last_refill b' \<and>
    1000 * unat (tokens b') + in_flight pc' + (if pc' = TDone True then 1000000 else 0) \<le>
      1000 * unat (tokens b) + in_flight pc +
      (unat (last_refill b') - unat (last_refill b)) * unat (refill_rate b)"
  using assms
proof (cases rule: thread_step.cases)
  case (swapped prev now)
  then show ?thesis using assms added_bound [of prev now b] by (simp add: less_imp_le)
next
  case (add_swapped cur a)
  have "unat (min (cur + a) (capacity b)) \<le> unat cur + unat a"
    using unat_add_le [of cur a] by (simp add: unat_min)
  with add_swapped show ?thesis by simp
next
  case (taken cur)
  have le: "1000 \<le> cur" using taken assms(2) by (simp add: not_less)
  have "unat (cur - 1000) = unat cur - 1000" using unat_diff [OF le] by simp
  moreover have "1000 \<le> unat cur" using le by (simp add: word_le_nat_alt)
  moreover have "cur - 1000 \<le> cur" by (rule word_sub_le [OF le])
  ultimately show ?thesis using taken assms(3) order_trans [of "cur - 1000" cur "capacity b"] by simp
qed auto

lemma sum_list_update_nat:
  "i < length xs \<Longrightarrow> sum_list (map f (xs[i := y])) + (f (xs ! i) :: nat) = sum_list (map f xs) + f y"
proof (induction xs arbitrary: i)
  case (Cons x xs)
  then show ?case by (cases i) auto
qed simp

lemma step_arith:
  fixes q q' :: nat
  assumes "q' + i = q + p" "x + y = z" "M * g + u + q \<le> k + x" "u' + p + d \<le> u + i + y"
  shows "M * g + d + u' + q' \<le> k + z"
  using assms by linarith

lemma system_step_inv:
  assumes "system_inv b0 s" "system_step s s'"
  shows "system_inv b0 s'"
  using assms(2)
proof (cases rule: system_step.cases)
  case (1 i b pc)
  have pc: "pc_ok (threads s ! i)" using assms(1) 1(2) by (simp add: system_inv_def list_all_length)
  have tc: "tokens (shared s) \<le> capacity (shared s)" using assms(1) unfolding system_inv_def by blast
  note st = thread_step_inv [OF 1(3) pc tc]
  let ?base = "unat (last_refill b0)" and ?l = "unat (last_refill (shared s))" and ?l' = "unat (last_refill b)"
  have mono: "?base \<le> ?l" "?l \<le> ?l'" using assms(1) st by (auto simp: system_inv_def word_le_nat_alt)
  then have sum: "(?l - ?base) * unat (refill_rate b0) + (?l' - ?l) * unat (refill_rate b0) =
      (?l' - ?base) * unat (refill_rate b0)"
    by (simp add: add_mult_distrib [symmetric])
  have rate: "refill_rate (shared s) = refill_rate b0" using assms(1) unfolding system_inv_def by blast
  have old: "spent s \<le> credit b0 s" using assms(1) unfolding system_inv_def by blast
  have new: "1000 * unat (tokens b) + in_flight pc + (if pc = TDone True then 1000000 else 0) \<le>
      1000 * unat (tokens (shared s)) + in_flight (threads s ! i) + (?l' - ?l) * unat (refill_rate b0)"
    using st unfolding rate by blast
  have "spent s' \<le> credit b0 s'"
    using step_arith [OF sum_list_update_nat [OF 1(2), of in_flight pc] sum
        old [unfolded spent_def credit_def] new]
    by (simp add: 1(1) spent_def credit_def split: if_splits)
  moreover have "list_all pc_ok ((threads s)[i := pc])"
    using assms(1) st 1(2) by (auto simp: system_inv_def list_all_length nth_list_update)
  ultimately show ?thesis using assms(1) st by (auto simp: 1(1) system_inv_def)
qed

lemma reachable_inv:
  assumes "reachable_from s0 s" "s0 = start_system b0 k" "bucket_ok b0"
  shows "system_inv b0 s"
  using assms(1)
proof induction
  case start
  have "sum_list (map in_flight (replicate k TIdle)) = 0" by simp
  then show ?case
    using assms(2,3) by (simp add: system_inv_def start_system_def spent_def credit_def bucket_ok_def list_all_length)
next
  case (step s s')
  then show ?case using system_step_inv by blast
qed

lemma reachable_step:
  assumes "reachable_from s0 \<lparr>shared = b, threads = ts, grants = n\<rparr>"
    and "i < length ts" and "thread_step b (ts ! i) b' pc"
  shows "reachable_from s0 \<lparr>shared = b', threads = ts[i := pc], grants = n + (if pc = TDone True then 1 else 0)\<rparr>"
  using reachable_from.step [OF assms(1) system_step.intros [of i]] assms(2,3) by simp

section \<open>Properties\<close>

text \<open>
  C35. The rate limit holds for any number of threads and any interleaving of their atomic accesses,
  with spurious failures of the weak exchanges, arbitrary clocks and wrapping arithmetic: the
  bucket never holds more than its capacity, and the requests let through are covered by the
  initial tokens and the refill rate over the time up to the last refill.
\<close>

theorem concurrent_rate_bound:
  assumes "bucket_ok b0" and "reachable_from (start_system b0 k) s"
  shows "tokens (shared s) \<le> capacity b0 \<and>
    1000000 * grants s \<le> 1000 * unat (tokens b0) +
      (unat (last_refill (shared s)) - unat (last_refill b0)) * unat (refill_rate b0)"
  using reachable_inv [OF assms(2) refl assms(1)]
  by (auto simp: system_inv_def spent_def credit_def)

text \<open>Two threads that race for one token: one is let through.\<close>

lemma concurrent_rate_bound_witness:
  "\<exists>s. reachable_from (start_system \<lparr>tokens = 1000, capacity = 1000, refill_rate = 0, last_refill = 5\<rparr> 2) s \<and>
    grants s = 1 \<and> tokens (shared s) = 0 \<and> tokens (shared s) \<le> 1000"
proof -
  let ?b = "\<lparr>tokens = 1000, capacity = 1000, refill_rate = 0, last_refill = 5\<rparr> :: token_bucket"
  let ?c = "\<lparr>tokens = 0, capacity = 1000, refill_rate = 0, last_refill = 5\<rparr> :: token_bucket"
  let ?r = "reachable_from (start_system ?b 2)"
  have "?r \<lparr>shared = ?b, threads = [TIdle, TIdle], grants = 0\<rparr>"
    using reachable_from.start [of "start_system ?b 2"] by (simp add: start_system_def numeral_2_eq_2)
  from reachable_step [OF this, of 0 ?b "TStart 5"] call [of ?b 5]
  have "?r \<lparr>shared = ?b, threads = [TStart 5, TIdle], grants = 0\<rparr>" by simp
  from reachable_step [OF this, of 0 ?b TTake]
  have "?r \<lparr>shared = ?b, threads = [TTake, TIdle], grants = 0\<rparr>" by (simp add: no_time)
  from reachable_step [OF this, of 0 ?b "TTakeSwap 1000"] take_load [of ?b]
  have "?r \<lparr>shared = ?b, threads = [TTakeSwap 1000, TIdle], grants = 0\<rparr>" by simp
  from reachable_step [OF this, of 0 ?c "TDone True"] taken [of ?b 1000]
  have e: "?r \<lparr>shared = ?c, threads = [TDone True, TIdle], grants = 1\<rparr>" by simp
  have "bucket_ok ?b" by (simp add: bucket_ok_def)
  from concurrent_rate_bound [OF this e] e show ?thesis by fastforce
qed

end
