(* ===== verification/Quota_Service.thy ===== *)
theory Quota_Service
  imports Quota_Bucket "HOL-Library.AList"
begin

text \<open>
  Per-tenant quotas (\<open>crates/reactor-server/src/quota/service.rs\<close> and \<open>middleware.rs\<close>). The
  shared tenant states (\<open>Arc<TenantQuotaState>\<close>) live in a store: their address is their index,
  the tenant table maps a project to an address, and a function guard keeps the address it was
  made with, so that a guard outlives a cleared tenant as it does in the code. Every operation
  is one atomic step; the interleaving inside the request bucket is in \<open>Quota_Threads\<close>.
\<close>

type_synonym project_id = string

section \<open>State\<close>

record quota_limits =
  requests_per_minute :: u32
  concurrent_functions :: u32
  db_connections :: u32
  storage_bytes :: u64
  bandwidth_bytes_per_month :: u64

definition free_tier :: quota_limits where
  "free_tier = \<lparr>requests_per_minute = 1000, concurrent_functions = 10, db_connections = 5,
     storage_bytes = 1073741824, bandwidth_bytes_per_month = 5368709120\<rparr>"

definition unlimited :: quota_limits where
  "unlimited = \<lparr>requests_per_minute = - 1, concurrent_functions = - 1, db_connections = 100,
     storage_bytes = - 1, bandwidth_bytes_per_month = - 1\<rparr>"

definition is_unlimited :: "quota_limits \<Rightarrow> bool" where
  "is_unlimited l = (requests_per_minute l = - 1)"

record tenant_quota_state =
  request_bucket :: token_bucket
  running_functions :: "32 word"
  storage_used_bytes :: u64
  bandwidth_used_bytes :: u64
  state_limits :: quota_limits

definition tenant_quota_state_new :: "quota_limits \<Rightarrow> u64 \<Rightarrow> tenant_quota_state" where
  "tenant_quota_state_new limits now =
     \<lparr>request_bucket = for_requests_per_minute (requests_per_minute limits) now,
      running_functions = 0, storage_used_bytes = 0, bandwidth_used_bytes = 0, state_limits = limits\<rparr>"

record quota_config =
  free_tier_limits :: quota_limits
  dedicated_tier_limits :: "quota_limits option"
  cache_ttl_secs :: nat

definition default_quota_config :: quota_config where
  "default_quota_config =
     \<lparr>free_tier_limits = free_tier, dedicated_tier_limits = None, cache_ttl_secs = 300\<rparr>"

datatype quota_check =
    Allowed | RateLimited u64 | ConcurrentFunctionsExceeded | StorageExceeded | BandwidthExceeded

definition check_is_allowed :: "quota_check \<Rightarrow> bool" where
  "check_is_allowed r = (r = Allowed)"

record quota_service =
  tenants :: "(project_id \<times> nat) list"
  states :: "tenant_quota_state list"
  config :: quota_config

definition quota_service_new :: "quota_config \<Rightarrow> quota_service" where
  "quota_service_new c = \<lparr>tenants = [], states = [], config = c\<rparr>"

record function_guard =
  guard_project :: project_id
  guard_state :: "nat option"

section \<open>Operations\<close>

definition limits_for :: "quota_service \<Rightarrow> bool \<Rightarrow> quota_limits" where
  "limits_for s is_dedicated =
     (if is_dedicated
      then (case dedicated_tier_limits (config s) of Some l \<Rightarrow> l | None \<Rightarrow> unlimited)
      else free_tier_limits (config s))"

definition get_or_create :: "quota_service \<Rightarrow> project_id \<Rightarrow> quota_limits \<Rightarrow> u64 \<Rightarrow> quota_service \<times> nat" where
  "get_or_create s pid limits now =
     (case map_of (tenants s) pid of
        Some a \<Rightarrow> (s, a)
      | None \<Rightarrow>
          (s\<lparr>tenants := AList.update pid (length (states s)) (tenants s),
             states := states s @ [tenant_quota_state_new limits now]\<rparr>, length (states s)))"

abbreviation set_state :: "quota_service \<Rightarrow> nat \<Rightarrow> tenant_quota_state \<Rightarrow> quota_service" where
  "set_state s a st \<equiv> s\<lparr>states := (states s)[a := st]\<rparr>"

definition check_request ::
  "quota_service \<Rightarrow> project_id \<Rightarrow> bool \<Rightarrow> u64 \<Rightarrow> (quota_service \<times> quota_check, unit) result" where
  "check_request s pid is_dedicated now =
     (let limits = limits_for s is_dedicated in
      if is_unlimited limits then Ok (s, Allowed)
      else
        let (s1, a) = get_or_create s pid limits now;
            st = states s1 ! a;
            (b, ok) = try_consume (request_bucket st) now;
            s2 = set_state s1 a (st\<lparr>request_bucket := b\<rparr>)
        in if ok then Ok (s2, Allowed)
           else and_then (retry_after b) (\<lambda>secs. Ok (s2, RateLimited secs)))"

definition try_acquire_function ::
  "quota_service \<Rightarrow> project_id \<Rightarrow> bool \<Rightarrow> u64 \<Rightarrow> quota_service \<times> function_guard option" where
  "try_acquire_function s pid is_dedicated now =
     (let limits = limits_for s is_dedicated in
      if concurrent_functions limits = - 1
      then (s, Some \<lparr>guard_project = pid, guard_state = None\<rparr>)
      else
        let (s1, a) = get_or_create s pid limits now;
            st = states s1 ! a;
            current = running_functions st
        in if sint (concurrent_functions limits) \<le> sint current then (s1, None)
           else (set_state s1 a (st\<lparr>running_functions := current + 1\<rparr>),
                 Some \<lparr>guard_project = pid, guard_state = Some a\<rparr>))"

definition drop_guard :: "quota_service \<Rightarrow> function_guard \<Rightarrow> quota_service" where
  "drop_guard s g =
     (case guard_state g of
        None \<Rightarrow> s
      | Some a \<Rightarrow>
          let st = states s ! a in set_state s a (st\<lparr>running_functions := running_functions st - 1\<rparr>))"

definition check_storage ::
  "quota_service \<Rightarrow> project_id \<Rightarrow> bool \<Rightarrow> u64 \<Rightarrow> u64 \<Rightarrow> quota_service \<times> quota_check" where
  "check_storage s pid is_dedicated additional_bytes now =
     (let limits = limits_for s is_dedicated in
      if storage_bytes limits = - 1 then (s, Allowed)
      else
        let (s1, a) = get_or_create s pid limits now;
            current = storage_used_bytes (states s1 ! a)
        in (s1, if storage_bytes limits < current + additional_bytes then StorageExceeded else Allowed))"

text \<open>\<open>delta_bytes\<close> is an \<open>i64\<close>; its negation wraps at the least value.\<close>

definition record_storage_change :: "quota_service \<Rightarrow> project_id \<Rightarrow> 64 word \<Rightarrow> quota_service" where
  "record_storage_change s pid delta_bytes =
     (case map_of (tenants s) pid of
        None \<Rightarrow> s
      | Some a \<Rightarrow>
          let st = states s ! a; used = storage_used_bytes st in
          if 0 \<le> sint delta_bytes then set_state s a (st\<lparr>storage_used_bytes := used + delta_bytes\<rparr>)
          else set_state s a (st\<lparr>storage_used_bytes := used - min (- delta_bytes) used\<rparr>))"

definition check_bandwidth ::
  "quota_service \<Rightarrow> project_id \<Rightarrow> bool \<Rightarrow> u64 \<Rightarrow> u64 \<Rightarrow> quota_service \<times> quota_check" where
  "check_bandwidth s pid is_dedicated bytes now =
     (let limits = limits_for s is_dedicated in
      if bandwidth_bytes_per_month limits = - 1 then (s, Allowed)
      else
        let (s1, a) = get_or_create s pid limits now;
            current = bandwidth_used_bytes (states s1 ! a)
        in (s1, if bandwidth_bytes_per_month limits < current + bytes then BandwidthExceeded else Allowed))"

definition record_bandwidth :: "quota_service \<Rightarrow> project_id \<Rightarrow> u64 \<Rightarrow> quota_service" where
  "record_bandwidth s pid bytes =
     (case map_of (tenants s) pid of
        None \<Rightarrow> s
      | Some a \<Rightarrow>
          let st = states s ! a in
          set_state s a (st\<lparr>bandwidth_used_bytes := bandwidth_used_bytes st + bytes\<rparr>))"

definition reset_monthly_bandwidth :: "quota_service \<Rightarrow> quota_service" where
  "reset_monthly_bandwidth s =
     fold (\<lambda>(pid, a) s. set_state s a ((states s ! a)\<lparr>bandwidth_used_bytes := 0\<rparr>)) (tenants s) s"

definition clear_tenant :: "quota_service \<Rightarrow> project_id \<Rightarrow> quota_service" where
  "clear_tenant s pid = s\<lparr>tenants := AList.delete pid (tenants s)\<rparr>"

record quota_stats =
  available_requests :: u32
  stat_functions :: "32 word"
  stat_storage :: u64
  stat_bandwidth :: u64
  stat_limits :: quota_limits

definition tenant_stats :: "quota_service \<Rightarrow> project_id \<Rightarrow> u64 \<Rightarrow> quota_service \<times> quota_stats option" where
  "tenant_stats s pid now =
     (case map_of (tenants s) pid of
        None \<Rightarrow> (s, None)
      | Some a \<Rightarrow>
          let st = states s ! a; (b, n) = available (request_bucket st) now in
          (set_state s a (st\<lparr>request_bucket := b\<rparr>),
           Some \<lparr>available_requests = n, stat_functions = running_functions st,
                 stat_storage = storage_used_bytes st, stat_bandwidth = bandwidth_used_bytes st,
                 stat_limits = state_limits st\<rparr>))"

section \<open>The middleware\<close>

text \<open>A response of the middleware, or the handler's turn.\<close>

datatype quota_response =
    RunHandler
  | TooManyRequests string string string u32 u64
  | InternalError

definition quota_middleware ::
  "quota_service \<Rightarrow> project_id \<Rightarrow> u64 \<Rightarrow> (quota_service \<times> quota_response, unit) result" where
  "quota_middleware s pid now =
     and_then (check_request s pid False now) (\<lambda>(s', r).
       Ok (s', case r of
          Allowed \<Rightarrow> RunHandler
        | RateLimited secs \<Rightarrow>
            TooManyRequests ''RATE_LIMITED'' ''Request rate limit exceeded. Please slow down.''
              ''requests_per_minute'' (requests_per_minute (limits_for s' False)) secs
        | ConcurrentFunctionsExceeded \<Rightarrow> InternalError
        | StorageExceeded \<Rightarrow>
            TooManyRequests ''STORAGE_EXCEEDED''
              ''Storage quota exceeded. Please delete some files or upgrade your plan.''
              ''storage_gb'' (ucast (storage_bytes (limits_for s' False) div 1073741824)) 0
        | BandwidthExceeded \<Rightarrow>
            TooManyRequests ''BANDWIDTH_EXCEEDED''
              ''Monthly bandwidth quota exceeded. Please wait until next month or upgrade your plan.''
              ''bandwidth_gb_per_month''
              (ucast (bandwidth_bytes_per_month (limits_for s' False) div 1073741824)) 0))"

definition conditional_quota_middleware ::
  "quota_service option \<Rightarrow> project_id \<Rightarrow> u64 \<Rightarrow> (quota_service option \<times> quota_response, unit) result" where
  "conditional_quota_middleware s pid now =
     (case s of
        Some qs \<Rightarrow> and_then (quota_middleware qs pid now) (\<lambda>(s', r). Ok (Some s', r))
      | None \<Rightarrow> Ok (None, RunHandler))"

section \<open>The table and the store\<close>

text \<open>Every entry of the table is the address of a state, and no two projects share one.\<close>

definition service_ok :: "quota_service \<Rightarrow> bool" where
  "service_ok s \<longleftrightarrow>
     distinct (map fst (tenants s)) \<and> distinct (map snd (tenants s)) \<and>
     (\<forall>a \<in> snd ` set (tenants s). a < length (states s))"

lemma service_new_ok: "service_ok (quota_service_new c)"
  by (simp add: service_ok_def quota_service_new_def)

lemma update_fresh: "map_of xs k = None \<Longrightarrow> AList.update k v xs = xs @ [(k, v)]"
  by (induction xs) (auto split: if_splits)

lemma get_or_create_ok:
  assumes "service_ok s" "get_or_create s pid limits now = (s', a)"
  shows "service_ok s' \<and> a < length (states s') \<and> map_of (tenants s') pid = Some a \<and> config s' = config s \<and>
    (\<forall>q. q \<noteq> pid \<longrightarrow> map_of (tenants s') q = map_of (tenants s) q) \<and>
    (states s' = states s \<and> map_of (tenants s) pid = Some a \<or>
     states s' = states s @ [tenant_quota_state_new limits now] \<and> a = length (states s) \<and> map_of (tenants s) pid = None)"
proof (cases "map_of (tenants s) pid")
  case (Some b)
  then have "(pid, b) \<in> set (tenants s)" by (rule map_of_SomeD)
  with Some assms show ?thesis by (force simp: get_or_create_def service_ok_def)
next
  case None
  then have "pid \<notin> fst ` set (tenants s)" by (simp add: map_of_eq_None_iff)
  moreover have "length (states s) \<notin> snd ` set (tenants s)" using assms(1) by (auto simp: service_ok_def)
  ultimately show ?thesis
    using None assms
    by (fastforce simp: get_or_create_def service_ok_def update_fresh map_add_def intro: less_SucI
        split: option.split)
qed

lemma set_state_ok: "service_ok s \<Longrightarrow> service_ok (set_state s a st)"
  by (simp add: service_ok_def)

lemma delete_ok:
  assumes "service_ok s"
  shows "service_ok (clear_tenant s pid)"
proof -
  have "AList.delete pid xs = filter (\<lambda>p. fst p \<noteq> pid) xs" for xs :: "(project_id \<times> nat) list"
    by (induction xs) (auto simp: AList.delete_eq)
  with assms show ?thesis
    by (auto simp: clear_tenant_def service_ok_def distinct_map intro: inj_on_subset)
qed

section \<open>Slots\<close>

text \<open>Operations that neither take nor release a function slot.\<close>

definition same_slots :: "quota_service \<Rightarrow> quota_service \<Rightarrow> bool" where
  "same_slots s s' \<longleftrightarrow> service_ok s' \<and> config s' = config s \<and>
     (\<exists>k. map running_functions (states s') = map running_functions (states s) @ replicate k 0)"

lemma same_slots_refl: "service_ok s \<Longrightarrow> same_slots s s"
  by (auto simp: same_slots_def intro: exI [of _ 0])

lemma same_slots_trans: "same_slots s t \<Longrightarrow> same_slots t u \<Longrightarrow> same_slots s u"
  by (auto simp: same_slots_def replicate_add [symmetric])

lemma get_or_create_slots:
  "service_ok s \<Longrightarrow> get_or_create s pid limits now = (s', a) \<Longrightarrow> same_slots s s' \<and> a < length (states s')"
  using get_or_create_ok [of s pid limits now s' a]
  by (auto simp: same_slots_def tenant_quota_state_new_def intro: exI [of _ 0] exI [of _ 1])

lemma set_state_slots:
  "service_ok s \<Longrightarrow> running_functions st = running_functions (states s ! a) \<Longrightarrow> same_slots s (set_state s a st)"
  by (auto simp: same_slots_def set_state_ok map_update intro!: exI [of _ 0])
    (metis list_update_beyond list_update_id map_update not_less nth_map length_map)

lemma check_request_slots:
  assumes "service_ok s" "check_request s pid d now = Ok (s', r)"
  shows "same_slots s s'"
proof (cases "is_unlimited (limits_for s d)")
  case True
  with assms show ?thesis by (simp add: check_request_def same_slots_refl)
next
  case False
  obtain s1 a where g: "get_or_create s pid (limits_for s d) now = (s1, a)" by fastforce
  note s1 = get_or_create_slots [OF assms(1) g]
  obtain b where s': "s' = set_state s1 a ((states s1 ! a)\<lparr>request_bucket := b\<rparr>)"
    using assms(2) False g by (auto simp: check_request_def Let_def split: prod.splits if_splits)
  have "same_slots s1 s'" unfolding s' by (rule set_state_slots) (use s1 in \<open>simp_all add: same_slots_def\<close>)
  with s1 show ?thesis using same_slots_trans by blast
qed

lemma check_storage_slots:
  "service_ok s \<Longrightarrow> check_storage s pid d n now = (s', r) \<Longrightarrow> same_slots s s'"
  by (auto simp: check_storage_def Let_def same_slots_refl split: if_splits prod.splits dest: get_or_create_slots)

lemma check_bandwidth_slots:
  "service_ok s \<Longrightarrow> check_bandwidth s pid d n now = (s', r) \<Longrightarrow> same_slots s s'"
  by (auto simp: check_bandwidth_def Let_def same_slots_refl split: if_splits prod.splits dest: get_or_create_slots)

lemma record_slots:
  assumes "service_ok s"
  shows "same_slots s (record_storage_change s pid delta)" "same_slots s (record_bandwidth s pid n)"
    "same_slots s (clear_tenant s pid)" "same_slots s (fst (tenant_stats s pid now))"
proof -
  show "same_slots s (clear_tenant s pid)"
    using delete_ok [OF assms, of pid] by (auto simp: same_slots_def clear_tenant_def intro: exI [of _ 0])
qed (use assms in \<open>auto simp: record_storage_change_def record_bandwidth_def tenant_stats_def Let_def
    same_slots_refl intro!: set_state_slots split: option.split prod.split\<close>)

lemma reset_slots: "service_ok s \<Longrightarrow> same_slots s (reset_monthly_bandwidth s)"
proof -
  have "service_ok s \<Longrightarrow> same_slots s (fold (\<lambda>(pid, a) s. set_state s a ((states s ! a)\<lparr>bandwidth_used_bytes := 0\<rparr>)) xs s)"
    for xs :: "(project_id \<times> nat) list"
  proof (induction xs arbitrary: s)
    case (Cons p xs)
    obtain q a where p: "p = (q, a)" by fastforce
    let ?t = "set_state s a ((states s ! a)\<lparr>bandwidth_used_bytes := 0\<rparr>)"
    have "same_slots s ?t" by (rule set_state_slots [OF Cons.prems]) simp
    from same_slots_trans [OF this Cons.IH [OF set_state_ok [OF Cons.prems]]] show ?case by (simp add: p)
  qed (simp add: same_slots_refl)
  then show "service_ok s \<Longrightarrow> same_slots s (reset_monthly_bandwidth s)" by (simp add: reset_monthly_bandwidth_def)
qed

text \<open>The service and the guards that are alive.\<close>

inductive quota_step ::
  "quota_service \<times> function_guard list \<Rightarrow> quota_service \<times> function_guard list \<Rightarrow> bool" where
  requested: "check_request s pid d now = Ok (s', r) \<Longrightarrow> quota_step (s, gs) (s', gs)"
| acquired: "try_acquire_function s pid d now = (s', Some g) \<Longrightarrow> quota_step (s, gs) (s', g # gs)"
| not_acquired: "try_acquire_function s pid d now = (s', None) \<Longrightarrow> quota_step (s, gs) (s', gs)"
| dropped: "g \<in> set gs \<Longrightarrow> quota_step (s, gs) (drop_guard s g, remove1 g gs)"
| storage: "check_storage s pid d n now = (s', r) \<Longrightarrow> quota_step (s, gs) (s', gs)"
| stored: "quota_step (s, gs) (record_storage_change s pid delta, gs)"
| bandwidth: "check_bandwidth s pid d n now = (s', r) \<Longrightarrow> quota_step (s, gs) (s', gs)"
| sent: "quota_step (s, gs) (record_bandwidth s pid n, gs)"
| month: "quota_step (s, gs) (reset_monthly_bandwidth s, gs)"
| cleared: "quota_step (s, gs) (clear_tenant s pid, gs)"
| stats_read: "quota_step (s, gs) (fst (tenant_stats s pid now), gs)"

inductive quota_reachable :: "quota_config \<Rightarrow> quota_service \<times> function_guard list \<Rightarrow> bool" for c where
  start: "quota_reachable c (quota_service_new c, [])"
| step: "quota_reachable c x \<Longrightarrow> quota_step x y \<Longrightarrow> quota_reachable c y"

definition live :: "function_guard list \<Rightarrow> nat \<Rightarrow> nat" where
  "live gs a = length (filter (\<lambda>g. guard_state g = Some a) gs)"

definition slot_limit :: "quota_config \<Rightarrow> int" where
  "slot_limit c =
     max 0 (max (sint (concurrent_functions (free_tier_limits c)))
       (case dedicated_tier_limits c of Some l \<Rightarrow> sint (concurrent_functions l) | None \<Rightarrow> 0))"

definition slots_ok :: "quota_config \<Rightarrow> quota_service \<times> function_guard list \<Rightarrow> bool" where
  "slots_ok c x \<longleftrightarrow> (case x of (s, gs) \<Rightarrow>
     service_ok s \<and> config s = c \<and>
     (\<forall>g \<in> set gs. \<forall>a. guard_state g = Some a \<longrightarrow> a < length (states s)) \<and>
     (\<forall>a < length (states s). sint (running_functions (states s ! a)) = int (live gs a) \<and>
        int (live gs a) \<le> slot_limit c))"

lemma slots_okD: "slots_ok c (s, gs) \<Longrightarrow> service_ok s"
  by (simp add: slots_ok_def)

lemma slots_ok_same:
  assumes "slots_ok c (s, gs)" "same_slots s s'"
  shows "slots_ok c (s', gs)"
proof -
  obtain k where k: "map running_functions (states s') = map running_functions (states s) @ replicate k 0"
    using assms(2) by (auto simp: same_slots_def)
  then have len: "length (states s') = length (states s) + k"
    by (metis length_append length_map length_replicate)
  have old: "running_functions (states s' ! a) = running_functions (states s ! a)" if "a < length (states s)" for a
    using that arg_cong [OF k, of "\<lambda>xs. xs ! a"] len by (simp add: nth_append)
  have new: "running_functions (states s' ! a) = 0 \<and> live gs a = 0"
    if "length (states s) \<le> a" "a < length (states s')" for a
  proof -
    have "running_functions (states s' ! a) = 0"
      using that arg_cong [OF k, of "\<lambda>xs. xs ! a"] len by (simp add: nth_append)
    moreover have "filter (\<lambda>g. guard_state g = Some a) gs = []"
      using assms(1) that by (auto simp: slots_ok_def filter_empty_conv)
    ultimately show ?thesis by (simp add: live_def)
  qed
  have slots: "sint (running_functions (states s' ! a)) = int (live gs a) \<and> int (live gs a) \<le> slot_limit c"
    if "a < length (states s')" for a
  proof (cases "a < length (states s)")
    case True
    with old [OF True] assms(1) show ?thesis by (simp add: slots_ok_def)
  next
    case False
    with new [of a] that show ?thesis by (simp add: slot_limit_def)
  qed
  have "a < length (states s')" if "g \<in> set gs" "guard_state g = Some a" for g a
  proof -
    have "a < length (states s)" using assms(1) that by (auto simp: slots_ok_def)
    with len show ?thesis by simp
  qed
  with slots assms show ?thesis by (auto simp: slots_ok_def same_slots_def)
qed

lemma sint_succ: "sint (w :: 32 word) < sint (l :: 32 word) \<Longrightarrow> sint (w + 1) = sint w + 1"
  using sint_ge [of w] sint_lt [of l] by (simp add: sint_word_ariths signed_take_bit_int_eq_self)

lemma sint_high:
  assumes "2 ^ 31 \<le> unat (w :: u32)"
  shows "sint w < 0"
proof -
  have "2147483648 \<le> w" using assms by (simp add: word_le_nat_alt)
  then have "2 ^ 31 \<le> uint w" by (simp add: word_le_def)
  moreover have "uint w < 2 ^ 32" using unsigned_less [of w] by simp
  ultimately have "uint w div 2 ^ 31 = 1" by auto
  then have "bit (uint w) 31" by (simp add: bit_iff_odd)
  then show ?thesis by (simp add: sint_uint)
qed

lemma sint_pred: "1 \<le> sint (w :: 32 word) \<Longrightarrow> sint (w - 1) = sint w - 1"
  using sint_ge [of w] sint_lt [of w] by (simp add: sint_word_ariths signed_take_bit_int_eq_self)

lemma live_simps [simp]:
  "live [] a = 0" "live (g # gs) a = (if guard_state g = Some a then Suc (live gs a) else live gs a)"
  by (simp_all add: live_def)

lemma live_remove1:
  "g \<in> set gs \<Longrightarrow> live gs a = live (remove1 g gs) a + (if guard_state g = Some a then 1 else 0)"
  by (induction gs) auto

lemma slot_limit_of:
  assumes "concurrent_functions (limits_for s d) \<noteq> - 1"
  shows "sint (concurrent_functions (limits_for s d)) \<le> slot_limit (config s)"
proof (cases d)
  case True
  with assms obtain l where "dedicated_tier_limits (config s) = Some l"
    by (auto simp: limits_for_def unlimited_def split: option.splits)
  with True show ?thesis by (simp add: limits_for_def slot_limit_def)
qed (simp add: limits_for_def slot_limit_def)

lemma set_slot_ok:
  assumes "slots_ok c (s, gs)" "a < length (states s)"
    and "sint r = int (live gs' a)" "int (live gs' a) \<le> slot_limit c"
    and "\<And>b. b \<noteq> a \<Longrightarrow> live gs' b = live gs b"
    and "\<And>g b. g \<in> set gs' \<Longrightarrow> guard_state g = Some b \<Longrightarrow> b < length (states s)"
  shows "slots_ok c (set_state s a ((states s ! a)\<lparr>running_functions := r\<rparr>), gs')"
proof -
  have "sint (running_functions ((states s)[a := (states s ! a)\<lparr>running_functions := r\<rparr>] ! b)) = int (live gs' b) \<and>
      int (live gs' b) \<le> slot_limit c" if "b < length (states s)" for b
    using assms that by (cases "b = a") (auto simp: slots_ok_def)
  then show ?thesis using assms(1,6) by (auto simp: slots_ok_def set_state_ok)
qed

lemma acquire_ok:
  assumes inv: "slots_ok c (s, gs)" and acq: "try_acquire_function s pid d now = (s', og)"
  shows "slots_ok c (s', case og of Some g \<Rightarrow> g # gs | None \<Rightarrow> gs)"
proof (cases "concurrent_functions (limits_for s d) = - 1")
  case True
  then have "s' = s" "og = Some \<lparr>guard_project = pid, guard_state = None\<rparr>"
    using acq by (auto simp: try_acquire_function_def Let_def)
  with inv show ?thesis by (auto simp: slots_ok_def)
next
  case False
  let ?l = "concurrent_functions (limits_for s d)"
  have ok: "service_ok s" "config s = c" using inv by (auto simp: slots_ok_def)
  obtain s1 a where g: "get_or_create s pid (limits_for s d) now = (s1, a)" by fastforce
  note s1 = get_or_create_slots [OF ok(1) g]
  then have inv1: "slots_ok c (s1, gs)" and a: "a < length (states s1)" using slots_ok_same [OF inv] by auto
  let ?cur = "running_functions (states s1 ! a)"
  show ?thesis
  proof (cases "sint ?l \<le> sint ?cur")
    case True
    then have "s' = s1" "og = None" using acq False g by (auto simp: try_acquire_function_def Let_def)
    with inv1 show ?thesis by simp
  next
    case less: False
    then have s': "s' = set_state s1 a ((states s1 ! a)\<lparr>running_functions := ?cur + 1\<rparr>)"
      and og: "og = Some \<lparr>guard_project = pid, guard_state = Some a\<rparr>"
      using acq False g by (auto simp: try_acquire_function_def Let_def)
    have cur: "sint ?cur = int (live gs a)" using inv1 a by (simp add: slots_ok_def)
    moreover have "sint (?cur + 1) = sint ?cur + 1" using less by (intro sint_succ [where l = ?l]) simp
    moreover have "sint ?l \<le> slot_limit c" using slot_limit_of [OF False] ok by simp
    moreover have "b < length (states s1)" if "g \<in> set gs" "guard_state g = Some b" for g b
      using inv1 that by (auto simp: slots_ok_def)
    ultimately show ?thesis
      unfolding s' og option.case using less a by (intro set_slot_ok [OF inv1]) auto
  qed
qed

lemma drop_ok:
  assumes inv: "slots_ok c (s, gs)" and g: "g \<in> set gs"
  shows "slots_ok c (drop_guard s g, remove1 g gs)"
proof (cases "guard_state g")
  case None
  then have "live (remove1 g gs) a = live gs a" for a using live_remove1 [OF g, of a] by simp
  with None inv show ?thesis by (auto simp: drop_guard_def slots_ok_def dest: notin_set_remove1 [THEN contrapos_nn])
next
  case (Some a)
  have a: "a < length (states s)" using inv g Some by (auto simp: slots_ok_def)
  let ?cur = "running_functions (states s ! a)"
  have cur: "sint ?cur = int (live gs a)" "int (live gs a) \<le> slot_limit c" using inv a by (auto simp: slots_ok_def)
  have rm: "live gs a = live (remove1 g gs) a + 1" using live_remove1 [OF g, of a] Some by simp
  moreover have "sint (?cur - 1) = sint ?cur - 1" using cur rm by (intro sint_pred) simp
  moreover have "b < length (states s)" if "x \<in> set (remove1 g gs)" "guard_state x = Some b" for x b
    using inv that notin_set_remove1 [of x gs g] by (auto simp: slots_ok_def)
  ultimately show ?thesis
    unfolding drop_guard_def Some option.case Let_def
    using cur a live_remove1 [OF g] Some by (intro set_slot_ok [OF inv]) auto
qed

lemma quota_step_ok: "quota_step x y \<Longrightarrow> slots_ok c x \<Longrightarrow> slots_ok c y"
proof (induction rule: quota_step.induct)
  case (acquired s pid d now s' g gs)
  from acquire_ok [OF acquired(2,1)] show ?case by simp
next
  case (not_acquired s pid d now s' gs)
  from acquire_ok [OF not_acquired(2,1)] show ?case by simp
next
  case (dropped g gs s)
  then show ?case by (intro drop_ok)
next
  case (requested s pid d now s' r gs)
  show ?case by (rule slots_ok_same [OF requested(2) check_request_slots [OF slots_okD [OF requested(2)] requested(1)]])
next
  case (storage s pid d n now s' r gs)
  show ?case by (rule slots_ok_same [OF storage(2) check_storage_slots [OF slots_okD [OF storage(2)] storage(1)]])
next
  case (bandwidth s pid d n now s' r gs)
  show ?case by (rule slots_ok_same [OF bandwidth(2) check_bandwidth_slots [OF slots_okD [OF bandwidth(2)] bandwidth(1)]])
qed (rule slots_ok_same, assumption, rule record_slots reset_slots, erule slots_okD)+

lemma quota_reachable_ok: "quota_reachable c x \<Longrightarrow> slots_ok c x"
proof (induction rule: quota_reachable.induct)
  case start
  then show ?case using service_new_ok by (auto simp: slots_ok_def quota_service_new_def)
next
  case (step x y)
  then show ?case using quota_step_ok by blast
qed

section \<open>Properties\<close>

text \<open>
  Function slots never leak and are never over-committed: in every reachable state of the
  service, whatever requests, uploads, resets and cleared tenants came in between, the counter of
  each tenant state is exactly the number of live guards that were made with it, and at most the
  larger of the configured limits.
\<close>

theorem function_slots_exact:
  assumes "quota_reachable c (s, gs)" and "a < length (states s)"
  shows "sint (running_functions (states s ! a)) = int (live gs a) \<and> int (live gs a) \<le> slot_limit c"
  using quota_reachable_ok [OF assms(1)] assms(2) by (auto simp: slots_ok_def)

text \<open>
  A configured limit of \<open>2^31\<close> functions or more (but not the \<open>u32\<close> maximum that stands for
  no limit) is read as a negative \<open>i32\<close>: in every reachable state of such a service, no function can
  be started at all.
\<close>

theorem large_function_limit_refuses:
  assumes "quota_reachable c (s, gs)"
    and "2 ^ 31 \<le> unat (concurrent_functions (limits_for s d))" and "concurrent_functions (limits_for s d) \<noteq> - 1"
  shows "snd (try_acquire_function s pid d now) = None"
proof -
  have inv: "slots_ok c (s, gs)" by (rule quota_reachable_ok [OF assms(1)])
  obtain s1 a where g: "get_or_create s pid (limits_for s d) now = (s1, a)" by fastforce
  have "same_slots s s1" "a < length (states s1)"
    using get_or_create_slots [OF _ g] inv by (auto simp: slots_ok_def)
  with slots_ok_same [OF inv] have "0 \<le> sint (running_functions (states s1 ! a))"
    by (simp add: slots_ok_def)
  moreover have "sint (concurrent_functions (limits_for s d)) < 0" by (rule sint_high [OF assms(2)])
  ultimately show ?thesis using assms(3) g by (simp add: try_acquire_function_def Let_def)
qed

text \<open>
  A project limited to no requests per minute crashes its second request: the bucket has one
  token of burst and no refill, so \<open>retry_after\<close> divides by a refill rate of zero. (The service
  is new, so its state of the project is the one the first request makes.)
\<close>

theorem zero_request_limit_panics:
  assumes "requests_per_minute (limits_for (quota_service_new c) d) = 0"
  shows "\<exists>s. check_request (quota_service_new c) pid d t1 = Ok (s, Allowed) \<and>
    (\<forall>t2. check_request s pid d t2 = Panic)"
proof -
  have f: "for_requests_per_minute 0 t1 = \<lparr>tokens = 1000, capacity = 1000, refill_rate = 0, last_refill = t1\<rparr>"
  proof -
    have "f64_as_u64 (f64_mult (f64_div (f64_of_nat (unat (0 :: u32))) (f64_of_nat 60)) (f64_of_nat 1000)) = 0"
      by (simp add: f64_of_nat_0 f64_zero_rate)
    then show ?thesis by (simp add: for_requests_per_minute_def bucket_new_def Let_def)
  qed
  let ?l = "limits_for (quota_service_new c) d"
  let ?b = "\<lparr>tokens = 0, capacity = 1000, refill_rate = 0, last_refill = t1\<rparr> :: token_bucket"
  let ?s = "\<lparr>tenants = [(pid, 0)], states = [(tenant_quota_state_new ?l t1)\<lparr>request_bucket := ?b\<rparr>], config = c\<rparr>"
  have lim: "\<not> is_unlimited ?l" "limits_for ?s d = ?l"
    using assms by (simp_all add: is_unlimited_def limits_for_def quota_service_new_def)
  have refill: "refill b t = b" if "refill_rate b = 0" for b t using that by (simp add: refill_def Let_def)
  have "check_request (quota_service_new c) pid d t1 = Ok (?s, Allowed)"
    using assms lim f
    by (simp add: check_request_def Let_def get_or_create_def quota_service_new_def tenant_quota_state_new_def
        try_consume_def try_consume_n_def refill)
  moreover have "check_request ?s pid d t2 = Panic" for t2
    using lim
    by (simp add: check_request_def Let_def get_or_create_def try_consume_def try_consume_n_def refill
        retry_after_def checked_div_def)
  ultimately show ?thesis by blast
qed

text \<open>
  The storage check is exact as long as the sum fits in 64 bits: an upload is refused exactly
  when it would take the usage above the limit.
\<close>

theorem check_storage_exact:
  assumes "storage_bytes (limits_for s d) \<noteq> - 1" and "get_or_create s pid (limits_for s d) now = (s1, a)"
    and "unat (storage_used_bytes (states s1 ! a)) + unat n < 2 ^ 64"
  shows "check_storage s pid d n now =
    (s1, if unat (storage_bytes (limits_for s d)) < unat (storage_used_bytes (states s1 ! a)) + unat n
         then StorageExceeded else Allowed)"
  using assms u64_sum [OF assms(3)] by (simp add: check_storage_def Let_def word_less_nat_alt)

text \<open>
  Without that bound the check can be bypassed: once a project has used one byte, an upload
  announced as \<open>2^64 - 1\<close> bytes is allowed, whatever the limit is, because the sum wraps to zero.
\<close>

theorem check_storage_wraps:
  assumes "get_or_create s pid (limits_for s d) now = (s1, a)" and "storage_used_bytes (states s1 ! a) = 1"
  shows "snd (check_storage s pid d (- 1) now) = Allowed"
  using assms by (simp add: check_storage_def Let_def)

section \<open>Witnesses\<close>

definition one_slot :: quota_config where
  "one_slot = default_quota_config\<lparr>free_tier_limits := free_tier\<lparr>concurrent_functions := 1\<rparr>\<rparr>"

definition one_running :: "quota_service \<times> function_guard list" where
  "one_running =
     (case try_acquire_function (quota_service_new one_slot) ''p'' False 7 of
        (s, Some g) \<Rightarrow> (s, [g]) | (s, None) \<Rightarrow> (s, []))"

lemma one_running_reachable: "quota_reachable one_slot one_running"
proof -
  obtain s g where "try_acquire_function (quota_service_new one_slot) ''p'' False 7 = (s, Some g)"
    by (simp add: try_acquire_function_def Let_def get_or_create_def quota_service_new_def one_slot_def
        default_quota_config_def limits_for_def tenant_quota_state_new_def)
  then show ?thesis
    using quota_reachable.step [OF quota_reachable.start acquired] by (simp add: one_running_def)
qed

lemma one_running_eq:
  "snd one_running = [\<lparr>guard_project = ''p'', guard_state = Some 0\<rparr>] \<and> length (states (fst one_running)) = 1"
  by (simp add: one_running_def try_acquire_function_def Let_def get_or_create_def quota_service_new_def one_slot_def
      default_quota_config_def limits_for_def tenant_quota_state_new_def)

lemma function_slots_exact_witness: "sint (running_functions (states (fst one_running) ! 0)) = 1"
proof -
  have "quota_reachable one_slot (fst one_running, snd one_running)" using one_running_reachable by simp
  from function_slots_exact [OF this, of 0] one_running_eq show ?thesis by (simp add: live_def)
qed

definition big_limit :: quota_config where
  "big_limit = default_quota_config\<lparr>free_tier_limits := free_tier\<lparr>concurrent_functions := 3000000000\<rparr>\<rparr>"

lemma large_function_limit_refuses_witness:
  "snd (try_acquire_function (quota_service_new big_limit) ''p'' False 7) = None"
  by (rule large_function_limit_refuses [OF quota_reachable.start])
    (simp_all add: limits_for_def quota_service_new_def big_limit_def default_quota_config_def)

definition no_requests :: quota_config where
  "no_requests = default_quota_config\<lparr>free_tier_limits := free_tier\<lparr>requests_per_minute := 0\<rparr>\<rparr>"

lemma zero_request_limit_panics_witness:
  "\<exists>s. check_request (quota_service_new no_requests) ''p'' False 7 = Ok (s, Allowed) \<and>
    (\<forall>t2. check_request s ''p'' False t2 = Panic)"
  by (rule zero_request_limit_panics)
    (simp add: limits_for_def quota_service_new_def no_requests_def default_quota_config_def)

definition one_byte :: quota_service where
  "one_byte = record_storage_change (fst (get_or_create (quota_service_new default_quota_config) ''p'' free_tier 7)) ''p'' 1"

lemma one_byte_state:
  "get_or_create one_byte ''p'' free_tier 9 = (one_byte, 0) \<and>
   storage_used_bytes (states one_byte ! 0) = 1 \<and> limits_for one_byte False = free_tier"
  by (simp add: one_byte_def record_storage_change_def get_or_create_def quota_service_new_def
      default_quota_config_def limits_for_def tenant_quota_state_new_def Let_def)

lemma check_storage_exact_witness: "check_storage one_byte ''p'' False 1073741824 9 = (one_byte, StorageExceeded)"
proof -
  have lim: "storage_bytes free_tier = 1073741824" by (simp add: free_tier_def)
  show ?thesis
    using check_storage_exact [of one_byte False "''p''" 9 one_byte 0 1073741824] one_byte_state lim by simp
qed

lemma check_storage_wraps_witness: "snd (check_storage one_byte ''p'' False (- 1) 9) = Allowed"
  using check_storage_wraps [of one_byte "''p''" False 9 one_byte 0] one_byte_state by simp

end
