(* ===== verification/Data_Query.thy ===== *)
theory Data_Query
  imports F64 "HOL-Library.Word"
begin

text \<open>
  The PostgREST query language of the data API (\<open>crates/reactor-data/src/query/\<close>): filters,
  order, select projections with embedded resources, pagination, the \<open>Prefer\<close> header, and the
  query plan they make up. Query parameters are an association list (the code has a
  \<open>HashMap\<close>, whose iteration order is the order of the list); a header value that is not
  visible ASCII is \<open>HOpaque\<close>. Scanning for ASCII delimiters is done on bytes, which is what
  scanning the characters amounts to.
\<close>

section \<open>Errors (error.rs)\<close>

datatype data_error =
    Unauthorized | PermissionDenied | TableNotFound string | ColumnNotFound string
  | PolicyDenied string | InvalidFilter string | InvalidQuery string
  | AmbiguousEmbed string "string list" | DatabaseError | InternalError | AuthError string
  | ConfigError string | PolicyStoreError string

fun error_code :: "data_error \<Rightarrow> string" where
  "error_code Unauthorized = ''unauthorized''"
| "error_code PermissionDenied = ''permission_denied''"
| "error_code (TableNotFound _) = ''table_not_found''"
| "error_code (ColumnNotFound _) = ''column_not_found''"
| "error_code (PolicyDenied _) = ''policy_denied''"
| "error_code (InvalidFilter _) = ''invalid_filter''"
| "error_code (InvalidQuery _) = ''invalid_query''"
| "error_code (AmbiguousEmbed _ _) = ''ambiguous_embed''"
| "error_code DatabaseError = ''database_error''"
| "error_code InternalError = ''internal_error''"
| "error_code (AuthError _) = ''auth_error''"
| "error_code (ConfigError _) = ''config_error''"
| "error_code (PolicyStoreError _) = ''policy_store_error''"

fun status_code :: "data_error \<Rightarrow> nat" where
  "status_code Unauthorized = 401"
| "status_code (AuthError _) = 401"
| "status_code PermissionDenied = 403"
| "status_code (PolicyDenied _) = 403"
| "status_code (TableNotFound _) = 404"
| "status_code DatabaseError = 500"
| "status_code InternalError = 500"
| "status_code (PolicyStoreError _) = 500"
| "status_code _ = 400"

section \<open>Filters (filter.rs)\<close>

datatype filter_op =
    FEq | FNeq | FGt | FGte | FLt | FLte | FLike | FILike | FIn | FIs | FCs | FCd | FOv | FFts

definition filter_op_parse :: "string \<Rightarrow> filter_op option" where
  "filter_op_parse s =
     (let l = to_lowercase s in
      if l = ''eq'' then Some FEq
      else if l = ''neq'' then Some FNeq
      else if l = ''gt'' then Some FGt
      else if l = ''gte'' then Some FGte
      else if l = ''lt'' then Some FLt
      else if l = ''lte'' then Some FLte
      else if l = ''like'' then Some FLike
      else if l = ''ilike'' then Some FILike
      else if l = ''in'' then Some FIn
      else if l = ''is'' then Some FIs
      else if l = ''cs'' then Some FCs
      else if l = ''cd'' then Some FCd
      else if l = ''ov'' then Some FOv
      else if l = ''fts'' then Some FFts
      else None)"

fun filter_op_sql :: "filter_op \<Rightarrow> string" where
  "filter_op_sql FEq = ''=''"
| "filter_op_sql FNeq = ''<>''"
| "filter_op_sql FGt = ''>''"
| "filter_op_sql FGte = ''>=''"
| "filter_op_sql FLt = ''<''"
| "filter_op_sql FLte = ''<=''"
| "filter_op_sql FLike = ''LIKE''"
| "filter_op_sql FILike = ''ILIKE''"
| "filter_op_sql FIn = ''IN''"
| "filter_op_sql FIs = ''IS''"
| "filter_op_sql FCs = ''@>''"
| "filter_op_sql FCd = ''<@''"
| "filter_op_sql FOv = ''&&''"
| "filter_op_sql FFts = ''@@''"

datatype filter_value =
    FvNull | FvBool bool | FvInt int | FvFloat f64 | FvString string | FvList "filter_value list"

record filter_expr =
  flt_column :: string
  flt_op :: filter_op
  flt_value :: filter_value
  flt_negated :: bool

definition filter_value_parse :: "string \<Rightarrow> filter_value" where
  "filter_value_parse s =
     (if eq_ignore_ascii_case s ''null'' then FvNull
      else if eq_ignore_ascii_case s ''true'' then FvBool True
      else if eq_ignore_ascii_case s ''false'' then FvBool False
      else (case parse_i64 s of
              Some i \<Rightarrow> FvInt i
            | None \<Rightarrow> (case parse_f64 s of Some f \<Rightarrow> FvFloat f | None \<Rightarrow> FvString s)))"

text \<open>\<open>&trimmed[1..trimmed.len() - 1]\<close> with the parentheses checked.\<close>

definition filter_value_parse_list :: "string \<Rightarrow> (filter_value, data_error) result" where
  "filter_value_parse_list s =
     (let trimmed = trim s in
      if \<not> starts_with ''('' trimmed \<or> \<not> ends_with '')'' trimmed
      then Err (InvalidFilter ''list values must be wrapped in parentheses'')
      else
        let inner = butlast (tl trimmed) in
        if inner = [] then Ok (FvList [])
        else Ok (FvList (map (\<lambda>s. filter_value_parse (trim s)) (split_char CHR '','' inner))))"

definition parse_filter :: "string \<Rightarrow> string \<Rightarrow> (filter_expr, data_error) result" where
  "parse_filter column v =
     (let (negated, rest) = (case strip_prefix ''not.'' v of Some r \<Rightarrow> (True, r) | None \<Rightarrow> (False, v)) in
      and_then (ok_or (InvalidFilter (''missing operator in filter: '' @ column @ ''='' @ v))
                 (find_char CHR ''.'' rest)) (\<lambda>dot_pos.
      let op_str = take dot_pos rest; value_str = drop (dot_pos + 1) rest in
      and_then (ok_or (InvalidFilter (''unknown filter operator: '' @ op_str)) (filter_op_parse op_str)) (\<lambda>op.
      and_then
        (if op = FIn \<or> op = FCs \<or> op = FCd \<or> op = FOv then filter_value_parse_list value_str
         else if op = FIs then
           (let l = to_lowercase value_str in
            if l = ''null'' then Ok FvNull
            else if l = ''true'' then Ok (FvBool True)
            else if l = ''false'' then Ok (FvBool False)
            else Err (InvalidFilter (''IS operator only accepts null, true, or false, got: '' @ value_str)))
         else Ok (filter_value_parse value_str)) (\<lambda>filter_value.
      Ok \<lparr>flt_column = column, flt_op = op, flt_value = filter_value, flt_negated = negated\<rparr>))))"

section \<open>Order (order.rs)\<close>

datatype order_direction = OrdAsc | OrdDesc

fun direction_sql :: "order_direction \<Rightarrow> string" where
  "direction_sql OrdAsc = ''ASC''"
| "direction_sql OrdDesc = ''DESC''"

datatype nulls_position = NullsFirst | NullsLast

fun nulls_sql :: "nulls_position \<Rightarrow> string" where
  "nulls_sql NullsFirst = ''NULLS FIRST''"
| "nulls_sql NullsLast = ''NULLS LAST''"

record order_column =
  ord_column :: string
  ord_direction :: order_direction
  ord_nulls :: "nulls_position option"

fun order_modifiers :: "order_column \<Rightarrow> string list \<Rightarrow> (order_column, data_error) result" where
  "order_modifiers oc [] = Ok oc"
| "order_modifiers oc (seg # segs) =
     (let l = to_lowercase seg in
      if l = ''asc'' then order_modifiers (oc\<lparr>ord_direction := OrdAsc\<rparr>) segs
      else if l = ''desc'' then order_modifiers (oc\<lparr>ord_direction := OrdDesc\<rparr>) segs
      else if l = ''nullsfirst'' then order_modifiers (oc\<lparr>ord_nulls := Some NullsFirst\<rparr>) segs
      else if l = ''nullslast'' then order_modifiers (oc\<lparr>ord_nulls := Some NullsLast\<rparr>) segs
      else Err (InvalidFilter (''unknown order modifier: '' @ seg)))"

definition parse_order_part :: "string \<Rightarrow> (order_column, data_error) result" where
  "parse_order_part part =
     (let segments = split_char CHR ''.'' part in
      order_modifiers \<lparr>ord_column = hd segments, ord_direction = OrdAsc, ord_nulls = None\<rparr> (tl segments))"

definition parse_order :: "string \<Rightarrow> (order_column list, data_error) result" where
  "parse_order input =
     (if trim input = [] then Ok []
      else collect_results parse_order_part
        (filter (\<lambda>p. p \<noteq> []) (map trim (split_char CHR '','' input))))"

section \<open>Select (select.rs)\<close>

text \<open>\<open>SelEmbed name fk_hint columns alias\<close> is the \<open>EmbedSpec\<close>.\<close>

datatype select_column =
    SelAll
  | SelColumn string
  | SelAliased string string
  | SelEmbed string "string option" "select_column list" "string option"

fun output_name :: "select_column \<Rightarrow> string" where
  "output_name SelAll = ''*''"
| "output_name (SelColumn name) = name"
| "output_name (SelAliased alias column) = alias"
| "output_name (SelEmbed name hint cols alias) = (case alias of Some a \<Rightarrow> a | None \<Rightarrow> name)"

fun source_name :: "select_column \<Rightarrow> string option" where
  "source_name (SelColumn name) = Some name"
| "source_name (SelAliased alias column) = Some column"
| "source_name _ = None"

fun is_embed :: "select_column \<Rightarrow> bool" where
  "is_embed (SelEmbed _ _ _ _) = True"
| "is_embed _ = False"

text \<open>
  The scan of \<open>parse_select_items\<close>: the items between commas at parenthesis depth 0, without
  the blank ones. \<open>current\<close> is the item collected so far.
\<close>

fun split_items :: "int \<Rightarrow> string \<Rightarrow> string \<Rightarrow> string list" where
  "split_items depth current [] = (if trim current = [] then [] else [current])"
| "split_items depth current (c # s) =
     (if c = CHR ''('' then split_items (depth + 1) (current @ [c]) s
      else if c = CHR '')'' then split_items (depth - 1) (current @ [c]) s
      else if c = CHR '','' \<and> depth = 0 then
        (if trim current = [] then split_items depth [] s else current # split_items depth [] s)
      else split_items depth (current @ [c]) s)"

text \<open>\<open>parse_single_select_item\<close>, with the recursive parser of the inner columns as argument.\<close>

definition parse_single_select_item ::
  "(string \<Rightarrow> (select_column list, data_error) result) \<Rightarrow> string \<Rightarrow> (select_column, data_error) result" where
  "parse_single_select_item inner_items item0 =
     (let item = trim item0 in
      if item = ''*'' then Ok SelAll
      else (case find_char CHR ''('' item of
        Some paren_start \<Rightarrow>
          if \<not> ends_with '')'' item
          then Err (InvalidFilter (''malformed embed: missing closing parenthesis in '' @ [CHR 0x27] @ item @ [CHR 0x27]))
          else
            let name_part = take paren_start item;
                inner = take (length item - 1 - (paren_start + 1)) (drop (paren_start + 1) item);
                (alias, name_with_hint) = (case find_char CHR '':'' name_part of
                    Some colon_pos \<Rightarrow> (Some (trim (take colon_pos name_part)), trim (drop (colon_pos + 1) name_part))
                  | None \<Rightarrow> (None, trim name_part));
                (name, fk_hint) = (case find_char CHR ''!'' name_with_hint of
                    Some bang_pos \<Rightarrow> (take bang_pos name_with_hint, Some (drop (bang_pos + 1) name_with_hint))
                  | None \<Rightarrow> (name_with_hint, None))
            in if name = [] then Err (InvalidFilter (''empty embed name in '' @ [CHR 0x27] @ item @ [CHR 0x27]))
               else and_then (inner_items inner) (\<lambda>inner_columns. Ok (SelEmbed name fk_hint inner_columns alias))
      | None \<Rightarrow>
          (case find_char CHR '':'' item of
            Some colon_pos \<Rightarrow>
              let alias = trim (take colon_pos item); column = trim (drop (colon_pos + 1) item) in
              if alias = [] \<or> column = [] then Err (InvalidFilter (''invalid aliased column: '' @ item))
              else Ok (SelAliased alias column)
          | None \<Rightarrow> Ok (SelColumn item))))"

lemma parse_single_cong [fundef_cong]:
  assumes "item = item'" "\<And>s. length s < length item' \<Longrightarrow> f s = g s"
  shows "parse_single_select_item f item = parse_single_select_item g item'"
proof -
  have "f (take (length (trim item') - 1 - (n + 1)) (drop (n + 1) (trim item'))) =
      g (take (length (trim item') - 1 - (n + 1)) (drop (n + 1) (trim item')))"
    if "find_char CHR ''('' (trim item') = Some n" for n
    using find_char_less [OF that] length_trim [of item'] by (intro assms(2)) auto
  then show ?thesis
    unfolding parse_single_select_item_def assms(1) Let_def
    by (auto split: option.split prod.split simp del: length_take)
qed

lemma split_items_length:
  "item \<in> set (split_items d cur s) \<Longrightarrow> length item \<le> length cur + length s"
  by (induction d cur s arbitrary: item rule: split_items.induct) (fastforce split: if_splits)+

function parse_select_items :: "string \<Rightarrow> (select_column list, data_error) result" where
  "parse_select_items input =
     (if trim input = [] then Ok [SelAll]
      else and_then (collect_results (\<lambda>item. parse_single_select_item parse_select_items item)
                      (split_items 0 [] input))
             (\<lambda>columns. Ok (if columns = [] then [SelAll] else columns)))"
  by pat_completeness auto
termination
  by (relation "measure length") (auto dest: split_items_length)

declare parse_select_items.simps [simp del]

definition parse_select :: "string \<Rightarrow> (select_column list, data_error) result" where
  "parse_select input = parse_select_items input"

section \<open>Pagination (pagination.rs)\<close>

type_synonym u32 = "32 word"

record pagination =
  pg_limit :: u32
  pg_offset :: u32

definition default_pagination :: pagination where
  "default_pagination = \<lparr>pg_limit = 100, pg_offset = 0\<rparr>"

text \<open>A header value: its text, or bytes that \<open>to_str\<close> refuses.\<close>

datatype header_value = HText string | HOpaque

type_synonym headers = "string \<Rightarrow> header_value option"

record data_config =
  cfg_max_limit :: u32
  cfg_default_limit :: u32
  cfg_max_embed_depth :: nat

definition clamp_pagination :: "pagination \<Rightarrow> data_config \<Rightarrow> pagination" where
  "clamp_pagination p config =
     (if cfg_max_limit config < pg_limit p then p\<lparr>pg_limit := cfg_max_limit config\<rparr> else p)"

definition parse_word :: "string \<Rightarrow> u32 option" where
  "parse_word s = map_option of_nat (parse_u32 s)"

definition range_unit_check :: "headers \<Rightarrow> (unit, data_error) result" where
  "range_unit_check hs =
     (case hs ''range-unit'' of
        Some (HText unit_str) \<Rightarrow>
          if \<not> eq_ignore_ascii_case unit_str ''items''
          then Err (InvalidFilter (''unsupported Range-Unit: '' @ unit_str)) else Ok ()
      | _ \<Rightarrow> Ok ())"

definition parse_range_header :: "headers \<Rightarrow> (pagination option, data_error) result" where
  "parse_range_header hs =
     (case hs ''range'' of
        None \<Rightarrow> Ok None
      | Some HOpaque \<Rightarrow> Err (InvalidFilter ''invalid Range header'')
      | Some (HText range_str) \<Rightarrow>
          and_then (range_unit_check hs) (\<lambda>_.
            let range_part = (case strip_prefix ''items='' range_str of Some r \<Rightarrow> r | None \<Rightarrow> range_str);
                parts = split_char CHR ''-'' range_part
            in if length parts \<noteq> 2 then Err (InvalidFilter (''invalid Range format: '' @ range_str))
               else
                 and_then (ok_or (InvalidFilter (''invalid Range start: '' @ parts ! 0)) (parse_word (parts ! 0))) (\<lambda>start.
                 and_then (ok_or (InvalidFilter (''invalid Range end: '' @ parts ! 1)) (parse_word (parts ! 1))) (\<lambda>stop.
                 if stop < start then Err (InvalidFilter ''Range end must be >= start'')
                 else Ok (Some \<lparr>pg_limit = stop - start + 1, pg_offset = start\<rparr>)))))"

definition parse_pagination ::
  "(string \<times> string) list \<Rightarrow> headers \<Rightarrow> data_config \<Rightarrow> (pagination, data_error) result" where
  "parse_pagination params hs config =
     and_then (parse_range_header hs) (\<lambda>range. case range of
       Some p \<Rightarrow> Ok (clamp_pagination p config)
     | None \<Rightarrow>
         and_then (case map_of params ''limit'' of
             Some s \<Rightarrow> ok_or (InvalidFilter (''invalid limit value: '' @ s)) (parse_word s)
           | None \<Rightarrow> Ok (cfg_default_limit config)) (\<lambda>lim.
         and_then (case map_of params ''offset'' of
             Some s \<Rightarrow> ok_or (InvalidFilter (''invalid offset value: '' @ s)) (parse_word s)
           | None \<Rightarrow> Ok 0) (\<lambda>off.
         Ok (clamp_pagination \<lparr>pg_limit = lim, pg_offset = off\<rparr> config))))"

section \<open>Prefer (prefer.rs)\<close>

datatype return_mode = Representation | Minimal | HeadersOnly
datatype count_mode = CountNone | CountExact | CountPlanned | CountEstimated
datatype resolution = MergeDuplicates | IgnoreDuplicates
datatype missing_mode = MissingDefault

record prefer_header =
  prf_return :: return_mode
  prf_count :: count_mode
  prf_resolution :: resolution
  prf_missing :: "missing_mode option"

definition default_prefer :: prefer_header where
  "default_prefer = \<lparr>prf_return = Minimal, prf_count = CountNone,
     prf_resolution = MergeDuplicates, prf_missing = None\<rparr>"

definition prefer_value :: "string \<Rightarrow> string option \<Rightarrow> (string, data_error) result" where
  "prefer_value key v = ok_or (InvalidFilter (''Prefer: '' @ key @ '' requires a value'')) v"

text \<open>One preference of the list.\<close>

definition prefer_part :: "prefer_header \<Rightarrow> string \<Rightarrow> (prefer_header, data_error) result" where
  "prefer_part p part =
     (let (key, v) = (case find_char CHR ''='' part of
            Some pos \<Rightarrow> (take pos part, Some (drop (pos + 1) part)) | None \<Rightarrow> (part, None));
          k = to_lowercase key
      in if k = ''return'' then
           and_then (prefer_value ''return'' v) (\<lambda>mode. let l = to_lowercase mode in
             if l = ''representation'' then Ok (p\<lparr>prf_return := Representation\<rparr>)
             else if l = ''minimal'' then Ok (p\<lparr>prf_return := Minimal\<rparr>)
             else if l = ''headers-only'' then Ok (p\<lparr>prf_return := HeadersOnly\<rparr>)
             else Err (InvalidFilter (''unknown return mode: '' @ mode)))
         else if k = ''count'' then
           and_then (prefer_value ''count'' v) (\<lambda>mode. let l = to_lowercase mode in
             if l = ''exact'' then Ok (p\<lparr>prf_count := CountExact\<rparr>)
             else if l = ''planned'' then Ok (p\<lparr>prf_count := CountPlanned\<rparr>)
             else if l = ''estimated'' then Ok (p\<lparr>prf_count := CountEstimated\<rparr>)
             else if l = ''none'' then Ok (p\<lparr>prf_count := CountNone\<rparr>)
             else Err (InvalidFilter (''unknown count mode: '' @ mode)))
         else if k = ''resolution'' then
           and_then (prefer_value ''resolution'' v) (\<lambda>mode. let l = to_lowercase mode in
             if l = ''merge-duplicates'' then Ok (p\<lparr>prf_resolution := MergeDuplicates\<rparr>)
             else if l = ''ignore-duplicates'' then Ok (p\<lparr>prf_resolution := IgnoreDuplicates\<rparr>)
             else Err (InvalidFilter (''unknown resolution mode: '' @ mode)))
         else if k = ''missing'' then
           and_then (prefer_value ''missing'' v) (\<lambda>mode. let l = to_lowercase mode in
             if l = ''default'' then Ok (p\<lparr>prf_missing := Some MissingDefault\<rparr>)
             else Err (InvalidFilter (''unknown missing mode: '' @ mode)))
         else Ok p)"

fun prefer_loop :: "prefer_header \<Rightarrow> string list \<Rightarrow> (prefer_header, data_error) result" where
  "prefer_loop p [] = Ok p"
| "prefer_loop p (part # parts) =
     (let t = trim part in
      if t = [] then prefer_loop p parts else and_then (prefer_part p t) (\<lambda>p'. prefer_loop p' parts))"

definition parse_prefer :: "string \<Rightarrow> (prefer_header, data_error) result" where
  "parse_prefer input = prefer_loop default_prefer (split_char CHR '','' input)"

section \<open>The query plan (plan.rs, mod.rs)\<close>

record query_plan =
  plan_select :: "select_column list"
  plan_filters :: "filter_expr list"
  plan_order :: "order_column list"
  plan_pagination :: pagination
  plan_prefer :: prefer_header
  plan_policy :: "string option"

definition default_plan :: query_plan where
  "default_plan = \<lparr>plan_select = [], plan_filters = [], plan_order = [],
     plan_pagination = default_pagination, plan_prefer = default_prefer, plan_policy = None\<rparr>"

definition selects_all :: "query_plan \<Rightarrow> bool" where
  "selects_all plan = list_ex (\<lambda>c. c = SelAll) (plan_select plan)"

definition selected_columns :: "query_plan \<Rightarrow> string list" where
  "selected_columns plan = List.map_filter source_name (plan_select plan)"

definition plan_embeds :: "query_plan \<Rightarrow> select_column list" where
  "plan_embeds plan = filter is_embed (plan_select plan)"

definition has_embeds :: "query_plan \<Rightarrow> bool" where
  "has_embeds plan = list_ex is_embed (plan_select plan)"

definition filtered_columns :: "query_plan \<Rightarrow> string list" where
  "filtered_columns plan = map flt_column (plan_filters plan)"

definition ordered_columns :: "query_plan \<Rightarrow> string list" where
  "ordered_columns plan = map ord_column (plan_order plan)"

definition is_filter_param :: "string \<Rightarrow> bool" where
  "is_filter_param key \<longleftrightarrow> key \<noteq> ''select'' \<and> key \<noteq> ''order'' \<and> key \<noteq> ''limit'' \<and> key \<noteq> ''offset''"

definition parse_query ::
  "(string \<times> string) list \<Rightarrow> headers \<Rightarrow> data_config \<Rightarrow> (query_plan, data_error) result" where
  "parse_query params hs config =
     and_then (case map_of params ''select'' of Some s \<Rightarrow> parse_select s | None \<Rightarrow> Ok [SelAll]) (\<lambda>select.
     and_then (collect_results (\<lambda>(key, v). parse_filter key v)
                 (filter (\<lambda>(key, v). is_filter_param key) params)) (\<lambda>filters.
     and_then (case map_of params ''order'' of Some s \<Rightarrow> parse_order s | None \<Rightarrow> Ok []) (\<lambda>order.
     and_then (parse_pagination params hs config) (\<lambda>pagination.
     and_then (case hs ''prefer'' of
         Some (HText s) \<Rightarrow> parse_prefer s | _ \<Rightarrow> Ok default_prefer) (\<lambda>prefer_header.
     Ok \<lparr>plan_select = select, plan_filters = filters, plan_order = order,
         plan_pagination = pagination, plan_prefer = prefer_header, plan_policy = None\<rparr>)))))"

end
