(* ===== verification/Data_Query_Props.thy ===== *)
theory Data_Query_Props
  imports Data_Query
begin

text \<open>
  Properties of the query parsers: the select grammar read backwards, the bounds of pagination
  and the \<open>Range\<close> header, and the filter syntax read backwards.
\<close>

section \<open>Printing select lists\<close>

fun print_column :: "select_column \<Rightarrow> string" where
  "print_column SelAll = ''*''"
| "print_column (SelColumn name) = name"
| "print_column (SelAliased alias column) = alias @ '':'' @ column"
| "print_column (SelEmbed name hint cols alias) =
     (case alias of Some a \<Rightarrow> a @ '':'' | None \<Rightarrow> []) @ name @
     (case hint of Some h \<Rightarrow> ''!'' @ h | None \<Rightarrow> []) @
     ''('' @ join '','' (map print_column cols) @ '')''"

abbreviation print_select :: "select_column list \<Rightarrow> string" where
  "print_select cols \<equiv> join '','' (map print_column cols)"

definition name_char :: "char \<Rightarrow> bool" where
  "name_char c \<longleftrightarrow> is_ascii_alphanumeric c \<or> c = CHR ''_''"

definition plain_name :: "string \<Rightarrow> bool" where
  "plain_name x \<longleftrightarrow> x \<noteq> [] \<and> list_all name_char x"

fun wf_column :: "select_column \<Rightarrow> bool" where
  "wf_column SelAll \<longleftrightarrow> True"
| "wf_column (SelColumn name) \<longleftrightarrow> plain_name name"
| "wf_column (SelAliased alias column) \<longleftrightarrow> plain_name alias \<and> plain_name column"
| "wf_column (SelEmbed name hint cols alias) \<longleftrightarrow>
     plain_name name \<and> (case hint of Some h \<Rightarrow> plain_name h | None \<Rightarrow> True) \<and>
     (case alias of Some a \<Rightarrow> plain_name a | None \<Rightarrow> True) \<and> cols \<noteq> [] \<and> list_all wf_column cols"

lemma name_char_not [simp]:
  "\<not> name_char CHR ''(''" "\<not> name_char CHR '')''" "\<not> name_char CHR '',''" "\<not> name_char CHR '':''"
  "\<not> name_char CHR ''!''" "\<not> name_char CHR ''*''"
  by (simp_all add: name_char_def ascii_class_defs)

lemma plain_name_notin: "plain_name x \<Longrightarrow> \<not> name_char c \<Longrightarrow> c \<notin> set x"
  by (auto simp: plain_name_def list_all_iff)

text \<open>Visible ASCII: what every printed item is made of.\<close>

definition visible :: "char \<Rightarrow> bool" where
  "visible c \<longleftrightarrow> is_ascii c \<and> 32 < byte c"

lemma name_char_visible: "name_char c \<Longrightarrow> visible c"
  by (auto simp: name_char_def visible_def ascii_class_defs)

lemma plain_name_visible: "plain_name x \<Longrightarrow> list_all visible x"
  by (auto simp: plain_name_def list_all_iff name_char_visible)

lemma visible_delims [simp]:
  "visible CHR ''(''" "visible CHR '')''" "visible CHR '',''" "visible CHR '':''" "visible CHR ''!''" "visible CHR ''*''"
  by (simp_all add: visible_def is_ascii_def)

lemma visible_join: "list_all (list_all visible) ts \<Longrightarrow> list_all visible (join '','' ts)"
  by (induction ts) (auto simp: join_Cons)

lemma visible_column: "wf_column c \<Longrightarrow> list_all visible (print_column c)"
proof (induction c)
  case (SelEmbed name hint cols al)
  then have "list_all visible (join '','' (map print_column cols))"
    by (intro visible_join) (auto simp: list_all_iff)
  with SelEmbed.prems show ?case by (auto simp: plain_name_visible split: option.splits)
qed (auto simp: plain_name_visible)

lemma ws_len_visible: "list_all visible s \<Longrightarrow> ws_len s = 0"
  by (cases s) (auto simp: ws_len_ascii visible_def)

lemma trim_visible:
  assumes "list_all visible s"
  shows "trim s = s"
proof (rule trim_id)
  have "list_all visible (drop n s)" for n
    using assms by (auto simp: list_all_iff dest: in_set_dropD)
  then show "ws_len_end s = 0" by (simp add: ws_len_end_def Let_def ws_len_visible)
qed (rule ws_len_visible [OF assms])

lemma column_nonempty: "wf_column c \<Longrightarrow> print_column c \<noteq> []"
  by (cases c) (auto simp: plain_name_def)

section \<open>The scan over a printed list\<close>

definition through :: "int \<Rightarrow> string \<Rightarrow> bool" where
  "through d t \<longleftrightarrow> (\<forall>cur s. split_items d cur (t @ s) = split_items d (cur @ t) s)"

lemma through_append: "through d s \<Longrightarrow> through d t \<Longrightarrow> through d (s @ t)"
  by (simp add: through_def)

lemma through_Nil: "through d []"
  by (simp add: through_def)

lemma through_Cons:
  "c \<noteq> CHR ''('' \<Longrightarrow> c \<noteq> CHR '')'' \<Longrightarrow> c = CHR '','' \<longrightarrow> d \<noteq> 0 \<Longrightarrow> through d t \<Longrightarrow> through d (c # t)"
  by (cases "c = CHR '',''") (simp_all add: through_def)

lemma through_plain: "CHR ''('' \<notin> set t \<Longrightarrow> CHR '')'' \<notin> set t \<Longrightarrow> CHR '','' \<notin> set t \<Longrightarrow> through d t"
  by (induction t) (auto simp: through_def)

lemma through_name: "plain_name x \<Longrightarrow> through d x"
  by (auto intro: through_plain simp: plain_name_notin)

lemma through_parens: "through (d + 1) t \<Longrightarrow> through d (''('' @ t @ '')'')"
  by (simp add: through_def)

lemma through_join: "d \<noteq> 0 \<Longrightarrow> list_all (through d) ts \<Longrightarrow> through d (join '','' ts)"
proof (induction ts)
  case (Cons t ts)
  then show ?case by (auto simp: join_Cons intro!: through_append through_Cons)
qed (simp add: through_Nil)

lemma through_column: "wf_column c \<Longrightarrow> 0 \<le> d \<Longrightarrow> through d (print_column c)"
proof (induction c arbitrary: d)
  case (SelEmbed name hint cols al)
  have "list_all (through (d + 1)) (map print_column cols)"
    using SelEmbed by (auto simp: list_all_iff)
  then have inner: "through d (''('' @ join '','' (map print_column cols) @ '')'')"
    using SelEmbed.prems(2) by (intro through_parens through_join) auto
  have "through d (case al of Some a \<Rightarrow> a @ '':'' | None \<Rightarrow> [])" "through d name"
    "through d (case hint of Some h \<Rightarrow> ''!'' @ h | None \<Rightarrow> [])"
    using SelEmbed.prems
    by (auto simp: through_Nil through_name intro!: through_append through_Cons split: option.split)
  then show ?case unfolding print_column.simps by (intro through_append inner)
next
  case (SelAliased a c)
  have "through d '':''" by (auto intro: through_plain)
  with SelAliased show ?case unfolding print_column.simps by (intro through_append) (auto simp: through_name)
qed (auto simp: through_name intro: through_plain)

lemma split_items_join:
  "list_all (\<lambda>t. through 0 t \<and> trim t \<noteq> []) ts \<Longrightarrow> split_items 0 [] (join '','' ts) = ts"
proof (induction ts)
  case (Cons t ts)
  then have t: "split_items 0 [] (t @ s) = split_items 0 t s" for s by (simp add: through_def)
  from Cons t [of "[]"] t show ?case by (cases "ts = []") (auto simp: join_Cons)
qed (simp add: trim_visible)

section \<open>One item\<close>

lemma ends_with_snoc: "ends_with [c] (s @ [c])"
  by (simp add: ends_with_def)

lemma parse_single_embed:
  assumes "wf_column (SelEmbed name hint cols al)"
    and "inner (print_select cols) = Ok cols"
  shows "parse_single_select_item inner (print_column (SelEmbed name hint cols al)) =
    Ok (SelEmbed name hint cols al)"
proof -
  let ?hd = "(case al of Some a \<Rightarrow> a @ '':'' | None \<Rightarrow> []) @ name @ (case hint of Some h \<Rightarrow> ''!'' @ h | None \<Rightarrow> [])"
  let ?it = "?hd @ CHR ''('' # print_select cols @ '')''"
  have it: "print_column (SelEmbed name hint cols al) = ?it" by simp
  have vis: "list_all visible ?it" using visible_column [OF assms(1)] by (simp only: it)
  have names: "plain_name name" "\<And>h. hint = Some h \<Longrightarrow> plain_name h" "\<And>a. al = Some a \<Longrightarrow> plain_name a"
    using assms(1) by auto
  have no: "CHR ''('' \<notin> set ?hd" using names by (auto simp: plain_name_notin split: option.splits)
  have fc: "find_char CHR ''('' ?it = Some (length ?hd)" by (rule find_char_append [OF no])
  have ew: "ends_with '')'' ?it" using ends_with_snoc [of "CHR '')''" "?hd @ CHR ''('' # print_select cols"] by simp
  have star: "?it \<noteq> ''*''" by (cases al; cases name) (use names in \<open>auto simp: plain_name_def\<close>)
  have tk: "take (length ?it - 1 - (length ?hd + 1)) (drop (length ?hd + 1) ?it) = print_select cols" by simp
  have nh: "name @ (case hint of Some h \<Rightarrow> ''!'' @ h | None \<Rightarrow> []) \<noteq> []" using names by (simp add: plain_name_def)
  let ?nh = "name @ (case hint of Some h \<Rightarrow> ''!'' @ h | None \<Rightarrow> [])"
  have tnh: "trim ?nh = ?nh"
    using names by (intro trim_visible) (auto simp: plain_name_visible split: option.split)
  have colon: "CHR '':'' \<notin> set ?nh" using names by (auto simp: plain_name_notin split: option.split)
  have al: "(case find_char CHR '':'' ?hd of
        Some p \<Rightarrow> (Some (trim (take p ?hd)), trim (drop (p + 1) ?hd)) | None \<Rightarrow> (None, trim ?hd)) = (al, ?nh)"
  proof (cases al)
    case None
    then show ?thesis using colon tnh by (simp add: find_char_None [THEN iffD2])
  next
    case (Some a)
    then have "find_char CHR '':'' (a @ CHR '':'' # ?nh) = Some (length a)"
      using names by (intro find_char_append) (simp add: plain_name_notin)
    with Some names tnh show ?thesis by (simp add: trim_visible plain_name_visible)
  qed
  have hi: "(case find_char CHR ''!'' ?nh of
        Some p \<Rightarrow> (take p ?nh, Some (drop (p + 1) ?nh)) | None \<Rightarrow> (?nh, None)) = (name, hint)"
  proof (cases hint)
    case None
    then show ?thesis using names by (simp add: find_char_None [THEN iffD2] plain_name_notin)
  next
    case (Some h)
    then have "find_char CHR ''!'' (name @ CHR ''!'' # h) = Some (length name)"
      using names by (intro find_char_append) (simp add: plain_name_notin)
    with Some show ?thesis by simp
  qed
  have hd: "take (length ?hd) ?it = ?hd" by simp
  have nm: "name \<noteq> []" using names by (simp add: plain_name_def)
  show ?thesis
    unfolding it parse_single_select_item_def Let_def trim_visible [OF vis] fc option.case hd tk al hi case_prod_conv
    using star ew nm assms(2) by (simp add: hi)
qed

lemma parse_single_plain:
  assumes "wf_column c" "\<not> is_embed c"
  shows "parse_single_select_item inner (print_column c) = Ok c"
proof (cases c)
  case (SelColumn name)
  then have "name \<noteq> ''*''" using assms by (auto simp: plain_name_def)
  with SelColumn assms show ?thesis
    by (simp add: parse_single_select_item_def Let_def trim_visible plain_name_visible
        find_char_None [THEN iffD2] plain_name_notin)
next
  case (SelAliased a x)
  then have n: "plain_name a" "plain_name x" using assms by auto
  have vis: "list_all visible (a @ CHR '':'' # x)" using n by (simp add: plain_name_visible)
  have "find_char CHR '':'' (a @ CHR '':'' # x) = Some (length a)"
    using n by (intro find_char_append) (simp add: plain_name_notin)
  moreover have "find_char CHR ''('' (a @ CHR '':'' # x) = None"
    using n by (simp add: find_char_None plain_name_notin)
  moreover have "a @ CHR '':'' # x \<noteq> ''*''" using n by (cases a) (auto simp: plain_name_def)
  ultimately show ?thesis
    using SelAliased n trim_visible [OF vis]
    by (simp add: parse_single_select_item_def Let_def trim_visible plain_name_visible plain_name_def)
qed (use assms in \<open>auto simp: parse_single_select_item_def Let_def trim_visible\<close>)

section \<open>Select round trip\<close>

lemma print_select_nonempty:
  "cols \<noteq> [] \<Longrightarrow> list_all wf_column cols \<Longrightarrow> print_select cols \<noteq> []"
  by (cases cols) (auto simp: join_Cons column_nonempty)

lemma items_parse:
  assumes "cols \<noteq> []" "list_all wf_column cols"
    and each: "\<And>c. c \<in> set cols \<Longrightarrow> parse_single_select_item parse_select_items (print_column c) = Ok c"
  shows "parse_select_items (print_select cols) = Ok cols"
proof -
  let ?ts = "map print_column cols"
  have wf: "wf_column c" if "c \<in> set cols" for c using assms(2) that by (auto simp: list_all_iff)
  have "list_all2 (\<lambda>t c. parse_single_select_item parse_select_items t = Ok c) ?ts cols"
    using each by (auto simp: list_all2_map1 intro!: list.rel_refl_strong)
  moreover have "split_items 0 [] (print_select cols) = ?ts"
  proof (rule split_items_join, unfold list_all_iff, rule ballI)
    fix t assume "t \<in> set ?ts"
    then obtain c where c: "wf_column c" "t = print_column c" using wf by auto
    then have "trim t = t" by (simp add: trim_visible visible_column)
    with c show "through 0 t \<and> trim t \<noteq> []" by (simp add: through_column column_nonempty)
  qed
  moreover have "list_all visible (print_select cols)"
    using wf by (intro visible_join) (auto simp: list_all_iff dest: visible_column [unfolded list_all_iff])
  ultimately show ?thesis
    using assms(1) print_select_nonempty [OF assms(1,2)]
    by (simp add: parse_select_items.simps [of "print_select cols"] trim_visible
        collect_results_Ok_iff [THEN iffD2])
qed

lemma column_parses:
  "wf_column c \<Longrightarrow> parse_single_select_item parse_select_items (print_column c) = Ok c"
proof (induction c)
  case (SelEmbed name hint cols al)
  then have "parse_select_items (print_select cols) = Ok cols"
    by (intro items_parse) (auto simp: list_all_iff)
  with SelEmbed.prems show ?case by (rule parse_single_embed)
qed (rule parse_single_plain; simp)+

text \<open>
  Every select list the grammar can write is read back as it is: printing a non-empty list of
  columns, aliases and (nested) embeds with plain names and parsing the text with
  \<open>parse_select\<close> gives the same list.
\<close>

theorem parse_select_roundtrip:
  assumes "cols \<noteq> []" "list_all wf_column cols"
  shows "parse_select (print_select cols) = Ok cols"
  unfolding parse_select_def
  using assms by (intro items_parse column_parses) (auto simp: list_all_iff)

definition sample_select :: "select_column list" where
  "sample_select = [SelColumn ''id'', SelAliased ''who'' ''user_id'',
     SelEmbed ''author'' (Some ''fk_author'') [SelAll, SelEmbed ''team'' None [SelColumn ''name''] None] (Some ''by'')]"

lemma parse_select_roundtrip_witness:
  "parse_select ''id,who:user_id,by:author!fk_author(*,team(name))'' = Ok sample_select"
proof -
  have "list_all wf_column sample_select"
    by (simp add: sample_select_def plain_name_def name_char_def ascii_class_defs)
  then have "parse_select (print_select sample_select) = Ok sample_select"
    by (intro parse_select_roundtrip) (simp add: sample_select_def)
  then show ?thesis by (simp add: sample_select_def)
qed

section \<open>Pagination\<close>

text \<open>
  No request reads more than the configured maximum of rows: whatever \<open>limit\<close>, \<open>offset\<close>
  and \<open>Range\<close> a request carries, an accepted pagination has a limit of at most
  \<open>max_limit\<close>.
\<close>

theorem parse_pagination_bounded:
  assumes "parse_pagination params hs config = Ok p"
  shows "pg_limit p \<le> cfg_max_limit config"
  using assms
  by (auto simp: parse_pagination_def clamp_pagination_def split: option.splits if_splits)

lemma parse_pagination_bounded_witness:
  "parse_pagination [(''limit'', ''5000''), (''offset'', ''20'')] (\<lambda>_. None) \<lparr>cfg_max_limit = 1000,
     cfg_default_limit = 100, cfg_max_embed_depth = 3\<rparr> = Ok \<lparr>pg_limit = 1000, pg_offset = 20\<rparr> \<and>
   pg_limit \<lparr>pg_limit = 1000, pg_offset = 20\<rparr> \<le> (1000 :: u32)"
proof
  let ?c = "\<lparr>cfg_max_limit = 1000, cfg_default_limit = 100, cfg_max_embed_depth = 3\<rparr>"
  show p: "parse_pagination [(''limit'', ''5000''), (''offset'', ''20'')] (\<lambda>_. None) ?c =
      Ok \<lparr>pg_limit = 1000, pg_offset = 20\<rparr>"
    by code_simp
  show "pg_limit \<lparr>pg_limit = 1000, pg_offset = 20\<rparr> \<le> (1000 :: u32)"
    using parse_pagination_bounded [OF p] by simp
qed

lemma parse_u32_bound: "parse_u32 s = Some n \<Longrightarrow> n < 2 ^ 32"
  by (auto simp: parse_unsigned_def Let_def split: if_splits)

lemma range_span:
  assumes "m \<le> n" "n < 2 ^ 32"
  shows "unat (of_nat n - of_nat m + 1 :: u32) = (if m = 0 \<and> n = 4294967295 then 0 else n - m + 1)"
proof -
  have "(of_nat n - of_nat m + 1 :: u32) = of_nat (n - m + 1)" using assms by simp
  moreover have "unat (of_nat (n - m + 1) :: u32) = (n - m + 1) mod 2 ^ 32" by (subst unat_of_nat) simp
  moreover have "(n - m + 1) mod 2 ^ 32 = (if m = 0 \<and> n = 4294967295 then 0 else n - m + 1)"
    using assms by auto
  ultimately show ?thesis by metis
qed

text \<open>
  What a \<open>Range\<close> header means: an accepted header \<open>a-b\<close> (or \<open>items=a-b\<close>) is read as
  offset \<open>a\<close> and limit \<open>b - a + 1\<close>, the number of rows from \<open>a\<close> to \<open>b\<close> inclusive, with
  one exception: \<open>0-4294967295\<close> is read as limit 0, where the unchecked \<open>+ 1\<close> wraps.
\<close>

theorem range_header_meaning:
  assumes "parse_range_header hs = Ok (Some p)"
  shows "\<exists>hdr a b. hs ''range'' = Some (HText hdr) \<and>
    split_char CHR ''-'' (case strip_prefix ''items='' hdr of Some r \<Rightarrow> r | None \<Rightarrow> hdr) = [a, b] \<and>
    (\<exists>m n. parse_u32 a = Some m \<and> parse_u32 b = Some n \<and> m \<le> n \<and> n < 2 ^ 32 \<and>
      unat (pg_offset p) = m \<and>
      unat (pg_limit p) = (if m = 0 \<and> n = 4294967295 then 0 else n - m + 1))"
proof -
  obtain hdr where hdr: "hs ''range'' = Some (HText hdr)"
    using assms by (auto simp: parse_range_header_def split: option.splits header_value.splits)
  let ?parts = "split_char CHR ''-'' (case strip_prefix ''items='' hdr of Some r \<Rightarrow> r | None \<Rightarrow> hdr)"
  from assms hdr have len: "length ?parts = 2"
    by (auto simp: parse_range_header_def Let_def split: if_splits)
  then obtain a b where ab: "?parts = [a, b]" by (auto simp: numeral_2_eq_2 length_Suc_conv)
  from assms hdr ab obtain m n where mn: "parse_u32 a = Some m" "parse_u32 b = Some n"
      "\<not> (of_nat n :: u32) < of_nat m" "p = \<lparr>pg_limit = of_nat n - of_nat m + 1, pg_offset = of_nat m\<rparr>"
    by (auto simp: parse_range_header_def Let_def parse_word_def split: if_splits)
  note b = mn(1,2) [THEN parse_u32_bound]
  then have le: "m \<le> n" using mn(3) by (simp add: word_less_nat_alt unat_of_nat)
  show ?thesis using hdr ab mn b le range_span [OF le b(2)] by (auto simp: unat_of_nat)
qed

lemma range_header_meaning_witness:
  "parse_range_header [''range'' \<mapsto> HText ''items=0-4294967295''] = Ok (Some \<lparr>pg_limit = 0, pg_offset = 0\<rparr>) \<and>
   (\<exists>hdr. [''range'' \<mapsto> HText ''items=0-4294967295''] ''range'' = Some (HText hdr))"
proof
  let ?hs = "[''range'' \<mapsto> HText ''items=0-4294967295'']"
  show r: "parse_range_header ?hs = Ok (Some \<lparr>pg_limit = 0, pg_offset = 0\<rparr>)" by code_simp
  show "\<exists>hdr. ?hs ''range'' = Some (HText hdr)" using range_header_meaning [OF r] by blast
qed

end
