(* ===== verification/Sql_Lex.thy ===== *)
theory Sql_Lex
  imports Rust_Str
begin

text \<open>
  A reader of SQL text, for the statements the server builds by concatenation: which characters
  are inside quotes, how many parentheses are open, where a comment or another statement would
  start. A \<open>sealed\<close> text leaves the reader as it found it, so it can be placed in a statement
  without changing how the rest of the statement is read.
\<close>

text \<open>
  \<open>Plain d m\<close>: outside quotes with \<open>d\<close> parentheses open, \<open>m\<close> tells of a minus or dollar sign
  just before; \<open>InText\<close> and \<open>InName\<close>: inside single and double quotes (a doubled quote leaves and
  enters again); \<open>Broken\<close>: a comment, a separator, a dollar quote or a parenthesis too many.
\<close>

datatype mark = NoMark | AfterMinus | AfterDollar

datatype lex = Plain nat mark | InText nat | InName nat | Broken

fun lex_step :: "lex \<Rightarrow> char \<Rightarrow> lex" where
  "lex_step (Plain d m) c =
     (if m = AfterDollar \<and> \<not> is_ascii_digit c then Broken
      else if c = CHR 0x27 then InText d
      else if c = CHR 0x22 then InName d
      else if c = CHR ''('' then Plain (Suc d) NoMark
      else if c = CHR '')'' then (if d = 0 then Broken else Plain (d - 1) NoMark)
      else if c = CHR ''-'' then (if m = AfterMinus then Broken else Plain d AfterMinus)
      else if c = CHR ''$'' then Plain d AfterDollar
      else if c = CHR '';'' \<or> c = CHR ''/'' \<or> c = CHR 0x5C then Broken
      else Plain d NoMark)"
| "lex_step (InText d) c = (if c = CHR 0x27 then Plain d NoMark else InText d)"
| "lex_step (InName d) c = (if c = CHR 0x22 then Plain d NoMark else InName d)"
| "lex_step Broken c = Broken"

definition lex_text :: "lex \<Rightarrow> string \<Rightarrow> lex" where
  "lex_text l t = foldl lex_step l t"

text \<open>A text that reads as one operand: not empty, and not starting with a minus.\<close>

definition sealed :: "string \<Rightarrow> bool" where
  "sealed t \<longleftrightarrow> t \<noteq> [] \<and> hd t \<noteq> CHR ''-'' \<and>
     (\<forall>d m. m \<noteq> AfterDollar \<longrightarrow> lex_text (Plain d m) t = Plain d NoMark)"

lemma lex_text_append: "lex_text l (s @ t) = lex_text (lex_text l s) t"
  by (simp add: lex_text_def)

lemma lex_text_Cons [simp]: "lex_text l (c # t) = lex_text (lex_step l c) t"
  by (simp add: lex_text_def)

lemma lex_text_Nil [simp]: "lex_text l [] = l"
  by (simp add: lex_text_def)

lemma lex_sealed:
  "sealed t \<Longrightarrow> m \<noteq> AfterDollar \<Longrightarrow> lex_text (Plain d m) (t @ u) = lex_text (Plain d NoMark) u"
  by (simp add: sealed_def lex_text_append)

lemma lex_sealed0: "sealed t \<Longrightarrow> m \<noteq> AfterDollar \<Longrightarrow> lex_text (Plain d m) t = Plain d NoMark"
  by (simp add: sealed_def)

definition plain_char :: "char \<Rightarrow> bool" where
  "plain_char c \<longleftrightarrow>
     c \<notin> {CHR 0x27, CHR 0x22, CHR ''('', CHR '')'', CHR ''-'', CHR '';'', CHR ''/'', CHR ''$'', CHR 0x5C}"

lemma lex_plain:
  "list_all plain_char t \<Longrightarrow> m \<noteq> AfterDollar \<Longrightarrow>
     lex_text (Plain d m) t = Plain d (if t = [] then m else NoMark)"
  by (induction t arbitrary: m) (auto simp: plain_char_def)

lemma sealed_plain: "t \<noteq> [] \<Longrightarrow> list_all plain_char t \<Longrightarrow> sealed t"
  using lex_plain [of t] by (cases t) (auto simp: sealed_def plain_char_def simp del: lex_text_Cons)

lemma digit_plain [simp]: "is_ascii_digit c \<Longrightarrow> plain_char c"
  by (auto simp: plain_char_def ascii_class_defs)

lemma show_nat_plain [simp]: "list_all plain_char (show_nat n)"
  using show_nat_digits [of n] by (auto simp: list_all_iff)

lemma lex_in_name: "CHR 0x22 \<notin> set x \<Longrightarrow> lex_text (InName d) (x @ t) = lex_text (InName d) t"
  by (induction x) auto

lemma lex_in_text: "CHR 0x27 \<notin> set x \<Longrightarrow> lex_text (InText d) (x @ t) = lex_text (InText d) t"
  by (induction x) auto

section \<open>Quoting\<close>

definition squoted :: "string \<Rightarrow> string" where
  "squoted s = CHR 0x27 # s @ [CHR 0x27]"

definition escape_quotes :: "string \<Rightarrow> string" where
  "escape_quotes s = replace_char (CHR 0x27) [CHR 0x27, CHR 0x27] s"

definition dquoted :: "string \<Rightarrow> string" where
  "dquoted s = CHR 0x22 # s @ [CHR 0x22]"

lemma sealed_dquoted: "CHR 0x22 \<notin> set x \<Longrightarrow> sealed (dquoted x)"
  by (simp add: sealed_def dquoted_def lex_in_name)

lemma sealed_squoted: "CHR 0x27 \<notin> set x \<Longrightarrow> sealed (squoted x)"
  by (simp add: sealed_def squoted_def lex_in_text)

text \<open>Whatever the string, escaping its quotes makes the quoted text one literal.\<close>

lemma lex_escaped: "lex_text (InText d) (escape_quotes s) = InText d"
  unfolding escape_quotes_def by (induction s) simp_all

lemma sealed_escaped: "sealed (squoted (escape_quotes s))"
  by (simp add: sealed_def squoted_def lex_text_append lex_escaped)

text \<open>A placeholder of a bound parameter.\<close>

definition placeholder :: "nat \<Rightarrow> string" where
  "placeholder n = CHR ''$'' # show_nat n"

lemma sealed_placeholder: "sealed (placeholder n)"
proof -
  have "lex_text (Plain d AfterDollar) (show_nat n) = Plain d NoMark" for d
  proof -
    obtain c u where cu: "show_nat n = c # u" by (cases "show_nat n") auto
    then have c: "is_ascii_digit c" and u: "list_all plain_char u"
      using show_nat_digits [of n] show_nat_plain [of n] by auto
    have "lex_step (Plain d AfterDollar) c = Plain d NoMark"
      using c digit_plain [OF c] by (auto simp: plain_char_def)
    with u show ?thesis by (simp add: cu lex_plain)
  qed
  then show ?thesis by (simp add: sealed_def placeholder_def)
qed

section \<open>Composition\<close>

lemma sealed_parens:
  assumes "\<And>d. lex_text (Plain (Suc d) NoMark) t = Plain (Suc d) NoMark"
  shows "sealed (''('' @ t @ '')'')"
  using assms by (simp add: sealed_def lex_text_append)

text \<open>A text between two sealed ones that neither opens nor closes anything.\<close>

lemma sealed_append:
  "sealed s \<Longrightarrow> list_all plain_char g \<Longrightarrow> sealed t \<Longrightarrow> sealed (s @ g @ t)"
  by (simp add: sealed_def lex_text_append lex_plain)

lemma sealed_plain_append: "sealed s \<Longrightarrow> list_all plain_char g \<Longrightarrow> sealed (s @ g)"
  by (simp add: sealed_def lex_text_append lex_plain)

lemma sealed_join:
  "list_all sealed ts \<Longrightarrow> list_all plain_char sep \<Longrightarrow> ts \<noteq> [] \<Longrightarrow> sealed (join sep ts)"
proof (induction ts)
  case (Cons t ts)
  then show ?case by (cases "ts = []") (simp_all add: join_Cons sealed_append)
qed simp

lemma lex_join:
  assumes "list_all sealed ts" "list_all plain_char sep"
  shows "lex_text (Plain d NoMark) (join sep ts) = Plain d NoMark"
proof (cases "ts = []")
  case False
  from sealed_join [OF assms False] show ?thesis by (simp add: lex_sealed0)
qed simp

end
