(* ===== verification/Data_Sql.thy ===== *)
theory Data_Sql
  imports Data_Query Sql_Lex F64
begin

text \<open>
  The SQL statements of the data API (\<open>crates/reactor-data/src/execute/format.rs\<close>), the schema
  snapshot they are built against (\<open>store/mod.rs\<close>) and the column check
  (\<open>execute/mod.rs\<close>). A statement is its text and the list of its bound parameters. The UUID
  parser of the \<open>uuid\<close> crate is the parameter \<open>uuid\<close>: the canonical text of the UUID a string
  holds, if it holds one.
\<close>

section \<open>Schema and parameters (store/mod.rs)\<close>

datatype sql_param =
    SvNull | SvNullUuid | SvNullInt | SvNullJson | SvBool bool | SvInt int | SvFloat f64
  | SvText string | SvUuid string | SvTimestamp string | SvJson json | SvBytes string

record column_info =
  ci_name :: string
  ci_sql_type :: string
  ci_nullable :: bool
  ci_default :: "string option"

record foreign_key =
  fk_name :: string
  fk_columns :: "string list"
  fk_ref_table :: string
  fk_ref_columns :: "string list"
  fk_on_delete :: string

record index_info =
  ix_name :: string
  ix_columns :: "string list"
  ix_unique :: bool

record table_snapshot =
  tb_schema :: string
  tb_name :: string
  tb_columns :: "column_info list"
  tb_primary_key :: "string list"
  tb_foreign_keys :: "foreign_key list"
  tb_indexes :: "index_info list"

text \<open>The \<open>HashMap\<close> of tables, as its entries in iteration order.\<close>

type_synonym schema_snapshot = "(string \<times> table_snapshot) list"

definition get_table :: "schema_snapshot \<Rightarrow> string \<Rightarrow> table_snapshot option" where
  "get_table snapshot name = map_of snapshot name"

definition column_names :: "table_snapshot \<Rightarrow> string list" where
  "column_names t = map ci_name (tb_columns t)"

section \<open>Values\<close>

definition text_param :: "(string \<Rightarrow> string option) \<Rightarrow> string \<Rightarrow> sql_param" where
  "text_param uuid s = (case uuid s of Some u \<Rightarrow> SvUuid u | None \<Rightarrow> SvText s)"

fun json_to_sql_value :: "(string \<Rightarrow> string option) \<Rightarrow> json option \<Rightarrow> sql_param" where
  "json_to_sql_value uuid None = SvNull"
| "json_to_sql_value uuid (Some JNull) = SvNull"
| "json_to_sql_value uuid (Some (JBool b)) = SvBool b"
| "json_to_sql_value uuid (Some (JNumber n)) =
     (case num_i64 n of Some i \<Rightarrow> SvInt i
      | None \<Rightarrow> (case num_f64 n of Some f \<Rightarrow> SvFloat f | None \<Rightarrow> SvText (num_text n)))"
| "json_to_sql_value uuid (Some (JString s)) = text_param uuid s"
| "json_to_sql_value uuid (Some v) = SvJson v"

fun filter_value_to_sql :: "(string \<Rightarrow> string option) \<Rightarrow> filter_value \<Rightarrow> sql_param" where
  "filter_value_to_sql uuid FvNull = SvNull"
| "filter_value_to_sql uuid (FvBool b) = SvBool b"
| "filter_value_to_sql uuid (FvInt i) = SvInt i"
| "filter_value_to_sql uuid (FvFloat f) = SvFloat f"
| "filter_value_to_sql uuid (FvString s) = text_param uuid s"
| "filter_value_to_sql uuid (FvList _) = SvNull"

section \<open>Filters\<close>

text \<open>
  The body that \<open>build_filter_expr\<close> and \<open>build_filter_expr_aliased\<close> share: \<open>col\<close> is the
  column reference, the only thing in which they differ.
\<close>

definition filter_sql ::
  "(string \<Rightarrow> string option) \<Rightarrow> string \<Rightarrow> filter_expr \<Rightarrow> nat \<Rightarrow> (string \<times> sql_param list, data_error) result" where
  "filter_sql uuid col f param_offset =
     (case flt_op f of
        FIs \<Rightarrow>
          and_then (case flt_value f of
              FvNull \<Rightarrow> Ok ''NULL''
            | FvBool b \<Rightarrow> Ok (if b then ''TRUE'' else ''FALSE'')
            | _ \<Rightarrow> Err (InvalidFilter ''IS requires null/true/false'')) (\<lambda>v.
          Ok (if flt_negated f then col @ '' IS NOT '' @ v else col @ '' IS '' @ v, []))
      | FIn \<Rightarrow>
          and_then (case flt_value f of
              FvList items \<Rightarrow> Ok items
            | _ \<Rightarrow> Err (InvalidFilter ''IN requires a list'')) (\<lambda>items.
          let placeholders = join '', '' (map (\<lambda>i. placeholder (param_offset + i + 1)) [0..<length items]) in
          Ok (if flt_negated f then col @ '' NOT IN ('' @ placeholders @ '')''
              else col @ '' IN ('' @ placeholders @ '')'',
              map (filter_value_to_sql uuid) items))
      | op \<Rightarrow>
          let e = col @ '' '' @ filter_op_sql op @ '' '' @ placeholder (param_offset + 1) in
          Ok (if flt_negated f then ''NOT ('' @ e @ '')'' else e, [filter_value_to_sql uuid (flt_value f)]))"

definition build_filter_expr ::
  "(string \<Rightarrow> string option) \<Rightarrow> filter_expr \<Rightarrow> nat \<Rightarrow> (string \<times> sql_param list, data_error) result" where
  "build_filter_expr uuid f param_offset = filter_sql uuid (dquoted (flt_column f)) f param_offset"

definition build_filter_expr_aliased ::
  "(string \<Rightarrow> string option) \<Rightarrow> string \<Rightarrow> filter_expr \<Rightarrow> nat \<Rightarrow> (string \<times> sql_param list, data_error) result" where
  "build_filter_expr_aliased uuid alias f param_offset =
     filter_sql uuid (dquoted alias @ ''.'' @ dquoted (flt_column f)) f param_offset"

text \<open>The loop of \<open>build_where\<close> and \<open>build_where_aliased\<close>.\<close>

fun where_loop ::
  "(filter_expr \<Rightarrow> nat \<Rightarrow> (string \<times> 'p list, 'e) result) \<Rightarrow> nat \<Rightarrow> string list \<Rightarrow> 'p list \<Rightarrow>
   filter_expr list \<Rightarrow> (string list \<times> 'p list, 'e) result" where
  "where_loop render param_offset parts params [] = Ok (parts, params)"
| "where_loop render param_offset parts params (f # fs) =
     and_then (render f (param_offset + length params)) (\<lambda>(expr, filter_params).
       where_loop render param_offset (parts @ [expr]) (params @ filter_params) fs)"

definition where_clause ::
  "(filter_expr \<Rightarrow> nat \<Rightarrow> (string \<times> 'p list, 'e) result) \<Rightarrow> filter_expr list \<Rightarrow> nat \<Rightarrow>
   (string \<times> 'p list, 'e) result" where
  "where_clause render filters param_offset =
     and_then (where_loop render param_offset [] [] filters) (\<lambda>(parts, params).
       Ok (join '' AND '' parts, params))"

definition build_where ::
  "(string \<Rightarrow> string option) \<Rightarrow> filter_expr list \<Rightarrow> nat \<Rightarrow> (string \<times> sql_param list, data_error) result" where
  "build_where uuid filters param_offset = where_clause (build_filter_expr uuid) filters param_offset"

definition build_where_aliased ::
  "(string \<Rightarrow> string option) \<Rightarrow> filter_expr list \<Rightarrow> nat \<Rightarrow> string \<Rightarrow>
   (string \<times> sql_param list, data_error) result" where
  "build_where_aliased uuid filters param_offset alias =
     where_clause (build_filter_expr_aliased uuid alias) filters param_offset"

text \<open>
  The \<open>WHERE\<close> clause of a statement, written out in each builder: the filters, numbered after
  the parameters the statement has already, and the policy predicate in parentheses.
\<close>

definition where_sql ::
  "(filter_expr list \<Rightarrow> nat \<Rightarrow> (string \<times> 'p list, 'e) result) \<Rightarrow> query_plan \<Rightarrow> nat \<Rightarrow>
   (string \<times> 'p list, 'e) result" where
  "where_sql build plan bound =
     (if plan_filters plan = [] \<and> plan_policy plan = None then Ok ([], [])
      else
        and_then (if plan_filters plan = [] then Ok ([], [])
                  else and_then (build (plan_filters plan) bound) (\<lambda>(clause, params). Ok ([clause], params)))
          (\<lambda>(parts, params).
            let all_parts = parts @ (case plan_policy plan of
                  Some policy \<Rightarrow> [''('' @ policy @ '')''] | None \<Rightarrow> [])
            in Ok ('' WHERE '' @ join '' AND '' all_parts, params)))"

section \<open>Columns and order\<close>

fun column_sql :: "select_column \<Rightarrow> string" where
  "column_sql (SelColumn name) = dquoted name"
| "column_sql (SelAliased alias column) = dquoted column @ '' AS '' @ dquoted alias"
| "column_sql SelAll = ''*''"
| "column_sql (SelEmbed _ _ _ _) = []"

definition build_select_columns :: "select_column list \<Rightarrow> string" where
  "build_select_columns columns =
     (if columns = [] \<or> list_ex (\<lambda>c. c = SelAll) columns then ''*''
      else let non_embed = filter (\<lambda>c. \<not> is_embed c) columns in
        if non_embed = [] then ''*'' else join '', '' (map column_sql non_embed))"

fun column_sql_aliased :: "string \<Rightarrow> select_column \<Rightarrow> string" where
  "column_sql_aliased alias (SelColumn name) = dquoted alias @ ''.'' @ dquoted name"
| "column_sql_aliased alias (SelAliased col_alias column) =
     dquoted alias @ ''.'' @ dquoted column @ '' AS '' @ dquoted col_alias"
| "column_sql_aliased alias SelAll = dquoted alias @ ''.*''"
| "column_sql_aliased alias (SelEmbed _ _ _ _) = []"

definition build_select_columns_aliased :: "select_column list \<Rightarrow> string \<Rightarrow> string" where
  "build_select_columns_aliased columns alias =
     (if columns = [] \<or> list_ex (\<lambda>c. c = SelAll) columns then dquoted alias @ ''.*''
      else let non_embed = filter (\<lambda>c. \<not> is_embed c) columns in
        if non_embed = [] then dquoted alias @ ''.*''
        else join '', '' (map (column_sql_aliased alias) non_embed))"

definition order_part :: "string \<Rightarrow> order_column \<Rightarrow> string" where
  "order_part col c =
     col @ '' '' @ direction_sql (ord_direction c) @
     (case ord_nulls c of Some n \<Rightarrow> '' '' @ nulls_sql n | None \<Rightarrow> [])"

definition build_order :: "order_column list \<Rightarrow> string" where
  "build_order order = join '', '' (map (\<lambda>c. order_part (dquoted (ord_column c)) c) order)"

definition build_order_aliased :: "order_column list \<Rightarrow> string \<Rightarrow> string" where
  "build_order_aliased order alias =
     join '', '' (map (\<lambda>c. order_part (dquoted alias @ ''.'' @ dquoted (ord_column c)) c) order)"

definition limit_sql :: "pagination \<Rightarrow> string" where
  "limit_sql p = '' LIMIT '' @ show_nat (unat (pg_limit p)) @
     (if 0 < pg_offset p then '' OFFSET '' @ show_nat (unat (pg_offset p)) else [])"

section \<open>Statements\<close>

record sql_builder =
  sb_schema :: string
  sb_table :: string

definition qualified_table :: "sql_builder \<Rightarrow> string" where
  "qualified_table b = dquoted (sb_schema b) @ ''.'' @ dquoted (sb_table b)"

definition order_sql :: "string \<Rightarrow> query_plan \<Rightarrow> string" where
  "order_sql clause plan = (if plan_order plan = [] then [] else '' ORDER BY '' @ clause)"

definition build_select ::
  "(string \<Rightarrow> string option) \<Rightarrow> sql_builder \<Rightarrow> query_plan \<Rightarrow> (string \<times> sql_param list, data_error) result" where
  "build_select uuid b plan =
     and_then (where_sql (build_where uuid) plan 0) (\<lambda>(where_part, params).
       Ok (''SELECT '' @ build_select_columns (plan_select plan) @ '' FROM '' @ qualified_table b @
           where_part @ order_sql (build_order (plan_order plan)) plan @
           limit_sql (plan_pagination plan), params))"

definition build_count ::
  "(string \<Rightarrow> string option) \<Rightarrow> sql_builder \<Rightarrow> query_plan \<Rightarrow> (string \<times> sql_param list, data_error) result" where
  "build_count uuid b plan =
     and_then (where_sql (build_where uuid) plan 0) (\<lambda>(where_part, params).
       Ok (''SELECT COUNT(*) as count FROM '' @ qualified_table b @ where_part, params))"

definition returning_sql :: "prefer_header \<Rightarrow> query_plan \<Rightarrow> string" where
  "returning_sql prf plan =
     (if prf_return prf = Representation then '' RETURNING '' @ build_select_columns (plan_select plan) else [])"

text \<open>The columns an insert names: the keys of the rows, each once, in order of appearance.\<close>

fun insert_keys :: "table_snapshot \<Rightarrow> string list \<Rightarrow> string list \<Rightarrow> (string list, data_error) result" where
  "insert_keys t all_columns [] = Ok all_columns"
| "insert_keys t all_columns (key # keys) =
     (if key \<in> set all_columns then insert_keys t all_columns keys
      else if key \<notin> set (column_names t) then Err (ColumnNotFound key)
      else insert_keys t (all_columns @ [key]) keys)"

fun insert_columns :: "table_snapshot \<Rightarrow> string list \<Rightarrow> json list \<Rightarrow> (string list, data_error) result" where
  "insert_columns t all_columns [] = Ok all_columns"
| "insert_columns t all_columns (row # rows) =
     (case row of
        JObject obj \<Rightarrow> and_then (insert_keys t all_columns (map fst obj)) (\<lambda>cols. insert_columns t cols rows)
      | _ \<Rightarrow> insert_columns t all_columns rows)"

text \<open>The groups of values: \<open>bound\<close> is the number of parameters bound so far.\<close>

fun insert_values ::
  "(string \<Rightarrow> string option) \<Rightarrow> string list \<Rightarrow> nat \<Rightarrow> json list \<Rightarrow> string list \<times> sql_param list" where
  "insert_values uuid cols bound [] = ([], [])"
| "insert_values uuid cols bound (row # rows) =
     (case row of
        JObject obj \<Rightarrow>
          let params = map (\<lambda>c. json_to_sql_value uuid (map_of obj c)) cols;
              group = ''('' @ join '', '' (map (\<lambda>i. placeholder (bound + i + 1)) [0..<length cols]) @ '')'';
              (groups, rest) = insert_values uuid cols (bound + length cols) rows
          in (group # groups, params @ rest)
      | _ \<Rightarrow> insert_values uuid cols bound rows)"

definition conflict_sql :: "table_snapshot \<Rightarrow> prefer_header \<Rightarrow> string list \<Rightarrow> string" where
  "conflict_sql t prf all_columns =
     (if prf_resolution prf = IgnoreDuplicates then '' ON CONFLICT DO NOTHING''
      else if prf_resolution prf = MergeDuplicates \<and> tb_primary_key t \<noteq> [] then
        let pk_cols = join '', '' (map dquoted (tb_primary_key t));
            update_cols = map (\<lambda>c. dquoted c @ '' = EXCLUDED.'' @ dquoted c)
              (filter (\<lambda>c. c \<notin> set (tb_primary_key t)) all_columns)
        in if update_cols \<noteq> [] then
             '' ON CONFLICT ('' @ pk_cols @ '') DO UPDATE SET '' @ join '', '' update_cols
           else []
      else [])"

definition build_insert ::
  "(string \<Rightarrow> string option) \<Rightarrow> sql_builder \<Rightarrow> json list \<Rightarrow> table_snapshot \<Rightarrow> prefer_header \<Rightarrow> query_plan \<Rightarrow>
   (string \<times> sql_param list, data_error) result" where
  "build_insert uuid b rows t prf plan =
     (if rows = [] then Err (InvalidQuery ''no rows to insert'')
      else and_then (insert_columns t [] rows) (\<lambda>all_columns.
        let (groups, params) = insert_values uuid all_columns 0 rows in
        Ok (''INSERT INTO '' @ qualified_table b @ '' ('' @ join '', '' (map dquoted all_columns) @
            '') VALUES '' @ join '', '' groups @ conflict_sql t prf all_columns @
            returning_sql prf plan, params)))"

fun update_sets ::
  "(string \<Rightarrow> string option) \<Rightarrow> table_snapshot \<Rightarrow> string list \<Rightarrow> sql_param list \<Rightarrow> json_object \<Rightarrow>
   (string list \<times> sql_param list, data_error) result" where
  "update_sets uuid t set_parts params [] = Ok (set_parts, params)"
| "update_sets uuid t set_parts params ((col, v) # updates) =
     (if col \<notin> set (column_names t) then Err (ColumnNotFound col)
      else update_sets uuid t
        (set_parts @ [dquoted col @ '' = '' @ placeholder (length params + 1)])
        (params @ [json_to_sql_value uuid (Some v)]) updates)"

definition build_update ::
  "(string \<Rightarrow> string option) \<Rightarrow> sql_builder \<Rightarrow> json_object \<Rightarrow> table_snapshot \<Rightarrow> prefer_header \<Rightarrow> query_plan \<Rightarrow>
   (string \<times> sql_param list, data_error) result" where
  "build_update uuid b updates t prf plan =
     and_then (update_sets uuid t [] [] updates) (\<lambda>(set_parts, set_params).
     and_then (where_sql (build_where uuid) plan (length set_params)) (\<lambda>(where_part, where_params).
       Ok (''UPDATE '' @ qualified_table b @ '' SET '' @ join '', '' set_parts @ where_part @
           returning_sql prf plan, set_params @ where_params)))"

definition build_delete ::
  "(string \<Rightarrow> string option) \<Rightarrow> sql_builder \<Rightarrow> prefer_header \<Rightarrow> query_plan \<Rightarrow>
   (string \<times> sql_param list, data_error) result" where
  "build_delete uuid b prf plan =
     and_then (where_sql (build_where uuid) plan 0) (\<lambda>(where_part, params).
       Ok (''DELETE FROM '' @ qualified_table b @ where_part @ returning_sql prf plan, params))"

section \<open>The column check (execute/mod.rs)\<close>

definition check_column :: "string list \<Rightarrow> string \<Rightarrow> (unit, data_error) result" where
  "check_column valid_columns name =
     (if name \<in> set valid_columns then Ok () else Err (ColumnNotFound name))"

fun check_columns :: "string list \<Rightarrow> string list \<Rightarrow> (unit, data_error) result" where
  "check_columns valid_columns [] = Ok ()"
| "check_columns valid_columns (name # names) =
     and_then (check_column valid_columns name) (\<lambda>_. check_columns valid_columns names)"

definition validate_columns :: "query_plan \<Rightarrow> table_snapshot \<Rightarrow> (unit, data_error) result" where
  "validate_columns plan t =
     and_then (check_columns (column_names t) (selected_columns plan)) (\<lambda>_.
     and_then (check_columns (column_names t) (filtered_columns plan)) (\<lambda>_.
     check_columns (column_names t) (ordered_columns plan)))"

end
