(* ===== verification/Permissions.thy ===== *)
theory Permissions
  imports Rust_Str
begin

text \<open>
  Permission strings (\<open>crates/reactor-core/src/auth/permissions.rs\<close>): \<open>matches\<close> and
  \<open>matches_any\<close>, with the loop over the granted segments kept as a loop over the index; and the
  matcher of the policy engine's own context (\<open>crates/reactor-policy/src/context.rs\<close>).
  The locale \<open>permission_check\<close> is the interface both share: a test of one granted string
  against a requested one in which a string grants itself and \<open>*\<close> grants everything.
\<close>

definition star :: string where
  "star = ''*''"

section \<open>Core matcher\<close>

function matches_loop :: "string list \<Rightarrow> string list \<Rightarrow> nat \<Rightarrow> bool" where
  "matches_loop gs rs i =
     (if i < length gs then
        (if gs ! i = star then
           (if i = length gs - 1 then True else matches_loop gs rs (Suc i))
         else if length rs \<le> i \<or> gs ! i \<noteq> rs ! i then False
         else matches_loop gs rs (Suc i))
      else length gs = length rs)"
  by pat_completeness auto
termination
  by (relation "measure (\<lambda>(gs, rs, i). length gs - i)") auto

declare matches_loop.simps [simp del]

definition matches :: "string \<Rightarrow> string \<Rightarrow> bool" where
  "matches granted requested =
     (if granted = star then True
      else let gs = split_char CHR '':'' granted; rs = split_char CHR '':'' requested in
        if length rs < length gs then False else matches_loop gs rs 0)"

definition matches_any :: "string list \<Rightarrow> string \<Rightarrow> bool" where
  "matches_any granted requested = list_ex (\<lambda>g. matches g requested) granted"

text \<open>What a segment of a granted permission accepts.\<close>

definition seg_ok :: "string \<Rightarrow> string \<Rightarrow> bool" where
  "seg_ok g r \<longleftrightarrow> g = star \<or> g = r"

text \<open>
  The meaning of the loop from index \<open>i\<close> on: either every remaining segment is accepted and
  the two have the same number of segments, or the granted one ends in a wildcard and
  its other segments are accepted.
\<close>

lemma matches_loop_iff:
  assumes "length gs \<le> length rs" and "i \<le> length gs"
  shows "matches_loop gs rs i \<longleftrightarrow>
    (\<forall>j. i \<le> j \<and> j < length gs \<longrightarrow> seg_ok (gs ! j) (rs ! j)) \<and>
    (length gs = length rs \<or> (i < length gs \<and> last gs = star))"
  using assms
proof (induction gs rs i rule: matches_loop.induct)
  case (1 gs rs i)
  have split: "(\<forall>j. i \<le> j \<and> j < length gs \<longrightarrow> P j) \<longleftrightarrow>
      P i \<and> (\<forall>j. Suc i \<le> j \<and> j < length gs \<longrightarrow> P j)" if "i < length gs" for P
    using that by (metis Suc_leD Suc_leI le_eq_less_or_eq)
  show ?case
  proof (cases "i < length gs")
    case False
    then have "matches_loop gs rs i = (length gs = length rs)"
      by (simp add: matches_loop.simps [of gs rs i])
    with False show ?thesis by auto
  next
    case True
    have last: "last gs = gs ! (length gs - 1)" using True by (intro last_conv_nth) auto
    have step: "matches_loop gs rs (Suc i) \<longleftrightarrow>
        (\<forall>j. Suc i \<le> j \<and> j < length gs \<longrightarrow> seg_ok (gs ! j) (rs ! j)) \<and>
        (length gs = length rs \<or> (Suc i < length gs \<and> last gs = star))"
      if "\<not> (gs ! i = star \<and> i = length gs - 1)" "gs ! i = star \<or> gs ! i = rs ! i"
      using 1 True that by (cases "gs ! i = star") auto
    consider (end_star) "gs ! i = star" "i = length gs - 1"
      | (no) "gs ! i \<noteq> star" "gs ! i \<noteq> rs ! i"
      | (go) "\<not> (gs ! i = star \<and> i = length gs - 1)" "gs ! i = star \<or> gs ! i = rs ! i"
      by blast
    then show ?thesis
    proof cases
      case end_star
      then have "\<forall>j. i \<le> j \<and> j < length gs \<longrightarrow> seg_ok (gs ! j) (rs ! j)"
        by (metis One_nat_def Suc_leI Suc_pred le_antisym le_neq_implies_less less_nat_zero_code
            linorder_neqE_nat not_less_eq seg_ok_def)
      moreover have "matches_loop gs rs i"
        using end_star True by (subst matches_loop.simps) simp
      ultimately show ?thesis using end_star True last by simp
    next
      case no
      with True show ?thesis by (auto simp: matches_loop.simps [of gs rs i] seg_ok_def)
    next
      case go
      have suc: "Suc i < length gs \<or> last gs \<noteq> star" if "gs ! i \<noteq> star"
        using True that last by (metis Suc_lessI diff_Suc_1)
      have "matches_loop gs rs i = matches_loop gs rs (Suc i)"
        using go True 1(3) by (auto simp: matches_loop.simps [of gs rs i])
      with step [OF go] split [OF True] go suc True last show ?thesis
        by (auto simp: seg_ok_def)
    qed
  qed
qed

section \<open>The matcher of the policy context\<close>

definition matches_permission_pattern :: "string \<Rightarrow> string \<Rightarrow> bool" where
  "matches_permission_pattern pattern permission =
     (let ps = split_char CHR '':'' pattern; qs = split_char CHR '':'' permission in
      if length ps \<noteq> length qs then False
      else list_all (\<lambda>(pat, perm). \<not> (pat \<noteq> star \<and> pat \<noteq> perm)) (zip ps qs))"

text \<open>One round of the loop of \<open>TestPolicyContext::has_permission\<close>.\<close>

definition ctx_grants :: "string \<Rightarrow> string \<Rightarrow> bool" where
  "ctx_grants p permission =
     (if p = star \<or> p = permission then True else matches_permission_pattern p permission)"

definition ctx_has_permission :: "string list \<Rightarrow> string \<Rightarrow> bool" where
  "ctx_has_permission permissions permission = list_ex (\<lambda>p. ctx_grants p permission) permissions"

section \<open>The interface both matchers meet\<close>

locale permission_check =
  fixes grants :: "string \<Rightarrow> string \<Rightarrow> bool"
  assumes grants_self: "grants p p"
    and grants_star: "grants star p"
begin

definition holds :: "string list \<Rightarrow> string \<Rightarrow> bool" where
  "holds granted requested \<longleftrightarrow> list_ex (\<lambda>g. grants g requested) granted"

lemma holds_superuser: "star \<in> set granted \<Longrightarrow> holds granted p"
  using grants_star by (auto simp: holds_def list_ex_iff)

lemma holds_member: "p \<in> set granted \<Longrightarrow> holds granted p"
  using grants_self by (auto simp: holds_def list_ex_iff)

lemma holds_mono: "set granted \<subseteq> set granted' \<Longrightarrow> holds granted p \<Longrightarrow> holds granted' p"
  by (auto simp: holds_def list_ex_iff)

lemma holds_Nil [simp]: "\<not> holds [] p"
  by (simp add: holds_def)

end

lemma matches_self: "matches p p"
  by (auto simp: matches_def Let_def matches_loop_iff seg_ok_def)

interpretation core: permission_check matches
  by unfold_locales (simp_all add: matches_self, simp add: matches_def)

interpretation pol: permission_check ctx_grants
  by unfold_locales (simp_all add: ctx_grants_def)

lemma core_holds_eq: "core.holds = matches_any"
  by (simp add: fun_eq_iff core.holds_def matches_any_def)

lemma pol_holds_eq: "pol.holds = ctx_has_permission"
  by (simp add: fun_eq_iff pol.holds_def ctx_has_permission_def)

section \<open>Properties\<close>

text \<open>
  What a granted permission matches: \<open>*\<close> matches everything; any other string is
  compared segment by segment (\<open>*\<close> accepts any segment) and must have as many segments as the
  request, unless it ends in a \<open>*\<close> segment, which also accepts every segment that follows.
\<close>

theorem matches_meaning:
  "matches g r \<longleftrightarrow>
     g = star \<or>
     (let gs = split_char CHR '':'' g; rs = split_char CHR '':'' r in
        length gs \<le> length rs \<and> (\<forall>j < length gs. seg_ok (gs ! j) (rs ! j)) \<and>
        (length gs = length rs \<or> last gs = star))"
  by (auto simp: matches_def Let_def matches_loop_iff)

text \<open>
  The policy engine's matcher agrees with the core matcher wherever it grants: a permission
  that the policy context accepts is accepted by \<open>reactor-core\<close> too, so moving a check from one
  to the other never loses a grant.
\<close>

theorem ctx_grants_le_matches:
  assumes "ctx_grants p r"
  shows "matches p r"
proof -
  have "matches p r" if "p \<noteq> star" "matches_permission_pattern p r"
    using that
    by (auto simp: matches_meaning matches_permission_pattern_def Let_def list_all_length seg_ok_def
        split: if_splits)
  with assms show ?thesis
    by (auto simp: ctx_grants_def core.grants_star matches_self split: if_splits)
qed

lemma matches_meaning_witness:
  "matches ''data:*'' ''data:todos:read'' \<and> \<not> matches ''data:todos'' ''data:todos:read''"
  by (simp add: matches_meaning star_def seg_ok_def Let_def less_Suc_eq_0_disj)

lemma ctx_grants_le_matches_witness:
  "ctx_grants ''data:*:read'' ''data:todos:read'' \<and> matches ''data:*:read'' ''data:todos:read''"
proof -
  have "ctx_grants ''data:*:read'' ''data:todos:read''"
    by (simp add: ctx_grants_def matches_permission_pattern_def star_def)
  then show ?thesis using ctx_grants_le_matches by blast
qed

end
