(* ===== verification/Policy_Ast.thy ===== *)
theory Policy_Ast
  imports F64 Permissions
begin

text \<open>
  Data model of the policy language (\<open>crates/reactor-policy/src\<close>): the expression tree of
  \<open>ast.rs\<close>, the \<open>auth.*\<close> builtins of \<open>builtins.rs\<close>, the scopes of \<open>scope.rs\<close> and
  the context trait of \<open>context.rs\<close>. \<open>PolicyExpr\<close> is a struct with the single field \<open>kind\<close>,
  so an expression is its \<open>PolicyExprKind\<close>.
\<close>

section \<open>Expressions (ast.rs)\<close>

datatype policy_literal =
    LitNull
  | LitBool bool
  | LitInt int
  | LitFloat f64
  | LitString string

datatype policy_binary_op =
    OpEq | OpNotEq | OpLt | OpLtEq | OpGt | OpGtEq | OpAnd | OpOr | OpLike | OpILike

datatype policy_unary_op = OpNot | OpMinus

datatype policy_expr =
    Column string
  | QualifiedColumn string string
  | Literal policy_literal
  | BinaryOp policy_expr policy_binary_op policy_expr
  | UnaryOp policy_unary_op policy_expr
  | AuthBuiltinCall string "policy_expr list"
  | DomainBuiltin string string "policy_expr list"
  | IsNull policy_expr bool
  | InList policy_expr "policy_expr list" bool
  | Subquery string

fun binary_op_as_sql :: "policy_binary_op \<Rightarrow> string" where
  "binary_op_as_sql OpEq = ''=''"
| "binary_op_as_sql OpNotEq = ''<>''"
| "binary_op_as_sql OpLt = ''<''"
| "binary_op_as_sql OpLtEq = ''<=''"
| "binary_op_as_sql OpGt = ''>''"
| "binary_op_as_sql OpGtEq = ''>=''"
| "binary_op_as_sql OpAnd = ''AND''"
| "binary_op_as_sql OpOr = ''OR''"
| "binary_op_as_sql OpLike = ''LIKE''"
| "binary_op_as_sql OpILike = ''ILIKE''"

fun precedence :: "policy_binary_op \<Rightarrow> nat" where
  "precedence OpOr = 1"
| "precedence OpAnd = 2"
| "precedence OpLike = 4"
| "precedence OpILike = 4"
| "precedence _ = 3"

fun unary_op_as_sql :: "policy_unary_op \<Rightarrow> string" where
  "unary_op_as_sql OpNot = ''NOT''"
| "unary_op_as_sql OpMinus = ''-''"

section \<open>Auth builtins (builtins.rs)\<close>

datatype auth_builtin =
    UserId | OrgId | Role | HasPermission | InOrg | Email | SessionId | IsAuthenticated

datatype builtin_error =
    UnknownBuiltin string
  | ArityMismatch string nat nat
  | ArgumentMustBeString string nat

definition builtin_from_name :: "string \<Rightarrow> auth_builtin option" where
  "builtin_from_name name =
     (if name = ''user_id'' then Some UserId
      else if name = ''org_id'' then Some OrgId
      else if name = ''role'' then Some Role
      else if name = ''has_permission'' then Some HasPermission
      else if name = ''in_org'' then Some InOrg
      else if name = ''email'' then Some Email
      else if name = ''session_id'' then Some SessionId
      else if name = ''is_authenticated'' then Some IsAuthenticated
      else None)"

fun builtin_name :: "auth_builtin \<Rightarrow> string" where
  "builtin_name UserId = ''user_id''"
| "builtin_name OrgId = ''org_id''"
| "builtin_name Role = ''role''"
| "builtin_name HasPermission = ''has_permission''"
| "builtin_name InOrg = ''in_org''"
| "builtin_name Email = ''email''"
| "builtin_name SessionId = ''session_id''"
| "builtin_name IsAuthenticated = ''is_authenticated''"

fun builtin_arity :: "auth_builtin \<Rightarrow> nat" where
  "builtin_arity HasPermission = 1"
| "builtin_arity InOrg = 1"
| "builtin_arity _ = 0"

fun builtin_returns_bool :: "auth_builtin \<Rightarrow> bool" where
  "builtin_returns_bool HasPermission = True"
| "builtin_returns_bool InOrg = True"
| "builtin_returns_bool IsAuthenticated = True"
| "builtin_returns_bool _ = False"

definition builtin_argument_is_string :: "auth_builtin \<Rightarrow> nat \<Rightarrow> bool" where
  "builtin_argument_is_string b index = (b = HasPermission \<and> index = 0)"

definition validate_builtin_call :: "string \<Rightarrow> nat \<Rightarrow> (auth_builtin, builtin_error) result" where
  "validate_builtin_call name arg_count =
     and_then (ok_or (UnknownBuiltin name) (builtin_from_name name)) (\<lambda>b.
       if arg_count \<noteq> builtin_arity b then Err (ArityMismatch name (builtin_arity b) arg_count)
       else Ok b)"

text \<open>The \<open>Display\<close> text of a builtin error, which the parser wraps.\<close>

fun show_builtin_error :: "builtin_error \<Rightarrow> string" where
  "show_builtin_error (UnknownBuiltin name) = ''unknown auth builtin: '' @ name"
| "show_builtin_error (ArityMismatch name expected got) =
     ''auth.'' @ name @ '' expects '' @ show_nat expected @ '' arguments, got '' @ show_nat got"
| "show_builtin_error (ArgumentMustBeString name index) =
     ''auth.'' @ name @ '' argument '' @ show_nat index @ '' must be a string literal''"

lemma builtin_from_name_name [simp]: "builtin_from_name (builtin_name b) = Some b"
  by (cases b) (simp_all add: builtin_from_name_def)

lemma builtin_from_name_SomeD: "builtin_from_name name = Some b \<Longrightarrow> name = builtin_name b"
  by (simp only: builtin_from_name_def split: if_split_asm;
      (drule option.inject [THEN iffD1], hypsubst, simp only: builtin_name.simps)?)
    (simp only: option.distinct)

lemma builtin_from_name_Some: "builtin_from_name name = Some b \<longleftrightarrow> name = builtin_name b"
  using builtin_from_name_SomeD by auto

lemma validate_builtin_call_Ok:
  "validate_builtin_call name n = Ok b \<longleftrightarrow> name = builtin_name b \<and> n = builtin_arity b"
  by (auto simp: validate_builtin_call_def builtin_from_name_Some split: if_splits)

lemma validate_builtin_call_total:
  "validate_builtin_call name n \<noteq> Diverge" "validate_builtin_call name n \<noteq> Panic"
  by (cases "builtin_from_name name"; simp add: validate_builtin_call_def)+

section \<open>Scopes (scope.rs)\<close>

datatype policy_scope = ScSelect | ScInsert | ScUpdate | ScDelete | ScRead | ScWrite

fun scope_as_str :: "policy_scope \<Rightarrow> string" where
  "scope_as_str ScSelect = ''select''"
| "scope_as_str ScInsert = ''insert''"
| "scope_as_str ScUpdate = ''update''"
| "scope_as_str ScDelete = ''delete''"
| "scope_as_str ScRead = ''read''"
| "scope_as_str ScWrite = ''write''"

definition scope_from_str :: "string \<Rightarrow> policy_scope option" where
  "scope_from_str s =
     (let l = to_lowercase s in
      if l = ''select'' then Some ScSelect
      else if l = ''insert'' then Some ScInsert
      else if l = ''update'' then Some ScUpdate
      else if l = ''delete'' then Some ScDelete
      else if l = ''read'' then Some ScRead
      else if l = ''write'' then Some ScWrite
      else None)"

definition scope_is_read :: "policy_scope \<Rightarrow> bool" where
  "scope_is_read s = (s = ScSelect \<or> s = ScRead)"

definition scope_is_write :: "policy_scope \<Rightarrow> bool" where
  "scope_is_write s = (s = ScInsert \<or> s = ScUpdate \<or> s = ScWrite)"

definition scope_is_delete :: "policy_scope \<Rightarrow> bool" where
  "scope_is_delete s = (s = ScDelete)"

lemma scope_from_as_str: "scope_from_str (scope_as_str s) = Some s"
  by (cases s) (simp_all add: scope_from_str_def ascii_lower_def is_ascii_upper_def)

section \<open>The evaluation context (context.rs)\<close>

text \<open>
  \<open>PolicyEvalContext\<close> is a trait; its methods are the fields of a record. Identifiers are UUIDs
  and are kept as their printed form, which is all the evaluator uses of them. The default body
  of \<open>is_authenticated\<close> is \<open>ctx_is_authenticated\<close>; no implementation overrides it.
\<close>

record policy_ctx =
  ctx_user_id :: "string option"
  ctx_org_id :: "string option"
  ctx_permission :: "string \<Rightarrow> bool"
  ctx_email :: "string option"
  ctx_session_id :: "string option"

definition ctx_is_authenticated :: "policy_ctx \<Rightarrow> bool" where
  "ctx_is_authenticated ctx = (ctx_user_id ctx \<noteq> None)"

record test_policy_context =
  tc_user_id :: "string option"
  tc_org_id :: "string option"
  tc_permissions :: "string list"
  tc_email :: "string option"
  tc_session_id :: "string option"

definition test_ctx :: "test_policy_context \<Rightarrow> policy_ctx" where
  "test_ctx t = \<lparr>ctx_user_id = tc_user_id t, ctx_org_id = tc_org_id t,
     ctx_permission = ctx_has_permission (tc_permissions t),
     ctx_email = tc_email t, ctx_session_id = tc_session_id t\<rparr>"

text \<open>The law every context keeps: the granted string \<open>*\<close> is the superuser's, and grants all.\<close>

definition superuser_ctx :: "policy_ctx \<Rightarrow> bool" where
  "superuser_ctx ctx \<longleftrightarrow> (\<forall>p. ctx_permission ctx p)"

lemma test_ctx_superuser: "star \<in> set (tc_permissions t) \<Longrightarrow> superuser_ctx (test_ctx t)"
  using pol.holds_superuser by (simp add: superuser_ctx_def test_ctx_def pol_holds_eq)

end
