(* ===== verification/Policy_Parser.thy ===== *)
theory Policy_Parser
  imports Policy_Ast "HOL-Library.Sublist"
begin

text \<open>
  The recursive-descent parser of policy expressions (\<open>crates/reactor-policy/src/grammar.rs\<close>).

  The Rust parser holds the input and a byte position; the model passes the input from that
  position on, so a consumed prefix is gone and \<open>input[start..pos]\<close> is what was taken off.
  A method that tests and advances (\<open>match_char\<close>, \<open>match_str\<close>, \<open>match_keyword\<close>) returns the rest
  of the input when it matched. \<open>match_keyword\<close> slices the input at the keyword's length, which
  panics when that is inside a character: the slice is in the model.

  The grammar levels take as an argument the parser they call for a parenthesised expression or a
  call argument (\<open>parse_expr\<close>, one nesting level further down) and the fuel of their own loops;
  \<open>parse_expr\<close> ties the knot. \<open>sub_parser\<close> is the contract of that argument.
\<close>

datatype policy_parse_error =
    UnexpectedEnd
  | UnexpectedToken string
  | InvalidNumber string
  | UnclosedParen
  | UnclosedString
  | InvalidBuiltin string
  | InvalidDomainBuiltin string string

type_synonym 'a parser = "string \<Rightarrow> ('a \<times> string, policy_parse_error) result"

section \<open>Lexical methods\<close>

definition skip_whitespace :: "string \<Rightarrow> string" where
  "skip_whitespace s = trim_start s"

definition match_char :: "char \<Rightarrow> string \<Rightarrow> string option" where
  "match_char c s = (case s of [] \<Rightarrow> None | d # r \<Rightarrow> if d = c then Some r else None)"

definition match_str :: "string \<Rightarrow> string \<Rightarrow> string option" where
  "match_str p s = strip_prefix p s"

definition match_keyword :: "string \<Rightarrow> string \<Rightarrow> (string option, policy_parse_error) result" where
  "match_keyword keyword s =
     (if length s < length keyword then Ok None
      else if \<not> is_char_boundary s (length keyword) then Panic
      else if \<not> eq_ignore_ascii_case (take (length keyword) s) keyword then Ok None
      else case drop (length keyword) s of
          [] \<Rightarrow> Ok (Some [])
        | c # r \<Rightarrow> if is_ascii_alphanumeric c \<or> c = CHR ''_'' then Ok None
                   else Ok (Some (c # r)))"

definition is_ident_start :: "char \<Rightarrow> bool" where
  "is_ident_start c = (is_ascii_alphabetic c \<or> c = CHR ''_'')"

definition is_ident_char :: "char \<Rightarrow> bool" where
  "is_ident_char c = (is_ascii_alphanumeric c \<or> c = CHR ''_'')"

definition parse_identifier :: "string parser" where
  "parse_identifier s0 =
     (let s = skip_whitespace s0 in
      case s of
        [] \<Rightarrow> Err (UnexpectedToken ''expected identifier'')
      | c # r \<Rightarrow>
          if is_ident_start c then Ok (c # takeWhile is_ident_char r, dropWhile is_ident_char r)
          else Err (UnexpectedToken ''expected identifier''))"

text \<open>The body of a string literal after its opening quote; a doubled quote is one quote.\<close>

function string_body :: "string \<Rightarrow> string \<Rightarrow> (string \<times> string, policy_parse_error) result" where
  "string_body value [] = Err UnclosedString"
| "string_body value (c # s) =
     (if c = CHR 0x27 then
        (case match_char (CHR 0x27) s of
           Some r \<Rightarrow> string_body (value @ [CHR 0x27]) r
         | None \<Rightarrow> Ok (value, s))
      else string_body (value @ take (utf8_len c) (c # s)) (drop (utf8_len c) (c # s)))"
  by pat_completeness auto
termination
  by (relation "measure (\<lambda>(v, s). length s)")
    (auto simp: match_char_def less_Suc_eq_le split: list.splits if_splits)

definition parse_string_literal :: "policy_expr parser" where
  "parse_string_literal s =
     (case match_char (CHR 0x27) s of
        None \<Rightarrow> Err (UnexpectedToken (''expected '' @ [CHR 0x27]))
      | Some r \<Rightarrow> and_then (string_body [] r) (\<lambda>(value, r'). Ok (Literal (LitString value), r')))"

text \<open>The digits, with at most one dot, at the start of the input.\<close>

fun number_span :: "bool \<Rightarrow> string \<Rightarrow> string \<times> bool \<times> string" where
  "number_span has_dot [] = ([], has_dot, [])"
| "number_span has_dot (c # s) =
     (if is_ascii_digit c then (let (ds, d, r) = number_span has_dot s in (c # ds, d, r))
      else if c = CHR ''.'' \<and> \<not> has_dot then (let (ds, d, r) = number_span True s in (c # ds, d, r))
      else ([], has_dot, c # s))"

definition parse_number :: "policy_expr parser" where
  "parse_number s =
     (let (num_str, has_dot, r) = number_span False s in
      if has_dot
      then and_then (ok_or (InvalidNumber num_str) (parse_f64 num_str)) (\<lambda>value.
             Ok (Literal (LitFloat value), r))
      else and_then (ok_or (InvalidNumber num_str) (parse_i64 num_str)) (\<lambda>value.
             Ok (Literal (LitInt value), r)))"

definition is_domain_builtin :: "string \<Rightarrow> bool" where
  "is_domain_builtin domain =
     (let l = to_lowercase domain in
      l = ''object'' \<or> l = ''bucket'' \<or> l = ''row'' \<or> l = ''table'' \<or> l = ''connect'')"

text \<open>\<open>chars().take(n).collect()\<close>.\<close>

fun take_chars :: "nat \<Rightarrow> string \<Rightarrow> string" where
  "take_chars 0 s = []"
| "take_chars (Suc n) s =
     (case s of
        [] \<Rightarrow> []
      | c # r \<Rightarrow> take (utf8_len c) s @ take_chars n (drop (utf8_len c) s))"

section \<open>Argument lists\<close>

fun args_loop ::
  "policy_expr parser \<Rightarrow> nat \<Rightarrow> policy_expr list \<Rightarrow> policy_expr list parser" where
  "args_loop p 0 args s = Diverge"
| "args_loop p (Suc n) args s =
     and_then (p s) (\<lambda>(arg, r).
       let r = skip_whitespace r in
       case match_char (CHR '')'') r of
         Some r' \<Rightarrow> Ok (args @ [arg], r')
       | None \<Rightarrow>
           (case match_char (CHR '','') r of
              Some r' \<Rightarrow> args_loop p n (args @ [arg]) r'
            | None \<Rightarrow> Err (UnexpectedToken ''expected , or )'')))"

definition parse_args :: "policy_expr parser \<Rightarrow> nat \<Rightarrow> policy_expr list parser" where
  "parse_args pe n s0 =
     (let s = skip_whitespace s0 in
      case match_char (CHR '')'') s of
        Some r \<Rightarrow> Ok ([], r)
      | None \<Rightarrow> args_loop pe n [] s)"

definition parse_list :: "policy_expr parser \<Rightarrow> nat \<Rightarrow> policy_expr list parser" where
  "parse_list pp n s0 =
     (let s = skip_whitespace s0 in
      case match_char (CHR ''('') s of
        None \<Rightarrow> Err (UnexpectedToken ''expected ( for IN list'')
      | Some s1 \<Rightarrow>
          (let s2 = skip_whitespace s1 in
           case match_char (CHR '')'') s2 of
             Some r \<Rightarrow> Ok ([], r)
           | None \<Rightarrow> args_loop pp n [] s2))"

section \<open>Primary expressions\<close>

definition parse_identifier_or_call :: "policy_expr parser \<Rightarrow> nat \<Rightarrow> policy_expr parser" where
  "parse_identifier_or_call pe n s0 =
     and_then (parse_identifier s0) (\<lambda>(first_ident, r0).
       let s = skip_whitespace r0 in
       case match_char (CHR ''.'') s of
         Some s1 \<Rightarrow>
           and_then (parse_identifier s1) (\<lambda>(second_ident, r1).
             let s2 = skip_whitespace r1 in
             if eq_ignore_ascii_case first_ident ''auth'' then
               (case match_char (CHR ''('') s2 of
                  None \<Rightarrow> Err (UnexpectedToken ''expected ( for auth builtin'')
                | Some s3 \<Rightarrow>
                    and_then (parse_args pe n s3) (\<lambda>(args, r3).
                    and_then (map_err (\<lambda>e. InvalidBuiltin (show_builtin_error e))
                               (validate_builtin_call second_ident (length args))) (\<lambda>_.
                      Ok (AuthBuiltinCall second_ident args, r3))))
             else if is_domain_builtin first_ident then
               (case match_char (CHR ''('') s2 of
                  Some s3 \<Rightarrow>
                    and_then (parse_args pe n s3) (\<lambda>(args, r3).
                      Ok (DomainBuiltin first_ident second_ident args, r3))
                | None \<Rightarrow> Ok (DomainBuiltin first_ident second_ident [], s2))
             else
               (case match_char (CHR ''.'') s2 of
                  Some s3 \<Rightarrow>
                    and_then (parse_identifier s3) (\<lambda>(third_ident, r3).
                      Ok (QualifiedColumn first_ident second_ident, r3))
                | None \<Rightarrow> Ok (QualifiedColumn first_ident second_ident, s2)))
       | None \<Rightarrow>
           (case match_char (CHR ''('') s of
              Some s1 \<Rightarrow>
                and_then (parse_args pe n s1) (\<lambda>(args, r1).
                  Ok (AuthBuiltinCall first_ident args, r1))
            | None \<Rightarrow> Ok (Column first_ident, s)))"

fun parse_primary :: "policy_expr parser \<Rightarrow> nat \<Rightarrow> policy_expr parser" where
  "parse_primary pe 0 s0 = Diverge"
| "parse_primary pe (Suc n) s0 =
     (let s = skip_whitespace s0 in
      case match_char (CHR ''('') s of
        Some r \<Rightarrow>
          and_then (pe r) (\<lambda>(e, r1).
            case match_char (CHR '')'') (skip_whitespace r1) of
              None \<Rightarrow> Err UnclosedParen
            | Some r2 \<Rightarrow> Ok (e, r2))
      | None \<Rightarrow>
      (case match_char (CHR ''-'') s of
        Some r \<Rightarrow> and_then (parse_primary pe n r) (\<lambda>(e, r1). Ok (UnaryOp OpMinus e, r1))
      | None \<Rightarrow>
      if s \<noteq> [] \<and> hd s = CHR 0x27 then parse_string_literal s
      else if s \<noteq> [] \<and> is_ascii_digit (hd s) then parse_number s
      else
        and_then (match_keyword ''TRUE'' s) (\<lambda>m. case m of
          Some r \<Rightarrow> Ok (Literal (LitBool True), r)
        | None \<Rightarrow>
        and_then (match_keyword ''FALSE'' s) (\<lambda>m. case m of
          Some r \<Rightarrow> Ok (Literal (LitBool False), r)
        | None \<Rightarrow>
        and_then (match_keyword ''NULL'' s) (\<lambda>m. case m of
          Some r \<Rightarrow> Ok (Literal LitNull, r)
        | None \<Rightarrow> parse_identifier_or_call pe n s)))))"

section \<open>Comparisons\<close>

definition try_parse_comparison_op ::
  "string \<Rightarrow> (policy_binary_op option \<times> string, policy_parse_error) result" where
  "try_parse_comparison_op s0 =
     (let s = skip_whitespace s0 in
      case match_str ''<='' s of Some r \<Rightarrow> Ok (Some OpLtEq, r) | None \<Rightarrow>
      (case match_str ''>='' s of Some r \<Rightarrow> Ok (Some OpGtEq, r) | None \<Rightarrow>
      (case match_str ''<>'' s of Some r \<Rightarrow> Ok (Some OpNotEq, r) | None \<Rightarrow>
      (case match_str ''!='' s of Some r \<Rightarrow> Ok (Some OpNotEq, r) | None \<Rightarrow>
      (case match_char (CHR ''='') s of Some r \<Rightarrow> Ok (Some OpEq, r) | None \<Rightarrow>
      (case match_char (CHR ''<'') s of Some r \<Rightarrow> Ok (Some OpLt, r) | None \<Rightarrow>
      (case match_char (CHR ''>'') s of Some r \<Rightarrow> Ok (Some OpGt, r) | None \<Rightarrow>
        and_then (match_keyword ''LIKE'' s) (\<lambda>m. case m of
          Some r \<Rightarrow> Ok (Some OpLike, r)
        | None \<Rightarrow>
        and_then (match_keyword ''ILIKE'' s) (\<lambda>m. case m of
          Some r \<Rightarrow> Ok (Some OpILike, r)
        | None \<Rightarrow> Ok (None, s))))))))))"

text \<open>\<open>parse_comparison\<close> after \<open>IS\<close>, and after it found no \<open>IS\<close>.\<close>

definition comparison_is :: "policy_expr \<Rightarrow> policy_expr parser" where
  "comparison_is left r =
     (let s = skip_whitespace r in
      and_then (match_keyword ''NOT'' s) (\<lambda>m.
        let (negated, s1) = (case m of Some r1 \<Rightarrow> (True, skip_whitespace r1) | None \<Rightarrow> (False, s))
        in and_then (match_keyword ''NULL'' s1) (\<lambda>m. case m of
             Some r2 \<Rightarrow> Ok (IsNull left negated, r2)
           | None \<Rightarrow> Err (UnexpectedToken ''expected NULL''))))"

definition comparison_op :: "policy_expr parser \<Rightarrow> policy_expr \<Rightarrow> policy_expr parser" where
  "comparison_op pp left s =
     and_then (try_parse_comparison_op s) (\<lambda>(op, s1). case op of
         Some op \<Rightarrow> and_then (pp s1) (\<lambda>(right, r). Ok (BinaryOp left op right, r))
       | None \<Rightarrow> Ok (left, s1))"

definition comparison_in :: "policy_expr parser \<Rightarrow> nat \<Rightarrow> policy_expr \<Rightarrow> policy_expr parser" where
  "comparison_in pp n left s =
     and_then (match_keyword ''NOT'' s) (\<lambda>m.
       let (negated_in, s1) = (case m of Some r \<Rightarrow> (True, skip_whitespace r) | None \<Rightarrow> (False, s))
       in and_then (match_keyword ''IN'' s1) (\<lambda>m. case m of
            Some r \<Rightarrow>
              and_then (parse_list pp n r) (\<lambda>(list, r1). Ok (InList left list negated_in, r1))
          | None \<Rightarrow>
              if negated_in then Err (UnexpectedToken ''expected IN after NOT'')
              else comparison_op pp left s1))"

definition parse_comparison :: "policy_expr parser \<Rightarrow> nat \<Rightarrow> policy_expr parser" where
  "parse_comparison pe n s0 =
     and_then (parse_primary pe n s0) (\<lambda>(left, r0).
       let s = skip_whitespace r0 in
       and_then (match_keyword ''IS'' s) (\<lambda>m. case m of
         Some r \<Rightarrow> comparison_is left r
       | None \<Rightarrow> comparison_in (parse_primary pe n) n left s))"

section \<open>Logical operators and the entry point\<close>

fun parse_not_expr :: "policy_expr parser \<Rightarrow> nat \<Rightarrow> nat \<Rightarrow> policy_expr parser" where
  "parse_not_expr pe n 0 s0 = Diverge"
| "parse_not_expr pe n (Suc k) s0 =
     (let s = skip_whitespace s0 in
      and_then (match_keyword ''NOT'' s) (\<lambda>m. case m of
        Some r \<Rightarrow> and_then (parse_not_expr pe n k r) (\<lambda>(e, r1). Ok (UnaryOp OpNot e, r1))
      | None \<Rightarrow> parse_comparison pe n s))"

text \<open>
  The loops of \<open>parse_and_expr\<close> and \<open>parse_or_expr\<close> are the same code with another keyword,
  operator and operand parser.
\<close>

fun binary_loop ::
  "string \<Rightarrow> policy_binary_op \<Rightarrow> policy_expr parser \<Rightarrow> nat \<Rightarrow> policy_expr \<Rightarrow> policy_expr parser" where
  "binary_loop kw op p 0 left s0 = Diverge"
| "binary_loop kw op p (Suc n) left s0 =
     (let s = skip_whitespace s0 in
      and_then (match_keyword kw s) (\<lambda>m. case m of
        Some r \<Rightarrow> and_then (p r) (\<lambda>(right, r1). binary_loop kw op p n (BinaryOp left op right) r1)
      | None \<Rightarrow> Ok (left, s)))"

definition parse_and_expr :: "policy_expr parser \<Rightarrow> nat \<Rightarrow> policy_expr parser" where
  "parse_and_expr pe n s =
     and_then (parse_not_expr pe n n s) (\<lambda>(left, r).
       binary_loop ''AND'' OpAnd (parse_not_expr pe n n) n left r)"

definition parse_or_expr :: "policy_expr parser \<Rightarrow> nat \<Rightarrow> policy_expr parser" where
  "parse_or_expr pe n s =
     and_then (parse_and_expr pe n s) (\<lambda>(left, r).
       binary_loop ''OR'' OpOr (parse_and_expr pe n) n left r)"

fun parse_expr :: "nat \<Rightarrow> policy_expr parser" where
  "parse_expr 0 s = Diverge"
| "parse_expr (Suc n) s = parse_or_expr (parse_expr n) (Suc n) s"

definition parse_policy_expr :: "string \<Rightarrow> (policy_expr, policy_parse_error) result" where
  "parse_policy_expr input =
     and_then (parse_expr (Suc (length input)) input) (\<lambda>(expr, r).
       let s = skip_whitespace r in
       if s \<noteq> [] then Err (UnexpectedToken (take_chars 20 s)) else Ok expr)"

end
