(* ===== verification/Policy_Parser_Props.thy ===== *)
theory Policy_Parser_Props
  imports Policy_Parser
begin

text \<open>
  Correctness of the policy parser's control flow: every method leaves a suffix of its input,
  the recursion stops (the fuel of \<open>parse_policy_expr\<close> is enough on every input), and on ASCII
  input no slice can panic. The locales \<open>sub_parser\<close> and \<open>ascii_parser\<close> state the contract
  between a grammar level and the parser of the next nesting level.
\<close>

named_theorems consume \<open>a lexical method leaves a suffix of its input\<close>

section \<open>Lexical methods\<close>

lemma suffix_skip [consume]: "suffix (skip_whitespace s) s"
  using trim_start_suffix [of s] by (auto simp: skip_whitespace_def suffix_def)

lemma match_char_Some: "match_char c s = Some r \<longleftrightarrow> s = c # r"
  by (auto simp: match_char_def split: list.splits)

lemma match_char_Cons [simp]: "match_char c (d # r) = (if d = c then Some r else None)"
  by (simp add: match_char_def)

lemma match_char_Nil [simp]: "match_char c [] = None"
  by (simp add: match_char_def)

lemma match_char_suffix [consume]: "match_char c s = Some r \<Longrightarrow> strict_suffix r s"
  by (auto simp: match_char_Some strict_suffix_def suffix_def)

lemma match_str_suffix [consume]: "match_str p s = Some r \<Longrightarrow> suffix r s"
  by (auto simp: match_str_def strip_prefix_Some suffix_def)

lemma match_keyword_SomeD:
  "match_keyword kw s = Ok (Some r) \<Longrightarrow> r = drop (length kw) s \<and> length kw \<le> length s"
  by (auto simp: match_keyword_def split: if_splits list.splits)

lemma strict_suffix_drop: "0 < n \<Longrightarrow> n \<le> length s \<Longrightarrow> strict_suffix (drop n s) s"
  using suffix_drop [of n s] by (auto simp: strict_suffix_def dest: arg_cong [where f = length])

lemma match_keyword_suffix [consume]:
  "match_keyword kw s = Ok (Some r) \<Longrightarrow> kw \<noteq> [] \<Longrightarrow> strict_suffix r s"
  by (auto dest!: match_keyword_SomeD intro: strict_suffix_drop)

lemma match_keyword_total [simp]: "match_keyword kw s \<noteq> Diverge" "match_keyword kw s \<noteq> Err e"
  by (auto simp: match_keyword_def split: list.splits)

lemma match_keyword_ascii: "list_all is_ascii s \<Longrightarrow> match_keyword kw s \<noteq> Panic"
  by (auto simp: match_keyword_def ascii_boundary split: list.splits)

lemma suffix_trans: "suffix a b \<Longrightarrow> suffix b c \<Longrightarrow> suffix a c"
  by (auto simp: suffix_def)

lemma suffix_dropWhile: "suffix (dropWhile P s) s"
  by (metis suffixI takeWhile_dropWhile_id)

lemma suffix_strict_trans: "suffix r t \<Longrightarrow> strict_suffix t s \<Longrightarrow> strict_suffix r s"
  by (simp add: suffix_order.le_less_trans)

lemma strict_suffix_trans2: "strict_suffix r t \<Longrightarrow> suffix t s \<Longrightarrow> strict_suffix r s"
  by (simp add: suffix_order.less_le_trans)

lemma strict_suffix_skip: "strict_suffix r (skip_whitespace s) \<Longrightarrow> strict_suffix r s"
  using suffix_skip strict_suffix_trans2 by blast

lemma skip_strict_suffix: "strict_suffix r s \<Longrightarrow> strict_suffix (skip_whitespace r) s"
  using suffix_skip suffix_strict_trans by blast

lemma length_skip_whitespace: "length (skip_whitespace s) \<le> length s"
  by (rule suffix_length_le [OF suffix_skip])

lemma strict_suffix_length: "strict_suffix r s \<Longrightarrow> length r < length s"
  by (auto simp: strict_suffix_def suffix_def)

lemma suffix_ascii: "suffix r s \<Longrightarrow> list_all is_ascii s \<Longrightarrow> list_all is_ascii r"
  by (auto simp: suffix_def)

lemma parse_identifier_suffix [consume]:
  assumes "parse_identifier s = Ok (x, r)"
  shows "strict_suffix r s"
proof -
  obtain c t where t: "skip_whitespace s = c # t" and r: "r = dropWhile is_ident_char t"
    using assms by (auto simp: parse_identifier_def Let_def split: list.splits if_splits)
  have "strict_suffix t (c # t)" by (simp add: strict_suffix_def suffix_def)
  with r have "strict_suffix r (c # t)"
    using suffix_dropWhile suffix_strict_trans by blast
  with t show ?thesis using suffix_skip strict_suffix_trans2 by metis
qed

lemma ident_then_char:
  assumes "parse_identifier s = Ok (x, r)" "match_char c (skip_whitespace r) = Some u"
  shows "strict_suffix u s"
  using assms parse_identifier_suffix match_char_suffix skip_strict_suffix suffix_order.less_trans
  by meson

lemma parse_identifier_total [simp]:
  "parse_identifier s \<noteq> Diverge" "parse_identifier s \<noteq> Panic"
  by (auto simp: parse_identifier_def Let_def split: list.splits)

lemma string_body_suffix: "string_body v s = Ok (w, r) \<Longrightarrow> strict_suffix r s"
proof (induction v s rule: string_body.induct)
  case (2 v c s)
  have one: "strict_suffix s (c # s)" by (simp add: strict_suffix_def suffix_def)
  show ?case
  proof (cases "c = CHR 0x27")
    case True
    show ?thesis
    proof (cases "match_char (CHR 0x27) s")
      case None
      with 2 True one show ?thesis by simp
    next
      case (Some t)
      with 2 True have "strict_suffix r t" by simp
      with one Some show ?thesis
        using match_char_suffix by (metis suffix_order.less_trans)
    qed
  next
    case False
    with 2 have "strict_suffix r (drop (utf8_len c) (c # s))" by simp
    then show ?thesis using suffix_drop strict_suffix_trans2 by blast
  qed
qed simp

lemma string_body_total [simp]: "string_body v s \<noteq> Diverge" "string_body v s \<noteq> Panic"
  by (induction v s rule: string_body.induct) (auto split: option.splits)

lemma parse_string_literal_suffix [consume]:
  "parse_string_literal s = Ok (e, r) \<Longrightarrow> strict_suffix r s"
  by (auto simp: parse_string_literal_def split: option.splits
      dest!: string_body_suffix match_char_suffix intro: suffix_order.less_trans)

lemma parse_string_literal_total [simp]:
  "parse_string_literal s \<noteq> Diverge" "parse_string_literal s \<noteq> Panic"
  by (auto simp: parse_string_literal_def and_then_eqs split: option.splits prod.splits)

lemma number_span_append: "number_span d s = (ds, d', r) \<Longrightarrow> s = ds @ r"
  by (induction d s arbitrary: ds d' r rule: number_span.induct)
    (auto simp: Let_def split: if_splits prod.splits)

lemma number_span_digit:
  "number_span d (c # s) = (ds, d', r) \<Longrightarrow> is_ascii_digit c \<Longrightarrow> ds \<noteq> []"
  by (auto simp: Let_def split: prod.splits)

lemma parse_number_Ok:
  "parse_number s = Ok (e, r) \<Longrightarrow> \<exists>ds d. number_span False s = (ds, d, r)"
  by (auto simp: parse_number_def Let_def split: prod.splits if_splits)

lemma parse_number_suffix [consume]:
  assumes "parse_number s = Ok (e, r)" "s \<noteq> []" "is_ascii_digit (hd s)"
  shows "strict_suffix r s"
proof -
  obtain ds d where d: "number_span False s = (ds, d, r)" using parse_number_Ok assms(1) by blast
  with assms(2,3) have "ds \<noteq> []" using number_span_digit by (cases s) auto
  with number_span_append [OF d] show ?thesis by (auto simp: strict_suffix_def suffix_def)
qed

lemma ok_or_total [simp]: "ok_or e x \<noteq> Diverge" "ok_or e x \<noteq> Panic"
  by (cases x; simp)+

lemma parse_number_total [simp]: "parse_number s \<noteq> Diverge" "parse_number s \<noteq> Panic"
  by (auto simp: parse_number_def Let_def and_then_eqs split: prod.splits if_splits)

lemma map_err_cases [simp]:
  "map_err f r = Ok x \<longleftrightarrow> r = Ok x" "map_err f r = Diverge \<longleftrightarrow> r = Diverge"
  "map_err f r = Panic \<longleftrightarrow> r = Panic"
  by (cases r; simp)+

lemma try_parse_comparison_op_suffix [consume]:
  assumes "try_parse_comparison_op s = Ok (op, r)"
  shows "suffix r s"
proof -
  have "suffix r (skip_whitespace s)"
    using assms
    by (auto simp: try_parse_comparison_op_def Let_def strict_suffix_def split: option.splits
        dest!: match_str_suffix match_char_suffix match_keyword_suffix)
  then show ?thesis using suffix_skip suffix_order.trans by blast
qed

lemma try_parse_comparison_op_total [simp]: "try_parse_comparison_op s \<noteq> Diverge"
  by (auto simp: try_parse_comparison_op_def Let_def and_then_eqs split: option.splits)

lemma try_parse_comparison_op_ascii:
  "list_all is_ascii s \<Longrightarrow> try_parse_comparison_op s \<noteq> Panic"
  by (auto simp: try_parse_comparison_op_def Let_def match_keyword_ascii
        suffix_ascii [OF suffix_skip] and_then_eqs split: option.splits)

lemma keyword_skip_suffix:
  "match_keyword kw s = Ok (Some r) \<Longrightarrow> kw \<noteq> [] \<Longrightarrow> strict_suffix (skip_whitespace r) s"
  by (rule skip_strict_suffix [OF match_keyword_suffix])

lemma comparison_is_suffix:
  assumes ok: "comparison_is l s = Ok (e, r)"
  shows "suffix r s"
proof -
  obtain m where m: "match_keyword ''NOT'' (skip_whitespace s) = Ok m"
    using ok by (auto simp: comparison_is_def Let_def)
  define t where "t = (case m of Some r1 \<Rightarrow> skip_whitespace r1 | None \<Rightarrow> skip_whitespace s)"
  have t: "suffix t (skip_whitespace s)"
    using m keyword_skip_suffix [of "''NOT''" "skip_whitespace s"]
    by (auto simp: t_def strict_suffix_def split: option.splits)
  have r: "match_keyword ''NULL'' t = Ok (Some r)"
    using ok m by (auto simp: comparison_is_def Let_def t_def split: option.splits)
  show ?thesis
    using t match_keyword_suffix [OF r] suffix_skip [of s]
    by (auto simp: strict_suffix_def dest: suffix_trans)
qed

lemma comparison_is_total [simp]: "comparison_is l s \<noteq> Diverge"
  by (auto simp: comparison_is_def Let_def and_then_eqs split: option.splits)

section \<open>The contract of the nested parser\<close>

text \<open>
  \<open>pe\<close> consumes input whenever it succeeds, and it returns on every input shorter than \<open>lim\<close>.
\<close>

locale sub_parser =
  fixes pe :: "policy_expr parser" and lim :: nat
  assumes pe_consumes: "pe s = Ok (e, r) \<Longrightarrow> strict_suffix r s"
    and pe_total: "length s < lim \<Longrightarrow> pe s \<noteq> Diverge"
begin

lemma args_loop_consumes:
  assumes p: "\<And>t e r. p t = Ok (e, r) \<Longrightarrow> strict_suffix r t"
  shows "args_loop p n acc s = Ok (es, r) \<Longrightarrow> strict_suffix r s"
proof (induction n arbitrary: acc s)
  case (Suc n)
  then obtain e r1 where e: "p s = Ok (e, r1)" by auto
  then have r1: "strict_suffix r1 s" by (rule p)
  have sk: "suffix (skip_whitespace r1) r1" by (rule suffix_skip)
  from Suc.prems e consider
      (close) "match_char (CHR '')'') (skip_whitespace r1) = Some r"
    | (comma) r2 where "match_char (CHR '','') (skip_whitespace r1) = Some r2"
        "args_loop p n (acc @ [e]) r2 = Ok (es, r)"
    by (auto simp: Let_def split: option.splits)
  then show ?case
  proof cases
    case close
    then show ?thesis
      using r1 sk match_char_suffix strict_suffix_trans2 suffix_order.less_trans by metis
  next
    case comma
    then have "strict_suffix r r2" by (simp add: Suc.IH)
    with comma show ?thesis
      using r1 sk match_char_suffix strict_suffix_trans2 suffix_order.less_trans by metis
  qed
qed simp

lemma args_loop_total:
  assumes p: "\<And>t e r. p t = Ok (e, r) \<Longrightarrow> strict_suffix r t"
    and tot: "\<And>t. length t < k \<Longrightarrow> p t \<noteq> Diverge"
  shows "length s < n \<Longrightarrow> length s < k \<Longrightarrow> args_loop p n acc s \<noteq> Diverge"
proof (induction n arbitrary: acc s)
  case (Suc n)
  show ?case
  proof (simp only: args_loop.simps, rule and_then_no_Diverge)
    show "p s \<noteq> Diverge" using tot Suc.prems by blast
  next
    fix x assume x: "p s = Ok x"
    obtain e r1 where er: "x = (e, r1)" by (cases x)
    with x have "length r1 < length s" using p strict_suffix_length by blast
    moreover have "length (skip_whitespace r1) \<le> length r1"
      by (rule suffix_length_le [OF suffix_skip])
    ultimately have "length r2 < n \<and> length r2 < k"
      if "match_char c (skip_whitespace r1) = Some r2" for c r2
      using that Suc.prems by (auto dest!: match_char_suffix strict_suffix_length)
    then show "(case x of (arg, r) \<Rightarrow> let r = skip_whitespace r in
       case match_char (CHR '')'') r of Some r' \<Rightarrow> Ok (acc @ [arg], r')
       | None \<Rightarrow> (case match_char (CHR '','') r of Some r' \<Rightarrow> args_loop p n (acc @ [arg]) r'
           | None \<Rightarrow> Err (UnexpectedToken ''expected , or )''))) \<noteq> Diverge"
      using Suc.IH er by (auto simp: Let_def split: option.splits)
  qed
qed simp

lemma parse_args_consumes:
  assumes "parse_args pe n s = Ok (es, r)"
  shows "strict_suffix r s"
proof (rule strict_suffix_skip, cases "match_char (CHR '')'') (skip_whitespace s)")
  case None
  with assms have "args_loop pe n [] (skip_whitespace s) = Ok (es, r)"
    by (simp add: parse_args_def Let_def)
  then show "strict_suffix r (skip_whitespace s)"
    by (rule args_loop_consumes [rotated]) (rule pe_consumes)
next
  case (Some t)
  with assms show "strict_suffix r (skip_whitespace s)"
    using match_char_suffix by (auto simp: parse_args_def Let_def)
qed

lemma parse_args_total:
  assumes "length s < n" "length s < lim"
  shows "parse_args pe n s \<noteq> Diverge"
proof -
  have "args_loop pe n [] (skip_whitespace s) \<noteq> Diverge"
    using assms length_skip_whitespace [of s]
    by (intro args_loop_total [where k = lim]) (auto intro: pe_consumes dest: pe_total)
  then show ?thesis by (auto simp: parse_args_def Let_def split: option.splits)
qed

lemma parse_list_consumes:
  assumes p: "\<And>t e r. p t = Ok (e, r) \<Longrightarrow> strict_suffix r t"
    and ok: "parse_list p n s = Ok (es, r)"
  shows "strict_suffix r s"
proof -
  obtain s1 where s1: "match_char (CHR ''('') (skip_whitespace s) = Some s1"
    using ok by (auto simp: parse_list_def Let_def split: option.splits)
  have "strict_suffix r s1"
  proof (rule strict_suffix_skip, cases "match_char (CHR '')'') (skip_whitespace s1)")
    case None
    with ok s1 have "args_loop p n [] (skip_whitespace s1) = Ok (es, r)"
      by (simp add: parse_list_def Let_def)
    then show "strict_suffix r (skip_whitespace s1)"
      by (rule args_loop_consumes [rotated]) (rule p)
  next
    case (Some t)
    with ok s1 show "strict_suffix r (skip_whitespace s1)"
      using match_char_suffix by (auto simp: parse_list_def Let_def)
  qed
  with s1 show ?thesis
    using match_char_suffix strict_suffix_skip suffix_order.less_trans by metis
qed

lemma parse_list_total:
  assumes p: "\<And>t e r. p t = Ok (e, r) \<Longrightarrow> strict_suffix r t"
    and tot: "\<And>t. length t < k \<Longrightarrow> p t \<noteq> Diverge"
    and len: "length s < n" "length s < k"
  shows "parse_list p n s \<noteq> Diverge"
proof -
  have "args_loop p n [] (skip_whitespace s1) \<noteq> Diverge"
    if "match_char (CHR ''('') (skip_whitespace s) = Some s1" for s1
    using len length_skip_whitespace [of s] length_skip_whitespace [of s1]
      strict_suffix_length [OF match_char_suffix [OF that]]
    by (intro args_loop_total [where k = k]) (auto intro: p dest: tot)
  then show ?thesis by (auto simp: parse_list_def Let_def split: option.splits)
qed

lemma parse_identifier_or_call_consumes:
  assumes ok: "parse_identifier_or_call pe n s = Ok (e, r)"
  shows "strict_suffix r s"
proof -
  obtain x r0 where x: "parse_identifier s = Ok (x, r0)"
    using ok by (auto simp: parse_identifier_or_call_def)
  have "suffix r (skip_whitespace r0)"
    using ok x
    by (auto simp: parse_identifier_or_call_def Let_def strict_suffix_def split: option.splits if_splits
        dest!: parse_args_consumes parse_identifier_suffix match_char_suffix)
      (meson suffix_order.trans suffix_skip suffix_order.refl)+
  then have "suffix r r0" using suffix_skip suffix_order.trans by blast
  then show ?thesis using parse_identifier_suffix [OF x] suffix_strict_trans by blast
qed

lemma parse_identifier_or_call_total:
  assumes len: "length s \<le> n" "length s \<le> lim"
  shows "parse_identifier_or_call pe n s \<noteq> Diverge"
proof -
  have args: "parse_args pe n t \<noteq> Diverge" if "strict_suffix t s" for t
    using parse_args_total [of t n] strict_suffix_length [OF that] len by simp
  have args1: "parse_args pe n u \<noteq> Diverge"
    if "parse_identifier s = Ok (x, v)" "match_char c (skip_whitespace v) = Some u" for x v u c
    using that args ident_then_char by blast
  have args2: "parse_args pe n u' \<noteq> Diverge"
    if "parse_identifier s = Ok (x, v)" "match_char c (skip_whitespace v) = Some u"
      "parse_identifier u = Ok (x', v')" "match_char c' (skip_whitespace v') = Some u'"
    for x v u c x' v' u' c'
    using that args ident_then_char suffix_order.less_trans by metis
  show ?thesis
    by (auto simp: parse_identifier_or_call_def Let_def and_then_eqs validate_builtin_call_total
        split: option.splits if_splits dest: args1 args2)
qed

lemma parse_primary_consumes: "parse_primary pe n s = Ok (e, r) \<Longrightarrow> strict_suffix r s"
proof (induction n arbitrary: s e)
  case (Suc n)
  let ?t = "skip_whitespace s"
  have "strict_suffix r ?t"
  proof (cases "match_char (CHR ''('') ?t")
    case (Some u)
    with Suc.prems obtain r1 where "pe u = Ok (e, r1)"
        and "match_char (CHR '')'') (skip_whitespace r1) = Some r"
      by (auto simp: Let_def split: option.splits)
    with Some show ?thesis
      by (meson match_char_suffix pe_consumes strict_suffix_skip suffix_order.less_trans)
  next
    case None
    note paren = this
    show ?thesis
    proof (cases "match_char (CHR ''-'') ?t")
      case (Some u)
      with Suc.prems paren obtain e1 where "parse_primary pe n u = Ok (e1, r)"
        by (auto simp: Let_def)
      with Some Suc.IH show ?thesis by (meson match_char_suffix suffix_order.less_trans)
    next
      case None
      with Suc.prems paren show ?thesis
        by (auto simp: Let_def split: if_splits option.splits
            dest!: parse_string_literal_suffix parse_number_suffix match_keyword_suffix
              parse_identifier_or_call_consumes)
    qed
  qed
  then show ?case by (rule strict_suffix_skip)
qed simp

lemma parse_primary_total:
  "length s < n \<Longrightarrow> length s \<le> lim \<Longrightarrow> parse_primary pe n s \<noteq> Diverge"
proof (induction n arbitrary: s)
  case (Suc n)
  let ?t = "skip_whitespace s"
  have len: "length ?t \<le> n" "length ?t \<le> lim"
    using Suc.prems length_skip_whitespace [of s] by auto
  have pe: "pe u \<noteq> Diverge" if "match_char c ?t = Some u" for c u
    using pe_total [of u] strict_suffix_length [OF match_char_suffix [OF that]] len by simp
  have minus: "parse_primary pe n u \<noteq> Diverge" if "match_char c ?t = Some u" for c u
    using Suc.IH [of u] strict_suffix_length [OF match_char_suffix [OF that]] len by simp
  have ident: "parse_identifier_or_call pe n ?t \<noteq> Diverge"
    by (rule parse_identifier_or_call_total [OF len])
  show ?case
    using ident pe minus by (auto simp: Let_def and_then_eqs split: option.splits)
qed simp

text \<open>What a level that is built on \<open>parse_primary\<close> keeps, as one pair of facts.\<close>

definition level_ok :: "nat \<Rightarrow> policy_expr parser \<Rightarrow> bool" where
  "level_ok n p \<longleftrightarrow>
     (\<forall>s e r. p s = Ok (e, r) \<longrightarrow> strict_suffix r s) \<and>
     (\<forall>s. length s < n \<longrightarrow> length s \<le> lim \<longrightarrow> p s \<noteq> Diverge)"

lemma level_consumes: "level_ok n p \<Longrightarrow> p s = Ok (e, r) \<Longrightarrow> strict_suffix r s"
  by (simp add: level_ok_def)

lemma level_total: "level_ok n p \<Longrightarrow> length s < n \<Longrightarrow> length s \<le> lim \<Longrightarrow> p s \<noteq> Diverge"
  by (simp add: level_ok_def)

lemma level_primary: "level_ok n (parse_primary pe n)"
  by (auto simp: level_ok_def parse_primary_consumes parse_primary_total)

lemma comparison_op_suffix:
  assumes "level_ok n pp" "comparison_op pp l s = Ok (e, r)"
  shows "suffix r s"
  using assms(2)
  by (auto simp: comparison_op_def strict_suffix_def split: option.splits
      dest!: try_parse_comparison_op_suffix level_consumes [OF assms(1)])
    (meson suffix_trans)

lemma comparison_op_total:
  assumes "level_ok n pp" "length s < n" "length s \<le> lim"
  shows "comparison_op pp l s \<noteq> Diverge"
proof -
  have "pp t \<noteq> Diverge" if "suffix t s" for t
    using suffix_length_le [OF that] assms by (intro level_total) auto
  then show ?thesis
    by (auto simp: comparison_op_def and_then_eqs split: option.splits
        dest: try_parse_comparison_op_suffix)
qed

lemma comparison_in_suffix:
  assumes pp: "level_ok n pp" and ok: "comparison_in pp n l s = Ok (e, r)"
  shows "suffix r s"
proof -
  obtain m t where m: "match_keyword ''NOT'' s = Ok m"
      and t: "t = (case m of Some r \<Rightarrow> skip_whitespace r | None \<Rightarrow> s)"
    using ok by (auto simp: comparison_in_def)
  have ts: "suffix t s"
    using m t keyword_skip_suffix [of "''NOT''" s] by (auto simp: strict_suffix_def split: option.splits)
  consider (lst) u es where "match_keyword ''IN'' t = Ok (Some u)" "parse_list pp n u = Ok (es, r)"
    | (op) "comparison_op pp l t = Ok (e, r)"
    using ok m t by (auto simp: comparison_in_def Let_def split: option.splits)
  then have "suffix r t"
  proof cases
    case lst
    then have "strict_suffix r u" "strict_suffix u t"
      using parse_list_consumes [OF level_consumes [OF pp]] match_keyword_suffix by auto
    then show ?thesis by (auto simp: strict_suffix_def elim: suffix_trans)
  next
    case op
    then show ?thesis by (rule comparison_op_suffix [OF pp])
  qed
  with ts show ?thesis by (rule suffix_order.trans [rotated])
qed

lemma comparison_in_total:
  assumes pp: "level_ok n pp" and len: "length s < n" "length s \<le> lim"
  shows "comparison_in pp n l s \<noteq> Diverge"
proof -
  have lst: "parse_list pp n t \<noteq> Diverge" if "strict_suffix t s" for t
  proof (rule parse_list_total [where k = "length s"])
    show "length t < n" "length t < length s" using strict_suffix_length [OF that] len by auto
    show "pp u \<noteq> Diverge" if "length u < length s" for u
      using that len by (intro level_total [OF pp]) auto
  qed (rule level_consumes [OF pp])
  have op: "comparison_op pp l t \<noteq> Diverge" if "suffix t s" for t
    using suffix_length_le [OF that] len by (intro comparison_op_total [OF pp]) auto
  have "parse_list pp n u \<noteq> Diverge"
    if "match_keyword ''NOT'' s = Ok (Some r)" "match_keyword ''IN'' (skip_whitespace r) = Ok (Some u)" for r u
  proof -
    have "strict_suffix u (skip_whitespace r)" "strict_suffix (skip_whitespace r) s"
      using that match_keyword_suffix keyword_skip_suffix by auto
    then show ?thesis using lst suffix_order.less_trans by blast
  qed
  moreover have "parse_list pp n u \<noteq> Diverge" if "match_keyword ''IN'' s = Ok (Some u)" for u
    using lst [OF match_keyword_suffix [OF that]] by simp
  ultimately show ?thesis
    using op [of s]
    by (auto simp: comparison_in_def Let_def and_then_eqs split: option.splits)
qed

lemma level_comparison: "level_ok n (parse_comparison pe n)"
proof -
  note pp = level_primary [of n]
  have suf: "strict_suffix r s" if ok: "parse_comparison pe n s = Ok (e, r)" for s e r
  proof -
    obtain l r0 where l: "parse_primary pe n s = Ok (l, r0)"
      using ok by (auto simp: parse_comparison_def)
    obtain m where m: "match_keyword ''IS'' (skip_whitespace r0) = Ok m"
      using ok l by (auto simp: parse_comparison_def Let_def)
    have "suffix r (skip_whitespace r0)"
    proof (cases m)
      case None
      with ok l m show ?thesis
        by (auto simp: parse_comparison_def Let_def intro: comparison_in_suffix [OF pp])
    next
      case (Some u)
      with ok l m have "suffix r u"
        by (auto simp: parse_comparison_def Let_def intro: comparison_is_suffix)
      moreover have "suffix u (skip_whitespace r0)"
        using m Some match_keyword_suffix [of "''IS''"] by (auto simp: strict_suffix_def)
      ultimately show ?thesis by (rule suffix_order.trans)
    qed
    then have "suffix r r0" using suffix_skip suffix_order.trans by blast
    then show ?thesis using level_consumes [OF pp l] suffix_strict_trans by blast
  qed
  moreover have "parse_comparison pe n s \<noteq> Diverge" if len: "length s < n" "length s \<le> lim" for s
  proof -
    have "comparison_in (parse_primary pe n) n l (skip_whitespace r0) \<noteq> Diverge"
      if "parse_primary pe n s = Ok (l, r0)" for l r0
      using strict_suffix_length [OF level_consumes [OF pp that]] length_skip_whitespace [of r0] len
      by (intro comparison_in_total [OF pp]) auto
    then show ?thesis
      using level_total [OF pp len]
      by (auto simp: parse_comparison_def Let_def and_then_eqs split: option.splits)
  qed
  ultimately show ?thesis by (simp add: level_ok_def)
qed

lemma level_not: "level_ok n (parse_not_expr pe n n)"
proof -
  note cmp = level_comparison [of n]
  have "(\<forall>s e r. parse_not_expr pe n k s = Ok (e, r) \<longrightarrow> strict_suffix r s) \<and>
      (\<forall>s. length s < k \<longrightarrow> length s < n \<longrightarrow> length s \<le> lim \<longrightarrow> parse_not_expr pe n k s \<noteq> Diverge)" for k
  proof (induction k)
    case (Suc k)
    have "strict_suffix r s" if "parse_not_expr pe n (Suc k) s = Ok (e, r)" for s e r
    proof -
      have "strict_suffix r (skip_whitespace s)"
        using that Suc.IH level_consumes [OF cmp] match_keyword_suffix [of "''NOT''"]
        by (auto simp: Let_def split: option.splits) (meson suffix_order.less_trans)
      then show ?thesis by (rule strict_suffix_skip)
    qed
    moreover have "parse_not_expr pe n (Suc k) s \<noteq> Diverge"
      if "length s < Suc k" "length s < n" "length s \<le> lim" for s
    proof -
      have "parse_comparison pe n (skip_whitespace s) \<noteq> Diverge"
        using that length_skip_whitespace [of s] by (intro level_total [OF cmp]) auto
      moreover have "length r < k \<and> length r < n \<and> length r \<le> lim"
        if "match_keyword ''NOT'' (skip_whitespace s) = Ok (Some r)" for r
        using strict_suffix_length [OF match_keyword_suffix [OF that]] length_skip_whitespace [of s]
          \<open>length s < Suc k\<close> \<open>length s < n\<close> \<open>length s \<le> lim\<close> by simp
      ultimately show ?thesis
        using Suc.IH by (auto simp: Let_def and_then_eqs split: option.splits)
    qed
    ultimately show ?case by blast
  qed simp
  then show ?thesis by (simp add: level_ok_def)
qed

lemma binary_loop_consumes:
  assumes p: "level_ok n p" and kw: "kw \<noteq> []"
  shows "binary_loop kw op p k left s = Ok (e, r) \<Longrightarrow> suffix r s"
proof (induction k arbitrary: left s)
  case (Suc k)
  obtain m where m: "match_keyword kw (skip_whitespace s) = Ok m"
    using Suc.prems by (auto simp: Let_def)
  show ?case
  proof (cases m)
    case None
    with Suc.prems m suffix_skip [of s] show ?thesis by (auto simp: Let_def)
  next
    case (Some u)
    with Suc.prems m obtain x t where t: "p u = Ok (x, t)"
        "binary_loop kw op p k (BinaryOp left op x) t = Ok (e, r)"
      by (auto simp: Let_def)
    have "suffix r t" by (rule Suc.IH [OF t(2)])
    moreover have "strict_suffix t u" by (rule level_consumes [OF p t(1)])
    moreover have "strict_suffix u (skip_whitespace s)"
      using m Some kw match_keyword_suffix by simp
    ultimately show ?thesis using suffix_skip [of s]
      by (meson strict_suffix_def suffix_trans)
  qed
qed simp

lemma binary_loop_total:
  assumes p: "level_ok n p" and kw: "kw \<noteq> []"
  shows "length s < k \<Longrightarrow> length s < n \<Longrightarrow> length s \<le> lim \<Longrightarrow> binary_loop kw op p k left s \<noteq> Diverge"
proof (induction k arbitrary: left s)
  case (Suc k)
  have u: "length u < length s" if "match_keyword kw (skip_whitespace s) = Ok (Some u)" for u
    using strict_suffix_length [OF match_keyword_suffix [OF that kw]] length_skip_whitespace [of s]
    by simp
  have pu: "p u \<noteq> Diverge" if "match_keyword kw (skip_whitespace s) = Ok (Some u)" for u
    using u [OF that] Suc.prems by (intro level_total [OF p]) auto
  have "binary_loop kw op p k l t \<noteq> Diverge"
    if "match_keyword kw (skip_whitespace s) = Ok (Some u)" "p u = Ok (x, t)" for u x t l
    using u [OF that(1)] strict_suffix_length [OF level_consumes [OF p that(2)]] Suc.prems
    by (intro Suc.IH) auto
  with pu show ?case by (auto simp: Let_def and_then_eqs split: option.splits)
qed simp

text \<open>A left-associative chain of operands: \<open>parse_and_expr\<close> and \<open>parse_or_expr\<close>.\<close>

lemma level_binary:
  assumes p: "level_ok n p" and kw: "kw \<noteq> []"
  shows "level_ok n (\<lambda>s. and_then (p s) (\<lambda>(left, r). binary_loop kw op p n left r))"
proof -
  have "strict_suffix r s"
    if ok: "and_then (p s) (\<lambda>(left, r). binary_loop kw op p n left r) = Ok (e, r)" for s e r
  proof -
    obtain l t where l: "p s = Ok (l, t)" and t: "binary_loop kw op p n l t = Ok (e, r)"
      using ok by (cases "p s") auto
    show ?thesis
      by (rule suffix_strict_trans [OF binary_loop_consumes [OF p kw t] level_consumes [OF p l]])
  qed
  moreover have "and_then (p s) (\<lambda>(left, r). binary_loop kw op p n left r) \<noteq> Diverge"
    if len: "length s < n" "length s \<le> lim" for s
  proof -
    have "binary_loop kw op p n l t \<noteq> Diverge" if "p s = Ok (l, t)" for l t
      using strict_suffix_length [OF level_consumes [OF p that]] len
      by (intro binary_loop_total [OF p kw]) auto
    then show ?thesis using level_total [OF p len] by (auto simp: and_then_eqs)
  qed
  ultimately show ?thesis by (simp add: level_ok_def)
qed

lemma level_and: "level_ok n (parse_and_expr pe n)"
  using level_binary [OF level_not, of "''AND''" n OpAnd]
  by (simp add: parse_and_expr_def [abs_def])

lemma level_or: "level_ok n (parse_or_expr pe n)"
  using level_binary [OF level_and, of "''OR''" n OpOr]
  by (simp add: parse_or_expr_def [abs_def])

end

text \<open>On ASCII input no slice of a keyword can fall inside a character.\<close>

locale ascii_parser = sub_parser +
  assumes pe_ascii: "list_all is_ascii s \<Longrightarrow> pe s \<noteq> Panic"
begin

definition ascii_ok :: "policy_expr parser \<Rightarrow> bool" where
  "ascii_ok p \<longleftrightarrow> (\<forall>s. list_all is_ascii s \<longrightarrow> p s \<noteq> Panic)"

lemma ascii_okD: "ascii_ok p \<Longrightarrow> list_all is_ascii s \<Longrightarrow> p s \<noteq> Panic"
  by (simp add: ascii_ok_def)

lemma ascii_skip [intro]: "list_all is_ascii s \<Longrightarrow> list_all is_ascii (skip_whitespace s)"
  by (rule suffix_ascii [OF suffix_skip])

lemma ascii_strict: "strict_suffix r s \<Longrightarrow> list_all is_ascii s \<Longrightarrow> list_all is_ascii r"
  by (auto simp: strict_suffix_def intro: suffix_ascii)

lemma ascii_char: "match_char c s = Some r \<Longrightarrow> list_all is_ascii s \<Longrightarrow> list_all is_ascii r"
  by (auto simp: match_char_Some)

lemma ascii_keyword:
  "match_keyword kw s = Ok (Some r) \<Longrightarrow> list_all is_ascii s \<Longrightarrow> list_all is_ascii r"
  by (auto dest!: match_keyword_SomeD simp: list_all_length)

lemma ascii_ident:
  "parse_identifier s = Ok (x, r) \<Longrightarrow> list_all is_ascii s \<Longrightarrow> list_all is_ascii r"
  using ascii_strict parse_identifier_suffix by blast

lemmas ascii_rests = ascii_char ascii_keyword ascii_ident ascii_skip

lemma args_loop_ascii:
  assumes p: "ascii_ok p" "\<And>t e r. p t = Ok (e, r) \<Longrightarrow> strict_suffix r t"
  shows "list_all is_ascii s \<Longrightarrow> args_loop p n acc s \<noteq> Panic"
proof (induction n arbitrary: acc s)
  case (Suc n)
  have "args_loop p n (acc @ [x]) u \<noteq> Panic"
    if "p s = Ok (x, r)" "match_char c (skip_whitespace r) = Some u" for x r c u
    using that p(2) Suc by (meson ascii_char ascii_skip ascii_strict)
  then show ?case
    using ascii_okD [OF p(1) Suc.prems] by (auto simp: Let_def and_then_eqs split: option.splits)
qed simp

lemma ascii_pe: "ascii_ok pe"
  by (simp add: ascii_ok_def pe_ascii)

lemma parse_args_ascii: "list_all is_ascii s \<Longrightarrow> parse_args pe n s \<noteq> Panic"
  using args_loop_ascii [OF ascii_pe pe_consumes ascii_skip [of s]]
  by (auto simp: parse_args_def Let_def split: option.splits)

lemma parse_list_ascii:
  assumes "ascii_ok p" "\<And>t e r. p t = Ok (e, r) \<Longrightarrow> strict_suffix r t" "list_all is_ascii s"
  shows "parse_list p n s \<noteq> Panic"
proof -
  have "args_loop p n [] (skip_whitespace u) \<noteq> Panic"
    if "match_char c (skip_whitespace s) = Some u" for c u
    using that assms(3) by (intro args_loop_ascii [OF assms(1,2)]) (auto dest: ascii_char)
  then show ?thesis by (auto simp: parse_list_def Let_def split: option.splits)
qed

lemma parse_identifier_or_call_ascii:
  assumes "list_all is_ascii s"
  shows "parse_identifier_or_call pe n s \<noteq> Panic"
proof -
  have args: "parse_args pe n t \<noteq> Panic" if "strict_suffix t s" for t
    using parse_args_ascii ascii_strict [OF that assms] .
  have args1: "parse_args pe n u \<noteq> Panic"
    if "parse_identifier s = Ok (x, v)" "match_char c (skip_whitespace v) = Some u" for x v u c
    using that args ident_then_char by blast
  have args2: "parse_args pe n u' \<noteq> Panic"
    if "parse_identifier s = Ok (x, v)" "match_char c (skip_whitespace v) = Some u"
      "parse_identifier u = Ok (x', v')" "match_char c' (skip_whitespace v') = Some u'"
    for x v u c x' v' u' c'
    using that args ident_then_char suffix_order.less_trans by metis
  show ?thesis
    by (auto simp: parse_identifier_or_call_def Let_def and_then_eqs validate_builtin_call_total
        split: option.splits if_splits dest: args1 args2)
qed

lemma parse_primary_ascii: "ascii_ok (parse_primary pe n)"
proof (induction n)
  case 0
  show ?case by (simp add: ascii_ok_def)
next
  case (Suc n)
  have "parse_primary pe (Suc n) s \<noteq> Panic" if s: "list_all is_ascii s" for s
  proof -
    have t: "list_all is_ascii (skip_whitespace s)" using s by blast
    have "pe u \<noteq> Panic" "parse_primary pe n u \<noteq> Panic" if "match_char c (skip_whitespace s) = Some u" for c u
      using that t pe_ascii ascii_okD [OF Suc] by (auto dest: ascii_char)
    with t parse_identifier_or_call_ascii [OF t, of n] show ?thesis
      by (auto simp: Let_def and_then_eqs match_keyword_ascii split: option.splits)
  qed
  then show ?case by (simp add: ascii_ok_def)
qed

lemma parse_comparison_ascii: "ascii_ok (parse_comparison pe n)"
proof -
  note pp = parse_primary_ascii [of n] and cons = level_consumes [OF level_primary]
  have is_ok: "comparison_is l s \<noteq> Panic" if s: "list_all is_ascii s" for l s
    using match_keyword_ascii [OF ascii_skip [OF s]]
      match_keyword_ascii [OF ascii_skip [OF ascii_keyword [OF _ ascii_skip [OF s]]]]
    by (auto simp: comparison_is_def Let_def and_then_eqs split: option.splits)
  have op_ok: "comparison_op (parse_primary pe n) l s \<noteq> Panic" if s: "list_all is_ascii s" for l s
    using try_parse_comparison_op_ascii [OF s] suffix_ascii [OF try_parse_comparison_op_suffix s]
    by (auto simp: comparison_op_def and_then_eqs split: option.splits dest: ascii_okD [OF pp])
  have list_ok: "parse_list (parse_primary pe n) n s \<noteq> Panic" if "list_all is_ascii s" for s
    by (rule parse_list_ascii [OF pp cons that])
  have in_ok: "comparison_in (parse_primary pe n) n l s \<noteq> Panic" if s: "list_all is_ascii s" for l s
  proof -
    have "match_keyword kw (skip_whitespace u) \<noteq> Panic \<and>
        (\<forall>v. match_keyword kw (skip_whitespace u) = Ok (Some v) \<longrightarrow> list_all is_ascii v)"
      if "match_keyword kw' s = Ok (Some u)" for kw kw' u
      using match_keyword_ascii [OF ascii_skip [OF ascii_keyword [OF that s]]]
        ascii_keyword [OF _ ascii_skip [OF ascii_keyword [OF that s]]] by blast
    moreover have "list_all is_ascii v" if "match_keyword kw s = Ok (Some v)" for kw v
      using that s by (rule ascii_keyword)
    ultimately show ?thesis
      using op_ok [OF s] list_ok match_keyword_ascii [OF s]
      by (auto simp: comparison_in_def Let_def and_then_eqs split: option.splits)
  qed
  have "parse_comparison pe n s \<noteq> Panic" if s: "list_all is_ascii s" for s
  proof -
    have r: "list_all is_ascii (skip_whitespace r)" if "parse_primary pe n s = Ok (l, r)" for l r
      using ascii_strict [OF cons [OF that] s] by blast
    have "match_keyword ''IS'' (skip_whitespace r) \<noteq> Panic \<and>
        (\<forall>u. match_keyword ''IS'' (skip_whitespace r) = Ok (Some u) \<longrightarrow> list_all is_ascii u)"
      if "parse_primary pe n s = Ok (l, r)" for l r
      using match_keyword_ascii [OF r [OF that]] ascii_keyword [OF _ r [OF that]] by blast
    with r ascii_okD [OF pp s] is_ok in_ok show ?thesis
      by (auto simp: parse_comparison_def Let_def and_then_eqs split: option.splits)
  qed
  then show ?thesis by (simp add: ascii_ok_def)
qed

lemma parse_not_ascii: "ascii_ok (parse_not_expr pe n k)"
proof (induction k)
  case 0
  show ?case by (simp add: ascii_ok_def)
next
  case (Suc k)
  have "parse_not_expr pe n (Suc k) s \<noteq> Panic" if s: "list_all is_ascii s" for s
    using ascii_okD [OF parse_comparison_ascii ascii_skip [OF s], of n]
      match_keyword_ascii [OF ascii_skip [OF s]] ascii_keyword [OF _ ascii_skip [OF s]]
      ascii_okD [OF Suc]
    by (auto simp: Let_def and_then_eqs split: option.splits)
  then show ?case by (simp add: ascii_ok_def)
qed

lemma binary_ascii:
  assumes p: "ascii_ok p" and lvl: "level_ok n p" and kw: "kw \<noteq> []"
  shows "ascii_ok (\<lambda>s. and_then (p s) (\<lambda>(left, r). binary_loop kw op p k left r))"
proof -
  have loop: "binary_loop kw op p k l s \<noteq> Panic" if "list_all is_ascii s" for k l s
    using that
  proof (induction k arbitrary: l s)
    case (Suc k)
    have rest: "list_all is_ascii u" if "match_keyword kw (skip_whitespace s) = Ok (Some u)" for u
      by (rule ascii_keyword [OF that ascii_skip [OF Suc.prems]])
    have "binary_loop kw op p k x t \<noteq> Panic"
      if "match_keyword kw (skip_whitespace s) = Ok (Some u)" "p u = Ok (y, t)" for u x y t
      by (rule Suc.IH [OF ascii_strict [OF level_consumes [OF lvl that(2)] rest [OF that(1)]]])
    then show ?case
      using match_keyword_ascii [OF ascii_skip [OF Suc.prems]] ascii_okD [OF p rest]
      by (auto simp: Let_def and_then_eqs split: option.splits)
  qed simp
  then show ?thesis
    using ascii_okD [OF p] ascii_strict [OF level_consumes [OF lvl]]
    by (auto simp: ascii_ok_def and_then_eqs)
qed

lemma parse_and_ascii: "ascii_ok (parse_and_expr pe n)"
  using binary_ascii [OF parse_not_ascii level_not, of "''AND''" n OpAnd n]
  by (simp add: parse_and_expr_def [abs_def])

lemma parse_or_ascii: "ascii_ok (parse_or_expr pe n)"
  using binary_ascii [OF parse_and_ascii level_and, of "''OR''" n OpOr n]
  by (simp add: parse_or_expr_def [abs_def])

end

text \<open>The parser of nesting depth \<open>n\<close> meets the contract for inputs shorter than \<open>n\<close>.\<close>

lemma sub_parser_parse_expr: "sub_parser (parse_expr n) n"
proof (induction n)
  case 0
  show ?case by unfold_locales simp_all
next
  case (Suc n)
  then have lvl: "sub_parser.level_ok n (Suc n) (parse_or_expr (parse_expr n) (Suc n))"
    by (rule sub_parser.level_or)
  show ?case
    by unfold_locales
      (use sub_parser.level_consumes [OF Suc lvl] sub_parser.level_total [OF Suc lvl]
       in \<open>auto\<close>)
qed

interpretation expr: sub_parser "parse_expr n" n for n
  by (rule sub_parser_parse_expr)

lemma ascii_parser_parse_expr: "ascii_parser (parse_expr n) n"
proof (induction n)
  case 0
  show ?case by unfold_locales simp
next
  case (Suc n)
  have "parse_expr (Suc n) s \<noteq> Panic" if "list_all is_ascii s" for s
    using ascii_parser.ascii_okD [OF Suc ascii_parser.parse_or_ascii [OF Suc] that] by simp
  then show ?case by unfold_locales
qed

interpretation expr: ascii_parser "parse_expr n" n for n
  by (rule ascii_parser_parse_expr)

section \<open>Properties\<close>

text \<open>
  A policy source text of ASCII characters never makes the parser panic: the only slices it
  takes at a computed offset (\<open>match_keyword\<close>) are then on a character boundary.
\<close>

theorem parse_policy_expr_no_panic:
  assumes "list_all is_ascii input"
  shows "parse_policy_expr input \<noteq> Panic"
  using expr.pe_ascii [OF assms, of "Suc (length input)"]
  by (auto simp: parse_policy_expr_def Let_def and_then_eqs split: if_splits)

lemma parse_policy_expr_no_panic_witness:
  "list_all is_ascii ''a = 1'' \<and> parse_policy_expr ''a = 1'' \<noteq> Panic"
proof -
  have "list_all is_ascii ''a = 1''" by (simp add: is_ascii_def)
  then show ?thesis using parse_policy_expr_no_panic by blast
qed

text \<open>
  The restriction to ASCII is needed: a call argument that is a string literal with a two-byte
  character at its third byte, \<open>auth.has_permission('ae')\<close> with an acute accent on the e, makes
  \<open>match_keyword("NOT")\<close> slice inside that character, and the parser panics instead of
  returning the call.
\<close>

theorem parse_policy_expr_panics:
  "parse_policy_expr
     (''auth.has_permission('' @ [CHR 0x27, CHR ''a'', CHR 0xC3, CHR 0xA9, CHR 0x27] @ '')'') = Panic"
  by code_simp

text \<open>
  C40. The parser ends on every input, and on ASCII input it answers. The nesting and loop fuel that \<open>parse_policy_expr\<close> is
  run with, one more than the length of the input, is never used up; and if the text is ASCII the result is a tree or an
  error. On other texts it may panic instead: \<open>match_keyword\<close> slices by bytes, and with an acute accent on the e of
  \<open>auth.has_permission('ae')\<close> the slice ends inside a character.
\<close>

theorem parse_policy_expr_returns:
  "parse_policy_expr input \<noteq> Diverge \<and>
   (list_all is_ascii input \<longrightarrow>
      (\<exists>e. parse_policy_expr input = Ok e) \<or> (\<exists>err. parse_policy_expr input = Err err)) \<and>
   parse_policy_expr (''auth.has_permission('' @ [CHR 0x27, CHR ''a'', CHR 0xC3, CHR 0xA9, CHR 0x27] @ '')'') = Panic"
proof (intro conjI impI)
  show total: "parse_policy_expr input \<noteq> Diverge" for input
    using expr.pe_total [of input "Suc (length input)"]
    by (auto simp: parse_policy_expr_def Let_def and_then_eqs split: if_splits)
  assume "list_all is_ascii input"
  with expr.pe_ascii [of input "Suc (length input)"] have "parse_policy_expr input \<noteq> Panic"
    by (auto simp: parse_policy_expr_def Let_def and_then_eqs split: if_splits)
  with total [of input] show "(\<exists>e. parse_policy_expr input = Ok e) \<or> (\<exists>err. parse_policy_expr input = Err err)"
    by (cases "parse_policy_expr input") auto
qed (rule parse_policy_expr_panics)

lemma parse_policy_expr_returns_witness:
  "(\<exists>e. parse_policy_expr ''a = 1'' = Ok e) \<or> (\<exists>err. parse_policy_expr ''a = 1'' = Err err)"
proof -
  have "list_all is_ascii ''a = 1''" by (simp add: is_ascii_def)
  then show ?thesis using parse_policy_expr_returns by blast
qed

text \<open>
  What a parsed policy looks like: every name in the tree is an identifier, an integer is a
  non-negative \<open>i64\<close>, a float is non-negative, a call has an identifier for its name and there is
  no raw subquery. The locale \<open>result_parser\<close> states it for one nesting level of the grammar, on
  top of the parser for the level below.
\<close>

definition is_ident :: "string \<Rightarrow> bool" where
  "is_ident x \<longleftrightarrow> (case x of [] \<Rightarrow> False | c # r \<Rightarrow> is_ident_start c \<and> list_all is_ident_char r)"

fun nonneg_float :: "f64 \<Rightarrow> bool" where
  "nonneg_float FNan \<longleftrightarrow> False"
| "nonneg_float (FInf s) \<longleftrightarrow> \<not> s"
| "nonneg_float (FFin s m e) \<longleftrightarrow> \<not> s"

fun parsed_literal :: "policy_literal \<Rightarrow> bool" where
  "parsed_literal (LitInt i) \<longleftrightarrow> 0 \<le> i \<and> i < 2 ^ 63"
| "parsed_literal (LitFloat f) \<longleftrightarrow> nonneg_float f"
| "parsed_literal _ \<longleftrightarrow> True"

fun parsed_expr :: "policy_expr \<Rightarrow> bool" where
  "parsed_expr (Column x) \<longleftrightarrow> is_ident x"
| "parsed_expr (QualifiedColumn t c) \<longleftrightarrow> is_ident t \<and> is_ident c"
| "parsed_expr (Literal l) \<longleftrightarrow> parsed_literal l"
| "parsed_expr (BinaryOp l op r) \<longleftrightarrow> parsed_expr l \<and> parsed_expr r"
| "parsed_expr (UnaryOp op e) \<longleftrightarrow> parsed_expr e"
| "parsed_expr (AuthBuiltinCall f args) \<longleftrightarrow> is_ident f \<and> list_all parsed_expr args"
| "parsed_expr (DomainBuiltin d f args) \<longleftrightarrow>
     is_ident d \<and> is_domain_builtin d \<and> is_ident f \<and> list_all parsed_expr args"
| "parsed_expr (IsNull e neg) \<longleftrightarrow> parsed_expr e"
| "parsed_expr (InList e es neg) \<longleftrightarrow> parsed_expr e \<and> list_all parsed_expr es"
| "parsed_expr (Subquery sql) \<longleftrightarrow> False"

section \<open>Tokens\<close>

lemma parse_identifier_is_ident: "parse_identifier s = Ok (x, r) \<Longrightarrow> is_ident x"
  by (auto simp: parse_identifier_def Let_def is_ident_def list.pred_set dest: set_takeWhileD
      split: list.splits if_splits)

lemma f64_of_ratio_nonneg: "nonneg_float (f64_of_ratio False n d)"
  by (simp add: f64_of_ratio_def Let_def split: prod.split)

lemma number_span_chars:
  "number_span d s = (ds, d', r) \<Longrightarrow>
     (\<forall>c \<in> set ds. is_ascii_digit c \<or> c = CHR ''.'')"
  by (induction d s arbitrary: ds d' r rule: number_span.induct) (auto split: if_splits prod.splits)

lemma parse_f64_nonneg:
  assumes "\<forall>c \<in> set s. is_ascii_digit c \<or> c = CHR ''.''" "parse_f64 s = Some f"
  shows "nonneg_float f"
proof (cases s)
  case Nil
  with assms show ?thesis by (simp add: parse_f64_def eq_ignore_ascii_case_def)
next
  case (Cons c r)
  have c: "is_ascii_digit c \<or> c = CHR ''.''" using assms(1) Cons by simp
  then have sign: "c \<noteq> CHR ''-''" "c \<noteq> CHR ''+''" by (auto simp: is_ascii_digit_def)
  have low: "ascii_lower c = c" using c by (auto simp: ascii_lower_def ascii_class_defs)
  have "c \<noteq> CHR ''i''" "c \<noteq> CHR ''n''" using c by (auto simp: is_ascii_digit_def)
  moreover have "ascii_lower CHR ''i'' = CHR ''i''" "ascii_lower CHR ''n'' = CHR ''n''"
    by (simp_all add: ascii_lower_def is_ascii_upper_def)
  ultimately have names: "\<not> eq_ignore_ascii_case s ''inf''" "\<not> eq_ignore_ascii_case s ''infinity''"
      "\<not> eq_ignore_ascii_case s ''nan''"
    using low Cons by (auto simp: eq_ignore_ascii_case_def)
  have "nonneg_float (f64_of_decimal False ip fp x)" for ip fp x
    by (simp add: f64_of_decimal_def Let_def f64_of_ratio_nonneg)
  with assms(2) sign names show ?thesis
    by (auto simp: parse_f64_def Let_def Cons split: if_splits list.splits)
qed

lemma parse_number_parsed: "parse_number s = Ok (e, r) \<Longrightarrow> s \<noteq> [] \<Longrightarrow> is_ascii_digit (hd s) \<Longrightarrow> parsed_expr e"
proof -
  assume ok: "parse_number s = Ok (e, r)" and s: "s \<noteq> []" "is_ascii_digit (hd s)"
  obtain ds d t where span: "number_span False s = (ds, d, t)" by (cases "number_span False s") auto
  have chars: "\<forall>c \<in> set ds. is_ascii_digit c \<or> c = CHR ''.''" by (rule number_span_chars [OF span])
  obtain u v where ds: "ds = u # v" "is_ascii_digit u"
    using span s by (cases s) (auto split: prod.splits)
  show ?thesis
  proof (cases d)
    case True
    with ok span parse_f64_nonneg [OF chars] show ?thesis by (auto simp: parse_number_def)
  next
    case False
    then have "0 \<le> i \<and> i < 2 ^ 63" if "parse_i64 ds = Some i" for i
      using that parse_i64_range [OF that] ds digit_not_sign [OF ds(2)]
      by (auto simp: parse_i64_def Let_def split: if_splits)
    with ok span False show ?thesis by (auto simp: parse_number_def)
  qed
qed

lemma parse_string_literal_parsed: "parse_string_literal s = Ok (e, r) \<Longrightarrow> parsed_expr e"
  by (auto simp: parse_string_literal_def split: option.splits)

section \<open>One level of the grammar\<close>

definition results_ok :: "policy_expr parser \<Rightarrow> bool" where
  "results_ok p \<longleftrightarrow> (\<forall>s e r. p s = Ok (e, r) \<longrightarrow> parsed_expr e)"

lemma results_okD: "results_ok p \<Longrightarrow> p s = Ok (e, r) \<Longrightarrow> parsed_expr e"
  by (auto simp: results_ok_def)

lemma args_loop_results:
  "results_ok p \<Longrightarrow> list_all parsed_expr acc \<Longrightarrow> args_loop p n acc s = Ok (es, r) \<Longrightarrow> list_all parsed_expr es"
proof (induction n arbitrary: acc s)
  case (Suc n)
  obtain x t where x: "p s = Ok (x, t)" using Suc.prems by auto
  have "parsed_expr x" by (rule results_okD [OF Suc.prems(1) x])
  then have "list_all parsed_expr (acc @ [x])" using Suc.prems(2) by simp
  from Suc.IH [OF Suc.prems(1) this] this Suc.prems x show ?case
    by (auto simp: Let_def split: option.splits)
qed simp

lemma parse_args_results: "results_ok p \<Longrightarrow> parse_args p n s = Ok (es, r) \<Longrightarrow> list_all parsed_expr es"
  by (auto simp: parse_args_def Let_def split: option.splits)
    (erule args_loop_results [rotated 2], assumption, simp)

lemma parse_list_results: "results_ok p \<Longrightarrow> parse_list p n s = Ok (es, r) \<Longrightarrow> list_all parsed_expr es"
  by (auto simp: parse_list_def Let_def split: option.splits)
    (erule args_loop_results [rotated 2], assumption, simp)

lemma binary_loop_results:
  "results_ok p \<Longrightarrow> parsed_expr l \<Longrightarrow> binary_loop kw op p n l s = Ok (e, r) \<Longrightarrow> parsed_expr e"
proof (induction n arbitrary: l s)
  case (Suc n)
  obtain m where m: "match_keyword kw (skip_whitespace s) = Ok m" using Suc.prems by (auto simp: Let_def)
  show ?case
  proof (cases m)
    case None
    with Suc.prems m show ?thesis by (auto simp: Let_def)
  next
    case (Some u)
    with Suc.prems m obtain x t where x: "p u = Ok (x, t)" "binary_loop kw op p n (BinaryOp l op x) t = Ok (e, r)"
      by (auto simp: Let_def)
    have "parsed_expr x" by (rule results_okD [OF Suc.prems(1) x(1)])
    then show ?thesis using Suc.IH [OF Suc.prems(1) _ x(2)] Suc.prems(2) by simp
  qed
qed simp

lemma binary_results:
  "results_ok p \<Longrightarrow> results_ok (\<lambda>s. and_then (p s) (\<lambda>(left, r). binary_loop kw op p n left r))"
  by (subst results_ok_def, intro allI impI, elim and_then_OkE, unfold case_prod_beta)
    (rule binary_loop_results, auto dest: results_okD)

locale result_parser =
  fixes pe :: "policy_expr parser"
  assumes pe_results: "results_ok pe"
begin

lemma parse_identifier_or_call_results: "results_ok (parse_identifier_or_call pe n)"
  by (auto simp: results_ok_def parse_identifier_or_call_def Let_def parse_identifier_is_ident
      split: option.splits if_splits)
    (auto dest: parse_args_results [OF pe_results])

lemma parse_primary_results: "results_ok (parse_primary pe n)"
proof (induction n)
  case (Suc n)
  show ?case
    unfolding results_ok_def
    by (auto simp: Let_def split: option.splits if_splits)
      (auto dest: results_okD [OF pe_results] results_okD [OF Suc]
          results_okD [OF parse_identifier_or_call_results] parse_number_parsed
          parse_string_literal_parsed)
qed (simp add: results_ok_def)

lemma parse_comparison_results: "results_ok (parse_comparison pe n)"
proof -
  note pp = parse_primary_results [of n]
  have is_ok: "parsed_expr e" if "comparison_is l s = Ok (e, r)" "parsed_expr l" for l s e r
    using that by (auto simp: comparison_is_def Let_def split: option.splits)
  have op_ok: "parsed_expr e" if "comparison_op (parse_primary pe n) l s = Ok (e, r)" "parsed_expr l" for l s e r
    using that by (auto simp: comparison_op_def split: option.splits) (auto dest: results_okD [OF pp])
  have in_ok: "parsed_expr e" if "comparison_in (parse_primary pe n) n l s = Ok (e, r)" "parsed_expr l" for l s e r
    using that
    by (auto simp: comparison_in_def Let_def split: option.splits if_splits)
      (auto dest: parse_list_results [OF pp] op_ok)
  show ?thesis
    unfolding results_ok_def
    by (auto simp: parse_comparison_def Let_def split: option.splits) (auto dest: is_ok in_ok results_okD [OF pp])
qed

lemma parse_not_results: "results_ok (parse_not_expr pe n k)"
proof (induction k)
  case (Suc k)
  show ?case
    unfolding results_ok_def
    by (auto simp: Let_def split: option.splits)
      (auto dest: results_okD [OF Suc] results_okD [OF parse_comparison_results])
qed (simp add: results_ok_def)

lemma parse_or_results: "results_ok (parse_or_expr pe n)"
proof -
  have "results_ok (parse_and_expr pe n)"
    using binary_results [OF parse_not_results, of n n "''AND''" OpAnd n]
    by (simp add: parse_and_expr_def [abs_def])
  from binary_results [OF this, of "''OR''" OpOr n] show ?thesis
    by (simp add: parse_or_expr_def [abs_def])
qed

end

lemma result_parser_parse_expr: "result_parser (parse_expr n)"
proof (induction n)
  case 0
  show ?case by unfold_locales (simp add: results_ok_def)
next
  case (Suc n)
  have "parse_expr (Suc n) = parse_or_expr (parse_expr n) (Suc n)" by (simp add: fun_eq_iff)
  with result_parser.parse_or_results [OF Suc, of "Suc n"] show ?case by unfold_locales simp
qed

interpretation parsed: result_parser "parse_expr n" for n
  by (rule result_parser_parse_expr)

lemma parse_policy_expr_parsed: "parse_policy_expr s = Ok e \<Longrightarrow> parsed_expr e"
  by (auto simp: parse_policy_expr_def Let_def simp del: parse_expr.simps split: if_splits)
    (auto simp del: parse_expr.simps dest: results_okD [OF parsed.pe_results])

section \<open>Properties\<close>

text \<open>
  Every tree the parser returns is well formed: its names are ASCII identifiers, its integers
  are non-negative 64-bit values, its floats are non-negative, and it has no raw subquery; so no
  quote, space or sign of the source text reaches a name.
\<close>

theorem parse_policy_expr_well_formed:
  "case parse_policy_expr input of Ok e \<Rightarrow> parsed_expr e | _ \<Rightarrow> True"
  by (simp add: parse_policy_expr_parsed split: result.split)

end
