(* ===== verification/Policy_Eval.thy ===== *)
theory Policy_Eval
  imports Policy_Ast F64 Sql_Lex
begin

text \<open>
  Evaluation of a policy expression against the request's identity
  (\<open>crates/reactor-policy/src/eval.rs\<close>). The first section is the code: \<open>evaluate\<close> folds what
  the identity decides and leaves the rest as SQL text. The second gives the text a structure
  (\<open>sql\<close>, printed by \<open>render\<close>) and proves that \<open>evaluate\<close> prints the structured evaluator
  \<open>evaluate_sql\<close>. The third says what a policy and its residual mean on a row, in SQL's
  three-valued logic; comparison and negation of the database are parameters (\<open>sql_db\<close>).
\<close>

section \<open>The code\<close>

datatype 'a eval_result = Const bool | Residual 'a

fun is_always_true :: "'a eval_result \<Rightarrow> bool" where
  "is_always_true r = (case r of Const True \<Rightarrow> True | _ \<Rightarrow> False)"

fun is_always_false :: "'a eval_result \<Rightarrow> bool" where
  "is_always_false r = (case r of Const False \<Rightarrow> True | _ \<Rightarrow> False)"

fun eval_literal :: "policy_literal \<Rightarrow> string eval_result" where
  "eval_literal (LitBool b) = Const b"
| "eval_literal LitNull = Residual ''NULL''"
| "eval_literal (LitString s) = Residual (squoted (escape_quotes s))"
| "eval_literal (LitInt n) = Residual (show_int n)"
| "eval_literal (LitFloat n) = Residual (show_f64 n)"

text \<open>The conversion of a result to SQL, written out four times in the source.\<close>

fun result_sql :: "string eval_result \<Rightarrow> string" where
  "result_sql (Const True) = ''TRUE''"
| "result_sql (Const False) = ''FALSE''"
| "result_sql (Residual s) = s"

definition sql_or_null :: "(string \<Rightarrow> string) \<Rightarrow> string option \<Rightarrow> string eval_result" where
  "sql_or_null f v = (case v of Some s \<Rightarrow> Residual (squoted (f s)) | None \<Rightarrow> Residual ''NULL'')"

text \<open>
  \<open>eval_auth_builtin\<close> evaluates its first argument on its own; here \<open>results\<close> are the results of
  the arguments (evaluation has no effects).
\<close>

definition eval_auth_builtin ::
  "string \<Rightarrow> policy_expr list \<Rightarrow> string eval_result list \<Rightarrow> policy_ctx \<Rightarrow> string eval_result" where
  "eval_auth_builtin name args results ctx =
     (if name = ''user_id'' then sql_or_null id (ctx_user_id ctx)
      else if name = ''org_id'' then sql_or_null id (ctx_org_id ctx)
      else if name = ''role'' then Residual ''NULL''
      else if name = ''has_permission'' then
        (case args of
           Literal (LitString permission) # _ \<Rightarrow> Const (ctx_permission ctx permission)
         | _ \<Rightarrow> Residual ''false'')
      else if name = ''in_org'' then
        (case results of
           [] \<Rightarrow> Const False
         | Residual sql # _ \<Rightarrow>
             (case ctx_org_id ctx of
                Some org \<Rightarrow> Residual (''('' @ sql @ '' = '' @ squoted org @ '')'')
              | None \<Rightarrow> Const False)
         | Const _ # _ \<Rightarrow> Const False)
      else if name = ''email'' then sql_or_null escape_quotes (ctx_email ctx)
      else if name = ''session_id'' then sql_or_null id (ctx_session_id ctx)
      else if name = ''is_authenticated'' then Const (ctx_is_authenticated ctx)
      else Residual ''NULL'')"

definition combine_sql :: "policy_binary_op \<Rightarrow> string eval_result \<Rightarrow> string eval_result \<Rightarrow> string eval_result" where
  "combine_sql op l r =
     Residual (''('' @ result_sql l @ '' '' @ binary_op_as_sql op @ '' '' @ result_sql r @ '')'')"

definition eval_binary_op ::
  "policy_binary_op \<Rightarrow> string eval_result \<Rightarrow> string eval_result \<Rightarrow> string eval_result" where
  "eval_binary_op op l r =
     (if op = OpAnd \<and> is_always_false l then Const False
      else if op = OpAnd \<and> is_always_false r then Const False
      else if op = OpAnd \<and> is_always_true l \<and> is_always_true r then Const True
      else if op = OpAnd \<and> is_always_true l then r
      else if op = OpAnd \<and> is_always_true r then l
      else if op = OpOr \<and> is_always_true l then Const True
      else if op = OpOr \<and> is_always_true r then Const True
      else if op = OpOr \<and> is_always_false l \<and> is_always_false r then Const False
      else if op = OpOr \<and> is_always_false l then r
      else if op = OpOr \<and> is_always_false r then l
      else combine_sql op l r)"

fun eval_unary_op :: "policy_unary_op \<Rightarrow> string eval_result \<Rightarrow> string eval_result" where
  "eval_unary_op OpNot (Const b) = Const (\<not> b)"
| "eval_unary_op OpNot (Residual s) = Residual (''(NOT '' @ s @ '')'')"
| "eval_unary_op OpMinus (Const b) = Residual ''-''"
| "eval_unary_op OpMinus (Residual s) = Residual (''(-'' @ s @ '')'')"

fun eval_is_null :: "string eval_result \<Rightarrow> bool \<Rightarrow> string eval_result" where
  "eval_is_null (Residual s) negated =
     (if negated then Residual (''('' @ s @ '' IS NOT NULL)'')
      else Residual (''('' @ s @ '' IS NULL)''))"
| "eval_is_null (Const b) negated = Const negated"

definition eval_in_list :: "string eval_result \<Rightarrow> string eval_result list \<Rightarrow> bool \<Rightarrow> string eval_result" where
  "eval_in_list operand list negated =
     (let operand_sql = result_sql operand; list_joined = join '', '' (map result_sql list) in
      if negated then Residual (''('' @ operand_sql @ '' NOT IN ('' @ list_joined @ ''))'')
      else Residual (''('' @ operand_sql @ '' IN ('' @ list_joined @ ''))''))"

fun evaluate :: "policy_expr \<Rightarrow> policy_ctx \<Rightarrow> string eval_result" where
  "evaluate (Literal l) ctx = eval_literal l"
| "evaluate (Column name) ctx = Residual (dquoted name)"
| "evaluate (QualifiedColumn table column) ctx = Residual (dquoted table @ ''.'' @ dquoted column)"
| "evaluate (AuthBuiltinCall name args) ctx =
     eval_auth_builtin name args (map (\<lambda>e. evaluate e ctx) args) ctx"
| "evaluate (DomainBuiltin domain name args) ctx = Residual (domain @ ''.'' @ name)"
| "evaluate (BinaryOp l op r) ctx = eval_binary_op op (evaluate l ctx) (evaluate r ctx)"
| "evaluate (UnaryOp op e) ctx = eval_unary_op op (evaluate e ctx)"
| "evaluate (IsNull e negated) ctx = eval_is_null (evaluate e ctx) negated"
| "evaluate (InList e es negated) ctx =
     eval_in_list (evaluate e ctx) (map (\<lambda>x. evaluate x ctx) es) negated"
| "evaluate (Subquery sql) ctx = Residual (''('' @ sql @ '')'')"

section \<open>The residual as a tree\<close>

text \<open>
  \<open>SText\<close> is an unescaped literal (an identifier the server made), \<open>SMinusConst\<close> the text the
  evaluator leaves for the negation of a constant.
\<close>

datatype sql =
    SCol string
  | SQCol string string
  | SDom string string
  | SLit policy_literal
  | SText string
  | STruth bool
  | SLowFalse
  | SBin sql policy_binary_op sql
  | SNot sql
  | SMinus sql
  | SMinusConst
  | SIsNull sql bool
  | SIn sql "sql list" bool
  | SSub string

fun render_literal :: "policy_literal \<Rightarrow> string" where
  "render_literal LitNull = ''NULL''"
| "render_literal (LitBool b) = (if b then ''TRUE'' else ''FALSE'')"
| "render_literal (LitInt n) = show_int n"
| "render_literal (LitFloat f) = show_f64 f"
| "render_literal (LitString s) = squoted (escape_quotes s)"

fun render :: "sql \<Rightarrow> string" where
  "render (SCol c) = dquoted c"
| "render (SQCol t c) = dquoted t @ ''.'' @ dquoted c"
| "render (SDom d n) = d @ ''.'' @ n"
| "render (SLit l) = render_literal l"
| "render (SText s) = squoted s"
| "render (STruth b) = (if b then ''TRUE'' else ''FALSE'')"
| "render SLowFalse = ''false''"
| "render (SBin l op r) =
     ''('' @ render l @ '' '' @ binary_op_as_sql op @ '' '' @ render r @ '')''"
| "render (SNot s) = ''(NOT '' @ render s @ '')''"
| "render (SMinus s) = ''(-'' @ render s @ '')''"
| "render SMinusConst = ''-''"
| "render (SIsNull s neg) = ''('' @ render s @ (if neg then '' IS NOT NULL)'' else '' IS NULL)'')"
| "render (SIn s ss neg) =
     ''('' @ render s @ (if neg then '' NOT IN ('' else '' IN ('') @
       join '', '' (map render ss) @ ''))''"
| "render (SSub t) = ''('' @ t @ '')''"

fun result_tree :: "sql eval_result \<Rightarrow> sql" where
  "result_tree (Const b) = STruth b"
| "result_tree (Residual s) = s"

definition text_or_null :: "string option \<Rightarrow> sql" where
  "text_or_null v = (case v of Some s \<Rightarrow> SText s | None \<Rightarrow> SLit LitNull)"

definition auth_sql ::
  "string \<Rightarrow> policy_expr list \<Rightarrow> sql eval_result list \<Rightarrow> policy_ctx \<Rightarrow> sql eval_result" where
  "auth_sql name args results ctx =
     (case builtin_from_name name of
        None \<Rightarrow> Residual (SLit LitNull)
      | Some UserId \<Rightarrow> Residual (text_or_null (ctx_user_id ctx))
      | Some OrgId \<Rightarrow> Residual (text_or_null (ctx_org_id ctx))
      | Some Role \<Rightarrow> Residual (SLit LitNull)
      | Some HasPermission \<Rightarrow>
          (case args of
             Literal (LitString permission) # _ \<Rightarrow> Const (ctx_permission ctx permission)
           | _ \<Rightarrow> Residual SLowFalse)
      | Some InOrg \<Rightarrow>
          (case (results, ctx_org_id ctx) of
             (Residual s # _, Some org) \<Rightarrow> Residual (SBin s OpEq (SText org))
           | _ \<Rightarrow> Const False)
      | Some Email \<Rightarrow>
          Residual (case ctx_email ctx of Some s \<Rightarrow> SLit (LitString s) | None \<Rightarrow> SLit LitNull)
      | Some SessionId \<Rightarrow> Residual (text_or_null (ctx_session_id ctx))
      | Some IsAuthenticated \<Rightarrow> Const (ctx_is_authenticated ctx))"

fun binary_sql :: "policy_binary_op \<Rightarrow> sql eval_result \<Rightarrow> sql eval_result \<Rightarrow> sql eval_result" where
  "binary_sql op l r =
     (case op of
        OpAnd \<Rightarrow>
          (case (l, r) of
             (Const False, _) \<Rightarrow> Const False
           | (_, Const False) \<Rightarrow> Const False
           | (Const True, _) \<Rightarrow> r
           | (_, Const True) \<Rightarrow> l
           | (Residual a, Residual b) \<Rightarrow> Residual (SBin a OpAnd b))
      | OpOr \<Rightarrow>
          (case (l, r) of
             (Const True, _) \<Rightarrow> Const True
           | (_, Const True) \<Rightarrow> Const True
           | (Const False, _) \<Rightarrow> r
           | (_, Const False) \<Rightarrow> l
           | (Residual a, Residual b) \<Rightarrow> Residual (SBin a OpOr b))
      | _ \<Rightarrow> Residual (SBin (result_tree l) op (result_tree r)))"

fun unary_sql :: "policy_unary_op \<Rightarrow> sql eval_result \<Rightarrow> sql eval_result" where
  "unary_sql OpNot (Const b) = Const (\<not> b)"
| "unary_sql OpNot (Residual s) = Residual (SNot s)"
| "unary_sql OpMinus (Const b) = Residual SMinusConst"
| "unary_sql OpMinus (Residual s) = Residual (SMinus s)"

fun evaluate_sql :: "policy_expr \<Rightarrow> policy_ctx \<Rightarrow> sql eval_result" where
  "evaluate_sql (Literal l) ctx = (case l of LitBool b \<Rightarrow> Const b | _ \<Rightarrow> Residual (SLit l))"
| "evaluate_sql (Column name) ctx = Residual (SCol name)"
| "evaluate_sql (QualifiedColumn t c) ctx = Residual (SQCol t c)"
| "evaluate_sql (AuthBuiltinCall name args) ctx =
     auth_sql name args (map (\<lambda>e. evaluate_sql e ctx) args) ctx"
| "evaluate_sql (DomainBuiltin d name args) ctx = Residual (SDom d name)"
| "evaluate_sql (BinaryOp l op r) ctx = binary_sql op (evaluate_sql l ctx) (evaluate_sql r ctx)"
| "evaluate_sql (UnaryOp op e) ctx = unary_sql op (evaluate_sql e ctx)"
| "evaluate_sql (IsNull e neg) ctx =
     (case evaluate_sql e ctx of Residual s \<Rightarrow> Residual (SIsNull s neg) | Const _ \<Rightarrow> Const neg)"
| "evaluate_sql (InList e es neg) ctx =
     Residual (SIn (result_tree (evaluate_sql e ctx))
       (map (\<lambda>x. result_tree (evaluate_sql x ctx)) es) neg)"
| "evaluate_sql (Subquery t) ctx = Residual (SSub t)"

fun render_result :: "sql eval_result \<Rightarrow> string eval_result" where
  "render_result (Const b) = Const b"
| "render_result (Residual s) = Residual (render s)"

lemma result_sql_render: "result_sql (render_result r) = render (result_tree r)"
  by (cases r rule: result_tree.cases) (auto split: bool.splits simp: all_bool_eq)

lemma eval_binary_op_render:
  "eval_binary_op op (render_result l) (render_result r) = render_result (binary_sql op l r)"
  by (cases op; cases l; cases r)
    (auto simp: eval_binary_op_def combine_sql_def split: bool.splits)

lemma eval_unary_op_render: "eval_unary_op op (render_result r) = render_result (unary_sql op r)"
  by (cases op; cases r) auto

lemma eval_auth_builtin_render:
  "eval_auth_builtin name args (map render_result rs) ctx = render_result (auth_sql name args rs ctx)"
proof (cases "builtin_from_name name")
  case None
  then show ?thesis
    by (simp add: auth_sql_def eval_auth_builtin_def builtin_from_name_def split: if_split_asm)
next
  case (Some b)
  then have name: "name = builtin_name b" by (rule builtin_from_name_SomeD)
  have perm: "(case args of Literal (LitString p) # _ \<Rightarrow> Const (ctx_permission ctx p)
         | _ \<Rightarrow> Residual ''false'') =
      render_result (case args of Literal (LitString p) # _ \<Rightarrow> Const (ctx_permission ctx p)
         | _ \<Rightarrow> Residual SLowFalse)"
    by (simp split: list.split policy_expr.split policy_literal.split)
  have quoted: "sql_or_null id v = render_result (Residual (text_or_null v))" for v
    by (simp add: sql_or_null_def text_or_null_def split: option.split)
  show ?thesis
    unfolding name auth_sql_def builtin_from_name_name option.case eval_auth_builtin_def perm quoted
    by (cases b; simp only: builtin_name.simps auth_builtin.case; simp)
      (simp_all add: sql_or_null_def split: option.split list.split eval_result.split)
qed

lemma evaluate_render: "evaluate e ctx = render_result (evaluate_sql e ctx)"
proof (induction e ctx rule: evaluate.induct)
  case (1 l ctx) then show ?case by (cases l) auto
next
  case (4 name args ctx)
  then have "map (\<lambda>e. evaluate e ctx) args = map render_result (map (\<lambda>e. evaluate_sql e ctx) args)"
    by simp
  then show ?case by (simp add: eval_auth_builtin_render del: map_map)
next
  case (6 l op r ctx) then show ?case by (simp add: eval_binary_op_render del: binary_sql.simps)
next
  case (7 op e ctx) then show ?case by (simp add: eval_unary_op_render)
next
  case (8 e neg ctx) then show ?case by (cases "evaluate_sql e ctx") auto
next
  case (9 e es neg ctx)
  have list: "map result_sql (map (\<lambda>x. evaluate x ctx) es) =
      map render (map (\<lambda>x. result_tree (evaluate_sql x ctx)) es)"
    using 9 by (simp add: result_sql_render)
  show ?case
    by (simp add: eval_in_list_def Let_def 9(1) result_sql_render list del: map_map)
qed auto

section \<open>What a policy and its residual mean\<close>

text \<open>
  SQL values, and the database as the code relies on it: what the names of the row hold
  (\<open>db_col\<close>, \<open>db_qcol\<close>, \<open>db_dom\<close>), the value of a subquery, comparison and pattern matching
  (\<open>db_cmp\<close>) and arithmetic negation (\<open>db_neg\<close>). \<open>None\<close> is a statement that the database
  refuses, such as a comparison of values of different types.
\<close>

datatype sql_val = VNull | VBool bool | VInt int | VFloat f64 | VStr string

record sql_db =
  db_col :: "string \<Rightarrow> sql_val"
  db_qcol :: "string \<Rightarrow> string \<Rightarrow> sql_val"
  db_dom :: "string \<Rightarrow> string \<Rightarrow> sql_val"
  db_sub :: "string \<Rightarrow> sql_val option"
  db_cmp :: "policy_binary_op \<Rightarrow> sql_val \<Rightarrow> sql_val \<Rightarrow> sql_val option"
  db_neg :: "sql_val \<Rightarrow> sql_val option"

fun lit_val :: "policy_literal \<Rightarrow> sql_val" where
  "lit_val LitNull = VNull"
| "lit_val (LitBool b) = VBool b"
| "lit_val (LitInt n) = VInt n"
| "lit_val (LitFloat f) = VFloat f"
| "lit_val (LitString s) = VStr s"

definition text_val :: "string option \<Rightarrow> sql_val" where
  "text_val v = (case v of Some s \<Rightarrow> VStr s | None \<Rightarrow> VNull)"

text \<open>Three-valued logic: \<open>NULL\<close> is the unknown truth value.\<close>

definition truth_val :: "sql_val \<Rightarrow> bool" where
  "truth_val v = (case v of VNull \<Rightarrow> True | VBool _ \<Rightarrow> True | _ \<Rightarrow> False)"

definition and3 :: "sql_val \<Rightarrow> sql_val \<Rightarrow> sql_val option" where
  "and3 v w = (if truth_val v \<and> truth_val w then
     Some (if v = VBool False \<or> w = VBool False then VBool False
           else if v = VNull \<or> w = VNull then VNull else VBool True) else None)"

definition or3 :: "sql_val \<Rightarrow> sql_val \<Rightarrow> sql_val option" where
  "or3 v w = (if truth_val v \<and> truth_val w then
     Some (if v = VBool True \<or> w = VBool True then VBool True
           else if v = VNull \<or> w = VNull then VNull else VBool False) else None)"

fun not3 :: "sql_val \<Rightarrow> sql_val option" where
  "not3 VNull = Some VNull"
| "not3 (VBool b) = Some (VBool (\<not> b))"
| "not3 _ = None"

definition lift2 :: "('a \<Rightarrow> 'b \<Rightarrow> 'c option) \<Rightarrow> 'a option \<Rightarrow> 'b option \<Rightarrow> 'c option" where
  "lift2 f v w = (case (v, w) of (Some a, Some b) \<Rightarrow> f a b | _ \<Rightarrow> None)"

definition op_val :: "sql_db \<Rightarrow> policy_binary_op \<Rightarrow> sql_val option \<Rightarrow> sql_val option \<Rightarrow> sql_val option" where
  "op_val db op v w =
     lift2 (if op = OpAnd then and3 else if op = OpOr then or3 else db_cmp db op) v w"

text \<open>\<open>v IN (w1, ..., wn)\<close>; an empty list is a syntax error.\<close>

fun in_val :: "sql_db \<Rightarrow> sql_val option \<Rightarrow> sql_val option list \<Rightarrow> sql_val option" where
  "in_val db v [] = None"
| "in_val db v [w] = op_val db OpEq v w"
| "in_val db v (w # ws) = op_val db OpOr (op_val db OpEq v w) (in_val db v ws)"

definition null_val :: "sql_val option \<Rightarrow> bool \<Rightarrow> sql_val option" where
  "null_val v negated = map_option (\<lambda>x. VBool ((x = VNull) \<noteq> negated)) v"

definition neg_val :: "bool \<Rightarrow> sql_val option \<Rightarrow> sql_val option" where
  "neg_val negated v = (if negated then Option.bind v not3 else v)"

text \<open>
  The value of a policy for an identity on a row: the meaning the language documents. The documents give \<open>auth.role()\<close> the
  name of the role the identity has in its organisation, which the contexts of requests do not carry; it is the argument
  \<open>role\<close>.
\<close>

definition auth_val :: "string option \<Rightarrow> policy_ctx \<Rightarrow> sql_db \<Rightarrow> string \<Rightarrow> sql_val option list \<Rightarrow> sql_val option" where
  "auth_val role ctx db name vs =
     (case (builtin_from_name name, vs) of
        (Some UserId, _) \<Rightarrow> Some (text_val (ctx_user_id ctx))
      | (Some OrgId, _) \<Rightarrow> Some (text_val (ctx_org_id ctx))
      | (Some Role, _) \<Rightarrow> Some (text_val role)
      | (Some HasPermission, [Some (VStr p)]) \<Rightarrow> Some (VBool (ctx_permission ctx p))
      | (Some InOrg, [Some v]) \<Rightarrow>
          (case ctx_org_id ctx of Some org \<Rightarrow> db_cmp db OpEq v (VStr org) | None \<Rightarrow> Some (VBool False))
      | (Some Email, _) \<Rightarrow> Some (text_val (ctx_email ctx))
      | (Some SessionId, _) \<Rightarrow> Some (text_val (ctx_session_id ctx))
      | (Some IsAuthenticated, _) \<Rightarrow> Some (VBool (ctx_is_authenticated ctx))
      | _ \<Rightarrow> None)"

fun policy_val :: "string option \<Rightarrow> policy_ctx \<Rightarrow> sql_db \<Rightarrow> policy_expr \<Rightarrow> sql_val option" where
  "policy_val role ctx db (Literal l) = Some (lit_val l)"
| "policy_val role ctx db (Column c) = Some (db_col db c)"
| "policy_val role ctx db (QualifiedColumn t c) = Some (db_qcol db t c)"
| "policy_val role ctx db (AuthBuiltinCall name args) = auth_val role ctx db name (map (policy_val role ctx db) args)"
| "policy_val role ctx db (DomainBuiltin d name args) = Some (db_dom db d name)"
| "policy_val role ctx db (BinaryOp l op r) = op_val db op (policy_val role ctx db l) (policy_val role ctx db r)"
| "policy_val role ctx db (UnaryOp op e) =
     Option.bind (policy_val role ctx db e) (if op = OpNot then not3 else db_neg db)"
| "policy_val role ctx db (IsNull e neg) = null_val (policy_val role ctx db e) neg"
| "policy_val role ctx db (InList e es neg) =
     neg_val neg (in_val db (policy_val role ctx db e) (map (policy_val role ctx db) es))"
| "policy_val role ctx db (Subquery t) = db_sub db t"

fun sql_value :: "sql_db \<Rightarrow> sql \<Rightarrow> sql_val option" where
  "sql_value db (SCol c) = Some (db_col db c)"
| "sql_value db (SQCol t c) = Some (db_qcol db t c)"
| "sql_value db (SDom d n) = Some (db_dom db d n)"
| "sql_value db (SLit l) = Some (lit_val l)"
| "sql_value db (SText s) = Some (VStr s)"
| "sql_value db (STruth b) = Some (VBool b)"
| "sql_value db SLowFalse = Some (VBool False)"
| "sql_value db (SBin l op r) = op_val db op (sql_value db l) (sql_value db r)"
| "sql_value db (SNot s) = Option.bind (sql_value db s) not3"
| "sql_value db (SMinus s) = Option.bind (sql_value db s) (db_neg db)"
| "sql_value db SMinusConst = None"
| "sql_value db (SIsNull s neg) = null_val (sql_value db s) neg"
| "sql_value db (SIn s ss neg) = neg_val neg (in_val db (sql_value db s) (map (sql_value db) ss))"
| "sql_value db (SSub t) = db_sub db t"

text \<open>
  What the evaluator covers: the builtins with their arity, a permission given as a string
  literal, domain builtins without arguments.
\<close>

fun supported :: "policy_expr \<Rightarrow> bool" where
  "supported (AuthBuiltinCall name args) \<longleftrightarrow>
     (\<exists>b. validate_builtin_call name (length args) = Ok b \<and>
        (b = HasPermission \<longrightarrow> (\<exists>p. args = [Literal (LitString p)]))) \<and> list_all supported args"
| "supported (DomainBuiltin d name args) \<longleftrightarrow> args = []"
| "supported (BinaryOp l op r) \<longleftrightarrow> supported l \<and> supported r"
| "supported (UnaryOp op e) \<longleftrightarrow> supported e"
| "supported (IsNull e neg) \<longleftrightarrow> supported e"
| "supported (InList e es neg) \<longleftrightarrow> supported e \<and> list_all supported es"
| "supported _ \<longleftrightarrow> True"

fun mentions_role :: "policy_expr \<Rightarrow> bool" where
  "mentions_role (AuthBuiltinCall name args) \<longleftrightarrow> builtin_from_name name = Some Role \<or> list_ex mentions_role args"
| "mentions_role (DomainBuiltin d name args) \<longleftrightarrow> list_ex mentions_role args"
| "mentions_role (BinaryOp l op r) \<longleftrightarrow> mentions_role l \<or> mentions_role r"
| "mentions_role (UnaryOp op e) \<longleftrightarrow> mentions_role e"
| "mentions_role (IsNull e neg) \<longleftrightarrow> mentions_role e"
| "mentions_role (InList e es neg) \<longleftrightarrow> mentions_role e \<or> list_ex mentions_role es"
| "mentions_role _ \<longleftrightarrow> False"

text \<open>The evaluator takes every identity for one without a role; other policies do not see the difference.\<close>

definition role_unseen :: "string option \<Rightarrow> policy_expr \<Rightarrow> bool" where
  "role_unseen role e \<longleftrightarrow> role = None \<or> \<not> mentions_role e"

lemma role_unseen_parts [simp]:
  "role_unseen role (AuthBuiltinCall name args) \<longleftrightarrow>
     (role = None \<or> builtin_from_name name \<noteq> Some Role) \<and> list_all (role_unseen role) args"
  "role_unseen role (BinaryOp l op r) \<longleftrightarrow> role_unseen role l \<and> role_unseen role r"
  "role_unseen role (UnaryOp uop e) \<longleftrightarrow> role_unseen role e"
  "role_unseen role (IsNull e neg) \<longleftrightarrow> role_unseen role e"
  "role_unseen role (InList e es neg) \<longleftrightarrow> role_unseen role e \<and> list_all (role_unseen role) es"
  by (auto simp: role_unseen_def list_all_iff list_ex_iff)

text \<open>The documented behaviour of the database that the evaluator relies on for constants.\<close>

definition typed_db :: "policy_ctx \<Rightarrow> sql_db \<Rightarrow> bool" where
  "typed_db ctx db \<longleftrightarrow>
     (\<forall>b. db_neg db (VBool b) = None) \<and>
     (\<forall>b org. ctx_org_id ctx = Some org \<longrightarrow> db_cmp db OpEq (VBool b) (VStr org) = None)"

abbreviation result_val :: "sql_db \<Rightarrow> sql eval_result \<Rightarrow> sql_val option" where
  "result_val db r \<equiv> sql_value db (result_tree r)"

lemma and3_True: "and3 (VBool True) w = Some v \<Longrightarrow> w = v" "and3 w (VBool True) = Some v \<Longrightarrow> w = v"
  by (cases w; auto simp: and3_def truth_val_def split: if_splits)+

lemma and3_False: "and3 (VBool False) w = Some v \<Longrightarrow> v = VBool False"
  "and3 w (VBool False) = Some v \<Longrightarrow> v = VBool False"
  by (auto simp: and3_def split: if_splits)

lemma or3_False: "or3 (VBool False) w = Some v \<Longrightarrow> w = v" "or3 w (VBool False) = Some v \<Longrightarrow> w = v"
  by (cases w; auto simp: or3_def truth_val_def split: if_splits)+

lemma or3_True: "or3 (VBool True) w = Some v \<Longrightarrow> v = VBool True"
  "or3 w (VBool True) = Some v \<Longrightarrow> v = VBool True"
  by (auto simp: or3_def split: if_splits)

lemmas connective_consts = and3_True and3_False or3_False or3_True

lemma op_val_SomeD:
  "op_val db op v w = Some u \<Longrightarrow> \<exists>a b. v = Some a \<and> w = Some b \<and>
     (if op = OpAnd then and3 else if op = OpOr then or3 else db_cmp db op) a b = Some u"
  by (auto simp: op_val_def lift2_def split: option.splits)

lemma binary_sql_val:
  assumes "op_val db op (result_val db l) (result_val db r) = Some v"
  shows "result_val db (binary_sql op l r) = Some v"
  using op_val_SomeD [OF assms] assms
  by (cases op; cases l; cases r) (auto dest: connective_consts split: bool.splits)

lemma in_val_operand: "in_val db v vs = Some u \<Longrightarrow> \<exists>a. v = Some a"
  by (induction db v vs arbitrary: u rule: in_val.induct) (auto dest!: op_val_SomeD)

abbreviation refines_val :: "'a option \<Rightarrow> 'a option \<Rightarrow> bool" where
  "refines_val x y \<equiv> (\<forall>a. x = Some a \<longrightarrow> y = Some a)"

lemma in_val_refines:
  "in_val db v vs = Some u \<Longrightarrow> list_all2 refines_val vs ws \<Longrightarrow> in_val db v ws = Some u"
proof (induction db v vs arbitrary: ws u rule: in_val.induct)
  case (2 db v w)
  then show ?case by (auto simp: list_all2_Cons1 dest!: op_val_SomeD) (simp add: op_val_def lift2_def)
next
  case (3 db v w w2 ws2)
  obtain x y ys where ws: "ws = x # y # ys" and x: "refines_val w x"
    and ys: "list_all2 refines_val (w2 # ws2) (y # ys)"
    using 3(3) by (auto simp: list_all2_Cons1)
  obtain a b where ab: "op_val db OpEq v w = Some a" "in_val db v (w2 # ws2) = Some b" "or3 a b = Some u"
    using op_val_SomeD [OF 3(2) [unfolded in_val.simps]] by auto
  have "in_val db v (y # ys) = Some b" by (rule 3(1) [OF ab(2) ys])
  moreover obtain c where "w = Some c" using op_val_SomeD [OF ab(1)] by auto
  with x ab(1) have "op_val db OpEq v x = Some a" by simp
  ultimately show ?case using ab(3) by (simp add: ws op_val_def lift2_def)
qed simp

lemma auth_sql_val:
  assumes sup: "supported (AuthBuiltinCall name args)" and db: "typed_db ctx db"
    and args: "list_all2 refines_val vs (map (result_val db) rs)" "length args = length vs"
    and perm: "\<And>p. args = [Literal (LitString p)] \<Longrightarrow> vs = [Some (VStr p)]"
    and seen: "role = None \<or> builtin_from_name name \<noteq> Some Role"
    and v: "auth_val role ctx db name vs = Some v"
  shows "result_val db (auth_sql name args rs ctx) = Some v"
proof -
  obtain b where name: "name = builtin_name b" and ar: "length vs = builtin_arity b"
    and hp: "b = HasPermission \<Longrightarrow> \<exists>p. args = [Literal (LitString p)]"
    using sup args(2) by (auto simp: validate_builtin_call_Ok)
  note v = v [unfolded name auth_val_def builtin_from_name_name] and seen = seen [unfolded name builtin_from_name_name]
  have tval: "sql_value db (text_or_null t) = Some (text_val t)" for t
    by (simp add: text_or_null_def text_val_def split: option.split)
  note sql = auth_sql_def [of name args rs ctx, unfolded name builtin_from_name_name option.case]
  show ?thesis
  proof (cases b)
    case HasPermission
    with hp obtain p where p: "args = [Literal (LitString p)]" by blast
    show ?thesis unfolding name sql using p HasPermission perm [OF p] v by simp
  next
    case InOrg
    then obtain r rs' w where rs: "rs = r # rs'" and vs: "vs = [w]" "refines_val w (result_val db r)"
      using ar args(1) by (cases rs) (auto simp: length_Suc_conv)
    obtain a where w: "w = Some a" using v InOrg vs by (auto split: option.splits)
    show ?thesis
      unfolding name sql using rs v vs w db InOrg
      by (cases r) (auto simp: op_val_def lift2_def typed_db_def split: option.splits)
  qed (unfold name sql, use v seen in \<open>auto simp: tval text_val_def split: option.splits\<close>)
qed

text \<open>The evaluator keeps the value of every policy that has one.\<close>

lemma evaluate_sql_value:
  assumes db: "typed_db ctx db"
  shows "supported e \<Longrightarrow> role_unseen role e \<Longrightarrow> policy_val role ctx db e = Some v \<Longrightarrow> result_val db (evaluate_sql e ctx) = Some v"
  using db
proof (induction role ctx db e arbitrary: v rule: policy_val.induct)
  case (1 role ctx db l) then show ?case by (cases l) auto
next
  case (4 role ctx db name args)
  have args: "list_all2 refines_val (map (policy_val role ctx db) args)
      (map (result_val db) (map (\<lambda>e. evaluate_sql e ctx) args))"
    using 4 by (auto simp: list_all2_conv_all_nth list_all_length)
  show ?case
    unfolding evaluate_sql.simps
    by (rule auth_sql_val [OF 4(2,5) args]) (use 4(3,4) in auto)
next
  case (6 role ctx db l op r)
  obtain a b where "policy_val role ctx db l = Some a" "policy_val role ctx db r = Some b"
    using 6(5) op_val_SomeD by fastforce
  then have "op_val db op (result_val db (evaluate_sql l ctx)) (result_val db (evaluate_sql r ctx)) = Some v"
    using 6 by simp
  then show ?case unfolding evaluate_sql.simps by (rule binary_sql_val)
next
  case (7 role ctx db op e)
  then obtain a where "policy_val role ctx db e = Some a" by (cases "policy_val role ctx db e") auto
  with 7 show ?case
    by (cases op; cases "evaluate_sql e ctx") (auto simp: typed_db_def)
next
  case (8 role ctx db e neg)
  then obtain a where "policy_val role ctx db e = Some a" by (cases "policy_val role ctx db e") (auto simp: null_val_def)
  with 8 show ?case by (cases "evaluate_sql e ctx") (auto simp: null_val_def)
next
  case (9 role ctx db e es neg)
  let ?ws = "map (result_val db) (map (\<lambda>x. evaluate_sql x ctx) es)"
  obtain u where u: "in_val db (policy_val role ctx db e) (map (policy_val role ctx db) es) = Some u"
    using 9(5) by (cases "in_val db (policy_val role ctx db e) (map (policy_val role ctx db) es)")
      (auto simp: neg_val_def split: if_splits)
  have "list_all2 refines_val (map (policy_val role ctx db) es) ?ws"
    using 9 by (auto simp: list_all2_conv_all_nth list_all_length)
  from in_val_refines [OF u this] in_val_operand [OF u] 9(1,3,4,6)
  have "in_val db (result_val db (evaluate_sql e ctx)) ?ws = Some u" by auto
  with u 9(5) show ?case by (simp add: comp_def)
qed auto

end
