(* ===== verification/Policy_Residual.thy ===== *)
theory Policy_Residual
  imports Policy_Parser_Props Policy_Eval Sql_Lex
begin

text \<open>
  The residual text of a policy is self-contained: an SQL reader that enters it outside quotes
  leaves it outside quotes, at the parenthesis depth it entered, never below that depth, and
  meets no comment or statement separator on the way. So the text can be placed between
  parentheses and combined with other conditions without changing what those are.
\<close>

section \<open>Names and numbers\<close>

lemma plain_chars [simp]:
  "is_ident_char c \<Longrightarrow> plain_char c" "plain_char (CHR ''.'')" "plain_char (CHR ''N'')"
  by (auto simp: plain_char_def is_ident_char_def ascii_class_defs)

lemma lex_ident: "is_ident x \<Longrightarrow> x \<noteq> [] \<and> list_all is_ident_char x"
  by (auto simp: is_ident_def is_ident_char_def is_ident_start_def ascii_class_defs split: list.splits)

lemma ident_plain: "is_ident x \<Longrightarrow> list_all plain_char x"
  using lex_ident by (auto simp: list_all_iff)

lemma ident_no_quote: "is_ident x \<Longrightarrow> CHR 0x22 \<notin> set x"
  using ident_plain [of x] by (auto simp: list_all_iff plain_char_def)

lemma show_decimal_plain: "list_all plain_char (show_decimal c sc) \<and> show_decimal c sc \<noteq> []"
proof -
  have "list_all plain_char (take n xs @ CHR ''.'' # drop n xs)" if "list_all plain_char xs" for n xs
    using that by (auto simp: list_all_iff dest: in_set_takeD in_set_dropD)
  moreover have "list_all plain_char (replicate n (CHR ''0''))" for n
    by (simp add: list_all_iff plain_char_def)
  ultimately show ?thesis by (auto simp: show_decimal_def Let_def)
qed

lemma show_f64_plain: "nonneg_float f \<Longrightarrow> list_all plain_char (show_f64 f) \<and> show_f64 f \<noteq> []"
  using show_decimal_plain
  by (cases f) (auto simp: show_f64_def plain_char_def split: prod.split)

lemma sealed_literal: "parsed_literal l \<Longrightarrow> sealed (render_literal l)"
proof (cases l)
  case (LitInt n)
  assume "parsed_literal l"
  with LitInt show ?thesis by (auto intro: sealed_plain simp: show_int_def)
next
  case (LitFloat f)
  assume "parsed_literal l"
  with LitFloat show_f64_plain [of f] show ?thesis by (auto intro: sealed_plain)
qed (auto intro!: sealed_plain simp: plain_char_def sealed_escaped)

section \<open>Terms\<close>

text \<open>The terms whose text is sealed.\<close>

fun sealed_term :: "sql \<Rightarrow> bool" where
  "sealed_term (SCol c) \<longleftrightarrow> is_ident c"
| "sealed_term (SQCol t c) \<longleftrightarrow> is_ident t \<and> is_ident c"
| "sealed_term (SDom d n) \<longleftrightarrow> is_ident d \<and> is_ident n"
| "sealed_term (SLit l) \<longleftrightarrow> parsed_literal l"
| "sealed_term (SText s) \<longleftrightarrow> CHR 0x27 \<notin> set s"
| "sealed_term (STruth b) \<longleftrightarrow> True"
| "sealed_term SLowFalse \<longleftrightarrow> True"
| "sealed_term (SBin l op r) \<longleftrightarrow> sealed_term l \<and> sealed_term r"
| "sealed_term (SNot s) \<longleftrightarrow> sealed_term s"
| "sealed_term (SMinus s) \<longleftrightarrow> sealed_term s"
| "sealed_term SMinusConst \<longleftrightarrow> False"
| "sealed_term (SIsNull s neg) \<longleftrightarrow> sealed_term s"
| "sealed_term (SIn s ss neg) \<longleftrightarrow> sealed_term s \<and> list_all sealed_term ss"
| "sealed_term (SSub t) \<longleftrightarrow> False"

lemma lex_op: "lex_text (Plain d NoMark) (binary_op_as_sql op) = Plain d NoMark"
  by (cases op) simp_all

lemma sealed_render: "sealed_term s \<Longrightarrow> sealed (render s)"
proof (induction s)
  case (SQCol t c)
  then show ?case
    using sealed_dquoted [OF ident_no_quote]
    by (simp add: sealed_def lex_text_append dquoted_def)
next
  case (SDom d n)
  then show ?case using lex_ident ident_plain by (auto intro!: sealed_plain)
next
  case (SBin l op r)
  then show ?case
    using sealed_parens [of "render l @ '' '' @ binary_op_as_sql op @ '' '' @ render r"]
      lex_sealed0 [of "render l"] lex_sealed0 [of "render r"]
    by (simp add: lex_text_append lex_op)
next
  case (SNot s)
  then show ?case
    using sealed_parens [of "''NOT '' @ render s"] lex_sealed [of "render s" _ _ "[]"] by simp
next
  case (SMinus s)
  then show ?case
    using sealed_parens [of "''-'' @ render s"] lex_sealed [of "render s" _ _ "[]"] by simp
next
  case (SIsNull s neg)
  then show ?case
    using sealed_parens [of "render s @ '' IS NOT NULL''"] sealed_parens [of "render s @ '' IS NULL''"]
    by (simp add: lex_sealed)
next
  case (SIn s ss neg)
  then have "list_all sealed (map render ss)" by (auto simp: list_all_iff)
  then have comma: "lex_text (Plain d NoMark) (join '', '' (map render ss)) = Plain d NoMark" for d
    by (rule lex_join) (simp add: plain_char_def)
  with SIn show ?case
    using sealed_parens [of "render s @ '' NOT IN ('' @ join '', '' (map render ss) @ '')''"]
      sealed_parens [of "render s @ '' IN ('' @ join '', '' (map render ss) @ '')''"]
      lex_sealed0 [of "render s"]
    by (simp add: lex_text_append comma)
qed (auto simp: sealed_dquoted ident_no_quote sealed_literal sealed_squoted plain_char_def intro!: sealed_plain)

section \<open>The residual of a parsed policy\<close>

text \<open>Identifiers that the server hands to the evaluator hold no quote.\<close>

definition quote_free :: "string option \<Rightarrow> bool" where
  "quote_free v \<longleftrightarrow> (case v of Some s \<Rightarrow> CHR 0x27 \<notin> set s | None \<Rightarrow> True)"

definition plain_ids :: "policy_ctx \<Rightarrow> bool" where
  "plain_ids ctx \<longleftrightarrow> quote_free (ctx_user_id ctx) \<and> quote_free (ctx_org_id ctx) \<and> quote_free (ctx_session_id ctx)"

text \<open>No unary minus on an operand that the identity decides.\<close>

fun minus_ok :: "policy_ctx \<Rightarrow> policy_expr \<Rightarrow> bool" where
  "minus_ok ctx (UnaryOp op e) \<longleftrightarrow>
     minus_ok ctx e \<and> (op = OpMinus \<longrightarrow> (case evaluate_sql e ctx of Const _ \<Rightarrow> False | Residual _ \<Rightarrow> True))"
| "minus_ok ctx (BinaryOp l op r) \<longleftrightarrow> minus_ok ctx l \<and> minus_ok ctx r"
| "minus_ok ctx (IsNull e neg) \<longleftrightarrow> minus_ok ctx e"
| "minus_ok ctx (InList e es neg) \<longleftrightarrow> minus_ok ctx e \<and> list_all (minus_ok ctx) es"
| "minus_ok ctx (AuthBuiltinCall f args) \<longleftrightarrow> list_all (minus_ok ctx) args"
| "minus_ok ctx _ \<longleftrightarrow> True"

lemma sealed_text_or_null: "quote_free v \<Longrightarrow> sealed_term (text_or_null v)"
  by (simp add: quote_free_def text_or_null_def split: option.splits)

lemma sealed_binary:
  "sealed_term (result_tree l) \<Longrightarrow> sealed_term (result_tree r) \<Longrightarrow> sealed_term (result_tree (binary_sql op l r))"
  by (cases op; cases l; cases r) (auto split: bool.splits)

lemma sealed_auth:
  assumes "plain_ids ctx" "list_all (\<lambda>r. sealed_term (result_tree r)) rs"
  shows "sealed_term (result_tree (auth_sql name args rs ctx))"
proof -
  have "sealed_term (SBin s OpEq (SText org))" if "rs = Residual s # rs'" "ctx_org_id ctx = Some org" for s rs' org
    using that assms by (simp add: plain_ids_def quote_free_def)
  moreover have "sealed_term (result_tree (case args of Literal (LitString permission) # _ \<Rightarrow>
      Const (ctx_permission ctx permission) | _ \<Rightarrow> Residual SLowFalse))"
    by (simp split: list.split policy_expr.split policy_literal.split)
  ultimately show ?thesis
    using assms sealed_text_or_null
    by (auto simp: auth_sql_def plain_ids_def split: option.split auth_builtin.split list.split eval_result.split)
qed

lemma sealed_evaluate:
  "plain_ids ctx \<Longrightarrow> parsed_expr e \<Longrightarrow> minus_ok ctx e \<Longrightarrow> sealed_term (result_tree (evaluate_sql e ctx))"
proof (induction e ctx rule: evaluate_sql.induct)
  case (4 name args ctx)
  have "list_all (\<lambda>r. sealed_term (result_tree r)) (map (\<lambda>e. evaluate_sql e ctx) args)"
    using 4 by (auto simp: list_all_iff)
  with 4(2) show ?case unfolding evaluate_sql.simps by (rule sealed_auth)
next
  case (6 l op r ctx)
  then show ?case by (simp only: evaluate_sql.simps sealed_binary parsed_expr.simps minus_ok.simps)
next
  case (7 op e ctx)
  then show ?case by (cases op; cases "evaluate_sql e ctx") auto
next
  case (8 e neg ctx)
  then show ?case by (cases "evaluate_sql e ctx") auto
qed (auto simp: list_all_iff split: policy_literal.split)

section \<open>Properties\<close>


text \<open>
  The SQL text left of a parsed policy is sealed: read from outside quotes it ends outside
  quotes, at the parenthesis depth it started, and it holds no comment or separator outside
  quotes, whatever the strings in the policy and the identity's e-mail are. Identifiers must be
  free of quotes (they are interpolated as they are) and no constant may be negated.
\<close>

theorem residual_sealed:
  assumes "parse_policy_expr src = Ok e" and "plain_ids ctx" and "minus_ok ctx e"
    and "evaluate e ctx = Residual t"
  shows "sealed t"
proof -
  have "sealed_term (result_tree (evaluate_sql e ctx))"
    by (rule sealed_evaluate [OF assms(2) parse_policy_expr_parsed [OF assms(1)] assms(3)])
  with assms(4) sealed_render show ?thesis
    by (cases "evaluate_sql e ctx") (auto simp: evaluate_render)
qed

text \<open>
  A negated constant leaves text that is not an expression: \<open>--TRUE\<close> parses, and evaluates
  for every identity to \<open>(--)\<close>, in which SQL reads the start of a comment.
\<close>

theorem negated_constant_comment:
  "\<exists>e. parse_policy_expr ''--TRUE'' = Ok e \<and>
     (\<forall>ctx. evaluate e ctx = Residual ''(--)'') \<and> lex_text (Plain 0 NoMark) ''(--)'' = Broken"
proof -
  have "parse_policy_expr ''--TRUE'' = Ok (UnaryOp OpMinus (UnaryOp OpMinus (Literal (LitBool True))))"
    by code_simp
  then show ?thesis by simp
qed

section \<open>Witnesses\<close>

definition sample_ctx :: policy_ctx where
  "sample_ctx = \<lparr>ctx_user_id = Some ''u1'', ctx_org_id = Some ''o1'', ctx_permission = (\<lambda>p. p = ''data:read''),
     ctx_email = Some [CHR ''a'', CHR 0x27], ctx_session_id = None\<rparr>"

text \<open>A row whose owner is \<open>u1\<close>; comparison of texts only.\<close>

definition sample_db :: sql_db where
  "sample_db = \<lparr>db_col = (\<lambda>c. if c = ''owner'' then VStr ''u1'' else VNull), db_qcol = (\<lambda>t c. VNull),
     db_dom = (\<lambda>d n. VNull), db_sub = (\<lambda>s. None),
     db_cmp = (\<lambda>op v w. case (v, w) of
         (VStr a, VStr b) \<Rightarrow> Some (VBool (if op = OpNotEq then a \<noteq> b else a = b))
       | (VNull, _) \<Rightarrow> Some VNull | (_, VNull) \<Rightarrow> Some VNull | _ \<Rightarrow> None),
     db_neg = (\<lambda>v. case v of VInt n \<Rightarrow> Some (VInt (- n)) | VNull \<Rightarrow> Some VNull | _ \<Rightarrow> None)\<rparr>"

definition sample_policy :: policy_expr where
  "sample_policy =
     BinaryOp (AuthBuiltinCall ''has_permission'' [Literal (LitString ''data:read'')]) OpAnd
       (BinaryOp (Column ''owner'') OpEq (AuthBuiltinCall ''user_id'' []))"

lemma sample_typed: "typed_db sample_ctx sample_db"
  by (simp add: typed_db_def sample_ctx_def sample_db_def)

lemma sample_supported: "supported sample_policy"
proof -
  have "validate_builtin_call ''has_permission'' 1 = Ok HasPermission" "validate_builtin_call ''user_id'' 0 = Ok UserId"
    by (simp_all add: validate_builtin_call_Ok)
  then show ?thesis by (auto simp: sample_policy_def)
qed

lemma sample_no_role: "\<not> mentions_role sample_policy"
  by code_simp


text \<open>The policy \<open>auth.role() = 'admin'\<close> holds for an administrator by the documents; the code leaves \<open>NULL = 'admin'\<close>.\<close>

lemma role_is_not_seen:
  "policy_val (Some ''admin'') sample_ctx sample_db (BinaryOp (AuthBuiltinCall ''role'' []) OpEq (Literal (LitString ''admin''))) =
     Some (VBool True) \<and>
   result_val sample_db (evaluate_sql (BinaryOp (AuthBuiltinCall ''role'' []) OpEq (Literal (LitString ''admin''))) sample_ctx) = Some VNull"
  by (rule conjI; code_simp)

lemma residual_sealed_witness:
  "\<exists>e t. parse_policy_expr ''owner = auth.email()'' = Ok e \<and> evaluate e sample_ctx = Residual t \<and> sealed t"
proof -
  let ?e = "BinaryOp (Column ''owner'') OpEq (AuthBuiltinCall ''email'' [])"
  have p: "parse_policy_expr ''owner = auth.email()'' = Ok ?e" by code_simp
  have ids: "plain_ids sample_ctx" by (simp add: plain_ids_def sample_ctx_def quote_free_def)
  obtain t where t: "evaluate ?e sample_ctx = Residual t"
    by (simp add: eval_binary_op_def eval_auth_builtin_def sql_or_null_def combine_sql_def split: option.split)
  from residual_sealed [OF p ids _ t] p t show ?thesis by auto
qed

end
