(* ===== verification/Policy_Compile.thy ===== *)
theory Policy_Compile
  imports Policy_Residual
begin

text \<open>
  The policies of one resource and operation are compiled to one decision
  (\<open>crates/reactor-policy/src/compile.rs\<close>): \<open>USING\<close> expressions are alternatives, \<open>CHECK\<close>
  expressions all have to hold. The loops are recursions over the policies with the residuals
  collected so far. The main lemma reads a decision as a condition in three-valued logic and
  proves that it is the disjunction and conjunction of what the policies say.
\<close>

section \<open>The code\<close>

datatype policy_decision = AlwaysAllow | AlwaysDeny string | Conditional string

fun decision_allows :: "policy_decision \<Rightarrow> bool" where
  "decision_allows AlwaysAllow = True"
| "decision_allows _ = False"

fun decision_denies :: "policy_decision \<Rightarrow> bool" where
  "decision_denies (AlwaysDeny _) = True"
| "decision_denies _ = False"

fun decision_sql_fragment :: "policy_decision \<Rightarrow> string option" where
  "decision_sql_fragment (Conditional sql) = Some sql"
| "decision_sql_fragment _ = None"

record compiled_policy =
  pol_name :: string
  using_expr :: "policy_expr option"
  check_expr :: "policy_expr option"

text \<open>The loop of \<open>compile_using_policies\<close>: whether it broke off, and the residuals.\<close>

fun using_loop :: "policy_ctx \<Rightarrow> string list \<Rightarrow> compiled_policy list \<Rightarrow> bool \<times> string list" where
  "using_loop ctx residuals [] = (False, residuals)"
| "using_loop ctx residuals (p # ps) =
     (case using_expr p of
        None \<Rightarrow> using_loop ctx residuals ps
      | Some e \<Rightarrow>
          (case evaluate e ctx of
             Const True \<Rightarrow> (True, residuals)
           | Const False \<Rightarrow> using_loop ctx residuals ps
           | Residual sql \<Rightarrow> using_loop ctx (residuals @ [sql]) ps))"

definition combine_residuals :: "string \<Rightarrow> string list \<Rightarrow> string" where
  "combine_residuals sep residuals =
     (if length residuals = 1 then last residuals
      else ''('' @ join sep residuals @ '')'')"

definition compile_using_policies :: "compiled_policy list \<Rightarrow> policy_ctx \<Rightarrow> policy_decision" where
  "compile_using_policies policies ctx =
     (let (any_always_allow, residuals) = using_loop ctx [] policies in
      if any_always_allow then AlwaysAllow
      else if residuals = [] then AlwaysDeny ''no matching policy''
      else Conditional (combine_residuals '' OR '' residuals))"

text \<open>The loop of \<open>compile_check_policies\<close>: the reason of an early denial, or the residuals.\<close>

fun check_loop :: "policy_ctx \<Rightarrow> string list \<Rightarrow> compiled_policy list \<Rightarrow> string + string list" where
  "check_loop ctx residuals [] = Inr residuals"
| "check_loop ctx residuals (p # ps) =
     (case check_expr p of
        None \<Rightarrow> check_loop ctx residuals ps
      | Some e \<Rightarrow>
          (case evaluate e ctx of
             Const True \<Rightarrow> check_loop ctx residuals ps
           | Const False \<Rightarrow> Inl (''check policy '' @ [CHR 0x27] @ pol_name p @ [CHR 0x27] @ '' failed'')
           | Residual sql \<Rightarrow> check_loop ctx (residuals @ [sql]) ps))"

definition compile_check_policies :: "compiled_policy list \<Rightarrow> policy_ctx \<Rightarrow> policy_decision" where
  "compile_check_policies policies ctx =
     (case check_loop ctx [] policies of
        Inl reason \<Rightarrow> AlwaysDeny reason
      | Inr residuals \<Rightarrow>
          if residuals = [] then AlwaysAllow
          else Conditional (combine_residuals '' AND '' residuals))"

fun combine_decisions :: "policy_decision \<Rightarrow> policy_decision \<Rightarrow> policy_decision" where
  "combine_decisions (AlwaysDeny reason) check = AlwaysDeny reason"
| "combine_decisions use (AlwaysDeny reason) = AlwaysDeny reason"
| "combine_decisions AlwaysAllow AlwaysAllow = AlwaysAllow"
| "combine_decisions AlwaysAllow (Conditional sql) = Conditional sql"
| "combine_decisions (Conditional sql) AlwaysAllow = Conditional sql"
| "combine_decisions (Conditional using_sql) (Conditional check_sql) =
     Conditional (''('' @ using_sql @ '' AND '' @ check_sql @ '')'')"

definition compile_policies :: "compiled_policy list \<Rightarrow> policy_ctx \<Rightarrow> bool \<Rightarrow> policy_decision" where
  "compile_policies policies ctx has_superuser_bypass =
     (if has_superuser_bypass \<and> ctx_permission ctx star then AlwaysAllow
      else if policies = [] then AlwaysAllow
      else
        let using_policies = filter (\<lambda>p. using_expr p \<noteq> None) policies;
            check_policies = filter (\<lambda>p. check_expr p \<noteq> None) policies;
            using_decision = (if using_policies = [] then AlwaysAllow
                              else compile_using_policies using_policies ctx);
            check_decision = (if check_policies = [] then AlwaysAllow
                              else compile_check_policies check_policies ctx)
        in combine_decisions using_decision check_decision)"

section \<open>What the loops collect\<close>

definition residuals_of :: "'a eval_result list \<Rightarrow> 'a list" where
  "residuals_of rs = List.map_filter (\<lambda>r. case r of Residual s \<Rightarrow> Some s | Const _ \<Rightarrow> None) rs"

lemma residuals_of_simps [simp]:
  "residuals_of [] = []"
  "residuals_of (Const b # rs) = residuals_of rs"
  "residuals_of (Residual s # rs) = s # residuals_of rs"
  by (simp_all add: residuals_of_def map_filter_def)

definition using_exprs :: "compiled_policy list \<Rightarrow> policy_expr list" where
  "using_exprs ps = List.map_filter using_expr ps"

definition check_exprs :: "compiled_policy list \<Rightarrow> policy_expr list" where
  "check_exprs ps = List.map_filter check_expr ps"

lemma exprs_Nil [simp]: "using_exprs [] = []" "check_exprs [] = []"
  by (simp_all add: using_exprs_def check_exprs_def map_filter_def)

lemma exprs_Cons [simp]:
  "using_exprs (p # ps) = (case using_expr p of None \<Rightarrow> using_exprs ps | Some e \<Rightarrow> e # using_exprs ps)"
  "check_exprs (p # ps) = (case check_expr p of None \<Rightarrow> check_exprs ps | Some e \<Rightarrow> e # check_exprs ps)"
  by (simp_all add: using_exprs_def check_exprs_def map_filter_def split: option.split)

lemma exprs_filter [simp]:
  "using_exprs (filter (\<lambda>p. \<exists>e. using_expr p = Some e) ps) = using_exprs ps"
  "check_exprs (filter (\<lambda>p. \<exists>e. check_expr p = Some e) ps) = check_exprs ps"
  "filter (\<lambda>p. \<exists>e. using_expr p = Some e) ps = [] \<longleftrightarrow> using_exprs ps = []"
  "filter (\<lambda>p. \<exists>e. check_expr p = Some e) ps = [] \<longleftrightarrow> check_exprs ps = []"
  by (induction ps) (auto split: option.splits)

lemma using_loop_eq:
  "using_loop ctx acc ps =
     (let rs = map (\<lambda>e. evaluate e ctx) (using_exprs ps); before = takeWhile (\<lambda>r. r \<noteq> Const True) rs
      in (Const True \<in> set rs, acc @ residuals_of before))"
  by (induction ps arbitrary: acc) (auto simp: Let_def split: option.split eval_result.split bool.split)

lemma check_loop_Inr:
  "check_loop ctx acc ps = Inr ss \<longleftrightarrow>
     Const False \<notin> set (map (\<lambda>e. evaluate e ctx) (check_exprs ps)) \<and>
     ss = acc @ residuals_of (map (\<lambda>e. evaluate e ctx) (check_exprs ps))"
  by (induction ps arbitrary: acc) (auto split: option.split eval_result.split bool.split)

lemma takeWhile_no_const: "r \<notin> set rs \<Longrightarrow> takeWhile (\<lambda>x. x \<noteq> r) rs = rs"
  by (auto simp: takeWhile_eq_all_conv)

lemma compile_using_eq:
  "compile_using_policies ps ctx =
     (let rs = map (\<lambda>e. evaluate e ctx) (using_exprs ps) in
      if Const True \<in> set rs then AlwaysAllow
      else if residuals_of rs = [] then AlwaysDeny ''no matching policy''
      else Conditional (combine_residuals '' OR '' (residuals_of rs)))"
  by (cases "Const True \<in> set (map (\<lambda>e. evaluate e ctx) (using_exprs ps))")
    (simp_all add: compile_using_policies_def using_loop_eq Let_def takeWhile_no_const del: set_map)

lemma compile_check_eq:
  "\<exists>reason. compile_check_policies ps ctx =
     (let rs = map (\<lambda>e. evaluate e ctx) (check_exprs ps) in
      if Const False \<in> set rs then AlwaysDeny reason
      else if residuals_of rs = [] then AlwaysAllow
      else Conditional (combine_residuals '' AND '' (residuals_of rs)))"
proof (cases "check_loop ctx [] ps")
  case (Inl reason)
  then have "Const False \<in> set (map (\<lambda>e. evaluate e ctx) (check_exprs ps))"
    using check_loop_Inr [of ctx "[]" ps] by auto
  with Inl show ?thesis by (auto simp: compile_check_policies_def Let_def)
next
  case (Inr ss)
  then show ?thesis using check_loop_Inr [of ctx "[]" ps ss]
    by (auto simp: compile_check_policies_def Let_def)
qed

section \<open>The meaning of a decision\<close>

text \<open>Conditions: the terms the policies leave, joined by \<open>OR\<close> and \<open>AND\<close>.\<close>

datatype cond = CTerm sql | CJoin policy_binary_op "cond list"

fun render_cond :: "cond \<Rightarrow> string" where
  "render_cond (CTerm s) = render s"
| "render_cond (CJoin op cs) =
     ''('' @ join ('' '' @ binary_op_as_sql op @ '' '') (map render_cond cs) @ '')''"

definition any3 :: "sql_val list \<Rightarrow> sql_val" where
  "any3 vs = (if VBool True \<in> set vs then VBool True else if VNull \<in> set vs then VNull else VBool False)"

definition all3 :: "sql_val list \<Rightarrow> sql_val" where
  "all3 vs = (if VBool False \<in> set vs then VBool False else if VNull \<in> set vs then VNull else VBool True)"

text \<open>A chain of one operator is read from the left.\<close>

definition chain :: "(sql_val \<Rightarrow> sql_val \<Rightarrow> sql_val option) \<Rightarrow> sql_val option list \<Rightarrow> sql_val option" where
  "chain f vs = (case vs of [] \<Rightarrow> None | v # vs \<Rightarrow> foldl (lift2 f) v vs)"

fun cond_val :: "sql_db \<Rightarrow> cond \<Rightarrow> sql_val option" where
  "cond_val db (CTerm s) = sql_value db s"
| "cond_val db (CJoin op cs) =
     chain (if op = OpAnd then and3 else if op = OpOr then or3 else db_cmp db op) (map (cond_val db) cs)"

fun decision_means :: "sql_db \<Rightarrow> policy_decision \<Rightarrow> sql_val \<Rightarrow> bool" where
  "decision_means db AlwaysAllow v \<longleftrightarrow> v = VBool True"
| "decision_means db (AlwaysDeny reason) v \<longleftrightarrow> v = VBool False"
| "decision_means db (Conditional sql) v \<longleftrightarrow> (\<exists>c. sql = render_cond c \<and> cond_val db c = Some v)"

lemma truth_cases: "truth_val v \<longleftrightarrow> v = VNull \<or> v = VBool True \<or> v = VBool False"
  by (cases v) (auto simp: truth_val_def)

lemma truth_any3 [simp]: "truth_val (any3 vs)" "truth_val (all3 vs)"
  by (auto simp: any3_def all3_def truth_cases)

lemma foldl_or3:
  "truth_val v \<Longrightarrow> list_all truth_val vs \<Longrightarrow> foldl (lift2 or3) (Some v) (map Some vs) = Some (any3 (v # vs))"
proof (induction vs arbitrary: v)
  case (Cons w vs)
  then have "or3 v w = Some (any3 [v, w])"
    by (auto simp: or3_def any3_def truth_cases)
  moreover have "any3 (any3 [v, w] # vs) = any3 (v # w # vs)"
    using Cons.prems by (auto simp: any3_def truth_cases)
  ultimately show ?case using Cons.IH [of "any3 [v, w]"] Cons.prems by (simp add: lift2_def)
qed (auto simp: any3_def truth_cases)

lemma foldl_and3:
  "truth_val v \<Longrightarrow> list_all truth_val vs \<Longrightarrow> foldl (lift2 and3) (Some v) (map Some vs) = Some (all3 (v # vs))"
proof (induction vs arbitrary: v)
  case (Cons w vs)
  then have "and3 v w = Some (all3 [v, w])"
    by (auto simp: and3_def all3_def truth_cases)
  moreover have "all3 (all3 [v, w] # vs) = all3 (v # w # vs)"
    using Cons.prems by (auto simp: all3_def truth_cases)
  ultimately show ?case using Cons.IH [of "all3 [v, w]"] Cons.prems by (simp add: lift2_def)
qed (auto simp: all3_def truth_cases)

text \<open>The residual texts, combined, are the rendering of a condition with the value of the chain.\<close>

lemma combine_residuals_cond:
  assumes "ts \<noteq> []" "list_all2 (\<lambda>t v. sql_value db t = Some v) ts vs" "list_all truth_val vs"
    "op = OpOr \<or> op = OpAnd"
  shows "\<exists>c. combine_residuals ('' '' @ binary_op_as_sql op @ '' '') (map render ts) = render_cond c \<and>
     cond_val db c = Some (if op = OpOr then any3 vs else all3 vs)"
proof -
  obtain t us v ws where t: "ts = t # us" and v: "vs = v # ws"
    using assms(1,2) by (cases ts; cases vs) auto
  have vals: "map (sql_value db) ts = map Some vs"
    using assms(2) by (simp add: list_all2_conv_all_nth list_eq_iff_nth_eq)
  show ?thesis
  proof (cases us)
    case Nil
    then have "ws = []" using assms(2) t v by auto
    then have "any3 vs = v" "all3 vs = v"
      using assms(3) v by (auto simp: any3_def all3_def truth_cases)
    with Nil t v vals show ?thesis
      by (intro exI [of _ "CTerm t"]) (simp add: combine_residuals_def)
  next
    case (Cons u us')
    have "cond_val db (CJoin op (map CTerm ts)) = Some (if op = OpOr then any3 vs else all3 vs)"
      using assms(3,4) vals t v by (auto simp: chain_def comp_def foldl_or3 foldl_and3)
    moreover have "combine_residuals ('' '' @ binary_op_as_sql op @ '' '') (map render ts) =
        render_cond (CJoin op (map CTerm ts))"
      using Cons t by (simp add: combine_residuals_def comp_def)
    ultimately show ?thesis by blast
  qed
qed

text \<open>Constants that do not decide the chain drop out of it.\<close>

lemma residual_values:
  assumes "list_all2 (\<lambda>r v. result_val db r = Some v) rs vs" "Const b \<notin> set rs"
  shows "\<exists>ws. list_all2 (\<lambda>t v. sql_value db t = Some v) (residuals_of rs) ws \<and>
     set ws \<subseteq> set vs \<and> set vs \<subseteq> insert (VBool (\<not> b)) (set ws)"
  using assms
proof (induction rs vs rule: list_all2_induct)
  case (Cons r rs v vs)
  then obtain ws where ws: "list_all2 (\<lambda>t v. sql_value db t = Some v) (residuals_of rs) ws"
    "set ws \<subseteq> set vs" "set vs \<subseteq> insert (VBool (\<not> b)) (set ws)" by auto
  show ?case
  proof (cases r)
    case (Const c)
    then have "v = VBool (\<not> b)" using Cons by auto
    with ws Const show ?thesis by (intro exI [of _ ws]) auto
  next
    case (Residual s)
    with ws Cons(1) show ?thesis by (intro exI [of _ "v # ws"]) auto
  qed
qed simp

lemma any3_insert: "set ws \<subseteq> set vs \<Longrightarrow> set vs \<subseteq> insert (VBool False) (set ws) \<Longrightarrow> any3 ws = any3 vs"
  by (auto simp: any3_def)

lemma all3_insert: "set ws \<subseteq> set vs \<Longrightarrow> set vs \<subseteq> insert (VBool True) (set ws) \<Longrightarrow> all3 ws = all3 vs"
  by (auto simp: all3_def)

lemma residuals_render: "residuals_of (map render_result rs) = map render (residuals_of rs)"
proof (induction rs)
  case (Cons r rs) then show ?case by (cases r) auto
qed simp

lemma Const_render: "Const b \<in> set (map render_result rs) \<longleftrightarrow> Const b \<in> set rs"
proof (induction rs)
  case (Cons r rs) then show ?case by (cases r) auto
qed simp

text \<open>The values of a list of policies for an identity on a row.\<close>

definition policies_say :: "string option \<Rightarrow> policy_ctx \<Rightarrow> sql_db \<Rightarrow> policy_expr list \<Rightarrow> sql_val list \<Rightarrow> bool" where
  "policies_say role ctx db es vs \<longleftrightarrow>
     list_all supported es \<and> map (policy_val role ctx db) es = map Some vs \<and> list_all truth_val vs \<and>
     (role = None \<or> \<not> list_ex mentions_role es)"

lemma policies_say_results:
  assumes "typed_db ctx db" "policies_say role ctx db es vs"
  shows "list_all2 (\<lambda>r v. result_val db r = Some v) (map (\<lambda>e. evaluate_sql e ctx) es) vs"
proof -
  have len: "length es = length vs" using assms(2) by (auto simp: policies_say_def dest: map_eq_imp_length_eq)
  have "result_val db (evaluate_sql (es ! i) ctx) = Some (vs ! i)" if i: "i < length es" for i
  proof (rule evaluate_sql_value [OF assms(1)])
    show "supported (es ! i)" using assms(2) i by (auto simp: policies_say_def list_all_length)
    show "role_unseen role (es ! i)" using assms(2) i by (auto simp: policies_say_def role_unseen_def list_ex_iff)
    have "map (policy_val role ctx db) es ! i = map Some vs ! i" using assms(2) by (simp add: policies_say_def)
    then show "policy_val role ctx db (es ! i) = Some (vs ! i)" using i len by simp
  qed
  with len show ?thesis by (simp add: list_all2_conv_all_nth)
qed

lemma decided_value:
  assumes "list_all2 (\<lambda>r v. result_val db r = Some v) rs vs" "Const b \<in> set rs"
  shows "VBool b \<in> set vs"
proof -
  obtain i where i: "i < length rs" "rs ! i = Const b" using assms(2) by (auto simp: in_set_conv_nth)
  then have "result_val db (rs ! i) = Some (vs ! i)" using assms(1) by (auto simp: list_all2_conv_all_nth)
  then show ?thesis using i list_all2_lengthD [OF assms(1)] by (metis nth_mem option.inject result_tree.simps(1) sql_value.simps(6))
qed

lemma evaluate_map: "map (\<lambda>e. evaluate e ctx) es = map render_result (map (\<lambda>e. evaluate_sql e ctx) es)"
  by (simp add: evaluate_render)

lemma compile_using_means:
  assumes db: "typed_db ctx db" and say: "policies_say role ctx db (using_exprs ps) vs"
  shows "decision_means db (compile_using_policies ps ctx) (any3 vs)"
proof -
  let ?rs = "map (\<lambda>e. evaluate_sql e ctx) (using_exprs ps)"
  note res = policies_say_results [OF db say]
  show ?thesis
  proof (cases "Const True \<in> set ?rs")
    case True
    then have "any3 vs = VBool True" using decided_value [OF res True] by (simp add: any3_def)
    with True show ?thesis
      unfolding compile_using_eq evaluate_map Let_def Const_render by simp
  next
    case False
    obtain ws where ws: "list_all2 (\<lambda>t v. sql_value db t = Some v) (residuals_of ?rs) ws"
      "set ws \<subseteq> set vs" "set vs \<subseteq> insert (VBool False) (set ws)"
      using residual_values [OF res False] by auto
    have truth: "list_all truth_val ws" using say ws(2) by (auto simp: policies_say_def list_all_iff)
    have eq: "any3 vs = any3 ws" using any3_insert [OF ws(2,3)] by simp
    show ?thesis
    proof (cases "residuals_of ?rs = []")
      case True
      with ws(1) eq have "any3 vs = VBool False" by (simp add: any3_def)
      with True False show ?thesis
        unfolding compile_using_eq evaluate_map Let_def Const_render residuals_render by simp
    next
      case False
      from combine_residuals_cond [OF this ws(1) truth, of OpOr] eq \<open>Const True \<notin> set ?rs\<close> False show ?thesis
        unfolding compile_using_eq evaluate_map Let_def Const_render residuals_render by simp
    qed
  qed
qed

lemma compile_check_means:
  assumes db: "typed_db ctx db" and say: "policies_say role ctx db (check_exprs ps) vs"
  shows "decision_means db (compile_check_policies ps ctx) (all3 vs)"
proof -
  let ?rs = "map (\<lambda>e. evaluate_sql e ctx) (check_exprs ps)"
  note res = policies_say_results [OF db say]
  obtain reason where eq: "compile_check_policies ps ctx =
      (if Const False \<in> set ?rs then AlwaysDeny reason
       else if residuals_of ?rs = [] then AlwaysAllow
       else Conditional (combine_residuals '' AND '' (map render (residuals_of ?rs))))"
    using compile_check_eq [of ps ctx] unfolding evaluate_map Let_def Const_render residuals_render map_is_Nil_conv by blast
  show ?thesis
  proof (cases "Const False \<in> set ?rs")
    case True
    then have "all3 vs = VBool False" using decided_value [OF res True] by (simp add: all3_def)
    with True eq show ?thesis by simp
  next
    case False
    obtain ws where ws: "list_all2 (\<lambda>t v. sql_value db t = Some v) (residuals_of ?rs) ws"
      "set ws \<subseteq> set vs" "set vs \<subseteq> insert (VBool True) (set ws)"
      using residual_values [OF res False] by auto
    have truth: "list_all truth_val ws" using say ws(2) by (auto simp: policies_say_def list_all_iff)
    have v: "all3 vs = all3 ws" using all3_insert [OF ws(2,3)] by simp
    show ?thesis
    proof (cases "residuals_of ?rs = []")
      case True
      with ws(1) v have "all3 vs = VBool True" by (simp add: all3_def)
      with True False eq show ?thesis by simp
    next
      case nonempty: False
      from combine_residuals_cond [OF nonempty ws(1) truth, of OpAnd] v False nonempty eq show ?thesis by simp
    qed
  qed
qed

lemma combine_means:
  assumes "decision_means db d v" "decision_means db d' v'" "truth_val v" "truth_val v'"
  shows "decision_means db (combine_decisions d d') (all3 [v, v'])"
proof -
  have "\<exists>c. ''('' @ render_cond a @ '' AND '' @ render_cond b @ '')'' = render_cond c \<and>
      cond_val db c = Some (all3 [v, v'])"
    if "cond_val db a = Some v" "cond_val db b = Some v'" for a b
    using that foldl_and3 [of v "[v']"] assms(3,4)
    by (intro exI [of _ "CJoin OpAnd [a, b]"]) (simp add: chain_def join_Cons)
  with assms show ?thesis
    by (cases d; cases d') (auto simp: all3_def truth_cases)
qed

lemma all3_pair:
  "truth_val v \<Longrightarrow> all3 [VBool True, v] = v" "truth_val v \<Longrightarrow> all3 [v, VBool True] = v"
  by (auto simp: all3_def truth_cases)

lemma compile_policies_eq:
  "compile_policies ps ctx bypass =
     (if bypass \<and> ctx_permission ctx star then AlwaysAllow
      else combine_decisions
        (if using_exprs ps = [] then AlwaysAllow
         else compile_using_policies (filter (\<lambda>p. using_expr p \<noteq> None) ps) ctx)
        (if check_exprs ps = [] then AlwaysAllow
         else compile_check_policies (filter (\<lambda>p. check_expr p \<noteq> None) ps) ctx))"
  by (cases "ps = []") (simp_all add: compile_policies_def Let_def)

lemma decision_means_of:
  assumes "typed_db ctx db"
    and "policies_say role ctx db (using_exprs ps) us" and "policies_say role ctx db (check_exprs ps) cs"
  shows "decision_means db (compile_policies ps ctx bypass)
    (if bypass \<and> ctx_permission ctx star then VBool True
     else all3 [if us = [] then VBool True else any3 us, all3 cs])"
proof -
  have len: "(us = []) = (using_exprs ps = [])" "(cs = []) = (check_exprs ps = [])"
    using assms(2,3) by (auto simp: policies_say_def)
  have u: "decision_means db (if using_exprs ps = [] then AlwaysAllow
      else compile_using_policies (filter (\<lambda>p. using_expr p \<noteq> None) ps) ctx)
      (if us = [] then VBool True else any3 us)"
    using compile_using_means [OF assms(1), of role "filter (\<lambda>p. using_expr p \<noteq> None) ps" us] assms(2) len
    by (auto simp: policies_say_def)
  have c: "decision_means db (if check_exprs ps = [] then AlwaysAllow
      else compile_check_policies (filter (\<lambda>p. check_expr p \<noteq> None) ps) ctx) (all3 cs)"
    using compile_check_means [OF assms(1), of role "filter (\<lambda>p. check_expr p \<noteq> None) ps" cs] assms(3) len
    by (auto simp: all3_def)
  have "truth_val (if us = [] then VBool True else any3 us)" by (simp add: truth_cases [of "VBool True"])
  from combine_means [OF u c this truth_any3(2)] show ?thesis
    unfolding compile_policies_eq by (simp only: if_split decision_means.simps) simp
qed

section \<open>Properties\<close>


text \<open>
  A denial is final and a grant is unconditional: when the compiled decision is a denial, the
  policies are false on every row on which they have a value, and when it is an allow without the
  bypass they are true on every such row.
\<close>

theorem compile_policies_sound:
  assumes "typed_db ctx db"
    and "policies_say role ctx db (using_exprs ps) us" and "policies_say role ctx db (check_exprs ps) cs"
    and "\<not> (bypass \<and> ctx_permission ctx star)"
  shows "(decision_denies (compile_policies ps ctx bypass) \<longrightarrow>
            all3 [if us = [] then VBool True else any3 us, all3 cs] = VBool False) \<and>
         (decision_allows (compile_policies ps ctx bypass) \<longrightarrow>
            all3 [if us = [] then VBool True else any3 us, all3 cs] = VBool True)"
proof -
  have "decision_means db (compile_policies ps ctx bypass)
      (all3 [if us = [] then VBool True else any3 us, all3 cs])"
    using decision_means_of [OF assms(1-3), of bypass] assms(4) by simp
  then show ?thesis by (cases "compile_policies ps ctx bypass") simp_all
qed

section \<open>Witnesses\<close>

definition sample_policies :: "compiled_policy list" where
  "sample_policies =
     [\<lparr>pol_name = ''own'', using_expr = Some sample_policy, check_expr = None\<rparr>,
      \<lparr>pol_name = ''never'', using_expr = Some (Literal (LitBool False)), check_expr = None\<rparr>]"

lemma sample_policies_say:
  "policies_say (Some ''admin'') sample_ctx sample_db (using_exprs sample_policies) [VBool True, VBool False]"
  "policies_say (Some ''admin'') sample_ctx sample_db (check_exprs sample_policies) []"
proof -
  have "policy_val (Some ''admin'') sample_ctx sample_db sample_policy = Some (VBool True)" by code_simp
  then show "policies_say (Some ''admin'') sample_ctx sample_db (using_exprs sample_policies) [VBool True, VBool False]"
    "policies_say (Some ''admin'') sample_ctx sample_db (check_exprs sample_policies) []"
    using sample_supported sample_no_role by (simp_all add: policies_say_def sample_policies_def truth_cases)
qed


lemma compile_policies_sound_witness:
  "\<not> decision_denies (compile_policies sample_policies sample_ctx True)"
proof -
  have "\<not> (True \<and> ctx_permission sample_ctx star)" by (simp add: sample_ctx_def star_def)
  from compile_policies_sound [OF sample_typed sample_policies_say this] show ?thesis
    by (auto simp: any3_def all3_def)
qed

end
