(* ===== verification/Core_Auth.thy ===== *)
theory Core_Auth
  imports Permissions "HOL-Library.Word"
begin

text \<open>
  Identity (\<open>crates/reactor-core/src/\<close>): claims of an access token and the context of a request
  (\<open>auth/claims.rs\<close>), the errors of the auth service (\<open>auth/error.rs\<close>), project references
  (\<open>project.rs\<close>) and tenant environments (\<open>tenant.rs\<close>). An identifier is its canonical
  36-character text; the UUID parser, the \<open>blake3\<close> hash and the base32 encoder are parameters.
  A Unix time is a 64-bit word read with sign.
\<close>

type_synonym i64 = "64 word"

section \<open>Claims (auth/claims.rs)\<close>

datatype oauth_provider = Google | Github
datatype auth_method = MethPwd | MethTotp | MethOauth oauth_provider | MethApikey | MethMagicLink

record claims =
  cl_sub :: string
  cl_iss :: string
  cl_aud :: string
  cl_exp :: i64
  cl_iat :: i64
  cl_nbf :: "i64 option"
  cl_email :: "string option"
  cl_amr :: "auth_method list"
  cl_orgs :: "string list"
  cl_default_org :: "string option"
  cl_session_id :: "string option"
  cl_scopes :: "string list"
  cl_mfa_at :: "i64 option"

definition claims_user_id :: "(string \<Rightarrow> string option) \<Rightarrow> claims \<Rightarrow> string option" where
  "claims_user_id uuid c = Option.bind (strip_prefix ''user_'' (cl_sub c)) uuid"

definition is_apikey :: "claims \<Rightarrow> bool" where
  "is_apikey c = starts_with ''apikey:'' (cl_sub c)"

definition claims_is_expired :: "claims \<Rightarrow> i64 \<Rightarrow> bool" where
  "claims_is_expired c now \<longleftrightarrow> sint (cl_exp c) < sint now"

definition is_member_of :: "claims \<Rightarrow> string \<Rightarrow> bool" where
  "is_member_of c org \<longleftrightarrow> org \<in> set (cl_orgs c)"

definition has_scope :: "claims \<Rightarrow> string \<Rightarrow> bool" where
  "has_scope c scope = matches_any (cl_scopes c) scope"

definition mfa_verified_within :: "claims \<Rightarrow> i64 \<Rightarrow> i64 \<Rightarrow> bool" where
  "mfa_verified_within c now window_secs =
     (case cl_mfa_at c of
        Some mfa_at \<Rightarrow> sint (now - mfa_at) \<le> sint window_secs
      | None \<Rightarrow> False)"

definition requires_step_up :: "claims \<Rightarrow> i64 \<Rightarrow> i64 \<Rightarrow> bool" where
  "requires_step_up c now window_secs = (\<not> mfa_verified_within c now window_secs)"

record auth_ctx =
  ax_claims :: claims
  ax_active_org :: "string option"
  ax_permissions :: "string list"

definition auth_user_id :: "(string \<Rightarrow> string option) \<Rightarrow> auth_ctx \<Rightarrow> string option" where
  "auth_user_id uuid a = claims_user_id uuid (ax_claims a)"

definition auth_has_permission :: "auth_ctx \<Rightarrow> string \<Rightarrow> bool" where
  "auth_has_permission a permission = matches_any (ax_permissions a) permission"

text \<open>A superuser has every permission.\<close>

lemma superuser_has_permission: "star \<in> set (ax_permissions a) \<Longrightarrow> auth_has_permission a p"
  using core.holds_superuser by (simp add: auth_has_permission_def core_holds_eq)

section \<open>Errors (auth/error.rs)\<close>

datatype auth_error =
    AeInvalidCredentials | AeTokenExpired | AeInvalidToken | AeUserNotFound | AeUserDisabled
  | AeEmailExists | AeOrgNotFound | AeOrgSlugExists | AeMembershipExists | AeMembershipNotFound
  | AeNotOrgMember | AePermissionDenied | AeSessionRevoked | AeInvalidRefreshToken
  | AeRefreshTokenReuse | AeInvitationNotFound | AeInvitationUsed | AeRoleNotFound | AeSystemRole
  | AeLastOwner | AeValidationError string | AeWeakPassword string | AeInternal | AeEmailDisabled
  | AeUnauthorized | AeOrgRequired

fun auth_status_code :: "auth_error \<Rightarrow> nat" where
  "auth_status_code AeInvalidCredentials = 401"
| "auth_status_code AeTokenExpired = 401"
| "auth_status_code AeInvalidToken = 401"
| "auth_status_code AeInvalidRefreshToken = 401"
| "auth_status_code AeRefreshTokenReuse = 401"
| "auth_status_code AeSessionRevoked = 401"
| "auth_status_code AeUnauthorized = 401"
| "auth_status_code AePermissionDenied = 403"
| "auth_status_code AeNotOrgMember = 403"
| "auth_status_code AeSystemRole = 403"
| "auth_status_code AeLastOwner = 403"
| "auth_status_code AeUserNotFound = 404"
| "auth_status_code AeOrgNotFound = 404"
| "auth_status_code AeMembershipNotFound = 404"
| "auth_status_code AeInvitationNotFound = 404"
| "auth_status_code AeRoleNotFound = 404"
| "auth_status_code AeEmailExists = 409"
| "auth_status_code AeOrgSlugExists = 409"
| "auth_status_code AeMembershipExists = 409"
| "auth_status_code AeInvitationUsed = 409"
| "auth_status_code (AeValidationError _) = 400"
| "auth_status_code AeOrgRequired = 400"
| "auth_status_code (AeWeakPassword _) = 400"
| "auth_status_code AeUserDisabled = 403"
| "auth_status_code AeInternal = 500"
| "auth_status_code AeEmailDisabled = 500"

section \<open>Projects (project.rs)\<close>

datatype project_ref_error = InvalidLength nat | InvalidCharacters | InvalidEncoding

definition project_ref_length :: nat where
  "project_ref_length = 20"

definition is_ref_char :: "char \<Rightarrow> bool" where
  "is_ref_char c \<longleftrightarrow> is_ascii_lower c \<or> is_ascii_digit c"

definition project_ref_parse :: "string \<Rightarrow> (string, project_ref_error) result" where
  "project_ref_parse s =
     (if length s \<noteq> project_ref_length then Err (InvalidLength (length s))
      else if \<not> list_all is_ref_char s then Err InvalidCharacters
      else Ok s)"

text \<open>\<open>blake3\<close> maps the 16 bytes of the identifier to 32, \<open>base32\<close> is \<open>BASE32_NOPAD.encode\<close>.\<close>

definition project_ref_from_id :: "(string \<Rightarrow> string) \<Rightarrow> (string \<Rightarrow> string) \<Rightarrow> string \<Rightarrow> string" where
  "project_ref_from_id blake3 base32 id_bytes =
     to_lowercase (take project_ref_length (base32 (take 13 (blake3 id_bytes))))"

text \<open>
  What is documented of the encoder: RFC 4648 without padding writes 21 characters of its
  alphabet for 13 bytes.
\<close>

definition is_base32_char :: "char \<Rightarrow> bool" where
  "is_base32_char c \<longleftrightarrow> is_ascii_upper c \<or> (50 \<le> byte c \<and> byte c \<le> 55)"

definition base32_encoder :: "(string \<Rightarrow> string) \<Rightarrow> bool" where
  "base32_encoder base32 \<longleftrightarrow>
     (\<forall>bs. list_all is_base32_char (base32 bs) \<and> length (base32 bs) = (8 * length bs + 4) div 5)"

section \<open>Tenants (tenant.rs)\<close>

datatype tenant_env = EnvProduction | EnvPreview | EnvDev

fun tenant_env_as_str :: "tenant_env \<Rightarrow> string" where
  "tenant_env_as_str EnvProduction = ''production''"
| "tenant_env_as_str EnvPreview = ''preview''"
| "tenant_env_as_str EnvDev = ''dev''"

definition tenant_env_from_str :: "string \<Rightarrow> tenant_env option" where
  "tenant_env_from_str s =
     (let l = to_lowercase s in
      if l = ''production'' \<or> l = ''prod'' then Some EnvProduction
      else if l = ''preview'' \<or> l = ''staging'' then Some EnvPreview
      else if l = ''dev'' \<or> l = ''development'' \<or> l = ''local'' then Some EnvDev
      else None)"

record tenant_ctx =
  tn_project_id :: string
  tn_project_ref :: string
  tn_project_name :: string
  tn_env :: tenant_env

definition tenant_is_production :: "tenant_ctx \<Rightarrow> bool" where
  "tenant_is_production t \<longleftrightarrow> tn_env t = EnvProduction"

lemma tenant_env_roundtrip: "tenant_env_from_str (tenant_env_as_str e) = Some e"
  by (cases e) (simp_all add: tenant_env_from_str_def Let_def to_lowercase_ascii is_ascii_def ascii_lower_def is_ascii_upper_def)

section \<open>Derived references are valid\<close>

lemma lower_base32: "is_base32_char c \<Longrightarrow> is_ascii c \<and> is_ref_char (ascii_lower c)"
  by (auto simp: is_base32_char_def is_ref_char_def ascii_lower_def ascii_class_defs byte_def)

text \<open>
  A project reference derived from a project id is one that \<open>ProjectRef::parse\<close> accepts, and
  parsing it gives it back: 20 lowercase alphanumeric characters.
\<close>

theorem derived_project_ref_parses:
  assumes "base32_encoder base32" "13 \<le> length (blake3 bytes)"
  shows "project_ref_parse (project_ref_from_id blake3 base32 bytes) = Ok (project_ref_from_id blake3 base32 bytes)"
proof -
  let ?e = "base32 (take 13 (blake3 bytes))"
  have b: "list_all is_base32_char ?e" and l: "length ?e = 21"
    using assms by (simp_all add: base32_encoder_def)
  have t: "list_all is_base32_char (take 20 ?e)" using b by (auto simp: list_all_iff dest: in_set_takeD)
  then have "to_lowercase (take 20 ?e) = map ascii_lower (take 20 ?e)"
    by (intro to_lowercase_ascii) (auto simp: list_all_iff dest: lower_base32)
  with t l show ?thesis
    by (auto simp: project_ref_parse_def project_ref_from_id_def project_ref_length_def list_all_iff dest: lower_base32)
qed

lemma derived_project_ref_parses_witness:
  "project_ref_parse (project_ref_from_id (\<lambda>_. replicate 32 CHR ''x'') (\<lambda>bs. replicate ((8 * length bs + 4) div 5) CHR ''A'') [])
    = Ok (replicate 20 CHR ''a'')"
proof -
  let ?h = "\<lambda>_ :: string. replicate 32 CHR ''x''" and ?b = "\<lambda>bs :: string. replicate ((8 * length bs + 4) div 5) CHR ''A''"
  have "base32_encoder ?b"
    by (simp add: base32_encoder_def is_base32_char_def is_ascii_upper_def list_all_iff)
  from derived_project_ref_parses [OF this, of ?h "[]"]
  have "project_ref_parse (project_ref_from_id ?h ?b []) = Ok (project_ref_from_id ?h ?b [])" by simp
  moreover have "project_ref_from_id ?h ?b [] = replicate 20 CHR ''a''" by code_simp
  ultimately show ?thesis by simp
qed

end
