(* ===== verification/Data_Policy.thy ===== *)
theory Data_Policy
  imports Data_Sql Policy_Compile Core_Auth
begin

text \<open>
  Policies of the data API (\<open>crates/reactor-data/src/policy/\<close>) and the context of a request
  (\<open>middleware/auth.rs\<close>). The policies a table has in the metadata schema are what \<open>load\<close>
  answers for a schema and a table; \<open>uuid\<close> is the UUID parser.
\<close>

section \<open>The request context (middleware/auth.rs)\<close>

record data_ctx =
  dc_auth :: auth_ctx
  dc_request_id :: string
  dc_schema :: string

definition data_user_id :: "(string \<Rightarrow> string option) \<Rightarrow> data_ctx \<Rightarrow> string option" where
  "data_user_id uuid ctx = auth_user_id uuid (dc_auth ctx)"

definition data_org_id :: "data_ctx \<Rightarrow> string option" where
  "data_org_id ctx = ax_active_org (dc_auth ctx)"

definition data_has_permission :: "data_ctx \<Rightarrow> string \<Rightarrow> bool" where
  "data_has_permission ctx permission = auth_has_permission (dc_auth ctx) permission"

definition data_policy_ctx :: "(string \<Rightarrow> string option) \<Rightarrow> data_ctx \<Rightarrow> policy_ctx" where
  "data_policy_ctx uuid ctx =
     \<lparr>ctx_user_id = data_user_id uuid ctx, ctx_org_id = data_org_id ctx,
      ctx_permission = data_has_permission ctx,
      ctx_email = cl_email (ax_claims (dc_auth ctx)), ctx_session_id = None\<rparr>"

text \<open>
  \<open>extract_bearer_token\<close>: a header value that \<open>to_str\<close> accepts is visible ASCII, so cutting it
  at byte 7 is at a character boundary.
\<close>

definition extract_bearer_token :: "header_value option \<Rightarrow> string option" where
  "extract_bearer_token h =
     (case h of
        Some (HText s) \<Rightarrow>
          if 7 < length s \<and> eq_ignore_ascii_case (take 7 s) ''Bearer '' then Some (drop 7 s) else None
      | _ \<Rightarrow> None)"

datatype org_ref = OrgById string | OrgBySlug string

definition extract_org_ref :: "(string \<Rightarrow> org_ref option) \<Rightarrow> header_value option \<Rightarrow> org_ref option" where
  "extract_org_ref parse h =
     (case h of
        Some (HText s) \<Rightarrow>
          if s = [] then None
          else Some (case parse s of Some r \<Rightarrow> r | None \<Rightarrow> OrgBySlug s)
      | _ \<Rightarrow> None)"

section \<open>Stored policies (policy/store.rs)\<close>

record stored_policy =
  sp_name :: string
  sp_scopes :: "policy_scope list"
  sp_using :: "policy_expr option"
  sp_check :: "policy_expr option"

text \<open>The scopes of a stored row; names the store does not know are dropped.\<close>

definition decode_scopes :: "string list \<Rightarrow> policy_scope list" where
  "decode_scopes names = List.map_filter (\<lambda>s.
     if s = ''select'' then Some ScSelect
     else if s = ''insert'' then Some ScInsert
     else if s = ''update'' then Some ScUpdate
     else if s = ''delete'' then Some ScDelete
     else None) names"

text \<open>What \<open>get_for_table\<close> reads: the rows of the policies table, in order of creation.\<close>

type_synonym policy_loader = "string \<Rightarrow> string \<Rightarrow> (stored_policy list, data_error) result"

definition get_for_scope ::
  "policy_loader \<Rightarrow> string \<Rightarrow> string \<Rightarrow> policy_scope \<Rightarrow> (stored_policy list, data_error) result" where
  "get_for_scope load schema table scope =
     and_then (load schema table) (\<lambda>all. Ok (filter (\<lambda>p. scope \<in> set (sp_scopes p)) all))"

section \<open>Compilation for a scope (policy/compile.rs)\<close>

definition to_compiled :: "stored_policy \<Rightarrow> compiled_policy" where
  "to_compiled p = \<lparr>pol_name = sp_name p, using_expr = sp_using p, check_expr = sp_check p\<rparr>"

definition compile_for_scope ::
  "(string \<Rightarrow> string option) \<Rightarrow> policy_loader \<Rightarrow> data_ctx \<Rightarrow> string \<Rightarrow> policy_scope \<Rightarrow>
   (policy_decision, data_error) result" where
  "compile_for_scope uuid load ctx table scope =
     (if data_has_permission ctx star then Ok AlwaysAllow
      else and_then (get_for_scope load (dc_schema ctx) table scope) (\<lambda>policies.
        if policies = [] then Ok AlwaysAllow
        else Ok (compile_policies (map to_compiled policies) (data_policy_ctx uuid ctx) False)))"

section \<open>The check of new rows (policy/compile.rs)\<close>

fun value_to_eval_result :: "json \<Rightarrow> string eval_result" where
  "value_to_eval_result JNull = Residual ''NULL''"
| "value_to_eval_result (JBool b) = Const b"
| "value_to_eval_result (JNumber n) = Residual (num_text n)"
| "value_to_eval_result (JString s) = Residual (squoted (escape_quotes s))"
| "value_to_eval_result _ = Residual ''NULL''"

fun result_to_literal_expr :: "string eval_result \<Rightarrow> policy_expr" where
  "result_to_literal_expr (Const b) = Literal (LitBool b)"
| "result_to_literal_expr (Residual s) = Literal (LitString s)"

fun evaluate_with_row :: "policy_expr \<Rightarrow> policy_ctx \<Rightarrow> json \<Rightarrow> string eval_result" where
  "evaluate_with_row (Column name) ctx row =
     (case json_get row name of
        Some v \<Rightarrow> value_to_eval_result v
      | None \<Rightarrow> Residual (dquoted name))"
| "evaluate_with_row (QualifiedColumn table column) ctx row =
     (case json_get row column of
        Some v \<Rightarrow> value_to_eval_result v
      | None \<Rightarrow> Residual (dquoted column))"
| "evaluate_with_row (BinaryOp l op r) ctx row =
     evaluate (BinaryOp (result_to_literal_expr (evaluate_with_row l ctx row)) op
       (result_to_literal_expr (evaluate_with_row r ctx row))) ctx"
| "evaluate_with_row e ctx row = evaluate e ctx"

fun check_loop_row :: "policy_ctx \<Rightarrow> json \<Rightarrow> stored_policy list \<Rightarrow> bool" where
  "check_loop_row ctx row [] = True"
| "check_loop_row ctx row (p # ps) =
     (case sp_check p of
        None \<Rightarrow> check_loop_row ctx row ps
      | Some e \<Rightarrow>
          (case evaluate_with_row e ctx row of
             Const True \<Rightarrow> check_loop_row ctx row ps
           | Const False \<Rightarrow> False
           | Residual _ \<Rightarrow> check_loop_row ctx row ps))"

definition check_row ::
  "(string \<Rightarrow> string option) \<Rightarrow> policy_loader \<Rightarrow> data_ctx \<Rightarrow> string \<Rightarrow> policy_scope \<Rightarrow> json \<Rightarrow>
   (bool, data_error) result" where
  "check_row uuid load ctx table scope row =
     (if data_has_permission ctx star then Ok True
      else and_then (get_for_scope load (dc_schema ctx) table scope) (\<lambda>policies.
        let check_policies = filter (\<lambda>p. sp_check p \<noteq> None) policies in
        if check_policies = [] then Ok True
        else Ok (check_loop_row (data_policy_ctx uuid ctx) row check_policies)))"

record batch_check_result =
  bc_allowed_indices :: "nat list"
  bc_denied :: "(nat \<times> string) list"

definition all_allowed :: "batch_check_result \<Rightarrow> bool" where
  "all_allowed b \<longleftrightarrow> bc_denied b = []"

fun check_batch_loop ::
  "(json \<Rightarrow> (bool, data_error) result) \<Rightarrow> nat \<Rightarrow> batch_check_result \<Rightarrow> json list \<Rightarrow>
   (batch_check_result, data_error) result" where
  "check_batch_loop check idx acc [] = Ok acc"
| "check_batch_loop check idx acc (row # rows) =
     and_then (check row) (\<lambda>ok.
       check_batch_loop check (Suc idx)
         (if ok then acc\<lparr>bc_allowed_indices := bc_allowed_indices acc @ [idx]\<rparr>
          else acc\<lparr>bc_denied := bc_denied acc @ [(idx, ''check policy failed'')]\<rparr>) rows)"

definition check_rows_batch ::
  "(string \<Rightarrow> string option) \<Rightarrow> policy_loader \<Rightarrow> data_ctx \<Rightarrow> string \<Rightarrow> policy_scope \<Rightarrow> json list \<Rightarrow>
   (batch_check_result, data_error) result" where
  "check_rows_batch uuid load ctx table scope rows =
     check_batch_loop (check_row uuid load ctx table scope) 0
       \<lparr>bc_allowed_indices = [], bc_denied = []\<rparr> rows"

end
