(* ===== verification/Data_Embed.thy ===== *)
theory Data_Embed
  imports Data_Policy
begin

text \<open>
  Embedded resources of the data API: their resolution against the foreign keys of the schema
  (\<open>crates/reactor-data/src/execute/embed.rs\<close>) and the select statement that joins them
  (\<open>execute/format.rs\<close>). The code handles an embed as an \<open>EmbedSpec\<close>; here it is the
  \<open>SelEmbed\<close> column, and \<open>embed_name\<close>, \<open>embed_hint\<close> and \<open>embed_columns\<close> read it.
\<close>

section \<open>Resolution (embed.rs)\<close>

datatype embed_direction = ToOne | ToMany

datatype resolved_embed = ResolvedEmbed (re_spec: select_column) (re_fk: foreign_key)
  (re_table: table_snapshot) (re_direction: embed_direction) (re_nested: "resolved_embed list") (re_alias: string)

fun embed_name :: "select_column \<Rightarrow> string" where
  "embed_name (SelEmbed name _ _ _) = name"
| "embed_name _ = []"

fun embed_hint :: "select_column \<Rightarrow> string option" where
  "embed_hint (SelEmbed _ hint _ _) = hint"
| "embed_hint _ = None"

fun embed_columns :: "select_column \<Rightarrow> select_column list" where
  "embed_columns (SelEmbed _ _ cols _) = cols"
| "embed_columns _ = []"

type_synonym embed_link = "foreign_key \<times> table_snapshot \<times> embed_direction"

text \<open>The search of the other tables for a hinted key that refers back to the parent.\<close>

fun find_back_reference :: "string \<Rightarrow> string \<Rightarrow> schema_snapshot \<Rightarrow> embed_link option" where
  "find_back_reference hint parent_name [] = None"
| "find_back_reference hint parent_name ((_, t) # tables) =
     (case find (\<lambda>fk. fk_name fk = hint \<and> fk_ref_table fk = parent_name) (tb_foreign_keys t) of
        Some fk \<Rightarrow> Some (fk, t, ToMany)
      | None \<Rightarrow> find_back_reference hint parent_name tables)"

definition quoted :: "string \<Rightarrow> string" where
  "quoted s = [CHR 0x27] @ s @ [CHR 0x27]"

definition find_hinted_fk ::
  "string \<Rightarrow> schema_snapshot \<Rightarrow> table_snapshot \<Rightarrow> (embed_link, data_error) result" where
  "find_hinted_fk hint schema parent =
     (case find (\<lambda>fk. fk_name fk = hint) (tb_foreign_keys parent) of
        Some fk \<Rightarrow>
          (case get_table schema (fk_ref_table fk) of
             Some t \<Rightarrow> Ok (fk, t, ToOne)
           | None \<Rightarrow> Err (InvalidQuery (''referenced table '' @ quoted (fk_ref_table fk) @
                       '' not found for FK hint '' @ quoted hint)))
      | None \<Rightarrow>
          (case find_back_reference hint (tb_name parent) schema of
             Some link \<Rightarrow> Ok link
           | None \<Rightarrow> Err (InvalidQuery (''foreign key hint '' @ quoted hint @ '' not found''))))"

definition embed_candidates :: "string \<Rightarrow> schema_snapshot \<Rightarrow> table_snapshot \<Rightarrow> embed_link list" where
  "embed_candidates name schema parent =
     concat (map (\<lambda>fk.
       if fk_ref_table fk = name then
         (case get_table schema (fk_ref_table fk) of Some t \<Rightarrow> [(fk, t, ToOne)] | None \<Rightarrow> [])
       else []) (tb_foreign_keys parent)) @
     (case get_table schema name of
        Some t \<Rightarrow> concat (map (\<lambda>fk. if fk_ref_table fk = tb_name parent then [(fk, t, ToMany)] else [])
                    (tb_foreign_keys t))
      | None \<Rightarrow> [])"

text \<open>The arrows of the hints are the UTF-8 bytes of U+2192 and U+2190.\<close>

definition embed_hint_text :: "string \<Rightarrow> embed_link \<Rightarrow> string" where
  "embed_hint_text name link =
     (case link of (fk, _, dir) \<Rightarrow>
        name @ ''!'' @ fk_name fk @ '' ('' @
        (case dir of ToOne \<Rightarrow> [CHR 0xE2, CHR 0x86, CHR 0x92] | ToMany \<Rightarrow> [CHR 0xE2, CHR 0x86, CHR 0x90]) @ '')'')"

definition find_fk_for_embed ::
  "select_column \<Rightarrow> schema_snapshot \<Rightarrow> table_snapshot \<Rightarrow> (embed_link, data_error) result" where
  "find_fk_for_embed spec schema parent =
     (case embed_hint spec of
        Some hint \<Rightarrow> find_hinted_fk hint schema parent
      | None \<Rightarrow>
          (case embed_candidates (embed_name spec) schema parent of
             [] \<Rightarrow> Err (InvalidQuery (''cannot resolve embed '' @ quoted (embed_name spec) @
                    '': no foreign key relationship found with table '' @ quoted (tb_name parent)))
           | [link] \<Rightarrow> Ok link
           | links \<Rightarrow> Err (AmbiguousEmbed (embed_name spec) (map (embed_hint_text (embed_name spec)) links))))"

text \<open>One round of the loop of \<open>resolve_embeds\<close>; \<open>nested\<close> is the recursive call.\<close>

definition resolve_embed ::
  "(table_snapshot \<Rightarrow> select_column list \<Rightarrow> (resolved_embed list, data_error) result) \<Rightarrow>
   schema_snapshot \<Rightarrow> table_snapshot \<Rightarrow> nat \<Rightarrow> select_column \<Rightarrow> (resolved_embed, data_error) result" where
  "resolve_embed nested schema parent alias_counter spec =
     and_then (find_fk_for_embed spec schema parent) (\<lambda>(fk, ref_table, direction).
       let sql_alias = ''embed_'' @ embed_name spec @ ''_'' @ show_nat alias_counter;
           nested_specs = filter is_embed (embed_columns spec)
       in and_then (if nested_specs = [] then Ok [] else nested ref_table nested_specs) (\<lambda>inner.
            Ok (ResolvedEmbed spec fk ref_table direction inner sql_alias)))"

function resolve_embeds ::
  "schema_snapshot \<Rightarrow> nat \<Rightarrow> nat \<Rightarrow> table_snapshot \<Rightarrow> select_column list \<Rightarrow>
   (resolved_embed list, data_error) result" where
  "resolve_embeds schema max_depth depth parent embeds =
     (if max_depth \<le> depth then
        Err (InvalidQuery (''maximum embed depth '' @ show_nat max_depth @ '' exceeded''))
      else collect_results (\<lambda>(i, spec).
        resolve_embed (resolve_embeds schema max_depth (depth + 1)) schema parent (depth * 100 + i) spec)
        (zip [1..<length embeds + 1] embeds))"
  by pat_completeness auto
termination
  by (relation "measure (\<lambda>(schema, max_depth, depth, _). max_depth - depth)") auto

declare resolve_embeds.simps [simp del]

section \<open>The joined select (format.rs)\<close>

definition embed_column_json :: "select_column \<Rightarrow> string list" where
  "embed_column_json c =
     (case c of
        SelColumn name \<Rightarrow> [quoted name @ '', '' @ dquoted name]
      | SelAliased alias column \<Rightarrow> [quoted alias @ '', '' @ dquoted column]
      | _ \<Rightarrow> [])"

definition build_embed_columns_json :: "select_column list \<Rightarrow> string" where
  "build_embed_columns_json columns =
     (let parts = concat (map embed_column_json columns) in
      if parts = [] then quoted ''*'' @ '', to_jsonb(*)'' else join '', '' parts)"

text \<open>\<open>columns.first().unwrap()\<close>: a foreign key without columns is a panic.\<close>

definition first_or_panic :: "string list \<Rightarrow> (string, data_error) result" where
  "first_or_panic xs = (case xs of [] \<Rightarrow> Panic | x # _ \<Rightarrow> Ok x)"

definition join_condition :: "resolved_embed \<Rightarrow> string \<Rightarrow> (string, data_error) result" where
  "join_condition e parent_alias =
     and_then (first_or_panic (fk_columns (re_fk e))) (\<lambda>fk_col.
     and_then (first_or_panic (fk_ref_columns (re_fk e))) (\<lambda>ref_col.
       let table = dquoted (tb_schema (re_table e)) @ ''.'' @ dquoted (tb_name (re_table e)) @ ''.'' in
       Ok (case re_direction e of
             ToOne \<Rightarrow> table @ dquoted ref_col @ '' = '' @ dquoted parent_alias @ ''.'' @ dquoted fk_col
           | ToMany \<Rightarrow> table @ dquoted fk_col @ '' = '' @ dquoted parent_alias @ ''.'' @ dquoted ref_col)))"

definition lateral_denied :: "string \<Rightarrow> string \<Rightarrow> string" where
  "lateral_denied alias reason =
     ''LEFT JOIN LATERAL (SELECT NULL::jsonb AS data WHERE false) AS '' @ dquoted alias @
     '' ON true /* policy denied: '' @ reason @ '' */''"

definition lateral_sql :: "resolved_embed \<Rightarrow> string \<Rightarrow> string" where
  "lateral_sql e clause =
     (let from_sql = '' AS data FROM '' @ dquoted (tb_schema (re_table e)) @ ''.'' @ dquoted (tb_name (re_table e)) @ '' WHERE '';
          columns_json = build_embed_columns_json (embed_columns (re_spec e)) in
      case re_direction e of
        ToOne \<Rightarrow> ''LEFT JOIN LATERAL (SELECT jsonb_build_object('' @ columns_json @ '')'' @ from_sql @
                clause @ '' LIMIT 1) AS '' @ dquoted (re_alias e) @ '' ON true''
      | ToMany \<Rightarrow> ''LEFT JOIN LATERAL (SELECT COALESCE(jsonb_agg(jsonb_build_object('' @ columns_json @ '')), '' @
                quoted ''[]'' @ ''::jsonb)'' @ from_sql @
                clause @ '') AS '' @ dquoted (re_alias e) @ '' ON true'')"

definition build_embed_lateral ::
  "(string \<Rightarrow> string option) \<Rightarrow> policy_loader \<Rightarrow> data_ctx \<Rightarrow> resolved_embed \<Rightarrow> string \<Rightarrow>
   (string, data_error) result" where
  "build_embed_lateral uuid load ctx e parent_alias =
     and_then (compile_for_scope uuid load ctx (tb_name (re_table e)) ScSelect) (\<lambda>policy_decision.
       case policy_decision of
         AlwaysDeny reason \<Rightarrow> Ok (lateral_denied (re_alias e) reason)
       | AlwaysAllow \<Rightarrow>
           and_then (join_condition e parent_alias) (\<lambda>condition. Ok (lateral_sql e condition))
       | Conditional policy \<Rightarrow>
           and_then (join_condition e parent_alias) (\<lambda>condition.
             Ok (lateral_sql e (condition @ '' AND '' @ ''('' @ policy @ '')''))))"

definition embed_output :: "resolved_embed \<Rightarrow> string" where
  "embed_output e = '', '' @ dquoted (re_alias e) @ ''.data AS '' @ dquoted (output_name (re_spec e))"

definition build_select_with_embeds ::
  "(string \<Rightarrow> string option) \<Rightarrow> policy_loader \<Rightarrow> data_ctx \<Rightarrow> sql_builder \<Rightarrow> query_plan \<Rightarrow> resolved_embed list \<Rightarrow>
   (string \<times> sql_param list, data_error) result" where
  "build_select_with_embeds uuid load ctx b plan embeds =
     and_then (collect_results (\<lambda>e. build_embed_lateral uuid load ctx e ''base'') embeds) (\<lambda>laterals.
     and_then (where_sql (\<lambda>fs n. build_where_aliased uuid fs n ''base'') plan 0) (\<lambda>(where_part, params).
       Ok (''SELECT '' @ build_select_columns_aliased (plan_select plan) ''base'' @
           concat (map embed_output embeds) @ '' FROM '' @ qualified_table b @ '' AS '' @ dquoted ''base'' @
           concat (map (\<lambda>l. '' '' @ l) laterals) @ where_part @
           order_sql (build_order_aliased (plan_order plan) ''base'') plan @
           limit_sql (plan_pagination plan), params)))"

end
