(* ===== verification/Data_Execute.thy ===== *)
theory Data_Execute
  imports Data_Embed
begin

text \<open>
  Execution of queries (\<open>crates/reactor-data/src/execute/mod.rs\<close>), audit events
  (\<open>audit.rs\<close>) and the CRUD handlers (\<open>routes/crud.rs\<close>). The database is a parameter: the
  record \<open>data_store\<close> holds what the code calls of it, over a state \<open>'w\<close>. A transaction is a
  private copy of the state; \<open>commit\<close> publishes it, and a transaction that is dropped by an early
  return is rolled back, as the driver documents. A commit that answers an error is taken to have changed nothing;
  one that took effect although its answer was lost is not modelled.
\<close>

section \<open>The store\<close>

type_synonym db_row = json_object

record 'w data_store =
  ds_introspect :: "'w \<Rightarrow> string \<Rightarrow> (schema_snapshot, data_error) result"
  ds_policies :: "'w \<Rightarrow> policy_loader"
  ds_begin :: "'w \<Rightarrow> ('w, data_error) result"
  ds_fetch_rows :: "string \<Rightarrow> sql_param list \<Rightarrow> 'w \<Rightarrow> (db_row list \<times> 'w, data_error) result"
  ds_execute_raw :: "string \<Rightarrow> sql_param list \<Rightarrow> 'w \<Rightarrow> (nat \<times> 'w, data_error) result"
  ds_commit :: "'w \<Rightarrow> ('w, data_error) result"
  ds_new_id :: "'w \<Rightarrow> string"

text \<open>A computation on the database: its outcome and the state it leaves.\<close>

type_synonym ('w, 'a) db = "'w \<Rightarrow> ('a, data_error) result \<times> 'w"

definition db_lift :: "('a, data_error) result \<Rightarrow> ('w, 'a) db" where
  "db_lift r w = (r, w)"

definition db_read :: "('w \<Rightarrow> ('a, data_error) result) \<Rightarrow> ('w, 'a) db" where
  "db_read f w = (f w, w)"

definition db_bind :: "('w, 'a) db \<Rightarrow> ('a \<Rightarrow> ('w, 'b) db) \<Rightarrow> ('w, 'b) db" where
  "db_bind m f w =
     (case m w of (Ok a, w') \<Rightarrow> f a w' | (Err e, w') \<Rightarrow> (Err e, w') | (Panic, w') \<Rightarrow> (Panic, w')
      | (Diverge, w') \<Rightarrow> (Diverge, w'))"

text \<open>\<open>begin\<close>, the body on the transaction, \<open>commit\<close>; every other way out drops the transaction.\<close>

definition in_tx :: "'w data_store \<Rightarrow> ('w \<Rightarrow> ('a \<times> 'w, data_error) result) \<Rightarrow> ('w, 'a) db" where
  "in_tx st body w =
     (case and_then (ds_begin st w) (\<lambda>tx. and_then (body tx) (\<lambda>(a, tx').
             and_then (ds_commit st tx') (\<lambda>w'. Ok (a, w')))) of
        Ok (a, w') \<Rightarrow> (Ok a, w') | Err e \<Rightarrow> (Err e, w) | Panic \<Rightarrow> (Panic, w) | Diverge \<Rightarrow> (Diverge, w))"

section \<open>Audit events (audit.rs)\<close>

datatype audit_event_type = RowsInsert | RowsUpdate | RowsDelete | RpcInvoke

fun audit_type_str :: "audit_event_type \<Rightarrow> string" where
  "audit_type_str RowsInsert = ''rows.insert''"
| "audit_type_str RowsUpdate = ''rows.update''"
| "audit_type_str RowsDelete = ''rows.delete''"
| "audit_type_str RpcInvoke = ''rpc.invoke''"

record audit_event =
  ae_id :: string
  ae_actor_user_id :: "string option"
  ae_actor_apikey_id :: "string option"
  ae_org_id :: "string option"
  ae_request_id :: string
  ae_event_type :: audit_event_type
  ae_table_name :: "string option"
  ae_row_count :: "int option"
  ae_details :: json

definition audit_event_new ::
  "(string \<Rightarrow> string option) \<Rightarrow> string \<Rightarrow> data_ctx \<Rightarrow> audit_event_type \<Rightarrow> audit_event" where
  "audit_event_new uuid new_id ctx event_type =
     (let cl = ax_claims (dc_auth ctx) in
      \<lparr>ae_id = new_id, ae_actor_user_id = data_user_id uuid ctx,
       ae_actor_apikey_id = (if is_apikey cl then Option.bind (strip_prefix ''apikey:'' (cl_sub cl)) uuid else None),
       ae_org_id = data_org_id ctx, ae_request_id = dc_request_id ctx, ae_event_type = event_type,
       ae_table_name = None, ae_row_count = None, ae_details = JObject []\<rparr>)"

definition uuid_or_null :: "string option \<Rightarrow> sql_param" where
  "uuid_or_null v = (case v of Some u \<Rightarrow> SvUuid u | None \<Rightarrow> SvNullUuid)"

text \<open>The fixed text of the insert, its white space reduced to single spaces.\<close>

definition audit_sql :: string where
  "audit_sql = ''INSERT INTO _reactor_data.audit_events (id, actor_user_id, actor_apikey_id, org_id, request_id, event_type, table_name, row_count, details) VALUES ($1, $2, $3, $4, $5, $6, $7, $8, $9)''"

definition audit_params :: "audit_event \<Rightarrow> sql_param list" where
  "audit_params e =
     [SvUuid (ae_id e), uuid_or_null (ae_actor_user_id e), uuid_or_null (ae_actor_apikey_id e),
      uuid_or_null (ae_org_id e), SvText (ae_request_id e), SvText (audit_type_str (ae_event_type e)),
      (case ae_table_name e of Some t \<Rightarrow> SvText t | None \<Rightarrow> SvNull),
      (case ae_row_count e of Some c \<Rightarrow> SvInt c | None \<Rightarrow> SvNullInt),
      SvJson (ae_details e)]"

definition write_audit_event :: "'w data_store \<Rightarrow> audit_event \<Rightarrow> 'w \<Rightarrow> ('w, data_error) result" where
  "write_audit_event st e tx =
     and_then (ds_execute_raw st audit_sql (audit_params e) tx) (\<lambda>(_, tx'). Ok tx')"

section \<open>Queries (execute/mod.rs)\<close>

record query_result =
  qr_rows :: "db_row list"
  qr_rows_returned :: nat
  qr_total_count :: "int option"
  qr_affected_rows :: "nat option"

definition as_u32 :: "nat \<Rightarrow> nat" where
  "as_u32 n = n mod 2 ^ 32"

definition as_i32 :: "nat \<Rightarrow> int" where
  "as_i32 n = sint (of_nat n :: 32 word)"

text \<open>What a policy decision makes of the plan: the early return of a denial, or the predicate.\<close>

definition apply_decision :: "policy_decision \<Rightarrow> query_plan \<Rightarrow> (query_plan, data_error) result" where
  "apply_decision d plan =
     (case d of
        AlwaysDeny reason \<Rightarrow> Err (PolicyDenied reason)
      | AlwaysAllow \<Rightarrow> Ok plan
      | Conditional sql_fragment \<Rightarrow> Ok (plan\<lparr>plan_policy := Some sql_fragment\<rparr>))"

definition builder_for :: "data_ctx \<Rightarrow> string \<Rightarrow> sql_builder" where
  "builder_for ctx table = \<lparr>sb_schema = dc_schema ctx, sb_table = table\<rparr>"

definition lookup_table :: "'w data_store \<Rightarrow> data_ctx \<Rightarrow> string \<Rightarrow> ('w, schema_snapshot \<times> table_snapshot) db" where
  "lookup_table st ctx table =
     db_bind (db_read (\<lambda>w. ds_introspect st w (dc_schema ctx))) (\<lambda>snapshot.
       db_lift (and_then (ok_or (TableNotFound table) (get_table snapshot table)) (\<lambda>t. Ok (snapshot, t))))"

text \<open>\<open>i64 as u64\<close> keeps the bits.\<close>

definition total_count :: "db_row list \<Rightarrow> int option" where
  "total_count rows =
     (case rows of
        [] \<Rightarrow> None
      | r # _ \<Rightarrow>
          (case map_of r ''count'' of
             Some (JNumber n) \<Rightarrow> map_option (\<lambda>c. uint (of_int c :: 64 word)) (num_i64 n)
           | _ \<Rightarrow> None))"

definition execute_select ::
  "(string \<Rightarrow> string option) \<Rightarrow> data_config \<Rightarrow> 'w data_store \<Rightarrow> data_ctx \<Rightarrow> string \<Rightarrow> query_plan \<Rightarrow>
   ('w, query_result) db" where
  "execute_select uuid config st ctx table plan =
     db_bind (lookup_table st ctx table) (\<lambda>(snapshot, table_info).
     db_bind (db_lift (validate_columns plan table_info)) (\<lambda>_.
     db_bind (db_read (\<lambda>w. compile_for_scope uuid (ds_policies st w) ctx table ScSelect)) (\<lambda>decision.
     db_bind (db_lift (apply_decision decision plan)) (\<lambda>plan_with_policy.
     db_bind (db_lift (if has_embeds plan
         then resolve_embeds snapshot (cfg_max_embed_depth config) 0 table_info (plan_embeds plan)
         else Ok [])) (\<lambda>resolved.
     db_bind (db_read (\<lambda>w.
         if resolved = [] then build_select uuid (builder_for ctx table) plan_with_policy
         else build_select_with_embeds uuid (ds_policies st w) ctx (builder_for ctx table) plan_with_policy resolved))
       (\<lambda>(sql, params).
     in_tx st (\<lambda>tx.
       and_then (ds_fetch_rows st sql params tx) (\<lambda>(rows, tx1).
       and_then (if prf_count (plan_prefer plan_with_policy) \<noteq> CountNone
           then and_then (build_count uuid (builder_for ctx table) plan_with_policy) (\<lambda>(count_sql, count_params).
             and_then (ds_fetch_rows st count_sql count_params tx1) (\<lambda>(count_rows, tx2).
               Ok (total_count count_rows, tx2)))
           else Ok (None, tx1)) (\<lambda>(total_rows, tx2).
       Ok (\<lparr>qr_rows = rows, qr_rows_returned = as_u32 (length rows), qr_total_count = total_rows,
            qr_affected_rows = None\<rparr>, tx2))))))))))"

text \<open>
  What insert, update and delete do with their statement: run it, write the audit event in the
  same transaction, commit.
\<close>

definition run_statement ::
  "'w data_store \<Rightarrow> prefer_header \<Rightarrow> string \<Rightarrow> sql_param list \<Rightarrow> 'w \<Rightarrow>
   (query_result \<times> 'w, data_error) result" where
  "run_statement st prf sql params tx =
     (if prf_return prf = Representation
      then and_then (ds_fetch_rows st sql params tx) (\<lambda>(rows, tx1).
        Ok (\<lparr>qr_rows = rows, qr_rows_returned = as_u32 (length rows), qr_total_count = None,
             qr_affected_rows = Some (length rows)\<rparr>, tx1))
      else and_then (ds_execute_raw st sql params tx) (\<lambda>(affected, tx1).
        Ok (\<lparr>qr_rows = [], qr_rows_returned = 0, qr_total_count = None,
             qr_affected_rows = Some affected\<rparr>, tx1)))"

definition mutation_event ::
  "(string \<Rightarrow> string option) \<Rightarrow> string \<Rightarrow> data_ctx \<Rightarrow> audit_event_type \<Rightarrow> string \<Rightarrow> query_result \<Rightarrow> audit_event" where
  "mutation_event uuid new_id ctx event_type table result =
     (audit_event_new uuid new_id ctx event_type)\<lparr>ae_table_name := Some table,
       ae_row_count := Some (as_i32 (case qr_affected_rows result of Some n \<Rightarrow> n | None \<Rightarrow> 0))\<rparr>"

definition audited ::
  "(string \<Rightarrow> string option) \<Rightarrow> 'w data_store \<Rightarrow> data_ctx \<Rightarrow> audit_event_type \<Rightarrow> string \<Rightarrow> prefer_header \<Rightarrow>
   string \<Rightarrow> sql_param list \<Rightarrow> ('w, query_result) db" where
  "audited uuid st ctx event_type table prf sql params =
     in_tx st (\<lambda>tx.
       and_then (run_statement st prf sql params tx) (\<lambda>(result, tx1).
       and_then (write_audit_event st (mutation_event uuid (ds_new_id st tx1) ctx event_type table result) tx1) (\<lambda>tx2.
       Ok (result, tx2))))"

definition no_rows :: query_result where
  "no_rows = \<lparr>qr_rows = [], qr_rows_returned = 0, qr_total_count = None, qr_affected_rows = Some 0\<rparr>"

fun body_rows :: "json \<Rightarrow> (json list, data_error) result" where
  "body_rows (JArray arr) = Ok arr"
| "body_rows (JObject obj) = Ok [JObject obj]"
| "body_rows _ = Err (InvalidQuery ''body must be object or array'')"

definition check_insert ::
  "(string \<Rightarrow> string option) \<Rightarrow> policy_loader \<Rightarrow> data_ctx \<Rightarrow> string \<Rightarrow> json list \<Rightarrow> policy_decision \<Rightarrow>
   (unit, data_error) result" where
  "check_insert uuid load ctx table rows decision =
     (case decision of
        AlwaysDeny reason \<Rightarrow> Err (PolicyDenied reason)
      | AlwaysAllow \<Rightarrow> Ok ()
      | Conditional _ \<Rightarrow>
          and_then (check_rows_batch uuid load ctx table ScInsert rows) (\<lambda>check_result.
            case bc_denied check_result of
              [] \<Rightarrow> Ok ()
            | (idx, reason) # _ \<Rightarrow>
                Err (PolicyDenied (''row '' @ show_nat idx @ '' failed check policy: '' @ reason))))"

definition execute_insert ::
  "(string \<Rightarrow> string option) \<Rightarrow> 'w data_store \<Rightarrow> data_ctx \<Rightarrow> string \<Rightarrow> json \<Rightarrow> prefer_header \<Rightarrow> query_plan \<Rightarrow>
   ('w, query_result) db" where
  "execute_insert uuid st ctx table body prf plan =
     db_bind (lookup_table st ctx table) (\<lambda>(_, table_info).
     db_bind (db_lift (body_rows body)) (\<lambda>rows.
     if rows = [] then db_lift (Ok no_rows)
     else
       db_bind (db_read (\<lambda>w. compile_for_scope uuid (ds_policies st w) ctx table ScInsert)) (\<lambda>decision.
       db_bind (db_read (\<lambda>w. check_insert uuid (ds_policies st w) ctx table rows decision)) (\<lambda>_.
       db_bind (db_lift (build_insert uuid (builder_for ctx table) rows table_info prf plan)) (\<lambda>(sql, params).
       audited uuid st ctx RowsInsert table prf sql params)))))"

fun body_object :: "json \<Rightarrow> (json_object, data_error) result" where
  "body_object (JObject obj) = Ok obj"
| "body_object _ = Err (InvalidQuery ''body must be an object'')"

definition execute_update ::
  "(string \<Rightarrow> string option) \<Rightarrow> 'w data_store \<Rightarrow> data_ctx \<Rightarrow> string \<Rightarrow> json \<Rightarrow> prefer_header \<Rightarrow> query_plan \<Rightarrow>
   ('w, query_result) db" where
  "execute_update uuid st ctx table body prf plan =
     db_bind (lookup_table st ctx table) (\<lambda>(_, table_info).
     db_bind (db_lift (body_object body)) (\<lambda>updates.
     if updates = [] then db_lift (Ok no_rows)
     else
       db_bind (db_read (\<lambda>w. compile_for_scope uuid (ds_policies st w) ctx table ScUpdate)) (\<lambda>decision.
       db_bind (db_lift (apply_decision decision plan)) (\<lambda>plan_with_policy.
       db_bind (db_lift (build_update uuid (builder_for ctx table) updates table_info prf plan_with_policy))
         (\<lambda>(sql, params).
       audited uuid st ctx RowsUpdate table prf sql params)))))"

definition execute_delete ::
  "(string \<Rightarrow> string option) \<Rightarrow> 'w data_store \<Rightarrow> data_ctx \<Rightarrow> string \<Rightarrow> prefer_header \<Rightarrow> query_plan \<Rightarrow>
   ('w, query_result) db" where
  "execute_delete uuid st ctx table prf plan =
     db_bind (lookup_table st ctx table) (\<lambda>_.
     db_bind (db_read (\<lambda>w. compile_for_scope uuid (ds_policies st w) ctx table ScDelete)) (\<lambda>decision.
     db_bind (db_lift (apply_decision decision plan)) (\<lambda>plan_with_policy.
     db_bind (db_lift (build_delete uuid (builder_for ctx table) prf plan_with_policy)) (\<lambda>(sql, params).
     audited uuid st ctx RowsDelete table prf sql params))))"

section \<open>Handlers (routes/crud.rs)\<close>

record http_response =
  rp_status :: nat
  rp_headers :: "(string \<times> string) list"
  rp_rows :: "db_row list option"

definition prefer_of :: "headers \<Rightarrow> (prefer_header, data_error) result" where
  "prefer_of hs = (case hs ''prefer'' of Some (HText s) \<Rightarrow> parse_prefer s | _ \<Rightarrow> Ok default_prefer)"

definition content_range :: "pagination \<Rightarrow> query_result \<Rightarrow> (string \<times> string) list" where
  "content_range p result =
     (case qr_total_count result of
        Some n \<Rightarrow>
          [(''content-range'', show_nat (unat (pg_offset p)) @ ''-'' @
             show_nat (unat (pg_offset p + of_nat (qr_rows_returned result - 1))) @ ''/'' @ show_int n)]
      | None \<Rightarrow> [])"

definition handle_get ::
  "(string \<Rightarrow> string option) \<Rightarrow> data_config \<Rightarrow> 'w data_store \<Rightarrow> data_ctx \<Rightarrow> string \<Rightarrow>
   (string \<times> string) list \<Rightarrow> headers \<Rightarrow> ('w, http_response) db" where
  "handle_get uuid config st ctx table params hs =
     db_bind (db_lift (parse_query params hs config)) (\<lambda>plan.
     db_bind (execute_select uuid config st ctx table plan) (\<lambda>result.
     db_lift (Ok \<lparr>rp_status = 200, rp_headers = content_range (plan_pagination plan) result,
                  rp_rows = Some (qr_rows result)\<rparr>)))"

definition mutation_response :: "nat \<Rightarrow> nat \<Rightarrow> prefer_header \<Rightarrow> query_result \<Rightarrow> http_response" where
  "mutation_response full minimal prf result =
     (if prf_return prf = Representation
      then \<lparr>rp_status = full, rp_headers = [], rp_rows = Some (qr_rows result)\<rparr>
      else \<lparr>rp_status = minimal,
            rp_headers = (case qr_affected_rows result of
                Some n \<Rightarrow> [(''x-affected-rows'', show_nat n)] | None \<Rightarrow> []),
            rp_rows = None\<rparr>)"

definition handle_post ::
  "(string \<Rightarrow> string option) \<Rightarrow> data_config \<Rightarrow> 'w data_store \<Rightarrow> data_ctx \<Rightarrow> string \<Rightarrow>
   (string \<times> string) list \<Rightarrow> headers \<Rightarrow> json \<Rightarrow> ('w, http_response) db" where
  "handle_post uuid config st ctx table params hs body =
     db_bind (db_lift (prefer_of hs)) (\<lambda>prf.
     db_bind (db_lift (parse_query params hs config)) (\<lambda>plan.
     db_bind (execute_insert uuid st ctx table body prf plan) (\<lambda>result.
     db_lift (Ok (mutation_response 201 201 prf result)))))"

definition handle_patch ::
  "(string \<Rightarrow> string option) \<Rightarrow> data_config \<Rightarrow> 'w data_store \<Rightarrow> data_ctx \<Rightarrow> string \<Rightarrow>
   (string \<times> string) list \<Rightarrow> headers \<Rightarrow> json \<Rightarrow> ('w, http_response) db" where
  "handle_patch uuid config st ctx table params hs body =
     db_bind (db_lift (prefer_of hs)) (\<lambda>prf.
     db_bind (db_lift (parse_query params hs config)) (\<lambda>plan.
     db_bind (execute_update uuid st ctx table body prf plan) (\<lambda>result.
     db_lift (Ok (mutation_response 200 204 prf result)))))"

definition handle_delete ::
  "(string \<Rightarrow> string option) \<Rightarrow> data_config \<Rightarrow> 'w data_store \<Rightarrow> data_ctx \<Rightarrow> string \<Rightarrow>
   (string \<times> string) list \<Rightarrow> headers \<Rightarrow> ('w, http_response) db" where
  "handle_delete uuid config st ctx table params hs =
     db_bind (db_lift (prefer_of hs)) (\<lambda>prf.
     db_bind (db_lift (parse_query params hs config)) (\<lambda>plan.
     db_bind (execute_delete uuid st ctx table prf plan) (\<lambda>result.
     db_lift (Ok (mutation_response 200 204 prf result)))))"

end
