(* ===== verification/Data_Sql_Props.thy ===== *)
theory Data_Sql_Props
  imports Data_Sql
begin

text \<open>
  How the database reads the statements of \<open>Data_Sql\<close>. \<open>reads s ns\<close> says that the text \<open>s\<close>
  leaves the SQL reader where it found it and refers to the parameters \<open>ns\<close>, in that order. The
  locale \<open>filter_renderer\<close> is the contract between a clause and the renderer of its filters; it is
  interpreted on both renderers of the code.
\<close>

section \<open>References to parameters\<close>

fun param_refs :: "lex \<Rightarrow> string \<Rightarrow> nat list" where
  "param_refs l [] = []"
| "param_refs l (c # s) =
     (case l of
        Plain d m \<Rightarrow>
          (if c = CHR ''$'' then [digits_val (takeWhile is_ascii_digit s)] else [])
      | _ \<Rightarrow> []) @ param_refs (lex_step l c) s"

definition no_digit :: "string \<Rightarrow> bool" where
  "no_digit t \<longleftrightarrow> (case t of [] \<Rightarrow> True | c # _ \<Rightarrow> \<not> is_ascii_digit c)"

lemma no_digit_simps [simp]: "no_digit []" "no_digit (c # t) \<longleftrightarrow> \<not> is_ascii_digit c"
  by (simp_all add: no_digit_def)

lemma takeWhile_no_digit:
  "no_digit t \<Longrightarrow> takeWhile is_ascii_digit (s @ t) = takeWhile is_ascii_digit s"
  by (induction s) (auto simp: no_digit_def split: list.splits)

lemma param_refs_append:
  "no_digit t \<Longrightarrow> param_refs l (s @ t) = param_refs l s @ param_refs (lex_text l s) t"
  by (induction s arbitrary: l) (auto simp: takeWhile_no_digit split: lex.split)

lemma param_refs_no_dollar: "CHR ''$'' \<notin> set s \<Longrightarrow> param_refs l s = []"
  by (induction s arbitrary: l) (auto split: lex.split)

lemma param_refs_name: "CHR 0x22 \<notin> set x \<Longrightarrow> param_refs (InName d) (x @ t) = param_refs (InName d) t"
  by (induction x) auto

definition reads :: "string \<Rightarrow> nat list \<Rightarrow> bool" where
  "reads s ns \<longleftrightarrow> no_digit s \<and>
     (\<forall>d. lex_text (Plain d NoMark) s = Plain d NoMark \<and> param_refs (Plain d NoMark) s = ns)"

lemma reads_Nil [simp]: "reads [] ns \<longleftrightarrow> ns = []"
  by (auto simp: reads_def)

lemma reads_append: "reads s ns \<Longrightarrow> reads t ms \<Longrightarrow> reads (s @ t) (ns @ ms)"
  unfolding reads_def by (cases "s = []") (simp_all add: lex_text_append param_refs_append no_digit_def split: list.splits)

lemma reads_append0: "reads s [] \<Longrightarrow> reads t ms \<Longrightarrow> reads (s @ t) ms"
  using reads_append [of s "[]"] by simp

lemma reads_plain: "list_all plain_char s \<Longrightarrow> no_digit s \<Longrightarrow> reads s []"
  by (auto simp: reads_def lex_plain list_all_iff plain_char_def intro!: param_refs_no_dollar)

lemma reads_Cons: "plain_char c \<Longrightarrow> \<not> is_ascii_digit c \<Longrightarrow> reads t ns \<Longrightarrow> reads (c # t) ns"
  using reads_append0 [OF reads_plain [of "[c]"]] by simp

lemma reads_dquoted: "CHR 0x22 \<notin> set x \<Longrightarrow> reads (dquoted x) []"
  by (simp add: reads_def dquoted_def lex_in_name param_refs_name ascii_class_defs)

lemma reads_parens:
  assumes "\<And>d. lex_text (Plain d NoMark) s = Plain d NoMark \<and> param_refs (Plain d NoMark) s = ns"
  shows "reads (''('' @ s @ '')'') ns"
  using assms by (simp add: reads_def lex_text_append param_refs_append ascii_class_defs)

lemma reads_in_parens: "reads s ns \<Longrightarrow> reads (''('' @ s @ '')'') ns"
  by (rule reads_parens) (simp add: reads_def)

lemma reads_placeholder: "reads (placeholder n) [n]"
proof -
  have "takeWhile is_ascii_digit (show_nat n) = show_nat n"
    using show_nat_digits [of n] unfolding takeWhile_eq_all_conv list_all_iff .
  then have "digits_val (takeWhile is_ascii_digit (show_nat n)) = n"
    by (simp only: digits_val_show_nat)
  moreover have "CHR ''$'' \<notin> set (show_nat n)"
    using show_nat_plain [of n] by (auto simp: list_all_iff plain_char_def)
  moreover have "lex_text (Plain d NoMark) (placeholder n) = Plain d NoMark" for d
    by (rule lex_sealed0 [OF sealed_placeholder]) simp
  moreover have "\<not> is_ascii_digit CHR ''$''" by (simp add: is_ascii_digit_def)
  ultimately show ?thesis by (simp add: reads_def placeholder_def param_refs_no_dollar)
qed

lemma reads_join:
  "list_all2 reads ts nss \<Longrightarrow> list_all plain_char sep \<Longrightarrow> no_digit sep \<Longrightarrow> reads (join sep ts) (concat nss)"
proof (induction rule: list_all2_induct)
  case (Cons t ts ns nss)
  then show ?case
    using reads_append0 [OF reads_plain [of sep] Cons.IH] by (cases "ts = []") (auto simp: join_Cons reads_append)
qed simp

lemma reads_join0:
  "list_all (\<lambda>t. reads t []) ts \<Longrightarrow> list_all plain_char sep \<Longrightarrow> no_digit sep \<Longrightarrow> reads (join sep ts) []"
  using reads_join [of ts "map (\<lambda>_. []) ts" sep]
  by (simp add: list_all2_map2 list_all2_same list_all_iff concat_eq_Nil_conv [THEN iffD2])

lemma reads_placeholders:
  "reads (join '', '' (map (\<lambda>i. placeholder (n + i + 1)) [0..<k])) [n + 1..<n + 1 + k]"
proof -
  have "list_all2 reads (map (\<lambda>i. placeholder (n + i + 1)) [0..<k]) (map (\<lambda>i. [n + i + 1]) [0..<k])"
    by (simp add: list_all2_map1 list_all2_map2 list_all2_same reads_placeholder)
  moreover have "concat (map (\<lambda>i. [n + i + 1]) [0..<k]) = [n + 1..<n + 1 + k]"
    by (induction k) auto
  ultimately show ?thesis
    using reads_join [of _ _ "'', ''"] by (fastforce simp: plain_char_def ascii_class_defs)
qed

section \<open>One filter\<close>

definition quotable :: "filter_expr \<Rightarrow> bool" where
  "quotable f \<longleftrightarrow> CHR 0x22 \<notin> set (flt_column f)"

text \<open>Filters that differ at most in the values they compare with.\<close>

definition value_shape :: "filter_op \<Rightarrow> filter_value \<Rightarrow> filter_value \<Rightarrow> bool" where
  "value_shape op v w =
     (case op of
        FIs \<Rightarrow> v = w
      | FIn \<Rightarrow> (case (v, w) of (FvList vs, FvList ws) \<Rightarrow> length vs = length ws
                 | (FvList _, _) \<Rightarrow> False | (_, FvList _) \<Rightarrow> False | _ \<Rightarrow> True)
      | _ \<Rightarrow> True)"

definition same_shape :: "filter_expr \<Rightarrow> filter_expr \<Rightarrow> bool" where
  "same_shape f g \<longleftrightarrow> flt_column f = flt_column g \<and> flt_op f = flt_op g \<and>
     flt_negated f = flt_negated g \<and> value_shape (flt_op f) (flt_value f) (flt_value g)"

definition same_text :: "('t \<times> 'p list, 'e) result \<Rightarrow> ('t \<times> 'p list, 'e) result \<Rightarrow> bool" where
  "same_text r s \<longleftrightarrow> r = s \<or>
     (\<exists>t ps qs. r = Ok (t, ps) \<and> s = Ok (t, qs) \<and> length ps = length qs)"

lemma op_reads: "reads ('' '' @ filter_op_sql op @ '' '') []"
  by (cases op) (auto simp: plain_char_def ascii_class_defs intro!: reads_plain)

lemma filter_sql_reads:
  assumes col: "reads col []" and r: "filter_sql uuid col f n = Ok (e, ps)"
  shows "reads e [n + 1..<n + 1 + length ps]"
proof -
  have lit: "reads '' IS NOT NULL'' []" "reads '' IS NULL'' []" "reads '' IS NOT TRUE'' []" "reads '' IS TRUE'' []"
    "reads '' IS NOT FALSE'' []" "reads '' IS FALSE'' []" "reads '' NOT IN '' []" "reads '' IN '' []"
    "reads ''NOT '' []"
    by (auto simp: plain_char_def ascii_class_defs intro!: reads_plain)
  note app = lit [THEN reads_append0 [OF col]]
  have cmp: "reads (col @ '' '' @ filter_op_sql op @ '' '' @ placeholder (n + 1)) [n + 1]" for op
    using reads_append0 [OF col reads_append0 [OF op_reads reads_placeholder]] by simp
  have neg: "reads (''NOT ('' @ (col @ '' '' @ filter_op_sql op @ '' '' @ placeholder (n + 1)) @ '')'') [n + 1]" for op
    using reads_append0 [OF lit(9) reads_in_parens [OF cmp]] by simp
  note inn = reads_in_parens [OF reads_placeholders, of n]
  show ?thesis
  proof (cases "flt_op f = FIs \<or> flt_op f = FIn")
    case False
    then have "filter_sql uuid col f n =
        (let e = col @ '' '' @ filter_op_sql (flt_op f) @ '' '' @ placeholder (n + 1) in
          Ok (if flt_negated f then ''NOT ('' @ e @ '')'' else e, [filter_value_to_sql uuid (flt_value f)]))"
      by (cases "flt_op f") (simp_all add: filter_sql_def)
    with r cmp neg show ?thesis by (auto simp: Let_def split: if_splits)
  next
    case True
    then show ?thesis
    proof
      assume "flt_op f = FIs"
      with r app show ?thesis
        by (cases "flt_value f") (auto simp: filter_sql_def split: if_splits)
    next
      assume "flt_op f = FIn"
      with r obtain items where
        e: "e = (col @ (if flt_negated f then '' NOT IN '' else '' IN '')) @ ''('' @
              join '', '' (map (\<lambda>i. placeholder (n + i + 1)) [0..<length items]) @ '')''"
        and ps: "ps = map (filter_value_to_sql uuid) items"
        by (cases "flt_value f") (auto simp: filter_sql_def Let_def)
      have "reads (col @ (if flt_negated f then '' NOT IN '' else '' IN '')) []"
        using app(7,8) by simp
      from reads_append0 [OF this inn] show ?thesis unfolding e ps length_map .
    qed
  qed
qed

lemma filter_sql_shape:
  assumes "same_shape f g"
  shows "same_text (filter_sql uuid col f n) (filter_sql uuid col g n)"
  using assms
  by (cases "flt_op g"; cases "flt_value f"; cases "flt_value g")
    (auto simp: same_shape_def value_shape_def same_text_def filter_sql_def Let_def)

section \<open>The contract of a clause\<close>

locale filter_renderer =
  fixes render :: "filter_expr \<Rightarrow> nat \<Rightarrow> (string \<times> 'p list, 'e) result"
  assumes render_reads:
      "quotable f \<Longrightarrow> render f n = Ok (e, ps) \<Longrightarrow> reads e [n + 1..<n + 1 + length ps]"
    and render_shape: "same_shape f g \<Longrightarrow> same_text (render f n) (render g n)"
begin

lemma loop_reads:
  assumes "where_loop render n parts params fs = Ok (parts', params')" "list_all quotable fs"
    and "list_all2 reads parts nss" "concat nss = [n + 1..<n + 1 + length params]"
  shows "\<exists>nss'. list_all2 reads parts' nss' \<and> concat nss' = [n + 1..<n + 1 + length params']"
  using assms
proof (induction fs arbitrary: parts params nss)
  case (Cons f fs)
  then obtain e ps where r: "render f (n + length params) = Ok (e, ps)"
    and rest: "where_loop render n (parts @ [e]) (params @ ps) fs = Ok (parts', params')" by auto
  let ?ns = "[n + length params + 1..<n + length params + 1 + length ps]"
  have "reads e ?ns" using render_reads [OF _ r] Cons.prems(2) by simp
  with Cons.prems(3) have "list_all2 reads (parts @ [e]) (nss @ [?ns])" by (simp add: list_all2_appendI)
  moreover have "concat (nss @ [?ns]) = [n + 1..<n + 1 + length (params @ ps)]"
    using Cons.prems(4) upt_add_eq_append [of "n + 1" "n + 1 + length params" "length ps"]
    by (simp add: ac_simps del: upt_Suc)
  ultimately show ?case using Cons.IH [OF rest] Cons.prems(2) by simp
qed auto

lemma clause_reads:
  assumes "where_clause render fs n = Ok (c, ps)" "list_all quotable fs"
  shows "reads c [n + 1..<n + 1 + length ps]"
proof -
  from assms(1) obtain parts where loop: "where_loop render n [] [] fs = Ok (parts, ps)" and c: "c = join '' AND '' parts"
    by (auto simp: where_clause_def)
  from loop_reads [OF loop assms(2), of "[]"] obtain nss
    where "list_all2 reads parts nss" "concat nss = [n + 1..<n + 1 + length ps]" by auto
  with reads_join [of parts nss "'' AND ''"] show ?thesis
    by (simp add: c plain_char_def ascii_class_defs del: upt_Suc)
qed

lemma loop_shape:
  assumes "list_all2 same_shape fs gs" "length params = length params'"
  shows "(\<exists>x. where_loop render n parts params fs = Err x \<and> where_loop render n parts params' gs = Err x) \<or>
    (\<exists>qs ps ps'. where_loop render n parts params fs = Ok (qs, ps) \<and>
       where_loop render n parts params' gs = Ok (qs, ps') \<and> length ps = length ps') \<or>
    where_loop render n parts params fs = where_loop render n parts params' gs"
  using assms
proof (induction arbitrary: parts params params' rule: list_all2_induct)
  case (Cons f fs g gs)
  have m: "n + length params = n + length params'" using Cons.prems by simp
  from render_shape [OF Cons.hyps(1), of "n + length params'"] show ?case
  proof (unfold same_text_def, elim disjE exE conjE)
    assume "render f (n + length params') = render g (n + length params')"
    then show ?thesis
    proof (cases "render g (n + length params')")
      case (Ok r)
      moreover obtain t ps where "r = (t, ps)" by (cases r)
      ultimately show ?thesis
        using \<open>render f _ = _\<close> Cons.IH [of "params @ ps" "params' @ ps" "parts @ [t]"] Cons.prems
        by (simp add: m)
    qed (simp_all add: m)
  next
    fix t ps qs
    assume "render f (n + length params') = Ok (t, ps)" "render g (n + length params') = Ok (t, qs)" "length ps = length qs"
    then show ?thesis using Cons.IH [of "params @ ps" "params' @ qs" "parts @ [t]"] Cons.prems by (simp add: m)
  qed
qed simp

lemma clause_shape:
  "list_all2 same_shape fs gs \<Longrightarrow> same_text (where_clause render fs n) (where_clause render gs n)"
  using loop_shape [of fs gs "[]" "[]" n "[]"] by (auto simp: where_clause_def same_text_def)

text \<open>The policy predicate is the last conjunct, in parentheses; before it the clause is read as closed.\<close>

lemma where_policy:
  assumes "where_sql (where_clause render) plan n = Ok (c, ps)" "list_all quotable (plan_filters plan)"
    and "plan_policy plan = Some policy"
  shows "\<exists>pre. c = pre @ ''('' @ policy @ '')'' \<and> reads pre [n + 1..<n + 1 + length ps]"
proof (cases "plan_filters plan")
  case Nil
  with assms show ?thesis
    by (auto simp: where_sql_def plain_char_def ascii_class_defs intro!: exI [of _ "'' WHERE ''"] reads_plain)
next
  case (Cons f fs)
  with assms(1,3) obtain clause where cl: "where_clause render (plan_filters plan) n = Ok (clause, ps)"
    and c: "c = ('' WHERE '' @ clause @ '' AND '') @ ''('' @ policy @ '')''"
    by (auto simp: where_sql_def)
  have lit: "reads '' WHERE '' []" "reads '' AND '' []"
    by (auto simp: plain_char_def ascii_class_defs intro!: reads_plain)
  have "reads ('' WHERE '' @ clause @ '' AND '') [n + 1..<n + 1 + length ps]"
    using reads_append0 [OF lit(1) reads_append [OF clause_reads [OF cl assms(2)] lit(2)]]
    unfolding append_Nil2 .
  with c show ?thesis by blast
qed

lemma where_reads:
  assumes "where_sql (where_clause render) plan n = Ok (c, ps)" "list_all quotable (plan_filters plan)"
    and "\<And>policy. plan_policy plan = Some policy \<Longrightarrow> reads (''('' @ policy @ '')'') []"
  shows "reads c [n + 1..<n + 1 + length ps]"
proof (cases "plan_policy plan")
  case (Some policy)
  from where_policy [OF assms(1,2) Some] obtain pre
    where "c = pre @ ''('' @ policy @ '')''" "reads pre [n + 1..<n + 1 + length ps]" by blast
  with reads_append [OF this(2) assms(3) [OF Some]] show ?thesis unfolding append_Nil2 by simp
next
  case None
  have lit: "reads '' WHERE '' []" by (auto simp: plain_char_def ascii_class_defs intro!: reads_plain)
  show ?thesis
  proof (cases "plan_filters plan")
    case Nil
    with None assms(1) show ?thesis by (auto simp: where_sql_def)
  next
    case (Cons f fs)
    with assms(1) None obtain clause where cl: "where_clause render (plan_filters plan) n = Ok (clause, ps)"
      and c: "c = '' WHERE '' @ clause" by (auto simp: where_sql_def)
    from reads_append0 [OF lit clause_reads [OF cl assms(2)]] show ?thesis by (simp only: c)
  qed
qed

lemma where_shape:
  assumes "list_all2 same_shape (plan_filters p) (plan_filters q)" "plan_policy p = plan_policy q"
  shows "same_text (where_sql (where_clause render) p n) (where_sql (where_clause render) q n)"
proof -
  have nil: "plan_filters p = [] \<longleftrightarrow> plan_filters q = []" using assms(1) by auto
  from clause_shape [OF assms(1), of n] nil assms(2) show ?thesis
    by (auto simp: where_sql_def same_text_def)
qed

end

lemma where_clause_eqs:
  "build_where uuid = where_clause (build_filter_expr uuid)"
  "(\<lambda>fs n. build_where_aliased uuid fs n alias) = where_clause (build_filter_expr_aliased uuid alias)"
  by (simp_all add: fun_eq_iff build_where_def build_where_aliased_def)

interpretation plain: filter_renderer "build_filter_expr uuid" for uuid
proof
  show "reads e [n + 1..<n + 1 + length ps]"
    if "quotable f" "build_filter_expr uuid f n = Ok (e, ps)" for f n e ps
    using that filter_sql_reads [OF reads_dquoted] by (simp only: quotable_def build_filter_expr_def)
  show "same_text (build_filter_expr uuid f n) (build_filter_expr uuid g n)" if "same_shape f g" for f g n
    using filter_sql_shape [OF that] that by (simp add: build_filter_expr_def same_shape_def)
qed

interpretation based: filter_renderer "build_filter_expr_aliased uuid ''base''" for uuid
proof
  have dot: "reads ''.'' []" by (auto simp: plain_char_def ascii_class_defs intro!: reads_plain)
  have base: "reads (dquoted ''base'') []" by (rule reads_dquoted) simp
  show "reads e [n + 1..<n + 1 + length ps]"
    if "quotable f" "build_filter_expr_aliased uuid ''base'' f n = Ok (e, ps)" for f n e ps
    using that filter_sql_reads [OF reads_append0 [OF base reads_append0 [OF dot reads_dquoted]]]
    by (simp only: quotable_def build_filter_expr_aliased_def)
  show "same_text (build_filter_expr_aliased uuid ''base'' f n) (build_filter_expr_aliased uuid ''base'' g n)"
    if "same_shape f g" for f g n
    using filter_sql_shape [OF that] that by (simp add: build_filter_expr_aliased_def same_shape_def)
qed

section \<open>The conjuncts of a WHERE clause\<close>

lemma join_append:
  "xs \<noteq> [] \<Longrightarrow> ys \<noteq> [] \<Longrightarrow> join sep (xs @ ys) = join sep xs @ sep @ join sep ys"
  by (induction xs) (auto simp: join_Cons)

lemma where_loop_parts:
  "where_loop render n parts params fs = Ok (parts', params') \<Longrightarrow>
     \<exists>new. parts' = parts @ new \<and> list_all2 (\<lambda>f e. \<exists>m ps. render f m = Ok (e, ps)) fs new"
proof (induction fs arbitrary: parts params)
  case (Cons f fs)
  then obtain e ps where r: "render f (n + length params) = Ok (e, ps)"
    and rest: "where_loop render n (parts @ [e]) (params @ ps) fs = Ok (parts', params')" by auto
  from Cons.IH [OF rest] obtain new where "parts' = (parts @ [e]) @ new"
    "list_all2 (\<lambda>f e. \<exists>m ps. render f m = Ok (e, ps)) fs new" by blast
  with r show ?case by (intro exI [of _ "e # new"]) auto
qed auto

lemma where_conjuncts:
  assumes "where_sql (where_clause render) plan n = Ok (c, ps)" "plan_policy plan = Some policy"
  shows "\<exists>parts. c = '' WHERE '' @ join '' AND '' (parts @ [''('' @ policy @ '')'']) \<and>
    list_all2 (\<lambda>f e. \<exists>m ps. render f m = Ok (e, ps)) (plan_filters plan) parts"
proof (cases "plan_filters plan = []")
  case True
  with assms show ?thesis by (auto simp: where_sql_def)
next
  case False
  with assms obtain parts where
    loop: "where_loop render n [] [] (plan_filters plan) = Ok (parts, ps)" and
    c: "c = '' WHERE '' @ join '' AND '' [join '' AND '' parts, ''('' @ policy @ '')'']"
    by (auto simp: where_sql_def where_clause_def)
  from where_loop_parts [OF loop]
  have all: "list_all2 (\<lambda>f e. \<exists>m ps. render f m = Ok (e, ps)) (plan_filters plan) parts" by simp
  with False have "parts \<noteq> []" by auto
  then have "c = '' WHERE '' @ join '' AND '' (parts @ [''('' @ policy @ '')''])"
    by (simp add: c join_append)
  with all show ?thesis by blast
qed

text \<open>The conjuncts of a plan's filters: each is what \<open>build_filter_expr\<close> made of its filter.\<close>

definition filter_conjuncts :: "(string \<Rightarrow> string option) \<Rightarrow> filter_expr list \<Rightarrow> string list \<Rightarrow> bool" where
  "filter_conjuncts uuid fs parts \<longleftrightarrow>
     list_all2 (\<lambda>f e. \<exists>n ps. build_filter_expr uuid f n = Ok (e, ps)) fs parts"

text \<open>
  A statement with the policy as the last conjunct of its only \<open>WHERE\<close> clause. This is a guarantee on the text: the
  conjuncts before the policy are not looked into, and \<open>rest\<close> is whatever a builder appends.
\<close>

definition guarded ::
  "(string \<Rightarrow> string option) \<Rightarrow> query_plan \<Rightarrow> string \<Rightarrow> string \<Rightarrow> string \<Rightarrow> bool" where
  "guarded uuid plan policy before sql \<longleftrightarrow>
     (\<exists>parts rest. sql = before @ '' WHERE '' @ join '' AND '' (parts @ [''('' @ policy @ '')'']) @ rest \<and>
        filter_conjuncts uuid (plan_filters plan) parts)"

lemma where_guarded:
  assumes "where_sql (build_where uuid) plan n = Ok (c, ps)" "plan_policy plan = Some policy"
  shows "guarded uuid plan policy before (before @ c @ rest)"
  using where_conjuncts [OF assms(1) [unfolded where_clause_eqs(1)] assms(2)]
  unfolding guarded_def filter_conjuncts_def by fastforce

lemma select_guarded:
  assumes "plan_policy plan = Some policy" "build_select uuid b plan = Ok (sql, ps)"
  shows "guarded uuid plan policy (''SELECT '' @ build_select_columns (plan_select plan) @ '' FROM '' @ qualified_table b) sql"
proof -
  from assms(2) obtain c where c: "where_sql (build_where uuid) plan 0 = Ok (c, ps)"
    and sql: "sql = (''SELECT '' @ build_select_columns (plan_select plan) @ '' FROM '' @ qualified_table b) @ c @
      (order_sql (build_order (plan_order plan)) plan @ limit_sql (plan_pagination plan))"
    by (auto simp: build_select_def)
  show ?thesis unfolding sql by (rule where_guarded [OF c assms(1)])
qed

lemma count_guarded:
  assumes "plan_policy plan = Some policy" "build_count uuid b plan = Ok (sql, ps)"
  shows "guarded uuid plan policy (''SELECT COUNT(*) as count FROM '' @ qualified_table b) sql"
proof -
  from assms(2) obtain c where c: "where_sql (build_where uuid) plan 0 = Ok (c, ps)"
    and sql: "sql = (''SELECT COUNT(*) as count FROM '' @ qualified_table b) @ c @ []"
    by (auto simp: build_count_def)
  show ?thesis unfolding sql by (rule where_guarded [OF c assms(1)])
qed

lemma delete_guarded:
  assumes "plan_policy plan = Some policy" "build_delete uuid b prf plan = Ok (sql, ps)"
  shows "guarded uuid plan policy (''DELETE FROM '' @ qualified_table b) sql"
proof -
  from assms(2) obtain c where c: "where_sql (build_where uuid) plan 0 = Ok (c, ps)"
    and sql: "sql = (''DELETE FROM '' @ qualified_table b) @ c @ returning_sql prf plan"
    by (auto simp: build_delete_def)
  show ?thesis unfolding sql by (rule where_guarded [OF c assms(1)])
qed

lemma update_guarded:
  assumes "plan_policy plan = Some policy" "build_update uuid b updates t prf plan = Ok (sql, ps)"
  shows "\<exists>sets. guarded uuid plan policy (''UPDATE '' @ qualified_table b @ '' SET '' @ join '', '' sets) sql"
proof -
  from assms(2) obtain sets n c qs where c: "where_sql (build_where uuid) plan n = Ok (c, qs)"
    and sql: "sql = (''UPDATE '' @ qualified_table b @ '' SET '' @ join '', '' sets) @ c @ returning_sql prf plan"
    by (auto simp: build_update_def)
  show ?thesis unfolding sql by (rule exI [of _ sets], rule where_guarded [OF c assms(1)])
qed

text \<open>
  C6. Every statement that reads or changes rows carries the policy: with a policy predicate in
  the plan, the text of a select, a count, an update and a delete is the statement's head, then
  \<open>WHERE\<close>, then a conjunction whose last member is the predicate in parentheses and whose other
  members are the comparisons of the plan's filters.
\<close>

theorem statements_carry_policy:
  assumes "plan_policy plan = Some policy"
  shows "(\<forall>sql ps. build_select uuid b plan = Ok (sql, ps) \<longrightarrow>
      guarded uuid plan policy (''SELECT '' @ build_select_columns (plan_select plan) @ '' FROM '' @ qualified_table b) sql) \<and>
    (\<forall>sql ps. build_count uuid b plan = Ok (sql, ps) \<longrightarrow>
      guarded uuid plan policy (''SELECT COUNT(*) as count FROM '' @ qualified_table b) sql) \<and>
    (\<forall>sql ps. build_delete uuid b prf plan = Ok (sql, ps) \<longrightarrow>
      guarded uuid plan policy (''DELETE FROM '' @ qualified_table b) sql) \<and>
    (\<forall>sql ps. build_update uuid b updates t prf plan = Ok (sql, ps) \<longrightarrow>
      (\<exists>sets. guarded uuid plan policy (''UPDATE '' @ qualified_table b @ '' SET '' @ join '', '' sets) sql))"
  by (intro conjI allI impI select_guarded count_guarded delete_guarded update_guarded) (rule assms, assumption)+

definition sample_builder :: sql_builder where
  "sample_builder = \<lparr>sb_schema = ''public'', sb_table = ''docs''\<rparr>"

definition sample_column :: "string \<Rightarrow> column_info" where
  "sample_column c = \<lparr>ci_name = c, ci_sql_type = ''text'', ci_nullable = True, ci_default = None\<rparr>"

definition sample_table :: table_snapshot where
  "sample_table = \<lparr>tb_schema = ''public'', tb_name = ''docs'',
     tb_columns = map sample_column [''id'', ''owner'', ''title''], tb_primary_key = [''id''],
     tb_foreign_keys = [], tb_indexes = []\<rparr>"

definition sample_plan :: query_plan where
  "sample_plan = default_plan\<lparr>
     plan_filters := [\<lparr>flt_column = ''title'', flt_op = FEq, flt_value = FvString ''a'', flt_negated = False\<rparr>],
     plan_policy := Some ''(owner = 1)''\<rparr>"

lemma statements_carry_policy_witness:
  "\<exists>sql ps. build_delete (\<lambda>_. None) sample_builder default_prefer sample_plan = Ok (sql, ps) \<and>
     guarded (\<lambda>_. None) sample_plan ''(owner = 1)'' (''DELETE FROM '' @ qualified_table sample_builder) sql"
proof -
  have p: "plan_policy sample_plan = Some ''(owner = 1)''" by (simp add: sample_plan_def)
  obtain sql ps where d: "build_delete (\<lambda>_. None) sample_builder default_prefer sample_plan = Ok (sql, ps)"
    by (simp add: build_delete_def sample_plan_def where_sql_def build_where_def where_clause_def
        build_filter_expr_def filter_sql_def Let_def)
  with statements_carry_policy [OF p] show ?thesis by blast
qed

section \<open>Values stay out of the text\<close>

lemma same_text_bind:
  assumes "same_text r r'" "\<And>t ps qs. length ps = length qs \<Longrightarrow> same_text (f t ps) (g t qs)"
  shows "same_text (and_then r (\<lambda>(t, ps). f t ps)) (and_then r' (\<lambda>(t, ps). g t ps))"
  using assms(1) unfolding same_text_def [of r r']
proof (elim disjE exE conjE)
  assume "r = r'"
  with assms(2) show ?thesis by (cases r) (auto simp: same_text_def [of "Err _"] same_text_def [of Panic] same_text_def [of Diverge])
qed (simp add: assms(2))

lemma same_text_Ok: "length ps = length qs \<Longrightarrow> same_text (Ok (t, ps)) (Ok (t, qs))"
  by (simp add: same_text_def)

lemma update_sets_shape:
  "map fst us = map fst vs \<Longrightarrow> length ps = length qs \<Longrightarrow>
     same_text (update_sets uuid t sets ps us) (update_sets uuid t sets qs vs)"
proof (induction us arbitrary: vs sets ps qs)
  case (Cons u us)
  then obtain c v w vs' where "u = (c, v)" "vs = (c, w) # vs'" "map fst us = map fst vs'"
    by (cases u; cases vs) auto
  with Cons show ?case by (auto simp: same_text_def [of "Err _"])
qed (auto simp: same_text_def)

text \<open>Rows with the same keys in the same order.\<close>

definition same_keys :: "json \<Rightarrow> json \<Rightarrow> bool" where
  "same_keys r r' \<longleftrightarrow> (\<exists>o1 o2. r = JObject o1 \<and> r' = JObject o2 \<and> map fst o1 = map fst o2)"

lemma insert_columns_shape:
  "list_all2 same_keys rows rows' \<Longrightarrow> insert_columns t cols rows = insert_columns t cols rows'"
proof (induction arbitrary: cols rule: list_all2_induct)
  case (Cons r rs r' rs')
  then obtain o1 o2 where "r = JObject o1" "r' = JObject o2" "map fst o1 = map fst o2"
    by (auto simp: same_keys_def)
  with Cons.IH show ?case by simp
qed simp

lemma insert_values_shape:
  "list_all2 same_keys rows rows' \<Longrightarrow>
     fst (insert_values uuid cols n rows) = fst (insert_values uuid cols n rows') \<and>
     length (snd (insert_values uuid cols n rows)) = length (snd (insert_values uuid cols n rows'))"
  by (induction arbitrary: n rule: list_all2_induct)
    (auto simp: same_keys_def Let_def split: prod.splits, (metis fst_conv snd_conv)+)

lemma build_insert_shape:
  assumes "list_all2 same_keys rows rows'"
  shows "same_text (build_insert uuid b rows t prf plan) (build_insert uuid b rows' t prf plan)"
proof -
  have nil: "rows = [] \<longleftrightarrow> rows' = []" using assms by auto
  show ?thesis
  proof (cases "insert_columns t [] rows'")
    case (Ok cols)
    then show ?thesis
      using insert_values_shape [OF assms, of uuid cols 0]
      by (auto simp: build_insert_def nil insert_columns_shape [OF assms] same_text_def Let_def case_prod_beta)
  qed (simp_all add: build_insert_def nil insert_columns_shape [OF assms] same_text_def)
qed

text \<open>
  C32. Compared and stored values are bound, not printed. For two plans that have the same filters up to the values compared
  with (the same literal for \<open>IS\<close>, which is printed as one of four fixed words, and lists of equal length for \<open>IN\<close>, which
  has a placeholder for each member), and two updates or two lists of inserted rows with the same columns, the builders
  either make the same text with equally many parameters, or give the same result (such as the same error).
\<close>

theorem values_not_in_text:
  assumes "list_all2 same_shape (plan_filters plan) fs" "map fst us = map fst vs"
    and "list_all2 same_keys rows rows'"
  shows "same_text (build_select uuid b plan) (build_select uuid b (plan\<lparr>plan_filters := fs\<rparr>)) \<and>
    same_text (build_count uuid b plan) (build_count uuid b (plan\<lparr>plan_filters := fs\<rparr>)) \<and>
    same_text (build_delete uuid b prf plan) (build_delete uuid b prf (plan\<lparr>plan_filters := fs\<rparr>)) \<and>
    same_text (build_update uuid b us t prf plan) (build_update uuid b vs t prf (plan\<lparr>plan_filters := fs\<rparr>)) \<and>
    same_text (build_insert uuid b rows t prf plan) (build_insert uuid b rows' t prf plan)"
proof -
  let ?plan = "plan\<lparr>plan_filters := fs\<rparr>"
  have w: "same_text (where_sql (build_where uuid) plan n) (where_sql (build_where uuid) ?plan n)" for n
    unfolding where_clause_eqs by (rule plain.where_shape) (simp_all add: assms(1))
  have r: "returning_sql prf ?plan = returning_sql prf plan" by (simp add: returning_sql_def)
  have o: "order_sql c ?plan = order_sql c plan" for c by (simp add: order_sql_def)
  have "same_text (build_select uuid b plan) (build_select uuid b ?plan)"
    unfolding build_select_def by (rule same_text_bind [OF w]) (simp_all add: same_text_Ok o)
  moreover have "same_text (build_count uuid b plan) (build_count uuid b ?plan)"
    unfolding build_count_def by (rule same_text_bind [OF w]) (simp_all add: same_text_Ok)
  moreover have "same_text (build_delete uuid b prf plan) (build_delete uuid b prf ?plan)"
    unfolding build_delete_def by (rule same_text_bind [OF w]) (simp_all add: same_text_Ok r)
  moreover have "same_text (build_update uuid b us t prf plan) (build_update uuid b vs t prf ?plan)"
    unfolding build_update_def r
  proof (rule same_text_bind [OF update_sets_shape [OF assms(2)]])
    fix sets and ps qs :: "sql_param list" assume len: "length ps = length qs"
    show "same_text (and_then (where_sql (build_where uuid) plan (length ps)) (\<lambda>(c, where_params).
          Ok (''UPDATE '' @ qualified_table b @ '' SET '' @ join '', '' sets @ c @ returning_sql prf plan, ps @ where_params)))
        (and_then (where_sql (build_where uuid) ?plan (length qs)) (\<lambda>(c, where_params).
          Ok (''UPDATE '' @ qualified_table b @ '' SET '' @ join '', '' sets @ c @ returning_sql prf plan, qs @ where_params)))"
      unfolding len by (rule same_text_bind [OF w]) (simp add: same_text_Ok len)
  qed simp
  moreover note build_insert_shape [OF assms(3)]
  ultimately show ?thesis by blast
qed

lemma values_not_in_text_witness:
  "same_text
     (build_delete (\<lambda>_. None) sample_builder default_prefer sample_plan)
     (build_delete (\<lambda>_. None) sample_builder default_prefer (sample_plan\<lparr>plan_filters :=
        [\<lparr>flt_column = ''title'', flt_op = FEq, flt_value = FvString ''x; DROP TABLE docs'', flt_negated = False\<rparr>]\<rparr>))"
proof -
  let ?fs = "[\<lparr>flt_column = ''title'', flt_op = FEq, flt_value = FvString ''x; DROP TABLE docs'', flt_negated = False\<rparr>]"
  have "list_all2 same_shape (plan_filters sample_plan) ?fs"
    by (simp add: sample_plan_def same_shape_def value_shape_def)
  from values_not_in_text [OF this, of "[(''id'', JNull)]" "[(''id'', JBool True)]" "[JObject [(''id'', JNull)]]" "[JObject [(''id'', JBool True)]]"]
  show ?thesis by (simp add: same_keys_def)
qed

section \<open>Statements are read as they are meant\<close>

definition no_dquote :: "string \<Rightarrow> bool" where
  "no_dquote x \<longleftrightarrow> CHR 0x22 \<notin> set x"

definition clean_table :: "sql_builder \<Rightarrow> table_snapshot \<Rightarrow> bool" where
  "clean_table b t \<longleftrightarrow> no_dquote (sb_schema b) \<and> no_dquote (sb_table b) \<and>
     list_all no_dquote (column_names t) \<and> list_all no_dquote (tb_primary_key t)"

definition clean_aliases :: "query_plan \<Rightarrow> bool" where
  "clean_aliases plan \<longleftrightarrow>
     list_all (\<lambda>c. case c of SelAliased alias _ \<Rightarrow> no_dquote alias | _ \<Rightarrow> True) (plan_select plan)"

definition clean_policy :: "query_plan \<Rightarrow> bool" where
  "clean_policy plan \<longleftrightarrow>
     (case plan_policy plan of Some policy \<Rightarrow> reads (''('' @ policy @ '')'') [] | None \<Rightarrow> True)"

lemma reads_quoted: "no_dquote x \<Longrightarrow> reads (dquoted x) []"
  by (simp add: no_dquote_def reads_dquoted)

lemma check_columns_Ok: "check_columns valid names = Ok () \<longleftrightarrow> set names \<subseteq> set valid"
  by (induction names) (auto simp: check_column_def)

lemma validated:
  "validate_columns plan t = Ok () \<longleftrightarrow>
     set (selected_columns plan) \<subseteq> set (column_names t) \<and>
     set (filtered_columns plan) \<subseteq> set (column_names t) \<and>
     set (ordered_columns plan) \<subseteq> set (column_names t)"
  by (auto simp: validate_columns_def and_then_eq_Ok check_columns_Ok)

lemma reads_qualified: "clean_table b t \<Longrightarrow> reads (qualified_table b) []"
  unfolding qualified_table_def clean_table_def
  by (intro reads_append0 reads_quoted reads_plain) (auto simp: plain_char_def ascii_class_defs)

lemma quotable_filters:
  "validate_columns plan t = Ok () \<Longrightarrow> clean_table b t \<Longrightarrow> list_all quotable (plan_filters plan)"
  by (auto simp: validated filtered_columns_def list_all_iff clean_table_def quotable_def no_dquote_def)

lemma reads_where:
  assumes "where_sql (build_where uuid) plan n = Ok (c, ps)" "validate_columns plan t = Ok ()"
    "clean_table b t" "clean_policy plan"
  shows "reads c [n + 1..<n + 1 + length ps]"
  using assms(1,4) quotable_filters [OF assms(2,3)] unfolding where_clause_eqs
  by (intro plain.where_reads) (auto simp: clean_policy_def)

lemma reads_column:
  assumes "validate_columns plan t = Ok ()" "clean_table b t" "clean_aliases plan"
    and "c \<in> set (plan_select plan)" "\<not> is_embed c" "c \<noteq> SelAll"
  shows "reads (column_sql c) []"
proof -
  have src: "no_dquote name" if "source_name c = Some name" for name
  proof -
    have "name \<in> set (selected_columns plan)"
      using assms(4) that by (force simp: selected_columns_def map_filter_def)
    with assms(1,2) show ?thesis by (auto simp: validated clean_table_def list_all_iff)
  qed
  with assms(3-6) show ?thesis
    by (cases c) (auto simp: clean_aliases_def list_all_iff plain_char_def ascii_class_defs
        intro!: reads_append0 reads_quoted reads_Cons)
qed

lemma reads_select:
  assumes "validate_columns plan t = Ok ()" "clean_table b t" "clean_aliases plan"
  shows "reads (build_select_columns (plan_select plan)) []"
proof -
  have "reads ''*'' []" by (rule reads_plain) (simp_all add: plain_char_def ascii_class_defs)
  then show ?thesis
    by (auto simp: build_select_columns_def Let_def list_all_iff list_ex_iff plain_char_def ascii_class_defs
        intro!: reads_join0 reads_column [OF assms])
qed

lemma reads_returning:
  assumes "validate_columns plan t = Ok ()" "clean_table b t" "clean_aliases plan"
  shows "reads (returning_sql prf plan) []"
proof -
  have "reads '' RETURNING '' []" by (rule reads_plain) (simp_all add: plain_char_def ascii_class_defs)
  from reads_append0 [OF this reads_select [OF assms]] show ?thesis by (simp add: returning_sql_def)
qed

lemma reads_order:
  assumes "validate_columns plan t = Ok ()" "clean_table b t"
  shows "reads (order_sql (build_order (plan_order plan)) plan) []"
proof -
  have "reads (order_part (dquoted (ord_column c)) c) []" if "c \<in> set (plan_order plan)" for c
  proof -
    have "no_dquote (ord_column c)"
      using assms that by (auto simp: validated ordered_columns_def clean_table_def list_all_iff)
    moreover have "reads ('' '' @ direction_sql (ord_direction c)) []"
      "reads (case ord_nulls c of Some n \<Rightarrow> '' '' @ nulls_sql n | None \<Rightarrow> []) []"
      by (cases "ord_direction c"; cases "ord_nulls c" rule: option.exhaust;
          (cases "the (ord_nulls c)")?; simp add: plain_char_def ascii_class_defs reads_plain)+
    ultimately show ?thesis
      unfolding order_part_def by (metis append_assoc reads_append0 reads_quoted)
  qed
  then show ?thesis
    by (auto simp: order_sql_def build_order_def list_all_iff plain_char_def ascii_class_defs
        intro!: reads_Cons reads_join0)
qed

lemma reads_limit: "reads (limit_sql p) []"
  by (rule reads_plain) (auto simp: limit_sql_def plain_char_def ascii_class_defs show_nat_plain [unfolded plain_char_def])

section \<open>Whole statements\<close>

lemma select_reads:
  assumes "build_select uuid b plan = Ok (sql, ps)" "validate_columns plan t = Ok ()"
    "clean_table b t" "clean_aliases plan" "clean_policy plan"
  shows "reads sql [1..<1 + length ps]"
proof -
  from assms(1) obtain c where c: "where_sql (build_where uuid) plan 0 = Ok (c, ps)"
    and sql: "sql = ''SELECT '' @ (build_select_columns (plan_select plan) @ '' FROM '' @ qualified_table b) @ c @
      (order_sql (build_order (plan_order plan)) plan @ limit_sql (plan_pagination plan))"
    by (auto simp: build_select_def)
  have "reads (build_select_columns (plan_select plan) @ '' FROM '' @ qualified_table b) []"
    using reads_select [OF assms(2-4)] reads_qualified [OF assms(3)]
    by (auto simp: plain_char_def ascii_class_defs intro!: reads_append0 reads_Cons)
  then have "reads (''SELECT '' @ (build_select_columns (plan_select plan) @ '' FROM '' @ qualified_table b)) []"
    by (auto simp: plain_char_def ascii_class_defs intro!: reads_Cons)
  from reads_append0 [OF this reads_append [OF reads_where [OF c assms(2,3,5)]
        reads_append0 [OF reads_order [OF assms(2,3)] reads_limit]]]
  show ?thesis by (simp add: sql del: upt_Suc)
qed

lemma count_reads:
  assumes "build_count uuid b plan = Ok (sql, ps)" "validate_columns plan t = Ok ()"
    "clean_table b t" "clean_policy plan"
  shows "reads sql [1..<1 + length ps]"
proof -
  from assms(1) obtain c where c: "where_sql (build_where uuid) plan 0 = Ok (c, ps)"
    and sql: "sql = ''SELECT COUNT'' @ (''('' @ ''*'' @ '')'') @ ('' as count FROM '' @ qualified_table b) @ c"
    by (auto simp: build_count_def)
  have star: "reads ''*'' []" and sel: "reads ''SELECT COUNT'' []"
    by (simp_all add: reads_plain plain_char_def ascii_class_defs)
  have from': "reads ('' as count FROM '' @ qualified_table b) []"
    using reads_qualified [OF assms(3)] by (auto simp: plain_char_def ascii_class_defs intro!: reads_Cons)
  show ?thesis unfolding sql
    using reads_append0 [OF sel reads_append0 [OF reads_in_parens [OF star]
          reads_append0 [OF from' reads_where [OF c assms(2,3,4)]]]]
    by (simp del: upt_Suc)
qed

lemma delete_reads:
  assumes "build_delete uuid b prf plan = Ok (sql, ps)" "validate_columns plan t = Ok ()"
    "clean_table b t" "clean_aliases plan" "clean_policy plan"
  shows "reads sql [1..<1 + length ps]"
proof -
  from assms(1) obtain c where c: "where_sql (build_where uuid) plan 0 = Ok (c, ps)"
    and sql: "sql = (''DELETE FROM '' @ qualified_table b) @ c @ returning_sql prf plan"
    by (auto simp: build_delete_def)
  have "reads (''DELETE FROM '' @ qualified_table b) []"
    using reads_qualified [OF assms(3)] by (auto simp: plain_char_def ascii_class_defs intro!: reads_Cons)
  from reads_append0 [OF this reads_append [OF reads_where [OF c assms(2,3,5)] reads_returning [OF assms(2-4)]]]
  show ?thesis by (simp add: sql del: upt_Suc)
qed

lemma update_sets_reads:
  assumes "update_sets uuid t sets ps us = Ok (sets', ps')" "clean_table b t"
    and "list_all2 reads sets nss" "concat nss = [1..<1 + length ps]"
  shows "\<exists>nss'. list_all2 reads sets' nss' \<and> concat nss' = [1..<1 + length ps']"
  using assms(1,3,4)
proof (induction us arbitrary: sets ps nss)
  case (Cons u us)
  obtain col v where u: "u = (col, v)" by (cases u)
  with Cons.prems(1) have col: "col \<in> set (column_names t)" and
    rest: "update_sets uuid t (sets @ [dquoted col @ '' = '' @ placeholder (length ps + 1)])
      (ps @ [json_to_sql_value uuid (Some v)]) us = Ok (sets', ps')"
    by (auto split: if_splits)
  have "reads (dquoted col) []"
    using col assms(2) by (intro reads_quoted) (auto simp: clean_table_def list_all_iff)
  moreover have "reads '' = '' []" by (simp add: reads_plain plain_char_def ascii_class_defs)
  ultimately have "reads (dquoted col @ '' = '' @ placeholder (length ps + 1)) [length ps + 1]"
    by (intro reads_append0 reads_placeholder)
  with Cons.prems(2) have "list_all2 reads (sets @ [dquoted col @ '' = '' @ placeholder (length ps + 1)])
      (nss @ [[length ps + 1]])" by (simp add: list_all2_appendI)
  from Cons.IH [OF rest this] Cons.prems(3) show ?case by simp
qed auto

lemma update_reads:
  assumes "build_update uuid b us t prf plan = Ok (sql, ps)" "validate_columns plan t = Ok ()"
    "clean_table b t" "clean_aliases plan" "clean_policy plan"
  shows "reads sql [1..<1 + length ps]"
proof -
  from assms(1) obtain sets sps c wps where sets: "update_sets uuid t [] [] us = Ok (sets, sps)"
    and c: "where_sql (build_where uuid) plan (length sps) = Ok (c, wps)" and ps: "ps = sps @ wps"
    and sql: "sql = ''UPDATE '' @ (qualified_table b @ '' SET '') @ (join '', '' sets @ c) @ returning_sql prf plan"
    by (auto simp: build_update_def)
  from update_sets_reads [OF sets assms(3), of "[]"] obtain nss
    where "list_all2 reads sets nss" "concat nss = [1..<1 + length sps]" by auto
  with reads_join [of sets nss "'', ''"] have j: "reads (join '', '' sets) [1..<1 + length sps]"
    by (simp add: plain_char_def ascii_class_defs del: upt_Suc)
  have "[1..<1 + length sps] @ [length sps + 1..<length sps + 1 + length wps] = [1..<1 + length ps]"
    using upt_add_eq_append [of 1 "1 + length sps" "length wps"] by (simp add: ps ac_simps del: upt_Suc)
  with reads_append [OF j reads_where [OF c assms(2,3,5)]]
  have jc: "reads (join '', '' sets @ c) [1..<1 + length ps]" by simp
  have upd: "reads ''UPDATE '' []" and set: "reads '' SET '' []"
    by (simp_all add: reads_plain plain_char_def ascii_class_defs)
  show ?thesis unfolding sql
    using reads_append0 [OF upd reads_append0 [OF reads_append0 [OF reads_qualified [OF assms(3)] set]
          reads_append [OF jc reads_returning [OF assms(2-4)]]]]
    by (simp del: upt_Suc)
qed

lemma insert_keys_sub: "insert_keys t cols keys = Ok cols' \<Longrightarrow> set cols \<subseteq> set (column_names t) \<Longrightarrow>
    set cols' \<subseteq> set (column_names t)"
  by (induction t cols keys rule: insert_keys.induct) (auto split: if_splits)

lemma insert_columns_sub: "insert_columns t cols rows = Ok cols' \<Longrightarrow> set cols \<subseteq> set (column_names t) \<Longrightarrow>
    set cols' \<subseteq> set (column_names t)"
proof (induction t cols rows rule: insert_columns.induct)
  case (2 t cols row rows)
  show ?case
  proof (cases row)
    case (JObject obj)
    with 2(7) obtain ks where "insert_keys t cols (map fst obj) = Ok ks" "insert_columns t ks rows = Ok cols'" by auto
    with 2(6) [OF JObject] insert_keys_sub 2(8) show ?thesis by blast
  qed (use 2 in auto)
qed simp

lemma insert_values_reads:
  "insert_values uuid cols n rows = (groups, ps) \<Longrightarrow>
     \<exists>nss. list_all2 reads groups nss \<and> concat nss = [n + 1..<n + 1 + length ps]"
proof (induction rows arbitrary: n groups ps)
  case (Cons row rows)
  show ?case
  proof (cases "\<exists>obj. row = JObject obj")
    case False
    then have "insert_values uuid cols n (row # rows) = insert_values uuid cols n rows" by (cases row) auto
    with Cons show ?thesis by simp
  next
    case True
    then obtain obj where row: "row = JObject obj" ..
    obtain gs qs where rest: "insert_values uuid cols (n + length cols) rows = (gs, qs)" by fastforce
    let ?g = "''('' @ join '', '' (map (\<lambda>i. placeholder (n + i + 1)) [0..<length cols]) @ '')''"
    let ?k = "[n + 1..<n + 1 + length cols]"
    from Cons.prems row rest have groups: "groups = ?g # gs"
      and ps: "ps = map (\<lambda>c. json_to_sql_value uuid (map_of obj c)) cols @ qs" by (auto simp: Let_def)
    from Cons.IH [OF rest] obtain nss where "list_all2 reads gs nss"
      "concat nss = [n + length cols + 1..<n + length cols + 1 + length qs]" by blast
    moreover have "?k @ [n + length cols + 1..<n + length cols + 1 + length qs] = [n + 1..<n + 1 + length ps]"
      using upt_add_eq_append [of "n + 1" "n + 1 + length cols" "length qs"] by (simp add: ps ac_simps del: upt_Suc)
    ultimately show ?thesis
      using reads_in_parens [OF reads_placeholders, of n "length cols"]
      by (intro exI [of _ "?k # nss"]) (simp add: groups del: upt_Suc)
  qed
qed simp

lemma reads_names:
  "list_all no_dquote cols \<Longrightarrow> reads (join '', '' (map dquoted cols)) []"
  by (rule reads_join0) (auto simp: list_all_iff reads_quoted plain_char_def ascii_class_defs)

lemma reads_conflict:
  assumes "clean_table b t" "list_all no_dquote cols"
  shows "reads (conflict_sql t prf cols) []"
proof -
  let ?up = "map (\<lambda>c. dquoted c @ '' = EXCLUDED.'' @ dquoted c) (filter (\<lambda>c. c \<notin> set (tb_primary_key t)) cols)"
  have up: "reads (join '', '' ?up) []"
    using assms(2) by (intro reads_join0)
      (auto simp: list_all_iff plain_char_def ascii_class_defs intro!: reads_append0 reads_quoted reads_Cons)
  have pk: "reads (''('' @ join '', '' (map dquoted (tb_primary_key t)) @ '')'') []"
    using assms(1) by (intro reads_in_parens reads_names) (simp add: clean_table_def)
  have lit: "reads '' ON CONFLICT '' []" "reads '' DO UPDATE SET '' []" "reads '' ON CONFLICT DO NOTHING'' []"
    by (simp_all add: reads_plain plain_char_def ascii_class_defs)
  have "reads ('' ON CONFLICT '' @ (''('' @ join '', '' (map dquoted (tb_primary_key t)) @ '')'') @
      '' DO UPDATE SET '' @ join '', '' ?up) []"
    by (rule reads_append0 [OF lit(1) reads_append0 [OF pk reads_append0 [OF lit(2) up]]])
  with lit(3) show ?thesis by (auto simp: conflict_sql_def Let_def)
qed

lemma insert_reads:
  assumes "build_insert uuid b rows t prf plan = Ok (sql, ps)" "validate_columns plan t = Ok ()"
    "clean_table b t" "clean_aliases plan"
  shows "reads sql [1..<1 + length ps]"
proof -
  from assms(1) obtain cols groups where cols: "insert_columns t [] rows = Ok cols"
    and vals: "insert_values uuid cols 0 rows = (groups, ps)"
    and sql: "sql = ''INSERT INTO '' @ (qualified_table b @ '' '') @ (''('' @ join '', '' (map dquoted cols) @ '')'') @
      '' VALUES '' @ join '', '' groups @ conflict_sql t prf cols @ returning_sql prf plan"
    by (auto simp: build_insert_def Let_def split: if_splits prod.splits)
  from insert_columns_sub [OF cols] assms(3) have names: "list_all no_dquote cols"
    by (auto simp: clean_table_def list_all_iff)
  from insert_values_reads [OF vals] obtain nss
    where "list_all2 reads groups nss" "concat nss = [1..<1 + length ps]" by auto
  with reads_join [of groups nss "'', ''"] have g: "reads (join '', '' groups) [1..<1 + length ps]"
    by (simp add: plain_char_def ascii_class_defs del: upt_Suc)
  have lit: "reads ''INSERT INTO '' []" "reads '' VALUES '' []" "reads '' '' []"
    by (simp_all add: reads_plain plain_char_def ascii_class_defs)
  show ?thesis unfolding sql
    using reads_append0 [OF lit(1) reads_append0 [OF reads_append0 [OF reads_qualified [OF assms(3)] lit(3)]
          reads_append0 [OF reads_in_parens [OF reads_names [OF names]] reads_append0 [OF lit(2)
              reads_append [OF g reads_append0 [OF reads_conflict [OF assms(3) names] reads_returning [OF assms(2-4)]]]]]]]
    by (simp del: upt_Suc)
qed

text \<open>
  A statement whose columns were checked against a table with ordinary names is read as it is
  meant: quotes and parentheses are balanced, no comment or second statement starts, and it refers
  to its bound parameters \<open>$1\<close>, \<open>$2\<close>, ... each once and in the order in which they are bound;
  for each of select, count, insert, update and delete.
\<close>

theorem statements_read:
  assumes "validate_columns plan t = Ok ()" "clean_table b t" "clean_aliases plan" "clean_policy plan"
  shows "(\<forall>sql ps. build_select uuid b plan = Ok (sql, ps) \<or> build_count uuid b plan = Ok (sql, ps) \<or>
      build_insert uuid b rows t prf plan = Ok (sql, ps) \<or> build_update uuid b updates t prf plan = Ok (sql, ps) \<or>
      build_delete uuid b prf plan = Ok (sql, ps) \<longrightarrow> reads sql [1..<1 + length ps])"
proof (intro allI impI, elim disjE)
qed (rule select_reads count_reads insert_reads update_reads delete_reads; (rule assms | assumption))+

lemma statements_read_witness:
  "\<exists>sql. build_delete (\<lambda>_. None) sample_builder default_prefer sample_plan = Ok (sql, [SvText ''a'']) \<and> reads sql [1]"
proof -
  have v: "validate_columns sample_plan sample_table = Ok ()"
    by (simp add: validated sample_plan_def sample_table_def default_plan_def selected_columns_def
        filtered_columns_def ordered_columns_def column_names_def sample_column_def map_filter_def)
  have t: "clean_table sample_builder sample_table"
    by (simp add: clean_table_def sample_builder_def sample_table_def column_names_def sample_column_def no_dquote_def)
  have a: "clean_aliases sample_plan" by (simp add: clean_aliases_def sample_plan_def default_plan_def)
  have "reads ''owner = 1'' []" by (simp add: reads_plain plain_char_def ascii_class_defs)
  from reads_in_parens [OF reads_in_parens [OF this]]
  have p: "clean_policy sample_plan" by (simp add: clean_policy_def sample_plan_def)
  obtain sql where d: "build_delete (\<lambda>_. None) sample_builder default_prefer sample_plan = Ok (sql, [SvText ''a''])"
    by (simp add: build_delete_def sample_plan_def where_sql_def build_where_def where_clause_def
        build_filter_expr_def filter_sql_def Let_def text_param_def)
  with statements_read [OF v t a p] have "reads sql [1..<1 + length [SvText ''a'']]" by blast
  with d show ?thesis by auto
qed

end
