(* ===== verification/Data_Embed_Props.thy ===== *)
theory Data_Embed_Props
  imports Data_Embed Data_Sql_Props
begin

text \<open>
  Embedded resources: every resolved embed follows a foreign key between its parent and its
  table, nesting is bounded by the configured depth, and the aliases of one level are distinct.
\<close>

section \<open>Links and depth\<close>

definition link_ok :: "schema_snapshot \<Rightarrow> table_snapshot \<Rightarrow> embed_link \<Rightarrow> bool" where
  "link_ok schema parent link \<longleftrightarrow>
     (case link of
        (fk, t, ToOne) \<Rightarrow> fk \<in> set (tb_foreign_keys parent) \<and> get_table schema (fk_ref_table fk) = Some t
      | (fk, t, ToMany) \<Rightarrow> fk \<in> set (tb_foreign_keys t) \<and> fk_ref_table fk = tb_name parent \<and> t \<in> snd ` set schema)"

lemma find_back_reference_Some:
  "find_back_reference hint name tables = Some (fk, t, dir) \<Longrightarrow>
     dir = ToMany \<and> fk \<in> set (tb_foreign_keys t) \<and> fk_ref_table fk = name \<and> t \<in> snd ` set tables"
  by (induction hint name tables rule: find_back_reference.induct)
    (auto split: option.splits simp: find_Some_iff)

lemma get_table_mem: "get_table schema name = Some t \<Longrightarrow> t \<in> snd ` set schema"
  by (force simp: get_table_def dest: map_of_SomeD)

lemma candidates_ok: "link \<in> set (embed_candidates name schema parent) \<Longrightarrow> link_ok schema parent link"
  by (auto simp: embed_candidates_def link_ok_def get_table_mem split: if_splits option.splits)

lemma find_fk_ok: "find_fk_for_embed spec schema parent = Ok link \<Longrightarrow> link_ok schema parent link"
proof (cases "embed_hint spec")
  case None
  assume "find_fk_for_embed spec schema parent = Ok link"
  with None have "embed_candidates (embed_name spec) schema parent = [link]"
    by (auto simp: find_fk_for_embed_def split: list.splits)
  then show ?thesis using candidates_ok [of link "embed_name spec" schema parent] by simp
next
  case (Some hint)
  assume "find_fk_for_embed spec schema parent = Ok link"
  with Some show ?thesis
    by (cases link)
      (auto simp: find_fk_for_embed_def find_hinted_fk_def link_ok_def find_Some_iff
        split: option.splits embed_direction.splits dest: find_back_reference_Some)
qed

fun linked :: "schema_snapshot \<Rightarrow> table_snapshot \<Rightarrow> resolved_embed \<Rightarrow> bool" where
  "linked schema parent (ResolvedEmbed spec fk t dir nested a) \<longleftrightarrow>
     link_ok schema parent (fk, t, dir) \<and> list_all (linked schema t) nested"

fun re_depth :: "resolved_embed \<Rightarrow> nat" where
  "re_depth (ResolvedEmbed spec fk t dir nested a) = Suc (fold max (map re_depth nested) 0)"

lemma fold_max_le: "fold max xs (m :: nat) \<le> n \<longleftrightarrow> m \<le> n \<and> (\<forall>x \<in> set xs. x \<le> n)"
  by (induction xs arbitrary: m) auto

lemma resolved_embeds_ok:
  "resolve_embeds schema mx depth parent specs = Ok rs \<Longrightarrow>
     list_all (\<lambda>r. linked schema parent r \<and> re_depth r \<le> mx - depth) rs"
proof (induction schema mx depth parent specs arbitrary: rs rule: resolve_embeds.induct)
  case (1 schema mx depth parent specs)
  let ?one = "\<lambda>(i, spec). resolve_embed (resolve_embeds schema mx (depth + 1)) schema parent (depth * 100 + i) spec"
  let ?xs = "zip [1..<length specs + 1] specs"
  from 1(2) have d: "depth < mx" and all: "list_all2 (\<lambda>x r. ?one x = Ok r) (zip [1..<length specs + 1] specs) rs"
    by (simp_all add: resolve_embeds.simps [of schema mx depth] collect_results_Ok_iff split: if_splits)
  have one: "linked schema parent r \<and> re_depth r \<le> mx - depth" if m: "(i, spec) \<in> set ?xs" and r: "?one (i, spec) = Ok r" for i spec r
  proof -
    from r obtain fk t dir inner where link: "find_fk_for_embed spec schema parent = Ok (fk, t, dir)"
      and inner: "(if filter is_embed (embed_columns spec) = [] then Ok []
        else resolve_embeds schema mx (depth + 1) t (filter is_embed (embed_columns spec))) = Ok inner"
      and rr: "r = ResolvedEmbed spec fk t dir inner (''embed_'' @ embed_name spec @ ''_'' @ show_nat (depth * 100 + i))"
      by (auto simp: resolve_embed_def Let_def simp del: One_nat_def add_Suc_right add_0_right)
    have "list_all (\<lambda>r. linked schema t r \<and> re_depth r \<le> mx - (depth + 1)) inner"
    proof (cases "filter is_embed (embed_columns spec) = []")
      case False
      with inner have "resolve_embeds schema mx (depth + 1) t (filter is_embed (embed_columns spec)) = Ok inner" by simp
      from 1(1) [OF _ m refl this] d show ?thesis by simp
    qed (use inner in simp)
    moreover from this have "fold max (map re_depth inner) 0 \<le> mx - (depth + 1)"
      by (auto simp: list_all_iff fold_max_le)
    ultimately show ?thesis using find_fk_ok [OF link] d by (auto simp: rr list_all_iff)
  qed
  show ?case
  proof (unfold list_all_iff, rule ballI)
    fix r assume "r \<in> set rs"
    then obtain k where k: "k < length rs" "r = rs ! k" by (auto simp: in_set_conv_nth)
    obtain i spec where x: "?xs ! k = (i, spec)" by fastforce
    have "k < length ?xs" using k(1) by (simp only: list_all2_lengthD [OF all])
    with x have "(i, spec) \<in> set ?xs" by (metis nth_mem)
    moreover from list_all2_nthD2 [OF all k(1)] x k(2) have "?one (i, spec) = Ok r" by simp
    ultimately show "linked schema parent r \<and> re_depth r \<le> mx - depth" by (rule one)
  qed
qed

text \<open>
  An embedded resource is only ever joined along a foreign key: each resolved embed, at every
  level, follows a key of its parent to the table the key refers to, or a key of its own table
  back to the parent; and embeds are nested at most \<open>max_depth\<close> deep.
\<close>

theorem embeds_follow_foreign_keys:
  assumes "resolve_embeds schema max_depth 0 parent specs = Ok rs"
  shows "list_all (linked schema parent) rs \<and> list_all (\<lambda>r. re_depth r \<le> max_depth) rs"
  using resolved_embeds_ok [OF assms] by (simp add: list_all_iff)

section \<open>Aliases\<close>

lemma alias_inj:
  assumes "x @ ''_'' @ show_nat m = y @ ''_'' @ show_nat n"
  shows "m = n"
proof -
  have tw: "takeWhile is_ascii_digit (rev (z @ ''_'' @ show_nat k)) = rev (show_nat k)" for z k
    using show_nat_digits [of k] is_ascii_digit_def by (simp add: takeWhile_append list_all_iff)
  have "rev (show_nat m) = rev (show_nat n)" using tw [of x m] tw [of y n] unfolding assms by (rule trans [OF sym])
  then have "show_nat m = show_nat n" by simp
  then show ?thesis by (metis digits_val_show_nat)
qed

text \<open>
  No two joins of a select share an alias: the SQL aliases of the embeds of one level are
  pairwise different.
\<close>

theorem embed_aliases_distinct:
  assumes "resolve_embeds schema max_depth depth parent specs = Ok rs"
  shows "distinct (map re_alias rs)"
proof -
  let ?xs = "zip [1..<length specs + 1] specs"
  have all: "list_all2 (\<lambda>(i, spec) r. re_alias r = (''embed_'' @ embed_name spec) @ ''_'' @ show_nat (depth * 100 + i)) ?xs rs"
    using assms
    by (auto simp: resolve_embeds.simps [of schema max_depth depth] collect_results_Ok_iff resolve_embed_def Let_def
        split: if_splits elim!: list.rel_mono_strong)
  from list_all2_lengthD [OF this] have len: "length rs = length specs" by (simp del: upt_Suc)
  have al: "re_alias (rs ! k) = (''embed_'' @ embed_name (specs ! k)) @ ''_'' @ show_nat (depth * 100 + (k + 1))"
    if "k < length rs" for k
    using list_all2_nthD2 [OF all that] that len by (simp del: upt_Suc)
  show ?thesis
  proof (clarsimp simp: distinct_conv_nth)
    fix i j assume "i < length rs" "j < length rs" "i \<noteq> j" "re_alias (rs ! i) = re_alias (rs ! j)"
    then have "depth * 100 + (i + 1) = depth * 100 + (j + 1)" using alias_inj al by metis
    with \<open>i \<noteq> j\<close> show False by simp
  qed
qed

section \<open>The joined select\<close>

text \<open>The filter conjuncts of the joined select: the comparisons on the base table.\<close>

definition based_conjuncts :: "(string \<Rightarrow> string option) \<Rightarrow> filter_expr list \<Rightarrow> string list \<Rightarrow> bool" where
  "based_conjuncts uuid fs parts \<longleftrightarrow>
     list_all2 (\<lambda>f e. \<exists>n ps. build_filter_expr_aliased uuid ''base'' f n = Ok (e, ps)) fs parts"

text \<open>
  What the decision for a table makes of the lateral join of one of its embeds, as text: a denial is a join that yields no
  row; otherwise the rows of the table whose key is that of the base row, and under a conditional
  decision only those for which its condition, in parentheses, holds.
\<close>

definition lateral_obeys :: "policy_decision \<Rightarrow> resolved_embed \<Rightarrow> string \<Rightarrow> bool" where
  "lateral_obeys d e l \<longleftrightarrow>
     (case d of
        AlwaysDeny reason \<Rightarrow>
          l = ''LEFT JOIN LATERAL (SELECT NULL::jsonb AS data WHERE false) AS '' @ dquoted (re_alias e) @
            '' ON true /* policy denied: '' @ reason @ '' */''
      | _ \<Rightarrow> \<exists>columns fk_col fk_rest ref_col ref_rest.
          fk_columns (re_fk e) = fk_col # fk_rest \<and> fk_ref_columns (re_fk e) = ref_col # ref_rest \<and>
          l = (case re_direction e of
                 ToOne \<Rightarrow> ''LEFT JOIN LATERAL (SELECT jsonb_build_object('' @ columns @ '') AS data''
               | ToMany \<Rightarrow> ''LEFT JOIN LATERAL (SELECT COALESCE(jsonb_agg(jsonb_build_object('' @ columns @ '')), '' @
                   quoted ''[]'' @ ''::jsonb) AS data'') @
            '' FROM '' @ dquoted (tb_schema (re_table e)) @ ''.'' @ dquoted (tb_name (re_table e)) @
            '' WHERE '' @ dquoted (tb_schema (re_table e)) @ ''.'' @ dquoted (tb_name (re_table e)) @ ''.'' @
              dquoted (case re_direction e of ToOne \<Rightarrow> ref_col | ToMany \<Rightarrow> fk_col) @ '' = '' @
              dquoted ''base'' @ ''.'' @ dquoted (case re_direction e of ToOne \<Rightarrow> fk_col | ToMany \<Rightarrow> ref_col) @
            (case d of Conditional policy \<Rightarrow> '' AND ('' @ policy @ '')'' | _ \<Rightarrow> '''') @
            (case re_direction e of ToOne \<Rightarrow> '' LIMIT 1'' | ToMany \<Rightarrow> '''') @
            '') AS '' @ dquoted (re_alias e) @ '' ON true'')"

lemma join_condition_Ok:
  assumes "join_condition e parent = Ok c"
  obtains fk_col fk_rest ref_col ref_rest where
    "fk_columns (re_fk e) = fk_col # fk_rest" "fk_ref_columns (re_fk e) = ref_col # ref_rest"
    "c = dquoted (tb_schema (re_table e)) @ ''.'' @ dquoted (tb_name (re_table e)) @ ''.'' @
       dquoted (case re_direction e of ToOne \<Rightarrow> ref_col | ToMany \<Rightarrow> fk_col) @ '' = '' @
       dquoted parent @ ''.'' @ dquoted (case re_direction e of ToOne \<Rightarrow> fk_col | ToMany \<Rightarrow> ref_col)"
  using assms
  by (auto simp: join_condition_def first_or_panic_def Let_def and_then_eq_Ok split: list.splits embed_direction.splits)

lemma build_embed_lateral_obeys:
  assumes "build_embed_lateral uuid load ctx e ''base'' = Ok l"
  shows "\<exists>d. compile_for_scope uuid load ctx (tb_name (re_table e)) ScSelect = Ok d \<and> lateral_obeys d e l"
proof -
  from assms obtain d where d: "compile_for_scope uuid load ctx (tb_name (re_table e)) ScSelect = Ok d"
    by (auto simp: build_embed_lateral_def)
  have "lateral_obeys d e l"
  proof (cases "\<exists>reason. d = AlwaysDeny reason")
    case True
    with assms d show ?thesis by (auto simp: build_embed_lateral_def lateral_obeys_def lateral_denied_def)
  next
    case False
    with assms d obtain c where c: "join_condition e ''base'' = Ok c"
      and l: "l = lateral_sql e (c @ (case d of Conditional policy \<Rightarrow> '' AND ('' @ policy @ '')'' | _ \<Rightarrow> ''''))"
      by (cases d) (auto simp: build_embed_lateral_def)
    obtain fk_col fk_rest ref_col ref_rest where
      "fk_columns (re_fk e) = fk_col # fk_rest" "fk_ref_columns (re_fk e) = ref_col # ref_rest" and
      cond: "c = dquoted (tb_schema (re_table e)) @ ''.'' @ dquoted (tb_name (re_table e)) @ ''.'' @
       dquoted (case re_direction e of ToOne \<Rightarrow> ref_col | ToMany \<Rightarrow> fk_col) @ '' = '' @
       dquoted ''base'' @ ''.'' @ dquoted (case re_direction e of ToOne \<Rightarrow> fk_col | ToMany \<Rightarrow> ref_col)"
      by (rule join_condition_Ok [OF c])
    then show ?thesis
      using False unfolding l lateral_sql_def cond Let_def lateral_obeys_def
      by (cases d; cases "re_direction e") (auto intro!: exI [of _ "build_embed_columns_json (embed_columns (re_spec e))"])
  qed
  with d show ?thesis by blast
qed


section \<open>Witnesses\<close>

definition sample_fk :: foreign_key where
  "sample_fk = \<lparr>fk_name = ''fk_author'', fk_columns = [''owner''], fk_ref_table = ''users'',
     fk_ref_columns = [''id''], fk_on_delete = ''CASCADE''\<rparr>"

definition sample_users :: table_snapshot where
  "sample_users = \<lparr>tb_schema = ''public'', tb_name = ''users'',
     tb_columns = map sample_column [''id'', ''name''], tb_primary_key = [''id''],
     tb_foreign_keys = [], tb_indexes = []\<rparr>"

definition sample_docs :: table_snapshot where
  "sample_docs = sample_table\<lparr>tb_foreign_keys := [sample_fk]\<rparr>"

definition sample_schema :: schema_snapshot where
  "sample_schema = [(''docs'', sample_docs), (''users'', sample_users)]"

definition sample_embed :: select_column where
  "sample_embed = SelEmbed ''users'' None [SelColumn ''name'', SelEmbed ''docs'' None [SelColumn ''id''] None] (Some ''by'')"

definition sample_resolved :: "resolved_embed list" where
  "sample_resolved =
     [ResolvedEmbed sample_embed sample_fk sample_users ToOne
       [ResolvedEmbed (SelEmbed ''docs'' None [SelColumn ''id''] None) sample_fk sample_docs ToMany [] ''embed_docs_101'']
       ''embed_users_1'']"

lemma sample_resolves: "resolve_embeds sample_schema 2 0 sample_docs [sample_embed] = Ok sample_resolved"
  by code_simp

lemma embeds_follow_foreign_keys_witness: "list_all (linked sample_schema sample_docs) sample_resolved"
  using embeds_follow_foreign_keys [OF sample_resolves] by simp

lemma embed_aliases_distinct_witness: "distinct (map re_alias sample_resolved) \<and> length sample_resolved = 1"
  using embed_aliases_distinct [OF sample_resolves] by (simp add: sample_resolved_def)

definition sample_claims :: claims where
  "sample_claims = \<lparr>cl_sub = ''user_7'', cl_iss = ''reactor-auth'', cl_aud = ''reactor'', cl_exp = 0, cl_iat = 0,
     cl_nbf = None, cl_email = None, cl_amr = [], cl_orgs = [], cl_default_org = None,
     cl_session_id = None, cl_scopes = [], cl_mfa_at = None\<rparr>"

definition sample_data_ctx :: data_ctx where
  "sample_data_ctx = \<lparr>dc_auth = \<lparr>ax_claims = sample_claims, ax_active_org = None, ax_permissions = [''data:read'']\<rparr>,
     dc_request_id = ''r1'', dc_schema = ''public''\<rparr>"

definition sample_load :: policy_loader where
  "sample_load schema table = Ok [\<lparr>sp_name = ''own'', sp_scopes = [ScSelect, ScInsert, ScUpdate, ScDelete],
     sp_using = Some (BinaryOp (Column ''id'') OpEq (AuthBuiltinCall ''user_id'' [])),
     sp_check = Some (BinaryOp (Column ''owner'') OpEq (AuthBuiltinCall ''user_id'' []))\<rparr>]"

lemma sample_select_builds:
  "\<exists>sql ps. build_select_with_embeds Some sample_load sample_data_ctx sample_builder sample_plan sample_resolved = Ok (sql, ps)"
proof -
  have "case build_select_with_embeds Some sample_load sample_data_ctx sample_builder sample_plan sample_resolved of
      Ok _ \<Rightarrow> True | _ \<Rightarrow> False"
    by code_simp
  then show ?thesis by (auto split: result.splits)
qed


end
