(* ===== verification/Data_Execute_Props.thy ===== *)
theory Data_Execute_Props
  imports Data_Execute Data_Embed_Props
begin

text \<open>
  What a request does to the database: it changes nothing unless it succeeds, a mutation commits
  together with its audit event and only under its policy; and what the code does not do.
\<close>

section \<open>Calculus\<close>

definition quiet :: "('w, 'a) db \<Rightarrow> bool" where
  "quiet m \<longleftrightarrow> (\<forall>w. snd (m w) = w)"

definition atomic :: "('w, 'a) db \<Rightarrow> bool" where
  "atomic m \<longleftrightarrow> (\<forall>w. (\<exists>a. fst (m w) = Ok a) \<or> snd (m w) = w)"

named_theorems db_intros \<open>which computations leave the state alone unless they succeed\<close>

lemma quiet_lift [db_intros]: "quiet (db_lift r)"
  by (simp add: quiet_def db_lift_def)

lemma quiet_read [db_intros]: "quiet (db_read f)"
  by (simp add: quiet_def db_read_def)

lemma quiet_bind [db_intros]: "quiet m \<Longrightarrow> (\<And>a. quiet (f a)) \<Longrightarrow> quiet (db_bind m f)"
  unfolding quiet_def db_bind_def by (auto split: prod.split result.split) (metis snd_conv)+

lemma quiet_atomic: "quiet m \<Longrightarrow> atomic m"
  by (simp add: quiet_def atomic_def)

lemma atomic_lift [db_intros]: "atomic (db_lift r)"
  by (rule quiet_atomic [OF quiet_lift])

lemma atomic_case_prod [db_intros]: "(\<And>x y. atomic (f x y)) \<Longrightarrow> atomic (case p of (x, y) \<Rightarrow> f x y)"
  by (cases p) simp

lemma atomic_if [db_intros]: "atomic m \<Longrightarrow> atomic m' \<Longrightarrow> atomic (if b then m else m')"
  by simp

lemma atomic_bind [db_intros]: "quiet m \<Longrightarrow> (\<And>a. atomic (f a)) \<Longrightarrow> atomic (db_bind m f)"
  unfolding quiet_def atomic_def db_bind_def
  by (auto split: prod.split result.split) (metis snd_conv fst_conv)+

lemma atomic_then_Ok: "atomic m \<Longrightarrow> atomic (db_bind m (\<lambda>a. db_lift (Ok (g a))))"
  unfolding atomic_def db_bind_def db_lift_def
  by (auto split: prod.split result.split) (metis fst_conv snd_conv result.distinct)+

lemma atomic_tx [db_intros]: "atomic (in_tx st body)"
  by (auto simp: atomic_def in_tx_def split: result.split)

lemma db_bind_Ok:
  "db_bind m f w = (Ok b, w') \<longleftrightarrow> (\<exists>a w1. m w = (Ok a, w1) \<and> f a w1 = (Ok b, w'))"
  by (cases "m w"; cases "fst (m w)") (auto simp: db_bind_def)

lemma db_lift_Ok: "db_lift r w = (Ok a, w') \<longleftrightarrow> r = Ok a \<and> w' = w"
  by (auto simp: db_lift_def)

lemma db_read_Ok: "db_read f w = (Ok a, w') \<longleftrightarrow> f w = Ok a \<and> w' = w"
  by (auto simp: db_read_def)

lemma in_tx_Ok:
  "in_tx st body w = (Ok a, w') \<longleftrightarrow>
     (\<exists>tx tx'. ds_begin st w = Ok tx \<and> body tx = Ok (a, tx') \<and> ds_commit st tx' = Ok w')"
  by (auto simp: in_tx_def and_then_eq_Ok split: result.split_asm)

lemmas db_Ok = db_bind_Ok db_lift_Ok db_read_Ok in_tx_Ok

section \<open>All or nothing\<close>

lemma quiet_lookup [db_intros]: "quiet (lookup_table st ctx table)"
  unfolding lookup_table_def by (intro db_intros)

lemma atomic_audited [db_intros]: "atomic (audited uuid st ctx ty table prf sql params)"
  unfolding audited_def by (rule atomic_tx)

lemma atomic_executes [db_intros]:
  "atomic (execute_select uuid config st ctx table plan)"
  "atomic (execute_insert uuid st ctx table body prf plan)"
  "atomic (execute_update uuid st ctx table body prf plan)"
  "atomic (execute_delete uuid st ctx table prf plan)"
  unfolding execute_select_def execute_insert_def execute_update_def execute_delete_def
  by (intro db_intros)+

text \<open>
  C31. A request either succeeds or changes nothing: whatever the database answers, a GET, POST,
  PATCH or DELETE that does not return a response (an error, or a panic) leaves the database as it
  was, where a commit that fails is one that changed nothing.
\<close>

theorem requests_all_or_nothing:
  "atomic (handle_get uuid config st ctx table params hs) \<and>
   atomic (handle_post uuid config st ctx table params hs body) \<and>
   atomic (handle_patch uuid config st ctx table params hs body) \<and>
   atomic (handle_delete uuid config st ctx table params hs)"
  unfolding handle_get_def handle_post_def handle_patch_def handle_delete_def
  by (intro conjI atomic_bind quiet_lift atomic_then_Ok atomic_executes)

section \<open>Mutations are audited and guarded\<close>

text \<open>
  What the database saw of a mutation that took \<open>w\<close> to \<open>w'\<close>, call by call: a transaction begins, the statement runs in
  it (with its rows fetched if the client wants them back, else counted), then the insert of the audit event, with
  the caller, the request, the table and the number of rows, and the transaction is committed.
\<close>

definition ran_audited ::
  "(string \<Rightarrow> string option) \<Rightarrow> 'w data_store \<Rightarrow> data_ctx \<Rightarrow> string \<Rightarrow> string \<Rightarrow> prefer_header \<Rightarrow>
   string \<Rightarrow> sql_param list \<Rightarrow> query_result \<Rightarrow> 'w \<Rightarrow> 'w \<Rightarrow> bool" where
  "ran_audited uuid st ctx event table prf sql ps r w w' \<longleftrightarrow>
     (\<exists>tx tx1 tx2 affected n.
        ds_begin st w = Ok tx \<and>
        (if prf_return prf = Representation
         then ds_fetch_rows st sql ps tx = Ok (qr_rows r, tx1) \<and> affected = length (qr_rows r)
         else ds_execute_raw st sql ps tx = Ok (affected, tx1) \<and> qr_rows r = []) \<and>
        qr_affected_rows r = Some affected \<and>
        ds_execute_raw st
          ''INSERT INTO _reactor_data.audit_events (id, actor_user_id, actor_apikey_id, org_id, request_id, event_type, table_name, row_count, details) VALUES ($1, $2, $3, $4, $5, $6, $7, $8, $9)''
          [SvUuid (ds_new_id st tx1),
           (case data_user_id uuid ctx of Some u \<Rightarrow> SvUuid u | None \<Rightarrow> SvNullUuid),
           (case (if is_apikey (ax_claims (dc_auth ctx)) then Option.bind (strip_prefix ''apikey:'' (cl_sub (ax_claims (dc_auth ctx)))) uuid else None) of
              Some k \<Rightarrow> SvUuid k | None \<Rightarrow> SvNullUuid),
           (case data_org_id ctx of Some g \<Rightarrow> SvUuid g | None \<Rightarrow> SvNullUuid),
           SvText (dc_request_id ctx), SvText event, SvText table, SvInt (as_i32 affected), SvJson (JObject [])] tx1 = Ok (n, tx2) \<and>
        ds_commit st tx2 = Ok w')"

lemma run_statement_Ok:
  assumes "run_statement st prf sql ps tx = Ok (r, tx1)"
  obtains affected where "qr_affected_rows r = Some affected"
    "if prf_return prf = Representation
     then ds_fetch_rows st sql ps tx = Ok (qr_rows r, tx1) \<and> affected = length (qr_rows r)
     else ds_execute_raw st sql ps tx = Ok (affected, tx1) \<and> qr_rows r = []"
  using assms by (cases "prf_return prf = Representation") (auto simp: run_statement_def and_then_eq_Ok)

lemma audited_Ok:
  assumes "audited uuid st ctx ty table prf sql ps w = (Ok r, w')"
  shows "ran_audited uuid st ctx (audit_type_str ty) table prf sql ps r w w'"
proof -
  from assms obtain tx tx1 tx2 where tx: "ds_begin st w = Ok tx" "run_statement st prf sql ps tx = Ok (r, tx1)"
    "write_audit_event st (mutation_event uuid (ds_new_id st tx1) ctx ty table r) tx1 = Ok tx2" "ds_commit st tx2 = Ok w'"
    unfolding audited_def in_tx_Ok by (force simp: and_then_eq_Ok)
  obtain affected where affected: "qr_affected_rows r = Some affected"
    "if prf_return prf = Representation
     then ds_fetch_rows st sql ps tx = Ok (qr_rows r, tx1) \<and> affected = length (qr_rows r)
     else ds_execute_raw st sql ps tx = Ok (affected, tx1) \<and> qr_rows r = []"
    by (rule run_statement_Ok [OF tx(2)])
  from tx(3) obtain n where
    "ds_execute_raw st audit_sql (audit_params (mutation_event uuid (ds_new_id st tx1) ctx ty table r)) tx1 = Ok (n, tx2)"
    by (auto simp: write_audit_event_def and_then_eq_Ok)
  then show ?thesis
    unfolding ran_audited_def using tx(1,4) affected
    by (intro exI [of _ tx] exI [of _ tx1] exI [of _ tx2] exI [of _ affected] exI [of _ n])
      (simp add: audit_sql_def audit_params_def mutation_event_def audit_event_new_def uuid_or_null_def Let_def)
qed

lemma lookup_table_Ok:
  "lookup_table st ctx table w = (Ok (snapshot, t), w') \<longleftrightarrow>
     ds_introspect st w (dc_schema ctx) = Ok snapshot \<and> get_table snapshot table = Some t \<and> w' = w"
  by (auto simp: lookup_table_def db_Ok and_then_eq_Ok)

lemma apply_decision_Ok:
  "apply_decision d plan = Ok plan' \<longleftrightarrow>
     (d = AlwaysAllow \<and> plan' = plan) \<or> (\<exists>p. d = Conditional p \<and> plan' = plan\<lparr>plan_policy := Some p\<rparr>)"
  by (cases d) (auto simp: apply_decision_def)

lemma execute_delete_Ok:
  assumes "execute_delete uuid st ctx table prf plan w = (Ok r, w')"
  shows "\<exists>d plan' sql ps. compile_for_scope uuid (ds_policies st w) ctx table ScDelete = Ok d \<and>
    apply_decision d plan = Ok plan' \<and> build_delete uuid (builder_for ctx table) prf plan' = Ok (sql, ps) \<and>
    ran_audited uuid st ctx ''rows.delete'' table prf sql ps r w w'"
  using assms unfolding execute_delete_def
  by (fastforce simp: db_bind_Ok db_lift_Ok db_read_Ok lookup_table_Ok dest: audited_Ok)

lemma execute_update_Ok:
  assumes "execute_update uuid st ctx table (JObject updates) prf plan w = (Ok r, w')" "updates \<noteq> []"
  shows "\<exists>t d plan' sql ps. compile_for_scope uuid (ds_policies st w) ctx table ScUpdate = Ok d \<and>
    apply_decision d plan = Ok plan' \<and> build_update uuid (builder_for ctx table) updates t prf plan' = Ok (sql, ps) \<and>
    ran_audited uuid st ctx ''rows.update'' table prf sql ps r w w'"
  using assms unfolding execute_update_def
  by (fastforce simp: db_bind_Ok db_lift_Ok db_read_Ok lookup_table_Ok dest: audited_Ok)

text \<open>
  C5. A delete that succeeds under a conditional policy, and an update of at least one column that does, made the
  database run exactly this: one transaction with a \<open>DELETE FROM\<close> or \<open>UPDATE\<close> of the table whose \<open>WHERE\<close>
  clause ends with the policy's condition in parentheses, and after it the insert of an audit event that
  names the user, the API key, the organization, the request, the table and the number of rows; the commit of both is the new
  state. An update of no column (an empty body) succeeds without a statement and without an event.
\<close>

theorem mutations_guarded_and_audited:
  assumes "compile_for_scope uuid (ds_policies st w) ctx table scope = Ok (Conditional policy)"
    and "(scope = ScDelete \<and> execute_delete uuid st ctx table prf plan w = (Ok r, w')) \<or>
      (scope = ScUpdate \<and> updates \<noteq> [] \<and> execute_update uuid st ctx table (JObject updates) prf plan w = (Ok r, w'))"
  shows "\<exists>before sets sql ps.
    before = (if scope = ScDelete then ''DELETE FROM '' @ dquoted (dc_schema ctx) @ ''.'' @ dquoted table
       else ''UPDATE '' @ dquoted (dc_schema ctx) @ ''.'' @ dquoted table @ '' SET '' @ join '', '' sets) \<and>
    guarded uuid (plan\<lparr>plan_policy := Some policy\<rparr>) policy before sql \<and>
    ran_audited uuid st ctx (if scope = ScDelete then ''rows.delete'' else ''rows.update'') table prf sql ps r w w'"
  using assms(2)
proof (elim disjE conjE)
  assume d: "scope = ScDelete" and x: "execute_delete uuid st ctx table prf plan w = (Ok r, w')"
  from execute_delete_Ok [OF x] assms(1) d obtain sql ps where
    b: "build_delete uuid (builder_for ctx table) prf (plan\<lparr>plan_policy := Some policy\<rparr>) = Ok (sql, ps)" and
    run: "ran_audited uuid st ctx ''rows.delete'' table prf sql ps r w w'"
    by (auto simp: apply_decision_Ok)
  from delete_guarded [OF _ b] run d show ?thesis by (auto simp: qualified_table_def builder_for_def)
next
  assume u: "scope = ScUpdate" "updates \<noteq> []"
    and x: "execute_update uuid st ctx table (JObject updates) prf plan w = (Ok r, w')"
  from execute_update_Ok [OF x u(2)] assms(1) u obtain t sql ps where
    b: "build_update uuid (builder_for ctx table) updates t prf (plan\<lparr>plan_policy := Some policy\<rparr>) = Ok (sql, ps)" and
    run: "ran_audited uuid st ctx ''rows.update'' table prf sql ps r w w'"
    by (auto simp: apply_decision_Ok)
  from update_guarded [OF _ b, of policy] run u show ?thesis by (auto simp: qualified_table_def builder_for_def)
qed

section \<open>Checks of new rows\<close>

text \<open>A comparison: every binary operator but the connectives.\<close>

definition comparison :: "policy_expr \<Rightarrow> bool" where
  "comparison e \<longleftrightarrow> (\<exists>l op r. e = BinaryOp l op r \<and> op \<noteq> OpAnd \<and> op \<noteq> OpOr)"

lemma comparison_residual: "comparison e \<Longrightarrow> \<exists>s. evaluate_with_row e ctx row = Residual s"
  by (auto simp: comparison_def eval_binary_op_def combine_sql_def)

lemma comparisons_pass:
  "\<forall>p \<in> set ps. \<forall>e. sp_check p = Some e \<longrightarrow> comparison e \<Longrightarrow> check_loop_row ctx row ps"
proof (induction ps)
  case (Cons p ps)
  show ?case
  proof (cases "sp_check p")
    case (Some e)
    with Cons.prems comparison_residual [of e ctx row] obtain s where "evaluate_with_row e ctx row = Residual s" by auto
    with Some Cons show ?thesis by simp
  qed (use Cons in simp)
qed simp

lemma check_batch_all:
  "(\<And>row. row \<in> set rows \<Longrightarrow> check row = Ok True) \<Longrightarrow>
     \<exists>b. check_batch_loop check idx acc rows = Ok b \<and> bc_denied b = bc_denied acc"
proof (induction rows arbitrary: idx acc)
  case (Cons row rows)
  let ?acc = "acc\<lparr>bc_allowed_indices := bc_allowed_indices acc @ [idx]\<rparr>"
  from Cons obtain b where "check_batch_loop check (Suc idx) ?acc rows = Ok b" "bc_denied b = bc_denied ?acc"
    by (metis list.set_intros(2))
  with Cons.prems show ?case by simp
qed simp

text \<open>
  The \<open>CHECK\<close> of an insert is not enforced where it compares: if every check of the table's
  insert policies is a comparison (such as \<open>owner = auth.user_id()\<close>), then whatever rows are
  inserted by whomever, the check of the rows denies none of them, and the insert goes on to a
  statement that carries no condition.
\<close>

theorem comparison_checks_never_deny:
  assumes "get_for_scope load (dc_schema ctx) table ScInsert = Ok policies"
    and "\<forall>p \<in> set policies. \<forall>e. sp_check p = Some e \<longrightarrow> comparison e"
  shows "check_insert uuid load ctx table rows (Conditional sql) = Ok ()"
proof -
  have "check_row uuid load ctx table ScInsert row = Ok True" for row
    using assms by (auto simp: check_row_def Let_def intro!: comparisons_pass)
  from check_batch_all [of rows, OF this] obtain b
    where "check_rows_batch uuid load ctx table ScInsert rows = Ok b" "bc_denied b = []"
    unfolding check_rows_batch_def by fastforce
  then show ?thesis by (simp add: check_insert_def)
qed

lemma comparison_checks_never_deny_witness:
  "check_insert Some sample_load sample_data_ctx ''docs'' [JObject [(''owner'', JString ''somebody else'')]] (Conditional ''x'') = Ok ()"
proof -
  obtain ps where "get_for_scope sample_load (dc_schema sample_data_ctx) ''docs'' ScInsert = Ok ps"
    "\<forall>p \<in> set ps. \<forall>e. sp_check p = Some e \<longrightarrow> comparison e"
    by (simp add: get_for_scope_def sample_load_def comparison_def)
  then show ?thesis by (rule comparison_checks_never_deny)
qed

section \<open>A store that logs its statements\<close>

definition log_store :: "policy_loader \<Rightarrow> ((string \<times> sql_param list) list) data_store" where
  "log_store load =
     \<lparr>ds_introspect = (\<lambda>w _. Ok sample_schema), ds_policies = (\<lambda>w. load), ds_begin = Ok,
      ds_fetch_rows = (\<lambda>sql ps w. Ok ([], w @ [(sql, ps)])),
      ds_execute_raw = (\<lambda>sql ps w. Ok (1, w @ [(sql, ps)])), ds_commit = Ok, ds_new_id = (\<lambda>_. ''id'')\<rparr>"

lemma mutations_guarded_and_audited_witness:
  "\<exists>policy sql ps r w'.
     guarded Some (default_plan\<lparr>plan_policy := Some policy\<rparr>) policy (''DELETE FROM '' @ dquoted ''public'' @ ''.'' @ dquoted ''docs'') sql \<and>
     ran_audited Some (log_store sample_load) sample_data_ctx ''rows.delete'' ''docs'' default_prefer sql ps r [] w'"
proof -
  have "case compile_for_scope Some (ds_policies (log_store sample_load) []) sample_data_ctx ''docs'' ScDelete of
      Ok (Conditional _) \<Rightarrow> True | _ \<Rightarrow> False" by code_simp
  then obtain policy where c: "compile_for_scope Some (ds_policies (log_store sample_load) []) sample_data_ctx ''docs''
      ScDelete = Ok (Conditional policy)" by (auto split: result.splits policy_decision.splits)
  have "case execute_delete Some (log_store sample_load) sample_data_ctx ''docs'' default_prefer default_plan [] of
      (Ok _, _) \<Rightarrow> True | _ \<Rightarrow> False" by code_simp
  then obtain r w' where
    "execute_delete Some (log_store sample_load) sample_data_ctx ''docs'' default_prefer default_plan [] = (Ok r, w')"
    by (auto split: prod.splits result.splits)
  with mutations_guarded_and_audited [OF c] have "\<exists>sql ps.
     guarded Some (default_plan\<lparr>plan_policy := Some policy\<rparr>) policy
       (''DELETE FROM '' @ dquoted (dc_schema sample_data_ctx) @ ''.'' @ dquoted ''docs'') sql \<and>
     ran_audited Some (log_store sample_load) sample_data_ctx ''rows.delete'' ''docs'' default_prefer sql ps r [] w'" by fastforce
  moreover have "dc_schema sample_data_ctx = ''public''" by (simp add: sample_data_ctx_def)
  ultimately show ?thesis by metis
qed

section \<open>Column names are not checked on delete\<close>

definition evil_column :: string where
  "evil_column = ''id'' @ [CHR 0x22] @ '' IS NOT NULL OR TRUE --''"

definition evil_prefix :: "string \<Rightarrow> string \<Rightarrow> string" where
  "evil_prefix schema table = ''DELETE FROM '' @ dquoted schema @ ''.'' @ dquoted table @ '' WHERE '' @ dquoted evil_column"

lemma evil_prefix_comment:
  assumes "no_dquote schema" "no_dquote table"
  shows "lex_text (Plain 0 NoMark) (evil_prefix schema table) = Broken"
proof -
  have d: "lex_text (Plain 0 NoMark) (dquoted x @ t) = lex_text (Plain 0 NoMark) t" if "no_dquote x" for x t
    using that by (simp add: dquoted_def no_dquote_def lex_in_name)
  have del: "lex_text (Plain 0 NoMark) (''DELETE FROM '' @ t) = lex_text (Plain 0 NoMark) t" for t
    by (simp add: is_ascii_digit_def)
  show ?thesis unfolding evil_prefix_def del d [OF assms(1)]
    using assms(2) by (simp add: d) (simp add: dquoted_def evil_column_def lex_in_name is_ascii_digit_def)
qed

text \<open>
  C36. A delete can be made to ignore its policy: a request with the parameter
  \<open>id" IS NOT NULL OR TRUE --\<close> set to \<open>is.null\<close> runs, on a table with a conditional policy, a
  statement in which a comment begins before the policy's condition is reached, since the names of
  filter columns are neither checked against the table nor quoted.
\<close>

theorem delete_filter_injection:
  assumes "no_dquote (dc_schema ctx)" "no_dquote table"
    and "ds_introspect st w (dc_schema ctx) = Ok snapshot" "get_table snapshot table = Some t"
    and "compile_for_scope uuid (ds_policies st w) ctx table ScDelete = Ok (Conditional policy)"
  shows "lex_text (Plain 0 NoMark) (evil_prefix (dc_schema ctx) table) = Broken \<and>
    handle_delete uuid config st ctx table [(evil_column, ''is.null'')] (\<lambda>_. None) w =
      db_bind (audited uuid st ctx RowsDelete table default_prefer
          (evil_prefix (dc_schema ctx) table @ '' IS NULL AND ('' @ policy @ '')'') [])
        (\<lambda>r. db_lift (Ok (mutation_response 200 204 default_prefer r))) w"
proof
  show "lex_text (Plain 0 NoMark) (evil_prefix (dc_schema ctx) table) = Broken"
    by (rule evil_prefix_comment [OF assms(1,2)])
  let ?f = "\<lparr>flt_column = evil_column, flt_op = FIs, flt_value = FvNull, flt_negated = False\<rparr>"
  have f: "parse_filter evil_column ''is.null'' = Ok ?f"
    by (simp add: parse_filter_def strip_prefix_def starts_with_def filter_op_parse_def Let_def to_lowercase_ascii
        ascii_lower_def ascii_class_defs)
  have k: "is_filter_param evil_column" "evil_column \<noteq> ''select''" "evil_column \<noteq> ''order''"
    "evil_column \<noteq> ''limit''" "evil_column \<noteq> ''offset''"
    by (simp_all add: is_filter_param_def evil_column_def)
  obtain plan where plan: "parse_query [(evil_column, ''is.null'')] (\<lambda>_. None) config = Ok plan"
    "plan_filters plan = [?f]"
    using f k by (simp add: parse_query_def parse_pagination_def parse_range_header_def)
  have b: "build_delete uuid (builder_for ctx table) default_prefer (plan\<lparr>plan_policy := Some policy\<rparr>) =
      Ok (evil_prefix (dc_schema ctx) table @ '' IS NULL AND ('' @ policy @ '')'', [])"
    by (simp add: build_delete_def where_sql_def build_where_def where_clause_def build_filter_expr_def filter_sql_def
        plan evil_prefix_def builder_for_def qualified_table_def returning_sql_def default_prefer_def)
  have l: "lookup_table st ctx table w = (Ok (snapshot, t), w)" using assms(3,4) by (simp add: lookup_table_Ok)
  show "handle_delete uuid config st ctx table [(evil_column, ''is.null'')] (\<lambda>_. None) w =
      db_bind (audited uuid st ctx RowsDelete table default_prefer
          (evil_prefix (dc_schema ctx) table @ '' IS NULL AND ('' @ policy @ '')'') [])
        (\<lambda>r. db_lift (Ok (mutation_response 200 204 default_prefer r))) w"
    unfolding handle_delete_def execute_delete_def
    by (simp add: db_bind_def [of "db_lift _"] db_bind_def [of "db_read _"] db_bind_def [of "lookup_table _ _ _"]
        db_bind_def [of "db_bind _ _"] db_lift_def db_read_def l plan prefer_of_def assms(5) apply_decision_def b
        db_bind_def [of "audited _ _ _ _ _ _ _ _"])
qed

lemma delete_filter_injection_witness:
  "\<exists>policy. fst (handle_delete Some \<lparr>cfg_max_limit = 1000, cfg_default_limit = 100, cfg_max_embed_depth = 5\<rparr>
     (log_store sample_load) sample_data_ctx ''docs'' [(evil_column, ''is.null'')] (\<lambda>_. None) []) =
       fst (db_bind (audited Some (log_store sample_load) sample_data_ctx RowsDelete ''docs'' default_prefer
          (evil_prefix ''public'' ''docs'' @ '' IS NULL AND ('' @ policy @ '')'') [])
        (\<lambda>r. db_lift (Ok (mutation_response 200 204 default_prefer r))) [])"
proof -
  have "case compile_for_scope Some (ds_policies (log_store sample_load) []) sample_data_ctx ''docs'' ScDelete of
      Ok (Conditional _) \<Rightarrow> True | _ \<Rightarrow> False" by code_simp
  then obtain policy where c: "compile_for_scope Some (ds_policies (log_store sample_load) []) sample_data_ctx ''docs''
      ScDelete = Ok (Conditional policy)" by (auto split: result.splits policy_decision.splits)
  have s: "dc_schema sample_data_ctx = ''public''" by (simp add: sample_data_ctx_def)
  have n: "no_dquote (dc_schema sample_data_ctx)" "no_dquote ''docs''" by (simp_all add: s no_dquote_def)
  have i: "ds_introspect (log_store sample_load) [] (dc_schema sample_data_ctx) = Ok sample_schema"
    by (simp add: log_store_def)
  have t: "get_table sample_schema ''docs'' = Some sample_docs" by (simp add: get_table_def sample_schema_def)
  from delete_filter_injection [OF n i t c] show ?thesis unfolding s by metis
qed

section \<open>Inserts overwrite without the update policy\<close>

definition insert_only_load :: policy_loader where
  "insert_only_load schema table = Ok
     [\<lparr>sp_name = ''add'', sp_scopes = [ScInsert], sp_using = Some (Literal (LitBool True)), sp_check = None\<rparr>,
      \<lparr>sp_name = ''frozen'', sp_scopes = [ScUpdate], sp_using = Some (Literal (LitBool False)), sp_check = None\<rparr>]"

definition upsert_text :: string where
  "upsert_text = ''INSERT INTO '' @ dquoted ''public'' @ ''.'' @ dquoted ''docs'' @ '' ('' @ dquoted ''id'' @ '', '' @
     dquoted ''title'' @ '') VALUES ($1, $2) ON CONFLICT ('' @ dquoted ''id'' @ '') DO UPDATE SET '' @
     dquoted ''title'' @ '' = EXCLUDED.'' @ dquoted ''title''"

text \<open>
  A POST can overwrite rows that the update policy protects: on a table whose policies let
  everyone insert and no one update, a PATCH is refused with the policy's denial and runs nothing,
  while a POST without a \<open>Prefer\<close> header runs \<open>INSERT ... ON CONFLICT (id) DO UPDATE SET ...\<close>.
\<close>

theorem post_overwrites_protected_rows:
  "execute_update Some (log_store insert_only_load) sample_data_ctx ''docs''
     (JObject [(''title'', JString ''new'')]) default_prefer default_plan [] =
     (Err (PolicyDenied ''no matching policy''), []) \<and>
   (\<exists>r audit. execute_insert Some (log_store insert_only_load) sample_data_ctx ''docs''
     (JObject [(''id'', JString ''1''), (''title'', JString ''new'')]) default_prefer default_plan [] =
     (Ok r, [(upsert_text, [SvUuid ''1'', SvUuid ''new'']), audit]))"
proof
  show "execute_update Some (log_store insert_only_load) sample_data_ctx ''docs''
     (JObject [(''title'', JString ''new'')]) default_prefer default_plan [] =
     (Err (PolicyDenied ''no matching policy''), [])" by code_simp
  have "case execute_insert Some (log_store insert_only_load) sample_data_ctx ''docs''
     (JObject [(''id'', JString ''1''), (''title'', JString ''new'')]) default_prefer default_plan [] of
     (Ok r, log) \<Rightarrow> length log = 2 \<and> fst (log ! 0) = upsert_text \<and> snd (log ! 0) = [SvUuid ''1'', SvUuid ''new'']
   | _ \<Rightarrow> False" by code_simp
  then show "\<exists>r audit. execute_insert Some (log_store insert_only_load) sample_data_ctx ''docs''
     (JObject [(''id'', JString ''1''), (''title'', JString ''new'')]) default_prefer default_plan [] =
     (Ok r, [(upsert_text, [SvUuid ''1'', SvUuid ''new'']), audit])"
    by (auto split: prod.splits result.splits simp: length_Suc_conv numeral_2_eq_2)
qed

end
