(* ===== verification/Policy_Statement.thy ===== *)
theory Policy_Statement
  imports Data_Execute_Props
begin

text \<open>
  From the policy language to the statement: the condition compiled from parsed policies can be
  placed in a statement without changing how its quotes, parentheses and parameters are read.
\<close>

section \<open>Text without references\<close>

definition closed :: "string \<Rightarrow> bool" where
  "closed t \<longleftrightarrow> (\<forall>d. lex_text (Plain d NoMark) t = Plain d NoMark \<and> param_refs (Plain d NoMark) t = [])"

definition inert :: "string \<Rightarrow> bool" where
  "inert t \<longleftrightarrow> sealed t \<and> (\<forall>d m. m \<noteq> AfterDollar \<longrightarrow> param_refs (Plain d m) t = [])"

lemma refs_skip: "param_refs l s = [] \<Longrightarrow> param_refs l (s @ t) = param_refs (lex_text l s) t"
  by (induction s arbitrary: l) (auto split: lex.splits if_splits)

lemma inert_refs: "inert t \<Longrightarrow> m \<noteq> AfterDollar \<Longrightarrow> param_refs (Plain d m) (t @ u) = param_refs (Plain d NoMark) u"
  by (simp add: inert_def refs_skip lex_sealed0)

lemma inert_refs0: "inert t \<Longrightarrow> m \<noteq> AfterDollar \<Longrightarrow> param_refs (Plain d m) t = []"
  by (simp add: inert_def)

lemma inert_closed: "inert t \<Longrightarrow> closed t"
  by (simp add: inert_def closed_def lex_sealed0)

lemma closed_append: "closed s \<Longrightarrow> closed t \<Longrightarrow> closed (s @ t)"
  by (simp add: closed_def lex_text_append refs_skip)

lemma closed_plain: "list_all plain_char t \<Longrightarrow> closed t"
  by (auto simp: closed_def lex_plain list_all_iff plain_char_def intro!: param_refs_no_dollar)

lemma closed_parens: "closed t \<Longrightarrow> closed (''('' @ t @ '')'')"
  by (simp add: closed_def lex_text_append refs_skip)

lemma closed_join: "list_all closed ts \<Longrightarrow> list_all plain_char sep \<Longrightarrow> closed (join sep ts)"
  by (induction ts) (auto simp: join_Cons closed_append closed_plain)

lemma inert_no_dollar: "sealed t \<Longrightarrow> CHR ''$'' \<notin> set t \<Longrightarrow> inert t"
  by (simp add: inert_def param_refs_no_dollar)

section \<open>The residual of a parsed policy\<close>

lemma param_refs_text: "CHR 0x27 \<notin> set x \<Longrightarrow> param_refs (InText d) (x @ t) = param_refs (InText d) t"
  by (induction x) auto

lemma param_refs_escaped: "param_refs (InText d) (escape_quotes s @ t) = param_refs (InText d) t"
  unfolding escape_quotes_def by (induction s) simp_all

lemma refs_name: "CHR 0x22 \<notin> set x \<Longrightarrow> m \<noteq> AfterDollar \<Longrightarrow> param_refs (Plain d m) (dquoted x) = []"
  by (simp add: dquoted_def param_refs_name)

lemma inert_name: "CHR 0x22 \<notin> set x \<Longrightarrow> inert (dquoted x)"
  by (simp add: inert_def sealed_dquoted refs_name)

lemma inert_string: "inert (squoted (escape_quotes s))"
  by (simp add: inert_def sealed_escaped) (simp add: squoted_def param_refs_escaped)

lemma plain_no_dollar: "list_all plain_char t \<Longrightarrow> CHR ''$'' \<notin> set t"
  by (auto simp: list_all_iff plain_char_def)

lemma inert_literal: "parsed_literal l \<Longrightarrow> inert (render_literal l)"
proof (cases l)
  case (LitString s)
  then show ?thesis by (simp add: inert_string)
next
  case (LitInt n)
  assume "parsed_literal l"
  with LitInt show ?thesis
    by (intro inert_no_dollar sealed_literal plain_no_dollar) (auto simp: show_int_def)
next
  case (LitFloat f)
  assume "parsed_literal l"
  with LitFloat show_f64_plain [of f] show ?thesis
    by (intro inert_no_dollar sealed_literal plain_no_dollar) auto
qed (auto intro!: inert_no_dollar sealed_plain simp: plain_char_def)

lemma refs_op: "param_refs (Plain d NoMark) (binary_op_as_sql op) = []"
  by (cases op) simp_all

lemma inertI:
  "sealed t \<Longrightarrow> (\<And>d m. m \<noteq> AfterDollar \<Longrightarrow> param_refs (Plain d m) t = []) \<Longrightarrow> inert t"
  by (simp add: inert_def)

lemma inert_render: "sealed_term s \<Longrightarrow> inert (render s)"
proof (induction s)
  case (SQCol t c)
  then have "param_refs (Plain d NoMark) (dquoted c) = []" for d
    by (simp add: refs_name ident_no_quote)
  with SQCol have "param_refs (Plain d m) (render (SQCol t c)) = []" if "m \<noteq> AfterDollar" for d m
    using that inert_refs [OF inert_name [OF ident_no_quote [of t]], of m d "''.'' @ dquoted c"] by simp
  with sealed_render [OF SQCol] show ?case by (rule inertI)
next
  case (SBin l op r)
  have "param_refs (Plain d m) (render (SBin l op r)) = []" if "m \<noteq> AfterDollar" for d m
    using SBin that by (simp add: inert_refs refs_skip refs_op lex_op)
  with sealed_render [OF SBin.prems] show ?case by (rule inertI)
next
  case (SNot s)
  have "param_refs (Plain d m) (render (SNot s)) = []" if "m \<noteq> AfterDollar" for d m
    using SNot that by (simp add: inert_refs)
  with sealed_render [OF SNot.prems] show ?case by (rule inertI)
next
  case (SMinus s)
  have "param_refs (Plain d m) (render (SMinus s)) = []" if "m \<noteq> AfterDollar" for d m
    using SMinus that by (simp add: inert_refs)
  with sealed_render [OF SMinus.prems] show ?case by (rule inertI)
next
  case (SIsNull s neg)
  have "param_refs (Plain d m) (render (SIsNull s neg)) = []" if "m \<noteq> AfterDollar" for d m
    using SIsNull that by (simp add: inert_refs)
  with sealed_render [OF SIsNull.prems] show ?case by (rule inertI)
next
  case (SIn s ss neg)
  have c: "closed (join '', '' (map render ss))"
    using SIn by (intro closed_join) (auto simp: list_all_iff inert_closed plain_char_def)
  have "param_refs (Plain d m) (render (SIn s ss neg)) = []" if "m \<noteq> AfterDollar" for d m
    using SIn c [unfolded closed_def] that by (simp add: inert_refs refs_skip)
  with sealed_render [OF SIn.prems] show ?case by (rule inertI)
next
  case (SDom d n)
  have "CHR ''$'' \<notin> set (render (SDom d n))"
    using SDom ident_plain [of d] ident_plain [of n] by (auto simp: list_all_iff plain_char_def)
  with sealed_render [OF SDom] show ?case by (rule inert_no_dollar)
next
  case (SText s)
  have "param_refs (Plain d m) (render (SText s)) = []" if "m \<noteq> AfterDollar" for d m
    using SText that by (simp add: squoted_def param_refs_text)
  with sealed_render [OF SText] show ?case by (rule inertI)
next
  case (STruth b)
  with sealed_render [OF STruth] show ?case by (intro inert_no_dollar) auto
next
  case SLowFalse
  with sealed_render [of SLowFalse] show ?case by (intro inert_no_dollar) auto
qed (simp_all add: inert_name ident_no_quote inert_literal)

section \<open>The compiled condition\<close>

text \<open>Policies that came from the parser, with no negated constant for this identity.\<close>

definition from_source :: "policy_ctx \<Rightarrow> policy_expr \<Rightarrow> bool" where
  "from_source ctx e \<longleftrightarrow> (\<exists>src. parse_policy_expr src = Ok e) \<and> minus_ok ctx e"

lemma inert_evaluate:
  assumes "plain_ids ctx" "from_source ctx e" "evaluate e ctx = Residual t"
  shows "inert t"
proof -
  obtain src where "parse_policy_expr src = Ok e" "minus_ok ctx e" using assms(2) by (auto simp: from_source_def)
  with sealed_evaluate [OF assms(1)] parse_policy_expr_parsed
  have "sealed_term (result_tree (evaluate_sql e ctx))" by blast
  with assms(3) inert_render show ?thesis by (cases "evaluate_sql e ctx") (auto simp: evaluate_render)
qed

lemma closed_combine:
  "list_all closed ts \<Longrightarrow> list_all plain_char sep \<Longrightarrow> closed (combine_residuals sep ts)"
  using closed_parens [OF closed_join [of ts sep]]
  by (cases ts rule: rev_cases) (auto simp: combine_residuals_def)

lemma closed_residuals:
  assumes "plain_ids ctx" "list_all (from_source ctx) es"
  shows "list_all closed (residuals_of (map (\<lambda>e. evaluate e ctx) es))"
  using assms(2)
proof (induction es)
  case (Cons e es)
  then show ?case
    using inert_evaluate [OF assms(1), of e] by (cases "evaluate e ctx") (auto simp: inert_closed)
qed simp

fun closed_decision :: "policy_decision \<Rightarrow> bool" where
  "closed_decision (Conditional t) \<longleftrightarrow> closed t"
| "closed_decision _ \<longleftrightarrow> True"

lemma closed_combine_decisions:
  "closed_decision d \<Longrightarrow> closed_decision d' \<Longrightarrow> closed_decision (combine_decisions d d')"
proof (cases d; cases d')
  fix s t
  assume *: "closed_decision d" "closed_decision d'" "d = Conditional s" "d' = Conditional t"
  then have "closed (''('' @ (s @ '' AND '' @ t) @ '')'')"
    by (intro closed_parens closed_append) (auto simp: plain_char_def intro: closed_plain)
  with * show ?thesis by simp
qed auto

lemma closed_using:
  assumes "plain_ids ctx" "list_all (from_source ctx) (using_exprs ps)"
  shows "closed_decision (compile_using_policies ps ctx)"
  using closed_combine [OF closed_residuals [OF assms], of "'' OR ''"]
  unfolding compile_using_eq Let_def by (auto simp: plain_char_def)

lemma closed_check:
  assumes "plain_ids ctx" "list_all (from_source ctx) (check_exprs ps)"
  shows "closed_decision (compile_check_policies ps ctx)"
proof -
  obtain reason where "compile_check_policies ps ctx =
     (let rs = map (\<lambda>e. evaluate e ctx) (check_exprs ps) in
      if Const False \<in> set rs then AlwaysDeny reason
      else if residuals_of rs = [] then AlwaysAllow
      else Conditional (combine_residuals '' AND '' (residuals_of rs)))"
    using compile_check_eq [of ps ctx] by blast
  with closed_combine [OF closed_residuals [OF assms], of "'' AND ''"] show ?thesis
    by (auto simp: Let_def plain_char_def)
qed

lemma closed_compile:
  assumes "plain_ids ctx" "list_all (from_source ctx) (using_exprs ps)" "list_all (from_source ctx) (check_exprs ps)"
  shows "closed_decision (compile_policies ps ctx bypass)"
  unfolding compile_policies_eq
  using closed_using [of ctx "filter (\<lambda>p. using_expr p \<noteq> None) ps"] closed_check [of ctx "filter (\<lambda>p. check_expr p \<noteq> None) ps"] assms
  by (auto intro!: closed_combine_decisions)

section \<open>The stored policies of a table\<close>

definition stored_from_source :: "policy_ctx \<Rightarrow> stored_policy list \<Rightarrow> bool" where
  "stored_from_source ctx ps \<longleftrightarrow>
     list_all (\<lambda>p. pred_option (from_source ctx) (sp_using p) \<and> pred_option (from_source ctx) (sp_check p)) ps"

lemma stored_exprs:
  assumes "stored_from_source ctx ps"
  shows "list_all (from_source ctx) (using_exprs (map to_compiled (filter Q ps))) \<and>
    list_all (from_source ctx) (check_exprs (map to_compiled (filter Q ps)))"
  using assms unfolding stored_from_source_def
  by (induction ps) (auto simp: to_compiled_def split: option.splits)

lemma closed_scope:
  assumes "load (dc_schema ctx) table = Ok ps" "stored_from_source (data_policy_ctx uuid ctx) ps"
    "plain_ids (data_policy_ctx uuid ctx)" "compile_for_scope uuid load ctx table scope = Ok d"
  shows "closed_decision d"
proof -
  let ?qs = "map to_compiled (filter (\<lambda>p. scope \<in> set (sp_scopes p)) ps)"
  have "closed_decision (compile_policies ?qs (data_policy_ctx uuid ctx) False)"
    using stored_exprs [OF assms(2)] by (intro closed_compile [OF assms(3)]) auto
  with assms(1,4) show ?thesis
    by (auto simp: compile_for_scope_def get_for_scope_def split: if_splits)
qed

lemma reads_closed: "closed t \<Longrightarrow> reads (''('' @ t @ '')'') []"
  by (rule reads_parens) (simp add: closed_def)

lemma closed_clean_policy:
  "apply_decision d plan = Ok plan' \<Longrightarrow> plan_policy plan = None \<Longrightarrow> closed_decision d \<Longrightarrow> clean_policy plan'"
  using reads_closed by (auto simp: apply_decision_Ok clean_policy_def)

text \<open>A decision changes nothing of a plan but its policy.\<close>

lemma apply_decision_checks:
  assumes "apply_decision d plan = Ok plan'"
  shows "validate_columns plan' t = validate_columns plan t \<and> clean_aliases plan' = clean_aliases plan"
  using assms by (auto simp: apply_decision_Ok validate_columns_def selected_columns_def
      filtered_columns_def ordered_columns_def clean_aliases_def)

section \<open>Properties\<close>

text \<open>The statements that look at or change existing rows under a plan.\<close>

definition row_statement ::
  "(string \<Rightarrow> string option) \<Rightarrow> sql_builder \<Rightarrow> table_snapshot \<Rightarrow> query_plan \<Rightarrow> string \<Rightarrow> sql_param list \<Rightarrow> bool" where
  "row_statement uuid b t plan sql args \<longleftrightarrow>
     build_select uuid b plan = Ok (sql, args) \<or> build_count uuid b plan = Ok (sql, args) \<or>
     (\<exists>prf. build_delete uuid b prf plan = Ok (sql, args)) \<or>
     (\<exists>prf updates. build_update uuid b updates t prf plan = Ok (sql, args))"

lemma row_statement_reads:
  assumes "row_statement uuid b t plan sql args" "validate_columns plan t = Ok ()"
    "clean_table b t" "clean_aliases plan" "clean_policy plan"
  shows "reads sql [1..<1 + length args]"
  using assms(1) unfolding row_statement_def
proof (elim disjE exE)
qed (rule select_reads count_reads delete_reads update_reads; (rule assms | assumption))+

lemma row_statement_guarded:
  assumes "row_statement uuid b t plan sql args" "plan_policy plan = Some policy"
  shows "\<exists>before. guarded uuid plan policy before sql"
  using assms(1) unfolding row_statement_def
  by (elim disjE exE) (blast dest: select_guarded [OF assms(2)] count_guarded [OF assms(2)]
      delete_guarded [OF assms(2)] update_guarded [OF assms(2)])+

lemma compile_for_scope_means:
  assumes "load (dc_schema ctx) table = Ok ps" "compile_for_scope uuid load ctx table scope = Ok (Conditional policy)"
    and "typed_db (data_policy_ctx uuid ctx) db"
    and "policies_say role (data_policy_ctx uuid ctx) db
      (using_exprs (map to_compiled (filter (\<lambda>p. scope \<in> set (sp_scopes p)) ps))) us"
    and "policies_say role (data_policy_ctx uuid ctx) db
      (check_exprs (map to_compiled (filter (\<lambda>p. scope \<in> set (sp_scopes p)) ps))) cs"
  shows "\<exists>c. policy = render_cond c \<and> cond_val db c = Some (all3 [if us = [] then VBool True else any3 us, all3 cs])"
proof -
  let ?qs = "map to_compiled (filter (\<lambda>p. scope \<in> set (sp_scopes p)) ps)"
  have "compile_policies ?qs (data_policy_ctx uuid ctx) False = Conditional policy"
    using assms(1,2) by (auto simp: compile_for_scope_def get_for_scope_def split: if_splits)
  with decision_means_of [OF assms(3-5), of False] show ?thesis by simp
qed


section \<open>Witness\<close>

definition bare_plan :: query_plan where
  "bare_plan = sample_plan\<lparr>plan_policy := None\<rparr>"

lemma sample_sources:
  "stored_from_source (data_policy_ctx Some sample_data_ctx)
     [\<lparr>sp_name = ''own'', sp_scopes = [ScSelect, ScInsert, ScUpdate, ScDelete],
       sp_using = Some (BinaryOp (Column ''id'') OpEq (AuthBuiltinCall ''user_id'' [])),
       sp_check = Some (BinaryOp (Column ''owner'') OpEq (AuthBuiltinCall ''user_id'' []))\<rparr>]"
proof -
  have "parse_policy_expr ''id = auth.user_id()'' = Ok (BinaryOp (Column ''id'') OpEq (AuthBuiltinCall ''user_id'' []))"
    "parse_policy_expr ''owner = auth.user_id()'' = Ok (BinaryOp (Column ''owner'') OpEq (AuthBuiltinCall ''user_id'' []))"
    by code_simp+
  then show ?thesis by (auto simp: stored_from_source_def from_source_def)
qed


end
