(* ===== verification/Computation.thy ===== *)
theory Computation
  imports Prelude
begin

text \<open>
  Computations over a state: an async handler of the code as a function from the state it finds to its
  outcome and the state it leaves, sequenced by \<open>?\<close>; and the contract of a relation between states that
  a computation keeps, whatever its outcome.
\<close>

type_synonym ('s, 'a, 'e) comp = "'s \<Rightarrow> ('a, 'e) result \<times> 's"

definition ret :: "'a \<Rightarrow> ('s, 'a, 'e) comp" where
  "ret a w = (Ok a, w)"

definition lift :: "('a, 'e) result \<Rightarrow> ('s, 'a, 'e) comp" where
  "lift r w = (r, w)"

definition bind :: "('s, 'a, 'e) comp \<Rightarrow> ('a \<Rightarrow> ('s, 'b, 'e) comp) \<Rightarrow> ('s, 'b, 'e) comp" where
  "bind m f w =
     (case m w of (Ok a, w') \<Rightarrow> f a w' | (Err e, w') \<Rightarrow> (Err e, w') | (Panic, w') \<Rightarrow> (Panic, w')
      | (Diverge, w') \<Rightarrow> (Diverge, w'))"

text \<open>An error that is logged and dropped.\<close>

definition ignore_error :: "('s, 'a, 'e) comp \<Rightarrow> ('s, unit, 'f) comp" where
  "ignore_error m w = (case m w of (Ok _, w') \<Rightarrow> (Ok (), w') | (Err _, w') \<Rightarrow> (Ok (), w')
     | (Panic, w') \<Rightarrow> (Panic, w') | (Diverge, w') \<Rightarrow> (Diverge, w'))"

definition map_error :: "('e \<Rightarrow> 'f) \<Rightarrow> ('s, 'a, 'e) comp \<Rightarrow> ('s, 'a, 'f) comp" where
  "map_error f m w = (case m w of (r, w') \<Rightarrow> (map_err f r, w'))"

text \<open>A result that is inspected instead of passed on.\<close>

definition attempt :: "('s, 'a, 'e) comp \<Rightarrow> ('s, 'a + 'e, 'f) comp" where
  "attempt m w = (case m w of (Ok a, w') \<Rightarrow> (Ok (Inl a), w') | (Err e, w') \<Rightarrow> (Ok (Inr e), w')
     | (Panic, w') \<Rightarrow> (Panic, w') | (Diverge, w') \<Rightarrow> (Diverge, w'))"

text \<open>A \<open>for\<close> loop whose body may end the whole function.\<close>

fun for_each :: "('a \<Rightarrow> ('s, unit, 'e) comp) \<Rightarrow> 'a list \<Rightarrow> ('s, unit, 'e) comp" where
  "for_each f [] = ret ()"
| "for_each f (x # xs) = bind (f x) (\<lambda>_. for_each f xs)"

section \<open>Outcomes\<close>

lemma bind_Ok:
  "bind m f w = (Ok b, w'') \<longleftrightarrow> (\<exists>a w'. m w = (Ok a, w') \<and> f a w' = (Ok b, w''))"
  by (auto simp: bind_def split: prod.splits result.splits)

lemma bind_OkE:
  assumes "bind m f w = (Ok b, w'')"
  obtains a w' where "m w = (Ok a, w')" "f a w' = (Ok b, w'')"
  using assms by (auto simp: bind_Ok)

lemma bind_Err:
  "bind m f w = (Err e, w'') \<longleftrightarrow> m w = (Err e, w'') \<or> (\<exists>a w'. m w = (Ok a, w') \<and> f a w' = (Err e, w''))"
  by (auto simp: bind_def split: prod.splits result.splits)

lemma ret_lift [simp]: "ret a w = (Ok a, w)" "lift r w = (r, w)"
  by (simp_all add: ret_def lift_def)

section \<open>Weakest preconditions\<close>

text \<open>
  \<open>wp m Q E w\<close>: from \<open>w\<close> the computation ends in a state with \<open>Q\<close> of its value, or in one with \<open>E\<close>
  when it yields none.
\<close>

definition wp :: "('s, 'a, 'e) comp \<Rightarrow> ('a \<Rightarrow> 's \<Rightarrow> bool) \<Rightarrow> ('s \<Rightarrow> bool) \<Rightarrow> 's \<Rightarrow> bool" where
  "wp m Q E w = (case m w of (Ok a, w') \<Rightarrow> Q a w' | (Err e, w') \<Rightarrow> E w' | (Panic, w') \<Rightarrow> E w' | (Diverge, w') \<Rightarrow> E w')"

lemma wp_bind: "wp (bind m f) Q E w = wp m (\<lambda>a. wp (f a) Q E) E w"
  by (auto simp: wp_def bind_def split: prod.splits result.splits)

lemma wp_ret: "wp (ret a) Q E w = Q a w"
  by (simp add: wp_def)

lemma wp_lift: "wp (lift r) Q E w = (case r of Ok a \<Rightarrow> Q a w | _ \<Rightarrow> E w)"
  by (simp add: wp_def split: result.splits)

lemma wp_attempt: "wp (attempt m) Q E w \<longleftrightarrow>
   (case m w of (Ok a, w') \<Rightarrow> Q (Inl a) w' | (Err e, w') \<Rightarrow> Q (Inr e) w' | (Panic, w') \<Rightarrow> E w' | (Diverge, w') \<Rightarrow> E w')"
  by (auto simp: wp_def attempt_def split: prod.splits result.splits)

lemma wp_mono:
  "wp m Q E w \<Longrightarrow> (\<And>a w'. Q a w' \<Longrightarrow> Q' a w') \<Longrightarrow> (\<And>w'. E w' \<Longrightarrow> E' w') \<Longrightarrow> wp m Q' E' w"
  by (auto simp: wp_def split: prod.splits result.splits)

lemma wp_attemptI:
  "wp m (\<lambda>a. Q (Inl a)) (\<lambda>w'. E w' \<and> (\<forall>e. Q (Inr e) w')) w \<Longrightarrow> wp (attempt m) Q E w"
  by (auto simp: wp_def attempt_def split: prod.splits result.splits)

lemma wp_ignoreI: "wp m (\<lambda>_ w'. E w' \<and> Q () w') (\<lambda>w'. E w' \<and> Q () w') w \<Longrightarrow> wp (ignore_error m) Q E w"
  by (auto simp: wp_def ignore_error_def split: prod.splits result.splits)

lemma wp_for_each:
  assumes "\<And>x w. x \<in> set xs \<Longrightarrow> I w \<Longrightarrow> wp (f x) (\<lambda>_. I) I w" and "I w"
  shows "wp (for_each f xs) (\<lambda>_. I) I w"
  using assms
proof (induction xs arbitrary: w)
  case Nil
  then show ?case by (simp add: wp_def)
next
  case (Cons x xs)
  have "wp (f x) (\<lambda>_. I) I w" using Cons.prems by simp
  then show ?case
    unfolding for_each.simps wp_bind by (rule wp_mono) (use Cons in auto)
qed

lemma wp_result: "wp m Q E w \<Longrightarrow> m w = (Ok a, w') \<Longrightarrow> Q a w'"
  by (simp add: wp_def)

lemma wp_snd: "wp m (\<lambda>_. I) I w = I (snd (m w))"
  by (auto simp: wp_def split: prod.splits result.splits)

section \<open>Invariants\<close>

text \<open>
  \<open>inv I m Q\<close>: from a state with \<open>I\<close> the computation ends in one, and a value it yields has \<open>Q\<close>, which
  carries what was read to the computations that follow.
\<close>

definition inv :: "('s \<Rightarrow> bool) \<Rightarrow> ('s, 'a, 'e) comp \<Rightarrow> ('a \<Rightarrow> bool) \<Rightarrow> bool" where
  "inv I m Q \<longleftrightarrow> (\<forall>w. I w \<longrightarrow> wp m (\<lambda>a w'. I w' \<and> Q a) I w)"

lemma inv_bind: "inv I m Q \<Longrightarrow> (\<And>a. Q a \<Longrightarrow> inv I (f a) R) \<Longrightarrow> inv I (bind m f) R"
  unfolding inv_def wp_bind by (blast intro: wp_mono)

lemma inv_weaken: "inv I m Q \<Longrightarrow> (\<And>a. Q a \<Longrightarrow> R a) \<Longrightarrow> inv I m R"
  unfolding inv_def by (blast intro: wp_mono)

lemma inv_True: "inv I m Q \<Longrightarrow> inv I m (\<lambda>_. True)"
  by (rule inv_weaken) simp_all

lemma inv_ret: "Q a \<Longrightarrow> inv I (ret a) Q"
  by (simp add: inv_def wp_ret)

lemma inv_lift: "(\<And>a. r = Ok a \<Longrightarrow> Q a) \<Longrightarrow> inv I (lift r) Q"
  by (simp add: inv_def wp_lift split: result.splits)

lemma inv_bind_lift: "(\<And>a. r = Ok a \<Longrightarrow> inv I (f a) R) \<Longrightarrow> inv I (bind (lift r) f) R"
  by (rule inv_bind [OF inv_lift])

lemma inv_attempt: "inv I m Q \<Longrightarrow> inv I (attempt m) (\<lambda>v. \<forall>a. v = Inl a \<longrightarrow> Q a)"
  unfolding inv_def by (blast intro: wp_attemptI wp_mono)

lemma inv_map_error: "inv I m Q \<Longrightarrow> inv I (map_error f m) Q"
proof -
  have "wp (map_error f m) P E w = wp m P E w" for P E w
    by (cases "m w"; cases "fst (m w)") (simp_all add: wp_def map_error_def)
  then show "inv I m Q \<Longrightarrow> inv I (map_error f m) Q" by (simp add: inv_def)
qed

lemma inv_ignore: "inv I m Q \<Longrightarrow> inv I (ignore_error m) (\<lambda>_. True)"
  unfolding inv_def by (blast intro: wp_ignoreI wp_mono)

lemma inv_if: "(b \<Longrightarrow> inv I m Q) \<Longrightarrow> (\<not> b \<Longrightarrow> inv I m' Q) \<Longrightarrow> inv I (if b then m else m') Q"
  by simp

lemma inv_option: "(v = None \<Longrightarrow> inv I m Q) \<Longrightarrow> (\<And>x. v = Some x \<Longrightarrow> inv I (f x) Q) \<Longrightarrow>
    inv I (case v of None \<Rightarrow> m | Some x \<Rightarrow> f x) Q"
  by (cases v) auto

lemma inv_list: "(v = [] \<Longrightarrow> inv I m Q) \<Longrightarrow> (\<And>x xs. v = x # xs \<Longrightarrow> inv I (f x xs) Q) \<Longrightarrow>
    inv I (case v of [] \<Rightarrow> m | x # xs \<Rightarrow> f x xs) Q"
  by (cases v) auto

lemma inv_sum: "(\<And>x. v = Inl x \<Longrightarrow> inv I (f x) Q) \<Longrightarrow> (\<And>y. v = Inr y \<Longrightarrow> inv I (g y) Q) \<Longrightarrow>
    inv I (case v of Inl x \<Rightarrow> f x | Inr y \<Rightarrow> g y) Q"
  by (cases v) auto

lemma inv_prod: "(\<And>x y. v = (x, y) \<Longrightarrow> inv I (f x y) Q) \<Longrightarrow> inv I (case v of (x, y) \<Rightarrow> f x y) Q"
  by (cases v) auto

lemma inv_for_each: "(\<And>x. x \<in> set xs \<Longrightarrow> inv I (f x) (\<lambda>_. True)) \<Longrightarrow> inv I (for_each f xs) (\<lambda>_. True)"
  by (induction xs) (auto intro: inv_bind inv_ret)

lemmas inv_control = inv_lift inv_ignore inv_if inv_option inv_list inv_sum inv_prod inv_for_each

lemma inv_at: "inv I m Q \<Longrightarrow> I w \<Longrightarrow> I (snd (m w))"
  unfolding inv_def wp_snd [symmetric] by (blast intro: wp_mono)

section \<open>What a computation keeps\<close>

text \<open>\<open>S\<close> relates a state to a later one; computations made of parts that keep it keep it.\<close>

locale stays =
  fixes S :: "'s \<Rightarrow> 's \<Rightarrow> bool"
  assumes S_refl: "S w w"
    and S_trans: "S w1 w2 \<Longrightarrow> S w2 w3 \<Longrightarrow> S w1 w3"
begin

definition keeps :: "('s, 'a, 'e) comp \<Rightarrow> bool" where
  "keeps m \<longleftrightarrow> (\<forall>w. S w (snd (m w)))"

lemma keeps_simple: "keeps (ret a)" "keeps (lift r)"
  by (simp_all add: keeps_def S_refl)

lemma keeps_bind: "keeps m \<Longrightarrow> (\<And>a. keeps (f a)) \<Longrightarrow> keeps (bind m f)"
  unfolding keeps_def bind_def
  by (auto split: prod.splits result.splits) (metis snd_conv S_trans)+

lemma keeps_ignore: "keeps m \<Longrightarrow> keeps (ignore_error m)"
  unfolding keeps_def ignore_error_def by (auto split: prod.splits result.splits) (metis snd_conv)+

lemma keeps_map_error: "keeps m \<Longrightarrow> keeps (map_error f m)"
  unfolding keeps_def map_error_def by (auto split: prod.splits) (metis snd_conv)+

lemma keeps_attempt: "keeps m \<Longrightarrow> keeps (attempt m)"
  unfolding keeps_def attempt_def by (auto split: prod.splits result.splits) (metis snd_conv)+

lemma keeps_if: "(b \<Longrightarrow> keeps m) \<Longrightarrow> (\<not> b \<Longrightarrow> keeps m') \<Longrightarrow> keeps (if b then m else m')"
  by simp

lemma keeps_option: "(keeps m) \<Longrightarrow> (\<And>x. keeps (f x)) \<Longrightarrow> keeps (case v of None \<Rightarrow> m | Some x \<Rightarrow> f x)"
  by (cases v) auto

lemma keeps_prod: "(\<And>x y. keeps (f x y)) \<Longrightarrow> keeps (case v of (x, y) \<Rightarrow> f x y)"
  by (cases v) auto

lemma keeps_sum: "(\<And>x. keeps (f x)) \<Longrightarrow> (\<And>y. keeps (g y)) \<Longrightarrow> keeps (case v of Inl x \<Rightarrow> f x | Inr y \<Rightarrow> g y)"
  by (cases v) auto

lemma keeps_list: "keeps m \<Longrightarrow> (\<And>x xs. keeps (f x xs)) \<Longrightarrow> keeps (case v of [] \<Rightarrow> m | x # xs \<Rightarrow> f x xs)"
  by (cases v) auto

lemma keeps_let: "(\<And>x. keeps (f x)) \<Longrightarrow> keeps (let x = v in f x)"
  by (simp add: Let_def)

lemma keeps_for_each: "(\<And>x. keeps (f x)) \<Longrightarrow> keeps (for_each f xs)"
  by (induction xs) (auto intro: keeps_bind keeps_simple)

lemma keeps_at: "keeps m \<Longrightarrow> m w = (r, w') \<Longrightarrow> S w w'"
  unfolding keeps_def by (metis snd_conv)

lemma keeps_wp: "keeps m \<Longrightarrow> S w0 w \<Longrightarrow> wp m (\<lambda>_. S w0) (S w0) w"
  unfolding wp_snd keeps_def by (blast intro: S_trans)

lemmas keeps_control = keeps_simple keeps_bind keeps_ignore keeps_map_error keeps_attempt keeps_sum keeps_list keeps_if keeps_option keeps_prod
  keeps_let keeps_for_each

end

text \<open>The relation that only looks at a part of the state.\<close>

lemma stays_via: "stays R \<Longrightarrow> stays (\<lambda>w w'. R (part w) (part w'))"
  unfolding stays_def by blast

section \<open>Identifiers and instants\<close>

text \<open>An UUID is its text. An instant counts microseconds; the calendar of \<open>chrono\<close> is bounded.\<close>

type_synonym uuid = string
type_synonym instant = int

definition seconds :: "int \<Rightarrow> int" where
  "seconds n = n * 1000000"

definition days :: "int \<Rightarrow> int" where
  "days n = seconds (n * 86400)"

definition in_calendar :: "instant \<Rightarrow> bool" where
  "in_calendar t \<longleftrightarrow> seconds (- 8334601228800) \<le> t \<and> t < seconds 8210266876800"

section \<open>Tables as lists of rows\<close>

text \<open>\<open>UPDATE ... WHERE\<close>, the number of rows a condition finds, and \<open>COALESCE($n, column)\<close>.\<close>

definition update_rows :: "('r \<Rightarrow> bool) \<Rightarrow> ('r \<Rightarrow> 'r) \<Rightarrow> 'r list \<Rightarrow> 'r list" where
  "update_rows P f rows = map (\<lambda>r. if P r then f r else r) rows"

definition count_rows :: "('r \<Rightarrow> bool) \<Rightarrow> 'r list \<Rightarrow> nat" where
  "count_rows P rows = length (filter P rows)"

definition coalesce :: "'a option \<Rightarrow> 'a \<Rightarrow> 'a" where
  "coalesce v old = (case v of Some x \<Rightarrow> x | None \<Rightarrow> old)"

text \<open>\<open>ORDER BY ... DESC\<close>; rows with equal keys come in the order of insertion.\<close>

definition order_desc :: "('r \<Rightarrow> int) \<Rightarrow> 'r list \<Rightarrow> 'r list" where
  "order_desc key rows = sort_key (\<lambda>r. - key r) rows"

lemma set_update_rows: "set (update_rows P f rows) = (\<lambda>r. if P r then f r else r) ` set rows"
  by (simp add: update_rows_def)

lemma map_update_rows: "(\<And>r. key (f r) = key r) \<Longrightarrow> map key (update_rows P f rows) = map key rows"
  by (induction rows) (auto simp: update_rows_def)

lemma image_update_rows: "(\<And>r. key (f r) = key r) \<Longrightarrow> key ` set (update_rows P f rows) = key ` set rows"
  using map_update_rows [of key f P rows, THEN arg_cong [where f = set]] by simp

lemma in_update_rows: "r \<in> set rows \<Longrightarrow> (if P r then f r else r) \<in> set (update_rows P f rows)"
  unfolding set_update_rows by (rule imageI)

lemma all_update_rows:
  "(\<And>r. r \<in> set rows \<Longrightarrow> Q (if P r then f r else r)) \<Longrightarrow> r \<in> set (update_rows P f rows) \<Longrightarrow> Q r"
  unfolding set_update_rows by blast

lemma find_mem: "find P xs = Some x \<Longrightarrow> x \<in> set xs \<and> P x"
  by (auto simp: find_Some_iff)

lemma distinct_map_filter': "distinct (map f xs) \<Longrightarrow> distinct (map f (filter P xs))"
  by (induction xs) auto

end
