(* ===== verification/Auth_Store.thy ===== *)
theory Auth_Store
  imports Core_Auth Computation F64 "HOL-Library.List_Lexorder" "HOL-Library.Char_ord"
begin

text \<open>
  The identity store of the auth service: the tables of the \<open>reactor_auth\<close> schema and the
  statements of \<open>crates/reactor-auth/src/store/postgres.rs\<close> on them, with the keys, unique
  constraints and references the migrations declare. A table is the list of its rows in the
  order of insertion; a statement is a function of the instant at which it runs and of the
  tables, and yields its outcome and the tables it leaves. An UUID is a string.

  The extension type \<open>CITEXT\<close> is a parameter: \<open>pg_fold\<close> is how its unique index folds a value and
  \<open>pg_eq\<close> how a column of that type compares with a bound text; so is \<open>pg_inet\<close>, the cast of a text to an
  address.
\<close>


record pg_types =
  pg_fold :: "string \<Rightarrow> string"
  pg_eq :: "string \<Rightarrow> string \<Rightarrow> bool"
  pg_inet :: "string \<Rightarrow> string option"

section \<open>Records (store/mod.rs, reactor-core/src/auth/user.rs)\<close>

record user =
  us_id :: uuid
  us_email :: string
  us_email_verified :: bool
  us_default_org_id :: "uuid option"
  us_metadata :: json
  us_created_at :: instant
  us_updated_at :: instant
  us_disabled_at :: "instant option"

definition is_disabled :: "'a user_scheme \<Rightarrow> bool" where
  "is_disabled u \<longleftrightarrow> us_disabled_at u \<noteq> None"

text \<open>The row has the password hash besides, which the record handed to the service lacks.\<close>

record user_row = user +
  us_password_hash :: "string option"

definition user_of :: "user_row \<Rightarrow> user" where
  "user_of r = user.truncate r"

record session =
  se_id :: uuid
  se_user_id :: uuid
  se_amr :: "string list"
  se_ip :: "string option"
  se_user_agent :: "string option"
  se_created_at :: instant
  se_last_seen_at :: instant
  se_revoked_at :: "instant option"

record refresh_token =
  rt_id :: uuid
  rt_session_id :: uuid
  rt_token_hash :: string
  rt_issued_at :: instant
  rt_expires_at :: instant
  rt_used_at :: "instant option"
  rt_replaced_by :: "uuid option"

record org =
  og_id :: uuid
  og_slug :: string
  og_name :: string
  og_metadata :: json
  og_created_at :: instant
  og_updated_at :: instant

record role =
  ro_id :: uuid
  ro_org_id :: uuid
  ro_name :: string
  ro_description :: "string option"
  ro_is_system :: bool
  ro_created_at :: instant

record membership =
  mb_user_id :: uuid
  mb_org_id :: uuid
  mb_role_id :: uuid
  mb_joined_at :: instant

record invitation =
  iv_id :: uuid
  iv_email :: string
  iv_org_id :: uuid
  iv_role_id :: uuid
  iv_created_at :: instant
  iv_expires_at :: instant

record invitation_row = invitation +
  iv_token_hash :: string
  iv_used_at :: "instant option"

record verification_token =
  vt_id :: uuid
  vt_user_id :: uuid
  vt_token_type :: string
  vt_created_at :: instant
  vt_expires_at :: instant
  vt_used_at :: "instant option"

record verification_row = verification_token +
  vt_token_hash :: string

record authorization_code =
  ac_id :: uuid
  ac_user_id :: uuid
  ac_client_id :: string
  ac_redirect_uri :: string
  ac_scopes :: "string list"
  ac_code_challenge :: string
  ac_code_challenge_method :: string
  ac_nonce :: "string option"
  ac_state :: "string option"
  ac_created_at :: instant
  ac_expires_at :: instant
  ac_used_at :: "instant option"
  ac_session_id :: "uuid option"

record authorization_row = authorization_code +
  ac_code_hash :: string

record signing_key =
  sk_kid :: string
  sk_algorithm :: string
  sk_private_key_pem :: string
  sk_public_key_pem :: string
  sk_created_at :: instant
  sk_activated_at :: instant
  sk_rotated_at :: "instant option"
  sk_retired_at :: "instant option"

text \<open>Rows of the platform tables, which no Rust record stands for.\<close>

record platform_membership =
  pm_user_id :: uuid
  pm_role_id :: uuid
  pm_granted_by :: "uuid option"
  pm_granted_at :: instant
  pm_revoked_at :: "instant option"

record auth_db =
  t_users :: "user_row list"
  t_sessions :: "session list"
  t_refresh_tokens :: "refresh_token list"
  t_orgs :: "org list"
  t_roles :: "role list"
  t_role_permissions :: "(uuid \<times> string) list"
  t_memberships :: "membership list"
  t_invitations :: "invitation_row list"
  t_verification_tokens :: "verification_row list"
  t_authorization_codes :: "authorization_row list"
  t_signing_keys :: "signing_key list"
  t_platform_roles :: "(uuid \<times> string) list"
  t_platform_role_permissions :: "(uuid \<times> string \<times> bool) list"
  t_platform_memberships :: "platform_membership list"

section \<open>Statements\<close>

text \<open>A statement at an instant; an error leaves the tables as they were unless it says otherwise.\<close>

type_synonym 'a statement = "instant \<Rightarrow> auth_db \<Rightarrow> ('a, auth_error) result \<times> auth_db"

definition query :: "(instant \<Rightarrow> auth_db \<Rightarrow> 'a) \<Rightarrow> 'a statement" where
  "query f now db = (Ok (f now db), db)"

text \<open>References: that a row with this key exists.\<close>

definition user_exists :: "auth_db \<Rightarrow> uuid \<Rightarrow> bool" where
  "user_exists db u \<longleftrightarrow> list_ex (\<lambda>r. us_id r = u) (t_users db)"

definition session_exists :: "auth_db \<Rightarrow> uuid \<Rightarrow> bool" where
  "session_exists db s \<longleftrightarrow> list_ex (\<lambda>r. se_id r = s) (t_sessions db)"

definition org_exists :: "auth_db \<Rightarrow> uuid \<Rightarrow> bool" where
  "org_exists db g \<longleftrightarrow> list_ex (\<lambda>r. og_id r = g) (t_orgs db)"

definition role_exists :: "auth_db \<Rightarrow> uuid \<Rightarrow> bool" where
  "role_exists db r \<longleftrightarrow> list_ex (\<lambda>x. ro_id x = r) (t_roles db)"

section \<open>Users\<close>

definition find_user_by_id :: "uuid \<Rightarrow> user option statement" where
  "find_user_by_id u = query (\<lambda>now db. map_option user_of (find (\<lambda>r. us_id r = u) (t_users db)))"

definition find_user_by_email :: "pg_types \<Rightarrow> string \<Rightarrow> user option statement" where
  "find_user_by_email pg email =
     query (\<lambda>now db. map_option user_of (find (\<lambda>r. pg_eq pg (us_email r) email) (t_users db)))"

definition email_taken :: "pg_types \<Rightarrow> user_row list \<Rightarrow> string \<Rightarrow> bool" where
  "email_taken pg rows email \<longleftrightarrow> list_ex (\<lambda>r. pg_fold pg (us_email r) = pg_fold pg email) rows"

definition create_user :: "pg_types \<Rightarrow> uuid \<Rightarrow> string \<Rightarrow> string option \<Rightarrow> json \<Rightarrow> user statement" where
  "create_user pg u email password_hash metadata now db =
     (if user_exists db u then (Err AeInternal, db)
      else if email_taken pg (t_users db) email then (Err AeEmailExists, db)
      else let row = \<lparr>us_id = u, us_email = email, us_email_verified = False, us_default_org_id = None,
                   us_metadata = metadata, us_created_at = now, us_updated_at = now,
                   us_disabled_at = None, us_password_hash = password_hash\<rparr>
           in (Ok (user_of row), db\<lparr>t_users := t_users db @ [row]\<rparr>))"

text \<open>
  The update of \<open>update_user\<close>; its errors are not told apart, so an email that another user has is an
  internal error.
\<close>

definition set_user ::
  "instant \<Rightarrow> string option \<Rightarrow> string option \<Rightarrow> bool option \<Rightarrow> json option \<Rightarrow> uuid option option \<Rightarrow>
   user_row \<Rightarrow> user_row" where
  "set_user now email password_hash email_verified metadata default_org_id r =
     r\<lparr>us_email := coalesce email (us_email r),
       us_password_hash := (case password_hash of Some h \<Rightarrow> Some h | None \<Rightarrow> us_password_hash r),
       us_email_verified := coalesce email_verified (us_email_verified r),
       us_metadata := coalesce metadata (us_metadata r),
       us_default_org_id := coalesce default_org_id (us_default_org_id r), us_updated_at := now\<rparr>"

definition update_user ::
  "pg_types \<Rightarrow> uuid \<Rightarrow> string option \<Rightarrow> string option \<Rightarrow> bool option \<Rightarrow> json option \<Rightarrow>
   uuid option option \<Rightarrow> user statement" where
  "update_user pg u email password_hash email_verified metadata default_org_id now db =
     (case find (\<lambda>r. us_id r = u) (t_users db) of
        None \<Rightarrow> (Err AeUserNotFound, db)
      | Some r \<Rightarrow>
          (let others = filter (\<lambda>x. us_id x \<noteq> u) (t_users db);
               set = set_user now email password_hash email_verified metadata default_org_id in
           if email_taken pg others (us_email (set r)) then (Err AeInternal, db)
           else if (case default_org_id of Some (Some g) \<Rightarrow> \<not> org_exists db g | _ \<Rightarrow> False)
           then (Err AeInternal, db)
           else (Ok (user_of (set r)),
                 db\<lparr>t_users := update_rows (\<lambda>x. us_id x = u) set (t_users db)\<rparr>)))"

definition get_password_hash :: "uuid \<Rightarrow> string option statement" where
  "get_password_hash u =
     query (\<lambda>now db. Option.bind (find (\<lambda>r. us_id r = u) (t_users db)) us_password_hash)"

definition disable_user :: "uuid \<Rightarrow> unit statement" where
  "disable_user u now db =
     (let P = (\<lambda>r. us_id r = u \<and> us_disabled_at r = None) in
      if count_rows P (t_users db) = 0 then (Err AeUserNotFound, db)
      else (Ok (), db\<lparr>t_users := update_rows P (\<lambda>r. r\<lparr>us_disabled_at := Some now, us_updated_at := now\<rparr>)
                       (t_users db)\<rparr>))"

section \<open>Sessions\<close>

definition create_session ::
  "pg_types \<Rightarrow> uuid \<Rightarrow> uuid \<Rightarrow> string list \<Rightarrow> string option \<Rightarrow> string option \<Rightarrow> session statement" where
  "create_session pg s u amr ip user_agent now db =
     (let addr = (case ip of None \<Rightarrow> Some None | Some t \<Rightarrow> map_option Some (pg_inet pg t)) in
      case addr of
        None \<Rightarrow> (Err AeInternal, db)
      | Some a \<Rightarrow>
          if session_exists db s \<or> \<not> user_exists db u then (Err AeInternal, db)
          else let row = \<lparr>se_id = s, se_user_id = u, se_amr = amr, se_ip = a, se_user_agent = user_agent,
                          se_created_at = now, se_last_seen_at = now, se_revoked_at = None\<rparr>
               in (Ok row, db\<lparr>t_sessions := t_sessions db @ [row]\<rparr>))"

definition find_session_by_id :: "uuid \<Rightarrow> session option statement" where
  "find_session_by_id s = query (\<lambda>now db. find (\<lambda>r. se_id r = s) (t_sessions db))"

definition revoke_where :: "(session \<Rightarrow> bool) \<Rightarrow> instant \<Rightarrow> auth_db \<Rightarrow> auth_db" where
  "revoke_where P now db =
     db\<lparr>t_sessions := update_rows (\<lambda>r. P r \<and> se_revoked_at r = None) (\<lambda>r. r\<lparr>se_revoked_at := Some now\<rparr>)
         (t_sessions db)\<rparr>"

definition revoke_session :: "uuid \<Rightarrow> unit statement" where
  "revoke_session s now db = (Ok (), revoke_where (\<lambda>r. se_id r = s) now db)"

definition revoke_user_sessions :: "uuid \<Rightarrow> nat statement" where
  "revoke_user_sessions u now db =
     (Ok (count_rows (\<lambda>r. se_user_id r = u \<and> se_revoked_at r = None) (t_sessions db)),
      revoke_where (\<lambda>r. se_user_id r = u) now db)"

section \<open>Refresh tokens\<close>

definition insert_refresh_token :: "uuid \<Rightarrow> uuid \<Rightarrow> string \<Rightarrow> instant \<Rightarrow> refresh_token statement" where
  "insert_refresh_token t s hash expires_at now db =
     (if list_ex (\<lambda>r. rt_id r = t \<or> rt_token_hash r = hash) (t_refresh_tokens db) \<or> \<not> session_exists db s
      then (Err AeInternal, db)
      else let row = \<lparr>rt_id = t, rt_session_id = s, rt_token_hash = hash, rt_issued_at = now,
                      rt_expires_at = expires_at, rt_used_at = None, rt_replaced_by = None\<rparr>
           in (Ok row, db\<lparr>t_refresh_tokens := t_refresh_tokens db @ [row]\<rparr>))"

definition create_refresh_token :: "uuid \<Rightarrow> uuid \<Rightarrow> string \<Rightarrow> instant \<Rightarrow> refresh_token statement" where
  "create_refresh_token = insert_refresh_token"

definition find_refresh_token_by_hash :: "string \<Rightarrow> refresh_token option statement" where
  "find_refresh_token_by_hash hash =
     query (\<lambda>now db. find (\<lambda>r. rt_token_hash r = hash) (t_refresh_tokens db))"

text \<open>
  Rotation is one transaction. A token that was used before revokes its session, which is
  committed although the call fails; every other failure rolls back.
\<close>

definition rotate_refresh_token :: "string \<Rightarrow> uuid \<Rightarrow> string \<Rightarrow> instant \<Rightarrow> refresh_token statement" where
  "rotate_refresh_token old_hash new_id new_hash new_expires_at now db =
     (case find (\<lambda>r. rt_token_hash r = old_hash) (t_refresh_tokens db) of
        None \<Rightarrow> (Err AeInvalidRefreshToken, db)
      | Some old \<Rightarrow>
          if rt_used_at old \<noteq> None
          then (Err AeRefreshTokenReuse, revoke_where (\<lambda>r. se_id r = rt_session_id old) now db)
          else if rt_expires_at old < now then (Err AeInvalidRefreshToken, db)
          else
            (let tx = db\<lparr>t_refresh_tokens := update_rows (\<lambda>r. rt_id r = rt_id old)
                      (\<lambda>r. r\<lparr>rt_used_at := Some now, rt_replaced_by := Some new_id\<rparr>) (t_refresh_tokens db)\<rparr>
             in case insert_refresh_token new_id (rt_session_id old) new_hash new_expires_at now tx of
                  (Ok row, tx') \<Rightarrow> (Ok row, tx')
                | (r, _) \<Rightarrow> (r, db)))"

definition check_refresh_token_reuse :: "string \<Rightarrow> bool statement" where
  "check_refresh_token_reuse hash =
     query (\<lambda>now db. case find (\<lambda>r. rt_token_hash r = hash) (t_refresh_tokens db) of
         Some r \<Rightarrow> rt_used_at r \<noteq> None | None \<Rightarrow> False)"

section \<open>Organizations\<close>

definition slug_taken :: "pg_types \<Rightarrow> org list \<Rightarrow> string \<Rightarrow> bool" where
  "slug_taken pg rows slug \<longleftrightarrow> list_ex (\<lambda>r. pg_fold pg (og_slug r) = pg_fold pg slug) rows"

definition create_org_row :: "pg_types \<Rightarrow> uuid \<Rightarrow> string \<Rightarrow> string \<Rightarrow> json \<Rightarrow> org statement" where
  "create_org_row pg g name slug metadata now db =
     (if org_exists db g then (Err AeInternal, db)
      else if slug_taken pg (t_orgs db) slug then (Err AeOrgSlugExists, db)
      else let row = \<lparr>og_id = g, og_slug = slug, og_name = name, og_metadata = metadata,
                      og_created_at = now, og_updated_at = now\<rparr>
           in (Ok row, db\<lparr>t_orgs := t_orgs db @ [row]\<rparr>))"

definition find_org_by_id :: "uuid \<Rightarrow> org option statement" where
  "find_org_by_id g = query (\<lambda>now db. find (\<lambda>r. og_id r = g) (t_orgs db))"

definition find_org_by_slug :: "pg_types \<Rightarrow> string \<Rightarrow> org option statement" where
  "find_org_by_slug pg slug = query (\<lambda>now db. find (\<lambda>r. pg_eq pg (og_slug r) slug) (t_orgs db))"

definition update_org_row ::
  "pg_types \<Rightarrow> uuid \<Rightarrow> string option \<Rightarrow> string option \<Rightarrow> json option \<Rightarrow> org statement" where
  "update_org_row pg g name slug metadata now db =
     (case find (\<lambda>r. og_id r = g) (t_orgs db) of
        None \<Rightarrow> (Err AeOrgNotFound, db)
      | Some r \<Rightarrow>
          (let set = (\<lambda>r. r\<lparr>og_name := coalesce name (og_name r), og_slug := coalesce slug (og_slug r),
                  og_metadata := coalesce metadata (og_metadata r), og_updated_at := now\<rparr>) in
           if slug_taken pg (filter (\<lambda>x. og_id x \<noteq> g) (t_orgs db)) (og_slug (set r))
           then (Err AeOrgSlugExists, db)
           else (Ok (set r), db\<lparr>t_orgs := update_rows (\<lambda>x. og_id x = g) set (t_orgs db)\<rparr>)))"

text \<open>
  Deleting an organization takes its roles, memberships and invitations with it. Whether the
  restricted reference of memberships to roles lets the cascade through depends on the order of
  the database's triggers, so a refusal is one of the statement's failures.
\<close>

definition delete_org_row :: "uuid \<Rightarrow> unit statement" where
  "delete_org_row g now db =
     (if \<not> org_exists db g then (Err AeOrgNotFound, db)
      else let gone = (\<lambda>r. \<exists>x \<in> set (t_roles db). ro_id x = r \<and> ro_org_id x = g) in
        (Ok (), db\<lparr>t_orgs := filter (\<lambda>r. og_id r \<noteq> g) (t_orgs db),
             t_roles := filter (\<lambda>r. ro_org_id r \<noteq> g) (t_roles db),
             t_role_permissions := filter (\<lambda>(r, _). \<not> gone r) (t_role_permissions db),
             t_memberships := filter (\<lambda>m. mb_org_id m \<noteq> g) (t_memberships db),
             t_invitations := filter (\<lambda>i. iv_org_id i \<noteq> g \<and> \<not> gone (iv_role_id i)) (t_invitations db),
             t_users := update_rows (\<lambda>r. us_default_org_id r = Some g)
               (\<lambda>r. r\<lparr>us_default_org_id := None\<rparr>) (t_users db)\<rparr>))"

definition list_user_orgs_rows :: "uuid \<Rightarrow> org list statement" where
  "list_user_orgs_rows u = query (\<lambda>now db.
     order_desc og_created_at
       (filter (\<lambda>g. list_ex (\<lambda>m. mb_org_id m = og_id g \<and> mb_user_id m = u) (t_memberships db)) (t_orgs db)))"

section \<open>Roles\<close>

fun insert_permissions :: "uuid \<Rightarrow> string list \<Rightarrow> (uuid \<times> string) list \<Rightarrow> (uuid \<times> string) list option" where
  "insert_permissions r [] rows = Some rows"
| "insert_permissions r (p # ps) rows =
     (if (r, p) \<in> set rows then None else insert_permissions r ps (rows @ [(r, p)]))"

definition create_role ::
  "uuid \<Rightarrow> uuid \<Rightarrow> string \<Rightarrow> string option \<Rightarrow> bool \<Rightarrow> string list \<Rightarrow> role statement" where
  "create_role r g name description is_system permissions now db =
     (if role_exists db r \<or> list_ex (\<lambda>x. ro_org_id x = g \<and> ro_name x = name) (t_roles db) \<or> \<not> org_exists db g
      then (Err AeInternal, db)
      else
        case insert_permissions r permissions (t_role_permissions db) of
          None \<Rightarrow> (Err AeInternal, db)
        | Some perms \<Rightarrow>
            (let row = \<lparr>ro_id = r, ro_org_id = g, ro_name = name, ro_description = description,
                 ro_is_system = is_system, ro_created_at = now\<rparr>
             in (Ok row, db\<lparr>t_roles := t_roles db @ [row], t_role_permissions := perms\<rparr>)))"

definition find_role_by_id :: "uuid \<Rightarrow> role option statement" where
  "find_role_by_id r = query (\<lambda>now db. find (\<lambda>x. ro_id x = r) (t_roles db))"

definition find_role_by_name :: "uuid \<Rightarrow> string \<Rightarrow> role option statement" where
  "find_role_by_name g name =
     query (\<lambda>now db. find (\<lambda>x. ro_org_id x = g \<and> ro_name x = name) (t_roles db))"

definition update_role :: "uuid \<Rightarrow> string option \<Rightarrow> string option \<Rightarrow> role statement" where
  "update_role r name description now db =
     (case find (\<lambda>x. ro_id x = r \<and> \<not> ro_is_system x) (t_roles db) of
        None \<Rightarrow> (Err AeRoleNotFound, db)
      | Some old \<Rightarrow>
          (let set = (\<lambda>x. x\<lparr>ro_name := coalesce name (ro_name x),
                 ro_description := (case description of Some d \<Rightarrow> Some d | None \<Rightarrow> ro_description x)\<rparr>) in
           if list_ex (\<lambda>x. ro_id x \<noteq> r \<and> ro_org_id x = ro_org_id old \<and> ro_name x = ro_name (set old)) (t_roles db)
           then (Err AeInternal, db)
           else (Ok (set old),
                 db\<lparr>t_roles := update_rows (\<lambda>x. ro_id x = r \<and> \<not> ro_is_system x) set (t_roles db)\<rparr>)))"

text \<open>A role that a member has cannot be deleted; its permissions and invitations go with it.\<close>

definition delete_role :: "uuid \<Rightarrow> unit statement" where
  "delete_role r now db =
     (if \<not> list_ex (\<lambda>x. ro_id x = r \<and> \<not> ro_is_system x) (t_roles db) then (Err AeRoleNotFound, db)
      else if list_ex (\<lambda>m. mb_role_id m = r) (t_memberships db) then (Err AeInternal, db)
      else (Ok (), db\<lparr>t_roles := filter (\<lambda>x. ro_id x \<noteq> r) (t_roles db),
          t_role_permissions := filter (\<lambda>(x, _). x \<noteq> r) (t_role_permissions db),
          t_invitations := filter (\<lambda>i. iv_role_id i \<noteq> r) (t_invitations db)\<rparr>))"

definition list_org_roles_rows :: "uuid \<Rightarrow> role list statement" where
  "list_org_roles_rows g = query (\<lambda>now db.
     sort_key (\<lambda>r. \<not> ro_is_system r) (sort_key ro_name (filter (\<lambda>r. ro_org_id r = g) (t_roles db))))"

definition get_role_permissions :: "uuid \<Rightarrow> string list statement" where
  "get_role_permissions r =
     query (\<lambda>now db. sort (map snd (filter (\<lambda>(x, _). x = r) (t_role_permissions db))))"

definition set_role_permissions :: "uuid \<Rightarrow> string list \<Rightarrow> unit statement" where
  "set_role_permissions r permissions now db =
     (case insert_permissions r permissions (filter (\<lambda>(x, _). x \<noteq> r) (t_role_permissions db)) of
        None \<Rightarrow> (Err AeInternal, db)
      | Some perms \<Rightarrow>
          if permissions \<noteq> [] \<and> \<not> role_exists db r then (Err AeInternal, db)
          else (Ok (), db\<lparr>t_role_permissions := perms\<rparr>))"

section \<open>Memberships\<close>

definition create_membership :: "uuid \<Rightarrow> uuid \<Rightarrow> uuid \<Rightarrow> membership statement" where
  "create_membership u g r now db =
     (if list_ex (\<lambda>m. mb_user_id m = u \<and> mb_org_id m = g) (t_memberships db) then (Err AeMembershipExists, db)
      else if \<not> user_exists db u \<or> \<not> org_exists db g \<or> \<not> role_exists db r then (Err AeInternal, db)
      else let row = \<lparr>mb_user_id = u, mb_org_id = g, mb_role_id = r, mb_joined_at = now\<rparr>
           in (Ok row, db\<lparr>t_memberships := t_memberships db @ [row]\<rparr>))"

definition find_membership :: "uuid \<Rightarrow> uuid \<Rightarrow> membership option statement" where
  "find_membership u g =
     query (\<lambda>now db. find (\<lambda>m. mb_user_id m = u \<and> mb_org_id m = g) (t_memberships db))"

definition update_membership_role :: "uuid \<Rightarrow> uuid \<Rightarrow> uuid \<Rightarrow> membership statement" where
  "update_membership_role u g r now db =
     (case find (\<lambda>m. mb_user_id m = u \<and> mb_org_id m = g) (t_memberships db) of
        None \<Rightarrow> (Err AeMembershipNotFound, db)
      | Some m \<Rightarrow>
          if \<not> role_exists db r then (Err AeInternal, db)
          else (Ok (m\<lparr>mb_role_id := r\<rparr>),
                db\<lparr>t_memberships := update_rows (\<lambda>m. mb_user_id m = u \<and> mb_org_id m = g)
                    (\<lambda>m. m\<lparr>mb_role_id := r\<rparr>) (t_memberships db)\<rparr>))"

definition delete_membership :: "uuid \<Rightarrow> uuid \<Rightarrow> unit statement" where
  "delete_membership u g now db =
     (let P = (\<lambda>m. mb_user_id m = u \<and> mb_org_id m = g) in
      if count_rows P (t_memberships db) = 0 then (Err AeMembershipNotFound, db)
      else (Ok (), db\<lparr>t_memberships := filter (\<lambda>m. \<not> P m) (t_memberships db)\<rparr>))"

text \<open>The join of memberships with users and roles.\<close>

definition list_org_members_rows :: "uuid \<Rightarrow> (user \<times> membership \<times> role) list statement" where
  "list_org_members_rows g = query (\<lambda>now db.
     concat (map (\<lambda>m. concat (map (\<lambda>u. map (\<lambda>r. (user_of u, m, r\<lparr>ro_org_id := mb_org_id m\<rparr>))
         (filter (\<lambda>r. ro_id r = mb_role_id m) (t_roles db)))
         (filter (\<lambda>u. us_id u = mb_user_id m) (t_users db))))
       (sort_key mb_joined_at (filter (\<lambda>m. mb_org_id m = g) (t_memberships db)))))"

definition count_members_with_role :: "uuid \<Rightarrow> uuid \<Rightarrow> nat statement" where
  "count_members_with_role g r =
     query (\<lambda>now db. count_rows (\<lambda>m. mb_org_id m = g \<and> mb_role_id m = r) (t_memberships db))"

definition get_user_permissions_rows :: "uuid \<Rightarrow> uuid \<Rightarrow> string list statement" where
  "get_user_permissions_rows u g = query (\<lambda>now db.
     sort (concat (map (\<lambda>m. map snd (filter (\<lambda>(r, _). r = mb_role_id m) (t_role_permissions db)))
       (filter (\<lambda>m. mb_user_id m = u \<and> mb_org_id m = g) (t_memberships db)))))"

section \<open>Invitations\<close>

definition invitation_of :: "invitation_row \<Rightarrow> invitation" where
  "invitation_of r = invitation.truncate r"

definition create_invitation_row ::
  "uuid \<Rightarrow> string \<Rightarrow> string \<Rightarrow> uuid \<Rightarrow> uuid \<Rightarrow> instant \<Rightarrow> unit statement" where
  "create_invitation_row i hash email g r expires_at now db =
     (if list_ex (\<lambda>x. iv_id x = i \<or> iv_token_hash x = hash) (t_invitations db) \<or>
         \<not> org_exists db g \<or> \<not> role_exists db r
      then (Err AeInternal, db)
      else (Ok (), db\<lparr>t_invitations := t_invitations db @
          [\<lparr>iv_id = i, iv_email = email, iv_org_id = g, iv_role_id = r, iv_created_at = now,
            iv_expires_at = expires_at, iv_token_hash = hash, iv_used_at = None\<rparr>]\<rparr>))"

definition find_invitation_by_hash :: "string \<Rightarrow> invitation option statement" where
  "find_invitation_by_hash hash = query (\<lambda>now db.
     map_option invitation_of (find (\<lambda>i. iv_token_hash i = hash \<and> iv_used_at i = None) (t_invitations db)))"

definition use_invitation :: "string \<Rightarrow> unit statement" where
  "use_invitation hash now db =
     (let P = (\<lambda>i. iv_token_hash i = hash \<and> iv_used_at i = None) in
      if count_rows P (t_invitations db) = 0 then (Err AeInvitationNotFound, db)
      else (Ok (), db\<lparr>t_invitations := update_rows P (\<lambda>i. i\<lparr>iv_used_at := Some now\<rparr>) (t_invitations db)\<rparr>))"

definition list_org_invitations_rows :: "uuid \<Rightarrow> invitation list statement" where
  "list_org_invitations_rows g = query (\<lambda>now db.
     map invitation_of (order_desc iv_created_at
       (filter (\<lambda>i. iv_org_id i = g \<and> iv_used_at i = None \<and> now < iv_expires_at i) (t_invitations db))))"

definition delete_invitation_row :: "string \<Rightarrow> unit statement" where
  "delete_invitation_row hash now db =
     (let P = (\<lambda>i. iv_token_hash i = hash) in
      if count_rows P (t_invitations db) = 0 then (Err AeInvitationNotFound, db)
      else (Ok (), db\<lparr>t_invitations := filter (\<lambda>i. \<not> P i) (t_invitations db)\<rparr>))"

section \<open>Signing keys\<close>

definition store_signing_key :: "signing_key \<Rightarrow> unit statement" where
  "store_signing_key k now db =
     (if list_ex (\<lambda>x. sk_kid x = sk_kid k) (t_signing_keys db) then (Err AeInternal, db)
      else (Ok (), db\<lparr>t_signing_keys := t_signing_keys db @ [k]\<rparr>))"

definition get_active_signing_key :: "signing_key option statement" where
  "get_active_signing_key = query (\<lambda>now db.
     case order_desc sk_activated_at
         (filter (\<lambda>k. sk_rotated_at k = None \<and> sk_retired_at k = None) (t_signing_keys db)) of
       [] \<Rightarrow> None | k # _ \<Rightarrow> Some k)"

definition get_jwks_keys :: "signing_key list statement" where
  "get_jwks_keys = query (\<lambda>now db.
     order_desc sk_activated_at (filter (\<lambda>k. sk_retired_at k = None) (t_signing_keys db)))"

definition rotate_signing_key :: "string \<Rightarrow> signing_key \<Rightarrow> unit statement" where
  "rotate_signing_key old_kid new_key now db =
     (let tx = db\<lparr>t_signing_keys := update_rows (\<lambda>k. sk_kid k = old_kid \<and> sk_rotated_at k = None)
             (\<lambda>k. k\<lparr>sk_rotated_at := Some now\<rparr>) (t_signing_keys db)\<rparr> in
      case store_signing_key new_key now tx of
        (Ok _, tx') \<Rightarrow> (Ok (), tx')
      | (r, _) \<Rightarrow> (r, db))"

definition retire_old_signing_keys :: "nat statement" where
  "retire_old_signing_keys now db =
     (let P = (\<lambda>k. (case sk_rotated_at k of Some t \<Rightarrow> t < now - days 7 | None \<Rightarrow> False) \<and>
                sk_retired_at k = None) in
      (Ok (count_rows P (t_signing_keys db)),
       db\<lparr>t_signing_keys := update_rows P (\<lambda>k. k\<lparr>sk_retired_at := Some now\<rparr>) (t_signing_keys db)\<rparr>))"

section \<open>Verification tokens\<close>

definition verification_of :: "verification_row \<Rightarrow> verification_token" where
  "verification_of r = verification_token.truncate r"

definition create_verification_token ::
  "uuid \<Rightarrow> uuid \<Rightarrow> string \<Rightarrow> string \<Rightarrow> instant \<Rightarrow> verification_token statement" where
  "create_verification_token v u hash token_type expires_at now db =
     (if list_ex (\<lambda>r. vt_id r = v \<or> vt_token_hash r = hash) (t_verification_tokens db) \<or> \<not> user_exists db u
      then (Err AeInternal, db)
      else let row = \<lparr>vt_id = v, vt_user_id = u, vt_token_type = token_type, vt_created_at = now,
                      vt_expires_at = expires_at, vt_used_at = None, vt_token_hash = hash\<rparr>
           in (Ok (verification_of row), db\<lparr>t_verification_tokens := t_verification_tokens db @ [row]\<rparr>))"

definition find_verification_token_by_hash :: "string \<Rightarrow> string \<Rightarrow> verification_token option statement" where
  "find_verification_token_by_hash hash token_type = query (\<lambda>now db.
     map_option verification_of (find (\<lambda>r. vt_token_hash r = hash \<and> vt_token_type r = token_type \<and>
       vt_used_at r = None \<and> now < vt_expires_at r) (t_verification_tokens db)))"

definition use_verification_token :: "string \<Rightarrow> unit statement" where
  "use_verification_token hash now db =
     (let P = (\<lambda>r. vt_token_hash r = hash \<and> vt_used_at r = None) in
      if count_rows P (t_verification_tokens db) = 0 then (Err AeInvalidToken, db)
      else (Ok (), db\<lparr>t_verification_tokens :=
             update_rows P (\<lambda>r. r\<lparr>vt_used_at := Some now\<rparr>) (t_verification_tokens db)\<rparr>))"

definition cleanup_verification_tokens :: "uuid \<Rightarrow> nat statement" where
  "cleanup_verification_tokens u now db =
     (let P = (\<lambda>r. vt_user_id r = u \<and> (vt_used_at r \<noteq> None \<or> vt_expires_at r < now)) in
      (Ok (count_rows P (t_verification_tokens db)),
       db\<lparr>t_verification_tokens := filter (\<lambda>r. \<not> P r) (t_verification_tokens db)\<rparr>))"

section \<open>Platform operators\<close>

text \<open>The ids of the platform roles of a name.\<close>

definition platform_role_ids :: "auth_db \<Rightarrow> string \<Rightarrow> uuid list" where
  "platform_role_ids db name = map fst (filter (\<lambda>(r, n). n = name) (t_platform_roles db))"

fun grant_rows :: "uuid \<Rightarrow> uuid option \<Rightarrow> instant \<Rightarrow> uuid list \<Rightarrow> platform_membership list \<Rightarrow> platform_membership list" where
  "grant_rows u granted_by now [] rows = rows"
| "grant_rows u granted_by now (r # rs) rows =
     grant_rows u granted_by now rs
       (if list_ex (\<lambda>m. pm_user_id m = u \<and> pm_role_id m = r) rows
        then update_rows (\<lambda>m. pm_user_id m = u \<and> pm_role_id m = r)
          (\<lambda>m. m\<lparr>pm_revoked_at := None, pm_granted_by := granted_by, pm_granted_at := now\<rparr>) rows
        else rows @ [\<lparr>pm_user_id = u, pm_role_id = r, pm_granted_by = granted_by, pm_granted_at = now,
          pm_revoked_at = None\<rparr>])"

definition grant_platform_role :: "uuid \<Rightarrow> string \<Rightarrow> uuid option \<Rightarrow> unit statement" where
  "grant_platform_role u name granted_by now db =
     (let rs = platform_role_ids db name in
      if rs \<noteq> [] \<and> (\<not> user_exists db u \<or> (case granted_by of Some b \<Rightarrow> \<not> user_exists db b | None \<Rightarrow> False))
      then (Err AeInternal, db)
      else (Ok (), db\<lparr>t_platform_memberships := grant_rows u granted_by now rs (t_platform_memberships db)\<rparr>))"

definition holds_role :: "auth_db \<Rightarrow> string \<Rightarrow> platform_membership \<Rightarrow> bool" where
  "holds_role db name m \<longleftrightarrow> pm_role_id m \<in> set (platform_role_ids db name) \<and> pm_revoked_at m = None"

definition revoke_platform_role :: "uuid \<Rightarrow> string \<Rightarrow> unit statement" where
  "revoke_platform_role u name now db =
     (Ok (), db\<lparr>t_platform_memberships := update_rows (\<lambda>m. holds_role db name m \<and> pm_user_id m = u)
         (\<lambda>m. m\<lparr>pm_revoked_at := Some now\<rparr>) (t_platform_memberships db)\<rparr>)"

definition has_platform_role :: "uuid \<Rightarrow> string \<Rightarrow> bool statement" where
  "has_platform_role u name = query (\<lambda>now db.
     list_ex (\<lambda>m. pm_user_id m = u \<and> holds_role db name m) (t_platform_memberships db))"

definition list_platform_role_users :: "string \<Rightarrow> uuid list statement" where
  "list_platform_role_users name = query (\<lambda>now db.
     map pm_user_id (sort_key pm_granted_at (filter (holds_role db name) (t_platform_memberships db))))"

text \<open>The statement has no order; the rows come as the tables are read.\<close>

definition platform_permission_rows :: "uuid \<Rightarrow> (string \<times> bool) list statement" where
  "platform_permission_rows u = query (\<lambda>now db.
     concat (map (\<lambda>m. map snd (filter (\<lambda>(r, _). r = pm_role_id m) (t_platform_role_permissions db)))
       (filter (\<lambda>m. pm_user_id m = u \<and> pm_revoked_at m = None) (t_platform_memberships db))))"

definition platform_operators_exist :: "bool statement" where
  "platform_operators_exist = query (\<lambda>now db.
     list_ex (holds_role db ''platform_operator'') (t_platform_memberships db))"

section \<open>Authorization codes\<close>

definition authorization_of :: "authorization_row \<Rightarrow> authorization_code" where
  "authorization_of r = authorization_code.truncate r"

text \<open>The row of a new code; the migration allows two challenge methods.\<close>

definition create_authorization_row :: "authorization_row \<Rightarrow> authorization_code statement" where
  "create_authorization_row row now db =
     (let row = row\<lparr>ac_created_at := now, ac_used_at := None\<rparr> in
      if list_ex (\<lambda>r. ac_id r = ac_id row \<or> ac_code_hash r = ac_code_hash row) (t_authorization_codes db) \<or>
        ac_code_challenge_method row \<notin> {''S256'', ''plain''} \<or> \<not> user_exists db (ac_user_id row) \<or>
        (case ac_session_id row of Some s \<Rightarrow> \<not> session_exists db s | None \<Rightarrow> False)
      then (Err AeInternal, db)
      else (Ok (authorization_of row), db\<lparr>t_authorization_codes := t_authorization_codes db @ [row]\<rparr>))"

definition find_authorization_code_by_hash :: "string \<Rightarrow> authorization_code option statement" where
  "find_authorization_code_by_hash hash = query (\<lambda>now db.
     map_option authorization_of (find (\<lambda>r. ac_code_hash r = hash \<and> ac_used_at r = None \<and> now < ac_expires_at r)
       (t_authorization_codes db)))"

definition use_authorization_code :: "string \<Rightarrow> uuid \<Rightarrow> unit statement" where
  "use_authorization_code hash s now db =
     (let P = (\<lambda>r. ac_code_hash r = hash \<and> ac_used_at r = None \<and> now < ac_expires_at r) in
      if count_rows P (t_authorization_codes db) = 0 then (Err AeInvalidToken, db)
      else if \<not> session_exists db s then (Err AeInternal, db)
      else (Ok (), db\<lparr>t_authorization_codes :=
             update_rows P (\<lambda>r. r\<lparr>ac_used_at := Some now, ac_session_id := Some s\<rparr>) (t_authorization_codes db)\<rparr>))"

definition cleanup_expired_authorization_codes :: "nat statement" where
  "cleanup_expired_authorization_codes now db =
     (let P = (\<lambda>r. ac_expires_at r < now \<or> ac_used_at r \<noteq> None) in
      (Ok (count_rows P (t_authorization_codes db)),
       db\<lparr>t_authorization_codes := filter (\<lambda>r. \<not> P r) (t_authorization_codes db)\<rparr>))"

end
