(* ===== verification/Auth_Keys.thy ===== *)
theory Auth_Keys
  imports Auth_Store
begin

text \<open>
  The world of the auth service: the tables, the clock, the supply of random values, the mails sent
  and the keyring; the environment it is started with; and the key manager
  (\<open>crates/reactor-auth/src/token/keyring.rs\<close>).

  A computation takes the world and yields its outcome and the world it leaves. Every statement
  may fail with an internal error (\<open>ev_fails\<close> says which, counting statements), which is how an
  unreachable database shows. The clock stands still during one call. Cryptography is a
  parameter: hashing, encryption, RSA and the JWT library.
\<close>

section \<open>Keys\<close>

record key_pair =
  kp_kid :: string
  kp_private :: string
  kp_public :: string

record keyring =
  kr_active :: "key_pair option"
  kr_all_keys :: "key_pair list"
  kr_last_refresh :: instant

datatype key_error =
  KeyGeneration | KeyEncoding | KeyDecoding | NoActiveKey | KeyEncryption | KeyStore auth_error

text \<open>Verification errors (token/verifier.rs), their texts left out.\<close>

datatype verifier_error =
  VeExpired | VeInvalidSignature | VeInvalidFormat | VeUnknownKey string | VeInvalidAudience
  | VeInvalidIssuer | VeKey

section \<open>The environment and the world\<close>

datatype mail = VerificationMail string | ResetMail string | InvitationMail string string string

record auth_env =
  ev_pg :: pg_types
  ev_fails :: "nat \<Rightarrow> bool"
  ev_uuid :: "nat \<Rightarrow> uuid"
  ev_random :: "nat \<Rightarrow> string"
  ev_sha256 :: "string \<Rightarrow> string"
  ev_base64url_sha256 :: "string \<Rightarrow> string"
  ev_hash_password :: "nat \<Rightarrow> string \<Rightarrow> string option"
  ev_verify_password :: "string \<Rightarrow> string \<Rightarrow> bool option"
  ev_parse_uuid :: "string \<Rightarrow> uuid option"
  ev_mail_enabled :: bool
  ev_send :: "nat \<Rightarrow> auth_error option"
  ev_generate_key :: "nat \<Rightarrow> (string \<times> string) option"
  ev_public_of_private :: "string \<Rightarrow> string option"
  ev_encrypt :: "nat \<Rightarrow> string \<Rightarrow> string option"
  ev_decrypt :: "string \<Rightarrow> string option"
  ev_sign :: "key_pair \<Rightarrow> claims \<Rightarrow> string option"
  ev_jwt_kid :: "string \<Rightarrow> (string option, verifier_error) result"
  ev_jwt_decode :: "string \<Rightarrow> string \<Rightarrow> string \<Rightarrow> string \<Rightarrow> (claims, verifier_error) result"
  ev_issuer :: string
  ev_audience :: string
  ev_public_url :: string
  ev_access_ttl :: nat
  ev_refresh_ttl :: nat

record auth_world =
  w_db :: auth_db
  w_now :: instant
  w_fresh :: nat
  w_statements :: nat
  w_mails :: "(string \<times> mail) list"
  w_keyring :: keyring

section \<open>Computations\<close>

type_synonym ('a, 'e) act = "(auth_world, 'a, 'e) comp"

definition exec_sql :: "auth_env \<Rightarrow> 'a statement \<Rightarrow> ('a, auth_error) act" where
  "exec_sql env st w =
     (let w' = w\<lparr>w_statements := Suc (w_statements w)\<rparr> in
      if ev_fails env (w_statements w) then (Err AeInternal, w')
      else case st (w_now w) (w_db w) of (r, db') \<Rightarrow> (r, w'\<lparr>w_db := db'\<rparr>))"

text \<open>\<open>store.find_...().await?.ok_or(e)?\<close>.\<close>

definition exec_some :: "auth_env \<Rightarrow> 'a option statement \<Rightarrow> auth_error \<Rightarrow> ('a, auth_error) act" where
  "exec_some env st e = bind (exec_sql env st) (\<lambda>x. lift (ok_or e x))"

definition clock :: "(instant, 'e) act" where
  "clock w = (Ok (w_now w), w)"

definition fresh :: "(nat \<Rightarrow> 'a) \<Rightarrow> ('a, 'e) act" where
  "fresh f w = (Ok (f (w_fresh w)), w\<lparr>w_fresh := Suc (w_fresh w)\<rparr>)"

text \<open>
  \<open>Utc::now() + Duration::seconds(ttl as i64)\<close>: the cast keeps the bits, a duration of more than
  \<open>i64::MAX\<close> milliseconds panics, and so does an instant outside the calendar of \<open>chrono\<close>.
\<close>

definition as_i64 :: "nat \<Rightarrow> int" where
  "as_i64 n = sint (of_nat n :: 64 word)"

definition now_plus :: "int \<Rightarrow> (instant, 'e) act" where
  "now_plus secs w =
     (if \<bar>secs\<bar> > 9223372036854775 \<or> \<not> in_calendar (w_now w + seconds secs) then (Panic, w)
      else (Ok (w_now w + seconds secs), w))"

definition send_mail :: "auth_env \<Rightarrow> string \<Rightarrow> mail \<Rightarrow> (unit, auth_error) act" where
  "send_mail env to m w =
     (case ev_send env (length (w_mails w)) of
        Some e \<Rightarrow> (Err e, w)
      | None \<Rightarrow> (Ok (), w\<lparr>w_mails := w_mails w @ [(to, m)]\<rparr>))"

section \<open>The keyring\<close>

definition empty_keyring :: "instant \<Rightarrow> keyring" where
  "empty_keyring t = \<lparr>kr_active = None, kr_all_keys = [], kr_last_refresh = t\<rparr>"

definition find_key :: "keyring \<Rightarrow> string \<Rightarrow> key_pair option" where
  "find_key kr kid = find (\<lambda>k. kp_kid k = kid) (kr_all_keys kr)"

definition needs_refresh :: "keyring \<Rightarrow> instant \<Rightarrow> int \<Rightarrow> bool" where
  "needs_refresh kr t interval =
     (let elapsed = (if t - kr_last_refresh kr < 0 then interval else t - kr_last_refresh kr)
      in interval \<le> elapsed)"

definition key_from_pem :: "auth_env \<Rightarrow> string \<Rightarrow> string \<Rightarrow> (key_pair, key_error) result" where
  "key_from_pem env kid pem =
     and_then (ok_or KeyDecoding (ev_public_of_private env pem)) (\<lambda>pub.
       Ok \<lparr>kp_kid = kid, kp_private = pem, kp_public = pub\<rparr>)"

definition from_signing_key :: "auth_env \<Rightarrow> signing_key \<Rightarrow> (key_pair, key_error) result" where
  "from_signing_key env k =
     and_then (ok_or KeyEncryption (ev_decrypt env (sk_private_key_pem k))) (\<lambda>pem.
       key_from_pem env (sk_kid k) pem)"

definition generate_key :: "auth_env \<Rightarrow> (key_pair, key_error) act" where
  "generate_key env =
     bind (fresh (ev_generate_key env)) (\<lambda>pair.
     bind (lift (ok_or KeyGeneration pair)) (\<lambda>(priv, pub).
     bind (fresh (ev_uuid env)) (\<lambda>id. ret \<lparr>kp_kid = ''k_'' @ id, kp_private = priv, kp_public = pub\<rparr>)))"

definition to_signing_key :: "auth_env \<Rightarrow> key_pair \<Rightarrow> (signing_key, key_error) act" where
  "to_signing_key env k =
     bind (fresh (\<lambda>n. ev_encrypt env n (kp_private k))) (\<lambda>c.
     bind (lift (ok_or KeyEncryption c)) (\<lambda>encrypted.
     bind clock (\<lambda>t.
       ret \<lparr>sk_kid = kp_kid k, sk_algorithm = ''RS256'', sk_private_key_pem = encrypted,
            sk_public_key_pem = kp_public k, sk_created_at = t, sk_activated_at = t,
            sk_rotated_at = None, sk_retired_at = None\<rparr>)))"

definition set_keyring :: "(keyring \<Rightarrow> keyring) \<Rightarrow> (unit, 'e) act" where
  "set_keyring f w = (Ok (), w\<lparr>w_keyring := f (w_keyring w)\<rparr>)"

definition get_keyring :: "(keyring, 'e) act" where
  "get_keyring w = (Ok (w_keyring w), w)"

text \<open>The loop of \<open>refresh\<close>: the pairs, and the last key that is not rotated as the active one.\<close>

fun load_keys ::
  "auth_env \<Rightarrow> signing_key list \<Rightarrow> key_pair option \<Rightarrow> key_pair list \<Rightarrow>
   (key_pair option \<times> key_pair list, key_error) result" where
  "load_keys env [] active pairs = Ok (active, pairs)"
| "load_keys env (k # ks) active pairs =
     and_then (from_signing_key env k) (\<lambda>kp.
     and_then (if sk_rotated_at k = None then and_then (from_signing_key env k) (\<lambda>a. Ok (Some a)) else Ok active)
       (\<lambda>active'. load_keys env ks active' (pairs @ [kp])))"

definition keyring_refresh :: "auth_env \<Rightarrow> (unit, key_error) act" where
  "keyring_refresh env =
     bind (map_error KeyStore (exec_sql env get_jwks_keys)) (\<lambda>keys.
     bind (lift (load_keys env keys None [])) (\<lambda>(active, pairs).
     bind clock (\<lambda>t.
       set_keyring (\<lambda>kr. kr\<lparr>kr_active := active, kr_all_keys := pairs, kr_last_refresh := t\<rparr>))))"

definition ensure_active_key :: "auth_env \<Rightarrow> (unit, key_error) act" where
  "ensure_active_key env =
     bind get_keyring (\<lambda>kr.
     if kr_active kr \<noteq> None then ret ()
     else
       bind (map_error KeyStore (exec_sql env get_active_signing_key)) (\<lambda>stored. case stored of
         Some key \<Rightarrow>
           bind (lift (from_signing_key env key)) (\<lambda>kp.
           bind (lift (from_signing_key env key)) (\<lambda>kp'.
             set_keyring (\<lambda>kr. kr\<lparr>kr_all_keys := kr_all_keys kr @ [kp'], kr_active := Some kp\<rparr>)))
       | None \<Rightarrow>
           bind (generate_key env) (\<lambda>kp.
           bind (to_signing_key env kp) (\<lambda>sk.
           bind (map_error KeyStore (exec_sql env (store_signing_key sk))) (\<lambda>_.
           bind (lift (from_signing_key env sk)) (\<lambda>kp'.
             set_keyring (\<lambda>kr. kr\<lparr>kr_all_keys := kr_all_keys kr @ [kp'], kr_active := Some kp\<rparr>)))))))"

definition keyring_rotate :: "auth_env \<Rightarrow> (string, key_error) act" where
  "keyring_rotate env =
     bind get_keyring (\<lambda>kr.
     bind (lift (ok_or NoActiveKey (map_option kp_kid (kr_active kr)))) (\<lambda>old_kid.
     bind (generate_key env) (\<lambda>new_kp.
     bind (to_signing_key env new_kp) (\<lambda>sk.
     bind (map_error KeyStore (exec_sql env (rotate_signing_key old_kid sk))) (\<lambda>_.
     bind (keyring_refresh env) (\<lambda>_. ret (kp_kid new_kp)))))))"

definition retire_old_keys :: "auth_env \<Rightarrow> (nat, key_error) act" where
  "retire_old_keys env =
     bind (map_error KeyStore (exec_sql env retire_old_signing_keys)) (\<lambda>count.
     bind (if 0 < count then keyring_refresh env else ret ()) (\<lambda>_. ret count))"

end
