(* ===== verification/Auth_Service.thy ===== *)
theory Auth_Service
  imports Auth_Keys
begin

text \<open>
  The authentication service (\<open>crates/reactor-auth/src/service.rs\<close>), token issue and verification
  (\<open>token/issuer.rs\<close>, \<open>token/verifier.rs\<close>, \<open>token/refresh.rs\<close>) and the password policy
  (\<open>password.rs\<close>), as computations over the world of \<open>Auth_Keys\<close>.
\<close>

section \<open>Passwords (password.rs)\<close>

definition password_policy :: "string \<Rightarrow> (unit, string) result" where
  "password_policy password =
     (if length password < 8 then Err (''password must be at least '' @ show_nat 8 @ '' characters'')
      else if 128 < length password then Err (''password must be at most '' @ show_nat 128 @ '' characters'')
      else Ok ())"

definition hash_password :: "auth_env \<Rightarrow> string \<Rightarrow> (string, auth_error) act" where
  "hash_password env password =
     bind (fresh (\<lambda>n. ev_hash_password env n password)) (\<lambda>h. lift (ok_or AeInternal h))"

section \<open>Tokens (token/)\<close>

definition timestamp :: "instant \<Rightarrow> i64" where
  "timestamp t = word_of_int (t div 1000000)"

definition refresh_token_prefix :: string where
  "refresh_token_prefix = ''rrf_''"

definition generate_refresh_token :: "auth_env \<Rightarrow> (string \<times> string, 'e) act" where
  "generate_refresh_token env =
     bind (fresh (ev_random env)) (\<lambda>random.
       let token = refresh_token_prefix @ random in ret (token, ev_sha256 env token))"

record refresh_token_data =
  rd_id :: uuid
  rd_token_hash :: string
  rd_expires_at :: instant

definition refresh_token_data_new :: "auth_env \<Rightarrow> (string \<times> refresh_token_data, 'e) act" where
  "refresh_token_data_new env =
     bind (generate_refresh_token env) (\<lambda>(token, hash).
     bind (fresh (ev_uuid env)) (\<lambda>id.
     bind (now_plus (as_i64 (ev_refresh_ttl env))) (\<lambda>expires_at.
       ret (token, \<lparr>rd_id = id, rd_token_hash = hash, rd_expires_at = expires_at\<rparr>))))"

text \<open>The issuer's errors are logged and become an internal error of the service.\<close>

definition issue_access_token ::
  "auth_env \<Rightarrow> uuid \<Rightarrow> string option \<Rightarrow> uuid \<Rightarrow> auth_method list \<Rightarrow> uuid list \<Rightarrow> uuid option \<Rightarrow>
   string list \<Rightarrow> i64 option \<Rightarrow> (string, auth_error) act" where
  "issue_access_token env u email s amr orgs default_org scopes mfa_at =
     bind get_keyring (\<lambda>kr.
     bind (lift (ok_or AeInternal (kr_active kr))) (\<lambda>key.
     bind clock (\<lambda>t.
     bind (now_plus (as_i64 (ev_access_ttl env))) (\<lambda>expires.
       lift (ok_or AeInternal (ev_sign env key
         \<lparr>cl_sub = ''user_'' @ u, cl_iss = ev_issuer env, cl_aud = ev_audience env,
          cl_exp = timestamp expires, cl_iat = timestamp t, cl_nbf = Some (timestamp t), cl_email = email,
          cl_amr = amr, cl_orgs = orgs, cl_default_org = default_org, cl_session_id = Some s,
          cl_scopes = scopes, cl_mfa_at = mfa_at\<rparr>))))))"

definition verify :: "auth_env \<Rightarrow> keyring \<Rightarrow> string \<Rightarrow> (claims, verifier_error) result" where
  "verify env kr token =
     and_then (ev_jwt_kid env token) (\<lambda>kid.
     and_then (ok_or VeInvalidFormat kid) (\<lambda>kid.
     and_then (ok_or (VeUnknownKey kid) (find_key kr kid)) (\<lambda>key.
       ev_jwt_decode env (kp_public key) (ev_issuer env) (ev_audience env) token)))"

fun auth_error_of :: "verifier_error \<Rightarrow> auth_error" where
  "auth_error_of VeExpired = AeTokenExpired"
| "auth_error_of _ = AeInvalidToken"

definition verify_token :: "auth_env \<Rightarrow> string \<Rightarrow> (claims, auth_error) act" where
  "verify_token env token = bind get_keyring (\<lambda>kr. lift (map_err auth_error_of (verify env kr token)))"

section \<open>Responses\<close>

record auth_response =
  ar_user :: user
  ar_session :: session
  ar_access_token :: string
  ar_refresh_token :: string
  ar_expires_at :: instant

definition parse_amr :: "string \<Rightarrow> auth_method option" where
  "parse_amr s =
     (if s = ''pwd'' then Some MethPwd
      else if s = ''totp'' then Some MethTotp
      else if s = ''apikey'' then Some MethApikey
      else if s = ''magic_link'' then Some MethMagicLink
      else None)"

definition issue_tokens :: "auth_env \<Rightarrow> user \<Rightarrow> session \<Rightarrow> (auth_response, auth_error) act" where
  "issue_tokens env u s =
     bind (exec_sql env (list_user_orgs_rows (us_id u))) (\<lambda>orgs.
     bind (issue_access_token env (us_id u) (Some (us_email u)) (se_id s) (List.map_filter parse_amr (se_amr s))
            (map og_id orgs) (us_default_org_id u) [] None) (\<lambda>access_token.
     bind (refresh_token_data_new env) (\<lambda>(refresh_token, data).
     bind (exec_sql env (create_refresh_token (rd_id data) (se_id s) (rd_token_hash data) (rd_expires_at data))) (\<lambda>_.
     bind (now_plus (as_i64 (ev_access_ttl env))) (\<lambda>expires_at.
       ret \<lparr>ar_user = u, ar_session = s, ar_access_token = access_token,
            ar_refresh_token = refresh_token, ar_expires_at = expires_at\<rparr>)))))"

section \<open>Sign-up and verification\<close>

definition trim_end_slash :: "string \<Rightarrow> string" where
  "trim_end_slash s = rev (dropWhile (\<lambda>c. c = CHR ''/'') (rev s))"

definition send_verification_email :: "auth_env \<Rightarrow> user \<Rightarrow> (unit, auth_error) act" where
  "send_verification_email env u =
     bind (fresh (ev_random env)) (\<lambda>token.
     bind (now_plus (24 * 3600)) (\<lambda>expires_at.
     bind (fresh (ev_uuid env)) (\<lambda>id.
     bind (exec_sql env (create_verification_token id (us_id u) (ev_sha256 env token) ''email'' expires_at)) (\<lambda>_.
       send_mail env (us_email u)
         (VerificationMail (trim_end_slash (ev_public_url env) @ ''/auth/v1/verify?token='' @ token))))))"

definition new_session ::
  "auth_env \<Rightarrow> user \<Rightarrow> string list \<Rightarrow> string option \<Rightarrow> string option \<Rightarrow> (session, auth_error) act" where
  "new_session env u amr ip user_agent =
     bind (fresh (ev_uuid env)) (\<lambda>id. exec_sql env (create_session (ev_pg env) id (us_id u) amr ip user_agent))"

definition signup ::
  "auth_env \<Rightarrow> string \<Rightarrow> string \<Rightarrow> json \<Rightarrow> string option \<Rightarrow> string option \<Rightarrow> (auth_response, auth_error) act" where
  "signup env email password metadata ip user_agent =
     bind (exec_sql env (find_user_by_email (ev_pg env) email)) (\<lambda>existing.
     if existing \<noteq> None then lift (Err AeEmailExists)
     else
       bind (hash_password env password) (\<lambda>hash.
       bind (fresh (ev_uuid env)) (\<lambda>id.
       bind (exec_sql env (create_user (ev_pg env) id email (Some hash) metadata)) (\<lambda>u.
       bind (if ev_mail_enabled env then ignore_error (send_verification_email env u) else ret ()) (\<lambda>_.
       bind (new_session env u [''pwd''] ip user_agent) (\<lambda>s.
         issue_tokens env u s))))))"

definition verify_email :: "auth_env \<Rightarrow> string \<Rightarrow> (user, auth_error) act" where
  "verify_email env token =
     (let hash = ev_sha256 env token in
      bind (exec_some env (find_verification_token_by_hash hash ''email'') AeInvalidToken) (\<lambda>v.
      bind (exec_sql env (use_verification_token hash)) (\<lambda>_.
        exec_sql env (update_user (ev_pg env) (vt_user_id v) None None (Some True) None None))))"

section \<open>Password reset\<close>

definition request_password_reset :: "auth_env \<Rightarrow> string \<Rightarrow> (unit, auth_error) act" where
  "request_password_reset env email =
     bind (exec_sql env (find_user_by_email (ev_pg env) email)) (\<lambda>found. case found of
       None \<Rightarrow> ret ()
     | Some u \<Rightarrow>
         if is_disabled u then ret ()
         else if \<not> us_email_verified u then ret ()
         else
           bind (fresh (ev_random env)) (\<lambda>token.
           bind (now_plus 3600) (\<lambda>expires_at.
           bind (fresh (ev_uuid env)) (\<lambda>id.
           bind (exec_sql env (create_verification_token id (us_id u) (ev_sha256 env token) ''password_reset'' expires_at)) (\<lambda>_.
             send_mail env (us_email u)
               (ResetMail (trim_end_slash (ev_public_url env) @ ''/reset?token='' @ token)))))))"

definition confirm_password_reset :: "auth_env \<Rightarrow> string \<Rightarrow> string \<Rightarrow> (unit, auth_error) act" where
  "confirm_password_reset env token new_password =
     (let hash = ev_sha256 env token in
      bind (exec_some env (find_verification_token_by_hash hash ''password_reset'') AeInvalidToken) (\<lambda>v.
      bind (lift (map_err AeWeakPassword (password_policy new_password))) (\<lambda>_.
      bind (hash_password env new_password) (\<lambda>password_hash.
      bind (exec_sql env (use_verification_token hash)) (\<lambda>_.
      bind (exec_sql env (update_user (ev_pg env) (vt_user_id v) None (Some password_hash) None None None)) (\<lambda>_.
      bind (exec_sql env (revoke_user_sessions (vt_user_id v))) (\<lambda>_. ret ())))))))"

section \<open>Grants\<close>

definition password_grant ::
  "auth_env \<Rightarrow> string \<Rightarrow> string \<Rightarrow> string option \<Rightarrow> string option \<Rightarrow> (auth_response, auth_error) act" where
  "password_grant env email password ip user_agent =
     bind (exec_some env (find_user_by_email (ev_pg env) email) AeInvalidCredentials) (\<lambda>u.
     if is_disabled u then lift (Err AeUserDisabled)
     else
       bind (exec_some env (get_password_hash (us_id u)) AeInvalidCredentials) (\<lambda>password_hash.
       bind (lift (ok_or AeInternal (ev_verify_password env password password_hash))) (\<lambda>valid.
       if \<not> valid then lift (Err AeInvalidCredentials)
       else
         bind (new_session env u [''pwd''] ip user_agent) (\<lambda>s.
           issue_tokens env u s))))"

text \<open>\<open>refresh\<close> rotates the token first and looks at the session and the user afterwards.\<close>

definition refresh_finish :: "auth_env \<Rightarrow> string \<Rightarrow> refresh_token \<Rightarrow> (auth_response, auth_error) act" where
  "refresh_finish env new_token new_refresh =
     bind (exec_some env (find_session_by_id (rt_session_id new_refresh)) AeSessionRevoked) (\<lambda>s.
     if se_revoked_at s \<noteq> None then lift (Err AeSessionRevoked)
     else
       bind (exec_some env (find_user_by_id (se_user_id s)) AeUserNotFound) (\<lambda>u.
       if is_disabled u then lift (Err AeUserDisabled)
       else
         bind (exec_sql env (list_user_orgs_rows (us_id u))) (\<lambda>orgs.
         bind (issue_access_token env (us_id u) (Some (us_email u)) (se_id s)
                (List.map_filter parse_amr (se_amr s)) (map og_id orgs) (us_default_org_id u) [] None) (\<lambda>access_token.
         bind (now_plus (as_i64 (ev_access_ttl env))) (\<lambda>expires_at.
           ret \<lparr>ar_user = u, ar_session = s, ar_access_token = access_token,
                ar_refresh_token = new_token, ar_expires_at = expires_at\<rparr>)))))"

definition refresh :: "auth_env \<Rightarrow> string \<Rightarrow> (auth_response, auth_error) act" where
  "refresh env refresh_token =
     (let token_hash = ev_sha256 env refresh_token in
      bind (refresh_token_data_new env) (\<lambda>(new_token, new_data).
      bind (exec_sql env (rotate_refresh_token token_hash (rd_id new_data) (rd_token_hash new_data) (rd_expires_at new_data)))
        (refresh_finish env new_token)))"

definition logout :: "auth_env \<Rightarrow> uuid \<Rightarrow> (unit, auth_error) act" where
  "logout env s = exec_sql env (revoke_session s)"

definition get_user :: "auth_env \<Rightarrow> uuid \<Rightarrow> (user, auth_error) act" where
  "get_user env u = exec_some env (find_user_by_id u) AeUserNotFound"

definition service_update_user ::
  "auth_env \<Rightarrow> uuid \<Rightarrow> string option \<Rightarrow> string option \<Rightarrow> json option \<Rightarrow> (user, auth_error) act" where
  "service_update_user env u email password_hash metadata =
     exec_sql env (update_user (ev_pg env) u email password_hash
       (if email \<noteq> None then Some False else None) metadata None)"

definition delete_user :: "auth_env \<Rightarrow> uuid \<Rightarrow> (unit, auth_error) act" where
  "delete_user env u = bind (exec_sql env (revoke_user_sessions u)) (\<lambda>_. exec_sql env (disable_user u))"

end
