(* ===== verification/Auth_Orgs.thy ===== *)
theory Auth_Orgs
  imports Auth_Service
begin

text \<open>
  The rest of \<open>crates/reactor-auth/src/service.rs\<close>: organizations, members and invitations, step-up
  tokens, the PKCE authorization code flow and platform operators; and the handlers of
  \<open>routes/\<close> that decide who may call them.
\<close>

section \<open>Organizations\<close>

definition create_org ::
  "auth_env \<Rightarrow> uuid \<Rightarrow> string \<Rightarrow> string \<Rightarrow> json \<Rightarrow> (org, auth_error) act" where
  "create_org env creator name slug metadata =
     bind (fresh (ev_uuid env)) (\<lambda>g.
     bind (exec_sql env (create_org_row (ev_pg env) g name slug metadata)) (\<lambda>og.
     bind (fresh (ev_uuid env)) (\<lambda>owner.
     bind (fresh (ev_uuid env)) (\<lambda>admin.
     bind (fresh (ev_uuid env)) (\<lambda>member.
     bind (exec_sql env (create_role owner g ''owner'' (Some ''Full access'') True [''*''])) (\<lambda>_.
     bind (exec_sql env (create_role admin g ''admin'' (Some ''Administrative access'') True
            [''auth:*:read'', ''auth:users:write'', ''auth:orgs:read'', ''data:*:*'', ''storage:*:*'',
             ''functions:*:*''])) (\<lambda>_.
     bind (exec_sql env (create_role member g ''member'' (Some ''Basic access'') True
            [''auth:users:read'', ''auth:orgs:read'', ''data:*:read'', ''storage:*:read''])) (\<lambda>_.
     bind (exec_sql env (create_membership creator g owner)) (\<lambda>_. ret og)))))))))"

definition get_org_by_ref :: "auth_env \<Rightarrow> string \<Rightarrow> (org, auth_error) act" where
  "get_org_by_ref env org_ref =
     (case ev_parse_uuid env org_ref of
        Some g \<Rightarrow> exec_some env (find_org_by_id g) AeOrgNotFound
      | None \<Rightarrow> exec_some env (find_org_by_slug (ev_pg env) org_ref) AeOrgNotFound)"

definition resolve_org_ref :: "auth_env \<Rightarrow> string \<Rightarrow> (uuid, auth_error) act" where
  "resolve_org_ref env org_ref = bind (get_org_by_ref env org_ref) (\<lambda>og. ret (og_id og))"

definition check_org_membership :: "auth_env \<Rightarrow> uuid \<Rightarrow> uuid \<Rightarrow> (unit, auth_error) act" where
  "check_org_membership env u g =
     bind (exec_sql env (find_membership u g)) (\<lambda>m. if m = None then lift (Err AePermissionDenied) else ret ())"

definition member_role :: "auth_env \<Rightarrow> uuid \<Rightarrow> uuid \<Rightarrow> (role, auth_error) act" where
  "member_role env u g =
     bind (exec_some env (find_membership u g) AePermissionDenied) (\<lambda>m.
       exec_some env (find_role_by_id (mb_role_id m)) AeInternal)"

definition require_org_owner :: "auth_env \<Rightarrow> uuid \<Rightarrow> uuid \<Rightarrow> (unit, auth_error) act" where
  "require_org_owner env u g =
     bind (member_role env u g) (\<lambda>r.
       if ro_name r \<noteq> ''owner'' then lift (Err AePermissionDenied) else ret ())"

definition require_org_admin_or_owner :: "auth_env \<Rightarrow> uuid \<Rightarrow> uuid \<Rightarrow> (unit, auth_error) act" where
  "require_org_admin_or_owner env u g =
     bind (member_role env u g) (\<lambda>r.
       if ro_name r \<noteq> ''owner'' \<and> ro_name r \<noteq> ''admin'' then lift (Err AePermissionDenied) else ret ())"

definition update_org ::
  "auth_env \<Rightarrow> uuid \<Rightarrow> string option \<Rightarrow> string option \<Rightarrow> json option \<Rightarrow> (org, auth_error) act" where
  "update_org env g name slug metadata = exec_sql env (update_org_row (ev_pg env) g name slug metadata)"

definition delete_org :: "auth_env \<Rightarrow> uuid \<Rightarrow> (unit, auth_error) act" where
  "delete_org env g = exec_sql env (delete_org_row g)"

text \<open>Roles with their permissions: one more statement for every role.\<close>

fun with_permissions :: "auth_env \<Rightarrow> role list \<Rightarrow> ((role \<times> string list) list, auth_error) act" where
  "with_permissions env [] = ret []"
| "with_permissions env (r # rs) =
     bind (exec_sql env (get_role_permissions (ro_id r))) (\<lambda>ps.
     bind (with_permissions env rs) (\<lambda>rest. ret ((r, ps) # rest)))"

definition list_org_roles :: "auth_env \<Rightarrow> uuid \<Rightarrow> ((role \<times> string list) list, auth_error) act" where
  "list_org_roles env g = bind (exec_sql env (list_org_roles_rows g)) (with_permissions env)"

section \<open>Members\<close>

definition get_member :: "auth_env \<Rightarrow> uuid \<Rightarrow> uuid \<Rightarrow> (user \<times> membership \<times> role, auth_error) act" where
  "get_member env g u =
     bind (exec_some env (find_membership u g) AeMembershipNotFound) (\<lambda>m.
     bind (exec_some env (find_user_by_id u) AeUserNotFound) (\<lambda>us.
     bind (exec_some env (find_role_by_id (mb_role_id m)) AeInternal) (\<lambda>r. ret (us, m, r))))"

text \<open>The guard of the last owner, before a demotion or a removal.\<close>

definition guard_last_owner :: "auth_env \<Rightarrow> uuid \<Rightarrow> uuid \<Rightarrow> bool \<Rightarrow> (unit, auth_error) act" where
  "guard_last_owner env g r losing_owner =
     (if losing_owner then
        bind (exec_sql env (count_members_with_role g r)) (\<lambda>owner_count.
          if owner_count \<le> 1 then lift (Err AeLastOwner) else ret ())
      else ret ())"

definition update_member_role ::
  "auth_env \<Rightarrow> uuid \<Rightarrow> uuid \<Rightarrow> uuid \<Rightarrow> (user \<times> membership \<times> role, auth_error) act" where
  "update_member_role env g u new_role_id =
     bind (exec_some env (find_membership u g) AeMembershipNotFound) (\<lambda>m.
     bind (exec_some env (find_role_by_id (mb_role_id m)) AeInternal) (\<lambda>current.
     bind (exec_some env (find_role_by_id new_role_id) AeRoleNotFound) (\<lambda>new.
     if ro_org_id new \<noteq> g then lift (Err AeRoleNotFound)
     else
       bind (guard_last_owner env g (mb_role_id m) (ro_name current = ''owner'' \<and> ro_name new \<noteq> ''owner'')) (\<lambda>_.
       bind (exec_sql env (update_membership_role u g new_role_id)) (\<lambda>m'.
       bind (exec_some env (find_user_by_id u) AeUserNotFound) (\<lambda>us. ret (us, m', new)))))))"

definition remove_member :: "auth_env \<Rightarrow> uuid \<Rightarrow> uuid \<Rightarrow> (unit, auth_error) act" where
  "remove_member env g u =
     bind (exec_some env (find_membership u g) AeMembershipNotFound) (\<lambda>m.
     bind (exec_some env (find_role_by_id (mb_role_id m)) AeInternal) (\<lambda>r.
     bind (guard_last_owner env g (mb_role_id m) (ro_name r = ''owner'')) (\<lambda>_.
       exec_sql env (delete_membership u g))))"

section \<open>Invitations\<close>

definition create_invitation ::
  "auth_env \<Rightarrow> uuid \<Rightarrow> string \<Rightarrow> uuid \<Rightarrow> (invitation \<times> string, auth_error) act" where
  "create_invitation env g email r =
     bind (exec_some env (find_role_by_id r) AeRoleNotFound) (\<lambda>ro.
     if ro_org_id ro \<noteq> g then lift (Err AeRoleNotFound)
     else
       bind (exec_some env (find_org_by_id g) AeOrgNotFound) (\<lambda>og.
       bind (fresh (ev_random env)) (\<lambda>token.
       bind (now_plus (7 * 86400)) (\<lambda>expires_at.
       bind (fresh (ev_uuid env)) (\<lambda>id.
       bind (exec_sql env (create_invitation_row id (ev_sha256 env token) email g r expires_at)) (\<lambda>_.
       let invite_link = ev_public_url env @ ''/auth/v1/invitations/accept?token='' @ token in
       bind (exec_some env (find_invitation_by_hash (ev_sha256 env token)) AeInternal) (\<lambda>iv.
       bind (if ev_mail_enabled env
             then ignore_error (send_mail env email (InvitationMail (og_name og) (ro_name ro) invite_link))
             else ret ()) (\<lambda>_. ret (iv, invite_link)))))))))"

definition list_org_invitations :: "auth_env \<Rightarrow> uuid \<Rightarrow> (invitation list, auth_error) act" where
  "list_org_invitations env g = exec_sql env (list_org_invitations_rows g)"

definition delete_invitation :: "auth_env \<Rightarrow> uuid \<Rightarrow> (unit, auth_error) act" where
  "delete_invitation env i = lift (Err AeInvitationNotFound)"

record accept_response =
  ai_status :: string
  ai_user_id :: "string option"
  ai_org_id :: string
  ai_email :: string
  ai_requires_signup :: bool

definition accept_invitation :: "auth_env \<Rightarrow> string \<Rightarrow> (accept_response, auth_error) act" where
  "accept_invitation env token =
     (let hash = ev_sha256 env token in
      bind (exec_some env (find_invitation_by_hash hash) AeInvitationNotFound) (\<lambda>iv.
      bind clock (\<lambda>t.
      if iv_expires_at iv < t then lift (Err AeInvitationNotFound)
      else
        bind (exec_sql env (find_user_by_email (ev_pg env) (iv_email iv))) (\<lambda>existing. case existing of
          Some u \<Rightarrow>
            bind (exec_sql env (create_membership (us_id u) (iv_org_id iv) (iv_role_id iv))) (\<lambda>_.
            bind (exec_sql env (use_invitation hash)) (\<lambda>_.
              ret \<lparr>ai_status = ''joined'', ai_user_id = Some (us_id u), ai_org_id = iv_org_id iv,
                   ai_email = iv_email iv, ai_requires_signup = False\<rparr>))
        | None \<Rightarrow>
            ret \<lparr>ai_status = ''pending_signup'', ai_user_id = None, ai_org_id = iv_org_id iv,
                 ai_email = iv_email iv, ai_requires_signup = True\<rparr>))))"

section \<open>Step-up tokens\<close>

record mfa_response =
  mf_access_token :: string
  mf_refresh_token :: string
  mf_expires_at :: instant
  mf_mfa_at :: i64
  mf_scopes :: "string list"

definition issue_mfa_tokens ::
  "auth_env \<Rightarrow> uuid \<Rightarrow> uuid \<Rightarrow> string list \<Rightarrow> (mfa_response, auth_error) act" where
  "issue_mfa_tokens env u s scopes =
     bind (exec_some env (find_user_by_id u) AeUserNotFound) (\<lambda>us.
     bind (exec_some env (find_session_by_id s) AeInvalidToken) (\<lambda>se.
     let amr = (if ''hwk'' \<in> set (se_amr se) then se_amr se else se_amr se @ [''hwk'']) in
     bind (exec_sql env (list_user_orgs_rows (us_id us))) (\<lambda>orgs.
     bind clock (\<lambda>t.
     bind (issue_access_token env (us_id us) (Some (us_email us)) (se_id se) (List.map_filter parse_amr amr)
            (map og_id orgs) (us_default_org_id us) scopes (Some (timestamp t))) (\<lambda>access_token.
     bind (refresh_token_data_new env) (\<lambda>(refresh_token, data).
     bind (exec_sql env (create_refresh_token (rd_id data) (se_id se) (rd_token_hash data) (rd_expires_at data))) (\<lambda>_.
     bind (now_plus (as_i64 (ev_access_ttl env))) (\<lambda>expires_at.
       ret \<lparr>mf_access_token = access_token, mf_refresh_token = refresh_token, mf_expires_at = expires_at,
            mf_mfa_at = timestamp t, mf_scopes = scopes\<rparr>))))))))"

section \<open>Authorization codes\<close>

definition verify_pkce_challenge :: "auth_env \<Rightarrow> string \<Rightarrow> string \<Rightarrow> string \<Rightarrow> bool" where
  "verify_pkce_challenge env verifier challenge meth =
     (if meth = ''S256'' then ev_base64url_sha256 env verifier = challenge
      else if meth = ''plain'' then verifier = challenge
      else False)"

definition create_authorization_code ::
  "auth_env \<Rightarrow> uuid \<Rightarrow> string \<Rightarrow> string \<Rightarrow> string list \<Rightarrow> string \<Rightarrow> string \<Rightarrow> string option \<Rightarrow>
   string option \<Rightarrow> uuid option \<Rightarrow> (string, auth_error) act" where
  "create_authorization_code env u client_id redirect_uri scopes challenge meth nonce state s =
     bind (fresh (ev_random env)) (\<lambda>code.
     bind (now_plus 600) (\<lambda>expires_at.
     bind (fresh (ev_uuid env)) (\<lambda>id.
     bind clock (\<lambda>t.
     bind (exec_sql env (create_authorization_row
            \<lparr>ac_id = id, ac_user_id = u, ac_client_id = client_id, ac_redirect_uri = redirect_uri,
             ac_scopes = scopes, ac_code_challenge = challenge, ac_code_challenge_method = meth,
             ac_nonce = nonce, ac_state = state, ac_created_at = t, ac_expires_at = expires_at,
             ac_used_at = None, ac_session_id = s, ac_code_hash = ev_sha256 env code\<rparr>)) (\<lambda>_. ret code)))))"

definition exchange_authorization_code ::
  "auth_env \<Rightarrow> string \<Rightarrow> string \<Rightarrow> string \<Rightarrow> string \<Rightarrow> string option \<Rightarrow> string option \<Rightarrow>
   (auth_response \<times> string list, auth_error) act" where
  "exchange_authorization_code env code verifier client_id redirect_uri ip user_agent =
     (let hash = ev_sha256 env code in
      bind (exec_some env (find_authorization_code_by_hash hash) AeInvalidToken) (\<lambda>ac.
      if ac_client_id ac \<noteq> client_id then lift (Err AeInvalidToken)
      else if ac_redirect_uri ac \<noteq> redirect_uri then lift (Err AeInvalidToken)
      else if \<not> verify_pkce_challenge env verifier (ac_code_challenge ac) (ac_code_challenge_method ac)
      then lift (Err AeInvalidToken)
      else
        bind (exec_some env (find_user_by_id (ac_user_id ac)) AeUserNotFound) (\<lambda>u.
        if is_disabled u then lift (Err AeUserDisabled)
        else
          bind (new_session env u [''pkce''] ip user_agent) (\<lambda>s.
          bind (exec_sql env (use_authorization_code hash (se_id s))) (\<lambda>_.
          bind (issue_tokens env u s) (\<lambda>resp. ret (resp, ac_scopes ac)))))))"

section \<open>Platform operators\<close>

definition promote_to_platform_operator ::
  "auth_env \<Rightarrow> string \<Rightarrow> uuid option \<Rightarrow> (uuid, auth_error) act" where
  "promote_to_platform_operator env email granted_by =
     bind (exec_some env (find_user_by_email (ev_pg env) email) AeUserNotFound) (\<lambda>u.
     bind (exec_sql env (grant_platform_role (us_id u) ''platform_operator'' granted_by)) (\<lambda>_. ret (us_id u)))"

definition matches_permission :: "string \<Rightarrow> string \<Rightarrow> bool" where
  "matches_permission pattern required =
     (if pattern = ''*'' then True
      else if ends_with '':*'' pattern then starts_with (take (length pattern - 1) pattern) required
      else pattern = required)"

fun first_match :: "(string \<times> bool) list \<Rightarrow> string \<Rightarrow> bool \<times> bool" where
  "first_match [] required = (False, False)"
| "first_match ((perm, step_up) # rest) required =
     (if matches_permission perm required then (True, step_up) else first_match rest required)"

definition check_platform_permission :: "auth_env \<Rightarrow> uuid \<Rightarrow> string \<Rightarrow> (bool \<times> bool, auth_error) act" where
  "check_platform_permission env u required =
     bind (exec_sql env (platform_permission_rows u)) (\<lambda>permissions. ret (first_match permissions required))"

end
