(* ===== verification/Auth_Routes.thy ===== *)
theory Auth_Routes
  imports Auth_Orgs
begin

text \<open>
  The handlers of the auth service (\<open>crates/reactor-auth/src/routes/\<close>), the bearer extractor
  (\<open>extract.rs\<close>), the in-process client (\<open>client/in_process.rs\<close>) and the guard of the internal
  routes (\<open>router.rs\<close>). A header is its text, or \<open>None\<close> when it is missing or not a text; a
  handler yields what its response is made of. Handlers without a bearer argument are mounted
  without one.
\<close>

section \<open>The bearer (extract.rs)\<close>

definition bearer :: "auth_env \<Rightarrow> string option \<Rightarrow> (claims, auth_error) act" where
  "bearer env header =
     bind (lift (ok_or AeUnauthorized header)) (\<lambda>h.
     bind (lift (ok_or AeUnauthorized (strip_prefix ''Bearer '' h))) (\<lambda>token.
       verify_token env token))"

definition bearer_user :: "auth_env \<Rightarrow> string option \<Rightarrow> (claims \<times> uuid, auth_error) act" where
  "bearer_user env header =
     bind (bearer env header) (\<lambda>cl.
     bind (lift (ok_or AeUnauthorized (claims_user_id (ev_parse_uuid env) cl))) (\<lambda>u. ret (cl, u)))"

definition internal_secret_ok :: "string option \<Rightarrow> string \<Rightarrow> bool" where
  "internal_secret_ok header expected \<longleftrightarrow> header = Some expected"

definition parse_id :: "auth_env \<Rightarrow> string \<Rightarrow> string \<Rightarrow> (uuid, auth_error) act" where
  "parse_id env what text =
     lift (ok_or (AeValidationError (''invalid '' @ what)) (ev_parse_uuid env text))"

section \<open>Client address\<close>

definition client_ip :: "string option \<Rightarrow> string option \<Rightarrow> string option" where
  "client_ip forwarded real_ip =
     map_option (\<lambda>s. trim (hd (split_char (CHR '','') s)))
       (case forwarded of Some f \<Rightarrow> Some f | None \<Rightarrow> real_ip)"

section \<open>Organizations, members, invitations\<close>

definition route_create_org ::
  "auth_env \<Rightarrow> string option \<Rightarrow> string \<Rightarrow> string \<Rightarrow> json \<Rightarrow> (org, auth_error) act" where
  "route_create_org env header name slug metadata =
     bind (bearer_user env header) (\<lambda>(_, u). create_org env u name slug metadata)"

definition route_get_org :: "auth_env \<Rightarrow> string option \<Rightarrow> string \<Rightarrow> (org, auth_error) act" where
  "route_get_org env header org_ref =
     bind (bearer_user env header) (\<lambda>(_, u).
     bind (get_org_by_ref env org_ref) (\<lambda>og.
     bind (check_org_membership env u (og_id og)) (\<lambda>_. ret og)))"

definition route_update_org ::
  "auth_env \<Rightarrow> string option \<Rightarrow> string \<Rightarrow> string option \<Rightarrow> string option \<Rightarrow> json option \<Rightarrow>
   (org, auth_error) act" where
  "route_update_org env header org_ref name slug metadata =
     bind (bearer_user env header) (\<lambda>(_, u).
     bind (get_org_by_ref env org_ref) (\<lambda>og.
     bind (require_org_owner env u (og_id og)) (\<lambda>_.
       update_org env (og_id og) name slug metadata)))"

definition route_delete_org :: "auth_env \<Rightarrow> string option \<Rightarrow> string \<Rightarrow> (unit, auth_error) act" where
  "route_delete_org env header org_ref =
     bind (bearer_user env header) (\<lambda>(_, u).
     bind (get_org_by_ref env org_ref) (\<lambda>og.
     bind (require_org_owner env u (og_id og)) (\<lambda>_. delete_org env (og_id og))))"

definition route_list_members ::
  "auth_env \<Rightarrow> string option \<Rightarrow> string \<Rightarrow> ((user \<times> membership \<times> role) list, auth_error) act" where
  "route_list_members env header org_ref =
     bind (bearer_user env header) (\<lambda>(_, u).
     bind (get_org_by_ref env org_ref) (\<lambda>og.
     bind (check_org_membership env u (og_id og)) (\<lambda>_. exec_sql env (list_org_members_rows (og_id og)))))"

definition route_get_member ::
  "auth_env \<Rightarrow> string option \<Rightarrow> string \<Rightarrow> string \<Rightarrow> (user \<times> membership \<times> role, auth_error) act" where
  "route_get_member env header org_ref target_user_id =
     bind (bearer_user env header) (\<lambda>(_, u).
     bind (get_org_by_ref env org_ref) (\<lambda>og.
     bind (check_org_membership env u (og_id og)) (\<lambda>_.
     bind (parse_id env ''user_id'' target_user_id) (\<lambda>target. get_member env (og_id og) target))))"

definition route_update_member ::
  "auth_env \<Rightarrow> string option \<Rightarrow> string \<Rightarrow> string \<Rightarrow> string \<Rightarrow>
   (user \<times> membership \<times> role, auth_error) act" where
  "route_update_member env header org_ref target_user_id role_id =
     bind (bearer_user env header) (\<lambda>(_, u).
     bind (get_org_by_ref env org_ref) (\<lambda>og.
     bind (require_org_admin_or_owner env u (og_id og)) (\<lambda>_.
     bind (parse_id env ''user_id'' target_user_id) (\<lambda>target.
     bind (parse_id env ''role_id'' role_id) (\<lambda>new_role.
       update_member_role env (og_id og) target new_role)))))"

definition route_delete_member :: "auth_env \<Rightarrow> string option \<Rightarrow> string \<Rightarrow> string \<Rightarrow> (unit, auth_error) act" where
  "route_delete_member env header org_ref target_user_id =
     bind (bearer_user env header) (\<lambda>(_, u).
     bind (get_org_by_ref env org_ref) (\<lambda>og.
     bind (require_org_admin_or_owner env u (og_id og)) (\<lambda>_.
     bind (parse_id env ''user_id'' target_user_id) (\<lambda>target. remove_member env (og_id og) target))))"

definition route_create_invitation ::
  "auth_env \<Rightarrow> string option \<Rightarrow> string \<Rightarrow> string \<Rightarrow> string \<Rightarrow> (invitation \<times> string, auth_error) act" where
  "route_create_invitation env header org_ref email role_id =
     bind (bearer_user env header) (\<lambda>(_, u).
     bind (get_org_by_ref env org_ref) (\<lambda>og.
     bind (require_org_admin_or_owner env u (og_id og)) (\<lambda>_.
     bind (parse_id env ''role_id'' role_id) (\<lambda>r. create_invitation env (og_id og) email r))))"

definition route_list_invitations :: "auth_env \<Rightarrow> string option \<Rightarrow> string \<Rightarrow> (invitation list, auth_error) act" where
  "route_list_invitations env header org_ref =
     bind (bearer_user env header) (\<lambda>(_, u).
     bind (get_org_by_ref env org_ref) (\<lambda>og.
     bind (require_org_admin_or_owner env u (og_id og)) (\<lambda>_. list_org_invitations env (og_id og))))"

section \<open>The user's own account\<close>

definition route_update_user ::
  "auth_env \<Rightarrow> string option \<Rightarrow> string option \<Rightarrow> string option \<Rightarrow> json option \<Rightarrow> (user, auth_error) act" where
  "route_update_user env header email password metadata =
     bind (bearer_user env header) (\<lambda>(_, u).
     bind (case password of
             Some p \<Rightarrow> bind (hash_password env p) (\<lambda>h. ret (Some h))
           | None \<Rightarrow> ret None) (\<lambda>password_hash.
       service_update_user env u email password_hash metadata))"

definition route_delete_user :: "auth_env \<Rightarrow> string option \<Rightarrow> (unit, auth_error) act" where
  "route_delete_user env header = bind (bearer_user env header) (\<lambda>(_, u). delete_user env u)"

definition route_logout :: "auth_env \<Rightarrow> string option \<Rightarrow> (unit, auth_error) act" where
  "route_logout env header =
     bind (bearer env header) (\<lambda>cl. case cl_session_id cl of Some s \<Rightarrow> logout env s | None \<Rightarrow> ret ())"

section \<open>Permissions\<close>

datatype auth_org_ref = OrgId uuid | OrgSlug string

definition route_resolve_org :: "auth_env \<Rightarrow> auth_org_ref option \<Rightarrow> (uuid option, auth_error) act" where
  "route_resolve_org env r =
     (case r of
        Some (OrgId g) \<Rightarrow> ret (Some g)
      | Some (OrgSlug slug) \<Rightarrow> bind (resolve_org_ref env slug) (\<lambda>g. ret (Some g))
      | None \<Rightarrow> ret None)"

definition or_default :: "uuid option \<Rightarrow> uuid option \<Rightarrow> uuid option" where
  "or_default a b = (case a of Some x \<Rightarrow> Some x | None \<Rightarrow> b)"

definition route_get_permissions ::
  "auth_env \<Rightarrow> string option \<Rightarrow> auth_org_ref option \<Rightarrow> (string list, auth_error) act" where
  "route_get_permissions env header org_ctx =
     bind (bearer_user env header) (\<lambda>(cl, u).
     bind (route_resolve_org env org_ctx) (\<lambda>resolved.
     bind (lift (ok_or AeOrgRequired (or_default resolved (cl_default_org cl)))) (\<lambda>g.
       exec_sql env (get_user_permissions_rows u g))))"

definition route_check_permissions ::
  "auth_env \<Rightarrow> string option \<Rightarrow> auth_org_ref option \<Rightarrow> string list \<Rightarrow>
   (string list \<times> (string \<times> bool) list, auth_error) act" where
  "route_check_permissions env header org_ctx requested =
     bind (route_get_permissions env header org_ctx) (\<lambda>granted.
       ret (granted, map (\<lambda>p. (p, matches_any granted p)) requested))"

definition route_resolve_ctx ::
  "auth_env \<Rightarrow> string option \<Rightarrow> auth_org_ref option \<Rightarrow> (auth_ctx, auth_error) act" where
  "route_resolve_ctx env header org_ctx =
     bind (bearer_user env header) (\<lambda>(cl, u).
     bind (route_resolve_org env org_ctx) (\<lambda>resolved.
     let g = or_default resolved (cl_default_org cl) in
     bind (case g of Some oid \<Rightarrow> exec_sql env (get_user_permissions_rows u oid) | None \<Rightarrow> ret []) (\<lambda>permissions.
       ret \<lparr>ax_claims = cl, ax_active_org = g, ax_permissions = permissions\<rparr>)))"

text \<open>The same question asked in process, which requires the organization to be in the token.\<close>

definition client_resolve_ctx ::
  "auth_env \<Rightarrow> string \<Rightarrow> auth_org_ref option \<Rightarrow> (auth_ctx, auth_error) act" where
  "client_resolve_ctx env token requested =
     bind (verify_token env token) (\<lambda>cl.
     bind (route_resolve_org env requested) (\<lambda>resolved.
     let g = or_default resolved (cl_default_org cl) in
     bind (case g of Some oid \<Rightarrow> if oid \<in> set (cl_orgs cl) then ret () else lift (Err AeNotOrgMember)
           | None \<Rightarrow> ret ()) (\<lambda>_.
     bind (case g of
             Some oid \<Rightarrow>
               (case claims_user_id (ev_parse_uuid env) cl of
                  Some u \<Rightarrow> exec_sql env (get_user_permissions_rows u oid)
                | None \<Rightarrow> ret [])
           | None \<Rightarrow> ret []) (\<lambda>permissions.
       ret \<lparr>ax_claims = cl, ax_active_org = g, ax_permissions = permissions\<rparr>))))"

section \<open>The token endpoint\<close>

datatype grant =
    PasswordGrant string string
  | RefreshGrant string
  | CodeGrant string string string string
  | OtherGrant string

text \<open>What the response is made of, and the scope text.\<close>

definition route_token ::
  "auth_env \<Rightarrow> string option \<Rightarrow> string option \<Rightarrow> string option \<Rightarrow> grant \<Rightarrow> (auth_response \<times> string, auth_error) act" where
  "route_token env forwarded real_ip user_agent g =
     (case g of
        PasswordGrant email password \<Rightarrow>
          bind (password_grant env email password (client_ip forwarded real_ip) user_agent) (\<lambda>r. ret (r, []))
      | RefreshGrant token \<Rightarrow> bind (refresh env token) (\<lambda>r. ret (r, []))
      | CodeGrant code verifier client_id redirect_uri \<Rightarrow>
          bind (exchange_authorization_code env code verifier client_id redirect_uri
                 (client_ip forwarded real_ip) user_agent) (\<lambda>(r, scopes). ret (r, join '' '' scopes))
      | OtherGrant name \<Rightarrow> lift (Err (AeValidationError (''unsupported grant_type: '' @ name))))"

definition expires_in_secs :: "instant \<Rightarrow> instant \<Rightarrow> int" where
  "expires_in_secs expires_at t =
     (let d = expires_at - t in max 0 (if 0 \<le> d then d div 1000000 else - ((- d) div 1000000)))"

section \<open>The authorization endpoint\<close>

definition known_clients :: "string list" where
  "known_clients = [''reactor-cli'', ''reactor-web'']"

record authorize_query =
  aq_client_id :: string
  aq_response_type :: string
  aq_redirect_uri :: string
  aq_scope :: "string option"
  aq_state :: "string option"
  aq_code_challenge :: string
  aq_code_challenge_method :: string
  aq_nonce :: "string option"

text \<open>A refusal, told to the given address with an error code; or the form.\<close>

datatype authorize_answer = AuthorizeError string string | AuthorizeForm

definition route_authorize :: "authorize_query \<Rightarrow> authorize_answer" where
  "route_authorize q =
     (if aq_response_type q \<noteq> ''code'' then AuthorizeError (aq_redirect_uri q) ''unsupported_response_type''
      else if aq_client_id q \<notin> set known_clients then AuthorizeError (aq_redirect_uri q) ''unauthorized_client''
      else if aq_code_challenge_method q \<noteq> ''S256'' then AuthorizeError (aq_redirect_uri q) ''invalid_request''
      else if length (aq_code_challenge q) < 43 then AuthorizeError (aq_redirect_uri q) ''invalid_request''
      else AuthorizeForm)"

record authorize_form =
  af_email :: string
  af_password :: string
  af_client_id :: string
  af_redirect_uri :: string
  af_code_challenge :: string
  af_code_challenge_method :: string
  af_state :: "string option"
  af_nonce :: "string option"
  af_scopes :: string

definition form_scopes :: "string \<Rightarrow> string list" where
  "form_scopes s = filter (\<lambda>x. x \<noteq> []) (map trim (split_char (CHR '','') s))"

definition redirect_with_code :: "string \<Rightarrow> string \<Rightarrow> string option \<Rightarrow> string" where
  "redirect_with_code uri code state =
     uri @ [if CHR ''?'' \<in> set uri then CHR ''&'' else CHR ''?''] @ ''code='' @ code @
     (case state of Some s \<Rightarrow> ''&state='' @ s | None \<Rightarrow> [])"

text \<open>The address of the redirection, or \<open>None\<close> when the form is shown again.\<close>

definition route_authorize_submit :: "auth_env \<Rightarrow> authorize_form \<Rightarrow> (string option, auth_error) act" where
  "route_authorize_submit env f w =
     (case password_grant env (af_email f) (af_password f) None None w of
        (Ok resp, w') \<Rightarrow>
          bind (create_authorization_code env (us_id (ar_user resp)) (af_client_id f) (af_redirect_uri f)
                 (form_scopes (af_scopes f)) (af_code_challenge f) (af_code_challenge_method f)
                 (af_nonce f) (af_state f) (Some (se_id (ar_session resp)))) (\<lambda>code.
            ret (Some (redirect_with_code (af_redirect_uri f) code (af_state f)))) w'
      | (Err AeInvalidCredentials, w') \<Rightarrow> (Ok None, w')
      | (Err e, w') \<Rightarrow> (Err e, w')
      | (Panic, w') \<Rightarrow> (Panic, w')
      | (Diverge, w') \<Rightarrow> (Diverge, w'))"

section \<open>Platform operators (routes/operators.rs, mounted in router.rs without a bearer)\<close>

definition route_bootstrap_operator :: "auth_env \<Rightarrow> string \<Rightarrow> (uuid, auth_error) act" where
  "route_bootstrap_operator env email =
     bind (exec_sql env platform_operators_exist) (\<lambda>operators_exist.
     if operators_exist
     then lift (Err (AeValidationError
       ''Bootstrap already completed. Use 'promote' endpoint to add more operators.''))
     else promote_to_platform_operator env email None)"

definition route_promote_operator :: "auth_env \<Rightarrow> string \<Rightarrow> (uuid, auth_error) act" where
  "route_promote_operator env email = promote_to_platform_operator env email None"

definition route_operators_status :: "auth_env \<Rightarrow> (bool, auth_error) act" where
  "route_operators_status env = exec_sql env platform_operators_exist"

end
