(* ===== verification/Auth_Steps.thy ===== *)
theory Auth_Steps
  imports Auth_Routes
begin

text \<open>
  Runs of the auth service: the calls that reach it, the worlds a sequence of calls leads to, and
  the calculus for what no call undoes. The locale \<open>kept\<close> is the contract between a fact about
  the tables that statements keep and the calls made of those statements.
\<close>

section \<open>Outcomes of computations\<close>

lemma act_simps [simp]:
  "clock w = (Ok (w_now w), w)" "get_keyring w = (Ok (w_keyring w), w)"
  by (simp_all add: clock_def get_keyring_def)

lemma exec_some_Ok:
  "exec_some env st e w = (Ok a, w') \<longleftrightarrow> exec_sql env st w = (Ok (Some a), w')"
  by (auto simp: exec_some_def bind_Ok)

lemma exec_sql_Ok:
  "exec_sql env st w = (Ok a, w') \<longleftrightarrow>
     \<not> ev_fails env (w_statements w) \<and>
     (\<exists>db'. st (w_now w) (w_db w) = (Ok a, db') \<and>
        w' = w\<lparr>w_statements := Suc (w_statements w), w_db := db'\<rparr>)"
  by (auto simp: exec_sql_def Let_def split: prod.splits)

lemma query_Ok [simp]: "query f t db = (r, db') \<longleftrightarrow> r = Ok (f t db) \<and> db' = db"
  by (auto simp: query_def)

section \<open>Calls\<close>

datatype auth_call =
    CallSignup string string json "string option" "string option"
  | CallResend user
  | CallVerifyEmail string
  | CallRequestReset string
  | CallConfirmReset string string
  | CallToken "string option" "string option" "string option" grant
  | CallLogout "string option"
  | CallUpdateUser "string option" "string option" "string option" "json option"
  | CallDeleteUser "string option"
  | CallCreateOrg "string option" string string json
  | CallUpdateOrg "string option" string "string option" "string option" "json option"
  | CallDeleteOrg "string option" string
  | CallUpdateMember "string option" string string string
  | CallDeleteMember "string option" string string
  | CallInvite "string option" string string string
  | CallAccept string
  | CallStepUp uuid uuid "string list"
  | CallAuthorize authorize_form
  | CallBootstrap string
  | CallPromote string
  | CallRotateKeys
  | CallRetireKeys
  | Tick nat

text \<open>The world after a call; reads that change nothing but the statement count are left out.\<close>

fun perform :: "auth_env \<Rightarrow> auth_call \<Rightarrow> auth_world \<Rightarrow> auth_world" where
  "perform env (CallSignup email password metadata ip agent) w = snd (signup env email password metadata ip agent w)"
| "perform env (CallResend u) w = snd (send_verification_email env u w)"
| "perform env (CallVerifyEmail token) w = snd (verify_email env token w)"
| "perform env (CallRequestReset email) w = snd (request_password_reset env email w)"
| "perform env (CallConfirmReset token password) w = snd (confirm_password_reset env token password w)"
| "perform env (CallToken forwarded real_ip agent g) w = snd (route_token env forwarded real_ip agent g w)"
| "perform env (CallLogout header) w = snd (route_logout env header w)"
| "perform env (CallUpdateUser header email password metadata) w =
     snd (route_update_user env header email password metadata w)"
| "perform env (CallDeleteUser header) w = snd (route_delete_user env header w)"
| "perform env (CallCreateOrg header name slug metadata) w = snd (route_create_org env header name slug metadata w)"
| "perform env (CallUpdateOrg header r name slug metadata) w =
     snd (route_update_org env header r name slug metadata w)"
| "perform env (CallDeleteOrg header r) w = snd (route_delete_org env header r w)"
| "perform env (CallUpdateMember header r target role) w = snd (route_update_member env header r target role w)"
| "perform env (CallDeleteMember header r target) w = snd (route_delete_member env header r target w)"
| "perform env (CallInvite header r email role) w = snd (route_create_invitation env header r email role w)"
| "perform env (CallAccept token) w = snd (accept_invitation env token w)"
| "perform env (CallStepUp u s scopes) w = snd (issue_mfa_tokens env u s scopes w)"
| "perform env (CallAuthorize f) w = snd (route_authorize_submit env f w)"
| "perform env (CallBootstrap email) w = snd (route_bootstrap_operator env email w)"
| "perform env (CallPromote email) w = snd (route_promote_operator env email w)"
| "perform env CallRotateKeys w = snd (keyring_rotate env w)"
| "perform env CallRetireKeys w = snd (retire_old_keys env w)"
| "perform env (Tick n) w = w\<lparr>w_now := w_now w + int n\<rparr>"

definition run_calls :: "auth_env \<Rightarrow> auth_call list \<Rightarrow> auth_world \<Rightarrow> auth_world" where
  "run_calls env calls w = foldl (\<lambda>w c. perform env c w) w calls"

section \<open>What no call undoes\<close>

text \<open>
  \<open>R\<close> relates a world to a later one. It must be reflexive and transitive and may look at the
  tables only: the clock, the supply, the mails, the counters and the keyring do not matter.
\<close>

locale kept =
  fixes R :: "auth_db \<Rightarrow> auth_db \<Rightarrow> bool"
  assumes refl: "R db db"
    and trans: "R db1 db2 \<Longrightarrow> R db2 db3 \<Longrightarrow> R db1 db3"

sublocale kept \<subseteq> stays "\<lambda>w w'. R (w_db w) (w_db w')"
  by (rule stays_via) (unfold_locales; rule refl trans; assumption)

context kept
begin

definition holds_for :: "'a statement \<Rightarrow> bool" where
  "holds_for st \<longleftrightarrow> (\<forall>t db. R db (snd (st t db)))"

lemma keeps_effects: "keeps clock" "keeps get_keyring" "keeps (fresh f)" "keeps (now_plus n)"
  "keeps (set_keyring g)" "keeps (send_mail env to m)"
  by (auto simp: keeps_def refl fresh_def now_plus_def set_keyring_def send_mail_def split: option.splits)

lemma keeps_exec: "holds_for st \<Longrightarrow> keeps (exec_sql env st)"
  unfolding keeps_def holds_for_def exec_sql_def
  by (auto simp: Let_def refl split: prod.splits) (metis snd_conv)+

lemma holds_query: "holds_for (query f)"
  by (simp add: holds_for_def query_def refl)

lemma keeps_exec_some: "holds_for st \<Longrightarrow> keeps (exec_some env st e)"
  unfolding exec_some_def by (intro keeps_bind keeps_exec keeps_simple)

lemmas keeps_steps = keeps_control keeps_effects keeps_exec_some keeps_exec

lemma reads:
  "holds_for (find_user_by_id u)" "holds_for (find_user_by_email pg email)" "holds_for (get_password_hash u)"
  "holds_for (find_session_by_id s)" "holds_for (find_org_by_id g)" "holds_for (find_org_by_slug pg slug)"
  "holds_for (list_user_orgs_rows u)" "holds_for (find_role_by_id r)" "holds_for (find_membership u g)"
  "holds_for (count_members_with_role g r)" "holds_for (find_invitation_by_hash hash)"
  "holds_for get_jwks_keys" "holds_for (find_verification_token_by_hash hash ty)"
  "holds_for (find_authorization_code_by_hash hash)" "holds_for platform_operators_exist"
  by (simp_all only: find_user_by_id_def find_user_by_email_def get_password_hash_def find_session_by_id_def
      find_org_by_id_def find_org_by_slug_def list_user_orgs_rows_def find_role_by_id_def find_membership_def
      count_members_with_role_def find_invitation_by_hash_def get_jwks_keys_def
      find_verification_token_by_hash_def find_authorization_code_by_hash_def platform_operators_exist_def
      holds_query)

end

text \<open>
  The statements of the calls. The change and the removal of a member are contracted as whole
  calls, for what only their guards keep; deleting an organization may be left out.
\<close>

locale kept_statements = kept R for R :: "auth_db \<Rightarrow> auth_db \<Rightarrow> bool" +
  fixes may_delete :: bool
  assumes create_user: "holds_for (create_user pg u email h m)"
    and update_user: "holds_for (update_user pg u e h v md d)"
    and disable_user: "holds_for (disable_user u)"
    and create_session: "holds_for (create_session pg s u amr ip agent)"
    and revoke_session: "holds_for (revoke_session s)"
    and revoke_user_sessions: "holds_for (revoke_user_sessions u)"
    and create_refresh_token: "holds_for (create_refresh_token i s hash expiry)"
    and rotate_refresh_token: "holds_for (rotate_refresh_token hash i hash' expiry)"
    and create_org_row: "holds_for (create_org_row pg g name slug m)"
    and update_org_row: "holds_for (update_org_row pg g n sl m')"
    and delete_org_row: "may_delete \<Longrightarrow> holds_for (delete_org_row g)"
    and create_role: "holds_for (create_role r g name descr sys perms)"
    and create_membership: "holds_for (create_membership u g r)"
    and update_member_role: "keeps (update_member_role env g u r)"
    and remove_member: "keeps (remove_member env g u)"
    and create_invitation_row: "holds_for (create_invitation_row i hash email g r expiry)"
    and use_invitation: "holds_for (use_invitation hash)"
    and store_signing_key: "holds_for (store_signing_key k)"
    and rotate_signing_key: "holds_for (rotate_signing_key kid k)"
    and retire_old_signing_keys: "holds_for retire_old_signing_keys"
    and create_verification_token: "holds_for (create_verification_token i u hash ty expiry)"
    and use_verification_token: "holds_for (use_verification_token hash)"
    and grant_platform_role: "holds_for (grant_platform_role u name by')"
    and create_authorization_row: "holds_for (create_authorization_row row)"
    and use_authorization_code: "holds_for (use_authorization_code hash s)"
begin

lemmas statements = reads create_user update_user disable_user create_session revoke_session
  revoke_user_sessions create_refresh_token rotate_refresh_token create_org_row update_org_row create_role
  create_membership create_invitation_row use_invitation store_signing_key rotate_signing_key
  retire_old_signing_keys create_verification_token use_verification_token grant_platform_role
  create_authorization_row use_authorization_code

lemma keeps_issue: "keeps (issue_access_token env u email s amr orgs d scopes mfa)"
  unfolding issue_access_token_def by (intro keeps_steps statements)

lemma keeps_refresh_data: "keeps (refresh_token_data_new env)"
  unfolding refresh_token_data_new_def generate_refresh_token_def by (intro keeps_steps statements)

lemma keeps_issue_tokens: "keeps (issue_tokens env u s)"
  unfolding issue_tokens_def by (intro keeps_steps keeps_issue keeps_refresh_data statements)

lemma keeps_send_verification: "keeps (send_verification_email env u)"
  unfolding send_verification_email_def by (intro keeps_steps statements)

lemma keeps_hash: "keeps (hash_password env p)"
  unfolding hash_password_def by (intro keeps_steps)

lemma keeps_new_session: "keeps (new_session env u amr ip agent)"
  unfolding new_session_def by (intro keeps_steps statements)

lemmas keeps_parts = keeps_issue keeps_refresh_data keeps_issue_tokens keeps_send_verification keeps_hash
  keeps_new_session

lemma keeps_signup: "keeps (signup env email p m ip agent)"
  unfolding signup_def by (intro keeps_steps keeps_parts statements)

lemma keeps_verify_email: "keeps (verify_email env token)"
  unfolding verify_email_def by (intro keeps_steps keeps_parts statements)

lemma keeps_request_reset: "keeps (request_password_reset env email)"
  unfolding request_password_reset_def by (intro keeps_steps keeps_parts statements)

lemma keeps_confirm_reset: "keeps (confirm_password_reset env token p)"
  unfolding confirm_password_reset_def by (intro keeps_steps keeps_parts statements)

lemma keeps_password_grant: "keeps (password_grant env email p ip agent)"
  unfolding password_grant_def by (intro keeps_steps keeps_parts statements)

lemma keeps_refresh: "keeps (refresh env token)"
  unfolding refresh_def refresh_finish_def by (intro keeps_steps keeps_parts statements)

lemma keeps_exchange: "keeps (exchange_authorization_code env code v c uri ip agent)"
  unfolding exchange_authorization_code_def by (intro keeps_steps keeps_parts statements)

lemma keeps_token: "keeps (route_token env fwd real agent g)"
  unfolding route_token_def
  by (cases g) (simp, intro keeps_steps keeps_password_grant keeps_refresh keeps_exchange)+

lemma keeps_create_code: "keeps (create_authorization_code env u c uri scopes ch meth nonce state s)"
  unfolding create_authorization_code_def by (intro keeps_steps statements)

lemma keeps_authorize: "keeps (route_authorize_submit env f)"
proof -
  have c: "R (w_db w) (w_db (snd (password_grant env e p ip agent w)))" for w e p ip agent
    using keeps_password_grant by (simp add: keeps_def)
  have d: "R (w_db w) (w_db (snd (bind (create_authorization_code env u c uri scopes ch meth nonce state s)
      (\<lambda>code. ret (g code)) w)))" for w u c uri scopes ch meth nonce state s and g :: "string \<Rightarrow> string option"
    using keeps_bind [OF keeps_create_code keeps_simple(1), of env u c uri scopes ch meth nonce state s g]
    by (simp add: keeps_def)
  show ?thesis unfolding keeps_def
  proof
    fix w
    obtain r w' where g: "password_grant env (af_email f) (af_password f) None None w = (r, w')" by fastforce
    then have "R (w_db w) (w_db w')" using c [of w "af_email f" "af_password f" None None] by simp
    then show "R (w_db w) (w_db (snd (route_authorize_submit env f w)))"
      using g d trans by (auto simp: route_authorize_submit_def split: result.splits auth_error.splits)
  qed
qed

lemma keeps_verify_token: "keeps (verify_token env token)"
  unfolding verify_token_def by (intro keeps_steps)

lemma keeps_bearer: "keeps (bearer env header)"
  unfolding bearer_def by (intro keeps_steps keeps_verify_token)

lemma keeps_bearer_user: "keeps (bearer_user env header)"
  unfolding bearer_user_def by (intro keeps_steps keeps_bearer)

lemma keeps_org_ref: "keeps (get_org_by_ref env r)"
  unfolding get_org_by_ref_def by (intro keeps_steps statements)

lemma keeps_parse_id: "keeps (parse_id env what text)"
  unfolding parse_id_def by (intro keeps_steps)

lemma keeps_guards: "keeps (require_org_owner env u g)" "keeps (require_org_admin_or_owner env u g)"
  unfolding require_org_owner_def require_org_admin_or_owner_def member_role_def
  by (intro keeps_steps statements)+

lemmas keeps_routes = keeps_bearer keeps_bearer_user keeps_org_ref keeps_parse_id keeps_guards

lemma keeps_create_org: "keeps (create_org env u name slug m)"
  unfolding create_org_def by (intro keeps_steps statements)

lemma keeps_create_invitation: "keeps (create_invitation env g email r)"
  unfolding create_invitation_def by (intro keeps_steps statements)

lemma keeps_accept: "keeps (accept_invitation env token)"
  unfolding accept_invitation_def by (intro keeps_steps statements)

lemma keeps_step_up: "keeps (issue_mfa_tokens env u s scopes)"
  unfolding issue_mfa_tokens_def by (intro keeps_steps keeps_parts statements)

lemma keeps_promote: "keeps (promote_to_platform_operator env email b)"
  unfolding promote_to_platform_operator_def by (intro keeps_steps statements)

lemma keeps_keys: "keeps (keyring_rotate env)" "keeps (retire_old_keys env)"
  unfolding keyring_rotate_def retire_old_keys_def keyring_refresh_def generate_key_def to_signing_key_def
  by (intro keeps_steps statements)+

lemma keeps_own_account: "keeps (route_logout env header)" "keeps (route_update_user env header e p m)"
  "keeps (route_delete_user env header)"
  unfolding route_logout_def route_update_user_def route_delete_user_def logout_def service_update_user_def
    delete_user_def
  by (intro keeps_steps keeps_routes keeps_parts statements)+

lemma keeps_org_routes: "keeps (route_create_org env header name slug m)"
  "keeps (route_update_org env header r n sl m')" "keeps (route_update_member env header r target role)"
  "keeps (route_delete_member env header r target)" "keeps (route_create_invitation env header r email role)"
  unfolding route_create_org_def route_update_org_def route_update_member_def route_delete_member_def
    route_create_invitation_def update_org_def
  by (intro keeps_steps keeps_routes keeps_create_org keeps_create_invitation update_member_role remove_member
      statements)+

lemma keeps_delete_org: "may_delete \<Longrightarrow> keeps (route_delete_org env header r)"
  unfolding route_delete_org_def Auth_Orgs.delete_org_def
  by (intro keeps_steps keeps_routes delete_org_row)

lemma keeps_operators: "keeps (route_bootstrap_operator env email)" "keeps (route_promote_operator env email)"
  unfolding route_bootstrap_operator_def route_promote_operator_def by (intro keeps_steps keeps_promote statements)+

lemma perform_keeps:
  "may_delete \<or> (\<forall>header r. c \<noteq> CallDeleteOrg header r) \<Longrightarrow> R (w_db w) (w_db (perform env c w))"
  using keeps_signup keeps_send_verification keeps_verify_email keeps_request_reset keeps_confirm_reset
    keeps_token keeps_own_account keeps_org_routes keeps_delete_org keeps_accept keeps_step_up keeps_authorize
    keeps_operators keeps_keys refl
  by (cases c) (auto simp: keeps_def)

theorem run_calls_keep:
  "may_delete \<or> (\<forall>header r. CallDeleteOrg header r \<notin> set calls) \<Longrightarrow>
     R (w_db w) (w_db (run_calls env calls w))"
proof (induction calls arbitrary: w)
  case Nil
  then show ?case by (simp add: run_calls_def refl)
next
  case (Cons c calls)
  have "R (w_db w) (w_db (perform env c w))" by (rule perform_keeps) (use Cons.prems in auto)
  moreover have "R (w_db (perform env c w)) (w_db (run_calls env calls (perform env c w)))"
    by (rule Cons.IH) (use Cons.prems in auto)
  ultimately show ?case using trans by (simp add: run_calls_def)
qed

end

text \<open>Reads and the making of tokens leave the tables as they are.\<close>

interpretation same: kept "(=)"
  by unfold_locales auto

lemma same_issue: "same.keeps (issue_access_token env u email s amr orgs d scopes mfa)"
  unfolding issue_access_token_def by (intro same.keeps_steps)

lemma same_refresh_data: "same.keeps (refresh_token_data_new env)"
  unfolding refresh_token_data_new_def generate_refresh_token_def by (intro same.keeps_steps)

lemma same_db: "same.keeps m \<Longrightarrow> m w = (r, w') \<Longrightarrow> w_db w' = w_db w"
  unfolding same.keeps_def by (metis snd_conv)

lemma read_Ok:
  "exec_sql env (query f) w = (Ok a, w') \<longleftrightarrow>
     \<not> ev_fails env (w_statements w) \<and> a = f (w_now w) (w_db w) \<and>
     w' = w\<lparr>w_statements := Suc (w_statements w)\<rparr>"
  by (auto simp: exec_sql_Ok)

lemma fresh_Ok [simp]: "fresh f w = (Ok a, w') \<longleftrightarrow> a = f (w_fresh w) \<and> w' = w\<lparr>w_fresh := Suc (w_fresh w)\<rparr>"
  by (auto simp: fresh_def)

lemma now_plus_Ok: "now_plus n w = (Ok t, w') \<Longrightarrow> w' = w \<and> t = w_now w + seconds n"
  by (auto simp: now_plus_def split: if_splits)

lemma refresh_data_now: "refresh_token_data_new env w = (Ok p, w') \<Longrightarrow> w_now w' = w_now w"
  by (auto simp: refresh_token_data_new_def generate_refresh_token_def bind_Ok Let_def dest!: now_plus_Ok)

text \<open>
  A small auth service to evaluate the definitions on: hashes are the texts themselves, every random
  value is a run of letters, a bearer token is the id of its user, nothing fails, and one user has a session, a refresh token, a reset token, an
  authorization code and, with another user, an organization.
\<close>

definition sample_pg :: pg_types where
  "sample_pg = \<lparr>pg_fold = (\<lambda>s. s), pg_eq = (\<lambda>a b. a = b), pg_inet = Some\<rparr>"

definition sample_env :: auth_env where
  "sample_env =
     \<lparr>ev_pg = sample_pg, ev_fails = (\<lambda>_. False), ev_uuid = (\<lambda>n. replicate (Suc n) CHR ''u''),
      ev_random = (\<lambda>n. replicate (Suc n) CHR ''r''), ev_sha256 = (\<lambda>s. s), ev_base64url_sha256 = (\<lambda>s. s),
      ev_hash_password = (\<lambda>_ p. Some p), ev_verify_password = (\<lambda>p h. Some (p = h)), ev_parse_uuid = Some,
      ev_mail_enabled = False, ev_send = (\<lambda>_. None), ev_generate_key = (\<lambda>_. Some (''priv'', ''pub'')),
      ev_public_of_private = (\<lambda>_. Some ''pub''), ev_encrypt = (\<lambda>_ s. Some s), ev_decrypt = Some,
      ev_sign = (\<lambda>_ _. Some ''jwt''), ev_jwt_kid = (\<lambda>_. Ok (Some ''k'')),
      ev_jwt_decode = (\<lambda>_ iss aud t. Ok
        \<lparr>cl_sub = ''user_'' @ t, cl_iss = iss, cl_aud = aud, cl_exp = 900, cl_iat = 0, cl_nbf = None,
         cl_email = None, cl_amr = [MethPwd], cl_orgs = [], cl_default_org = None, cl_session_id = Some ''s1'',
         cl_scopes = [], cl_mfa_at = None\<rparr>), ev_issuer = ''iss'', ev_audience = ''aud'',
      ev_public_url = ''http://localhost'', ev_access_ttl = 900, ev_refresh_ttl = 2592000\<rparr>"

definition sample_user :: "uuid \<Rightarrow> string \<Rightarrow> user_row" where
  "sample_user u email =
     \<lparr>us_id = u, us_email = email, us_email_verified = True, us_default_org_id = None, us_metadata = JNull,
      us_created_at = 0, us_updated_at = 0, us_disabled_at = None, us_password_hash = Some ''old password''\<rparr>"

definition sample_tables :: auth_db where
  "sample_tables =
     \<lparr>t_users = [sample_user ''ann'' ''ann@x'', sample_user ''bob'' ''bob@x''],
      t_sessions = [\<lparr>se_id = ''s1'', se_user_id = ''ann'', se_amr = [''pwd''], se_ip = None, se_user_agent = None,
        se_created_at = 0, se_last_seen_at = 0, se_revoked_at = None\<rparr>,
       \<lparr>se_id = ''s2'', se_user_id = ''bob'', se_amr = [''pwd''], se_ip = None, se_user_agent = None,
        se_created_at = 0, se_last_seen_at = 0, se_revoked_at = Some 5\<rparr>],
      t_refresh_tokens = [\<lparr>rt_id = ''t1'', rt_session_id = ''s1'', rt_token_hash = ''tok'', rt_issued_at = 0,
        rt_expires_at = 1000000000, rt_used_at = None, rt_replaced_by = None\<rparr>],
      t_orgs = [\<lparr>og_id = ''g'', og_slug = ''g'', og_name = ''G'', og_metadata = JNull, og_created_at = 0,
        og_updated_at = 0\<rparr>],
      t_roles = [\<lparr>ro_id = ''ro'', ro_org_id = ''g'', ro_name = ''owner'', ro_description = None, ro_is_system = True,
        ro_created_at = 0\<rparr>],
      t_role_permissions = [(''ro'', ''*'')],
      t_memberships = [\<lparr>mb_user_id = ''ann'', mb_org_id = ''g'', mb_role_id = ''ro'', mb_joined_at = 0\<rparr>],
      t_invitations = [],
      t_verification_tokens = [\<lparr>vt_id = ''v1'', vt_user_id = ''ann'', vt_token_type = ''password_reset'',
        vt_created_at = 0, vt_expires_at = 1000000000, vt_used_at = None, vt_token_hash = ''reset''\<rparr>],
      t_authorization_codes = [\<lparr>ac_id = ''c1'', ac_user_id = ''ann'', ac_client_id = ''cli'', ac_redirect_uri = ''uri'',
        ac_scopes = [''a''], ac_code_challenge = ''verifier'', ac_code_challenge_method = ''S256'', ac_nonce = None,
        ac_state = None, ac_created_at = 0, ac_expires_at = 1000000000, ac_used_at = None, ac_session_id = None,
        ac_code_hash = ''code''\<rparr>],
      t_signing_keys = [], t_platform_roles = [(''op'', ''platform_operator'')], t_platform_role_permissions = [], t_platform_memberships = []\<rparr>"

definition sample_world :: auth_world where
  "sample_world =
     \<lparr>w_db = sample_tables, w_now = 10, w_fresh = 0, w_statements = 0, w_mails = [],
      w_keyring = \<lparr>kr_active = Some \<lparr>kp_kid = ''k'', kp_private = ''priv'', kp_public = ''pub''\<rparr>,
        kr_all_keys = [\<lparr>kp_kid = ''k'', kp_private = ''priv'', kp_public = ''pub''\<rparr>], kr_last_refresh = 0\<rparr>\<rparr>"

definition succeeded :: "('a, 'e) result \<Rightarrow> bool" where
  "succeeded r = (case r of Ok _ \<Rightarrow> True | _ \<Rightarrow> False)"

lemma succeededE:
  assumes "succeeded (fst (m w))"
  obtains a w' where "m w = (Ok a, w')"
  using assms by (cases "m w") (auto simp: succeeded_def split: result.splits)

lemma sample_later: "succeeded (fst (refresh sample_env ''tok'' (run_calls sample_env [Tick 5] sample_world)))"
  by code_simp

lemma sample_last_owner:
  "fst (route_delete_member sample_env (Some ''Bearer ann'') ''g'' ''ann'' sample_world) = Err AeLastOwner"
  by code_simp

lemma sample_refresh: "succeeded (fst (refresh sample_env ''tok'' sample_world))"
  by code_simp

lemma sample_reset: "succeeded (fst (confirm_password_reset sample_env ''reset'' ''new password'' sample_world))"
  by code_simp

lemma sample_exchange:
  "succeeded (fst (exchange_authorization_code sample_env ''code'' ''verifier'' ''cli'' ''uri'' None None sample_world))"
  by code_simp

end
