(* ===== verification/Auth_Sessions.thy ===== *)
theory Auth_Sessions
  imports Auth_Steps
begin

text \<open>
  What no call of the auth service undoes: a revoked session stays revoked, a used refresh token,
  verification token and authorization code stays used, and the keys and references of the tables
  hold. Both are interpretations of \<open>kept_statements\<close> on the store's statements.
\<close>

section \<open>Closed rows\<close>

text \<open>There is a row with this key, and every such row is closed.\<close>

definition spent_row :: "('r \<Rightarrow> 'k) \<Rightarrow> ('r \<Rightarrow> bool) \<Rightarrow> 'k \<Rightarrow> 'r list \<Rightarrow> bool" where
  "spent_row key closed k rows \<longleftrightarrow> k \<in> key ` set rows \<and> (\<forall>r \<in> set rows. key r = k \<longrightarrow> closed r)"

lemma spent_update:
  "(\<And>r. key (f r) = key r) \<Longrightarrow> (\<And>r. closed r \<Longrightarrow> closed (f r)) \<Longrightarrow> spent_row key closed k rows \<Longrightarrow>
     spent_row key closed k (update_rows P f rows)"
  using map_update_rows [of key f P rows, THEN arg_cong [where f = set]]
  by (auto simp: spent_row_def set_update_rows image_image)

lemma spent_append: "key r \<notin> key ` set rows \<Longrightarrow> spent_row key closed k rows \<Longrightarrow> spent_row key closed k (rows @ [r])"
  by (auto simp: spent_row_def)

lemma spent_unique:
  "distinct (map key rows) \<Longrightarrow> r \<in> set rows \<Longrightarrow> closed r \<Longrightarrow> spent_row key closed (key r) rows"
  by (auto simp: spent_row_def distinct_map inj_on_def)

section \<open>Keys and references\<close>

definition store_ok :: "auth_db \<Rightarrow> bool" where
  "store_ok db \<longleftrightarrow>
     distinct (map us_id (t_users db)) \<and> distinct (map se_id (t_sessions db)) \<and>
     distinct (map rt_id (t_refresh_tokens db)) \<and> distinct (map rt_token_hash (t_refresh_tokens db)) \<and>
     distinct (map vt_token_hash (t_verification_tokens db)) \<and>
     distinct (map ac_code_hash (t_authorization_codes db)) \<and>
     distinct (map (\<lambda>m. (mb_user_id m, mb_org_id m)) (t_memberships db)) \<and>
     rt_session_id ` set (t_refresh_tokens db) \<subseteq> se_id ` set (t_sessions db) \<and>
     se_user_id ` set (t_sessions db) \<subseteq> us_id ` set (t_users db)"

text \<open>Closed rows: the four tables whose rows are used up.\<close>

definition revoked :: "auth_db \<Rightarrow> uuid \<Rightarrow> bool" where
  "revoked db s \<longleftrightarrow> spent_row se_id (\<lambda>r. se_revoked_at r \<noteq> None) s (t_sessions db)"

definition token_used :: "auth_db \<Rightarrow> string \<Rightarrow> uuid \<Rightarrow> bool" where
  "token_used db hash s \<longleftrightarrow>
     spent_row rt_token_hash (\<lambda>r. rt_used_at r \<noteq> None \<and> rt_session_id r = s) hash (t_refresh_tokens db)"

definition verification_used :: "auth_db \<Rightarrow> string \<Rightarrow> bool" where
  "verification_used db hash \<longleftrightarrow> spent_row vt_token_hash (\<lambda>r. vt_used_at r \<noteq> None) hash (t_verification_tokens db)"

definition code_used :: "auth_db \<Rightarrow> string \<Rightarrow> bool" where
  "code_used db hash \<longleftrightarrow> spent_row ac_code_hash (\<lambda>r. ac_used_at r \<noteq> None) hash (t_authorization_codes db)"

lemmas closed_defs = revoked_def token_used_def verification_used_def code_used_def

definition still_closed :: "auth_db \<Rightarrow> auth_db \<Rightarrow> bool" where
  "still_closed db db' \<longleftrightarrow>
     (\<forall>s. revoked db s \<longrightarrow> revoked db' s) \<and> (\<forall>h s. token_used db h s \<longrightarrow> token_used db' h s) \<and>
     (\<forall>h. verification_used db h \<longrightarrow> verification_used db' h) \<and> (\<forall>h. code_used db h \<longrightarrow> code_used db' h)"

lemma still_closed_same:
  assumes "t_sessions db' = t_sessions db" "t_refresh_tokens db' = t_refresh_tokens db"
    "t_verification_tokens db' = t_verification_tokens db" "t_authorization_codes db' = t_authorization_codes db"
  shows "still_closed db db'"
  using assms by (simp add: still_closed_def closed_defs)

interpretation closed: kept still_closed
  by unfold_locales (auto simp: still_closed_def)

lemma still_closed_refl: "still_closed db db"
  by (rule closed.refl)

lemma sessions_appended:
  "\<not> session_exists db (se_id r) \<Longrightarrow> still_closed db (db\<lparr>t_sessions := t_sessions db @ [r]\<rparr>)"
  by (auto simp: still_closed_def closed_defs session_exists_def list_ex_iff intro!: spent_append)

lemma tokens_appended:
  "\<not> list_ex (\<lambda>x. rt_token_hash x = rt_token_hash r) (t_refresh_tokens db) \<Longrightarrow>
     still_closed db (db\<lparr>t_refresh_tokens := t_refresh_tokens db @ [r]\<rparr>)"
  by (auto simp: still_closed_def closed_defs list_ex_iff intro!: spent_append)

lemma verifications_appended:
  "\<not> list_ex (\<lambda>x. vt_token_hash x = vt_token_hash r) (t_verification_tokens db) \<Longrightarrow>
     still_closed db (db\<lparr>t_verification_tokens := t_verification_tokens db @ [r]\<rparr>)"
  by (auto simp: still_closed_def closed_defs list_ex_iff intro!: spent_append)

lemma codes_appended:
  "\<not> list_ex (\<lambda>x. ac_code_hash x = ac_code_hash r) (t_authorization_codes db) \<Longrightarrow>
     still_closed db (db\<lparr>t_authorization_codes := t_authorization_codes db @ [r]\<rparr>)"
  by (auto simp: still_closed_def closed_defs list_ex_iff intro!: spent_append)

lemma revoke_where_closed: "still_closed db (revoke_where P t db)"
  by (auto simp: still_closed_def closed_defs revoke_where_def intro!: spent_update)

lemma insert_token_closed: "still_closed db (snd (insert_refresh_token i s hash e t db))"
  by (auto simp: insert_refresh_token_def Let_def still_closed_refl list_ex_iff intro!: tokens_appended)

lemma rotate_closed: "still_closed db (snd (rotate_refresh_token hash i hash' e t db))"
proof (cases "find (\<lambda>r. rt_token_hash r = hash) (t_refresh_tokens db)")
  case None
  then show ?thesis by (simp add: rotate_refresh_token_def still_closed_refl)
next
  case (Some old)
  let ?tx = "db\<lparr>t_refresh_tokens := update_rows (\<lambda>r. rt_id r = rt_id old)
      (\<lambda>r. r\<lparr>rt_used_at := Some t, rt_replaced_by := Some i\<rparr>) (t_refresh_tokens db)\<rparr>"
  have "still_closed db ?tx"
    by (auto simp: still_closed_def closed_defs intro!: spent_update)
  moreover have "still_closed ?tx (snd (insert_refresh_token i (rt_session_id old) hash' e t ?tx))"
    by (rule insert_token_closed)
  ultimately have "still_closed db (snd (insert_refresh_token i (rt_session_id old) hash' e t ?tx))"
    by (rule closed.trans)
  then show ?thesis
    using Some revoke_where_closed still_closed_refl
    by (auto simp: rotate_refresh_token_def Let_def split: prod.splits result.splits)
qed

text \<open>The statements that close rows, open none and leave the other tables alone.\<close>

lemma closed_by_tables:
  assumes "\<And>t db. t_sessions (snd (st t db)) = t_sessions db"
    "\<And>t db. t_refresh_tokens (snd (st t db)) = t_refresh_tokens db"
    "\<And>t db. t_verification_tokens (snd (st t db)) = t_verification_tokens db"
    "\<And>t db. t_authorization_codes (snd (st t db)) = t_authorization_codes db"
  shows "closed.holds_for st"
  using assms by (simp add: closed.holds_for_def still_closed_same)

lemma closed_elsewhere:
  "closed.holds_for (create_user pg u email h m)" "closed.holds_for (update_user pg u e h v md d)"
  "closed.holds_for (disable_user u)" "closed.holds_for (create_org_row pg g name slug m)"
  "closed.holds_for (update_org_row pg g n sl md)" "closed.holds_for (delete_org_row g)"
  "closed.holds_for (create_role r g name descr sys perms)" "closed.holds_for (create_membership u g r)"
  "closed.holds_for (update_membership_role u g r)" "closed.holds_for (delete_membership u g)"
  "closed.holds_for (create_invitation_row i hash email g r expiry)" "closed.holds_for (use_invitation hash)"
  "closed.holds_for (store_signing_key k)" "closed.holds_for (rotate_signing_key kid k)"
  "closed.holds_for retire_old_signing_keys" "closed.holds_for (grant_platform_role u name by')"
  by (rule closed_by_tables;
      simp add: create_user_def update_user_def disable_user_def create_org_row_def update_org_row_def
        delete_org_row_def create_role_def create_membership_def update_membership_role_def
        delete_membership_def create_invitation_row_def use_invitation_def store_signing_key_def
        rotate_signing_key_def retire_old_signing_keys_def grant_platform_role_def Let_def
        split: option.split prod.split result.split)+

lemma closed_in_place:
  "closed.holds_for (create_session pg s u amr ip agent)" "closed.holds_for (revoke_session s)"
  "closed.holds_for (revoke_user_sessions u)" "closed.holds_for (create_refresh_token i s hash expiry)"
  "closed.holds_for (rotate_refresh_token hash i hash' expiry)"
  "closed.holds_for (create_verification_token i u hash ty expiry)"
  "closed.holds_for (use_verification_token hash)" "closed.holds_for (create_authorization_row row)"
  "closed.holds_for (use_authorization_code hash s)"
proof -
  show "closed.holds_for (create_session pg s u amr ip agent)"
    by (auto simp: closed.holds_for_def create_session_def Let_def still_closed_refl
        intro!: sessions_appended split: option.split)
  show "closed.holds_for (revoke_session s)" "closed.holds_for (revoke_user_sessions u)"
    by (simp_all add: closed.holds_for_def revoke_session_def revoke_user_sessions_def revoke_where_closed)
  show "closed.holds_for (create_refresh_token i s hash expiry)"
    by (simp add: closed.holds_for_def create_refresh_token_def insert_token_closed)
  show "closed.holds_for (rotate_refresh_token hash i hash' expiry)"
    by (simp add: closed.holds_for_def rotate_closed)
  show "closed.holds_for (create_verification_token i u hash ty expiry)"
    by (auto simp: closed.holds_for_def create_verification_token_def Let_def still_closed_refl list_ex_iff
        intro!: verifications_appended)
  show "closed.holds_for (use_verification_token hash)"
    by (auto simp: closed.holds_for_def use_verification_token_def Let_def still_closed_def closed_defs
        intro!: spent_update)
  show "closed.holds_for (create_authorization_row row)"
    by (auto simp: closed.holds_for_def create_authorization_row_def Let_def still_closed_refl list_ex_iff
        intro!: codes_appended)
  show "closed.holds_for (use_authorization_code hash s)"
    by (auto simp: closed.holds_for_def use_authorization_code_def Let_def still_closed_def closed_defs
        intro!: spent_update)
qed

lemma closed_members: "closed.keeps (update_member_role env g u r)" "closed.keeps (remove_member env g u)"
  unfolding update_member_role_def remove_member_def guard_last_owner_def
  by (intro closed.keeps_steps closed.reads closed_elsewhere)+

interpretation closing: kept_statements still_closed True
  by unfold_locales (rule closed_elsewhere closed_in_place closed_members)+

lemma stays_closed: "still_closed (w_db w) (w_db (run_calls env calls w))"
  by (rule closing.run_calls_keep) simp

section \<open>Keys and references are kept\<close>

definition ok_later :: "auth_db \<Rightarrow> auth_db \<Rightarrow> bool" where
  "ok_later db db' \<longleftrightarrow> (store_ok db \<longrightarrow> store_ok db')"

interpretation sound: kept ok_later
  by unfold_locales (auto simp: ok_later_def)

lemma ok_by_tables:
  assumes "\<And>t db. t_users (snd (st t db)) = t_users db" "\<And>t db. t_sessions (snd (st t db)) = t_sessions db"
    "\<And>t db. t_refresh_tokens (snd (st t db)) = t_refresh_tokens db"
    "\<And>t db. t_verification_tokens (snd (st t db)) = t_verification_tokens db"
    "\<And>t db. t_authorization_codes (snd (st t db)) = t_authorization_codes db"
    "\<And>t db. t_memberships (snd (st t db)) = t_memberships db"
  shows "sound.holds_for st"
  using assms by (simp add: sound.holds_for_def ok_later_def store_ok_def)

lemma ok_elsewhere:
  "sound.holds_for (create_org_row pg g name slug m)"
  "sound.holds_for (update_org_row pg g n sl md)" "sound.holds_for (create_role r g name descr sys perms)"
  "sound.holds_for (create_invitation_row i hash email g r expiry)" "sound.holds_for (use_invitation hash)"
  "sound.holds_for (store_signing_key k)" "sound.holds_for (rotate_signing_key kid k)"
  "sound.holds_for retire_old_signing_keys" "sound.holds_for (grant_platform_role u name by')"
  by (rule ok_by_tables;
      simp add: create_org_row_def update_org_row_def create_role_def create_invitation_row_def
        use_invitation_def store_signing_key_def rotate_signing_key_def retire_old_signing_keys_def
        grant_platform_role_def Let_def split: option.split prod.split result.split)+

lemma ok_users:
  "sound.holds_for (create_user pg u email h m)" "sound.holds_for (update_user pg u e h v md d)"
  "sound.holds_for (disable_user u)"
proof -
  show "sound.holds_for (create_user pg u email h m)"
    by (auto simp: sound.holds_for_def ok_later_def store_ok_def create_user_def Let_def user_exists_def list_ex_iff)
  have set: "us_id (set_user t e h v md d r) = us_id r" for t r by (simp add: set_user_def)
  show "sound.holds_for (update_user pg u e h v md d)"
    by (auto simp: sound.holds_for_def ok_later_def store_ok_def update_user_def Let_def map_update_rows
        image_update_rows set split: option.split)
  show "sound.holds_for (disable_user u)"
    by (auto simp: sound.holds_for_def ok_later_def store_ok_def disable_user_def Let_def map_update_rows
        image_update_rows)
qed

lemma ok_sessions:
  "sound.holds_for (create_session pg s u amr ip agent)" "sound.holds_for (revoke_session s)"
  "sound.holds_for (revoke_user_sessions u)"
  by (auto simp: sound.holds_for_def ok_later_def store_ok_def create_session_def revoke_session_def
      revoke_user_sessions_def revoke_where_def Let_def session_exists_def user_exists_def list_ex_iff
      map_update_rows image_update_rows split: option.split)

lemma ok_insert_token:
  "store_ok db \<Longrightarrow> store_ok (snd (insert_refresh_token i s hash expiry t db))"
  by (auto simp: store_ok_def insert_refresh_token_def Let_def session_exists_def list_ex_iff)

lemma ok_tokens:
  "sound.holds_for (create_refresh_token i s hash expiry)" "sound.holds_for (rotate_refresh_token hash i hash' expiry)"
proof -
  show "sound.holds_for (create_refresh_token i s hash expiry)"
    by (simp add: sound.holds_for_def ok_later_def create_refresh_token_def ok_insert_token)
  have "store_ok (snd (rotate_refresh_token hash i hash' expiry t db))" if ok: "store_ok db" for t db
  proof (cases "find (\<lambda>r. rt_token_hash r = hash) (t_refresh_tokens db)")
    case None
    with ok show ?thesis by (simp add: rotate_refresh_token_def)
  next
    case (Some old)
    let ?tx = "db\<lparr>t_refresh_tokens := update_rows (\<lambda>r. rt_id r = rt_id old)
        (\<lambda>r. r\<lparr>rt_used_at := Some t, rt_replaced_by := Some i\<rparr>) (t_refresh_tokens db)\<rparr>"
    have "store_ok ?tx" using ok by (auto simp: store_ok_def map_update_rows image_update_rows)
    then have "store_ok (snd (insert_refresh_token i (rt_session_id old) hash' expiry t ?tx))"
      by (rule ok_insert_token)
    moreover have "store_ok (revoke_where P t db)" for P
      using ok by (auto simp: store_ok_def revoke_where_def map_update_rows image_update_rows)
    ultimately show ?thesis
      using Some ok by (auto simp: rotate_refresh_token_def Let_def split: prod.splits result.splits)
  qed
  then show "sound.holds_for (rotate_refresh_token hash i hash' expiry)"
    by (simp add: sound.holds_for_def ok_later_def)
qed

lemma ok_codes:
  "sound.holds_for (create_verification_token i u hash ty expiry)"
  "sound.holds_for (use_verification_token hash)" "sound.holds_for (create_authorization_row row)"
  "sound.holds_for (use_authorization_code hash s)"
  by (auto simp: sound.holds_for_def ok_later_def store_ok_def create_verification_token_def
      use_verification_token_def create_authorization_row_def use_authorization_code_def Let_def list_ex_iff
      map_update_rows image_update_rows)

lemma ok_memberships:
  "sound.holds_for (create_membership u g r)" "sound.holds_for (update_membership_role u g r)"
  "sound.holds_for (delete_membership u g)" "sound.holds_for (delete_org_row g)"
proof -
  have key: "map (\<lambda>m. (mb_user_id m, mb_org_id m)) (update_rows P (\<lambda>m. m\<lparr>mb_role_id := r\<rparr>) rows) =
      map (\<lambda>m. (mb_user_id m, mb_org_id m)) rows" for P r rows
    by (rule map_update_rows) simp
  show "sound.holds_for (create_membership u g r)"
    by (auto simp: sound.holds_for_def ok_later_def store_ok_def create_membership_def Let_def list_ex_iff)
  show "sound.holds_for (update_membership_role u g r)"
    by (auto simp: sound.holds_for_def ok_later_def store_ok_def update_membership_role_def Let_def key
        split: option.split)
  show "sound.holds_for (delete_membership u g)" "sound.holds_for (delete_org_row g)"
    by (auto simp: sound.holds_for_def ok_later_def store_ok_def delete_membership_def delete_org_row_def Let_def
        map_update_rows image_update_rows distinct_map_filter')
qed

lemma ok_members: "sound.keeps (update_member_role env g u r)" "sound.keeps (remove_member env g u)"
  unfolding update_member_role_def remove_member_def guard_last_owner_def
  by (intro sound.keeps_steps sound.reads ok_memberships)+

interpretation sounding: kept_statements ok_later True
  by unfold_locales (rule ok_elsewhere ok_users ok_sessions ok_tokens ok_codes ok_memberships ok_members)+

lemma stays_ok: "store_ok (w_db w) \<Longrightarrow> store_ok (w_db (run_calls env calls w))"
  using sounding.run_calls_keep by (simp add: ok_later_def)

section \<open>What a successful call has done\<close>

lemmas read_defs = find_session_by_id_def find_user_by_id_def list_user_orgs_rows_def find_user_by_email_def
  get_password_hash_def find_verification_token_by_hash_def find_authorization_code_by_hash_def

lemma refresh_finish_Ok:
  assumes "refresh_finish env token row w = (Ok resp, w')"
  shows "find (\<lambda>r. se_id r = rt_session_id row) (t_sessions (w_db w)) = Some (ar_session resp) \<and>
     se_revoked_at (ar_session resp) = None \<and> w_db w' = w_db w"
  using assms unfolding refresh_finish_def
  by (elim bind_OkE)
    (auto simp: exec_some_Ok read_defs read_Ok bind_Ok dest!: now_plus_Ok same_db [OF same_issue] split: if_splits)

text \<open>A refresh that succeeds rotated the token in the tables and found its session open.\<close>

lemma refresh_Ok:
  assumes "refresh env token w = (Ok resp, w')"
  shows "\<exists>i hash expiry row. rotate_refresh_token (ev_sha256 env token) i hash expiry (w_now w) (w_db w) = (Ok row, w_db w') \<and>
     find (\<lambda>r. se_id r = rt_session_id row) (t_sessions (w_db w')) = Some (ar_session resp) \<and>
     se_revoked_at (ar_session resp) = None"
proof -
  obtain nt nd w1 row w2 where p: "refresh_token_data_new env w = (Ok (nt, nd) :: (_, auth_error) result, w1)"
    and rot: "exec_sql env (rotate_refresh_token (ev_sha256 env token) (rd_id nd) (rd_token_hash nd) (rd_expires_at nd)) w1 = (Ok row, w2)"
    and fin: "refresh_finish env nt row w2 = (Ok resp, w')"
    using assms unfolding refresh_def Let_def
    by (elim bind_OkE) (auto split: prod.splits elim!: bind_OkE intro: that)
  from refresh_finish_Ok [OF fin] rot show ?thesis
    by (auto simp: exec_sql_Ok same_db [OF same_refresh_data p] refresh_data_now [OF p]) blast
qed

text \<open>A rotation in the tables: what it found and what it leaves.\<close>

lemma rotate_Ok:
  assumes "rotate_refresh_token hash i hash' expiry t db = (Ok row, db')" "store_ok db"
  shows "\<exists>old \<in> set (t_refresh_tokens db). rt_token_hash old = hash \<and> rt_used_at old = None \<and> t \<le> rt_expires_at old \<and>
     rt_session_id row = rt_session_id old \<and> token_used db' hash (rt_session_id old) \<and>
     t_sessions db' = t_sessions db"
proof -
  obtain old where f: "find (\<lambda>r. rt_token_hash r = hash) (t_refresh_tokens db) = Some old"
    using assms(1) by (auto simp: rotate_refresh_token_def split: option.splits)
  note old = find_mem [OF f]
  let ?use = "\<lambda>r. r\<lparr>rt_used_at := Some t, rt_replaced_by := Some i\<rparr>"
  let ?rows = "update_rows (\<lambda>r. rt_id r = rt_id old) ?use (t_refresh_tokens db)"
  have u: "rt_used_at old = None" "t \<le> rt_expires_at old"
    and ins: "insert_refresh_token i (rt_session_id old) hash' expiry t (db\<lparr>t_refresh_tokens := ?rows\<rparr>) = (Ok row, db')"
    using assms(1) f by (auto simp: rotate_refresh_token_def Let_def split: if_splits prod.splits result.splits)
  have "distinct (map rt_token_hash ?rows)" "?use old \<in> set ?rows"
    using assms(2) old by (auto simp: store_ok_def map_update_rows set_update_rows)
  then have "spent_row rt_token_hash (\<lambda>r. rt_used_at r \<noteq> None \<and> rt_session_id r = rt_session_id old) hash ?rows"
    using spent_unique [of rt_token_hash ?rows "?use old"] old by simp
  then have "token_used (db\<lparr>t_refresh_tokens := ?rows\<rparr>) hash (rt_session_id old)" by (simp add: token_used_def)
  with insert_token_closed have "token_used db' hash (rt_session_id old)"
    using ins unfolding still_closed_def by (metis snd_conv)
  with ins u old show ?thesis
    by (intro bexI [of _ old]) (auto simp: insert_refresh_token_def Let_def split: if_splits)
qed

lemma rotate_reuse:
  assumes "rotate_refresh_token hash i hash' expiry t db = (Err AeRefreshTokenReuse, db')" "store_ok db"
  shows "\<exists>old \<in> set (t_refresh_tokens db). rt_token_hash old = hash \<and> rt_used_at old \<noteq> None \<and> revoked db' (rt_session_id old)"
proof -
  obtain old where f: "find (\<lambda>r. rt_token_hash r = hash) (t_refresh_tokens db) = Some old"
    using assms(1) by (auto simp: rotate_refresh_token_def split: option.splits)
  note old = find_mem [OF f]
  have u: "rt_used_at old \<noteq> None" and db': "db' = revoke_where (\<lambda>r. se_id r = rt_session_id old) t db"
    using assms(1) f by (auto simp: rotate_refresh_token_def Let_def insert_refresh_token_def
        split: if_splits prod.splits result.splits)
  have "rt_session_id old \<in> se_id ` set (t_sessions db)" using old assms(2) by (auto simp: store_ok_def)
  then have "revoked db' (rt_session_id old)"
    by (auto simp: revoked_def spent_row_def db' revoke_where_def image_update_rows) (auto simp: set_update_rows)
  with old u show ?thesis by blast
qed

lemma rotate_used:
  assumes "token_used db hash s" "store_ok db"
  shows "fst (rotate_refresh_token hash i hash' expiry t db) = Err AeRefreshTokenReuse \<and>
     revoked (snd (rotate_refresh_token hash i hash' expiry t db)) s"
proof -
  obtain r where "r \<in> set (t_refresh_tokens db)" "rt_token_hash r = hash"
    using assms(1) by (auto simp: token_used_def spent_row_def)
  then obtain old where f: "find (\<lambda>r. rt_token_hash r = hash) (t_refresh_tokens db) = Some old"
    by (cases "find (\<lambda>r. rt_token_hash r = hash) (t_refresh_tokens db)") (auto simp: find_None_iff)
  then have "rt_used_at old \<noteq> None" "rt_session_id old = s"
    using find_mem [OF f] assms(1) by (auto simp: token_used_def spent_row_def)
  with f have r: "rotate_refresh_token hash i hash' expiry t db =
      (Err AeRefreshTokenReuse, revoke_where (\<lambda>r. se_id r = s) t db)"
    by (auto simp: rotate_refresh_token_def)
  from rotate_reuse [OF r assms(2)] assms(1) r show ?thesis by (auto simp: token_used_def spent_row_def)
qed

section \<open>Errors of a refresh\<close>

lemma issue_no_reuse: "issue_access_token env u email s amr orgs d scopes mfa w \<noteq> (Err AeRefreshTokenReuse, w')"
  by (auto simp: issue_access_token_def bind_Err bind_Ok now_plus_def ok_or_def split: option.splits if_splits)

lemma refresh_data_no_error: "refresh_token_data_new env w \<noteq> (Err e, w')"
  by (auto simp: refresh_token_data_new_def generate_refresh_token_def bind_Err bind_Ok Let_def fresh_def
      now_plus_def split: if_splits)

lemma read_some_error: "exec_some env (query f) e w = (Err e', w') \<Longrightarrow> e' = AeInternal \<or> e' = e"
  by (auto simp: exec_some_def bind_Err read_Ok exec_sql_def query_def Let_def ok_or_def split: if_splits option.splits)

lemma read_error: "exec_sql env (query f) w = (Err e, w') \<Longrightarrow> e = AeInternal"
  by (auto simp: exec_sql_def query_def Let_def split: if_splits)

lemma finish_no_reuse: "refresh_finish env nt row w \<noteq> (Err AeRefreshTokenReuse, w')"
  unfolding refresh_finish_def
  by (auto simp: bind_Err bind_Ok read_defs issue_no_reuse now_plus_def dest!: read_some_error read_error
      split: if_splits)

lemma reuse_only_rotating:
  assumes "refresh env token w = (Err AeRefreshTokenReuse, w')"
  shows "\<exists>i hash expiry. rotate_refresh_token (ev_sha256 env token) i hash expiry (w_now w) (w_db w) =
     (Err AeRefreshTokenReuse, w_db w')"
proof -
  obtain nt nd w1 where p: "refresh_token_data_new env w = (Ok (nt, nd) :: (_, auth_error) result, w1)" and
    rot: "exec_sql env (rotate_refresh_token (ev_sha256 env token) (rd_id nd) (rd_token_hash nd) (rd_expires_at nd)) w1 =
      (Err AeRefreshTokenReuse, w')"
    using assms by (auto simp: refresh_def Let_def bind_Ok bind_Err refresh_data_no_error finish_no_reuse intro: that)
  then show ?thesis
    by (auto simp: exec_sql_def Let_def same_db [OF same_refresh_data p] refresh_data_now [OF p]
        split: if_splits prod.splits) blast
qed

lemma sample_ok: "store_ok (w_db sample_world)"
  by code_simp

section \<open>Sessions stay closed\<close>

lemma session_stays_over:
  assumes "revoked (w_db w) s"
    and "refresh env token (run_calls env calls w) = (Ok resp, w')"
  shows "se_id (ar_session resp) \<noteq> s"
proof
  assume s: "se_id (ar_session resp) = s"
  obtain i hash expiry row where rot: "rotate_refresh_token (ev_sha256 env token) i hash expiry
      (w_now (run_calls env calls w)) (w_db (run_calls env calls w)) = (Ok row, w_db w')"
    and f: "find (\<lambda>r. se_id r = rt_session_id row) (t_sessions (w_db w')) = Some (ar_session resp)"
    and o: "se_revoked_at (ar_session resp) = None"
    using refresh_Ok [OF assms(2)] by blast
  have "still_closed (w_db w) (w_db (run_calls env calls w))" by (rule stays_closed)
  moreover have "still_closed (w_db (run_calls env calls w)) (w_db w')" using rotate_closed rot by (metis snd_conv)
  ultimately have "revoked (w_db w') s" using assms(1) by (auto simp: still_closed_def)
  with find_mem [OF f] o s show False by (auto simp: revoked_def spent_row_def)
qed

section \<open>Properties\<close>

text \<open>
  C8. A refresh token works once. After it was exchanged, whatever calls follow, it is never
  exchanged again; and presenting it again, if it is recognised as a reuse, leaves the
  session that it belonged to revoked.
\<close>

theorem refresh_token_once:
  assumes "store_ok (w_db w)" and "refresh env token w = (Ok resp, w1)"
  shows "(\<forall>resp' w3. refresh env token (run_calls env calls w1) \<noteq> (Ok resp', w3)) \<and>
     (\<forall>w3. refresh env token (run_calls env calls w1) = (Err AeRefreshTokenReuse, w3) \<longrightarrow>
        revoked (w_db w3) (se_id (ar_session resp)))"
proof -
  let ?w2 = "run_calls env calls w1"
  obtain i hash expiry row where rot: "rotate_refresh_token (ev_sha256 env token) i hash expiry (w_now w) (w_db w) =
      (Ok row, w_db w1)" and s: "find (\<lambda>r. se_id r = rt_session_id row) (t_sessions (w_db w1)) = Some (ar_session resp)"
    using refresh_Ok [OF assms(2)] by blast
  have "token_used (w_db w1) (ev_sha256 env token) (rt_session_id row)"
    using rotate_Ok [OF rot assms(1)] by auto
  then have used: "token_used (w_db ?w2) (ev_sha256 env token) (se_id (ar_session resp))"
    using stays_closed [of w1 env calls] find_mem [OF s] by (auto simp: still_closed_def)
  have "store_ok (w_db w1)"
    using ok_tokens(2) [of "ev_sha256 env token" i hash expiry] rot assms(1)
    by (simp add: sound.holds_for_def ok_later_def) (metis snd_conv)
  then have ok: "store_ok (w_db ?w2)" by (rule stays_ok)
  show ?thesis
    using rotate_used [OF used ok] refresh_Ok [of env token ?w2] reuse_only_rotating [of env token ?w2]
    by (metis fst_conv snd_conv result.distinct(1))
qed

theorem refresh_token_once_witness:
  "\<exists>resp w1. refresh sample_env ''tok'' sample_world = (Ok resp, w1) \<and>
     (\<forall>resp' w3. refresh sample_env ''tok'' (run_calls sample_env [Tick 5, CallResend (ar_user resp)] w1) \<noteq> (Ok resp', w3))"
proof -
  obtain resp w1 where r: "refresh sample_env ''tok'' sample_world = (Ok resp, w1)"
    by (rule succeededE [where m = "refresh sample_env ''tok''", OF sample_refresh])
  show ?thesis using refresh_token_once [OF sample_ok r] r by blast
qed

text \<open>
  C15. A revoked session is over: once a session is revoked, whatever calls follow, no
  refresh token is exchanged for it. In particular a detected reuse ends the session for the
  thief and for the owner.
\<close>

theorem revoked_session_is_over:
  assumes "revoked (w_db w) s"
    and "refresh env token (run_calls env calls w) = (Ok resp, w')"
  shows "se_id (ar_session resp) \<noteq> s"
  using assms by (rule session_stays_over)

theorem revoked_session_is_over_witness:
  "\<exists>resp w'. refresh sample_env ''tok'' (run_calls sample_env [Tick 5] sample_world) = (Ok resp, w') \<and>
     revoked (w_db sample_world) ''s2'' \<and> se_id (ar_session resp) \<noteq> ''s2''"
proof -
  have s2: "revoked (w_db sample_world) ''s2''" by code_simp
  obtain resp w' where r: "refresh sample_env ''tok'' (run_calls sample_env [Tick 5] sample_world) = (Ok resp, w')"
    by (rule succeededE [where m = "refresh sample_env ''tok''", OF sample_later])
  show ?thesis using revoked_session_is_over [OF s2 r] r s2 by blast
qed

end
