(* ===== verification/Auth_Accounts.thy ===== *)
theory Auth_Accounts
  imports Auth_Sessions
begin

text \<open>
  Password resets and authorization codes: what a successful call checked, what it did to the
  tables, and that it cannot be repeated.
\<close>

section \<open>Used verification tokens and codes\<close>

lemma used_verification_gone:
  "verification_used db hash \<Longrightarrow> find_verification_token_by_hash hash ty t db = (Ok None, db)"
  by (auto simp: find_verification_token_by_hash_def verification_used_def spent_row_def query_def find_None_iff)

lemma used_code_gone: "code_used db hash \<Longrightarrow> find_authorization_code_by_hash hash t db = (Ok None, db)"
  by (auto simp: find_authorization_code_by_hash_def code_used_def spent_row_def query_def find_None_iff)

lemma no_second_reset:
  "verification_used (w_db w) (ev_sha256 env token) \<Longrightarrow> confirm_password_reset env token p w \<noteq> (Ok (), w')"
  by (auto simp: confirm_password_reset_def Let_def bind_Ok exec_some_Ok exec_sql_Ok used_verification_gone)

lemma no_second_exchange:
  "code_used (w_db w) (ev_sha256 env code) \<Longrightarrow> exchange_authorization_code env code v c uri ip agent w \<noteq> (Ok resp, w')"
  by (auto simp: exchange_authorization_code_def Let_def bind_Ok exec_some_Ok exec_sql_Ok used_code_gone)

lemma spent_by_update:
  assumes "\<And>r. key (f r) = key r" "\<And>r. closed (f r)" "count_rows P rows \<noteq> 0"
    "\<And>r. P r \<Longrightarrow> key r = k" "distinct (map key rows)"
  shows "spent_row key closed k (update_rows P f rows)"
proof -
  obtain r where r: "r \<in> set rows" "P r" using assms(3) by (auto simp: count_rows_def filter_empty_conv)
  have "spent_row key closed (key (f r)) (update_rows P f rows)"
    by (rule spent_unique) (use r assms in \<open>auto simp: map_update_rows set_update_rows\<close>)
  then show ?thesis using assms(1) assms(4) [OF r(2)] by simp
qed

lemma use_verification_closes:
  assumes "use_verification_token hash t db = (Ok (), db')" "store_ok db"
  shows "verification_used db' hash \<and> t_sessions db' = t_sessions db \<and> t_users db' = t_users db"
  using assms spent_by_update [of vt_token_hash "\<lambda>r. r\<lparr>vt_used_at := Some t\<rparr>" "\<lambda>r. vt_used_at r \<noteq> None"
      "\<lambda>r. vt_token_hash r = hash \<and> vt_used_at r = None" "t_verification_tokens db" hash]
  by (auto simp: use_verification_token_def Let_def verification_used_def store_ok_def split: if_splits)

lemma use_code_closes:
  assumes "use_authorization_code hash s t db = (Ok (), db')" "store_ok db"
  shows "code_used db' hash"
  using assms spent_by_update [of ac_code_hash "\<lambda>r. r\<lparr>ac_used_at := Some t, ac_session_id := Some s\<rparr>"
      "\<lambda>r. ac_used_at r \<noteq> None" "\<lambda>r. ac_code_hash r = hash \<and> ac_used_at r = None \<and> t < ac_expires_at r"
      "t_authorization_codes db" hash]
  by (auto simp: use_authorization_code_def Let_def code_used_def store_ok_def split: if_splits)

section \<open>Revoking a user's sessions\<close>

definition all_revoked :: "auth_db \<Rightarrow> uuid \<Rightarrow> bool" where
  "all_revoked db u \<longleftrightarrow> (\<forall>s \<in> set (t_sessions db). se_user_id s = u \<longrightarrow> se_revoked_at s \<noteq> None)"

lemma revoke_user_sessions_all:
  assumes "revoke_user_sessions u t db = (Ok n, db')"
  shows "all_revoked db' u" and "t_users db' = t_users db"
    and "s \<in> set (t_sessions db) \<Longrightarrow>
      \<exists>s' \<in> set (t_sessions db'). se_id s' = se_id s \<and> se_user_id s' = se_user_id s"
proof -
  let ?P = "\<lambda>r. se_user_id r = u \<and> se_revoked_at r = None" and ?f = "\<lambda>r. r\<lparr>se_revoked_at := Some t\<rparr>"
  have db': "db' = revoke_where (\<lambda>r. se_user_id r = u) t db"
    using assms by (simp add: revoke_user_sessions_def)
  then have rows: "t_sessions db' = update_rows ?P ?f (t_sessions db)" by (simp add: revoke_where_def)
  show "t_users db' = t_users db" using db' by (simp add: revoke_where_def)
  show "all_revoked db' u" unfolding all_revoked_def rows
    by (intro ballI, rule all_update_rows) auto
  show "\<exists>s' \<in> set (t_sessions db'). se_id s' = se_id s \<and> se_user_id s' = se_user_id s"
    if "s \<in> set (t_sessions db)"
    unfolding rows by (rule bexI [OF _ in_update_rows [OF that]]) simp
qed

lemma all_revoked_revoked:
  assumes "all_revoked db u" "store_ok db" "s \<in> set (t_sessions db)" "se_user_id s = u"
  shows "revoked db (se_id s)"
  unfolding revoked_def
proof (rule spent_unique)
  show "distinct (map se_id (t_sessions db))" using assms(2) by (simp only: store_ok_def)
  show "se_revoked_at s \<noteq> None" using assms(1,3,4) by (simp add: all_revoked_def)
qed (rule assms(3))

section \<open>Password resets\<close>

text \<open>The statements of a successful reset, in their order.\<close>

lemma confirm_Ok:
  assumes "confirm_password_reset env token p w = (Ok (), w')"
  shows "\<exists>v hash n db1 db2 u k.
     find_verification_token_by_hash (ev_sha256 env token) ''password_reset'' (w_now w) (w_db w) = (Ok (Some v), w_db w) \<and>
     8 \<le> length p \<and> length p \<le> 128 \<and> ev_hash_password env n p = Some hash \<and>
     use_verification_token (ev_sha256 env token) (w_now w) (w_db w) = (Ok (), db1) \<and>
     update_user (ev_pg env) (vt_user_id v) None (Some hash) None None None (w_now w) db1 = (Ok u, db2) \<and>
     revoke_user_sessions (vt_user_id v) (w_now w) db2 = (Ok k, w_db w')"
proof -
  have pol: "map_err AeWeakPassword (password_policy p) = Ok a \<Longrightarrow> 8 \<le> length p \<and> length p \<le> 128" for a
    by (auto simp: password_policy_def split: if_splits)
  have find: "find_verification_token_by_hash h ty t db = (r, db') \<Longrightarrow> db' = db" for h ty t db r db'
    by (simp add: find_verification_token_by_hash_def)
  show ?thesis
    using assms unfolding confirm_password_reset_def Let_def hash_password_def
    by (elim bind_OkE)
      (simp add: exec_some_Ok exec_sql_Ok, elim conjE exE, frule find, drule pol,
        auto simp: ok_or_def split: option.splits)
qed

lemma update_user_stored:
  assumes "update_user pg u None (Some hash) None None None t db = (Ok a, db')"
  shows "t_sessions db' = t_sessions db \<and> get_password_hash u t db' = (Ok (Some hash), db')"
proof -
  obtain r where r: "find (\<lambda>r. us_id r = u) (t_users db) = Some r"
    using assms by (auto simp: update_user_def split: option.splits)
  let ?set = "set_user t None (Some hash) None None None"
  have "find (\<lambda>r. us_id r = u) (update_rows (\<lambda>x. us_id x = u) ?set rows) =
      map_option ?set (find (\<lambda>r. us_id r = u) rows)" for rows
    by (induction rows) (auto simp: update_rows_def set_user_def)
  with r assms show ?thesis
    by (auto simp: update_user_def Let_def get_password_hash_def query_def set_user_def split: if_splits)
qed

text \<open>
  C10. A password reset ends what came before it. When the confirmation succeeds, the token was an unused,
  unexpired reset token of a user, the new password has between 8 and 128 bytes and its hash is the user's
  now; whatever calls follow, the token resets no password again, and no refresh token is exchanged for a
  session the user had.
\<close>

theorem password_reset_ends_sessions:
  assumes "store_ok (w_db w)" and "confirm_password_reset env token p w = (Ok (), w1)"
  shows "\<exists>row \<in> set (t_verification_tokens (w_db w)).
     vt_token_hash row = ev_sha256 env token \<and> vt_token_type row = ''password_reset'' \<and> vt_used_at row = None \<and>
     w_now w < vt_expires_at row \<and> 8 \<le> length p \<and> length p \<le> 128 \<and>
     (\<exists>n hash. ev_hash_password env n p = Some hash \<and>
        get_password_hash (vt_user_id row) (w_now w1) (w_db w1) = (Ok (Some hash), w_db w1)) \<and>
     (\<forall>calls p' w3. confirm_password_reset env token p' (run_calls env calls w1) \<noteq> (Ok (), w3)) \<and>
     (\<forall>s \<in> set (t_sessions (w_db w)). se_user_id s = vt_user_id row \<longrightarrow>
        (\<forall>calls t resp w3. refresh env t (run_calls env calls w1) = (Ok resp, w3) \<longrightarrow>
           se_id (ar_session resp) \<noteq> se_id s))"
proof -
  obtain v hash n db1 db2 u k where
    find: "find_verification_token_by_hash (ev_sha256 env token) ''password_reset'' (w_now w) (w_db w) =
      (Ok (Some v), w_db w)" and len: "8 \<le> length p" "length p \<le> 128" and hash: "ev_hash_password env n p = Some hash"
    and used: "use_verification_token (ev_sha256 env token) (w_now w) (w_db w) = (Ok (), db1)"
    and upd: "update_user (ev_pg env) (vt_user_id v) None (Some hash) None None None (w_now w) db1 = (Ok u, db2)"
    and rev: "revoke_user_sessions (vt_user_id v) (w_now w) db2 = (Ok k, w_db w1)"
    using confirm_Ok [OF assms(2)] by blast
  obtain row where row: "row \<in> set (t_verification_tokens (w_db w))" "vt_token_hash row = ev_sha256 env token"
    "vt_token_type row = ''password_reset''" "vt_used_at row = None" "w_now w < vt_expires_at row"
    "vt_user_id row = vt_user_id v"
    using find by (auto simp: find_verification_token_by_hash_def verification_of_def verification_token.truncate_def
        map_option_eq_Some [symmetric] dest!: find_mem sym [of "Some v"])
  have used1: "verification_used db1 (ev_sha256 env token)" "t_sessions db1 = t_sessions (w_db w)"
    using use_verification_closes [OF used assms(1)] by auto
  have "still_closed db1 db2" using closed_elsewhere(2) upd unfolding closed.holds_for_def by (metis snd_conv)
  moreover have "still_closed db2 (w_db w1)"
    using closed_in_place(3) rev unfolding closed.holds_for_def by (metis snd_conv)
  ultimately have used_up: "verification_used (w_db w1) (ev_sha256 env token)"
    using used1 by (simp add: still_closed_def)
  have "ok_later (w_db w) (w_db w1)"
    using sounding.keeps_confirm_reset [of env token p] assms(2) unfolding sound.keeps_def by (metis snd_conv)
  then have ok: "store_ok (w_db w1)" using assms(1) by (simp add: ok_later_def)
  note rows = revoke_user_sessions_all(2,3) [OF rev]
  note stored = update_user_stored [OF upd]
  have pwd: "get_password_hash (vt_user_id row) (w_now w1) (w_db w1) = (Ok (Some hash), w_db w1)"
    using stored rows row(6) by (simp add: get_password_hash_def)
  have no_reset: "confirm_password_reset env token p' (run_calls env calls w1) \<noteq> (Ok (), w3)" for calls p' w3
    by (rule no_second_reset) (use stays_closed [of w1 env calls] used_up in \<open>simp add: still_closed_def\<close>)
  have "revoked (w_db w1) (se_id s)"
    if s: "s \<in> set (t_sessions (w_db w))" "se_user_id s = vt_user_id v" for s
  proof -
    obtain s' where "s' \<in> set (t_sessions (w_db w1))" "se_id s' = se_id s" "se_user_id s' = vt_user_id v"
      using rows(2) [of s] stored used1(2) s by auto
    then show ?thesis using all_revoked_revoked [OF revoke_user_sessions_all(1) [OF rev] ok] by metis
  qed
  then have over: "se_id (ar_session resp) \<noteq> se_id s"
    if "s \<in> set (t_sessions (w_db w))" "se_user_id s = vt_user_id row"
      "refresh env t (run_calls env calls w1) = (Ok resp, w3)" for s calls t resp w3
    using that(1,2) row(6) session_stays_over [OF _ that(3)] by simp
  show ?thesis
    using row(2-5) len hash pwd no_reset over by (intro bexI [OF _ row(1)] conjI exI allI ballI impI) simp_all
qed

theorem password_reset_ends_sessions_witness:
  "\<exists>w1. confirm_password_reset sample_env ''reset'' ''new password'' sample_world = (Ok (), w1) \<and>
     (\<forall>calls p' w3. confirm_password_reset sample_env ''reset'' p' (run_calls sample_env calls w1) \<noteq> (Ok (), w3))"
proof -
  obtain a w1 where r: "confirm_password_reset sample_env ''reset'' ''new password'' sample_world = (Ok a, w1)"
    by (rule succeededE [where m = "confirm_password_reset sample_env ''reset'' ''new password''", OF sample_reset])
  then show ?thesis using password_reset_ends_sessions [OF sample_ok, of sample_env "''reset''" "''new password''" w1]
    by auto
qed

section \<open>Authorization codes\<close>

definition code_accepted :: "auth_env \<Rightarrow> instant \<Rightarrow> string \<Rightarrow> string \<Rightarrow> string \<Rightarrow> string \<Rightarrow> authorization_row \<Rightarrow> bool" where
  "code_accepted env now code verifier client_id redirect_uri row \<longleftrightarrow>
     ac_code_hash row = ev_sha256 env code \<and> ac_used_at row = None \<and> now < ac_expires_at row \<and>
     ac_client_id row = client_id \<and> ac_redirect_uri row = redirect_uri \<and>
     verify_pkce_challenge env verifier (ac_code_challenge row) (ac_code_challenge_method row)"

lemma issue_tokens_Ok:
  "issue_tokens env u s w = (Ok resp, w') \<Longrightarrow> ar_user resp = u \<and> ar_session resp = s \<and> still_closed (w_db w) (w_db w')"
proof -
  assume a: "issue_tokens env u s w = (Ok resp, w')"
  have "still_closed (w_db w) (w_db w')"
    using closing.keeps_issue_tokens [of env u s] a unfolding closed.keeps_def by (metis snd_conv)
  moreover have "ar_user resp = u \<and> ar_session resp = s"
    using a unfolding issue_tokens_def by (elim bind_OkE) (auto split: prod.splits elim!: bind_OkE)
  ultimately show ?thesis by simp
qed

lemma new_session_Ok:
  assumes "new_session env u amr ip agent w = (Ok s, w')"
  shows "se_user_id s = us_id u \<and> se_revoked_at s = None \<and> w_now w' = w_now w"
  using assms by (auto simp: new_session_def bind_Ok exec_sql_Ok create_session_def Let_def split: option.splits if_splits)

lemma exchange_Ok:
  assumes "exchange_authorization_code env code v c uri ip agent w = (Ok (resp, scopes), w')"
  shows "\<exists>ac u db1 db2.
     find_authorization_code_by_hash (ev_sha256 env code) (w_now w) (w_db w) = (Ok (Some ac), w_db w) \<and>
     ac_client_id ac = c \<and> ac_redirect_uri ac = uri \<and>
     verify_pkce_challenge env v (ac_code_challenge ac) (ac_code_challenge_method ac) \<and>
     find_user_by_id (ac_user_id ac) (w_now w) (w_db w) = (Ok (Some u), w_db w) \<and> \<not> is_disabled u \<and>
     use_authorization_code (ev_sha256 env code) (se_id (ar_session resp)) (w_now w) db1 = (Ok (), db2) \<and>
     ok_later (w_db w) db1 \<and> still_closed db2 (w_db w') \<and>
     se_user_id (ar_session resp) = us_id u \<and> ar_user resp = u \<and> scopes = ac_scopes ac"
proof -
  have reads: "find_authorization_code_by_hash h t db = (r, db') \<Longrightarrow> db' = db"
    "find_user_by_id x t db = (r', db') \<Longrightarrow> db' = db" for h t db r r' db' x
    by (simp_all add: find_authorization_code_by_hash_def find_user_by_id_def)
  have new: "ok_later (w_db wa) (w_db wb)" if "new_session env u amr ip agent wa = (Ok s, wb)" for u amr s wa wb
    using sounding.keeps_new_session [of env u amr ip agent] that unfolding sound.keeps_def by (metis snd_conv)
  obtain ac u n s wb db' where
    "find_authorization_code_by_hash (ev_sha256 env code) (w_now w) (w_db w) = (Ok (Some ac), w_db w)"
    "ac_client_id ac = c \<and> ac_redirect_uri ac = uri \<and>
     verify_pkce_challenge env v (ac_code_challenge ac) (ac_code_challenge_method ac)"
    "find_user_by_id (ac_user_id ac) (w_now w) (w_db w) = (Ok (Some u), w_db w)" "\<not> is_disabled u"
    "new_session env u [''pkce''] ip agent (w\<lparr>w_statements := n\<rparr>) = (Ok s, wb)"
    "use_authorization_code (ev_sha256 env code) (se_id s) (w_now wb) (w_db wb) = (Ok (), db')"
    "issue_tokens env u s (wb\<lparr>w_statements := Suc (w_statements wb), w_db := db'\<rparr>) = (Ok resp, w')"
    "scopes = ac_scopes ac"
    using assms unfolding exchange_authorization_code_def Let_def
    by (elim bind_OkE) (auto simp: exec_some_Ok exec_sql_Ok split: if_splits elim!: bind_OkE dest!: reads intro: that)
  then show ?thesis
    using issue_tokens_Ok [of env u s "wb\<lparr>w_statements := Suc (w_statements wb), w_db := db'\<rparr>" resp w']
      new_session_Ok [of env u "[''pkce'']" ip agent "w\<lparr>w_statements := n\<rparr>" s wb]
      new [of u "[''pkce'']" "w\<lparr>w_statements := n\<rparr>" s wb]
    by (intro exI [of _ ac] exI [of _ u] exI [of _ "w_db wb"] exI [of _ db']) simp
qed

text \<open>
  C9. An authorization code is exchanged once, and only as it was issued: for the client and the redirect
  address it is bound to, before it expires, by who knows the verifier of its PKCE challenge, and for the user
  it was made for, who is not disabled. Whatever calls follow, it is never exchanged again.
\<close>

theorem authorization_code_once:
  assumes "store_ok (w_db w)"
    and "exchange_authorization_code env code v c uri ip agent w = (Ok (resp, scopes), w1)"
  shows "(\<exists>row \<in> set (t_authorization_codes (w_db w)). code_accepted env (w_now w) code v c uri row \<and>
       se_user_id (ar_session resp) = ac_user_id row \<and> us_id (ar_user resp) = ac_user_id row \<and>
       \<not> is_disabled (ar_user resp) \<and> scopes = ac_scopes row) \<and>
     (\<forall>calls v' c' uri' ip' agent' resp' w3.
        exchange_authorization_code env code v' c' uri' ip' agent' (run_calls env calls w1) \<noteq> (Ok resp', w3))"
proof -
  obtain ac u dba dbb where
    find: "find_authorization_code_by_hash (ev_sha256 env code) (w_now w) (w_db w) = (Ok (Some ac), w_db w)"
    and bound: "ac_client_id ac = c" "ac_redirect_uri ac = uri"
      "verify_pkce_challenge env v (ac_code_challenge ac) (ac_code_challenge_method ac)"
    and user: "find_user_by_id (ac_user_id ac) (w_now w) (w_db w) = (Ok (Some u), w_db w)" "\<not> is_disabled u"
    and used: "use_authorization_code (ev_sha256 env code) (se_id (ar_session resp)) (w_now w) dba = (Ok (), dbb)"
    and later: "ok_later (w_db w) dba" "still_closed dbb (w_db w1)"
    and resp: "se_user_id (ar_session resp) = us_id u" "ar_user resp = u" "scopes = ac_scopes ac"
    using exchange_Ok [OF assms(2)] by blast
  have uid: "us_id u = ac_user_id ac"
    using user(1) by (auto simp: find_user_by_id_def user_of_def user.truncate_def dest!: find_mem sym [of "Some u"])
  obtain row where row: "row \<in> set (t_authorization_codes (w_db w))" "ac = authorization_of row"
    "ac_code_hash row = ev_sha256 env code" "ac_used_at row = None" "w_now w < ac_expires_at row"
    using find by (auto simp: find_authorization_code_by_hash_def dest!: find_mem sym [of "Some ac"])
  have "code_used dbb (ev_sha256 env code)"
    using use_code_closes [OF used] later(1) assms(1) by (simp add: ok_later_def)
  then have "code_used (w_db (run_calls env calls w1)) (ev_sha256 env code)" for calls
    using later(2) stays_closed [of w1 env calls] by (simp add: still_closed_def)
  then have "exchange_authorization_code env code v' c' uri' ip' agent' (run_calls env calls w1) \<noteq> (Ok resp', w3)"
    for calls v' c' uri' ip' agent' resp' w3 by (rule no_second_exchange)
  moreover have "code_accepted env (w_now w) code v c uri row \<and> se_user_id (ar_session resp) = ac_user_id row \<and>
      us_id (ar_user resp) = ac_user_id row \<and> \<not> is_disabled (ar_user resp) \<and> scopes = ac_scopes row"
    using row bound user(2) resp uid
    by (simp add: code_accepted_def authorization_of_def authorization_code.truncate_def)
  ultimately show ?thesis using row(1) by blast
qed

theorem authorization_code_once_witness:
  "\<exists>resp scopes w1. exchange_authorization_code sample_env ''code'' ''verifier'' ''cli'' ''uri'' None None sample_world =
       (Ok (resp, scopes), w1) \<and>
     (\<exists>row \<in> set (t_authorization_codes (w_db sample_world)). us_id (ar_user resp) = ac_user_id row \<and> scopes = ac_scopes row)"
proof -
  obtain r w1 where r: "exchange_authorization_code sample_env ''code'' ''verifier'' ''cli'' ''uri'' None None sample_world =
      (Ok r, w1)"
    by (rule succeededE [where m = "exchange_authorization_code sample_env ''code'' ''verifier'' ''cli'' ''uri'' None None",
        OF sample_exchange])
  then have e: "exchange_authorization_code sample_env ''code'' ''verifier'' ''cli'' ''uri'' None None sample_world =
      (Ok (fst r, snd r), w1)" by simp
  then show ?thesis using authorization_code_once [OF sample_ok e] by blast
qed

end
