(* ===== verification/Auth_Owners.thy ===== *)
theory Auth_Owners
  imports Auth_Sessions
begin

text \<open>
  Organizations keep an owner: once an organization has a member whose role is an owner role, no sequence
  of calls that deletes no organization leaves it without one. The change and the removal of members need
  the guard of the last owner for it; every other call is a matter of its statements.
\<close>

section \<open>Owners\<close>

definition owner_role :: "auth_db \<Rightarrow> uuid \<Rightarrow> bool" where
  "owner_role db r \<longleftrightarrow> list_ex (\<lambda>x. ro_id x = r \<and> ro_name x = ''owner'') (t_roles db)"

definition has_owner :: "auth_db \<Rightarrow> uuid \<Rightarrow> bool" where
  "has_owner db g \<longleftrightarrow> list_ex (\<lambda>m. mb_org_id m = g \<and> owner_role db (mb_role_id m)) (t_memberships db)"

definition members_ok :: "auth_db \<Rightarrow> bool" where
  "members_ok db \<longleftrightarrow> distinct (map (\<lambda>m. (mb_user_id m, mb_org_id m)) (t_memberships db)) \<and>
     distinct (map ro_id (t_roles db))"

definition owner_later :: "uuid \<Rightarrow> auth_db \<Rightarrow> auth_db \<Rightarrow> bool" where
  "owner_later g db db' \<longleftrightarrow> (members_ok db \<and> has_owner db g \<longrightarrow> members_ok db' \<and> has_owner db' g)"

interpretation owners: kept "owner_later g" for g
  by unfold_locales (auto simp: owner_later_def)

text \<open>Statements that leave memberships and roles alone.\<close>

lemma owners_by_tables:
  assumes "\<And>t db. t_memberships (snd (st t db)) = t_memberships db" "\<And>t db. t_roles (snd (st t db)) = t_roles db"
  shows "owners.holds_for g st"
  using assms by (simp add: owners.holds_for_def owner_later_def members_ok_def has_owner_def owner_role_def)

lemma owners_elsewhere:
  "owners.holds_for g (create_user pg u email h m)" "owners.holds_for g (update_user pg u e h v md d)"
  "owners.holds_for g (disable_user u)" "owners.holds_for g (create_session pg s u amr ip agent)"
  "owners.holds_for g (revoke_session s)" "owners.holds_for g (revoke_user_sessions u)"
  "owners.holds_for g (create_refresh_token i s hash expiry)"
  "owners.holds_for g (create_org_row pg g' name slug m)" "owners.holds_for g (update_org_row pg g' n sl md)"
  "owners.holds_for g (create_invitation_row i hash email g' r expiry)" "owners.holds_for g (use_invitation hash)"
  "owners.holds_for g (store_signing_key k)" "owners.holds_for g (rotate_signing_key kid k)"
  "owners.holds_for g retire_old_signing_keys"
  "owners.holds_for g (create_verification_token i u hash ty expiry)"
  "owners.holds_for g (use_verification_token hash)" "owners.holds_for g (grant_platform_role u name by')"
  "owners.holds_for g (create_authorization_row row)" "owners.holds_for g (use_authorization_code hash s)"
  by (rule owners_by_tables;
      simp add: create_user_def update_user_def disable_user_def create_session_def revoke_session_def
        revoke_user_sessions_def revoke_where_def create_refresh_token_def insert_refresh_token_def
        create_org_row_def update_org_row_def create_invitation_row_def use_invitation_def
        store_signing_key_def rotate_signing_key_def retire_old_signing_keys_def create_verification_token_def
        use_verification_token_def grant_platform_role_def create_authorization_row_def
        use_authorization_code_def Let_def split: option.split prod.split result.split)+

lemma owners_rotate: "owners.holds_for g (rotate_refresh_token hash i hash' expiry)"
  by (rule owners_by_tables;
      auto simp: rotate_refresh_token_def insert_refresh_token_def revoke_where_def Let_def
        split: option.splits prod.splits result.splits if_splits)

lemma owners_added: "owners.holds_for g (create_role r g' name descr sys perms)"
  "owners.holds_for g (create_membership u g' r)"
  by (auto simp: owners.holds_for_def owner_later_def members_ok_def has_owner_def owner_role_def create_role_def
      create_membership_def Let_def role_exists_def list_ex_iff split: option.split)

section \<open>Members\<close>

lemma owners_update:
  assumes "members_ok db" "has_owner db g"
    and "g' = g \<Longrightarrow> owner_role db r \<or>
      (\<exists>m \<in> set (t_memberships db). mb_org_id m = g \<and> mb_user_id m \<noteq> u \<and> owner_role db (mb_role_id m))"
  shows "members_ok (snd (update_membership_role u g' r t db)) \<and> has_owner (snd (update_membership_role u g' r t db)) g"
proof (cases "find (\<lambda>m. mb_user_id m = u \<and> mb_org_id m = g') (t_memberships db) = None \<or> \<not> role_exists db r")
  case True
  then show ?thesis using assms(1,2) by (auto simp: update_membership_role_def split: option.split)
next
  case False
  then obtain m where f: "find (\<lambda>m. mb_user_id m = u \<and> mb_org_id m = g') (t_memberships db) = Some m"
    and r: "role_exists db r" by auto
  let ?P = "\<lambda>m. mb_user_id m = u \<and> mb_org_id m = g'" and ?f = "\<lambda>m. m\<lparr>mb_role_id := r\<rparr>"
  let ?rows = "update_rows ?P ?f (t_memberships db)"
  have db': "snd (update_membership_role u g' r t db) = db\<lparr>t_memberships := ?rows\<rparr>"
    using f r by (simp add: update_membership_role_def)
  have "\<exists>x \<in> set ?rows. mb_org_id x = g \<and> owner_role db (mb_role_id x)"
  proof (cases "g' = g \<and> owner_role db r")
    case True
    then show ?thesis using in_update_rows [of m "t_memberships db" ?P ?f] find_mem [OF f]
      by (intro bexI [of _ "?f m"]) auto
  next
    case False
    then obtain x where "x \<in> set (t_memberships db)" "mb_org_id x = g" "owner_role db (mb_role_id x)" "\<not> ?P x"
      using assms(2,3) by (auto simp: has_owner_def list_ex_iff)
    then show ?thesis using in_update_rows [of x "t_memberships db" ?P ?f] by auto
  qed
  moreover have "map (\<lambda>m. (mb_user_id m, mb_org_id m)) ?rows = map (\<lambda>m. (mb_user_id m, mb_org_id m)) (t_memberships db)"
    by (rule map_update_rows) simp
  ultimately show ?thesis using assms(1)
    by (simp add: db' members_ok_def has_owner_def owner_role_def list_ex_iff)
qed

lemma owners_delete:
  assumes "members_ok db" "has_owner db g"
    and "g' = g \<Longrightarrow> \<exists>m \<in> set (t_memberships db). mb_org_id m = g \<and> mb_user_id m \<noteq> u \<and> owner_role db (mb_role_id m)"
  shows "members_ok (snd (delete_membership u g' t db)) \<and> has_owner (snd (delete_membership u g' t db)) g"
proof -
  obtain x where "x \<in> set (t_memberships db)" "mb_org_id x = g" "owner_role db (mb_role_id x)"
    "\<not> (mb_user_id x = u \<and> mb_org_id x = g')"
    using assms(2,3) by (auto simp: has_owner_def list_ex_iff)
  then show ?thesis using assms(1,2)
    by (auto simp: delete_membership_def Let_def members_ok_def has_owner_def owner_role_def list_ex_iff
        distinct_map_filter')
qed

text \<open>What the tables are after a computation, step by step.\<close>

definition leaves :: "(auth_db \<Rightarrow> bool) \<Rightarrow> ('a, 'e) act \<Rightarrow> auth_world \<Rightarrow> bool" where
  "leaves Q m w \<longleftrightarrow> Q (w_db (snd (m w)))"

lemma leaves_read:
  assumes "Q (w_db w)"
    and "\<And>a. f (w_now w) (w_db w) = Some a \<Longrightarrow> leaves Q (k a) (w\<lparr>w_statements := Suc (w_statements w)\<rparr>)"
  shows "leaves Q (bind (exec_some env (query f) e) k) w"
  using assms by (cases "f (w_now w) (w_db w)")
    (auto simp: leaves_def exec_some_def exec_sql_def query_def bind_def Let_def lift_def)

lemma leaves_query:
  assumes "Q (w_db w)" and "leaves Q (k (f (w_now w) (w_db w))) (w\<lparr>w_statements := Suc (w_statements w)\<rparr>)"
  shows "leaves Q (bind (exec_sql env (query f)) k) w"
  using assms by (auto simp: leaves_def exec_sql_def query_def bind_def Let_def)

lemma leaves_exec:
  assumes "Q (w_db w)" and "Q (snd (st (w_now w) (w_db w)))"
  shows "leaves Q (exec_sql env st) w"
  using assms by (auto simp: leaves_def exec_sql_def Let_def split: prod.split)

lemma leaves_bind_same:
  assumes "leaves Q m w" "\<And>a. same.keeps (k a)"
  shows "leaves Q (bind m k) w"
proof -
  have "w_db (snd (k a w')) = w_db w'" for a w'
    using assms(2) same_db by (metis prod.collapse)
  then show ?thesis using assms(1) by (auto simp: leaves_def bind_def split: prod.split result.split)
qed

lemma leaves_simple: "Q (w_db w) \<Longrightarrow> leaves Q (ret a) w" "Q (w_db w) \<Longrightarrow> leaves Q (lift r) w"
  by (simp_all add: leaves_def)

lemma leaves_if: "(b \<Longrightarrow> leaves Q m w) \<Longrightarrow> (\<not> b \<Longrightarrow> leaves Q m' w) \<Longrightarrow> leaves Q (if b then m else m') w"
  by simp

lemma leaves_guard:
  assumes "Q (w_db w)"
    and "\<And>n. (losing \<Longrightarrow> 1 < count_rows (\<lambda>m. mb_org_id m = g \<and> mb_role_id m = r) (t_memberships (w_db w))) \<Longrightarrow>
      leaves Q (k ()) (w\<lparr>w_statements := n\<rparr>)"
  shows "leaves Q (bind (guard_last_owner env g r losing) k) w"
  using assms(1) assms(2) [of "w_statements w"] assms(2) [of "Suc (w_statements w)"]
  by (auto simp: leaves_def guard_last_owner_def count_members_with_role_def exec_sql_def query_def bind_def Let_def)

text \<open>The guard answers only where another member has the role.\<close>

lemma other_owner:
  assumes "members_ok db" "find (\<lambda>m. mb_user_id m = u \<and> mb_org_id m = g) (t_memberships db) = Some m"
    "find (\<lambda>x. ro_id x = mb_role_id m) (t_roles db) = Some cur" "has_owner db g"
    "ro_name cur = ''owner'' \<Longrightarrow> 1 < count_rows (\<lambda>x. mb_org_id x = g \<and> mb_role_id x = mb_role_id m) (t_memberships db)"
  shows "\<exists>m \<in> set (t_memberships db). mb_org_id m = g \<and> mb_user_id m \<noteq> u \<and> owner_role db (mb_role_id m)"
proof (cases "ro_name cur = ''owner''")
  case True
  let ?Q = "\<lambda>x. mb_org_id x = g \<and> mb_role_id x = mb_role_id m"
  have "\<exists>x \<in> set (t_memberships db). ?Q x \<and> mb_user_id x \<noteq> u"
  proof (rule ccontr)
    assume "\<not> ?thesis"
    then have "set (filter ?Q (t_memberships db)) \<subseteq> {m}"
      using assms(1) find_mem [OF assms(2)] by (auto simp: members_ok_def distinct_map inj_on_def)
    moreover have "distinct (filter ?Q (t_memberships db))" using assms(1) by (simp add: members_ok_def distinct_map)
    ultimately have "length (filter ?Q (t_memberships db)) \<le> 1"
      using card_mono [of "{m}" "set (filter ?Q (t_memberships db))"] distinct_card [of "filter ?Q (t_memberships db)"]
      by simp
    then show False using assms(5) True by (simp add: count_rows_def)
  qed
  moreover have "owner_role db (mb_role_id m)"
    using True find_mem [OF assms(3)] by (auto simp: owner_role_def list_ex_iff)
  ultimately show ?thesis by metis
next
  case False
  obtain x where x: "x \<in> set (t_memberships db)" "mb_org_id x = g" "owner_role db (mb_role_id x)"
    using assms(4) by (auto simp: has_owner_def list_ex_iff)
  have "\<not> owner_role db (mb_role_id m)"
    using False find_mem [OF assms(3)] assms(1)
    by (auto simp: owner_role_def list_ex_iff members_ok_def distinct_map inj_on_def)
  then have "x \<noteq> m" using x by auto
  then have "mb_user_id x \<noteq> u"
    using x(1,2) find_mem [OF assms(2)] assms(1) by (auto simp: members_ok_def distinct_map inj_on_def)
  with x show ?thesis by blast
qed

lemma owners_guarded_update:
  assumes "find (\<lambda>m. mb_user_id m = u \<and> mb_org_id m = g') (t_memberships db) = Some m"
    "find (\<lambda>x. ro_id x = mb_role_id m) (t_roles db) = Some cur" "find (\<lambda>x. ro_id x = r) (t_roles db) = Some new"
    "ro_name cur = ''owner'' \<and> ro_name new \<noteq> ''owner'' \<Longrightarrow>
      1 < count_rows (\<lambda>x. mb_org_id x = g' \<and> mb_role_id x = mb_role_id m) (t_memberships db)"
  shows "owner_later g db (snd (update_membership_role u g' r t db))"
  unfolding owner_later_def
proof
  assume a: "members_ok db \<and> has_owner db g"
  show "members_ok (snd (update_membership_role u g' r t db)) \<and> has_owner (snd (update_membership_role u g' r t db)) g"
  proof (rule owners_update)
    assume g: "g' = g"
    show "owner_role db r \<or>
        (\<exists>m \<in> set (t_memberships db). mb_org_id m = g \<and> mb_user_id m \<noteq> u \<and> owner_role db (mb_role_id m))"
    proof (cases "ro_name new = ''owner''")
      case True
      then show ?thesis using find_mem [OF assms(3)] by (auto simp: owner_role_def list_ex_iff)
    next
      case False
      then show ?thesis using other_owner [OF _ assms(1)[unfolded g] assms(2)] a assms(4) g by blast
    qed
  qed (use a in simp_all)
qed

lemma owners_guarded_delete:
  assumes "find (\<lambda>m. mb_user_id m = u \<and> mb_org_id m = g') (t_memberships db) = Some m"
    "find (\<lambda>x. ro_id x = mb_role_id m) (t_roles db) = Some cur"
    "ro_name cur = ''owner'' \<Longrightarrow>
      1 < count_rows (\<lambda>x. mb_org_id x = g' \<and> mb_role_id x = mb_role_id m) (t_memberships db)"
  shows "owner_later g db (snd (delete_membership u g' t db))"
  unfolding owner_later_def
  using owners_delete [of db g g' u t] other_owner [OF _ assms(1,2)] assms(3) by blast

lemma owners_members: "owners.keeps g (update_member_role env g' u r)" "owners.keeps g (remove_member env g' u)"
proof -
  have after: "same.keeps (bind (exec_some env (find_user_by_id u) AeUserNotFound) (\<lambda>us. ret (us, m', new)))" for m' new
    by (intro same.keeps_steps same.reads)
  have "leaves (owner_later g (w_db w)) (update_member_role env g' u r) w" for w
    unfolding update_member_role_def find_membership_def find_role_by_id_def
    by (intro leaves_read leaves_if leaves_guard leaves_bind_same [OF leaves_exec] leaves_simple after)
      (simp_all add: owners.refl owners_guarded_update)
  moreover have "leaves (owner_later g (w_db w)) (remove_member env g' u) w" for w
    unfolding remove_member_def find_membership_def find_role_by_id_def
    by (intro leaves_read leaves_if leaves_guard leaves_exec leaves_simple)
      (simp_all add: owners.refl owners_guarded_delete)
  ultimately show "owners.keeps g (update_member_role env g' u r)" "owners.keeps g (remove_member env g' u)"
    by (simp_all add: owners.keeps_def leaves_def)
qed

interpretation owning: kept_statements "owner_later g" False for g
  by unfold_locales (simp_all only: owners_elsewhere owners_rotate owners_added owners_members)

text \<open>
  C12. An organization that has an owner keeps one: whatever calls follow, as long as none deletes an
  organization, some member of it has a role named owner. The table keys it rests on are kept as well.
\<close>

theorem org_keeps_owner:
  assumes "members_ok (w_db w)" and "has_owner (w_db w) g"
    and "\<forall>header r. CallDeleteOrg header r \<notin> set calls"
  shows "members_ok (w_db (run_calls env calls w)) \<and> has_owner (w_db (run_calls env calls w)) g"
  using owning.run_calls_keep [of calls g w env] assms by (simp add: owner_later_def)

theorem org_keeps_owner_witness:
  "has_owner (w_db (run_calls sample_env [CallDeleteMember (Some ''Bearer ann'') ''g'' ''ann'',
     CallInvite (Some ''Bearer ann'') ''g'' ''bob@x'' ''ro''] sample_world)) ''g''"
proof -
  have "members_ok (w_db sample_world)" "has_owner (w_db sample_world) ''g''" by code_simp+
  from org_keeps_owner [OF this] show ?thesis by simp
qed

text \<open>
  Platform operators: what a grant leaves in the tables, and who may ask for one.
\<close>

lemma granted:
  assumes "r \<in> set rs \<or> (\<exists>m \<in> set rows. pm_user_id m = u \<and> pm_role_id m = r \<and> pm_revoked_at m = None)"
  shows "\<exists>m \<in> set (grant_rows u granted_by t rs rows). pm_user_id m = u \<and> pm_role_id m = r \<and> pm_revoked_at m = None"
  using assms
proof (induction rs arbitrary: rows)
  case Nil
  then show ?case by simp
next
  case (Cons r' rs)
  let ?rows = "if list_ex (\<lambda>m. pm_user_id m = u \<and> pm_role_id m = r') rows
     then update_rows (\<lambda>m. pm_user_id m = u \<and> pm_role_id m = r')
       (\<lambda>m. m\<lparr>pm_revoked_at := None, pm_granted_by := granted_by, pm_granted_at := t\<rparr>) rows
     else rows @ [\<lparr>pm_user_id = u, pm_role_id = r', pm_granted_by = granted_by, pm_granted_at = t, pm_revoked_at = None\<rparr>]"
  have "r \<in> set rs \<or> (\<exists>m \<in> set ?rows. pm_user_id m = u \<and> pm_role_id m = r \<and> pm_revoked_at m = None)"
  proof (cases "r = r'")
    case True
    let ?P = "\<lambda>m. pm_user_id m = u \<and> pm_role_id m = r'"
    let ?f = "\<lambda>m. m\<lparr>pm_revoked_at := None, pm_granted_by := granted_by, pm_granted_at := t\<rparr>"
    show ?thesis
    proof (cases "list_ex ?P rows")
      case True
      then obtain m where m: "m \<in> set rows" "?P m" by (auto simp: list_ex_iff)
      then have "?f m \<in> set (update_rows ?P ?f rows)" using in_update_rows [of m rows ?P ?f] by simp
      with True m \<open>r = r'\<close> show ?thesis by (intro disjI2 bexI [of _ "?f m"]) simp_all
    next
      case False
      then show ?thesis using \<open>r = r'\<close> by simp
    qed
  next
    case False
    then show ?thesis using Cons.prems by (auto simp: update_rows_def)
  qed
  then show ?case using Cons.IH [of ?rows] by simp
qed

text \<open>
  Whoever reaches the promotion endpoint makes any registered user a platform operator: the handler
  asks for no credentials, and with the role of the migration in the tables and no statement failing it
  always succeeds, after which the user has the role.
\<close>

theorem promotion_needs_no_credentials:
  assumes "\<forall>n. \<not> ev_fails env n"
    and "find_user_by_email (ev_pg env) email (w_now w) (w_db w) = (Ok (Some u), w_db w)"
    and "platform_role_ids (w_db w) ''platform_operator'' \<noteq> []"
  shows "\<exists>w'. route_promote_operator env email w = (Ok (us_id u), w') \<and>
     has_platform_role (us_id u) ''platform_operator'' (w_now w') (w_db w') = (Ok True, w_db w')"
proof -
  let ?rs = "platform_role_ids (w_db w) ''platform_operator''"
  let ?db = "(w_db w)\<lparr>t_platform_memberships :=
      grant_rows (us_id u) None (w_now w) ?rs (t_platform_memberships (w_db w))\<rparr>"
  let ?w = "w\<lparr>w_statements := Suc (Suc (w_statements w)), w_db := ?db\<rparr>"
  obtain x where "x \<in> set (t_users (w_db w))" "us_id x = us_id u"
    using assms(2) by (auto simp: find_user_by_email_def user_of_def user.truncate_def dest!: find_mem sym [of "Some u"])
  then have u: "user_exists (w_db w) (us_id u)" by (auto simp: user_exists_def list_ex_iff)
  have "route_promote_operator env email w = (Ok (us_id u), ?w)"
    using assms(1,2) u by (simp add: route_promote_operator_def promote_to_platform_operator_def bind_def exec_some_def
        exec_sql_def grant_platform_role_def Let_def)
  moreover obtain r where r: "r \<in> set ?rs" using assms(3) by (cases ?rs) auto
  have "\<exists>m \<in> set (t_platform_memberships ?db). pm_user_id m = us_id u \<and> holds_role ?db ''platform_operator'' m"
    using granted [of r ?rs "t_platform_memberships (w_db w)" "us_id u" None "w_now w"] r
    by (auto simp: holds_role_def platform_role_ids_def)
  then have "has_platform_role (us_id u) ''platform_operator'' (w_now ?w) (w_db ?w) = (Ok True, w_db ?w)"
    by (simp add: has_platform_role_def list_ex_iff)
  ultimately show ?thesis by blast
qed

theorem promotion_needs_no_credentials_witness:
  "\<exists>w'. route_promote_operator sample_env ''bob@x'' sample_world = (Ok ''bob'', w') \<and>
     has_platform_role ''bob'' ''platform_operator'' (w_now w') (w_db w') = (Ok True, w_db w')"
proof -
  have "\<forall>n. \<not> ev_fails sample_env n" by (simp add: sample_env_def)
  moreover have "find_user_by_email (ev_pg sample_env) ''bob@x'' (w_now sample_world) (w_db sample_world) =
      (Ok (Some (user_of (sample_user ''bob'' ''bob@x''))), w_db sample_world)"
    by (simp add: find_user_by_email_def sample_env_def sample_pg_def sample_world_def sample_tables_def sample_user_def)
  moreover have "platform_role_ids (w_db sample_world) ''platform_operator'' \<noteq> []" by code_simp
  ultimately show ?thesis
    using promotion_needs_no_credentials [of sample_env "''bob@x''" sample_world "user_of (sample_user ''bob'' ''bob@x'')"]
    by (simp add: user_of_def user.truncate_def sample_user_def)
qed

end
