(* ===== verification/Cache_Store.thy ===== *)
theory Cache_Store
  imports Computation
begin

text \<open>
  The cache backend (\<open>crates/reactor-cache/src/postgres.rs\<close>): queues and a key-value store in two
  tables. A statement takes the instant of the database (\<open>now()\<close> in SQL) and the tables; an operation that
  reads the clock of its own process (\<open>Utc::now()\<close>) takes that as a first argument, \<open>clock\<close>, and nothing relates
  the two. Durations count microseconds and are not negative; ids and receipts are texts.
\<close>

section \<open>Tables\<close>

datatype cache_error = CeDatabase | CeInvalidReceipt string

record queue_row =
  qr_id :: uuid
  qr_queue :: string
  qr_data :: string
  qr_visible_at :: instant
  qr_attempt :: int
  qr_created_at :: instant
  qr_receipt :: "string option"

record queue_item =
  qi_id :: string
  qi_receipt :: string
  qi_data :: string
  qi_enqueued_at :: instant
  qi_attempt :: int

record kv_row =
  kv_key :: string
  kv_value :: string
  kv_expires_at :: "instant option"
  kv_updated_at :: instant

record cache_db =
  c_queue :: "queue_row list"
  c_kv :: "kv_row list"

type_synonym 'a cache_statement = "instant \<Rightarrow> cache_db \<Rightarrow> ('a, cache_error) result \<times> cache_db"

section \<open>Durations\<close>

text \<open>
  \<open>Utc::now() + chrono::Duration::from_std(d).unwrap_or_default()\<close>: a duration \<open>chrono\<close> cannot hold is
  taken for none at all, and an instant outside its calendar panics.
\<close>

definition chrono_from_std :: "int \<Rightarrow> int" where
  "chrono_from_std d = (if d \<le> 9223372036854775807000 then d else 0)"

definition delayed :: "instant \<Rightarrow> int \<Rightarrow> (instant, cache_error) result" where
  "delayed now d =
     (if in_calendar (now + chrono_from_std d) then Ok (now + chrono_from_std d) else Panic)"

section \<open>Queues\<close>

definition enqueue :: "instant \<Rightarrow> uuid \<Rightarrow> string \<Rightarrow> string \<Rightarrow> int option \<Rightarrow> string cache_statement" where
  "enqueue clock i queue item delay now db =
     (case (case delay of Some d \<Rightarrow> delayed clock d | None \<Rightarrow> Ok clock) of
        Ok visible_at \<Rightarrow>
          if list_ex (\<lambda>r. qr_id r = i) (c_queue db) then (Err CeDatabase, db)
          else (Ok i, db\<lparr>c_queue := c_queue db @
            [\<lparr>qr_id = i, qr_queue = queue, qr_data = item, qr_visible_at = visible_at, qr_attempt = 0,
              qr_created_at = now, qr_receipt = None\<rparr>]\<rparr>)
      | Err e \<Rightarrow> (Err e, db) | Panic \<Rightarrow> (Panic, db) | Diverge \<Rightarrow> (Diverge, db))"

text \<open>The rows that may be taken, the oldest first.\<close>

definition ready_rows :: "string \<Rightarrow> instant \<Rightarrow> queue_row list \<Rightarrow> queue_row list" where
  "ready_rows queue now rows =
     sort_key qr_visible_at (filter (\<lambda>r. qr_queue r = queue \<and> qr_visible_at r \<le> now \<and> qr_receipt r = None) rows)"

definition receipt_for :: "string \<Rightarrow> queue_row \<Rightarrow> string" where
  "receipt_for prefix r = prefix @ ''-'' @ qr_id r"

definition dequeue :: "string \<Rightarrow> string \<Rightarrow> nat \<Rightarrow> int \<Rightarrow> queue_item list cache_statement" where
  "dequeue prefix queue count visibility_timeout now db =
     (let taken = take count (ready_rows queue now (c_queue db));
          P = (\<lambda>r. qr_id r \<in> qr_id ` set taken) in
      if list_ex (\<lambda>r. qr_receipt r \<in> (\<lambda>x. Some (receipt_for prefix x)) ` set taken) (c_queue db) \<or>
         list_ex (\<lambda>r. qr_attempt r \<ge> 2147483647) taken
      then (Err CeDatabase, db)
      else (Ok (map (\<lambda>r. \<lparr>qi_id = qr_id r, qi_receipt = receipt_for prefix r, qi_data = qr_data r,
                   qi_enqueued_at = qr_created_at r, qi_attempt = qr_attempt r + 1\<rparr>) taken),
            db\<lparr>c_queue := update_rows P
                (\<lambda>r. r\<lparr>qr_receipt := Some (receipt_for prefix r),
                       qr_visible_at := now + seconds (visibility_timeout div 1000000),
                       qr_attempt := qr_attempt r + 1\<rparr>) (c_queue db)\<rparr>))"

definition ack :: "string \<Rightarrow> unit cache_statement" where
  "ack receipt now db =
     (if count_rows (\<lambda>r. qr_receipt r = Some receipt) (c_queue db) = 0 then (Err (CeInvalidReceipt receipt), db)
      else (Ok (), db\<lparr>c_queue := filter (\<lambda>r. qr_receipt r \<noteq> Some receipt) (c_queue db)\<rparr>))"

definition nack :: "instant \<Rightarrow> string \<Rightarrow> int option \<Rightarrow> unit cache_statement" where
  "nack clock receipt delay now db =
     (case (case delay of Some d \<Rightarrow> delayed clock d | None \<Rightarrow> Ok now) of
        Ok visible_at \<Rightarrow>
          if count_rows (\<lambda>r. qr_receipt r = Some receipt) (c_queue db) = 0
          then (Err (CeInvalidReceipt receipt), db)
          else (Ok (), db\<lparr>c_queue := update_rows (\<lambda>r. qr_receipt r = Some receipt)
              (\<lambda>r. r\<lparr>qr_receipt := None, qr_visible_at := visible_at\<rparr>) (c_queue db)\<rparr>)
      | Err e \<Rightarrow> (Err e, db) | Panic \<Rightarrow> (Panic, db) | Diverge \<Rightarrow> (Diverge, db))"

definition queue_len :: "string \<Rightarrow> nat cache_statement" where
  "queue_len queue now db = (Ok (count_rows (\<lambda>r. qr_queue r = queue) (c_queue db)), db)"

section \<open>Keys and values\<close>

definition kv_live :: "instant \<Rightarrow> string \<Rightarrow> kv_row \<Rightarrow> bool" where
  "kv_live now key r \<longleftrightarrow> kv_key r = key \<and> (case kv_expires_at r of None \<Rightarrow> True | Some t \<Rightarrow> now < t)"

definition kv_get :: "string \<Rightarrow> string option cache_statement" where
  "kv_get key now db = (Ok (map_option kv_value (find (kv_live now key) (c_kv db))), db)"

definition kv_exists :: "string \<Rightarrow> bool cache_statement" where
  "kv_exists key now db = (Ok (list_ex (kv_live now key) (c_kv db)), db)"

definition expiry :: "instant \<Rightarrow> int option \<Rightarrow> (instant option, cache_error) result" where
  "expiry clock ttl = (case ttl of None \<Rightarrow> Ok None | Some d \<Rightarrow> and_then (delayed clock d) (\<lambda>t. Ok (Some t)))"

definition kv_set :: "instant \<Rightarrow> string \<Rightarrow> string \<Rightarrow> int option \<Rightarrow> unit cache_statement" where
  "kv_set clock key v ttl now db =
     (case expiry clock ttl of
        Ok e \<Rightarrow>
          (Ok (), db\<lparr>c_kv :=
             (if list_ex (\<lambda>r. kv_key r = key) (c_kv db)
              then update_rows (\<lambda>r. kv_key r = key)
                (\<lambda>r. r\<lparr>kv_value := v, kv_expires_at := e, kv_updated_at := now\<rparr>) (c_kv db)
              else c_kv db @ [\<lparr>kv_key = key, kv_value = v, kv_expires_at = e, kv_updated_at = now\<rparr>])\<rparr>)
      | Err e \<Rightarrow> (Err e, db) | Panic \<Rightarrow> (Panic, db) | Diverge \<Rightarrow> (Diverge, db))"

definition kv_del :: "string \<Rightarrow> bool cache_statement" where
  "kv_del key now db =
     (Ok (0 < count_rows (\<lambda>r. kv_key r = key) (c_kv db)),
      db\<lparr>c_kv := filter (\<lambda>r. kv_key r \<noteq> key) (c_kv db)\<rparr>)"

definition kv_expire :: "instant \<Rightarrow> string \<Rightarrow> int \<Rightarrow> bool cache_statement" where
  "kv_expire clock key ttl now db =
     (case delayed clock ttl of
        Ok t \<Rightarrow>
          (Ok (0 < count_rows (\<lambda>r. kv_key r = key) (c_kv db)),
           db\<lparr>c_kv := update_rows (\<lambda>r. kv_key r = key)
               (\<lambda>r. r\<lparr>kv_expires_at := Some t, kv_updated_at := now\<rparr>) (c_kv db)\<rparr>)
      | Err e \<Rightarrow> (Err e, db) | Panic \<Rightarrow> (Panic, db) | Diverge \<Rightarrow> (Diverge, db))"

end
