(* ===== verification/Cache_Props.thy ===== *)
theory Cache_Props
  imports Cache_Store
begin

text \<open>
  Runs of the queue: any sequence of operations by any clients, each with the clock of its own process where the
  operation reads it, with the clock of the database moving forward. An item is
  delivered to one client until that client gives it back, and an item that is ready is not starved.
\<close>

section \<open>Runs\<close>

datatype queue_op =
    Enq instant uuid string string "int option"
  | Deq string string nat int
  | Ack string
  | Nack instant string "int option"
  | Wait nat

fun queue_step :: "queue_op \<Rightarrow> instant \<times> cache_db \<Rightarrow> (queue_item list, cache_error) result \<times> (instant \<times> cache_db)" where
  "queue_step (Enq clock i queue item delay) (t, db) =
     (case enqueue clock i queue item delay t db of (r, db') \<Rightarrow> (and_then r (\<lambda>_. Ok []), t, db'))"
| "queue_step (Deq prefix queue count timeout) (t, db) =
     (case dequeue prefix queue count timeout t db of (r, db') \<Rightarrow> (r, t, db'))"
| "queue_step (Ack receipt) (t, db) = (case ack receipt t db of (r, db') \<Rightarrow> (and_then r (\<lambda>_. Ok []), t, db'))"
| "queue_step (Nack clock receipt delay) (t, db) =
     (case nack clock receipt delay t db of (r, db') \<Rightarrow> (and_then r (\<lambda>_. Ok []), t, db'))"
| "queue_step (Wait n) (t, db) = (Ok [], t + int n, db)"

fun delivered :: "queue_op list \<Rightarrow> instant \<times> cache_db \<Rightarrow> queue_item list" where
  "delivered [] s = []"
| "delivered (op # ops) s =
     (case queue_step op s of (r, s') \<Rightarrow> (case r of Ok ds \<Rightarrow> ds | _ \<Rightarrow> []) @ delivered ops s')"

text \<open>How many dequeues of a queue that ask for something succeed in a run.\<close>

definition serves :: "string \<Rightarrow> queue_op \<Rightarrow> bool" where
  "serves queue op = (case op of Deq _ q n _ \<Rightarrow> q = queue \<and> 0 < n | _ \<Rightarrow> False)"

fun served :: "string \<Rightarrow> queue_op list \<Rightarrow> instant \<times> cache_db \<Rightarrow> nat" where
  "served queue [] s = 0"
| "served queue (op # ops) s =
     (case queue_step op s of (r, s') \<Rightarrow>
        (if serves queue op \<and> (case r of Ok _ \<Rightarrow> True | _ \<Rightarrow> False) then 1 else 0) + served queue ops s')"

section \<open>Ready rows\<close>

lemma in_ready:
  "r \<in> set (ready_rows queue t rows) \<longleftrightarrow>
     r \<in> set rows \<and> qr_queue r = queue \<and> qr_visible_at r \<le> t \<and> qr_receipt r = None"
  by (auto simp: ready_rows_def)

lemma in_taken: "r \<in> set (take n (ready_rows queue t rows)) \<Longrightarrow> r \<in> set rows \<and> qr_queue r = queue \<and> qr_receipt r = None"
  by (auto simp: in_ready dest: in_set_takeD)

lemma dequeue_Ok:
  assumes "dequeue prefix queue n timeout t db = (Ok ds, db')"
  shows "ds = map (\<lambda>r. \<lparr>qi_id = qr_id r, qi_receipt = receipt_for prefix r, qi_data = qr_data r,
        qi_enqueued_at = qr_created_at r, qi_attempt = qr_attempt r + 1\<rparr>) (take n (ready_rows queue t (c_queue db)))"
    and "c_queue db' = update_rows (\<lambda>r. qr_id r \<in> qr_id ` set (take n (ready_rows queue t (c_queue db))))
        (\<lambda>r. r\<lparr>qr_receipt := Some (receipt_for prefix r),
               qr_visible_at := t + seconds (timeout div 1000000), qr_attempt := qr_attempt r + 1\<rparr>) (c_queue db)"
  using assms by (auto simp: dequeue_def Let_def split: if_splits)

lemma dequeue_not_Ok: "dequeue prefix queue n timeout t db = (r, db') \<Longrightarrow> (\<forall>ds. r \<noteq> Ok ds) \<Longrightarrow> db' = db"
  by (auto simp: dequeue_def Let_def split: if_splits)

lemma only_dequeues_deliver:
  assumes "queue_step op (t, db) = (Ok ds, s')" "ds \<noteq> []"
  shows "\<exists>prefix queue n timeout db'. s' = (t, db') \<and> dequeue prefix queue n timeout t db = (Ok ds, db')"
  using assms by (cases op) (auto simp: and_then_eq_Ok split: prod.splits, blast)

section \<open>One holder at a time\<close>

definition held :: "cache_db \<Rightarrow> uuid \<Rightarrow> string \<Rightarrow> bool" where
  "held db i receipt \<longleftrightarrow> (\<forall>r \<in> set (c_queue db). qr_id r = i \<longrightarrow> qr_receipt r = Some receipt)"

text \<open>The operations that may end it: giving the item back, and reusing its id.\<close>

fun ends_hold :: "uuid \<Rightarrow> string \<Rightarrow> queue_op \<Rightarrow> bool" where
  "ends_hold i receipt (Nack _ receipt' _) \<longleftrightarrow> receipt' = receipt"
| "ends_hold i receipt (Enq _ i' _ _ _) \<longleftrightarrow> i' = i"
| "ends_hold i receipt _ \<longleftrightarrow> False"

lemma held_kept:
  assumes "held db i receipt" "\<not> ends_hold i receipt op" "queue_step op (t, db) = (r, t', db')"
  shows "held db' i receipt \<and> (\<forall>ds. r = Ok ds \<longrightarrow> i \<notin> qi_id ` set ds)"
proof (cases op)
  case (Deq prefix queue n timeout)
  let ?taken = "take n (ready_rows queue t (c_queue db))"
  have not: "i \<notin> qr_id ` set ?taken"
    using assms(1) in_taken [of _ n queue t "c_queue db"] by (auto simp: held_def)
  have step: "dequeue prefix queue n timeout t db = (r, db')"
    using assms(3) Deq by (auto split: prod.splits)
  show ?thesis
  proof (cases "\<exists>ds. r = Ok ds")
    case True
    then obtain ds where ds: "r = Ok ds" by blast
    note ok = dequeue_Ok [OF step [unfolded ds]]
    have "held db' i receipt" unfolding held_def ok(2)
      by (intro ballI, rule all_update_rows) (use assms(1) not in \<open>auto simp: held_def\<close>)
    then show ?thesis using ds ok(1) not by (auto simp: image_image)
  next
    case False
    then have "db' = db" using dequeue_not_Ok [OF step] by simp
    then show ?thesis using assms(1) False by simp
  qed
next
  case (Nack clock receipt' delay)
  show ?thesis
    using assms Nack by (auto simp: nack_def held_def set_update_rows split: result.splits if_splits)
qed (use assms in \<open>auto simp: enqueue_def ack_def held_def split: result.splits if_splits\<close>)

lemma held_run:
  "held (snd s) i receipt \<Longrightarrow> \<forall>op \<in> set ops. \<not> ends_hold i receipt op \<Longrightarrow> i \<notin> qi_id ` set (delivered ops s)"
proof (induction ops arbitrary: s)
  case Nil
  then show ?case by simp
next
  case (Cons op ops)
  obtain t db where s: "s = (t, db)" by (cases s)
  obtain r t' db' where st: "queue_step op (t, db) = (r, t', db')" by (metis prod_cases3)
  have k: "held db' i receipt \<and> (\<forall>ds. r = Ok ds \<longrightarrow> i \<notin> qi_id ` set ds)"
    by (rule held_kept [OF _ _ st]) (use Cons.prems s in auto)
  then have "i \<notin> qi_id ` set (delivered ops (t', db'))" using Cons.IH [of "(t', db')"] Cons.prems(2) by simp
  then show ?case using k s st by (auto split: result.splits)
qed

text \<open>
  C33. A queue item has one holder. Once a dequeue delivered it, no dequeue of any client delivers it again,
  however much time goes by, until its receipt is given back by a negative acknowledgement (ids are not
  reused). In particular the visibility timeout never makes it visible again: what a client took and did
  not give back, because it crashed, is lost.
\<close>

theorem delivered_to_one_holder:
  assumes "queue_step op s = (Ok ds, s')" and "d \<in> set ds"
    and "\<forall>op \<in> set ops. \<not> ends_hold (qi_id d) (qi_receipt d) op"
  shows "qi_id d \<notin> qi_id ` set (delivered ops s')"
proof -
  obtain t db where s: "s = (t, db)" by (cases s)
  obtain prefix queue n timeout db' where s': "s' = (t, db')"
    and step: "dequeue prefix queue n timeout t db = (Ok ds, db')"
    using only_dequeues_deliver [of op t db ds s'] assms(1,2) s by (metis empty_iff list.set(1))
  note ok = dequeue_Ok [OF step]
  obtain y where y: "y \<in> set (take n (ready_rows queue t (c_queue db)))" "qi_id d = qr_id y"
    "qi_receipt d = receipt_for prefix y" using assms(2) ok(1) by auto
  have "held db' (qi_id d) (qi_receipt d)" unfolding held_def ok(2)
    by (intro ballI, rule all_update_rows) (use y in \<open>auto simp: receipt_for_def\<close>)
  then show ?thesis using held_run [of s'] assms(3) s' by simp
qed

text \<open>A queue of two items, to evaluate on.\<close>

definition two_items :: cache_db where
  "two_items =
     \<lparr>c_queue = [\<lparr>qr_id = ''a'', qr_queue = ''q'', qr_data = ''1'', qr_visible_at = 1, qr_attempt = 0,
        qr_created_at = 1, qr_receipt = None\<rparr>,
       \<lparr>qr_id = ''b'', qr_queue = ''q'', qr_data = ''2'', qr_visible_at = 2, qr_attempt = 0,
        qr_created_at = 2, qr_receipt = None\<rparr>], c_kv = []\<rparr>"

lemma two_items_first:
  "queue_step (Deq ''w1'' ''q'' 1 30000000) (5, two_items) =
     (Ok [\<lparr>qi_id = ''a'', qi_receipt = ''w1-a'', qi_data = ''1'', qi_enqueued_at = 1, qi_attempt = 1\<rparr>],
      snd (queue_step (Deq ''w1'' ''q'' 1 30000000) (5, two_items)))"
  by code_simp

theorem delivered_to_one_holder_witness:
  "''a'' \<notin> qi_id ` set (delivered [Wait 60000000, Deq ''w2'' ''q'' 10 30000000]
     (snd (queue_step (Deq ''w1'' ''q'' 1 30000000) (5, two_items))))"
  using delivered_to_one_holder [OF two_items_first, where d = "\<lparr>qi_id = ''a'', qi_receipt = ''w1-a'', qi_data = ''1'',
      qi_enqueued_at = 1, qi_attempt = 1\<rparr>" and ops = "[Wait 60000000, Deq ''w2'' ''q'' 10 30000000]"]
  by simp

section \<open>No starvation\<close>

text \<open>The rows that may be served before a row of this queue and instant, itself included.\<close>

definition ahead :: "string \<Rightarrow> instant \<Rightarrow> cache_db \<Rightarrow> nat" where
  "ahead queue v db =
     count_rows (\<lambda>r. qr_queue r = queue \<and> qr_receipt r = None \<and> qr_visible_at r \<le> v) (c_queue db)"

definition waiting :: "string \<Rightarrow> instant \<Rightarrow> uuid \<Rightarrow> cache_db \<Rightarrow> bool" where
  "waiting queue v i db \<longleftrightarrow> (\<exists>r \<in> set (c_queue db). qr_id r = i \<and> qr_queue r = queue \<and> qr_receipt r = None \<and>
     qr_visible_at r \<le> v)"

text \<open>
  Delays are not negative, and a client that sets the instant of an item by its own clock has a clock
  past \<open>v\<close>. A release without a delay uses the clock of the database.
\<close>

fun op_ok :: "instant \<Rightarrow> queue_op \<Rightarrow> bool" where
  "op_ok v (Enq clock _ _ _ delay) \<longleftrightarrow> v < clock \<and> (case delay of Some d \<Rightarrow> 0 \<le> d | None \<Rightarrow> True)"
| "op_ok v (Nack clock _ delay) \<longleftrightarrow> (case delay of Some d \<Rightarrow> v < clock \<and> 0 \<le> d | None \<Rightarrow> True)"
| "op_ok v _ \<longleftrightarrow> True"

lemma waiting_ahead: "waiting queue v i db \<Longrightarrow> 0 < ahead queue v db"
  by (auto simp: waiting_def ahead_def count_rows_def filter_empty_conv)

lemma count_update_off:
  "(\<And>r. Q r \<Longrightarrow> \<not> P (f r)) \<Longrightarrow> count_rows P (update_rows Q f rows) = count_rows (\<lambda>r. P r \<and> \<not> Q r) rows"
  by (induction rows) (auto simp: count_rows_def update_rows_def)

lemma count_less:
  "x \<in> set rows \<Longrightarrow> P x \<Longrightarrow> Q x \<Longrightarrow> count_rows (\<lambda>r. P r \<and> \<not> Q r) rows < count_rows P rows"
  using length_filter_less [of x "filter P rows" "\<lambda>r. \<not> Q r"] by (simp add: count_rows_def conj_commute)

lemma count_le: "(\<And>r. r \<in> set rows \<Longrightarrow> P r \<Longrightarrow> Q r) \<Longrightarrow> count_rows P rows \<le> count_rows Q rows"
  by (induction rows) (auto simp: count_rows_def)

text \<open>A dequeue that does not take a waiting row takes one that is not younger.\<close>

lemma taken_before:
  assumes "waiting queue v i db" "v \<le> t" "i \<notin> qr_id ` set (take n (ready_rows queue t (c_queue db)))" "0 < n"
  shows "\<exists>x \<in> set (take n (ready_rows queue t (c_queue db))). qr_visible_at x \<le> v"
proof -
  let ?rs = "ready_rows queue t (c_queue db)"
  obtain r where r: "r \<in> set ?rs" "qr_id r = i" "qr_visible_at r \<le> v"
    using assms(1,2) by (auto simp: waiting_def in_ready)
  then obtain x xs where rs: "?rs = x # xs" by (cases ?rs) auto
  have "sorted (map qr_visible_at ?rs)" by (simp add: ready_rows_def)
  then have "qr_visible_at x \<le> qr_visible_at r" using r(1) rs by auto
  moreover have "x \<in> set (take n ?rs)" using rs assms(4) by (cases n) auto
  ultimately show ?thesis using r(3) by (intro bexI [of _ x]) simp_all
qed

lemma nack_Ok:
  assumes "nack clock receipt delay t db = (Ok (), db')"
  obtains u where "(case delay of Some d \<Rightarrow> delayed clock d | None \<Rightarrow> Ok t) = Ok u"
    "c_queue db' = update_rows (\<lambda>r. qr_receipt r = Some receipt)
       (\<lambda>r. r\<lparr>qr_receipt := None, qr_visible_at := u\<rparr>) (c_queue db)"
  using assms by (auto simp: nack_def split: result.splits if_splits)

lemma waiting_step:
  assumes "waiting queue v i db" "v < t" "op_ok v op" "queue_step op (t, db) = (r, t', db')"
    "\<forall>ds. r = Ok ds \<longrightarrow> i \<notin> qi_id ` set ds"
  shows "waiting queue v i db' \<and> v < t' \<and>
     ahead queue v db' + (if serves queue op \<and> (case r of Ok _ \<Rightarrow> True | _ \<Rightarrow> False) then 1 else 0) \<le> ahead queue v db"
proof -
  let ?A = "\<lambda>r. qr_queue r = queue \<and> qr_receipt r = None \<and> qr_visible_at r \<le> v"
  obtain x where x: "x \<in> set (c_queue db)" "qr_id x = i" "?A x" using assms(1) by (auto simp: waiting_def)
  show ?thesis
  proof (cases op)
    case (Enq clock j q item delay)
    show ?thesis
      using assms Enq by (auto simp: enqueue_def delayed_def chrono_from_std_def waiting_def ahead_def count_rows_def
          serves_def split: result.splits if_splits option.splits)
  next
    case (Deq prefix q n timeout)
    let ?taken = "take n (ready_rows q t (c_queue db))" and ?T = "\<lambda>r. qr_id r \<in> qr_id ` set (take n (ready_rows q t (c_queue db)))"
    have step: "dequeue prefix q n timeout t db = (r, db')" and t': "t' = t"
      using assms(4) Deq by (auto split: prod.splits)
    show ?thesis
    proof (cases "\<exists>ds. r = Ok ds")
      case True
      then obtain ds where ds: "r = Ok ds" by blast
      note ok = dequeue_Ok [OF step [unfolded ds]]
      have not: "\<not> ?T x" using assms(5) ds ok(1) x(2) by (auto simp: image_image)
      have "x \<in> set (c_queue db')"
        unfolding ok(2) using in_update_rows [OF x(1), of ?T] not by (simp only: if_False)
      then have w: "waiting queue v i db'" using x by (auto simp: waiting_def)
      have cnt: "ahead queue v db' = count_rows (\<lambda>r. ?A r \<and> \<not> ?T r) (c_queue db)"
        unfolding ahead_def ok(2) by (rule count_update_off) simp
      also have "\<dots> \<le> ahead queue v db" unfolding ahead_def by (rule count_le) simp
      finally have le: "ahead queue v db' \<le> ahead queue v db" .
      have "ahead queue v db' < ahead queue v db" if "serves queue op"
      proof -
        have q: "q = queue" "0 < n" using that Deq by (auto simp: serves_def)
        obtain y where y: "y \<in> set ?taken" "qr_visible_at y \<le> v"
          using taken_before [OF assms(1), of t n] assms(2) not q x(2) by auto
        have "count_rows (\<lambda>r. ?A r \<and> \<not> ?T r) (c_queue db) < count_rows ?A (c_queue db)"
          by (rule count_less [of y]) (use y in_taken [OF y(1)] q in auto)
        then show ?thesis unfolding cnt by (simp only: ahead_def)
      qed
      then show ?thesis using w le assms(2) t' by (auto simp: Suc_le_eq split: result.split)
    next
      case False
      then show ?thesis using dequeue_not_Ok [OF step] assms(1,2) t' by (auto split: result.split)
    qed
  next
    case (Ack receipt)
    have le: "count_rows ?A (filter Q rows) \<le> count_rows ?A rows" for Q rows
      by (induction rows) (auto simp: count_rows_def)
    show ?thesis
      using assms(1,2,4) Ack le by (auto simp: ack_def waiting_def ahead_def serves_def split: if_splits)
  next
    case (Nack clock receipt delay)
    let ?Q = "\<lambda>r. qr_receipt r = Some receipt"
    show ?thesis
    proof (cases "r = Ok []")
      case False
      then have "db' = db" "t' = t" using assms(4) Nack by (auto simp: nack_def split: result.splits if_splits)
      then show ?thesis using assms(1,2) Nack by (simp add: serves_def)
    next
      case True
      then have step: "nack clock receipt delay t db = (Ok (), db')" and t': "t' = t"
        using assms(4) Nack by (auto split: result.splits prod.splits)
      obtain u where u': "(case delay of Some d \<Rightarrow> delayed clock d | None \<Rightarrow> Ok t) = Ok u"
        and db': "c_queue db' = update_rows ?Q (\<lambda>r. r\<lparr>qr_receipt := None, qr_visible_at := u\<rparr>) (c_queue db)"
        by (rule nack_Ok [OF step])
      have u: "v < u" using u' assms(2,3) Nack
        by (auto simp: delayed_def chrono_from_std_def split: option.splits if_splits)
      have "x \<in> set (c_queue db')"
        unfolding db' using in_update_rows [OF x(1), of ?Q] x(3) by (simp only: option.distinct if_False)
      then have "waiting queue v i db'" using x by (auto simp: waiting_def)
      moreover have "ahead queue v db' = count_rows (\<lambda>r. ?A r \<and> \<not> ?Q r) (c_queue db)"
        unfolding ahead_def db' by (rule count_update_off) (use u assms(2) in simp)
      moreover have "\<dots> \<le> ahead queue v db" unfolding ahead_def by (rule count_le) simp
      ultimately show ?thesis using assms(2) t' Nack by (simp add: serves_def)
    qed
  next
    case (Wait n)
    then show ?thesis using assms by (auto simp: serves_def)
  qed
qed

lemma waiting_run:
  "waiting queue v i (snd s) \<Longrightarrow> v < fst s \<Longrightarrow> \<forall>op \<in> set ops. op_ok v op \<Longrightarrow>
     i \<notin> qi_id ` set (delivered ops s) \<Longrightarrow> served queue ops s < ahead queue v (snd s)"
proof (induction ops arbitrary: s)
  case Nil
  then show ?case by (simp add: waiting_ahead)
next
  case (Cons op ops)
  obtain t db where s: "s = (t, db)" by (cases s)
  obtain r t' db' where st: "queue_step op (t, db) = (r, t', db')" by (metis prod_cases3)
  have nd: "\<forall>ds. r = Ok ds \<longrightarrow> i \<notin> qi_id ` set ds" "i \<notin> qi_id ` set (delivered ops (t', db'))"
    using Cons.prems(4) s st by auto
  have w: "waiting queue v i db' \<and> v < t' \<and>
     ahead queue v db' + (if serves queue op \<and> (case r of Ok _ \<Rightarrow> True | _ \<Rightarrow> False) then 1 else 0) \<le> ahead queue v db"
    by (rule waiting_step [OF _ _ _ st nd(1)]) (use Cons.prems s in auto)
  have "served queue ops (t', db') < ahead queue v db'"
    using Cons.IH [of "(t', db')"] Cons.prems(3) w nd(2) by simp
  then show ?case using w s st by (auto split: if_splits)
qed

text \<open>
  C34. A ready queue item is not starved. Let an item be visible since the instant \<open>v\<close>, before the database's now, and
  count the rows of its queue that nobody holds and that are visible since \<open>v\<close> or longer, the item included. In every
  run of operations of any clients in which that many dequeues of the queue (for one item or more) return without an
  error, one of them delivers the item. So items added or given back later do not overtake it. The clients' clocks matter:
  enqueueing, and releasing with a delay, set the visible instant by the clock of the client, which here is past \<open>v\<close>; a
  client whose clock is behind \<open>v\<close> can put items in front.
\<close>

theorem ready_item_not_starved:
  assumes "waiting queue v i db" and "v < t" and "\<forall>op \<in> set ops. op_ok v op"
    and "ahead queue v db \<le> served queue ops (t, db)"
  shows "i \<in> qi_id ` set (delivered ops (t, db))"
  using waiting_run [of queue v i "(t, db)" ops] assms by auto

theorem ready_item_not_starved_witness:
  "''b'' \<in> qi_id ` set (delivered [Deq ''w1'' ''q'' 1 30000000, Enq 7 ''c'' ''q'' ''3'' None, Nack 3 ''w1-a'' None,
     Deq ''w2'' ''q'' 1 30000000] (5, two_items))"
proof (rule ready_item_not_starved)
  show "waiting ''q'' 2 ''b'' two_items" by (simp add: waiting_def two_items_def)
  show "ahead ''q'' 2 two_items \<le> served ''q'' [Deq ''w1'' ''q'' 1 30000000, Enq 7 ''c'' ''q'' ''3'' None, Nack 3 ''w1-a'' None,
     Deq ''w2'' ''q'' 1 30000000] (5, two_items)" by code_simp
qed simp_all

end
