(* ===== verification/Jobs_Store.thy ===== *)
theory Jobs_Store
  imports Core_Auth Cache_Store F64 "HOL-Library.List_Lexorder" "HOL-Library.Char_ord"
begin

text \<open>
  The store of the jobs service: its errors (\<open>crates/reactor-jobs/src/error.rs\<close>), kinds and
  validation (\<open>manifest/\<close>), records (\<open>store/mod.rs\<close>) and the statements of \<open>store/postgres.rs\<close> on
  the tables that \<open>migrations/001_all.sql\<close> declares, with their keys and references. A column that
  holds the text of an enumeration holds its value here: every statement writes such a text. A 32-bit
  integer column is a word read with sign.
\<close>

type_synonym i32 = "32 word"

section \<open>Errors (error.rs)\<close>

datatype jobs_error =
    JobNotFound string | TriggerNotFound string | RunNotFound string | StepNotFound string
  | RunAlreadyComplete string | RunCancelled string | InvalidCron string | InvalidTriggerConfig string
  | StepFailed string | MaxAttemptsExceeded string nat | ConcurrencyExceeded string | WebhookTokenInvalid
  | PayloadTooLarge nat nat | PolicyDenied string | PermissionDenied string | MissingOrgContext
  | InvalidJobName string | InvalidEventTopic string | FunctionNotFound string
  | JobsDatabase | JobsCache cache_error | JobsSerialization | JobsInternal string

fun jobs_error_code :: "jobs_error \<Rightarrow> string" where
  "jobs_error_code (JobNotFound _) = ''job_not_found''"
| "jobs_error_code (TriggerNotFound _) = ''trigger_not_found''"
| "jobs_error_code (RunNotFound _) = ''run_not_found''"
| "jobs_error_code (StepNotFound _) = ''step_not_found''"
| "jobs_error_code (RunAlreadyComplete _) = ''run_already_complete''"
| "jobs_error_code (RunCancelled _) = ''run_cancelled''"
| "jobs_error_code (InvalidCron _) = ''invalid_cron''"
| "jobs_error_code (InvalidTriggerConfig _) = ''invalid_trigger_config''"
| "jobs_error_code (StepFailed _) = ''step_failed''"
| "jobs_error_code (MaxAttemptsExceeded _ _) = ''max_attempts_exceeded''"
| "jobs_error_code (ConcurrencyExceeded _) = ''concurrency_exceeded''"
| "jobs_error_code WebhookTokenInvalid = ''webhook_token_invalid''"
| "jobs_error_code (PayloadTooLarge _ _) = ''payload_too_large''"
| "jobs_error_code (PolicyDenied _) = ''policy_denied''"
| "jobs_error_code (PermissionDenied _) = ''permission_denied''"
| "jobs_error_code MissingOrgContext = ''missing_org_context''"
| "jobs_error_code (InvalidJobName _) = ''invalid_job_name''"
| "jobs_error_code (InvalidEventTopic _) = ''invalid_event_topic''"
| "jobs_error_code (FunctionNotFound _) = ''function_not_found''"
| "jobs_error_code JobsDatabase = ''database_error''"
| "jobs_error_code (JobsCache _) = ''cache_error''"
| "jobs_error_code JobsSerialization = ''serialization_error''"
| "jobs_error_code (JobsInternal _) = ''internal_error''"

fun jobs_error_status :: "jobs_error \<Rightarrow> nat" where
  "jobs_error_status (JobNotFound _) = 404"
| "jobs_error_status (TriggerNotFound _) = 404"
| "jobs_error_status (RunNotFound _) = 404"
| "jobs_error_status (StepNotFound _) = 404"
| "jobs_error_status (FunctionNotFound _) = 404"
| "jobs_error_status WebhookTokenInvalid = 404"
| "jobs_error_status (InvalidCron _) = 400"
| "jobs_error_status (InvalidTriggerConfig _) = 400"
| "jobs_error_status (InvalidJobName _) = 400"
| "jobs_error_status (InvalidEventTopic _) = 400"
| "jobs_error_status (PayloadTooLarge _ _) = 400"
| "jobs_error_status (RunAlreadyComplete _) = 409"
| "jobs_error_status (RunCancelled _) = 409"
| "jobs_error_status (PermissionDenied _) = 403"
| "jobs_error_status (PolicyDenied _) = 403"
| "jobs_error_status MissingOrgContext = 401"
| "jobs_error_status (ConcurrencyExceeded _) = 429"
| "jobs_error_status (MaxAttemptsExceeded _ _) = 500"
| "jobs_error_status (StepFailed _) = 500"
| "jobs_error_status JobsDatabase = 500"
| "jobs_error_status (JobsCache _) = 500"
| "jobs_error_status JobsSerialization = 500"
| "jobs_error_status (JobsInternal _) = 500"

section \<open>Names (lib.rs)\<close>

definition is_lower :: "char \<Rightarrow> bool" where
  "is_lower c \<longleftrightarrow> CHR ''a'' \<le> c \<and> c \<le> CHR ''z''"

definition is_lower_alnum :: "char \<Rightarrow> bool" where
  "is_lower_alnum c \<longleftrightarrow> is_lower c \<or> is_ascii_digit c"

text \<open>\<open>^[a-z][a-z0-9-]{1,61}[a-z0-9]$\<close> and \<open>^[a-z][a-z0-9.]{1,126}[a-z0-9]$\<close>.\<close>

definition name_like :: "nat \<Rightarrow> char \<Rightarrow> string \<Rightarrow> bool" where
  "name_like most sep s \<longleftrightarrow>
     3 \<le> length s \<and> length s \<le> most \<and> is_lower (hd s) \<and> is_lower_alnum (last s) \<and>
     list_all (\<lambda>c. is_lower_alnum c \<or> c = sep) (butlast (tl s))"

definition job_name_regex :: "string \<Rightarrow> bool" where
  "job_name_regex = name_like 63 (CHR ''-'')"

definition event_topic_regex :: "string \<Rightarrow> bool" where
  "event_topic_regex = name_like 128 (CHR ''.'')"

section \<open>Manifests (manifest/)\<close>

datatype trigger_kind = Cron | Webhook | Event | Manual

fun show_trigger_kind :: "trigger_kind \<Rightarrow> string" where
  "show_trigger_kind Cron = ''cron''"
| "show_trigger_kind Webhook = ''webhook''"
| "show_trigger_kind Event = ''event''"
| "show_trigger_kind Manual = ''manual''"

datatype trigger_config = CronConfig string | EventConfig string | WebhookConfig | ManualConfig

fun config_kind :: "trigger_config \<Rightarrow> trigger_kind" where
  "config_kind (CronConfig _) = Cron"
| "config_kind (EventConfig _) = Event"
| "config_kind WebhookConfig = Webhook"
| "config_kind ManualConfig = Manual"

datatype backoff_strategy = Linear | Exponential

record retry_config =
  rc_max_attempts :: nat
  rc_backoff :: backoff_strategy
  rc_initial_delay_ms :: nat
  rc_max_delay_ms :: nat

record job_manifest =
  jm_triggers :: "trigger_config list"
  jm_retry :: retry_config
  jm_max_concurrency :: nat
  jm_timeout_ms :: nat

definition default_manifest :: job_manifest where
  "default_manifest =
     \<lparr>jm_triggers = [], jm_retry = \<lparr>rc_max_attempts = 3, rc_backoff = Exponential, rc_initial_delay_ms = 1000,
        rc_max_delay_ms = 60000\<rparr>, jm_max_concurrency = 10, jm_timeout_ms = 600000\<rparr>"

text \<open>The cron parser is a parameter: \<open>cron s\<close> is the text of its error, or the next instant after one.\<close>

type_synonym cron_parser = "string \<Rightarrow> (instant \<Rightarrow> instant option, string) result"

fun validate_trigger :: "cron_parser \<Rightarrow> trigger_config \<Rightarrow> (unit, jobs_error) result" where
  "validate_trigger cron (CronConfig schedule) =
     and_then (map_err (\<lambda>e. InvalidCron (schedule @ '': '' @ e)) (cron schedule)) (\<lambda>_. Ok ())"
| "validate_trigger cron (EventConfig topic) =
     (if event_topic_regex topic then Ok () else Err (InvalidEventTopic topic))"
| "validate_trigger cron WebhookConfig = Ok ()"
| "validate_trigger cron ManualConfig = Ok ()"

fun validate_triggers :: "cron_parser \<Rightarrow> trigger_config list \<Rightarrow> (unit, jobs_error) result" where
  "validate_triggers cron [] = Ok ()"
| "validate_triggers cron (tr # trs) = and_then (validate_trigger cron tr) (\<lambda>_. validate_triggers cron trs)"

definition validate_manifest :: "cron_parser \<Rightarrow> job_manifest \<Rightarrow> (unit, jobs_error) result" where
  "validate_manifest cron mf =
     and_then (validate_triggers cron (jm_triggers mf)) (\<lambda>_.
       if rc_max_attempts (jm_retry mf) = 0
       then Err (InvalidTriggerConfig ''max_attempts must be at least 1'')
       else if rc_initial_delay_ms (jm_retry mf) = 0
       then Err (InvalidTriggerConfig ''initial_delay_ms must be greater than 0'')
       else if jm_max_concurrency mf = 0
       then Err (InvalidTriggerConfig ''max_concurrency must be at least 1'')
       else if jm_timeout_ms mf = 0
       then Err (InvalidTriggerConfig ''timeout_ms must be greater than 0'')
       else Ok ())"

section \<open>Records (store/mod.rs)\<close>

datatype run_status = Pending | Queued | Running | Sleeping | Succeeded | Failed | Cancelled

fun show_run_status :: "run_status \<Rightarrow> string" where
  "show_run_status Pending = ''pending''"
| "show_run_status Queued = ''queued''"
| "show_run_status Running = ''running''"
| "show_run_status Sleeping = ''sleeping''"
| "show_run_status Succeeded = ''succeeded''"
| "show_run_status Failed = ''failed''"
| "show_run_status Cancelled = ''cancelled''"

datatype step_status = StPending | StRunning | StCompleted | StFailed | StSkipped

record new_job =
  nj_org_id :: uuid
  nj_name :: string
  nj_function_name :: string
  nj_description :: "string option"
  nj_retry_max_attempts :: i32
  nj_retry_backoff :: backoff_strategy
  nj_retry_initial_delay_ms :: i32
  nj_retry_max_delay_ms :: i32
  nj_max_concurrency :: i32
  nj_timeout_ms :: i32

record job =
  jb_id :: uuid
  jb_org_id :: uuid
  jb_name :: string
  jb_function_name :: string
  jb_description :: "string option"
  jb_retry_max_attempts :: i32
  jb_retry_backoff :: backoff_strategy
  jb_retry_initial_delay_ms :: i32
  jb_retry_max_delay_ms :: i32
  jb_max_concurrency :: i32
  jb_timeout_ms :: i32
  jb_created_at :: instant
  jb_updated_at :: instant

record new_trigger =
  nt_job_id :: uuid
  nt_kind :: trigger_kind
  nt_config_json :: json
  nt_webhook_token :: "string option"
  nt_next_trigger_at :: "instant option"

record trigger =
  tg_id :: uuid
  tg_job_id :: uuid
  tg_kind :: trigger_kind
  tg_config_json :: json
  tg_webhook_token :: "string option"
  tg_enabled :: bool
  tg_last_triggered_at :: "instant option"
  tg_next_trigger_at :: "instant option"
  tg_created_at :: instant

record new_run =
  nr_job_id :: uuid
  nr_org_id :: uuid
  nr_trigger_id :: "uuid option"
  nr_trigger_kind :: trigger_kind
  nr_payload_json :: json
  nr_max_attempts :: i32

record run =
  ru_id :: uuid
  ru_job_id :: uuid
  ru_org_id :: uuid
  ru_trigger_id :: "uuid option"
  ru_trigger_kind :: trigger_kind
  ru_status :: run_status
  ru_payload_json :: json
  ru_attempt :: i32
  ru_max_attempts :: i32
  ru_started_at :: "instant option"
  ru_finished_at :: "instant option"
  ru_wakeup_at :: "instant option"
  ru_error_code :: "string option"
  ru_error_message :: "string option"
  ru_created_at :: instant

record new_step =
  ns_run_id :: uuid
  ns_name :: string
  ns_input_json :: "json option"

record step =
  sp_id :: uuid
  sp_run_id :: uuid
  sp_name :: string
  sp_status :: step_status
  sp_input_json :: "json option"
  sp_output_json :: "json option"
  sp_attempt :: i32
  sp_started_at :: "instant option"
  sp_finished_at :: "instant option"
  sp_error_message :: "string option"

record state_entry =
  sn_run_id :: uuid
  sn_key :: string
  sn_value_json :: json
  sn_updated_at :: instant

record new_event =
  nv_org_id :: uuid
  nv_topic :: string
  nv_payload_json :: json
  nv_emitted_by_run_id :: "uuid option"

record event =
  en_id :: uuid
  en_org_id :: uuid
  en_topic :: string
  en_payload_json :: json
  en_emitted_by_run_id :: "uuid option"
  en_consumed_by_run_id :: "uuid option"
  en_created_at :: instant
  en_consumed_at :: "instant option"

record dlq_entry =
  dl_id :: uuid
  dl_run_id :: uuid
  dl_job_id :: uuid
  dl_org_id :: uuid
  dl_payload_json :: json
  dl_error_code :: "string option"
  dl_error_message :: "string option"
  dl_attempt :: i32
  dl_created_at :: instant

record jobs_audit_event =
  au_event_type :: string
  au_actor_user_id :: "uuid option"
  au_actor_apikey_id :: "uuid option"
  au_org_id :: "uuid option"
  au_job_id :: "uuid option"
  au_run_id :: "uuid option"
  au_details :: json
  au_request_id :: string

record jobs_db =
  j_jobs :: "job list"
  j_triggers :: "trigger list"
  j_runs :: "run list"
  j_steps :: "step list"
  j_state :: "state_entry list"
  j_events :: "event list"
  j_dlq :: "dlq_entry list"
  j_audit :: "(uuid \<times> jobs_audit_event) list"

type_synonym 'a jobs_statement = "instant \<Rightarrow> jobs_db \<Rightarrow> ('a, jobs_error) result \<times> jobs_db"

section \<open>References\<close>

text \<open>What \<open>ON DELETE\<close> does to the rows that refer to deleted runs, triggers and jobs.\<close>

definition clear_if :: "('a \<Rightarrow> bool) \<Rightarrow> 'a option \<Rightarrow> 'a option" where
  "clear_if gone v = (case v of Some x \<Rightarrow> if gone x then None else Some x | None \<Rightarrow> None)"

definition drop_runs :: "(uuid \<Rightarrow> bool) \<Rightarrow> jobs_db \<Rightarrow> jobs_db" where
  "drop_runs gone db = db\<lparr>
     j_runs := filter (\<lambda>r. \<not> gone (ru_id r)) (j_runs db),
     j_steps := filter (\<lambda>s. \<not> gone (sp_run_id s)) (j_steps db),
     j_state := filter (\<lambda>e. \<not> gone (sn_run_id e)) (j_state db),
     j_events := map (\<lambda>e. e\<lparr>en_emitted_by_run_id := clear_if gone (en_emitted_by_run_id e),
                            en_consumed_by_run_id := clear_if gone (en_consumed_by_run_id e)\<rparr>) (j_events db)\<rparr>"

definition drop_triggers :: "(trigger \<Rightarrow> bool) \<Rightarrow> jobs_db \<Rightarrow> jobs_db" where
  "drop_triggers gone db = db\<lparr>
     j_triggers := filter (\<lambda>t. \<not> gone t) (j_triggers db),
     j_runs := map (\<lambda>r. r\<lparr>ru_trigger_id :=
       clear_if (\<lambda>i. list_ex (\<lambda>t. tg_id t = i \<and> gone t) (j_triggers db)) (ru_trigger_id r)\<rparr>) (j_runs db)\<rparr>"

definition drop_jobs :: "(uuid \<Rightarrow> bool) \<Rightarrow> jobs_db \<Rightarrow> jobs_db" where
  "drop_jobs gone db =
     (let doomed = filter (\<lambda>r. gone (ru_job_id r)) (j_runs db);
          db' = drop_triggers (\<lambda>t. gone (tg_job_id t)) (drop_runs (\<lambda>i. list_ex (\<lambda>r. ru_id r = i) doomed) db) in
      db'\<lparr>j_jobs := filter (\<lambda>j. \<not> gone (jb_id j)) (j_jobs db'),
          j_dlq := filter (\<lambda>d. \<not> gone (dl_job_id d)) (j_dlq db')\<rparr>)"

section \<open>Jobs\<close>

definition rows :: "(jobs_db \<Rightarrow> 'a) \<Rightarrow> 'a jobs_statement" where
  "rows f t db = (Ok (f db), db)"

definition has_job :: "uuid \<Rightarrow> jobs_db \<Rightarrow> bool" where
  "has_job i db \<longleftrightarrow> list_ex (\<lambda>j. jb_id j = i) (j_jobs db)"

definition has_run :: "uuid \<Rightarrow> jobs_db \<Rightarrow> bool" where
  "has_run i db \<longleftrightarrow> list_ex (\<lambda>r. ru_id r = i) (j_runs db)"

definition create_job_row :: "uuid \<Rightarrow> new_job \<Rightarrow> job jobs_statement" where
  "create_job_row i nj t db =
     (let j = \<lparr>jb_id = i, jb_org_id = nj_org_id nj, jb_name = nj_name nj, jb_function_name = nj_function_name nj,
               jb_description = nj_description nj, jb_retry_max_attempts = nj_retry_max_attempts nj,
               jb_retry_backoff = nj_retry_backoff nj, jb_retry_initial_delay_ms = nj_retry_initial_delay_ms nj,
               jb_retry_max_delay_ms = nj_retry_max_delay_ms nj, jb_max_concurrency = nj_max_concurrency nj,
               jb_timeout_ms = nj_timeout_ms nj, jb_created_at = t, jb_updated_at = t\<rparr> in
      if has_job i db \<or> list_ex (\<lambda>x. jb_org_id x = jb_org_id j \<and> jb_name x = jb_name j) (j_jobs db)
      then (Err JobsDatabase, db) else (Ok j, db\<lparr>j_jobs := j_jobs db @ [j]\<rparr>))"

definition find_job :: "uuid \<Rightarrow> string \<Rightarrow> job option jobs_statement" where
  "find_job org_id name = rows (\<lambda>db. find (\<lambda>j. jb_org_id j = org_id \<and> jb_name j = name) (j_jobs db))"

definition find_job_by_id :: "uuid \<Rightarrow> job option jobs_statement" where
  "find_job_by_id i = rows (\<lambda>db. find (\<lambda>j. jb_id j = i) (j_jobs db))"

definition list_job_rows :: "uuid \<Rightarrow> job list jobs_statement" where
  "list_job_rows org_id = rows (\<lambda>db. sort_key jb_name (filter (\<lambda>j. jb_org_id j = org_id) (j_jobs db)))"

definition delete_job_row :: "uuid \<Rightarrow> unit jobs_statement" where
  "delete_job_row i t db = (Ok (), drop_jobs (\<lambda>x. x = i) db)"

section \<open>Triggers\<close>

definition create_trigger_row :: "uuid \<Rightarrow> new_trigger \<Rightarrow> trigger jobs_statement" where
  "create_trigger_row i nt t db =
     (let tr = \<lparr>tg_id = i, tg_job_id = nt_job_id nt, tg_kind = nt_kind nt, tg_config_json = nt_config_json nt,
                tg_webhook_token = nt_webhook_token nt, tg_enabled = True, tg_last_triggered_at = None,
                tg_next_trigger_at = nt_next_trigger_at nt, tg_created_at = t\<rparr> in
      if list_ex (\<lambda>x. tg_id x = i) (j_triggers db) \<or> \<not> has_job (tg_job_id tr) db \<or>
         (tg_webhook_token tr \<noteq> None \<and> list_ex (\<lambda>x. tg_webhook_token x = tg_webhook_token tr) (j_triggers db))
      then (Err JobsDatabase, db) else (Ok tr, db\<lparr>j_triggers := j_triggers db @ [tr]\<rparr>))"

definition get_triggers :: "uuid \<Rightarrow> trigger list jobs_statement" where
  "get_triggers job_id = rows (\<lambda>db. sort_key tg_created_at (filter (\<lambda>t. tg_job_id t = job_id) (j_triggers db)))"

definition get_trigger :: "uuid \<Rightarrow> trigger option jobs_statement" where
  "get_trigger i = rows (\<lambda>db. find (\<lambda>t. tg_id t = i) (j_triggers db))"

definition get_trigger_by_webhook_token :: "string \<Rightarrow> trigger option jobs_statement" where
  "get_trigger_by_webhook_token token = rows (\<lambda>db. find (\<lambda>t. tg_webhook_token t = Some token) (j_triggers db))"

definition delete_trigger_row :: "uuid \<Rightarrow> unit jobs_statement" where
  "delete_trigger_row i t db = (Ok (), drop_triggers (\<lambda>x. tg_id x = i) db)"

text \<open>\<open>FOR UPDATE SKIP LOCKED\<close> locks until the statement ends: there is no transaction around it.\<close>

definition list_due_cron_triggers :: "instant \<Rightarrow> trigger list jobs_statement" where
  "list_due_cron_triggers now = rows (\<lambda>db. filter (\<lambda>t. tg_kind t = Cron \<and> tg_enabled t \<and>
     (case tg_next_trigger_at t of Some n \<Rightarrow> n \<le> now | None \<Rightarrow> False)) (j_triggers db))"

definition update_trigger_fired :: "uuid \<Rightarrow> instant \<Rightarrow> instant option \<Rightarrow> unit jobs_statement" where
  "update_trigger_fired i last_at next_at t db =
     (Ok (), db\<lparr>j_triggers := update_rows (\<lambda>x. tg_id x = i)
        (\<lambda>x. x\<lparr>tg_last_triggered_at := Some last_at, tg_next_trigger_at := next_at\<rparr>) (j_triggers db)\<rparr>)"

section \<open>Runs\<close>

text \<open>The row of an inserted run, with the defaults of its other columns.\<close>

definition fresh_run :: "uuid \<Rightarrow> new_run \<Rightarrow> instant \<Rightarrow> run" where
  "fresh_run i nr t =
     \<lparr>ru_id = i, ru_job_id = nr_job_id nr, ru_org_id = nr_org_id nr, ru_trigger_id = nr_trigger_id nr,
      ru_trigger_kind = nr_trigger_kind nr, ru_status = Pending, ru_payload_json = nr_payload_json nr,
      ru_attempt = 1, ru_max_attempts = nr_max_attempts nr, ru_started_at = None, ru_finished_at = None,
      ru_wakeup_at = None, ru_error_code = None, ru_error_message = None, ru_created_at = t\<rparr>"

definition insert_run :: "run \<Rightarrow> run jobs_statement" where
  "insert_run r t db =
     (if has_run (ru_id r) db \<or> \<not> has_job (ru_job_id r) db \<or>
         (case ru_trigger_id r of Some i \<Rightarrow> \<not> list_ex (\<lambda>x. tg_id x = i) (j_triggers db) | None \<Rightarrow> False)
      then (Err JobsDatabase, db) else (Ok r, db\<lparr>j_runs := j_runs db @ [r]\<rparr>))"

definition create_run :: "uuid \<Rightarrow> new_run \<Rightarrow> run jobs_statement" where
  "create_run i nr t db = insert_run (fresh_run i nr t) t db"

definition find_run :: "uuid \<Rightarrow> run option jobs_statement" where
  "find_run i = rows (\<lambda>db. find (\<lambda>r. ru_id r = i) (j_runs db))"

definition coalesce_opt :: "'a option \<Rightarrow> 'a option \<Rightarrow> 'a option" where
  "coalesce_opt v old = (case v of Some x \<Rightarrow> Some x | None \<Rightarrow> old)"

definition set_status :: "instant \<Rightarrow> run_status \<Rightarrow> string option \<Rightarrow> string option \<Rightarrow> run \<Rightarrow> run" where
  "set_status now status code message r =
     r\<lparr>ru_status := status,
       ru_started_at := coalesce_opt (if status = Running then Some now else None) (ru_started_at r),
       ru_finished_at := coalesce_opt (if status \<in> {Succeeded, Failed, Cancelled} then Some now else None)
         (ru_finished_at r),
       ru_error_code := coalesce_opt code (ru_error_code r),
       ru_error_message := coalesce_opt message (ru_error_message r)\<rparr>"

definition update_run_status :: "uuid \<Rightarrow> run_status \<Rightarrow> string option \<Rightarrow> string option \<Rightarrow> unit jobs_statement" where
  "update_run_status i status code message t db =
     (Ok (), db\<lparr>j_runs := update_rows (\<lambda>r. ru_id r = i) (set_status t status code message) (j_runs db)\<rparr>)"

definition set_run_sleeping :: "uuid \<Rightarrow> instant \<Rightarrow> unit jobs_statement" where
  "set_run_sleeping i wakeup_at t db =
     (Ok (), db\<lparr>j_runs := update_rows (\<lambda>r. ru_id r = i)
        (\<lambda>r. r\<lparr>ru_status := Sleeping, ru_wakeup_at := Some wakeup_at\<rparr>) (j_runs db)\<rparr>)"

text \<open>The sum is an \<open>integer\<close> of the database, which reports an overflow.\<close>

definition increment_run_attempt :: "uuid \<Rightarrow> unit jobs_statement" where
  "increment_run_attempt i t db =
     (if list_ex (\<lambda>r. ru_id r = i \<and> ru_attempt r = 2147483647) (j_runs db) then (Err JobsDatabase, db)
      else (Ok (), db\<lparr>j_runs := update_rows (\<lambda>r. ru_id r = i)
        (\<lambda>r. r\<lparr>ru_attempt := ru_attempt r + 1, ru_status := Pending\<rparr>) (j_runs db)\<rparr>))"

text \<open>\<open>LIMIT $n\<close> with \<open>limit as i32\<close>: the database refuses a negative one.\<close>

definition limited :: "nat \<Rightarrow> (jobs_db \<Rightarrow> 'a list) \<Rightarrow> 'a list jobs_statement" where
  "limited limit f t db =
     (let n = sint (of_nat limit :: i32) in
      if n < 0 then (Err JobsDatabase, db) else (Ok (take (nat n) (f db)), db))"

definition list_run_rows :: "uuid \<Rightarrow> nat \<Rightarrow> run list jobs_statement" where
  "list_run_rows job_id limit =
     limited limit (\<lambda>db. order_desc ru_created_at (filter (\<lambda>r. ru_job_id r = job_id) (j_runs db)))"

definition list_sleeping_runs_due :: "instant \<Rightarrow> run list jobs_statement" where
  "list_sleeping_runs_due now = rows (\<lambda>db. filter (\<lambda>r. ru_status r = Sleeping \<and>
     (case ru_wakeup_at r of Some n \<Rightarrow> n \<le> now | None \<Rightarrow> False)) (j_runs db))"

definition active :: "run_status \<Rightarrow> bool" where
  "active s \<longleftrightarrow> s \<in> {Pending, Running, Sleeping, Queued}"

definition active_runs :: "uuid \<Rightarrow> jobs_db \<Rightarrow> nat" where
  "active_runs job_id db = count_rows (\<lambda>r. ru_job_id r = job_id \<and> active (ru_status r)) (j_runs db)"

definition count_active_runs :: "uuid \<Rightarrow> 32 word jobs_statement" where
  "count_active_runs job_id = rows (\<lambda>db. of_nat (active_runs job_id db))"

definition count_active_runs_for_org :: "uuid \<Rightarrow> 32 word jobs_statement" where
  "count_active_runs_for_org org_id =
     rows (\<lambda>db. of_nat (count_rows (\<lambda>r. ru_org_id r = org_id \<and> active (ru_status r)) (j_runs db)))"

section \<open>Steps and state\<close>

definition create_step_row :: "uuid \<Rightarrow> new_step \<Rightarrow> step jobs_statement" where
  "create_step_row i ns t db =
     (let s = \<lparr>sp_id = i, sp_run_id = ns_run_id ns, sp_name = ns_name ns, sp_status = StRunning,
               sp_input_json = ns_input_json ns, sp_output_json = None, sp_attempt = 1, sp_started_at = Some t,
               sp_finished_at = None, sp_error_message = None\<rparr> in
      if list_ex (\<lambda>x. sp_id x = i \<or> sp_run_id x = sp_run_id s \<and> sp_name x = sp_name s) (j_steps db) \<or>
         \<not> has_run (sp_run_id s) db
      then (Err JobsDatabase, db) else (Ok s, db\<lparr>j_steps := j_steps db @ [s]\<rparr>))"

definition get_step :: "uuid \<Rightarrow> string \<Rightarrow> step option jobs_statement" where
  "get_step run_id name = rows (\<lambda>db. find (\<lambda>s. sp_run_id s = run_id \<and> sp_name s = name) (j_steps db))"

definition update_step_row :: "uuid \<Rightarrow> step_status \<Rightarrow> json option \<Rightarrow> string option \<Rightarrow> unit jobs_statement" where
  "update_step_row i status output error t db =
     (Ok (), db\<lparr>j_steps := update_rows (\<lambda>s. sp_id s = i)
        (\<lambda>s. s\<lparr>sp_status := status, sp_output_json := coalesce_opt output (sp_output_json s),
               sp_error_message := error, sp_finished_at := Some t\<rparr>) (j_steps db)\<rparr>)"

text \<open>\<open>ORDER BY started_at\<close>: rows without one come last.\<close>

definition list_steps :: "uuid \<Rightarrow> step list jobs_statement" where
  "list_steps run_id = rows (\<lambda>db.
     let ss = filter (\<lambda>s. sp_run_id s = run_id) (j_steps db) in
     sort_key (\<lambda>s. the (sp_started_at s)) (filter (\<lambda>s. sp_started_at s \<noteq> None) ss) @
     filter (\<lambda>s. sp_started_at s = None) ss)"

definition find_state :: "uuid \<Rightarrow> string \<Rightarrow> json option jobs_statement" where
  "find_state run_id key =
     rows (\<lambda>db. map_option sn_value_json (find (\<lambda>e. sn_run_id e = run_id \<and> sn_key e = key) (j_state db)))"

definition set_state_row :: "uuid \<Rightarrow> string \<Rightarrow> json \<Rightarrow> unit jobs_statement" where
  "set_state_row run_id key v t db =
     (let P = (\<lambda>e. sn_run_id e = run_id \<and> sn_key e = key) in
      if list_ex P (j_state db)
      then (Ok (), db\<lparr>j_state := update_rows P (\<lambda>e. e\<lparr>sn_value_json := v, sn_updated_at := t\<rparr>) (j_state db)\<rparr>)
      else if \<not> has_run run_id db then (Err JobsDatabase, db)
      else (Ok (), db\<lparr>j_state := j_state db @
        [\<lparr>sn_run_id = run_id, sn_key = key, sn_value_json = v, sn_updated_at = t\<rparr>]\<rparr>))"

definition delete_state_row :: "uuid \<Rightarrow> string \<Rightarrow> unit jobs_statement" where
  "delete_state_row run_id key t db =
     (Ok (), db\<lparr>j_state := filter (\<lambda>e. \<not> (sn_run_id e = run_id \<and> sn_key e = key)) (j_state db)\<rparr>)"

definition list_state :: "uuid \<Rightarrow> state_entry list jobs_statement" where
  "list_state run_id = rows (\<lambda>db. filter (\<lambda>e. sn_run_id e = run_id) (j_state db))"

section \<open>Events\<close>

definition emit_event_row :: "uuid \<Rightarrow> new_event \<Rightarrow> event jobs_statement" where
  "emit_event_row i nv t db =
     (let e = \<lparr>en_id = i, en_org_id = nv_org_id nv, en_topic = nv_topic nv, en_payload_json = nv_payload_json nv,
               en_emitted_by_run_id = nv_emitted_by_run_id nv, en_consumed_by_run_id = None, en_created_at = t,
               en_consumed_at = None\<rparr> in
      if list_ex (\<lambda>x. en_id x = i) (j_events db) \<or>
         (case nv_emitted_by_run_id nv of Some r \<Rightarrow> \<not> has_run r db | None \<Rightarrow> False)
      then (Err JobsDatabase, db) else (Ok e, db\<lparr>j_events := j_events db @ [e]\<rparr>))"

definition consume_event :: "uuid \<Rightarrow> uuid \<Rightarrow> unit jobs_statement" where
  "consume_event i run_id t db =
     (if list_ex (\<lambda>e. en_id e = i) (j_events db) \<and> \<not> has_run run_id db then (Err JobsDatabase, db)
      else (Ok (), db\<lparr>j_events := update_rows (\<lambda>e. en_id e = i)
        (\<lambda>e. e\<lparr>en_consumed_by_run_id := Some run_id, en_consumed_at := Some t\<rparr>) (j_events db)\<rparr>))"

definition list_pending_events :: "string \<Rightarrow> nat \<Rightarrow> event list jobs_statement" where
  "list_pending_events topic limit = limited limit (\<lambda>db.
     sort_key en_created_at (filter (\<lambda>e. en_topic e = topic \<and> en_consumed_at e = None) (j_events db)))"

definition list_pending_events_for_org :: "uuid \<Rightarrow> nat \<Rightarrow> event list jobs_statement" where
  "list_pending_events_for_org org_id limit = limited limit (\<lambda>db.
     sort_key en_created_at (filter (\<lambda>e. en_org_id e = org_id \<and> en_consumed_at e = None) (j_events db)))"

text \<open>\<open>config_json->>'topic'\<close>; how the database prints an array or an object is a parameter.\<close>

fun arrow_text :: "(json \<Rightarrow> string) \<Rightarrow> json option \<Rightarrow> string option" where
  "arrow_text pg None = None"
| "arrow_text pg (Some JNull) = None"
| "arrow_text pg (Some (JBool b)) = Some (if b then ''true'' else ''false'')"
| "arrow_text pg (Some (JNumber n)) = Some (num_text n)"
| "arrow_text pg (Some (JString s)) = Some s"
| "arrow_text pg (Some (JArray xs)) = Some (pg (JArray xs))"
| "arrow_text pg (Some (JObject fs)) = Some (pg (JObject fs))"

definition matching_triggers :: "(json \<Rightarrow> string) \<Rightarrow> uuid \<Rightarrow> string \<Rightarrow> trigger list jobs_statement" where
  "matching_triggers pg org_id topic = rows (\<lambda>db. filter (\<lambda>t. tg_kind t = Event \<and> tg_enabled t \<and>
     list_ex (\<lambda>j. jb_id j = tg_job_id t \<and> jb_org_id j = org_id) (j_jobs db) \<and>
     arrow_text pg (json_get (tg_config_json t) ''topic'') = Some topic) (j_triggers db))"

section \<open>The dead letter queue and the audit log\<close>

definition move_to_dlq :: "uuid \<Rightarrow> uuid \<Rightarrow> unit jobs_statement" where
  "move_to_dlq i run_id t db =
     (case find (\<lambda>r. ru_id r = run_id) (j_runs db) of
        None \<Rightarrow> (Ok (), db)
      | Some r \<Rightarrow>
          if list_ex (\<lambda>d. dl_id d = i) (j_dlq db) \<or> \<not> has_job (ru_job_id r) db then (Err JobsDatabase, db)
          else (Ok (), db\<lparr>j_dlq := j_dlq db @
            [\<lparr>dl_id = i, dl_run_id = ru_id r, dl_job_id = ru_job_id r, dl_org_id = ru_org_id r,
              dl_payload_json = ru_payload_json r, dl_error_code = ru_error_code r,
              dl_error_message = ru_error_message r, dl_attempt = ru_attempt r, dl_created_at = t\<rparr>]\<rparr>))"

definition list_dlq_rows :: "uuid \<Rightarrow> nat \<Rightarrow> dlq_entry list jobs_statement" where
  "list_dlq_rows job_id limit =
     limited limit (\<lambda>db. order_desc dl_created_at (filter (\<lambda>d. dl_job_id d = job_id) (j_dlq db)))"

text \<open>The two statements of \<open>retry_from_dlq\<close>: nothing is inserted for an entry that does not exist.\<close>

definition insert_from_dlq :: "uuid \<Rightarrow> uuid \<Rightarrow> unit jobs_statement" where
  "insert_from_dlq run_id dlq_id t db =
     (case find (\<lambda>d. dl_id d = dlq_id) (j_dlq db) of
        None \<Rightarrow> (Ok (), db)
      | Some d \<Rightarrow>
          (case find (\<lambda>j. jb_id j = dl_job_id d) (j_jobs db) of
             None \<Rightarrow> (Err JobsDatabase, db)
           | Some j \<Rightarrow>
               (case create_run run_id
                   \<lparr>nr_job_id = dl_job_id d, nr_org_id = dl_org_id d, nr_trigger_id = None, nr_trigger_kind = Manual,
                    nr_payload_json = dl_payload_json d, nr_max_attempts = jb_retry_max_attempts j\<rparr> t db of
                  (r, db') \<Rightarrow> (and_then r (\<lambda>_. Ok ()), db'))))"

definition delete_dlq_row :: "uuid \<Rightarrow> unit jobs_statement" where
  "delete_dlq_row dlq_id t db = (Ok (), db\<lparr>j_dlq := filter (\<lambda>d. dl_id d \<noteq> dlq_id) (j_dlq db)\<rparr>)"

definition write_jobs_audit_event :: "uuid \<Rightarrow> jobs_audit_event \<Rightarrow> unit jobs_statement" where
  "write_jobs_audit_event i e t db =
     (if list_ex (\<lambda>(x, _). x = i) (j_audit db) then (Err JobsDatabase, db)
      else (Ok (), db\<lparr>j_audit := j_audit db @ [(i, e)]\<rparr>))"

end
