(* ===== verification/Jobs_Service.thy ===== *)
theory Jobs_Service
  imports Jobs_Store
begin

text \<open>
  The jobs service: its state (\<open>crates/reactor-jobs/src/state.rs\<close>), the auth middleware, the handlers
  of \<open>routes/\<close>, the executor and the worker (\<open>worker/\<close>) and the schedulers (\<open>scheduler/\<close>), as
  computations over the tables, the queues, the clock and the list of requests sent to functions.

  Every statement may fail (\<open>jx_fails\<close> says which, counting statements of both databases). The service and
  its databases read one clock. Hashing,
  encryption, base64, the byte form of an UUID, the parsers of UUIDs, JSON and cron schedules, and the auth
  client are parameters. Bytes are characters.
\<close>

section \<open>The environment and the world\<close>

record jobs_env =
  jx_fails :: "nat \<Rightarrow> bool"
  jx_uuid :: "nat \<Rightarrow> uuid"
  jx_nonce :: "nat \<Rightarrow> string"
  jx_sha256 :: "string \<Rightarrow> string"
  jx_encrypt :: "string \<Rightarrow> string \<Rightarrow> string \<Rightarrow> string option"
  jx_decrypt :: "string \<Rightarrow> string \<Rightarrow> string \<Rightarrow> string option"
  jx_base64 :: "string \<Rightarrow> string"
  jx_unbase64 :: "string \<Rightarrow> string option"
  jx_uuid_bytes :: "uuid \<Rightarrow> string"
  jx_uuid_of_bytes :: "string \<Rightarrow> uuid option"
  jx_parse_uuid :: "string \<Rightarrow> uuid option"
  jx_cron :: cron_parser
  jx_pg_text :: "json \<Rightarrow> string"
  jx_parse_json :: "string \<Rightarrow> json option"
  jx_lossy :: "string \<Rightarrow> string"
  jx_resolve :: "string \<Rightarrow> string option \<Rightarrow> auth_ctx option"
  jx_webhook_secret :: string
  jx_max_payload_bytes :: nat
  jx_functions_url :: string
  jx_functions_api_key :: string
  jx_visibility_timeout :: int

text \<open>A request to the functions service: the parts of the context header are fields.\<close>

record invocation =
  iv_url :: string
  iv_api_key :: string
  iv_run_id :: uuid
  iv_job_name :: string
  iv_attempt :: i32
  iv_step_cache :: "string \<Rightarrow> json option"
  iv_run_state :: "string \<Rightarrow> json option"
  iv_body :: json
  iv_timeout_ms :: "64 word"

record jobs_world =
  jw_db :: jobs_db
  jw_cache :: cache_db
  jw_now :: instant
  jw_fresh :: nat
  jw_statements :: nat
  jw_sent :: "invocation list"

record job_ctx =
  jc_auth :: auth_ctx
  jc_request_id :: string
  jc_org_id :: uuid

definition job_has_permission :: "job_ctx \<Rightarrow> string \<Rightarrow> bool" where
  "job_has_permission ctx perm = auth_has_permission (jc_auth ctx) perm"

section \<open>Effects\<close>

type_synonym 'a jobs_act = "(jobs_world, 'a, jobs_error) comp"

definition jsql :: "jobs_env \<Rightarrow> 'a jobs_statement \<Rightarrow> 'a jobs_act" where
  "jsql env st w =
     (let w' = w\<lparr>jw_statements := Suc (jw_statements w)\<rparr> in
      if jx_fails env (jw_statements w) then (Err JobsDatabase, w')
      else case st (jw_now w) (jw_db w) of (r, db') \<Rightarrow> (r, w'\<lparr>jw_db := db'\<rparr>))"

text \<open>\<open>.await?.ok_or(e)?\<close>.\<close>

definition jsql_some :: "jobs_env \<Rightarrow> 'a option jobs_statement \<Rightarrow> jobs_error \<Rightarrow> 'a jobs_act" where
  "jsql_some env st e = bind (jsql env st) (\<lambda>x. lift (ok_or e x))"

definition jcache :: "jobs_env \<Rightarrow> 'a cache_statement \<Rightarrow> 'a jobs_act" where
  "jcache env st w =
     (let w' = w\<lparr>jw_statements := Suc (jw_statements w)\<rparr> in
      if jx_fails env (jw_statements w) then (Err (JobsCache CeDatabase), w')
      else case st (jw_now w) (jw_cache w) of (r, c') \<Rightarrow> (map_err JobsCache r, w'\<lparr>jw_cache := c'\<rparr>))"

definition jclock :: "instant jobs_act" where
  "jclock w = (Ok (jw_now w), w)"

definition jfresh :: "(nat \<Rightarrow> 'a) \<Rightarrow> 'a jobs_act" where
  "jfresh f w = (Ok (f (jw_fresh w)), w\<lparr>jw_fresh := Suc (jw_fresh w)\<rparr>)"

definition send :: "invocation \<Rightarrow> unit jobs_act" where
  "send v w = (Ok (), w\<lparr>jw_sent := jw_sent w @ [v]\<rparr>)"

section \<open>Authentication (middleware/auth.rs)\<close>

definition require_auth ::
  "jobs_env \<Rightarrow> string option \<Rightarrow> string option \<Rightarrow> string option \<Rightarrow> job_ctx jobs_act" where
  "require_auth env request_id authorization org_header =
     bind (case request_id of Some i \<Rightarrow> ret i | None \<Rightarrow> jfresh (jx_uuid env)) (\<lambda>request_id.
     bind (lift (ok_or MissingOrgContext (Option.bind authorization (strip_prefix ''Bearer '')))) (\<lambda>token.
     bind (lift (ok_or MissingOrgContext (jx_resolve env token org_header))) (\<lambda>auth.
     bind (lift (ok_or MissingOrgContext (ax_active_org auth))) (\<lambda>org_id.
       ret \<lparr>jc_auth = auth, jc_request_id = request_id, jc_org_id = org_id\<rparr>))))"

definition permitted :: "job_ctx \<Rightarrow> string \<Rightarrow> unit jobs_act" where
  "permitted ctx perm =
     lift (if \<not> job_has_permission ctx perm \<and> \<not> job_has_permission ctx ''*''
           then Err (PermissionDenied perm) else Ok ())"

definition job_permission :: "string \<Rightarrow> string \<Rightarrow> string" where
  "job_permission name what = ''jobs:'' @ name @ '':'' @ what"

section \<open>Audit (audit.rs)\<close>

definition record_audit_event ::
  "jobs_env \<Rightarrow> job_ctx \<Rightarrow> string \<Rightarrow> uuid option \<Rightarrow> uuid option \<Rightarrow> json \<Rightarrow> unit jobs_act" where
  "record_audit_event env ctx event_type job_id run_id details =
     bind (jfresh (jx_uuid env)) (\<lambda>i.
       jsql env (write_jobs_audit_event i
         \<lparr>au_event_type = event_type, au_actor_user_id = auth_user_id (jx_parse_uuid env) (jc_auth ctx),
          au_actor_apikey_id = None, au_org_id = Some (jc_org_id ctx), au_job_id = job_id, au_run_id = run_id,
          au_details = details, au_request_id = jc_request_id ctx\<rparr>))"

section \<open>Queues\<close>

definition org_queue :: "uuid \<Rightarrow> string" where
  "org_queue org_id = ''jobs:'' @ org_id"

definition default_queue :: string where
  "default_queue = ''jobs:default''"

definition enqueue_run :: "jobs_env \<Rightarrow> uuid \<Rightarrow> uuid \<Rightarrow> unit jobs_act" where
  "enqueue_run env org_id run_id =
     bind (jfresh (jx_uuid env)) (\<lambda>i.
     bind (jcache env (\<lambda>now. enqueue now i (org_queue org_id) (jx_uuid_bytes env run_id) None now)) (\<lambda>_. ret ()))"

definition new_run_row :: "jobs_env \<Rightarrow> new_run \<Rightarrow> run jobs_act" where
  "new_run_row env nr = bind (jfresh (jx_uuid env)) (\<lambda>i. jsql env (create_run i nr))"

text \<open>\<open>active_runs >= job.max_concurrency as u32\<close>: the cast reads a negative limit as a large one.\<close>

definition at_limit :: "32 word \<Rightarrow> job \<Rightarrow> bool" where
  "at_limit n_active j \<longleftrightarrow> jb_max_concurrency j \<le> n_active"

section \<open>Jobs (routes/admin.rs)\<close>

record create_job_request =
  cj_name :: string
  cj_function_name :: string
  cj_description :: "string option"
  cj_retry_max_attempts :: i32
  cj_retry_backoff :: backoff_strategy
  cj_retry_initial_delay_ms :: i32
  cj_retry_max_delay_ms :: i32
  cj_max_concurrency :: i32
  cj_timeout_ms :: i32

definition create_job :: "jobs_env \<Rightarrow> job_ctx \<Rightarrow> create_job_request \<Rightarrow> job jobs_act" where
  "create_job env ctx req =
     bind (permitted ctx ''jobs:create'') (\<lambda>_.
     bind (lift (if job_name_regex (cj_name req) then Ok () else Err (InvalidJobName (cj_name req)))) (\<lambda>_.
     bind (jsql env (find_job (jc_org_id ctx) (cj_name req))) (\<lambda>existing.
     if existing \<noteq> None
     then lift (Err (InvalidJobName (''job '' @ [CHR 0x27] @ cj_name req @ [CHR 0x27] @ '' already exists'')))
     else
     bind (jfresh (jx_uuid env)) (\<lambda>i.
     bind (jsql env (create_job_row i
       \<lparr>nj_org_id = jc_org_id ctx, nj_name = cj_name req, nj_function_name = cj_function_name req,
        nj_description = cj_description req, nj_retry_max_attempts = cj_retry_max_attempts req,
        nj_retry_backoff = cj_retry_backoff req, nj_retry_initial_delay_ms = cj_retry_initial_delay_ms req,
        nj_retry_max_delay_ms = cj_retry_max_delay_ms req, nj_max_concurrency = cj_max_concurrency req,
        nj_timeout_ms = cj_timeout_ms req\<rparr>)) (\<lambda>j.
     bind (ignore_error (record_audit_event env ctx ''job.create'' (Some (jb_id j)) None
       (JObject [(''name'', JString (jb_name j)), (''function_name'', JString (jb_function_name j))]))) (\<lambda>_.
       ret j))))))"

definition list_jobs :: "jobs_env \<Rightarrow> job_ctx \<Rightarrow> job list jobs_act" where
  "list_jobs env ctx = jsql env (list_job_rows (jc_org_id ctx))"

definition job_of :: "jobs_env \<Rightarrow> job_ctx \<Rightarrow> string \<Rightarrow> job jobs_act" where
  "job_of env ctx name = jsql_some env (find_job (jc_org_id ctx) name) (JobNotFound name)"

definition get_job :: "jobs_env \<Rightarrow> job_ctx \<Rightarrow> string \<Rightarrow> (job \<times> trigger list \<times> run list) jobs_act" where
  "get_job env ctx name =
     bind (job_of env ctx name) (\<lambda>j.
     bind (jsql env (get_triggers (jb_id j))) (\<lambda>triggers.
     bind (jsql env (list_run_rows (jb_id j) 10)) (\<lambda>recent_runs. ret (j, triggers, recent_runs))))"

definition delete_job :: "jobs_env \<Rightarrow> job_ctx \<Rightarrow> string \<Rightarrow> unit jobs_act" where
  "delete_job env ctx name =
     bind (permitted ctx (job_permission name ''admin'')) (\<lambda>_.
     bind (job_of env ctx name) (\<lambda>j.
     bind (jsql env (delete_job_row (jb_id j))) (\<lambda>_.
       ignore_error (record_audit_event env ctx ''job.delete'' (Some (jb_id j)) None
         (JObject [(''name'', JString (jb_name j))])))))"

section \<open>Webhook tokens (routes/triggers.rs)\<close>

definition generate_webhook_token :: "jobs_env \<Rightarrow> uuid \<Rightarrow> string jobs_act" where
  "generate_webhook_token env job_id =
     bind (jfresh (jx_nonce env)) (\<lambda>nonce.
     bind (lift (ok_or (JobsInternal ''encryption failed: aead::Error'')
       (jx_encrypt env (jx_sha256 env (jx_webhook_secret env)) nonce (jx_uuid_bytes env job_id)))) (\<lambda>ciphertext.
       ret (jx_base64 env (nonce @ ciphertext))))"

definition decode_webhook_token :: "jobs_env \<Rightarrow> string \<Rightarrow> (uuid, jobs_error) result" where
  "decode_webhook_token env token =
     and_then (ok_or WebhookTokenInvalid (jx_unbase64 env token)) (\<lambda>token_bytes.
     if length token_bytes < 13 then Err WebhookTokenInvalid
     else
     and_then (ok_or WebhookTokenInvalid (jx_decrypt env (jx_sha256 env (jx_webhook_secret env))
       (take 12 token_bytes) (drop 12 token_bytes))) (\<lambda>plaintext.
       ok_or WebhookTokenInvalid (jx_uuid_of_bytes env plaintext)))"

section \<open>Triggers (routes/triggers.rs)\<close>

fun as_str :: "json \<Rightarrow> string option" where
  "as_str (JString s) = Some s"
| "as_str _ = None"

definition trigger_settings ::
  "jobs_env \<Rightarrow> job \<Rightarrow> trigger_kind \<Rightarrow> json \<Rightarrow> (json \<times> string option \<times> instant option) jobs_act" where
  "trigger_settings env j kind config =
     (case kind of
        Cron \<Rightarrow>
          bind (lift (ok_or (InvalidTriggerConfig (''cron trigger requires '' @ [CHR 0x27] @ ''schedule'' @ [CHR 0x27] @ '' field''))
            (Option.bind (json_get config ''schedule'') as_str))) (\<lambda>schedule.
          bind (lift (map_err (\<lambda>e. InvalidCron (schedule @ '': '' @ e)) (jx_cron env schedule))) (\<lambda>parsed.
          bind jclock (\<lambda>now. ret (JObject [(''schedule'', JString schedule)], None, parsed now))))
      | Event \<Rightarrow>
          bind (lift (ok_or (InvalidTriggerConfig (''event trigger requires '' @ [CHR 0x27] @ ''topic'' @ [CHR 0x27] @ '' field''))
            (Option.bind (json_get config ''topic'') as_str))) (\<lambda>topic.
          if event_topic_regex topic then ret (JObject [(''topic'', JString topic)], None, None)
          else lift (Err (InvalidEventTopic topic)))
      | Webhook \<Rightarrow> bind (generate_webhook_token env (jb_id j)) (\<lambda>token. ret (JObject [], Some token, None))
      | Manual \<Rightarrow> ret (JObject [], None, None))"

definition create_trigger :: "jobs_env \<Rightarrow> job_ctx \<Rightarrow> string \<Rightarrow> trigger_kind \<Rightarrow> json \<Rightarrow> trigger jobs_act" where
  "create_trigger env ctx name kind config =
     bind (permitted ctx (job_permission name ''admin'')) (\<lambda>_.
     bind (job_of env ctx name) (\<lambda>j.
     bind (trigger_settings env j kind config) (\<lambda>(config_json, webhook_token, next_trigger_at).
     bind (jfresh (jx_uuid env)) (\<lambda>i.
     bind (jsql env (create_trigger_row i
       \<lparr>nt_job_id = jb_id j, nt_kind = kind, nt_config_json = config_json, nt_webhook_token = webhook_token,
        nt_next_trigger_at = next_trigger_at\<rparr>)) (\<lambda>trigger.
     bind (ignore_error (record_audit_event env ctx ''trigger.create'' (Some (jb_id j)) None
       (JObject [(''trigger_id'', JString (tg_id trigger)), (''kind'', JString (show_trigger_kind kind))]))) (\<lambda>_.
       ret trigger))))))"

definition list_triggers :: "jobs_env \<Rightarrow> job_ctx \<Rightarrow> string \<Rightarrow> trigger list jobs_act" where
  "list_triggers env ctx name = bind (job_of env ctx name) (\<lambda>j. jsql env (get_triggers (jb_id j)))"

definition delete_trigger :: "jobs_env \<Rightarrow> job_ctx \<Rightarrow> string \<Rightarrow> uuid \<Rightarrow> unit jobs_act" where
  "delete_trigger env ctx name trigger_id =
     bind (permitted ctx (job_permission name ''admin'')) (\<lambda>_.
     bind (job_of env ctx name) (\<lambda>j.
     bind (jsql_some env (get_trigger trigger_id) (TriggerNotFound trigger_id)) (\<lambda>trigger.
     if tg_job_id trigger \<noteq> jb_id j then lift (Err (TriggerNotFound trigger_id))
     else
     bind (jsql env (delete_trigger_row trigger_id)) (\<lambda>_.
       ignore_error (record_audit_event env ctx ''trigger.delete'' (Some (jb_id j)) None
         (JObject [(''trigger_id'', JString trigger_id), (''kind'', JString (show_trigger_kind (tg_kind trigger)))]))))))"

section \<open>Invocation (routes/invoke.rs)\<close>

definition manual_trigger :: "jobs_env \<Rightarrow> job_ctx \<Rightarrow> string \<Rightarrow> json \<Rightarrow> uuid jobs_act" where
  "manual_trigger env ctx name payload =
     bind (permitted ctx (job_permission name ''invoke'')) (\<lambda>_.
     bind (job_of env ctx name) (\<lambda>j.
     bind (jsql env (count_active_runs (jb_id j))) (\<lambda>n_active.
     if at_limit n_active j then lift (Err (ConcurrencyExceeded name))
     else
     bind (new_run_row env
       \<lparr>nr_job_id = jb_id j, nr_org_id = jc_org_id ctx, nr_trigger_id = None, nr_trigger_kind = Manual,
        nr_payload_json = payload, nr_max_attempts = jb_retry_max_attempts j\<rparr>) (\<lambda>r.
     bind (enqueue_run env (jc_org_id ctx) (ru_id r)) (\<lambda>_. ret (ru_id r))))))"

definition webhook_payload :: "jobs_env \<Rightarrow> string \<Rightarrow> json" where
  "webhook_payload env body =
     (case jx_parse_json env body of Some v \<Rightarrow> v | None \<Rightarrow> JObject [(''raw'', JString (jx_lossy env body))])"

definition webhook_trigger :: "jobs_env \<Rightarrow> string \<Rightarrow> string \<Rightarrow> uuid jobs_act" where
  "webhook_trigger env token body =
     bind (lift (decode_webhook_token env token)) (\<lambda>job_id.
     bind (jsql_some env (find_job_by_id job_id) WebhookTokenInvalid) (\<lambda>j.
     bind (jsql_some env (get_trigger_by_webhook_token token) WebhookTokenInvalid) (\<lambda>trigger.
     if \<not> tg_enabled trigger then lift (Err WebhookTokenInvalid)
     else
     bind (jsql env (count_active_runs (jb_id j))) (\<lambda>n_active.
     if at_limit n_active j then lift (Err (ConcurrencyExceeded (jb_name j)))
     else if length body > jx_max_payload_bytes env
     then lift (Err (PayloadTooLarge (length body) (jx_max_payload_bytes env)))
     else
     bind (new_run_row env
       \<lparr>nr_job_id = jb_id j, nr_org_id = jb_org_id j, nr_trigger_id = Some (tg_id trigger),
        nr_trigger_kind = Webhook, nr_payload_json = webhook_payload env body,
        nr_max_attempts = jb_retry_max_attempts j\<rparr>) (\<lambda>r.
     bind (enqueue_run env (jb_org_id j) (ru_id r)) (\<lambda>_. ret (ru_id r)))))))"

end
