(* ===== verification/Jobs_Runs.thy ===== *)
theory Jobs_Runs
  imports Jobs_Service
begin

text \<open>
  Runs of jobs: the handlers of \<open>crates/reactor-jobs/src/routes/runs.rs\<close>, \<open>dlq.rs\<close> and \<open>internal.rs\<close>,
  the step checkpoints, the executor and the worker (\<open>worker/\<close>) and the schedulers (\<open>scheduler/\<close>).
  The executor is split where it waits for the function: \<open>execute_start\<close> ends with the request it
  sends, \<open>execute_finish\<close> begins with the answer, and anything may happen in between.
\<close>

section \<open>Runs (routes/runs.rs)\<close>

definition list_runs :: "jobs_env \<Rightarrow> job_ctx \<Rightarrow> string \<Rightarrow> string option \<Rightarrow> nat \<Rightarrow> run list jobs_act" where
  "list_runs env ctx name status limit =
     bind (job_of env ctx name) (\<lambda>j.
     bind (jsql env (list_run_rows (jb_id j) limit)) (\<lambda>runs.
       ret (case status of Some s \<Rightarrow> filter (\<lambda>r. show_run_status (ru_status r) = s) runs | None \<Rightarrow> runs)))"

text \<open>The run of a job: one of another job is not found.\<close>

definition run_of :: "jobs_env \<Rightarrow> job \<Rightarrow> uuid \<Rightarrow> run jobs_act" where
  "run_of env j run_id =
     bind (jsql_some env (find_run run_id) (RunNotFound run_id)) (\<lambda>r.
       lift (if ru_job_id r \<noteq> jb_id j then Err (RunNotFound run_id) else Ok r))"

definition get_run ::
  "jobs_env \<Rightarrow> job_ctx \<Rightarrow> string \<Rightarrow> uuid \<Rightarrow> (run \<times> step list \<times> state_entry list) jobs_act" where
  "get_run env ctx name run_id =
     bind (job_of env ctx name) (\<lambda>j.
     bind (run_of env j run_id) (\<lambda>r.
     bind (jsql env (list_steps run_id)) (\<lambda>steps.
     bind (jsql env (list_state run_id)) (\<lambda>entries. ret (r, steps, entries)))))"

definition cancel_run :: "jobs_env \<Rightarrow> job_ctx \<Rightarrow> string \<Rightarrow> uuid \<Rightarrow> run jobs_act" where
  "cancel_run env ctx name run_id =
     bind (permitted ctx (job_permission name ''admin'')) (\<lambda>_.
     bind (job_of env ctx name) (\<lambda>j.
     bind (run_of env j run_id) (\<lambda>r.
     if ru_status r \<in> {Succeeded, Failed, Cancelled} then lift (Err (RunAlreadyComplete run_id))
     else
     bind (jsql env (update_run_status run_id Cancelled None None)) (\<lambda>_.
     bind (ignore_error (record_audit_event env ctx ''run.cancel'' (Some (jb_id j)) (Some run_id) (JObject []))) (\<lambda>_.
       jsql_some env (find_run run_id) (RunNotFound run_id))))))"

definition retry_run :: "jobs_env \<Rightarrow> job_ctx \<Rightarrow> string \<Rightarrow> uuid \<Rightarrow> run jobs_act" where
  "retry_run env ctx name run_id =
     bind (permitted ctx (job_permission name ''admin'')) (\<lambda>_.
     bind (job_of env ctx name) (\<lambda>j.
     bind (run_of env j run_id) (\<lambda>original.
     bind (new_run_row env
       \<lparr>nr_job_id = jb_id j, nr_org_id = jc_org_id ctx, nr_trigger_id = ru_trigger_id original,
        nr_trigger_kind = Manual, nr_payload_json = ru_payload_json original,
        nr_max_attempts = jb_retry_max_attempts j\<rparr>) (\<lambda>r.
     bind (enqueue_run env (jc_org_id ctx) (ru_id r)) (\<lambda>_.
     bind (ignore_error (record_audit_event env ctx ''run.retry'' (Some (jb_id j)) (Some (ru_id r))
       (JObject [(''original_run_id'', JString run_id)]))) (\<lambda>_. ret r))))))"

section \<open>The dead letter queue (routes/dlq.rs)\<close>

definition list_dlq :: "jobs_env \<Rightarrow> job_ctx \<Rightarrow> string \<Rightarrow> dlq_entry list jobs_act" where
  "list_dlq env ctx name = bind (job_of env ctx name) (\<lambda>j. jsql env (list_dlq_rows (jb_id j) 100))"

definition retry_from_dlq :: "jobs_env \<Rightarrow> uuid \<Rightarrow> uuid jobs_act" where
  "retry_from_dlq env dlq_id =
     bind (jfresh (jx_uuid env)) (\<lambda>run_id.
     bind (jsql env (insert_from_dlq run_id dlq_id)) (\<lambda>_.
     bind (jsql env (delete_dlq_row dlq_id)) (\<lambda>_. ret run_id)))"

definition retry_dlq :: "jobs_env \<Rightarrow> job_ctx \<Rightarrow> string \<Rightarrow> uuid \<Rightarrow> run jobs_act" where
  "retry_dlq env ctx name dlq_id =
     bind (permitted ctx (job_permission name ''admin'')) (\<lambda>_.
     bind (job_of env ctx name) (\<lambda>j.
     bind (retry_from_dlq env dlq_id) (\<lambda>run_id.
     bind (enqueue_run env (jc_org_id ctx) run_id) (\<lambda>_.
     bind (ignore_error (record_audit_event env ctx ''dlq.retry'' (Some (jb_id j)) (Some run_id)
       (JObject [(''dlq_id'', JString dlq_id)]))) (\<lambda>_.
       jsql_some env (find_run run_id) (JobsInternal ''failed to get created run''))))))"

definition delete_dlq :: "jobs_env \<Rightarrow> job_ctx \<Rightarrow> string \<Rightarrow> uuid \<Rightarrow> unit jobs_act" where
  "delete_dlq env ctx name dlq_id =
     bind (permitted ctx (job_permission name ''admin'')) (\<lambda>_.
     bind (job_of env ctx name) (\<lambda>j.
     bind (jsql env (delete_dlq_row dlq_id)) (\<lambda>_.
       ignore_error (record_audit_event env ctx ''dlq.delete'' (Some (jb_id j)) None
         (JObject [(''dlq_id'', JString dlq_id)])))))"

section \<open>Logs (routes/logs.rs)\<close>

text \<open>The guard of the stream; its events carry no log entries.\<close>

definition stream_logs :: "jobs_env \<Rightarrow> job_ctx \<Rightarrow> string \<Rightarrow> unit jobs_act" where
  "stream_logs env ctx name =
     bind (permitted ctx (job_permission name ''logs'')) (\<lambda>_. bind (job_of env ctx name) (\<lambda>_. ret ()))"

section \<open>Internal routes (routes/internal.rs)\<close>

definition extract_run_id :: "jobs_env \<Rightarrow> string option \<Rightarrow> uuid jobs_act" where
  "extract_run_id env header =
     lift (ok_or (JobsInternal ''missing or invalid X-Reactor-Run-Id header'')
       (Option.bind header (jx_parse_uuid env)))"

definition new_step_row :: "jobs_env \<Rightarrow> uuid \<Rightarrow> string \<Rightarrow> json option \<Rightarrow> step jobs_act" where
  "new_step_row env run_id name input =
     bind (jfresh (jx_uuid env)) (\<lambda>i.
       jsql env (create_step_row i \<lparr>ns_run_id = run_id, ns_name = name, ns_input_json = input\<rparr>))"

definition create_step :: "jobs_env \<Rightarrow> string option \<Rightarrow> string \<Rightarrow> uuid jobs_act" where
  "create_step env header name =
     bind (extract_run_id env header) (\<lambda>run_id.
     bind (jsql env (get_step run_id name)) (\<lambda>existing.
       case existing of
         Some s \<Rightarrow> ret (sp_id s)
       | None \<Rightarrow> bind (new_step_row env run_id name None) (\<lambda>s. ret (sp_id s))))"

definition update_step ::
  "jobs_env \<Rightarrow> uuid \<Rightarrow> string \<Rightarrow> json option \<Rightarrow> string option \<Rightarrow> unit jobs_act" where
  "update_step env step_id status output error =
     bind (lift (if status = ''completed'' then Ok StCompleted
       else if status = ''failed'' then Ok StFailed
       else if status = ''skipped'' then Ok StSkipped
       else Err (JobsInternal (''invalid step status: '' @ status)))) (\<lambda>st.
       jsql env (update_step_row step_id st output error))"

definition set_run_state :: "jobs_env \<Rightarrow> string option \<Rightarrow> string \<Rightarrow> json \<Rightarrow> unit jobs_act" where
  "set_run_state env header key v =
     bind (extract_run_id env header) (\<lambda>run_id. jsql env (set_state_row run_id key v))"

definition get_state :: "jobs_env \<Rightarrow> string option \<Rightarrow> string \<Rightarrow> json option jobs_act" where
  "get_state env header key = bind (extract_run_id env header) (\<lambda>run_id. jsql env (find_state run_id key))"

definition delete_state :: "jobs_env \<Rightarrow> string option \<Rightarrow> string \<Rightarrow> unit jobs_act" where
  "delete_state env header key =
     bind (extract_run_id env header) (\<lambda>run_id. jsql env (delete_state_row run_id key))"

definition emit_event :: "jobs_env \<Rightarrow> string option \<Rightarrow> string \<Rightarrow> json \<Rightarrow> unit jobs_act" where
  "emit_event env header topic payload =
     bind (extract_run_id env header) (\<lambda>run_id.
     bind (jsql_some env (find_run run_id) (RunNotFound run_id)) (\<lambda>r.
     bind (jfresh (jx_uuid env)) (\<lambda>i.
     bind (jsql env (emit_event_row i
       \<lparr>nv_org_id = ru_org_id r, nv_topic = topic, nv_payload_json = payload,
        nv_emitted_by_run_id = Some run_id\<rparr>)) (\<lambda>_. ret ()))))"

text \<open>
  \<open>Utc::now() + chrono::Duration::milliseconds(ms)\<close> panics for the least integer and outside the
  calendar.
\<close>

definition wakeup_time :: "64 word \<Rightarrow> instant jobs_act" where
  "wakeup_time ms = bind jclock (\<lambda>now.
     let t = now + sint ms * 1000 in
     lift (if sint ms = - (2 ^ 63) \<or> \<not> in_calendar t then Panic else Ok t))"

definition request_sleep :: "jobs_env \<Rightarrow> string option \<Rightarrow> string \<Rightarrow> 64 word \<Rightarrow> unit jobs_act" where
  "request_sleep env header name duration_ms =
     bind (extract_run_id env header) (\<lambda>run_id.
     bind (wakeup_time duration_ms) (\<lambda>wakeup_at.
     bind (new_step_row env run_id name
       (Some (JObject [(''durationMs'', json_int (sint duration_ms))]))) (\<lambda>_.
       jsql env (set_run_sleeping run_id wakeup_at))))"

section \<open>Checkpoints (worker/checkpoint.rs)\<close>

definition get_cached_output :: "jobs_env \<Rightarrow> uuid \<Rightarrow> string \<Rightarrow> json option jobs_act" where
  "get_cached_output env run_id name =
     bind (jsql env (get_step run_id name)) (\<lambda>s.
       ret (case s of Some s \<Rightarrow> if sp_status s = StCompleted then sp_output_json s else None | None \<Rightarrow> None))"

definition start_step :: "jobs_env \<Rightarrow> uuid \<Rightarrow> string \<Rightarrow> json option \<Rightarrow> uuid jobs_act" where
  "start_step env run_id name input = bind (new_step_row env run_id name input) (\<lambda>s. ret (sp_id s))"

definition complete_step :: "jobs_env \<Rightarrow> uuid \<Rightarrow> json \<Rightarrow> unit jobs_act" where
  "complete_step env step_id output = jsql env (update_step_row step_id StCompleted (Some output) None)"

definition fail_step :: "jobs_env \<Rightarrow> uuid \<Rightarrow> string \<Rightarrow> unit jobs_act" where
  "fail_step env step_id error = jsql env (update_step_row step_id StFailed None (Some error))"

section \<open>The executor (worker/executor.rs)\<close>

text \<open>The outputs of completed steps by name; a later step replaces an earlier one of its name.\<close>

definition step_cache :: "step list \<Rightarrow> string \<Rightarrow> json option" where
  "step_cache steps = map_of (rev (List.map_filter (\<lambda>s. map_option (Pair (sp_name s)) (sp_output_json s))
     (filter (\<lambda>s. sp_status s = StCompleted) steps)))"

definition execute_start :: "jobs_env \<Rightarrow> uuid \<Rightarrow> (run \<times> job) option jobs_act" where
  "execute_start env run_id =
     bind (jsql_some env (find_run run_id) (RunNotFound run_id)) (\<lambda>r.
     if ru_status r \<noteq> Pending \<and> ru_status r \<noteq> Sleeping then ret None
     else
     bind (jsql_some env (find_job_by_id (ru_job_id r)) (JobNotFound (ru_job_id r))) (\<lambda>j.
     bind (jsql env (update_run_status run_id Running None None)) (\<lambda>_.
     bind (jsql env (list_steps run_id)) (\<lambda>steps.
     bind (jsql env (list_state run_id)) (\<lambda>entries.
     bind (send
       \<lparr>iv_url = jx_functions_url env @ ''/fn/v1/'' @ jb_function_name j, iv_api_key = jx_functions_api_key env,
        iv_run_id = run_id, iv_job_name = jb_name j, iv_attempt = ru_attempt r, iv_step_cache = step_cache steps,
        iv_run_state = map_of (rev (map (\<lambda>e. (sn_key e, sn_value_json e)) entries)),
        iv_body = ru_payload_json r, iv_timeout_ms = scast (jb_timeout_ms j)\<rparr>) (\<lambda>_.
       ret (Some (r, j))))))))"

datatype answer = SendFailed string | Answer nat string

definition is_success :: "nat \<Rightarrow> bool" where
  "is_success status \<longleftrightarrow> 200 \<le> status \<and> status < 300"

definition execute_finish :: "jobs_env \<Rightarrow> run \<Rightarrow> answer \<Rightarrow> unit jobs_act" where
  "execute_finish env r a =
     (case a of
        SendFailed e \<Rightarrow> lift (Err (JobsInternal (''function invoke failed: '' @ e)))
      | Answer status body \<Rightarrow>
          if is_success status then jsql env (update_run_status (ru_id r) Succeeded None None)
          else if sint (ru_attempt r) < sint (ru_max_attempts r) then jsql env (increment_run_attempt (ru_id r))
          else
            bind (jsql env (update_run_status (ru_id r) Failed (Some ''max_attempts_exceeded'') (Some body))) (\<lambda>_.
            bind (jfresh (jx_uuid env)) (\<lambda>i. jsql env (move_to_dlq i (ru_id r)))))"

section \<open>The worker (worker/pool.rs)\<close>

type_synonym in_flight = "string \<times> run"

definition settle :: "jobs_env \<Rightarrow> string \<Rightarrow> bool \<Rightarrow> unit jobs_act" where
  "settle env receipt ok =
     ignore_error (jcache env (\<lambda>now. if ok then ack receipt now else nack now receipt (Some (seconds 5)) now))"

definition worker_take :: "jobs_env \<Rightarrow> in_flight option jobs_act" where
  "worker_take env =
     bind (jfresh (jx_uuid env)) (\<lambda>prefix.
     bind (attempt (jcache env (dequeue prefix default_queue 1 (jx_visibility_timeout env)))) (\<lambda>items.
       case items of
         Inr e \<Rightarrow> ret None
       | Inl items \<Rightarrow>
           (case items of
              [] \<Rightarrow> ret None
            | item # _ \<Rightarrow>
                (case jx_uuid_of_bytes env (qi_data item) of
                   None \<Rightarrow> bind (settle env (qi_receipt item) True) (\<lambda>_. ret None)
                 | Some run_id \<Rightarrow>
                     bind (attempt (execute_start env run_id)) (\<lambda>started.
                       case started of
                         Inr e \<Rightarrow> bind (settle env (qi_receipt item) False) (\<lambda>_. ret None)
                       | Inl v \<Rightarrow>
                           (case v of
                              None \<Rightarrow> bind (settle env (qi_receipt item) True) (\<lambda>_. ret None)
                            | Some (r, j) \<Rightarrow> ret (Some (qi_receipt item, r))))))))"

definition worker_done :: "jobs_env \<Rightarrow> in_flight \<Rightarrow> answer \<Rightarrow> unit jobs_act" where
  "worker_done env fl a =
     bind (attempt (execute_finish env (snd fl) a)) (\<lambda>v.
       case v of Inl u \<Rightarrow> settle env (fst fl) True | Inr e \<Rightarrow> settle env (fst fl) False)"

text \<open>One round of a worker when nothing else happens meanwhile.\<close>

definition process_next_run :: "jobs_env \<Rightarrow> (run \<Rightarrow> answer) \<Rightarrow> unit jobs_act" where
  "process_next_run env function =
     bind (worker_take env) (\<lambda>v.
       case v of None \<Rightarrow> ret () | Some fl \<Rightarrow> worker_done env fl (function (snd fl)))"

section \<open>Schedulers (scheduler/)\<close>

definition compute_next_trigger :: "jobs_env \<Rightarrow> instant \<Rightarrow> json \<Rightarrow> instant option" where
  "compute_next_trigger env now config =
     Option.bind (Option.bind (json_get config ''schedule'') as_str) (\<lambda>s.
       case jx_cron env s of Ok next_after \<Rightarrow> next_after now | _ \<Rightarrow> None)"

text \<open>The body of a trigger loop: nothing for a job that is gone or at its limit.\<close>

definition fire ::
  "jobs_env \<Rightarrow> trigger \<Rightarrow> trigger_kind \<Rightarrow> json \<Rightarrow> (run \<Rightarrow> unit jobs_act) \<Rightarrow> unit jobs_act" where
  "fire env trigger kind payload after =
     bind (jsql env (find_job_by_id (tg_job_id trigger))) (\<lambda>found.
       case found of
         None \<Rightarrow> ret ()
       | Some j \<Rightarrow>
           bind (jsql env (count_active_runs (jb_id j))) (\<lambda>n_active.
           if at_limit n_active j then ret ()
           else
           bind (new_run_row env
             \<lparr>nr_job_id = jb_id j, nr_org_id = jb_org_id j, nr_trigger_id = Some (tg_id trigger),
              nr_trigger_kind = kind, nr_payload_json = payload, nr_max_attempts = jb_retry_max_attempts j\<rparr>) (\<lambda>r.
           bind (enqueue_run env (jb_org_id j) (ru_id r)) (\<lambda>_. after r))))"

definition poll_cron_triggers :: "jobs_env \<Rightarrow> unit jobs_act" where
  "poll_cron_triggers env =
     bind jclock (\<lambda>now.
     bind (jsql env (list_due_cron_triggers now)) (\<lambda>triggers.
       for_each (\<lambda>trigger. fire env trigger Cron (JObject []) (\<lambda>r.
         jsql env (update_trigger_fired (tg_id trigger) now
           (compute_next_trigger env now (tg_config_json trigger))))) triggers))"

definition nil_uuid :: uuid where
  "nil_uuid = ''00000000-0000-0000-0000-000000000000''"

definition poll_events :: "jobs_env \<Rightarrow> unit jobs_act" where
  "poll_events env =
     bind (jsql env (list_pending_events_for_org nil_uuid 100)) (\<lambda>events.
       for_each (\<lambda>event.
         bind (jsql env (matching_triggers (jx_pg_text env) (en_org_id event) (en_topic event))) (\<lambda>triggers.
           for_each (\<lambda>trigger. fire env trigger Event (en_payload_json event) (\<lambda>r.
             jsql env (consume_event (en_id event) (ru_id r)))) triggers)) events)"

definition poll_sleeping_runs :: "jobs_env \<Rightarrow> unit jobs_act" where
  "poll_sleeping_runs env =
     bind jclock (\<lambda>now.
     bind (jsql env (list_sleeping_runs_due now)) (\<lambda>runs.
       for_each (\<lambda>r.
         bind (jsql env (update_run_status (ru_id r) Pending None None)) (\<lambda>_.
           enqueue_run env (ru_org_id r) (ru_id r))) runs))"

end
