(* ===== verification/Jobs_Steps.thy ===== *)
theory Jobs_Steps
  imports Jobs_Runs
begin

text \<open>
  Runs of the jobs service: calls by clients, functions, schedulers and workers in any order, where a
  worker's round is cut in two at the request it sends, and the rules for reasoning about them.
\<close>

section \<open>Calls\<close>

datatype jobs_call =
    CCreateJob job_ctx create_job_request
  | CDeleteJob job_ctx string
  | CCreateTrigger job_ctx string trigger_kind json
  | CDeleteTrigger job_ctx string uuid
  | CManual job_ctx string json
  | CWebhook string string
  | CCancelRun job_ctx string uuid
  | CRetryRun job_ctx string uuid
  | CRetryDlq job_ctx string uuid
  | CDeleteDlq job_ctx string uuid
  | CCreateStep "string option" string
  | CUpdateStep uuid string "json option" "string option"
  | CSetState "string option" string json
  | CDeleteState "string option" string
  | CEmitEvent "string option" string json
  | CSleep "string option" string "64 word"
  | CPollCron
  | CPollEvents
  | CPollSleeping
  | CTake
  | CDone nat answer
  | CCrash nat
  | CElapse nat

text \<open>The runs the workers wait for, with their receipts.\<close>

type_synonym jobs_state = "jobs_world \<times> in_flight list"

definition drop_at :: "nat \<Rightarrow> 'a list \<Rightarrow> 'a list" where
  "drop_at k xs = take k xs @ drop (Suc k) xs"

fun perform_job :: "jobs_env \<Rightarrow> jobs_call \<Rightarrow> jobs_state \<Rightarrow> jobs_state" where
  "perform_job env (CCreateJob ctx req) (w, fl) = (snd (create_job env ctx req w), fl)"
| "perform_job env (CDeleteJob ctx name) (w, fl) = (snd (delete_job env ctx name w), fl)"
| "perform_job env (CCreateTrigger ctx name kind config) (w, fl) = (snd (create_trigger env ctx name kind config w), fl)"
| "perform_job env (CDeleteTrigger ctx name i) (w, fl) = (snd (delete_trigger env ctx name i w), fl)"
| "perform_job env (CManual ctx name payload) (w, fl) = (snd (manual_trigger env ctx name payload w), fl)"
| "perform_job env (CWebhook token body) (w, fl) = (snd (webhook_trigger env token body w), fl)"
| "perform_job env (CCancelRun ctx name i) (w, fl) = (snd (cancel_run env ctx name i w), fl)"
| "perform_job env (CRetryRun ctx name i) (w, fl) = (snd (retry_run env ctx name i w), fl)"
| "perform_job env (CRetryDlq ctx name i) (w, fl) = (snd (retry_dlq env ctx name i w), fl)"
| "perform_job env (CDeleteDlq ctx name i) (w, fl) = (snd (delete_dlq env ctx name i w), fl)"
| "perform_job env (CCreateStep header name) (w, fl) = (snd (create_step env header name w), fl)"
| "perform_job env (CUpdateStep i status output error) (w, fl) = (snd (update_step env i status output error w), fl)"
| "perform_job env (CSetState header key v) (w, fl) = (snd (set_run_state env header key v w), fl)"
| "perform_job env (CDeleteState header key) (w, fl) = (snd (delete_state env header key w), fl)"
| "perform_job env (CEmitEvent header topic payload) (w, fl) = (snd (emit_event env header topic payload w), fl)"
| "perform_job env (CSleep header name ms) (w, fl) = (snd (request_sleep env header name ms w), fl)"
| "perform_job env CPollCron (w, fl) = (snd (poll_cron_triggers env w), fl)"
| "perform_job env CPollEvents (w, fl) = (snd (poll_events env w), fl)"
| "perform_job env CPollSleeping (w, fl) = (snd (poll_sleeping_runs env w), fl)"
| "perform_job env CTake (w, fl) =
     (case worker_take env w of (r, w') \<Rightarrow> (w', case r of Ok (Some f) \<Rightarrow> fl @ [f] | _ \<Rightarrow> fl))"
| "perform_job env (CDone k a) (w, fl) =
     (if k < length fl then (snd (worker_done env (fl ! k) a w), drop_at k fl) else (w, fl))"
| "perform_job env (CCrash k) (w, fl) = (w, drop_at k fl)"
| "perform_job env (CElapse n) (w, fl) = (w\<lparr>jw_now := jw_now w + int n\<rparr>, fl)"

definition perform_jobs :: "jobs_env \<Rightarrow> jobs_call list \<Rightarrow> jobs_state \<Rightarrow> jobs_state" where
  "perform_jobs env calls s = foldl (\<lambda>s c. perform_job env c s) s calls"

section \<open>Effects\<close>

text \<open>Two worlds that differ at most in the supply of random values and the statement count.\<close>

definition same_stores :: "jobs_world \<Rightarrow> jobs_world \<Rightarrow> bool" where
  "same_stores w w' \<longleftrightarrow> jw_db w' = jw_db w \<and> jw_cache w' = jw_cache w \<and> jw_now w' = jw_now w \<and> jw_sent w' = jw_sent w"

lemma same_stores_refl [simp]: "same_stores w w"
  by (simp add: same_stores_def)

lemma wp_read:
  assumes "\<And>w'. same_stores w w' \<Longrightarrow> Q (f (jw_db w)) w'" and "\<And>w'. same_stores w w' \<Longrightarrow> E w'"
  shows "wp (jsql env (rows f)) Q E w"
  using assms by (simp add: wp_def jsql_def rows_def Let_def same_stores_def)

lemma wp_jsql:
  assumes "\<And>w' a db'. st (jw_now w) (jw_db w) = (Ok a, db') \<Longrightarrow> same_stores (w\<lparr>jw_db := db'\<rparr>) w' \<Longrightarrow> Q a w'"
    and "\<And>w' r db'. st (jw_now w) (jw_db w) = (r, db') \<Longrightarrow> \<forall>a. r \<noteq> Ok a \<Longrightarrow> same_stores (w\<lparr>jw_db := db'\<rparr>) w' \<Longrightarrow> E w'"
    and "\<And>w'. same_stores w w' \<Longrightarrow> E w'"
  shows "wp (jsql env st) Q E w"
  using assms by (auto simp: wp_def jsql_def Let_def same_stores_def split: prod.splits result.splits)

lemma wp_jcache:
  assumes "\<And>w' a c'. st (jw_now w) (jw_cache w) = (Ok a, c') \<Longrightarrow> same_stores (w\<lparr>jw_cache := c'\<rparr>) w' \<Longrightarrow> Q a w'"
    and "\<And>w' r c'. st (jw_now w) (jw_cache w) = (r, c') \<Longrightarrow> \<forall>a. r \<noteq> Ok a \<Longrightarrow> same_stores (w\<lparr>jw_cache := c'\<rparr>) w' \<Longrightarrow> E w'"
    and "\<And>w'. same_stores w w' \<Longrightarrow> E w'"
  shows "wp (jcache env st) Q E w"
proof -
  obtain r c' where "st (jw_now w) (jw_cache w) = (r, c')" by fastforce
  then show ?thesis
    using assms by (cases r) (auto simp: wp_def jcache_def Let_def same_stores_def)
qed

lemma wp_jfresh: "(\<And>w'. same_stores w w' \<Longrightarrow> Q (f (jw_fresh w)) w') \<Longrightarrow> wp (jfresh f) Q E w"
  by (simp add: wp_def jfresh_def same_stores_def)

lemma wp_jclock: "wp jclock Q E w = Q (jw_now w) w"
  by (simp add: wp_def jclock_def)

lemma wp_permitted: "wp (permitted ctx p) Q E w \<longleftrightarrow>
   (if \<not> job_has_permission ctx p \<and> \<not> job_has_permission ctx ''*'' then E w else Q () w)"
  by (auto simp: permitted_def wp_lift)

section \<open>Invariants of a call\<close>

text \<open>The contract of an invariant with the effects of handlers: it looks at the stores, not at the counters.\<close>

locale stores_invariant =
  fixes I :: "jobs_world \<Rightarrow> bool"
  assumes same: "same_stores w w' \<Longrightarrow> I w \<Longrightarrow> I w'"
begin

lemma inv_effects: "inv I (jfresh f) (\<lambda>_. True)" "inv I jclock (\<lambda>_. True)"
  by (auto simp: inv_def wp_jclock intro!: wp_jfresh dest: same)

lemma inv_rows: "(\<And>w. I w \<Longrightarrow> Q (f (jw_db w))) \<Longrightarrow> inv I (jsql env (rows f)) Q"
  unfolding inv_def by (auto intro!: wp_read dest: same)

lemma inv_jsql:
  assumes "\<And>w r db'. I w \<Longrightarrow> st (jw_now w) (jw_db w) = (r, db') \<Longrightarrow> I (w\<lparr>jw_db := db'\<rparr>) \<and> (\<forall>a. r = Ok a \<longrightarrow> Q a)"
  shows "inv I (jsql env st) Q"
  unfolding inv_def by (intro allI impI wp_jsql) (use assms same in blast)+

lemma inv_jcache:
  assumes "\<And>w r c'. I w \<Longrightarrow> st (jw_now w) (jw_cache w) = (r, c') \<Longrightarrow> I (w\<lparr>jw_cache := c'\<rparr>) \<and> (\<forall>a. r = Ok a \<longrightarrow> Q a)"
  shows "inv I (jcache env st) Q"
  unfolding inv_def by (intro allI impI wp_jcache) (use assms same in blast)+

lemma inv_some: "inv I (jsql env st) (\<lambda>v. \<forall>x. v = Some x \<longrightarrow> Q x) \<Longrightarrow> inv I (jsql_some env st e) Q"
  unfolding jsql_some_def by (erule inv_bind) (auto intro!: inv_lift)

lemma inv_permitted: "inv I (permitted ctx p) (\<lambda>_. True)"
  unfolding permitted_def by (intro inv_lift TrueI)

lemma inv_limited: "inv I (jsql env (limited n f)) (\<lambda>_. True)"
proof (rule inv_jsql)
  fix w r db' assume i: "I w" and l: "limited n f (jw_now w) (jw_db w) = (r, db')"
  have "db' = jw_db w" using l by (auto simp: limited_def Let_def split: if_splits)
  then show "I (w\<lparr>jw_db := db'\<rparr>) \<and> (\<forall>a. r = Ok a \<longrightarrow> True)" using i same by (simp add: same_stores_def)
qed

lemmas inv_plain_rows = inv_rows [where Q = "\<lambda>_. True", OF TrueI]

lemma inv_reads:
  "inv I (jsql env (get_triggers i)) (\<lambda>_. True)" "inv I (jsql env (get_trigger i)) (\<lambda>_. True)"
  "inv I (jsql env (get_trigger_by_webhook_token s)) (\<lambda>_. True)"
  "inv I (jsql env (list_due_cron_triggers t)) (\<lambda>_. True)" "inv I (jsql env (find_run i)) (\<lambda>_. True)"
  "inv I (jsql env (count_active_runs i)) (\<lambda>_. True)" "inv I (jsql env (get_step i n)) (\<lambda>_. True)"
  "inv I (jsql env (list_steps i)) (\<lambda>_. True)" "inv I (jsql env (list_state i)) (\<lambda>_. True)"
  "inv I (jsql env (matching_triggers pg i s)) (\<lambda>_. True)"
  by (simp_all add: get_triggers_def get_trigger_def get_trigger_by_webhook_token_def list_due_cron_triggers_def
      find_run_def count_active_runs_def get_step_def list_steps_def list_state_def matching_triggers_def inv_plain_rows)

end

text \<open>
  A small jobs service to evaluate the definitions on: encryption adds a letter, encodings are the identity, the n-th
  identifier is a run of letters, nothing fails, and an organization \<open>g\<close> has one job that may have two
  runs at a time, with a trigger of every kind, while an organization \<open>h\<close> has a dead letter.
\<close>

definition sample_jobs_env :: jobs_env where
  "sample_jobs_env =
     \<lparr>jx_fails = (\<lambda>_. False), jx_uuid = (\<lambda>n. replicate (Suc n) CHR ''u''), jx_nonce = (\<lambda>n. replicate 12 CHR ''n''),
      jx_sha256 = (\<lambda>s. s), jx_encrypt = (\<lambda>k n p. Some (CHR ''t'' # p)),
      jx_decrypt = (\<lambda>k n c. if c = [] then None else Some (tl c)), jx_base64 = (\<lambda>s. s),
      jx_unbase64 = Some, jx_uuid_bytes = (\<lambda>s. s), jx_uuid_of_bytes = Some, jx_parse_uuid = Some,
      jx_cron = (\<lambda>s. Ok (\<lambda>t. Some (t + 60000000))), jx_pg_text = (\<lambda>_. ''''), jx_parse_json = (\<lambda>_. None),
      jx_lossy = (\<lambda>s. s), jx_resolve = (\<lambda>_ _. None), jx_webhook_secret = ''secret'', jx_max_payload_bytes = 100,
      jx_functions_url = ''http://fn'', jx_functions_api_key = ''key'', jx_visibility_timeout = 30000000\<rparr>"

definition sample_ctx :: "uuid \<Rightarrow> job_ctx" where
  "sample_ctx org_id =
     \<lparr>jc_auth = \<lparr>ax_claims = \<lparr>cl_sub = ''user_ann'', cl_iss = '''', cl_aud = '''', cl_exp = 0, cl_iat = 0, cl_nbf = None,
        cl_email = None, cl_amr = [], cl_orgs = [], cl_default_org = None, cl_session_id = None, cl_scopes = [],
        cl_mfa_at = None\<rparr>, ax_active_org = Some org_id, ax_permissions = [''*'']\<rparr>,
      jc_request_id = ''r'', jc_org_id = org_id\<rparr>"

definition sample_job :: "uuid \<Rightarrow> uuid \<Rightarrow> job" where
  "sample_job i org_id =
     \<lparr>jb_id = i, jb_org_id = org_id, jb_name = ''mail'', jb_function_name = ''mail-fn'', jb_description = None,
      jb_retry_max_attempts = 3, jb_retry_backoff = Exponential, jb_retry_initial_delay_ms = 1000,
      jb_retry_max_delay_ms = 60000, jb_max_concurrency = 2, jb_timeout_ms = 600000, jb_created_at = 0,
      jb_updated_at = 0\<rparr>"

definition sample_trigger :: "uuid \<Rightarrow> trigger_kind \<Rightarrow> json \<Rightarrow> trigger" where
  "sample_trigger i kind config =
     \<lparr>tg_id = i, tg_job_id = ''j'', tg_kind = kind, tg_config_json = config, tg_webhook_token = None,
      tg_enabled = True, tg_last_triggered_at = None, tg_next_trigger_at = (if kind = Cron then Some 5 else None),
      tg_created_at = 0\<rparr>"

definition sample_run :: "uuid \<Rightarrow> uuid \<Rightarrow> uuid \<Rightarrow> run_status \<Rightarrow> run" where
  "sample_run i job_id org_id status =
     \<lparr>ru_id = i, ru_job_id = job_id, ru_org_id = org_id, ru_trigger_id = None, ru_trigger_kind = Manual,
      ru_status = status, ru_payload_json = JNull, ru_attempt = 1, ru_max_attempts = 3, ru_started_at = None,
      ru_finished_at = None, ru_wakeup_at = None, ru_error_code = None, ru_error_message = None, ru_created_at = 0\<rparr>"

definition sample_jobs_db :: jobs_db where
  "sample_jobs_db =
     \<lparr>j_jobs = [sample_job ''j'' ''g'', sample_job ''k'' ''h''],
      j_triggers = [sample_trigger ''t1'' Cron (JObject [(''schedule'', JString ''0 * * * * *'')]),
                    sample_trigger ''t2'' Event (JObject [(''topic'', JString ''user.new'')])],
      j_runs = [sample_run ''r'' ''j'' ''g'' Pending],
      j_steps = [\<lparr>sp_id = ''s'', sp_run_id = ''r'', sp_name = ''charge'', sp_status = StRunning, sp_input_json = None,
        sp_output_json = None, sp_attempt = 1, sp_started_at = Some 3, sp_finished_at = None,
        sp_error_message = None\<rparr>],
      j_state = [], j_events = [],
      j_dlq = [\<lparr>dl_id = ''d'', dl_run_id = ''old'', dl_job_id = ''k'', dl_org_id = ''h'', dl_payload_json = JNull,
        dl_error_code = None, dl_error_message = None, dl_attempt = 3, dl_created_at = 0\<rparr>],
      j_audit = []\<rparr>"

definition sample_jobs_world :: jobs_world where
  "sample_jobs_world =
     \<lparr>jw_db = sample_jobs_db, jw_cache = \<lparr>c_queue = [], c_kv = []\<rparr>, jw_now = 10, jw_fresh = 0, jw_statements = 0,
      jw_sent = []\<rparr>"

end
