(* ===== verification/Jobs_Kept.thy ===== *)
theory Jobs_Kept
  imports Jobs_Steps
begin

text \<open>
  What every call of the jobs service keeps: the contract between the statements and the calls made of
  them. A client of the contract chooses which organizations and runs may be enqueued (\<open>org_ok\<close>,
  \<open>run_ok\<close>), what the statements then have to say of what they read, and which calls may be left out.
\<close>

locale kept_by_statements = stores_invariant I for I :: "jobs_world \<Rightarrow> bool" +
  fixes env :: jobs_env
    and org_ok run_ok may_sleep may_update :: "uuid \<Rightarrow> bool"
    and may_delete :: bool
  assumes time: "I w \<Longrightarrow> I (w\<lparr>jw_now := t\<rparr>)"
    and enqueue: "org_ok o' \<Longrightarrow> run_ok r \<Longrightarrow>
      inv I (jcache env (\<lambda>now. enqueue now i (org_queue o') (jx_uuid_bytes env r) None now)) (\<lambda>_. True)"
    and settle: "inv I (settle env receipt ok) (\<lambda>_. True)"
    and take: "inv I (worker_take env) (\<lambda>_. True)"
    and find_job: "inv I (jsql env (find_job o' n)) (\<lambda>v. \<forall>j. v = Some j \<longrightarrow> org_ok (jb_org_id j))"
    and find_job_by_id: "inv I (jsql env (find_job_by_id i)) (\<lambda>v. \<forall>j. v = Some j \<longrightarrow> org_ok (jb_org_id j))"
    and sleeping: "inv I (jsql env (list_sleeping_runs_due t)) (\<lambda>rs. \<forall>r \<in> set rs. org_ok (ru_org_id r) \<and> run_ok (ru_id r))"
    and create_job: "org_ok (nj_org_id nj) \<Longrightarrow> inv I (jsql env (create_job_row i nj)) (\<lambda>_. True)"
    and delete_job: "may_delete \<Longrightarrow> inv I (jsql env (delete_job_row i)) (\<lambda>_. True)"
    and create_trigger: "inv I (jsql env (create_trigger_row i nt)) (\<lambda>_. True)"
    and delete_trigger: "inv I (jsql env (delete_trigger_row i)) (\<lambda>_. True)"
    and trigger_fired: "inv I (jsql env (update_trigger_fired i t next_at)) (\<lambda>_. True)"
    and new_id: "run_ok (jx_uuid env u)"
    and create_run: "org_ok (nr_org_id nr) \<Longrightarrow> run_ok i \<Longrightarrow>
      inv I (jsql env (create_run i nr)) (\<lambda>x. org_ok (ru_org_id x) \<and> run_ok (ru_id x))"
    and insert_from_dlq: "run_ok i \<Longrightarrow> inv I (jsql env (insert_from_dlq i d)) (\<lambda>_. True)"
    and update_run_status: "st \<noteq> Sleeping \<Longrightarrow> inv I (jsql env (update_run_status i st c m)) (\<lambda>_. True)"
    and set_run_sleeping: "may_sleep i \<Longrightarrow> inv I (jsql env (set_run_sleeping i t)) (\<lambda>_. True)"
    and increment_run_attempt: "inv I (jsql env (increment_run_attempt i)) (\<lambda>_. True)"
    and move_to_dlq: "inv I (jsql env (move_to_dlq i r)) (\<lambda>_. True)"
    and delete_dlq: "inv I (jsql env (delete_dlq_row d)) (\<lambda>_. True)"
    and create_step: "inv I (jsql env (create_step_row i ns)) (\<lambda>_. True)"
    and update_step: "may_update i \<Longrightarrow> inv I (jsql env (update_step_row i s out e)) (\<lambda>_. True)"
    and set_state: "inv I (jsql env (set_state_row i k v)) (\<lambda>_. True)"
    and delete_state: "inv I (jsql env (delete_state_row i k)) (\<lambda>_. True)"
    and emit_event: "inv I (jsql env (emit_event_row i nv)) (\<lambda>_. True)"
    and consume_event: "inv I (jsql env (consume_event i r)) (\<lambda>_. True)"
    and audit: "inv I (jsql env (write_jobs_audit_event i a)) (\<lambda>_. True)"
begin

lemmas statements = settle find_job find_job_by_id sleeping create_job create_trigger delete_trigger trigger_fired
  create_run insert_from_dlq update_run_status increment_run_attempt move_to_dlq delete_dlq create_step
  set_state delete_state emit_event consume_event audit inv_effects inv_permitted inv_reads inv_limited enqueue

lemma somes:
  "inv I (jsql_some env (find_job o' n) e) (\<lambda>j. org_ok (jb_org_id j))"
  "inv I (jsql_some env (find_job_by_id i) e) (\<lambda>j. org_ok (jb_org_id j))"
  "inv I (jsql_some env (find_run i) e) (\<lambda>_. True)" "inv I (jsql_some env (get_trigger i) e) (\<lambda>_. True)"
  "inv I (jsql_some env (get_trigger_by_webhook_token s) e) (\<lambda>_. True)"
  by (simp_all add: inv_some find_job find_job_by_id inv_reads)

text \<open>The values of the supply.\<close>

lemma uuids: "inv I (jfresh (jx_uuid env)) run_ok"
  unfolding inv_def by (auto intro!: wp_jfresh dest: same simp: new_id)

lemmas known = uuids statements somes

lemma ignored: "inv I m Q \<Longrightarrow> inv I (ignore_error m) (\<lambda>_. True)"
  by (rule inv_ignore)

lemmas ends = inv_ret inv_lift inv_if inv_option inv_list inv_sum inv_prod inv_for_each TrueI
lemmas plain = inv_bind_lift known [THEN inv_bind] known [THEN inv_True] ends

lemma part_audit: "inv I (ignore_error (record_audit_event env ctx ty j r d)) (\<lambda>_. True)"
  unfolding record_audit_event_def by (intro ignored [where Q = "\<lambda>_. True"] plain)

lemma part_job_of: "inv I (job_of env ctx name) (\<lambda>j. org_ok (jb_org_id j))"
  unfolding job_of_def by (intro somes)

lemma part_run_of: "inv I (run_of env j i) (\<lambda>_. True)"
  unfolding run_of_def by (intro plain)

lemma part_new_run: "org_ok (nr_org_id nr) \<Longrightarrow> inv I (new_run_row env nr) (\<lambda>x. org_ok (ru_org_id x) \<and> run_ok (ru_id x))"
  unfolding new_run_row_def by (intro uuids [THEN inv_bind] create_run)

lemma part_enqueue: "org_ok o' \<Longrightarrow> run_ok i \<Longrightarrow> inv I (enqueue_run env o' i) (\<lambda>_. True)"
  unfolding enqueue_run_def by (intro plain)

lemma part_new_step: "inv I (new_step_row env i n v) (\<lambda>_. True)"
  unfolding new_step_row_def by (intro plain)

lemma part_token: "inv I (generate_webhook_token env i) (\<lambda>_. True)"
  unfolding generate_webhook_token_def by (intro inv_effects [THEN inv_bind] plain)

lemma part_retry: "inv I (retry_from_dlq env d) run_ok"
  unfolding retry_from_dlq_def
  by (rule uuids [THEN inv_bind], intro insert_from_dlq [THEN inv_bind] delete_dlq [THEN inv_bind] inv_ret)

lemma part_run_id: "inv I (extract_run_id env header) (\<lambda>i. Option.bind header (jx_parse_uuid env) = Some i)"
  unfolding extract_run_id_def by (rule inv_lift) simp

lemma part_wakeup: "inv I (wakeup_time ms) (\<lambda>_. True)"
  unfolding wakeup_time_def Let_def by (intro plain)

lemmas parts = part_audit part_job_of part_run_of part_new_run part_enqueue part_new_step part_token part_retry
  part_run_id part_wakeup
lemmas calls = parts [THEN inv_bind] parts [THEN inv_True] plain

lemma part_settings: "inv I (trigger_settings env j kind config) (\<lambda>_. True)"
  unfolding trigger_settings_def by (cases kind) (simp_all only: trigger_kind.case, (intro calls)+)

lemma keep_admin:
  "org_ok (jc_org_id ctx) \<Longrightarrow> inv I (Jobs_Service.create_job env ctx req) (\<lambda>_. True)"
  "may_delete \<Longrightarrow> inv I (Jobs_Service.delete_job env ctx name) (\<lambda>_. True)"
  "inv I (Jobs_Service.create_trigger env ctx name kind config) (\<lambda>_. True)"
  "inv I (Jobs_Service.delete_trigger env ctx name i) (\<lambda>_. True)"
  unfolding create_job_def delete_job_def create_trigger_def delete_trigger_def
  by (intro calls part_settings [THEN inv_bind] delete_job [THEN inv_bind]; simp)+

lemma keep_runs:
  "org_ok (jc_org_id ctx) \<Longrightarrow> inv I (manual_trigger env ctx name p) (\<lambda>_. True)"
  "inv I (webhook_trigger env token body) (\<lambda>_. True)"
  "inv I (cancel_run env ctx name i) (\<lambda>_. True)"
  "org_ok (jc_org_id ctx) \<Longrightarrow> inv I (retry_run env ctx name i) (\<lambda>_. True)"
  "org_ok (jc_org_id ctx) \<Longrightarrow> inv I (retry_dlq env ctx name i) (\<lambda>_. True)"
  "inv I (Jobs_Runs.delete_dlq env ctx name i) (\<lambda>_. True)"
  unfolding manual_trigger_def webhook_trigger_def cancel_run_def retry_run_def retry_dlq_def delete_dlq_def
  by (intro calls; simp)+

lemma keep_internal:
  "inv I (Jobs_Runs.create_step env header name) (\<lambda>_. True)"
  "may_update i \<Longrightarrow> inv I (Jobs_Runs.update_step env i st out e) (\<lambda>_. True)"
  "inv I (set_run_state env header key v) (\<lambda>_. True)" "inv I (Jobs_Runs.delete_state env header key) (\<lambda>_. True)"
  "inv I (Jobs_Runs.emit_event env header topic p) (\<lambda>_. True)"
  "(\<And>q. Option.bind header (jx_parse_uuid env) = Some q \<Longrightarrow> may_sleep q) \<Longrightarrow>
     inv I (request_sleep env header name ms) (\<lambda>_. True)"
  unfolding create_step_def update_step_def set_run_state_def delete_state_def emit_event_def request_sleep_def
  by (intro calls update_step set_run_sleeping; simp)+

lemma keep_fire:
  "(\<And>r. inv I (after r) (\<lambda>_. True)) \<Longrightarrow> inv I (fire env trigger kind p after) (\<lambda>_. True)"
  unfolding fire_def by (intro calls; simp)

lemma keep_polls:
  "inv I (poll_cron_triggers env) (\<lambda>_. True)" "inv I (poll_events env) (\<lambda>_. True)"
  "inv I (poll_sleeping_runs env) (\<lambda>_. True)"
  unfolding poll_cron_triggers_def poll_events_def poll_sleeping_runs_def list_pending_events_for_org_def
  by (intro calls keep_fire; simp)+

lemma keep_done: "inv I (worker_done env fl a) (\<lambda>_. True)"
proof -
  have "inv I (execute_finish env r a) (\<lambda>_. True)" for r
    unfolding execute_finish_def by (cases a) (simp_all only: answer.case, (intro calls; simp)+)
  then show ?thesis
    unfolding worker_done_def by (intro inv_bind [OF inv_attempt] calls)
qed

end

text \<open>The calls the contract is for.\<close>

fun allowed :: "jobs_env \<Rightarrow> (uuid \<Rightarrow> bool) \<Rightarrow> (uuid \<Rightarrow> bool) \<Rightarrow> (uuid \<Rightarrow> bool) \<Rightarrow> bool \<Rightarrow> jobs_call \<Rightarrow> bool" where
  "allowed env org_ok may_sleep may_update may_delete (CCreateJob ctx _) \<longleftrightarrow> org_ok (jc_org_id ctx)"
| "allowed env org_ok may_sleep may_update may_delete (CManual ctx _ _) \<longleftrightarrow> org_ok (jc_org_id ctx)"
| "allowed env org_ok may_sleep may_update may_delete (CRetryRun ctx _ _) \<longleftrightarrow> org_ok (jc_org_id ctx)"
| "allowed env org_ok may_sleep may_update may_delete (CRetryDlq ctx _ _) \<longleftrightarrow> org_ok (jc_org_id ctx)"
| "allowed env org_ok may_sleep may_update may_delete (CSleep header _ _) \<longleftrightarrow>
     (case Option.bind header (jx_parse_uuid env) of Some i \<Rightarrow> may_sleep i | None \<Rightarrow> True)"
| "allowed env org_ok may_sleep may_update may_delete (CUpdateStep i _ _ _) \<longleftrightarrow> may_update i"
| "allowed env org_ok may_sleep may_update may_delete (CDeleteJob _ _) \<longleftrightarrow> may_delete"
| "allowed env org_ok may_sleep may_update may_delete _ \<longleftrightarrow> True"

context kept_by_statements
begin

lemma keep_call:
  assumes "allowed env org_ok may_sleep may_update may_delete c" "I (fst s)"
  shows "I (fst (perform_job env c s))"
proof (cases s)
  case (Pair w fl)
  then have i: "I w" using assms(2) by simp
  show ?thesis
  proof (cases c)
    case (CSleep header name ms)
    have "may_sleep q" if "Option.bind header (jx_parse_uuid env) = Some q" for q
      using assms(1) CSleep that by simp
    then show ?thesis using Pair CSleep inv_at [OF keep_internal(6) i] by simp
  next
    case CTake
    then show ?thesis using Pair inv_at [OF take i] by (simp add: case_prod_beta)
  next
    case (CDone k a)
    then show ?thesis using Pair i inv_at [OF keep_done i] by simp
  next
    case (CElapse n)
    then show ?thesis using Pair time [OF i] by simp
  qed (use assms(1) Pair i in \<open>auto intro: inv_at [OF keep_admin(1)] inv_at [OF keep_admin(2)] inv_at [OF keep_admin(3)]
      inv_at [OF keep_admin(4)] inv_at [OF keep_runs(1)] inv_at [OF keep_runs(2)] inv_at [OF keep_runs(3)]
      inv_at [OF keep_runs(4)] inv_at [OF keep_runs(5)] inv_at [OF keep_runs(6)] inv_at [OF keep_internal(1)]
      inv_at [OF keep_internal(2)] inv_at [OF keep_internal(3)] inv_at [OF keep_internal(4)]
      inv_at [OF keep_internal(5)] inv_at [OF keep_polls(1)] inv_at [OF keep_polls(2)]
      inv_at [OF keep_polls(3)]\<close>)
qed

lemma keep_calls:
  "\<forall>c \<in> set calls. allowed env org_ok may_sleep may_update may_delete c \<Longrightarrow> I (fst s) \<Longrightarrow>
     I (fst (perform_jobs env calls s))"
  by (induction calls arbitrary: s) (simp_all add: perform_jobs_def keep_call)

end

end
