(* ===== verification/Jobs_Lost.thy ===== *)
theory Jobs_Lost
  imports Jobs_Kept
begin

text \<open>
  Failed attempts: the executor sets a run whose attempt failed back to \<open>pending\<close> and the worker
  acknowledges its queue item, so that nothing is left to try the run again.
\<close>

section \<open>A run that no queue holds\<close>

text \<open>UUIDs: their bytes determine them, and the supply does not yield the id again.\<close>

definition uuid_laws :: "jobs_env \<Rightarrow> uuid \<Rightarrow> bool" where
  "uuid_laws env r \<longleftrightarrow> (\<forall>i. jx_uuid_bytes env i = jx_uuid_bytes env r \<longrightarrow> i = r) \<and>
     (\<forall>b. jx_uuid_of_bytes env b = Some r \<longrightarrow> b = jx_uuid_bytes env r) \<and> (\<forall>n. jx_uuid env n \<noteq> r)"

definition lost :: "jobs_env \<Rightarrow> uuid \<Rightarrow> nat \<Rightarrow> jobs_world \<Rightarrow> bool" where
  "lost env r k w \<longleftrightarrow> uuid_laws env r \<and>
     (\<forall>x \<in> set (c_queue (jw_cache w)). qr_data x \<noteq> jx_uuid_bytes env r) \<and>
     (\<forall>x \<in> set (j_runs (jw_db w)). ru_id x = r \<longrightarrow> ru_status x \<noteq> Sleeping) \<and>
     k \<le> length (jw_sent w) \<and> (\<forall>x \<in> set (drop k (jw_sent w)). iv_run_id x \<noteq> r)"

definition awake :: "uuid \<Rightarrow> jobs_db \<Rightarrow> bool" where
  "awake r db \<longleftrightarrow> (\<forall>x \<in> set (j_runs db). ru_id x = r \<longrightarrow> ru_status x \<noteq> Sleeping)"

text \<open>The ids that may be enqueued: any other one.\<close>

definition other_than :: "jobs_env \<Rightarrow> uuid \<Rightarrow> uuid \<Rightarrow> bool" where
  "other_than env r i \<longleftrightarrow> (uuid_laws env r \<longrightarrow> i \<noteq> r)"

interpretation lost: stores_invariant "lost env r k" for env r k
  by unfold_locales (simp add: lost_def same_stores_def)

lemma lost_split: "lost env r k w \<longleftrightarrow> uuid_laws env r \<and> awake r (jw_db w) \<and>
    (\<forall>x \<in> set (c_queue (jw_cache w)). qr_data x \<noteq> jx_uuid_bytes env r) \<and>
    k \<le> length (jw_sent w) \<and> (\<forall>x \<in> set (drop k (jw_sent w)). iv_run_id x \<noteq> r)"
  by (auto simp: lost_def awake_def)

lemma lost_jsql:
  assumes "\<And>t db x db'. awake r db \<Longrightarrow> st t db = (x, db') \<Longrightarrow> awake r db' \<and> (\<forall>a. x = Ok a \<longrightarrow> Q a)"
  shows "inv (lost env r k) (jsql env st) Q"
  by (rule lost.inv_jsql) (use assms in \<open>auto simp: lost_split\<close>)

lemma lost_same_runs:
  assumes "\<And>t db x db'. st t db = (x, db') \<Longrightarrow> j_runs db' = j_runs db"
  shows "inv (lost env r k) (jsql env st) (\<lambda>_. True)"
  by (rule lost_jsql) (use assms in \<open>auto simp: awake_def\<close>)

lemma awake_update:
  "awake r db \<Longrightarrow> (\<And>x. ru_id (f x) = ru_id x) \<Longrightarrow> (\<And>x. i \<noteq> r \<or> ru_status (f x) \<noteq> Sleeping) \<Longrightarrow>
     awake r (db\<lparr>j_runs := update_rows (\<lambda>x. ru_id x = i) f (j_runs db)\<rparr>)"
  unfolding awake_def jobs_db.select_convs jobs_db.simps
  by (intro ballI, rule all_update_rows [of "j_runs db"]) auto

lemma lost_runs:
  "inv (lost env r k) (jsql env (create_run i nr)) (\<lambda>x. ru_id x = i)"
  "inv (lost env r k) (jsql env (insert_from_dlq i d)) (\<lambda>_. True)"
  "st \<noteq> Sleeping \<Longrightarrow> inv (lost env r k) (jsql env (update_run_status i st c m)) (\<lambda>_. True)"
  "i \<noteq> r \<Longrightarrow> inv (lost env r k) (jsql env (set_run_sleeping i t)) (\<lambda>_. True)"
  "inv (lost env r k) (jsql env (increment_run_attempt i)) (\<lambda>_. True)"
  "inv (lost env r k) (jsql env (delete_job_row i)) (\<lambda>_. True)"
  "inv (lost env r k) (jsql env (delete_trigger_row i)) (\<lambda>_. True)"
  subgoal by (rule lost_jsql) (auto simp: create_run_def insert_run_def fresh_run_def awake_def split: if_splits)
  subgoal by (rule lost_jsql) (auto simp: insert_from_dlq_def create_run_def insert_run_def fresh_run_def awake_def
      split: option.splits if_splits prod.splits)
  subgoal by (rule lost_jsql) (auto simp: update_run_status_def set_status_def intro!: awake_update)
  subgoal by (rule lost_jsql) (auto simp: set_run_sleeping_def intro!: awake_update)
  subgoal by (rule lost_jsql) (auto simp: increment_run_attempt_def intro!: awake_update split: if_splits)
  subgoal by (rule lost_jsql) (auto simp: delete_job_row_def drop_jobs_def Let_def drop_triggers_def drop_runs_def awake_def)
  subgoal by (rule lost_jsql) (auto simp: delete_trigger_row_def drop_triggers_def awake_def)
  done

lemma lost_sleeping:
  "inv (lost env r k) (jsql env (list_sleeping_runs_due t)) (\<lambda>rs. \<forall>x \<in> set rs. True \<and> other_than env r (ru_id x))"
  unfolding list_sleeping_runs_due_def by (rule lost.inv_rows) (auto simp: lost_def other_than_def)

section \<open>The queue\<close>

lemma lost_jcache:
  assumes "\<And>t c x c'. \<forall>y \<in> set (c_queue c). qr_data y \<noteq> jx_uuid_bytes env r \<Longrightarrow> uuid_laws env r \<Longrightarrow> st t c = (x, c') \<Longrightarrow>
      (\<forall>y \<in> set (c_queue c'). qr_data y \<noteq> jx_uuid_bytes env r) \<and> (\<forall>a. x = Ok a \<longrightarrow> Q a)"
  shows "inv (lost env r k) (jcache env st) Q"
  by (rule lost.inv_jcache) (use assms in \<open>auto simp: lost_split\<close>)

lemma lost_enqueue:
  "other_than env r i \<Longrightarrow> inv (lost env r k) (jcache env (\<lambda>now. enqueue now q s (jx_uuid_bytes env i) None now)) (\<lambda>_. True)"
  by (rule lost_jcache) (auto simp: enqueue_def other_than_def uuid_laws_def split: if_splits)

lemma lost_settle: "inv (lost env r k) (settle env receipt ok) (\<lambda>_. True)"
  unfolding settle_def
  by (rule inv_ignore [of _ _ "\<lambda>_. True"], rule lost_jcache)
    (auto simp: ack_def nack_def set_update_rows split: if_splits option.splits result.splits)

lemma lost_dequeue:
  "inv (lost env r k) (jcache env (dequeue prefix q n t)) (\<lambda>items. \<forall>x \<in> set items. qi_data x \<noteq> jx_uuid_bytes env r)"
proof (rule lost_jcache)
  fix now c x c'
  assume other: "\<forall>y \<in> set (c_queue c). qr_data y \<noteq> jx_uuid_bytes env r" and d: "dequeue prefix q n t now c = (x, c')"
  have "\<forall>y \<in> set (take n (ready_rows q now (c_queue c))). qr_data y \<noteq> jx_uuid_bytes env r"
    using other by (auto simp: ready_rows_def dest!: in_set_takeD)
  then show "(\<forall>y \<in> set (c_queue c'). qr_data y \<noteq> jx_uuid_bytes env r) \<and>
      (\<forall>a. x = Ok a \<longrightarrow> (\<forall>y \<in> set a. qi_data y \<noteq> jx_uuid_bytes env r))"
    using other d by (auto simp: dequeue_def Let_def set_update_rows split: if_splits)
qed

lemma lost_start:
  assumes that: "i \<noteq> r"
  shows "inv (lost env r k) (execute_start env i) (\<lambda>_. True)"
proof -
  have sends: "inv (lost env r k) (send x) (\<lambda>_. True)" if "iv_run_id x \<noteq> r" for x
    using that by (auto simp: inv_def wp_def send_def lost_def)
  have job: "inv (lost env r k) (jsql_some env (find_job_by_id q) e) (\<lambda>_. True)" for q e
    by (rule lost.inv_some) (simp add: find_job_by_id_def lost.inv_plain_rows)
  have run: "inv (lost env r k) (jsql_some env (find_run q) e) (\<lambda>_. True)" for q e
    by (rule lost.inv_some) (simp add: lost.inv_reads)
  show ?thesis unfolding execute_start_def
    by (intro inv_bind [OF run] inv_bind [OF job] inv_bind [OF lost_runs(3)] inv_bind [OF lost.inv_reads(8)]
        inv_bind [OF lost.inv_reads(9)] inv_bind [OF sends] inv_if inv_ret TrueI) (simp_all add: that)
qed

lemma lost_take: "inv (lost env r k) (worker_take env) (\<lambda>_. True)"
proof (cases "uuid_laws env r")
  case True
  have start: "inv (lost env r k) (attempt (execute_start env i)) (\<lambda>_. True)"
    if "jx_uuid_of_bytes env (qi_data x) = Some i" "qi_data x \<noteq> jx_uuid_bytes env r" for x i
  proof -
    have "i \<noteq> r" using that True by (auto simp: uuid_laws_def)
    then show ?thesis by (intro inv_True [OF inv_attempt [OF lost_start]])
  qed
  show ?thesis unfolding worker_take_def
    by (intro lost.inv_effects [THEN inv_bind] inv_bind [OF inv_attempt [OF lost_dequeue]]
        lost_settle [THEN inv_bind] inv_sum inv_list inv_option inv_prod inv_ret TrueI inv_bind [OF start];
        auto)
next
  case False
  then show ?thesis by (simp add: inv_def lost_def)
qed

lemmas lost_statements = create_job_row_def create_trigger_row_def update_trigger_fired_def move_to_dlq_def
  delete_dlq_row_def set_state_row_def delete_state_row_def emit_event_row_def consume_event_def
  write_jobs_audit_event_def create_step_row_def update_step_row_def

interpretation lost: kept_by_statements "lost env r k" env "\<lambda>_. True" "other_than env r" "\<lambda>i. i \<noteq> r" "\<lambda>_. True" True
  for env r k
proof unfold_locales
qed ((simp add: lost_def; fail) | (simp add: other_than_def uuid_laws_def; fail) |
  (rule lost_settle lost_take lost_sleeping lost_runs; assumption?; fail) | (erule lost_enqueue; fail) |
  (erule lost_runs; fail) |
  (rule inv_weaken [OF lost_runs(1)], simp; fail) |
  (simp add: find_job_def find_job_by_id_def lost.inv_plain_rows; fail) |
  ((simp only: simp_thms)?, rule lost_same_runs, auto simp: lost_statements Let_def
     split: if_splits option.splits; fail))+

section \<open>The attempt that fails\<close>

lemma jsql_Ok:
  "\<not> jx_fails env (jw_statements w) \<Longrightarrow> st (jw_now w) (jw_db w) = (Ok a, db') \<Longrightarrow>
     jsql env st w = (Ok a, w\<lparr>jw_statements := Suc (jw_statements w), jw_db := db'\<rparr>)"
  by (simp add: jsql_def Let_def)

lemma attempts_left:
  assumes "sint (a :: i32) < sint (m :: i32)"
  shows "a \<noteq> 2147483647"
proof
  assume "a = 2147483647"
  then have "sint a = 2147483647" by simp
  moreover have "sint m < 2 ^ 31" using sint_lt [of m] by simp
  ultimately show False using assms by simp
qed

lemma failed_attempt:
  assumes "\<not> is_success status" "sint (ru_attempt x) < sint (ru_max_attempts x)"
    and "\<not> jx_fails env (jw_statements w)" "\<not> jx_fails env (Suc (jw_statements w))"
    and "\<forall>y \<in> set (j_runs (jw_db w)). ru_id y = ru_id x \<longrightarrow> ru_attempt y = ru_attempt x"
    and "\<forall>y \<in> set (c_queue (jw_cache w)). qr_data y = jx_uuid_bytes env (ru_id x) \<longrightarrow> qr_receipt y = Some receipt"
    and w': "w' = snd (worker_done env (receipt, x) (Answer status body) w)"
  shows "\<forall>y \<in> set (j_runs (jw_db w')). ru_id y = ru_id x \<longrightarrow> ru_status y = Pending \<and> ru_attempt y = ru_attempt x + 1"
    and "\<forall>y \<in> set (c_queue (jw_cache w')). qr_data y \<noteq> jx_uuid_bytes env (ru_id x)"
    and "jw_sent w' = jw_sent w"
proof -
  let ?runs = "update_rows (\<lambda>y. ru_id y = ru_id x) (\<lambda>y. y\<lparr>ru_attempt := ru_attempt y + 1, ru_status := Pending\<rparr>)
      (j_runs (jw_db w))"
  let ?w1 = "w\<lparr>jw_statements := Suc (jw_statements w), jw_db := (jw_db w)\<lparr>j_runs := ?runs\<rparr>\<rparr>"
  have "increment_run_attempt (ru_id x) (jw_now w) (jw_db w) = (Ok (), (jw_db w)\<lparr>j_runs := ?runs\<rparr>)"
    using assms(5) attempts_left [OF assms(2)] by (auto simp: increment_run_attempt_def list_ex_iff)
  then have "execute_finish env x (Answer status body) w = (Ok (), ?w1)"
    using assms(1,2,3) by (simp add: execute_finish_def jsql_Ok)
  then have acked: "w' = snd (settle env receipt True ?w1)"
    unfolding w' worker_done_def bind_def attempt_def by simp
  have settled: "jw_db w' = jw_db ?w1 \<and> jw_sent w' = jw_sent w \<and>
      c_queue (jw_cache w') = filter (\<lambda>y. qr_receipt y \<noteq> Some receipt) (c_queue (jw_cache w))"
    unfolding acked settle_def ignore_error_def jcache_def Let_def ack_def
    using assms(4) by (auto simp: count_rows_def filter_empty_conv filter_id_conv split: prod.splits)
  show "\<forall>y \<in> set (j_runs (jw_db w')). ru_id y = ru_id x \<longrightarrow> ru_status y = Pending \<and> ru_attempt y = ru_attempt x + 1"
    using settled assms(5) by (auto simp: set_update_rows)
  show "\<forall>y \<in> set (c_queue (jw_cache w')). qr_data y \<noteq> jx_uuid_bytes env (ru_id x)"
    using settled assms(6) by auto
  show "jw_sent w' = jw_sent w" using settled by simp
qed

text \<open>
  C39. A failed attempt is never retried: when the function answers an attempt with an error and attempts are
  left, the run becomes \<open>pending\<close> with the next attempt number and its queue item is acknowledged, and
  whatever calls follow (triggers, retries of other runs, wake-ups, workers), no request for the run
  is sent again, unless it asks to sleep.
\<close>

theorem failed_attempt_is_never_retried:
  assumes "uuid_laws env (ru_id x)" and "k < length fl" and "fl ! k = (receipt, x)"
    and "\<not> is_success status" and "sint (ru_attempt x) < sint (ru_max_attempts x)"
    and "\<not> jx_fails env (jw_statements w)" and "\<not> jx_fails env (Suc (jw_statements w))"
    and "\<forall>y \<in> set (j_runs (jw_db w)). ru_id y = ru_id x \<longrightarrow> ru_attempt y = ru_attempt x"
    and "\<forall>y \<in> set (c_queue (jw_cache w)). qr_data y = jx_uuid_bytes env (ru_id x) \<longrightarrow> qr_receipt y = Some receipt"
    and "\<forall>c \<in> set calls. allowed env (\<lambda>_. True) (\<lambda>i. i \<noteq> ru_id x) (\<lambda>_. True) True c"
  shows "let s = perform_job env (CDone k (Answer status body)) (w, fl) in
     (\<forall>y \<in> set (j_runs (jw_db (fst s))). ru_id y = ru_id x \<longrightarrow>
        ru_status y = Pending \<and> ru_attempt y = ru_attempt x + 1) \<and>
     (\<forall>y \<in> set (drop (length (jw_sent w)) (jw_sent (fst (perform_jobs env calls s)))). iv_run_id y \<noteq> ru_id x)"
proof -
  define w' where "w' = snd (worker_done env (receipt, x) (Answer status body) w)"
  note failed = failed_attempt [OF assms(4-9) w'_def]
  have s: "perform_job env (CDone k (Answer status body)) (w, fl) = (w', drop_at k fl)"
    using assms(2,3) by (simp add: w'_def)
  have "lost env (ru_id x) (length (jw_sent w)) w'"
    unfolding lost_def using assms(1) failed by auto
  then have "lost env (ru_id x) (length (jw_sent w)) (fst (perform_jobs env calls (w', drop_at k fl)))"
    by (intro lost.keep_calls assms(10)) simp
  then have "\<forall>y \<in> set (drop (length (jw_sent w)) (jw_sent (fst (perform_jobs env calls (w', drop_at k fl))))).
      iv_run_id y \<noteq> ru_id x"
    unfolding lost_def by blast
  then show ?thesis unfolding s Let_def using failed(1) by simp
qed

definition waiting_world :: jobs_world where
  "waiting_world = sample_jobs_world\<lparr>
     jw_db := sample_jobs_db\<lparr>j_runs := [sample_run ''r'' ''j'' ''g'' Running]\<rparr>,
     jw_cache := \<lparr>c_queue = [\<lparr>qr_id = ''q'', qr_queue = default_queue, qr_data = ''r'', qr_visible_at = 0,
       qr_attempt = 1, qr_created_at = 0, qr_receipt = Some ''p-q''\<rparr>], c_kv = []\<rparr>\<rparr>"

lemma sample_uuid_laws: "uuid_laws sample_jobs_env ''r''"
  by (simp add: uuid_laws_def sample_jobs_env_def)

theorem failed_attempt_is_never_retried_witness:
  "let s = perform_job sample_jobs_env (CDone 0 (Answer 500 ''boom''))
         (waiting_world, [(''p-q'', sample_run ''r'' ''j'' ''g'' Running)]) in
     map (\<lambda>y. (ru_id y, ru_status y)) (j_runs (jw_db (fst s))) = [(''r'', Pending)] \<and>
     (\<forall>y \<in> set (jw_sent (fst (perform_jobs sample_jobs_env [CPollCron, CElapse 9000000, CPollSleeping, CTake] s))).
        iv_run_id y \<noteq> ''r'')"
proof -
  let ?fl = "[(''p-q'', sample_run ''r'' ''j'' ''g'' Running)]"
  let ?s = "perform_job sample_jobs_env (CDone 0 (Answer 500 ''boom'')) (waiting_world, ?fl)"
  have "(\<forall>y \<in> set (j_runs (jw_db (fst ?s))). ru_id y = ''r'' \<longrightarrow> ru_status y = Pending \<and> ru_attempt y = 2) \<and>
     (\<forall>y \<in> set (drop 0 (jw_sent (fst (perform_jobs sample_jobs_env
        [CPollCron, CElapse 9000000, CPollSleeping, CTake] ?s)))). iv_run_id y \<noteq> ''r'')"
    using failed_attempt_is_never_retried [of sample_jobs_env "sample_run ''r'' ''j'' ''g'' Running" 0 ?fl "''p-q''" 500
        waiting_world "[CPollCron, CElapse 9000000, CPollSleeping, CTake]" "''boom''"] sample_uuid_laws
    by (simp add: sample_run_def is_success_def waiting_world_def sample_jobs_world_def sample_jobs_env_def Let_def)
  moreover have "map (\<lambda>y. (ru_id y, ru_status y)) (j_runs (jw_db (fst ?s))) = [(''r'', Pending)]" by code_simp
  ultimately show ?thesis by (simp add: Let_def)
qed

text \<open>
  The queue of the workers: runs are put into the queue of their organization and the workers take
  from the queue \<open>jobs:default\<close>, so that no run is ever executed.
\<close>

section \<open>What every call keeps\<close>

text \<open>No organization is called \<open>default\<close>: the id of one is the text of an UUID.\<close>

definition named_org :: "uuid \<Rightarrow> bool" where
  "named_org org_id \<longleftrightarrow> org_id \<noteq> ''default''"

definition idle :: "jobs_world \<Rightarrow> bool" where
  "idle w \<longleftrightarrow>
     (\<forall>r \<in> set (c_queue (jw_cache w)). qr_queue r \<noteq> default_queue) \<and>
     (\<forall>j \<in> set (j_jobs (jw_db w)). named_org (jb_org_id j)) \<and>
     (\<forall>r \<in> set (j_runs (jw_db w)). named_org (ru_org_id r)) \<and>
     (\<forall>d \<in> set (j_dlq (jw_db w)). named_org (dl_org_id d)) \<and> jw_sent w = []"

definition idle_db :: "jobs_db \<Rightarrow> bool" where
  "idle_db db \<longleftrightarrow>
     (\<forall>j \<in> set (j_jobs db). named_org (jb_org_id j)) \<and> (\<forall>r \<in> set (j_runs db). named_org (ru_org_id r)) \<and>
     (\<forall>d \<in> set (j_dlq db). named_org (dl_org_id d))"

lemma org_queue_named: "named_org o' \<Longrightarrow> org_queue o' \<noteq> default_queue"
  by (auto simp: named_org_def org_queue_def default_queue_def)

lemma idle_same: "same_stores w w' \<Longrightarrow> idle w' = idle w"
  by (simp add: same_stores_def idle_def)

lemma idle_split: "idle w \<longleftrightarrow> idle_db (jw_db w) \<and>
    (\<forall>r \<in> set (c_queue (jw_cache w)). qr_queue r \<noteq> default_queue) \<and> jw_sent w = []"
  by (auto simp: idle_def idle_db_def)

interpretation idle: stores_invariant idle
  by unfold_locales (simp add: idle_same)

text \<open>A statement that leaves the organizations in order, and what it reads.\<close>

lemma idle_jsql:
  assumes "\<And>t db r db'. idle_db db \<Longrightarrow> st t db = (r, db') \<Longrightarrow> idle_db db' \<and> (\<forall>a. r = Ok a \<longrightarrow> Q a)"
  shows "inv idle (jsql env st) Q"
  by (rule idle.inv_jsql) (use assms in \<open>auto simp: idle_split\<close>)

lemma find_all: "find P xs = Some x \<Longrightarrow> \<forall>y \<in> set xs. Q y \<Longrightarrow> Q x"
  using find_mem by metis

section \<open>Statements\<close>

lemmas idle_updates = idle_db_def drop_jobs_def drop_runs_def drop_triggers_def update_rows_def set_status_def

lemma idle_reads:
  "inv idle (jsql env (find_job o' n)) (\<lambda>v. \<forall>j. v = Some j \<longrightarrow> named_org (jb_org_id j))"
  "inv idle (jsql env (find_job_by_id i)) (\<lambda>v. \<forall>j. v = Some j \<longrightarrow> named_org (jb_org_id j))"
  "inv idle (jsql env (list_sleeping_runs_due t)) (\<lambda>rs. \<forall>r \<in> set rs. named_org (ru_org_id r))"
  by (auto simp: find_job_def find_job_by_id_def list_sleeping_runs_due_def idle_split idle_db_def
      intro!: idle.inv_rows elim: find_all split: option.splits)

lemma idle_runs:
  "named_org (nr_org_id nr) \<Longrightarrow> inv idle (jsql env (create_run i nr)) (\<lambda>r. named_org (ru_org_id r))"
  "inv idle (jsql env (insert_from_dlq i d)) (\<lambda>_. True)"
  "inv idle (jsql env (update_run_status i st c m)) (\<lambda>_. True)" "inv idle (jsql env (set_run_sleeping i t)) (\<lambda>_. True)"
  "inv idle (jsql env (increment_run_attempt i)) (\<lambda>_. True)"
  "inv idle (jsql env (move_to_dlq i r)) (\<lambda>_. True)" "inv idle (jsql env (delete_dlq_row d)) (\<lambda>_. True)"
  subgoal by (rule idle_jsql) (auto simp: create_run_def insert_run_def fresh_run_def idle_db_def split: if_splits)
  subgoal by (rule idle_jsql) (auto simp: insert_from_dlq_def create_run_def insert_run_def fresh_run_def idle_db_def
      and_then_eq_Ok split: option.splits if_splits prod.splits dest: find_mem)
  subgoal by (rule idle_jsql) (auto simp: update_run_status_def idle_updates)
  subgoal by (rule idle_jsql) (auto simp: set_run_sleeping_def idle_updates)
  subgoal by (rule idle_jsql) (auto simp: increment_run_attempt_def idle_updates split: if_splits)
  subgoal by (rule idle_jsql) (auto simp: move_to_dlq_def idle_db_def split: option.splits if_splits dest: find_mem)
  subgoal by (rule idle_jsql) (auto simp: delete_dlq_row_def idle_db_def)
  done

lemma idle_others:
  "named_org (nj_org_id nj) \<Longrightarrow> inv idle (jsql env (create_job_row i nj)) (\<lambda>_. True)"
  "inv idle (jsql env (delete_job_row i)) (\<lambda>_. True)" "inv idle (jsql env (create_trigger_row i nt)) (\<lambda>_. True)"
  "inv idle (jsql env (delete_trigger_row i)) (\<lambda>_. True)" "inv idle (jsql env (update_trigger_fired i t n)) (\<lambda>_. True)"
  "inv idle (jsql env (create_step_row i ns)) (\<lambda>_. True)" "inv idle (jsql env (update_step_row i s out e)) (\<lambda>_. True)"
  "inv idle (jsql env (set_state_row i k v)) (\<lambda>_. True)" "inv idle (jsql env (delete_state_row i k)) (\<lambda>_. True)"
  "inv idle (jsql env (emit_event_row i nv)) (\<lambda>_. True)" "inv idle (jsql env (consume_event i r)) (\<lambda>_. True)"
  "inv idle (jsql env (write_jobs_audit_event i a)) (\<lambda>_. True)"
  subgoal by (rule idle_jsql) (auto simp: create_job_row_def Let_def idle_db_def split: if_splits)
  subgoal by (rule idle_jsql) (auto simp: delete_job_row_def idle_updates Let_def)
  subgoal by (rule idle_jsql) (auto simp: create_trigger_row_def Let_def idle_db_def split: if_splits)
  subgoal by (rule idle_jsql) (auto simp: delete_trigger_row_def idle_updates)
  subgoal by (rule idle_jsql) (auto simp: update_trigger_fired_def idle_updates)
  subgoal by (rule idle_jsql) (auto simp: create_step_row_def Let_def idle_db_def split: if_splits)
  subgoal by (rule idle_jsql) (auto simp: update_step_row_def idle_db_def)
  subgoal by (rule idle_jsql) (auto simp: set_state_row_def Let_def idle_db_def split: if_splits)
  subgoal by (rule idle_jsql) (auto simp: delete_state_row_def idle_db_def)
  subgoal by (rule idle_jsql) (auto simp: emit_event_row_def Let_def idle_db_def split: if_splits option.splits)
  subgoal by (rule idle_jsql) (auto simp: consume_event_def idle_db_def split: if_splits)
  subgoal by (rule idle_jsql) (auto simp: write_jobs_audit_event_def idle_db_def split: if_splits)
  done

text \<open>The queue statements: enqueueing for an organization, and taking from a queue that is empty.\<close>

lemma idle_jcache:
  assumes "\<And>t c r c'. (\<forall>x \<in> set (c_queue c). qr_queue x \<noteq> default_queue) \<Longrightarrow> st t c = (r, c') \<Longrightarrow>
      (\<forall>x \<in> set (c_queue c'). qr_queue x \<noteq> default_queue) \<and> (\<forall>a. r = Ok a \<longrightarrow> Q a)"
  shows "inv idle (jcache env st) Q"
  by (rule idle.inv_jcache) (use assms in \<open>auto simp: idle_split\<close>)

lemma idle_enqueue: "named_org o' \<Longrightarrow> inv idle (jcache env (\<lambda>now. enqueue now i (org_queue o') item None now)) (\<lambda>_. True)"
  by (rule idle_jcache) (auto simp: enqueue_def org_queue_named split: if_splits)

lemma idle_settle: "inv idle (settle env receipt ok) (\<lambda>_. True)"
  unfolding settle_def
  by (rule inv_ignore [of _ _ "\<lambda>_. True"], rule idle_jcache)
    (auto simp: ack_def nack_def update_rows_def split: if_splits option.splits result.splits)

lemma idle_dequeue: "inv idle (jcache env (dequeue prefix default_queue n t)) (\<lambda>items. items = [])"
proof (rule idle_jcache)
  fix now c r c'
  assume other: "\<forall>x \<in> set (c_queue c). qr_queue x \<noteq> default_queue"
    and step: "dequeue prefix default_queue n t now c = (r, c')"
  have "filter (\<lambda>r. qr_queue r = default_queue \<and> qr_visible_at r \<le> now \<and> qr_receipt r = None) (c_queue c) = []"
    using other by (auto simp: filter_empty_conv)
  then have "ready_rows default_queue now (c_queue c) = []" by (simp add: ready_rows_def)
  then show "(\<forall>x \<in> set (c_queue c'). qr_queue x \<noteq> default_queue) \<and> (\<forall>a. r = Ok a \<longrightarrow> a = [])"
    using step other by (auto simp: dequeue_def Let_def update_rows_def list_ex_iff)
qed

section \<open>Calls\<close>

lemma idle_take: "inv idle (worker_take env) (\<lambda>_. True)"
  unfolding worker_take_def
  by (rule idle.inv_effects [THEN inv_bind], rule inv_bind [OF inv_attempt [OF idle_dequeue]])
    (auto intro!: inv_ret split: sum.splits list.splits)

interpretation idle: kept_by_statements idle env named_org "\<lambda>_. True" "\<lambda>_. True" "\<lambda>_. True" True for env
proof unfold_locales
qed (simp_all add: idle_enqueue idle_settle idle_take idle_reads idle_runs idle_others, simp_all add: idle_def)

text \<open>
  C38. No run is ever executed: whatever jobs, triggers, webhooks, events, schedules, retries and worker rounds
  follow each other, no request is sent to a function, since runs are put into the queue of their
  organization and every worker takes from \<open>jobs:default\<close>.
\<close>

theorem no_run_is_executed:
  assumes "\<forall>c \<in> set calls. allowed env named_org (\<lambda>_. True) (\<lambda>_. True) True c" and "idle w"
  shows "jw_sent (fst (perform_jobs env calls (w, fl))) = []"
proof -
  have "idle (fst (perform_jobs env calls (w, fl)))"
    by (rule idle.keep_calls [OF assms(1)]) (simp add: assms(2))
  then show ?thesis unfolding idle_def by blast
qed

theorem no_run_is_executed_witness:
  "let s = perform_jobs sample_jobs_env [CManual (sample_ctx ''g'') ''mail'' JNull, CPollCron, CTake] (sample_jobs_world, []) in
   jw_sent (fst s) = [] \<and> map ru_status (j_runs (jw_db (fst s))) = [Pending, Pending] \<and>
   map qr_queue (c_queue (jw_cache (fst s))) = [''jobs:g'']"
proof -
  let ?calls = "[CManual (sample_ctx ''g'') ''mail'' JNull, CPollCron, CTake]"
  have "jw_sent (fst (perform_jobs sample_jobs_env ?calls (sample_jobs_world, []))) = []"
    by (rule no_run_is_executed) (simp_all add: named_org_def sample_ctx_def idle_def sample_jobs_world_def sample_jobs_db_def
        sample_job_def sample_run_def)
  moreover have "map ru_status (j_runs (jw_db (fst (perform_jobs sample_jobs_env ?calls (sample_jobs_world, []))))) = [Pending, Pending]"
    "map qr_queue (c_queue (jw_cache (fst (perform_jobs sample_jobs_env ?calls (sample_jobs_world, []))))) = [''jobs:g'']"
    by code_simp+
  ultimately show ?thesis by (simp only: Let_def simp_thms)
qed

end
