(* ===== verification/Jobs_Limit.thy ===== *)
theory Jobs_Limit
  imports Jobs_Steps
begin

text \<open>
  The concurrency limit of a job: no trigger, by hand, webhook, schedule or event, starts a run beyond
  it. The limit is read as an unsigned number, so that a negative one is none.
\<close>

section \<open>The bound\<close>

definition the_job :: "job \<Rightarrow> jobs_db \<Rightarrow> bool" where
  "the_job j db \<longleftrightarrow> (\<forall>x \<in> set (j_jobs db). jb_id x = jb_id j \<longrightarrow> x = j)"

text \<open>At most \<open>n\<close> active runs, or at most the limit.\<close>

definition within :: "job \<Rightarrow> nat \<Rightarrow> jobs_world \<Rightarrow> bool" where
  "within j n w \<longleftrightarrow> the_job j (jw_db w) \<and> active_runs (jb_id j) (jw_db w) < 2 ^ 32 \<and>
     active_runs (jb_id j) (jw_db w) \<le> max n (unat (jb_max_concurrency j))"

interpretation limit: stores_invariant "within j n" for j n
  by unfold_locales (simp add: within_def same_stores_def)

text \<open>The jobs that are read are the job itself or another one.\<close>

definition ours :: "job \<Rightarrow> job \<Rightarrow> bool" where
  "ours j x \<longleftrightarrow> (jb_id x = jb_id j \<longrightarrow> x = j)"

lemma limit_find_job:
  "inv (within j n) (jsql env (find_job o' m)) (\<lambda>v. \<forall>x. v = Some x \<longrightarrow> ours j x)"
  "inv (within j n) (jsql env (find_job_by_id i)) (\<lambda>v. \<forall>x. v = Some x \<longrightarrow> ours j x)"
  by (auto simp: find_job_def find_job_by_id_def within_def the_job_def ours_def intro!: limit.inv_rows dest: find_mem)

lemma limit_keeps:
  assumes "\<And>t db r db'. st t db = (r, db') \<Longrightarrow> j_jobs db' = j_jobs db \<and> j_runs db' = j_runs db"
  shows "inv (within j n) (jsql env st) (\<lambda>_. True)"
proof (rule limit.inv_jsql)
  fix w r db' assume "within j n w" "st (jw_now w) (jw_db w) = (r, db')"
  then show "within j n (w\<lparr>jw_db := db'\<rparr>) \<and> (\<forall>a. r = Ok a \<longrightarrow> True)"
    using assms [of "jw_now w" "jw_db w" r db'] by (simp add: within_def the_job_def active_runs_def)
qed

lemma limit_others:
  "inv (within j n) (jsql env (update_trigger_fired i t m)) (\<lambda>_. True)"
  "inv (within j n) (jsql env (consume_event i r)) (\<lambda>_. True)"
  by (rule limit_keeps; auto simp: update_trigger_fired_def consume_event_def split: if_splits)+

lemma limit_enqueue: "inv (within j n) (enqueue_run env o' i) (\<lambda>_. True)"
  unfolding enqueue_run_def
  by (intro inv_bind [OF limit.inv_effects(1)] inv_bind [where Q = "\<lambda>_. True"] inv_ret TrueI)
    (rule limit.inv_jcache, simp add: within_def)

section \<open>Starting a run\<close>

text \<open>There is room for a run of the job \<open>x\<close>, as the handlers see it.\<close>

definition room :: "job \<Rightarrow> jobs_world \<Rightarrow> bool" where
  "room x w \<longleftrightarrow> \<not> at_limit (of_nat (active_runs (jb_id x) (jw_db w))) x"

lemma active_runs_add:
  "active_runs i (db\<lparr>j_runs := j_runs db @ [fresh_run u nr t]\<rparr>) =
     active_runs i db + (if nr_job_id nr = i then 1 else 0)"
  by (simp add: active_runs_def count_rows_def fresh_run_def active_def)

lemma room_add:
  assumes "room x w" "ours j x" "within j n w" and that: "nr_job_id nr = jb_id x"
  shows "within j n (w\<lparr>jw_db := (jw_db w)\<lparr>j_runs := j_runs (jw_db w) @ [fresh_run u nr t]\<rparr>\<rparr>)"
proof (cases "jb_id x = jb_id j")
  case True
  then have x: "x = j" using assms(2) by (simp add: ours_def)
  let ?k = "active_runs (jb_id j) (jw_db w)"
  have k: "?k < 2 ^ 32" using assms(3) by (simp add: within_def)
  have "\<not> jb_max_concurrency j \<le> of_nat ?k" using assms(1) x by (simp add: room_def at_limit_def)
  then have "unat (of_nat ?k :: i32) < unat (jb_max_concurrency j)" by (simp add: word_le_nat_alt)
  then have less: "?k < unat (jb_max_concurrency j)" using k by (simp add: unat_of_nat)
  have "unat (jb_max_concurrency j) < 2 ^ 32" by (rule order.strict_trans2 [OF unsigned_less]) simp
  then show ?thesis
    using less assms(3) that by (simp add: within_def the_job_def active_runs_add le_max_iff_disj)
next
  case False
  then show ?thesis using assms(3) that by (simp add: within_def the_job_def active_runs_add)
qed

lemma limit_new_run:
  assumes "within j n w" "room x w" "ours j x" "nr_job_id nr = jb_id x"
    and "\<And>r. inv (within j n) (k r) (\<lambda>_. True)"
  shows "wp (bind (new_run_row env nr) k) (\<lambda>_. within j n) (within j n) w"
proof -
  have next_step: "wp (k r) (\<lambda>_. within j n) (within j n) w'" if "within j n w'" for r w'
    using assms(5) [of r] that unfolding inv_def by (blast intro: wp_mono)
  have keep: "within j n w'" if "same_stores w w'" for w'
    using assms(1) that limit.same by blast
  show ?thesis unfolding wp_bind new_run_row_def
  proof (rule wp_jfresh, rule wp_jsql)
    fix w1 w2 a db'
    assume w1: "same_stores w w1" and c: "create_run (jx_uuid env (jw_fresh w)) nr (jw_now w1) (jw_db w1) = (Ok a, db')"
      and w2: "same_stores (w1\<lparr>jw_db := db'\<rparr>) w2"
    have "within j n (w\<lparr>jw_db := db'\<rparr>)"
      using room_add [OF assms(2,3,1,4)] c w1 by (auto simp: create_run_def insert_run_def same_stores_def split: if_splits)
    then have "within j n w2" using w1 w2 limit.same [of "w\<lparr>jw_db := db'\<rparr>" w2] by (simp add: same_stores_def)
    then show "wp (k a) (\<lambda>_. within j n) (within j n) w2" by (rule next_step)
  next
    fix w1 w2 r db'
    assume w1: "same_stores w w1" and c: "create_run (jx_uuid env (jw_fresh w)) nr (jw_now w1) (jw_db w1) = (r, db')"
      and r: "\<forall>a. r \<noteq> Ok a" and w2: "same_stores (w1\<lparr>jw_db := db'\<rparr>) w2"
    have "db' = jw_db w1" using c r by (auto simp: create_run_def insert_run_def split: if_splits)
    then have "same_stores w w2" using w1 w2 by (simp add: same_stores_def)
    then show "within j n w2" by (rule keep)
  next
    fix w1 w2 assume "same_stores w w1" "same_stores w1 w2"
    then have "same_stores w w2" by (simp add: same_stores_def)
    then show "within j n w2" by (rule keep)
  qed
qed

lemma limit_count:
  assumes "\<And>w. within j n w \<Longrightarrow> room x w \<Longrightarrow> wp m (\<lambda>_. within j n) (within j n) w"
    and "inv (within j n) full (\<lambda>_. True)"
  shows "inv (within j n) (bind (jsql env (count_active_runs (jb_id x)))
     (\<lambda>n_active. if at_limit n_active x then full else m)) (\<lambda>_. True)"
  unfolding inv_def wp_bind count_active_runs_def
proof (intro allI impI wp_read)
  fix w w' assume w: "within j n w" "same_stores w w'"
  have w': "within j n w'" using w limit.same by blast
  have db: "jw_db w' = jw_db w" using w(2) by (simp add: same_stores_def)
  show "wp (if at_limit (of_nat (active_runs (jb_id x) (jw_db w))) x then full else m)
      (\<lambda>a w'. within j n w' \<and> True) (within j n) w'"
    using assms w' db unfolding inv_def room_def by (auto intro: wp_mono)
  show "within j n w'" by (rule w')
qed

section \<open>Triggers\<close>

lemma limit_job_of: "inv (within j n) (job_of env ctx name) (ours j)"
  unfolding job_of_def by (rule limit.inv_some) (rule limit_find_job)

lemma limit_manual: "inv (within j n) (manual_trigger env ctx name p) (\<lambda>_. True)"
  unfolding manual_trigger_def
proof (rule inv_bind [OF limit.inv_permitted], rule inv_bind [OF limit_job_of], rule limit_count)
  fix x w assume "ours j x" "within j n w" "room x w"
  then show "wp (bind (new_run_row env
       \<lparr>nr_job_id = jb_id x, nr_org_id = jc_org_id ctx, nr_trigger_id = None, nr_trigger_kind = Manual,
        nr_payload_json = p, nr_max_attempts = jb_retry_max_attempts x\<rparr>)
      (\<lambda>r. bind (enqueue_run env (jc_org_id ctx) (ru_id r)) (\<lambda>_. ret (ru_id r)))) (\<lambda>_. within j n) (within j n) w"
    by (intro limit_new_run) (auto intro!: inv_bind [OF limit_enqueue] inv_ret)
qed (intro inv_lift TrueI)

lemma limit_webhook: "inv (within j n) (webhook_trigger env token body) (\<lambda>_. True)"
proof -
  have rest: "wp (if jx_max_payload_bytes env < length body
       then lift (Err (PayloadTooLarge (length body) (jx_max_payload_bytes env)))
       else bind (new_run_row env
         \<lparr>nr_job_id = jb_id x, nr_org_id = jb_org_id x, nr_trigger_id = Some (tg_id tr),
          nr_trigger_kind = Webhook, nr_payload_json = webhook_payload env body,
          nr_max_attempts = jb_retry_max_attempts x\<rparr>)
        (\<lambda>r. bind (enqueue_run env (jb_org_id x) (ru_id r)) (\<lambda>_. ret (ru_id r)))) (\<lambda>_. within j n) (within j n) w"
    if "ours j x" "within j n w" "room x w" for x tr w
    using that by (auto simp: wp_lift intro!: limit_new_run inv_bind [OF limit_enqueue] inv_ret)
  have job: "inv (within j n) (jsql_some env (find_job_by_id i) e) (ours j)" for i e
    by (rule limit.inv_some) (rule limit_find_job)
  have trigger: "inv (within j n) (jsql_some env (get_trigger_by_webhook_token s) e) (\<lambda>_. True)" for s e
    by (simp add: limit.inv_some limit.inv_reads)
  show ?thesis unfolding webhook_trigger_def
    by (intro inv_bind_lift inv_bind [OF job] inv_bind [OF trigger] inv_if limit_count rest inv_lift TrueI)
qed

lemma limit_fire:
  assumes "\<And>r. inv (within j n) (after r) (\<lambda>_. True)"
  shows "inv (within j n) (fire env trigger kind p after) (\<lambda>_. True)"
  unfolding fire_def
proof (rule inv_bind [OF limit_find_job(2)], intro inv_option limit_count inv_ret TrueI)
  fix v x w assume "\<forall>x. v = Some x \<longrightarrow> ours j x" "v = Some x" "within j n w" "room x w"
  then show "wp (bind (new_run_row env
       \<lparr>nr_job_id = jb_id x, nr_org_id = jb_org_id x, nr_trigger_id = Some (tg_id trigger), nr_trigger_kind = kind,
        nr_payload_json = p, nr_max_attempts = jb_retry_max_attempts x\<rparr>)
      (\<lambda>r. bind (enqueue_run env (jb_org_id x) (ru_id r)) (\<lambda>_. after r))) (\<lambda>_. within j n) (within j n) w"
    by (intro limit_new_run) (auto intro!: inv_bind [OF limit_enqueue] assms)
qed

lemma limit_polls: "inv (within j n) (poll_cron_triggers env) (\<lambda>_. True)" "inv (within j n) (poll_events env) (\<lambda>_. True)"
  unfolding poll_cron_triggers_def poll_events_def list_pending_events_for_org_def
  by (intro inv_bind [OF limit.inv_effects(2)] inv_bind [OF limit.inv_reads(4)] inv_bind [OF limit.inv_reads(10)]
      inv_bind [OF limit.inv_limited] inv_for_each limit_fire limit_others)+

fun triggers_runs :: "jobs_call \<Rightarrow> bool" where
  "triggers_runs (CManual _ _ _) \<longleftrightarrow> True"
| "triggers_runs (CWebhook _ _) \<longleftrightarrow> True"
| "triggers_runs CPollCron \<longleftrightarrow> True"
| "triggers_runs CPollEvents \<longleftrightarrow> True"
| "triggers_runs _ \<longleftrightarrow> False"

text \<open>
  C14. Triggers respect the concurrency limit: after any sequence of manual triggers, webhooks and scheduler
  rounds a job has no more active runs (pending, queued, running or sleeping) than it had or than its
  limit, read as an unsigned number.
\<close>

theorem triggers_respect_limit:
  assumes "j \<in> set (j_jobs (jw_db w))" and "distinct (map jb_id (j_jobs (jw_db w)))"
    and "\<forall>c \<in> set calls. triggers_runs c" and "active_runs (jb_id j) (jw_db w) < 2 ^ 32"
  shows "active_runs (jb_id j) (jw_db (fst (perform_jobs env calls (w, fl))))
     \<le> max (active_runs (jb_id j) (jw_db w)) (unat (jb_max_concurrency j))"
proof -
  define n where "n = active_runs (jb_id j) (jw_db w)"
  have call: "within j n (fst (perform_job env c s))" if "triggers_runs c" "within j n (fst s)" for c s
    using that by (cases s; cases c)
      (auto intro: inv_at [OF limit_manual] inv_at [OF limit_webhook] inv_at [OF limit_polls(1)] inv_at [OF limit_polls(2)])
  have "within j n w"
    using assms(1,2,4) by (auto simp: n_def within_def the_job_def distinct_map inj_on_def)
  then have "within j n (fst (perform_jobs env calls (w, fl)))"
    using assms(3)
  proof (induction calls arbitrary: w fl)
    case Nil
    then show ?case by (simp add: perform_jobs_def)
  next
    case (Cons c calls)
    obtain w' fl' where s: "perform_job env c (w, fl) = (w', fl')" by fastforce
    then have "within j n w'" using call [of c "(w, fl)"] Cons.prems by simp
    then show ?case using Cons s by (simp add: perform_jobs_def)
  qed
  then show ?thesis by (simp add: within_def n_def)
qed

theorem triggers_respect_limit_witness:
  "active_runs ''j'' (jw_db (fst (perform_jobs sample_jobs_env
     [CManual (sample_ctx ''g'') ''mail'' JNull, CManual (sample_ctx ''g'') ''mail'' JNull, CPollCron]
     (sample_jobs_world, [])))) \<le> 2"
  using triggers_respect_limit [of "sample_job ''j'' ''g''" sample_jobs_world
     "[CManual (sample_ctx ''g'') ''mail'' JNull, CManual (sample_ctx ''g'') ''mail'' JNull, CPollCron]" sample_jobs_env "[]"]
  by (simp add: sample_jobs_world_def sample_jobs_db_def sample_job_def sample_run_def active_runs_def count_rows_def
      active_def)

end
