(* ===== verification/Jobs_Replay.thy ===== *)
theory Jobs_Replay
  imports Jobs_Kept
begin

text \<open>
  Durable steps: what a step has completed with is sent along with every later attempt of its run.
\<close>

section \<open>The cache of step outputs\<close>

definition is_step :: "uuid \<Rightarrow> uuid \<Rightarrow> string \<Rightarrow> json \<Rightarrow> step \<Rightarrow> bool" where
  "is_step i r n v s \<longleftrightarrow> sp_id s = i \<and> sp_run_id s = r \<and> sp_name s = n \<and> sp_status s = StCompleted \<and> sp_output_json s = Some v"

text \<open>The step is there, and no other row has its id or its name.\<close>

definition recorded :: "uuid \<Rightarrow> uuid \<Rightarrow> string \<Rightarrow> json \<Rightarrow> step list \<Rightarrow> bool" where
  "recorded i r n v ss \<longleftrightarrow> (\<exists>s \<in> set ss. is_step i r n v s) \<and>
     (\<forall>s \<in> set ss. sp_id s = i \<or> sp_run_id s = r \<and> sp_name s = n \<longrightarrow> is_step i r n v s)"

lemma map_of_known: "(k, v) \<in> set xs \<Longrightarrow> \<forall>(k', x) \<in> set xs. k' = k \<longrightarrow> x = v \<Longrightarrow> map_of xs k = Some v"
  by (induction xs) auto

lemma in_map_filter: "y \<in> set (List.map_filter f xs) \<longleftrightarrow> (\<exists>x \<in> set xs. f x = Some y)"
  by (force simp: List.map_filter_def)

lemma recordedD: "recorded i r n v ss \<Longrightarrow> s \<in> set ss \<Longrightarrow> sp_id s = i \<or> sp_run_id s = r \<and> sp_name s = n \<Longrightarrow> is_step i r n v s"
  unfolding recorded_def by blast

lemma step_cache_recorded:
  assumes "recorded i r n v all" "set ss = {s \<in> set all. sp_run_id s = r}"
  shows "step_cache ss n = Some v"
proof -
  let ?f = "\<lambda>s. map_option (Pair (sp_name s)) (sp_output_json s)"
    and ?done = "filter (\<lambda>s. sp_status s = StCompleted) ss"
  obtain s where s: "s \<in> set all" "is_step i r n v s" using assms(1) unfolding recorded_def by blast
  have "s \<in> set ?done" using s assms(2) by (simp add: is_step_def)
  moreover have "?f s = Some (n, v)" using s(2) by (simp add: is_step_def)
  ultimately have mem: "(n, v) \<in> set (List.map_filter ?f ?done)" unfolding in_map_filter by blast
  have only: "x = v" if x: "(n, x) \<in> set (List.map_filter ?f ?done)" for x
  proof -
    obtain y where y: "y \<in> set ?done" "?f y = Some (n, x)" using x unfolding in_map_filter by blast
    have "is_step i r n v y" using recordedD [OF assms(1), of y] y assms(2) by auto
    then show ?thesis using y(2) by (simp add: is_step_def)
  qed
  show ?thesis unfolding step_cache_def
    by (rule map_of_known) (unfold set_rev, rule mem, use only in blast)
qed

lemma recorded_append:
  assumes "recorded i r n v ss" "sp_id s \<noteq> i" "\<not> (sp_run_id s = r \<and> sp_name s = n)"
  shows "recorded i r n v (ss @ [s])"
  using assms by (auto simp: recorded_def)

lemma recorded_update:
  assumes old: "recorded i r n v ss" and f: "\<And>s. sp_id (f s) = sp_id s" "\<And>s. sp_run_id (f s) = sp_run_id s"
      "\<And>s. sp_name (f s) = sp_name s" and "i' \<noteq> i"
  shows "recorded i r n v (update_rows (\<lambda>s. sp_id s = i') f ss)"
  unfolding recorded_def
proof (intro conjI ballI impI)
  obtain s where s: "s \<in> set ss" "is_step i r n v s" using old unfolding recorded_def by blast
  then have "sp_id s \<noteq> i'" using assms(5) by (auto simp: is_step_def)
  then have "s \<in> set (update_rows (\<lambda>s. sp_id s = i') f ss)" using in_update_rows [OF s(1), of "\<lambda>s. sp_id s = i'" f] by simp
  then show "\<exists>s \<in> set (update_rows (\<lambda>s. sp_id s = i') f ss). is_step i r n v s" using s(2) by blast
next
  fix s assume s: "s \<in> set (update_rows (\<lambda>s. sp_id s = i') f ss)" "sp_id s = i \<or> sp_run_id s = r \<and> sp_name s = n"
  then obtain y where y: "y \<in> set ss" "s = (if sp_id y = i' then f y else y)" by (auto simp: set_update_rows)
  then have "sp_id y = i \<or> sp_run_id y = r \<and> sp_name y = n" using s(2) f by (simp split: if_splits)
  then have "is_step i r n v y" by (rule recordedD [OF old y(1)])
  then show "is_step i r n v s" using y(2) assms(5) by (auto simp: is_step_def)
qed

section \<open>What every call keeps\<close>

text \<open>\<open>k\<close> requests had been sent when the step was completed.\<close>

definition replays :: "uuid \<Rightarrow> uuid \<Rightarrow> string \<Rightarrow> json \<Rightarrow> nat \<Rightarrow> jobs_world \<Rightarrow> bool" where
  "replays i r n v k w \<longleftrightarrow> recorded i r n v (j_steps (jw_db w)) \<and> k \<le> length (jw_sent w) \<and>
     (\<forall>x \<in> set (drop k (jw_sent w)). iv_run_id x = r \<longrightarrow> iv_step_cache x n = Some v)"

interpretation replay: stores_invariant "replays i r n v k" for i r n v k
  by unfold_locales (simp add: replays_def same_stores_def)

lemma replay_same_steps:
  assumes "\<And>t db x db'. st t db = (x, db') \<Longrightarrow> j_steps db' = j_steps db"
  shows "inv (replays i r n v k) (jsql env st) (\<lambda>_. True)"
  by (rule replay.inv_jsql) (use assms in \<open>auto simp: replays_def\<close>)

lemma replay_steps:
  assumes "\<And>t db x db'. recorded i r n v (j_steps db) \<Longrightarrow> st t db = (x, db') \<Longrightarrow> recorded i r n v (j_steps db')"
  shows "inv (replays i r n v k) (jsql env st) (\<lambda>_. True)"
  by (rule replay.inv_jsql) (use assms in \<open>auto simp: replays_def\<close>)

lemma replay_create_step: "inv (replays i r n v k) (jsql env (create_step_row i' ns)) (\<lambda>_. True)"
proof (rule replay_steps)
  fix t db x db' assume old: "recorded i r n v (j_steps db)" and c: "create_step_row i' ns t db = (x, db')"
  show "recorded i r n v (j_steps db')"
  proof (cases "db' = db")
    case False
    then have free: "\<forall>s \<in> set (j_steps db). \<not> (sp_id s = i' \<or> sp_run_id s = ns_run_id ns \<and> sp_name s = ns_name ns)"
      and steps: "\<exists>s. sp_id s = i' \<and> sp_run_id s = ns_run_id ns \<and> sp_name s = ns_name ns \<and> j_steps db' = j_steps db @ [s]"
      using c by (auto simp: create_step_row_def Let_def list_ex_iff split: if_splits)
    obtain y where "y \<in> set (j_steps db)" "is_step i r n v y" using old unfolding recorded_def by blast
    then show ?thesis using steps free recorded_append [OF old] by (auto simp: is_step_def)
  qed (use old in simp)
qed

lemma replay_update_step: "i' \<noteq> i \<Longrightarrow> inv (replays i r n v k) (jsql env (update_step_row i' st out e)) (\<lambda>_. True)"
  by (rule replay_steps) (auto simp: update_step_row_def intro!: recorded_update)

lemma replay_start: "inv (replays i r n v k) (execute_start env run_id) (\<lambda>_. True)"
proof -
  have steps: "inv (replays i r n v k) (jsql env (list_steps q)) (\<lambda>ss. q = r \<longrightarrow> step_cache ss n = Some v)" for q
    unfolding list_steps_def
    by (rule replay.inv_rows) (auto simp: replays_def Let_def intro!: step_cache_recorded)
  have sends: "inv (replays i r n v k) (send x) (\<lambda>_. True)" if "iv_run_id x = r \<longrightarrow> iv_step_cache x n = Some v" for x
    using that by (auto simp: inv_def wp_def send_def replays_def)
  have status: "inv (replays i r n v k) (jsql env (update_run_status q st c m)) (\<lambda>_. True)" for q st c m
    by (rule replay_same_steps) (auto simp: update_run_status_def)
  have job: "inv (replays i r n v k) (jsql_some env (find_job_by_id q) e) (\<lambda>_. True)" for q e
    by (rule replay.inv_some) (simp add: find_job_by_id_def replay.inv_plain_rows)
  have run: "inv (replays i r n v k) (jsql_some env (find_run q) e) (\<lambda>_. True)" for q e
    by (rule replay.inv_some) (simp add: replay.inv_reads)
  show ?thesis unfolding execute_start_def
    by (intro inv_bind [OF run] inv_bind [OF job] inv_bind [OF status] inv_bind [OF steps]
        inv_bind [OF replay.inv_reads(9)] inv_bind [OF sends] inv_if inv_ret TrueI) simp
qed

lemmas replay_statements = create_job_row_def create_trigger_row_def delete_trigger_row_def update_trigger_fired_def
  create_run_def insert_run_def insert_from_dlq_def update_run_status_def set_run_sleeping_def increment_run_attempt_def
  move_to_dlq_def delete_dlq_row_def set_state_row_def delete_state_row_def emit_event_row_def consume_event_def
  write_jobs_audit_event_def drop_triggers_def fresh_run_def

lemma replay_queue: "inv (replays i r n v k) (jcache env st) (\<lambda>_. True)"
  by (rule replay.inv_jcache) (simp add: replays_def)

lemma replay_settle: "inv (replays i r n v k) (settle env receipt ok) (\<lambda>_. True)"
  unfolding settle_def by (rule inv_ignore [OF replay_queue])

lemma replay_take: "inv (replays i r n v k) (worker_take env) (\<lambda>_. True)"
  unfolding worker_take_def
  by (intro replay.inv_effects [THEN inv_bind] inv_bind [OF inv_attempt [OF replay_queue]]
      inv_bind [OF inv_attempt [OF replay_start]] replay_settle [THEN inv_bind] inv_sum inv_list inv_option inv_prod
      inv_ret TrueI)

interpretation replay: kept_by_statements "replays i r n v k" env "\<lambda>_. True" "\<lambda>_. True" "\<lambda>_. True" "\<lambda>i'. i' \<noteq> i" False
  for i r n v k env
proof unfold_locales
qed ((simp add: replays_def; fail) | (rule replay_queue replay_settle replay_take replay_create_step; fail) |
  (erule replay_update_step) | (simp add: find_job_def find_job_by_id_def list_sleeping_runs_due_def replay.inv_plain_rows; fail) |
  ((simp only: simp_thms)?, rule replay_same_steps, auto simp: replay_statements Let_def split: if_splits option.splits prod.splits; fail) |
  simp)+

text \<open>
  C11. Completed steps are replayed: once a step of a run is completed with an output, every request that
  any later call sends for that run carries the output under the name of the step, whatever fails,
  retries, sleeps or crashes in between, unless that very step is updated again or a job is deleted.
\<close>

theorem completed_steps_are_replayed:
  assumes "recorded i r n v (j_steps (jw_db w))"
    and "\<forall>c \<in> set calls. allowed env (\<lambda>_. True) (\<lambda>_. True) (\<lambda>i'. i' \<noteq> i) False c"
    and "x \<in> set (drop (length (jw_sent w)) (jw_sent (fst (perform_jobs env calls (w, fl)))))"
    and "iv_run_id x = r"
  shows "iv_step_cache x n = Some v"
proof -
  have "replays i r n v (length (jw_sent w)) (fst (w, fl))" using assms(1) by (simp add: replays_def)
  then have "replays i r n v (length (jw_sent w)) (fst (perform_jobs env calls (w, fl)))"
    by (rule replay.keep_calls [OF assms(2)])
  then show ?thesis using assms(3,4) by (simp add: replays_def)
qed

definition paid_world :: jobs_world where
  "paid_world = sample_jobs_world\<lparr>
     jw_db := sample_jobs_db\<lparr>j_steps := [\<lparr>sp_id = ''s'', sp_run_id = ''r'', sp_name = ''charge'', sp_status = StCompleted,
       sp_input_json = None, sp_output_json = Some (JString ''paid''), sp_attempt = 1, sp_started_at = Some 3,
       sp_finished_at = Some 4, sp_error_message = None\<rparr>]\<rparr>,
     jw_cache := \<lparr>c_queue = [\<lparr>qr_id = ''q'', qr_queue = default_queue, qr_data = ''r'', qr_visible_at = 0,
       qr_attempt = 0, qr_created_at = 0, qr_receipt = None\<rparr>], c_kv = []\<rparr>\<rparr>"

theorem completed_steps_are_replayed_witness:
  "\<exists>x \<in> set (jw_sent (fst (perform_jobs sample_jobs_env [CCreateStep (Some ''r'') ''mail'', CTake] (paid_world, [])))).
     iv_run_id x = ''r'' \<and> iv_step_cache x ''charge'' = Some (JString ''paid'')"
proof -
  let ?calls = "[CCreateStep (Some ''r'') ''mail'', CTake]"
  let ?sent = "jw_sent (fst (perform_jobs sample_jobs_env ?calls (paid_world, [])))"
  have sent: "map iv_run_id ?sent = [''r'']" by code_simp
  then obtain x where x: "x \<in> set ?sent" "iv_run_id x = ''r''" by (cases ?sent) auto
  have "iv_step_cache x ''charge'' = Some (JString ''paid'')"
    by (rule completed_steps_are_replayed [where i = "''s''" and r = "''r''" and w = paid_world and calls = ?calls
          and env = sample_jobs_env and fl = "[]"])
      (use x in \<open>simp_all add: paid_world_def recorded_def is_step_def sample_jobs_world_def\<close>)
  then show ?thesis using x by blast
qed

end
