(* ===== verification/Jobs_Webhook.thy ===== *)
theory Jobs_Webhook
  imports Jobs_Steps
begin

text \<open>
  Webhooks from the creation of the trigger to the run that a request starts, and the dead letter queue
  of other organizations: handlers evaluated where no statement fails.
\<close>

section \<open>Evaluation\<close>

definition never_fails :: "jobs_env \<Rightarrow> bool" where
  "never_fails env \<longleftrightarrow> (\<forall>n. \<not> jx_fails env n)"

abbreviation ticked :: "jobs_world \<Rightarrow> jobs_world" where
  "ticked w \<equiv> w\<lparr>jw_statements := Suc (jw_statements w)\<rparr>"

lemma read_step: "never_fails env \<Longrightarrow> bind (jsql env (rows f)) g w = g (f (jw_db w)) (ticked w)"
  by (simp add: bind_def jsql_def rows_def never_fails_def Let_def)

lemma some_step:
  "never_fails env \<Longrightarrow> f (jw_db w) = Some x \<Longrightarrow> bind (jsql_some env (rows f) e) g w = g x (ticked w)"
  by (simp add: bind_def jsql_some_def jsql_def rows_def never_fails_def Let_def)

lemma sql_step:
  "never_fails env \<Longrightarrow> st (jw_now w) (jw_db w) = (Ok a, db') \<Longrightarrow>
     bind (jsql env st) g w = g a ((ticked w)\<lparr>jw_db := db'\<rparr>)"
  by (simp add: bind_def jsql_def never_fails_def Let_def)

lemma cache_step:
  "never_fails env \<Longrightarrow> st (jw_now w) (jw_cache w) = (Ok a, c') \<Longrightarrow>
     bind (jcache env st) g w = g a ((ticked w)\<lparr>jw_cache := c'\<rparr>)"
  by (simp add: bind_def jcache_def never_fails_def Let_def)

lemma fresh_step: "bind (jfresh f) g w = g (f (jw_fresh w)) (w\<lparr>jw_fresh := Suc (jw_fresh w)\<rparr>)"
  by (simp add: bind_def jfresh_def)

lemma ret_step: "bind (ret a) g w = g a w"
  by (simp add: bind_def)

lemma lift_step: "r = Ok a \<Longrightarrow> bind (lift r) g w = g a w"
  by (simp add: bind_def)

lemma permitted_step: "job_has_permission ctx p \<or> job_has_permission ctx ''*'' \<Longrightarrow> bind (permitted ctx p) g w = g () w"
  by (auto simp: permitted_def lift_step)

lemma audit_result:
  "\<exists>w'. ignore_error (record_audit_event env ctx ty j r d) w = (Ok (), w') \<and>
     (\<exists>log. jw_db w' = (jw_db w)\<lparr>j_audit := log\<rparr>) \<and> jw_cache w' = jw_cache w \<and> jw_sent w' = jw_sent w"
proof -
  have same: "\<exists>log. db = db\<lparr>j_audit := log\<rparr>" for db :: jobs_db by (rule exI [of _ "j_audit db"]) simp
  show ?thesis
    by (auto simp: ignore_error_def record_audit_event_def bind_def jfresh_def jsql_def write_jobs_audit_event_def Let_def
        intro: same)
qed

lemma bind_assoc: "bind (bind m f) g = bind m (\<lambda>a. bind (f a) g)"
  by (rule ext) (auto simp: bind_def split: prod.splits result.splits)

section \<open>Tokens\<close>

text \<open>What the crates promise: decryption and decoding undo encryption and encoding; a nonce has 12 bytes.\<close>

definition crypto_laws :: "jobs_env \<Rightarrow> bool" where
  "crypto_laws env \<longleftrightarrow>
     (\<forall>key n p c. jx_encrypt env key n p = Some c \<longrightarrow> c \<noteq> [] \<and> jx_decrypt env key n c = Some p) \<and>
     (\<forall>b. jx_unbase64 env (jx_base64 env b) = Some b) \<and>
     (\<forall>i. jx_uuid_of_bytes env (jx_uuid_bytes env i) = Some i) \<and> (\<forall>n. length (jx_nonce env n) = 12)"

lemma token_roundtrip:
  assumes "crypto_laws env" "generate_webhook_token env i w = (Ok token, w')"
  shows "decode_webhook_token env token = Ok i"
proof -
  let ?key = "jx_sha256 env (jx_webhook_secret env)" and ?n = "jx_nonce env (jw_fresh w)"
  obtain c where c: "jx_encrypt env ?key ?n (jx_uuid_bytes env i) = Some c" "token = jx_base64 env (?n @ c)"
    using assms(2) by (auto simp: generate_webhook_token_def fresh_step bind_Ok)
  then have "c \<noteq> []" "jx_decrypt env ?key ?n c = Some (jx_uuid_bytes env i)" "length ?n = 12"
    using assms(1) by (auto simp: crypto_laws_def)
  then show ?thesis
    using assms(1) by (cases c) (auto simp: decode_webhook_token_def c(2) crypto_laws_def)
qed

text \<open>The token of a webhook trigger names its job.\<close>

lemma created_webhook:
  assumes "crypto_laws env" "create_trigger env ctx name Webhook config w = (Ok tr, w')"
  shows "\<exists>token. tg_webhook_token tr = Some token \<and> decode_webhook_token env token = Ok (tg_job_id tr) \<and>
    tg_enabled tr"
  using assms(2)
  by (auto simp: create_trigger_def trigger_settings_def bind_Ok jsql_def create_trigger_row_def Let_def
      split: if_splits prod.splits intro: token_roundtrip [OF assms(1)])

text \<open>A request with a token that names a job and belongs to an enabled trigger.\<close>

lemma webhook_starts_run:
  assumes ok: "never_fails env"
    and token: "decode_webhook_token env token = Ok (jb_id j)"
    and job: "find (\<lambda>x. jb_id x = jb_id j) (j_jobs (jw_db w)) = Some j"
    and trigger: "find (\<lambda>x. tg_webhook_token x = Some token) (j_triggers (jw_db w)) = Some tr" "tg_enabled tr"
    and room: "\<not> at_limit (of_nat (active_runs (jb_id j) (jw_db w))) j"
    and size: "length body \<le> jx_max_payload_bytes env"
    and ids: "\<not> has_run (jx_uuid env (jw_fresh w)) (jw_db w)"
      "\<forall>r \<in> set (c_queue (jw_cache w)). qr_id r \<noteq> jx_uuid env (Suc (jw_fresh w))"
    and i: "i = jx_uuid env (jw_fresh w)"
    and nr: "nr = \<lparr>nr_job_id = jb_id j, nr_org_id = jb_org_id j, nr_trigger_id = Some (tg_id tr),
        nr_trigger_kind = Webhook, nr_payload_json = webhook_payload env body,
        nr_max_attempts = jb_retry_max_attempts j\<rparr>"
    and q: "q = \<lparr>qr_id = jx_uuid env (Suc (jw_fresh w)), qr_queue = org_queue (jb_org_id j),
        qr_data = jx_uuid_bytes env i, qr_visible_at = jw_now w, qr_attempt = 0, qr_created_at = jw_now w,
        qr_receipt = None\<rparr>"
  shows "webhook_trigger env token body w = (Ok i,
     w\<lparr>jw_db := (jw_db w)\<lparr>j_runs := j_runs (jw_db w) @ [fresh_run i nr (jw_now w)]\<rparr>,
       jw_cache := (jw_cache w)\<lparr>c_queue := c_queue (jw_cache w) @ [q]\<rparr>,
       jw_fresh := Suc (Suc (jw_fresh w)), jw_statements := jw_statements w + 5\<rparr>)"
proof -
  have has: "has_job (jb_id j) (jw_db w)" "list_ex (\<lambda>x. tg_id x = tg_id tr) (j_triggers (jw_db w))"
    using job trigger(1) by (auto simp: has_job_def list_ex_iff dest: find_mem)
  have created: "create_run i nr (jw_now w) (jw_db w) =
      (Ok (fresh_run i nr (jw_now w)), (jw_db w)\<lparr>j_runs := j_runs (jw_db w) @ [fresh_run i nr (jw_now w)]\<rparr>)"
    using has ids(1) by (simp add: create_run_def insert_run_def fresh_run_def nr i)
  have queued: "enqueue (jw_now w) (jx_uuid env (Suc (jw_fresh w))) (org_queue (jb_org_id j)) (jx_uuid_bytes env i) None (jw_now w)
        (jw_cache w) = (Ok (jx_uuid env (Suc (jw_fresh w))), (jw_cache w)\<lparr>c_queue := c_queue (jw_cache w) @ [q]\<rparr>)"
    using ids(2) by (simp add: enqueue_def list_ex_iff q)
  have id: "ru_id (fresh_run i nr t) = i" for t by (simp add: fresh_run_def)
  note steps = ret_step lift_step some_step [OF ok] read_step [OF ok] fresh_step sql_step [OF ok] cache_step [OF ok]
  show ?thesis
    unfolding webhook_trigger_def new_run_row_def enqueue_run_def find_job_by_id_def get_trigger_by_webhook_token_def
      count_active_runs_def bind_assoc
    by (simp only: lift_step [OF token] some_step [OF ok, of "\<lambda>db. find (\<lambda>x. jb_id x = jb_id j) (j_jobs db)", OF job])
      (simp add: steps trigger room size [THEN leD] created queued id flip: nr i)
qed

lemma find_unique:
  assumes "x \<in> set xs" "P x" "\<forall>y \<in> set xs. P y \<longrightarrow> y = x"
  shows "find P xs = Some x"
proof (cases "find P xs")
  case None
  then show ?thesis using assms(1,2) by (simp add: find_None_iff)
next
  case (Some y)
  then have "y = x" using find_mem assms(3) by metis
  then show ?thesis using Some by simp
qed

text \<open>
  C37. Webhook round trip: the token of a created webhook trigger, decrypted and looked up when a request
  arrives later, names the job of the trigger again. If the trigger is enabled, the job has room and the
  body is small enough, the request starts one pending run of that job and trigger with the body as its payload,
  for the organization of the job, and puts it into that organization's queue.
\<close>

theorem webhook_roundtrip:
  assumes "never_fails env" and "crypto_laws env"
    and "create_trigger env ctx name Webhook config w0 = (Ok tr, w1)"
    and "tr \<in> set (j_triggers (jw_db w))"
    and "\<forall>x \<in> set (j_triggers (jw_db w)). tg_webhook_token x = tg_webhook_token tr \<longrightarrow> x = tr"
    and "j \<in> set (j_jobs (jw_db w))" and "jb_id j = tg_job_id tr"
    and "\<forall>x \<in> set (j_jobs (jw_db w)). jb_id x = jb_id j \<longrightarrow> x = j"
    and "\<not> at_limit (of_nat (active_runs (jb_id j) (jw_db w))) j"
    and "length body \<le> jx_max_payload_bytes env"
    and "\<not> has_run (jx_uuid env (jw_fresh w)) (jw_db w)"
    and "\<forall>r \<in> set (c_queue (jw_cache w)). qr_id r \<noteq> jx_uuid env (Suc (jw_fresh w))"
  shows "\<exists>token i w' r. tg_webhook_token tr = Some token \<and> webhook_trigger env token body w = (Ok i, w') \<and>
     j_runs (jw_db w') = j_runs (jw_db w) @ [r] \<and>
     ru_id r = i \<and> ru_job_id r = tg_job_id tr \<and> ru_org_id r = jb_org_id j \<and> ru_trigger_id r = Some (tg_id tr) \<and>
     ru_status r = Pending \<and> ru_payload_json r = webhook_payload env body \<and>
     (\<exists>q. c_queue (jw_cache w') = c_queue (jw_cache w) @ [q] \<and> qr_queue q = org_queue (jb_org_id j) \<and>
        qr_data q = jx_uuid_bytes env i \<and> qr_receipt q = None)"
proof -
  obtain token where token: "tg_webhook_token tr = Some token" "decode_webhook_token env token = Ok (jb_id j)"
      "tg_enabled tr"
    using created_webhook [OF assms(2,3)] assms(7) by auto
  have job: "find (\<lambda>x. jb_id x = jb_id j) (j_jobs (jw_db w)) = Some j"
    by (rule find_unique [OF assms(6) refl assms(8)])
  have trigger: "find (\<lambda>x. tg_webhook_token x = Some token) (j_triggers (jw_db w)) = Some tr"
    by (rule find_unique [OF assms(4)], rule token(1), unfold token(1) [symmetric], rule assms(5))
  note eq = webhook_starts_run [OF assms(1) token(2) job trigger token(3) assms(9-12) refl refl refl]
  let ?nr = "\<lparr>nr_job_id = jb_id j, nr_org_id = jb_org_id j, nr_trigger_id = Some (tg_id tr),
      nr_trigger_kind = Webhook, nr_payload_json = webhook_payload env body,
      nr_max_attempts = jb_retry_max_attempts j\<rparr>"
  show ?thesis
    by (rule exI [of _ token], rule exI [of _ "jx_uuid env (jw_fresh w)"], rule exI,
        rule exI [of _ "fresh_run (jx_uuid env (jw_fresh w)) ?nr (jw_now w)"],
        intro conjI, rule token(1), rule eq) (simp_all add: fresh_run_def assms(7))
qed

definition hooked :: "trigger \<times> jobs_world" where
  "hooked = (case create_trigger sample_jobs_env (sample_ctx ''g'') ''mail'' Webhook JNull sample_jobs_world of
     (Ok tr, w) \<Rightarrow> (tr, w) | (_, w) \<Rightarrow> (sample_trigger ''t'' Manual JNull, w))"


lemma hooked_result:
  "create_trigger sample_jobs_env (sample_ctx ''g'') ''mail'' Webhook JNull sample_jobs_world = (Ok (fst hooked), snd hooked)"
proof -
  have "case fst (create_trigger sample_jobs_env (sample_ctx ''g'') ''mail'' Webhook JNull sample_jobs_world) of
      Ok _ \<Rightarrow> True | _ \<Rightarrow> False" by code_simp
  then show ?thesis by (auto simp: hooked_def split: result.splits prod.splits)
qed

lemma hooked_value:
  "j_triggers (jw_db (snd hooked)) = j_triggers sample_jobs_db @ [fst hooked]"
  "tg_webhook_token (fst hooked) = Some ''nnnnnnnnnnnntj''" "tg_job_id (fst hooked) = ''j''" "tg_id (fst hooked) = ''uu''"
  "j_jobs (jw_db (snd hooked)) = [sample_job ''j'' ''g'', sample_job ''k'' ''h'']"
  "j_runs (jw_db (snd hooked)) = [sample_run ''r'' ''j'' ''g'' Pending]" "c_queue (jw_cache (snd hooked)) = []"
  "jw_fresh (snd hooked) = 3"
  by code_simp+

theorem webhook_roundtrip_witness:
  "\<exists>i w' r. webhook_trigger sample_jobs_env ''nnnnnnnnnnnntj'' ''hello'' (snd hooked) = (Ok i, w') \<and>
     j_runs (jw_db w') = [sample_run ''r'' ''j'' ''g'' Pending, r] \<and> ru_job_id r = ''j'' \<and> ru_trigger_id r = Some ''uu'' \<and>
     ru_payload_json r = JObject [(''raw'', JString ''hello'')]"
proof -
  have "never_fails sample_jobs_env" "crypto_laws sample_jobs_env"
    by (auto simp: never_fails_def crypto_laws_def sample_jobs_env_def)
  note roundtrip = webhook_roundtrip [OF this hooked_result, of "snd hooked" "sample_job ''j'' ''g''" "''hello''"]
  have "webhook_payload sample_jobs_env ''hello'' = JObject [(''raw'', JString ''hello'')]"
    by (simp add: webhook_payload_def sample_jobs_env_def)
  moreover have "\<not> (2 :: i32) \<le> 1" by code_simp
  ultimately show ?thesis
    using roundtrip
    by (simp add: hooked_value sample_jobs_db_def sample_trigger_def sample_job_def sample_run_def at_limit_def
        active_runs_def count_rows_def active_def has_run_def sample_jobs_env_def) blast
qed

section \<open>Dead letters of other organizations\<close>

lemma find_last: "find P xs = None \<Longrightarrow> P x \<Longrightarrow> find P (xs @ [x]) = Some x"
  by (induction xs) (auto split: if_splits)

lemma delete_dlq_result:
  assumes ok: "never_fails env" and perm: "job_has_permission ctx (job_permission name ''admin'')"
    and job: "find (\<lambda>j. jb_org_id j = jc_org_id ctx \<and> jb_name j = name) (j_jobs (jw_db w)) = Some j"
  shows "\<exists>w'. delete_dlq env ctx name d w = (Ok (), w') \<and>
     j_dlq (jw_db w') = filter (\<lambda>x. dl_id x \<noteq> d) (j_dlq (jw_db w))"
proof -
  let ?w = "(ticked (ticked w))\<lparr>jw_db := (jw_db w)\<lparr>j_dlq := filter (\<lambda>x. dl_id x \<noteq> d) (j_dlq (jw_db w))\<rparr>\<rparr>"
  let ?audit = "ignore_error (record_audit_event env ctx ''dlq.delete'' (Some (jb_id j)) None
      (JObject [(''dlq_id'', JString d)])) :: unit jobs_act"
  have "delete_dlq_row d (jw_now w) (jw_db w) = (Ok (), (jw_db w)\<lparr>j_dlq := filter (\<lambda>x. dl_id x \<noteq> d) (j_dlq (jw_db w))\<rparr>)"
    by (simp add: delete_dlq_row_def)
  then have "delete_dlq env ctx name d w = ?audit ?w"
    unfolding delete_dlq_def job_of_def find_job_def
    using job by (simp add: permitted_step [OF disjI1 [OF perm]] some_step [OF ok] sql_step [OF ok])
  then show ?thesis using audit_result [of env ctx "''dlq.delete''" "Some (jb_id j)" None _ ?w] by fastforce
qed

lemma retry_dlq_result:
  assumes ok: "never_fails env" and perm: "job_has_permission ctx (job_permission name ''admin'')"
    and job: "find (\<lambda>j. jb_org_id j = jc_org_id ctx \<and> jb_name j = name) (j_jobs (jw_db w)) = Some j"
    and entry: "find (\<lambda>x. dl_id x = d) (j_dlq (jw_db w)) = Some e"
    and its_job: "find (\<lambda>x. jb_id x = dl_job_id e) (j_jobs (jw_db w)) = Some j'"
    and ids: "\<not> has_run (jx_uuid env (jw_fresh w)) (jw_db w)"
      "\<forall>r \<in> set (c_queue (jw_cache w)). qr_id r \<noteq> jx_uuid env (Suc (jw_fresh w))"
    and i: "i = jx_uuid env (jw_fresh w)"
  shows "\<exists>w' r. retry_dlq env ctx name d w = (Ok r, w') \<and> r \<in> set (j_runs (jw_db w')) \<and>
     ru_id r = i \<and> ru_job_id r = dl_job_id e \<and> ru_org_id r = dl_org_id e \<and> ru_payload_json r = dl_payload_json e \<and>
     j_dlq (jw_db w') = filter (\<lambda>x. dl_id x \<noteq> d) (j_dlq (jw_db w)) \<and>
     (\<exists>q. c_queue (jw_cache w') = c_queue (jw_cache w) @ [q] \<and> qr_queue q = org_queue (jc_org_id ctx) \<and>
        qr_data q = jx_uuid_bytes env i)"
proof -
  define r where "r = fresh_run i
    \<lparr>nr_job_id = dl_job_id e, nr_org_id = dl_org_id e, nr_trigger_id = None, nr_trigger_kind = Manual,
     nr_payload_json = dl_payload_json e, nr_max_attempts = jb_retry_max_attempts j'\<rparr> (jw_now w)"
  define db1 where "db1 = (jw_db w)\<lparr>j_runs := j_runs (jw_db w) @ [r]\<rparr>"
  define db2 where "db2 = db1\<lparr>j_dlq := filter (\<lambda>x. dl_id x \<noteq> d) (j_dlq (jw_db w))\<rparr>"
  define q where "q = \<lparr>qr_id = jx_uuid env (Suc (jw_fresh w)), qr_queue = org_queue (jc_org_id ctx),
      qr_data = jx_uuid_bytes env i, qr_visible_at = jw_now w, qr_attempt = 0, qr_created_at = jw_now w,
      qr_receipt = None\<rparr>"
  let ?audit = "ignore_error (record_audit_event env ctx ''dlq.retry'' (Some (jb_id j)) (Some i)
      (JObject [(''dlq_id'', JString d)])) :: unit jobs_act"
  let ?w = "w\<lparr>jw_db := db2, jw_fresh := Suc (Suc (jw_fresh w)),
      jw_statements := Suc (Suc (Suc (Suc (jw_statements w)))), jw_cache := (jw_cache w)\<lparr>c_queue := c_queue (jw_cache w) @ [q]\<rparr>\<rparr>"
  have "has_job (dl_job_id e) (jw_db w)" using find_mem [OF its_job] by (auto simp: has_job_def list_ex_iff)
  then have insert: "insert_from_dlq i d (jw_now w) (jw_db w) = (Ok (), db1)"
    using entry its_job ids(1)
    by (simp add: insert_from_dlq_def create_run_def insert_run_def fresh_run_def r_def db1_def i)
  have delete: "delete_dlq_row d (jw_now w) db1 = (Ok (), db2)"
    by (simp add: delete_dlq_row_def db1_def db2_def)
  have queued: "enqueue (jw_now w) (jx_uuid env (Suc (jw_fresh w))) (org_queue (jc_org_id ctx)) (jx_uuid_bytes env i) None (jw_now w)
        (jw_cache w) = (Ok (jx_uuid env (Suc (jw_fresh w))), (jw_cache w)\<lparr>c_queue := c_queue (jw_cache w) @ [q]\<rparr>)"
    using ids(2) by (simp add: enqueue_def list_ex_iff q_def)
  have run: "retry_dlq env ctx name d w =
      bind ?audit (\<lambda>_. jsql_some env (find_run i) (JobsInternal ''failed to get created run'')) ?w"
    unfolding retry_dlq_def job_of_def find_job_def retry_from_dlq_def enqueue_run_def bind_assoc
    by (simp add: permitted_step [OF disjI1 [OF perm]] some_step [OF ok] job
        sql_step [OF ok] cache_step [OF ok] insert delete queued fresh_step ret_step flip: i)
  obtain w3 log where a: "?audit ?w = (Ok (), w3)" "jw_db w3 = (jw_db ?w)\<lparr>j_audit := log\<rparr>" "jw_cache w3 = jw_cache ?w"
    using audit_result [of env ctx "''dlq.retry''" "Some (jb_id j)" "Some i" "JObject [(''dlq_id'', JString d)]" ?w]
    by blast
  have "ru_id r = i" by (simp add: r_def fresh_run_def)
  moreover have "find (\<lambda>x. ru_id x = i) (j_runs (jw_db w)) = None"
    using ids(1) by (auto simp: find_None_iff has_run_def list_ex_iff i)
  ultimately have "find (\<lambda>x. ru_id x = i) (j_runs (jw_db w3)) = Some r"
    by (simp add: a(2) db2_def db1_def find_last)
  then have "retry_dlq env ctx name d w = (Ok r, ticked w3)"
    using a(1) ok by (simp add: run bind_def jsql_some_def find_run_def rows_def jsql_def never_fails_def Let_def)
  then show ?thesis
    by (intro exI [of _ "ticked w3"] exI [of _ r]) (use a in \<open>simp add: db2_def db1_def q_def r_def fresh_run_def\<close>)
qed

text \<open>
  Dead letters are not bound to their organization: with an own job of any name that it may
  administer, an organization can delete a dead letter of another one, or retry it, which takes it away,
  starts a run of the other organization's job with the stored payload and puts it into the caller's own
  queue. The handlers check the job of the path but never compare it with the entry.
\<close>

theorem foreign_dead_letters:
  assumes "never_fails env" and "job_has_permission ctx (job_permission name ''admin'')"
    and "find (\<lambda>j. jb_org_id j = jc_org_id ctx \<and> jb_name j = name) (j_jobs (jw_db w)) = Some j"
    and "find (\<lambda>x. dl_id x = d) (j_dlq (jw_db w)) = Some e" and "dl_org_id e \<noteq> jc_org_id ctx"
    and "find (\<lambda>x. jb_id x = dl_job_id e) (j_jobs (jw_db w)) = Some j'"
    and "\<not> has_run (jx_uuid env (jw_fresh w)) (jw_db w)"
    and "\<forall>r \<in> set (c_queue (jw_cache w)). qr_id r \<noteq> jx_uuid env (Suc (jw_fresh w))"
  shows "(\<exists>w'. delete_dlq env ctx name d w = (Ok (), w') \<and>
       j_dlq (jw_db w') = filter (\<lambda>x. dl_id x \<noteq> d) (j_dlq (jw_db w))) \<and>
     (\<exists>w' r q. retry_dlq env ctx name d w = (Ok r, w') \<and> r \<in> set (j_runs (jw_db w')) \<and>
       ru_job_id r = dl_job_id e \<and> ru_org_id r \<noteq> jc_org_id ctx \<and> ru_payload_json r = dl_payload_json e \<and>
       j_dlq (jw_db w') = filter (\<lambda>x. dl_id x \<noteq> d) (j_dlq (jw_db w)) \<and>
       c_queue (jw_cache w') = c_queue (jw_cache w) @ [q] \<and> qr_queue q = org_queue (jc_org_id ctx))"
  using delete_dlq_result [OF assms(1-3), of d] retry_dlq_result [OF assms(1-4,6-8) refl] assms(5) by fastforce

theorem foreign_dead_letters_witness:
  "(\<exists>w'. delete_dlq sample_jobs_env (sample_ctx ''g'') ''mail'' ''d'' sample_jobs_world = (Ok (), w') \<and>
      j_dlq (jw_db w') = []) \<and>
   (\<exists>w' r. retry_dlq sample_jobs_env (sample_ctx ''g'') ''mail'' ''d'' sample_jobs_world = (Ok r, w') \<and>
      ru_job_id r = ''k'' \<and> j_dlq (jw_db w') = [])"
proof -
  have "never_fails sample_jobs_env" "job_has_permission (sample_ctx ''g'') (job_permission ''mail'' ''admin'')"
    by (simp add: never_fails_def sample_jobs_env_def, code_simp)
  note foreign = foreign_dead_letters [OF this, of sample_jobs_world "sample_job ''j'' ''g''" "''d''"
    "hd (j_dlq sample_jobs_db)" "sample_job ''k'' ''h''"]
  show ?thesis
    using foreign
    by (simp add: sample_jobs_world_def sample_jobs_db_def sample_job_def sample_run_def sample_ctx_def has_run_def
        sample_jobs_env_def) blast
qed

end
