(* ===== verification/Storage_Store.thy ===== *)
theory Storage_Store
  imports Computation Core_Auth F64 "HOL-Library.List_Lexorder" "HOL-Library.Char_ord"
begin

text \<open>
  The metadata of the storage service (\<open>crates/reactor-storage/src/store/metadata.rs\<close>): buckets, objects,
  policies and multipart uploads as lists of rows with the keys and references of its migrations, and the
  errors of the service (\<open>error.rs\<close>). A statement takes the instant of the database and the tables.
\<close>

section \<open>Errors (error.rs)\<close>

datatype io_error = IoNotFound | IoExists | IoNotDir | IoIsDir | IoOther

datatype storage_error =
    StNotFound string | BucketNotFound string | BucketExists string | StPermissionDenied string
  | StInvalidRequest string | StAuthRequired | InvalidSignature | SignatureExpired | TooLarge nat nat
  | StDatabase | StIo io_error | StInternal string

fun storage_status :: "storage_error \<Rightarrow> nat" where
  "storage_status (StNotFound m) = 404"
| "storage_status (BucketNotFound m) = 404"
| "storage_status (BucketExists m) = 409"
| "storage_status (StPermissionDenied m) = 403"
| "storage_status (StInvalidRequest m) = 400"
| "storage_status StAuthRequired = 401"
| "storage_status InvalidSignature = 403"
| "storage_status SignatureExpired = 403"
| "storage_status (TooLarge n m) = 413"
| "storage_status StDatabase = 500"
| "storage_status (StIo e) = 500"
| "storage_status (StInternal m) = 500"

section \<open>Records\<close>

record bucket =
  bk_id :: uuid
  bk_org_id :: uuid
  bk_slug :: string
  bk_is_public :: bool
  bk_created_at :: instant
  bk_updated_at :: instant
  bk_created_by :: "uuid option"

record bucket_create =
  bc_org_id :: uuid
  bc_slug :: string
  bc_is_public :: bool
  bc_created_by :: "uuid option"

record object_row =
  ob_id :: uuid
  ob_bucket_id :: uuid
  ob_key :: string
  ob_content_type :: "string option"
  ob_content_length :: i64
  ob_etag :: "string option"
  ob_metadata :: json
  ob_created_at :: instant
  ob_updated_at :: instant
  ob_created_by :: "uuid option"

record object_create =
  oc_bucket_id :: uuid
  oc_key :: string
  oc_content_type :: "string option"
  oc_content_length :: i64
  oc_etag :: "string option"
  oc_metadata :: json
  oc_created_by :: "uuid option"

record bucket_policy =
  bp_id :: int
  bp_bucket_id :: uuid
  bp_name :: string
  bp_scopes :: "string list"
  bp_using_ast :: "json option"
  bp_check_ast :: "json option"
  bp_created_at :: instant
  bp_created_by :: "uuid option"

record multipart_upload =
  mu_id :: uuid
  mu_bucket_id :: uuid
  mu_key :: string
  mu_content_type :: "string option"
  mu_metadata :: json
  mu_created_at :: instant
  mu_created_by :: "uuid option"
  mu_expires_at :: "instant option"

record multipart_part =
  mp_upload_id :: uuid
  mp_part_number :: "32 word"
  mp_etag :: string
  mp_size :: i64
  mp_uploaded_at :: instant

record storage_db =
  s_buckets :: "bucket list"
  s_objects :: "object_row list"
  s_policies :: "bucket_policy list"
  s_uploads :: "multipart_upload list"
  s_parts :: "multipart_part list"

type_synonym 'a storage_statement =
  "instant \<Rightarrow> storage_db \<Rightarrow> ('a, storage_error) result \<times> storage_db"

definition select_st :: "(storage_db \<Rightarrow> 'a) \<Rightarrow> 'a storage_statement" where
  "select_st f t db = (Ok (f db), db)"

section \<open>Buckets\<close>

definition create_bucket_row :: "uuid \<Rightarrow> bucket_create \<Rightarrow> bucket storage_statement" where
  "create_bucket_row i c t db =
     (let b = \<lparr>bk_id = i, bk_org_id = bc_org_id c, bk_slug = bc_slug c, bk_is_public = bc_is_public c,
               bk_created_at = t, bk_updated_at = t, bk_created_by = bc_created_by c\<rparr> in
      if list_ex (\<lambda>r. bk_id r = i \<or> (bk_org_id r = bc_org_id c \<and> bk_slug r = bc_slug c)) (s_buckets db)
      then (Err (BucketExists (bc_slug c)), db)
      else (Ok b, db\<lparr>s_buckets := s_buckets db @ [b]\<rparr>))"

definition find_bucket :: "uuid \<Rightarrow> bucket option storage_statement" where
  "find_bucket i = select_st (\<lambda>db. find (\<lambda>b. bk_id b = i) (s_buckets db))"

definition bucket_by_slug :: "uuid \<Rightarrow> string \<Rightarrow> storage_db \<Rightarrow> bucket option" where
  "bucket_by_slug org_id slug db = find (\<lambda>b. bk_org_id b = org_id \<and> bk_slug b = slug) (s_buckets db)"

definition get_bucket_by_slug :: "uuid \<Rightarrow> string \<Rightarrow> bucket option storage_statement" where
  "get_bucket_by_slug org_id slug = select_st (bucket_by_slug org_id slug)"

definition list_bucket_rows :: "uuid \<Rightarrow> bucket list storage_statement" where
  "list_bucket_rows org_id = select_st (\<lambda>db. sort_key bk_slug (filter (\<lambda>b. bk_org_id b = org_id) (s_buckets db)))"

definition update_bucket_row :: "uuid \<Rightarrow> bool option \<Rightarrow> bucket storage_statement" where
  "update_bucket_row i is_public t db =
     (let rows = (case is_public of
                    Some public \<Rightarrow> update_rows (\<lambda>b. bk_id b = i)
                      (\<lambda>b. b\<lparr>bk_is_public := public, bk_updated_at := t\<rparr>) (s_buckets db)
                  | None \<Rightarrow> s_buckets db) in
      (ok_or (BucketNotFound i) (find (\<lambda>b. bk_id b = i) rows), db\<lparr>s_buckets := rows\<rparr>))"

text \<open>Deleting a bucket cascades to its objects, policies and uploads, and through these to their parts.\<close>

definition delete_bucket_row :: "uuid \<Rightarrow> unit storage_statement" where
  "delete_bucket_row i t db =
     (if count_rows (\<lambda>b. bk_id b = i) (s_buckets db) = 0 then (Err (BucketNotFound i), db)
      else (Ok (), db\<lparr>s_buckets := filter (\<lambda>b. bk_id b \<noteq> i) (s_buckets db),
        s_objects := filter (\<lambda>r. ob_bucket_id r \<noteq> i) (s_objects db),
        s_policies := filter (\<lambda>p. bp_bucket_id p \<noteq> i) (s_policies db),
        s_uploads := filter (\<lambda>u. mu_bucket_id u \<noteq> i) (s_uploads db),
        s_parts := filter (\<lambda>p. \<not> list_ex (\<lambda>u. mu_id u = mp_upload_id p \<and> mu_bucket_id u = i) (s_uploads db))
          (s_parts db)\<rparr>))"

section \<open>Objects\<close>

definition upsert_object :: "uuid \<Rightarrow> object_create \<Rightarrow> object_row storage_statement" where
  "upsert_object i c t db =
     (let here = (\<lambda>r. ob_bucket_id r = oc_bucket_id c \<and> ob_key r = oc_key c);
          fresh_row = \<lparr>ob_id = i, ob_bucket_id = oc_bucket_id c, ob_key = oc_key c,
            ob_content_type = oc_content_type c, ob_content_length = oc_content_length c, ob_etag = oc_etag c,
            ob_metadata = oc_metadata c, ob_created_at = t, ob_updated_at = t, ob_created_by = oc_created_by c\<rparr>;
          change = (\<lambda>r. r\<lparr>ob_content_type := oc_content_type c, ob_content_length := oc_content_length c,
            ob_etag := oc_etag c, ob_metadata := oc_metadata c, ob_updated_at := t\<rparr>) in
      case find here (s_objects db) of
        Some r \<Rightarrow> (Ok (change r), db\<lparr>s_objects := update_rows here change (s_objects db)\<rparr>)
      | None \<Rightarrow>
          if list_ex (\<lambda>r. ob_id r = i) (s_objects db) \<or> \<not> list_ex (\<lambda>b. bk_id b = oc_bucket_id c) (s_buckets db)
          then (Err StDatabase, db)
          else (Ok fresh_row, db\<lparr>s_objects := s_objects db @ [fresh_row]\<rparr>))"

definition find_object :: "uuid \<Rightarrow> object_row option storage_statement" where
  "find_object i = select_st (\<lambda>db. find (\<lambda>r. ob_id r = i) (s_objects db))"

definition get_object_by_key :: "uuid \<Rightarrow> string \<Rightarrow> object_row option storage_statement" where
  "get_object_by_key bucket_id key =
     select_st (\<lambda>db. find (\<lambda>r. ob_bucket_id r = bucket_id \<and> ob_key r = key) (s_objects db))"

text \<open>
  \<open>LIKE\<close>: \<open>%\<close> is any text, \<open>_\<close> any character (a byte here), a backslash takes the next character literally;
  a pattern that ends in one is an error when the match gets to it.
\<close>

fun sql_like :: "string \<Rightarrow> string \<Rightarrow> bool" where
  "sql_like s [] = (s = [])"
| "sql_like s (p # ps) =
     (if p = CHR ''%'' then sql_like s ps \<or> (case s of [] \<Rightarrow> False | c # cs \<Rightarrow> sql_like cs (p # ps))
      else case s of [] \<Rightarrow> False
      | c # cs \<Rightarrow>
          if p = CHR ''_'' then sql_like cs ps
          else if p = CHR 0x5C then (case ps of [] \<Rightarrow> False | q # qs \<Rightarrow> c = q \<and> sql_like cs qs)
          else c = p \<and> sql_like cs ps)"

definition list_object_rows :: "uuid \<Rightarrow> string option \<Rightarrow> int \<Rightarrow> int \<Rightarrow> object_row list storage_statement" where
  "list_object_rows bucket_id prefix limit offset t db =
     (if limit < 0 \<or> offset < 0 then (Err StDatabase, db)
      else (Ok (take (nat limit) (drop (nat offset) (sort_key ob_key (filter (\<lambda>r. ob_bucket_id r = bucket_id \<and>
          (case prefix of None \<Rightarrow> True | Some p \<Rightarrow> sql_like (ob_key r) (p @ ''%''))) (s_objects db))))), db))"

definition delete_object_row :: "uuid \<Rightarrow> unit storage_statement" where
  "delete_object_row i t db =
     (if count_rows (\<lambda>r. ob_id r = i) (s_objects db) = 0 then (Err (StNotFound i), db)
      else (Ok (), db\<lparr>s_objects := filter (\<lambda>r. ob_id r \<noteq> i) (s_objects db)\<rparr>))"

definition list_policies :: "uuid \<Rightarrow> bucket_policy list storage_statement" where
  "list_policies bucket_id =
     select_st (\<lambda>db. sort_key bp_name (filter (\<lambda>p. bp_bucket_id p = bucket_id) (s_policies db)))"

section \<open>Multipart uploads\<close>

definition insert_upload :: "uuid \<Rightarrow> uuid \<Rightarrow> string \<Rightarrow> uuid option \<Rightarrow> string option \<Rightarrow> multipart_upload storage_statement" where
  "insert_upload i bucket_id key created_by content_type t db =
     (let u = \<lparr>mu_id = i, mu_bucket_id = bucket_id, mu_key = key, mu_content_type = content_type,
               mu_metadata = JObject [], mu_created_at = t, mu_created_by = created_by, mu_expires_at = None\<rparr> in
      if list_ex (\<lambda>r. mu_id r = i) (s_uploads db) \<or> \<not> list_ex (\<lambda>b. bk_id b = bucket_id) (s_buckets db)
      then (Err StDatabase, db)
      else (Ok u, db\<lparr>s_uploads := s_uploads db @ [u]\<rparr>))"

definition find_upload :: "uuid \<Rightarrow> uuid \<Rightarrow> multipart_upload option storage_statement" where
  "find_upload bucket_id i = select_st (\<lambda>db. find (\<lambda>u. mu_bucket_id u = bucket_id \<and> mu_id u = i) (s_uploads db))"

definition upsert_part :: "uuid \<Rightarrow> 32 word \<Rightarrow> string \<Rightarrow> i64 \<Rightarrow> multipart_part storage_statement" where
  "upsert_part i part_number etag len t db =
     (let here = (\<lambda>p. mp_upload_id p = i \<and> mp_part_number p = part_number);
          part = \<lparr>mp_upload_id = i, mp_part_number = part_number, mp_etag = etag, mp_size = len, mp_uploaded_at = t\<rparr> in
      if list_ex here (s_parts db) then (Ok part, db\<lparr>s_parts := update_rows here (\<lambda>_. part) (s_parts db)\<rparr>)
      else if \<not> list_ex (\<lambda>u. mu_id u = i) (s_uploads db) then (Err StDatabase, db)
      else (Ok part, db\<lparr>s_parts := s_parts db @ [part]\<rparr>))"

definition parts_of :: "uuid \<Rightarrow> multipart_part list storage_statement" where
  "parts_of i = select_st (\<lambda>db. sort_key (\<lambda>p. sint (mp_part_number p)) (filter (\<lambda>p. mp_upload_id p = i) (s_parts db)))"

definition delete_parts :: "uuid \<Rightarrow> unit storage_statement" where
  "delete_parts i t db = (Ok (), db\<lparr>s_parts := filter (\<lambda>p. mp_upload_id p \<noteq> i) (s_parts db)\<rparr>)"

text \<open>The number of deleted rows; the parts of a deleted upload go with it.\<close>

definition delete_upload :: "uuid \<Rightarrow> uuid \<Rightarrow> nat storage_statement" where
  "delete_upload bucket_id i t db =
     (let gone = (\<lambda>u. mu_bucket_id u = bucket_id \<and> mu_id u = i) in
      (Ok (count_rows gone (s_uploads db)),
       db\<lparr>s_uploads := filter (\<lambda>u. \<not> gone u) (s_uploads db),
          s_parts := filter (\<lambda>p. \<not> list_ex (\<lambda>u. mu_id u = mp_upload_id p \<and> gone u) (s_uploads db)) (s_parts db)\<rparr>))"

end
