(* ===== verification/Storage_Fs.thy ===== *)
theory Storage_Fs
  imports Storage_Store Policy_Ast
begin

text \<open>
  The filesystem backend of the storage service (\<open>crates/reactor-storage/src/fs.rs\<close>) over a model of the
  file system without links: a directory or a file at every absolute path, and paths resolved by the operating
  system component by component. A path is its list of components between slashes, before any
  normalisation, so that \<open>..\<close>, \<open>.\<close> and empty components are in it.

  The world of the service holds the tables, the files, the clock and the supply of identifiers. Every
  statement and every file operation may fail (\<open>sx_fails\<close> counts both).
\<close>

section \<open>The file system\<close>

datatype fs_node = Dir | File string

type_synonym path = "string list"
type_synonym fsys = "path \<Rightarrow> fs_node option"

fun walk :: "fsys \<Rightarrow> path \<Rightarrow> path \<Rightarrow> (path, io_error) result" where
  "walk fs cur [] = Ok cur"
| "walk fs cur (c # cs) =
     (case fs cur of
        None \<Rightarrow> Err IoNotFound
      | Some (File d) \<Rightarrow> Err IoNotDir
      | Some Dir \<Rightarrow>
          if c = '''' \<or> c = ''.'' then walk fs cur cs
          else if c = ''..'' then walk fs (butlast cur) cs
          else walk fs (cur @ [c]) cs)"

definition resolve :: "fsys \<Rightarrow> path \<Rightarrow> (path, io_error) result" where
  "resolve fs p = walk fs [] p"

text \<open>\<open>Path::join\<close>: an absolute text replaces the path.\<close>

definition join_path :: "path \<Rightarrow> string \<Rightarrow> path" where
  "join_path p s = (if starts_with ''/'' s then split_char CHR ''/'' s else p @ split_char CHR ''/'' s)"

text \<open>\<open>Path::parent\<close> and \<open>Path::components\<close> pass over empty components and dots.\<close>

definition proper :: "path \<Rightarrow> path" where
  "proper p = filter (\<lambda>c. c \<noteq> '''' \<and> c \<noteq> ''.'') p"

definition node_at :: "fsys \<Rightarrow> path \<Rightarrow> fs_node option" where
  "node_at fs p = (case resolve fs p of Ok q \<Rightarrow> fs q | _ \<Rightarrow> None)"

type_synonym 'a fs_op = "fsys \<Rightarrow> ('a, io_error) result \<times> fsys"

definition mkdir :: "path \<Rightarrow> unit fs_op" where
  "mkdir p fs =
     (case resolve fs p of
        Ok q \<Rightarrow> (case fs q of None \<Rightarrow> (Ok (), fs(q \<mapsto> Dir)) | Some _ \<Rightarrow> (Err IoExists, fs))
      | Err e \<Rightarrow> (Err e, fs) | _ \<Rightarrow> (Err IoOther, fs))"

text \<open>\<open>std::fs::create_dir_all\<close> on the components of a path, the last one first.\<close>

fun mkdirs :: "path \<Rightarrow> unit fs_op" where
  "mkdirs [] fs = (Ok (), fs)"
| "mkdirs (c # up) fs =
     (let p = rev (c # up) in
      case mkdir p fs of
        (Ok _, fs') \<Rightarrow> (Ok (), fs')
      | (Err IoNotFound, _) \<Rightarrow>
          (case mkdirs up fs of
             (Ok _, fs1) \<Rightarrow>
               (case mkdir p fs1 of
                  (Ok _, fs2) \<Rightarrow> (Ok (), fs2)
                | (r, _) \<Rightarrow> (if node_at fs1 p = Some Dir then Ok () else r, fs1))
           | (r, fs1) \<Rightarrow> (r, fs1))
      | (r, _) \<Rightarrow> (if node_at fs p = Some Dir then Ok () else r, fs))"

definition create_dir_all :: "path \<Rightarrow> unit fs_op" where
  "create_dir_all p = mkdirs (rev (proper p))"

definition write_file :: "path \<Rightarrow> string \<Rightarrow> unit fs_op" where
  "write_file p data fs =
     (case resolve fs p of
        Ok q \<Rightarrow> (case fs q of Some Dir \<Rightarrow> (Err IoIsDir, fs) | _ \<Rightarrow> (Ok (), fs(q \<mapsto> File data)))
      | Err e \<Rightarrow> (Err e, fs) | _ \<Rightarrow> (Err IoOther, fs))"

text \<open>Reading a directory fails, and a directory is never empty for \<open>metadata\<close>: it has the length \<open>4096\<close>.\<close>

definition read_file :: "path \<Rightarrow> string fs_op" where
  "read_file p fs =
     (case resolve fs p of
        Ok q \<Rightarrow> (case fs q of Some (File d) \<Rightarrow> (Ok d, fs) | Some Dir \<Rightarrow> (Err IoIsDir, fs) | None \<Rightarrow> (Err IoNotFound, fs))
      | Err e \<Rightarrow> (Err e, fs) | _ \<Rightarrow> (Err IoOther, fs))"

definition file_length :: "path \<Rightarrow> nat fs_op" where
  "file_length p fs =
     (case resolve fs p of
        Ok q \<Rightarrow> (case fs q of Some (File d) \<Rightarrow> (Ok (length d), fs) | Some Dir \<Rightarrow> (Ok 4096, fs) | None \<Rightarrow> (Err IoNotFound, fs))
      | Err e \<Rightarrow> (Err e, fs) | _ \<Rightarrow> (Err IoOther, fs))"

definition remove_file :: "path \<Rightarrow> unit fs_op" where
  "remove_file p fs =
     (case resolve fs p of
        Ok q \<Rightarrow> (case fs q of
            Some (File d) \<Rightarrow> (Ok (), fs(q := None)) | Some Dir \<Rightarrow> (Err IoIsDir, fs) | None \<Rightarrow> (Err IoNotFound, fs))
      | Err e \<Rightarrow> (Err e, fs) | _ \<Rightarrow> (Err IoOther, fs))"

text \<open>\<open>rename\<close> of a file: an existing file is replaced.\<close>

definition rename_file :: "path \<Rightarrow> path \<Rightarrow> unit fs_op" where
  "rename_file src dst fs =
     (case (resolve fs src, resolve fs dst) of
        (Ok q, Ok r) \<Rightarrow>
          (case (fs q, fs r) of
             (Some (File d), Some Dir) \<Rightarrow> (Err IoIsDir, fs)
           | (Some (File d), _) \<Rightarrow> (Ok (), (fs(q := None))(r \<mapsto> File d))
           | (Some Dir, _) \<Rightarrow> (Err IoOther, fs)
           | (None, _) \<Rightarrow> (Err IoNotFound, fs))
      | (Err e, _) \<Rightarrow> (Err e, fs) | (_, Err e) \<Rightarrow> (Err e, fs) | _ \<Rightarrow> (Err IoOther, fs))"

definition below :: "path \<Rightarrow> path \<Rightarrow> bool" where
  "below d p \<longleftrightarrow> length d < length p \<and> take (length d) p = d"

text \<open>
  \<open>remove_dir_all\<close> empties a directory and removes it; the last step is refused for the root and for a path
  that ends in a dot or two.
\<close>

definition remove_dir_all :: "path \<Rightarrow> unit fs_op" where
  "remove_dir_all p fs =
     (case resolve fs p of
        Ok q \<Rightarrow>
          (case fs q of
             Some Dir \<Rightarrow>
               (let fs' = (\<lambda>r. if below q r then None else fs r);
                    named = filter (\<lambda>c. c \<noteq> '''') p in
                if q = [] \<or> last named = ''.'' \<or> last named = ''..'' then (Err IoOther, fs')
                else (Ok (), fs'(q := None)))
           | Some (File d) \<Rightarrow> (Err IoNotDir, fs) | None \<Rightarrow> (Err IoNotFound, fs))
      | Err e \<Rightarrow> (Err e, fs) | _ \<Rightarrow> (Err IoOther, fs))"

section \<open>The environment and the world\<close>

record storage_env =
  sx_fails :: "nat \<Rightarrow> bool"
  sx_uuid :: "nat \<Rightarrow> uuid"
  sx_parse_uuid :: "string \<Rightarrow> uuid option"
  sx_sha256_hex :: "string \<Rightarrow> string"
  sx_hmac_hex :: "string \<Rightarrow> string \<Rightarrow> string"
  sx_resolve :: "string \<Rightarrow> string option \<Rightarrow> auth_ctx option"
  sx_admin_token :: "string option"
  sx_base :: "path option"
  sx_signing_secret :: "string option"
  sx_max_upload_size :: nat
  sx_json_f64 :: "f64 \<Rightarrow> json"
  sx_debug_json :: "json \<Rightarrow> string"
  sx_policy_of_json :: "json \<Rightarrow> policy_expr option"

record storage_world =
  sw_db :: storage_db
  sw_fs :: fsys
  sw_now :: instant
  sw_fresh :: nat
  sw_effects :: nat

type_synonym 'a storage_act = "(storage_world, 'a, storage_error) comp"

definition ssql :: "storage_env \<Rightarrow> 'a storage_statement \<Rightarrow> 'a storage_act" where
  "ssql env st w =
     (let w' = w\<lparr>sw_effects := Suc (sw_effects w)\<rparr> in
      if sx_fails env (sw_effects w) then (Err StDatabase, w')
      else case st (sw_now w) (sw_db w) of (r, db') \<Rightarrow> (r, w'\<lparr>sw_db := db'\<rparr>))"

definition sfile :: "storage_env \<Rightarrow> 'a fs_op \<Rightarrow> (storage_world, 'a, io_error) comp" where
  "sfile env f w =
     (let w' = w\<lparr>sw_effects := Suc (sw_effects w)\<rparr> in
      if sx_fails env (sw_effects w) then (Err IoOther, w')
      else case f (sw_fs w) of (r, fs') \<Rightarrow> (r, w'\<lparr>sw_fs := fs'\<rparr>))"

definition sfresh :: "(nat \<Rightarrow> 'a) \<Rightarrow> 'a storage_act" where
  "sfresh f w = (Ok (f (sw_fresh w)), w\<lparr>sw_fresh := Suc (sw_fresh w)\<rparr>)"

text \<open>\<open>SystemTime::now()\<close> in seconds since 1970, before which \<open>unwrap\<close> panics.\<close>

definition unix_now :: "nat storage_act" where
  "unix_now w = (if sw_now w < 0 then Panic else Ok (nat (sw_now w div 1000000)), w)"

section \<open>The blob store (fs.rs)\<close>

definition object_path :: "path \<Rightarrow> string \<Rightarrow> string \<Rightarrow> string \<Rightarrow> path" where
  "object_path base org_id bucket key = join_path (join_path (join_path base org_id) bucket) key"

definition temp_path :: "path \<Rightarrow> string \<Rightarrow> string \<Rightarrow> uuid \<Rightarrow> string \<Rightarrow> path" where
  "temp_path base org_id bucket i key =
     join_path (join_path (join_path base org_id) bucket) (''.tmp.'' @ i @ ''.'' @ replace_char CHR ''/'' ''_'' key)"

definition multipart_dir :: "path \<Rightarrow> string \<Rightarrow> string \<Rightarrow> string \<Rightarrow> path" where
  "multipart_dir base org_id bucket upload_id =
     join_path (join_path (join_path (join_path base org_id) bucket) ''.multipart'') upload_id"

definition pad5 :: "int \<Rightarrow> string" where
  "pad5 n =
     (let digits = show_nat (nat \<bar>n\<bar>); sign = (if n < 0 then ''-'' else '''') in
      sign @ replicate (5 - length sign - length digits) (CHR ''0'') @ digits)"

definition part_path :: "path \<Rightarrow> string \<Rightarrow> string \<Rightarrow> string \<Rightarrow> int \<Rightarrow> path" where
  "part_path base org_id bucket upload_id part_number =
     join_path (multipart_dir base org_id bucket upload_id) (''part_'' @ pad5 part_number)"

definition compute_etag :: "storage_env \<Rightarrow> string \<Rightarrow> string" where
  "compute_etag env data = [CHR 0x22] @ sx_sha256_hex env data @ [CHR 0x22]"

definition io :: "storage_env \<Rightarrow> 'a fs_op \<Rightarrow> 'a storage_act" where
  "io env f = map_error StIo (sfile env f)"

text \<open>An operation whose failure because nothing is there is the object that was not found.\<close>

definition found_io :: "storage_env \<Rightarrow> string \<Rightarrow> 'a fs_op \<Rightarrow> 'a storage_act" where
  "found_io env what f =
     map_error (\<lambda>e. if e = IoNotFound then StNotFound what else StIo e) (sfile env f)"

definition exists_path :: "storage_env \<Rightarrow> path \<Rightarrow> bool storage_act" where
  "exists_path env p =
     bind (attempt (sfile env (\<lambda>fs. (Ok (node_at fs p \<noteq> None), fs)))) (\<lambda>v.
       ret (case v of Inl found \<Rightarrow> found | Inr e \<Rightarrow> False))"

text \<open>The write of an object: directories, a temporary file, a rename.\<close>

definition make_parent :: "storage_env \<Rightarrow> path \<Rightarrow> unit storage_act" where
  "make_parent env final =
     (if proper final = [] then ret () else io env (create_dir_all (butlast (proper final))))"

definition put_blob :: "storage_env \<Rightarrow> path \<Rightarrow> string \<Rightarrow> string \<Rightarrow> string \<Rightarrow> string \<Rightarrow> string storage_act" where
  "put_blob env base org_id bucket key data =
     (let final = object_path base org_id bucket key in
      bind (sfresh (sx_uuid env)) (\<lambda>i.
        let temp = temp_path base org_id bucket i key in
        bind (make_parent env final) (\<lambda>_.
        bind (io env (write_file temp data)) (\<lambda>_.
        bind (attempt (sfile env (rename_file temp final))) (\<lambda>v.
          case v of
            Inl u \<Rightarrow> ret (compute_etag env data)
          | Inr e \<Rightarrow> bind (ignore_error (sfile env (remove_file temp))) (\<lambda>_. lift (Err (StIo e))))))))"

record blob =
  bl_data :: string
  bl_content_length :: nat
  bl_etag :: "string option"

definition get_blob ::
  "storage_env \<Rightarrow> path \<Rightarrow> string \<Rightarrow> string \<Rightarrow> string \<Rightarrow> (nat \<times> nat) option \<Rightarrow> blob storage_act" where
  "get_blob env base org_id bucket key span =
     bind (found_io env (org_id @ ''/'' @ bucket @ ''/'' @ key) (read_file (object_path base org_id bucket key))) (\<lambda>d.
       let (start, stop) = (case span of Some (s, e) \<Rightarrow> (s, min e (length d)) | None \<Rightarrow> (0, length d)) in
       if stop < start then lift Panic
       else
         let bytes = take (stop - start) (drop start d) in
         ret \<lparr>bl_data = bytes, bl_content_length = length d, bl_etag = Some (compute_etag env bytes)\<rparr>)"

definition head_blob :: "storage_env \<Rightarrow> path \<Rightarrow> string \<Rightarrow> string \<Rightarrow> string \<Rightarrow> nat storage_act" where
  "head_blob env base org_id bucket key =
     found_io env (org_id @ ''/'' @ bucket @ ''/'' @ key) (file_length (object_path base org_id bucket key))"

definition delete_blob :: "storage_env \<Rightarrow> path \<Rightarrow> string \<Rightarrow> string \<Rightarrow> string \<Rightarrow> unit storage_act" where
  "delete_blob env base org_id bucket key =
     found_io env (org_id @ ''/'' @ bucket @ ''/'' @ key) (remove_file (object_path base org_id bucket key))"

definition blob_exists :: "storage_env \<Rightarrow> path \<Rightarrow> string \<Rightarrow> string \<Rightarrow> string \<Rightarrow> bool storage_act" where
  "blob_exists env base org_id bucket key = exists_path env (object_path base org_id bucket key)"

record signed_url =
  su_url :: string
  su_signature :: string
  su_expires_at :: nat

definition sign_hmac :: "storage_env \<Rightarrow> string \<Rightarrow> string \<Rightarrow> nat \<Rightarrow> (string, storage_error) result" where
  "sign_hmac env method p expires =
     (case sx_signing_secret env of
        None \<Rightarrow> Err (StInternal ''signing secret not configured'')
      | Some secret \<Rightarrow> Ok (sx_hmac_hex env secret (method @ '':'' @ p @ '':'' @ show_nat expires)))"

definition sign_url ::
  "storage_env \<Rightarrow> string \<Rightarrow> string \<Rightarrow> string \<Rightarrow> nat \<Rightarrow> bool \<Rightarrow> signed_url storage_act" where
  "sign_url env org_id bucket key expires_in_secs for_upload =
     bind unix_now (\<lambda>now.
       let expires_at = now + expires_in_secs;
           method = (if for_upload then ''PUT'' else ''GET'') in
       bind (lift (sign_hmac env method (org_id @ ''/'' @ bucket @ ''/'' @ key) expires_at)) (\<lambda>signature.
         ret \<lparr>su_url = ''/storage/v1/object/'' @ bucket @ ''/'' @ key @ ''?signature='' @ signature @ ''&expires='' @
                show_nat expires_at,
              su_signature = signature, su_expires_at = expires_at\<rparr>))"

subsection \<open>Multipart uploads\<close>

definition create_multipart :: "storage_env \<Rightarrow> path \<Rightarrow> string \<Rightarrow> string \<Rightarrow> string storage_act" where
  "create_multipart env base org_id bucket =
     bind (sfresh (sx_uuid env)) (\<lambda>upload_id.
     bind (io env (create_dir_all (multipart_dir base org_id bucket upload_id))) (\<lambda>_. ret upload_id))"

definition upload_blob_part ::
  "storage_env \<Rightarrow> path \<Rightarrow> string \<Rightarrow> string \<Rightarrow> string \<Rightarrow> 32 word \<Rightarrow> string \<Rightarrow> string storage_act" where
  "upload_blob_part env base org_id bucket upload_id part_number data =
     (if \<not> (1 \<le> sint part_number \<and> sint part_number \<le> 10000)
      then lift (Err (StInvalidRequest (''Part number must be between 1 and 10000, got '' @ show_int (sint part_number))))
      else
        bind (exists_path env (multipart_dir base org_id bucket upload_id)) (\<lambda>there.
        if \<not> there then lift (Err (StNotFound (''Upload '' @ upload_id @ '' not found'')))
        else
          bind (io env (write_file (part_path base org_id bucket upload_id (sint part_number)) data)) (\<lambda>_.
            ret (compute_etag env data))))"

fun read_parts :: "storage_env \<Rightarrow> path \<Rightarrow> string \<Rightarrow> string \<Rightarrow> string \<Rightarrow> (32 word \<times> string) list \<Rightarrow> string storage_act" where
  "read_parts env base org_id bucket upload_id [] = ret []"
| "read_parts env base org_id bucket upload_id ((part_number, expected_etag) # parts) =
     (let p = part_path base org_id bucket upload_id (sint part_number) in
      bind (exists_path env p) (\<lambda>there.
      if \<not> there then lift (Err (StNotFound (''Part '' @ show_int (sint part_number) @ '' not found for upload '' @ upload_id)))
      else
        bind (io env (read_file p)) (\<lambda>d.
        bind (read_parts env base org_id bucket upload_id parts) (\<lambda>rest. ret (d @ rest)))))"

definition complete_multipart ::
  "storage_env \<Rightarrow> path \<Rightarrow> string \<Rightarrow> string \<Rightarrow> string \<Rightarrow> string \<Rightarrow> (32 word \<times> string) list \<Rightarrow> string storage_act" where
  "complete_multipart env base org_id bucket key upload_id parts =
     (let dir = multipart_dir base org_id bucket upload_id; final = object_path base org_id bucket key in
      bind (exists_path env dir) (\<lambda>there.
      if \<not> there then lift (Err (StNotFound (''Upload '' @ upload_id @ '' not found'')))
      else
        bind (read_parts env base org_id bucket upload_id parts) (\<lambda>all_data.
        bind (sfresh (sx_uuid env)) (\<lambda>i.
          let temp = temp_path base org_id bucket i key in
          bind (make_parent env final) (\<lambda>_.
          bind (io env (write_file temp all_data)) (\<lambda>_.
          bind (io env (rename_file temp final)) (\<lambda>_.
          bind (io env (remove_dir_all dir)) (\<lambda>_. ret (compute_etag env all_data)))))))))"

definition abort_multipart :: "storage_env \<Rightarrow> path \<Rightarrow> string \<Rightarrow> string \<Rightarrow> string \<Rightarrow> unit storage_act" where
  "abort_multipart env base org_id bucket upload_id =
     (let dir = multipart_dir base org_id bucket upload_id in
      bind (exists_path env dir) (\<lambda>there. if there then io env (remove_dir_all dir) else ret ()))"

end
