(* ===== verification/Storage_Policy.thy ===== *)
theory Storage_Policy
  imports Storage_Fs
begin

text \<open>
  The context of a storage request (\<open>crates/reactor-storage/src/middleware/auth.rs\<close>) and the policies of
  buckets (\<open>policy/eval.rs\<close>). The storage service has its own evaluator: it knows the object, decides by
  JSON values, and denies whatever it cannot decide. How JSON numbers are made of floats, how a value is
  printed for debugging and how a stored tree is read are parameters (\<open>serde_json\<close>).
\<close>

section \<open>The context of a request (middleware/auth.rs)\<close>

record storage_ctx =
  sc_auth :: "auth_ctx option"
  sc_request_id :: uuid
  sc_is_anonymous :: bool

definition storage_user_id :: "storage_env \<Rightarrow> storage_ctx \<Rightarrow> uuid option" where
  "storage_user_id env ctx = Option.bind (sc_auth ctx) (auth_user_id (sx_parse_uuid env))"

definition storage_org_id :: "storage_ctx \<Rightarrow> uuid option" where
  "storage_org_id ctx = Option.bind (sc_auth ctx) ax_active_org"

definition storage_has_permission :: "storage_ctx \<Rightarrow> string \<Rightarrow> bool" where
  "storage_has_permission ctx permission =
     (case sc_auth ctx of Some a \<Rightarrow> auth_has_permission a permission | None \<Rightarrow> False)"

section \<open>Evaluation (policy/eval.rs)\<close>

record object_facts =
  of_key :: string
  of_bucket :: string
  of_content_type :: "string option"
  of_owner_id :: "uuid option"
  of_metadata :: json

datatype storage_eval = SConst bool | SValue json | SResidual string

definition text_or_jnull :: "string option \<Rightarrow> json" where
  "text_or_jnull v = (case v of Some s \<Rightarrow> JString s | None \<Rightarrow> JNull)"

definition eval_domain_builtin :: "object_facts \<Rightarrow> string \<Rightarrow> string \<Rightarrow> storage_eval" where
  "eval_domain_builtin facts domain field =
     (if domain = ''object'' \<and> field = ''key'' then SValue (JString (of_key facts))
      else if domain = ''object'' \<and> field = ''content_type'' then SValue (text_or_jnull (of_content_type facts))
      else if domain = ''object'' \<and> field = ''owner_id'' then SValue (text_or_jnull (of_owner_id facts))
      else if domain = ''object'' \<and> field = ''metadata'' then SValue (of_metadata facts)
      else if domain = ''bucket'' \<and> field = ''name'' then SValue (JString (of_bucket facts))
      else SResidual (domain @ ''.'' @ field))"

fun f64_less :: "f64 \<Rightarrow> f64 \<Rightarrow> bool" where
  "f64_less FNan y = False"
| "f64_less x FNan = False"
| "f64_less (FInf s) (FInf t) = (s \<and> \<not> t)"
| "f64_less (FInf s) (FFin t n f) = s"
| "f64_less (FFin s m e) (FInf t) = (\<not> t)"
| "f64_less (FFin s m e) (FFin t n f) =
     ((if s then - 1 else 1) * int (f64_num m e * f64_den f) < (if t then - 1 else 1) * int (f64_num n f * f64_den e))"

definition contains :: "string \<Rightarrow> string \<Rightarrow> bool" where
  "contains s inner \<longleftrightarrow> list_ex (\<lambda>n. take (length inner) (drop n s) = inner) [0..<Suc (length s)]"

definition like_match :: "string \<Rightarrow> string \<Rightarrow> bool" where
  "like_match s pattern =
     (if pattern = ''%'' then True
      else if CHR ''%'' \<notin> set pattern then s = pattern
      else if starts_with ''%'' pattern \<and> ends_with ''%'' pattern then contains s (butlast (tl pattern))
      else if starts_with ''%'' pattern then ends_with (tl pattern) s
      else if ends_with ''%'' pattern then starts_with (butlast pattern) s
      else s = pattern)"

definition compare_numbers ::
  "storage_env \<Rightarrow> string \<Rightarrow> (f64 \<Rightarrow> f64 \<Rightarrow> bool) \<Rightarrow> json \<Rightarrow> json \<Rightarrow> storage_eval" where
  "compare_numbers env sign lt l r =
     (case (l, r) of
        (JNumber m, JNumber n) \<Rightarrow>
          (case (num_f64 m, num_f64 n) of
             (Some x, Some y) \<Rightarrow> SConst (lt x y)
           | _ \<Rightarrow> SResidual (sx_debug_json env l @ sign @ sx_debug_json env r))
      | _ \<Rightarrow> SResidual (sx_debug_json env l @ sign @ sx_debug_json env r))"

definition complex_expression :: storage_eval where
  "complex_expression = SResidual ''(complex expression)''"

fun eval_binary_op_storage :: "storage_env \<Rightarrow> policy_binary_op \<Rightarrow> storage_eval \<Rightarrow> storage_eval \<Rightarrow> storage_eval" where
  "eval_binary_op_storage env OpAnd l r =
     (if l = SConst False \<or> r = SConst False then SConst False
      else if l = SConst True then r else if r = SConst True then l else complex_expression)"
| "eval_binary_op_storage env OpOr l r =
     (if l = SConst True \<or> r = SConst True then SConst True
      else if l = SConst False then r else if r = SConst False then l else complex_expression)"
| "eval_binary_op_storage env OpEq (SValue l) (SValue r) = SConst (l = r)"
| "eval_binary_op_storage env OpNotEq (SValue l) (SValue r) = SConst (l \<noteq> r)"
| "eval_binary_op_storage env OpLike (SValue (JString s)) (SValue (JString p)) = SConst (like_match s p)"
| "eval_binary_op_storage env OpLt (SValue l) (SValue r) = compare_numbers env '' < '' f64_less l r"
| "eval_binary_op_storage env OpGt (SValue l) (SValue r) = compare_numbers env '' > '' (\<lambda>x y. f64_less y x) l r"
| "eval_binary_op_storage env op l r = complex_expression"

fun eval_unary_op_storage :: "policy_unary_op \<Rightarrow> storage_eval \<Rightarrow> storage_eval" where
  "eval_unary_op_storage OpNot (SConst b) = SConst (\<not> b)"
| "eval_unary_op_storage OpNot (SResidual s) = SResidual (''NOT ('' @ s @ '')'')"
| "eval_unary_op_storage op v = complex_expression"

definition eval_in_list_storage :: "storage_eval \<Rightarrow> storage_eval list \<Rightarrow> bool \<Rightarrow> storage_eval" where
  "eval_in_list_storage operand xs negated =
     (case operand of
        SValue v \<Rightarrow> SConst (if negated then SValue v \<notin> set xs else SValue v \<in> set xs)
      | _ \<Rightarrow> SResidual ''(IN list)'')"

fun storage_literal :: "storage_env \<Rightarrow> policy_literal \<Rightarrow> storage_eval" where
  "storage_literal env (LitBool b) = SConst b"
| "storage_literal env LitNull = SValue JNull"
| "storage_literal env (LitString s) = SValue (JString s)"
| "storage_literal env (LitInt n) = SValue (json_int n)"
| "storage_literal env (LitFloat f) = SValue (sx_json_f64 env f)"

definition storage_auth_builtin ::
  "storage_env \<Rightarrow> storage_ctx \<Rightarrow> string \<Rightarrow> storage_eval option \<Rightarrow> storage_eval" where
  "storage_auth_builtin env ctx name first_arg =
     (if name = ''user_id'' then SValue (text_or_jnull (storage_user_id env ctx))
      else if name = ''org_id'' then SValue (text_or_jnull (storage_org_id ctx))
      else if name = ''has_permission'' then
        (case first_arg of Some (SValue (JString perm)) \<Rightarrow> SConst (storage_has_permission ctx perm) | _ \<Rightarrow> SConst False)
      else if name = ''is_authenticated'' then SConst (storage_user_id env ctx \<noteq> None)
      else SResidual (''auth.'' @ name @ ''()''))"

definition storage_is_null :: "storage_eval \<Rightarrow> bool \<Rightarrow> storage_eval" where
  "storage_is_null v negated =
     (case v of
        SValue j \<Rightarrow> SConst (if j = JNull then \<not> negated else negated)
      | SConst b \<Rightarrow> SConst b
      | SResidual s \<Rightarrow> SResidual (''('' @ s @ '') '' @ (if negated then ''IS NOT NULL'' else ''IS NULL'')))"

definition quoted_name :: "string \<Rightarrow> string" where
  "quoted_name s = [CHR 0x22] @ s @ [CHR 0x22]"

fun evaluate_storage :: "storage_env \<Rightarrow> storage_ctx \<Rightarrow> object_facts \<Rightarrow> policy_expr \<Rightarrow> storage_eval" where
  "evaluate_storage env ctx facts (Literal l) = storage_literal env l"
| "evaluate_storage env ctx facts (Column name) = SResidual (quoted_name name)"
| "evaluate_storage env ctx facts (QualifiedColumn t c) = SResidual (quoted_name t @ ''.'' @ quoted_name c)"
| "evaluate_storage env ctx facts (AuthBuiltinCall name args) =
     storage_auth_builtin env ctx name
       (case args of [] \<Rightarrow> None | a # _ \<Rightarrow> Some (evaluate_storage env ctx facts a))"
| "evaluate_storage env ctx facts (DomainBuiltin domain name args) = eval_domain_builtin facts domain name"
| "evaluate_storage env ctx facts (BinaryOp l op r) =
     eval_binary_op_storage env op (evaluate_storage env ctx facts l) (evaluate_storage env ctx facts r)"
| "evaluate_storage env ctx facts (UnaryOp op e) = eval_unary_op_storage op (evaluate_storage env ctx facts e)"
| "evaluate_storage env ctx facts (IsNull e negated) = storage_is_null (evaluate_storage env ctx facts e) negated"
| "evaluate_storage env ctx facts (InList e xs negated) =
     eval_in_list_storage (evaluate_storage env ctx facts e) (map (evaluate_storage env ctx facts) xs) negated"
| "evaluate_storage env ctx facts (Subquery q) = SResidual (''('' @ q @ '')'')"

definition check_policy :: "storage_env \<Rightarrow> storage_ctx \<Rightarrow> object_facts \<Rightarrow> policy_expr \<Rightarrow> bool" where
  "check_policy env ctx facts e =
     (case evaluate_storage env ctx facts e of
        SConst b \<Rightarrow> b | SValue v \<Rightarrow> v = JBool True | SResidual s \<Rightarrow> False)"

section \<open>Access to an object\<close>

definition scope_str :: "policy_scope \<Rightarrow> string" where
  "scope_str s = (if s = ScRead \<or> s = ScSelect then ''read'' else ''write'')"

text \<open>One clause of a policy: a tree that cannot be read ends the check.\<close>

definition clause_allows ::
  "storage_env \<Rightarrow> storage_ctx \<Rightarrow> object_facts \<Rightarrow> json option \<Rightarrow> (bool, storage_error) result" where
  "clause_allows env ctx facts ast =
     (case ast of
        None \<Rightarrow> Ok False
      | Some j \<Rightarrow>
          (case sx_policy_of_json env j of
             None \<Rightarrow> Err (StInternal ''invalid policy AST'') | Some e \<Rightarrow> Ok (check_policy env ctx facts e)))"

fun any_policy ::
  "storage_env \<Rightarrow> storage_ctx \<Rightarrow> object_facts \<Rightarrow> bool \<Rightarrow> bucket_policy list \<Rightarrow> (bool, storage_error) result" where
  "any_policy env ctx facts writes [] = Ok False"
| "any_policy env ctx facts writes (p # ps) =
     and_then (clause_allows env ctx facts (bp_using_ast p)) (\<lambda>ok.
       if ok then Ok True
       else
         and_then (if writes then clause_allows env ctx facts (bp_check_ast p) else Ok False) (\<lambda>ok.
           if ok then Ok True else any_policy env ctx facts writes ps))"

definition check_object_access ::
  "storage_env \<Rightarrow> uuid \<Rightarrow> policy_scope \<Rightarrow> storage_ctx \<Rightarrow> object_facts \<Rightarrow> unit storage_act" where
  "check_object_access env bucket_id scope ctx facts =
     bind (ssql env (list_policies bucket_id)) (\<lambda>policies.
       let matching = filter (\<lambda>p. scope_str scope \<in> set (bp_scopes p)) policies in
       if policies = [] \<or> matching = [] then ret ()
       else
         bind (lift (any_policy env ctx facts (scope_str scope = ''write'') matching)) (\<lambda>ok.
           if ok then ret ()
           else lift (Err (StPermissionDenied (''no policy grants '' @ scope_str scope @ '' access to '' @
             of_bucket facts @ ''/'' @ of_key facts)))))"

text \<open>
  \<open>LIKE\<close> in the policies of buckets, matched by the service, against \<open>LIKE\<close> as the database reads it.
\<close>

lemma sql_like_any: "sql_like s (CHR ''%'' # ps) \<longleftrightarrow> (\<exists>n \<le> length s. sql_like (drop n s) ps)"
proof (induction s)
  case (Cons c cs)
  have "sql_like (c # cs) (CHR ''%'' # ps) \<longleftrightarrow> sql_like (drop 0 (c # cs)) ps \<or> (\<exists>n \<le> length cs. sql_like (drop (Suc n) (c # cs)) ps)"
    using Cons.IH by simp
  then show ?case by (metis Suc_le_mono drop0 length_Cons not0_implies_Suc zero_le)
qed simp

lemma sql_like_all: "sql_like s ''%''"
  by (induction s) simp_all

text \<open>Ordinary characters stand for themselves.\<close>

definition ordinary :: "string \<Rightarrow> bool" where
  "ordinary q \<longleftrightarrow> set q \<inter> {CHR ''%'', CHR ''_'', CHR 0x5C} = {}"

lemma sql_like_ordinary: "ordinary q \<Longrightarrow> sql_like s (q @ r) \<longleftrightarrow> (\<exists>t. s = q @ t \<and> sql_like t r)"
proof (induction q arbitrary: s)
  case (Cons p q)
  then show ?case by (cases s) (auto simp: ordinary_def)
qed simp

lemma like_cases:
  assumes "set p \<inter> {CHR ''_'', CHR 0x5C} = {}" and "CHR ''%'' \<notin> set (butlast (tl p))"
  obtains "ordinary p" | q where "ordinary q" "p = CHR ''%'' # q" | q where "ordinary q" "q = butlast p" "p = q @ ''%''" "q \<noteq> []"
    | q where "ordinary q" "p = CHR ''%'' # q @ ''%''"
  using assms
  by (cases p; cases "tl p" rule: rev_cases; cases "hd p = CHR ''%''"; cases "last p = CHR ''%''") (auto simp: ordinary_def)

lemma contains_iff: "contains s q \<longleftrightarrow> (\<exists>n \<le> length s. starts_with q (drop n s))"
  unfolding contains_def list_ex_iff starts_with_def Bex_def set_upt by (simp only: atLeastLessThan_iff le0 simp_thms less_Suc_eq_le)

lemma ends_with_iff: "ends_with q s \<longleftrightarrow> (\<exists>n \<le> length s. drop n s = q)"
proof
  assume "ends_with q s"
  then show "\<exists>n \<le> length s. drop n s = q" by (auto simp: ends_with_def intro: exI [of _ "length s - length q"])
next
  assume "\<exists>n \<le> length s. drop n s = q"
  then show "ends_with q s" by (auto simp: ends_with_def)
qed

lemma ordinary_no_percent: "ordinary q \<Longrightarrow> CHR ''%'' \<notin> set q"
  by (auto simp: ordinary_def)

lemma not_starting: "ordinary q \<Longrightarrow> q \<noteq> [] \<Longrightarrow> \<not> starts_with ''%'' (q @ r)"
  by (cases q) (auto simp: ordinary_def starts_with_def)

lemma not_ending: "ordinary q \<Longrightarrow> q \<noteq> [] \<Longrightarrow> \<not> ends_with ''%'' (CHR ''%'' # q)"
  by (cases q rule: rev_cases) (auto simp: ordinary_def ends_with_def)

text \<open>
  \<open>LIKE\<close> in a bucket policy means what it means in a row policy, on patterns without \<open>_\<close> and
  backslash that have \<open>%\<close> at their ends only: the service's comparison with a prefix, a suffix, an inner or a whole
  text is the match of the database. (On other patterns it is not: \<open>a%b\<close> matches itself only.)
\<close>

theorem like_match_is_like:
  assumes "set p \<inter> {CHR ''_'', CHR 0x5C} = {}" and "CHR ''%'' \<notin> set (butlast (tl p))"
  shows "like_match s p \<longleftrightarrow> sql_like s p"
  using assms
proof (cases rule: like_cases)
  case 1
  then show ?thesis using sql_like_ordinary [OF 1, of s "[]"] ordinary_no_percent [OF 1] by (auto simp: like_match_def)
next
  case (2 q)
  show ?thesis
  proof (cases "q = []")
    case False
    then have "like_match s p \<longleftrightarrow> ends_with q s"
      using 2 not_ending [OF 2(1)] by (simp add: like_match_def starts_with_def)
    moreover have "sql_like t q \<longleftrightarrow> t = q" for t using sql_like_ordinary [OF 2(1), of t "[]"] by simp
    ultimately show ?thesis unfolding 2(2) by (simp only: sql_like_any ends_with_iff)
  qed (simp add: 2(2) like_match_def sql_like_all del: sql_like.simps)
next
  case (3 q)
  have "like_match s p \<longleftrightarrow> starts_with q s"
    using 3(4) not_starting [OF 3(1,4), of "''%''"] unfolding 3(3) like_match_def by (simp add: ends_with_def)
  then show ?thesis using sql_like_ordinary [OF 3(1), of s "''%''"] unfolding 3(3) by (simp add: sql_like_all starts_with_iff del: sql_like.simps)
next
  case (4 q)
  have "like_match s p \<longleftrightarrow> contains s q"
    using 4 by (simp add: like_match_def starts_with_def ends_with_def)
  then show ?thesis using sql_like_ordinary [OF 4(1), of _ "''%''"] unfolding 4(2)
    by (simp add: sql_like_any [of s "q @ ''%''"] sql_like_all contains_iff starts_with_iff del: sql_like.simps)
qed

theorem like_match_is_like_witness:
  "(like_match ''docs/a.txt'' ''docs/%'' \<longleftrightarrow> sql_like ''docs/a.txt'' ''docs/%'') \<and> sql_like ''docs/a.txt'' ''docs/%'' \<and>
   \<not> like_match ''a/b'' ''a%b''"
  using like_match_is_like [of "''docs/%''" "''docs/a.txt''"] by (simp add: like_match_def starts_with_def ends_with_def)

end
