(* ===== verification/Storage_Service.thy ===== *)
theory Storage_Service
  imports Storage_Policy
begin

text \<open>
  The storage service: the middlewares of \<open>crates/reactor-storage/src/middleware/\<close> and the handlers of
  \<open>routes/\<close> with the filesystem backend. The body of an upload is the bytes the client sent, or \<open>None\<close> when
  it broke off. Part numbers are 32-bit and sizes 64-bit words.
\<close>

section \<open>Multipart records (store/metadata.rs)\<close>

definition upload_uuid :: "storage_env \<Rightarrow> string \<Rightarrow> uuid storage_act" where
  "upload_uuid env upload_id =
     lift (ok_or (StInvalidRequest ''Invalid upload ID'') (sx_parse_uuid env upload_id))"

definition no_upload :: "string \<Rightarrow> storage_error" where
  "no_upload upload_id = StNotFound (''Upload '' @ upload_id @ '' not found'')"

definition create_upload_record ::
  "storage_env \<Rightarrow> uuid \<Rightarrow> string \<Rightarrow> string \<Rightarrow> uuid option \<Rightarrow> string option \<Rightarrow> multipart_upload storage_act" where
  "create_upload_record env bucket_id key upload_id created_by content_type =
     bind (upload_uuid env upload_id) (\<lambda>i. ssql env (insert_upload i bucket_id key created_by content_type))"

definition get_upload_record :: "storage_env \<Rightarrow> uuid \<Rightarrow> string \<Rightarrow> multipart_upload option storage_act" where
  "get_upload_record env bucket_id upload_id =
     bind (upload_uuid env upload_id) (\<lambda>i. ssql env (find_upload bucket_id i))"

definition require_upload :: "storage_env \<Rightarrow> uuid \<Rightarrow> string \<Rightarrow> uuid storage_act" where
  "require_upload env bucket_id upload_id =
     bind (upload_uuid env upload_id) (\<lambda>i.
     bind (ssql env (find_upload bucket_id i)) (\<lambda>u.
       case u of None \<Rightarrow> lift (Err (no_upload upload_id)) | Some _ \<Rightarrow> ret i))"

definition add_part_record ::
  "storage_env \<Rightarrow> uuid \<Rightarrow> string \<Rightarrow> 32 word \<Rightarrow> string \<Rightarrow> i64 \<Rightarrow> multipart_part storage_act" where
  "add_part_record env bucket_id upload_id part_number etag len =
     bind (require_upload env bucket_id upload_id) (\<lambda>i. ssql env (upsert_part i part_number etag len))"

definition list_part_records :: "storage_env \<Rightarrow> uuid \<Rightarrow> string \<Rightarrow> multipart_part list storage_act" where
  "list_part_records env bucket_id upload_id =
     bind (require_upload env bucket_id upload_id) (\<lambda>i. ssql env (parts_of i))"

definition delete_upload_record :: "storage_env \<Rightarrow> uuid \<Rightarrow> string \<Rightarrow> unit storage_act" where
  "delete_upload_record env bucket_id upload_id =
     bind (upload_uuid env upload_id) (\<lambda>i.
     bind (ssql env (delete_parts i)) (\<lambda>_.
     bind (ssql env (delete_upload bucket_id i)) (\<lambda>n.
       if n = 0 then lift (Err (no_upload upload_id)) else ret ())))"

section \<open>Authentication (middleware/auth.rs)\<close>

definition storage_bearer_token :: "string option \<Rightarrow> string option" where
  "storage_bearer_token authorization =
     Option.bind authorization (\<lambda>h.
       if 7 < length h \<and> eq_ignore_ascii_case (take 7 h) ''Bearer '' then Some (drop 7 h) else None)"

definition nil_org :: uuid where
  "nil_org = ''00000000-0000-0000-0000-000000000000''"

definition system_ctx :: "uuid \<Rightarrow> storage_ctx" where
  "system_ctx request_id =
     \<lparr>sc_auth = Some \<lparr>ax_claims = \<lparr>cl_sub = ''system'', cl_iss = ''reactor'', cl_aud = ''reactor'',
          cl_exp = 9223372036854775807, cl_iat = 0, cl_nbf = None, cl_email = None, cl_amr = [MethApikey],
          cl_orgs = [nil_org], cl_default_org = Some nil_org, cl_session_id = None, cl_scopes = [], cl_mfa_at = None\<rparr>,
        ax_active_org = Some nil_org, ax_permissions = [''*'']\<rparr>,
      sc_request_id = request_id, sc_is_anonymous = False\<rparr>"

definition anonymous_ctx :: "uuid \<Rightarrow> storage_ctx" where
  "anonymous_ctx request_id = \<lparr>sc_auth = None, sc_request_id = request_id, sc_is_anonymous = True\<rparr>"

text \<open>The headers that are read: \<open>Authorization\<close>, \<open>X-Reactor-Org\<close> and \<open>X-Request-Id\<close>.\<close>

record storage_headers =
  sh_authorization :: "string option"
  sh_org :: "string option"
  sh_request_id :: "string option"

datatype auth_refusal = Unauthorized | Forbidden

definition storage_request_id :: "storage_env \<Rightarrow> storage_headers \<Rightarrow> uuid storage_act" where
  "storage_request_id env hs =
     (case Option.bind (sh_request_id hs) (sx_parse_uuid env) of
        Some i \<Rightarrow> ret i | None \<Rightarrow> sfresh (sx_uuid env))"

definition org_header :: "storage_headers \<Rightarrow> string option" where
  "org_header hs = (if sh_org hs = Some '''' then None else sh_org hs)"

definition token_ctx :: "storage_env \<Rightarrow> storage_headers \<Rightarrow> uuid \<Rightarrow> string \<Rightarrow> (storage_ctx, auth_refusal) result" where
  "token_ctx env hs request_id token =
     (if sx_admin_token env = Some token then Ok (system_ctx request_id)
      else case sx_resolve env token (org_header hs) of
        Some a \<Rightarrow> Ok \<lparr>sc_auth = Some a, sc_request_id = request_id, sc_is_anonymous = False\<rparr>
      | None \<Rightarrow> Err Forbidden)"

definition auth_middleware ::
  "storage_env \<Rightarrow> storage_headers \<Rightarrow> (storage_ctx, auth_refusal) result storage_act" where
  "auth_middleware env hs =
     bind (storage_request_id env hs) (\<lambda>request_id.
       ret (case storage_bearer_token (sh_authorization hs) of
              Some token \<Rightarrow> token_ctx env hs request_id token
            | None \<Rightarrow> Ok (anonymous_ctx request_id)))"

definition require_auth_middleware ::
  "storage_env \<Rightarrow> storage_headers \<Rightarrow> (storage_ctx, auth_refusal) result storage_act" where
  "require_auth_middleware env hs =
     bind (storage_request_id env hs) (\<lambda>request_id.
       ret (case storage_bearer_token (sh_authorization hs) of
              Some token \<Rightarrow> token_ctx env hs request_id token
            | None \<Rightarrow> Err Unauthorized))"

section \<open>Signed URLs (middleware/signed_url.rs)\<close>

definition byte_word :: "char \<Rightarrow> 8 word" where
  "byte_word c = of_nat (byte c)"

definition constant_time_eq :: "string \<Rightarrow> string \<Rightarrow> bool" where
  "constant_time_eq a b =
     (if length a \<noteq> length b then False
      else foldl (\<lambda>r (x, y). or r (xor (byte_word x) (byte_word y))) 0 (zip a b) = 0)"

record signed_query =
  sq_signature :: "string option"
  sq_expires :: "nat option"

datatype url_refusal = UrlExpired | UrlInvalid | UrlMissing

definition verify_signed_url ::
  "storage_env \<Rightarrow> string \<Rightarrow> string \<Rightarrow> signed_query \<Rightarrow> (unit, url_refusal) result storage_act" where
  "verify_signed_url env method p q =
     (case (sq_signature q, sq_expires q) of
        (Some signature, Some expires) \<Rightarrow>
          bind unix_now (\<lambda>now.
            if expires < now then ret (Err UrlExpired)
            else case sx_signing_secret env of
              None \<Rightarrow> ret (Err UrlInvalid)
            | Some secret \<Rightarrow>
                if constant_time_eq signature (sx_hmac_hex env secret (method @ '':'' @ p @ '':'' @ show_nat expires))
                then ret (Ok ()) else ret (Err UrlInvalid))
      | (None, None) \<Rightarrow> ret (Ok ())
      | _ \<Rightarrow> ret (Err UrlMissing))"

section \<open>Buckets (routes/buckets.rs, lib.rs)\<close>

definition slug_char :: "char \<Rightarrow> bool" where
  "slug_char c \<longleftrightarrow> is_ascii_lower c \<or> is_ascii_digit c"

text \<open>\<open>^[a-z0-9]([a-z0-9-]*[a-z0-9])?$\<close>\<close>

definition slug_regex :: "string \<Rightarrow> bool" where
  "slug_regex s \<longleftrightarrow> s \<noteq> [] \<and> slug_char (hd s) \<and> slug_char (last s) \<and> list_all (\<lambda>c. slug_char c \<or> c = CHR ''-'') s"

definition validate_slug :: "string \<Rightarrow> (unit, storage_error) result" where
  "validate_slug slug =
     (if slug = [] \<or> 63 < length slug then Err (StInvalidRequest ''slug must be 1-63 characters'')
      else if \<not> slug_regex slug then Err (StInvalidRequest
        ''slug must be lowercase alphanumeric with hyphens, not starting or ending with hyphen'')
      else Ok ())"

definition require_org :: "storage_ctx \<Rightarrow> uuid storage_act" where
  "require_org ctx =
     (if sc_is_anonymous ctx then lift (Err StAuthRequired)
      else lift (ok_or (StInvalidRequest ''organization context required'') (storage_org_id ctx)))"

definition bucket_permission :: "string \<Rightarrow> string \<Rightarrow> string" where
  "bucket_permission slug what = ''storage:'' @ slug @ '':'' @ what"

definition require_permission :: "storage_ctx \<Rightarrow> string \<Rightarrow> string \<Rightarrow> unit storage_act" where
  "require_permission ctx slug what =
     lift (if \<not> storage_has_permission ctx (bucket_permission slug what) \<and>
              \<not> storage_has_permission ctx (bucket_permission ''*'' what)
           then Err (StPermissionDenied (bucket_permission slug what @ '' permission required'')) else Ok ())"

definition create_bucket :: "storage_env \<Rightarrow> storage_ctx \<Rightarrow> string \<Rightarrow> bool \<Rightarrow> bucket storage_act" where
  "create_bucket env ctx slug is_public =
     bind (require_org ctx) (\<lambda>org_id.
     bind (lift (if \<not> storage_has_permission ctx ''storage:bucket:create''
                 then Err (StPermissionDenied ''storage:bucket:create permission required'') else Ok ())) (\<lambda>_.
     bind (lift (validate_slug slug)) (\<lambda>_.
     bind (sfresh (sx_uuid env)) (\<lambda>i.
       ssql env (create_bucket_row i
         \<lparr>bc_org_id = org_id, bc_slug = slug, bc_is_public = is_public, bc_created_by = storage_user_id env ctx\<rparr>)))))"

definition list_buckets :: "storage_env \<Rightarrow> storage_ctx \<Rightarrow> bucket list storage_act" where
  "list_buckets env ctx = bind (require_org ctx) (\<lambda>org_id. ssql env (list_bucket_rows org_id))"

text \<open>A bucket is named by its id or its slug and has to be one of the organization.\<close>

definition bucket_of_ref :: "storage_env \<Rightarrow> storage_ctx \<Rightarrow> string \<Rightarrow> bucket storage_act" where
  "bucket_of_ref env ctx bucket_ref =
     bind (require_org ctx) (\<lambda>org_id.
     bind (case sx_parse_uuid env bucket_ref of
             Some i \<Rightarrow> ssql env (find_bucket i)
           | None \<Rightarrow> ssql env (get_bucket_by_slug org_id bucket_ref)) (\<lambda>found.
     bind (lift (ok_or (BucketNotFound bucket_ref) found)) (\<lambda>b.
       if bk_org_id b \<noteq> org_id then lift (Err (BucketNotFound bucket_ref)) else ret b)))"

definition get_bucket :: "storage_env \<Rightarrow> storage_ctx \<Rightarrow> string \<Rightarrow> bucket storage_act" where
  "get_bucket env ctx bucket_ref =
     bind (require_org ctx) (\<lambda>org_id.
     bind (case sx_parse_uuid env bucket_ref of
             Some i \<Rightarrow> ssql env (find_bucket i)
           | None \<Rightarrow> ssql env (get_bucket_by_slug org_id bucket_ref)) (\<lambda>found.
     bind (lift (ok_or (BucketNotFound bucket_ref) found)) (\<lambda>b.
       if bk_org_id b \<noteq> org_id then lift (Err (BucketNotFound (bk_slug b))) else ret b)))"

definition update_bucket :: "storage_env \<Rightarrow> storage_ctx \<Rightarrow> string \<Rightarrow> bool option \<Rightarrow> bucket storage_act" where
  "update_bucket env ctx bucket_ref is_public =
     bind (bucket_of_ref env ctx bucket_ref) (\<lambda>b.
     bind (require_permission ctx (bk_slug b) ''admin'') (\<lambda>_. ssql env (update_bucket_row (bk_id b) is_public)))"

definition delete_bucket :: "storage_env \<Rightarrow> storage_ctx \<Rightarrow> string \<Rightarrow> unit storage_act" where
  "delete_bucket env ctx bucket_ref =
     bind (bucket_of_ref env ctx bucket_ref) (\<lambda>b.
     bind (require_permission ctx (bk_slug b) ''admin'') (\<lambda>_. ssql env (delete_bucket_row (bk_id b))))"

section \<open>Objects (routes/objects.rs)\<close>

definition get_blob_store :: "storage_env \<Rightarrow> path storage_act" where
  "get_blob_store env = lift (ok_or (StInternal ''No blob store configured'') (sx_base env))"

definition org_bucket :: "storage_env \<Rightarrow> storage_ctx \<Rightarrow> string \<Rightarrow> (uuid \<times> bucket) storage_act" where
  "org_bucket env ctx bucket_ref =
     bind (require_org ctx) (\<lambda>org_id.
     bind (ssql env (get_bucket_by_slug org_id bucket_ref)) (\<lambda>found.
     bind (lift (ok_or (BucketNotFound bucket_ref) found)) (\<lambda>b. ret (org_id, b))))"

definition read_body :: "storage_env \<Rightarrow> string option \<Rightarrow> string storage_act" where
  "read_body env body =
     (case body of
        None \<Rightarrow> lift (Err (StInvalidRequest ''body''))
      | Some d \<Rightarrow>
          if sx_max_upload_size env < length d then lift (Err (TooLarge 0 (sx_max_upload_size env))) else ret d)"

definition put_object ::
  "storage_env \<Rightarrow> storage_ctx \<Rightarrow> string \<Rightarrow> string \<Rightarrow> string option \<Rightarrow> string option \<Rightarrow> string storage_act" where
  "put_object env ctx bucket_ref key content_type body =
     bind (org_bucket env ctx bucket_ref) (\<lambda>(org_id, b).
     bind (require_permission ctx (bk_slug b) ''write'') (\<lambda>_.
     bind (read_body env body) (\<lambda>bytes.
     bind (get_blob_store env) (\<lambda>base.
     bind (put_blob env base org_id (bk_slug b) key bytes) (\<lambda>etag.
     bind (sfresh (sx_uuid env)) (\<lambda>i.
     bind (ssql env (upsert_object i
       \<lparr>oc_bucket_id = bk_id b, oc_key = key, oc_content_type = content_type,
        oc_content_length = of_nat (length bytes), oc_etag = Some etag, oc_metadata = JObject [],
        oc_created_by = storage_user_id env ctx\<rparr>)) (\<lambda>_. ret etag)))))))"

text \<open>\<open>end + 1\<close> wraps in a release build (and panics in a debug build) at the largest \<open>u64\<close>.\<close>

definition parse_byte_range :: "string \<Rightarrow> nat \<Rightarrow> (nat \<times> nat) option" where
  "parse_byte_range v total_size =
     Option.bind (strip_prefix ''bytes='' v) (\<lambda>v.
       let parts = split_char CHR ''-'' v; num = parse_unsigned (2 ^ 64) in
       if length parts \<noteq> 2 then None
       else
         Option.bind
           (if parts ! 0 = '''' then Option.bind (num (parts ! 1)) (\<lambda>suffix. Some (total_size - suffix, total_size))
            else if parts ! 1 = '''' then Option.bind (num (parts ! 0)) (\<lambda>start. Some (start, total_size))
            else Option.bind (num (parts ! 0)) (\<lambda>start.
                 Option.bind (num (parts ! 1)) (\<lambda>stop. Some (start, (stop + 1) mod 2 ^ 64))))
           (\<lambda>(start, stop).
              if total_size \<le> start \<or> stop \<le> start then None else Some (start, min stop total_size)))"

record object_response =
  or_status :: nat
  or_etag :: "string option"
  or_content_range :: "string option"
  or_content_length :: nat
  or_body :: string

definition require_read :: "storage_ctx \<Rightarrow> bucket \<Rightarrow> unit storage_act" where
  "require_read ctx b = (if bk_is_public b then ret () else require_permission ctx (bk_slug b) ''read'')"

definition get_object ::
  "storage_env \<Rightarrow> storage_ctx \<Rightarrow> string \<Rightarrow> string \<Rightarrow> string option \<Rightarrow> object_response storage_act" where
  "get_object env ctx bucket_ref key range_header =
     bind (org_bucket env ctx bucket_ref) (\<lambda>(org_id, b).
     bind (require_read ctx b) (\<lambda>_.
     bind (get_blob_store env) (\<lambda>base.
     bind (get_blob env base org_id (bk_slug b) key None) (\<lambda>whole.
       case Option.bind range_header (\<lambda>r. parse_byte_range r (bl_content_length whole)) of
         None \<Rightarrow> ret \<lparr>or_status = 200, or_etag = bl_etag whole, or_content_range = None,
                  or_content_length = bl_content_length whole, or_body = bl_data whole\<rparr>
       | Some (start, stop) \<Rightarrow>
           bind (get_blob env base org_id (bk_slug b) key (Some (start, stop))) (\<lambda>part.
             ret \<lparr>or_status = 206, or_etag = bl_etag whole,
               or_content_range = Some (''bytes '' @ show_nat start @ ''-'' @ show_nat (stop - 1) @ ''/'' @
                 show_nat (bl_content_length whole)),
               or_content_length = stop - start, or_body = bl_data part\<rparr>)))))"

definition head_object :: "storage_env \<Rightarrow> storage_ctx \<Rightarrow> string \<Rightarrow> string \<Rightarrow> nat storage_act" where
  "head_object env ctx bucket_ref key =
     bind (org_bucket env ctx bucket_ref) (\<lambda>(org_id, b).
     bind (require_read ctx b) (\<lambda>_.
     bind (get_blob_store env) (\<lambda>base. head_blob env base org_id (bk_slug b) key)))"

definition delete_object :: "storage_env \<Rightarrow> storage_ctx \<Rightarrow> string \<Rightarrow> string \<Rightarrow> unit storage_act" where
  "delete_object env ctx bucket_ref key =
     bind (org_bucket env ctx bucket_ref) (\<lambda>(org_id, b).
     bind (require_permission ctx (bk_slug b) ''write'') (\<lambda>_.
     bind (ssql env (get_object_by_key (bk_id b) key)) (\<lambda>found.
     bind (lift (ok_or (StNotFound (bucket_ref @ ''/'' @ key)) found)) (\<lambda>obj.
     bind (get_blob_store env) (\<lambda>base.
     bind (delete_blob env base org_id (bk_slug b) key) (\<lambda>_.
       ssql env (delete_object_row (ob_id obj))))))))"

section \<open>Signing (routes/sign.rs)\<close>

definition create_signed_url ::
  "storage_env \<Rightarrow> storage_ctx \<Rightarrow> string \<Rightarrow> string \<Rightarrow> nat \<Rightarrow> bool \<Rightarrow> signed_url storage_act" where
  "create_signed_url env ctx bucket_ref key expires_in for_upload =
     bind (org_bucket env ctx bucket_ref) (\<lambda>(org_id, b).
     bind (if \<not> bk_is_public b \<or> for_upload
           then require_permission ctx (bk_slug b) (if for_upload then ''write'' else ''read'') else ret ()) (\<lambda>_.
     if 604800 < expires_in
     then lift (Err (StInvalidRequest ''expires_in cannot exceed 604800 seconds (7 days)''))
     else
       bind (get_blob_store env) (\<lambda>base.
         sign_url env org_id (bk_slug b) key (if expires_in = 0 then 3600 else expires_in) for_upload)))"

section \<open>Multipart uploads (routes/multipart.rs)\<close>

definition writable_bucket :: "storage_env \<Rightarrow> storage_ctx \<Rightarrow> string \<Rightarrow> (uuid \<times> bucket) storage_act" where
  "writable_bucket env ctx bucket_ref =
     bind (org_bucket env ctx bucket_ref) (\<lambda>(org_id, b).
     bind (require_permission ctx (bk_slug b) ''write'') (\<lambda>_. ret (org_id, b)))"

definition create_multipart_upload ::
  "storage_env \<Rightarrow> storage_ctx \<Rightarrow> string \<Rightarrow> string \<Rightarrow> string option \<Rightarrow> string storage_act" where
  "create_multipart_upload env ctx bucket_ref key content_type =
     bind (writable_bucket env ctx bucket_ref) (\<lambda>(org_id, b).
     bind (get_blob_store env) (\<lambda>base.
     bind (create_multipart env base org_id (bk_slug b)) (\<lambda>upload_id.
     bind (create_upload_record env (bk_id b) key upload_id (storage_user_id env ctx) content_type) (\<lambda>_.
       ret upload_id))))"

definition known_upload :: "storage_env \<Rightarrow> bucket \<Rightarrow> string \<Rightarrow> multipart_upload storage_act" where
  "known_upload env b upload_id =
     bind (get_upload_record env (bk_id b) upload_id) (\<lambda>u. lift (ok_or (no_upload upload_id) u))"

definition upload_part ::
  "storage_env \<Rightarrow> storage_ctx \<Rightarrow> string \<Rightarrow> string \<Rightarrow> string \<Rightarrow> 32 word \<Rightarrow> string option \<Rightarrow> string storage_act" where
  "upload_part env ctx bucket_ref key upload_id part_number body =
     bind (writable_bucket env ctx bucket_ref) (\<lambda>(org_id, b).
     bind (known_upload env b upload_id) (\<lambda>_.
     bind (read_body env body) (\<lambda>bytes.
     bind (get_blob_store env) (\<lambda>base.
     bind (upload_blob_part env base org_id (bk_slug b) upload_id part_number bytes) (\<lambda>etag.
     bind (add_part_record env (bk_id b) upload_id part_number etag (of_nat (length bytes))) (\<lambda>_. ret etag))))))"

definition complete_multipart_upload ::
  "storage_env \<Rightarrow> storage_ctx \<Rightarrow> string \<Rightarrow> string \<Rightarrow> string \<Rightarrow> (32 word \<times> string) list \<Rightarrow> string storage_act" where
  "complete_multipart_upload env ctx bucket_ref key upload_id parts =
     bind (writable_bucket env ctx bucket_ref) (\<lambda>(org_id, b).
     bind (known_upload env b upload_id) (\<lambda>upload.
     bind (get_blob_store env) (\<lambda>base.
     bind (complete_multipart env base org_id (bk_slug b) key upload_id parts) (\<lambda>etag.
     bind (list_part_records env (bk_id b) upload_id) (\<lambda>stored_parts.
     bind (sfresh (sx_uuid env)) (\<lambda>i.
     bind (ssql env (upsert_object i
       \<lparr>oc_bucket_id = bk_id b, oc_key = key, oc_content_type = mu_content_type upload,
        oc_content_length = sum_list (map mp_size stored_parts), oc_etag = Some etag, oc_metadata = JObject [],
        oc_created_by = storage_user_id env ctx\<rparr>)) (\<lambda>_.
     bind (delete_upload_record env (bk_id b) upload_id) (\<lambda>_. ret etag))))))))"

definition abort_multipart_upload ::
  "storage_env \<Rightarrow> storage_ctx \<Rightarrow> string \<Rightarrow> string \<Rightarrow> string \<Rightarrow> unit storage_act" where
  "abort_multipart_upload env ctx bucket_ref key upload_id =
     bind (writable_bucket env ctx bucket_ref) (\<lambda>(org_id, b).
     bind (get_blob_store env) (\<lambda>base.
     bind (abort_multipart env base org_id (bk_slug b) upload_id) (\<lambda>_.
       delete_upload_record env (bk_id b) upload_id)))"

section \<open>The way to an object (router.rs)\<close>

text \<open>What a request to an object route comes to: refused by a middleware, or the handler's outcome.\<close>

datatype 'a object_outcome = RefusedUrl url_refusal | RefusedAuth auth_refusal | Handled "('a, storage_error) result"

definition object_route ::
  "storage_env \<Rightarrow> string \<Rightarrow> string \<Rightarrow> signed_query \<Rightarrow> storage_headers \<Rightarrow> (storage_ctx \<Rightarrow> 'a storage_act) \<Rightarrow>
   'a object_outcome storage_act" where
  "object_route env method p q hs handler =
     bind (verify_signed_url env method p q) (\<lambda>v.
       case v of
         Ok _ \<Rightarrow>
           bind (auth_middleware env hs) (\<lambda>a.
             case a of
               Ok ctx \<Rightarrow> (\<lambda>w. case handler ctx w of (r, w') \<Rightarrow> (Ok (Handled r), w'))
             | Err e \<Rightarrow> ret (RefusedAuth e) | _ \<Rightarrow> lift Panic)
       | Err e \<Rightarrow> ret (RefusedUrl e) | _ \<Rightarrow> lift Panic)"

end
