(* ===== verification/Storage_Paths.thy ===== *)
theory Storage_Paths
  imports Storage_Fs
begin

text \<open>
  What the operating system makes of a path (\<open>Storage_Fs\<close>): where it leads, what a file operation can change, and that
  \<open>create_dir_all\<close> makes the directories of a path and nothing else. Shared by the storage service and the vault.
\<close>

section \<open>Components\<close>

definition component :: "string \<Rightarrow> bool" where
  "component c \<longleftrightarrow> c \<notin> {'''', ''.'', ''..''} \<and> CHR ''/'' \<notin> set c"

lemma not_absolute: "CHR ''/'' \<notin> set s \<Longrightarrow> \<not> starts_with ''/'' s"
  by (auto simp: starts_with_iff)

lemma join_component: "component c \<Longrightarrow> join_path p c = p @ [c]"
  by (simp add: component_def join_path_def not_absolute split_char_single)

section \<open>Where a path leads\<close>

lemma proper_simps [simp]:
  "proper [] = []" "proper (p @ q) = proper p @ proper q"
  "proper (c # p) = (if c = '''' \<or> c = ''.'' then proper p else c # proper p)"
  by (auto simp: proper_def)

lemma set_proper: "set (proper p) \<subseteq> set p"
  by (auto simp: proper_def)

text \<open>Without \<open>..\<close> a path is what it says.\<close>

lemma walk_plain: "walk fs cur cs = Ok q \<Longrightarrow> ''..'' \<notin> set cs \<Longrightarrow> q = cur @ proper cs"
  by (induction fs cur cs rule: walk.induct) (auto split: option.splits fs_node.splits if_splits)

lemma resolve_plain: "resolve fs p = Ok q \<Longrightarrow> ''..'' \<notin> set p \<Longrightarrow> q = proper p"
  unfolding resolve_def by (drule walk_plain) auto

text \<open>Only directories are looked at on the way.\<close>

lemma walk_dirs:
  "walk fs cur cs = Ok q \<Longrightarrow> (\<And>p. fs p = Some Dir \<Longrightarrow> fs' p = Some Dir) \<Longrightarrow> walk fs' cur cs = Ok q"
proof (induction fs cur cs rule: walk.induct)
  case (2 fs cur c cs)
  then have "fs cur = Some Dir" by (auto split: option.splits fs_node.splits)
  moreover from this "2.prems"(2) have "fs' cur = Some Dir" by blast
  ultimately show ?case using 2 by (auto split: if_splits)
qed simp

lemma resolve_dirs:
  "resolve fs p = Ok q \<Longrightarrow> (\<And>p. fs p = Some Dir \<Longrightarrow> fs' p = Some Dir) \<Longrightarrow> resolve fs' p = Ok q"
  unfolding resolve_def by (rule walk_dirs)

lemma walk_append:
  "walk fs cur (p @ q) = and_then (walk fs cur p) (\<lambda>mid. walk fs mid q)"
  by (induction fs cur p rule: walk.induct) (auto split: option.splits fs_node.splits)

lemma walk_total: "walk fs cur cs \<noteq> Panic" "walk fs cur cs \<noteq> Diverge"
  by (induction fs cur cs rule: walk.induct) (auto split: option.splits fs_node.splits)

lemma resolve_cases:
  obtains q where "resolve fs p = Ok q" | e where "resolve fs p = Err e"
  unfolding resolve_def by (cases "walk fs [] p") (use walk_total in auto)

lemma proper_components: "list_all component p \<Longrightarrow> proper p = p"
  by (induction p) (auto simp: component_def)

lemma components_no_dots: "list_all component p \<Longrightarrow> ''..'' \<notin> set p"
  by (induction p) (auto simp: component_def)

lemma proper_proper [simp]: "proper (proper p) = proper p"
  by (simp add: proper_def)

text \<open>The directories above a path are there.\<close>

definition reachable_path :: "fsys \<Rightarrow> path \<Rightarrow> bool" where
  "reachable_path fs p \<longleftrightarrow> (\<forall>n < length p. fs (take n p) = Some Dir)"

lemma reachable_at: "reachable_path fs (p @ q) \<Longrightarrow> n < length q \<Longrightarrow> fs (p @ take n q) = Some Dir"
  unfolding reachable_path_def by (drule spec [of _ "length p + n"]) simp

lemma reachable_prefix: "reachable_path fs (p @ q) \<Longrightarrow> reachable_path fs p"
proof -
  assume r: "reachable_path fs (p @ q)"
  have "fs (take n p) = Some Dir" if "n < length p" for n
    using r [unfolded reachable_path_def, rule_format, of n] that by simp
  then show ?thesis by (simp add: reachable_path_def)
qed

lemma reachable_snoc: "reachable_path fs (p @ [c]) \<longleftrightarrow> reachable_path fs p \<and> fs p = Some Dir"
  by (auto simp: reachable_path_def less_Suc_eq)

lemma walk_components:
  "list_all component cs \<Longrightarrow> (\<forall>n < length cs. fs (cur @ take n cs) = Some Dir) \<Longrightarrow> walk fs cur cs = Ok (cur @ cs)"
proof (induction cs arbitrary: cur)
  case (Cons c cs)
  have "fs (cur @ [c] @ take n cs) = Some Dir" if "n < length cs" for n
    using Cons.prems(2) [rule_format, of "Suc n"] that by simp
  then have "walk fs (cur @ [c]) cs = Ok (cur @ [c] @ cs)" using Cons.IH [of "cur @ [c]"] Cons.prems(1) by simp
  moreover have "fs cur = Some Dir" using Cons.prems(2) [rule_format, of 0] by simp
  ultimately show ?case using Cons.prems(1) by (auto simp: component_def)
qed simp

lemma resolve_reachable: "list_all component p \<Longrightarrow> reachable_path fs p \<Longrightarrow> resolve fs p = Ok p"
  unfolding resolve_def reachable_path_def using walk_components [of p fs "[]"] by simp

section \<open>Where an operation may change files\<close>

definition changes_in :: "path set \<Rightarrow> 'a fs_op \<Rightarrow> bool" where
  "changes_in D f \<longleftrightarrow> (\<forall>fs p. p \<notin> D \<longrightarrow> snd (f fs) p = fs p)"

lemma changes_mono: "changes_in D f \<Longrightarrow> D \<subseteq> E \<Longrightarrow> changes_in E f"
  by (auto simp: changes_in_def)

lemma changes_file:
  assumes "''..'' \<notin> set p"
  shows "changes_in {proper p} (write_file p d)" "changes_in {proper p} (remove_file p)" "changes_in {proper p} (mkdir p)"
  unfolding changes_in_def write_file_def remove_file_def mkdir_def
  using resolve_plain [OF _ assms] by (auto split: result.splits option.splits fs_node.splits)

lemma changes_rename:
  assumes "''..'' \<notin> set p" and "''..'' \<notin> set q"
  shows "changes_in {proper p, proper q} (rename_file p q)"
  unfolding changes_in_def rename_file_def
  using resolve_plain [OF _ assms(1)] resolve_plain [OF _ assms(2)]
  by (auto split: result.splits option.splits fs_node.splits)

lemma changes_remove_dir:
  assumes "''..'' \<notin> set p"
  shows "changes_in {q. take (length (proper p)) q = proper p} (remove_dir_all p)"
  unfolding changes_in_def remove_dir_all_def
  using resolve_plain [OF _ assms] by (auto simp: below_def Let_def split: result.splits option.splits fs_node.splits)

lemma changes_mkdirs:
  assumes "''..'' \<notin> set p"
  shows "snd (mkdirs p fs) q \<noteq> fs q \<Longrightarrow> \<exists>n. q = proper (rev (drop n p))"
  using assms
proof (induction p arbitrary: fs)
  case Nil
  then show ?case by simp
next
  case (Cons c up)
  let ?p = "rev (c # up)"
  have mk: "snd (mkdir ?p fs) q = fs q" if "q \<noteq> proper ?p" for fs
    using that changes_file(3) [of ?p] Cons.prems by (auto simp: changes_in_def)
  show ?case
  proof (cases "q = proper ?p")
    case True
    then show ?thesis by (metis drop0)
  next
    case False
    have "snd (mkdirs up fs) q \<noteq> fs q"
    proof
      assume "snd (mkdirs up fs) q = fs q"
      then have "snd (mkdirs (c # up) fs) q = fs q"
        using mk [OF False, of fs] mk [OF False, of "snd (mkdirs up fs)"]
        by (auto simp: Let_def split: prod.splits result.splits io_error.splits)
      then show False using Cons.prems by simp
    qed
    then obtain n where "q = proper (rev (drop n up))" using Cons by fastforce
    then show ?thesis by (metis drop_Suc_Cons)
  qed
qed

lemma changes_create_dir:
  assumes "''..'' \<notin> set p"
  shows "changes_in {q. \<exists>n. q = take n (proper p)} (create_dir_all p)"
  unfolding changes_in_def create_dir_all_def
proof (intro allI impI)
  fix fs q assume "q \<notin> {q. \<exists>n. q = take n (proper p)}"
  moreover have "\<exists>n. q = take n (proper p)" if "q = proper (rev (drop n (rev (proper p))))" for n
  proof -
    have "rev (drop n (rev (proper p))) = take (length (proper p) - n) (proper p)" by (simp add: rev_drop)
    moreover have "proper (take k (proper p)) = take k (proper p)" for k
      by (auto simp: proper_def intro!: filter_id_conv [THEN iffD2] dest: in_set_takeD)
    ultimately show ?thesis using that by auto
  qed
  moreover have "''..'' \<notin> set (rev (proper p))" using assms set_proper [of p] by auto
  ultimately show "snd (mkdirs (rev (proper p)) fs) q = fs q" using changes_mkdirs by blast
qed

section \<open>Making directories\<close>

definition tree_shaped :: "fsys \<Rightarrow> bool" where
  "tree_shaped fs \<longleftrightarrow> fs [] = Some Dir \<and> (\<forall>p c. fs (p @ [c]) \<noteq> None \<longrightarrow> fs p = Some Dir)"

definition no_file_at :: "fsys \<Rightarrow> path \<Rightarrow> bool" where
  "no_file_at fs p \<longleftrightarrow> (\<forall>n \<le> length p. fs (take n p) \<in> {None, Some Dir})"

lemma no_file_at_snoc: "no_file_at fs (p @ [c]) \<longleftrightarrow> no_file_at fs p \<and> fs (p @ [c]) \<in> {None, Some Dir}"
  by (auto simp: no_file_at_def le_Suc_eq)

lemma walk_missing:
  assumes "list_all component cs" and "\<And>n. n < length cs \<Longrightarrow> fs (cur @ take n cs) \<in> {None, Some Dir}"
    and "\<exists>n < length cs. fs (cur @ take n cs) \<noteq> Some Dir"
  shows "walk fs cur cs = Err IoNotFound"
  using assms
proof (induction cs arbitrary: cur)
  case (Cons c cs)
  have c: "component c" using Cons.prems(1) by simp
  show ?case
  proof (cases "fs cur = Some Dir")
    case True
    have "\<exists>n < length cs. fs ((cur @ [c]) @ take n cs) \<noteq> Some Dir"
    proof -
      obtain n where n: "n < length (c # cs)" "fs (cur @ take n (c # cs)) \<noteq> Some Dir" using Cons.prems(3) by blast
      then obtain m where "n = Suc m" using True by (cases n) auto
      then show ?thesis using n by auto
    qed
    moreover have "fs ((cur @ [c]) @ take n cs) \<in> {None, Some Dir}" if "n < length cs" for n
      using Cons.prems(2) [of "Suc n"] that by simp
    ultimately have "walk fs (cur @ [c]) cs = Err IoNotFound" using Cons.IH Cons.prems(1) by simp
    then show ?thesis using True c by (auto simp: component_def)
  next
    case False
    then show ?thesis using Cons.prems(2) [of 0] by simp
  qed
qed simp

lemma resolve_reachable_or_missing:
  assumes "list_all component (p @ [c])" and "no_file_at fs p"
  shows "resolve fs (p @ [c]) = (if reachable_path fs (p @ [c]) then Ok (p @ [c]) else Err IoNotFound)"
proof (cases "reachable_path fs (p @ [c])")
  case True
  then show ?thesis using resolve_reachable [OF assms(1)] by simp
next
  case False
  have "fs (take n p) \<in> {None, Some Dir}" if "n < length (p @ [c])" for n
    using assms(2) that by (simp add: no_file_at_def)
  then have "walk fs [] (p @ [c]) = Err IoNotFound"
    by (intro walk_missing [OF assms(1)]) (use False in \<open>auto simp: reachable_path_def\<close>)
  then show ?thesis using False by (simp add: resolve_def)
qed

text \<open>\<open>create_dir_all\<close> makes every directory of a path and nothing else.\<close>

lemma mkdirs_makes:
  assumes "tree_shaped fs" and "list_all component p" and "no_file_at fs p"
  shows "\<exists>fs'. mkdirs (rev p) fs = (Ok (), fs') \<and> reachable_path fs' p \<and> fs' p = Some Dir \<and>
    (\<forall>q. (\<forall>n. q \<noteq> take n p) \<longrightarrow> fs' q = fs q)"
  using assms(2,3)
proof (induction p rule: rev_induct)
  case Nil
  then show ?case using assms(1) by (simp add: reachable_path_def tree_shaped_def)
next
  case (snoc c up)
  let ?p = "up @ [c]"
  have nf: "no_file_at fs up" "fs ?p \<in> {None, Some Dir}" using snoc.prems by (simp_all add: no_file_at_snoc)
  have prefix: "q \<noteq> ?p" "q \<noteq> take n up" if "\<forall>n. q \<noteq> take n ?p" for q n
    using that [rule_format, of "length ?p"] that [rule_format, of "min n (length up)"] by (simp_all add: min_def split: if_splits)
  show ?case
  proof (cases "reachable_path fs ?p")
    case True
    then have r: "resolve fs ?p = Ok ?p" and d: "reachable_path fs up" "fs up = Some Dir"
      using resolve_reachable [OF snoc.prems(1)] by (simp_all add: reachable_snoc)
    show ?thesis
    proof (cases "fs ?p")
      case None
      then have "mkdirs (rev ?p) fs = (Ok (), fs(?p \<mapsto> Dir))" using r by (simp add: mkdir_def)
      moreover have "reachable_path (fs(?p \<mapsto> Dir)) ?p" using True by (auto simp: reachable_path_def)
      ultimately show ?thesis using prefix(1) by fastforce
    next
      case (Some a)
      then have "mkdirs (rev ?p) fs = (Ok (), fs)" using r nf(2) by (simp add: mkdir_def node_at_def)
      then show ?thesis using True Some nf(2) by auto
    qed
  next
    case False
    then have m: "resolve fs ?p = Err IoNotFound" using resolve_reachable_or_missing [OF snoc.prems(1) nf(1)] by simp
    obtain fs1 where f: "mkdirs (rev up) fs = (Ok (), fs1)" "reachable_path fs1 up" "fs1 up = Some Dir"
      "\<And>q. (\<forall>n. q \<noteq> take n up) \<Longrightarrow> fs1 q = fs q" using snoc.IH snoc.prems(1) nf(1) by fastforce
    have r: "resolve fs1 ?p = Ok ?p" using resolve_reachable [OF snoc.prems(1)] f(2,3) by (simp add: reachable_snoc)
    have "?p \<noteq> take n up" for n
    proof
      assume "?p = take n up"
      then have "length ?p = length (take n up)" by (simp only:)
      then show False by simp
    qed
    then have same: "fs1 ?p = fs ?p" by (simp add: f(4))
    show ?thesis
    proof (cases "fs ?p")
      case None
      then have "mkdirs (rev ?p) fs = (Ok (), fs1(?p \<mapsto> Dir))" using m r f(1) same by (simp add: mkdir_def)
      moreover have "reachable_path (fs1(?p \<mapsto> Dir)) ?p"
        using f(2,3) reachable_snoc [of fs1 up c] by (auto simp: reachable_path_def)
      ultimately show ?thesis using prefix f(4) by fastforce
    next
      case (Some a)
      then have "mkdirs (rev ?p) fs = (Ok (), fs1)" using m r f(1) same nf(2) by (simp add: mkdir_def node_at_def)
      then show ?thesis using prefix(2) f(2-4) same Some nf(2) by (auto simp: reachable_snoc)
    qed
  qed
qed

end
