(* ===== verification/Storage_Steps.thy ===== *)
theory Storage_Steps
  imports Storage_Service Storage_Paths
begin

text \<open>
  Runs of the storage service: the calls that change its world, in any order and by any organization; what
  the operating system makes of a path; and the contract of a relation between worlds that statements and
  file operations keep.
\<close>

section \<open>Calls\<close>

datatype storage_call =
    SCreateBucket storage_ctx string bool
  | SUpdateBucket storage_ctx string "bool option"
  | SDeleteBucket storage_ctx string
  | SPut storage_ctx string string "string option" "string option"
  | SGet storage_ctx string string "string option"
  | SDelete storage_ctx string string
  | SSign storage_ctx string string nat bool
  | SCreateUpload storage_ctx string string "string option"
  | SUploadPart storage_ctx string string string "32 word" "string option"
  | SComplete storage_ctx string string string "(32 word \<times> string) list"
  | SAbort storage_ctx string string string
  | SElapse nat

fun perform_storage :: "storage_env \<Rightarrow> storage_call \<Rightarrow> storage_world \<Rightarrow> storage_world" where
  "perform_storage env (SCreateBucket ctx slug public) w = snd (create_bucket env ctx slug public w)"
| "perform_storage env (SUpdateBucket ctx b public) w = snd (update_bucket env ctx b public w)"
| "perform_storage env (SDeleteBucket ctx b) w = snd (delete_bucket env ctx b w)"
| "perform_storage env (SPut ctx b key ct body) w = snd (put_object env ctx b key ct body w)"
| "perform_storage env (SGet ctx b key span) w = snd (get_object env ctx b key span w)"
| "perform_storage env (SDelete ctx b key) w = snd (delete_object env ctx b key w)"
| "perform_storage env (SSign ctx b key secs up) w = snd (create_signed_url env ctx b key secs up w)"
| "perform_storage env (SCreateUpload ctx b key ct) w = snd (create_multipart_upload env ctx b key ct w)"
| "perform_storage env (SUploadPart ctx b key i n body) w = snd (upload_part env ctx b key i n body w)"
| "perform_storage env (SComplete ctx b key i parts) w = snd (complete_multipart_upload env ctx b key i parts w)"
| "perform_storage env (SAbort ctx b key i) w = snd (abort_multipart_upload env ctx b key i w)"
| "perform_storage env (SElapse n) w = w\<lparr>sw_now := sw_now w + int n\<rparr>"

definition perform_all_storage :: "storage_env \<Rightarrow> storage_call list \<Rightarrow> storage_world \<Rightarrow> storage_world" where
  "perform_all_storage env calls w = foldl (\<lambda>w c. perform_storage env c w) w calls"

section \<open>What a computation does to the world\<close>

text \<open>Two worlds that differ at most in the supply of identifiers, the clock and the count of effects.\<close>

definition same_files :: "storage_world \<Rightarrow> storage_world \<Rightarrow> bool" where
  "same_files w w' \<longleftrightarrow> sw_db w' = sw_db w \<and> sw_fs w' = sw_fs w"

lemma same_files_refl [simp]: "same_files w w"
  by (simp add: same_files_def)

lemma wp_map_error: "wp (map_error g m) Q E w = wp m Q E w"
  by (auto simp: wp_def map_error_def split: prod.splits result.splits)

text \<open>The contract of an invariant that only looks at the tables and the files.\<close>

locale storage_invariant =
  fixes I :: "storage_world \<Rightarrow> bool"
  assumes same: "same_files w w' \<Longrightarrow> I w \<Longrightarrow> I w'"
begin

lemma inv_sfresh: "(\<And>n. Q (f n)) \<Longrightarrow> inv I (sfresh f) Q"
  by (auto simp: inv_def wp_def sfresh_def same_files_def intro: same)

lemma inv_clock: "inv I unix_now (\<lambda>_. True)"
  by (auto simp: inv_def wp_def unix_now_def)

lemma inv_ssql:
  assumes "\<And>w r db'. I w \<Longrightarrow> st (sw_now w) (sw_db w) = (r, db') \<Longrightarrow>
    I (w\<lparr>sw_db := db'\<rparr>) \<and> (\<forall>a. r = Ok a \<longrightarrow> Q a)"
  shows "inv I (ssql env st) Q"
  unfolding inv_def
proof (intro allI impI)
  fix w assume i: "I w"
  obtain r db' where st: "st (sw_now w) (sw_db w) = (r, db')" by fastforce
  have "I (snd (ssql env st w))"
  proof (cases "sx_fails env (sw_effects w)")
    case True
    then show ?thesis using same [OF _ i] by (simp add: ssql_def Let_def same_files_def)
  next
    case False
    then have "same_files (w\<lparr>sw_db := db'\<rparr>) (snd (ssql env st w))" using st by (simp add: ssql_def Let_def same_files_def)
    then show ?thesis using assms [OF i st] same by blast
  qed
  then show "wp (ssql env st) (\<lambda>a w'. I w' \<and> Q a) I w"
    using assms [OF i st] st by (cases r) (auto simp: wp_def ssql_def Let_def split: if_splits)
qed

lemma inv_select: "(\<And>w. I w \<Longrightarrow> Q (f (sw_db w))) \<Longrightarrow> inv I (ssql env (select_st f)) Q"
  by (rule inv_ssql) (auto simp: select_st_def)

lemma inv_sfile:
  assumes "\<And>w r fs'. I w \<Longrightarrow> f (sw_fs w) = (r, fs') \<Longrightarrow> I (w\<lparr>sw_fs := fs'\<rparr>)"
  shows "inv I (sfile env f) (\<lambda>_. True)"
  unfolding inv_def
proof (intro allI impI)
  fix w assume i: "I w"
  obtain r fs' where f: "f (sw_fs w) = (r, fs')" by fastforce
  have "I (snd (sfile env f w))"
  proof (cases "sx_fails env (sw_effects w)")
    case True
    then show ?thesis using same [OF _ i] by (simp add: sfile_def Let_def same_files_def)
  next
    case False
    then have "same_files (w\<lparr>sw_fs := fs'\<rparr>) (snd (sfile env f w))" using f by (simp add: sfile_def Let_def same_files_def)
    then show ?thesis using assms [OF i f] same by blast
  qed
  then show "wp (sfile env f) (\<lambda>a w'. I w' \<and> True) I w" by (simp add: wp_snd)
qed

lemma inv_io: "inv I (sfile env f) Q \<Longrightarrow> inv I (io env f) Q" "inv I (sfile env f) Q \<Longrightarrow> inv I (found_io env m f) Q"
  unfolding io_def found_io_def by (rule inv_map_error, assumption)+

lemma inv_reading: "(\<And>fs. snd (f fs) = fs) \<Longrightarrow> inv I (sfile env f) (\<lambda>_. True)"
proof (rule inv_sfile)
  fix w r fs'
  assume reads: "\<And>fs. snd (f fs) = fs" and i: "I w" and f: "f (sw_fs w) = (r, fs')"
  then have "fs' = sw_fs w" by (metis snd_conv)
  then show "I (w\<lparr>sw_fs := fs'\<rparr>)" using i by simp
qed

lemma inv_exists_path: "inv I (exists_path env p) (\<lambda>_. True)"
  unfolding exists_path_def by (rule inv_bind [OF inv_attempt [OF inv_reading]]) (simp, rule inv_ret, simp)

lemma inv_reads:
  "inv I (sfile env (read_file p)) (\<lambda>_. True)" "inv I (sfile env (file_length p)) (\<lambda>_. True)"
  by (auto intro!: inv_reading simp: read_file_def file_length_def split: result.splits option.splits fs_node.splits)

lemma inv_blob_reads:
  "inv I (get_blob env base org_id b key span) (\<lambda>_. True)" "inv I (head_blob env base org_id b key) (\<lambda>_. True)"
  "inv I (read_parts env base org_id b i parts) (\<lambda>_. True)"
proof -
  show "inv I (get_blob env base org_id b key span) (\<lambda>_. True)"
    unfolding get_blob_def Let_def
    by (intro inv_bind [OF inv_io(2) [OF inv_reads(1)]] inv_prod inv_if inv_lift inv_ret) simp_all
  show "inv I (head_blob env base org_id b key) (\<lambda>_. True)"
    unfolding head_blob_def by (intro inv_io inv_reads)
  show "inv I (read_parts env base org_id b i parts) (\<lambda>_. True)"
  proof (induction parts)
    case Nil
    show ?case unfolding read_parts.simps by (rule inv_ret) simp
  next
    case (Cons part parts)
    show ?case
      by (cases part, simp only: read_parts.simps Let_def)
        (intro inv_bind [OF inv_exists_path] inv_if inv_lift inv_bind [OF inv_io(1) [OF inv_reads(1)]]
          inv_bind [OF Cons.IH] inv_ret TrueI)
  qed
qed

text \<open>A bucket of the caller's organization, where every bucket has \<open>P\<close>.\<close>

lemma inv_org_bucket:
  assumes "\<And>w b. I w \<Longrightarrow> b \<in> set (s_buckets (sw_db w)) \<Longrightarrow> P b"
  shows "inv I (org_bucket env ctx r)
    (\<lambda>v. storage_org_id ctx = Some (fst v) \<and> bk_org_id (snd v) = fst v \<and> bk_slug (snd v) = r \<and> P (snd v))"
  unfolding org_bucket_def
proof (rule inv_bind)
  show "inv I (require_org ctx) (\<lambda>o'. storage_org_id ctx = Some o')"
    unfolding require_org_def by (intro inv_if inv_lift) simp_all
  fix o' assume org: "storage_org_id ctx = Some o'"
  show "inv I (bind (ssql env (get_bucket_by_slug o' r)) (\<lambda>found. bind (lift (ok_or (BucketNotFound r) found)) (\<lambda>b. ret (o', b))))
    (\<lambda>v. storage_org_id ctx = Some (fst v) \<and> bk_org_id (snd v) = fst v \<and> bk_slug (snd v) = r \<and> P (snd v))"
  proof (rule inv_bind)
    show "inv I (ssql env (get_bucket_by_slug o' r)) (\<lambda>v. \<forall>b. v = Some b \<longrightarrow> bk_org_id b = o' \<and> bk_slug b = r \<and> P b)"
      unfolding get_bucket_by_slug_def by (rule inv_select) (use assms in \<open>auto simp: bucket_by_slug_def find_Some_iff\<close>)
  qed (use org in \<open>auto intro!: inv_bind [OF inv_lift [where Q = "\<lambda>b. bk_org_id b = o' \<and> bk_slug b = r \<and> P b"]] inv_ret\<close>)
qed

lemma inv_permission: "inv I (require_permission ctx slug what) (\<lambda>_. True)" "inv I (require_read ctx b) (\<lambda>_. True)"
  unfolding require_permission_def require_read_def by (auto intro: inv_lift inv_ret)

lemma inv_body: "inv I (read_body env body) (\<lambda>_. True)"
  unfolding read_body_def by (intro inv_option inv_if inv_lift inv_ret TrueI)

lemma inv_blob_store: "inv I (get_blob_store env) (\<lambda>base. sx_base env = Some base)"
  unfolding get_blob_store_def by (rule inv_lift) simp

lemma inv_writable:
  assumes "\<And>w b. I w \<Longrightarrow> b \<in> set (s_buckets (sw_db w)) \<Longrightarrow> P b"
  shows "inv I (writable_bucket env ctx r)
    (\<lambda>v. storage_org_id ctx = Some (fst v) \<and> bk_org_id (snd v) = fst v \<and> bk_slug (snd v) = r \<and> P (snd v))"
  unfolding writable_bucket_def
  by (rule inv_bind [OF inv_org_bucket [of P, OF assms]]) (auto intro!: inv_bind [OF inv_permission(1)] inv_ret)

end

text \<open>
  A small storage service to evaluate the definitions on: hashes are the texts themselves, the n-th identifier is a
  run of letters, nothing fails, and two organizations \<open>g\<close> and \<open>h\<close> have a bucket each, with an object in it.
\<close>

definition sample_storage_env :: storage_env where
  "sample_storage_env =
     \<lparr>sx_fails = (\<lambda>_. False), sx_uuid = (\<lambda>n. replicate (Suc n) CHR ''u''), sx_parse_uuid = Some,
      sx_sha256_hex = (\<lambda>s. s), sx_hmac_hex = (\<lambda>k m. k @ m), sx_resolve = (\<lambda>_ _. None), sx_admin_token = None,
      sx_base = Some [''data''], sx_signing_secret = Some ''secret'', sx_max_upload_size = 100,
      sx_json_f64 = (\<lambda>_. JNull), sx_debug_json = (\<lambda>_. ''''), sx_policy_of_json = (\<lambda>_. None)\<rparr>"

definition storage_user :: "uuid \<Rightarrow> string list \<Rightarrow> storage_ctx" where
  "storage_user org_id permissions =
     \<lparr>sc_auth = Some \<lparr>ax_claims = \<lparr>cl_sub = ''user_ann'', cl_iss = '''', cl_aud = '''', cl_exp = 0, cl_iat = 0, cl_nbf = None,
        cl_email = None, cl_amr = [], cl_orgs = [], cl_default_org = None, cl_session_id = None, cl_scopes = [],
        cl_mfa_at = None\<rparr>, ax_active_org = Some org_id, ax_permissions = permissions\<rparr>,
      sc_request_id = ''r'', sc_is_anonymous = False\<rparr>"

definition plain_bucket :: "uuid \<Rightarrow> uuid \<Rightarrow> string \<Rightarrow> bucket" where
  "plain_bucket i org_id slug =
     \<lparr>bk_id = i, bk_org_id = org_id, bk_slug = slug, bk_is_public = False, bk_created_at = 0, bk_updated_at = 0,
      bk_created_by = None\<rparr>"

definition sample_files :: fsys where
  "sample_files = [[] \<mapsto> Dir, [''data''] \<mapsto> Dir, [''data'', ''g''] \<mapsto> Dir, [''data'', ''g'', ''docs''] \<mapsto> Dir,
     [''data'', ''g'', ''docs'', ''a''] \<mapsto> File ''mine'', [''data'', ''g'', ''docs'', ''.multipart''] \<mapsto> Dir,
     [''data'', ''h''] \<mapsto> Dir, [''data'', ''h'', ''pay''] \<mapsto> Dir, [''data'', ''h'', ''pay'', ''b''] \<mapsto> File ''theirs'']"

definition sample_storage_world :: storage_world where
  "sample_storage_world =
     \<lparr>sw_db = \<lparr>s_buckets = [plain_bucket ''i'' ''g'' ''docs'', plain_bucket ''j'' ''h'' ''pay''], s_objects = [],
        s_policies = [], s_uploads = [], s_parts = []\<rparr>,
      sw_fs = sample_files, sw_now = 1000000, sw_fresh = 0, sw_effects = 0\<rparr>"

end
