(* ===== verification/Storage_Isolation.thy ===== *)
theory Storage_Isolation
  imports Storage_Steps
begin

text \<open>
  Organizations do not touch each other's objects, as long as keys and upload ids are plain, that is
  relative and without \<open>..\<close>: then every file operation stays below the directory of the caller's
  organization. That nothing in the service asks for plain keys is the subject of \<open>Storage_Escape\<close>.
\<close>

section \<open>Plain texts\<close>

definition plain_key :: "string \<Rightarrow> bool" where
  "plain_key k \<longleftrightarrow> \<not> starts_with ''/'' k \<and> ''..'' \<notin> set (split_char CHR ''/'' k)"

lemma join_plain: "plain_key k \<Longrightarrow> join_path p k = p @ split_char CHR ''/'' k"
  by (simp add: plain_key_def join_path_def)

lemma no_slash_replaced: "CHR ''/'' \<notin> set (replace_char CHR ''/'' ''_'' s)"
  by (induction s) auto

lemma no_slash_pad5: "CHR ''/'' \<notin> set (pad5 n)"
proof -
  have "is_ascii_digit c" if "c \<in> set (show_nat m)" for c m
    using that show_nat_digits [of m] by (simp add: list_all_iff)
  moreover have "\<not> is_ascii_digit CHR ''/''" by (simp add: is_ascii_digit_def)
  ultimately have "CHR ''/'' \<notin> set (show_nat m)" for m by blast
  then show ?thesis by (auto simp: pad5_def Let_def)
qed

lemma temp_component: "component i \<Longrightarrow> component (''.tmp.'' @ i @ ''.'' @ replace_char CHR ''/'' ''_'' key)"
  using no_slash_replaced by (simp add: component_def)

lemma part_component: "component (''part_'' @ pad5 n)"
  using no_slash_pad5 by (simp add: component_def)

lemma dot_multipart: "component ''.multipart''"
  by (simp add: component_def)

lemma slug_component: "validate_slug s = Ok () \<Longrightarrow> component s"
proof -
  assume "validate_slug s = Ok ()"
  then have r: "slug_regex s" by (auto simp: validate_slug_def split: if_splits)
  then have "slug_char (hd s)" "list_all (\<lambda>c. slug_char c \<or> c = CHR ''-'') s" by (simp_all add: slug_regex_def)
  moreover have "\<not> slug_char CHR ''.''" "\<not> slug_char CHR ''/''"
    by (simp_all add: slug_char_def is_ascii_lower_def is_ascii_digit_def)
  ultimately show ?thesis using r by (auto simp: component_def slug_regex_def list_all_iff)
qed

section \<open>The directory of an organization\<close>

definition in_org :: "path \<Rightarrow> uuid \<Rightarrow> path \<Rightarrow> bool" where
  "in_org base o' p \<longleftrightarrow> take (Suc (length base)) p = base @ [o']"

text \<open>The files of \<open>o'\<close> are those of \<open>f0\<close>, and no bucket has a slug that leads elsewhere.\<close>

definition untouched :: "path \<Rightarrow> uuid \<Rightarrow> fsys \<Rightarrow> storage_world \<Rightarrow> bool" where
  "untouched base o' f0 w \<longleftrightarrow>
     (\<forall>p. in_org base o' p \<longrightarrow> sw_fs w p = f0 p) \<and> (\<forall>b\<in>set (s_buckets (sw_db w)). component (bk_slug b))"

interpretation isolated: storage_invariant "untouched base o' f0" for base o' f0
  by unfold_locales (simp add: untouched_def same_files_def)

lemma outside:
  assumes "changes_in D f" and "D \<inter> {p. in_org base o' p} = {}"
  shows "inv (untouched base o' f0) (sfile env f) (\<lambda>_. True)"
proof (rule isolated.inv_sfile)
  fix w r fs'
  assume u: "untouched base o' f0 w" and f: "f (sw_fs w) = (r, fs')"
  have "fs' p = sw_fs w p" if "in_org base o' p" for p
  proof -
    have "p \<notin> D" using that assms(2) by blast
    then have "snd (f (sw_fs w)) p = sw_fs w p" using assms(1) by (simp add: changes_in_def)
    then show ?thesis using f by simp
  qed
  then show "untouched base o' f0 (w\<lparr>sw_fs := fs'\<rparr>)" using u by (simp add: untouched_def)
qed

lemma elsewhere:
  assumes "g \<noteq> o'"
  shows "\<not> in_org base o' (take n (base @ g # rest))" "take (length (base @ g # rest)) p = base @ g # rest \<Longrightarrow> \<not> in_org base o' p"
proof -
  show "\<not> in_org base o' (take n (base @ g # rest))"
  proof (cases "n \<le> length base")
    case True
    then have "length (take (Suc (length base)) (take n (base @ g # rest))) \<noteq> length (base @ [o'])" by simp
    then show ?thesis unfolding in_org_def by (rule contrapos_nn) simp
  next
    case False
    then show ?thesis using assms by (auto simp: in_org_def take_Cons' min_def)
  qed
  assume p: "take (length (base @ g # rest)) p = base @ g # rest"
  have "take (Suc (length base)) p = take (Suc (length base)) (take (length (base @ g # rest)) p)" by (simp add: min_def)
  also have "\<dots> = base @ [g]" unfolding p by simp
  finally show "\<not> in_org base o' p" using assms by (simp add: in_org_def)
qed

text \<open>A path in the directory of another organization, without \<open>..\<close>.\<close>

definition of_other :: "path \<Rightarrow> uuid \<Rightarrow> path \<Rightarrow> bool" where
  "of_other base o' p \<longleftrightarrow> ''..'' \<notin> set p \<and> (\<exists>g rest. proper p = base @ g # rest \<and> g \<noteq> o')"

lemma ops_elsewhere:
  assumes "of_other base o' p"
  shows "inv (untouched base o' f0) (sfile env (write_file p d)) (\<lambda>_. True)"
    "inv (untouched base o' f0) (sfile env (remove_file p)) (\<lambda>_. True)"
    "inv (untouched base o' f0) (sfile env (create_dir_all p)) (\<lambda>_. True)"
    "inv (untouched base o' f0) (sfile env (create_dir_all (butlast (proper p)))) (\<lambda>_. True)"
    "inv (untouched base o' f0) (sfile env (remove_dir_all p)) (\<lambda>_. True)"
    "of_other base o' q \<Longrightarrow> inv (untouched base o' f0) (sfile env (rename_file q p)) (\<lambda>_. True)"
proof -
  obtain g rest where p: "''..'' \<notin> set p" "proper p = base @ g # rest" "g \<noteq> o'" using assms by (auto simp: of_other_def)
  have here: "\<not> in_org base o' (proper p)" using elsewhere(1) [OF p(3), of base "length (base @ g # rest)" rest] p(2) by simp
  show "inv (untouched base o' f0) (sfile env (write_file p d)) (\<lambda>_. True)"
    "inv (untouched base o' f0) (sfile env (remove_file p)) (\<lambda>_. True)"
    by (rule outside [OF changes_file(1) [OF p(1)]], use here in simp, rule outside [OF changes_file(2) [OF p(1)]], use here in simp)
  show "inv (untouched base o' f0) (sfile env (create_dir_all p)) (\<lambda>_. True)"
    by (rule outside [OF changes_create_dir [OF p(1)]]) (use elsewhere(1) [OF p(3)] p(2) in auto)
  have b: "butlast (proper p) = take (length base + length rest) (base @ g # rest)"
    using p(2) by (simp add: butlast_conv_take)
  have bp: "proper (butlast (proper p)) = butlast (proper p)"
    by (auto simp: proper_def intro!: filter_id_conv [THEN iffD2] dest: in_set_butlastD)
  have "''..'' \<notin> set (butlast (proper p))" using p(1) set_proper [of p] by (auto dest: in_set_butlastD)
  then show "inv (untouched base o' f0) (sfile env (create_dir_all (butlast (proper p)))) (\<lambda>_. True)"
  proof (rule outside [OF changes_create_dir])
    have "\<not> in_org base o' (take n (butlast (proper p)))" for n
      unfolding b take_take by (rule elsewhere(1) [OF p(3)])
    then show "{q. \<exists>n. q = take n (proper (butlast (proper p)))} \<inter> {p. in_org base o' p} = {}" unfolding bp by blast
  qed
  show "inv (untouched base o' f0) (sfile env (remove_dir_all p)) (\<lambda>_. True)"
    by (rule outside [OF changes_remove_dir [OF p(1)]]) (use elsewhere(2) [OF p(3)] p(2) in auto)
  assume q': "of_other base o' q"
  then obtain h rest' where q: "''..'' \<notin> set q" "proper q = base @ h # rest'" "h \<noteq> o'" by (auto simp: of_other_def)
  have "\<not> in_org base o' (proper q)" using elsewhere(1) [OF q(3), of base "length (base @ h # rest')" rest'] q(2) by simp
  then show "inv (untouched base o' f0) (sfile env (rename_file q p)) (\<lambda>_. True)"
    by (intro outside [OF changes_rename [OF q(1) p(1)]]) (use here in simp)
qed

section \<open>Calls of other organizations\<close>

definition plain_env :: "storage_env \<Rightarrow> path \<Rightarrow> bool" where
  "plain_env env base \<longleftrightarrow> sx_base env = Some base \<and> list_all component base \<and> (\<forall>n. component (sx_uuid env n))"

lemma plain_uuid: "plain_env env base \<Longrightarrow> component (sx_uuid env n)"
  by (simp add: plain_env_def)

lemma paths_elsewhere:
  assumes "plain_env env base" "component g" "g \<noteq> o'" "component s"
  shows "plain_key k \<Longrightarrow> of_other base o' (object_path base g s k)"
    "component i \<Longrightarrow> of_other base o' (temp_path base g s i k)"
    "plain_key k \<Longrightarrow> of_other base o' (multipart_dir base g s k)"
    "plain_key k \<Longrightarrow> of_other base o' (part_path base g s k n)"
proof -
  have b: "proper base = base" "''..'' \<notin> set base" using assms(1) by (simp_all add: plain_env_def proper_components components_no_dots)
  have c: "''..'' \<noteq> c \<and> c \<noteq> '''' \<and> c \<noteq> ''.'' \<and> c \<noteq> ''..''" if "component c" for c
    using that by (auto simp: component_def)
  note parts = c [OF assms(2)] c [OF assms(4)] c [OF dot_multipart] c [OF part_component, of n]
  note joined = join_component [OF assms(2)] join_component [OF assms(4)] join_component [OF dot_multipart]
    join_component [OF part_component] join_plain join_component
  show "plain_key k \<Longrightarrow> of_other base o' (object_path base g s k)"
    using assms(3) parts b unfolding of_other_def object_path_def by (auto simp: joined plain_key_def)
  show "component i \<Longrightarrow> of_other base o' (temp_path base g s i k)"
    using assms(3) parts b c [OF temp_component, of i k] temp_component [of i k]
    unfolding of_other_def temp_path_def by (auto simp: joined)
  show "plain_key k \<Longrightarrow> of_other base o' (multipart_dir base g s k)"
    using assms(3) parts b unfolding of_other_def multipart_dir_def by (auto simp: joined plain_key_def)
  show "plain_key k \<Longrightarrow> of_other base o' (part_path base g s k n)"
  proof -
    assume k: "plain_key k"
    obtain t where t: "''part_'' @ pad5 n = t" "component t" using part_component by blast
    show ?thesis
      using assms(3) parts b k c [OF t(2)] unfolding of_other_def multipart_dir_def part_path_def t(1)
      by (auto simp: joined t(2) plain_key_def)
  qed
qed

lemma inv_make_parent:
  "of_other base o' p \<Longrightarrow> inv (untouched base o' f0) (make_parent env p) (\<lambda>_. True)"
  unfolding make_parent_def by (intro inv_if inv_ret isolated.inv_io ops_elsewhere TrueI)

lemma inv_put_blob:
  assumes "plain_env env base" "component g" "g \<noteq> o'" "component s" "plain_key k"
  shows "inv (untouched base o' f0) (put_blob env base g s k d) (\<lambda>_. True)"
  unfolding put_blob_def Let_def
  by (intro inv_bind [OF isolated.inv_sfresh [where Q = component]] inv_bind [OF inv_make_parent]
      inv_bind [OF isolated.inv_io(1) [where Q = "\<lambda>_. True"]] inv_bind [OF inv_attempt [where Q = "\<lambda>_. True"]] inv_bind [OF inv_ignore [where Q = "\<lambda>_. True"]] inv_sum inv_ret inv_lift TrueI
      ops_elsewhere paths_elsewhere [OF assms(1)] assms plain_uuid [OF assms(1)]) simp

lemma inv_uploads:
  assumes "plain_env env base" "component g" "g \<noteq> o'" "component s" "plain_key i"
  shows "inv (untouched base o' f0) (upload_blob_part env base g s i n d) (\<lambda>_. True)"
    "plain_key k \<Longrightarrow> inv (untouched base o' f0) (complete_multipart env base g s k i parts) (\<lambda>_. True)"
    "inv (untouched base o' f0) (abort_multipart env base g s i) (\<lambda>_. True)"
  subgoal
    unfolding upload_blob_part_def
    by (intro inv_if inv_lift inv_bind [OF isolated.inv_exists_path] inv_bind [OF isolated.inv_io(1) [where Q = "\<lambda>_. True"]] inv_ret TrueI
        ops_elsewhere paths_elsewhere [OF assms(1)] assms)
  subgoal
    unfolding complete_multipart_def Let_def
    by (intro inv_bind [OF isolated.inv_exists_path] inv_if inv_lift inv_bind [OF isolated.inv_blob_reads(3)]
        inv_bind [OF isolated.inv_sfresh [where Q = component]] inv_bind [OF inv_make_parent]
        inv_bind [OF isolated.inv_io(1) [where Q = "\<lambda>_. True"]] inv_ret TrueI ops_elsewhere paths_elsewhere [OF assms(1)] assms plain_uuid [OF assms(1)])
  subgoal
    unfolding abort_multipart_def Let_def
    by (intro inv_bind [OF isolated.inv_exists_path] inv_if inv_ret isolated.inv_io(1) TrueI ops_elsewhere
        paths_elsewhere [OF assms(1)] assms)
  done

lemma inv_create_upload:
  assumes "plain_env env base" "component g" "g \<noteq> o'" "component s"
  shows "inv (untouched base o' f0) (create_multipart env base g s) (\<lambda>_. True)"
proof -
  have p: "plain_key i" if "component i" for i
    using that by (auto simp: component_def plain_key_def not_absolute split_char_single)
  show ?thesis
    unfolding create_multipart_def
    by (intro inv_bind [OF isolated.inv_sfresh [where Q = component]] inv_bind [OF isolated.inv_io(1) [where Q = "\<lambda>_. True"]] inv_ret TrueI
        ops_elsewhere paths_elsewhere [OF assms(1)] assms plain_uuid [OF assms(1)] p)
qed

text \<open>A call that names plain keys and ids, if an organization other than \<open>o'\<close> makes it.\<close>

definition other_org :: "uuid \<Rightarrow> storage_ctx \<Rightarrow> bool" where
  "other_org o' ctx \<longleftrightarrow> (\<forall>g. storage_org_id ctx = Some g \<longrightarrow> g \<noteq> o' \<and> component g)"

fun plain_call :: "uuid \<Rightarrow> storage_call \<Rightarrow> bool" where
  "plain_call o' (SPut ctx b key ct body) = (other_org o' ctx \<and> plain_key key)"
| "plain_call o' (SDelete ctx b key) = (other_org o' ctx \<and> plain_key key)"
| "plain_call o' (SCreateUpload ctx b key ct) = other_org o' ctx"
| "plain_call o' (SUploadPart ctx b key i n body) = (other_org o' ctx \<and> plain_key i)"
| "plain_call o' (SComplete ctx b key i parts) = (other_org o' ctx \<and> plain_key key \<and> plain_key i)"
| "plain_call o' (SAbort ctx b key i) = (other_org o' ctx \<and> plain_key i)"
| "plain_call o' _ = True"

lemma untouched_slug: "untouched base o' f0 w \<Longrightarrow> b \<in> set (s_buckets (sw_db w)) \<Longrightarrow> component (bk_slug b)"
  by (simp add: untouched_def)

lemma untouched_tables:
  assumes "\<And>t db r db'. st t db = (r, db') \<Longrightarrow> bk_slug ` set (s_buckets db') \<subseteq> bk_slug ` set (s_buckets db)"
  shows "inv (untouched base o' f0) (ssql env st) (\<lambda>_. True)"
proof (rule isolated.inv_ssql)
  fix w r db' assume u: "untouched base o' f0 w" and st: "st (sw_now w) (sw_db w) = (r, db')"
  have "component (bk_slug b)" if "b \<in> set (s_buckets db')" for b
  proof -
    have "bk_slug b \<in> bk_slug ` set (s_buckets (sw_db w))" using that assms [OF st] by blast
    then show ?thesis using untouched_slug [OF u] by auto
  qed
  then show "untouched base o' f0 (w\<lparr>sw_db := db'\<rparr>) \<and> (\<forall>a. r = Ok a \<longrightarrow> True)" using u by (simp add: untouched_def)
qed

lemma inv_statements:
  "inv (untouched base o' f0) (ssql env (update_bucket_row i p)) (\<lambda>_. True)"
  "inv (untouched base o' f0) (ssql env (delete_bucket_row i)) (\<lambda>_. True)"
  "inv (untouched base o' f0) (ssql env (upsert_object i c)) (\<lambda>_. True)"
  "inv (untouched base o' f0) (ssql env (delete_object_row i)) (\<lambda>_. True)"
  "inv (untouched base o' f0) (ssql env (insert_upload i b k u ct)) (\<lambda>_. True)"
  "inv (untouched base o' f0) (ssql env (upsert_part i n e l)) (\<lambda>_. True)"
  "inv (untouched base o' f0) (ssql env (delete_parts i)) (\<lambda>_. True)"
  "inv (untouched base o' f0) (ssql env (delete_upload b i)) (\<lambda>_. True)"
  by (rule untouched_tables; auto simp: update_bucket_row_def delete_bucket_row_def upsert_object_def
      delete_object_row_def insert_upload_def upsert_part_def delete_parts_def delete_upload_def Let_def
      image_update_rows [where key = bk_slug] split: option.splits if_splits)+

lemma inv_new_bucket:
  "component (bc_slug c) \<Longrightarrow> inv (untouched base o' f0) (ssql env (create_bucket_row i c)) (\<lambda>_. True)"
  by (rule isolated.inv_ssql) (auto simp: untouched_def create_bucket_row_def Let_def split: if_splits)

lemma inv_bucket_of_ref: "inv (untouched base o' f0) (bucket_of_ref env ctx r) (\<lambda>_. True)"
  unfolding bucket_of_ref_def require_org_def find_bucket_def get_bucket_by_slug_def
  by (intro inv_bind [OF inv_if [OF inv_lift inv_lift, where Q = "\<lambda>_. True"]]
      inv_bind [OF inv_option [OF isolated.inv_select isolated.inv_select, where Q = "\<lambda>_. True"]]
      inv_bind [OF inv_lift [where Q = "\<lambda>_. True"]] inv_if inv_lift inv_ret TrueI)

lemma inv_upload_records:
  "inv (untouched base o' f0) (upload_uuid env i) (\<lambda>_. True)"
  "inv (untouched base o' f0) (require_upload env b i) (\<lambda>_. True)"
  "inv (untouched base o' f0) (get_upload_record env b i) (\<lambda>_. True)"
  "inv (untouched base o' f0) (create_upload_record env b k i u ct) (\<lambda>_. True)"
  "inv (untouched base o' f0) (add_part_record env b i n e l) (\<lambda>_. True)"
  "inv (untouched base o' f0) (list_part_records env b i) (\<lambda>_. True)"
  "inv (untouched base o' f0) (delete_upload_record env b i) (\<lambda>_. True)"
  "inv (untouched base o' f0) (known_upload env bk i) (\<lambda>_. True)"
proof -
  show u: "inv (untouched base o' f0) (upload_uuid env i) (\<lambda>_. True)" for i
    unfolding upload_uuid_def by (intro inv_lift TrueI)
  have f: "inv (untouched base o' f0) (ssql env (find_upload b i)) (\<lambda>_. True)" for b i
    unfolding find_upload_def by (intro isolated.inv_select TrueI)
  show r: "inv (untouched base o' f0) (require_upload env b i) (\<lambda>_. True)" for b i
    unfolding require_upload_def by (intro inv_bind [OF u] inv_bind [OF f] inv_option inv_lift inv_ret TrueI)
  show g: "inv (untouched base o' f0) (get_upload_record env b i) (\<lambda>_. True)" for b i
    unfolding get_upload_record_def by (intro inv_bind [OF u] f)
  show "inv (untouched base o' f0) (create_upload_record env b k i u ct) (\<lambda>_. True)" for u
    unfolding create_upload_record_def by (intro inv_bind [OF inv_lift [where Q = "\<lambda>_. True"]] inv_statements TrueI | unfold upload_uuid_def)+
  show "inv (untouched base o' f0) (add_part_record env b i n e l) (\<lambda>_. True)"
    unfolding add_part_record_def by (intro inv_bind [OF r] inv_statements)
  show "inv (untouched base o' f0) (list_part_records env b i) (\<lambda>_. True)"
    unfolding list_part_records_def parts_of_def by (intro inv_bind [OF r] isolated.inv_select TrueI)
  show "inv (untouched base o' f0) (delete_upload_record env b i) (\<lambda>_. True)"
    unfolding delete_upload_record_def
    by (intro inv_bind [OF u] inv_bind [OF inv_statements(7)] inv_bind [OF inv_statements(8)] inv_if inv_lift inv_ret TrueI)
  show "inv (untouched base o' f0) (known_upload env bk i) (\<lambda>_. True)"
    unfolding known_upload_def by (intro inv_bind [OF g] inv_lift TrueI)
qed

lemma inv_own:
  assumes "\<And>g b. storage_org_id ctx = Some g \<Longrightarrow> component (bk_slug b) \<Longrightarrow> inv (untouched base o' f0) (f g b) R"
  shows "inv (untouched base o' f0) (bind (org_bucket env ctx r) (\<lambda>(g, b). f g b)) R"
    "inv (untouched base o' f0) (bind (writable_bucket env ctx r) (\<lambda>(g, b). f g b)) R"
  by (rule inv_bind [OF isolated.inv_org_bucket [where P = "\<lambda>b. component (bk_slug b)"]], rule untouched_slug,
      assumption, assumption, rule inv_prod, use assms in force)
    (rule inv_bind [OF isolated.inv_writable [where P = "\<lambda>b. component (bk_slug b)"]], rule untouched_slug,
      assumption, assumption, rule inv_prod, use assms in force)

lemmas inv_parts = inv_bind [OF isolated.inv_permission(1)] inv_bind [OF isolated.inv_permission(2)]
  inv_bind [OF isolated.inv_body] inv_bind [OF isolated.inv_sfresh [where Q = "\<lambda>_. True"]]
  inv_bind [OF inv_upload_records(3)] inv_bind [OF inv_upload_records(4)] inv_bind [OF inv_upload_records(5)]
  inv_bind [OF inv_upload_records(6)] inv_bind [OF inv_upload_records(7)] inv_bind [OF inv_upload_records(8)]
  inv_bind [OF inv_statements(3)] inv_bind [OF isolated.inv_blob_reads(1)] inv_upload_records(7) inv_statements

lemma inv_files:
  assumes e: "plain_env env base" and c: "other_org o' ctx"
  shows "plain_key k \<Longrightarrow> inv (untouched base o' f0) (put_object env ctx b k ct body) (\<lambda>_. True)"
    "plain_key k \<Longrightarrow> inv (untouched base o' f0) (delete_object env ctx b k) (\<lambda>_. True)"
    "inv (untouched base o' f0) (create_multipart_upload env ctx b k ct) (\<lambda>_. True)"
    "plain_key i \<Longrightarrow> inv (untouched base o' f0) (upload_part env ctx b k i n body) (\<lambda>_. True)"
    "plain_key k \<Longrightarrow> plain_key i \<Longrightarrow> inv (untouched base o' f0) (complete_multipart_upload env ctx b k i ps) (\<lambda>_. True)"
    "plain_key i \<Longrightarrow> inv (untouched base o' f0) (abort_multipart_upload env ctx b k i) (\<lambda>_. True)"
proof -
  have own: "component g" "g \<noteq> o'" if "storage_org_id ctx = Some g" for g
    using c that by (simp_all add: other_org_def)
  have store: "inv (untouched base o' f0) (get_blob_store env) (\<lambda>p. p = base)"
    by (rule inv_weaken [OF isolated.inv_blob_store]) (use e in \<open>simp add: plain_env_def\<close>)
  note go = inv_own inv_parts inv_bind [OF store]
  show "plain_key k \<Longrightarrow> inv (untouched base o' f0) (put_object env ctx b k ct body) (\<lambda>_. True)"
    unfolding put_object_def
    by (intro go; (simp only:)?; intro inv_bind [OF inv_put_blob [OF e own]] go inv_ret TrueI)
  show "plain_key k \<Longrightarrow> inv (untouched base o' f0) (delete_object env ctx b k) (\<lambda>_. True)"
    unfolding delete_object_def get_object_by_key_def delete_blob_def
    by (intro go inv_bind [OF isolated.inv_select [where Q = "\<lambda>_. True"]] inv_bind [OF inv_lift [where Q = "\<lambda>_. True"]]
        inv_bind [OF isolated.inv_io(2) [where Q = "\<lambda>_. True"]] ops_elsewhere TrueI; (simp only:)?;
        intro paths_elsewhere(1) [OF e own])
  show "inv (untouched base o' f0) (create_multipart_upload env ctx b k ct) (\<lambda>_. True)"
    unfolding create_multipart_upload_def
    by (intro go; (simp only:)?; intro inv_bind [OF inv_create_upload [OF e own]] go inv_ret TrueI)
  show "plain_key i \<Longrightarrow> inv (untouched base o' f0) (upload_part env ctx b k i n body) (\<lambda>_. True)"
    unfolding upload_part_def
    by (intro go; (simp only:)?; intro inv_bind [OF inv_uploads(1) [OF e own]] go inv_ret TrueI)
  show "plain_key k \<Longrightarrow> plain_key i \<Longrightarrow> inv (untouched base o' f0) (complete_multipart_upload env ctx b k i ps) (\<lambda>_. True)"
    unfolding complete_multipart_upload_def
    by (intro go; (simp only:)?; intro inv_bind [OF inv_uploads(2) [OF e own]] go inv_ret TrueI)
  show "plain_key i \<Longrightarrow> inv (untouched base o' f0) (abort_multipart_upload env ctx b k i) (\<lambda>_. True)"
    unfolding abort_multipart_upload_def
    by (intro go; (simp only:)?; intro inv_bind [OF inv_uploads(3) [OF e own]] go inv_ret TrueI)
qed

lemma untouched_later: "untouched base o' f0 (w\<lparr>sw_now := t\<rparr>) = untouched base o' f0 w"
  by (simp add: untouched_def)

lemma inv_plain_call:
  assumes e: "plain_env env base" and c: "plain_call o' c"
  shows "untouched base o' f0 w \<Longrightarrow> untouched base o' f0 (perform_storage env c w)"
proof -
  have org: "inv (untouched base o' f0) (require_org ctx) (\<lambda>_. True)" for ctx
    unfolding require_org_def by (intro inv_if inv_lift TrueI)
  have n1: "inv (untouched base o' f0) (create_bucket env ctx slug p) (\<lambda>_. True)" for ctx slug p
    unfolding create_bucket_def
    by (intro inv_bind [OF org] inv_bind [OF inv_lift [where Q = "\<lambda>_. True"]] inv_bind_lift inv_parts inv_new_bucket TrueI)
      (simp add: slug_component)
  have n2: "inv (untouched base o' f0) (update_bucket env ctx r p) (\<lambda>_. True)"
    "inv (untouched base o' f0) (delete_bucket env ctx r) (\<lambda>_. True)" for ctx r p
    unfolding update_bucket_def delete_bucket_def by (intro inv_bind [OF inv_bucket_of_ref] inv_parts)+
  have n3: "inv (untouched base o' f0) (get_object env ctx b k span) (\<lambda>_. True)" for ctx b k span
    unfolding get_object_def
    by (intro inv_own inv_bind [OF inv_True [OF isolated.inv_blob_store]] inv_parts inv_option inv_prod inv_ret TrueI)
  have n4: "inv (untouched base o' f0) (create_signed_url env ctx b k s u) (\<lambda>_. True)" for ctx b k s u
    unfolding create_signed_url_def sign_url_def Let_def
    by (intro inv_own inv_bind [OF inv_True [OF isolated.inv_blob_store]] inv_bind [OF isolated.inv_clock]
        inv_bind [OF inv_if [OF isolated.inv_permission(1) inv_ret [where Q = "\<lambda>_. True"]]]
        inv_bind [OF inv_lift [where Q = "\<lambda>_. True"]] inv_if inv_lift inv_ret TrueI)
  show "untouched base o' f0 w \<Longrightarrow> untouched base o' f0 (perform_storage env c w)"
    using c by (cases c) (auto simp: untouched_later intro: n1 [THEN inv_at] n2(1) [THEN inv_at] n2(2) [THEN inv_at]
        n3 [THEN inv_at] n4 [THEN inv_at] inv_files(1) [OF e, THEN inv_at] inv_files(2) [OF e, THEN inv_at]
        inv_files(3) [OF e, THEN inv_at] inv_files(4) [OF e, THEN inv_at] inv_files(5) [OF e, THEN inv_at]
        inv_files(6) [OF e, THEN inv_at])
qed

section \<open>Isolation\<close>

text \<open>
  C20. Organizations leave each other's objects alone, as far as keys are plain: if the storage directory and the slugs
  of the buckets are plain path components, no sequence of calls of other organizations (uploads, downloads,
  deletions, multipart uploads, bucket changes), in which keys and upload ids are relative and have no \<open>..\<close>,
  changes any file below the directory of an organization, whatever fails in between; calls that touch no
  object may come from the organization itself.
\<close>

theorem other_orgs_leave_files:
  assumes "plain_env env base" and "\<And>c. c \<in> set calls \<Longrightarrow> plain_call o' c"
    and "\<And>b. b \<in> set (s_buckets (sw_db w)) \<Longrightarrow> component (bk_slug b)" and "in_org base o' p"
  shows "sw_fs (perform_all_storage env calls w) p = sw_fs w p"
proof -
  have "untouched base o' (sw_fs w) w" using assms(3) by (simp add: untouched_def)
  then have "untouched base o' (sw_fs w) (perform_all_storage env calls w)" using assms(2)
    unfolding perform_all_storage_def by (induction calls rule: rev_induct) (auto intro: inv_plain_call [OF assms(1)])
  then show ?thesis using assms(4) by (simp add: untouched_def)
qed

theorem other_orgs_leave_files_witness:
  "let calls = [SPut (storage_user ''g'' [''*'']) ''docs'' ''x/y'' None (Some ''new''), SDelete (storage_user ''g'' [''*'']) ''docs'' ''x/y''] in
   sw_fs (perform_all_storage sample_storage_env calls sample_storage_world) [''data'', ''h'', ''pay'', ''b''] = Some (File ''theirs'')"
proof -
  let ?calls = "[SPut (storage_user ''g'' [''*'']) ''docs'' ''x/y'' None (Some ''new''), SDelete (storage_user ''g'' [''*'']) ''docs'' ''x/y'']"
  have "plain_env sample_storage_env [''data'']"
    by (simp add: plain_env_def sample_storage_env_def component_def)
  moreover have "plain_call ''h'' c" if "c \<in> set ?calls" for c
    using that by (auto simp: other_org_def storage_org_id_def storage_user_def component_def plain_key_def starts_with_def)
  moreover have "component (bk_slug b)" if "b \<in> set (s_buckets (sw_db sample_storage_world))" for b
    using that by (auto simp: sample_storage_world_def plain_bucket_def component_def)
  moreover have "in_org [''data''] ''h'' [''data'', ''h'', ''pay'', ''b'']" by (simp add: in_org_def)
  ultimately have "sw_fs (perform_all_storage sample_storage_env ?calls sample_storage_world) [''data'', ''h'', ''pay'', ''b''] =
      sw_fs sample_storage_world [''data'', ''h'', ''pay'', ''b'']"
    by (rule other_orgs_leave_files)
  then show ?thesis by (simp add: sample_storage_world_def sample_files_def)
qed

end
