(* ===== verification/Storage_Escape.thy ===== *)
theory Storage_Escape
  imports Storage_Isolation
begin

text \<open>
  What the storage service does not do: it joins keys and upload ids to paths unchecked, so that they lead to the
  files of other organizations, and the URLs it signs open nothing. Handlers are evaluated where no statement and
  no file operation fails.
\<close>

section \<open>Handlers step by step\<close>

definition steady :: "storage_env \<Rightarrow> bool" where
  "steady env \<longleftrightarrow> sx_fails env = (\<lambda>_. False)"

lemma steady_steps:
  assumes "steady env"
  shows "ssql env st w = (case st (sw_now w) (sw_db w) of (r, db') \<Rightarrow> (r, w\<lparr>sw_effects := Suc (sw_effects w), sw_db := db'\<rparr>))"
    "sfile env f w = (case f (sw_fs w) of (r, fs') \<Rightarrow> (r, w\<lparr>sw_effects := Suc (sw_effects w), sw_fs := fs'\<rparr>))"
  using assms by (simp_all add: steady_def ssql_def sfile_def Let_def)

text \<open>A caller with a bucket \<open>s\<close> of its organization \<open>g\<close> that it may use as \<open>what\<close> says.\<close>

definition uses_bucket :: "storage_ctx \<Rightarrow> uuid \<Rightarrow> string \<Rightarrow> string \<Rightarrow> storage_world \<Rightarrow> bool" where
  "uses_bucket ctx g s what w \<longleftrightarrow>
     \<not> sc_is_anonymous ctx \<and> storage_org_id ctx = Some g \<and> bucket_by_slug g s (sw_db w) \<noteq> None \<and>
     storage_has_permission ctx (bucket_permission s what)"

lemma bucket_by_slug_slug: "bucket_by_slug g s db = Some b \<Longrightarrow> bk_slug b = s"
  by (auto simp: bucket_by_slug_def find_Some_iff)

lemma own_bucket:
  assumes "steady env" and "uses_bucket ctx g s what w"
  obtains b where "bk_slug b = s" "bucket_by_slug g s (sw_db w) = Some b"
    "org_bucket env ctx s w = (Ok (g, b), w\<lparr>sw_effects := Suc (sw_effects w)\<rparr>)"
    "\<And>w. require_permission ctx s what w = (Ok (), w)"
proof -
  obtain b where b: "bucket_by_slug g s (sw_db w) = Some b" using assms(2) by (auto simp: uses_bucket_def)
  show ?thesis
  proof (rule that [OF bucket_by_slug_slug [OF b] b])
    show "org_bucket env ctx s w = (Ok (g, b), w\<lparr>sw_effects := Suc (sw_effects w)\<rparr>)"
      using assms b by (simp add: org_bucket_def require_org_def uses_bucket_def bind_def steady_steps get_bucket_by_slug_def
          select_st_def)
    show "require_permission ctx s what w = (Ok (), w)" for w
      using assms(2) by (simp add: require_permission_def uses_bucket_def)
  qed
qed

section \<open>Paths that lead out\<close>

definition climbing :: "path \<Rightarrow> string" where
  "climbing p = ''../../'' @ join ''/'' p"

lemma split_path: "p \<noteq> [] \<Longrightarrow> list_all component p \<Longrightarrow> split_char CHR ''/'' (join ''/'' p) = p"
  by (rule split_char_join) (auto simp: list_all_iff component_def)

lemma climbing_path:
  assumes "component g" "component s" "p \<noteq> []" "list_all component p"
  shows "object_path base g s (climbing p) = base @ [g, s, ''..'', ''..''] @ p"
proof -
  have "split_char CHR ''/'' (climbing p) = ''..'' # ''..'' # p"
    using split_path [OF assms(3,4)] by (simp add: climbing_def)
  then have "join_path q (climbing p) = q @ ''..'' # ''..'' # p" for q
    by (simp add: join_path_def climbing_def starts_with_def)
  then show ?thesis unfolding object_path_def join_component [OF assms(1)] join_component [OF assms(2)] by simp
qed

lemma resolve_climbing:
  assumes "list_all component (base @ [g, s])" "reachable_path fs (base @ [g, s])" "fs (base @ [g, s]) = Some Dir"
    and "list_all component p" "reachable_path fs (base @ p)"
  shows "resolve fs (base @ [g, s, ''..'', ''..''] @ p) = Ok (base @ p)"
proof -
  have up: "resolve fs (base @ [g, s]) = Ok (base @ [g, s])" by (rule resolve_reachable [OF assms(1,2)])
  have "fs (base @ [g]) = Some Dir" using assms(2) unfolding reachable_path_def by (auto dest!: spec [of _ "Suc (length base)"])
  then have "walk fs (base @ [g, s]) (''..'' # ''..'' # p) = walk fs base p" using assms(3) by (simp add: butlast_append)
  also have "\<dots> = Ok (base @ p)"
  proof (rule walk_components [OF assms(4)], intro allI impI)
    fix n assume "n < length p"
    then show "fs (base @ take n p) = Some Dir" by (rule reachable_at [OF assms(5)])
  qed
  finally show ?thesis using up walk_append [of fs "[]" "base @ [g, s]" "''..'' # ''..'' # p"] by (simp add: resolve_def)
qed

text \<open>A target of an escape: a file of organization \<open>h\<close> below its directory, and the caller's bucket on disk.\<close>

definition escapable :: "fsys \<Rightarrow> path \<Rightarrow> uuid \<Rightarrow> string \<Rightarrow> path \<Rightarrow> bool" where
  "escapable fs base g s p \<longleftrightarrow>
     list_all component (base @ [g, s]) \<and> reachable_path fs (base @ [g, s]) \<and> fs (base @ [g, s]) = Some Dir \<and>
     p \<noteq> [] \<and> list_all component p \<and> reachable_path fs (base @ p)"

lemma escapable_object:
  assumes "escapable fs base g s p"
  shows "object_path base g s (climbing p) = base @ [g, s, ''..'', ''..''] @ p"
    "resolve fs (base @ [g, s, ''..'', ''..''] @ p) = Ok (base @ p)"
  using assms climbing_path [of g s p base] resolve_climbing [of base g s fs p] by (auto simp: escapable_def)

lemma foreign_read:
  assumes e: "steady env" "sx_base env = Some base" and u: "uses_bucket ctx g s ''read'' w"
    and x: "escapable (sw_fs w) base g s p" and f: "sw_fs w (base @ p) = Some (File d)"
  shows "\<exists>r w'. get_object env ctx s (climbing p) None w = (Ok r, w') \<and> or_body r = d"
proof -
  obtain b where b: "bk_slug b = s" "org_bucket env ctx s w = (Ok (g, b), w\<lparr>sw_effects := Suc (sw_effects w)\<rparr>)"
    "\<And>w. require_permission ctx s ''read'' w = (Ok (), w)"
    using own_bucket [OF e(1) u] by metis
  show ?thesis
    using b e x escapable_object [OF x] f
    by (simp add: get_object_def bind_def require_read_def get_blob_store_def get_blob_def found_io_def map_error_def
        steady_steps read_file_def)
qed

lemma mkdirs_there: "p \<noteq> [] \<Longrightarrow> resolve fs (rev p) = Ok q \<Longrightarrow> fs q = Some Dir \<Longrightarrow> mkdirs p fs = (Ok (), fs)"
  by (cases p) (simp_all add: mkdir_def node_at_def)

lemma rename_Ok:
  "resolve fs p = Ok q \<Longrightarrow> resolve fs p' = Ok r \<Longrightarrow> fs q = Some (File d) \<Longrightarrow> fs r \<noteq> Some Dir \<Longrightarrow>
    rename_file p p' fs = (Ok (), (fs(q := None))(r \<mapsto> File d))"
  by (auto simp: rename_file_def split: option.splits fs_node.splits)

text \<open>The write of a blob at the end of a path that leads elsewhere.\<close>

lemma put_climbing:
  assumes e: "steady env" "component (sx_uuid env (sw_fresh w))"
    and x: "escapable (sw_fs w) base g s (p @ [k])" and p: "p \<noteq> []" and f: "sw_fs w (base @ p @ [k]) \<noteq> Some Dir"
    and t: "sw_fs w (temp_path base g s (sx_uuid env (sw_fresh w)) (climbing (p @ [k]))) = None"
  shows "\<exists>w'. put_blob env base g s (climbing (p @ [k])) d w = (Ok (compute_etag env d), w') \<and>
    sw_db w' = sw_db w \<and> sw_fs w' (base @ p @ [k]) = Some (File d)"
proof -
  let ?fs = "sw_fs w" and ?up = "base @ [g, s, ''..'', ''..'']"
  define tn where "tn = ''.tmp.'' @ sx_uuid env (sw_fresh w) @ ''.'' @ replace_char CHR ''/'' ''_'' (climbing (p @ [k]))"
  have tc: "component tn" unfolding tn_def by (rule temp_component [OF e(2)])
  have c: "list_all component (base @ [g, s])" "list_all component (p @ [k])" and r: "reachable_path ?fs ((base @ p) @ [k])"
    and here: "reachable_path ?fs (base @ [g, s])" "?fs (base @ [g, s]) = Some Dir"
    using x by (simp_all add: escapable_def)
  have cg: "component g" "component s" using c(1) by simp_all
  have temp: "temp_path base g s (sx_uuid env (sw_fresh w)) (climbing (p @ [k])) = (base @ [g, s]) @ [tn]"
    unfolding temp_path_def tn_def [symmetric] join_component [OF cg(1)] join_component [OF cg(2)] join_component [OF tc] by simp
  have final: "object_path base g s (climbing (p @ [k])) = ?up @ p @ [k]"
    using climbing_path [OF cg _ c(2), of base] by simp
  have proper: "proper (?up @ p) = ?up @ p" "proper (?up @ p @ [k]) = ?up @ p @ [k]"
    using c cg proper_components [of base] proper_components [of p] by (auto simp: component_def)
  have pd: "reachable_path ?fs (base @ p)" "?fs (base @ p) = Some Dir" using r by (simp_all only: reachable_snoc)
  have "resolve ?fs (?up @ p) = Ok (base @ p)" using resolve_climbing [OF c(1) here _ pd(1)] c(2) by simp
  then have dirs: "create_dir_all (?up @ p) ?fs = (Ok (), ?fs)"
    unfolding create_dir_all_def proper(1) using p pd(2) by (intro mkdirs_there [where q = "base @ p"]) simp_all
  let ?temp = "(base @ [g, s]) @ [tn]" and ?fs1 = "?fs((base @ [g, s]) @ [tn] \<mapsto> File d)"
  have tr: "resolve ?fs ?temp = Ok ?temp"
    by (rule resolve_reachable) (use c(1) tc in simp, simp only: reachable_snoc here)
  have nt: "?fs ?temp = None" using t unfolding temp .
  have keep: "?fs q = Some Dir \<Longrightarrow> ?fs1 q = Some Dir" for q using nt by auto
  have "resolve ?fs (?up @ p @ [k]) = Ok (base @ p @ [k])"
    using resolve_climbing [OF c(1) here c(2)] r by simp
  then have fr: "resolve ?fs1 (?up @ p @ [k]) = Ok (base @ p @ [k])" by (rule resolve_dirs) (rule keep)
  have tr1: "resolve ?fs1 ?temp = Ok ?temp" by (rule resolve_dirs [OF tr]) (rule keep)
  have nd: "?fs1 (base @ p @ [k]) \<noteq> Some Dir" using f by auto
  have wrote: "write_file ?temp d ?fs = (Ok (), ?fs1)" unfolding write_file_def tr using nt by simp
  have move: "rename_file ?temp (?up @ p @ [k]) ?fs1 = (Ok (), (?fs1(?temp := None))(base @ p @ [k] \<mapsto> File d))"
    by (rule rename_Ok [OF tr1 fr _ nd]) simp
  have parent: "make_parent env (?up @ p @ [k]) w0 = (Ok (), w0\<lparr>sw_effects := Suc (sw_effects w0)\<rparr>)" if "sw_fs w0 = ?fs" for w0
  proof -
    have "butlast (proper (?up @ p @ [k])) = ?up @ p" unfolding proper(2) by (simp add: butlast_append)
    then show ?thesis using dirs that unfolding make_parent_def by (simp add: io_def map_error_def steady_steps [OF e(1)] proper)
  qed
  show ?thesis
    unfolding put_blob_def Let_def final
    by (simp add: bind_def sfresh_def temp parent io_def map_error_def steady_steps [OF e(1)] wrote move attempt_def
        del: append_assoc append.simps)
qed

text \<open>Computations that leave the files alone.\<close>

interpretation files: stays "\<lambda>w w'. sw_fs w' = sw_fs (w :: storage_world)"
  by unfold_locales simp_all

lemma files_statements: "files.keeps (ssql env st)" "files.keeps (sfresh f)"
  by (simp_all add: files.keeps_def ssql_def sfresh_def Let_def split: prod.splits)

lemma files_records: "files.keeps (delete_upload_record env b i)"
  unfolding delete_upload_record_def upload_uuid_def by (intro files.keeps_control files_statements)

lemma files_at: "files.keeps m \<Longrightarrow> sw_fs (snd (m w)) = sw_fs w"
  by (simp add: files.keeps_def)

lemma foreign_write:
  assumes e: "steady env" "sx_base env = Some base" "component (sx_uuid env (sw_fresh w))"
    and u: "uses_bucket ctx g s ''write'' w" and l: "length d \<le> sx_max_upload_size env"
    and x: "escapable (sw_fs w) base g s (p @ [k])" and p: "p \<noteq> []" and f: "sw_fs w (base @ p @ [k]) \<noteq> Some Dir"
    and t: "sw_fs w (temp_path base g s (sx_uuid env (sw_fresh w)) (climbing (p @ [k]))) = None"
  shows "sw_fs (snd (put_object env ctx s (climbing (p @ [k])) ct (Some d) w)) (base @ p @ [k]) = Some (File d)"
proof -
  obtain b where b: "bk_slug b = s" "org_bucket env ctx s w = (Ok (g, b), w\<lparr>sw_effects := Suc (sw_effects w)\<rparr>)"
    "\<And>w. require_permission ctx s ''write'' w = (Ok (), w)"
    using own_bucket [OF e(1) u] by metis
  let ?w = "w\<lparr>sw_effects := Suc (sw_effects w)\<rparr>"
  obtain w' where w': "put_blob env base g s (climbing (p @ [k])) d ?w = (Ok (compute_etag env d), w')"
    "sw_fs w' (base @ p @ [k]) = Some (File d)"
    using put_climbing [of env ?w base g s p k d] e(1,3) x p f t by auto
  show ?thesis
  proof -
    let ?row = "\<lambda>i. upsert_object i \<lparr>oc_bucket_id = bk_id b, oc_key = climbing (p @ [k]), oc_content_type = ct,
      oc_content_length = of_nat (length d), oc_etag = Some (compute_etag env d), oc_metadata = JObject [],
      oc_created_by = storage_user_id env ctx\<rparr>"
    have "put_object env ctx s (climbing (p @ [k])) ct (Some d) w =
        bind (sfresh (sx_uuid env)) (\<lambda>i. bind (ssql env (?row i)) (\<lambda>_. ret (compute_etag env d))) w'"
      using l w' by (simp add: put_object_def bind_def b read_body_def get_blob_store_def e(2))
    moreover have "files.keeps (bind (sfresh (sx_uuid env)) (\<lambda>i. bind (ssql env (?row i)) (\<lambda>_. ret (compute_etag env d))))"
      by (intro files.keeps_control files_statements)
    ultimately show ?thesis using w'(2) by (simp add: files_at)
  qed
qed

lemma foreign_wipe:
  assumes e: "steady env" "sx_base env = Some base" and u: "uses_bucket ctx g s ''write'' w"
    and h: "list_all component (base @ [h])" "reachable_path (sw_fs w) (base @ [h])" "sw_fs w (base @ [h]) = Some Dir"
    and q: "below (base @ [h]) q"
  shows "sw_fs (snd (abort_multipart_upload env ctx s key (''/'' @ join ''/'' (base @ [h])) w)) q = None"
proof -
  let ?id = "''/'' @ join ''/'' (base @ [h])"
  obtain b where b: "bk_slug b = s" "org_bucket env ctx s w = (Ok (g, b), w\<lparr>sw_effects := Suc (sw_effects w)\<rparr>)"
    "\<And>w. require_permission ctx s ''write'' w = (Ok (), w)"
    using own_bucket [OF e(1) u] by metis
  have "split_char CHR ''/'' ?id = '''' # base @ [h]" using split_path [OF _ h(1)] by simp
  then have dir: "multipart_dir base g s ?id = '''' # base @ [h]"
    unfolding multipart_dir_def by (simp only: join_path_def starts_with_append if_True)
  have root: "sw_fs w [] = Some Dir" using h(2) by (auto simp: reachable_path_def)
  have r: "resolve (sw_fs w) ('''' # base @ [h]) = Ok (base @ [h])"
    using resolve_reachable [OF h(1,2)] root by (simp add: resolve_def)
  have "last (filter (\<lambda>c. c \<noteq> '''') ('''' # base @ [h])) = h" "component h" using h(1) by (auto simp: component_def)
  then have rm: "\<exists>fs'. remove_dir_all ('''' # base @ [h]) (sw_fs w) = (Ok (), fs') \<and> fs' q = None"
    unfolding remove_dir_all_def r using h(3) q by (simp add: component_def Let_def)
  let ?w = "w\<lparr>sw_effects := Suc (sw_effects w)\<rparr>"
  obtain w' where w': "abort_multipart env base g s ?id ?w = (Ok (), w')" "sw_fs w' q = None"
    using rm r h(3) unfolding abort_multipart_def dir Let_def
    by (auto simp: exists_path_def bind_def attempt_def steady_steps [OF e(1)] node_at_def io_def map_error_def)
  show ?thesis
  proof -
    have "abort_multipart_upload env ctx s key ?id w = delete_upload_record env (bk_id b) ?id w'"
      using w' by (simp add: abort_multipart_upload_def writable_bucket_def bind_def b get_blob_store_def e(2))
    then show ?thesis using w'(2) by (simp add: files_at files_records)
  qed
qed

text \<open>
  C21. Keys and upload ids lead out of the organization: where the storage directory, the caller's bucket and the
  directory of another organization \<open>h\<close> exist, a caller who may use one bucket of its own organization
  (i) downloads any file of \<open>h\<close> with a key that climbs out by \<open>../../\<close>, (ii) overwrites it the same way, and (iii) by
  aborting a multipart upload whose id is an absolute path deletes every file of \<open>h\<close> at once. Neither
  the handlers nor the file store look at the key or the id.
\<close>

theorem keys_reach_other_orgs:
  assumes "steady env" "sx_base env = Some base" and "uses_bucket ctx g s ''read'' w" "uses_bucket ctx g s ''write'' w"
    and "escapable (sw_fs w) base g s (h # p @ [k])" and "sw_fs w (base @ h # p @ [k]) = Some (File secret)"
    and "component (sx_uuid env (sw_fresh w))" and "length d \<le> sx_max_upload_size env"
    and "sw_fs w (temp_path base g s (sx_uuid env (sw_fresh w)) (climbing (h # p @ [k]))) = None"
  shows "(\<exists>r w'. get_object env ctx s (climbing (h # p @ [k])) None w = (Ok r, w') \<and> or_body r = secret) \<and>
    sw_fs (snd (put_object env ctx s (climbing (h # p @ [k])) ct (Some d) w)) (base @ h # p @ [k]) = Some (File d) \<and>
    (\<forall>q. below (base @ [h]) q \<longrightarrow>
       sw_fs (snd (abort_multipart_upload env ctx s key (''/'' @ join ''/'' (base @ [h])) w)) q = None)"
proof (intro conjI allI impI)
  show "\<exists>r w'. get_object env ctx s (climbing (h # p @ [k])) None w = (Ok r, w') \<and> or_body r = secret"
    by (rule foreign_read [OF assms(1,2,3,5)]) (use assms(6) in simp)
  show "sw_fs (snd (put_object env ctx s (climbing (h # p @ [k])) ct (Some d) w)) (base @ h # p @ [k]) = Some (File d)"
    using foreign_write [OF assms(1,2,7,4,8), of "h # p" k ct] assms(5,6,9) by simp
  fix q assume q: "below (base @ [h]) q"
  have c: "list_all component (base @ [h])" and r: "reachable_path (sw_fs w) ((base @ [h]) @ p @ [k])"
    using assms(5) by (simp_all add: escapable_def)
  show "sw_fs (snd (abort_multipart_upload env ctx s key (''/'' @ join ''/'' (base @ [h])) w)) q = None"
    by (rule foreign_wipe [OF assms(1,2,4) c reachable_prefix [OF r] _ q]) (use reachable_at [OF r, of 0] in simp)
qed

theorem keys_reach_other_orgs_witness:
  "let user = storage_user ''g'' [''storage:docs:read'', ''storage:docs:write'']; env = sample_storage_env; w = sample_storage_world in
   (\<exists>r w'. get_object env user ''docs'' ''../../h/pay/b'' None w = (Ok r, w') \<and> or_body r = ''theirs'') \<and>
   sw_fs (snd (put_object env user ''docs'' ''../../h/pay/b'' None (Some ''mine'') w)) [''data'', ''h'', ''pay'', ''b''] = Some (File ''mine'') \<and>
   sw_fs (snd (abort_multipart_upload env user ''docs'' ''x'' ''/data/h'' w)) [''data'', ''h'', ''pay'', ''b''] = None"
proof -
  let ?user = "storage_user ''g'' [''storage:docs:read'', ''storage:docs:write'']"
  have e: "steady sample_storage_env" "sx_base sample_storage_env = Some [''data'']"
    by (simp_all add: steady_def sample_storage_env_def)
  have u: "uses_bucket ?user ''g'' ''docs'' what sample_storage_world" if "what \<in> {''read'', ''write''}" for what
    using that by (auto; code_simp)
  have x: "escapable (sw_fs sample_storage_world) [''data''] ''g'' ''docs'' (''h'' # [''pay''] @ [''b''])"
    unfolding escapable_def reachable_path_def
    by (auto simp: sample_storage_world_def sample_files_def component_def less_Suc_eq numeral_eq_Suc)
  have "(\<exists>r w'. get_object sample_storage_env ?user ''docs'' (climbing (''h'' # [''pay''] @ [''b''])) None sample_storage_world = (Ok r, w') \<and> or_body r = ''theirs'') \<and>
    sw_fs (snd (put_object sample_storage_env ?user ''docs'' (climbing (''h'' # [''pay''] @ [''b''])) None (Some ''mine'') sample_storage_world))
      ([''data''] @ ''h'' # [''pay''] @ [''b'']) = Some (File ''mine'') \<and>
    (\<forall>q. below ([''data''] @ [''h'']) q \<longrightarrow>
       sw_fs (snd (abort_multipart_upload sample_storage_env ?user ''docs'' ''x'' (''/'' @ join ''/'' ([''data''] @ [''h''])) sample_storage_world)) q = None)"
    by (rule keys_reach_other_orgs [OF e u u x]) (simp_all add: sample_storage_world_def sample_files_def sample_storage_env_def component_def
        temp_path_def join_path_def starts_with_def climbing_def replace_char_def)
  then show ?thesis by (simp add: Let_def climbing_def below_def)
qed

text \<open>
  Signed URLs: the comparison of signatures, the message that is signed and the message that is checked.
\<close>

lemma byte_word_inject: "byte_word c = byte_word d \<longleftrightarrow> c = d"
proof -
  have "unat (byte_word c) = byte c" for c
    using byte_less_256 [of c] by (simp add: byte_word_def unat_of_nat)
  then show ?thesis by (metis byte_inject)
qed

lemma collected_zero:
  "foldl (\<lambda>r (x, y). or r (xor (byte_word x) (byte_word y))) (a :: 8 word) zs = 0 \<longleftrightarrow>
   a = 0 \<and> (\<forall>(x, y) \<in> set zs. x = y)"
proof (induction zs arbitrary: a)
  case (Cons z zs)
  have "or a (xor u v) = 0 \<longleftrightarrow> a = 0 \<and> u = v" for u v :: "8 word"
    by (auto simp: bit_eq_iff bit_simps)
  then show ?case by (cases z) (auto simp: Cons.IH byte_word_inject)
qed simp

text \<open>The comparison that does not stop at a difference is equality.\<close>

lemma constant_time_eq_iff: "constant_time_eq a b \<longleftrightarrow> a = b"
  unfolding constant_time_eq_def collected_zero
  by (auto simp: list_eq_iff_zip_eq)

text \<open>Messages of the two sides differ: one has the organization before the first slash, the other nothing.\<close>

lemma messages_differ:
  assumes "CHR '':'' \<notin> set m" "CHR '':'' \<notin> set m'" and "starts_with ''/'' p" and "component g"
  shows "m @ '':'' @ (g @ ''/'' @ b) @ '':'' @ e \<noteq> m' @ '':'' @ p @ '':'' @ e"
proof
  assume eq: "m @ '':'' @ (g @ ''/'' @ b) @ '':'' @ e = m' @ '':'' @ p @ '':'' @ e"
  then have "takeWhile (\<lambda>c. c \<noteq> CHR '':'') (m @ '':'' @ (g @ ''/'' @ b) @ '':'' @ e) =
      takeWhile (\<lambda>c. c \<noteq> CHR '':'') (m' @ '':'' @ p @ '':'' @ e)" by (rule arg_cong)
  moreover have "takeWhile (\<lambda>c. c \<noteq> CHR '':'') (m @ '':'' @ r) = m" if "CHR '':'' \<notin> set m" for m r
    using that by (subst takeWhile_append2) auto
  ultimately have "m = m'" using assms(1,2) by simp
  then have "g @ ''/'' @ b = p" using eq by simp
  then have "hd (g @ ''/'' @ b) = CHR ''/''" using assms(3) by (auto simp: starts_with_iff)
  then show False using assms(4) by (cases g) (auto simp: component_def)
qed

lemma signed:
  assumes "create_signed_url env ctx b k secs up w = (Ok u, w1)"
  shows "\<exists>g secret m. storage_org_id ctx = Some g \<and> sx_signing_secret env = Some secret \<and> CHR '':'' \<notin> set m \<and>
    su_signature u = sx_hmac_hex env secret (m @ '':'' @ (g @ ''/'' @ b @ ''/'' @ k) @ '':'' @ show_nat (su_expires_at u))"
proof -
  obtain g bk w0 where o: "org_bucket env ctx b w = (Ok (g, bk), w0)"
    using assms unfolding create_signed_url_def by (auto elim!: bind_OkE)
  then have g: "storage_org_id ctx = Some g" "bk_slug bk = b"
    by (auto simp: org_bucket_def require_org_def get_bucket_by_slug_def bucket_by_slug_def find_Some_iff ssql_def select_st_def
        Let_def elim!: bind_OkE split: if_splits)
  obtain n w' where "sign_url env g b k n up w' = (Ok u, w1)"
    using assms o g unfolding create_signed_url_def by (auto elim!: bind_OkE split: if_splits)
  then obtain secret where "sx_signing_secret env = Some secret" "su_signature u = sx_hmac_hex env secret
      ((if up then ''PUT'' else ''GET'') @ '':'' @ (g @ ''/'' @ b @ ''/'' @ k) @ '':'' @ show_nat (su_expires_at u))"
    by (auto simp: sign_url_def Let_def sign_hmac_def simp del: append.simps elim!: bind_OkE split: option.splits)
  moreover have "CHR '':'' \<notin> set (if up then ''PUT'' else ''GET'')" by simp
  ultimately show ?thesis using g(1) by blast
qed

lemma anonymous_handled:
  assumes "sh_authorization hs = None" and "\<And>ctx w. sc_is_anonymous ctx \<Longrightarrow> handler ctx w = (Err StAuthRequired, w)"
    and "object_route env method p q hs handler w = (Ok out, w')"
  shows "out = Handled (Err StAuthRequired) \<or> (\<exists>e. out = RefusedUrl e)"
  using assms
  by (auto simp: object_route_def auth_middleware_def storage_request_id_def storage_bearer_token_def anonymous_ctx_def
      elim!: bind_OkE split: result.splits option.splits prod.splits)

lemma anonymous_refused:
  assumes "sc_is_anonymous ctx"
  shows "get_object env ctx b k span w = (Err StAuthRequired, w)" "put_object env ctx b k ct body w = (Err StAuthRequired, w)"
    "head_object env ctx b k w = (Err StAuthRequired, w)" "delete_object env ctx b k w = (Err StAuthRequired, w)"
  using assms
  by (simp_all add: get_object_def put_object_def head_object_def delete_object_def org_bucket_def require_org_def bind_def)

text \<open>
  Signed URLs open nothing. Whatever URL the service signs for an object, a request with its signature and
  expiry, for any path and at any time, is refused before it reaches the handler, if the keyed hash has no
  collisions (the signed message names the organization, the checked one the path of the request). And with any
  signature or none, a request without credentials gets no object: every handler of an object answers
  that authentication is required, also where the bucket is public.
\<close>

theorem signed_urls_open_nothing:
  assumes "create_signed_url env ctx b k secs up w = (Ok u, w1)"
    and "\<And>g. storage_org_id ctx = Some g \<Longrightarrow> component g" and "\<And>key m m'. sx_hmac_hex env key m = sx_hmac_hex env key m' \<Longrightarrow> m = m'"
    and "CHR '':'' \<notin> set method" and "starts_with ''/'' p" and "0 \<le> sw_now w2"
  shows "(\<exists>e. object_route env method p \<lparr>sq_signature = Some (su_signature u), sq_expires = Some (su_expires_at u)\<rparr> hs handler w2 =
      (Ok (RefusedUrl e), w2)) \<and>
    (sh_authorization hs' = None \<longrightarrow> object_route env method' p' q hs' (\<lambda>c. get_object env c b' k' span) w3 = (Ok out, w4) \<longrightarrow>
      out = Handled (Err StAuthRequired) \<or> (\<exists>e. out = RefusedUrl e))"
proof (intro conjI impI)
  obtain g secret m where s: "storage_org_id ctx = Some g" "sx_signing_secret env = Some secret" "CHR '':'' \<notin> set m"
    "su_signature u = sx_hmac_hex env secret (m @ '':'' @ (g @ ''/'' @ b @ ''/'' @ k) @ '':'' @ show_nat (su_expires_at u))"
    using signed [OF assms(1)] by blast
  have "su_signature u \<noteq> sx_hmac_hex env secret (method @ '':'' @ p @ '':'' @ show_nat (su_expires_at u))"
    unfolding s(4) using assms(3) messages_differ [OF s(3) assms(4,5) assms(2) [OF s(1)]] by blast
  then show "\<exists>e. object_route env method p \<lparr>sq_signature = Some (su_signature u), sq_expires = Some (su_expires_at u)\<rparr> hs handler w2 =
      (Ok (RefusedUrl e), w2)"
    using s(2) assms(6) by (auto simp: object_route_def verify_signed_url_def bind_def unix_now_def constant_time_eq_iff)
next
  assume "sh_authorization hs' = None" "object_route env method' p' q hs' (\<lambda>c. get_object env c b' k' span) w3 = (Ok out, w4)"
  then show "out = Handled (Err StAuthRequired) \<or> (\<exists>e. out = RefusedUrl e)"
    using anonymous_handled [where handler = "\<lambda>c. get_object env c b' k' span", OF _ anonymous_refused(1)] by blast
qed

theorem signed_urls_open_nothing_witness:
  "let user = storage_user ''g'' [''*'']; hs = \<lparr>sh_authorization = None, sh_org = None, sh_request_id = None\<rparr> in
   \<exists>u w1. create_signed_url sample_storage_env user ''docs'' ''a'' 60 False sample_storage_world = (Ok u, w1) \<and>
     (\<exists>e. object_route sample_storage_env ''GET'' ''/object/docs/a''
        \<lparr>sq_signature = Some (su_signature u), sq_expires = Some (su_expires_at u)\<rparr> hs
        (\<lambda>c. get_object sample_storage_env c ''docs'' ''a'' None) w1 = (Ok (RefusedUrl e), w1))"
proof -
  let ?user = "storage_user ''g'' [''*'']" and ?hs = "\<lparr>sh_authorization = None, sh_org = None, sh_request_id = None\<rparr>"
  obtain u w1 where u: "create_signed_url sample_storage_env ?user ''docs'' ''a'' 60 False sample_storage_world = (Ok u, w1)"
    "sw_now w1 = 1000000"
  proof -
    have "(case create_signed_url sample_storage_env ?user ''docs'' ''a'' 60 False sample_storage_world of
        (Ok u, w1) \<Rightarrow> sw_now w1 = 1000000 | _ \<Rightarrow> False)" by code_simp
    then show ?thesis using that by (auto split: prod.splits result.splits)
  qed
  have "\<exists>e. object_route sample_storage_env ''GET'' ''/object/docs/a''
      \<lparr>sq_signature = Some (su_signature u), sq_expires = Some (su_expires_at u)\<rparr> ?hs
      (\<lambda>c. get_object sample_storage_env c ''docs'' ''a'' None) w1 = (Ok (RefusedUrl e), w1)"
    by (rule conjunct1 [OF signed_urls_open_nothing [OF u(1)]])
      (use u(2) in \<open>simp_all add: storage_org_id_def storage_user_def component_def sample_storage_env_def starts_with_def\<close>)
  then show ?thesis using u(1) unfolding Let_def by blast
qed

end
