(* ===== verification/Storage_Roundtrip.thy ===== *)
theory Storage_Roundtrip
  imports Storage_Escape
begin

text \<open>
  What is uploaded is what is downloaded: the directories of an object are made, its bytes go through a temporary
  file to the place its key names, and a download, whole or of a range, reads them there.
\<close>

section \<open>An upload and a download\<close>

text \<open>A download after an upload that was accepted, whatever the key.\<close>

lemma stored_blob_is_read:
  assumes e: "steady env" and put: "put_blob env base g s k d w = (Ok etag, w1)"
  shows "etag = compute_etag env d \<and> (\<forall>w2. sw_fs w2 = sw_fs w1 \<longrightarrow>
    sfile env (read_file (object_path base g s k)) w2 = (Ok d, w2\<lparr>sw_effects := Suc (sw_effects w2)\<rparr>))"
proof -
  let ?temp = "temp_path base g s (sx_uuid env (sw_fresh w)) k" and ?final = "object_path base g s k"
  obtain wa wb where wa: "io env (write_file ?temp d) wa = (Ok (), wb)"
    and mv: "sfile env (rename_file ?temp ?final) wb = (Ok (), w1)" and t: "etag = compute_etag env d"
    using put unfolding put_blob_def Let_def
    by (auto simp: sfresh_def attempt_def elim!: bind_OkE split: result.splits prod.splits sum.splits)
  obtain q where q: "resolve (sw_fs wa) ?temp = Ok q" "sw_fs wb = (sw_fs wa)(q \<mapsto> File d)" "sw_fs wa q \<noteq> Some Dir"
    using wa by (auto simp: io_def map_error_def steady_steps [OF e] write_file_def split: result.splits option.splits fs_node.splits)
  have "resolve (sw_fs wb) ?temp = Ok q" by (rule resolve_dirs [OF q(1)]) (use q(2,3) in auto)
  then obtain r where r: "resolve (sw_fs wb) ?final = Ok r" "sw_fs wb r \<noteq> Some Dir"
    "sw_fs w1 = ((sw_fs wb)(q := None))(r \<mapsto> File d)"
    using mv q(2) by (auto simp: steady_steps [OF e] rename_file_def split: result.splits option.splits fs_node.splits if_splits)
  have "resolve (sw_fs w1) ?final = Ok r" by (rule resolve_dirs [OF r(1)]) (use q(2) r(2,3) in auto)
  then show ?thesis using t r(3) by (simp add: steady_steps [OF e] read_file_def)
qed

text \<open>
  A place for an object: the tree of files has no file where the object needs a directory and no directory
  where it needs a file, and the key does not begin like a temporary file.
\<close>

definition storable :: "fsys \<Rightarrow> path \<Rightarrow> uuid \<Rightarrow> string \<Rightarrow> path \<Rightarrow> bool" where
  "storable fs base g s p \<longleftrightarrow>
     tree_shaped fs \<and> p \<noteq> [] \<and> list_all component (base @ [g, s] @ p) \<and> \<not> starts_with ''.tmp.'' (hd p) \<and>
     no_file_at fs (base @ [g, s] @ butlast p) \<and> fs (base @ [g, s] @ p) \<noteq> Some Dir"

lemma storable_path:
  assumes "storable fs base g s p"
  shows "object_path base g s (join ''/'' p) = base @ [g, s] @ p"
proof -
  have c: "component g" "component s" and p: "p \<noteq> []" "list_all component p" using assms by (simp_all add: storable_def)
  have "\<not> starts_with ''/'' (join ''/'' p)"
  proof
    assume "starts_with ''/'' (join ''/'' p)"
    then have "\<exists>t. p = '''' # t" using split_path [OF p] by (auto simp: starts_with_iff)
    then show False using p(2) by (auto simp: component_def)
  qed
  then have "join_path q (join ''/'' p) = q @ p" for q using split_path [OF p] by (simp add: join_path_def)
  then show ?thesis unfolding object_path_def join_component [OF c(1)] join_component [OF c(2)] by simp
qed

lemma put_plain:
  assumes e: "steady env" "component (sx_uuid env (sw_fresh w))" and x: "storable (sw_fs w) base g s p"
    and t: "sw_fs w (temp_path base g s (sx_uuid env (sw_fresh w)) (join ''/'' p)) = None"
  shows "\<exists>w'. put_blob env base g s (join ''/'' p) d w = (Ok (compute_etag env d), w') \<and>
    sw_db w' = sw_db w \<and> sw_now w' = sw_now w \<and> sw_fresh w' = Suc (sw_fresh w)"
proof -
  let ?fs = "sw_fs w" and ?final = "base @ [g, s] @ p"
  define tn where "tn = ''.tmp.'' @ sx_uuid env (sw_fresh w) @ ''.'' @ replace_char CHR ''/'' ''_'' (join ''/'' p)"
  have tc: "component tn" unfolding tn_def by (rule temp_component [OF e(2)])
  have c: "list_all component ?final" "component g" "component s" "p \<noteq> []" using x by (simp_all add: storable_def)
  let ?temp = "(base @ [g, s]) @ [tn]" and ?dir = "base @ [g, s] @ butlast p"
  have temp: "temp_path base g s (sx_uuid env (sw_fresh w)) (join ''/'' p) = ?temp"
    unfolding temp_path_def tn_def [symmetric] join_component [OF c(2)] join_component [OF c(3)] join_component [OF tc] by simp
  have dc: "list_all component ?dir" using c(1) by (auto simp: list_all_iff dest: in_set_butlastD)
  have cut: "butlast ?final = ?dir" "?final = ?dir @ [last p]" using c(4) by (simp_all add: butlast_append)
  obtain fs1 where m: "mkdirs (rev ?dir) ?fs = (Ok (), fs1)" "reachable_path fs1 ?dir" "fs1 ?dir = Some Dir"
    "\<And>q. (\<forall>n. q \<noteq> take n ?dir) \<Longrightarrow> fs1 q = ?fs q"
    using mkdirs_makes [OF _ dc, of ?fs] x by (auto simp: storable_def)
  have "hd p \<noteq> tn" using x by (auto simp: storable_def tn_def starts_with_def)
  then have "?temp \<noteq> take n ?dir" for n
  proof (rule contrapos_nn)
    let ?i = "length base + 2"
    assume eq: "?temp = take n ?dir"
    have "?i < length ?temp" by simp
    then have i: "?i < length (take n ?dir)" unfolding eq .
    have "tn = ?temp ! ?i" by (simp add: nth_append)
    also have "\<dots> = ?dir ! ?i" unfolding eq by (rule nth_take) (use i in simp)
    also have "\<dots> = hd p" using i c(4) by (cases p) (auto simp: nth_append nth_butlast)
    finally show "hd p = tn" by simp
  qed
  then have tn1: "fs1 ?temp = None" using t unfolding temp by (simp add: m(4))
  have "?final \<noteq> take n ?dir" for n
  proof
    assume "?final = take n ?dir"
    then have "length ?final = length (take n ?dir)" by (simp only:)
    then show False using c(4) by (cases p rule: rev_cases) simp_all
  qed
  then have nd: "fs1 ?final \<noteq> Some Dir" using x by (simp add: m(4) storable_def)
  have tr: "resolve fs1 ?temp = Ok ?temp"
  proof (rule resolve_reachable)
    have "reachable_path fs1 (take (length (base @ [g, s])) ?dir)" "fs1 (base @ [g, s]) = Some Dir"
    proof -
      show "reachable_path fs1 (take (length (base @ [g, s])) ?dir)"
        using m(2) reachable_prefix [of fs1 "base @ [g, s]" "butlast p"] by simp
      show "fs1 (base @ [g, s]) = Some Dir"
        using m(2,3) reachable_at [of fs1 "base @ [g, s]" "butlast p" 0] by (cases "butlast p") simp_all
    qed
    then show "reachable_path fs1 ?temp" by (simp only: reachable_snoc) simp
    show "list_all component ?temp" using c(1) tc by simp
  qed
  let ?fs2 = "fs1(?temp \<mapsto> File d)"
  have fr: "resolve ?fs2 ?final = Ok ?final"
  proof (rule resolve_dirs [where fs = fs1])
    show "resolve fs1 ?final = Ok ?final"
      using resolve_reachable [OF c(1)] m(2,3) reachable_snoc [of fs1 ?dir "last p"] cut(2) by simp
  qed (use tn1 in auto)
  have tr2: "resolve ?fs2 ?temp = Ok ?temp" by (rule resolve_dirs [OF tr]) (use tn1 in auto)
  have wrote: "write_file ?temp d fs1 = (Ok (), ?fs2)" unfolding write_file_def tr using tn1 by simp
  have move: "rename_file ?temp ?final ?fs2 = (Ok (), (?fs2(?temp := None))(?final \<mapsto> File d))"
    by (rule rename_Ok [OF tr2 fr]) (use nd in auto)
  have parent: "make_parent env ?final w0 = (Ok (), w0\<lparr>sw_effects := Suc (sw_effects w0), sw_fs := fs1\<rparr>)"
    if "sw_fs w0 = ?fs" for w0
    using m(1) that unfolding make_parent_def proper_components [OF c(1)] cut(1) create_dir_all_def proper_components [OF dc]
    by (simp add: io_def map_error_def steady_steps [OF e(1)])
  show ?thesis
    unfolding put_blob_def Let_def storable_path [OF x]
    by (simp add: bind_def sfresh_def temp parent io_def map_error_def steady_steps [OF e(1)] wrote move attempt_def
        del: append_assoc append.simps)
qed

text \<open>The text of a range and the bytes it stands for.\<close>

definition byte_range :: "nat \<Rightarrow> nat \<Rightarrow> string" where
  "byte_range i j = ''bytes='' @ show_nat i @ ''-'' @ show_nat j"

lemma no_dash: "CHR ''-'' \<notin> set (show_nat m)"
proof -
  have "is_ascii_digit c" if "c \<in> set (show_nat m)" for c
    using that show_nat_digits [of m] by (simp add: list_all_iff)
  moreover have "\<not> is_ascii_digit CHR ''-''" by (simp add: is_ascii_digit_def)
  ultimately show ?thesis by blast
qed

lemma parse_byte_range_of:
  assumes "i \<le> j" and "i < n" and "Suc j < 2 ^ 64"
  shows "parse_byte_range (byte_range i j) n = Some (i, min (Suc j) n)"
proof -
  have "strip_prefix ''bytes='' (byte_range i j) = Some (show_nat i @ ''-'' @ show_nat j)"
    by (simp add: byte_range_def strip_prefix_def starts_with_def)
  moreover have "split_char CHR ''-'' (show_nat i @ ''-'' @ show_nat j) = [show_nat i, show_nat j]"
    using split_char_append [OF no_dash, of i "show_nat j"] split_char_single [OF no_dash, of j] by simp
  moreover have "parse_unsigned (2 ^ 64) (show_nat i) = Some i" "parse_unsigned (2 ^ 64) (show_nat j) = Some j"
    by (rule parse_unsigned_show_nat, use assms in simp)+
  ultimately show ?thesis using assms by (simp add: parse_byte_range_def)
qed

text \<open>Every way of reading a file that holds the bytes \<open>d\<close>.\<close>

lemma downloads:
  assumes e: "steady env" "sx_base env = Some base" and u: "uses_bucket ctx g s ''read'' w"
    and f: "\<And>w2. sw_fs w2 = sw_fs w \<Longrightarrow>
      sfile env (read_file (object_path base g s k)) w2 = (Ok d, w2\<lparr>sw_effects := Suc (sw_effects w2)\<rparr>)"
  shows "\<exists>w3. get_object env ctx s k None w =
      (Ok \<lparr>or_status = 200, or_etag = Some (compute_etag env d), or_content_range = None,
           or_content_length = length d, or_body = d\<rparr>, w3)" (is "\<exists>w3. ?whole w3")
    and "i \<le> j \<Longrightarrow> i < length d \<Longrightarrow> Suc j < 2 ^ 64 \<Longrightarrow>
      \<exists>r w3. get_object env ctx s k (Some (byte_range i j)) w = (Ok r, w3) \<and> or_status r = 206 \<and>
        or_body r = take (Suc j - i) (drop i d) \<and> or_content_length r = length (or_body r)"
proof -
  obtain b where b: "bk_slug b = s" "org_bucket env ctx s w = (Ok (g, b), w\<lparr>sw_effects := Suc (sw_effects w)\<rparr>)"
    "\<And>w. require_permission ctx s ''read'' w = (Ok (), w)"
    using own_bucket [OF e(1) u] by metis
  have r: "require_read ctx b w2 = (Ok (), w2)" for w2 using b by (simp add: require_read_def)
  show "\<exists>w3. ?whole w3"
    using b e by (simp add: get_object_def bind_def r get_blob_store_def get_blob_def found_io_def map_error_def f)
  assume "i \<le> j" "i < length d" "Suc j < 2 ^ 64"
  then show "\<exists>r w3. get_object env ctx s k (Some (byte_range i j)) w = (Ok r, w3) \<and> or_status r = 206 \<and>
        or_body r = take (Suc j - i) (drop i d) \<and> or_content_length r = length (or_body r)"
    using b e by (simp add: get_object_def bind_def r get_blob_store_def get_blob_def found_io_def map_error_def f
        parse_byte_range_of Let_def min_def) arith?
qed

lemma upsert_object_Ok:
  assumes "list_ex (\<lambda>b. bk_id b = oc_bucket_id c) (s_buckets db)" and "\<not> list_ex (\<lambda>r. ob_id r = i) (s_objects db)"
  obtains r db' where "upsert_object i c t db = (Ok r, db')"
  using assms by (cases "find (\<lambda>r. ob_bucket_id r = oc_bucket_id c \<and> ob_key r = oc_key c) (s_objects db)")
    (auto simp: upsert_object_def Let_def)

text \<open>
  C22. What is uploaded is what is downloaded. Where nothing fails, an upload to a plain key by a caller who may write
  the bucket is accepted, makes the directories it needs, and from then on, as long as the files are as it left them,
  every caller of the organization who may read the bucket downloads exactly its bytes with its etag, and
  for a range the bytes from the first to the last named, both included and cut at the end of the object.
\<close>

theorem objects_roundtrip:
  assumes "steady env" "sx_base env = Some base" and "uses_bucket ctx g s ''write'' w" and "length d \<le> sx_max_upload_size env"
    and "storable (sw_fs w) base g s p" and "component (sx_uuid env (sw_fresh w))"
    and "sw_fs w (temp_path base g s (sx_uuid env (sw_fresh w)) (join ''/'' p)) = None"
    and "\<not> list_ex (\<lambda>r. ob_id r = sx_uuid env (Suc (sw_fresh w))) (s_objects (sw_db w))"
  shows "\<exists>w1. put_object env ctx s (join ''/'' p) ct (Some d) w = (Ok (compute_etag env d), w1) \<and>
    (\<forall>w2 reader. sw_fs w2 = sw_fs w1 \<longrightarrow> uses_bucket reader g s ''read'' w2 \<longrightarrow>
      (\<exists>w3. get_object env reader s (join ''/'' p) None w2 =
         (Ok \<lparr>or_status = 200, or_etag = Some (compute_etag env d), or_content_range = None,
              or_content_length = length d, or_body = d\<rparr>, w3)) \<and>
      (\<forall>i j. i \<le> j \<longrightarrow> i < length d \<longrightarrow> Suc j < 2 ^ 64 \<longrightarrow>
         (\<exists>r w3. get_object env reader s (join ''/'' p) (Some (byte_range i j)) w2 = (Ok r, w3) \<and> or_status r = 206 \<and>
            or_body r = take (Suc j - i) (drop i d) \<and> or_content_length r = length (or_body r))))"
proof -
  obtain b where b: "bk_slug b = s" "bucket_by_slug g s (sw_db w) = Some b"
    "org_bucket env ctx s w = (Ok (g, b), w\<lparr>sw_effects := Suc (sw_effects w)\<rparr>)"
    "\<And>w. require_permission ctx s ''write'' w = (Ok (), w)"
    using own_bucket [OF assms(1,3)] by metis
  let ?w = "w\<lparr>sw_effects := Suc (sw_effects w)\<rparr>"
  obtain w0 where w0: "put_blob env base g s (join ''/'' p) d ?w = (Ok (compute_etag env d), w0)" "sw_db w0 = sw_db w"
    "sw_fresh w0 = Suc (sw_fresh w)"
    using put_plain [of env ?w base g s p d] assms(1,5,6,7) by auto
  have bucket: "list_ex (\<lambda>r. bk_id r = bk_id b) (s_buckets (sw_db w))"
    using b(2) by (auto simp: bucket_by_slug_def find_Some_iff list_ex_iff intro: nth_mem)
  obtain w1 where w1: "put_object env ctx s (join ''/'' p) ct (Some d) w = (Ok (compute_etag env d), w1)" "sw_fs w1 = sw_fs w0"
  proof -
    let ?row = "\<lparr>oc_bucket_id = bk_id b, oc_key = join ''/'' p, oc_content_type = ct,
      oc_content_length = of_nat (length d), oc_etag = Some (compute_etag env d), oc_metadata = JObject [],
      oc_created_by = storage_user_id env ctx\<rparr>"
    obtain r db' where "upsert_object (sx_uuid env (Suc (sw_fresh w))) ?row (sw_now w0) (sw_db w) = (Ok r, db')"
      by (rule upsert_object_Ok [of ?row "sw_db w" "sx_uuid env (Suc (sw_fresh w))" "sw_now w0"])
        (use bucket assms(8) in simp_all)
    then show thesis using that assms(4) w0(2,3)
      by (simp add: put_object_def bind_def b(1,3,4) read_body_def get_blob_store_def assms(2) w0(1) sfresh_def
        steady_steps [OF assms(1)])
  qed
  have read: "sfile env (read_file (object_path base g s (join ''/'' p))) w3 = (Ok d, w3\<lparr>sw_effects := Suc (sw_effects w3)\<rparr>)"
    if "sw_fs w3 = sw_fs w1" for w3
    using stored_blob_is_read [OF assms(1) w0(1)] that w1(2) by simp
  show ?thesis
  proof (rule exI [of _ w1], intro conjI allI impI)
    fix w2 reader assume w2: "sw_fs w2 = sw_fs w1" "uses_bucket reader g s ''read'' w2"
    note d = downloads [OF assms(1,2) w2(2), of "join ''/'' p" d, OF read]
    show "\<exists>w3. get_object env reader s (join ''/'' p) None w2 =
         (Ok \<lparr>or_status = 200, or_etag = Some (compute_etag env d), or_content_range = None,
              or_content_length = length d, or_body = d\<rparr>, w3)" by (rule d(1)) (simp_all add: w2(1))
    fix i j :: nat assume "i \<le> j" "i < length d" "Suc j < 2 ^ 64"
    then show "\<exists>r w3. get_object env reader s (join ''/'' p) (Some (byte_range i j)) w2 = (Ok r, w3) \<and> or_status r = 206 \<and>
            or_body r = take (Suc j - i) (drop i d) \<and> or_content_length r = length (or_body r)"
      by (intro d(2)) (simp_all add: w2(1))
  qed (rule w1(1))
qed

theorem objects_roundtrip_witness:
  "let writer = storage_user ''g'' [''storage:docs:write'']; reader = storage_user ''g'' [''storage:docs:read'']; env = sample_storage_env in
   \<exists>w1. put_object env writer ''docs'' ''x/y'' None (Some ''hello'') sample_storage_world = (Ok ''\"hello\"'', w1) \<and>
     (\<exists>r w3. get_object env reader ''docs'' ''x/y'' None w1 = (Ok r, w3) \<and> or_body r = ''hello'') \<and>
     (\<exists>r w3. get_object env reader ''docs'' ''x/y'' (Some ''bytes=1-3'') w1 = (Ok r, w3) \<and> or_body r = ''ell'')"
proof -
  let ?writer = "storage_user ''g'' [''storage:docs:write'']" and ?reader = "storage_user ''g'' [''storage:docs:read'']"
  let ?env = "sample_storage_env"
  have e: "steady ?env" "sx_base ?env = Some [''data'']" by (simp_all add: steady_def sample_storage_env_def)
  have tree: "tree_shaped sample_files"
    unfolding tree_shaped_def sample_files_def by (auto simp: Cons_eq_append_conv append_eq_Cons_conv)
  have x: "storable (sw_fs sample_storage_world) [''data''] ''g'' ''docs'' [''x'', ''y'']"
    using tree unfolding storable_def no_file_at_def
    by (auto simp: sample_storage_world_def component_def starts_with_def) (auto simp: sample_files_def less_Suc_eq le_Suc_eq numeral_eq_Suc)
  have path: "join ''/'' [''x'', ''y''] = ''x/y''" by simp
  have u: "uses_bucket ?writer ''g'' ''docs'' ''write'' sample_storage_world" by code_simp
  have v: "uses_bucket ?reader ''g'' ''docs'' ''read''
      (snd (put_object ?env ?writer ''docs'' ''x/y'' None (Some ''hello'') sample_storage_world))" by code_simp
  have t: "sw_fs sample_storage_world (temp_path [''data''] ''g'' ''docs'' (sx_uuid ?env (sw_fresh sample_storage_world))
      (join ''/'' [''x'', ''y''])) = None" by code_simp
  obtain w1 where w1: "put_object ?env ?writer ''docs'' ''x/y'' None (Some ''hello'') sample_storage_world = (Ok (compute_etag ?env ''hello''), w1)"
    and d: "uses_bucket ?reader ''g'' ''docs'' ''read'' w1 \<Longrightarrow> (\<exists>w3. get_object ?env ?reader ''docs'' ''x/y'' None w1 =
         (Ok \<lparr>or_status = 200, or_etag = Some (compute_etag ?env ''hello''), or_content_range = None,
              or_content_length = length ''hello'', or_body = ''hello''\<rparr>, w3)) \<and>
      (\<forall>i j. i \<le> j \<longrightarrow> i < length ''hello'' \<longrightarrow> Suc j < 2 ^ 64 \<longrightarrow>
         (\<exists>r w3. get_object ?env ?reader ''docs'' ''x/y'' (Some (byte_range i j)) w1 = (Ok r, w3) \<and> or_status r = 206 \<and>
            or_body r = take (Suc j - i) (drop i ''hello'') \<and> or_content_length r = length (or_body r)))"
    using objects_roundtrip [OF e u _ x _ t, of "''hello''" None] unfolding path
    by (auto simp: sample_storage_env_def sample_storage_world_def component_def)
  have read: "uses_bucket ?reader ''g'' ''docs'' ''read'' w1" using v unfolding w1 by simp
  have "byte_range 1 3 = ''bytes=1-3''" by code_simp
  moreover have "compute_etag ?env ''hello'' = ''\"hello\"''" by code_simp
  moreover have "take (Suc 3 - 1) (drop 1 ''hello'') = ''ell''" by simp
  ultimately show ?thesis using w1 conjunct1 [OF d [OF read]] conjunct2 [OF d [OF read], rule_format, of 1 3]
    unfolding Let_def by fastforce
qed

end
