(* ===== verification/Gateway_Routing.thy ===== *)
theory Gateway_Routing
  imports Computation Core_Auth Rust_Str "HOL-Library.AList"
begin

text \<open>
  The edge gateway (\<open>crates/reactor-gateway\<close>): routes, custom domains and the routing table
  (\<open>routing.rs\<close>), their tables in PostgreSQL with the trigger that notifies of changed routes (\<open>store/pg.rs\<close>),
  and the domain handlers of the server (\<open>crates/reactor-gateway-server/src/main.rs\<close>). A \<open>HashMap\<close> is its list of
  entries with distinct keys; the order in which it iterates is chosen by the environment.
\<close>

section \<open>Routes and domains (routing.rs)\<close>

datatype tls_mode = TlsWildcard | TlsOnDemand | TlsManual

fun show_tls_mode :: "tls_mode \<Rightarrow> string" where
  "show_tls_mode TlsWildcard = ''wildcard''"
| "show_tls_mode TlsOnDemand = ''on_demand''"
| "show_tls_mode TlsManual = ''manual''"

definition parse_tls_mode :: "string \<Rightarrow> tls_mode option" where
  "parse_tls_mode s =
     (if s = ''wildcard'' then Some TlsWildcard else if s = ''on_demand'' then Some TlsOnDemand
      else if s = ''manual'' then Some TlsManual else None)"

datatype backend_kind = Dedicated | Shared

fun show_backend_kind :: "backend_kind \<Rightarrow> string" where
  "show_backend_kind Dedicated = ''dedicated''"
| "show_backend_kind Shared = ''shared''"

definition parse_backend_kind :: "string \<Rightarrow> backend_kind option" where
  "parse_backend_kind s = (if s = ''dedicated'' then Some Dedicated else if s = ''shared'' then Some Shared else None)"

record backend_target =
  bt_address :: string
  bt_health_path :: string

definition backend_target_new :: "string \<Rightarrow> backend_target" where
  "backend_target_new address = \<lparr>bt_address = address, bt_health_path = ''/_admin/health''\<rparr>"

record route =
  rt_host :: string
  rt_project_id :: uuid
  rt_project_ref :: string
  rt_backend_kind :: backend_kind
  rt_backend_target :: backend_target
  rt_tls_mode :: tls_mode
  rt_enabled :: bool
  rt_updated_at :: instant

definition route_new :: "instant \<Rightarrow> string \<Rightarrow> uuid \<Rightarrow> string \<Rightarrow> backend_target \<Rightarrow> route" where
  "route_new now host project_id project_ref target =
     \<lparr>rt_host = host, rt_project_id = project_id, rt_project_ref = project_ref, rt_backend_kind = Dedicated,
      rt_backend_target = target, rt_tls_mode = TlsWildcard, rt_enabled = True, rt_updated_at = now\<rparr>"

datatype cert_status = CertPending | CertProvisioning | CertActive | CertFailed

fun show_cert_status :: "cert_status \<Rightarrow> string" where
  "show_cert_status CertPending = ''pending''"
| "show_cert_status CertProvisioning = ''provisioning''"
| "show_cert_status CertActive = ''active''"
| "show_cert_status CertFailed = ''failed''"

definition parse_cert_status :: "string \<Rightarrow> cert_status option" where
  "parse_cert_status s =
     (if s = ''pending'' then Some CertPending else if s = ''provisioning'' then Some CertProvisioning
      else if s = ''active'' then Some CertActive else if s = ''failed'' then Some CertFailed else None)"

record custom_domain =
  cd_host :: string
  cd_project_id :: uuid
  cd_verification_token :: string
  cd_verified_at :: "instant option"
  cd_cert_status :: cert_status
  cd_created_at :: instant

definition custom_domain_new :: "instant \<Rightarrow> string \<Rightarrow> uuid \<Rightarrow> string \<Rightarrow> custom_domain" where
  "custom_domain_new now host project_id token =
     \<lparr>cd_host = host, cd_project_id = project_id, cd_verification_token = token, cd_verified_at = None,
      cd_cert_status = CertPending, cd_created_at = now\<rparr>"

definition cd_is_verified :: "custom_domain \<Rightarrow> bool" where
  "cd_is_verified d \<longleftrightarrow> cd_verified_at d \<noteq> None"

subsection \<open>The routing table\<close>

type_synonym routing_table = "(string \<times> route) list"

definition table_upsert :: "route \<Rightarrow> routing_table \<Rightarrow> routing_table" where
  "table_upsert r t = AList.update (rt_host r) r t"

definition from_routes :: "route list \<Rightarrow> routing_table" where
  "from_routes rs = fold table_upsert rs []"

definition table_get :: "routing_table \<Rightarrow> string \<Rightarrow> route option" where
  "table_get t host = map_of t host"

definition table_remove :: "string \<Rightarrow> routing_table \<Rightarrow> route option \<times> routing_table" where
  "table_remove host t = (map_of t host, AList.delete host t)"

text \<open>\<open>shuffle\<close> is the order of the iteration, a permutation of the entries.\<close>

definition table_all :: "(route list \<Rightarrow> route list) \<Rightarrow> routing_table \<Rightarrow> route list" where
  "table_all shuffle t = shuffle (map snd t)"

definition table_enabled :: "(route list \<Rightarrow> route list) \<Rightarrow> routing_table \<Rightarrow> route list" where
  "table_enabled shuffle t = filter rt_enabled (table_all shuffle t)"

definition table_for_project :: "(route list \<Rightarrow> route list) \<Rightarrow> uuid \<Rightarrow> routing_table \<Rightarrow> route list" where
  "table_for_project shuffle project_id t = filter (\<lambda>r. rt_project_id r = project_id) (table_all shuffle t)"

section \<open>The store (store/pg.rs)\<close>

datatype gateway_error =
  GwDatabase | GwCaddyAdmin string | GwHttp | GwRollbackFailed string | GwInternal string

record route_row =
  rr_host :: string
  rr_project_id :: uuid
  rr_project_ref :: string
  rr_backend_kind :: string
  rr_backend_target :: string
  rr_tls_mode :: string
  rr_enabled :: bool
  rr_updated_at :: instant

record domain_row =
  dr_host :: string
  dr_project_id :: uuid
  dr_verification_token :: string
  dr_verified_at :: "instant option"
  dr_cert_status :: string
  dr_created_at :: instant

text \<open>\<open>g_notified\<close>: payloads of \<open>pg_notify\<close> on the channel of routes that were not yet delivered.\<close>

record gateway_db =
  g_routes :: "route_row list"
  g_domains :: "domain_row list"
  g_notified :: "string list"

type_synonym 'a gateway_statement = "instant \<Rightarrow> gateway_db \<Rightarrow> ('a, gateway_error) result \<times> gateway_db"

definition route_of_row :: "route_row \<Rightarrow> route option" where
  "route_of_row row =
     Option.bind (parse_backend_kind (rr_backend_kind row)) (\<lambda>kind.
     Option.bind (parse_tls_mode (rr_tls_mode row)) (\<lambda>mode.
     case project_ref_parse (rr_project_ref row) of
       Ok ref \<Rightarrow> Some \<lparr>rt_host = rr_host row, rt_project_id = rr_project_id row, rt_project_ref = ref,
         rt_backend_kind = kind, rt_backend_target = backend_target_new (rr_backend_target row), rt_tls_mode = mode,
         rt_enabled = rr_enabled row, rt_updated_at = rr_updated_at row\<rparr>
     | _ \<Rightarrow> None))"

definition row_of_route :: "route \<Rightarrow> route_row" where
  "row_of_route r =
     \<lparr>rr_host = rt_host r, rr_project_id = rt_project_id r, rr_project_ref = rt_project_ref r,
      rr_backend_kind = show_backend_kind (rt_backend_kind r), rr_backend_target = bt_address (rt_backend_target r),
      rr_tls_mode = show_tls_mode (rt_tls_mode r), rr_enabled = rt_enabled r, rr_updated_at = rt_updated_at r\<rparr>"

definition domain_of_row :: "domain_row \<Rightarrow> custom_domain option" where
  "domain_of_row row =
     Option.bind (parse_cert_status (dr_cert_status row)) (\<lambda>status.
       Some \<lparr>cd_host = dr_host row, cd_project_id = dr_project_id row, cd_verification_token = dr_verification_token row,
         cd_verified_at = dr_verified_at row, cd_cert_status = status, cd_created_at = dr_created_at row\<rparr>)"

definition loaded :: "gateway_db \<Rightarrow> route list" where
  "loaded db = List.map_filter route_of_row (filter rr_enabled (g_routes db))"

definition load_routes :: "route list gateway_statement" where
  "load_routes t db = (Ok (loaded db), db)"

definition get_route :: "string \<Rightarrow> route option gateway_statement" where
  "get_route host t db = (Ok (Option.bind (find (\<lambda>r. rr_host r = host) (g_routes db)) route_of_row), db)"

text \<open>The row is inserted or replaces the one of its host; the trigger notifies of the host.\<close>

definition upsert_route :: "route \<Rightarrow> unit gateway_statement" where
  "upsert_route r t db =
     (let row = row_of_route r; here = (\<lambda>x. rr_host x = rt_host r) in
      (Ok (), db\<lparr>g_routes := (if list_ex here (g_routes db) then map (\<lambda>x. if here x then row else x) (g_routes db)
                              else g_routes db @ [row]),
                 g_notified := g_notified db @ [rt_host r]\<rparr>))"

definition delete_route :: "string \<Rightarrow> unit gateway_statement" where
  "delete_route host t db =
     (Ok (), db\<lparr>g_routes := filter (\<lambda>r. rr_host r \<noteq> host) (g_routes db),
        g_notified := g_notified db @ map rr_host (filter (\<lambda>r. rr_host r = host) (g_routes db))\<rparr>)"

definition load_custom_domains :: "custom_domain list gateway_statement" where
  "load_custom_domains t db = (Ok (List.map_filter domain_of_row (g_domains db)), db)"

definition domain_at :: "string \<Rightarrow> gateway_db \<Rightarrow> domain_row option" where
  "domain_at host db = find (\<lambda>d. dr_host d = host) (g_domains db)"

definition get_custom_domain :: "string \<Rightarrow> custom_domain option gateway_statement" where
  "get_custom_domain host t db = (Ok (Option.bind (domain_at host db) domain_of_row), db)"

definition insert_custom_domain :: "custom_domain \<Rightarrow> unit gateway_statement" where
  "insert_custom_domain d t db =
     (if domain_at (cd_host d) db \<noteq> None then (Err GwDatabase, db)
      else (Ok (), db\<lparr>g_domains := g_domains db @ [\<lparr>dr_host = cd_host d, dr_project_id = cd_project_id d,
        dr_verification_token = cd_verification_token d, dr_verified_at = cd_verified_at d,
        dr_cert_status = show_cert_status (cd_cert_status d), dr_created_at = cd_created_at d\<rparr>]\<rparr>))"

definition set_domain :: "string \<Rightarrow> (domain_row \<Rightarrow> domain_row) \<Rightarrow> gateway_db \<Rightarrow> gateway_db" where
  "set_domain host f db = db\<lparr>g_domains := map (\<lambda>d. if dr_host d = host then f d else d) (g_domains db)\<rparr>"

definition verify_custom_domain :: "string \<Rightarrow> unit gateway_statement" where
  "verify_custom_domain host t db = (Ok (), set_domain host (\<lambda>d. d\<lparr>dr_verified_at := Some t\<rparr>) db)"

definition update_cert_status :: "string \<Rightarrow> cert_status \<Rightarrow> unit gateway_statement" where
  "update_cert_status host status t db =
     (Ok (), set_domain host (\<lambda>d. d\<lparr>dr_cert_status := show_cert_status status\<rparr>) db)"

definition delete_custom_domain :: "string \<Rightarrow> unit gateway_statement" where
  "delete_custom_domain host t db = (Ok (), db\<lparr>g_domains := filter (\<lambda>d. dr_host d \<noteq> host) (g_domains db)\<rparr>)"

definition is_domain_verified :: "string \<Rightarrow> bool gateway_statement" where
  "is_domain_verified host t db =
     (Ok (case domain_at host db of Some d \<Rightarrow> dr_verified_at d \<noteq> None | None \<Rightarrow> False), db)"
end
