(* ===== verification/Gateway_Caddy.thy ===== *)
theory Gateway_Caddy
  imports Gateway_Routing F64 "HOL-Library.Multiset"
begin

text \<open>
  The configuration of Caddy that the gateway writes for a routing table
  (\<open>crates/reactor-gateway/src/caddy_admin.rs\<close>), as the JSON value that is sent, and how a request finds its route
  in it. The entries of an object are in the order of the source.
\<close>

section \<open>The configuration\<close>

record rate_limit_config =
  rl_requests_per_second :: nat
  rl_burst :: nat
  rl_shared_only :: bool

record caddy_config =
  cc_cloudflare_token :: "string option"
  cc_default_backend :: "string option"
  cc_wildcard_domain :: string
  cc_acme_email :: string
  cc_acme_staging :: bool
  cc_rate_limit :: "rate_limit_config option"

definition caddy_config_new :: caddy_config where
  "caddy_config_new =
     \<lparr>cc_cloudflare_token = None, cc_default_backend = None, cc_wildcard_domain = ''*.reactor.cloud'',
      cc_acme_email = ''admin@reactor.cloud'', cc_acme_staging = False, cc_rate_limit = None\<rparr>"

definition default_rate_limit :: rate_limit_config where
  "default_rate_limit = \<lparr>rl_requests_per_second = 100, rl_burst = 200, rl_shared_only = True\<rparr>"

definition jstrings :: "string list \<Rightarrow> json" where
  "jstrings ss = JArray (map JString ss)"

definition build_base_config :: json_object where
  "build_base_config =
     [(''admin'', JObject [(''listen'', JString ''localhost:2019''), (''enforce_origin'', JBool False)]),
      (''logging'', JObject [(''logs'', JObject [(''default'', JObject
         [(''level'', JString ''INFO''), (''encoder'', JObject [(''format'', JString ''json'')])])])])]"

definition build_rate_limiter :: "rate_limit_config \<Rightarrow> string \<Rightarrow> json" where
  "build_rate_limiter rl host =
     JObject
       [(''handler'', JString ''rate_limit''),
        (''rate_limits'', JObject [(''static'', JObject
           [(''match'', JArray [JObject [(''methods'', jstrings [''GET'', ''POST'', ''PUT'', ''PATCH'', ''DELETE''])]]),
            (''key'', JString host), (''window'', JString ''1s''),
            (''max_events'', json_int (int (rl_requests_per_second rl)))])]),
        (''distributed'', JObject [(''write_interval'', JString ''1s'')]),
        (''jitter'', JNumber \<lparr>num_i64 = None, num_f64 = Some (f64_of_ratio False 2 10), num_text = ''0.2''\<rparr>)]"

definition build_reverse_proxy :: "string \<Rightarrow> string \<Rightarrow> json" where
  "build_reverse_proxy backend project_ref =
     JObject
       [(''handler'', JString ''reverse_proxy''),
        (''upstreams'', JArray [JObject [(''dial'', JString backend)]]),
        (''headers'', JObject [(''request'', JObject [(''set'', JObject
           [(''X-Forwarded-Proto'', jstrings [''https'']),
            (''X-Real-IP'', jstrings [''{http.request.remote.host}'']),
            (''X-Reactor-Project'', jstrings [project_ref])])])]),
        (''transport'', JObject [(''protocol'', JString ''http''), (''tls'', JObject [])])]"

definition rate_limited :: "caddy_config \<Rightarrow> route \<Rightarrow> rate_limit_config option" where
  "rate_limited cc r =
     (case cc_rate_limit cc of
        None \<Rightarrow> None
      | Some rl \<Rightarrow>
          if (if rl_shared_only rl then rt_backend_kind r = Shared else True) \<and> rl_requests_per_second rl > 0
          then Some rl else None)"

definition build_route :: "caddy_config \<Rightarrow> route \<Rightarrow> json" where
  "build_route cc r =
     JObject
       [(''match'', JArray [JObject [(''host'', jstrings [rt_host r])]]),
        (''handle'', JArray
           ((case rate_limited cc r of Some rl \<Rightarrow> [build_rate_limiter rl (rt_host r)] | None \<Rightarrow> []) @
            [build_reverse_proxy (bt_address (rt_backend_target r)) (rt_project_ref r)])),
        (''terminal'', JBool True)]"

definition default_route :: "string \<Rightarrow> json" where
  "default_route backend =
     JObject
       [(''match'', JArray [JObject [(''host'', jstrings [''*''])]]),
        (''handle'', JArray [JObject
           [(''handler'', JString ''reverse_proxy''), (''upstreams'', JArray [JObject [(''dial'', JString backend)]])]]),
        (''terminal'', JBool True)]"

definition build_routes :: "caddy_config \<Rightarrow> (route list \<Rightarrow> route list) \<Rightarrow> routing_table \<Rightarrow> json list" where
  "build_routes cc shuffle t =
     map (build_route cc) (table_enabled shuffle t) @
     (case cc_default_backend cc of Some backend \<Rightarrow> [default_route backend] | None \<Rightarrow> [])"

definition build_servers :: "caddy_config \<Rightarrow> (route list \<Rightarrow> route list) \<Rightarrow> routing_table \<Rightarrow> json" where
  "build_servers cc shuffle t =
     JObject
       [(''https'', JObject
          [(''listen'', jstrings ['':443'']), (''routes'', JArray (build_routes cc shuffle t)),
           (''automatic_https'', JObject [(''disable'', JBool False)])]),
        (''http'', JObject
          [(''listen'', jstrings ['':80'']),
           (''routes'', JArray [JObject
              [(''match'', JArray [JObject [(''host'', jstrings [''*''])]]),
               (''handle'', JArray [JObject
                  [(''handler'', JString ''static_response''), (''status_code'', JString ''301''),
                   (''headers'', JObject [(''Location'', jstrings [''https://{http.request.host}{http.request.uri}''])])]])]])])]"

fun trim_star_dot :: "string \<Rightarrow> string" where
  "trim_star_dot (a # b # s) = (if [a, b] = ''*.'' then trim_star_dot s else a # b # s)"
| "trim_star_dot s = s"

definition acme_issuer :: "caddy_config \<Rightarrow> (string \<times> json) list \<Rightarrow> json" where
  "acme_issuer cc extra =
     JArray [JObject ([(''module'', JString ''acme''), (''email'', JString (cc_acme_email cc))] @ extra @
       (if cc_acme_staging cc then [(''ca'', JString ''https://acme-staging-v02.api.letsencrypt.org/directory'')] else []))]"

definition build_tls_app :: "caddy_config \<Rightarrow> json" where
  "build_tls_app cc =
     JObject [(''automation'', JObject
       [(''on_demand'', JObject
           [(''ask'', JString ''http://localhost:9000/ask''), (''interval'', JString ''2m''), (''burst'', json_int 5)]),
        (''policies'', JArray
           ((case cc_cloudflare_token cc of
               None \<Rightarrow> []
             | Some token \<Rightarrow> [JObject
                 [(''subjects'', jstrings [cc_wildcard_domain cc, trim_star_dot (cc_wildcard_domain cc)]),
                  (''issuers'', acme_issuer cc [(''challenges'', JObject [(''dns'', JObject [(''provider'', JObject
                     [(''name'', JString ''cloudflare''), (''api_token'', JString token)])])])])]]) @
            [JObject [(''on_demand'', JBool True), (''issuers'', acme_issuer cc [])]]))])]"

definition build_config :: "caddy_config \<Rightarrow> (route list \<Rightarrow> route list) \<Rightarrow> routing_table \<Rightarrow> json" where
  "build_config cc shuffle t =
     JObject (build_base_config @
       [(''apps'', JObject
          [(''http'', JObject [(''servers'', build_servers cc shuffle t)]), (''tls'', build_tls_app cc)])])"

section \<open>How Caddy reads it\<close>

text \<open>
  Caddy is a parameter: \<open>caddy s config host\<close> is what it does with a request for \<open>host\<close> that reaches its HTTPS server
  under \<open>config\<close>, where \<open>s\<close> is whatever else it depends on (the request, the counters of its limits). Of
  its documentation \<open>caddy_documented\<close> uses this. The routes of a server are tried in order, and a
  route takes a request if one of its matchers has a host pattern that matches; what a pattern matches is Caddy's too, \<open>covers\<close>.
  A terminal route that takes a request ends the search; nothing is assumed of a request taken by another
  route. The handlers of the route run in order: \<open>reverse_proxy\<close> hands the request to its upstreams, with the headers it
  sets (values are given as configured, with their placeholders), \<open>rate_limit\<close> refuses the request or passes it on. Nothing is
  assumed of other handlers.
\<close>

datatype caddy_action =
    Forwards "string list" "string list"
  | Refuses
  | Ends

definition json_items :: "json option \<Rightarrow> json list" where
  "json_items j = (case j of Some (JArray xs) \<Rightarrow> xs | _ \<Rightarrow> [])"

definition json_strings :: "json option \<Rightarrow> string list" where
  "json_strings j = List.map_filter (\<lambda>x. case x of JString s \<Rightarrow> Some s | _ \<Rightarrow> None) (json_items j)"

fun json_at :: "json option \<Rightarrow> string list \<Rightarrow> json option" where
  "json_at j [] = j"
| "json_at j (k # ks) = json_at (Option.bind j (\<lambda>v. json_get v k)) ks"

definition https_routes :: "json \<Rightarrow> json list" where
  "https_routes config = json_items (json_at (Some config) [''apps'', ''http'', ''servers'', ''https'', ''routes''])"

definition route_patterns :: "json \<Rightarrow> string list" where
  "route_patterns r = concat (map (\<lambda>m. json_strings (json_get m ''host'')) (json_items (json_get r ''match'')))"

definition handler_is :: "json \<Rightarrow> string \<Rightarrow> bool" where
  "handler_is h name \<longleftrightarrow> json_get h ''handler'' = Some (JString name)"

definition forwards :: "json \<Rightarrow> caddy_action" where
  "forwards h = Forwards
     (concat (map (\<lambda>u. case json_get u ''dial'' of Some (JString s) \<Rightarrow> [s] | _ \<Rightarrow> []) (json_items (json_get h ''upstreams''))))
     (json_strings (json_at (Some h) [''headers'', ''request'', ''set'', ''X-Reactor-Project'']))"

fun handlers_documented :: "json list \<Rightarrow> caddy_action \<Rightarrow> bool" where
  "handlers_documented [] a \<longleftrightarrow> a = Ends"
| "handlers_documented (h # hs) a \<longleftrightarrow>
     (if handler_is h ''reverse_proxy'' then a = forwards h
      else if handler_is h ''rate_limit'' then a = Refuses \<or> handlers_documented hs a
      else True)"

fun routes_documented :: "(string \<Rightarrow> string \<Rightarrow> bool) \<Rightarrow> json list \<Rightarrow> string \<Rightarrow> caddy_action \<Rightarrow> bool" where
  "routes_documented covers [] host a \<longleftrightarrow> a = Ends"
| "routes_documented covers (r # rs) host a \<longleftrightarrow>
     (if list_ex (\<lambda>p. covers p host) (route_patterns r)
      then json_get r ''terminal'' = Some (JBool True) \<longrightarrow> handlers_documented (json_items (json_get r ''handle'')) a
      else routes_documented covers rs host a)"

definition caddy_documented :: "(string \<Rightarrow> string \<Rightarrow> bool) \<Rightarrow> ('s \<Rightarrow> json \<Rightarrow> string \<Rightarrow> caddy_action) \<Rightarrow> bool" where
  "caddy_documented covers caddy \<longleftrightarrow> (\<forall>s config host. routes_documented covers (https_routes config) host (caddy s config host))"

text \<open>An instance: the search itself, with limits that are exceeded or not.\<close>

fun run_handlers :: "bool \<Rightarrow> json list \<Rightarrow> caddy_action" where
  "run_handlers exceeded [] = Ends"
| "run_handlers exceeded (h # hs) =
     (if handler_is h ''reverse_proxy'' then forwards h
      else if handler_is h ''rate_limit'' \<and> exceeded then Refuses
      else run_handlers exceeded hs)"

definition run_caddy :: "(string \<Rightarrow> string \<Rightarrow> bool) \<Rightarrow> bool \<Rightarrow> json \<Rightarrow> string \<Rightarrow> caddy_action" where
  "run_caddy covers exceeded config host =
     (case find (\<lambda>r. list_ex (\<lambda>p. covers p host) (route_patterns r)) (https_routes config) of
        Some r \<Rightarrow> run_handlers exceeded (json_items (json_get r ''handle''))
      | None \<Rightarrow> Ends)"

lemma run_handlers_documented: "handlers_documented hs (run_handlers exceeded hs)"
  by (induction hs) auto

lemma run_caddy_documented: "caddy_documented covers (run_caddy covers)"
proof -
  have "routes_documented covers rs host (case find (\<lambda>r. list_ex (\<lambda>p. covers p host) (route_patterns r)) rs of
      Some r \<Rightarrow> run_handlers e (json_items (json_get r ''handle'')) | None \<Rightarrow> Ends)" for rs host e
    by (induction rs) (auto simp: run_handlers_documented)
  then show ?thesis by (simp add: caddy_documented_def run_caddy_def)
qed

section \<open>The routes of a host\<close>

lemma find_append: "find P (xs @ ys) = (case find P xs of Some x \<Rightarrow> Some x | None \<Rightarrow> find P ys)"
  by (induction xs) auto

lemma json_strings_jstrings [simp]: "json_strings (Some (jstrings ss)) = ss"
  by (induction ss) (simp_all add: json_strings_def json_items_def jstrings_def map_filter_simps)

lemma https_routes_config: "https_routes (build_config cc shuffle t) = build_routes cc shuffle t"
  by (simp add: https_routes_def build_config_def build_base_config_def build_servers_def json_items_def)

lemma route_patterns_build [simp]: "route_patterns (build_route cc r) = [rt_host r]"
  "route_patterns (default_route b) = [''*'']"
  by (simp_all add: route_patterns_def build_route_def default_route_def json_items_def)

lemma terminal_build [simp]: "json_get (build_route cc r) ''terminal'' = Some (JBool True)"
  "json_get (default_route b) ''terminal'' = Some (JBool True)"
  by (simp_all add: build_route_def default_route_def)

lemma forwards_build [simp]: "forwards (build_reverse_proxy b p) = Forwards [b] [p]"
  by (simp add: forwards_def build_reverse_proxy_def json_items_def)

lemma handler_is_build [simp]: "handler_is (build_reverse_proxy b p) ''reverse_proxy''"
  "handler_is (build_rate_limiter rl h) name \<longleftrightarrow> name = ''rate_limit''"
  by (auto simp: handler_is_def build_reverse_proxy_def build_rate_limiter_def)

lemma handle_build:
  "json_items (json_get (build_route cc r) ''handle'') =
     (case rate_limited cc r of Some rl \<Rightarrow> [build_rate_limiter rl (rt_host r)] | None \<Rightarrow> []) @
     [build_reverse_proxy (bt_address (rt_backend_target r)) (rt_project_ref r)]"
  by (simp add: build_route_def json_items_def)

lemma handlers_documented_build [simp]:
  "handlers_documented (json_items (json_get (build_route cc r) ''handle'')) a \<longleftrightarrow>
     a = Forwards [bt_address (rt_backend_target r)] [rt_project_ref r] \<or> a = Refuses \<and> rate_limited cc r \<noteq> None"
  by (cases "rate_limited cc r") (auto simp: handle_build)

lemma handlers_documented_default [simp]:
  "handlers_documented (json_items (json_get (default_route b) ''handle'')) a \<longleftrightarrow> a = Forwards [b] []"
  by (simp add: default_route_def json_items_def forwards_def handler_is_def json_strings_def map_filter_simps)

lemma routes_documented_own:
  "routes_documented covers (map (build_route cc) rs) host a \<longleftrightarrow>
     (case find (\<lambda>r. covers (rt_host r) host) rs of
        Some r \<Rightarrow> a = Forwards [bt_address (rt_backend_target r)] [rt_project_ref r] \<or> a = Refuses \<and> rate_limited cc r \<noteq> None
      | None \<Rightarrow> a = Ends)"
  by (induction rs) simp_all

lemma routes_documented_build:
  "routes_documented covers (map (build_route cc) rs @ tail) host a \<longleftrightarrow>
     (case find (\<lambda>r. covers (rt_host r) host) rs of
        Some r \<Rightarrow> a = Forwards [bt_address (rt_backend_target r)] [rt_project_ref r] \<or> a = Refuses \<and> rate_limited cc r \<noteq> None
      | None \<Rightarrow> routes_documented covers tail host a)"
  by (induction rs) simp_all

lemma caddy_under_config:
  assumes "caddy_documented covers caddy"
  shows "case find (\<lambda>r. covers (rt_host r) host) (table_enabled shuffle t) of
        Some r \<Rightarrow> caddy s (build_config cc shuffle t) host = Forwards [bt_address (rt_backend_target r)] [rt_project_ref r] \<or>
          caddy s (build_config cc shuffle t) host = Refuses \<and> rate_limited cc r \<noteq> None
      | None \<Rightarrow> caddy s (build_config cc shuffle t) host =
          (case cc_default_backend cc of Some b \<Rightarrow> if covers ''*'' host then Forwards [b] [] else Ends | None \<Rightarrow> Ends)"
proof -
  have "routes_documented covers (build_routes cc shuffle t) host (caddy s (build_config cc shuffle t) host)"
    using assms by (metis caddy_documented_def https_routes_config)
  then show ?thesis
    by (cases "cc_default_backend cc") (auto simp: build_routes_def routes_documented_build routes_documented_own split: option.splits if_splits)
qed

text \<open>Any order of iteration is one of the routes in front.\<close>

lemma bring_forward:
  assumes "r \<in> set rs"
  obtains shuffle where "\<And>xs. mset (shuffle xs) = mset xs" "hd (shuffle rs) = r" "shuffle rs \<noteq> []"
proof
  let ?s = "\<lambda>xs. if r \<in> set xs then r # remove1 r xs else xs"
  show "mset (?s xs) = mset xs" for xs by simp
  show "hd (?s rs) = r" "?s rs \<noteq> []" using assms by simp_all
qed



end
