(* ===== verification/Gateway_Server.thy ===== *)
theory Gateway_Server
  imports Gateway_Caddy
begin

text \<open>
  The server beside Caddy (\<open>crates/reactor-gateway-server/src/main.rs\<close>): the environment and the world of the
  gateway, the check before a certificate is requested, and the registration and verification of custom domains.
  \<open>dig\<close> is a program of the environment, asked once per verification.
\<close>

section \<open>The environment and the world\<close>

text \<open>What \<open>POST /load\<close> comes to: the configuration runs, or it does not and the answer says so, or the answer is lost.\<close>

datatype caddy_reply = Loaded | Refused | LostReply

record gateway_env =
  gx_fails :: "nat \<Rightarrow> bool"
  gx_shuffle :: "route list \<Rightarrow> route list"
  gx_reply :: "nat \<Rightarrow> caddy_reply"
  gx_dig :: "nat \<Rightarrow> string \<Rightarrow> string option"
  gx_nanos :: "nat \<Rightarrow> nat"
  gx_blake3 :: "string \<Rightarrow> string"
  gx_base32 :: "string \<Rightarrow> string"
  gx_uuid_bytes :: "uuid \<Rightarrow> string"
  gx_caddy :: caddy_config

record config_snapshot =
  sn_config :: json
  sn_created_at :: instant
  sn_route_count :: nat

record gateway_world =
  gw_db :: gateway_db
  gw_caddy :: "json option"
  gw_last_good :: "config_snapshot option"
  gw_now :: instant
  gw_effects :: nat

type_synonym 'a gateway_act = "(gateway_world, 'a, gateway_error) comp"

text \<open>Every effect is numbered, so that the environment answers each on its own.\<close>

definition effect :: "(nat \<Rightarrow> 'a gateway_act) \<Rightarrow> 'a gateway_act" where
  "effect f w = f (gw_effects w) (w\<lparr>gw_effects := Suc (gw_effects w)\<rparr>)"

definition gsql :: "gateway_env \<Rightarrow> 'a gateway_statement \<Rightarrow> 'a gateway_act" where
  "gsql env st = effect (\<lambda>n w.
     if gx_fails env n then (Err GwDatabase, w)
     else case st (gw_now w) (gw_db w) of (r, db') \<Rightarrow> (r, w\<lparr>gw_db := db'\<rparr>))"

section \<open>Domain verification\<close>

text \<open>\<open>str::lines\<close>: an end of line is \<open>\n\<close> with the \<open>\r\<close> before it, and nothing follows the last one.\<close>

definition strip_cr :: "string \<Rightarrow> string" where
  "strip_cr s = (if s \<noteq> [] \<and> last s = CHR 0x0D then butlast s else s)"

definition str_lines :: "string \<Rightarrow> string list" where
  "str_lines s =
     (let parts = split_char CHR 0x0A s in
      map strip_cr (butlast parts) @ (if last parts = '''' then [] else [last parts]))"

definition trim_char :: "char \<Rightarrow> string \<Rightarrow> string" where
  "trim_char c s = rev (dropWhile (\<lambda>x. x = c) (rev (dropWhile (\<lambda>x. x = c) s)))"

definition txt_shows :: "string \<Rightarrow> string \<Rightarrow> bool" where
  "txt_shows stdout expected_value \<longleftrightarrow> list_ex (\<lambda>line. trim_char CHR 0x22 (trim line) = expected_value) (str_lines stdout)"

definition verify_dns_txt :: "gateway_env \<Rightarrow> string \<Rightarrow> string \<Rightarrow> bool gateway_act" where
  "verify_dns_txt env record_name expected_value = effect (\<lambda>n w.
     (case gx_dig env n record_name of
        None \<Rightarrow> (Err (GwInternal ''dig command failed''), w)
      | Some stdout \<Rightarrow> (Ok (txt_shows stdout expected_value), w)))"

fun show_hex :: "nat \<Rightarrow> string" where
  "show_hex n =
     (let d = [(''0123456789abcdef'' :: string) ! (n mod 16)] in if n < 16 then d else show_hex (n div 16) @ d)"

declare show_hex.simps [simp del]

definition generate_verification_token :: "gateway_env \<Rightarrow> string gateway_act" where
  "generate_verification_token env = effect (\<lambda>n w. (Ok (''reactor-verify-'' @ show_hex (gx_nanos env n)), w))"

section \<open>Handlers\<close>

definition ask_handler :: "gateway_env \<Rightarrow> string \<Rightarrow> nat gateway_act" where
  "ask_handler env domain =
     bind (attempt (gsql env (is_domain_verified domain))) (\<lambda>v.
       ret (case v of Inl True \<Rightarrow> 200 | Inl False \<Rightarrow> 404 | Inr e \<Rightarrow> 500))"

datatype create_answer = DomainCreated string string string | CreateFailed

definition verify_name :: "string \<Rightarrow> string" where
  "verify_name host = ''_reactor-verify.'' @ host"

definition create_domain_handler :: "gateway_env \<Rightarrow> string \<Rightarrow> uuid \<Rightarrow> string \<Rightarrow> create_answer gateway_act" where
  "create_domain_handler env host project_id backend_target =
     bind (generate_verification_token env) (\<lambda>token w.
       bind (attempt (gsql env (insert_custom_domain (custom_domain_new (gw_now w) host project_id token)))) (\<lambda>v.
         ret (case v of Inl u \<Rightarrow> DomainCreated host (verify_name host) token | Inr e \<Rightarrow> CreateFailed)) w)"

datatype verify_answer =
  DomainNotFound | VerifyError | AlreadyVerified | DomainVerified | DnsVerificationFailed

fun verify_status :: "verify_answer \<Rightarrow> nat" where
  "verify_status DomainNotFound = 404"
| "verify_status VerifyError = 500"
| "verify_status AlreadyVerified = 200"
| "verify_status DomainVerified = 200"
| "verify_status DnsVerificationFailed = 400"

definition verified_route :: "gateway_env \<Rightarrow> instant \<Rightarrow> string \<Rightarrow> custom_domain \<Rightarrow> route" where
  "verified_route env now host d =
     (route_new now host (cd_project_id d)
        (project_ref_from_id (gx_blake3 env) (gx_base32 env) (gx_uuid_bytes env (cd_project_id d)))
        (backend_target_new ''reactor-cloud.internal:8000''))\<lparr>rt_tls_mode := TlsOnDemand\<rparr>"

definition verify_domain_handler :: "gateway_env \<Rightarrow> string \<Rightarrow> verify_answer gateway_act" where
  "verify_domain_handler env host =
     bind (attempt (gsql env (get_custom_domain host))) (\<lambda>v.
       case v of
         Inr e \<Rightarrow> ret VerifyError
       | Inl None \<Rightarrow> ret DomainNotFound
       | Inl (Some d) \<Rightarrow>
           if cd_is_verified d then ret AlreadyVerified
           else
             bind (attempt (verify_dns_txt env (verify_name host) (cd_verification_token d))) (\<lambda>v.
               case v of
                 Inr e \<Rightarrow> ret VerifyError
               | Inl False \<Rightarrow> ret DnsVerificationFailed
               | Inl True \<Rightarrow>
                   bind (attempt (gsql env (verify_custom_domain host))) (\<lambda>v.
                     case v of
                       Inr e \<Rightarrow> ret VerifyError
                     | Inl u \<Rightarrow> (\<lambda>w.
                         bind (ignore_error (gsql env (upsert_route (verified_route env (gw_now w) host d))))
                           (\<lambda>_. ret DomainVerified) w))))"

section \<open>Calls\<close>

datatype gateway_call = AskCall string | CreateDomain string uuid string | VerifyDomain string | Later nat

fun perform_gateway :: "gateway_env \<Rightarrow> gateway_call \<Rightarrow> gateway_world \<Rightarrow> gateway_world" where
  "perform_gateway env (AskCall d) w = snd (ask_handler env d w)"
| "perform_gateway env (CreateDomain h p t) w = snd (create_domain_handler env h p t w)"
| "perform_gateway env (VerifyDomain h) w = snd (verify_domain_handler env h w)"
| "perform_gateway env (Later n) w = w\<lparr>gw_now := gw_now w + int n\<rparr>"

definition perform_all_gateway :: "gateway_env \<Rightarrow> gateway_call list \<Rightarrow> gateway_world \<Rightarrow> gateway_world" where
  "perform_all_gateway env calls w = fold (perform_gateway env) calls w"

lemma effect_steps [simp]:
  "effect f w = f (gw_effects w) (w\<lparr>gw_effects := Suc (gw_effects w)\<rparr>)"
  by (simp add: effect_def)

lemma gsql_cases:
  obtains e where "gsql env st w = (Err e, w\<lparr>gw_effects := Suc (gw_effects w)\<rparr>)"
  | "gsql env st w = (fst (st (gw_now w) (gw_db w)),
      w\<lparr>gw_effects := Suc (gw_effects w), gw_db := snd (st (gw_now w) (gw_db w))\<rparr>)" "\<not> gx_fails env (gw_effects w)"
  by (cases "gx_fails env (gw_effects w)") (auto simp: gsql_def split: prod.splits)

text \<open>A domain whose record shows its token at some moment, to the one question \<open>n\<close>.\<close>

definition dig_proves :: "gateway_env \<Rightarrow> nat \<Rightarrow> domain_row \<Rightarrow> bool" where
  "dig_proves env n d \<longleftrightarrow>
     (case gx_dig env n (verify_name (dr_host d)) of Some out \<Rightarrow> txt_shows out (dr_verification_token d) | None \<Rightarrow> False)"

text \<open>
  What the handlers do to the tables: they insert unverified domains, and verify a domain that was not verified once its record
  shows the token, with or without storing a route to its project. A property that survives these survives
  every sequence of calls.
\<close>

locale gateway_invariant =
  fixes I :: "gateway_db \<Rightarrow> bool" and env :: gateway_env
  assumes I_insert: "I db \<Longrightarrow> domain_at (cd_host d) db = None \<Longrightarrow> cd_verified_at d = None \<Longrightarrow>
      I (snd (insert_custom_domain d t db))"
    and I_verify: "I db \<Longrightarrow> domain_at h db = Some row \<Longrightarrow> dr_verified_at row = None \<Longrightarrow> dig_proves env n row \<Longrightarrow>
      I (snd (verify_custom_domain h t db))"
    and I_route: "I db \<Longrightarrow> domain_at h db = Some row \<Longrightarrow> dr_verified_at row = None \<Longrightarrow> dig_proves env n row \<Longrightarrow>
      rt_host r = h \<Longrightarrow> rt_project_id r = dr_project_id row \<Longrightarrow>
      I (snd (upsert_route r t' (snd (verify_custom_domain h t db))))"
begin

lemma I_ask: "I (gw_db w) \<Longrightarrow> I (gw_db (snd (ask_handler env d w)))"
  by (cases rule: gsql_cases [of env "is_domain_verified d" w])
    (auto simp: ask_handler_def bind_def attempt_def is_domain_verified_def split: option.splits)

lemma I_create: "I (gw_db w) \<Longrightarrow> I (gw_db (snd (create_domain_handler env h p t w)))"
proof -
  assume i: "I (gw_db w)"
  let ?token = "''reactor-verify-'' @ show_hex (gx_nanos env (gw_effects w))"
  let ?d = "custom_domain_new (gw_now w) h p ?token" and ?w = "w\<lparr>gw_effects := Suc (gw_effects w)\<rparr>"
  have new: "I (snd (insert_custom_domain ?d (gw_now w) (gw_db w)))"
    using i I_insert [of "gw_db w" ?d "gw_now w"]
    by (cases "domain_at h (gw_db w)") (auto simp: custom_domain_new_def insert_custom_domain_def)
  show ?thesis
    by (cases rule: gsql_cases [of env "insert_custom_domain ?d" ?w])
      (use i new in \<open>auto simp: create_domain_handler_def generate_verification_token_def bind_def attempt_def
        split: result.splits\<close>)
qed

text \<open>What a verification does, by the answers on its way.\<close>

lemma I_verify_call: "I (gw_db w) \<Longrightarrow> I (gw_db (snd (verify_domain_handler env h w)))"
proof -
  assume i: "I (gw_db w)"
  show ?thesis
  proof (cases "gx_fails env (gw_effects w) \<or> Option.bind (domain_at h (gw_db w)) domain_of_row = None")
    case True
    then show ?thesis using i by (auto simp: verify_domain_handler_def bind_def attempt_def gsql_def get_custom_domain_def)
  next
    case False
    then obtain row d where row: "domain_at h (gw_db w) = Some row" "domain_of_row row = Some d" by (auto simp: bind_eq_Some_conv)
    have d: "cd_verification_token d = dr_verification_token row" "cd_project_id d = dr_project_id row"
      "cd_is_verified d \<longleftrightarrow> dr_verified_at row \<noteq> None"
      using row(2) by (auto simp: domain_of_row_def cd_is_verified_def bind_eq_Some_conv)
    have h: "dr_host row = h" using row(1) by (auto simp: domain_at_def find_Some_iff)
    let ?n = "Suc (gw_effects w)"
    note unfold = verify_domain_handler_def bind_def attempt_def gsql_def get_custom_domain_def verify_dns_txt_def
    show ?thesis
    proof (cases "dr_verified_at row = None \<and> dig_proves env ?n row")
      case True
      note v = I_verify [OF i row(1) conjunct1 [OF True] conjunct2 [OF True]]
        and r = I_route [OF i row(1) conjunct1 [OF True] conjunct2 [OF True]]
      let ?r = "verified_route env (gw_now w) h d"
      have "rt_host ?r = h" "rt_project_id ?r = dr_project_id row" using d by (simp_all add: verified_route_def route_new_def)
      note r = r [OF this]
      have ver: "fst (verify_custom_domain h t db) = Ok ()" for t db by (simp add: verify_custom_domain_def)
      show ?thesis
        using False row d h True i v r
        by (auto simp: unfold dig_proves_def ignore_error_def verify_custom_domain_def upsert_route_def Let_def split: option.splits)
    next
      case no: False
      then show ?thesis using False row d h i
        by (auto simp: unfold dig_proves_def split: option.splits)
    qed
  qed
qed

lemma I_calls: "I (gw_db w) \<Longrightarrow> I (gw_db (perform_all_gateway env calls w))"
proof (induction calls arbitrary: w)
  case (Cons c calls)
  have "I (gw_db (perform_gateway env c w))"
    using Cons.prems I_ask I_create I_verify_call by (cases c) auto
  then show ?case using Cons.IH by (simp add: perform_all_gateway_def)
qed (simp add: perform_all_gateway_def)

end

end
