(* ===== verification/Gateway_Domains.thy ===== *)
theory Gateway_Domains
  imports Gateway_Server
begin

text \<open>
  Custom domains over any sequence of calls: a certificate is approved, and a route stored, only for a domain whose DNS
  record showed its token; and a domain that was verified while its route could not be stored stays without one.
\<close>

section \<open>Certificates need a proof\<close>

definition proven :: "gateway_env \<Rightarrow> route_row set \<Rightarrow> gateway_db \<Rightarrow> bool" where
  "proven env R db \<longleftrightarrow>
     distinct (map dr_host (g_domains db)) \<and>
     (\<forall>d \<in> set (g_domains db). dr_verified_at d \<noteq> None \<longrightarrow> (\<exists>n. dig_proves env n d)) \<and>
     (\<forall>r \<in> set (g_routes db) - R. \<exists>d \<in> set (g_domains db). dr_host d = rr_host r \<and> dr_project_id d = rr_project_id r \<and>
        dr_verified_at d \<noteq> None)"

lemma find_key: "distinct (map f xs) \<Longrightarrow> find (\<lambda>x. f x = k) xs = Some x \<longleftrightarrow> x \<in> set xs \<and> f x = k"
  by (induction xs) auto

lemma domain_at_iff:
  "distinct (map dr_host (g_domains db)) \<Longrightarrow> domain_at h db = Some d \<longleftrightarrow> d \<in> set (g_domains db) \<and> dr_host d = h"
  unfolding domain_at_def by (rule find_key)

lemma proven_verify:
  assumes p: "proven env R db" and row: "domain_at h db = Some row" and n: "dig_proves env n row"
  shows "proven env R (snd (verify_custom_domain h t db))"
proof -
  have d: "distinct (map dr_host (g_domains db))" using p by (simp add: proven_def)
  let ?set = "\<lambda>d. if dr_host d = h then d\<lparr>dr_verified_at := Some t\<rparr> else d"
  let ?db = "snd (verify_custom_domain h t db)"
  have db: "g_domains ?db = map ?set (g_domains db)" "g_routes ?db = g_routes db"
    by (simp_all add: verify_custom_domain_def set_domain_def)
  have "map dr_host (g_domains ?db) = map dr_host (g_domains db)" unfolding db by simp
  moreover have "dig_proves env n (row\<lparr>dr_verified_at := Some t\<rparr>)" using n by (auto simp: dig_proves_def split: option.splits)
  moreover have same: "d' = row" if "d' \<in> set (g_domains db)" "dr_host d' = h" for d'
    using that row domain_at_iff [OF d, of h d'] by simp
  ultimately have "\<exists>n. dig_proves env n d'" if "d' \<in> set (g_domains ?db)" "dr_verified_at d' \<noteq> None" for d'
    using that p unfolding db proven_def by (auto split: if_splits)
  moreover have "\<exists>d' \<in> set (g_domains ?db). dr_host d' = dr_host d \<and> dr_project_id d' = dr_project_id d \<and> dr_verified_at d' \<noteq> None"
    if "d \<in> set (g_domains db)" "dr_verified_at d \<noteq> None" for d
    using that unfolding db by (intro bexI [of _ "?set d"]) auto
  ultimately show ?thesis
    using p d \<open>map dr_host (g_domains ?db) = map dr_host (g_domains db)\<close> unfolding proven_def db(2) by metis
qed

interpretation dns: gateway_invariant "proven env R" env for env R
proof
  fix db and d :: custom_domain and t assume "proven env R db" "domain_at (cd_host d) db = None" "cd_verified_at d = None"
  then show "proven env R (snd (insert_custom_domain d t db))"
    by (fastforce simp: proven_def insert_custom_domain_def domain_at_def find_None_iff)
next
  fix db h row n t assume "proven env R db" "domain_at h db = Some row" "dr_verified_at row = None" "dig_proves env n row"
  then show "proven env R (snd (verify_custom_domain h t db))" by (intro proven_verify)
next
  fix db h row n and r :: route and t t'
  assume a: "proven env R db" "domain_at h db = Some row" "dr_verified_at row = None" "dig_proves env n row"
    "rt_host r = h" "rt_project_id r = dr_project_id row"
  let ?db = "snd (verify_custom_domain h t db)"
  have p: "proven env R ?db" using a by (intro proven_verify)
  have "row\<lparr>dr_verified_at := Some t\<rparr> \<in> set (g_domains ?db)" "dr_host row = h"
    using a(2) by (auto simp: verify_custom_domain_def set_domain_def domain_at_def find_Some_iff image_iff intro!: bexI [of _ row] nth_mem)
  then have "\<exists>d \<in> set (g_domains ?db). dr_host d = rr_host (row_of_route r) \<and> dr_project_id d = rr_project_id (row_of_route r) \<and>
      dr_verified_at d \<noteq> None" using a(5,6) by (intro bexI [of _ "row\<lparr>dr_verified_at := Some t\<rparr>"]) (auto simp: row_of_route_def)
  then show "proven env R (snd (upsert_route r t' ?db))"
    using p by (auto simp: proven_def upsert_route_def Let_def split: if_splits)
qed

lemma unproven_start:
  "distinct (map dr_host (g_domains db)) \<Longrightarrow> list_all (\<lambda>d. dr_verified_at d = None) (g_domains db) \<Longrightarrow>
    proven env (set (g_routes db)) db"
  by (auto simp: proven_def list_all_iff)

text \<open>
  C27. Certificates need a proof of the domain. From tables with no verified domain, whatever calls reach the
  server, in any order and with any failures: if the gateway then approves a certificate for a domain, or stores a
  route for one, the TXT record of the domain once showed the token of its entry; and a route stored is for the
  project of the entry.
\<close>

theorem certificates_need_dns_proof:
  assumes "distinct (map dr_host (g_domains (gw_db w)))" "list_all (\<lambda>d. dr_verified_at d = None) (g_domains (gw_db w))"
  shows "let w' = perform_all_gateway env calls w in
    (\<forall>h w''. ask_handler env h w' = (Ok 200, w'') \<longrightarrow> (\<exists>d n. domain_at h (gw_db w') = Some d \<and> dig_proves env n d)) \<and>
    (\<forall>r \<in> set (g_routes (gw_db w')) - set (g_routes (gw_db w)). \<exists>d n. domain_at (rr_host r) (gw_db w') = Some d \<and>
       dig_proves env n d \<and> dr_project_id d = rr_project_id r)"
proof -
  let ?w = "perform_all_gateway env calls w"
  have p: "proven env (set (g_routes (gw_db w))) (gw_db ?w)"
    by (rule dns.I_calls [OF unproven_start [OF assms]])
  then have d: "distinct (map dr_host (g_domains (gw_db ?w)))" by (simp add: proven_def)
  have known: "\<exists>d n. domain_at h (gw_db ?w) = Some d \<and> dig_proves env n d"
    if "ask_handler env h ?w = (Ok 200, w'')" for h w''
  proof -
    have "fst (is_domain_verified h (gw_now ?w) (gw_db ?w)) = Ok True"
      using that by (cases rule: gsql_cases [of env "is_domain_verified h" ?w])
        (auto simp: ask_handler_def bind_def attempt_def is_domain_verified_def split: bool.splits)
    then obtain row where "domain_at h (gw_db ?w) = Some row" "dr_verified_at row \<noteq> None"
      by (auto simp: is_domain_verified_def split: option.splits)
    then show ?thesis using p domain_at_iff [OF d] by (auto simp: proven_def)
  qed
  have "\<exists>d n. domain_at (rr_host r) (gw_db ?w) = Some d \<and> dig_proves env n d \<and> dr_project_id d = rr_project_id r"
    if "r \<in> set (g_routes (gw_db ?w)) - set (g_routes (gw_db w))" for r
  proof -
    have "\<exists>d \<in> set (g_domains (gw_db ?w)). dr_host d = rr_host r \<and> dr_project_id d = rr_project_id r \<and> dr_verified_at d \<noteq> None"
      by (rule bspec [OF p [unfolded proven_def, THEN conjunct2, THEN conjunct2] that])
    then obtain row where "row \<in> set (g_domains (gw_db ?w))" "dr_host row = rr_host r" "dr_project_id row = rr_project_id r"
      "dr_verified_at row \<noteq> None" by (elim bexE conjE)
    moreover have "domain_at (rr_host r) (gw_db ?w) = Some row" using domain_at_iff [OF d] calculation(1,2) by simp
    moreover obtain n where "dig_proves env n row"
      using bspec [OF p [unfolded proven_def, THEN conjunct2, THEN conjunct1] calculation(1)] calculation(4) by (elim impE exE)
    ultimately show ?thesis by blast
  qed
  then show ?thesis using known unfolding Let_def by (intro conjI allI impI ballI)
qed

section \<open>A domain without a route\<close>

definition routeless :: "string \<Rightarrow> gateway_db \<Rightarrow> bool" where
  "routeless h db \<longleftrightarrow> (\<exists>d. domain_at h db = Some d \<and> dr_verified_at d \<noteq> None) \<and> \<not> list_ex (\<lambda>r. rr_host r = h) (g_routes db)"

lemma find_map_same:
  "(\<And>x. f (g x) = f x) \<Longrightarrow> find (\<lambda>x. f x = k) (map g xs) = map_option g (find (\<lambda>x. f x = k) xs)"
  by (induction xs) auto

lemma domain_at_set: "(\<And>d. dr_host (f d) = dr_host d) \<Longrightarrow>
    domain_at h (set_domain h' f db) = map_option (\<lambda>d. if h = h' then f d else d) (domain_at h db)"
  unfolding domain_at_def set_domain_def
  by (simp add: find_map_same) (auto simp: find_Some_iff split: option.splits intro!: option.map_cong)

lemma domain_at_append: "domain_at h (db\<lparr>g_domains := g_domains db @ ds\<rparr>) =
    (case domain_at h db of Some d \<Rightarrow> Some d | None \<Rightarrow> find (\<lambda>d. dr_host d = h) ds)"
  by (simp add: domain_at_def find_append)

lemma routeless_verify:
  "routeless h0 db \<Longrightarrow> routeless h0 (snd (verify_custom_domain h t db))"
proof -
  assume r: "routeless h0 db"
  then obtain d where "domain_at h0 db = Some d" "dr_verified_at d \<noteq> None" by (auto simp: routeless_def)
  then have "\<exists>d'. domain_at h0 (snd (verify_custom_domain h t db)) = Some d' \<and> dr_verified_at d' \<noteq> None"
    by (simp add: verify_custom_domain_def domain_at_set)
  then show ?thesis using r by (simp add: routeless_def verify_custom_domain_def set_domain_def)
qed

interpretation no_route: gateway_invariant "routeless h0" env for h0 env
proof
  fix db and d :: custom_domain and t assume "routeless h0 db" "domain_at (cd_host d) db = None" "cd_verified_at d = None"
  then show "routeless h0 (snd (insert_custom_domain d t db))"
    by (auto simp: routeless_def insert_custom_domain_def domain_at_append)
next
  fix db h row n t assume "routeless h0 db"
  then show "routeless h0 (snd (verify_custom_domain h t db))" by (rule routeless_verify)
next
  fix db h row n and r :: route and t t'
  assume a: "routeless h0 db" "domain_at h db = Some row" "dr_verified_at row = None" "rt_host r = h"
  have "h \<noteq> h0" using a by (auto simp: routeless_def)
  moreover have "routeless h0 (snd (verify_custom_domain h t db))" using a by (intro routeless_verify)
  ultimately show "routeless h0 (snd (upsert_route r t' (snd (verify_custom_domain h t db))))"
    using a(4) by (auto simp: routeless_def upsert_route_def Let_def row_of_route_def domain_at_def list_ex_iff split: if_splits)
qed

lemma verified_now:
  assumes "verify_domain_handler env h w = (Ok DomainVerified, w')" and "gx_fails env (gw_effects w + 3)"
    and "\<not> list_ex (\<lambda>r. rr_host r = h) (g_routes (gw_db w))"
  shows "routeless h (gw_db w')"
proof -
  obtain row where "domain_at h (gw_db w) = Some row"
      "gw_db w' = set_domain h (\<lambda>d. d\<lparr>dr_verified_at := Some (gw_now w)\<rparr>) (gw_db w)"
    using assms(1,2)
    by (auto simp: verify_domain_handler_def bind_def attempt_def gsql_def get_custom_domain_def verify_dns_txt_def
      ignore_error_def verify_custom_domain_def numeral_3_eq_3 bind_eq_Some_conv split: if_splits option.splits bool.splits)
  then show ?thesis using assms(3) by (simp add: routeless_def domain_at_set) (simp add: set_domain_def)
qed

text \<open>
  A verified domain may never get its route. When the statement that stores the route of a freshly verified domain fails,
  the caller is told that the domain is verified, and from then on, whatever calls follow, a certificate is approved for
  it where the check does not fail, but no route is stored for it: verifying again answers that it is verified already.
\<close>

theorem verified_domain_without_route:
  assumes "verify_domain_handler env h w = (Ok DomainVerified, w')" and "gx_fails env (gw_effects w + 3)"
    and "\<not> list_ex (\<lambda>r. rr_host r = h) (g_routes (gw_db w))"
  shows "let w'' = perform_all_gateway env calls w' in
    \<not> list_ex (\<lambda>r. rr_host r = h) (g_routes (gw_db w'')) \<and>
    (\<not> gx_fails env (gw_effects w'') \<longrightarrow> fst (ask_handler env h w'') = Ok 200) \<and>
    fst (verify_domain_handler env h w'') \<noteq> Ok DomainVerified"
proof -
  have r: "routeless h (gw_db (perform_all_gateway env calls w'))"
    by (rule no_route.I_calls [OF verified_now [OF assms]])
  then obtain d where d: "domain_at h (gw_db (perform_all_gateway env calls w')) = Some d" "dr_verified_at d \<noteq> None"
    by (auto simp: routeless_def)
  show ?thesis
    unfolding Let_def
  proof (intro conjI impI)
    let ?w = "perform_all_gateway env calls w'"
    show "\<not> list_ex (\<lambda>r. rr_host r = h) (g_routes (gw_db ?w))" using r by (simp add: routeless_def)
    show "fst (ask_handler env h ?w) = Ok 200" if "\<not> gx_fails env (gw_effects ?w)"
      using d that by (simp add: ask_handler_def bind_def attempt_def gsql_def is_domain_verified_def)
    show "fst (verify_domain_handler env h ?w) \<noteq> Ok DomainVerified"
      using d by (auto simp: verify_domain_handler_def bind_def attempt_def gsql_def get_custom_domain_def domain_of_row_def
        cd_is_verified_def bind_eq_Some_conv split: option.splits)
  qed
qed

section \<open>A server\<close>

text \<open>A server whose statement number \<open>n\<close> fails; \<open>dig\<close> shows what the first token was made of.\<close>

definition sample_gateway_env :: "nat \<Rightarrow> gateway_env" where
  "sample_gateway_env n =
     \<lparr>gx_fails = (\<lambda>m. m = n), gx_shuffle = (\<lambda>rs. rs), gx_reply = (\<lambda>_. Loaded),
      gx_dig = (\<lambda>_ _. Some ([CHR 0x22] @ ''reactor-verify-1f'' @ [CHR 0x22, CHR 0x0A])), gx_nanos = (\<lambda>_. 31),
      gx_blake3 = (\<lambda>_. replicate 32 CHR ''x''), gx_base32 = (\<lambda>bs. replicate ((8 * length bs + 4) div 5) CHR ''A''),
      gx_uuid_bytes = (\<lambda>s. s), gx_caddy = caddy_config_new\<rparr>"

definition sample_gateway_world :: gateway_world where
  "sample_gateway_world =
     \<lparr>gw_db = \<lparr>g_routes = [], g_domains = [], g_notified = []\<rparr>, gw_caddy = None, gw_last_good = None, gw_now = 0,
      gw_effects = 0\<rparr>"

theorem certificates_need_dns_proof_witness:
  "let env = sample_gateway_env 100; w' = perform_all_gateway env [CreateDomain ''a.x'' ''p'' '''', VerifyDomain ''a.x''] sample_gateway_world in
   fst (ask_handler env ''a.x'' w') = Ok 200 \<and> (\<exists>d n. domain_at ''a.x'' (gw_db w') = Some d \<and> dig_proves env n d) \<and>
   fst (ask_handler env ''b.x'' w') = Ok 404"
proof -
  let ?w = "perform_all_gateway (sample_gateway_env 100) [CreateDomain ''a.x'' ''p'' '''', VerifyDomain ''a.x''] sample_gateway_world"
  have a: "fst (ask_handler (sample_gateway_env 100) ''a.x'' ?w) = Ok 200" "fst (ask_handler (sample_gateway_env 100) ''b.x'' ?w) = Ok 404"
    by code_simp+
  then obtain w'' where "ask_handler (sample_gateway_env 100) ''a.x'' ?w = (Ok 200, w'')" by (metis prod.collapse)
  then show ?thesis
    using certificates_need_dns_proof [of sample_gateway_world "sample_gateway_env 100" "[CreateDomain ''a.x'' ''p'' '''', VerifyDomain ''a.x'']"] a
    unfolding Let_def by (simp add: sample_gateway_world_def)
qed

theorem verified_domain_without_route_witness:
  "let env = sample_gateway_env 5; w = perform_all_gateway env [CreateDomain ''a.x'' ''p'' ''''] sample_gateway_world in
   fst (verify_domain_handler env ''a.x'' w) = Ok DomainVerified \<and>
   \<not> list_ex (\<lambda>r. rr_host r = ''a.x'') (g_routes (gw_db (perform_all_gateway env [Later 5, VerifyDomain ''a.x'']
       (snd (verify_domain_handler env ''a.x'' w)))))"
proof -
  let ?w = "perform_all_gateway (sample_gateway_env 5) [CreateDomain ''a.x'' ''p'' ''''] sample_gateway_world"
  have "fst (verify_domain_handler (sample_gateway_env 5) ''a.x'' ?w) = Ok DomainVerified" by code_simp
  moreover have "gx_fails (sample_gateway_env 5) (gw_effects ?w + 3)" by code_simp
  moreover have "\<not> list_ex (\<lambda>r. rr_host r = ''a.x'') (g_routes (gw_db ?w))" by code_simp
  ultimately show ?thesis
    using verified_domain_without_route [of "sample_gateway_env 5" "''a.x''" ?w _ "[Later 5, VerifyDomain ''a.x'']"]
    unfolding Let_def by (metis prod.collapse)
qed

end
