(* ===== verification/Gateway_Sync.thy ===== *)
theory Gateway_Sync
  imports Gateway_Domains
begin

text \<open>
  Routes on their way to Caddy (\<open>crates/reactor-gateway/src/snapshot.rs\<close>, \<open>sync.rs\<close>): a configuration is applied
  or rolled back, and the sync loop waits for messages and for its timer. The loop runs beside the handlers,
  other writers of the routes and the task that forwards notifications, so that it is a step relation: between
  any two of its awaits the others may take steps. PostgreSQL delivers every notification to a listening connection;
  what is lost when that connection breaks is not modelled.
\<close>

section \<open>Apply and roll back (snapshot.rs)\<close>

definition load_config :: "gateway_env \<Rightarrow> json \<Rightarrow> unit gateway_act" where
  "load_config env config = effect (\<lambda>n w.
     (case gx_reply env n of
        Loaded \<Rightarrow> (Ok (), w\<lparr>gw_caddy := Some config\<rparr>)
      | Refused \<Rightarrow> (Err (GwCaddyAdmin ''Failed to load config''), w)
      | LostReply \<Rightarrow> (Err GwHttp, w\<lparr>gw_caddy := Some config\<rparr>)))"

definition max_rollback_attempts :: nat where
  "max_rollback_attempts = 3"

fun rollback_attempts :: "gateway_env \<Rightarrow> json \<Rightarrow> nat \<Rightarrow> unit gateway_act" where
  "rollback_attempts env config 0 = lift (Err (GwRollbackFailed ''Exhausted rollback attempts''))"
| "rollback_attempts env config (Suc left) =
     bind (attempt (load_config env config)) (\<lambda>v.
       case v of
         Inl u \<Rightarrow> ret ()
       | Inr e \<Rightarrow>
           if left = 0 then lift (Err (GwRollbackFailed ''All 3 rollback attempts failed''))
           else (\<lambda>w. rollback_attempts env config left (w\<lparr>gw_now := gw_now w + 500000\<rparr>)))"

definition rollback :: "gateway_env \<Rightarrow> unit gateway_act" where
  "rollback env w =
     (case gw_last_good w of
        Some snapshot \<Rightarrow> rollback_attempts env (sn_config snapshot) max_rollback_attempts w
      | None \<Rightarrow> lift (Err (GwRollbackFailed ''No previous configuration available'')) w)"

definition apply_table :: "gateway_env \<Rightarrow> routing_table \<Rightarrow> unit gateway_act" where
  "apply_table env t =
     (let new_config = build_config (gx_caddy env) (gx_shuffle env) t in
      bind (attempt (load_config env new_config)) (\<lambda>v.
        case v of
          Inl u \<Rightarrow> (\<lambda>w. (Ok (), w\<lparr>gw_last_good :=
            Some \<lparr>sn_config = new_config, sn_created_at = gw_now w, sn_route_count = length t\<rparr>\<rparr>))
        | Inr e \<Rightarrow> bind (rollback env) (\<lambda>_. lift (Err e))))"

section \<open>The sync loop (sync.rs)\<close>

datatype sync_message = Reload | RouteChanged string | Shutdown

record sync_config =
  sy_debounce_interval :: nat
  sy_max_debounce_wait :: nat
  sy_health_check_interval :: nat

definition default_sync_config :: sync_config where
  "default_sync_config =
     \<lparr>sy_debounce_interval = 100000, sy_max_debounce_wait = 1000000, sy_health_check_interval = 30000000\<rparr>"

text \<open>
  Where the loop stands: before its first sync, with a table it loaded and is applying (for the first time or not),
  waiting for a message or its timer, or returned.
\<close>

datatype sync_phase = Starting | Applying bool routing_table | Waiting | Stopped

record sync_loop =
  sl_world :: gateway_world
  sl_phase :: sync_phase
  sl_queue :: "sync_message list"
  sl_pending :: bool
  sl_last_change :: instant
  sl_last_sync :: instant
  sl_deadline :: instant

definition loop_now :: "sync_loop \<Rightarrow> instant" where
  "loop_now l = gw_now (sl_world l)"

text \<open>The head of the loop: the timer is set anew every time round.\<close>

definition loop_head :: "sync_config \<Rightarrow> sync_loop \<Rightarrow> sync_loop" where
  "loop_head cfg l =
     l\<lparr>sl_phase := Waiting,
       sl_deadline := loop_now l + int (if sl_pending l then sy_debounce_interval cfg else sy_health_check_interval cfg)\<rparr>"

definition loop_receive :: "sync_config \<Rightarrow> sync_message \<Rightarrow> sync_loop \<Rightarrow> sync_loop" where
  "loop_receive cfg m l =
     (case m of
        Shutdown \<Rightarrow> l\<lparr>sl_phase := Stopped\<rparr>
      | _ \<Rightarrow> loop_head cfg (l\<lparr>sl_pending := True, sl_last_change := loop_now l\<rparr>))"

definition should_sync :: "sync_config \<Rightarrow> sync_loop \<Rightarrow> bool" where
  "should_sync cfg l \<longleftrightarrow>
     sl_pending l \<and> (int (sy_debounce_interval cfg) \<le> loop_now l - sl_last_change l \<or>
       int (sy_max_debounce_wait cfg) \<le> loop_now l - sl_last_sync l)"

text \<open>\<open>do_sync\<close> in two halves: the table is loaded, then applied.\<close>

definition sync_load :: "gateway_env \<Rightarrow> sync_config \<Rightarrow> bool \<Rightarrow> sync_loop \<Rightarrow> sync_loop" where
  "sync_load env cfg first l =
     (case gsql env load_routes (sl_world l) of
        (Ok rs, w) \<Rightarrow> l\<lparr>sl_world := w, sl_phase := Applying first (from_routes rs)\<rparr>
      | (_, w) \<Rightarrow> if first then l\<lparr>sl_world := w, sl_phase := Stopped\<rparr> else loop_head cfg (l\<lparr>sl_world := w\<rparr>))"

definition sync_apply :: "gateway_env \<Rightarrow> sync_config \<Rightarrow> bool \<Rightarrow> routing_table \<Rightarrow> sync_loop \<Rightarrow> sync_loop" where
  "sync_apply env cfg first t l =
     (case apply_table env t (sl_world l) of
        (Ok u, w) \<Rightarrow>
          (if first then loop_head cfg (l\<lparr>sl_world := w, sl_pending := False, sl_last_change := gw_now w, sl_last_sync := gw_now w\<rparr>)
           else loop_head cfg (l\<lparr>sl_world := w, sl_pending := False, sl_last_sync := gw_now w\<rparr>))
      | (_, w) \<Rightarrow> if first then l\<lparr>sl_world := w, sl_phase := Stopped\<rparr> else loop_head cfg (l\<lparr>sl_world := w\<rparr>))"

definition loop_tick :: "gateway_env \<Rightarrow> sync_config \<Rightarrow> sync_loop \<Rightarrow> sync_loop" where
  "loop_tick env cfg l = (if should_sync cfg l then sync_load env cfg False l else loop_head cfg l)"

definition channel_capacity :: nat where
  "channel_capacity = 100"

inductive sync_step :: "gateway_env \<Rightarrow> sync_config \<Rightarrow> sync_loop \<Rightarrow> sync_loop \<Rightarrow> bool" for env cfg where
  start: "sl_phase l = Starting \<Longrightarrow> sync_step env cfg l (sync_load env cfg True l)"
| applied: "sl_phase l = Applying first t \<Longrightarrow> sync_step env cfg l (sync_apply env cfg first t l)"
| received: "sl_phase l = Waiting \<Longrightarrow> sl_queue l = m # q \<Longrightarrow> sync_step env cfg l (loop_receive cfg m (l\<lparr>sl_queue := q\<rparr>))"
| ticked: "sl_phase l = Waiting \<Longrightarrow> sl_deadline l \<le> loop_now l \<Longrightarrow> sync_step env cfg l (loop_tick env cfg l)"
| called: "sync_step env cfg l (l\<lparr>sl_world := perform_gateway env c (sl_world l)\<rparr>)"
| changed: "sync_step env cfg l (l\<lparr>sl_world := (sl_world l)\<lparr>gw_db := (gw_db (sl_world l))\<lparr>g_routes := rs,
      g_notified := g_notified (gw_db (sl_world l)) @ [h]\<rparr>\<rparr>\<rparr>)"
| forwarded: "sl_phase l \<noteq> Stopped \<Longrightarrow> g_notified (gw_db (sl_world l)) = h # hs \<Longrightarrow> length (sl_queue l) < channel_capacity \<Longrightarrow>
    sync_step env cfg l (l\<lparr>sl_world := (sl_world l)\<lparr>gw_db := (gw_db (sl_world l))\<lparr>g_notified := hs\<rparr>\<rparr>,
      sl_queue := sl_queue l @ [RouteChanged h]\<rparr>)"
| requested: "sl_phase l \<noteq> Stopped \<Longrightarrow> length (sl_queue l) < channel_capacity \<Longrightarrow>
    sync_step env cfg l (l\<lparr>sl_queue := sl_queue l @ [m]\<rparr>)"

inductive sync_reachable :: "gateway_env \<Rightarrow> sync_config \<Rightarrow> sync_loop \<Rightarrow> sync_loop \<Rightarrow> bool" for env cfg l0 where
  here: "sync_reachable env cfg l0 l0"
| onwards: "sync_reachable env cfg l0 l \<Longrightarrow> sync_step env cfg l l' \<Longrightarrow> sync_reachable env cfg l0 l'"

section \<open>When the loop rests, Caddy is current\<close>

text \<open>The handlers only add notifications, and change no route without one.\<close>

interpretation told: gateway_invariant
  "\<lambda>db. \<exists>hs. g_notified db = ns @ hs \<and> (hs = [] \<longrightarrow> g_routes db = rs)" env for ns rs env
  by unfold_locales
    (auto simp: insert_custom_domain_def verify_custom_domain_def set_domain_def upsert_route_def Let_def)

lemma handlers_leave_caddy:
  "gw_caddy (perform_gateway env c w) = gw_caddy w \<and> gw_now w \<le> gw_now (perform_gateway env c w)"
proof (cases c)
  case (AskCall d)
  then show ?thesis by (cases rule: gsql_cases [of env "is_domain_verified d" w])
    (auto simp: ask_handler_def bind_def attempt_def split: result.splits)
next
  case (CreateDomain h p t)
  then show ?thesis
    by (auto simp: create_domain_handler_def generate_verification_token_def bind_def attempt_def gsql_def split: result.splits prod.splits)
next
  case (VerifyDomain h)
  then show ?thesis
    by (auto simp: verify_domain_handler_def verify_dns_txt_def bind_def attempt_def gsql_def ignore_error_def split: prod.split option.split result.split bool.split)
qed simp

text \<open>A change that the loop has not taken notice of is on its way to it.\<close>

definition underway :: "sync_loop \<Rightarrow> bool" where
  "underway l \<longleftrightarrow> g_notified (gw_db (sl_world l)) \<noteq> [] \<or> (\<exists>m \<in> set (sl_queue l). m \<noteq> Shutdown)"

definition current_table :: "sync_loop \<Rightarrow> routing_table" where
  "current_table l = from_routes (loaded (gw_db (sl_world l)))"

definition caddy_current :: "gateway_env \<Rightarrow> sync_loop \<Rightarrow> bool" where
  "caddy_current env l \<longleftrightarrow>
     gw_caddy (sl_world l) = Some (build_config (gx_caddy env) (gx_shuffle env) (current_table l))"

definition sync_ok :: "gateway_env \<Rightarrow> sync_config \<Rightarrow> sync_loop \<Rightarrow> bool" where
  "sync_ok env cfg l \<longleftrightarrow>
     (case sl_phase l of
        Starting \<Rightarrow> True
      | Stopped \<Rightarrow> True
      | Applying first t \<Rightarrow> (underway l \<or> t = current_table l) \<and> (first \<or> sl_pending l \<and> sl_last_change l \<le> loop_now l)
      | Waiting \<Rightarrow> (sl_pending l \<or> underway l \<or> caddy_current env l) \<and> sl_last_change l \<le> loop_now l \<and>
          (sl_pending l \<longrightarrow> sl_last_change l + int (sy_debounce_interval cfg) \<le> sl_deadline l))"

lemma rollback_world:
  "gw_db (snd (rollback_attempts env c n w)) = gw_db w \<and> gw_now w \<le> gw_now (snd (rollback_attempts env c n w))"
proof (induction n arbitrary: w)
  case (Suc n)
  show ?case
  proof (cases "gx_reply env (gw_effects w)")
    case Refused
    then show ?thesis using Suc [of "w\<lparr>gw_effects := Suc (gw_effects w), gw_now := gw_now w + 500000\<rparr>"]
      by (auto simp: bind_def attempt_def load_config_def)
  next
    case LostReply
    then show ?thesis using Suc [of "w\<lparr>gw_effects := Suc (gw_effects w), gw_caddy := Some c, gw_now := gw_now w + 500000\<rparr>"]
      by (auto simp: bind_def attempt_def load_config_def)
  qed (simp add: bind_def attempt_def load_config_def)
qed simp

lemma apply_world:
  "gw_db (snd (apply_table env t w)) = gw_db w \<and> gw_now w \<le> gw_now (snd (apply_table env t w))"
  "apply_table env t w = (Ok u, w') \<Longrightarrow> gw_caddy w' = Some (build_config (gx_caddy env) (gx_shuffle env) t)"
proof -
  have r: "gw_db (snd (rollback env w)) = gw_db w \<and> gw_now w \<le> gw_now (snd (rollback env w))" for w
    using rollback_world by (simp add: rollback_def split: option.split)
  have later: "gw_now w0 = gw_now w \<Longrightarrow> gw_now w \<le> gw_now (snd (rollback env w0))" for w w0 :: gateway_world
    using r [of w0] by simp
  have b: "snd (bind m (\<lambda>_. lift (Err e)) w) = snd (m w)" for m :: "unit gateway_act" and e :: gateway_error and w
    by (simp add: bind_def split: prod.split result.split)
  show "gw_db (snd (apply_table env t w)) = gw_db w \<and> gw_now w \<le> gw_now (snd (apply_table env t w))"
    using r by (cases "gx_reply env (gw_effects w)")
      (auto simp: apply_table_def Let_def attempt_def load_config_def bind_def [of "attempt _"] b intro: later)
  show "apply_table env t w = (Ok u, w') \<Longrightarrow> gw_caddy w' = Some (build_config (gx_caddy env) (gx_shuffle env) t)"
    by (cases "gx_reply env (gw_effects w)")
      (auto simp: apply_table_def Let_def attempt_def load_config_def bind_def [of "attempt _"] bind_Ok)
qed

lemma loop_head_simps [simp]:
  "sl_world (loop_head cfg l) = sl_world l" "sl_phase (loop_head cfg l) = Waiting" "sl_queue (loop_head cfg l) = sl_queue l"
  "sl_pending (loop_head cfg l) = sl_pending l" "sl_last_change (loop_head cfg l) = sl_last_change l"
  by (simp_all add: loop_head_def)

lemma underway_same: "g_notified (gw_db (sl_world l')) = g_notified (gw_db (sl_world l)) \<Longrightarrow> sl_queue l' = sl_queue l \<Longrightarrow>
    underway l' = underway l"
  by (simp add: underway_def)

text \<open>At the head of the loop.\<close>

lemma head_ok:
  assumes "sl_pending l \<or> underway l \<or> caddy_current env l" "sl_last_change l \<le> loop_now l"
  shows "sync_ok env cfg (loop_head cfg l)"
proof -
  have "underway (loop_head cfg l) = underway l" "caddy_current env (loop_head cfg l) = caddy_current env l"
    by (simp_all add: underway_def caddy_current_def current_table_def)
  then show ?thesis using assms by (auto simp: sync_ok_def loop_now_def) (simp_all add: loop_head_def loop_now_def)
qed

lemma load_ok:
  assumes "first \<or> sl_pending l \<and> sl_last_change l \<le> loop_now l"
  shows "sync_ok env cfg (sync_load env cfg first l)"
proof -
  consider e where "gsql env load_routes (sl_world l) = (Err e, (sl_world l)\<lparr>gw_effects := Suc (gw_effects (sl_world l))\<rparr>)"
    | "gsql env load_routes (sl_world l) = (Ok (loaded (gw_db (sl_world l))), (sl_world l)\<lparr>gw_effects := Suc (gw_effects (sl_world l))\<rparr>)"
    by (cases rule: gsql_cases [of env load_routes "sl_world l"]) (auto simp: load_routes_def)
  then show ?thesis
  proof cases
    case 1
    then show ?thesis using assms
      by (cases first) (auto simp: sync_load_def sync_ok_def [of _ _ "_\<lparr>sl_phase := _\<rparr>"] loop_now_def intro!: head_ok)
  next
    case 2
    then show ?thesis using assms by (auto simp: sync_load_def sync_ok_def current_table_def loop_now_def)
  qed
qed

lemma apply_ok:
  assumes "sync_ok env cfg l" and "sl_phase l = Applying first t"
  shows "sync_ok env cfg (sync_apply env cfg first t l)"
proof -
  have u: "underway l \<or> t = current_table l" and f: "first \<or> sl_pending l \<and> sl_last_change l \<le> loop_now l"
    using assms by (simp_all add: sync_ok_def)
  obtain r w where a: "apply_table env t (sl_world l) = (r, w)" by (cases "apply_table env t (sl_world l)")
  have w: "gw_db w = gw_db (sl_world l)" "gw_now (sl_world l) \<le> gw_now w"
    using apply_world(1) [of env t "sl_world l"] unfolding a by simp_all
  show ?thesis
  proof (cases "\<exists>u. r = Ok u")
    case True
    then have c: "gw_caddy w = Some (build_config (gx_caddy env) (gx_shuffle env) t)" using apply_world(2) a by blast
    show ?thesis using True u f w c
      by (auto simp: sync_apply_def a underway_def caddy_current_def current_table_def loop_now_def intro!: head_ok)
  next
    case False
    then have "sync_apply env cfg first t l =
        (if first then l\<lparr>sl_world := w, sl_phase := Stopped\<rparr> else loop_head cfg (l\<lparr>sl_world := w\<rparr>))"
      by (simp add: sync_apply_def a split: result.split)
    then show ?thesis using f w by (auto simp: sync_ok_def [of _ _ "_\<lparr>sl_phase := _\<rparr>"] loop_now_def intro!: head_ok)
  qed
qed

text \<open>Steps of others beside the loop: they may change routes only with a notification.\<close>

lemma others_ok:
  assumes "sync_ok env cfg l" and "sl_phase l' = sl_phase l" "sl_pending l' = sl_pending l" "sl_last_change l' = sl_last_change l"
      "sl_deadline l' = sl_deadline l" "gw_caddy (sl_world l') = gw_caddy (sl_world l)" "loop_now l \<le> loop_now l'"
    and "underway l \<Longrightarrow> underway l'" and "underway l' \<or> g_routes (gw_db (sl_world l')) = g_routes (gw_db (sl_world l))"
  shows "sync_ok env cfg l'"
proof -
  have "underway l' \<or> current_table l' = current_table l" using assms(9) by (auto simp: current_table_def loaded_def)
  then have "underway l' \<or> caddy_current env l' = caddy_current env l" using assms(6) by (auto simp: caddy_current_def)
  then show ?thesis
    using assms(1-8) \<open>underway l' \<or> current_table l' = current_table l\<close>
    by (auto simp: sync_ok_def split: sync_phase.splits)
qed

lemma called_ok: "sync_ok env cfg l \<Longrightarrow> sync_ok env cfg (l\<lparr>sl_world := perform_gateway env c (sl_world l)\<rparr>)"
proof (rule others_ok)
  obtain hs where hs: "g_notified (gw_db (perform_gateway env c (sl_world l))) = g_notified (gw_db (sl_world l)) @ hs"
    "hs = [] \<longrightarrow> g_routes (gw_db (perform_gateway env c (sl_world l))) = g_routes (gw_db (sl_world l))"
    using told.I_calls [where ns = "g_notified (gw_db (sl_world l))" and rs = "g_routes (gw_db (sl_world l))"
        and w = "sl_world l" and env = env and calls = "[c]"]
    by (auto simp: perform_all_gateway_def)
  then show "underway l \<Longrightarrow> underway (l\<lparr>sl_world := perform_gateway env c (sl_world l)\<rparr>)"
    "underway (l\<lparr>sl_world := perform_gateway env c (sl_world l)\<rparr>) \<or>
      g_routes (gw_db (sl_world (l\<lparr>sl_world := perform_gateway env c (sl_world l)\<rparr>))) = g_routes (gw_db (sl_world l))"
    by (auto simp: underway_def)
qed (use handlers_leave_caddy [of env c "sl_world l"] in \<open>simp_all add: loop_now_def\<close>)

lemma received_ok:
  assumes "sync_ok env cfg l" "sl_phase l = Waiting" "sl_queue l = m # q"
  shows "sync_ok env cfg (loop_receive cfg m (l\<lparr>sl_queue := q\<rparr>))"
proof (cases "m = Shutdown")
  case False
  then have "loop_receive cfg m (l\<lparr>sl_queue := q\<rparr>) =
      loop_head cfg (l\<lparr>sl_queue := q, sl_pending := True, sl_last_change := loop_now l\<rparr>)"
    by (cases m) (simp_all add: loop_receive_def loop_now_def)
  then show ?thesis by (simp add: head_ok loop_now_def)
qed (simp add: loop_receive_def sync_ok_def)

lemma step_ok: "sync_step env cfg l l' \<Longrightarrow> sync_ok env cfg l \<Longrightarrow> sync_ok env cfg l'"
proof (induction rule: sync_step.induct)
  case (start l)
  then show ?case by (intro load_ok) simp
next
  case (applied l first t)
  then show ?case by (intro apply_ok)
next
  case (received l m q)
  then show ?case by (intro received_ok)
next
  case (ticked l)
  then have "sl_pending l \<or> underway l \<or> caddy_current env l" "sl_last_change l \<le> loop_now l" by (simp_all add: sync_ok_def)
  then show ?case by (auto simp: loop_tick_def should_sync_def intro!: load_ok head_ok)
next
  case (called l c)
  then show ?case by (rule called_ok)
next
  case (changed l rs h)
  then show ?case by (rule others_ok) (simp_all add: loop_now_def underway_def)
next
  case (forwarded l h hs)
  then show ?case by (intro others_ok [OF forwarded.prems]) (auto simp: loop_now_def underway_def)
next
  case (requested l m)
  then show ?case by (intro others_ok [OF requested.prems]) (auto simp: loop_now_def underway_def)
qed

lemma reachable_ok: "sync_reachable env cfg l0 l \<Longrightarrow> sl_phase l0 = Starting \<Longrightarrow> sync_ok env cfg l"
proof (induction rule: sync_reachable.induct)
  case here
  then show ?case by (simp add: sync_ok_def)
next
  case (onwards l l')
  then show ?case using step_ok by blast
qed

text \<open>
  C26. A gateway at rest routes by its tables. In every execution, whatever handlers run and other writers change, whatever
  statements fail and whatever Caddy answers: when the loop waits with nothing pending and no notification or message is
  on its way, the configuration Caddy runs is the one built from the routes now stored. And when changes are pending,
  then as soon as the timer fires and a load and an apply succeed, it is so, unless further changes came. This supposes
  that the listening connection loses no notification, that nobody else restarts or configures Caddy, and that the
  routing table iterates in one order for equal contents.
\<close>

theorem resting_gateway_is_current:
  assumes "sync_reachable env cfg l0 l" and "sl_phase l0 = Starting" and "sl_phase l = Waiting"
    and "sl_queue l = []" and "g_notified (gw_db (sl_world l)) = []"
  shows "(\<not> sl_pending l \<longrightarrow> caddy_current env l) \<and>
    (sl_pending l \<longrightarrow> sl_deadline l \<le> loop_now l \<longrightarrow> \<not> gx_fails env (gw_effects (sl_world l)) \<longrightarrow>
      gx_reply env (Suc (gw_effects (sl_world l))) = Loaded \<longrightarrow>
      (\<exists>l' l''. sync_step env cfg l l' \<and> sync_step env cfg l' l'' \<and> sl_phase l'' = Waiting \<and> \<not> sl_pending l'' \<and>
         caddy_current env l'' \<and> g_routes (gw_db (sl_world l'')) = g_routes (gw_db (sl_world l))))"
proof (intro conjI impI)
  have ok: "sync_ok env cfg l" by (rule reachable_ok [OF assms(1,2)])
  have idle: "\<not> underway l" using assms(4,5) by (simp add: underway_def)
  show "\<not> sl_pending l \<Longrightarrow> caddy_current env l" using ok idle assms(3) by (simp add: sync_ok_def)
  assume p: "sl_pending l" "sl_deadline l \<le> loop_now l" and good: "\<not> gx_fails env (gw_effects (sl_world l))"
    "gx_reply env (Suc (gw_effects (sl_world l))) = Loaded"
  have "should_sync cfg l" using ok assms(3) p by (simp add: sync_ok_def should_sync_def)
  then have tick: "loop_tick env cfg l = l\<lparr>sl_world := (sl_world l)\<lparr>gw_effects := Suc (gw_effects (sl_world l))\<rparr>,
      sl_phase := Applying False (current_table l)\<rparr>"
    using good by (simp add: loop_tick_def sync_load_def gsql_def load_routes_def current_table_def)
  let ?l = "loop_tick env cfg l"
  have "sync_step env cfg ?l (sync_apply env cfg False (current_table l) ?l)"
    by (rule applied) (simp add: tick)
  moreover have "sl_phase (sync_apply env cfg False (current_table l) ?l) = Waiting \<and>
      \<not> sl_pending (sync_apply env cfg False (current_table l) ?l) \<and>
      caddy_current env (sync_apply env cfg False (current_table l) ?l) \<and>
      g_routes (gw_db (sl_world (sync_apply env cfg False (current_table l) ?l))) = g_routes (gw_db (sl_world l))"
    using good by (simp add: tick sync_apply_def apply_table_def Let_def bind_def attempt_def load_config_def caddy_current_def
      current_table_def loaded_def)
  ultimately show "\<exists>l' l''. sync_step env cfg l l' \<and> sync_step env cfg l' l'' \<and> sl_phase l'' = Waiting \<and> \<not> sl_pending l'' \<and>
         caddy_current env l'' \<and> g_routes (gw_db (sl_world l'')) = g_routes (gw_db (sl_world l))"
    using ticked [OF assms(3) p(2)] by blast
qed

theorem resting_gateway_is_current_witness:
  "let env = sample_gateway_env 100;
       l0 = \<lparr>sl_world = perform_all_gateway env [CreateDomain ''a.x'' ''p'' '''', VerifyDomain ''a.x''] sample_gateway_world,
         sl_phase = Starting, sl_queue = [], sl_pending = False, sl_last_change = 0, sl_last_sync = 0, sl_deadline = 0\<rparr>;
       l1 = sync_load env default_sync_config True l0;
       l2 = sync_apply env default_sync_config True (current_table l0) l1;
       l3 = l2\<lparr>sl_world := (sl_world l2)\<lparr>gw_db := (gw_db (sl_world l2))\<lparr>g_notified := []\<rparr>\<rparr>, sl_queue := [RouteChanged ''a.x'']\<rparr>;
       l4 = loop_receive default_sync_config (RouteChanged ''a.x'') (l3\<lparr>sl_queue := []\<rparr>);
       l5 = l4\<lparr>sl_world := perform_gateway env (Later 100000) (sl_world l4)\<rparr> in
   sync_reachable env default_sync_config l0 l5 \<and> sl_pending l5 \<and>
   (\<exists>l' l''. sync_step env default_sync_config l5 l' \<and> sync_step env default_sync_config l' l'' \<and> caddy_current env l'') \<and>
   map rr_host (g_routes (gw_db (sl_world l5))) = [''a.x'']"
proof -
  let ?env = "sample_gateway_env 100" and ?cfg = default_sync_config
  define w where "w = perform_all_gateway ?env [CreateDomain ''a.x'' ''p'' '''', VerifyDomain ''a.x''] sample_gateway_world"
  define l0 where "l0 = \<lparr>sl_world = w,
         sl_phase = Starting, sl_queue = [], sl_pending = False, sl_last_change = 0, sl_last_sync = 0, sl_deadline = 0\<rparr>"
  define l1 where "l1 = sync_load ?env ?cfg True l0"
  define l2 where "l2 = sync_apply ?env ?cfg True (current_table l0) l1"
  define l3 where "l3 = l2\<lparr>sl_world := (sl_world l2)\<lparr>gw_db := (gw_db (sl_world l2))\<lparr>g_notified := []\<rparr>\<rparr>, sl_queue := [RouteChanged ''a.x'']\<rparr>"
  define l4 where "l4 = loop_receive ?cfg (RouteChanged ''a.x'') (l3\<lparr>sl_queue := []\<rparr>)"
  define l5 where "l5 = l4\<lparr>sl_world := perform_gateway ?env (Later 100000) (sl_world l4)\<rparr>"
  have w: "g_notified (gw_db w) = [''a.x'']" "gw_effects w = 6" "gw_now w = 0" "map rr_host (g_routes (gw_db w)) = [''a.x'']"
    unfolding w_def by code_simp+
  have env: "\<not> gx_fails ?env 6" "\<not> gx_fails ?env 8" "gx_reply ?env n = Loaded" for n by (simp_all add: sample_gateway_env_def)
  have l1: "l1 = l0\<lparr>sl_world := w\<lparr>gw_effects := 7\<rparr>, sl_phase := Applying True (current_table l0)\<rparr>"
    using w env by (simp add: l1_def sync_load_def gsql_def l0_def load_routes_def current_table_def)
  obtain w2 where w2: "apply_table ?env (current_table l0) (sl_world l1) = (Ok (), w2)" "gw_db w2 = gw_db w" "gw_now w2 = 0" "gw_effects w2 = 8"
    using env w by (simp add: l1 apply_table_def Let_def bind_def attempt_def load_config_def)
  have l2: "l2 = l1\<lparr>sl_world := w2, sl_phase := Waiting, sl_pending := False, sl_deadline := 30000000\<rparr>"
    using w2 by (simp add: l2_def sync_apply_def loop_head_def loop_now_def default_sync_config_def l1 l0_def)
  have r: "sync_reachable ?env ?cfg l0 l5"
  proof (intro onwards [OF onwards [OF onwards [OF onwards [OF onwards [OF here]]]]])
    show "sync_step ?env ?cfg l0 l1" unfolding l1_def by (rule start) (simp add: l0_def)
    show "sync_step ?env ?cfg l1 l2" unfolding l2_def by (rule applied) (simp add: l1)
    have f: "sl_phase l2 \<noteq> Stopped" "g_notified (gw_db (sl_world l2)) = [''a.x'']" "sl_queue l2 = []"
      using w w2 by (simp_all add: l2 l1 l0_def)
    show "sync_step ?env ?cfg l2 l3"
      using forwarded [OF f(1,2), of ?env ?cfg] f(3) unfolding l3_def by (simp add: channel_capacity_def)
    show "sync_step ?env ?cfg l3 l4" unfolding l4_def by (rule received) (simp_all add: l3_def l2)
    show "sync_step ?env ?cfg l4 l5" unfolding l5_def by (rule called)
  qed
  have l5: "sl_phase l5 = Waiting" "sl_queue l5 = []" "g_notified (gw_db (sl_world l5)) = []" "sl_pending l5" "gw_effects (sl_world l5) = 8"
      "sl_deadline l5 \<le> loop_now l5" "g_routes (gw_db (sl_world l5)) = g_routes (gw_db w)"
    using w2 by (simp_all add: l5_def l4_def l3_def l2 loop_receive_def loop_head_def loop_now_def default_sync_config_def)
  have "\<exists>l' l''. sync_step ?env ?cfg l5 l' \<and> sync_step ?env ?cfg l' l'' \<and> caddy_current ?env l''"
    using resting_gateway_is_current [OF r _ l5(1,2,3)] l5(4,5,6) env by (auto simp: l0_def)
  then show ?thesis using r l5(4,7) w(4)
    unfolding Let_def w_def [symmetric] l0_def [symmetric] l1_def [symmetric] l2_def [symmetric] l3_def [symmetric] l4_def [symmetric] l5_def [symmetric]
    by simp
qed

section \<open>Messages that keep the timer from firing\<close>

text \<open>After \<open>d\<close> microseconds a change of route is heard.\<close>

definition hear :: "sync_config \<Rightarrow> nat \<Rightarrow> sync_loop \<Rightarrow> sync_loop" where
  "hear cfg d l = loop_receive cfg (RouteChanged '''') (l\<lparr>sl_world := (sl_world l)\<lparr>gw_now := loop_now l + int d\<rparr>\<rparr>)"

lemma hear_simps [simp]:
  "sl_phase (hear cfg d l) = Waiting" "sl_queue (hear cfg d l) = sl_queue l" "sl_pending (hear cfg d l)"
  "sl_world (hear cfg d l) = (sl_world l)\<lparr>gw_now := loop_now l + int d\<rparr>"
  "sl_deadline (hear cfg d l) = loop_now (hear cfg d l) + int (sy_debounce_interval cfg)"
  by (simp_all add: hear_def loop_receive_def loop_head_def loop_now_def)

lemma hear_reachable:
  assumes "sl_phase l = Waiting" "sl_queue l = []" "sync_reachable env cfg l0 l"
  shows "sync_reachable env cfg l0 (hear cfg d l)"
proof (intro onwards [OF onwards [OF onwards [OF assms(3)]]])
  let ?l1 = "l\<lparr>sl_world := perform_gateway env (Later d) (sl_world l)\<rparr>" and ?l2 = "l\<lparr>sl_world := perform_gateway env (Later d) (sl_world l), sl_queue := [RouteChanged '''']\<rparr>"
  show "sync_step env cfg l ?l1" by (rule called)
  show "sync_step env cfg ?l1 ?l2" using requested [of ?l1 env cfg "RouteChanged ''''"] assms by (simp add: channel_capacity_def)
  show "sync_step env cfg ?l2 (hear cfg d l)"
    using received [of ?l2 "RouteChanged ''''" "[]" env cfg] assms by (cases l) (simp add: hear_def loop_now_def)
qed

text \<open>
  Steady changes keep routes from Caddy for good. If the loop waits and messages come with less than the debounce interval
  between any two, then however many come and however long it takes, ten times the maximal debounce wait or more, the timer never
  fires: the changes stay pending, nothing is loaded and the configuration of Caddy is the old one. The maximal wait is compared
  only when the timer fires, which every message sets back.
\<close>

theorem messages_starve_sync:
  assumes "sl_phase l = Waiting" and "sl_queue l = []" and "\<forall>d \<in> set ds. d < sy_debounce_interval cfg" and "ds \<noteq> []"
  shows "let l' = fold (hear cfg) ds l in
    sync_reachable env cfg l l' \<and> loop_now l' = loop_now l + int (sum_list ds) \<and> sl_pending l' \<and>
    gw_effects (sl_world l') = gw_effects (sl_world l) \<and> gw_caddy (sl_world l') = gw_caddy (sl_world l) \<and>
    (\<forall>d < sy_debounce_interval cfg. loop_now l' + int d < sl_deadline l')"
  using assms(4,3)
proof (induction ds rule: rev_induct)
  case (snoc d ds)
  let ?l = "fold (hear cfg) ds l"
  have ?case if "sl_phase ?l = Waiting" "sl_queue ?l = []" "sync_reachable env cfg l ?l" "loop_now ?l = loop_now l + int (sum_list ds)"
    "gw_effects (sl_world ?l) = gw_effects (sl_world l)" "gw_caddy (sl_world ?l) = gw_caddy (sl_world l)"
    using hear_reachable [OF that(1-3), of d] that(4-6) by (simp add: loop_now_def)
  moreover have "sl_queue (fold (hear cfg) ds l) = [] \<and> sl_phase (fold (hear cfg) ds l) = Waiting" using assms(1,2)
    by (induction ds rule: rev_induct) simp_all
  ultimately show ?case
    using snoc by (cases "ds = []") (auto simp: Let_def intro: here)
qed simp

theorem messages_starve_sync_witness:
  "let l = \<lparr>sl_world = sample_gateway_world, sl_phase = Waiting, sl_queue = [], sl_pending = True, sl_last_change = 0,
       sl_last_sync = 0, sl_deadline = 100000\<rparr>; l' = fold (hear default_sync_config) (replicate 200 99999) l in
   sl_pending l' \<and> loop_now l' = 19999800 \<and> gw_effects (sl_world l') = 0 \<and>
   int (sy_max_debounce_wait default_sync_config) < loop_now l' - sl_last_sync l"
proof -
  let ?l = "\<lparr>sl_world = sample_gateway_world, sl_phase = Waiting, sl_queue = [], sl_pending = True, sl_last_change = 0,
       sl_last_sync = 0, sl_deadline = 100000\<rparr>"
  have "\<forall>d \<in> set (replicate 200 99999). d < sy_debounce_interval default_sync_config"
    by (simp add: default_sync_config_def)
  note messages_starve_sync [of ?l, OF _ _ this, of undefined]
  then show ?thesis unfolding Let_def
    by (simp add: sum_list_replicate loop_now_def sample_gateway_world_def default_sync_config_def)
qed

end
