(* ===== verification/Sites_Store.thy ===== *)
theory Sites_Store
  imports Computation Core_Auth F64 "HOL-Library.List_Lexorder" "HOL-Library.Char_ord"
begin

text \<open>
  The tables of the sites service (\<open>crates/reactor-sites/src/store/\<close>): sites, deployments with their routes and
  functions, custom domains, policies, rendered pages and audit events as lists of rows, with the keys and the
  references of its migration, and the errors of the service (\<open>error.rs\<close>). A statement takes the instant of the
  database and the tables. A site name is of type \<open>citext\<close>: \<open>ci\<close> folds its case. A version is a \<open>bigint\<close>, whose
  overflow is an error of the database.
\<close>

section \<open>Errors (error.rs)\<close>

datatype sites_error =
    SiteNotFound string | DeploymentNotFound string | DeploymentNotReady string | InvalidSiteName string
  | InvalidFramework string | SiteAlreadyExists string | DomainTaken string | DomainUnverified string
  | DomainVerificationFailed string | ManifestInvalid string | FunctionDispatchFailed
  | SiOrgRequired | SiPermissionDenied string | SiAuthRequired | SiInvalidToken | SiDatabase | SiInternal string
  | StaticUploadFailed | SiStorage

fun sites_code :: "sites_error \<Rightarrow> string" where
  "sites_code (SiteNotFound m) = ''site_not_found''"
| "sites_code (DeploymentNotFound m) = ''deployment_not_found''"
| "sites_code (DeploymentNotReady m) = ''deployment_not_ready''"
| "sites_code (InvalidSiteName m) = ''invalid_site_name''"
| "sites_code (InvalidFramework m) = ''invalid_framework''"
| "sites_code (SiteAlreadyExists m) = ''site_already_exists''"
| "sites_code (DomainTaken m) = ''domain_taken''"
| "sites_code (DomainUnverified m) = ''domain_unverified''"
| "sites_code (DomainVerificationFailed m) = ''domain_verification_failed''"
| "sites_code (ManifestInvalid m) = ''manifest_invalid''"
| "sites_code FunctionDispatchFailed = ''function_dispatch_failed''"
| "sites_code SiOrgRequired = ''org_required''"
| "sites_code (SiPermissionDenied m) = ''permission_denied''"
| "sites_code SiAuthRequired = ''auth_required''"
| "sites_code SiInvalidToken = ''invalid_token''"
| "sites_code SiDatabase = ''database_error''"
| "sites_code (SiInternal m) = ''internal_error''"
| "sites_code StaticUploadFailed = ''static_upload_failed''"
| "sites_code SiStorage = ''storage_error''"

fun sites_status :: "sites_error \<Rightarrow> nat" where
  "sites_status (SiteNotFound m) = 404"
| "sites_status (DeploymentNotFound m) = 404"
| "sites_status (DeploymentNotReady m) = 503"
| "sites_status (InvalidSiteName m) = 400"
| "sites_status (InvalidFramework m) = 400"
| "sites_status (SiteAlreadyExists m) = 409"
| "sites_status (DomainTaken m) = 409"
| "sites_status (DomainUnverified m) = 412"
| "sites_status (DomainVerificationFailed m) = 412"
| "sites_status (ManifestInvalid m) = 400"
| "sites_status FunctionDispatchFailed = 502"
| "sites_status SiOrgRequired = 400"
| "sites_status (SiPermissionDenied m) = 403"
| "sites_status SiAuthRequired = 401"
| "sites_status SiInvalidToken = 401"
| "sites_status SiDatabase = 500"
| "sites_status (SiInternal m) = 500"
| "sites_status StaticUploadFailed = 500"
| "sites_status SiStorage = 500"

section \<open>Frameworks and states (lib.rs, store/mod.rs)\<close>

datatype framework = FwStatic | FwAstro | FwHono | FwNextjs

fun show_framework :: "framework \<Rightarrow> string" where
  "show_framework FwStatic = ''static''"
| "show_framework FwAstro = ''astro''"
| "show_framework FwHono = ''hono''"
| "show_framework FwNextjs = ''nextjs''"

definition parse_framework :: "string \<Rightarrow> (framework, sites_error) result" where
  "parse_framework s =
     (let l = to_lowercase s in
      if l = ''static'' then Ok FwStatic else if l = ''astro'' then Ok FwAstro
      else if l = ''hono'' then Ok FwHono else if l = ''nextjs'' then Ok FwNextjs
      else Err (InvalidFramework s))"

text \<open>\<open>^[a-z][a-z0-9-]{0,62}$\<close>, where \<open>$\<close> is the end of the text.\<close>

definition is_site_name :: "string \<Rightarrow> bool" where
  "is_site_name s \<longleftrightarrow> s \<noteq> [] \<and> is_ascii_lower (hd s) \<and> length s \<le> 63 \<and>
     list_all (\<lambda>c. is_ascii_lower c \<or> is_ascii_digit c \<or> c = CHR ''-'') (tl s)"

datatype deployment_status = DpPending | DpReady | DpFailed | DpDestroyed

fun show_deployment_status :: "deployment_status \<Rightarrow> string" where
  "show_deployment_status DpPending = ''pending''"
| "show_deployment_status DpReady = ''ready''"
| "show_deployment_status DpFailed = ''failed''"
| "show_deployment_status DpDestroyed = ''destroyed''"

datatype domain_status = DmPending | DmVerified | DmActive | DmFailed

fun show_domain_status :: "domain_status \<Rightarrow> string" where
  "show_domain_status DmPending = ''pending''"
| "show_domain_status DmVerified = ''verified''"
| "show_domain_status DmActive = ''active''"
| "show_domain_status DmFailed = ''failed''"

section \<open>Records (store/mod.rs)\<close>

record site =
  si_id :: uuid
  si_org_id :: uuid
  si_name :: string
  si_framework :: string
  si_current :: "uuid option"
  si_created_at :: instant
  si_updated_at :: instant

record site_deployment =
  dp_id :: uuid
  dp_site_id :: uuid
  dp_version :: int
  dp_manifest :: json
  dp_status :: string
  dp_status_detail :: "string option"
  dp_asset_count :: int
  dp_asset_bytes :: i64
  dp_deployed_at :: instant
  dp_deployed_by :: "uuid option"

record deployment_route =
  rw_id :: uuid
  rw_deployment_id :: uuid
  rw_pattern :: string
  rw_method_filter :: "string option"
  rw_kind :: string
  rw_target :: string
  rw_cache_rules :: json
  rw_priority :: "32 word"
  rw_created_at :: instant

record deployment_function =
  df_deployment_id :: uuid
  df_function_id :: uuid
  df_role :: string
  df_created_at :: instant

record site_domain =
  sd_id :: uuid
  sd_site_id :: uuid
  sd_host :: string
  sd_status :: string
  sd_verification_token :: string
  sd_verification_method :: string
  sd_tls_cert_ref :: "string option"
  sd_tls_expires_at :: "instant option"
  sd_verified_at :: "instant option"
  sd_created_at :: instant

record site_policy =
  yp_id :: uuid
  yp_site_id :: uuid
  yp_name :: string
  yp_using :: "json option"
  yp_raw_text :: string
  yp_sha256 :: string
  yp_created_at :: instant

record isr_entry =
  ie_site_id :: uuid
  ie_path :: string
  ie_deployment_id :: uuid
  ie_body_storage_key :: string
  ie_content_type :: "string option"
  ie_etag :: "string option"
  ie_tags :: json
  ie_revalidate_after :: "i64 option"
  ie_last_revalidated_at :: instant
  ie_created_at :: instant

record site_audit =
  sa_actor_user_id :: "uuid option"
  sa_actor_apikey_id :: "uuid option"
  sa_org_id :: uuid
  sa_site_id :: "uuid option"
  sa_deployment_id :: "uuid option"
  sa_domain_id :: "uuid option"
  sa_event_type :: string
  sa_details :: json
  sa_request_id :: string

record audit_row =
  yl_id :: uuid
  yl_ts :: instant
  yl_event :: site_audit

record sites_db =
  i_sites :: "site list"
  i_deployments :: "site_deployment list"
  i_routes :: "deployment_route list"
  i_functions :: "deployment_function list"
  i_domains :: "site_domain list"
  i_policies :: "site_policy list"
  i_isr :: "isr_entry list"
  i_audit :: "audit_row list"

type_synonym 'a sites_statement = "instant \<Rightarrow> sites_db \<Rightarrow> ('a, sites_error) result \<times> sites_db"

definition select_si :: "(sites_db \<Rightarrow> 'a) \<Rightarrow> 'a sites_statement" where
  "select_si f t db = (Ok (f db), db)"

section \<open>Sites\<close>

text \<open>\<open>now\<close> is the clock of the service.\<close>

definition create_site_row ::
  "(string \<Rightarrow> string) \<Rightarrow> instant \<Rightarrow> uuid \<Rightarrow> uuid \<Rightarrow> string \<Rightarrow> framework \<Rightarrow> site sites_statement" where
  "create_site_row ci now i org_id name fw t db =
     (let s = \<lparr>si_id = i, si_org_id = org_id, si_name = name, si_framework = show_framework fw, si_current = None,
               si_created_at = now, si_updated_at = now\<rparr> in
      if list_ex (\<lambda>r. si_id r = i \<or> (si_org_id r = org_id \<and> ci (si_name r) = ci name)) (i_sites db)
      then (Err SiDatabase, db)
      else (Ok s, db\<lparr>i_sites := i_sites db @ [s]\<rparr>))"

definition get_site_row :: "(string \<Rightarrow> string) \<Rightarrow> uuid \<Rightarrow> string \<Rightarrow> site option sites_statement" where
  "get_site_row ci org_id name =
     select_si (\<lambda>db. find (\<lambda>s. si_org_id s = org_id \<and> ci (si_name s) = ci name) (i_sites db))"

definition site_by_id :: "uuid \<Rightarrow> sites_db \<Rightarrow> site option" where
  "site_by_id i db = find (\<lambda>s. si_id s = i) (i_sites db)"

definition get_site_by_id :: "uuid \<Rightarrow> site option sites_statement" where
  "get_site_by_id i = select_si (site_by_id i)"

definition list_site_rows :: "(string \<Rightarrow> string) \<Rightarrow> uuid \<Rightarrow> site list sites_statement" where
  "list_site_rows ci org_id =
     select_si (\<lambda>db. sort_key (\<lambda>s. ci (si_name s)) (filter (\<lambda>s. si_org_id s = org_id) (i_sites db)))"

text \<open>
  Deleting deployments cascades to their routes, functions and rendered pages and clears the current deployment
  of a site; deleting a site cascades to its deployments, domains, policies and rendered pages.
\<close>

definition drop_deployments :: "(site_deployment \<Rightarrow> bool) \<Rightarrow> sites_db \<Rightarrow> sites_db" where
  "drop_deployments P db =
     (let gone = (\<lambda>i. list_ex (\<lambda>d. dp_id d = i \<and> P d) (i_deployments db)) in
      db\<lparr>i_sites := map (\<lambda>s. case si_current s of
             None \<Rightarrow> s | Some i \<Rightarrow> if gone i then s\<lparr>si_current := None\<rparr> else s) (i_sites db),
         i_deployments := filter (\<lambda>d. \<not> P d) (i_deployments db),
         i_routes := filter (\<lambda>r. \<not> gone (rw_deployment_id r)) (i_routes db),
         i_functions := filter (\<lambda>f. \<not> gone (df_deployment_id f)) (i_functions db),
         i_isr := filter (\<lambda>e. \<not> gone (ie_deployment_id e)) (i_isr db)\<rparr>)"

definition delete_site_row :: "uuid \<Rightarrow> unit sites_statement" where
  "delete_site_row i t db =
     (let db' = drop_deployments (\<lambda>d. dp_site_id d = i \<and> site_by_id i db \<noteq> None)
                  (db\<lparr>i_sites := filter (\<lambda>s. si_id s \<noteq> i) (i_sites db)\<rparr>) in
      (Ok (), db'\<lparr>i_domains := filter (\<lambda>d. sd_site_id d \<noteq> i) (i_domains db'),
                  i_policies := filter (\<lambda>p. yp_site_id p \<noteq> i) (i_policies db'),
                  i_isr := filter (\<lambda>e. ie_site_id e \<noteq> i) (i_isr db')\<rparr>))"

section \<open>Deployments\<close>

definition deployment_by_id :: "uuid \<Rightarrow> sites_db \<Rightarrow> site_deployment option" where
  "deployment_by_id i db = find (\<lambda>d. dp_id d = i) (i_deployments db)"

definition next_deployment_version :: "uuid \<Rightarrow> int sites_statement" where
  "next_deployment_version site_id t db =
     (let v = (case map dp_version (filter (\<lambda>d. dp_site_id d = site_id) (i_deployments db)) of
                 [] \<Rightarrow> 0 | x # xs \<Rightarrow> fold max xs x) + 1 in
      (if v < 2 ^ 63 then Ok v else Err SiDatabase, db))"

definition insert_deployment :: "uuid \<Rightarrow> uuid \<Rightarrow> int \<Rightarrow> json \<Rightarrow> uuid option \<Rightarrow> site_deployment sites_statement" where
  "insert_deployment i site_id version manifest deployed_by t db =
     (let d = \<lparr>dp_id = i, dp_site_id = site_id, dp_version = version, dp_manifest = manifest, dp_status = ''pending'',
               dp_status_detail = None, dp_asset_count = 0, dp_asset_bytes = 0, dp_deployed_at = t,
               dp_deployed_by = deployed_by\<rparr> in
      if list_ex (\<lambda>r. dp_id r = i \<or> (dp_site_id r = site_id \<and> dp_version r = version)) (i_deployments db)
         \<or> site_by_id site_id db = None
      then (Err SiDatabase, db)
      else (Ok d, db\<lparr>i_deployments := i_deployments db @ [d]\<rparr>))"

definition get_deployment_row :: "uuid \<Rightarrow> site_deployment option sites_statement" where
  "get_deployment_row i = select_si (deployment_by_id i)"

text \<open>The row of a deployment that is promoted becomes the current one of the site it belongs to.\<close>

definition promote_row :: "uuid \<Rightarrow> unit sites_statement" where
  "promote_row i t db =
     (Ok (), case deployment_by_id i db of
        None \<Rightarrow> db
      | Some d \<Rightarrow> db\<lparr>i_sites := update_rows (\<lambda>s. si_id s = dp_site_id d)
          (\<lambda>s. s\<lparr>si_current := Some i, si_updated_at := t\<rparr>) (i_sites db)\<rparr>)"

definition list_deployment_rows :: "uuid \<Rightarrow> nat \<Rightarrow> site_deployment list sites_statement" where
  "list_deployment_rows site_id limit = select_si (\<lambda>db.
     take limit (order_desc dp_deployed_at (filter (\<lambda>d. dp_site_id d = site_id) (i_deployments db))))"

definition update_deployment_status :: "uuid \<Rightarrow> deployment_status \<Rightarrow> string option \<Rightarrow> unit sites_statement" where
  "update_deployment_status i status detail t db =
     (Ok (), db\<lparr>i_deployments := update_rows (\<lambda>d. dp_id d = i)
        (\<lambda>d. d\<lparr>dp_status := show_deployment_status status, dp_status_detail := detail\<rparr>) (i_deployments db)\<rparr>)"

definition update_deployment_assets :: "uuid \<Rightarrow> int \<Rightarrow> i64 \<Rightarrow> unit sites_statement" where
  "update_deployment_assets i count bytes t db =
     (Ok (), db\<lparr>i_deployments := update_rows (\<lambda>d. dp_id d = i)
        (\<lambda>d. d\<lparr>dp_asset_count := count, dp_asset_bytes := bytes\<rparr>) (i_deployments db)\<rparr>)"

text \<open>One transaction; a row that offends a key ends it without effect.\<close>

definition set_deployment_routes :: "uuid \<Rightarrow> deployment_route list \<Rightarrow> unit sites_statement" where
  "set_deployment_routes i routes t db =
     (let kept = filter (\<lambda>r. rw_deployment_id r \<noteq> i) (i_routes db);
          rows = map (\<lambda>r. r\<lparr>rw_deployment_id := i, rw_created_at := t\<rparr>) routes in
      if distinct (map rw_id rows) \<and> (\<forall>r \<in> set rows. rw_id r \<notin> rw_id ` set kept)
         \<and> (rows = [] \<or> deployment_by_id i db \<noteq> None)
      then (Ok (), db\<lparr>i_routes := kept @ rows\<rparr>) else (Err SiDatabase, db))"

definition get_deployment_routes :: "uuid \<Rightarrow> deployment_route list sites_statement" where
  "get_deployment_routes i = select_si (\<lambda>db.
     order_desc (\<lambda>r. sint (rw_priority r)) (filter (\<lambda>r. rw_deployment_id r = i) (i_routes db)))"

definition get_deployment_functions :: "uuid \<Rightarrow> deployment_function list sites_statement" where
  "get_deployment_functions i = select_si (\<lambda>db. filter (\<lambda>f. df_deployment_id f = i) (i_functions db))"

section \<open>Domains\<close>

definition create_domain_row :: "uuid \<Rightarrow> string \<Rightarrow> uuid \<Rightarrow> string \<Rightarrow> string \<Rightarrow> site_domain sites_statement" where
  "create_domain_row i token site_id host method t db =
     (let d = \<lparr>sd_id = i, sd_site_id = site_id, sd_host = host, sd_status = ''pending'', sd_verification_token = token,
               sd_verification_method = method, sd_tls_cert_ref = None, sd_tls_expires_at = None,
               sd_verified_at = None, sd_created_at = t\<rparr> in
      if list_ex (\<lambda>r. sd_id r = i) (i_domains db) \<or> site_by_id site_id db = None then (Err SiDatabase, db)
      else if list_ex (\<lambda>r. sd_host r = host) (i_domains db) then (Err (DomainTaken host), db)
      else (Ok d, db\<lparr>i_domains := i_domains db @ [d]\<rparr>))"

definition get_domain_row :: "string \<Rightarrow> site_domain option sites_statement" where
  "get_domain_row host = select_si (\<lambda>db. find (\<lambda>d. sd_host d = host) (i_domains db))"

definition list_domain_rows :: "uuid \<Rightarrow> site_domain list sites_statement" where
  "list_domain_rows site_id = select_si (\<lambda>db. sort_key sd_host (filter (\<lambda>d. sd_site_id d = site_id) (i_domains db)))"

text \<open>\<open>now\<close> is the clock of the service.\<close>

definition update_domain_status :: "instant \<Rightarrow> uuid \<Rightarrow> domain_status \<Rightarrow> string option \<Rightarrow> unit sites_statement" where
  "update_domain_status now i status cert_ref t db =
     (let verified_at = (if status = DmVerified \<or> status = DmActive then Some now else None) in
      (Ok (), db\<lparr>i_domains := update_rows (\<lambda>d. sd_id d = i)
         (\<lambda>d. d\<lparr>sd_status := show_domain_status status, sd_tls_cert_ref := cert_ref,
                sd_verified_at := (case verified_at of Some x \<Rightarrow> Some x | None \<Rightarrow> sd_verified_at d)\<rparr>) (i_domains db)\<rparr>))"

definition delete_domain_row :: "uuid \<Rightarrow> unit sites_statement" where
  "delete_domain_row i t db = (Ok (), db\<lparr>i_domains := filter (\<lambda>d. sd_id d \<noteq> i) (i_domains db)\<rparr>)"

definition get_site_by_host :: "string \<Rightarrow> (site \<times> site_deployment) option sites_statement" where
  "get_site_by_host host = select_si (\<lambda>db.
     Option.bind (find (\<lambda>d. sd_host d = host \<and> sd_status d = ''active'') (i_domains db)) (\<lambda>dom.
     Option.bind (site_by_id (sd_site_id dom) db) (\<lambda>s.
     Option.bind (si_current s) (\<lambda>i.
     map_option (Pair s) (deployment_by_id i db)))))"

section \<open>Rendered pages, policies and audit events\<close>

text \<open>\<open>tags ? $2\<close>: the text is an element of the array, or a key of the object.\<close>

fun json_has :: "json \<Rightarrow> string \<Rightarrow> bool" where
  "json_has (JArray vs) s = list_ex (\<lambda>v. case v of JString x \<Rightarrow> x = s | _ \<Rightarrow> False) vs"
| "json_has (JObject obj) s = (map_of obj s \<noteq> None)"
| "json_has (JString x) s = (x = s)"
| "json_has _ s = False"

definition get_isr_entry :: "uuid \<Rightarrow> string \<Rightarrow> isr_entry option sites_statement" where
  "get_isr_entry site_id path = select_si (\<lambda>db. find (\<lambda>e. ie_site_id e = site_id \<and> ie_path e = path) (i_isr db))"

definition invalidate_isr :: "uuid \<Rightarrow> string \<Rightarrow> nat sites_statement" where
  "invalidate_isr site_id s t db =
     (let hit = (\<lambda>e. ie_site_id e = site_id \<and> (ie_path e = s \<or> json_has (ie_tags e) s)) in
      (Ok (count_rows hit (i_isr db)), db\<lparr>i_isr := filter (\<lambda>e. \<not> hit e) (i_isr db)\<rparr>))"

definition get_site_policies :: "uuid \<Rightarrow> site_policy list sites_statement" where
  "get_site_policies site_id = select_si (\<lambda>db. sort_key yp_name (filter (\<lambda>p. yp_site_id p = site_id) (i_policies db)))"

definition upsert_site_policy :: "uuid \<Rightarrow> uuid \<Rightarrow> string \<Rightarrow> json option \<Rightarrow> string \<Rightarrow> string \<Rightarrow> site_policy sites_statement" where
  "upsert_site_policy i site_id name using_expr raw_text sha t db =
     (let here = (\<lambda>p. yp_site_id p = site_id \<and> yp_name p = name);
          change = (\<lambda>p. p\<lparr>yp_using := using_expr, yp_raw_text := raw_text, yp_sha256 := sha, yp_created_at := t\<rparr>);
          new = \<lparr>yp_id = i, yp_site_id = site_id, yp_name = name, yp_using = using_expr, yp_raw_text = raw_text,
                 yp_sha256 = sha, yp_created_at = t\<rparr> in
      case find here (i_policies db) of
        Some p \<Rightarrow> (Ok (change p), db\<lparr>i_policies := update_rows here change (i_policies db)\<rparr>)
      | None \<Rightarrow>
          if list_ex (\<lambda>p. yp_id p = i) (i_policies db) \<or> site_by_id site_id db = None then (Err SiDatabase, db)
          else (Ok new, db\<lparr>i_policies := i_policies db @ [new]\<rparr>))"

definition delete_site_policy :: "uuid \<Rightarrow> unit sites_statement" where
  "delete_site_policy i t db = (Ok (), db\<lparr>i_policies := filter (\<lambda>p. yp_id p \<noteq> i) (i_policies db)\<rparr>)"

definition insert_site_audit :: "uuid \<Rightarrow> site_audit \<Rightarrow> unit sites_statement" where
  "insert_site_audit i e t db =
     (if list_ex (\<lambda>r. yl_id r = i) (i_audit db) then (Err SiDatabase, db)
      else (Ok (), db\<lparr>i_audit := i_audit db @ [\<lparr>yl_id = i, yl_ts = t, yl_event = e\<rparr>]\<rparr>))"

end
