(* ===== verification/Sites_Route.thy ===== *)
theory Sites_Route
  imports Sites_Store
begin

text \<open>
  Routing of a request to a site (\<open>crates/reactor-sites/src/route/\<close>, \<open>dispatch/mod.rs\<close>, \<open>bundle/manifest.rs\<close>): the
  conversion of patterns, the resolver of a deployment, what it decides, and the keys that are tried in the storage
  service (\<open>routes/serve.rs\<close>). The crate \<open>matchit\<close> is the record \<open>matchit\<close>: whether a pattern can be inserted after others,
  and the pattern a path matches with the parameters. A \<open>HashMap\<close> is the list of its entries in the order it iterates,
  which \<open>shuffle\<close> chooses.
\<close>

record matchit =
  mt_insert :: "string list \<Rightarrow> string \<Rightarrow> bool"
  mt_at :: "string list \<Rightarrow> string \<Rightarrow> (nat \<times> (string \<times> string) list) option"

section \<open>Patterns (route/matcher.rs)\<close>

text \<open>\<open>char::is_alphanumeric\<close>; \<open>alnum\<close> says it of characters outside ASCII.\<close>

definition is_alphanumeric :: "(string \<Rightarrow> bool) \<Rightarrow> string \<Rightarrow> bool" where
  "is_alphanumeric alnum ch = (case ch of [c] \<Rightarrow> if is_ascii c then is_ascii_alphanumeric c else alnum ch | _ \<Rightarrow> alnum ch)"

function take_name :: "(string \<Rightarrow> bool) \<Rightarrow> string \<Rightarrow> string \<times> string" where
  "take_name alnum [] = ([], [])"
| "take_name alnum (c # cs) =
     (let n = utf8_len c; ch = take n (c # cs) in
      if is_alphanumeric alnum ch \<or> ch = ''_'' then
        (case take_name alnum (drop n (c # cs)) of (name, rest) \<Rightarrow> (ch @ name, rest))
      else ([], c # cs))"
  by pat_completeness auto
termination by (relation "measure (\<lambda>(_, s). length s)") (auto simp: less_Suc_eq_le)

lemma length_take_name: "length (snd (take_name alnum s)) \<le> length s"
proof (induction alnum s rule: take_name.induct)
  case (2 alnum c cs)
  obtain name rest where r: "take_name alnum (drop (utf8_len c) (c # cs)) = (name, rest)" by fastforce
  show ?case
  proof (cases "is_alphanumeric alnum (take (utf8_len c) (c # cs)) \<or> take (utf8_len c) (c # cs) = ''_''")
    case True
    have "length rest \<le> length (drop (utf8_len c) (c # cs))" using 2 [OF refl refl True] r by simp
    then show ?thesis using True r by (simp add: Let_def)
  qed (simp add: Let_def)
qed simp

declare take_name.simps [simp del]

function convert_pattern :: "(string \<Rightarrow> bool) \<Rightarrow> string \<Rightarrow> string" where
  "convert_pattern alnum [] = []"
| "convert_pattern alnum (c # cs) =
     (if c = CHR '':'' then
        (let p = take_name alnum cs in
         if snd p \<noteq> [] \<and> (hd (snd p) = CHR ''*'' \<or> hd (snd p) = CHR ''+'')
         then ''{*'' @ fst p @ ''}'' @ convert_pattern alnum (tl (snd p))
         else ''{'' @ fst p @ ''}'' @ convert_pattern alnum (snd p))
      else if c = CHR ''*'' then ''{*rest}'' @ convert_pattern alnum cs
      else c # convert_pattern alnum cs)"
  by pat_completeness auto
termination
  by (relation "measure (\<lambda>(_, s). length s)") (use length_take_name in \<open>auto simp: less_Suc_eq_le le_diff_conv le_Suc_eq\<close>)

section \<open>Rules and decisions (bundle/manifest.rs, dispatch/mod.rs)\<close>

record cache_rules =
  cr_max_age :: "nat option"
  cr_s_maxage :: "nat option"
  cr_stale_while_revalidate :: "nat option"
  cr_immutable :: bool

definition default_cache_rules :: cache_rules where
  "default_cache_rules = \<lparr>cr_max_age = None, cr_s_maxage = None, cr_stale_while_revalidate = None, cr_immutable = False\<rparr>"

definition to_cache_control :: "cache_rules \<Rightarrow> string" where
  "to_cache_control r =
     (let seconds_part = (\<lambda>name v. case v of None \<Rightarrow> [] | Some n \<Rightarrow> [name @ ''='' @ show_nat n]);
          parts = seconds_part ''max-age'' (cr_max_age r) @ seconds_part ''s-maxage'' (cr_s_maxage r)
            @ seconds_part ''stale-while-revalidate'' (cr_stale_while_revalidate r)
            @ (if cr_immutable r then [''immutable''] else []) in
      if parts = [] then ''public, max-age=0, must-revalidate'' else join '', '' parts)"

text \<open>\<open>Value::as_u64\<close>.\<close>

fun json_u64 :: "json \<Rightarrow> nat option" where
  "json_u64 (JNumber n) = parse_unsigned (2 ^ 64) (num_text n)"
| "json_u64 _ = None"

text \<open>\<open>from_value\<close> of the rules, from an object by name or from an array in order; anything ill typed gives the default.\<close>

definition rule_number :: "json option \<Rightarrow> nat option option" where
  "rule_number v = (case v of None \<Rightarrow> Some None | Some JNull \<Rightarrow> Some None | Some j \<Rightarrow> map_option Some (json_u64 j))"

definition rule_flag :: "json option \<Rightarrow> bool option" where
  "rule_flag v = (case v of None \<Rightarrow> Some False | Some (JBool b) \<Rightarrow> Some b | _ \<Rightarrow> None)"

definition cache_rules_of :: "(nat \<Rightarrow> json option) \<Rightarrow> cache_rules option" where
  "cache_rules_of field =
     Option.bind (rule_number (field 0)) (\<lambda>a. Option.bind (rule_number (field 1)) (\<lambda>b.
     Option.bind (rule_number (field 2)) (\<lambda>c. Option.bind (rule_flag (field 3)) (\<lambda>i.
     Some \<lparr>cr_max_age = a, cr_s_maxage = b, cr_stale_while_revalidate = c, cr_immutable = i\<rparr>))))"

definition parse_cache_rules :: "json \<Rightarrow> cache_rules" where
  "parse_cache_rules v =
     (case (case v of
         JObject obj \<Rightarrow> cache_rules_of (\<lambda>n. map_of obj ([''maxAge'', ''sMaxage'', ''staleWhileRevalidate'', ''immutable''] ! n))
       | JArray vs \<Rightarrow> if 4 < length vs then None else cache_rules_of (\<lambda>n. if n < length vs then Some (vs ! n) else None)
       | _ \<Rightarrow> None) of
        Some r \<Rightarrow> r | None \<Rightarrow> default_cache_rules)"

datatype route_decision =
    StaticFile string cache_rules
  | CallFunction uuid string string
  | RedirectTo string nat bool
  | Prerender string "nat option" "route_decision option"
  | NotRouted

section \<open>Resolver (route/matcher.rs, route/decision.rs)\<close>

record route_entry =
  re_pattern :: string
  re_methods :: "string list option"
  re_kind :: string
  re_target :: string
  re_cache_rules :: json

record route_resolver =
  rv_patterns :: "string list"
  rv_entries :: "route_entry list"
  rv_functions :: "(string \<times> uuid) list"

definition add_route :: "matchit \<Rightarrow> (string \<Rightarrow> bool) \<Rightarrow> route_entry \<Rightarrow> route_resolver \<Rightarrow> route_resolver option" where
  "add_route mt alnum e r =
     (let p = convert_pattern alnum (re_pattern e) in
      if mt_insert mt (rv_patterns r) p
      then Some (r\<lparr>rv_patterns := rv_patterns r @ [p], rv_entries := rv_entries r @ [e]\<rparr>) else None)"

definition entry_of_route :: "deployment_route \<Rightarrow> route_entry" where
  "entry_of_route d =
     \<lparr>re_pattern = rw_pattern d, re_methods = map_option (\<lambda>m. map trim (split_char CHR '','' m)) (rw_method_filter d),
      re_kind = rw_kind d, re_target = rw_target d, re_cache_rules = rw_cache_rules d\<rparr>"

fun add_routes :: "matchit \<Rightarrow> (string \<Rightarrow> bool) \<Rightarrow> route_entry list \<Rightarrow> route_resolver \<Rightarrow> route_resolver option" where
  "add_routes mt alnum [] r = Some r"
| "add_routes mt alnum (e # es) r = Option.bind (add_route mt alnum e r) (add_routes mt alnum es)"

definition resolver_from_routes ::
  "matchit \<Rightarrow> (string \<Rightarrow> bool) \<Rightarrow> deployment_route list \<Rightarrow> (string \<times> uuid) list \<Rightarrow> route_resolver option" where
  "resolver_from_routes mt alnum routes functions =
     add_routes mt alnum (map entry_of_route (order_desc (\<lambda>r. sint (rw_priority r)) routes))
       \<lparr>rv_patterns = [], rv_entries = [], rv_functions = functions\<rparr>"

text \<open>The map collected from pairs holds the last value of a key.\<close>

definition collect_map :: "(string \<times> 'a) list \<Rightarrow> (string \<times> 'a) list" where
  "collect_map kvs = map (\<lambda>k. (k, the (map_of (rev kvs) k))) (remdups (map fst kvs))"

definition match_route :: "matchit \<Rightarrow> route_resolver \<Rightarrow> string \<Rightarrow> string \<Rightarrow> (route_entry \<times> (string \<times> string) list) option" where
  "match_route mt r path method =
     (case mt_at mt (rv_patterns r) path of
        None \<Rightarrow> None
      | Some (n, params) \<Rightarrow>
          let e = rv_entries r ! n in
          (case re_methods e of
             Some ms \<Rightarrow> if list_ex (\<lambda>m. eq_ignore_ascii_case m method) ms then Some (e, collect_map params) else None
           | None \<Rightarrow> Some (e, collect_map params)))"

text \<open>\<open>str::replace\<close> of a text that is not empty, from left to right; the number counts the bytes still to pass over.\<close>

fun replace_from :: "string \<Rightarrow> string \<Rightarrow> nat \<Rightarrow> string \<Rightarrow> string" where
  "replace_from p s n [] = []"
| "replace_from p s (Suc n) (c # cs) = replace_from p s n cs"
| "replace_from p s 0 (c # cs) =
     (if starts_with p (c # cs) then s @ replace_from p s (length p - 1) cs else c # replace_from p s 0 cs)"

definition replace_str :: "string \<Rightarrow> string \<Rightarrow> string \<Rightarrow> string" where
  "replace_str p s t = replace_from p s 0 t"

definition expand_target :: "((string \<times> string) list \<Rightarrow> (string \<times> string) list) \<Rightarrow> string \<Rightarrow> (string \<times> string) list \<Rightarrow> string" where
  "expand_target shuffle target params =
     foldl (\<lambda>t (k, v). replace_str ('':'' @ k) v (replace_str (''$'' @ k) v t)) target (shuffle params)"

definition nil_id :: uuid where
  "nil_id = ''00000000-0000-0000-0000-000000000000''"

definition function_or_nil :: "route_resolver \<Rightarrow> string \<Rightarrow> uuid" where
  "function_or_nil r name = (case map_of (rv_functions r) name of Some i \<Rightarrow> i | None \<Rightarrow> nil_id)"

fun json_str :: "json \<Rightarrow> string option" where
  "json_str (JString s) = Some s"
| "json_str _ = None"

fun is_object :: "json \<Rightarrow> bool" where
  "is_object (JObject obj) = True"
| "is_object _ = False"

definition prerender_fallback :: "route_resolver \<Rightarrow> (string \<times> string) list \<Rightarrow> json \<Rightarrow> route_decision" where
  "prerender_fallback r params f =
     (let kind = (case Option.bind (json_get f ''kind'') json_str of Some k \<Rightarrow> k | None \<Rightarrow> ''function'');
          target = (case Option.bind (json_get f ''target'') json_str of Some t \<Rightarrow> t | None \<Rightarrow> []) in
      if kind = ''function'' then
        CallFunction (function_or_nil r target) target (case map_of params ''path'' of Some p \<Rightarrow> p | None \<Rightarrow> [])
      else NotRouted)"

definition build_decision ::
  "((string \<times> string) list \<Rightarrow> (string \<times> string) list) \<Rightarrow> route_resolver \<Rightarrow> route_entry \<Rightarrow> (string \<times> string) list \<Rightarrow> route_decision" where
  "build_decision shuffle r e params =
     (if re_kind e = ''static'' then
        StaticFile (expand_target shuffle (re_target e) params) (parse_cache_rules (re_cache_rules e))
      else if re_kind e = ''function'' then
        CallFunction (function_or_nil r (re_target e)) (re_target e)
          (case map_of params ''path'' of Some p \<Rightarrow> p
           | None \<Rightarrow> (case map_of params ''rest'' of Some p \<Rightarrow> p | None \<Rightarrow> []))
      else if re_kind e = ''redirect'' then
        (let status = (case Option.bind (json_get (re_cache_rules e) ''status'') json_u64 of
                         Some n \<Rightarrow> n mod 2 ^ 16 | None \<Rightarrow> 302) in
         RedirectTo (expand_target shuffle (re_target e) params) status (status = 301 \<or> status = 308))
      else if re_kind e = ''prerender'' then
        Prerender (expand_target shuffle (re_target e) params)
          (Option.bind (json_get (re_cache_rules e) ''revalidate'') json_u64)
          (case json_get (re_cache_rules e) ''fallback'' of
             Some f \<Rightarrow> if is_object f then Some (prerender_fallback r params f) else None
           | None \<Rightarrow> None)
      else NotRouted)"

definition resolve_route ::
  "matchit \<Rightarrow> ((string \<times> string) list \<Rightarrow> (string \<times> string) list) \<Rightarrow> route_resolver \<Rightarrow> string \<Rightarrow> string \<Rightarrow> route_decision" where
  "resolve_route mt shuffle r path method =
     (case match_route mt r path method of
        None \<Rightarrow> NotRouted | Some (e, params) \<Rightarrow> build_decision shuffle r e params)"

section \<open>Keys of static files (routes/serve.rs)\<close>

definition sites_bucket :: string where
  "sites_bucket = ''_reactor_sites''"

definition static_keys :: "uuid \<Rightarrow> string \<Rightarrow> string list" where
  "static_keys deployment_id storage_key =
     (let base_key = deployment_id @ ''/static/'' @ dropWhile (\<lambda>c. c = CHR ''/'') storage_key in
      if ends_with ''/'' storage_key \<or> storage_key = [] then [base_key @ ''index.html'', base_key]
      else if CHR ''.'' \<in> set storage_key then [base_key]
      else [base_key, base_key @ ''/index.html'', base_key @ ''.html''])"

section \<open>Routes of a deployment (reactor-server/src/admin/deploy.rs)\<close>

text \<open>The manifest of a built site: the members that are read.\<close>

record site_manifest =
  sm_routes :: "json list"
  sm_functions :: json

text \<open>A route that lacks a member, or has one that is no text, is left out; \<open>ids\<close> supplies the identifiers.\<close>

definition site_route :: "uuid \<Rightarrow> uuid \<Rightarrow> instant \<Rightarrow> nat \<Rightarrow> json \<Rightarrow> deployment_route option" where
  "site_route deployment_id i now n r =
     Option.bind (Option.bind (json_get r ''pattern'') json_str) (\<lambda>pattern.
     Option.bind (Option.bind (json_get r ''kind'') json_str) (\<lambda>kind.
     Option.bind (Option.bind (json_get r ''target'') json_str) (\<lambda>target.
     Some \<lparr>rw_id = i, rw_deployment_id = deployment_id, rw_pattern = pattern, rw_method_filter = None, rw_kind = kind,
       rw_target = target, rw_cache_rules = (case json_get r ''cache'' of Some c \<Rightarrow> c | None \<Rightarrow> JNull),
       rw_priority = of_nat n, rw_created_at = now\<rparr>)))"

definition build_site_routes :: "(nat \<Rightarrow> uuid) \<Rightarrow> instant \<Rightarrow> uuid \<Rightarrow> site_manifest \<Rightarrow> deployment_route list" where
  "build_site_routes ids now deployment_id m =
     List.map_filter (\<lambda>(n, r). site_route deployment_id (ids n) now n r) (enumerate 0 (sm_routes m))"

definition static_cache :: json where
  "static_cache = JObject [(''maxAge'', json_int 0), (''sMaxage'', json_int 31536000), (''staleWhileRevalidate'', json_int 86400)]"

definition build_static_routes :: "(nat \<Rightarrow> uuid) \<Rightarrow> instant \<Rightarrow> uuid \<Rightarrow> deployment_route list" where
  "build_static_routes ids now deployment_id =
     [\<lparr>rw_id = ids 0, rw_deployment_id = deployment_id, rw_pattern = ''/'', rw_method_filter = None, rw_kind = ''static'',
        rw_target = ''index.html'', rw_cache_rules = static_cache, rw_priority = 100, rw_created_at = now\<rparr>,
      \<lparr>rw_id = ids 1, rw_deployment_id = deployment_id, rw_pattern = ''/*'', rw_method_filter = None, rw_kind = ''static'',
        rw_target = ''$rest'', rw_cache_rules = static_cache, rw_priority = 0, rw_created_at = now\<rparr>]"

end
