(* ===== verification/Sites_Service.thy ===== *)
theory Sites_Service
  imports Sites_Route
begin

text \<open>
  The sites service (\<open>crates/reactor-sites/src/\<close>): the serve plane (\<open>middleware/host_resolver.rs\<close>, \<open>routes/serve.rs\<close>, the
  clients of \<open>dispatch/\<close>), the authentication middleware, the handlers of \<open>routes/\<close>, the verification of domains
  (\<open>domain/\<close>), and the deployment of sites from a bundle (\<open>crates/reactor-server/src/admin/deploy.rs\<close>).
  Other services, DNS and the web are answered by the environment, effect by effect; the world keeps the requests that
  were sent. \<open>ye_url\<close> is what the HTTP client makes of the text of an URL before it sends it. API keys are texts a header may hold.
\<close>

section \<open>The environment and the world\<close>

record http_request =
  hq_method :: string
  hq_url :: string
  hq_headers :: "(string \<times> string) list"
  hq_body :: string

text \<open>The body is \<open>None\<close> when it breaks off.\<close>

datatype http_reply = NoReply | Reply nat "(string \<times> string) list" "string option"

datatype dns_reply = NoResolver | NoRecord | TxtRecords "string list"

record sites_env =
  ye_fails :: "nat \<Rightarrow> bool"
  ye_uuid :: "nat \<Rightarrow> uuid"
  ye_token :: "nat \<Rightarrow> string"
  ye_fold_case :: "string \<Rightarrow> string"
  ye_parse_uuid :: "string \<Rightarrow> uuid option"
  ye_sha256 :: "string \<Rightarrow> string"
  ye_resolve :: "string \<Rightarrow> string option \<Rightarrow> auth_ctx option"
  ye_dns :: "nat \<Rightarrow> string \<Rightarrow> dns_reply"
  ye_url :: "string \<Rightarrow> string option"
  ye_http :: "nat \<Rightarrow> http_request \<Rightarrow> http_reply"
  ye_matchit :: matchit
  ye_alnum :: "string \<Rightarrow> bool"
  ye_shuffle :: "(string \<times> string) list \<Rightarrow> (string \<times> string) list"
  ye_mime :: "string \<Rightarrow> string"
  ye_storage_url :: string
  ye_storage_key :: string
  ye_functions_url :: string
  ye_functions_key :: string
  ye_default_org :: "uuid option"

record sites_world =
  iw_db :: sites_db
  iw_now :: instant
  iw_fresh :: nat
  iw_effects :: nat
  iw_sent :: "http_request list"

type_synonym 'a sites_act = "(sites_world, 'a, sites_error) comp"

definition sites_effect :: "(nat \<Rightarrow> 'a sites_act) \<Rightarrow> 'a sites_act" where
  "sites_effect f w = f (iw_effects w) (w\<lparr>iw_effects := Suc (iw_effects w)\<rparr>)"

definition isql :: "sites_env \<Rightarrow> 'a sites_statement \<Rightarrow> 'a sites_act" where
  "isql env st = sites_effect (\<lambda>n w.
     if ye_fails env n then (Err SiDatabase, w)
     else case st (iw_now w) (iw_db w) of (r, db') \<Rightarrow> (r, w\<lparr>iw_db := db'\<rparr>))"

definition sites_clock :: "instant sites_act" where
  "sites_clock w = (Ok (iw_now w), w)"

text \<open>New identifiers, as many as are used.\<close>

definition new_ids :: "sites_env \<Rightarrow> nat \<Rightarrow> (nat \<Rightarrow> uuid) sites_act" where
  "new_ids env k w = (Ok (\<lambda>n. ye_uuid env (iw_fresh w + n)), w\<lparr>iw_fresh := iw_fresh w + k\<rparr>)"

definition new_id :: "sites_env \<Rightarrow> uuid sites_act" where
  "new_id env = bind (new_ids env 1) (\<lambda>ids. ret (ids 0))"

definition http_send :: "sites_env \<Rightarrow> http_request \<Rightarrow> http_reply sites_act" where
  "http_send env q = sites_effect (\<lambda>n w.
     (case ye_url env (hq_url q) of
        None \<Rightarrow> (Ok NoReply, w)
      | Some u \<Rightarrow>
          let q' = q\<lparr>hq_url := u\<rparr> in (Ok (ye_http env n q'), w\<lparr>iw_sent := iw_sent w @ [q']\<rparr>)))"

definition success_status :: "nat \<Rightarrow> bool" where
  "success_status status \<longleftrightarrow> 200 \<le> status \<and> status < 300"

section \<open>Clients (dispatch/static_dispatch.rs, dispatch/function_dispatch.rs)\<close>

definition object_url :: "string \<Rightarrow> string \<Rightarrow> string \<Rightarrow> string" where
  "object_url base_url bucket key = base_url @ ''/storage/v1/object/'' @ bucket @ ''/'' @ key"

definition bearer_header :: "string \<Rightarrow> string \<times> string" where
  "bearer_header api_key = (''authorization'', ''Bearer '' @ api_key)"

definition fetch_object :: "sites_env \<Rightarrow> string \<Rightarrow> string \<Rightarrow> string sites_act" where
  "fetch_object env bucket key =
     bind (http_send env \<lparr>hq_method = ''GET'', hq_url = object_url (ye_storage_url env) bucket key,
       hq_headers = [bearer_header (ye_storage_key env)], hq_body = []\<rparr>) (\<lambda>reply.
       lift (case reply of
         Reply status hs (Some body) \<Rightarrow> if success_status status then Ok body else Err SiStorage
       | _ \<Rightarrow> Err SiStorage))"

definition upload_object :: "sites_env \<Rightarrow> string \<Rightarrow> string \<Rightarrow> string \<Rightarrow> string \<Rightarrow> unit sites_act" where
  "upload_object env bucket key content_type body =
     bind (http_send env \<lparr>hq_method = ''PUT'', hq_url = object_url (ye_storage_url env) bucket key,
       hq_headers = [bearer_header (ye_storage_key env), (''content-type'', content_type)], hq_body = body\<rparr>) (\<lambda>reply.
       lift (case reply of
         Reply status hs b \<Rightarrow> if success_status status then Ok () else Err StaticUploadFailed
       | NoReply \<Rightarrow> Err StaticUploadFailed))"

definition function_url :: "string \<Rightarrow> string \<Rightarrow> string \<Rightarrow> string" where
  "function_url base_url function_name sub_path = base_url @ ''/fn/v1/'' @ function_name @ ''/'' @ sub_path"

text \<open>The key is added to the headers, beside an \<open>authorization\<close> that is there.\<close>

definition invoke_function ::
  "sites_env \<Rightarrow> string \<Rightarrow> string \<Rightarrow> string \<Rightarrow> (string \<times> string) list \<Rightarrow> string \<Rightarrow> http_reply sites_act" where
  "invoke_function env function_name sub_path method headers body =
     bind (http_send env \<lparr>hq_method = method, hq_url = function_url (ye_functions_url env) function_name sub_path,
       hq_headers = headers @ [bearer_header (ye_functions_key env)], hq_body = body\<rparr>) (\<lambda>reply.
       case reply of NoReply \<Rightarrow> lift (Err FunctionDispatchFailed) | _ \<Rightarrow> ret reply)"

section \<open>Hosts (middleware/host_resolver.rs)\<close>

record resolved_host =
  rh_site :: site
  rh_deployment :: site_deployment
  rh_is_preview :: bool

definition parse_preview_host :: "sites_env \<Rightarrow> string \<Rightarrow> (uuid \<times> string) option" where
  "parse_preview_host env host =
     (let parts = split_char CHR ''.'' host in
      if 4 \<le> length parts \<and> parts ! 1 = ''preview''
      then map_option (\<lambda>i. (i, join ''.'' (drop 2 parts))) (ye_parse_uuid env (parts ! 0)) else None)"

definition parse_reactor_host :: "string \<Rightarrow> string option" where
  "parse_reactor_host host =
     (if ends_with ''.reactor.app'' host
      then Some (hd (split_char CHR ''.'' (take (length host - length ''.reactor.app'') host))) else None)"

definition resolve_preview :: "sites_env \<Rightarrow> uuid \<Rightarrow> string \<Rightarrow> resolved_host option sites_act" where
  "resolve_preview env deployment_id site_host =
     bind (isql env (get_deployment_row deployment_id)) (\<lambda>d.
       case d of None \<Rightarrow> ret None
       | Some d \<Rightarrow> bind (isql env (get_site_by_id (dp_site_id d))) (\<lambda>s.
           ret (map_option (\<lambda>s. \<lparr>rh_site = s, rh_deployment = d, rh_is_preview = True\<rparr>) s)))"

definition resolve_by_pattern :: "string \<Rightarrow> resolved_host option sites_act" where
  "resolve_by_pattern site_name = ret None"

definition resolve_host :: "sites_env \<Rightarrow> string \<Rightarrow> resolved_host option sites_act" where
  "resolve_host env host =
     (case parse_preview_host env host of
        Some (i, site_host) \<Rightarrow> resolve_preview env i site_host
      | None \<Rightarrow> bind (isql env (get_site_by_host host)) (\<lambda>v.
          case v of
            Some (s, d) \<Rightarrow> ret (Some \<lparr>rh_site = s, rh_deployment = d, rh_is_preview = False\<rparr>)
          | None \<Rightarrow> (case parse_reactor_host host of
              Some site_name \<Rightarrow> resolve_by_pattern site_name | None \<Rightarrow> ret None)))"

section \<open>Serving (routes/serve.rs)\<close>

record web_request =
  wr_method :: string
  wr_path :: string
  wr_headers :: "(string \<times> string) list"
  wr_body :: "string option"

record web_response =
  ws_status :: nat
  ws_headers :: "(string \<times> string) list"
  ws_body :: string

text \<open>\<open>HeaderValue::to_str\<close> takes visible ASCII, blanks and tabs.\<close>

definition is_header_text :: "string \<Rightarrow> bool" where
  "is_header_text s \<longleftrightarrow> list_all (\<lambda>c. (32 \<le> byte c \<and> byte c < 127) \<or> byte c = 9) s"

definition header_text :: "(string \<times> string) list \<Rightarrow> string \<Rightarrow> string option" where
  "header_text hs name = Option.bind (map_of hs name) (\<lambda>v. if is_header_text v then Some v else None)"

definition not_found_page :: string where
  "not_found_page = join [CHR 0x0A] [''<!DOCTYPE html>'', ''<html>'', ''<head><title>404 Not Found</title></head>'', ''<body>'',
     ''<h1>Not Found</h1>'', ''<p>The requested resource could not be found.</p>'', ''</body>'', ''</html>'']"

definition not_found_response :: web_response where
  "not_found_response = \<lparr>ws_status = 404, ws_headers = [(''content-type'', ''text/html; charset=utf-8'')], ws_body = not_found_page\<rparr>"

definition not_ready_response :: web_response where
  "not_ready_response = \<lparr>ws_status = 503, ws_headers = [(''content-type'', ''text/plain'')], ws_body = ''Deployment not ready''\<rparr>"

text \<open>A location that is no header value makes the builder fail, and \<open>unwrap\<close> panic.\<close>

definition redirect_response :: "nat \<Rightarrow> string \<Rightarrow> (web_response, sites_error) result" where
  "redirect_response status location =
     (if list_all (\<lambda>c. (32 \<le> byte c \<and> byte c \<noteq> 127) \<or> byte c = 9) location
      then Ok \<lparr>ws_status = (if 100 \<le> status \<and> status \<le> 999 then status else 302),
               ws_headers = [(''location'', location)], ws_body = []\<rparr>
      else Panic)"

definition guess_content_type :: "sites_env \<Rightarrow> string \<Rightarrow> string" where
  "guess_content_type env path =
     (let mime = ye_mime env path in
      if mime = ''text/html'' then ''text/html; charset=utf-8''
      else if mime = ''text/css'' then ''text/css; charset=utf-8''
      else if mime = ''text/javascript'' \<or> mime = ''application/javascript'' then ''application/javascript; charset=utf-8''
      else if mime = ''application/json'' then ''application/json; charset=utf-8''
      else if mime = ''text/plain'' then ''text/plain; charset=utf-8''
      else if mime = ''text/xml'' \<or> mime = ''application/xml'' then ''application/xml; charset=utf-8''
      else if mime = ''image/x-icon'' \<or> mime = ''image/vnd.microsoft.icon'' then ''image/x-icon''
      else if mime \<in> set [''image/svg+xml'', ''image/png'', ''image/jpeg'', ''image/gif'', ''image/webp'', ''image/avif'',
        ''font/woff'', ''font/woff2'', ''application/pdf'', ''application/wasm''] then mime
      else ''application/octet-stream'')"

fun try_keys :: "sites_env \<Rightarrow> resolved_host \<Rightarrow> cache_rules \<Rightarrow> string list \<Rightarrow> web_response sites_act" where
  "try_keys env h cache [] = ret not_found_response"
| "try_keys env h cache (key # keys) =
     bind (attempt (fetch_object env sites_bucket key)) (\<lambda>v.
       case v of
         Inl bytes \<Rightarrow> ret \<lparr>ws_status = 200,
           ws_headers = [(''content-type'', guess_content_type env key), (''cache-control'', to_cache_control cache)]
             @ (if rh_is_preview h then [(''x-robots-tag'', ''noindex'')] else []), ws_body = bytes\<rparr>
       | Inr e \<Rightarrow> try_keys env h cache keys)"

definition serve_static :: "sites_env \<Rightarrow> resolved_host \<Rightarrow> string \<Rightarrow> cache_rules \<Rightarrow> web_response sites_act" where
  "serve_static env h storage_key cache = try_keys env h cache (static_keys (dp_id (rh_deployment h)) storage_key)"

definition hop_by_hop :: "string list" where
  "hop_by_hop = [''connection'', ''keep-alive'', ''host'', ''transfer-encoding'', ''te'', ''upgrade'']"

definition end_to_end :: "(string \<times> string) list \<Rightarrow> (string \<times> string) list" where
  "end_to_end hs = filter (\<lambda>(n, v). n \<notin> set hop_by_hop) hs"

text \<open>\<open>HeaderMap::insert\<close> replaces every value of a name.\<close>

definition insert_header :: "string \<times> string \<Rightarrow> (string \<times> string) list \<Rightarrow> (string \<times> string) list" where
  "insert_header kv hs = (if fst kv \<in> fst ` set hs then map (\<lambda>h. if fst h = fst kv then kv else h) hs else hs @ [kv])"

definition forwarded_headers :: "resolved_host \<Rightarrow> (string \<times> string) list \<Rightarrow> (string \<times> string) list" where
  "forwarded_headers h hs =
     (let copied = fold insert_header (end_to_end hs) [];
          name = si_name (rh_site h);
          sited = insert_header (''x-reactor-site'', if is_header_text name then name else ''unknown'') copied in
      if rh_is_preview h then insert_header (''x-reactor-preview'', ''true'') sited else sited)"

definition forwarded_method :: "string \<Rightarrow> string" where
  "forwarded_method m = (if m \<in> set [''GET'', ''POST'', ''PUT'', ''DELETE'', ''PATCH'', ''HEAD'', ''OPTIONS''] then m else ''GET'')"

definition serve_function :: "sites_env \<Rightarrow> resolved_host \<Rightarrow> string \<Rightarrow> string \<Rightarrow> web_request \<Rightarrow> web_response sites_act" where
  "serve_function env h function_name sub_path q =
     (case wr_body q of
        None \<Rightarrow> lift (Err (SiInternal ''failed to read request body''))
      | Some body \<Rightarrow>
          if 10 * 1024 * 1024 < length body then lift (Err (SiInternal ''failed to read request body''))
          else
            bind (invoke_function env function_name sub_path (forwarded_method (wr_method q))
                   (forwarded_headers h (wr_headers q)) body) (\<lambda>reply.
              lift (case reply of
                Reply status hs (Some b) \<Rightarrow> Ok \<lparr>ws_status = status, ws_headers = end_to_end hs, ws_body = b\<rparr>
              | _ \<Rightarrow> Err FunctionDispatchFailed)))"

definition build_function_map :: "deployment_function list \<Rightarrow> (string \<times> uuid) list" where
  "build_function_map functions = collect_map (map (\<lambda>f. (df_role f, df_function_id f)) functions)"

definition dispatch_decision :: "sites_env \<Rightarrow> resolved_host \<Rightarrow> web_request \<Rightarrow> route_decision \<Rightarrow> web_response sites_act" where
  "dispatch_decision env h q decision =
     (case decision of
        StaticFile storage_key cache \<Rightarrow> serve_static env h storage_key cache
      | CallFunction i function_name sub_path \<Rightarrow> serve_function env h function_name sub_path q
      | RedirectTo location status permanent \<Rightarrow> lift (redirect_response status location)
      | Prerender storage_key revalidate fallback \<Rightarrow> serve_static env h storage_key default_cache_rules
      | NotRouted \<Rightarrow> ret not_found_response)"

definition serve_handler :: "sites_env \<Rightarrow> web_request \<Rightarrow> web_response sites_act" where
  "serve_handler env q =
     bind (resolve_host env (case header_text (wr_headers q) ''host'' of Some host \<Rightarrow> host | None \<Rightarrow> [])) (\<lambda>v.
       case v of None \<Rightarrow> ret not_found_response
       | Some h \<Rightarrow>
           if dp_status (rh_deployment h) \<noteq> ''ready'' then ret not_ready_response
           else
             bind (isql env (get_deployment_routes (dp_id (rh_deployment h)))) (\<lambda>routes.
             bind (isql env (get_deployment_functions (dp_id (rh_deployment h)))) (\<lambda>functions.
             bind (lift (ok_or (SiInternal ''Failed to build route resolver'')
                     (resolver_from_routes (ye_matchit env) (ye_alnum env) routes (build_function_map functions)))) (\<lambda>r.
               dispatch_decision env h q (resolve_route (ye_matchit env) (ye_shuffle env) r (wr_path q) (wr_method q))))))"

section \<open>Contexts (middleware/auth.rs, state.rs)\<close>

record site_ctx =
  yc_auth :: auth_ctx
  yc_request_id :: string
  yc_org_id :: uuid

definition ctx_from_auth :: "auth_ctx \<Rightarrow> string \<Rightarrow> (site_ctx, sites_error) result" where
  "ctx_from_auth a request_id =
     (case ax_active_org a of
        None \<Rightarrow> Err SiOrgRequired
      | Some o' \<Rightarrow> Ok \<lparr>yc_auth = a, yc_request_id = request_id, yc_org_id = o'\<rparr>)"

definition site_auth_middleware :: "sites_env \<Rightarrow> (string \<times> string) list \<Rightarrow> (site_ctx, sites_error) result" where
  "site_auth_middleware env hs =
     (case header_text hs ''authorization'' of
        None \<Rightarrow> Err SiAuthRequired
      | Some h \<Rightarrow> (case strip_prefix ''Bearer '' h of
          None \<Rightarrow> Err SiInvalidToken
        | Some token \<Rightarrow> (case ye_resolve env token (header_text hs ''x-reactor-org'') of
            None \<Rightarrow> Err SiInvalidToken
          | Some a \<Rightarrow> ctx_from_auth a (case header_text hs ''x-request-id'' of Some i \<Rightarrow> i | None \<Rightarrow> ''unknown''))))"

definition require_site_permission :: "site_ctx \<Rightarrow> string \<Rightarrow> unit sites_act" where
  "require_site_permission ctx p = lift (if auth_has_permission (yc_auth ctx) p then Ok () else Err (SiPermissionDenied p))"

definition deploy_permission :: "string \<Rightarrow> string" where
  "deploy_permission name = ''sites:'' @ name @ '':deploy''"

definition admin_permission :: "string \<Rightarrow> string" where
  "admin_permission name = ''sites:'' @ name @ '':admin''"

definition require_site :: "sites_env \<Rightarrow> site_ctx \<Rightarrow> string \<Rightarrow> site sites_act" where
  "require_site env ctx name =
     bind (isql env (get_site_row (ye_fold_case env) (yc_org_id ctx) name)) (\<lambda>s. lift (ok_or (SiteNotFound name) s))"

definition ctx_apikey_id :: "sites_env \<Rightarrow> site_ctx \<Rightarrow> uuid option" where
  "ctx_apikey_id env ctx =
     (let c = ax_claims (yc_auth ctx) in
      if is_apikey c then Option.bind (strip_prefix ''apikey:'' (cl_sub c)) (ye_parse_uuid env) else None)"

definition write_site_audit ::
  "sites_env \<Rightarrow> site_ctx \<Rightarrow> string \<Rightarrow> uuid option \<Rightarrow> uuid option \<Rightarrow> uuid option \<Rightarrow> json \<Rightarrow> unit sites_act" where
  "write_site_audit env ctx event_type site_id deployment_id domain_id details =
     bind (new_id env) (\<lambda>i. isql env (insert_site_audit i
       \<lparr>sa_actor_user_id = auth_user_id (ye_parse_uuid env) (yc_auth ctx), sa_actor_apikey_id = ctx_apikey_id env ctx,
        sa_org_id = yc_org_id ctx, sa_site_id = site_id, sa_deployment_id = deployment_id, sa_domain_id = domain_id,
        sa_event_type = event_type, sa_details = details, sa_request_id = yc_request_id ctx\<rparr>))"

section \<open>Sites (routes/admin.rs)\<close>

definition store_create_site :: "sites_env \<Rightarrow> uuid \<Rightarrow> string \<Rightarrow> framework \<Rightarrow> site sites_act" where
  "store_create_site env org_id name fw =
     bind (new_id env) (\<lambda>i. bind sites_clock (\<lambda>now. isql env (create_site_row (ye_fold_case env) now i org_id name fw)))"

definition create_site :: "sites_env \<Rightarrow> site_ctx \<Rightarrow> string \<Rightarrow> framework \<Rightarrow> site sites_act" where
  "create_site env ctx name fw =
     bind (require_site_permission ctx ''sites:create'') (\<lambda>_.
     bind (lift (if is_site_name name then Ok () else Err (InvalidSiteName name))) (\<lambda>_.
     bind (isql env (get_site_row (ye_fold_case env) (yc_org_id ctx) name)) (\<lambda>found.
     bind (lift (if found = None then Ok () else Err (SiteAlreadyExists name))) (\<lambda>_.
     bind (store_create_site env (yc_org_id ctx) name fw) (\<lambda>s.
     bind (write_site_audit env ctx ''site.create'' (Some (si_id s)) None None
             (JObject [(''name'', JString (si_name s)), (''framework'', JString (si_framework s))])) (\<lambda>_.
       ret s))))))"

definition list_sites :: "sites_env \<Rightarrow> site_ctx \<Rightarrow> site list sites_act" where
  "list_sites env ctx = isql env (list_site_rows (ye_fold_case env) (yc_org_id ctx))"

definition get_site :: "sites_env \<Rightarrow> site_ctx \<Rightarrow> string \<Rightarrow> site sites_act" where
  "get_site env ctx name = require_site env ctx name"

definition delete_site :: "sites_env \<Rightarrow> site_ctx \<Rightarrow> string \<Rightarrow> unit sites_act" where
  "delete_site env ctx name =
     bind (require_site_permission ctx (admin_permission name)) (\<lambda>_.
     bind (require_site env ctx name) (\<lambda>s.
     bind (isql env (delete_site_row (si_id s))) (\<lambda>_.
       write_site_audit env ctx ''site.delete'' (Some (si_id s)) None None (JObject [(''name'', JString (si_name s))]))))"

section \<open>Deployments (routes/deployments.rs)\<close>

definition store_create_deployment :: "sites_env \<Rightarrow> uuid \<Rightarrow> json \<Rightarrow> uuid option \<Rightarrow> site_deployment sites_act" where
  "store_create_deployment env site_id manifest deployed_by =
     bind (new_id env) (\<lambda>i.
     bind (isql env (next_deployment_version site_id)) (\<lambda>version.
       isql env (insert_deployment i site_id version manifest deployed_by)))"

definition version_details :: "site_deployment \<Rightarrow> json" where
  "version_details d = JObject [(''version'', json_int (dp_version d))]"

definition create_deployment :: "sites_env \<Rightarrow> site_ctx \<Rightarrow> string \<Rightarrow> json \<Rightarrow> site_deployment sites_act" where
  "create_deployment env ctx name manifest =
     bind (require_site_permission ctx (deploy_permission name)) (\<lambda>_.
     bind (require_site env ctx name) (\<lambda>s.
     bind (store_create_deployment env (si_id s) manifest (auth_user_id (ye_parse_uuid env) (yc_auth ctx))) (\<lambda>d.
     bind (write_site_audit env ctx ''deployment.create'' (Some (si_id s)) (Some (dp_id d)) None (version_details d)) (\<lambda>_.
       ret d))))"

definition list_deployments :: "sites_env \<Rightarrow> site_ctx \<Rightarrow> string \<Rightarrow> site_deployment list sites_act" where
  "list_deployments env ctx name =
     bind (require_site env ctx name) (\<lambda>s. isql env (list_deployment_rows (si_id s) 20))"

text \<open>The deployment with an identifier, where it is of the site.\<close>

definition deployment_of_site :: "sites_env \<Rightarrow> site \<Rightarrow> uuid \<Rightarrow> site_deployment sites_act" where
  "deployment_of_site env s i =
     bind (isql env (get_deployment_row i)) (\<lambda>found.
     bind (lift (ok_or (DeploymentNotFound i) found)) (\<lambda>d.
     bind (lift (if dp_site_id d \<noteq> si_id s then Err (DeploymentNotFound i) else Ok ())) (\<lambda>_. ret d)))"

definition get_deployment :: "sites_env \<Rightarrow> site_ctx \<Rightarrow> string \<Rightarrow> uuid \<Rightarrow> site_deployment sites_act" where
  "get_deployment env ctx name i = bind (require_site env ctx name) (\<lambda>s. deployment_of_site env s i)"

definition promote_deployment :: "sites_env \<Rightarrow> site_ctx \<Rightarrow> string \<Rightarrow> uuid \<Rightarrow> site_deployment sites_act" where
  "promote_deployment env ctx name i =
     bind (require_site_permission ctx (deploy_permission name)) (\<lambda>_.
     bind (require_site env ctx name) (\<lambda>s.
     bind (deployment_of_site env s i) (\<lambda>d.
     bind (lift (if dp_status d \<noteq> ''ready'' then Err (DeploymentNotReady i) else Ok ())) (\<lambda>_.
     bind (isql env (promote_row i)) (\<lambda>_.
     bind (write_site_audit env ctx ''deployment.promote'' (Some (si_id s)) (Some (dp_id d)) None (version_details d)) (\<lambda>_.
       ret d))))))"

definition rollback_target :: "sites_env \<Rightarrow> site \<Rightarrow> uuid option \<Rightarrow> uuid sites_act" where
  "rollback_target env s to =
     (case to of
        Some i \<Rightarrow> ret i
      | None \<Rightarrow> bind (isql env (list_deployment_rows (si_id s) 2)) (\<lambda>ds.
          if length ds < 2 then lift (Err (DeploymentNotFound ''no previous deployment'')) else ret (dp_id (ds ! 1))))"

definition rollback_deployment :: "sites_env \<Rightarrow> site_ctx \<Rightarrow> string \<Rightarrow> uuid option \<Rightarrow> site_deployment sites_act" where
  "rollback_deployment env ctx name to =
     bind (require_site_permission ctx (admin_permission name)) (\<lambda>_.
     bind (require_site env ctx name) (\<lambda>s.
     bind (rollback_target env s to) (\<lambda>i.
     bind (deployment_of_site env s i) (\<lambda>d.
     bind (isql env (promote_row i)) (\<lambda>_.
     bind (write_site_audit env ctx ''deployment.rollback'' (Some (si_id s)) (Some (dp_id d)) None (version_details d)) (\<lambda>_.
       ret d))))))"

section \<open>Domains (routes/domains.rs, domain/)\<close>

record verification_instructions =
  vi_method :: string
  vi_token :: string
  vi_dns_record :: "(string \<times> string \<times> string) option"
  vi_http_path :: "string option"

definition record_name :: "string \<Rightarrow> string" where
  "record_name host = ''_reactor-verify.'' @ host"

definition record_value :: "string \<Rightarrow> string" where
  "record_value token = ''reactor-site-verification='' @ token"

definition challenge_url :: "string \<Rightarrow> string" where
  "challenge_url host = ''http://'' @ host @ ''/.well-known/reactor-verify''"

definition generate_verification_instructions :: "string \<Rightarrow> string \<Rightarrow> string \<Rightarrow> verification_instructions" where
  "generate_verification_instructions host token method =
     \<lparr>vi_method = method, vi_token = token,
      vi_dns_record = (if method = ''dns'' then Some (''TXT'', record_name host, record_value token) else None),
      vi_http_path = (if method = ''http'' then Some (challenge_url host) else None)\<rparr>"

definition verify_dns :: "sites_env \<Rightarrow> string \<Rightarrow> string \<Rightarrow> bool sites_act" where
  "verify_dns env host token = sites_effect (\<lambda>n w.
     ((case ye_dns env n (record_name host) of
         NoResolver \<Rightarrow> Err (DomainVerificationFailed host)
       | NoRecord \<Rightarrow> Ok False
       | TxtRecords values \<Rightarrow> Ok (list_ex (\<lambda>v. trim v = record_value token) values)), w))"

definition verify_http :: "sites_env \<Rightarrow> string \<Rightarrow> string \<Rightarrow> bool sites_act" where
  "verify_http env host token =
     bind (http_send env \<lparr>hq_method = ''GET'', hq_url = challenge_url host, hq_headers = [], hq_body = []\<rparr>) (\<lambda>reply.
       ret (case reply of
         NoReply \<Rightarrow> False
       | Reply status hs body \<Rightarrow> success_status status \<and> trim (case body of Some b \<Rightarrow> b | None \<Rightarrow> []) = token))"

definition verify_domain_challenge :: "sites_env \<Rightarrow> string \<Rightarrow> string \<Rightarrow> string \<Rightarrow> bool sites_act" where
  "verify_domain_challenge env host token method =
     (if method = ''dns'' then verify_dns env host token
      else if method = ''http'' then verify_http env host token
      else lift (Err (DomainVerificationFailed (''unknown verification method: '' @ method))))"

definition host_details :: "site_domain \<Rightarrow> json" where
  "host_details d = JObject [(''host'', JString (sd_host d))]"

definition create_site_domain ::
  "sites_env \<Rightarrow> site_ctx \<Rightarrow> string \<Rightarrow> string \<Rightarrow> string \<Rightarrow> (site_domain \<times> verification_instructions) sites_act" where
  "create_site_domain env ctx name host method =
     bind (require_site_permission ctx (admin_permission name)) (\<lambda>_.
     bind (require_site env ctx name) (\<lambda>s.
     bind (new_id env) (\<lambda>i.
     bind (sites_effect (\<lambda>n. ret (ye_token env n))) (\<lambda>token.
     bind (isql env (create_domain_row i token (si_id s) host method)) (\<lambda>d.
     bind (write_site_audit env ctx ''domain.create'' (Some (si_id s)) None (Some (sd_id d)) (host_details d)) (\<lambda>_.
       ret (d, generate_verification_instructions (sd_host d) (sd_verification_token d) (sd_verification_method d))))))))"

definition list_site_domains :: "sites_env \<Rightarrow> site_ctx \<Rightarrow> string \<Rightarrow> site_domain list sites_act" where
  "list_site_domains env ctx name = bind (require_site env ctx name) (\<lambda>s. isql env (list_domain_rows (si_id s)))"

definition domain_of_site :: "sites_env \<Rightarrow> site \<Rightarrow> string \<Rightarrow> site_domain sites_act" where
  "domain_of_site env s host =
     bind (isql env (get_domain_row host)) (\<lambda>found.
     bind (lift (ok_or (DomainUnverified host) found)) (\<lambda>d.
     bind (lift (if sd_site_id d \<noteq> si_id s then Err (DomainUnverified host) else Ok ())) (\<lambda>_. ret d)))"

definition delete_site_domain :: "sites_env \<Rightarrow> site_ctx \<Rightarrow> string \<Rightarrow> string \<Rightarrow> unit sites_act" where
  "delete_site_domain env ctx name host =
     bind (require_site_permission ctx (admin_permission name)) (\<lambda>_.
     bind (require_site env ctx name) (\<lambda>s.
     bind (domain_of_site env s host) (\<lambda>d.
     bind (isql env (delete_domain_row (sd_id d))) (\<lambda>_.
       write_site_audit env ctx ''domain.delete'' (Some (si_id s)) None (Some (sd_id d)) (host_details d)))))"

definition verify_site_domain :: "sites_env \<Rightarrow> site_ctx \<Rightarrow> string \<Rightarrow> string \<Rightarrow> site_domain sites_act" where
  "verify_site_domain env ctx name host =
     bind (require_site_permission ctx (admin_permission name)) (\<lambda>_.
     bind (require_site env ctx name) (\<lambda>s.
     bind (domain_of_site env s host) (\<lambda>d.
     bind (verify_domain_challenge env (sd_host d) (sd_verification_token d) (sd_verification_method d)) (\<lambda>verified.
       if verified then
         bind sites_clock (\<lambda>now.
         bind (isql env (update_domain_status now (sd_id d) DmVerified None)) (\<lambda>_.
         bind (isql env (get_domain_row host)) (\<lambda>found.
         bind (lift (ok_or (DomainUnverified host) found)) (\<lambda>updated.
         bind (write_site_audit env ctx ''domain.verify'' (Some (si_id s)) None (Some (sd_id d)) (host_details d)) (\<lambda>_.
           ret updated)))))
       else lift (Err (DomainVerificationFailed (sd_host d)))))))"

section \<open>Policies and rendered pages (routes/policies.rs, routes/revalidate.rs)\<close>

definition list_site_policies :: "sites_env \<Rightarrow> site_ctx \<Rightarrow> string \<Rightarrow> site_policy list sites_act" where
  "list_site_policies env ctx name = bind (require_site env ctx name) (\<lambda>s. isql env (get_site_policies (si_id s)))"

definition create_policy :: "sites_env \<Rightarrow> site_ctx \<Rightarrow> string \<Rightarrow> string \<Rightarrow> string \<Rightarrow> site_policy sites_act" where
  "create_policy env ctx name policy_name using_text =
     bind (require_site_permission ctx (admin_permission name)) (\<lambda>_.
     bind (require_site env ctx name) (\<lambda>s.
     bind (new_id env) (\<lambda>i.
     bind (isql env (upsert_site_policy i (si_id s) policy_name None using_text (ye_sha256 env using_text))) (\<lambda>p.
     bind (write_site_audit env ctx ''policy.create'' (Some (si_id s)) None None
             (JObject [(''policy_name'', JString (yp_name p))])) (\<lambda>_.
       ret p)))))"

definition delete_policy :: "sites_env \<Rightarrow> site_ctx \<Rightarrow> string \<Rightarrow> string \<Rightarrow> unit sites_act" where
  "delete_policy env ctx name policy_name =
     bind (require_site_permission ctx (admin_permission name)) (\<lambda>_.
     bind (require_site env ctx name) (\<lambda>s.
     bind (isql env (get_site_policies (si_id s))) (\<lambda>ps.
     bind (lift (ok_or (SiInternal (''policy not found: '' @ policy_name)) (find (\<lambda>p. yp_name p = policy_name) ps))) (\<lambda>p.
     bind (isql env (delete_site_policy (yp_id p))) (\<lambda>_.
       write_site_audit env ctx ''policy.delete'' (Some (si_id s)) None None
         (JObject [(''policy_name'', JString policy_name)]))))))"

text \<open>The count is a 32-bit word.\<close>

fun invalidate_all :: "sites_env \<Rightarrow> uuid \<Rightarrow> string list \<Rightarrow> 32 word \<Rightarrow> (32 word) sites_act" where
  "invalidate_all env site_id [] acc = ret acc"
| "invalidate_all env site_id (s # ss) acc =
     bind (isql env (invalidate_isr site_id s)) (\<lambda>n. invalidate_all env site_id ss (acc + of_nat n))"

definition revalidate :: "sites_env \<Rightarrow> site_ctx \<Rightarrow> string \<Rightarrow> string list \<Rightarrow> string list \<Rightarrow> (32 word) sites_act" where
  "revalidate env ctx name paths tags =
     bind (require_site_permission ctx (admin_permission name)) (\<lambda>_.
     bind (require_site env ctx name) (\<lambda>s.
     bind (invalidate_all env (si_id s) paths 0) (\<lambda>n.
     bind (invalidate_all env (si_id s) tags n) (\<lambda>acc.
     bind (write_site_audit env ctx ''isr.invalidate'' (Some (si_id s)) None None
             (JObject [(''paths'', JArray (map JString paths)), (''tags'', JArray (map JString tags)),
                       (''invalidated_count'', json_int (uint acc))])) (\<lambda>_.
       ret acc)))))"

section \<open>Deployment of a bundle (reactor-server/src/admin/deploy.rs)\<close>

text \<open>
  A site of an unpacked bundle: its manifest where there is one, read and parsed or not, and the files below
  \<open>static\<close>, \<open>dist\<close> and the site itself where these are directories, in the order they are walked; a content is \<open>None\<close> when
  the file cannot be read. The text of an error is left out.
\<close>

record site_entry =
  en_name :: string
  en_framework :: string
  en_manifest :: "site_manifest option option"
  en_static :: "(string \<times> string option) list option"
  en_dist :: "(string \<times> string option) list option"
  en_root :: "(string \<times> string option) list option"

definition known_extensions :: "string list" where
  "known_extensions =
     [''html'', ''htm'', ''css'', ''js'', ''mjs'', ''json'', ''xml'', ''svg'', ''png'', ''jpg'', ''jpeg'', ''gif'', ''webp'',
      ''avif'', ''ico'', ''woff'', ''woff2'', ''ttf'', ''eot'', ''txt'', ''md'', ''pdf'', ''wasm'']"

text \<open>\<open>Path::extension\<close>: what follows the last dot of the file name, unless that is its first byte.\<close>

definition path_extension :: "string \<Rightarrow> string" where
  "path_extension p =
     (let parts = split_char CHR ''.'' (last (split_char CHR ''/'' p)) in
      if length parts < 2 \<or> (length parts = 2 \<and> hd parts = []) then [] else last parts)"

fun upload_files :: "sites_env \<Rightarrow> uuid \<Rightarrow> (string \<times> string option) list \<Rightarrow> 32 word \<Rightarrow> 64 word \<Rightarrow> (32 word \<times> 64 word) sites_act" where
  "upload_files env i [] count bytes = ret (count, bytes)"
| "upload_files env i ((rel, content) # files) count bytes =
     (let ext = path_extension rel in
      if to_lowercase ext \<notin> set known_extensions \<and> ext \<noteq> [] then upload_files env i files count bytes
      else case content of
        None \<Rightarrow> lift (Err (SiInternal ''failed to read''))
      | Some body \<Rightarrow>
          bind (upload_object env sites_bucket (i @ ''/static/'' @ rel) (ye_mime env rel) body) (\<lambda>_.
            upload_files env i files (count + 1) (bytes + of_nat (length body))))"

definition upload_site_assets :: "sites_env \<Rightarrow> uuid \<Rightarrow> (string \<times> string option) list option \<Rightarrow> (32 word \<times> 64 word) sites_act" where
  "upload_site_assets env i assets =
     (case assets of None \<Rightarrow> ret (0, 0) | Some files \<Rightarrow> upload_files env i files 0 0)"

definition entry_assets :: "site_entry \<Rightarrow> (string \<times> string option) list option" where
  "entry_assets e = (case en_static e of Some f \<Rightarrow> Some f | None \<Rightarrow> (case en_dist e of Some f \<Rightarrow> Some f | None \<Rightarrow> en_root e))"

definition default_routes_json :: "json list" where
  "default_routes_json =
     [JObject [(''pattern'', JString ''/''), (''kind'', JString ''static''), (''target'', JString ''index.html'')],
      JObject [(''pattern'', JString ''/*''), (''kind'', JString ''static''), (''target'', JString ''$rest'')]]"

definition manifest_record :: "site_entry \<Rightarrow> site_manifest option \<Rightarrow> json" where
  "manifest_record e m =
     JObject [(''name'', JString (en_name e)), (''framework'', JString (en_framework e)),
       (''routes'', JArray (case m of Some m \<Rightarrow> sm_routes m | None \<Rightarrow> default_routes_json)),
       (''functions'', case m of Some m \<Rightarrow> sm_functions m | None \<Rightarrow> JNull)]"

record site_deploy_info =
  di_site_name :: string
  di_deployment_id :: uuid
  di_asset_count :: "32 word"
  di_asset_bytes :: "64 word"

definition get_or_create_site :: "sites_env \<Rightarrow> uuid \<Rightarrow> string \<Rightarrow> framework \<Rightarrow> site sites_act" where
  "get_or_create_site env org_id name fw =
     bind (isql env (get_site_row (ye_fold_case env) org_id name)) (\<lambda>found.
       case found of Some s \<Rightarrow> ret s | None \<Rightarrow> store_create_site env org_id name fw)"

definition entry_manifest :: "site_entry \<Rightarrow> (site_manifest option, sites_error) result" where
  "entry_manifest e =
     (case en_manifest e of
        None \<Rightarrow> Ok None | Some None \<Rightarrow> Err (ManifestInvalid ''failed to parse site manifest'') | Some (Some m) \<Rightarrow> Ok (Some m))"

definition deployment_routes_of :: "(nat \<Rightarrow> uuid) \<Rightarrow> instant \<Rightarrow> uuid \<Rightarrow> site_manifest option \<Rightarrow> deployment_route list" where
  "deployment_routes_of ids now i m =
     (case m of Some m \<Rightarrow> build_site_routes ids now i m | None \<Rightarrow> build_static_routes ids now i)"

definition deploy_single_site :: "sites_env \<Rightarrow> uuid \<Rightarrow> site_entry \<Rightarrow> site_deploy_info sites_act" where
  "deploy_single_site env org_id e =
     bind (lift (parse_framework (en_framework e))) (\<lambda>fw.
     bind (get_or_create_site env org_id (en_name e) fw) (\<lambda>s.
     bind (lift (entry_manifest e)) (\<lambda>m.
     bind (store_create_deployment env (si_id s) (manifest_record e m) None) (\<lambda>d.
     bind (upload_site_assets env (dp_id d) (entry_assets e)) (\<lambda>(asset_count, asset_bytes).
     bind (new_ids env (case m of Some m \<Rightarrow> length (sm_routes m) | None \<Rightarrow> 2)) (\<lambda>ids.
     bind sites_clock (\<lambda>now.
     bind (isql env (set_deployment_routes (dp_id d) (deployment_routes_of ids now (dp_id d) m))) (\<lambda>_.
     bind (isql env (update_deployment_assets (dp_id d) (sint asset_count) asset_bytes)) (\<lambda>_.
     bind (isql env (update_deployment_status (dp_id d) DpReady None)) (\<lambda>_.
     bind (isql env (promote_row (dp_id d))) (\<lambda>_.
       ret \<lparr>di_site_name = en_name e, di_deployment_id = dp_id d, di_asset_count = asset_count, di_asset_bytes = asset_bytes\<rparr>)))))))))))"

text \<open>The first site that fails ends the phase.\<close>

fun deploy_entries :: "sites_env \<Rightarrow> uuid \<Rightarrow> site_entry list \<Rightarrow> site_deploy_info list sites_act" where
  "deploy_entries env org_id [] = ret []"
| "deploy_entries env org_id (e # es) =
     bind (deploy_single_site env org_id e) (\<lambda>info. bind (deploy_entries env org_id es) (\<lambda>infos. ret (info # infos)))"

definition resolve_default_org :: "sites_env \<Rightarrow> uuid sites_act" where
  "resolve_default_org env = sites_effect (\<lambda>n. lift (
     if ye_fails env n then Err SiDatabase else ok_or (SiInternal ''org not found'') (ye_default_org env)))"

definition deploy_sites :: "sites_env \<Rightarrow> site_entry list \<Rightarrow> site_deploy_info list sites_act" where
  "deploy_sites env entries = bind (resolve_default_org env) (\<lambda>org_id. deploy_entries env org_id entries)"

end
