(* ===== verification/Sites_Steps.thy ===== *)
theory Sites_Steps
  imports Sites_Service
begin

text \<open>
  Runs of the sites service: the calls that change its world, in any order, and the contract \<open>sites_invariant\<close> of a
  property of the tables that survives the statements of the handlers. The contract says which organizations act (\<open>A\<close>), and
  which sites, deployments, domains and policies they reach through their sites (\<open>S\<close>, \<open>D\<close>, \<open>M\<close>, \<open>P\<close>).
\<close>

section \<open>Calls\<close>

datatype sites_call =
    YCreateSite site_ctx string framework
  | YDeleteSite site_ctx string
  | YCreateDeployment site_ctx string json
  | YPromote site_ctx string uuid
  | YRollback site_ctx string "uuid option"
  | YCreateDomain site_ctx string string string
  | YDeleteDomain site_ctx string string
  | YVerifyDomain site_ctx string string
  | YRevalidate site_ctx string "string list" "string list"
  | YCreatePolicy site_ctx string string string
  | YDeletePolicy site_ctx string string
  | YServe web_request
  | YDeploy "site_entry list"
  | YElapse nat

fun perform_sites :: "sites_env \<Rightarrow> sites_call \<Rightarrow> sites_world \<Rightarrow> sites_world" where
  "perform_sites env (YCreateSite ctx name fw) w = snd (create_site env ctx name fw w)"
| "perform_sites env (YDeleteSite ctx name) w = snd (delete_site env ctx name w)"
| "perform_sites env (YCreateDeployment ctx name m) w = snd (create_deployment env ctx name m w)"
| "perform_sites env (YPromote ctx name i) w = snd (promote_deployment env ctx name i w)"
| "perform_sites env (YRollback ctx name to) w = snd (rollback_deployment env ctx name to w)"
| "perform_sites env (YCreateDomain ctx name host method) w = snd (create_site_domain env ctx name host method w)"
| "perform_sites env (YDeleteDomain ctx name host) w = snd (delete_site_domain env ctx name host w)"
| "perform_sites env (YVerifyDomain ctx name host) w = snd (verify_site_domain env ctx name host w)"
| "perform_sites env (YRevalidate ctx name paths tags) w = snd (revalidate env ctx name paths tags w)"
| "perform_sites env (YCreatePolicy ctx name p txt) w = snd (create_policy env ctx name p txt w)"
| "perform_sites env (YDeletePolicy ctx name p) w = snd (delete_policy env ctx name p w)"
| "perform_sites env (YServe q) w = snd (serve_handler env q w)"
| "perform_sites env (YDeploy entries) w = snd (deploy_sites env entries w)"
| "perform_sites env (YElapse n) w = w\<lparr>iw_now := iw_now w + int n\<rparr>"

definition perform_all_sites :: "sites_env \<Rightarrow> sites_call list \<Rightarrow> sites_world \<Rightarrow> sites_world" where
  "perform_all_sites env calls w = foldl (\<lambda>w c. perform_sites env c w) w calls"

text \<open>The organization in whose name a call acts.\<close>

fun call_org :: "sites_env \<Rightarrow> sites_call \<Rightarrow> uuid option" where
  "call_org env (YCreateSite ctx name fw) = Some (yc_org_id ctx)"
| "call_org env (YDeleteSite ctx name) = Some (yc_org_id ctx)"
| "call_org env (YCreateDeployment ctx name m) = Some (yc_org_id ctx)"
| "call_org env (YPromote ctx name i) = Some (yc_org_id ctx)"
| "call_org env (YRollback ctx name to) = Some (yc_org_id ctx)"
| "call_org env (YCreateDomain ctx name host method) = Some (yc_org_id ctx)"
| "call_org env (YDeleteDomain ctx name host) = Some (yc_org_id ctx)"
| "call_org env (YVerifyDomain ctx name host) = Some (yc_org_id ctx)"
| "call_org env (YRevalidate ctx name paths tags) = Some (yc_org_id ctx)"
| "call_org env (YCreatePolicy ctx name p txt) = Some (yc_org_id ctx)"
| "call_org env (YDeletePolicy ctx name p) = Some (yc_org_id ctx)"
| "call_org env (YServe q) = None"
| "call_org env (YDeploy entries) = ye_default_org env"
| "call_org env (YElapse n) = None"

section \<open>Statements\<close>

lemma sites_effect_steps [simp]:
  "sites_effect f w = f (iw_effects w) (w\<lparr>iw_effects := Suc (iw_effects w)\<rparr>)"
  by (simp add: sites_effect_def)

lemma create_site_row_cases:
  obtains "create_site_row ci now i org_id name fw t db = (Err SiDatabase, db)"
  | s where "create_site_row ci now i org_id name fw t db = (Ok s, db\<lparr>i_sites := i_sites db @ [s]\<rparr>)"
      "si_id s = i" "si_org_id s = org_id" "si_current s = None" "\<forall>r \<in> set (i_sites db). si_id r \<noteq> i"
proof (cases "list_ex (\<lambda>r. si_id r = i \<or> (si_org_id r = org_id \<and> ci (si_name r) = ci name)) (i_sites db)")
  case True
  then show ?thesis by (intro that(1)) (simp add: create_site_row_def)
next
  case False
  then show ?thesis by (intro that(2)) (auto simp: create_site_row_def Let_def list_ex_iff)
qed

lemma insert_deployment_cases:
  obtains "insert_deployment i site_id v m u t db = (Err SiDatabase, db)"
  | d where "insert_deployment i site_id v m u t db = (Ok d, db\<lparr>i_deployments := i_deployments db @ [d]\<rparr>)"
      "dp_id d = i" "dp_site_id d = site_id" "dp_status d = ''pending''" "\<forall>r \<in> set (i_deployments db). dp_id r \<noteq> i"
proof (cases "list_ex (\<lambda>r. dp_id r = i \<or> (dp_site_id r = site_id \<and> dp_version r = v)) (i_deployments db)
    \<or> site_by_id site_id db = None")
  case True
  then show ?thesis by (intro that(1)) (simp add: insert_deployment_def Let_def)
next
  case False
  then show ?thesis by (intro that(2)) (auto simp: insert_deployment_def Let_def list_ex_iff)
qed

section \<open>The contract\<close>

locale sites_invariant =
  fixes I :: "sites_db \<Rightarrow> bool" and A S D M P :: "uuid \<Rightarrow> bool"
  assumes S_site: "I db \<Longrightarrow> s \<in> set (i_sites db) \<Longrightarrow> A (si_org_id s) \<Longrightarrow> S (si_id s)"
    and D_deployment: "I db \<Longrightarrow> d \<in> set (i_deployments db) \<Longrightarrow> S (dp_site_id d) \<Longrightarrow> D (dp_id d)"
    and M_domain: "I db \<Longrightarrow> m \<in> set (i_domains db) \<Longrightarrow> S (sd_site_id m) \<Longrightarrow> M (sd_id m)"
    and P_policy: "I db \<Longrightarrow> p \<in> set (i_policies db) \<Longrightarrow> S (yp_site_id p) \<Longrightarrow> P (yp_id p)"
    and I_site: "I db \<Longrightarrow> A (si_org_id s) \<Longrightarrow> si_current s = None \<Longrightarrow> \<forall>r \<in> set (i_sites db). si_id r \<noteq> si_id s \<Longrightarrow>
      I (db\<lparr>i_sites := i_sites db @ [s]\<rparr>)"
    and I_delete_site: "I db \<Longrightarrow> S i \<Longrightarrow> I (snd (delete_site_row i t db))"
    and I_deployment: "I db \<Longrightarrow> S (dp_site_id d) \<Longrightarrow> dp_status d = ''pending'' \<Longrightarrow>
      \<forall>r \<in> set (i_deployments db). dp_id r \<noteq> dp_id d \<Longrightarrow> I (db\<lparr>i_deployments := i_deployments db @ [d]\<rparr>)"
    and I_promote: "I db \<Longrightarrow> D i \<Longrightarrow> I (snd (promote_row i t db))"
    and I_status: "I db \<Longrightarrow> D i \<Longrightarrow> I (snd (update_deployment_status i st detail t db))"
    and I_assets: "I db \<Longrightarrow> D i \<Longrightarrow> I (snd (update_deployment_assets i n b t db))"
    and I_routes: "I db \<Longrightarrow> D i \<Longrightarrow> I (snd (set_deployment_routes i rs t db))"
    and I_domain: "I db \<Longrightarrow> S site_id \<Longrightarrow> I (snd (create_domain_row i token site_id host method t db))"
    and I_delete_domain: "I db \<Longrightarrow> M i \<Longrightarrow> I (snd (delete_domain_row i t db))"
    and I_verify: "I db \<Longrightarrow> M i \<Longrightarrow> I (snd (update_domain_status now i DmVerified None t db))"
    and I_isr: "I db \<Longrightarrow> S site_id \<Longrightarrow> I (snd (invalidate_isr site_id x t db))"
    and I_policy: "I db \<Longrightarrow> S site_id \<Longrightarrow> I (snd (upsert_site_policy i site_id name e raw sha t db))"
    and I_delete_policy: "I db \<Longrightarrow> P i \<Longrightarrow> I (snd (delete_site_policy i t db))"
    and I_audit: "I db \<Longrightarrow> I (db\<lparr>i_audit := a\<rparr>)"
begin

abbreviation (input) J :: "sites_world \<Rightarrow> bool" where
  "J w \<equiv> I (iw_db w)"

lemma inv_isql:
  assumes "\<And>t db r db'. I db \<Longrightarrow> st t db = (r, db') \<Longrightarrow> I db' \<and> (\<forall>a. r = Ok a \<longrightarrow> Q a)"
  shows "inv J (isql env st) Q"
  using assms by (fastforce simp: inv_def wp_def isql_def split: prod.splits result.splits)

lemma inv_write: "(\<And>t db. I db \<Longrightarrow> I (snd (st t db))) \<Longrightarrow> inv J (isql env st) (\<lambda>_. True)"
  by (rule inv_isql) (metis snd_conv)

lemma inv_read: "(\<And>db. I db \<Longrightarrow> Q (f db)) \<Longrightarrow> inv J (isql env (select_si f)) Q"
  by (rule inv_isql) (auto simp: select_si_def)

lemma inv_pure:
  "inv J sites_clock (\<lambda>_. True)" "inv J (new_ids env k) (\<lambda>_. True)" "inv J (new_id env) (\<lambda>_. True)"
  "inv J (http_send env q) (\<lambda>_. True)" "inv J (verify_dns env host token) (\<lambda>_. True)"
  "inv J (sites_effect (\<lambda>n. ret (ye_token env n))) (\<lambda>_. True)"
  by (auto simp: inv_def wp_def sites_clock_def new_ids_def new_id_def bind_def http_send_def verify_dns_def Let_def
    split: option.splits dns_reply.splits)

lemma inv_permission: "inv J (require_site_permission ctx p) (\<lambda>_. True)"
  unfolding require_site_permission_def by (rule inv_lift) simp

lemma inv_audit: "inv J (write_site_audit env ctx e s d m details) (\<lambda>_. True)"
  unfolding write_site_audit_def
  by (rule inv_bind [OF inv_pure(3)], rule inv_write) (simp add: insert_site_audit_def I_audit)

lemma inv_found_site: "A org_id \<Longrightarrow>
    inv J (isql env (get_site_row ci org_id name)) (\<lambda>v. \<forall>s. v = Some s \<longrightarrow> S (si_id s))"
  unfolding get_site_row_def by (rule inv_read) (auto simp: find_Some_iff intro!: S_site)

lemma inv_require_site: "A (yc_org_id ctx) \<Longrightarrow> inv J (require_site env ctx name) (\<lambda>s. S (si_id s))"
  unfolding require_site_def by (rule inv_bind [OF inv_found_site]) (auto intro: inv_lift)

lemma inv_store_site: "A org_id \<Longrightarrow> inv J (store_create_site env org_id name fw) (\<lambda>s. S (si_id s))"
  unfolding store_create_site_def
proof (intro inv_bind [OF inv_pure(3)] inv_bind [OF inv_pure(1)] inv_isql)
  fix i now t db r db'
  assume o': "A org_id" and i: "I db" and st: "create_site_row (ye_fold_case env) now i org_id name fw t db = (r, db')"
  show "I db' \<and> (\<forall>s. r = Ok s \<longrightarrow> S (si_id s))"
    using st o' i I_site [OF i] S_site
    by (cases rule: create_site_row_cases [of "ye_fold_case env" now i org_id name fw t db]) fastforce+
qed

lemma inv_deployment: "S (si_id s) \<Longrightarrow> inv J (deployment_of_site env s i) (\<lambda>d. dp_id d = i \<and> D i)"
  unfolding deployment_of_site_def get_deployment_row_def
proof (rule inv_bind)
  assume s: "S (si_id s)"
  show "inv J (isql env (select_si (deployment_by_id i))) (\<lambda>v. \<forall>d. v = Some d \<longrightarrow> dp_id d = i \<and> (S (dp_site_id d) \<longrightarrow> D i))"
    by (rule inv_read) (auto simp: deployment_by_id_def find_Some_iff dest!: D_deployment [OF _ nth_mem])
  show "inv J (bind (lift (ok_or (DeploymentNotFound i) found)) (\<lambda>d.
      bind (lift (if dp_site_id d \<noteq> si_id s then Err (DeploymentNotFound i) else Ok ())) (\<lambda>_. ret d))) (\<lambda>d. dp_id d = i \<and> D i)"
    if "\<forall>d. found = Some d \<longrightarrow> dp_id d = i \<and> (S (dp_site_id d) \<longrightarrow> D i)" for found
    using that s by (intro inv_bind_lift inv_ret) (auto split: if_splits)
qed

lemma inv_store_deployment: "S site_id \<Longrightarrow> inv J (store_create_deployment env site_id m u) (\<lambda>d. D (dp_id d))"
  unfolding store_create_deployment_def
proof (intro inv_bind [OF inv_pure(3)] inv_bind [where Q = "\<lambda>_. True"])
  show "inv J (isql env (next_deployment_version site_id)) (\<lambda>_. True)"
    by (rule inv_write) (simp add: next_deployment_version_def)
  fix i version
  assume s: "S site_id"
  show "inv J (isql env (insert_deployment i site_id version m u)) (\<lambda>d. D (dp_id d))"
  proof (rule inv_isql)
    fix t db r db' assume i: "I db" and st: "insert_deployment i site_id version m u t db = (r, db')"
    show "I db' \<and> (\<forall>d. r = Ok d \<longrightarrow> D (dp_id d))"
      using st s i I_deployment [OF i] D_deployment
      by (cases rule: insert_deployment_cases [of i site_id version m u t db]) fastforce+
  qed
qed

lemma inv_domain: "S (si_id s) \<Longrightarrow> inv J (domain_of_site env s host) (\<lambda>d. M (sd_id d))"
  unfolding domain_of_site_def get_domain_row_def
proof (rule inv_bind)
  assume s: "S (si_id s)"
  show "inv J (isql env (select_si (\<lambda>db. find (\<lambda>d. sd_host d = host) (i_domains db))))
      (\<lambda>v. \<forall>d. v = Some d \<longrightarrow> S (sd_site_id d) \<longrightarrow> M (sd_id d))"
    by (rule inv_read) (auto simp: find_Some_iff dest!: M_domain [OF _ nth_mem])
  show "inv J (bind (lift (ok_or (DomainUnverified host) found)) (\<lambda>d.
      bind (lift (if sd_site_id d \<noteq> si_id s then Err (DomainUnverified host) else Ok ())) (\<lambda>_. ret d))) (\<lambda>d. M (sd_id d))"
    if "\<forall>d. found = Some d \<longrightarrow> S (sd_site_id d) \<longrightarrow> M (sd_id d)" for found
    using that s by (intro inv_bind_lift inv_ret) (auto split: if_splits)
qed

section \<open>Handlers\<close>

lemmas admin_steps = inv_bind [OF inv_permission] inv_bind [OF inv_require_site] inv_bind [OF inv_audit] inv_bind [OF inv_pure(3)]
  inv_audit inv_ret TrueI

lemma I_create_site: "A (yc_org_id ctx) \<Longrightarrow> inv J (create_site env ctx name fw) (\<lambda>_. True)"
  unfolding create_site_def
  by (intro admin_steps inv_bind_lift inv_bind [OF inv_found_site] inv_bind [OF inv_store_site])

lemma I_delete_site_call: "A (yc_org_id ctx) \<Longrightarrow> inv J (delete_site env ctx name) (\<lambda>_. True)"
  unfolding delete_site_def
  by (intro admin_steps inv_bind [OF inv_write]) (auto intro: I_delete_site)

lemma I_create_deployment: "A (yc_org_id ctx) \<Longrightarrow> inv J (create_deployment env ctx name m) (\<lambda>_. True)"
  unfolding create_deployment_def
  by (intro admin_steps inv_bind [OF inv_store_deployment])

lemma I_promote_call: "A (yc_org_id ctx) \<Longrightarrow> inv J (promote_deployment env ctx name i) (\<lambda>_. True)"
  unfolding promote_deployment_def
  by (intro admin_steps inv_bind [OF inv_deployment] inv_bind_lift inv_bind [OF inv_write]) (auto intro: I_promote)

lemma inv_rollback_target: "inv J (rollback_target env s to) (\<lambda>_. True)"
  unfolding rollback_target_def
  by (intro inv_option inv_ret inv_bind [OF inv_write] inv_if inv_lift TrueI) (auto simp: list_deployment_rows_def select_si_def)

lemma I_rollback: "A (yc_org_id ctx) \<Longrightarrow> inv J (rollback_deployment env ctx name to) (\<lambda>_. True)"
  unfolding rollback_deployment_def
  by (intro admin_steps inv_bind [OF inv_rollback_target] inv_bind [OF inv_deployment] inv_bind [OF inv_write])
    (auto intro: I_promote)

lemma I_create_domain: "A (yc_org_id ctx) \<Longrightarrow> inv J (create_site_domain env ctx name host method) (\<lambda>_. True)"
  unfolding create_site_domain_def
  by (intro admin_steps inv_bind [OF inv_pure(6)] inv_bind [OF inv_write]) (auto intro: I_domain)

lemma I_delete_domain_call: "A (yc_org_id ctx) \<Longrightarrow> inv J (delete_site_domain env ctx name host) (\<lambda>_. True)"
  unfolding delete_site_domain_def
  by (intro admin_steps inv_bind [OF inv_domain] inv_bind [OF inv_write]) (auto intro: I_delete_domain)

lemma inv_challenge: "inv J (verify_domain_challenge env host token method) (\<lambda>_. True)"
  unfolding verify_domain_challenge_def verify_http_def
  by (intro inv_if inv_pure inv_bind [OF inv_pure(4)] inv_lift inv_ret TrueI)

lemma I_verify_call: "A (yc_org_id ctx) \<Longrightarrow> inv J (verify_site_domain env ctx name host) (\<lambda>_. True)"
  unfolding verify_site_domain_def
  by (intro admin_steps inv_bind [OF inv_domain] inv_bind [OF inv_challenge] inv_if inv_bind [OF inv_pure(1)]
      inv_bind [OF inv_write] inv_bind_lift inv_lift) (auto intro: I_verify simp: get_domain_row_def select_si_def)

lemma inv_invalidate: "S site_id \<Longrightarrow> inv J (invalidate_all env site_id xs n) (\<lambda>_. True)"
  by (induction xs arbitrary: n) (auto intro!: inv_ret inv_bind [OF inv_write] I_isr)

lemma I_revalidate: "A (yc_org_id ctx) \<Longrightarrow> inv J (revalidate env ctx name paths tags) (\<lambda>_. True)"
  unfolding revalidate_def
  by (intro admin_steps inv_bind [OF inv_invalidate])

lemma I_create_policy: "A (yc_org_id ctx) \<Longrightarrow> inv J (create_policy env ctx name p txt) (\<lambda>_. True)"
  unfolding create_policy_def
  by (intro admin_steps inv_bind [OF inv_write]) (auto intro: I_policy)

lemma inv_policies: "S site_id \<Longrightarrow> inv J (isql env (get_site_policies site_id)) (\<lambda>ps. \<forall>p \<in> set ps. P (yp_id p))"
  unfolding get_site_policies_def by (rule inv_read) (auto dest: P_policy)

lemma I_delete_policy_call: "A (yc_org_id ctx) \<Longrightarrow> inv J (delete_policy env ctx name p) (\<lambda>_. True)"
  unfolding delete_policy_def
  by (intro admin_steps inv_bind [OF inv_policies] inv_bind_lift inv_bind [OF inv_write])
    (auto intro: I_delete_policy simp: find_Some_iff)

lemma inv_fetch: "inv J (fetch_object env b k) (\<lambda>_. True)"
  unfolding fetch_object_def by (intro inv_bind [OF inv_pure(4)] inv_lift TrueI)

lemma inv_keys: "inv J (try_keys env h cache keys) (\<lambda>_. True)"
proof (induction keys)
  case Nil
  show ?case unfolding try_keys.simps by (rule inv_ret) simp
next
  case (Cons key keys)
  show ?case unfolding try_keys.simps by (intro inv_bind [OF inv_attempt [OF inv_fetch]] inv_sum inv_ret Cons TrueI)
qed

lemma inv_function: "inv J (serve_function env h f p q) (\<lambda>_. True)"
  unfolding serve_function_def invoke_function_def
  by (intro inv_option inv_if inv_lift inv_bind [where Q = "\<lambda>_. True"] inv_pure TrueI)
    (auto split: http_reply.splits intro: inv_lift inv_ret)

lemma inv_dispatch: "inv J (dispatch_decision env h q d) (\<lambda>_. True)"
  by (cases d) (auto simp: dispatch_decision_def serve_static_def intro: inv_keys inv_function inv_lift inv_ret)

lemma inv_reading: "(\<And>t db. snd (st t db) = db) \<Longrightarrow> inv J (isql env st) (\<lambda>_. True)"
  by (rule inv_write) simp

lemma inv_host: "inv J (resolve_host env host) (\<lambda>_. True)"
  unfolding resolve_host_def resolve_preview_def resolve_by_pattern_def
  by (intro inv_option inv_prod inv_ret inv_bind [OF inv_reading] TrueI)
    (auto simp: get_deployment_row_def get_site_by_id_def get_site_by_host_def select_si_def
       intro!: inv_option inv_ret inv_prod inv_bind [OF inv_reading])

lemma I_serve: "inv J (serve_handler env q) (\<lambda>_. True)"
  unfolding serve_handler_def
  by (intro inv_bind [OF inv_host] inv_option inv_if inv_ret inv_bind [OF inv_reading] inv_bind_lift inv_dispatch TrueI)
    (auto simp: get_deployment_routes_def get_deployment_functions_def select_si_def)

lemma inv_upload: "inv J (upload_files env i files n b) (\<lambda>_. True)"
proof (induction env i files n b rule: upload_files.induct)
  case (1 env i count bytes)
  then show ?case unfolding upload_files.simps by (rule inv_ret) simp
next
  case (2 env i rel content files count bytes)
  have up: "inv J (upload_object env sites_bucket (i @ ''/static/'' @ rel) (ye_mime env rel) body) (\<lambda>_. True)" for body
    unfolding upload_object_def by (intro inv_bind [OF inv_pure(4)] inv_lift TrueI)
  show ?case
    unfolding upload_files.simps Let_def
    by (intro inv_if 2(1) inv_option inv_lift inv_bind [OF up] 2(2)) (auto simp: Let_def)
qed

lemma inv_assets: "inv J (upload_site_assets env i assets) (\<lambda>_. True)"
  unfolding upload_site_assets_def by (intro inv_option inv_ret inv_upload TrueI)

lemma I_deploy_site: "A org_id \<Longrightarrow> inv J (deploy_single_site env org_id e) (\<lambda>_. True)"
proof -
  assume o': "A org_id"
  have s: "inv J (get_or_create_site env org_id (en_name e) fw) (\<lambda>s. S (si_id s))" for fw
    unfolding get_or_create_site_def
    by (rule inv_bind [OF inv_found_site [OF o']]) (auto intro!: inv_option inv_ret inv_store_site [OF o'])
  show ?thesis
    unfolding deploy_single_site_def
    by (intro inv_bind_lift inv_bind [OF s] inv_bind [OF inv_store_deployment] inv_bind [OF inv_assets] inv_prod
        inv_bind [OF inv_pure(2)] inv_bind [OF inv_pure(1)] inv_bind [OF inv_write] inv_ret)
      (auto intro: I_routes I_assets I_status I_promote)
qed

lemma I_deploy: "ye_default_org env = None \<or> (\<exists>g. ye_default_org env = Some g \<and> A g) \<Longrightarrow> inv J (deploy_sites env entries) (\<lambda>_. True)"
proof -
  assume o': "ye_default_org env = None \<or> (\<exists>g. ye_default_org env = Some g \<and> A g)"
  have all: "inv J (deploy_entries env g entries) (\<lambda>_. True)" if "A g" for g
  proof (induction entries)
    case Nil
    show ?case unfolding deploy_entries.simps by (rule inv_ret) simp
  next
    case (Cons e entries)
    show ?case unfolding deploy_entries.simps by (intro inv_bind [OF I_deploy_site [OF that]] inv_bind [OF Cons] inv_ret TrueI)
  qed
  have "inv J (resolve_default_org env) A"
    using o' by (auto simp: inv_def wp_def resolve_default_org_def)
  then show ?thesis unfolding deploy_sites_def by (rule inv_bind) (rule all)
qed

lemma I_call: "I (iw_db w) \<Longrightarrow> (\<And>g. call_org env c = Some g \<Longrightarrow> A g) \<Longrightarrow> I (iw_db (perform_sites env c w))"
proof -
  assume i: "I (iw_db w)" and o': "\<And>g. call_org env c = Some g \<Longrightarrow> A g"
  note inv_at [of J, OF _ i]
  note here = this [OF I_create_site] this [OF I_delete_site_call] this [OF I_create_deployment] this [OF I_promote_call]
    this [OF I_rollback] this [OF I_create_domain] this [OF I_delete_domain_call] this [OF I_verify_call] this [OF I_revalidate]
    this [OF I_create_policy] this [OF I_delete_policy_call] this [OF I_serve] this [OF I_deploy]
  show ?thesis using o' i by (cases c) (auto intro!: here)
qed

lemma I_calls:
  "I (iw_db w) \<Longrightarrow> (\<And>c g. c \<in> set calls \<Longrightarrow> call_org env c = Some g \<Longrightarrow> A g) \<Longrightarrow> I (iw_db (perform_all_sites env calls w))"
proof (induction calls arbitrary: w)
  case (Cons c calls)
  have "I (iw_db (perform_sites env c w))" by (rule I_call) (use Cons.prems in auto)
  from Cons.IH [OF this] show ?case using Cons.prems(2) by (simp add: perform_all_sites_def) blast
qed (simp add: perform_all_sites_def)

end

text \<open>
  What is documented of the crates the sites service relies on, and a small instance of them to evaluate the definitions on.
  Before a request is sent, the URL standard (which \<open>url\<close> and so \<open>reqwest\<close> implement) resolves the segments \<open>.\<close> and \<open>..\<close> of a
  path; other segments of unreserved characters stay as they are. \<open>matchit\<close> matches a pattern of characters with the same
  path, and a final \<open>{*name}\<close> with a rest that is not empty; a pattern without parameters is preferred.
\<close>

section \<open>Paths of URLs\<close>

definition is_unreserved :: "char \<Rightarrow> bool" where
  "is_unreserved c \<longleftrightarrow> is_ascii_alphanumeric c \<or> c = CHR ''-'' \<or> c = CHR ''.'' \<or> c = CHR ''_'' \<or> c = CHR ''~''"

definition plain_segment :: "string \<Rightarrow> bool" where
  "plain_segment s \<longleftrightarrow> s \<noteq> [] \<and> list_all is_unreserved s"

definition slash_path :: "string list \<Rightarrow> string" where
  "slash_path segs = concat (map (\<lambda>s. CHR ''/'' # s) segs)"

definition dot_segment :: "string \<Rightarrow> bool" where
  "dot_segment s \<longleftrightarrow> s = ''.'' \<or> s = ''..''"

fun remove_dots :: "string list \<Rightarrow> string list \<Rightarrow> string list" where
  "remove_dots out [] = rev out"
| "remove_dots out (s # ss) =
     (if s = ''.'' then remove_dots out ss else if s = ''..'' then remove_dots (tl out) ss else remove_dots (s # out) ss)"

definition url_standard :: "string \<Rightarrow> (string \<Rightarrow> string option) \<Rightarrow> bool" where
  "url_standard base url \<longleftrightarrow>
     (\<forall>segs. segs \<noteq> [] \<and> list_all plain_segment segs \<and> \<not> dot_segment (last segs) \<longrightarrow>
        url (base @ slash_path segs) = Some (base @ slash_path (remove_dots [] segs)))"

lemma slash_path_simps [simp]:
  "slash_path [] = []" "slash_path (s # ss) = CHR ''/'' # s @ slash_path ss" "slash_path (xs @ ys) = slash_path xs @ slash_path ys"
  by (simp_all add: slash_path_def)

lemma no_slash: "plain_segment s \<Longrightarrow> CHR ''/'' \<notin> set s"
  by (auto simp: plain_segment_def list_all_iff is_unreserved_def ascii_class_defs)

lemma split_slash_path: "list_all plain_segment segs \<Longrightarrow> CHR ''/'' \<notin> set s \<Longrightarrow> split_char CHR ''/'' (s @ slash_path segs) = s # segs"
proof (induction segs arbitrary: s)
  case (Cons t segs)
  then show ?case using split_char_append [of "CHR ''/''" s "t @ slash_path segs"] by (simp add: no_slash)
qed (simp add: split_char_single)

lemma remove_dots_plain: "\<forall>s \<in> set segs. \<not> dot_segment s \<Longrightarrow> remove_dots out segs = rev out @ segs"
  by (induction segs arbitrary: out) (auto simp: dot_segment_def)

lemma remove_dots_append: "remove_dots out (xs @ ys) = remove_dots (rev (remove_dots out xs)) ys"
  by (induction xs arbitrary: out) auto

section \<open>Routers\<close>

text \<open>The route of functions alone in the router: a catch-all takes any rest that is not empty.\<close>

definition router_standard :: "matchit \<Rightarrow> bool" where
  "router_standard mt \<longleftrightarrow>
     mt_insert mt [] ''/api/{*path}'' \<and>
     (\<forall>rest. rest \<noteq> [] \<longrightarrow> mt_at mt [''/api/{*path}''] (''/api/'' @ rest) = Some (0, [(''path'', rest)]))"

definition pattern_match :: "string \<Rightarrow> string \<Rightarrow> (string \<times> string) list option" where
  "pattern_match p path =
     (case find_char CHR 0x7B p of
        None \<Rightarrow> if p = path then Some [] else None
      | Some n \<Rightarrow> if starts_with (take n p) path \<and> drop n path \<noteq> []
          then Some [(takeWhile (\<lambda>c. c \<noteq> CHR 0x7D) (drop (n + 2) p), drop n path)] else None)"

fun sample_match :: "nat \<Rightarrow> string list \<Rightarrow> string \<Rightarrow> (nat \<times> (string \<times> string) list) option" where
  "sample_match n [] path = None"
| "sample_match n (p # ps) path =
     (case pattern_match p path of Some kvs \<Rightarrow> Some (n, kvs) | None \<Rightarrow> sample_match (Suc n) ps path)"

definition sample_matchit :: matchit where
  "sample_matchit = \<lparr>mt_insert = (\<lambda>_ _. True), mt_at = sample_match 0\<rparr>"

lemma sample_router_standard: "router_standard sample_matchit"
proof -
  have "find_char CHR 0x7B ''/api/{*path}'' = Some 5" by code_simp
  then show ?thesis by (simp add: router_standard_def sample_matchit_def pattern_match_def starts_with_def)
qed

section \<open>A small service\<close>

definition sample_base :: string where
  "sample_base = ''http://0.0.0.0:8000''"

definition sample_url :: "string \<Rightarrow> string option" where
  "sample_url u =
     (case strip_prefix sample_base u of
        Some p \<Rightarrow> Some (sample_base @ slash_path (remove_dots [] (tl (split_char CHR ''/'' p)))) | None \<Rightarrow> Some u)"

lemma sample_url_standard: "url_standard sample_base sample_url"
proof -
  have "sample_url (sample_base @ slash_path segs) = Some (sample_base @ slash_path (remove_dots [] segs))"
    if "list_all plain_segment segs" for segs
    using split_slash_path [OF that, of "[]"] by (simp add: sample_url_def)
  then show ?thesis by (simp add: url_standard_def)
qed

text \<open>The n-th identifier is a run of letters, nothing fails, every request is answered \<open>200\<close> with its URL.\<close>

definition sample_sites_env :: sites_env where
  "sample_sites_env =
     \<lparr>ye_fails = (\<lambda>_. False), ye_uuid = (\<lambda>n. replicate (Suc n) CHR ''u''), ye_token = (\<lambda>_. ''t''), ye_fold_case = (\<lambda>s. s),
      ye_parse_uuid = Some, ye_sha256 = (\<lambda>s. s), ye_resolve = (\<lambda>_ _. None), ye_dns = (\<lambda>_ _. TxtRecords [record_value ''t'']),
      ye_url = sample_url, ye_http = (\<lambda>_ q. Reply 200 [] (Some (hq_url q))), ye_matchit = sample_matchit,
      ye_alnum = (\<lambda>_. False), ye_shuffle = (\<lambda>kvs. kvs), ye_mime = (\<lambda>_. ''text/plain''), ye_storage_url = sample_base,
      ye_storage_key = ''admin'', ye_functions_url = sample_base, ye_functions_key = ''admin'', ye_default_org = Some ''h''\<rparr>"

definition site_user :: "uuid \<Rightarrow> string list \<Rightarrow> site_ctx" where
  "site_user org_id permissions =
     \<lparr>yc_auth = \<lparr>ax_claims = \<lparr>cl_sub = ''user_ann'', cl_iss = '''', cl_aud = '''', cl_exp = 0, cl_iat = 0, cl_nbf = None,
        cl_email = None, cl_amr = [], cl_orgs = [], cl_default_org = None, cl_session_id = None, cl_scopes = [],
        cl_mfa_at = None\<rparr>, ax_active_org = Some org_id, ax_permissions = permissions\<rparr>,
      yc_request_id = ''r'', yc_org_id = org_id\<rparr>"

definition plain_site :: "uuid \<Rightarrow> uuid \<Rightarrow> string \<Rightarrow> uuid option \<Rightarrow> site" where
  "plain_site i org_id name current =
     \<lparr>si_id = i, si_org_id = org_id, si_name = name, si_framework = ''static'', si_current = current, si_created_at = 0,
      si_updated_at = 0\<rparr>"

definition plain_deployment :: "uuid \<Rightarrow> uuid \<Rightarrow> string \<Rightarrow> site_deployment" where
  "plain_deployment i site_id status =
     \<lparr>dp_id = i, dp_site_id = site_id, dp_version = 1, dp_manifest = JNull, dp_status = status, dp_status_detail = None,
      dp_asset_count = 0, dp_asset_bytes = 0, dp_deployed_at = 0, dp_deployed_by = None\<rparr>"

definition api_route :: "uuid \<Rightarrow> deployment_route" where
  "api_route deployment_id =
     \<lparr>rw_id = ''q'', rw_deployment_id = deployment_id, rw_pattern = ''/api/:path*'', rw_method_filter = None,
      rw_kind = ''function'', rw_target = ''hello'', rw_cache_rules = JNull, rw_priority = 0, rw_created_at = 0\<rparr>"

text \<open>Two organizations with a site each, and a function route in the site of the first.\<close>

definition sample_sites_world :: sites_world where
  "sample_sites_world =
     \<lparr>iw_db = \<lparr>i_sites = [plain_site ''a'' ''g'' ''blog'' (Some ''d''), plain_site ''b'' ''h'' ''shop'' None],
        i_deployments = [plain_deployment ''d'' ''a'' ''ready''], i_routes = [api_route ''d''], i_functions = [],
        i_domains = [], i_policies = [], i_isr = [], i_audit = []\<rparr>,
      iw_now = 0, iw_fresh = 0, iw_effects = 0, iw_sent = []\<rparr>"

definition visit :: "string \<Rightarrow> string \<Rightarrow> web_request" where
  "visit host path = \<lparr>wr_method = ''GET'', wr_path = path, wr_headers = [(''host'', host)], wr_body = Some []\<rparr>"

end
