(* ===== verification/Sites_Isolation.thy ===== *)
theory Sites_Isolation
  imports Sites_Steps
begin

text \<open>
  What an organization has in the sites service, as a view of the tables, and that calls of other organizations leave
  it as it is: an instance of \<open>sites_invariant\<close>.
\<close>

section \<open>Tables\<close>

lemma filter_update_other:
  "(\<And>r. r \<in> set rows \<Longrightarrow> P r \<Longrightarrow> \<not> Q r \<and> \<not> Q (f r)) \<Longrightarrow> filter Q (update_rows P f rows) = filter Q rows"
  by (induction rows) (auto simp: update_rows_def)

lemma filter_filter_other: "(\<And>r. r \<in> set rows \<Longrightarrow> Q r \<Longrightarrow> P r) \<Longrightarrow> filter Q (filter P rows) = filter Q rows"
  by (induction rows) auto

lemma in_filter: "filter Q xs = ys \<Longrightarrow> x \<in> set xs \<Longrightarrow> Q x \<Longrightarrow> x \<in> set ys"
  by auto

lemma distinct_map_inj: "distinct (map f xs) \<Longrightarrow> x \<in> set xs \<Longrightarrow> y \<in> set xs \<Longrightarrow> f x = f y \<Longrightarrow> x = y"
  by (auto simp: distinct_map dest: inj_onD)

section \<open>The view of an organization\<close>

record sites_view =
  ov_sites :: "site list"
  ov_deployments :: "site_deployment list"
  ov_routes :: "deployment_route list"
  ov_functions :: "deployment_function list"
  ov_domains :: "site_domain list"
  ov_policies :: "site_policy list"
  ov_pages :: "isr_entry list"

definition org_sites :: "uuid \<Rightarrow> sites_db \<Rightarrow> site list" where
  "org_sites g db = filter (\<lambda>s. si_org_id s = g) (i_sites db)"

definition org_deployments :: "uuid \<Rightarrow> sites_db \<Rightarrow> site_deployment list" where
  "org_deployments g db = filter (\<lambda>d. dp_site_id d \<in> si_id ` set (org_sites g db)) (i_deployments db)"

definition sites_view_of :: "uuid \<Rightarrow> sites_db \<Rightarrow> sites_view" where
  "sites_view_of g db =
     (let sites = si_id ` set (org_sites g db); deployments = dp_id ` set (org_deployments g db) in
      \<lparr>ov_sites = org_sites g db, ov_deployments = org_deployments g db,
       ov_routes = filter (\<lambda>r. rw_deployment_id r \<in> deployments) (i_routes db),
       ov_functions = filter (\<lambda>f. df_deployment_id f \<in> deployments) (i_functions db),
       ov_domains = filter (\<lambda>d. sd_site_id d \<in> sites) (i_domains db),
       ov_policies = filter (\<lambda>p. yp_site_id p \<in> sites) (i_policies db),
       ov_pages = filter (\<lambda>e. ie_site_id e \<in> sites) (i_isr db)\<rparr>)"

text \<open>
  Primary keys hold, the current deployment of a site of the organization is a deployment of it, and so is the
  deployment a page was rendered with.
\<close>

definition sound_tables :: "uuid \<Rightarrow> sites_db \<Rightarrow> bool" where
  "sound_tables g db \<longleftrightarrow>
     distinct (map si_id (i_sites db)) \<and> distinct (map dp_id (i_deployments db)) \<and>
     distinct (map sd_id (i_domains db)) \<and> distinct (map yp_id (i_policies db)) \<and>
     (\<forall>s \<in> set (org_sites g db). pred_option (\<lambda>i. i \<in> dp_id ` set (org_deployments g db)) (si_current s)) \<and>
     (\<forall>e \<in> set (i_isr db). ie_site_id e \<in> si_id ` set (org_sites g db) \<longrightarrow>
        ie_deployment_id e \<in> dp_id ` set (org_deployments g db))"

definition unchanged_for :: "uuid \<Rightarrow> sites_view \<Rightarrow> sites_db \<Rightarrow> bool" where
  "unchanged_for g v db \<longleftrightarrow> sites_view_of g db = v \<and> sound_tables g db"

text \<open>The invariant over the fixed rows of the view.\<close>

lemma unchanged_for_iff:
  "unchanged_for g v db \<longleftrightarrow>
     (let S = si_id ` set (ov_sites v); D = dp_id ` set (ov_deployments v) in
      filter (\<lambda>s. si_org_id s = g) (i_sites db) = ov_sites v \<and>
      filter (\<lambda>d. dp_site_id d \<in> S) (i_deployments db) = ov_deployments v \<and>
      filter (\<lambda>r. rw_deployment_id r \<in> D) (i_routes db) = ov_routes v \<and>
      filter (\<lambda>f. df_deployment_id f \<in> D) (i_functions db) = ov_functions v \<and>
      filter (\<lambda>d. sd_site_id d \<in> S) (i_domains db) = ov_domains v \<and>
      filter (\<lambda>p. yp_site_id p \<in> S) (i_policies db) = ov_policies v \<and>
      filter (\<lambda>e. ie_site_id e \<in> S) (i_isr db) = ov_pages v \<and>
      distinct (map si_id (i_sites db)) \<and> distinct (map dp_id (i_deployments db)) \<and>
      distinct (map sd_id (i_domains db)) \<and> distinct (map yp_id (i_policies db)) \<and>
      (\<forall>s \<in> set (ov_sites v). pred_option (\<lambda>i. i \<in> D) (si_current s)) \<and>
      (\<forall>e \<in> set (i_isr db). ie_site_id e \<in> S \<longrightarrow> ie_deployment_id e \<in> D))"
  (is "?l \<longleftrightarrow> ?r")
proof
  assume ?l
  then have v: "v = sites_view_of g db" and sound: "sound_tables g db" by (simp_all add: unchanged_for_def)
  show ?r using sound unfolding v sites_view_of_def sound_tables_def Let_def sites_view.simps org_sites_def org_deployments_def
    by simp
next
  assume r: ?r
  then have "org_sites g db = ov_sites v" by (simp add: org_sites_def Let_def)
  moreover from this r have "org_deployments g db = ov_deployments v" by (simp add: org_deployments_def Let_def)
  ultimately show ?l using r by (simp add: unchanged_for_def sites_view_of_def sound_tables_def Let_def)
qed

lemma other_keys: "distinct (map key xs) \<Longrightarrow> filter Q xs = ys \<Longrightarrow> x \<in> set xs \<Longrightarrow> \<not> Q x \<Longrightarrow> key x \<notin> key ` set ys"
  by (auto dest: distinct_map_inj)

lemma unchanged_for_rows:
  assumes "unchanged_for g v db"
  defines "S \<equiv> si_id ` set (ov_sites v)" and "D \<equiv> dp_id ` set (ov_deployments v)"
  shows "filter (\<lambda>s. si_org_id s = g) (i_sites db) = ov_sites v"
    "filter (\<lambda>d. dp_site_id d \<in> S) (i_deployments db) = ov_deployments v"
    "filter (\<lambda>r. rw_deployment_id r \<in> D) (i_routes db) = ov_routes v"
    "filter (\<lambda>f. df_deployment_id f \<in> D) (i_functions db) = ov_functions v"
    "filter (\<lambda>d. sd_site_id d \<in> S) (i_domains db) = ov_domains v"
    "filter (\<lambda>p. yp_site_id p \<in> S) (i_policies db) = ov_policies v"
    "filter (\<lambda>e. ie_site_id e \<in> S) (i_isr db) = ov_pages v"
    "distinct (map si_id (i_sites db))" "distinct (map dp_id (i_deployments db))"
    "distinct (map sd_id (i_domains db))" "distinct (map yp_id (i_policies db))"
    "\<forall>s \<in> set (ov_sites v). pred_option (\<lambda>i. i \<in> D) (si_current s)"
    "\<forall>e \<in> set (i_isr db). ie_site_id e \<in> S \<longrightarrow> ie_deployment_id e \<in> D"
  using assms(1) unfolding unchanged_for_iff Let_def S_def D_def by blast+

text \<open>Rows of others: what the statements of other organizations reach.\<close>

lemma site_of_other: "unchanged_for g v db \<Longrightarrow> s \<in> set (i_sites db) \<Longrightarrow> si_org_id s \<noteq> g \<Longrightarrow> si_id s \<notin> si_id ` set (ov_sites v)"
  by (rule other_keys [OF unchanged_for_rows(8,1)])

lemma deployment_of_other:
  "unchanged_for g v db \<Longrightarrow> d \<in> set (i_deployments db) \<Longrightarrow> dp_site_id d \<notin> si_id ` set (ov_sites v) \<Longrightarrow>
     dp_id d \<notin> dp_id ` set (ov_deployments v)"
  by (rule other_keys [OF unchanged_for_rows(9,2)])

lemma domain_of_other:
  "unchanged_for g v db \<Longrightarrow> m \<in> set (i_domains db) \<Longrightarrow> sd_site_id m \<notin> si_id ` set (ov_sites v) \<Longrightarrow>
     sd_id m \<notin> sd_id ` set (ov_domains v)"
  by (rule other_keys [OF unchanged_for_rows(10,5)])

lemma policy_of_other:
  "unchanged_for g v db \<Longrightarrow> p \<in> set (i_policies db) \<Longrightarrow> yp_site_id p \<notin> si_id ` set (ov_sites v) \<Longrightarrow>
     yp_id p \<notin> yp_id ` set (ov_policies v)"
  by (rule other_keys [OF unchanged_for_rows(11,6)])

text \<open>The statements, in the terms of the contract.\<close>

lemmas unchanged_unfold = unchanged_for_iff Let_def

lemma unchanged_new_site:
  "unchanged_for g v db \<Longrightarrow> si_org_id s \<noteq> g \<Longrightarrow> \<forall>r \<in> set (i_sites db). si_id r \<noteq> si_id s \<Longrightarrow>
     unchanged_for g v (db\<lparr>i_sites := i_sites db @ [s]\<rparr>)"
  unfolding unchanged_unfold by auto

lemma unchanged_delete_site:
  assumes u: "unchanged_for g v db" and i: "i \<notin> si_id ` set (ov_sites v)"
  shows "unchanged_for g v (snd (delete_site_row i t db))"
proof -
  note r = unchanged_for_rows [OF u]
  let ?P = "\<lambda>d. dp_site_id d = i \<and> site_by_id i db \<noteq> None"
  define gone where "gone k = list_ex (\<lambda>d. dp_id d = k \<and> ?P d) (i_deployments db)" for k
  have gone: "k \<notin> dp_id ` set (ov_deployments v)" if "gone k" for k
    using that deployment_of_other [OF u] i by (auto simp: gone_def list_ex_iff)
  define clear where "clear (s :: site) = (case si_current s of None \<Rightarrow> s | Some k \<Rightarrow> if gone k then s\<lparr>si_current := None\<rparr> else s)" for s
  have clear: "clear s = s" if "s \<in> set (ov_sites v)" for s
    using bspec [OF r(12) that] gone by (auto simp: clear_def split: option.splits)
  have clear_simps: "si_id (clear s) = si_id s" "si_org_id (clear s) = si_org_id s" for s
    by (auto simp: clear_def split: option.splits)
  have "filter (\<lambda>s. si_org_id s = g) (map clear (filter (\<lambda>s. si_id s \<noteq> i) (i_sites db)))
      = map clear (filter (\<lambda>s. si_org_id s = g) (filter (\<lambda>s. si_id s \<noteq> i) (i_sites db)))"
    by (simp add: filter_map o_def clear_simps)
  also have "filter (\<lambda>s. si_org_id s = g) (filter (\<lambda>s. si_id s \<noteq> i) (i_sites db)) = ov_sites v"
    using r(1) i by (subst filter_filter_other) (auto dest: in_filter [OF r(1)])
  also have "map clear (ov_sites v) = ov_sites v" using clear by (simp add: map_idI)
  finally have sites: "filter (\<lambda>s. si_org_id s = g) (map clear (filter (\<lambda>s. si_id s \<noteq> i) (i_sites db))) = ov_sites v" .
  have db': "snd (delete_site_row i t db) = db\<lparr>i_sites := map clear (filter (\<lambda>s. si_id s \<noteq> i) (i_sites db)),
      i_deployments := filter (\<lambda>d. \<not> ?P d) (i_deployments db), i_routes := filter (\<lambda>x. \<not> gone (rw_deployment_id x)) (i_routes db),
      i_functions := filter (\<lambda>x. \<not> gone (df_deployment_id x)) (i_functions db),
      i_domains := filter (\<lambda>d. sd_site_id d \<noteq> i) (i_domains db), i_policies := filter (\<lambda>p. yp_site_id p \<noteq> i) (i_policies db),
      i_isr := filter (\<lambda>e. ie_site_id e \<noteq> i) (filter (\<lambda>e. \<not> gone (ie_deployment_id e)) (i_isr db))\<rparr>"
    by (simp add: delete_site_row_def drop_deployments_def Let_def gone_def clear_def cong: option.case_cong)
  have rows:
    "filter (\<lambda>d. dp_site_id d \<in> si_id ` set (ov_sites v)) (filter (\<lambda>d. \<not> ?P d) (i_deployments db)) = ov_deployments v"
    "filter (\<lambda>d. sd_site_id d \<in> si_id ` set (ov_sites v)) (filter (\<lambda>d. sd_site_id d \<noteq> i) (i_domains db)) = ov_domains v"
    "filter (\<lambda>p. yp_site_id p \<in> si_id ` set (ov_sites v)) (filter (\<lambda>p. yp_site_id p \<noteq> i) (i_policies db)) = ov_policies v"
    using i by (subst filter_filter_other; use r(2,5,6) in blast)+
  have rows':
    "filter (\<lambda>x. rw_deployment_id x \<in> dp_id ` set (ov_deployments v)) (filter (\<lambda>x. \<not> gone (rw_deployment_id x)) (i_routes db)) = ov_routes v"
    "filter (\<lambda>x. df_deployment_id x \<in> dp_id ` set (ov_deployments v)) (filter (\<lambda>x. \<not> gone (df_deployment_id x)) (i_functions db)) = ov_functions v"
    using gone by (subst filter_filter_other; use r(3,4) in blast)+
  have pages: "filter (\<lambda>e. ie_site_id e \<in> si_id ` set (ov_sites v))
      (filter (\<lambda>e. ie_site_id e \<noteq> i) (filter (\<lambda>e. \<not> gone (ie_deployment_id e)) (i_isr db))) = ov_pages v"
    unfolding r(7) [symmetric] filter_filter by (rule filter_cong [OF refl]) (use r(13) gone i in blast)
  show ?thesis
    unfolding db' unchanged_unfold
    by (intro conjI) (use sites rows rows' pages r(8-13) in \<open>simp_all add: distinct_map_filter' o_def clear_simps\<close>)
qed

lemma unchanged_new_deployment:
  "unchanged_for g v db \<Longrightarrow> dp_site_id d \<notin> si_id ` set (ov_sites v) \<Longrightarrow> \<forall>r \<in> set (i_deployments db). dp_id r \<noteq> dp_id d \<Longrightarrow>
     unchanged_for g v (db\<lparr>i_deployments := i_deployments db @ [d]\<rparr>)"
  unfolding unchanged_unfold by auto

lemma unchanged_promote:
  assumes u: "unchanged_for g v db" and i: "i \<notin> dp_id ` set (ov_deployments v)"
  shows "unchanged_for g v (snd (promote_row i t db))"
proof (cases "deployment_by_id i db")
  case (Some d)
  note r = unchanged_for_rows [OF u]
  have d: "d \<in> set (i_deployments db)" "dp_id d = i" using Some by (auto simp: deployment_by_id_def dest: find_mem)
  have "dp_site_id d \<notin> si_id ` set (ov_sites v)"
  proof
    assume "dp_site_id d \<in> si_id ` set (ov_sites v)"
    then have "d \<in> set (ov_deployments v)" using d(1) unfolding r(2) [symmetric] by simp
    then show False using i d(2) by blast
  qed
  then have "filter (\<lambda>s. si_org_id s = g) (update_rows (\<lambda>s. si_id s = dp_site_id d)
      (\<lambda>s. s\<lparr>si_current := Some i, si_updated_at := t\<rparr>) (i_sites db)) = ov_sites v"
    using r(1) by (subst filter_update_other) (auto dest!: in_filter [OF r(1)] intro: rev_image_eqI)
  then show ?thesis
    using u Some unfolding promote_row_def unchanged_unfold by (simp add: map_update_rows)
qed (use u in \<open>simp add: promote_row_def\<close>)

lemma unchanged_update_deployment:
  assumes u: "unchanged_for g v db" and i: "i \<notin> dp_id ` set (ov_deployments v)"
    and f: "\<And>d. dp_id (f d) = dp_id d" "\<And>d. dp_site_id (f d) = dp_site_id d"
  shows "unchanged_for g v (db\<lparr>i_deployments := update_rows (\<lambda>d. dp_id d = i) f (i_deployments db)\<rparr>)"
proof -
  note r = unchanged_for_rows [OF u]
  have "filter (\<lambda>d. dp_site_id d \<in> si_id ` set (ov_sites v)) (update_rows (\<lambda>d. dp_id d = i) f (i_deployments db)) = ov_deployments v"
    using r(2) i f by (subst filter_update_other) (auto dest: in_filter [OF r(2)])
  then show ?thesis using u f unfolding unchanged_unfold by (simp add: map_update_rows)
qed

lemma unchanged_routes:
  assumes u: "unchanged_for g v db" and i: "i \<notin> dp_id ` set (ov_deployments v)"
  shows "unchanged_for g v (snd (set_deployment_routes i rs t db))"
proof -
  note r = unchanged_for_rows [OF u]
  have "filter (\<lambda>x. rw_deployment_id x \<in> dp_id ` set (ov_deployments v)) (filter (\<lambda>x. rw_deployment_id x \<noteq> i) (i_routes db)) = ov_routes v"
    using r(3) i by (subst filter_filter_other) (auto dest: in_filter [OF r(3)])
  then show ?thesis using u i unfolding set_deployment_routes_def Let_def unchanged_unfold by (auto simp: filter_empty_conv)
qed

lemma unchanged_new_domain:
  "unchanged_for g v db \<Longrightarrow> site_id \<notin> si_id ` set (ov_sites v) \<Longrightarrow>
     unchanged_for g v (snd (create_domain_row i token site_id host method t db))"
  unfolding unchanged_unfold create_domain_row_def by (auto simp: list_ex_iff)

lemma unchanged_delete_domain:
  assumes u: "unchanged_for g v db" and i: "i \<notin> sd_id ` set (ov_domains v)"
  shows "unchanged_for g v (snd (delete_domain_row i t db))"
proof -
  note r = unchanged_for_rows [OF u]
  have "filter (\<lambda>d. sd_site_id d \<in> si_id ` set (ov_sites v)) (filter (\<lambda>d. sd_id d \<noteq> i) (i_domains db)) = ov_domains v"
    using r(5) i by (subst filter_filter_other) (auto dest: in_filter [OF r(5)])
  then show ?thesis using u unfolding delete_domain_row_def unchanged_unfold by (simp add: distinct_map_filter')
qed

lemma unchanged_domain_status:
  assumes u: "unchanged_for g v db" and i: "i \<notin> sd_id ` set (ov_domains v)"
  shows "unchanged_for g v (snd (update_domain_status now i st c t db))"
proof -
  note r = unchanged_for_rows [OF u]
  let ?f = "\<lambda>d. d\<lparr>sd_status := show_domain_status st, sd_tls_cert_ref := c, sd_verified_at :=
      (case if st = DmVerified \<or> st = DmActive then Some now else None of Some x \<Rightarrow> Some x | None \<Rightarrow> sd_verified_at d)\<rparr>"
  have "filter (\<lambda>d. sd_site_id d \<in> si_id ` set (ov_sites v)) (update_rows (\<lambda>d. sd_id d = i) ?f (i_domains db)) = ov_domains v"
    using r(5) i by (subst filter_update_other) (auto dest: in_filter [OF r(5)])
  then show ?thesis using u unfolding update_domain_status_def Let_def unchanged_unfold by (simp add: map_update_rows)
qed

lemma unchanged_isr:
  assumes u: "unchanged_for g v db" and i: "site_id \<notin> si_id ` set (ov_sites v)"
  shows "unchanged_for g v (snd (invalidate_isr site_id x t db))"
proof -
  note r = unchanged_for_rows [OF u]
  let ?hit = "\<lambda>e. ie_site_id e = site_id \<and> (ie_path e = x \<or> json_has (ie_tags e) x)"
  have "filter (\<lambda>e. ie_site_id e \<in> si_id ` set (ov_sites v)) (filter (\<lambda>e. \<not> ?hit e) (i_isr db)) = ov_pages v"
    using r(7) i by (subst filter_filter_other) (auto dest: in_filter [OF r(7)])
  then show ?thesis using u unfolding invalidate_isr_def Let_def unchanged_unfold by simp
qed

lemma unchanged_policy:
  assumes u: "unchanged_for g v db" and i: "site_id \<notin> si_id ` set (ov_sites v)"
  shows "unchanged_for g v (snd (upsert_site_policy k site_id name e raw sha t db))"
proof -
  note r = unchanged_for_rows [OF u]
  have "filter (\<lambda>p. yp_site_id p \<in> si_id ` set (ov_sites v)) (update_rows (\<lambda>p. yp_site_id p = site_id \<and> yp_name p = name)
      (\<lambda>p. p\<lparr>yp_using := e, yp_raw_text := raw, yp_sha256 := sha, yp_created_at := t\<rparr>) (i_policies db)) = ov_policies v"
    using r(6) i by (subst filter_update_other) (auto dest: in_filter [OF r(6)])
  then show ?thesis
    using u i unfolding upsert_site_policy_def Let_def unchanged_unfold
    by (auto simp: map_update_rows list_ex_iff split: option.splits)
qed

lemma unchanged_delete_policy:
  assumes u: "unchanged_for g v db" and i: "i \<notin> yp_id ` set (ov_policies v)"
  shows "unchanged_for g v (snd (delete_site_policy i t db))"
proof -
  note r = unchanged_for_rows [OF u]
  have "filter (\<lambda>p. yp_site_id p \<in> si_id ` set (ov_sites v)) (filter (\<lambda>p. yp_id p \<noteq> i) (i_policies db)) = ov_policies v"
    using r(6) i by (subst filter_filter_other) (auto dest: in_filter [OF r(6)])
  then show ?thesis using u unfolding delete_site_policy_def unchanged_unfold by (simp add: distinct_map_filter')
qed

interpretation others: sites_invariant
    "unchanged_for g v" "\<lambda>o'. o' \<noteq> g" "\<lambda>i. i \<notin> si_id ` set (ov_sites v)" "\<lambda>i. i \<notin> dp_id ` set (ov_deployments v)"
    "\<lambda>i. i \<notin> sd_id ` set (ov_domains v)" "\<lambda>i. i \<notin> yp_id ` set (ov_policies v)" for g v
proof unfold_locales
  fix db i st detail t n b
  assume u: "unchanged_for g v db" and i: "i \<notin> dp_id ` set (ov_deployments v)"
  show "unchanged_for g v (snd (update_deployment_status i st detail t db))"
    unfolding update_deployment_status_def snd_conv by (rule unchanged_update_deployment [OF u i]) simp_all
  show "unchanged_for g v (snd (update_deployment_assets i n b t db))"
    unfolding update_deployment_assets_def snd_conv by (rule unchanged_update_deployment [OF u i]) simp_all
next
  fix db a assume "unchanged_for g v db"
  then show "unchanged_for g v (db\<lparr>i_audit := a\<rparr>)" unfolding unchanged_unfold by simp
qed ((rule site_of_other deployment_of_other domain_of_other policy_of_other unchanged_new_site unchanged_delete_site
  unchanged_new_deployment unchanged_promote unchanged_routes unchanged_new_domain unchanged_delete_domain
  unchanged_domain_status unchanged_isr unchanged_policy unchanged_delete_policy; assumption)+)

text \<open>C23. The tables of an organization are safe from the others: whatever calls other organizations make of the sites
  service, with any permissions, in any order and with any failures, among them the deployment of bundles to another organization and the requests
  of visitors, no row of its sites, of their deployments, routes, functions, domains and policies, and of their rendered pages is
  changed, removed or added.\<close>

theorem other_orgs_keep_sites:
  assumes "sound_tables g (iw_db w)" and "\<And>c. c \<in> set calls \<Longrightarrow> call_org env c \<noteq> Some g"
  shows "sites_view_of g (iw_db (perform_all_sites env calls w)) = sites_view_of g (iw_db w)"
proof -
  have "unchanged_for g (sites_view_of g (iw_db w)) (iw_db w)" using assms(1) by (simp add: unchanged_for_def)
  then have "unchanged_for g (sites_view_of g (iw_db w)) (iw_db (perform_all_sites env calls w))"
    by (rule others.I_calls) (use assms(2) in auto)
  then show ?thesis by (simp add: unchanged_for_def)
qed

definition sample_calls :: "sites_call list" where
  "sample_calls = [YCreateDeployment (site_user ''h'' [''*'']) ''shop'' JNull, YRollback (site_user ''h'' [''*'']) ''shop'' (Some ''u''),
     YPromote (site_user ''h'' [''*'']) ''shop'' ''d'', YDeleteSite (site_user ''h'' [''*'']) ''shop'']"

lemma other_orgs_keep_sites_witness:
  "sound_tables ''g'' (iw_db sample_sites_world) \<and> list_all (\<lambda>c. call_org sample_sites_env c \<noteq> Some ''g'') sample_calls \<and>
   sites_view_of ''g'' (iw_db (perform_all_sites sample_sites_env sample_calls sample_sites_world))
     = sites_view_of ''g'' (iw_db sample_sites_world) \<and>
   map si_id (i_sites (iw_db (perform_all_sites sample_sites_env sample_calls sample_sites_world))) = [''a'']"
proof -
  have sound: "sound_tables ''g'' (iw_db sample_sites_world)"
    by (simp add: sound_tables_def sample_sites_world_def org_sites_def org_deployments_def plain_site_def plain_deployment_def)
  have calls: "\<forall>c \<in> set sample_calls. call_org sample_sites_env c \<noteq> Some ''g''"
    by (simp add: sample_calls_def site_user_def)
  have run: "map si_id (i_sites (iw_db (perform_all_sites sample_sites_env sample_calls sample_sites_world))) = [''a'']"
    by code_simp
  show ?thesis
    unfolding list_all_iff using sound calls run other_orgs_keep_sites [OF sound, of sample_calls sample_sites_env] by blast
qed

end
