(* ===== verification/Sites_Hosts.thy ===== *)
theory Sites_Hosts
  imports Sites_Steps
begin

text \<open>
  Which hosts are served, and with what: two instances of \<open>sites_invariant\<close>, where every organization acts and every row is
  within reach. No statement of the service makes a domain active, and the current deployment of a site stays one of
  its own.
\<close>

section \<open>Domains do not become active\<close>

definition no_active_domain :: "sites_db \<Rightarrow> bool" where
  "no_active_domain db \<longleftrightarrow> (\<forall>d \<in> set (i_domains db). sd_status d \<noteq> ''active'')"

interpretation inactive: sites_invariant no_active_domain "\<lambda>_. True" "\<lambda>_. True" "\<lambda>_. True" "\<lambda>_. True" "\<lambda>_. True"
  by unfold_locales (auto simp: no_active_domain_def delete_site_row_def drop_deployments_def promote_row_def
    update_deployment_status_def update_deployment_assets_def set_deployment_routes_def create_domain_row_def
    delete_domain_row_def update_domain_status_def set_update_rows invalidate_isr_def upsert_site_policy_def delete_site_policy_def
    Let_def split: option.splits)

lemma unserved_host:
  assumes "no_active_domain (iw_db w)" and "parse_preview_host env host = None"
  shows "\<exists>w'. iw_sent w' = iw_sent w \<and>
    (resolve_host env host w = (Ok None, w') \<or> resolve_host env host w = (Err SiDatabase, w'))"
proof -
  have none: "find (\<lambda>d. sd_host d = host \<and> sd_status d = ''active'') (i_domains (iw_db w)) = None"
    using assms(1) by (auto simp: find_None_iff no_active_domain_def)
  show ?thesis
    using assms(2) none
    by (auto simp: resolve_host_def bind_def isql_def get_site_by_host_def select_si_def resolve_by_pattern_def
      split: option.splits)
qed

text \<open>Custom domains are not served. From tables without an active domain, whatever calls are made, the creation and the
  successful verification of domains and the deployment of sites among them, a request for any host that is not a
  preview host is answered with the page that nothing is found, or with a failure of the database, and nothing is fetched for it.
  This holds for hosts below \<open>reactor.app\<close> too.\<close>

theorem custom_domains_are_not_served:
  assumes "no_active_domain (iw_db w)" and "header_text (wr_headers q) ''host'' = Some host"
    and "parse_preview_host env host = None"
  shows "let w' = perform_all_sites env calls w; r = serve_handler env q w' in
    fst r \<in> {Ok not_found_response, Err SiDatabase} \<and> iw_sent (snd r) = iw_sent w'"
proof -
  let ?w = "perform_all_sites env calls w"
  have "no_active_domain (iw_db ?w)" by (rule inactive.I_calls [OF assms(1)]) simp
  from unserved_host [OF this assms(3)] obtain w1 where "iw_sent w1 = iw_sent ?w"
    "resolve_host env host ?w = (Ok None, w1) \<or> resolve_host env host ?w = (Err SiDatabase, w1)" by blast
  then show ?thesis using assms(2) by (auto simp: serve_handler_def bind_def Let_def)
qed

definition domain_calls :: "sites_call list" where
  "domain_calls = [YCreateDomain (site_user ''g'' [''*'']) ''blog'' ''blog.org'' ''dns'',
     YVerifyDomain (site_user ''g'' [''*'']) ''blog'' ''blog.org'']"

lemma custom_domains_are_not_served_witness:
  "map sd_status (i_domains (iw_db (perform_all_sites sample_sites_env domain_calls sample_sites_world))) = [''verified''] \<and>
   fst (serve_handler sample_sites_env (visit ''blog.org'' ''/'')
     (perform_all_sites sample_sites_env domain_calls sample_sites_world)) \<in> {Ok not_found_response, Err SiDatabase}"
proof -
  have run: "map sd_status (i_domains (iw_db (perform_all_sites sample_sites_env domain_calls sample_sites_world))) = [''verified'']"
    by code_simp
  have "no_active_domain (iw_db sample_sites_world)" by (simp add: no_active_domain_def sample_sites_world_def)
  moreover have "header_text (wr_headers (visit ''blog.org'' ''/'')) ''host'' = Some ''blog.org''" by code_simp
  moreover have "parse_preview_host sample_sites_env ''blog.org'' = None" by code_simp
  ultimately show ?thesis
    using run custom_domains_are_not_served [where env = sample_sites_env and calls = domain_calls] unfolding Let_def by blast
qed

section \<open>Current deployments\<close>

definition current_of_site :: "sites_db \<Rightarrow> bool" where
  "current_of_site db \<longleftrightarrow> distinct (map dp_id (i_deployments db)) \<and>
     (\<forall>s \<in> set (i_sites db). \<forall>i. si_current s = Some i \<longrightarrow>
        (\<exists>d \<in> set (i_deployments db). dp_id d = i \<and> dp_site_id d = si_id s))"

lemma current_update:
  assumes c: "current_of_site db" and f: "\<And>d. dp_id (f d) = dp_id d" "\<And>d. dp_site_id (f d) = dp_site_id d"
  shows "current_of_site (db\<lparr>i_deployments := update_rows P f (i_deployments db)\<rparr>)"
  unfolding current_of_site_def
proof (intro conjI ballI allI impI)
  show "distinct (map dp_id (i_deployments (db\<lparr>i_deployments := update_rows P f (i_deployments db)\<rparr>)))"
    using c f by (simp add: current_of_site_def map_update_rows)
  fix s i assume "s \<in> set (i_sites (db\<lparr>i_deployments := update_rows P f (i_deployments db)\<rparr>))" "si_current s = Some i"
  then obtain d where "d \<in> set (i_deployments db)" "dp_id d = i" "dp_site_id d = si_id s"
    using c by (auto simp: current_of_site_def)
  then show "\<exists>d \<in> set (i_deployments (db\<lparr>i_deployments := update_rows P f (i_deployments db)\<rparr>)). dp_id d = i \<and> dp_site_id d = si_id s"
    using f by (intro bexI [of _ "if P d then f d else d"]) (use in_update_rows [of d "i_deployments db" P f] in auto)
qed

lemma current_promote: "current_of_site db \<Longrightarrow> current_of_site (snd (promote_row i t db))"
proof (cases "deployment_by_id i db")
  case (Some d)
  then have d: "d \<in> set (i_deployments db)" "dp_id d = i" by (auto simp: deployment_by_id_def dest: find_mem)
  assume c: "current_of_site db"
  have "\<exists>d \<in> set (i_deployments db). dp_id d = k \<and> dp_site_id d = si_id s"
    if s: "s \<in> set (update_rows (\<lambda>s. si_id s = dp_site_id d) (\<lambda>s. s\<lparr>si_current := Some i, si_updated_at := t\<rparr>) (i_sites db))"
      and k: "si_current s = Some k" for s k
  proof -
    from s obtain s0 where s0: "s0 \<in> set (i_sites db)"
      "s = (if si_id s0 = dp_site_id d then s0\<lparr>si_current := Some i, si_updated_at := t\<rparr> else s0)"
      by (auto simp: set_update_rows)
    show ?thesis
    proof (cases "si_id s0 = dp_site_id d")
      case True
      then show ?thesis using s0 k d by auto
    next
      case False
      then show ?thesis using s0 k c unfolding current_of_site_def by auto
    qed
  qed
  then show ?thesis using Some c unfolding promote_row_def current_of_site_def by simp
qed (simp add: promote_row_def)

lemma current_delete_site:
  assumes c: "current_of_site db"
  shows "current_of_site (snd (delete_site_row i t db))"
  unfolding current_of_site_def
proof (intro conjI ballI allI impI)
  let ?db = "snd (delete_site_row i t db)" and ?P = "\<lambda>d. dp_site_id d = i \<and> site_by_id i db \<noteq> None"
  have deployments: "i_deployments ?db = filter (\<lambda>d. \<not> ?P d) (i_deployments db)"
    by (simp add: delete_site_row_def drop_deployments_def Let_def)
  show "distinct (map dp_id (i_deployments ?db))"
    using c unfolding deployments by (simp add: current_of_site_def distinct_map_filter')
  fix s' k
  assume "s' \<in> set (i_sites ?db)" and k: "si_current s' = Some k"
  then obtain s where s: "s \<in> set (i_sites db)" "si_current s = Some k" "si_id s' = si_id s"
      and kept: "\<not> list_ex (\<lambda>d. dp_id d = k \<and> ?P d) (i_deployments db)"
    by (auto simp: delete_site_row_def drop_deployments_def Let_def split: option.splits if_splits)
  from c s obtain d where d: "d \<in> set (i_deployments db)" "dp_id d = k" "dp_site_id d = si_id s"
    unfolding current_of_site_def by blast
  with kept have "d \<in> set (i_deployments ?db)" unfolding deployments by (auto simp: list_ex_iff)
  with d s show "\<exists>d \<in> set (i_deployments ?db). dp_id d = k \<and> dp_site_id d = si_id s'" by auto
qed

lemma current_same:
  "current_of_site db \<Longrightarrow> i_sites db' = i_sites db \<Longrightarrow> i_deployments db' = i_deployments db \<Longrightarrow> current_of_site db'"
  by (simp add: current_of_site_def)

interpretation own: sites_invariant current_of_site "\<lambda>_. True" "\<lambda>_. True" "\<lambda>_. True" "\<lambda>_. True" "\<lambda>_. True"
proof unfold_locales
  fix db i st detail t n b
  assume c: "current_of_site db"
  show "current_of_site (snd (update_deployment_status i st detail t db))"
    unfolding update_deployment_status_def snd_conv by (rule current_update [OF c]) simp_all
  show "current_of_site (snd (update_deployment_assets i n b t db))"
    unfolding update_deployment_assets_def snd_conv by (rule current_update [OF c]) simp_all
next
  fix db :: sites_db and d :: site_deployment
  assume "current_of_site db" "\<forall>r \<in> set (i_deployments db). dp_id r \<noteq> dp_id d"
  then show "current_of_site (db\<lparr>i_deployments := i_deployments db @ [d]\<rparr>)" by (fastforce simp: current_of_site_def)
next
  fix db :: sites_db and s :: site
  assume "current_of_site db" "si_current s = None"
  then show "current_of_site (db\<lparr>i_sites := i_sites db @ [s]\<rparr>)" by (auto simp: current_of_site_def)
qed (erule current_promote | erule current_delete_site | rule TrueI |
  (erule current_same; simp add: set_deployment_routes_def create_domain_row_def delete_domain_row_def update_domain_status_def
    invalidate_isr_def upsert_site_policy_def delete_site_policy_def Let_def split: option.split))+

text \<open>C25. A visitor is served a deployment of the site the host stands for: in every state the calls reach from sound tables, with
  any failures, where a host is resolved the deployment belongs to the site, and it is the current one of the site unless the host
  names it.\<close>

theorem hosts_resolve_to_own_deployments:
  assumes "current_of_site (iw_db w)" and "resolve_host env host (perform_all_sites env calls w) = (Ok (Some h), w')"
  shows "dp_site_id (rh_deployment h) = si_id (rh_site h) \<and>
    (if rh_is_preview h then map_option fst (parse_preview_host env host) = Some (dp_id (rh_deployment h))
     else si_current (rh_site h) = Some (dp_id (rh_deployment h)))"
proof -
  let ?w = "perform_all_sites env calls w"
  have "current_of_site (iw_db ?w)" by (rule own.I_calls [OF assms(1)]) simp
  then have own: "dp_site_id d = si_id s" if "s \<in> set (i_sites (iw_db ?w))" "si_current s = Some (dp_id d)"
      "d \<in> set (i_deployments (iw_db ?w))" for s d
    using that unfolding current_of_site_def distinct_map by (metis inj_onD)
  show ?thesis
  proof (cases "parse_preview_host env host")
    case None
    then show ?thesis
      using assms(2) own
      by (auto simp: resolve_host_def resolve_by_pattern_def bind_Ok isql_def select_si_def get_site_by_host_def
        deployment_by_id_def site_by_id_def bind_eq_Some_conv dest!: find_mem split: option.splits if_splits)
  next
    case (Some p)
    then show ?thesis
      using assms(2)
      by (auto simp: resolve_host_def resolve_preview_def bind_Ok isql_def select_si_def get_deployment_row_def
        get_site_by_id_def deployment_by_id_def site_by_id_def dest!: find_mem split: option.splits if_splits prod.splits)
  qed
qed

definition active_world :: sites_world where
  "active_world = sample_sites_world\<lparr>iw_db := (iw_db sample_sites_world)\<lparr>i_domains :=
     [\<lparr>sd_id = ''m'', sd_site_id = ''a'', sd_host = ''blog.org'', sd_status = ''active'', sd_verification_token = ''t'',
       sd_verification_method = ''dns'', sd_tls_cert_ref = None, sd_tls_expires_at = None, sd_verified_at = None,
       sd_created_at = 0\<rparr>]\<rparr>\<rparr>"

definition release_calls :: "sites_call list" where
  "release_calls = [YCreateDeployment (site_user ''g'' [''*'']) ''blog'' JNull, YRollback (site_user ''g'' [''*'']) ''blog'' (Some ''u'')]"

lemma hosts_resolve_to_own_deployments_witness:
  "current_of_site (iw_db active_world) \<and>
   (\<exists>h w'. resolve_host sample_sites_env ''blog.org'' (perform_all_sites sample_sites_env release_calls active_world) = (Ok (Some h), w') \<and>
     \<not> rh_is_preview h \<and> dp_id (rh_deployment h) = ''u'' \<and> dp_site_id (rh_deployment h) = si_id (rh_site h))"
proof -
  have sound: "current_of_site (iw_db active_world)"
    by (simp add: current_of_site_def active_world_def sample_sites_world_def plain_site_def plain_deployment_def)
  let ?r = "resolve_host sample_sites_env ''blog.org'' (perform_all_sites sample_sites_env release_calls active_world)"
  have run: "(case fst ?r of Ok (Some h) \<Rightarrow> Some (rh_is_preview h, dp_id (rh_deployment h)) | _ \<Rightarrow> None) = Some (False, ''u'')"
    by code_simp
  then obtain h w' where h: "?r = (Ok (Some h), w')" "\<not> rh_is_preview h" "dp_id (rh_deployment h) = ''u''"
    by (cases ?r) (auto split: result.splits option.splits)
  with sound hosts_resolve_to_own_deployments [OF sound h(1)] show ?thesis by blast
qed

end
