(* ===== verification/Sites_Visitors.thy ===== *)
theory Sites_Visitors
  imports Sites_Steps
begin

text \<open>
  What a visitor of a site can make the unified server do: the composition of the sites service with the server that holds
  it (\<open>crates/reactor-server/src/compose/sites.rs\<close>) and with the middleware of the administration
  (\<open>crates/reactor-server/src/admin/auth.rs\<close>).
\<close>

section \<open>Composition (compose/sites.rs)\<close>

text \<open>The clients of the service call the server itself, with the token of the administration.\<close>

definition loopback_url :: "string \<Rightarrow> string" where
  "loopback_url server_bind = ''http://'' @ server_bind"

definition sites_slot :: "string \<Rightarrow> string \<Rightarrow> sites_env \<Rightarrow> sites_env" where
  "sites_slot server_bind admin_token env =
     env\<lparr>ye_functions_url := loopback_url server_bind, ye_functions_key := admin_token,
         ye_storage_url := loopback_url server_bind, ye_storage_key := admin_token\<rparr>"

section \<open>Administration (admin/auth.rs)\<close>

record admin_auth_state =
  aa_token :: string
  aa_allow_remote :: bool

text \<open>The status a request is refused with; \<open>loopback\<close> is whether it comes from the machine itself, where that is known.\<close>

definition admin_auth_middleware :: "admin_auth_state \<Rightarrow> bool option \<Rightarrow> (string \<times> string) list \<Rightarrow> nat option" where
  "admin_auth_middleware st loopback hs =
     (if \<not> aa_allow_remote st \<and> loopback \<noteq> Some True then Some 403
      else case header_text hs ''authorization'' of
        None \<Rightarrow> Some 401
      | Some h \<Rightarrow> (case strip_prefix ''Bearer '' h of
          None \<Rightarrow> Some 401
        | Some token \<Rightarrow> if token = aa_token st then None else Some 401))"

section \<open>The request that is sent\<close>

lemma convert_api: "convert_pattern alnum ''/api/:path*'' = ''/api/{*path}''"
  by (simp add: take_name.simps is_alphanumeric_def utf8_len_def is_ascii_def ascii_class_defs Let_def)

lemma keys_insert_header: "fst ` set (insert_header kv hs) \<subseteq> insert (fst kv) (fst ` set hs)"
  by (auto simp: insert_header_def)

lemma keys_copied: "fst ` set (fold insert_header hs out) \<subseteq> fst ` set hs \<union> fst ` set out"
proof (induction hs arbitrary: out)
  case (Cons h hs)
  have "fst ` set (fold insert_header hs (insert_header h out)) \<subseteq> fst ` set hs \<union> insert (fst h) (fst ` set out)"
    using Cons [of "insert_header h out"] keys_insert_header [of h out] by blast
  then show ?case by auto
qed simp

lemma keys_forwarded: "n \<in> fst ` set (forwarded_headers h hs) \<Longrightarrow> n \<in> fst ` set hs \<or> n = ''x-reactor-site'' \<or> n = ''x-reactor-preview''"
proof -
  let ?v = "if is_header_text (si_name (rh_site h)) then si_name (rh_site h) else ''unknown''"
  let ?c = "fold insert_header (end_to_end hs) []" and ?site = "(''x-reactor-site'', ?v)" and ?preview = "(''x-reactor-preview'', ''true'')"
  assume n: "n \<in> fst ` set (forwarded_headers h hs)"
  have "n \<in> insert (fst ?preview) (fst ` set (insert_header ?site ?c))"
    using n keys_insert_header [of ?preview "insert_header ?site ?c"] unfolding forwarded_headers_def Let_def
    by (cases "rh_is_preview h") (simp only: if_True if_False; blast)+
  then have "n = fst ?preview \<or> n = fst ?site \<or> n \<in> fst ` set ?c" using keys_insert_header [of ?site ?c] by blast
  moreover have "fst ` set ?c \<subseteq> fst ` set hs" using keys_copied [of "end_to_end hs" "[]"] by (auto simp: end_to_end_def)
  ultimately show ?thesis by (simp only: fst_conv) blast
qed

lemma admin_accepts:
  assumes "''authorization'' \<notin> fst ` set hs" and "is_header_text token"
  shows "admin_auth_middleware \<lparr>aa_token = token, aa_allow_remote = remote\<rparr> (Some True)
    (forwarded_headers h hs @ [bearer_header token]) = None"
proof -
  have "''authorization'' \<notin> fst ` set (forwarded_headers h hs)" using keys_forwarded [of "''authorization''" h hs] assms(1) by auto
  then have "map_of (forwarded_headers h hs) ''authorization'' = None" by (simp add: map_of_eq_None_iff)
  moreover have "is_header_text (''Bearer '' @ token)" using assms(2) by (simp add: is_header_text_def)
  ultimately have "header_text (forwarded_headers h hs @ [bearer_header token]) ''authorization'' = Some (''Bearer '' @ token)"
    by (simp add: header_text_def bearer_header_def map_add_def)
  then show ?thesis unfolding admin_auth_middleware_def by (simp only: option.case strip_prefix_append) simp
qed

text \<open>The detour: out of the directory of the function and of its service, to the root of the server.\<close>

lemma detour:
  assumes "url_standard base url" and "plain_segment f" "\<not> dot_segment f"
    and "segs \<noteq> []" "list_all plain_segment segs" "\<forall>s \<in> set segs. \<not> dot_segment s"
  shows "url (function_url base f (''../../..'' @ slash_path segs)) = Some (base @ slash_path segs)"
proof -
  let ?all = "[''fn'', ''v1'', f, ''..'', ''..'', ''..''] @ segs"
  have whole: "function_url base f (''../../..'' @ slash_path segs) = base @ slash_path ?all" by (simp add: function_url_def)
  have "remove_dots [] ?all = segs"
    using assms(3,6) by (simp add: dot_segment_def remove_dots_plain)
  moreover have "list_all plain_segment ?all"
    using assms(2,5) by (simp add: plain_segment_def is_unreserved_def ascii_class_defs)
  moreover have "\<not> dot_segment (last ?all)" using assms(4,6) by simp
  ultimately show ?thesis unfolding whole using assms(1) [unfolded url_standard_def, rule_format, of ?all] by simp
qed

text \<open>A deployment whose one route sends \<open>/api/...\<close> to a function, on a preview host.\<close>

definition serves_function :: "sites_env \<Rightarrow> sites_db \<Rightarrow> string \<Rightarrow> string \<Rightarrow> site \<Rightarrow> site_deployment \<Rightarrow> bool" where
  "serves_function env db host f s d \<longleftrightarrow>
     map_option fst (parse_preview_host env host) = Some (dp_id d) \<and> deployment_by_id (dp_id d) db = Some d \<and>
     dp_status d = ''ready'' \<and> site_by_id (dp_site_id d) db = Some s \<and>
     (\<exists>r. filter (\<lambda>r. rw_deployment_id r = dp_id d) (i_routes db) = [r] \<and> rw_pattern r = ''/api/:path*'' \<and>
        rw_method_filter r = None \<and> rw_kind r = ''function'' \<and> rw_target r = f)"

text \<open>The request is answered by the function with what follows \<open>/api/\<close>.\<close>

lemma function_request:
  assumes "serves_function env (iw_db w) host f s d" and "router_standard (ye_matchit env)" and "\<And>n. \<not> ye_fails env n"
    and "header_text (wr_headers q) ''host'' = Some host" and "wr_path q = ''/api/'' @ x" "x \<noteq> []"
  shows "serve_handler env q w = serve_function env \<lparr>rh_site = s, rh_deployment = d, rh_is_preview = True\<rparr> f x q
    (w\<lparr>iw_effects := iw_effects w + 4\<rparr>)"
proof -
  obtain r p where r: "filter (\<lambda>r. rw_deployment_id r = dp_id d) (i_routes (iw_db w)) = [r]" "rw_pattern r = ''/api/:path*''"
      "rw_method_filter r = None" "rw_kind r = ''function''" "rw_target r = f"
    and p: "parse_preview_host env host = Some (dp_id d, p)"
    using assms(1) by (auto simp: serves_function_def)
  have router: "mt_insert (ye_matchit env) [] ''/api/{*path}''"
      "mt_at (ye_matchit env) [''/api/{*path}''] (''/api/'' @ x) = Some (0, [(''path'', x)])"
    using assms(2,6) unfolding router_standard_def by blast+
  have "order_desc key [r] = [r]" for key :: "deployment_route \<Rightarrow> int" by (simp add: order_desc_def)
  then show ?thesis
    using assms(1,3,4,5) r p router
    by (simp add: serve_handler_def resolve_host_def resolve_preview_def bind_def isql_def get_deployment_row_def get_site_by_id_def
      select_si_def serves_function_def get_deployment_routes_def get_deployment_functions_def resolver_from_routes_def
      add_route_def entry_of_route_def convert_api Let_def resolve_route_def match_route_def build_decision_def collect_map_def
      dispatch_decision_def numeral_eq_Suc del: convert_pattern.simps)
qed

text \<open>C1. A visitor of a site with a function route acts as the operator of the server. The site is served by the unified
  server, whose clients hold the token of the administration; the HTTP client follows the URL standard and the router its
  documentation. Then for every path on the server there is a path below \<open>/api/\<close> with which an unauthenticated request makes the
  server send exactly that request to itself, with the visitor's method and body, and the middleware of the administration
  lets it through, although it admits requests of the machine itself only.\<close>

theorem visitors_act_as_operator:
  fixes server_bind token :: string and env0 :: sites_env
  defines "env \<equiv> sites_slot server_bind token env0" and "base \<equiv> loopback_url server_bind"
  assumes served: "serves_function env (iw_db w) host f s d" and f: "plain_segment f" "\<not> dot_segment f"
    and crates: "url_standard base (ye_url env)" "router_standard (ye_matchit env)" and up: "\<And>n. \<not> ye_fails env n"
    and segs: "segs \<noteq> []" "list_all plain_segment segs" "\<forall>s \<in> set segs. \<not> dot_segment s"
    and q: "header_text (wr_headers q) ''host'' = Some host" "''authorization'' \<notin> fst ` set (wr_headers q)"
      "wr_path q = ''/api/../../..'' @ slash_path segs" "wr_body q = Some body" "length body \<le> 10 * 1024 * 1024"
    and token: "is_header_text token"
  shows "\<exists>p. iw_sent (snd (serve_handler env q w)) = iw_sent w @ [p] \<and> hq_url p = base @ slash_path segs \<and>
    hq_method p = forwarded_method (wr_method q) \<and> hq_body p = body \<and>
    admin_auth_middleware \<lparr>aa_token = token, aa_allow_remote = False\<rparr> (Some True) (hq_headers p) = None"
proof -
  let ?h = "\<lparr>rh_site = s, rh_deployment = d, rh_is_preview = True\<rparr>" and ?x = "''../../..'' @ slash_path segs"
  let ?p = "\<lparr>hq_method = forwarded_method (wr_method q), hq_url = base @ slash_path segs,
      hq_headers = forwarded_headers ?h (wr_headers q) @ [bearer_header token], hq_body = body\<rparr>"
  have slot: "ye_functions_url env = base" "ye_functions_key env = token" by (simp_all add: env_def sites_slot_def base_def)
  have "serve_handler env q w = serve_function env ?h f ?x q (w\<lparr>iw_effects := iw_effects w + 4\<rparr>)"
    by (rule function_request [OF served crates(2) up q(1)]) (simp_all add: q(3))
  moreover have "iw_sent (snd (serve_function env ?h f ?x q (w\<lparr>iw_effects := iw_effects w + 4\<rparr>))) = iw_sent w @ [?p]"
    using q(4,5) detour [OF crates(1) f segs] slot
    by (simp add: serve_function_def invoke_function_def http_send_def bind_def Let_def split: http_reply.splits result.splits)
  ultimately show ?thesis using admin_accepts [OF q(2) token, of False ?h] by (intro exI [of _ ?p]) simp
qed

lemma visitors_act_as_operator_witness:
  "\<exists>p. iw_sent (snd (serve_handler sample_sites_env
      \<lparr>wr_method = ''POST'', wr_path = ''/api/../../../_admin/deploy'', wr_headers = [(''host'', ''d.preview.blog.org'')],
       wr_body = Some ''bundle''\<rparr> sample_sites_world)) = [p] \<and>
     hq_url p = ''http://0.0.0.0:8000/_admin/deploy'' \<and> hq_method p = ''POST'' \<and> hq_body p = ''bundle'' \<and>
     admin_auth_middleware \<lparr>aa_token = ''admin'', aa_allow_remote = False\<rparr> (Some True) (hq_headers p) = None"
proof -
  let ?q = "\<lparr>wr_method = ''POST'', wr_path = ''/api/../../../_admin/deploy'', wr_headers = [(''host'', ''d.preview.blog.org'')],
       wr_body = Some ''bundle''\<rparr>"
  have slot: "sites_slot ''0.0.0.0:8000'' ''admin'' sample_sites_env = sample_sites_env" "loopback_url ''0.0.0.0:8000'' = sample_base"
    by (simp_all add: sites_slot_def loopback_url_def sample_sites_env_def sample_base_def)
  have served: "serves_function sample_sites_env (iw_db sample_sites_world) ''d.preview.blog.org'' ''hello''
      (plain_site ''a'' ''g'' ''blog'' (Some ''d'')) (plain_deployment ''d'' ''a'' ''ready'')"
    by (simp add: serves_function_def sample_sites_world_def sample_sites_env_def parse_preview_host_def deployment_by_id_def
      site_by_id_def plain_site_def plain_deployment_def api_route_def Let_def)
  have plain: "plain_segment ''hello''" "list_all plain_segment [''_admin'', ''deploy'']" by code_simp+
  have q: "header_text (wr_headers ?q) ''host'' = Some ''d.preview.blog.org''" "is_header_text ''admin''" by code_simp+
  have crates: "url_standard sample_base (ye_url sample_sites_env)" "router_standard (ye_matchit sample_sites_env)"
    "\<not> ye_fails sample_sites_env n" for n
    using sample_url_standard sample_router_standard by (simp_all add: sample_sites_env_def)
  have url: "sample_base @ slash_path [''_admin'', ''deploy''] = ''http://0.0.0.0:8000/_admin/deploy''"
    "forwarded_method ''POST'' = ''POST''" "iw_sent sample_sites_world = []"
    by (simp_all add: sample_base_def forwarded_method_def sample_sites_world_def)
  show ?thesis
    using visitors_act_as_operator [where server_bind = "''0.0.0.0:8000''" and token = "''admin''" and ?env0.0 = sample_sites_env
        and q = ?q and segs = "[''_admin'', ''deploy'']" and body = "''bundle''", unfolded slot, OF served plain(1) _ crates(1,2)]
      crates(3) plain(2) q unfolding url(1)
    by (simp add: dot_segment_def url)
qed

end
