(* ===== verification/Sites_Roundtrip.thy ===== *)
theory Sites_Roundtrip
  imports Sites_Steps
begin

text \<open>
  From a bundle to a visitor: a deployment that succeeds has put its files where the visitors of its preview host are served
  from.
\<close>

section \<open>What a computation that succeeds has done\<close>

lemma isql_Ok: "isql env st w = (Ok a, w') \<longleftrightarrow> \<not> ye_fails env (iw_effects w) \<and>
    st (iw_now w) (iw_db w) = (Ok a, iw_db w') \<and> w' = w\<lparr>iw_effects := Suc (iw_effects w), iw_db := iw_db w'\<rparr>"
  by (auto simp: isql_def split: prod.splits)

lemma isql_db: "isql env st w = (Ok a, w') \<Longrightarrow> fst (st (iw_now w) (iw_db w)) = Ok a \<and> iw_db w' = snd (st (iw_now w) (iw_db w))"
  by (auto simp: isql_def split: if_splits prod.splits)

text \<open>Statements send nothing.\<close>

lemma isql_sent: "isql env st w = (r, w') \<Longrightarrow> iw_sent w' = iw_sent w"
  by (auto simp: isql_def split: if_splits prod.splits)

lemma upload_sent:
  "upload_object env b k ct body w = (Ok u, w') \<Longrightarrow>
     iw_db w' = iw_db w \<and> (\<exists>p. iw_sent w' = iw_sent w @ [p] \<and> hq_method p = ''PUT'' \<and> hq_body p = body \<and>
       ye_url env (object_url (ye_storage_url env) b k) = Some (hq_url p))"
  by (auto simp: upload_object_def http_send_def bind_Ok Let_def split: option.splits http_reply.splits if_splits)

lemma upload_files_sent:
  "upload_files env i files n m w = (Ok r, w') \<Longrightarrow>
     iw_db w' = iw_db w \<and> (\<exists>ps. iw_sent w' = iw_sent w @ ps \<and>
       (\<forall>(rel, content) \<in> set files. \<forall>body. content = Some body \<and> to_lowercase (path_extension rel) \<in> set known_extensions \<longrightarrow>
          (\<exists>p \<in> set ps. hq_method p = ''PUT'' \<and> hq_body p = body \<and>
             ye_url env (object_url (ye_storage_url env) sites_bucket (i @ ''/static/'' @ rel)) = Some (hq_url p))))"
proof (induction env i files n m arbitrary: w rule: upload_files.induct)
  case (2 env i rel content files count bytes)
  show ?case
  proof (cases "to_lowercase (path_extension rel) \<notin> set known_extensions \<and> path_extension rel \<noteq> []")
    case True
    then show ?thesis using "2.IH"(1) [OF refl True, of w] "2.prems" by (simp add: Let_def)
  next
    case False
    then obtain body w1 where b: "content = Some body"
      "upload_object env sites_bucket (i @ ''/static/'' @ rel) (ye_mime env rel) body w = (Ok (), w1)"
      "upload_files env i files (count + 1) (bytes + of_nat (length body)) w1 = (Ok r, w')"
      using "2.prems" by (auto simp: Let_def bind_Ok split: option.splits if_splits)
    from upload_sent [OF b(2)] obtain p where p: "iw_db w1 = iw_db w" "iw_sent w1 = iw_sent w @ [p]" "hq_method p = ''PUT''"
      "hq_body p = body" "ye_url env (object_url (ye_storage_url env) sites_bucket (i @ ''/static/'' @ rel)) = Some (hq_url p)" by blast
    from "2.IH"(2) [OF refl _ b(1), of w1] False b(3) obtain ps where ps: "iw_db w' = iw_db w1" "iw_sent w' = iw_sent w1 @ ps"
      "\<forall>(rel, content) \<in> set files. \<forall>body. content = Some body \<and> to_lowercase (path_extension rel) \<in> set known_extensions \<longrightarrow>
          (\<exists>p \<in> set ps. hq_method p = ''PUT'' \<and> hq_body p = body \<and>
             ye_url env (object_url (ye_storage_url env) sites_bucket (i @ ''/static/'' @ rel)) = Some (hq_url p))"
      by blast
    show ?thesis using p ps b(1) by (intro conjI exI [of _ "p # ps"]) auto
  qed
qed simp

section \<open>Tables of a deployment\<close>

lemma find_update_rows:
  "(\<And>r. Q (f r) = Q r) \<Longrightarrow> find Q (update_rows P f rows) = map_option (\<lambda>r. if P r then f r else r) (find Q rows)"
  by (induction rows) (auto simp: update_rows_def)

lemma find_appended: "\<forall>r \<in> set rows. \<not> Q r \<Longrightarrow> Q r' \<Longrightarrow> find Q (rows @ [r']) = Some r'"
  by (induction rows) auto

text \<open>A deployment that visitors can be served: it is ready, its site is there, and its routes are the default ones.\<close>

definition serves_files :: "sites_db \<Rightarrow> uuid \<Rightarrow> bool" where
  "serves_files db i \<longleftrightarrow>
     (\<exists>d s. deployment_by_id i db = Some d \<and> dp_id d = i \<and> dp_status d = ''ready'' \<and> site_by_id (dp_site_id d) db = Some s) \<and>
     (\<exists>ids t. filter (\<lambda>r. rw_deployment_id r = i) (i_routes db) = build_static_routes ids t i)"

lemma deployed_tables:
  assumes "store_create_deployment env site_id m u w = (Ok d, w1)"
    and "isql env (set_deployment_routes (dp_id d) (build_static_routes ids now (dp_id d))) w2 = (Ok (), w3)"
    and "isql env (update_deployment_assets (dp_id d) n b) w3 = (Ok (), w4)"
    and "isql env (update_deployment_status (dp_id d) DpReady None) w4 = (Ok (), w5)"
    and "isql env (promote_row (dp_id d)) w5 = (Ok (), w6)"
    and "iw_db w2 = iw_db w1"
  shows "serves_files (iw_db w6) (dp_id d)"
proof -
  obtain i v t db where ins: "insert_deployment i site_id v m u t db = (Ok d, iw_db w1)"
    using assms(1) by (auto simp: store_create_deployment_def bind_Ok isql_Ok)
  then have d: "iw_db w1 = db\<lparr>i_deployments := i_deployments db @ [d]\<rparr>" "dp_id d = i" "dp_site_id d = site_id"
      "\<forall>r \<in> set (i_deployments db). dp_id r \<noteq> i"
    by (cases rule: insert_deployment_cases [of i site_id v m u t db]; auto)+
  obtain s where s: "site_by_id site_id db = Some s" using ins by (auto simp: insert_deployment_def Let_def split: if_splits)
  have find: "find (\<lambda>r. dp_id r = dp_id d) (i_deployments (iw_db w1)) = Some d"
    using d find_appended [of "i_deployments db" "\<lambda>r. dp_id r = dp_id d" d] by simp
  have sites: "find (\<lambda>x. si_id x = site_id) (i_sites (iw_db w2)) = Some s" using s d(1) assms(6) by (simp add: site_by_id_def)
  let ?rows = "map (\<lambda>r. r\<lparr>rw_deployment_id := dp_id d, rw_created_at := iw_now w2\<rparr>) (build_static_routes ids now (dp_id d))"
  have rows: "?rows = build_static_routes ids (iw_now w2) (dp_id d)" by (simp add: build_static_routes_def)
  have routes: "i_routes (iw_db w3) = filter (\<lambda>r. rw_deployment_id r \<noteq> dp_id d) (i_routes (iw_db w2)) @ ?rows"
      "i_sites (iw_db w3) = i_sites (iw_db w2)" "i_deployments (iw_db w3) = i_deployments (iw_db w2)"
    using isql_db [OF assms(2)] by (auto simp: set_deployment_routes_def Let_def split: if_splits)
  let ?find = "\<lambda>w. find (\<lambda>r. dp_id r = dp_id d) (i_deployments (iw_db w))"
    and ?site = "\<lambda>w. find (\<lambda>x. si_id x = site_id) (i_sites (iw_db w))"
  have w4: "iw_db w4 = (iw_db w3)\<lparr>i_deployments := i_deployments (iw_db w4)\<rparr>"
      "?find w4 = Some (d\<lparr>dp_asset_count := n, dp_asset_bytes := b\<rparr>)"
    using isql_db [OF assms(3)] find routes(3) assms(6) by (simp_all add: update_deployment_assets_def find_update_rows)
  have w5: "iw_db w5 = (iw_db w4)\<lparr>i_deployments := i_deployments (iw_db w5)\<rparr>"
      "?find w5 = Some (d\<lparr>dp_asset_count := n, dp_asset_bytes := b, dp_status := ''ready'', dp_status_detail := None\<rparr>)"
    using isql_db [OF assms(4)] w4(2) by (simp_all add: update_deployment_status_def find_update_rows)
  have "i_sites (iw_db w5) = i_sites (iw_db w2)" by (subst w5(1), simp, subst w4(1), simp add: routes(2))
  then have w6: "iw_db w6 = (iw_db w5)\<lparr>i_sites := i_sites (iw_db w6)\<rparr>" "?site w6 \<noteq> None"
    using isql_db [OF assms(5)] w5(2) sites
    by (auto simp: promote_row_def deployment_by_id_def find_update_rows split: option.splits)
  have "i_deployments (iw_db w6) = i_deployments (iw_db w5)" "i_routes (iw_db w6) = i_routes (iw_db w3)"
    by (subst w6(1), simp, subst w6(1), simp, subst w5(1), simp, subst w4(1), simp)
  then show ?thesis
    using w5(2) w6(2) routes(1) rows d(3)
    by (auto simp: serves_files_def deployment_by_id_def site_by_id_def build_static_routes_def)
qed

section \<open>Serving a file\<close>

text \<open>What is documented of \<open>matchit\<close> for the default routes, and of the order of a \<open>HashMap\<close>.\<close>

definition static_router_standard :: "matchit \<Rightarrow> bool" where
  "static_router_standard mt \<longleftrightarrow>
     mt_insert mt [] ''/'' \<and> mt_insert mt [''/''] ''/{*rest}'' \<and>
     (\<forall>x. x \<noteq> [] \<longrightarrow> mt_at mt [''/'', ''/{*rest}''] (CHR ''/'' # x) = Some (1, [(''rest'', x)]))"

definition shuffles :: "((string \<times> string) list \<Rightarrow> (string \<times> string) list) \<Rightarrow> bool" where
  "shuffles f \<longleftrightarrow> (\<forall>kvs. length (f kvs) = length kvs \<and> set (f kvs) = set kvs)"

lemma shuffles_single: "shuffles f \<Longrightarrow> f [kv] = [kv]"
  unfolding shuffles_def by (metis length_0_conv length_Suc_conv list.set_intros(1) list.size(3) set_ConsD set_empty empty_iff list.set(1))

lemma replace_from_absent: "c \<notin> set t \<Longrightarrow> replace_from (c # p) s 0 t = t"
  by (induction t) (auto simp: starts_with_def)

lemma expand_rest: "shuffles f \<Longrightarrow> CHR '':'' \<notin> set x \<Longrightarrow> expand_target f ''$rest'' [(''rest'', x)] = x"
  by (simp add: expand_target_def shuffles_single replace_str_def replace_from_absent starts_with_def numeral_eq_Suc)

text \<open>A file name with an extension, below the directory.\<close>

definition servable :: "string \<Rightarrow> bool" where
  "servable x \<longleftrightarrow> x \<noteq> [] \<and> hd x \<noteq> CHR ''/'' \<and> last x \<noteq> CHR ''/'' \<and> CHR ''.'' \<in> set x \<and> CHR '':'' \<notin> set x"

lemma servable_keys: "servable x \<Longrightarrow> static_keys i x = [i @ ''/static/'' @ x]"
proof -
  assume x: "servable x"
  then have "dropWhile (\<lambda>c. c = CHR ''/'') x = x" by (cases x) (auto simp: servable_def)
  moreover have "\<not> ends_with ''/'' x" using x by (cases x rule: rev_cases) (auto simp: servable_def ends_with_def)
  ultimately show ?thesis using x by (simp add: static_keys_def servable_def Let_def)
qed

lemma file_request:
  assumes "serves_files (iw_db w) i" and "map_option fst (parse_preview_host env host) = Some i"
    and "static_router_standard (ye_matchit env)" "shuffles (ye_shuffle env)" and "\<And>n. \<not> ye_fails env n"
    and "header_text (wr_headers q) ''host'' = Some host" and "wr_path q = CHR ''/'' # x" and "servable x"
  shows "\<exists>h cache. serve_handler env q w = try_keys env h cache [i @ ''/static/'' @ x] (w\<lparr>iw_effects := iw_effects w + 4\<rparr>)"
proof -
  obtain d s ids t p where d: "deployment_by_id i (iw_db w) = Some d" "dp_id d = i" "dp_status d = ''ready''"
      "site_by_id (dp_site_id d) (iw_db w) = Some s"
    and r: "filter (\<lambda>r. rw_deployment_id r = i) (i_routes (iw_db w)) = build_static_routes ids t i"
    and p: "parse_preview_host env host = Some (i, p)"
    using assms(1,2) by (auto simp: serves_files_def)
  let ?h = "\<lparr>rh_site = s, rh_deployment = d, rh_is_preview = True\<rparr>" and ?cache = "parse_cache_rules static_cache"
  have order: "order_desc (\<lambda>r. sint (rw_priority r)) (build_static_routes ids t i) = build_static_routes ids t i"
    by (simp add: order_desc_def build_static_routes_def)
  have patterns: "convert_pattern alnum ''/'' = ''/''" "convert_pattern alnum ''/*'' = ''/{*rest}''" for alnum by simp_all
  have decision: "resolve_route (ye_matchit env) (ye_shuffle env)
      \<lparr>rv_patterns = [''/'', ''/{*rest}''], rv_entries = map entry_of_route (build_static_routes ids t i), rv_functions = fs\<rparr> (wr_path q) m
      = StaticFile x ?cache" for fs m
    using assms(3,4,7,8) expand_rest [of "ye_shuffle env" x]
    by (simp add: resolve_route_def match_route_def static_router_standard_def servable_def build_static_routes_def entry_of_route_def
      build_decision_def collect_map_def Let_def)
  have resolver: "resolver_from_routes (ye_matchit env) (ye_alnum env) (build_static_routes ids t i) fs
      = Some \<lparr>rv_patterns = [''/'', ''/{*rest}''], rv_entries = map entry_of_route (build_static_routes ids t i), rv_functions = fs\<rparr>" for fs
    using assms(3) patterns
    unfolding resolver_from_routes_def order
    by (simp add: build_static_routes_def entry_of_route_def add_route_def static_router_standard_def Let_def del: convert_pattern.simps)
  have "serve_handler env q w = try_keys env ?h ?cache [i @ ''/static/'' @ x] (w\<lparr>iw_effects := iw_effects w + 4\<rparr>)"
    using assms(5,6) d r p
    by (simp add: serve_handler_def resolve_host_def resolve_preview_def bind_def isql_def get_deployment_row_def get_site_by_id_def
      select_si_def get_deployment_routes_def get_deployment_functions_def order resolver decision dispatch_decision_def
      serve_static_def servable_keys [OF assms(8)] numeral_eq_Suc)
  then show ?thesis by blast
qed

text \<open>C24. A static file that was deployed is served. Let the deployment of a bundle without a manifest of its own succeed, and
  let a file of it have a known extension (files with another are not uploaded) and a servable name: not empty, with a dot, without
  a colon and without a slash at either end. Then a \<open>PUT\<close> of its content was sent to the storage service. And if this service
  answers every \<open>GET\<close> of the same URL with 200 and exactly that content, no statement fails from then on, and the router and
  the iteration of maps are as documented, then a request for the path of the file on the preview host of the deployment, made in the
  state the deployment left, is answered with 200 and that content.\<close>

theorem deployed_files_are_served:
  assumes deploy: "deploy_single_site env org_id e w = (Ok info, w1)" and "en_manifest e = None"
    and has: "entry_assets e = Some files" "(x, Some body) \<in> set files" "to_lowercase (path_extension x) \<in> set known_extensions" "servable x"
    and crates: "static_router_standard (ye_matchit env)" "shuffles (ye_shuffle env)"
    and visit: "map_option fst (parse_preview_host env host) = Some (di_deployment_id info)"
      "header_text (wr_headers q) ''host'' = Some host" "wr_path q = CHR ''/'' # x" and up: "\<And>n. \<not> ye_fails env n"
  shows "\<exists>p \<in> set (iw_sent w1). hq_method p = ''PUT'' \<and> hq_body p = body \<and>
    ((\<forall>n g. hq_method g = ''GET'' \<and> hq_url g = hq_url p \<longrightarrow> ye_http env n g = Reply 200 [] (Some body)) \<longrightarrow>
     (\<exists>r w2. serve_handler env q w1 = (Ok r, w2) \<and> ws_status r = 200 \<and> ws_body r = body))"
proof -
  obtain site_id d m u count bytes v ids now w2 w3 w4 w5 w6 w7 where
      steps: "store_create_deployment env site_id m u v = (Ok d, w2)"
        "upload_site_assets env (dp_id d) (Some files) w2 = (Ok (count, bytes), w3)"
        "isql env (set_deployment_routes (dp_id d) (build_static_routes ids now (dp_id d))) w4 = (Ok (), w5)"
        "isql env (update_deployment_assets (dp_id d) (sint count) bytes) w5 = (Ok (), w6)"
        "isql env (update_deployment_status (dp_id d) DpReady None) w6 = (Ok (), w7)"
        "isql env (promote_row (dp_id d)) w7 = (Ok (), w1)"
      and w4: "iw_db w4 = iw_db w3" "iw_sent w4 = iw_sent w3" and info: "di_deployment_id info = dp_id d"
    using deploy assms(2) has(1)
    by (clarsimp simp: deploy_single_site_def bind_Ok entry_manifest_def deployment_routes_of_def new_ids_def sites_clock_def)
  have "upload_files env (dp_id d) files 0 0 w2 = (Ok (count, bytes), w3)" using steps(2) by (simp add: upload_site_assets_def)
  from upload_files_sent [OF this] obtain ps where ps: "iw_db w3 = iw_db w2" "iw_sent w3 = iw_sent w2 @ ps"
      "\<forall>(rel, content) \<in> set files. \<forall>body. content = Some body \<and> to_lowercase (path_extension rel) \<in> set known_extensions \<longrightarrow>
          (\<exists>p \<in> set ps. hq_method p = ''PUT'' \<and> hq_body p = body \<and>
             ye_url env (object_url (ye_storage_url env) sites_bucket (dp_id d @ ''/static/'' @ rel)) = Some (hq_url p))"
    by blast
  obtain p where p: "p \<in> set ps" "hq_method p = ''PUT''" "hq_body p = body"
      "ye_url env (object_url (ye_storage_url env) sites_bucket (dp_id d @ ''/static/'' @ x)) = Some (hq_url p)"
    using bspec [OF ps(3) has(2)] has(3) by auto
  have sent: "p \<in> set (iw_sent w1)"
    using p(1) ps(2) w4(2) isql_sent [OF steps(3)] isql_sent [OF steps(4)] isql_sent [OF steps(5)] isql_sent [OF steps(6)] by simp
  have "serves_files (iw_db w1) (dp_id d)"
    using deployed_tables [OF steps(1,3-6)] w4(1) ps(1) by simp
  from file_request [OF this _ crates up visit(2,3) has(4)] visit(1) info obtain h cache where
    serve: "serve_handler env q w1 = try_keys env h cache [dp_id d @ ''/static/'' @ x] (w1\<lparr>iw_effects := iw_effects w1 + 4\<rparr>)" by auto
  show ?thesis
  proof (intro bexI [OF _ sent] conjI impI p(2,3))
    assume get: "\<forall>n g. hq_method g = ''GET'' \<and> hq_url g = hq_url p \<longrightarrow> ye_http env n g = Reply 200 [] (Some body)"
    show "\<exists>r w2. serve_handler env q w1 = (Ok r, w2) \<and> ws_status r = 200 \<and> ws_body r = body"
      using get p(4) unfolding serve
      by (simp add: bind_def attempt_def fetch_object_def http_send_def Let_def success_status_def)
  qed
qed

lemma sample_static_router: "static_router_standard sample_matchit"
  by (simp add: static_router_standard_def sample_matchit_def pattern_match_def starts_with_def numeral_eq_Suc)

definition echo_env :: sites_env where
  "echo_env = sample_sites_env\<lparr>ye_http := (\<lambda>_ _. Reply 200 [] (Some ''hi''))\<rparr>"

definition sample_entry :: site_entry where
  "sample_entry = \<lparr>en_name = ''blog'', en_framework = ''static'', en_manifest = None, en_static = None,
     en_dist = Some [(''css/a.css'', Some ''hi''), (''run.sh'', None)], en_root = None\<rparr>"

lemma deployed_files_are_served_witness:
  "\<exists>r w2. serve_handler echo_env (visit ''u.preview.blog.org'' ''/css/a.css'')
      (snd (deploy_single_site echo_env ''g'' sample_entry sample_sites_world)) = (Ok r, w2) \<and> ws_body r = ''hi''"
proof -
  let ?d = "deploy_single_site echo_env ''g'' sample_entry sample_sites_world" and ?q = "visit ''u.preview.blog.org'' ''/css/a.css''"
  have run: "(case fst ?d of Ok info \<Rightarrow> di_deployment_id info | _ \<Rightarrow> []) = ''u''" by code_simp
  then obtain info where d: "?d = (Ok info, snd ?d)" "di_deployment_id info = ''u''" by (cases "fst ?d"; cases ?d) auto
  have e: "en_manifest sample_entry = None" "entry_assets sample_entry = Some [(''css/a.css'', Some ''hi''), (''run.sh'', None)]"
    by (simp_all add: sample_entry_def entry_assets_def)
  have x: "to_lowercase (path_extension ''css/a.css'') \<in> set known_extensions" "servable ''css/a.css''" by code_simp+
  have q: "map_option fst (parse_preview_host echo_env ''u.preview.blog.org'') = Some ''u''"
    "header_text (wr_headers ?q) ''host'' = Some ''u.preview.blog.org''" "wr_path ?q = CHR ''/'' # ''css/a.css''" by code_simp+
  have crates: "static_router_standard (ye_matchit echo_env)" "shuffles (ye_shuffle echo_env)" "\<not> ye_fails echo_env n"
      "ye_http echo_env n g = Reply 200 [] (Some ''hi'')" for n g
    using sample_static_router by (simp_all add: echo_env_def sample_sites_env_def shuffles_def)
  show ?thesis
    using deployed_files_are_served [OF d(1) e _ x crates(1,2) _ q(2,3) crates(3), of "''hi''"] q(1) d(2) crates(4) by auto
qed

end
