(* ===== verification/Vault_Store.thy ===== *)
theory Vault_Store
  imports Storage_Paths "HOL-Library.AList"
begin

text \<open>
  The vault: the interface of \<open>crates/reactor-core/src/primitives/vault.rs\<close> as a record of operations over a state,
  and its two implementations in the repository, \<open>adapters/embedded.rs\<close> (encrypted files) and \<open>adapters/mock.rs\<close> (memory)
  of \<open>crates/reactor-vault/src/\<close>. A tenant is the text of its project identifier. The embedded vault works on the files of
  \<open>Storage_Fs\<close>; every file operation may fail. AES-256-GCM, hexadecimal and base64 texts, JSON and the order of a
  directory are fields of the environment; \<open>Nonce::from_slice\<close> and \<open>copy_from_slice\<close> panic on other lengths.
\<close>

section \<open>The interface (primitives/vault.rs)\<close>

datatype vault_error =
    EncryptionFailed string | DecryptionFailed string | VaultNotFound string | InvalidKeyName string
  | AuthenticationFailed string | VaultPermissionDenied string | Connection string | VaultInternal string
  | Sealed | VaultConfiguration string

record ciphertext =
  ct_data :: string
  ct_key_version :: "32 word option"

record secret_value =
  sv_data :: string
  sv_version :: "64 word"
  sv_created_at :: instant
  sv_updated_at :: instant

definition new_secret_value :: "string \<Rightarrow> instant \<Rightarrow> secret_value" where
  "new_secret_value data now = \<lparr>sv_data = data, sv_version = 1, sv_created_at = now, sv_updated_at = now\<rparr>"

record secret_metadata =
  sm_name :: string
  sm_version :: "64 word"
  sm_created_at :: instant
  sm_updated_at :: instant

record 'w vault =
  v_encrypt :: "uuid \<Rightarrow> string \<Rightarrow> string \<Rightarrow> ('w, ciphertext, vault_error) comp"
  v_decrypt :: "uuid \<Rightarrow> string \<Rightarrow> ciphertext \<Rightarrow> ('w, string, vault_error) comp"
  v_rotate_key :: "uuid \<Rightarrow> string \<Rightarrow> ('w, 32 word, vault_error) comp"
  v_get_secret :: "uuid \<Rightarrow> string \<Rightarrow> ('w, secret_value option, vault_error) comp"
  v_put_secret :: "uuid \<Rightarrow> string \<Rightarrow> secret_value \<Rightarrow> ('w, unit, vault_error) comp"
  v_list_secrets :: "uuid \<Rightarrow> ('w, secret_metadata list, vault_error) comp"
  v_delete_secret :: "uuid \<Rightarrow> string \<Rightarrow> ('w, unit, vault_error) comp"
  v_is_healthy :: "'w \<Rightarrow> bool"
  v_is_sealed :: "'w \<Rightarrow> bool"

section \<open>The embedded vault: its state\<close>

record key_material =
  km_version :: "32 word"
  km_encrypted_dek :: string
  km_dek_nonce :: string
  km_created_at :: instant
  km_rotated_at :: instant

record decrypted_key =
  dk_version :: "32 word"
  dk_dek :: string

record stored_secret =
  ss_ciphertext :: string
  ss_nonce :: string
  ss_key_version :: "32 word"
  ss_version :: "64 word"
  ss_created_at :: instant
  ss_updated_at :: instant

record embedded_vault =
  mv_base_path :: path
  mv_master_key :: string

record vault_env =
  ve_fails :: "nat \<Rightarrow> bool"
  ve_random_key :: "nat \<Rightarrow> string"
  ve_random_nonce :: "nat \<Rightarrow> string"
  ve_aead_encrypt :: "string \<Rightarrow> string \<Rightarrow> string \<Rightarrow> string option"
  ve_aead_decrypt :: "string \<Rightarrow> string \<Rightarrow> string \<Rightarrow> string option"
  ve_aead_error :: string
  ve_io_text :: "io_error \<Rightarrow> string"
  ve_hex_decode :: "string \<Rightarrow> (string, string) result"
  ve_base64 :: "string \<Rightarrow> string"
  ve_base64_decode :: "string \<Rightarrow> (string, string) result"
  ve_key_json :: "key_material \<Rightarrow> string"
  ve_parse_key :: "string \<Rightarrow> (key_material, string) result"
  ve_secret_json :: "stored_secret \<Rightarrow> string"
  ve_parse_secret :: "string \<Rightarrow> (stored_secret, string) result"
  ve_read_dir :: "fsys \<Rightarrow> path \<Rightarrow> string list"
  ve_utf8 :: "string \<Rightarrow> bool"
  ve_env_var :: "string \<Rightarrow> string option"

record vault_world =
  vw_fs :: fsys
  vw_cache :: "uuid \<times> string \<Rightarrow> decrypted_key option"
  vw_sealed :: bool
  vw_now :: instant
  vw_fresh :: nat
  vw_effects :: nat

type_synonym 'a vault_act = "(vault_world, 'a, vault_error) comp"

definition vfile :: "vault_env \<Rightarrow> 'a fs_op \<Rightarrow> (vault_world, 'a, io_error) comp" where
  "vfile env f w =
     (let w' = w\<lparr>vw_effects := Suc (vw_effects w)\<rparr> in
      if ve_fails env (vw_effects w) then (Err IoOther, w')
      else case f (vw_fs w) of (r, fs') \<Rightarrow> (r, w'\<lparr>vw_fs := fs'\<rparr>))"

definition vio :: "vault_env \<Rightarrow> string \<Rightarrow> 'a fs_op \<Rightarrow> 'a vault_act" where
  "vio env what f = map_error (\<lambda>e. Connection (what @ '': '' @ ve_io_text env e)) (vfile env f)"

text \<open>\<open>Path::exists\<close> takes a failure for absence.\<close>

definition vexists :: "vault_env \<Rightarrow> path \<Rightarrow> bool vault_act" where
  "vexists env p =
     bind (attempt (vfile env (\<lambda>fs. (Ok (node_at fs p \<noteq> None), fs)))) (\<lambda>v.
       ret (case v of Inl found \<Rightarrow> found | Inr e \<Rightarrow> False))"

definition vfresh :: "(nat \<Rightarrow> 'a) \<Rightarrow> 'a vault_act" where
  "vfresh f w = (Ok (f (vw_fresh w)), w\<lparr>vw_fresh := Suc (vw_fresh w)\<rparr>)"

definition vget :: "(vault_world \<Rightarrow> 'a) \<Rightarrow> 'a vault_act" where
  "vget f w = (Ok (f w), w)"

definition cache_key :: "uuid \<Rightarrow> string \<Rightarrow> decrypted_key \<Rightarrow> unit vault_act" where
  "cache_key tenant key_name k w = (Ok (), w\<lparr>vw_cache := (vw_cache w)((tenant, key_name) \<mapsto> k)\<rparr>)"

section \<open>The embedded vault: keys (embedded.rs)\<close>

definition single_quoted :: "string \<Rightarrow> string" where
  "single_quoted s = [CHR 0x27] @ s @ [CHR 0x27]"

definition nonce_size :: nat where "nonce_size = 12"
definition key_size :: nat where "key_size = 32"

definition resolve_master_key :: "vault_env \<Rightarrow> string \<Rightarrow> (string, vault_error) result" where
  "resolve_master_key env key_config =
     and_then
       (if starts_with ''env:'' key_config then
          (let env_var = drop 4 key_config in
           ok_or (VaultConfiguration (''Master key environment variable '' @ single_quoted env_var @ '' not set'')) (ve_env_var env env_var))
        else Ok key_config) (\<lambda>key_hex.
     and_then (map_err (\<lambda>e. VaultConfiguration (''Invalid master key hex encoding: '' @ e)) (ve_hex_decode env key_hex)) (\<lambda>key_bytes.
       if length key_bytes \<noteq> key_size
       then Err (VaultConfiguration (''Master key must be '' @ show_nat key_size @ '' bytes (got '' @ show_nat (length key_bytes) @ '')''))
       else Ok key_bytes))"

definition new_embedded_vault :: "vault_env \<Rightarrow> path \<Rightarrow> string \<Rightarrow> embedded_vault vault_act" where
  "new_embedded_vault env config_path config_master_key =
     bind (lift (resolve_master_key env config_master_key)) (\<lambda>master_key.
     bind (vio env ''Failed to create keys dir'' (create_dir_all (join_path config_path ''keys''))) (\<lambda>_.
     bind (vio env ''Failed to create secrets dir'' (create_dir_all (join_path config_path ''secrets''))) (\<lambda>_.
       ret \<lparr>mv_base_path = config_path, mv_master_key = master_key\<rparr>)))"

definition keys_path :: "embedded_vault \<Rightarrow> uuid \<Rightarrow> path" where
  "keys_path v tenant = join_path (join_path (mv_base_path v) ''keys'') tenant"

definition secrets_path :: "embedded_vault \<Rightarrow> uuid \<Rightarrow> path" where
  "secrets_path v tenant = join_path (join_path (mv_base_path v) ''secrets'') tenant"

definition key_path :: "embedded_vault \<Rightarrow> uuid \<Rightarrow> string \<Rightarrow> path" where
  "key_path v tenant key_name = join_path (keys_path v tenant) (key_name @ ''.key'')"

definition secret_path :: "embedded_vault \<Rightarrow> uuid \<Rightarrow> string \<Rightarrow> path" where
  "secret_path v tenant name = join_path (secrets_path v tenant) (name @ ''.json'')"

definition aead_encrypt :: "vault_env \<Rightarrow> string \<Rightarrow> string \<Rightarrow> string \<Rightarrow> string vault_act" where
  "aead_encrypt env key nonce plaintext =
     lift (ok_or (EncryptionFailed (ve_aead_error env)) (ve_aead_encrypt env key nonce plaintext))"

definition aead_decrypt :: "vault_env \<Rightarrow> string \<Rightarrow> string \<Rightarrow> string \<Rightarrow> string \<Rightarrow> string vault_act" where
  "aead_decrypt env what key nonce data =
     (if length nonce \<noteq> nonce_size then lift Panic
      else lift (ok_or (DecryptionFailed (what @ ve_aead_error env)) (ve_aead_decrypt env key nonce data)))"

definition read_key :: "vault_env \<Rightarrow> path \<Rightarrow> key_material vault_act" where
  "read_key env p =
     bind (vio env ''Failed to read key file'' (read_file p)) (\<lambda>data.
       lift (map_err (\<lambda>e. VaultConfiguration (''Invalid key file: '' @ e)) (ve_parse_key env data)))"

definition create_key :: "vault_env \<Rightarrow> embedded_vault \<Rightarrow> uuid \<Rightarrow> string \<Rightarrow> key_material vault_act" where
  "create_key env v tenant key_name =
     bind (vfresh (ve_random_key env)) (\<lambda>dek.
     bind (vfresh (ve_random_nonce env)) (\<lambda>nonce.
     bind (aead_encrypt env (mv_master_key v) nonce dek) (\<lambda>encrypted_dek.
     bind (vget vw_now) (\<lambda>now.
       let km = \<lparr>km_version = 1, km_encrypted_dek = encrypted_dek, km_dek_nonce = nonce, km_created_at = now, km_rotated_at = now\<rparr> in
       bind (vio env ''Failed to create key dir'' (create_dir_all (keys_path v tenant))) (\<lambda>_.
       bind (vio env ''Failed to write key file'' (write_file (key_path v tenant key_name) (ve_key_json env km))) (\<lambda>_.
         ret km))))))"

definition open_key :: "vault_env \<Rightarrow> embedded_vault \<Rightarrow> uuid \<Rightarrow> string \<Rightarrow> key_material \<Rightarrow> decrypted_key vault_act" where
  "open_key env v tenant key_name km =
     bind (aead_decrypt env ''Failed to decrypt DEK: '' (mv_master_key v) (km_dek_nonce km) (km_encrypted_dek km)) (\<lambda>dek_bytes.
       if length dek_bytes \<noteq> key_size then lift Panic
       else
         let decrypted = \<lparr>dk_version = km_version km, dk_dek = dek_bytes\<rparr> in
         bind (cache_key tenant key_name decrypted) (\<lambda>_. ret decrypted))"

definition get_or_create_key :: "vault_env \<Rightarrow> embedded_vault \<Rightarrow> uuid \<Rightarrow> string \<Rightarrow> decrypted_key vault_act" where
  "get_or_create_key env v tenant key_name =
     bind (vget (\<lambda>w. vw_cache w (tenant, key_name))) (\<lambda>cached.
       case cached of
         Some k \<Rightarrow> ret k
       | None \<Rightarrow>
           bind (vexists env (key_path v tenant key_name)) (\<lambda>there.
           bind (if there then read_key env (key_path v tenant key_name) else create_key env v tenant key_name) (\<lambda>km.
             open_key env v tenant key_name km)))"

definition encrypt_with_key ::
  "vault_env \<Rightarrow> embedded_vault \<Rightarrow> uuid \<Rightarrow> string \<Rightarrow> string \<Rightarrow> (string \<times> string \<times> 32 word) vault_act" where
  "encrypt_with_key env v tenant key_name plaintext =
     bind (get_or_create_key env v tenant key_name) (\<lambda>k.
     bind (vfresh (ve_random_nonce env)) (\<lambda>nonce.
     bind (aead_encrypt env (dk_dek k) nonce plaintext) (\<lambda>data.
       ret (data, nonce, dk_version k))))"

definition decrypt_with_key ::
  "vault_env \<Rightarrow> embedded_vault \<Rightarrow> uuid \<Rightarrow> string \<Rightarrow> string \<Rightarrow> string \<Rightarrow> string vault_act" where
  "decrypt_with_key env v tenant key_name data nonce =
     bind (get_or_create_key env v tenant key_name) (\<lambda>k. aead_decrypt env '''' (dk_dek k) nonce data)"

section \<open>The embedded vault: its operations (embedded.rs)\<close>

definition unsealed :: "'a vault_act \<Rightarrow> 'a vault_act" where
  "unsealed m = bind (vget vw_sealed) (\<lambda>sealed. if sealed then lift (Err Sealed) else m)"

definition embedded_encrypt ::
  "vault_env \<Rightarrow> embedded_vault \<Rightarrow> uuid \<Rightarrow> string \<Rightarrow> string \<Rightarrow> ciphertext vault_act" where
  "embedded_encrypt env v tenant key plaintext =
     unsealed (bind (encrypt_with_key env v tenant key plaintext) (\<lambda>(data, nonce, version).
       ret \<lparr>ct_data = ve_base64 env (nonce @ data), ct_key_version = Some version\<rparr>))"

definition embedded_decrypt ::
  "vault_env \<Rightarrow> embedded_vault \<Rightarrow> uuid \<Rightarrow> string \<Rightarrow> ciphertext \<Rightarrow> string vault_act" where
  "embedded_decrypt env v tenant key c =
     unsealed (bind (lift (map_err (\<lambda>e. DecryptionFailed (''Invalid ciphertext encoding: '' @ e)) (ve_base64_decode env (ct_data c)))) (\<lambda>combined.
       if length combined < nonce_size then lift (Err (DecryptionFailed ''Ciphertext too short''))
       else decrypt_with_key env v tenant key (drop nonce_size combined) (take nonce_size combined)))"

definition embedded_rotate_key :: "vault_env \<Rightarrow> embedded_vault \<Rightarrow> uuid \<Rightarrow> string \<Rightarrow> (32 word) vault_act" where
  "embedded_rotate_key env v tenant key =
     unsealed (
       let p = key_path v tenant key in
       bind (vexists env p) (\<lambda>there.
       if \<not> there then lift (Err (VaultNotFound (''Key '' @ single_quoted key @ '' does not exist for tenant '' @ single_quoted tenant)))
       else
         bind (read_key env p) (\<lambda>km.
         bind (vfresh (ve_random_key env)) (\<lambda>new_dek.
         bind (vfresh (ve_random_nonce env)) (\<lambda>new_nonce.
         bind (aead_encrypt env (mv_master_key v) new_nonce new_dek) (\<lambda>encrypted_dek.
         bind (vget vw_now) (\<lambda>now.
           let km' = km\<lparr>km_version := km_version km + 1, km_encrypted_dek := encrypted_dek, km_dek_nonce := new_nonce,
                        km_rotated_at := now\<rparr> in
           bind (vio env ''Failed to write key file'' (write_file p (ve_key_json env km'))) (\<lambda>_.
           bind (cache_key tenant key \<lparr>dk_version = km_version km', dk_dek = new_dek\<rparr>) (\<lambda>_.
             ret (km_version km'))))))))))"

definition read_secret :: "vault_env \<Rightarrow> path \<Rightarrow> stored_secret vault_act" where
  "read_secret env p =
     bind (vio env ''Failed to read secret'' (read_file p)) (\<lambda>data.
       lift (map_err (\<lambda>e. VaultConfiguration (''Invalid secret file: '' @ e)) (ve_parse_secret env data)))"

definition embedded_get_secret ::
  "vault_env \<Rightarrow> embedded_vault \<Rightarrow> uuid \<Rightarrow> string \<Rightarrow> secret_value option vault_act" where
  "embedded_get_secret env v tenant name =
     unsealed (
       let p = secret_path v tenant name in
       bind (vexists env p) (\<lambda>there.
       if \<not> there then ret None
       else
         bind (read_secret env p) (\<lambda>stored.
         bind (decrypt_with_key env v tenant ''kv-internal'' (ss_ciphertext stored) (ss_nonce stored)) (\<lambda>plaintext.
           ret (Some \<lparr>sv_data = plaintext, sv_version = ss_version stored, sv_created_at = ss_created_at stored,
                      sv_updated_at = ss_updated_at stored\<rparr>)))))"

definition embedded_put_secret ::
  "vault_env \<Rightarrow> embedded_vault \<Rightarrow> uuid \<Rightarrow> string \<Rightarrow> secret_value \<Rightarrow> unit vault_act" where
  "embedded_put_secret env v tenant name value =
     unsealed (
       bind (encrypt_with_key env v tenant ''kv-internal'' (sv_data value)) (\<lambda>(data, nonce, key_version).
         let p = secret_path v tenant name in
         bind (vexists env p) (\<lambda>there.
         bind (if there then bind (read_secret env p) (\<lambda>stored. ret (ss_version stored + 1)) else ret 1) (\<lambda>version.
         bind (vget vw_now) (\<lambda>now.
           let stored = \<lparr>ss_ciphertext = data, ss_nonce = nonce, ss_key_version = key_version, ss_version = version,
                         ss_created_at = (if version = 1 then now else sv_created_at value), ss_updated_at = now\<rparr> in
           bind (vio env ''Failed to create secrets dir'' (create_dir_all (secrets_path v tenant))) (\<lambda>_.
             vio env ''Failed to write secret'' (write_file p (ve_secret_json env stored))))))))"

text \<open>\<open>Path::extension\<close> and \<open>Path::file_stem\<close> of an entry of a directory.\<close>

definition file_extension :: "string \<Rightarrow> string option" where
  "file_extension f =
     (if CHR ''.'' \<in> set (drop 1 f) \<and> f \<noteq> ''..'' then Some (rev (takeWhile (\<lambda>c. c \<noteq> CHR ''.'') (rev f))) else None)"

definition file_stem :: "string \<Rightarrow> string" where
  "file_stem f =
     (case file_extension f of Some x \<Rightarrow> take (length f - Suc (length x)) f | None \<Rightarrow> f)"

definition read_dir :: "vault_env \<Rightarrow> path \<Rightarrow> string list fs_op" where
  "read_dir env p fs =
     (case node_at fs p of Some Dir \<Rightarrow> (Ok (ve_read_dir env fs p), fs) | Some (File d) \<Rightarrow> (Err IoNotDir, fs) | None \<Rightarrow> (Err IoNotFound, fs))"

definition next_entry :: "unit fs_op" where
  "next_entry fs = (Ok (), fs)"

fun list_entries :: "vault_env \<Rightarrow> path \<Rightarrow> string list \<Rightarrow> secret_metadata list vault_act" where
  "list_entries env dir [] = bind (vio env ''Failed to read entry'' next_entry) (\<lambda>_. ret [])"
| "list_entries env dir (entry # entries) =
     bind (vio env ''Failed to read entry'' next_entry) (\<lambda>_.
      if file_extension entry \<noteq> Some ''json'' then list_entries env dir entries
      else
        let name = (if ve_utf8 env (file_stem entry) then file_stem entry else '''') in
        bind (vio env ''Failed to read secret file'' (read_file (dir @ [entry]))) (\<lambda>data.
        bind (list_entries env dir entries) (\<lambda>rest.
          ret (case ve_parse_secret env data of
                 Ok stored \<Rightarrow> \<lparr>sm_name = name, sm_version = ss_version stored, sm_created_at = ss_created_at stored,
                               sm_updated_at = ss_updated_at stored\<rparr> # rest
               | _ \<Rightarrow> rest))))"

definition embedded_list_secrets :: "vault_env \<Rightarrow> embedded_vault \<Rightarrow> uuid \<Rightarrow> secret_metadata list vault_act" where
  "embedded_list_secrets env v tenant =
     unsealed (
       let dir = secrets_path v tenant in
       bind (vexists env dir) (\<lambda>there.
       if \<not> there then ret []
       else
         bind (vio env ''Failed to read secrets dir'' (read_dir env dir)) (\<lambda>entries.
           list_entries env dir entries)))"

definition embedded_delete_secret :: "vault_env \<Rightarrow> embedded_vault \<Rightarrow> uuid \<Rightarrow> string \<Rightarrow> unit vault_act" where
  "embedded_delete_secret env v tenant name =
     unsealed (
       let p = secret_path v tenant name in
       bind (vexists env p) (\<lambda>there.
       if \<not> there then lift (Err (VaultNotFound name))
       else vio env ''Failed to delete secret'' (remove_file p)))"

definition vault_seal :: "vault_world \<Rightarrow> vault_world" where
  "vault_seal w = w\<lparr>vw_sealed := True, vw_cache := (\<lambda>_. None)\<rparr>"

definition vault_unseal :: "vault_world \<Rightarrow> vault_world" where
  "vault_unseal w = w\<lparr>vw_sealed := False\<rparr>"

definition embedded :: "vault_env \<Rightarrow> embedded_vault \<Rightarrow> vault_world vault" where
  "embedded env v =
     \<lparr>v_encrypt = embedded_encrypt env v, v_decrypt = embedded_decrypt env v, v_rotate_key = embedded_rotate_key env v,
      v_get_secret = embedded_get_secret env v, v_put_secret = embedded_put_secret env v,
      v_list_secrets = embedded_list_secrets env v, v_delete_secret = embedded_delete_secret env v,
      v_is_healthy = (\<lambda>w. \<not> vw_sealed w), v_is_sealed = vw_sealed\<rparr>"

section \<open>The vault in memory (mock.rs)\<close>

record mock_world =
  mk_secrets :: "((uuid \<times> string) \<times> secret_value) list"
  mk_key_versions :: "((uuid \<times> string) \<times> 32 word) list"
  mk_sealed :: bool
  mk_healthy :: bool
  mk_now :: instant

definition new_mock :: "instant \<Rightarrow> mock_world" where
  "new_mock now = \<lparr>mk_secrets = [], mk_key_versions = [], mk_sealed = False, mk_healthy = True, mk_now = now\<rparr>"

type_synonym 'a mock_act = "(mock_world, 'a, vault_error) comp"

definition mock_unsealed :: "'a mock_act \<Rightarrow> 'a mock_act" where
  "mock_unsealed m w = (if mk_sealed w then (Err Sealed, w) else m w)"

definition mock_encrypt :: "vault_env \<Rightarrow> uuid \<Rightarrow> string \<Rightarrow> string \<Rightarrow> ciphertext mock_act" where
  "mock_encrypt env tenant key plaintext =
     mock_unsealed (\<lambda>w.
       let version = (case map_of (mk_key_versions w) (tenant, key) of Some n \<Rightarrow> n | None \<Rightarrow> 1) in
       (Ok \<lparr>ct_data = ve_base64 env plaintext, ct_key_version = Some version\<rparr>,
        w\<lparr>mk_key_versions := AList.update (tenant, key) version (mk_key_versions w)\<rparr>))"

definition mock_decrypt :: "vault_env \<Rightarrow> uuid \<Rightarrow> string \<Rightarrow> ciphertext \<Rightarrow> string mock_act" where
  "mock_decrypt env tenant key c =
     mock_unsealed (lift (map_err (\<lambda>e. DecryptionFailed (''Decryption failed: '' @ e)) (ve_base64_decode env (ct_data c))))"

definition mock_rotate_key :: "uuid \<Rightarrow> string \<Rightarrow> (32 word) mock_act" where
  "mock_rotate_key tenant key =
     mock_unsealed (\<lambda>w.
       let n = (case map_of (mk_key_versions w) (tenant, key) of Some n \<Rightarrow> n | None \<Rightarrow> 1) + 1 in
       (Ok n, w\<lparr>mk_key_versions := AList.update (tenant, key) n (mk_key_versions w)\<rparr>))"

definition mock_get_secret :: "uuid \<Rightarrow> string \<Rightarrow> secret_value option mock_act" where
  "mock_get_secret tenant name = mock_unsealed (\<lambda>w. (Ok (map_of (mk_secrets w) (tenant, name)), w))"

definition mock_put_secret :: "uuid \<Rightarrow> string \<Rightarrow> secret_value \<Rightarrow> unit mock_act" where
  "mock_put_secret tenant name value =
     mock_unsealed (\<lambda>w.
       let old = map_of (mk_secrets w) (tenant, name);
           stored = \<lparr>sv_data = sv_data value,
                     sv_version = (case old of Some s \<Rightarrow> sv_version s + 1 | None \<Rightarrow> 1),
                     sv_created_at = (case old of Some s \<Rightarrow> sv_created_at s | None \<Rightarrow> mk_now w),
                     sv_updated_at = mk_now w\<rparr> in
       (Ok (), w\<lparr>mk_secrets := AList.update (tenant, name) stored (mk_secrets w)\<rparr>))"

definition mock_list_secrets :: "uuid \<Rightarrow> secret_metadata list mock_act" where
  "mock_list_secrets tenant =
     mock_unsealed (\<lambda>w.
       (Ok (map (\<lambda>((t, name), s). \<lparr>sm_name = name, sm_version = sv_version s, sm_created_at = sv_created_at s,
                                   sm_updated_at = sv_updated_at s\<rparr>)
              (filter (\<lambda>((t, name), s). t = tenant) (mk_secrets w))), w))"

definition mock_delete_secret :: "uuid \<Rightarrow> string \<Rightarrow> unit mock_act" where
  "mock_delete_secret tenant name =
     mock_unsealed (\<lambda>w.
       case map_of (mk_secrets w) (tenant, name) of
         None \<Rightarrow> (Err (VaultNotFound name), w)
       | Some s \<Rightarrow> (Ok (), w\<lparr>mk_secrets := AList.delete (tenant, name) (mk_secrets w)\<rparr>))"

definition mock_set_sealed :: "bool \<Rightarrow> mock_world \<Rightarrow> mock_world" where
  "mock_set_sealed sealed w = w\<lparr>mk_sealed := sealed\<rparr>"

definition mock_set_healthy :: "bool \<Rightarrow> mock_world \<Rightarrow> mock_world" where
  "mock_set_healthy healthy w = w\<lparr>mk_healthy := healthy\<rparr>"

definition mock :: "vault_env \<Rightarrow> mock_world vault" where
  "mock env =
     \<lparr>v_encrypt = mock_encrypt env, v_decrypt = mock_decrypt env, v_rotate_key = mock_rotate_key,
      v_get_secret = mock_get_secret, v_put_secret = mock_put_secret, v_list_secrets = mock_list_secrets,
      v_delete_secret = mock_delete_secret, v_is_healthy = (\<lambda>w. mk_healthy w \<and> \<not> mk_sealed w),
      v_is_sealed = mk_sealed\<rparr>"

end
