(* ===== verification/Vault_Service.thy ===== *)
theory Vault_Service
  imports Vault_Store
begin

text \<open>
  What the platform builds on the vault: the cache in front of it (\<open>crates/reactor-server/src/boot/vault.rs\<close>), the secrets
  of the configuration (\<open>boot/auth.rs\<close>), the administration endpoints (\<open>admin/vault.rs\<close>), the secrets of a new project
  (\<open>crates/reactor-cloud-api/src/bootstrap/vault.rs\<close>), and the clients in \<open>crates/reactor-auth/src/\<close> (\<open>crypto.rs\<close>, \<open>tenant.rs\<close>)
  and \<open>crates/reactor-connect/src/service.rs\<close>. All of it takes any vault, as the code takes \<open>dyn Vault\<close>. The cache crate
  is documented to hand out what was put in last, until it expires or is dropped for lack of room.
\<close>

section \<open>The cached vault (boot/vault.rs)\<close>

record 'w cached_world =
  cw_inner :: 'w
  cw_cache :: "string \<Rightarrow> (secret_value \<times> instant) option"

record 'w cache_config =
  cc_now :: "'w \<Rightarrow> instant"
  cc_ttl :: int
  cc_dropped :: "'w \<Rightarrow> string \<Rightarrow> bool"

definition inner_op :: "('w, 'a, 'e) comp \<Rightarrow> ('w cached_world, 'a, 'e) comp" where
  "inner_op m w = (case m (cw_inner w) of (r, i) \<Rightarrow> (r, w\<lparr>cw_inner := i\<rparr>))"

definition secret_cache_key :: "uuid \<Rightarrow> string \<Rightarrow> string" where
  "secret_cache_key tenant name = tenant @ '':'' @ name"

definition cache_lookup :: "'w cache_config \<Rightarrow> string \<Rightarrow> ('w cached_world, secret_value option, 'e) comp" where
  "cache_lookup cc k w =
     (Ok (case cw_cache w k of
            Some (value, t) \<Rightarrow>
              if cc_now cc (cw_inner w) < t + cc_ttl cc \<and> \<not> cc_dropped cc (cw_inner w) k then Some value else None
          | None \<Rightarrow> None), w)"

definition cache_store :: "'w cache_config \<Rightarrow> string \<Rightarrow> secret_value \<Rightarrow> ('w cached_world, unit, 'e) comp" where
  "cache_store cc k value w = (Ok (), w\<lparr>cw_cache := (cw_cache w)(k \<mapsto> (value, cc_now cc (cw_inner w)))\<rparr>)"

definition cache_invalidate :: "string \<Rightarrow> ('w cached_world, unit, 'e) comp" where
  "cache_invalidate k w = (Ok (), w\<lparr>cw_cache := (cw_cache w)(k := None)\<rparr>)"

definition cache_fill ::
  "'w cache_config \<Rightarrow> string \<Rightarrow> secret_value option \<Rightarrow> ('w cached_world, secret_value option, 'e) comp" where
  "cache_fill cc k r =
     bind (case r of Some value \<Rightarrow> cache_store cc k value | None \<Rightarrow> ret ()) (\<lambda>_. ret r)"

definition cached_get_secret ::
  "'w cache_config \<Rightarrow> 'w vault \<Rightarrow> uuid \<Rightarrow> string \<Rightarrow> ('w cached_world, secret_value option, vault_error) comp" where
  "cached_get_secret cc V tenant name =
     (let k = secret_cache_key tenant name in
      bind (cache_lookup cc k) (\<lambda>hit.
        case hit of
          Some value \<Rightarrow> ret (Some value)
        | None \<Rightarrow> bind (inner_op (v_get_secret V tenant name)) (\<lambda>r. cache_fill cc k r)))"

definition cached_put_secret ::
  "'w vault \<Rightarrow> uuid \<Rightarrow> string \<Rightarrow> secret_value \<Rightarrow> ('w cached_world, unit, vault_error) comp" where
  "cached_put_secret V tenant name value =
     bind (cache_invalidate (secret_cache_key tenant name)) (\<lambda>_. inner_op (v_put_secret V tenant name value))"

definition cached_delete_secret :: "'w vault \<Rightarrow> uuid \<Rightarrow> string \<Rightarrow> ('w cached_world, unit, vault_error) comp" where
  "cached_delete_secret V tenant name =
     bind (cache_invalidate (secret_cache_key tenant name)) (\<lambda>_. inner_op (v_delete_secret V tenant name))"

definition cached :: "'w cache_config \<Rightarrow> 'w vault \<Rightarrow> 'w cached_world vault" where
  "cached cc V =
     \<lparr>v_encrypt = (\<lambda>tenant key plaintext. inner_op (v_encrypt V tenant key plaintext)),
      v_decrypt = (\<lambda>tenant key c. inner_op (v_decrypt V tenant key c)),
      v_rotate_key = (\<lambda>tenant key. inner_op (v_rotate_key V tenant key)),
      v_get_secret = cached_get_secret cc V, v_put_secret = cached_put_secret V,
      v_list_secrets = (\<lambda>tenant. inner_op (v_list_secrets V tenant)),
      v_delete_secret = cached_delete_secret V,
      v_is_healthy = (\<lambda>w. v_is_healthy V (cw_inner w)), v_is_sealed = (\<lambda>w. v_is_sealed V (cw_inner w))\<rparr>"

section \<open>Texts of errors\<close>

fun vault_error_text :: "vault_error \<Rightarrow> string" where
  "vault_error_text (EncryptionFailed s) = ''encryption failed: '' @ s"
| "vault_error_text (DecryptionFailed s) = ''decryption failed: '' @ s"
| "vault_error_text (VaultNotFound s) = ''secret not found: '' @ s"
| "vault_error_text (InvalidKeyName s) = ''invalid key name: '' @ s"
| "vault_error_text (AuthenticationFailed s) = ''vault authentication failed: '' @ s"
| "vault_error_text (VaultPermissionDenied s) = ''permission denied: '' @ s"
| "vault_error_text (Connection s) = ''vault connection error: '' @ s"
| "vault_error_text (VaultInternal s) = ''vault internal error: '' @ s"
| "vault_error_text Sealed = ''vault is sealed''"
| "vault_error_text (VaultConfiguration s) = ''invalid vault configuration: '' @ s"

section \<open>Secrets of the configuration (boot/auth.rs)\<close>

datatype server_error = Boot string | Config string

definition resolve_secret ::
  "vault_env \<Rightarrow> string \<Rightarrow> 'w vault \<Rightarrow> uuid \<Rightarrow> string \<Rightarrow> ('w, string, server_error) comp" where
  "resolve_secret env config_value V tenant description =
     (if starts_with ''vault:'' config_value then
        let vault_key = drop 6 config_value in
        bind (map_error (\<lambda>e. Boot (''failed to get '' @ description @ '' from vault: '' @ vault_error_text e))
               (v_get_secret V tenant vault_key)) (\<lambda>found.
        bind (lift (ok_or (Config (description @ '' '' @ single_quoted vault_key @ '' not found in vault'')) found)) (\<lambda>secret.
          lift (if ve_utf8 env (sv_data secret) then Ok (sv_data secret) else Err (Config (description @ '' is not valid UTF-8'')))))
      else ret config_value)"

section \<open>Administration (admin/vault.rs)\<close>

datatype vault_body =
    SecretList "(string \<times> 64 word) list"
  | SecretBody string string bool "64 word"
  | VaultDone string
  | KeyRotated "32 word"
  | VaultFailure string string

type_synonym vault_reply = "nat \<times> vault_body"

definition vault_not_found :: "string \<Rightarrow> vault_reply" where
  "vault_not_found key = (404, VaultFailure ''not_found'' (''secret '' @ single_quoted key @ '' not found''))"

definition vault_internal :: "string \<Rightarrow> vault_reply" where
  "vault_internal message = (500, VaultFailure ''internal_error'' message)"

definition reply_of :: "string \<Rightarrow> ('a \<Rightarrow> vault_reply) \<Rightarrow> ('w, 'a, vault_error) comp \<Rightarrow> ('w, vault_reply, unit) comp" where
  "reply_of what f m =
     bind (attempt m) (\<lambda>v.
       ret (case v of Inl a \<Rightarrow> f a | Inr e \<Rightarrow> vault_internal (''failed to '' @ what @ '': '' @ vault_error_text e)))"

definition list_secrets_handler :: "'w vault \<Rightarrow> uuid \<Rightarrow> ('w, vault_reply, unit) comp" where
  "list_secrets_handler V tenant =
     reply_of ''list secrets'' (\<lambda>ms. (200, SecretList (map (\<lambda>m. (sm_name m, sm_version m)) ms))) (v_list_secrets V tenant)"

definition get_secret_handler :: "vault_env \<Rightarrow> 'w vault \<Rightarrow> uuid \<Rightarrow> string \<Rightarrow> ('w, vault_reply, unit) comp" where
  "get_secret_handler env V tenant key =
     reply_of ''get secret''
       (\<lambda>found. case found of
          Some secret \<Rightarrow>
            (if ve_utf8 env (sv_data secret) then (200, SecretBody key (sv_data secret) False (sv_version secret))
             else (200, SecretBody key (ve_base64 env (sv_data secret)) True (sv_version secret)))
        | None \<Rightarrow> vault_not_found key)
       (v_get_secret V tenant key)"

definition set_secret_handler ::
  "vault_env \<Rightarrow> 'w vault \<Rightarrow> uuid \<Rightarrow> instant \<Rightarrow> string \<Rightarrow> string \<Rightarrow> bool \<Rightarrow> ('w, vault_reply, unit) comp" where
  "set_secret_handler env V tenant now key value is_base64 =
     (case (if is_base64 then ve_base64_decode env value else Ok value) of
        Ok data \<Rightarrow>
          reply_of ''set secret'' (\<lambda>_. (200, VaultDone (''secret '' @ single_quoted key @ '' set'')))
            (v_put_secret V tenant key (new_secret_value data now))
      | Err e \<Rightarrow> ret (vault_internal (''invalid base64: '' @ e))
      | _ \<Rightarrow> lift Panic)"

definition delete_secret_handler :: "'w vault \<Rightarrow> uuid \<Rightarrow> string \<Rightarrow> ('w, vault_reply, unit) comp" where
  "delete_secret_handler V tenant key =
     reply_of ''delete secret'' (\<lambda>_. (200, VaultDone (''secret '' @ single_quoted key @ '' deleted'')))
       (v_delete_secret V tenant key)"

definition rotate_key_handler :: "'w vault \<Rightarrow> uuid \<Rightarrow> string \<Rightarrow> ('w, vault_reply, unit) comp" where
  "rotate_key_handler V tenant key_name =
     reply_of ''rotate key'' (\<lambda>new_version. (200, KeyRotated new_version)) (v_rotate_key V tenant key_name)"

section \<open>The secrets of a new project (bootstrap/vault.rs)\<close>

datatype vault_bootstrap_error =
    TransitKeyCreation string | SecretCreation string | JwtGeneration string | BootstrapVault vault_error

fun bootstrap_error_text :: "vault_bootstrap_error \<Rightarrow> string" where
  "bootstrap_error_text (TransitKeyCreation s) = ''transit key creation failed: '' @ s"
| "bootstrap_error_text (SecretCreation s) = ''secret creation failed: '' @ s"
| "bootstrap_error_text (JwtGeneration s) = ''JWT generation failed: '' @ s"
| "bootstrap_error_text (BootstrapVault e) = ''vault error: '' @ vault_error_text e"

record vault_bootstrap_result =
  br_transit_keys_created :: nat
  br_secrets_created :: nat

definition transit_keys :: "string list" where
  "transit_keys = [''auth/data'', ''storage/signing'', ''functions/env'', ''jobs/webhook'']"

definition kv_secrets :: "string list" where
  "kv_secrets = [''keys/anon'', ''keys/service'', ''keys/jwt-signing'']"

text \<open>How many of the elements succeed; the others are logged.\<close>

fun count_successes :: "('a \<Rightarrow> ('w, 'b, 'e) comp) \<Rightarrow> 'a list \<Rightarrow> nat \<Rightarrow> ('w, nat, 'f) comp" where
  "count_successes f [] n = ret n"
| "count_successes f (x # xs) n =
     bind (attempt (f x)) (\<lambda>v. count_successes f xs (case v of Inl _ \<Rightarrow> Suc n | Inr _ \<Rightarrow> n))"

definition vault_bootstrap ::
  "'w vault \<Rightarrow> (string \<Rightarrow> string) \<Rightarrow> instant \<Rightarrow> uuid \<Rightarrow> ('w, vault_bootstrap_result, vault_bootstrap_error) comp" where
  "vault_bootstrap V random now project_id =
     bind (count_successes (\<lambda>key_name. v_encrypt V project_id key_name ''init'') transit_keys 0) (\<lambda>transit_keys_created.
     bind (count_successes (\<lambda>name. v_put_secret V project_id name (new_secret_value (random name) now)) kv_secrets 0) (\<lambda>secrets_created.
       ret \<lparr>br_transit_keys_created = transit_keys_created, br_secrets_created = secrets_created\<rparr>))"

record jwt_claims =
  jc_role :: string
  jc_project_id :: uuid
  jc_project_ref :: string
  jc_iat :: int

text \<open>A signer gives the token for a key identifier, claims and a key.\<close>

type_synonym jwt_signer = "string \<Rightarrow> jwt_claims \<Rightarrow> string \<Rightarrow> (string, string) result"

definition generate_jwt ::
  "jwt_signer \<Rightarrow> 'w vault \<Rightarrow> instant \<Rightarrow> uuid \<Rightarrow> string \<Rightarrow> string \<Rightarrow> ('w, string, vault_bootstrap_error) comp" where
  "generate_jwt sign V now project_id project_ref role =
     bind (map_error BootstrapVault (v_get_secret V project_id ''keys/jwt-signing'')) (\<lambda>found.
     bind (lift (ok_or (JwtGeneration ''jwt-signing key not found'') found)) (\<lambda>signing_key.
       lift (map_err JwtGeneration
         (sign (project_ref @ '':'' @ ''v1'')
            \<lparr>jc_role = role, jc_project_id = project_id, jc_project_ref = project_ref, jc_iat = now div 1000000\<rparr>
            (sv_data signing_key)))))"

definition generate_anon_jwt ::
  "jwt_signer \<Rightarrow> 'w vault \<Rightarrow> instant \<Rightarrow> uuid \<Rightarrow> string \<Rightarrow> ('w, string, vault_bootstrap_error) comp" where
  "generate_anon_jwt sign V now project_id project_ref = generate_jwt sign V now project_id project_ref ''anon''"

definition generate_service_jwt ::
  "jwt_signer \<Rightarrow> 'w vault \<Rightarrow> instant \<Rightarrow> uuid \<Rightarrow> string \<Rightarrow> ('w, string, vault_bootstrap_error) comp" where
  "generate_service_jwt sign V now project_id project_ref = generate_jwt sign V now project_id project_ref ''service''"

definition vault_cleanup :: "'w vault \<Rightarrow> uuid \<Rightarrow> ('w, unit, vault_bootstrap_error) comp" where
  "vault_cleanup V project_id = for_each (\<lambda>name. ignore_error (v_delete_secret V project_id name)) kv_secrets"

section \<open>Clients of the identity service (crypto.rs, tenant.rs)\<close>

definition auth_transit_key :: string where
  "auth_transit_key = ''auth/data''"

datatype crypto_error = CryptoVault string | CryptoDecryption string

definition vault_encryptor_encrypt :: "'w vault \<Rightarrow> uuid \<Rightarrow> string \<Rightarrow> ('w, string, crypto_error) comp" where
  "vault_encryptor_encrypt V tenant plaintext =
     bind (map_error (\<lambda>e. CryptoVault (vault_error_text e)) (v_encrypt V tenant auth_transit_key plaintext)) (\<lambda>c.
       ret (ct_data c))"

definition vault_encryptor_decrypt :: "'w vault \<Rightarrow> uuid \<Rightarrow> string \<Rightarrow> ('w, string, crypto_error) comp" where
  "vault_encryptor_decrypt V tenant data =
     map_error (\<lambda>e. CryptoDecryption (vault_error_text e))
       (v_decrypt V tenant auth_transit_key \<lparr>ct_data = data, ct_key_version = None\<rparr>)"

record oauth_provider_config =
  op_client_id :: string
  op_client_secret :: string
  op_auth_url :: string
  op_token_url :: string
  op_scopes :: "string list"
  op_enabled :: bool

datatype oauth_config_error = OAuthVault string | OAuthInvalidConfig string

definition oauth_vault_path :: "string \<Rightarrow> string" where
  "oauth_vault_path provider = ''oauth/'' @ provider"

definition load_provider ::
  "(string \<Rightarrow> (oauth_provider_config, string) result) \<Rightarrow> 'w vault \<Rightarrow> uuid \<Rightarrow> string \<Rightarrow>
    ('w, oauth_provider_config option, oauth_config_error) comp" where
  "load_provider parse V project_id provider =
     bind (map_error (\<lambda>e. OAuthVault (vault_error_text e)) (v_get_secret V project_id (oauth_vault_path provider))) (\<lambda>secret.
       case secret of
         Some s \<Rightarrow>
           bind (lift (map_err (\<lambda>e. OAuthInvalidConfig (''failed to parse '' @ provider @ '' config: '' @ e)) (parse (sv_data s)))) (\<lambda>config.
             ret (if op_enabled config then Some config else None))
       | None \<Rightarrow> ret None)"

definition save_provider ::
  "(oauth_provider_config \<Rightarrow> string) \<Rightarrow> 'w vault \<Rightarrow> uuid \<Rightarrow> instant \<Rightarrow> string \<Rightarrow> oauth_provider_config \<Rightarrow>
    ('w, unit, oauth_config_error) comp" where
  "save_provider print V project_id now provider config =
     map_error (\<lambda>e. OAuthVault (vault_error_text e))
       (v_put_secret V project_id (oauth_vault_path provider) (new_secret_value (print config) now))"

definition list_providers :: "'w vault \<Rightarrow> uuid \<Rightarrow> ('w, string list, oauth_config_error) comp" where
  "list_providers V project_id =
     bind (map_error (\<lambda>e. OAuthVault (vault_error_text e)) (v_list_secrets V project_id)) (\<lambda>secrets.
       ret (map (\<lambda>s. drop 6 (sm_name s)) (filter (\<lambda>s. starts_with ''oauth/'' (sm_name s)) secrets)))"

section \<open>Credentials of connectors (reactor-connect, service.rs)\<close>

datatype connect_error = ConnectVault string | CredentialsNotConfigured string

definition nil_project :: uuid where
  "nil_project = ''00000000-0000-0000-0000-000000000000''"

definition secret_name_of_ref :: "string \<Rightarrow> string" where
  "secret_name_of_ref vault_ref =
     (case strip_prefix ''tenant/'' vault_ref of
        Some s \<Rightarrow> (case find_char CHR ''/'' s of Some n \<Rightarrow> drop (Suc n) s | None \<Rightarrow> vault_ref)
      | None \<Rightarrow> vault_ref)"

definition load_credentials ::
  "(string \<Rightarrow> ('c, string) result) \<Rightarrow> 'w vault \<Rightarrow> string \<Rightarrow> string option \<Rightarrow> ('w, 'c, connect_error) comp" where
  "load_credentials parse V instance_name vault_ref =
     bind (lift (ok_or (CredentialsNotConfigured instance_name) vault_ref)) (\<lambda>r.
     bind (map_error (\<lambda>e. ConnectVault (vault_error_text e)) (v_get_secret V nil_project (secret_name_of_ref r))) (\<lambda>found.
     bind (lift (ok_or (CredentialsNotConfigured instance_name) found)) (\<lambda>secret.
       lift (map_err ConnectVault (parse (sv_data secret))))))"

end
