(* ===== verification/Vault_Laws.thy ===== *)
theory Vault_Laws
  imports Vault_Service
begin

text \<open>
  The contract between a vault and its clients, as the locale \<open>secret_store\<close>: a vault keeps one secret per tenant and
  name, numbers its versions, and is not disturbed by what happens to keys. Every vault that keeps the contract answers a
  sequence of calls as the abstract store \<open>run_spec\<close> does, and so does the cached vault in front of it (\<open>cached_store\<close>). The
  vault in memory is the first interpretation; the embedded vault is one in \<open>Vault_Embedded\<close>.
\<close>

section \<open>Calls and their outcomes\<close>

definition tenant_id :: "uuid \<Rightarrow> bool" where
  "tenant_id t \<longleftrightarrow> component t \<and> CHR '':'' \<notin> set t"

datatype vault_call =
    PutSecret uuid string secret_value
  | GetSecret uuid string
  | DeleteSecret uuid string
  | ListSecrets uuid
  | EncryptData uuid string string
  | DecryptData uuid string ciphertext
  | RotateKey uuid string

text \<open>What a client sees of a call: the content and the version of a secret. What listing and the operations on keys
  answer is not compared: their outcome is \<open>Unseen\<close>, and only their effect on secrets counts.\<close>

datatype vault_outcome = Found "(string \<times> 64 word) option" | Stored | Deleted | Failed vault_error | Broken | Unseen

definition secret_view :: "secret_value \<Rightarrow> string \<times> 64 word" where
  "secret_view s = (sv_data s, sv_version s)"

definition outcome_of :: "('a \<Rightarrow> vault_outcome) \<Rightarrow> ('a, vault_error) result \<Rightarrow> vault_outcome" where
  "outcome_of f r = (case r of Ok a \<Rightarrow> f a | Err e \<Rightarrow> Failed e | _ \<Rightarrow> Broken)"

fun perform_vault :: "'w vault \<Rightarrow> vault_call \<Rightarrow> 'w \<Rightarrow> vault_outcome \<times> 'w" where
  "perform_vault V (PutSecret t n v) w = (case v_put_secret V t n v w of (r, w') \<Rightarrow> (outcome_of (\<lambda>_. Stored) r, w'))"
| "perform_vault V (GetSecret t n) w =
     (case v_get_secret V t n w of (r, w') \<Rightarrow> (outcome_of (\<lambda>s. Found (map_option secret_view s)) r, w'))"
| "perform_vault V (DeleteSecret t n) w = (case v_delete_secret V t n w of (r, w') \<Rightarrow> (outcome_of (\<lambda>_. Deleted) r, w'))"
| "perform_vault V (ListSecrets t) w = (Unseen, snd (v_list_secrets V t w))"
| "perform_vault V (EncryptData t k p) w = (Unseen, snd (v_encrypt V t k p w))"
| "perform_vault V (DecryptData t k c) w = (Unseen, snd (v_decrypt V t k c w))"
| "perform_vault V (RotateKey t k) w = (Unseen, snd (v_rotate_key V t k w))"

fun run_vault :: "'w vault \<Rightarrow> vault_call list \<Rightarrow> 'w \<Rightarrow> vault_outcome list \<times> 'w" where
  "run_vault V [] w = ([], w)"
| "run_vault V (c # cs) w =
     (case perform_vault V c w of (out, w') \<Rightarrow> (case run_vault V cs w' of (outs, w'') \<Rightarrow> (out # outs, w'')))"

text \<open>Calls with names of a kind; the key of the secrets themselves is not rotated.\<close>

fun call_ok :: "(string \<Rightarrow> bool) \<Rightarrow> vault_call \<Rightarrow> bool" where
  "call_ok ok (PutSecret t n v) = (tenant_id t \<and> ok n)"
| "call_ok ok (GetSecret t n) = (tenant_id t \<and> ok n)"
| "call_ok ok (DeleteSecret t n) = (tenant_id t \<and> ok n)"
| "call_ok ok (ListSecrets t) = tenant_id t"
| "call_ok ok (EncryptData t k p) = (tenant_id t \<and> ok k)"
| "call_ok ok (DecryptData t k c) = (tenant_id t \<and> ok k)"
| "call_ok ok (RotateKey t k) = (tenant_id t \<and> ok k \<and> k \<noteq> ''kv-internal'')"

section \<open>The abstract store\<close>

type_synonym secrets = "uuid \<times> string \<Rightarrow> (string \<times> 64 word) option"

definition next_version :: "(string \<times> 64 word) option \<Rightarrow> 64 word" where
  "next_version old = (case old of Some (d, v) \<Rightarrow> v + 1 | None \<Rightarrow> 1)"

fun spec_call :: "vault_call \<Rightarrow> secrets \<Rightarrow> vault_outcome \<times> secrets" where
  "spec_call (PutSecret t n v) s = (Stored, s((t, n) \<mapsto> (sv_data v, next_version (s (t, n)))))"
| "spec_call (GetSecret t n) s = (Found (s (t, n)), s)"
| "spec_call (DeleteSecret t n) s = (if s (t, n) = None then Failed (VaultNotFound n) else Deleted, s((t, n) := None))"
| "spec_call (ListSecrets t) s = (Unseen, s)"
| "spec_call (EncryptData t k p) s = (Unseen, s)"
| "spec_call (DecryptData t k c) s = (Unseen, s)"
| "spec_call (RotateKey t k) s = (Unseen, s)"

fun run_spec :: "vault_call list \<Rightarrow> secrets \<Rightarrow> vault_outcome list \<times> secrets" where
  "run_spec [] s = ([], s)"
| "run_spec (c # cs) s =
     (case spec_call c s of (out, s') \<Rightarrow> (case run_spec cs s' of (outs, s'') \<Rightarrow> (out # outs, s'')))"

section \<open>The contract\<close>

locale secret_store =
  fixes V :: "'w vault" and ok :: "string \<Rightarrow> bool" and I :: "'w \<Rightarrow> bool" and sec :: "'w \<Rightarrow> secrets"
  assumes get_law: "I w \<Longrightarrow> tenant_id t \<Longrightarrow> ok n \<Longrightarrow>
      \<exists>r w'. v_get_secret V t n w = (Ok r, w') \<and> map_option secret_view r = sec w (t, n) \<and> I w' \<and> sec w' = sec w"
    and put_law: "I w \<Longrightarrow> tenant_id t \<Longrightarrow> ok n \<Longrightarrow>
      \<exists>w'. v_put_secret V t n v w = (Ok (), w') \<and> I w' \<and> sec w' = (sec w)((t, n) \<mapsto> (sv_data v, next_version (sec w (t, n))))"
    and delete_law: "I w \<Longrightarrow> tenant_id t \<Longrightarrow> ok n \<Longrightarrow>
      \<exists>w'. v_delete_secret V t n w = (if sec w (t, n) = None then Err (VaultNotFound n) else Ok (), w') \<and> I w' \<and>
        sec w' = (sec w)((t, n) := None)"
    and list_law: "I w \<Longrightarrow> tenant_id t \<Longrightarrow> v_list_secrets V t w = (r, w') \<Longrightarrow> I w' \<and> sec w' = sec w"
    and encrypt_law: "I w \<Longrightarrow> tenant_id t \<Longrightarrow> ok k \<Longrightarrow> v_encrypt V t k p w = (r', w') \<Longrightarrow> I w' \<and> sec w' = sec w"
    and decrypt_law: "I w \<Longrightarrow> tenant_id t \<Longrightarrow> ok k \<Longrightarrow> v_decrypt V t k c w = (r'', w') \<Longrightarrow> I w' \<and> sec w' = sec w"
    and rotate_law: "I w \<Longrightarrow> tenant_id t \<Longrightarrow> ok k \<Longrightarrow> k \<noteq> ''kv-internal'' \<Longrightarrow> v_rotate_key V t k w = (r''', w') \<Longrightarrow>
      I w' \<and> sec w' = sec w"
begin

lemma call_refines:
  assumes "I w" "call_ok ok c"
  shows "fst (perform_vault V c w) = fst (spec_call c (sec w)) \<and> I (snd (perform_vault V c w)) \<and>
    sec (snd (perform_vault V c w)) = snd (spec_call c (sec w))"
proof (cases c)
  case (PutSecret t n v)
  then show ?thesis using put_law [of w t n v] assms by (auto simp: outcome_of_def)
next
  case (GetSecret t n)
  then show ?thesis using get_law [of w t n] assms by (auto simp: outcome_of_def)
next
  case (DeleteSecret t n)
  then show ?thesis using delete_law [of w t n] assms by (auto simp: outcome_of_def)
next
  case (ListSecrets t)
  then show ?thesis using list_law [of w t] assms by (cases "v_list_secrets V t w") simp
next
  case (EncryptData t k p)
  then show ?thesis using encrypt_law [of w t k p] assms by (cases "v_encrypt V t k p w") simp
next
  case (DecryptData t k c)
  then show ?thesis using decrypt_law [of w t k c] assms by (cases "v_decrypt V t k c w") simp
next
  case (RotateKey t k)
  then show ?thesis using rotate_law [of w t k] assms by (cases "v_rotate_key V t k w") simp
qed

lemma run_refines:
  "I w \<Longrightarrow> \<forall>c \<in> set cs. call_ok ok c \<Longrightarrow>
    fst (run_vault V cs w) = fst (run_spec cs (sec w)) \<and> I (snd (run_vault V cs w)) \<and>
    sec (snd (run_vault V cs w)) = snd (run_spec cs (sec w))"
proof (induction cs arbitrary: w)
  case (Cons c cs)
  obtain out w' where p: "perform_vault V c w = (out, w')" by (cases "perform_vault V c w") auto
  then have "fst (spec_call c (sec w)) = out" "I w'" "snd (spec_call c (sec w)) = sec w'"
    using call_refines [of w c] Cons.prems by auto
  then show ?case using Cons.IH [of w'] Cons.prems p by (auto split: prod.splits)
qed simp

end

section \<open>The vault in memory keeps it\<close>

definition mock_sec :: "mock_world \<Rightarrow> secrets" where
  "mock_sec w x = map_option secret_view (map_of (mk_secrets w) x)"

interpretation memory: secret_store "mock env" "\<lambda>_. True" "\<lambda>w. \<not> mk_sealed w" mock_sec
proof
  fix w :: mock_world and t n v
  show "\<exists>w'. v_put_secret (mock env) t n v w = (Ok (), w') \<and> \<not> mk_sealed w' \<and>
      mock_sec w' = (mock_sec w)((t, n) \<mapsto> (sv_data v, next_version (mock_sec w (t, n))))" if "\<not> mk_sealed w"
    using that by (auto simp: mock_def mock_put_secret_def mock_unsealed_def mock_sec_def next_version_def secret_view_def
        update_conv fun_eq_iff Let_def split: option.splits)
qed (auto simp: mock_def mock_unsealed_def mock_get_secret_def mock_delete_secret_def mock_list_secrets_def mock_encrypt_def
    mock_decrypt_def mock_rotate_key_def mock_sec_def fun_eq_iff delete_conv Let_def split: option.splits if_splits)

section \<open>The cache keeps it\<close>

definition cache_true :: "(string \<Rightarrow> bool) \<Rightarrow> ('w \<Rightarrow> bool) \<Rightarrow> ('w \<Rightarrow> secrets) \<Rightarrow> 'w cached_world \<Rightarrow> bool" where
  "cache_true ok I sec w \<longleftrightarrow> I (cw_inner w) \<and>
     (\<forall>t n v s. tenant_id t \<longrightarrow> ok n \<longrightarrow> cw_cache w (secret_cache_key t n) = Some (v, s) \<longrightarrow>
        sec (cw_inner w) (t, n) = Some (secret_view v))"

lemma append_sep_inj: "x \<notin> set a \<Longrightarrow> x \<notin> set b \<Longrightarrow> a @ x # c = b @ x # d \<longleftrightarrow> a = b \<and> c = d"
proof (induction a arbitrary: b)
  case Nil
  then show ?case by (cases b) auto
next
  case (Cons y a)
  then show ?case by (cases b) auto
qed

lemma secret_cache_key_inj:
  "tenant_id t \<Longrightarrow> tenant_id t' \<Longrightarrow> secret_cache_key t n = secret_cache_key t' n' \<longleftrightarrow> t = t' \<and> n = n'"
  by (simp add: secret_cache_key_def tenant_id_def append_sep_inj)

locale cached_store = secret_store V ok I sec
  for V :: "'w vault" and ok :: "string \<Rightarrow> bool" and I :: "'w \<Rightarrow> bool" and sec :: "'w \<Rightarrow> secrets" +
  fixes cc :: "'w cache_config"

sublocale cached_store \<subseteq> through: secret_store "cached cc V" ok "cache_true ok I sec" "\<lambda>w. sec (cw_inner w)"
proof
  fix w :: "'w cached_world" and t n v
  assume c: "cache_true ok I sec w" and t: "tenant_id t" and n: "ok n"
  have i: "I (cw_inner w)" using c by (simp add: cache_true_def)
  let ?k = "secret_cache_key t n"
  show "\<exists>r w'. v_get_secret (cached cc V) t n w = (Ok r, w') \<and> map_option secret_view r = sec (cw_inner w) (t, n) \<and>
      cache_true ok I sec w' \<and> sec (cw_inner w') = sec (cw_inner w)"
  proof (cases "fst (cache_lookup cc ?k w) = (Ok None :: (secret_value option, vault_error) result)")
    case True
    obtain r x where g: "v_get_secret V t n (cw_inner w) = (Ok r, x)" "map_option secret_view r = sec (cw_inner w) (t, n)"
      "I x" "sec x = sec (cw_inner w)" using get_law [OF i t n] by blast
    let ?w' = "w\<lparr>cw_inner := x\<rparr>"
    have keep: "cache_true ok I sec ?w'" using c g(3,4) by (simp add: cache_true_def)
    have fill: "cache_true ok I sec (w\<lparr>cw_inner := x, cw_cache := (cw_cache w)(?k \<mapsto> (s, cc_now cc x))\<rparr>)" if "r = Some s" for s
      using keep g(2,4) t that by (auto simp: cache_true_def secret_cache_key_inj)
    have look: "cache_lookup cc ?k w = (Ok None :: (secret_value option, vault_error) result, w)"
      using True by (simp add: cache_lookup_def)
    then have "v_get_secret (cached cc V) t n w =
        (Ok r, case r of None \<Rightarrow> ?w' | Some s \<Rightarrow> w\<lparr>cw_inner := x, cw_cache := (cw_cache w)(?k \<mapsto> (s, cc_now cc x))\<rparr>)"
      using g(1) by (cases r) (simp_all add: cached_def cached_get_secret_def Let_def bind_def inner_op_def cache_fill_def cache_store_def)
    then show ?thesis using g(2,4) keep fill by (cases r) auto
  next
    case False
    then obtain s u where s: "cw_cache w ?k = Some (s, u)"
      "cache_lookup cc ?k w = (Ok (Some s) :: (secret_value option, vault_error) result, w)"
      by (auto simp: cache_lookup_def split: option.splits if_splits)
    then have "v_get_secret (cached cc V) t n w = (Ok (Some s), w)"
      by (simp add: cached_def cached_get_secret_def Let_def bind_def)
    then show ?thesis using c s(1) t n by (auto simp: cache_true_def)
  qed
  show "\<exists>w'. v_put_secret (cached cc V) t n v w = (Ok (), w') \<and> cache_true ok I sec w' \<and>
      sec (cw_inner w') = (sec (cw_inner w))((t, n) \<mapsto> (sv_data v, next_version (sec (cw_inner w) (t, n))))"
    using put_law [OF i t n, of v] c t
    by (fastforce simp: cached_def cached_put_secret_def cache_invalidate_def inner_op_def bind_def cache_true_def secret_cache_key_inj)
  show "\<exists>w'. v_delete_secret (cached cc V) t n w = (if sec (cw_inner w) (t, n) = None then Err (VaultNotFound n) else Ok (), w') \<and>
      cache_true ok I sec w' \<and> sec (cw_inner w') = (sec (cw_inner w))((t, n) := None)"
    using delete_law [OF i t n] c t
    by (fastforce simp: cached_def cached_delete_secret_def cache_invalidate_def inner_op_def bind_def cache_true_def secret_cache_key_inj)
next
  fix w w' :: "'w cached_world" and t k p c r and r' r''
  assume c: "cache_true ok I sec w" and t: "tenant_id t"
  have i: "I (cw_inner w)" using c by (simp add: cache_true_def)
  show "cache_true ok I sec w' \<and> sec (cw_inner w') = sec (cw_inner w)" if "v_list_secrets (cached cc V) t w = (r, w')"
    using that list_law [OF i t] c by (auto simp: cached_def inner_op_def cache_true_def split: prod.splits)
  show "cache_true ok I sec w' \<and> sec (cw_inner w') = sec (cw_inner w)" if "ok k" "v_encrypt (cached cc V) t k p w = (r', w')"
    using that encrypt_law [OF i t that(1)] c by (auto simp: cached_def inner_op_def cache_true_def split: prod.splits)
  show "cache_true ok I sec w' \<and> sec (cw_inner w') = sec (cw_inner w)" if "ok k" "v_decrypt (cached cc V) t k p' w = (r'', w')" for p' r''
    using that decrypt_law [OF i t that(1)] c by (auto simp: cached_def inner_op_def cache_true_def split: prod.splits)
  show "cache_true ok I sec w' \<and> sec (cw_inner w') = sec (cw_inner w)"
    if "ok k" "k \<noteq> ''kv-internal''" "v_rotate_key (cached cc V) t k w = (q, w')" for q
    using that rotate_law [OF i t that(1,2)] c by (auto simp: cached_def inner_op_def cache_true_def split: prod.splits)
qed

end
