(* ===== verification/Vault_Embedded.thy ===== *)
theory Vault_Embedded
  imports Vault_Laws
begin

text \<open>
  The embedded vault keeps the contract \<open>secret_store\<close> for names without a slash, as long as nothing fails: the invariant
  \<open>vault_sound\<close> says that every key file opens under the master key, that the keys in memory are those in the files, and
  that every secret file opens under the key of its tenant. It follows that the vault the server builds, the cache in front
  of the embedded vault, answers every sequence of calls as the vault in memory does.
\<close>

section \<open>What is assumed of the crates\<close>

definition vault_crates :: "vault_env \<Rightarrow> bool" where
  "vault_crates env \<longleftrightarrow>
     (\<forall>n. length (ve_random_key env n) = key_size) \<and> (\<forall>n. length (ve_random_nonce env n) = nonce_size) \<and>
     (\<forall>k n p. length k = key_size \<longrightarrow> length n = nonce_size \<longrightarrow>
        (\<exists>c. ve_aead_encrypt env k n p = Some c \<and> ve_aead_decrypt env k n c = Some p)) \<and>
     (\<forall>m. ve_parse_key env (ve_key_json env m) = Ok m) \<and> (\<forall>s. ve_parse_secret env (ve_secret_json env s) = Ok s)"

definition steady_vault :: "vault_env \<Rightarrow> bool" where
  "steady_vault env \<longleftrightarrow> ve_fails env = (\<lambda>_. False)"

lemma crates_lengths: "vault_crates env \<Longrightarrow> length (ve_random_key env n) = key_size"
  "vault_crates env \<Longrightarrow> length (ve_random_nonce env n) = nonce_size"
  by (simp_all add: vault_crates_def)

lemma crates_aead:
  assumes "vault_crates env" "length k = key_size" "length n = nonce_size"
  obtains c where "ve_aead_encrypt env k n p = Some c" "ve_aead_decrypt env k n c = Some p"
  using assms unfolding vault_crates_def by blast

lemma crates_json: "vault_crates env \<Longrightarrow> ve_parse_key env (ve_key_json env m) = Ok m"
  "vault_crates env \<Longrightarrow> ve_parse_secret env (ve_secret_json env x) = Ok x"
  by (simp_all add: vault_crates_def)

section \<open>Paths of a vault\<close>

definition plain :: "string \<Rightarrow> bool" where
  "plain n \<longleftrightarrow> CHR ''/'' \<notin> set n"

text \<open>Where the directories of the vault are, and that they are there.\<close>

definition base_ready :: "embedded_vault \<Rightarrow> path \<Rightarrow> fsys \<Rightarrow> bool" where
  "base_ready v b fs \<longleftrightarrow> resolve fs (mv_base_path v) = Ok b \<and> fs b = Some Dir \<and> fs (b @ [''keys'']) = Some Dir \<and>
     fs (b @ [''secrets'']) = Some Dir"

lemma base_ready_mono:
  "base_ready v b fs \<Longrightarrow> (\<And>p. fs p = Some Dir \<Longrightarrow> fs' p = Some Dir) \<Longrightarrow> base_ready v b fs'"
  unfolding base_ready_def by (blast intro: resolve_dirs)

lemma component_names: "component ''keys''" "component ''secrets''" "plain n \<Longrightarrow> component (n @ ''.json'')" "plain n \<Longrightarrow> component (n @ ''.key'')"
  by (auto simp: component_def plain_def append_eq_Cons_conv)

lemma vault_paths:
  assumes "component t"
  shows "keys_path v t = mv_base_path v @ [''keys'', t]" "secrets_path v t = mv_base_path v @ [''secrets'', t]"
    "plain n \<Longrightarrow> key_path v t n = mv_base_path v @ [''keys'', t, n @ ''.key'']"
    "plain n \<Longrightarrow> secret_path v t n = mv_base_path v @ [''secrets'', t, n @ ''.json'']"
  using assms by (simp_all add: keys_path_def secrets_path_def key_path_def secret_path_def join_component component_names)

lemma resolve_below:
  assumes "base_ready v b fs" "s = ''keys'' \<or> s = ''secrets''" "component t"
  shows "resolve fs (mv_base_path v @ [s, t]) = Ok (b @ [s, t])"
    "component c \<Longrightarrow> resolve fs (mv_base_path v @ [s, t, c]) =
       (case fs (b @ [s, t]) of Some Dir \<Rightarrow> Ok (b @ [s, t, c]) | Some (File d) \<Rightarrow> Err IoNotDir | None \<Rightarrow> Err IoNotFound)"
proof -
  have w: "walk fs p (x # xs) = (case fs p of None \<Rightarrow> Err IoNotFound | Some (File d) \<Rightarrow> Err IoNotDir | Some Dir \<Rightarrow> walk fs (p @ [x]) xs)"
    if "component x" for p x xs using that by (auto simp: component_def split: option.splits fs_node.splits)
  have s: "component s" "fs (b @ [s]) = Some Dir" using assms(1,2) component_names by (auto simp: base_ready_def)
  have "walk fs [] (mv_base_path v) = Ok b" "fs b = Some Dir" using assms(1) by (simp_all add: base_ready_def resolve_def)
  then have r: "resolve fs (mv_base_path v @ s # t # cs) = walk fs (b @ [s, t]) cs" for cs
    by (simp add: resolve_def walk_append w s assms(3) del: walk.simps(2))
  show "resolve fs (mv_base_path v @ [s, t]) = Ok (b @ [s, t])" by (simp add: r)
  show "component c \<Longrightarrow> resolve fs (mv_base_path v @ [s, t, c]) =
       (case fs (b @ [s, t]) of Some Dir \<Rightarrow> Ok (b @ [s, t, c]) | Some (File d) \<Rightarrow> Err IoNotDir | None \<Rightarrow> Err IoNotFound)"
    by (simp add: r w del: walk.simps(2) split: option.split fs_node.split)
qed

lemma walk_proper: "walk fs cur cs = Ok q \<Longrightarrow> walk fs cur (proper cs) = Ok q"
  by (induction fs cur cs rule: walk.induct) (auto split: option.splits fs_node.splits if_splits)

lemma create_tenant_dir:
  assumes "base_ready v b fs" "s = ''keys'' \<or> s = ''secrets''" "component t" "fs (b @ [s, t]) \<in> {None, Some Dir}"
  shows "create_dir_all (mv_base_path v @ [s, t]) fs = (Ok (), fs(b @ [s, t] \<mapsto> Dir))"
proof -
  let ?p = "proper (mv_base_path v) @ [s, t]"
  have st: "component s" using assms(2) component_names by auto
  have "proper (mv_base_path v @ [s, t]) = ?p" using st assms(3) by (auto simp: component_def)
  moreover have "resolve fs ?p = Ok (b @ [s, t])"
    using resolve_below(1) [OF assms(1-3)] walk_proper [of fs "[]" "mv_base_path v @ [s, t]" "b @ [s, t]"] calculation
    by (simp add: resolve_def)
  ultimately show ?thesis
    using assms(4) by (auto simp: create_dir_all_def mkdir_def node_at_def fun_upd_idem)
qed

section \<open>What a file system holds\<close>

definition key_text :: "vault_env \<Rightarrow> embedded_vault \<Rightarrow> string \<Rightarrow> string option" where
  "key_text env v d =
     (case ve_parse_key env d of
        Ok km \<Rightarrow>
          if length (km_dek_nonce km) = nonce_size
          then (case ve_aead_decrypt env (mv_master_key v) (km_dek_nonce km) (km_encrypted_dek km) of
                  Some dek \<Rightarrow> if length dek = key_size then Some dek else None | None \<Rightarrow> None)
          else None
      | _ \<Rightarrow> None)"

definition key_at :: "vault_env \<Rightarrow> embedded_vault \<Rightarrow> path \<Rightarrow> fsys \<Rightarrow> uuid \<Rightarrow> string \<Rightarrow> string option" where
  "key_at env v b fs t k = (case fs (b @ [''keys'', t, k @ ''.key'']) of Some (File d) \<Rightarrow> key_text env v d | _ \<Rightarrow> None)"

definition secret_text :: "vault_env \<Rightarrow> string \<Rightarrow> string \<Rightarrow> (string \<times> 64 word) option" where
  "secret_text env dek d =
     (case ve_parse_secret env d of
        Ok s \<Rightarrow>
          if length (ss_nonce s) = nonce_size
          then map_option (\<lambda>p. (p, ss_version s)) (ve_aead_decrypt env dek (ss_nonce s) (ss_ciphertext s)) else None
      | _ \<Rightarrow> None)"

definition secrets_at :: "vault_env \<Rightarrow> embedded_vault \<Rightarrow> path \<Rightarrow> fsys \<Rightarrow> secrets" where
  "secrets_at env v b fs = (\<lambda>(t, n).
     if tenant_id t \<and> plain n
     then (case (fs (b @ [''secrets'', t, n @ ''.json'']), key_at env v b fs t ''kv-internal'') of
             (Some (File d), Some dek) \<Rightarrow> secret_text env dek d | _ \<Rightarrow> None)
     else None)"

definition vault_sound :: "vault_env \<Rightarrow> embedded_vault \<Rightarrow> path \<Rightarrow> fsys \<Rightarrow> (uuid \<times> string \<Rightarrow> decrypted_key option) \<Rightarrow> bool" where
  "vault_sound env v b fs cache \<longleftrightarrow>
     base_ready v b fs \<and> length (mv_master_key v) = key_size \<and>
     (\<forall>t. tenant_id t \<longrightarrow> fs (b @ [''keys'', t]) \<in> {None, Some Dir} \<and> fs (b @ [''secrets'', t]) \<in> {None, Some Dir}) \<and>
     (\<forall>t k. tenant_id t \<longrightarrow> plain k \<longrightarrow> fs (b @ [''keys'', t, k @ ''.key'']) \<noteq> None \<longrightarrow>
        fs (b @ [''keys'', t]) = Some Dir \<and> key_at env v b fs t k \<noteq> None) \<and>
     (\<forall>t n. tenant_id t \<longrightarrow> plain n \<longrightarrow> fs (b @ [''secrets'', t, n @ ''.json'']) \<noteq> None \<longrightarrow>
        fs (b @ [''secrets'', t]) = Some Dir \<and> secrets_at env v b fs (t, n) \<noteq> None) \<and>
     (\<forall>t k dk. tenant_id t \<longrightarrow> plain k \<longrightarrow> cache (t, k) = Some dk \<longrightarrow> key_at env v b fs t k = Some (dk_dek dk))"

lemma sound_tenant: "vault_sound env v b fs cache \<Longrightarrow> tenant_id t \<Longrightarrow>
    fs (b @ [''keys'', t]) \<in> {None, Some Dir} \<and> fs (b @ [''secrets'', t]) \<in> {None, Some Dir}"
  by (simp add: vault_sound_def)

lemma sound_key: "vault_sound env v b fs cache \<Longrightarrow> tenant_id t \<Longrightarrow> plain k \<Longrightarrow> fs (b @ [''keys'', t, k @ ''.key'']) = Some x \<Longrightarrow>
    fs (b @ [''keys'', t]) = Some Dir \<and> (\<exists>d dek. x = File d \<and> key_at env v b fs t k = Some dek \<and> key_text env v d = Some dek)"
  unfolding vault_sound_def by (cases x) (fastforce simp: key_at_def)+

lemma sound_secret: "vault_sound env v b fs cache \<Longrightarrow> tenant_id t \<Longrightarrow> plain n \<Longrightarrow>
    fs (b @ [''secrets'', t, n @ ''.json'']) = Some x \<Longrightarrow>
    fs (b @ [''secrets'', t]) = Some Dir \<and> (\<exists>d dek y. x = File d \<and> key_at env v b fs t ''kv-internal'' = Some dek \<and>
      secret_text env dek d = Some y \<and> secrets_at env v b fs (t, n) = Some y)"
  unfolding vault_sound_def by (cases x; cases "key_at env v b fs t ''kv-internal''") (fastforce simp: secrets_at_def)+

lemma sound_cached: "vault_sound env v b fs cache \<Longrightarrow> tenant_id t \<Longrightarrow> plain k \<Longrightarrow> cache (t, k) = Some dk \<Longrightarrow>
    key_at env v b fs t k = Some (dk_dek dk)"
  by (simp add: vault_sound_def)

lemma vault_soundI:
  assumes "base_ready v b fs" "length (mv_master_key v) = key_size"
    and "\<And>t. tenant_id t \<Longrightarrow> fs (b @ [''keys'', t]) \<in> {None, Some Dir} \<and> fs (b @ [''secrets'', t]) \<in> {None, Some Dir}"
    and "\<And>t k x. tenant_id t \<Longrightarrow> plain k \<Longrightarrow> fs (b @ [''keys'', t, k @ ''.key'']) = Some x \<Longrightarrow>
        fs (b @ [''keys'', t]) = Some Dir \<and> key_at env v b fs t k \<noteq> None"
    and "\<And>t n x. tenant_id t \<Longrightarrow> plain n \<Longrightarrow> fs (b @ [''secrets'', t, n @ ''.json'']) = Some x \<Longrightarrow>
        fs (b @ [''secrets'', t]) = Some Dir \<and> secrets_at env v b fs (t, n) \<noteq> None"
    and "\<And>t k dk. tenant_id t \<Longrightarrow> plain k \<Longrightarrow> cache (t, k) = Some dk \<Longrightarrow> key_at env v b fs t k = Some (dk_dek dk)"
  shows "vault_sound env v b fs cache"
  using assms unfolding vault_sound_def by blast

lemma sound_base: "vault_sound env v b fs cache \<Longrightarrow> base_ready v b fs \<and> length (mv_master_key v) = key_size"
  by (simp add: vault_sound_def)

lemma plain_internal: "plain ''kv-internal''"
  by (simp add: plain_def)

lemma key_size_of: "key_at env v b fs t k = Some dek \<Longrightarrow> length dek = key_size"
  by (auto simp: key_at_def key_text_def split: option.splits fs_node.splits result.splits if_splits)

text \<open>The changes an operation makes.\<close>

lemma sound_tenant_dir:
  assumes "vault_sound env v b fs cache" "tenant_id t" "s = ''keys'' \<or> s = ''secrets''"
  shows "vault_sound env v b (fs(b @ [s, t] \<mapsto> Dir)) cache" "secrets_at env v b (fs(b @ [s, t] \<mapsto> Dir)) = secrets_at env v b fs"
    "key_at env v b (fs(b @ [s, t] \<mapsto> Dir)) = key_at env v b fs"
proof -
  let ?fs = "fs(b @ [s, t] \<mapsto> Dir)"
  show k: "key_at env v b ?fs = key_at env v b fs" by (simp add: key_at_def fun_eq_iff)
  show s: "secrets_at env v b ?fs = secrets_at env v b fs" by (simp add: secrets_at_def k fun_eq_iff)
  show "vault_sound env v b ?fs cache"
  proof (rule vault_soundI, unfold k s)
    show "base_ready v b ?fs" using sound_base [OF assms(1)] by (auto intro: base_ready_mono)
  qed (use sound_base [OF assms(1)] sound_tenant [OF assms(1)] sound_key [OF assms(1)] sound_secret [OF assms(1)]
      sound_cached [OF assms(1)] in \<open>fastforce split: if_splits\<close>)+
qed

lemma sound_key_file:
  assumes "vault_sound env v b fs cache" "tenant_id t" "plain k" "fs (b @ [''keys'', t]) = Some Dir"
    and d: "key_text env v d = Some dek" and new: "k = ''kv-internal'' \<Longrightarrow> fs (b @ [''keys'', t, k @ ''.key'']) = None"
    and c: "cache' = cache \<and> cache (t, k) = None \<or> cache' = cache((t, k) \<mapsto> \<lparr>dk_version = n, dk_dek = dek\<rparr>)"
  defines "fs' \<equiv> fs(b @ [''keys'', t, k @ ''.key''] \<mapsto> File d)"
  shows "vault_sound env v b fs' cache'" "secrets_at env v b fs' = secrets_at env v b fs" "key_at env v b fs' t k = Some dek"
proof -
  have k: "key_at env v b fs' t' k' = (if t' = t \<and> k' = k then Some dek else key_at env v b fs t' k')" for t' k'
    using d by (auto simp: key_at_def fs'_def)
  have files: "fs' (b @ [''secrets'', t', n @ ''.json'']) = fs (b @ [''secrets'', t', n @ ''.json''])" for t' n
    by (simp add: fs'_def)
  have none: "fs (b @ [''secrets'', t, n @ ''.json'']) = None" if "plain n" "k = ''kv-internal''" for n
    using sound_secret [OF assms(1,2) that(1)] new [OF that(2)] that(2) by (fastforce simp: key_at_def)
  show s: "secrets_at env v b fs' = secrets_at env v b fs"
    by (auto simp: secrets_at_def fun_eq_iff k files none split: option.splits)
  show "key_at env v b fs' t k = Some dek" by (simp add: k)
  show "vault_sound env v b fs' cache'"
  proof (rule vault_soundI, unfold k s files)
    have "fs (b @ [''keys'', t, k @ ''.key'']) \<noteq> Some Dir" using sound_key [OF assms(1-3)] by fastforce
    then show "base_ready v b fs'" using sound_base [OF assms(1)] by (auto simp: fs'_def intro: base_ready_mono)
    show "fs' (b @ [''keys'', t']) \<in> {None, Some Dir} \<and> fs' (b @ [''secrets'', t']) \<in> {None, Some Dir}" if "tenant_id t'" for t'
      using sound_tenant [OF assms(1) that] by (simp add: fs'_def)
    show "(if t' = t \<and> k' = k then Some dek else key_at env v b fs t' k') = Some (dk_dek dk)"
      if "tenant_id t'" "plain k'" "cache' (t', k') = Some dk" for t' k' dk
      using c that sound_cached [OF assms(1) that(1,2)] by (auto split: if_splits)
    show "fs' (b @ [''keys'', t']) = Some Dir \<and> (if t' = t \<and> k' = k then Some dek else key_at env v b fs t' k') \<noteq> None"
      if "tenant_id t'" "plain k'" "fs' (b @ [''keys'', t', k' @ ''.key'']) = Some x" for t' k' x
      using that assms(4) sound_key [OF assms(1) that(1,2)] by (auto simp: fs'_def split: if_splits)
    show "fs' (b @ [''secrets'', t']) = Some Dir \<and> secrets_at env v b fs (t', n) \<noteq> None"
      if "tenant_id t'" "plain n" "fs (b @ [''secrets'', t', n @ ''.json'']) = Some x" for t' n x
      using sound_secret [OF assms(1) that] by (auto simp: fs'_def)
  qed (use sound_base [OF assms(1)] in simp)
qed

lemma sound_secret_change:
  assumes "vault_sound env v b fs cache" "tenant_id t" "plain n"
    and x: "node = None \<and> x = None \<or> fs (b @ [''secrets'', t]) = Some Dir \<and> (\<exists>d dek y. node = Some (File d) \<and>
      key_at env v b fs t ''kv-internal'' = Some dek \<and> secret_text env dek d = Some y \<and> x = Some y)"
  defines "fs' \<equiv> fs(b @ [''secrets'', t, n @ ''.json''] := node)"
  shows "vault_sound env v b fs' cache" "secrets_at env v b fs' = (secrets_at env v b fs)((t, n) := x)"
proof -
  have k: "key_at env v b fs' = key_at env v b fs" by (simp add: key_at_def fs'_def fun_eq_iff)
  have files: "fs' (b @ [''keys'', t', n @ ''.key'']) = fs (b @ [''keys'', t', n @ ''.key''])" for t' n by (simp add: fs'_def)
  show s: "secrets_at env v b fs' = (secrets_at env v b fs)((t, n) := x)"
    using assms(2,3) x by (auto simp: secrets_at_def fun_eq_iff k) (auto simp: fs'_def)
  show "vault_sound env v b fs' cache"
  proof (rule vault_soundI, unfold k s files)
    have "fs (b @ [''secrets'', t, n @ ''.json'']) \<noteq> Some Dir" using sound_secret [OF assms(1-3)] by fastforce
    then show "base_ready v b fs'" using sound_base [OF assms(1)] by (auto simp: fs'_def intro: base_ready_mono)
    show "fs' (b @ [''keys'', t']) \<in> {None, Some Dir} \<and> fs' (b @ [''secrets'', t']) \<in> {None, Some Dir}" if "tenant_id t'" for t'
      using sound_tenant [OF assms(1) that] by (simp add: fs'_def)
    show "fs' (b @ [''secrets'', t']) = Some Dir \<and> ((secrets_at env v b fs)((t, n) := x)) (t', n') \<noteq> None"
      if "tenant_id t'" "plain n'" "fs' (b @ [''secrets'', t', n' @ ''.json'']) = Some y" for t' n' y
      using that x sound_secret [OF assms(1) that(1,2)] by (auto simp: fs'_def split: if_splits)
    show "fs' (b @ [''keys'', t']) = Some Dir \<and> key_at env v b fs t' k' \<noteq> None"
      if "tenant_id t'" "plain k'" "fs (b @ [''keys'', t', k' @ ''.key'']) = Some y" for t' k' y
      using sound_key [OF assms(1) that] by (auto simp: fs'_def)
  qed (use sound_base [OF assms(1)] sound_cached [OF assms(1)] in auto)
qed

section \<open>Operations where nothing fails\<close>

lemma steady_wp:
  assumes "steady_vault env"
  shows "wp (vio env what f) Q E w \<longleftrightarrow>
      (case f (vw_fs w) of (Ok a, fs') \<Rightarrow> Q a (w\<lparr>vw_effects := Suc (vw_effects w), vw_fs := fs'\<rparr>)
       | (_, fs') \<Rightarrow> E (w\<lparr>vw_effects := Suc (vw_effects w), vw_fs := fs'\<rparr>))"
    "wp (vexists env p) Q' E w \<longleftrightarrow> Q' (node_at (vw_fs w) p \<noteq> None) (w\<lparr>vw_effects := Suc (vw_effects w)\<rparr>)"
  using assms by (auto simp: wp_def vio_def map_error_def vfile_def vexists_def bind_def attempt_def steady_vault_def Let_def
      split: prod.splits result.splits)

lemma wp_state:
  "wp (vfresh g) Q E w \<longleftrightarrow> Q (g (vw_fresh w)) (w\<lparr>vw_fresh := Suc (vw_fresh w)\<rparr>)"
  "wp (vget h) Q' E w \<longleftrightarrow> Q' (h w) w"
  "wp (cache_key t k dk) Q'' E w \<longleftrightarrow> Q'' () (w\<lparr>vw_cache := (vw_cache w)((t, k) \<mapsto> dk)\<rparr>)"
  by (simp_all add: wp_def vfresh_def vget_def cache_key_def)

lemma wp_ret_at: "wp (ret a) Q E = Q a"
  by (simp add: fun_eq_iff wp_ret)

lemmas vault_wp = wp_ret_at wp_bind wp_ret wp_lift wp_state steady_wp

lemma leaf_ops:
  assumes "base_ready v b fs" "s = ''keys'' \<or> s = ''secrets''" "component t" "component c" "fs (b @ [s, t]) = Some Dir"
  shows "node_at fs (mv_base_path v @ [s, t, c]) = fs (b @ [s, t, c])"
    "fs (b @ [s, t, c]) \<noteq> Some Dir \<Longrightarrow> write_file (mv_base_path v @ [s, t, c]) d fs = (Ok (), fs(b @ [s, t, c] \<mapsto> File d))"
    "fs (b @ [s, t, c]) = Some (File d) \<Longrightarrow> read_file (mv_base_path v @ [s, t, c]) fs = (Ok d, fs)"
    "fs (b @ [s, t, c]) = Some (File d) \<Longrightarrow> remove_file (mv_base_path v @ [s, t, c]) fs = (Ok (), fs(b @ [s, t, c] := None))"
  using resolve_below(2) [OF assms(1-4)] assms(5)
  by (auto simp: node_at_def write_file_def read_file_def remove_file_def split: option.splits fs_node.splits)

lemma leaf_missing:
  assumes "base_ready v b fs" "s = ''keys'' \<or> s = ''secrets''" "component t" "component c" "fs (b @ [s, t]) \<noteq> Some Dir"
  shows "node_at fs (mv_base_path v @ [s, t, c]) = None"
  using resolve_below(2) [OF assms(1-4)] assms(5) by (auto simp: node_at_def split: option.splits fs_node.splits)

text \<open>What an operation on keys may do: secrets stay, and a key that was there stays unless it is rotated.\<close>

definition keyed :: "vault_env \<Rightarrow> embedded_vault \<Rightarrow> path \<Rightarrow> vault_world \<Rightarrow> vault_world \<Rightarrow> bool" where
  "keyed env v b w w' \<longleftrightarrow> vw_sealed w' = vw_sealed w \<and> vw_now w' = vw_now w \<and> vault_sound env v b (vw_fs w') (vw_cache w') \<and>
     secrets_at env v b (vw_fs w') = secrets_at env v b (vw_fs w) \<and>
     (\<forall>t k dek. key_at env v b (vw_fs w) t k = Some dek \<longrightarrow> key_at env v b (vw_fs w') t k = Some dek)"

lemma keyed_trans: "keyed env v b w1 w2 \<Longrightarrow> keyed env v b w2 w3 \<Longrightarrow> keyed env v b w1 w3"
  by (simp add: keyed_def)

lemma key_node:
  assumes "vault_sound env v b fs cache" "tenant_id t" "plain k"
  shows "node_at fs (key_path v t k) = fs (b @ [''keys'', t, k @ ''.key''])"
proof -
  have t: "component t" using assms(2) by (simp add: tenant_id_def)
  have b: "base_ready v b fs" using sound_base [OF assms(1)] by simp
  have p: "key_path v t k = mv_base_path v @ [''keys'', t, k @ ''.key'']" using t assms(3) by (simp add: vault_paths)
  show ?thesis
  proof (cases "fs (b @ [''keys'', t]) = Some Dir")
    case True
    then show ?thesis unfolding p by (intro leaf_ops(1) [OF b _ t component_names(4) [OF assms(3)]]) simp_all
  next
    case False
    moreover have "fs (b @ [''keys'', t, k @ ''.key'']) = None"
      using sound_key [OF assms] False by (cases "fs (b @ [''keys'', t, k @ ''.key''])") auto
    ultimately show ?thesis using leaf_missing [OF b _ t component_names(4) [OF assms(3)]] unfolding p by metis
  qed
qed

lemma secret_node:
  assumes "vault_sound env v b fs cache" "tenant_id t" "plain n"
  shows "node_at fs (secret_path v t n) = fs (b @ [''secrets'', t, n @ ''.json''])"
proof -
  have t: "component t" using assms(2) by (simp add: tenant_id_def)
  have b: "base_ready v b fs" using sound_base [OF assms(1)] by simp
  have p: "secret_path v t n = mv_base_path v @ [''secrets'', t, n @ ''.json'']" using t assms(3) by (simp add: vault_paths)
  show ?thesis
  proof (cases "fs (b @ [''secrets'', t]) = Some Dir")
    case True
    then show ?thesis unfolding p by (intro leaf_ops(1) [OF b _ t component_names(3) [OF assms(3)]]) simp_all
  next
    case False
    moreover have "fs (b @ [''secrets'', t, n @ ''.json'']) = None"
      using sound_secret [OF assms] False by (cases "fs (b @ [''secrets'', t, n @ ''.json''])") auto
    ultimately show ?thesis using leaf_missing [OF b _ t component_names(3) [OF assms(3)]] unfolding p by metis
  qed
qed

lemma open_key_wp:
  assumes "steady_vault env" "ve_parse_key env d = Ok km" "key_text env v d = Some dek"
  shows "wp (open_key env v t k km) Q E w \<longleftrightarrow>
    Q \<lparr>dk_version = km_version km, dk_dek = dek\<rparr> (w\<lparr>vw_cache := (vw_cache w)((t, k) \<mapsto> \<lparr>dk_version = km_version km, dk_dek = dek\<rparr>)\<rparr>)"
  using assms(2,3) by (auto simp: key_text_def open_key_def aead_decrypt_def vault_wp assms(1) ok_or_def Let_def split: if_splits option.splits)

lemma create_key_wp:
  assumes e: "steady_vault env" "vault_crates env" and s: "vault_sound env v b (vw_fs w) (vw_cache w)" and t: "tenant_id t" and k: "plain k"
    and none: "vw_fs w (b @ [''keys'', t, k @ ''.key'']) = None" and uncached: "vw_cache w (t, k) = None"
  shows "wp (create_key env v t k) (\<lambda>km w'. keyed env v b w w' \<and> (\<exists>dek. key_text env v (ve_key_json env km) = Some dek \<and>
      vw_fs w' (b @ [''keys'', t]) = Some Dir \<and> key_at env v b (vw_fs w') t k = Some dek)) (\<lambda>_. False) w"
proof -
  have ct: "component t" using t by (simp add: tenant_id_def)
  let ?dek = "ve_random_key env (vw_fresh w)" and ?nonce = "ve_random_nonce env (Suc (vw_fresh w))"
  have len: "length ?dek = key_size" "length ?nonce = nonce_size" "length (mv_master_key v) = key_size"
    using crates_lengths [OF e(2)] sound_base [OF s] by simp_all
  obtain c where c: "ve_aead_encrypt env (mv_master_key v) ?nonce ?dek = Some c" "ve_aead_decrypt env (mv_master_key v) ?nonce c = Some ?dek"
    by (rule crates_aead [OF e(2) len(3) len(2)])
  let ?km = "\<lparr>km_version = 1, km_encrypted_dek = c, km_dek_nonce = ?nonce, km_created_at = vw_now w, km_rotated_at = vw_now w\<rparr>"
  have opens: "key_text env v (ve_key_json env ?km) = Some ?dek" using len c by (simp add: key_text_def crates_json [OF e(2)])
  let ?fs = "(vw_fs w)(b @ [''keys'', t] \<mapsto> Dir)"
  let ?fs' = "?fs(b @ [''keys'', t, k @ ''.key''] \<mapsto> File (ve_key_json env ?km))"
  have dir: "create_dir_all (keys_path v t) (vw_fs w) = (Ok (), ?fs)"
    using create_tenant_dir [of v b "vw_fs w" "''keys''" t] sound_base [OF s] sound_tenant [OF s t] ct by (simp add: vault_paths)
  have s1: "vault_sound env v b ?fs (vw_cache w)" "secrets_at env v b ?fs = secrets_at env v b (vw_fs w)"
    using sound_tenant_dir [OF s t, of "''keys''"] by simp_all
  have written: "write_file (key_path v t k) (ve_key_json env ?km) ?fs = (Ok (), ?fs')"
    using leaf_ops(2) [of v b ?fs "''keys''" t "k @ ''.key''"] sound_base [OF s1(1)] none ct component_names(4) [OF k]
    by (simp add: vault_paths k)
  note s2 = sound_key_file [OF s1(1) t k _ opens, where cache' = "vw_cache w" and n = 1]
  have "key_at env v b (vw_fs w) t k = None" using none by (simp add: key_at_def)
  moreover have "key_at env v b ?fs' t' k' = key_at env v b (vw_fs w) t' k'" if "t' \<noteq> t \<or> k' \<noteq> k" for t' k'
    using that by (auto simp: key_at_def)
  then have "key_at env v b (vw_fs w) t' k' = Some dek \<Longrightarrow> t' \<noteq> t \<or> k' \<noteq> k \<Longrightarrow> key_at env v b ?fs' t' k' = Some dek" for t' k' dek
    by simp
  ultimately have kept: "\<forall>t' k' dek. key_at env v b (vw_fs w) t' k' = Some dek \<longrightarrow> key_at env v b ?fs' t' k' = Some dek"
    by (metis option.distinct(1))
  have "vault_sound env v b ?fs' (vw_cache w)" by (rule s2(1)) (use none uncached in simp_all)
  moreover have "secrets_at env v b ?fs' = secrets_at env v b ?fs" by (rule s2(2)) (use none uncached in simp_all)
  moreover have "key_at env v b ?fs' t k = Some ?dek" by (rule s2(3)) (use none uncached in simp_all)
  ultimately show ?thesis
    using opens s1(2) kept by (simp add: create_key_def aead_encrypt_def vault_wp e(1) ok_or_def Let_def c(1) dir written keyed_def)
qed

lemma get_or_create_key_wp:
  assumes e: "steady_vault env" "vault_crates env" and s: "vault_sound env v b (vw_fs w) (vw_cache w)" and t: "tenant_id t" and k: "plain k"
  shows "wp (get_or_create_key env v t k)
    (\<lambda>dk w'. keyed env v b w w' \<and> key_at env v b (vw_fs w') t k = Some (dk_dek dk)) (\<lambda>_. False) w"
proof (cases "vw_cache w (t, k)")
  case (Some dk)
  then show ?thesis using s sound_cached [OF s t k] by (simp add: get_or_create_key_def vault_wp keyed_def)
next
  case None
  let ?p = "b @ [''keys'', t, k @ ''.key'']" and ?w = "w\<lparr>vw_effects := Suc (vw_effects w)\<rparr>"
  have ct: "component t" using t by (simp add: tenant_id_def)
  show ?thesis
  proof (cases "vw_fs w ?p")
    case (Some x)
    then obtain d dek where d: "x = File d" "key_at env v b (vw_fs w) t k = Some dek" "key_text env v d = Some dek"
      and dir: "vw_fs w (b @ [''keys'', t]) = Some Dir" using sound_key [OF s t k] by blast
    obtain km where km: "ve_parse_key env d = Ok km" using d(3) by (auto simp: key_text_def split: result.splits)
    have r: "read_file (key_path v t k) (vw_fs w) = (Ok d, vw_fs w)"
      using leaf_ops(3) [of v b "vw_fs w" "''keys''" t "k @ ''.key''"] sound_base [OF s] dir Some d(1) ct component_names(4) [OF k]
      by (simp add: vault_paths k)
    have "vault_sound env v b (vw_fs w) ((vw_cache w)((t, k) \<mapsto> \<lparr>dk_version = n, dk_dek = dek\<rparr>))" for n
      using s d(2) unfolding vault_sound_def by auto
    then show ?thesis
      using d(2) by (simp add: get_or_create_key_def vault_wp e(1) None key_node [OF s t k] Some read_key_def r km
          open_key_wp [OF e(1) km d(3)] keyed_def)
  next
    case none: None
    have "wp (create_key env v t k) (\<lambda>km w'. wp (open_key env v t k km)
        (\<lambda>dk w'. keyed env v b w w' \<and> key_at env v b (vw_fs w') t k = Some (dk_dek dk)) (\<lambda>_. False) w') (\<lambda>_. False) ?w"
    proof (rule wp_mono [OF create_key_wp [OF e, of v b ?w t k]])
      fix km w'
      assume a: "keyed env v b ?w w' \<and> (\<exists>dek. key_text env v (ve_key_json env km) = Some dek \<and>
        vw_fs w' (b @ [''keys'', t]) = Some Dir \<and> key_at env v b (vw_fs w') t k = Some dek)"
      then obtain dek where dek: "key_text env v (ve_key_json env km) = Some dek" "key_at env v b (vw_fs w') t k = Some dek" by blast
      have "vault_sound env v b (vw_fs w') ((vw_cache w')((t, k) \<mapsto> \<lparr>dk_version = n, dk_dek = dek\<rparr>))" for n
        using a dek(2) unfolding keyed_def vault_sound_def by auto
      moreover have "ve_parse_key env (ve_key_json env km) = Ok km" by (simp add: crates_json [OF e(2)])
      ultimately show "wp (open_key env v t k km)
        (\<lambda>dk w'. keyed env v b w w' \<and> key_at env v b (vw_fs w') t k = Some (dk_dek dk)) (\<lambda>_. False) w'"
        using a dek by (simp add: open_key_wp [OF e(1) _ dek(1)] keyed_def)
    qed (use s t k none None in simp_all)
    then show ?thesis by (simp add: get_or_create_key_def vault_wp e(1) None key_node [OF s t k] none)
  qed
qed

lemma encrypt_with_key_wp:
  assumes e: "steady_vault env" "vault_crates env" and s: "vault_sound env v b (vw_fs w) (vw_cache w)" and t: "tenant_id t" and k: "plain k"
  shows "wp (encrypt_with_key env v t k p) (\<lambda>(data, nonce, version) w'. keyed env v b w w' \<and> length nonce = nonce_size \<and>
      (\<exists>dek. key_at env v b (vw_fs w') t k = Some dek \<and> ve_aead_decrypt env dek nonce data = Some p)) (\<lambda>_. False) w"
  unfolding encrypt_with_key_def wp_bind
proof (rule wp_mono [OF get_or_create_key_wp [OF e s t k]])
  fix dk w'
  assume a: "keyed env v b w w' \<and> key_at env v b (vw_fs w') t k = Some (dk_dek dk)"
  let ?n = "ve_random_nonce env (vw_fresh w')"
  have "length (dk_dek dk) = key_size" "length ?n = nonce_size" using a key_size_of crates_lengths [OF e(2)] by auto
  then obtain c where "ve_aead_encrypt env (dk_dek dk) ?n p = Some c" "ve_aead_decrypt env (dk_dek dk) ?n c = Some p"
    by (rule crates_aead [OF e(2)])
  then show "wp (vfresh (ve_random_nonce env)) (\<lambda>nonce. wp (aead_encrypt env (dk_dek dk) nonce p)
      (\<lambda>data. wp (ret (data, nonce, dk_version dk)) (\<lambda>(data, nonce, version) w'. keyed env v b w w' \<and> length nonce = nonce_size \<and>
        (\<exists>dek. key_at env v b (vw_fs w') t k = Some dek \<and> ve_aead_decrypt env dek nonce data = Some p)) (\<lambda>_. False)) (\<lambda>_. False)) (\<lambda>_. False) w'"
    using a crates_lengths [OF e(2)] by (simp add: vault_wp aead_encrypt_def ok_or_def keyed_def)
qed

lemma decrypt_with_key_wp:
  assumes e: "steady_vault env" "vault_crates env" and s: "vault_sound env v b (vw_fs w) (vw_cache w)" and t: "tenant_id t" and k: "plain k"
  shows "wp (decrypt_with_key env v t k c n) (\<lambda>_ w'. keyed env v b w w') (\<lambda>w'. keyed env v b w w') w"
    "key_at env v b (vw_fs w) t k = Some dek \<Longrightarrow> ve_aead_decrypt env dek n c = Some p \<Longrightarrow> length n = nonce_size \<Longrightarrow>
      wp (decrypt_with_key env v t k c n) (\<lambda>q w'. q = p \<and> keyed env v b w w') (\<lambda>_. False) w"
  unfolding decrypt_with_key_def wp_bind
  by (rule wp_mono [OF get_or_create_key_wp [OF e s t k]]; auto simp: aead_decrypt_def vault_wp ok_or_def keyed_def split: option.splits)+

section \<open>The contract\<close>

lemma unsealed_wp: "wp (unsealed m) Q E w \<longleftrightarrow> (if vw_sealed w then E w else wp m Q E w)"
  by (simp add: unsealed_def vault_wp)

text \<open>Where nothing fails, rotating a key that is there replaces its file and what is in memory.\<close>

definition rotated :: "uuid \<Rightarrow> string \<Rightarrow> path \<Rightarrow> 32 word \<Rightarrow> string \<Rightarrow> string \<Rightarrow> vault_world \<Rightarrow> vault_world" where
  "rotated t k p n dek d w =
     w\<lparr>vw_fs := (vw_fs w)(p \<mapsto> File d), vw_cache := (vw_cache w)((t, k) \<mapsto> \<lparr>dk_version = n, dk_dek = dek\<rparr>),
       vw_fresh := Suc (Suc (vw_fresh w)), vw_effects := Suc (Suc (Suc (vw_effects w)))\<rparr>"

lemma rotate_run:
  assumes e: "steady_vault env" "vault_crates env" and s: "vault_sound env v b (vw_fs w) (vw_cache w)" and u: "\<not> vw_sealed w"
    and t: "tenant_id t" and k: "plain k" and there: "vw_fs w (b @ [''keys'', t, k @ ''.key'']) = Some x"
  obtains n d where "key_text env v d = Some (ve_random_key env (vw_fresh w))"
    "embedded_rotate_key env v t k w = (Ok n, rotated t k (b @ [''keys'', t, k @ ''.key'']) n (ve_random_key env (vw_fresh w)) d w)"
proof -
  have ct: "component t" using t by (simp add: tenant_id_def)
  obtain d dek where d: "x = File d" "key_text env v d = Some dek" and dir: "vw_fs w (b @ [''keys'', t]) = Some Dir"
    using sound_key [OF s t k there] by blast
  obtain km where km: "ve_parse_key env d = Ok km" using d(2) by (auto simp: key_text_def split: result.splits)
  note leaf = leaf_ops [of v b "vw_fs w" "''keys''" t "k @ ''.key''", OF _ _ ct component_names(4) [OF k] dir]
  have rd: "read_file (key_path v t k) (vw_fs w) = (Ok d, vw_fs w)" using leaf(3) sound_base [OF s] there d(1) ct by (simp add: vault_paths k)
  have wr: "write_file (key_path v t k) u (vw_fs w) = (Ok (), (vw_fs w)(b @ [''keys'', t, k @ ''.key''] \<mapsto> File u))" for u
    using leaf(2) sound_base [OF s] there d(1) ct by (simp add: vault_paths k)
  let ?dek = "ve_random_key env (vw_fresh w)" and ?n = "ve_random_nonce env (Suc (vw_fresh w))"
  have len: "length ?dek = key_size" "length ?n = nonce_size" "length (mv_master_key v) = key_size"
    using crates_lengths [OF e(2)] sound_base [OF s] by simp_all
  obtain c where c: "ve_aead_encrypt env (mv_master_key v) ?n ?dek = Some c" "ve_aead_decrypt env (mv_master_key v) ?n c = Some ?dek"
    by (rule crates_aead [OF e(2) len(3) len(2)])
  let ?km = "km\<lparr>km_version := km_version km + 1, km_encrypted_dek := c, km_dek_nonce := ?n, km_rotated_at := vw_now w\<rparr>"
  let ?w = "rotated t k (b @ [''keys'', t, k @ ''.key'']) (km_version km + 1) ?dek (ve_key_json env ?km) w"
  have "wp (embedded_rotate_key env v t k) (\<lambda>n w'. n = km_version km + 1 \<and> w' = ?w) (\<lambda>_. False) w"
    by (simp add: embedded_rotate_key_def unsealed_wp vault_wp e(1) key_node [OF s t k] there u read_key_def rd km aead_encrypt_def
        ok_or_def c(1) wr Let_def rotated_def)
  then have "embedded_rotate_key env v t k w = (Ok (km_version km + 1), ?w)" by (auto simp: wp_def split: prod.splits result.splits)
  moreover have "key_text env v (ve_key_json env ?km) = Some ?dek" using len c by (simp add: key_text_def crates_json [OF e(2)])
  ultimately show thesis using that by blast
qed

lemma rotate_wp:
  assumes e: "steady_vault env" "vault_crates env" and s: "vault_sound env v b (vw_fs w) (vw_cache w)" and t: "tenant_id t" and k: "plain k"
    and other: "k \<noteq> ''kv-internal''" and I: "I = (\<lambda>w'. vw_sealed w' = vw_sealed w \<and> vault_sound env v b (vw_fs w') (vw_cache w') \<and>
      secrets_at env v b (vw_fs w') = secrets_at env v b (vw_fs w))"
  shows "wp (embedded_rotate_key env v t k) (\<lambda>_. I) I w"
proof (cases "\<not> vw_sealed w \<and> vw_fs w (b @ [''keys'', t, k @ ''.key'']) \<noteq> None")
  case False
  then show ?thesis using s by (auto simp: embedded_rotate_key_def unsealed_wp vault_wp e(1) key_node [OF s t k] I Let_def)
next
  case True
  then obtain x where x: "\<not> vw_sealed w" "vw_fs w (b @ [''keys'', t, k @ ''.key'']) = Some x" by blast
  then have dir: "vw_fs w (b @ [''keys'', t]) = Some Dir" using sound_key [OF s t k] by blast
  obtain n d where opens: "key_text env v d = Some (ve_random_key env (vw_fresh w))"
    and run: "embedded_rotate_key env v t k w = (Ok n, rotated t k (b @ [''keys'', t, k @ ''.key'']) n (ve_random_key env (vw_fresh w)) d w)"
    by (rule rotate_run [OF e s x(1) t k x(2)])
  note s2 = sound_key_file [OF s t k dir opens,
    where cache' = "(vw_cache w)((t, k) \<mapsto> \<lparr>dk_version = n, dk_dek = ve_random_key env (vw_fresh w)\<rparr>)" and n = n]
  show ?thesis using s2(1,2) other by (simp add: wp_def run rotated_def I)
qed

definition open_vault :: "vault_env \<Rightarrow> embedded_vault \<Rightarrow> path \<Rightarrow> vault_world \<Rightarrow> bool" where
  "open_vault env v b w \<longleftrightarrow> \<not> vw_sealed w \<and> vault_sound env v b (vw_fs w) (vw_cache w)"

lemma get_wp:
  assumes e: "steady_vault env" "vault_crates env" and o: "open_vault env v b w" and t: "tenant_id t" and n: "plain n"
  shows "wp (embedded_get_secret env v t n) (\<lambda>r w'. open_vault env v b w' \<and> secrets_at env v b (vw_fs w') = secrets_at env v b (vw_fs w) \<and>
      map_option secret_view r = secrets_at env v b (vw_fs w) (t, n)) (\<lambda>_. False) w"
proof -
  have s: "vault_sound env v b (vw_fs w) (vw_cache w)" and u: "\<not> vw_sealed w" using o by (simp_all add: open_vault_def)
  show ?thesis
  proof (cases "vw_fs w (b @ [''secrets'', t, n @ ''.json''])")
    case None
    then have "secrets_at env v b (vw_fs w) (t, n) = None" by (simp add: secrets_at_def)
    then show ?thesis using None o u by (simp add: embedded_get_secret_def unsealed_wp vault_wp e(1) secret_node [OF s t n] Let_def open_vault_def)
  next
    case (Some x)
    have ct: "component t" using t by (simp add: tenant_id_def)
    obtain d dek y where d: "x = File d" "key_at env v b (vw_fs w) t ''kv-internal'' = Some dek" "secret_text env dek d = Some y"
      "secrets_at env v b (vw_fs w) (t, n) = Some y" and dir: "vw_fs w (b @ [''secrets'', t]) = Some Dir" using sound_secret [OF s t n Some] by blast
    obtain st p where st: "ve_parse_secret env d = Ok st" "length (ss_nonce st) = nonce_size"
      "ve_aead_decrypt env dek (ss_nonce st) (ss_ciphertext st) = Some p" "y = (p, ss_version st)"
      using d(3) by (auto simp: secret_text_def split: result.splits if_splits)
    have rd: "read_file (secret_path v t n) (vw_fs w) = (Ok d, vw_fs w)"
      using leaf_ops(3) [of v b "vw_fs w" "''secrets''" t "n @ ''.json''", OF _ _ ct component_names(3) [OF n] dir] sound_base [OF s] Some d(1) ct
      by (simp add: vault_paths n)
    let ?w = "w\<lparr>vw_effects := Suc (Suc (vw_effects w))\<rparr>"
    have "wp (decrypt_with_key env v t ''kv-internal'' (ss_ciphertext st) (ss_nonce st)) (\<lambda>q w'. q = p \<and> keyed env v b ?w w') (\<lambda>_. False) ?w"
      by (rule decrypt_with_key_wp(2) [OF e _ t plain_internal _ st(3,2)]) (use s d(2) in simp_all)
    then have "wp (decrypt_with_key env v t ''kv-internal'' (ss_ciphertext st) (ss_nonce st))
        (\<lambda>q w'. open_vault env v b w' \<and> secrets_at env v b (vw_fs w') = secrets_at env v b (vw_fs w) \<and> (q, ss_version st) = y) (\<lambda>_. False) ?w"
      by (rule wp_mono) (use u st(4) in \<open>auto simp: keyed_def open_vault_def\<close>)
    then show ?thesis using u d(4)
      by (simp add: embedded_get_secret_def unsealed_wp vault_wp e(1) secret_node [OF s t n] Some read_secret_def rd st(1) Let_def secret_view_def)
  qed
qed

lemma put_wp:
  assumes e: "steady_vault env" "vault_crates env" and o: "open_vault env v b w" and t: "tenant_id t" and n: "plain n"
  shows "wp (embedded_put_secret env v t n val) (\<lambda>_ w'. open_vault env v b w' \<and>
      secrets_at env v b (vw_fs w') = (secrets_at env v b (vw_fs w))((t, n) \<mapsto> (sv_data val, next_version (secrets_at env v b (vw_fs w) (t, n))))) (\<lambda>_. False) w"
proof -
  have s: "vault_sound env v b (vw_fs w) (vw_cache w)" and u: "\<not> vw_sealed w" using o by (simp_all add: open_vault_def)
  have ct: "component t" using t by (simp add: tenant_id_def)
  let ?sec = "secrets_at env v b (vw_fs w)"
  let ?Q = "\<lambda>_ w'. open_vault env v b w' \<and> secrets_at env v b (vw_fs w') = ?sec((t, n) \<mapsto> (sv_data val, next_version (?sec (t, n))))"
  show ?thesis
    unfolding embedded_put_secret_def unsealed_wp if_not_P [OF u] wp_bind
  proof (rule wp_mono [OF encrypt_with_key_wp [OF e s t plain_internal]], goal_cases)
    case (1 x w')
    then obtain data nonce version dek where x: "x = (data, nonce, version)" "keyed env v b w w'" "length nonce = nonce_size"
      "key_at env v b (vw_fs w') t ''kv-internal'' = Some dek" "ve_aead_decrypt env dek nonce data = Some (sv_data val)"
      by (cases x) auto
    have s': "vault_sound env v b (vw_fs w') (vw_cache w')" and k: "vw_sealed w' = vw_sealed w" "secrets_at env v b (vw_fs w') = ?sec"
      using x(2) by (simp_all add: keyed_def)
    let ?old = "vw_fs w' (b @ [''secrets'', t, n @ ''.json''])"
    let ?fs = "(vw_fs w')(b @ [''secrets'', t] \<mapsto> Dir)"
    note dir = sound_tenant_dir [OF s' t, of "''secrets''"]
    have mk: "create_dir_all (secrets_path v t) (vw_fs w') = (Ok (), ?fs)"
      using create_tenant_dir [of v b "vw_fs w'" "''secrets''" t] sound_base [OF s'] sound_tenant [OF s' t] ct by (simp add: vault_paths)
    have no_dir: "?old \<noteq> Some Dir" using sound_secret [OF s' t n] by fastforce
    have wr: "write_file (secret_path v t n) u ?fs = (Ok (), ?fs(b @ [''secrets'', t, n @ ''.json''] \<mapsto> File u))" for u
      using leaf_ops(2) [of v b ?fs "''secrets''" t "n @ ''.json''"] sound_base [OF dir(1)] no_dir ct component_names(3) [OF n]
      by (simp add: vault_paths n)
    have fin: "open_vault env v b (w2\<lparr>vw_fs := ?fs(b @ [''secrets'', t, n @ ''.json''] \<mapsto> File (ve_secret_json env st))\<rparr>) \<and>
        secrets_at env v b (?fs(b @ [''secrets'', t, n @ ''.json''] \<mapsto> File (ve_secret_json env st))) = ?sec((t, n) \<mapsto> (sv_data val, ss_version st))"
      if "vw_cache w2 = vw_cache w'" "vw_sealed w2 = vw_sealed w'" "ss_ciphertext st = data" "ss_nonce st = nonce" for w2 st
    proof -
      have "secret_text env dek (ve_secret_json env st) = Some (sv_data val, ss_version st)"
        using that x(3,5) by (simp add: secret_text_def crates_json [OF e(2)])
      then show ?thesis
        using sound_secret_change [OF dir(1) t n, of "Some (File (ve_secret_json env st))" "Some (sv_data val, ss_version st)"]
          dir(2,3) x(4) k u that(1,2) by (simp add: open_vault_def)
    qed
    show ?case
    proof (cases ?old)
      case None
      have "?sec (t, n) = None" using None k(2) [symmetric] by (simp add: secrets_at_def)
      then show ?thesis using x(1) None fin
        by (simp add: vault_wp e(1) secret_node [OF s' t n] mk wr Let_def next_version_def)
    next
      case (Some y)
      have dir0: "vw_fs w' (b @ [''secrets'', t]) = Some Dir" using sound_secret [OF s' t n Some] by simp
      obtain d dek' z where d: "y = File d" "secret_text env dek' d = Some z" "?sec (t, n) = Some z"
        using sound_secret [OF s' t n Some] k(2) by auto
      obtain st where st: "ve_parse_secret env d = Ok st" "snd z = ss_version st"
        using d(2) by (auto simp: secret_text_def split: result.splits if_splits)
      have rd: "read_file (secret_path v t n) (vw_fs w') = (Ok d, vw_fs w')"
        using leaf_ops(3) [of v b "vw_fs w'" "''secrets''" t "n @ ''.json''", OF _ _ ct component_names(3) [OF n] dir0] sound_base [OF s'] Some d(1) ct
        by (simp add: vault_paths n)
      have nv: "next_version (?sec (t, n)) = ss_version st + 1" using d(3) st(2) by (cases z) (simp add: next_version_def)
      show ?thesis using x(1) Some fin nv
        by (simp add: vault_wp e(1) secret_node [OF s' t n] read_secret_def rd st(1) mk wr Let_def)
    qed
  qed simp
qed

lemma delete_wp:
  assumes e: "steady_vault env" "vault_crates env" and o: "open_vault env v b w" and t: "tenant_id t" and n: "plain n"
  shows "\<exists>w'. embedded_delete_secret env v t n w =
      (if secrets_at env v b (vw_fs w) (t, n) = None then Err (VaultNotFound n) else Ok (), w') \<and> open_vault env v b w' \<and>
      secrets_at env v b (vw_fs w') = (secrets_at env v b (vw_fs w))((t, n) := None)"
proof -
  have s: "vault_sound env v b (vw_fs w) (vw_cache w)" and u: "\<not> vw_sealed w" using o by (simp_all add: open_vault_def)
  have ct: "component t" using t by (simp add: tenant_id_def)
  have step: "vexists env p w = (Ok (node_at (vw_fs w) p \<noteq> None), w\<lparr>vw_effects := Suc (vw_effects w)\<rparr>)" for p
    using e(1) by (simp add: vexists_def bind_def attempt_def vfile_def steady_vault_def Let_def)
  let ?leaf = "b @ [''secrets'', t, n @ ''.json'']"
  show ?thesis
  proof (cases "vw_fs w ?leaf")
    case None
    then have "secrets_at env v b (vw_fs w) (t, n) = None" by (simp add: secrets_at_def)
    then show ?thesis using o u None
      by (simp add: embedded_delete_secret_def unsealed_def bind_def vget_def step secret_node [OF s t n] Let_def open_vault_def fun_upd_idem)
  next
    case (Some x)
    obtain d y where d: "x = File d" "secrets_at env v b (vw_fs w) (t, n) = Some y" and dir: "vw_fs w (b @ [''secrets'', t]) = Some Dir"
      using sound_secret [OF s t n Some] by blast
    have rm: "remove_file (secret_path v t n) (vw_fs w) = (Ok (), (vw_fs w)(?leaf := None))"
      using leaf_ops(4) [of v b "vw_fs w" "''secrets''" t "n @ ''.json''", OF _ _ ct component_names(3) [OF n] dir] sound_base [OF s] Some d(1) ct
      by (simp add: vault_paths n)
    have "vio env what f w2 = (case f (vw_fs w2) of (r, fs') \<Rightarrow>
        (map_err (\<lambda>e. Connection (what @ '': '' @ ve_io_text env e)) r, w2\<lparr>vw_effects := Suc (vw_effects w2), vw_fs := fs'\<rparr>))"
      for what and f :: "unit fs_op" and w2
      using e(1) by (simp add: vio_def map_error_def vfile_def steady_vault_def Let_def split: prod.splits)
    then show ?thesis using u Some d sound_secret_change [OF s t n, of None None]
      by (simp add: embedded_delete_secret_def unsealed_def bind_def vget_def step secret_node [OF s t n] rm Let_def open_vault_def)
  qed
qed

text \<open>Listing changes nothing, whatever fails.\<close>

lemma inv_vio_read:
  assumes "\<And>fs. snd (f fs) = fs" and "\<And>w x. I w \<Longrightarrow> I (w\<lparr>vw_effects := x\<rparr>)"
  shows "inv I (vio env what f) (\<lambda>_. True)"
proof -
  have "snd (vio env what f w) = w\<lparr>vw_effects := Suc (vw_effects w)\<rparr>" for w
    using assms(1) [of "vw_fs w"] by (cases "f (vw_fs w)") (simp add: vio_def map_error_def vfile_def Let_def)
  then show ?thesis using assms(2) by (auto simp: inv_def wp_snd)
qed

lemma inv_list_secrets:
  assumes "\<And>w x. I w \<Longrightarrow> I (w\<lparr>vw_effects := x\<rparr>)"
  shows "inv I (embedded_list_secrets env v t) (\<lambda>_. True)"
proof -
  have reads: "snd (read_file p fs) = fs" "snd (read_dir env p fs) = fs" "snd (next_entry fs) = fs" for p fs
    by (auto simp: read_file_def read_dir_def next_entry_def split: result.splits option.splits fs_node.splits)
  have ex: "inv I (vexists env p) (\<lambda>_. True)" for p
    using assms by (auto simp: inv_def wp_def vexists_def bind_def attempt_def vfile_def Let_def)
  have entries: "inv I (list_entries env dir es) (\<lambda>_. True)" for dir es
    by (induction es) (auto simp: Let_def reads intro!: inv_bind [where Q = "\<lambda>_. True"] inv_vio_read assms inv_ret)
  have "inv I (vget vw_sealed) (\<lambda>_. True)" by (simp add: inv_def wp_state)
  then show ?thesis
    unfolding embedded_list_secrets_def unsealed_def Let_def
    by (auto simp: reads intro!: inv_bind [where Q = "\<lambda>_. True"] inv_vio_read ex entries assms inv_ret inv_lift)
qed

interpretation files: secret_store "embedded env v" plain "\<lambda>w. steady_vault env \<and> vault_crates env \<and> open_vault env v b w"
  "\<lambda>w. secrets_at env v b (vw_fs w)"
proof
  fix w t n val
  assume a: "steady_vault env \<and> vault_crates env \<and> open_vault env v b w" and t: "tenant_id t" and n: "plain n"
  then have e: "steady_vault env" "vault_crates env" and o: "open_vault env v b w" by simp_all
  have run: "\<exists>r w'. m w = (Ok r, w') \<and> Q r w'" if "wp m Q (\<lambda>_. False) w" for m :: "'b vault_act" and Q
    using that by (auto simp: wp_def split: prod.splits result.splits)
  show "\<exists>r w'. v_get_secret (embedded env v) t n w = (Ok r, w') \<and> map_option secret_view r = secrets_at env v b (vw_fs w) (t, n) \<and>
      (steady_vault env \<and> vault_crates env \<and> open_vault env v b w') \<and> secrets_at env v b (vw_fs w') = secrets_at env v b (vw_fs w)"
    using run [OF get_wp [OF e o t n]] e by (auto simp: embedded_def)
  have "\<exists>r w'. embedded_put_secret env v t n val w = (Ok r, w') \<and> open_vault env v b w' \<and> secrets_at env v b (vw_fs w') =
        (secrets_at env v b (vw_fs w))((t, n) \<mapsto> (sv_data val, next_version (secrets_at env v b (vw_fs w) (t, n))))"
    using put_wp [OF e o t n, of val] by (auto simp: wp_def split: prod.splits result.splits)
  then show "\<exists>w'. v_put_secret (embedded env v) t n val w = (Ok (), w') \<and> (steady_vault env \<and> vault_crates env \<and> open_vault env v b w') \<and>
      secrets_at env v b (vw_fs w') =
        (secrets_at env v b (vw_fs w))((t, n) \<mapsto> (sv_data val, next_version (secrets_at env v b (vw_fs w) (t, n))))"
    using e by (auto simp: embedded_def)
  show "\<exists>w'. v_delete_secret (embedded env v) t n w =
        (if secrets_at env v b (vw_fs w) (t, n) = None then Err (VaultNotFound n) else Ok (), w') \<and>
      (steady_vault env \<and> vault_crates env \<and> open_vault env v b w') \<and>
      secrets_at env v b (vw_fs w') = (secrets_at env v b (vw_fs w))((t, n) := None)"
    using delete_wp [OF e o t n] e by (simp add: embedded_def)
next
  fix w w' t k p c and r :: "(secret_metadata list, vault_error) result" and r' :: "(ciphertext, vault_error) result"
    and r'' :: "(string, vault_error) result" and r''' :: "(32 word, vault_error) result"
  assume a: "steady_vault env \<and> vault_crates env \<and> open_vault env v b w" and t: "tenant_id t"
  then have e: "steady_vault env" "vault_crates env" and o: "open_vault env v b w" by simp_all
  have s: "vault_sound env v b (vw_fs w) (vw_cache w)" and u: "\<not> vw_sealed w" using o by (simp_all add: open_vault_def)
  let ?kept = "\<lambda>w'. open_vault env v b w' \<and> secrets_at env v b (vw_fs w') = secrets_at env v b (vw_fs w)"
  let ?goal = "\<lambda>w'. (steady_vault env \<and> vault_crates env \<and> open_vault env v b w') \<and> secrets_at env v b (vw_fs w') = secrets_at env v b (vw_fs w)"
  have all: "?goal w'" if "wp m (\<lambda>_. ?kept) ?kept w" "m w = (q, w')" for m :: "'b vault_act" and q
    using that e unfolding wp_snd by simp
  have keyed: "?kept w'" if "keyed env v b w w'" for w' using that u by (simp add: keyed_def open_vault_def)
  show "?goal w'" if "v_list_secrets (embedded env v) t w = (r, w')"
  proof (rule all)
    show "wp (embedded_list_secrets env v t) (\<lambda>_. ?kept) ?kept w"
      using inv_list_secrets [of ?kept env v t] o by (auto simp: inv_def open_vault_def)
  qed (use that in \<open>simp add: embedded_def\<close>)
  show "?goal w'" if "plain k" "v_encrypt (embedded env v) t k p w = (r', w')"
  proof (rule all)
    show "wp (embedded_encrypt env v t k p) (\<lambda>_. ?kept) ?kept w"
      unfolding embedded_encrypt_def unsealed_wp if_not_P [OF u] wp_bind
      by (rule wp_mono [OF encrypt_with_key_wp [OF e s t that(1)]]) (auto simp: vault_wp dest: keyed)
  qed (use that in \<open>simp add: embedded_def\<close>)
  show "?goal w'" if "plain k" "v_decrypt (embedded env v) t k c w = (r'', w')"
  proof (rule all)
    have "wp (decrypt_with_key env v t k x y) (\<lambda>_. ?kept) ?kept w" for x y
      by (rule wp_mono [OF decrypt_with_key_wp(1) [OF e s t that(1)]]) (auto dest: keyed)
    then show "wp (embedded_decrypt env v t k c) (\<lambda>_. ?kept) ?kept w"
      using o by (auto simp: embedded_decrypt_def unsealed_wp vault_wp u split: result.splits)
  qed (use that in \<open>simp add: embedded_def\<close>)
  show "?goal w'" if "plain k" "k \<noteq> ''kv-internal''" "v_rotate_key (embedded env v) t k w = (r''', w')"
  proof (rule all)
    show "wp (embedded_rotate_key env v t k) (\<lambda>_. ?kept) ?kept w"
      by (rule wp_mono [OF rotate_wp [OF e s t that(1,2) refl]]) (use u in \<open>auto simp: open_vault_def\<close>)
  qed (use that in \<open>simp add: embedded_def\<close>)
qed


section \<open>A new vault\<close>

lemma walk_unproper: "walk fs cur (proper cs) = Ok q \<Longrightarrow> fs q = Some Dir \<Longrightarrow> walk fs cur cs = Ok q"
proof (induction cs arbitrary: cur)
  case (Cons c cs)
  have "fs cur = Some Dir" if "c = '''' \<or> c = ''.''"
    using Cons.prems that by (cases "proper cs") (auto split: option.splits fs_node.splits)
  then show ?case using Cons by (cases "c = '''' \<or> c = ''.''") (auto split: option.splits fs_node.splits)
qed simp

lemma mkdir_Ok: "mkdir p fs = (Ok (), fs') \<Longrightarrow> \<exists>q. resolve fs p = Ok q \<and> fs q = None \<and> fs' = fs(q \<mapsto> Dir)"
  by (auto simp: mkdir_def split: result.splits option.splits)

lemma mkdir_mono: "fs r = Some Dir \<Longrightarrow> snd (mkdir p fs) r = Some Dir"
  by (auto simp: mkdir_def split: result.splits option.splits)

lemma mkdirs_mono: "fs r = Some Dir \<Longrightarrow> snd (mkdirs p fs) r = Some Dir"
proof (induction p arbitrary: fs)
  case (Cons c up)
  let ?p = "rev (c # up)"
  have m: "snd (mkdir ?p fs) r = Some Dir" "snd (mkdirs up fs) r = Some Dir" "snd (mkdir ?p (snd (mkdirs up fs))) r = Some Dir"
    using mkdir_mono Cons.IH Cons.prems by blast+
  then show ?case using Cons.prems
    by (auto simp: Let_def split: prod.splits result.splits io_error.splits)
qed simp

lemma mkdirs_Ok: "mkdirs p fs = (Ok (), fs') \<Longrightarrow> p \<noteq> [] \<Longrightarrow> node_at fs' (rev p) = Some Dir"
proof (induction p arbitrary: fs fs')
  case (Cons c up)
  have mk: "node_at fs2 p = Some Dir" if m: "mkdir p fs1 = (Ok (), fs2)" for p fs1 fs2
  proof -
    obtain q where q: "resolve fs1 p = Ok q" "fs1 q = None" "fs2 = fs1(q \<mapsto> Dir)" using mkdir_Ok [OF m] by blast
    have "resolve fs2 p = Ok q" by (rule resolve_dirs [OF q(1)]) (use q in auto)
    then show ?thesis using q(3) by (simp add: node_at_def)
  qed
  let ?p = "rev (c # up)"
  have "mkdir ?p fs = (r, fs1) \<Longrightarrow> r \<noteq> Ok () \<Longrightarrow> fs1 = fs" for r fs1 fs
    by (auto simp: mkdir_def split: result.splits option.splits)
  then show ?case using Cons.prems(1) mk [of ?p]
    by (auto simp: Let_def split: prod.splits result.splits io_error.splits if_splits)
qed simp

lemma create_dir_all_Ok:
  assumes "create_dir_all (p @ [c]) fs = (Ok (), fs')" "''..'' \<notin> set p" "component c"
  shows "resolve fs' p = Ok (proper p)" "fs' (proper p) = Some Dir" "fs' (proper p @ [c]) = Some Dir"
proof -
  have pc: "proper (p @ [c]) = proper p @ [c]" using assms(3) by (auto simp: component_def)
  have dots: "''..'' \<notin> set (proper p @ [c])" using assms(2,3) set_proper [of p] by (auto simp: component_def)
  have "node_at fs' (proper p @ [c]) = Some Dir"
    using mkdirs_Ok [of "rev (proper p @ [c])" fs fs'] assms(1) pc by (simp add: create_dir_all_def)
  then obtain q where q: "resolve fs' (proper p @ [c]) = Ok q" "fs' q = Some Dir" by (auto simp: node_at_def split: result.splits)
  have "q = proper p @ [c]" using resolve_plain [OF q(1) dots] pc assms(3) by (auto simp: component_def)
  then show "fs' (proper p @ [c]) = Some Dir" using q(2) by simp
  obtain m where m: "walk fs' [] (proper p) = Ok m" "walk fs' m [c] = Ok q"
    using q(1) unfolding resolve_def walk_append by (cases "walk fs' [] (proper p)") auto
  have "m = proper p" using walk_plain [OF m(1)] dots by simp
  then show d: "fs' (proper p) = Some Dir" using m(2) assms(3) by (auto simp: component_def split: option.splits fs_node.splits)
  show "resolve fs' p = Ok (proper p)"
    using walk_unproper [of fs' "[]" p] m(1) \<open>m = proper p\<close> d by (simp add: resolve_def)
qed

lemma create_dir_all_keeps:
  assumes "create_dir_all p fs = (r, fs')" "''..'' \<notin> set p"
  shows "fs q = Some Dir \<Longrightarrow> fs' q = Some Dir" "length (proper p) < length q \<Longrightarrow> fs' q = fs q"
proof -
  show "fs q = Some Dir \<Longrightarrow> fs' q = Some Dir"
    using mkdirs_mono [of fs q "rev (proper p)"] assms(1) by (simp add: create_dir_all_def)
  have "q \<notin> {q. \<exists>n. q = take n (proper p)}" if "length (proper p) < length q" using that by auto
  then show "length (proper p) < length q \<Longrightarrow> fs' q = fs q"
    using changes_create_dir [OF assms(2)] assms(1) unfolding changes_in_def by (metis snd_conv)
qed

text \<open>The file system has nothing below the two directories of the vault.\<close>

definition no_vault_files :: "path \<Rightarrow> fsys \<Rightarrow> bool" where
  "no_vault_files b fs \<longleftrightarrow> (\<forall>c p. fs (b @ ''keys'' # c # p) = None \<and> fs (b @ ''secrets'' # c # p) = None)"

lemma new_vault_steps:
  assumes new: "new_embedded_vault env base master w0 = (Ok v, w)"
  obtains key fs1 where "resolve_master_key env master = Ok key" "v = \<lparr>mv_base_path = base, mv_master_key = key\<rparr>"
    "create_dir_all (base @ [''keys'']) (vw_fs w0) = (Ok (), fs1)" "create_dir_all (base @ [''secrets'']) fs1 = (Ok (), vw_fs w)"
    "vw_cache w = vw_cache w0" "vw_sealed w = vw_sealed w0"
proof -
  have jk: "join_path base ''keys'' = base @ [''keys'']" "join_path base ''secrets'' = base @ [''secrets'']"
    by (simp_all add: join_component component_names)
  obtain w1 key where mk: "resolve_master_key env master = Ok key"
    "vio env ''Failed to create keys dir'' (create_dir_all (base @ [''keys''])) w0 = (Ok (), w1)"
    "vio env ''Failed to create secrets dir'' (create_dir_all (base @ [''secrets''])) w1 = (Ok (), w)"
    and v: "v = \<lparr>mv_base_path = base, mv_master_key = key\<rparr>"
    using new by (auto simp: new_embedded_vault_def jk bind_Ok)
  have vio_Ok: "f (vw_fs w2) = (Ok (), vw_fs w3) \<and> vw_cache w3 = vw_cache w2 \<and> vw_sealed w3 = vw_sealed w2"
    if "vio env what f w2 = (Ok (), w3)" for what f w2 w3
  proof -
    obtain r fs' where f: "f (vw_fs w2) = (r, fs')" by (cases "f (vw_fs w2)")
    show ?thesis using that by (cases r) (auto simp: vio_def map_error_def vfile_def Let_def f split: if_splits)
  qed
  show thesis using that [OF mk(1) v, of "vw_fs w1"] vio_Ok [OF mk(2)] vio_Ok [OF mk(3)] by simp
qed

lemma new_vault_open:
  assumes new: "new_embedded_vault env base master w0 = (Ok v, w)" and dots: "''..'' \<notin> set base"
    and empty: "no_vault_files (proper base) (vw_fs w0)" "vw_cache w0 = (\<lambda>_. None)" "\<not> vw_sealed w0"
  shows "open_vault env v (proper base) w \<and> secrets_at env v (proper base) (vw_fs w) = (\<lambda>_. None)"
proof -
  obtain key fs1 where mk: "resolve_master_key env master = Ok key" and v: "v = \<lparr>mv_base_path = base, mv_master_key = key\<rparr>"
    and d1: "create_dir_all (base @ [''keys'']) (vw_fs w0) = (Ok (), fs1)"
    and d2: "create_dir_all (base @ [''secrets'']) fs1 = (Ok (), vw_fs w)"
    and kept: "vw_cache w = vw_cache w0" "vw_sealed w = vw_sealed w0" by (rule new_vault_steps [OF new])
  have c: "vw_cache w = (\<lambda>_. None)" "\<not> vw_sealed w" using kept empty by simp_all
  let ?b = "proper base"
  note k = create_dir_all_Ok [OF d1 dots component_names(1)] and s = create_dir_all_Ok [OF d2 dots component_names(2)]
  have dd: "''..'' \<notin> set (base @ [''keys''])" "''..'' \<notin> set (base @ [''secrets''])" using dots by simp_all
  have "vw_fs w (?b @ [''keys'']) = Some Dir" by (rule create_dir_all_keeps(1) [OF d2 dd(2) k(3)])
  then have ready: "base_ready v ?b (vw_fs w)" using s by (simp add: base_ready_def v)
  have "vw_fs w (?b @ s # c # p) = vw_fs w0 (?b @ s # c # p)" for s c p
    using create_dir_all_keeps(2) [OF d1 dd(1), of "?b @ s # c # p"] create_dir_all_keeps(2) [OF d2 dd(2), of "?b @ s # c # p"] by simp
  then have none: "vw_fs w (?b @ ''keys'' # c # p) = None" "vw_fs w (?b @ ''secrets'' # c # p) = None" for c p
    using empty(1) by (simp_all add: no_vault_files_def)
  have "length key = key_size"
    using mk by (cases "ve_hex_decode env master") (auto simp: resolve_master_key_def Let_def ok_or_def split: if_splits)
  then have "vault_sound env v ?b (vw_fs w) (vw_cache w)"
    using ready none by (intro vault_soundI) (simp_all add: v c)
  then show ?thesis using c none by (auto simp: open_vault_def secrets_at_def)
qed

end
