(* ===== verification/Vault_Agree.thy ===== *)
theory Vault_Agree
  imports Vault_Embedded
begin

text \<open>
  A small vault to evaluate the definitions on: a ciphertext is the key, the nonce and the plaintext in a row, which is
  opened by that key and that nonce only; files hold the fields of a record one after the other; the n-th random key is
  a run of one letter that depends on n.
\<close>

section \<open>Records as texts\<close>

definition put_nat :: "nat \<Rightarrow> string" where
  "put_nat n = replicate n CHR ''1'' @ ''.''"

definition take_nat :: "string \<Rightarrow> nat \<times> string" where
  "take_nat s = (let n = length (takeWhile (\<lambda>c. c = CHR ''1'') s) in (n, drop (Suc n) s))"

definition put_text :: "string \<Rightarrow> string" where
  "put_text s = put_nat (length s) @ s"

definition take_text :: "string \<Rightarrow> string \<times> string" where
  "take_text s = (let (n, r) = take_nat s in (take n r, drop n r))"

definition put_int :: "int \<Rightarrow> string" where
  "put_int i = put_nat (nat i) @ put_nat (nat (- i))"

definition take_int :: "string \<Rightarrow> int \<times> string" where
  "take_int s = (let (p, r) = take_nat s; (n, r') = take_nat r in (int p - int n, r'))"

lemma take_put_nat [simp]: "take_nat (put_nat n @ r) = (n, r)"
proof -
  have "takeWhile (\<lambda>c. c = CHR ''1'') (replicate n CHR ''1'' @ CHR ''.'' # r) = replicate n CHR ''1''"
    by (induction n) simp_all
  then show ?thesis by (simp add: take_nat_def put_nat_def Let_def)
qed

lemma take_put_text [simp]: "take_text (put_text s @ r) = (s, r)"
  by (simp add: take_text_def put_text_def)

lemma take_put_int [simp]: "take_int (put_int i @ r) = (i, r)"
  by (simp add: take_int_def put_int_def)

definition sample_key_json :: "key_material \<Rightarrow> string" where
  "sample_key_json m =
     put_nat (unat (km_version m)) @ put_text (km_encrypted_dek m) @ put_text (km_dek_nonce m) @ put_int (km_created_at m) @
     put_int (km_rotated_at m)"

definition sample_parse_key :: "string \<Rightarrow> (key_material, string) result" where
  "sample_parse_key s =
     (let (version, s1) = take_nat s; (dek, s2) = take_text s1; (nonce, s3) = take_text s2; (c, s4) = take_int s3; (r, s5) = take_int s4
      in Ok \<lparr>km_version = of_nat version, km_encrypted_dek = dek, km_dek_nonce = nonce, km_created_at = c, km_rotated_at = r\<rparr>)"

definition sample_secret_json :: "stored_secret \<Rightarrow> string" where
  "sample_secret_json x =
     put_text (ss_ciphertext x) @ put_text (ss_nonce x) @ put_nat (unat (ss_key_version x)) @ put_nat (unat (ss_version x)) @
     put_int (ss_created_at x) @ put_int (ss_updated_at x)"

definition sample_parse_secret :: "string \<Rightarrow> (stored_secret, string) result" where
  "sample_parse_secret s =
     (let (c, s1) = take_text s; (n, s2) = take_text s1; (kv, s3) = take_nat s2; (v, s4) = take_nat s3; (cr, s5) = take_int s4;
          (up, s6) = take_int s5
      in Ok \<lparr>ss_ciphertext = c, ss_nonce = n, ss_key_version = of_nat kv, ss_version = of_nat v, ss_created_at = cr, ss_updated_at = up\<rparr>)"

lemma take_put_end [simp]: "take_int (put_int i) = (i, '''')"
  using take_put_int [of i "''''"] by simp

section \<open>A vault\<close>

definition sample_encrypt :: "string \<Rightarrow> string \<Rightarrow> string \<Rightarrow> string option" where
  "sample_encrypt k n p = Some (k @ n @ p)"

definition sample_decrypt :: "string \<Rightarrow> string \<Rightarrow> string \<Rightarrow> string option" where
  "sample_decrypt k n c = (if take (length k + length n) c = k @ n then Some (drop (length k + length n) c) else None)"

definition sample_vault_env :: vault_env where
  "sample_vault_env =
     \<lparr>ve_fails = (\<lambda>_. False), ve_random_key = (\<lambda>n. replicate 32 (char_of (n + 65))),
      ve_random_nonce = (\<lambda>n. replicate 12 (char_of (n + 97))), ve_aead_encrypt = sample_encrypt, ve_aead_decrypt = sample_decrypt,
      ve_aead_error = ''aead::Error'', ve_io_text = (\<lambda>_. ''io''), ve_hex_decode = Ok, ve_base64 = (\<lambda>s. s), ve_base64_decode = Ok,
      ve_key_json = sample_key_json, ve_parse_key = sample_parse_key, ve_secret_json = sample_secret_json,
      ve_parse_secret = sample_parse_secret, ve_read_dir = (\<lambda>_ _. []), ve_utf8 = (\<lambda>_. True), ve_env_var = (\<lambda>_. None)\<rparr>"

lemma sample_crates: "steady_vault sample_vault_env" "vault_crates sample_vault_env"
  by (simp_all add: steady_vault_def sample_vault_env_def vault_crates_def key_size_def nonce_size_def sample_encrypt_def sample_decrypt_def
      sample_key_json_def sample_parse_key_def sample_secret_json_def sample_parse_secret_def)

definition sample_master :: string where
  "sample_master = replicate 32 CHR ''m''"

text \<open>A host with a directory \<open>/data\<close> for the vault and a file of its own.\<close>

definition sample_host :: fsys where
  "sample_host = [[] \<mapsto> Dir, [''data''] \<mapsto> Dir, [''etc''] \<mapsto> Dir, [''etc'', ''app.json''] \<mapsto> File ''{}'']"

definition sample_vault_start :: vault_world where
  "sample_vault_start = \<lparr>vw_fs = sample_host, vw_cache = (\<lambda>_. None), vw_sealed = False, vw_now = 0, vw_fresh = 0, vw_effects = 0\<rparr>"

definition sample_vault :: embedded_vault where
  "sample_vault = \<lparr>mv_base_path = ['''', ''data''], mv_master_key = sample_master\<rparr>"

definition sample_vault_world :: vault_world where
  "sample_vault_world = snd (new_embedded_vault sample_vault_env ['''', ''data''] sample_master sample_vault_start)"

lemma sample_vault_new:
  "new_embedded_vault sample_vault_env ['''', ''data''] sample_master sample_vault_start = (Ok sample_vault, sample_vault_world)"
proof -
  have "fst (new_embedded_vault sample_vault_env ['''', ''data''] sample_master sample_vault_start) = Ok sample_vault" by code_simp
  then show ?thesis by (simp add: sample_vault_world_def prod_eq_iff)
qed

lemma sample_no_files: "no_vault_files [''data''] sample_host"
  by (simp add: no_vault_files_def sample_host_def)

lemma sample_vault_open: "open_vault sample_vault_env sample_vault [''data''] sample_vault_world"
  and sample_vault_empty: "secrets_at sample_vault_env sample_vault [''data''] (vw_fs sample_vault_world) = (\<lambda>_. None)"
  using new_vault_open [OF sample_vault_new] sample_no_files by (simp_all add: sample_vault_start_def)

definition sample_conf :: "vault_world cache_config" where
  "sample_conf = \<lparr>cc_now = vw_now, cc_ttl = 60, cc_dropped = (\<lambda>_ _. False)\<rparr>"

text \<open>
  The vault the server builds over files, with the cache in front, answers as the vault in memory: two interpretations of
  \<open>secret_store\<close> that run the same abstract store.
\<close>

interpretation served: cached_store "embedded env v" plain "\<lambda>w. steady_vault env \<and> vault_crates env \<and> open_vault env v b w"
  "\<lambda>w. secrets_at env v b (vw_fs w)" conf
  for conf :: "vault_world cache_config" ..

text \<open>
  C16. Where nothing fails, the vault of the server (\<open>CachedVault\<close> over \<open>EmbeddedVault\<close>, opened on a directory that holds no
  vault) and \<open>MockVault\<close> agree on secrets: every put, get and delete has the same outcome in both (content, version
  number or error), for all tenants and all names without a slash, and whatever the cache drops or lets expire. Between them the
  sequence of calls may list secrets, encrypt, decrypt and rotate keys other than the one of the secrets; what those four
  calls answer is not compared (\<open>Unseen\<close>), only that they leave the secrets alone.
\<close>

theorem built_vault_agrees_with_mock:
  assumes "steady_vault env" and "vault_crates env"
    and new: "new_embedded_vault env base master w0 = (Ok v, w)" and dots: "''..'' \<notin> set base"
    and empty: "no_vault_files (proper base) (vw_fs w0)" "vw_cache w0 = (\<lambda>_. None)" "\<not> vw_sealed w0"
    and calls: "\<forall>c \<in> set cs. call_ok plain c"
  shows "fst (run_vault (cached cc (embedded env v)) cs \<lparr>cw_inner = w, cw_cache = (\<lambda>_. None)\<rparr>) = fst (run_vault (mock env) cs (new_mock now))"
proof -
  note o = new_vault_open [OF new dots empty]
  let ?w = "\<lparr>cw_inner = w, cw_cache = (\<lambda>_. None)\<rparr>"
  have refined: "fst (run_vault (cached cc (embedded env v)) cs ?w) = fst (run_spec cs (\<lambda>_. None))"
    using served.through.run_refines [of env v "proper base" ?w cs cc] assms(1,2) o calls by (simp add: cache_true_def)
  have "call_ok (\<lambda>_. True) c" if "call_ok plain c" for c using that by (cases c) simp_all
  then have any: "\<forall>c \<in> set cs. call_ok (\<lambda>_. True) c" using calls by blast
  have "\<not> mk_sealed (new_mock now)" "mock_sec (new_mock now) = (\<lambda>_. None)"
    by (simp_all add: new_mock_def mock_sec_def fun_eq_iff)
  then have "fst (run_spec cs (\<lambda>_. None)) = fst (run_vault (mock env) cs (new_mock now))"
    using memory.run_refines [of "new_mock now" cs env] any by simp
  with refined show ?thesis by simp
qed

definition sample_vault_calls :: "vault_call list" where
  "sample_vault_calls =
     [PutSecret ''t'' ''smtp'' (new_secret_value ''one'' 0), GetSecret ''t'' ''smtp'', EncryptData ''t'' ''auth'' ''x'',
      PutSecret ''t'' ''smtp'' (new_secret_value ''two'' 0), RotateKey ''t'' ''auth'', GetSecret ''t'' ''smtp'', GetSecret ''u'' ''smtp'',
      DeleteSecret ''t'' ''smtp'', DeleteSecret ''t'' ''smtp'']"

lemma built_vault_agrees_with_mock_witness:
  "list_all (call_ok plain) sample_vault_calls \<and>
   fst (run_vault (mock sample_vault_env) sample_vault_calls (new_mock 5)) =
     [Stored, Found (Some (''one'', 1)), Unseen, Stored, Unseen, Found (Some (''two'', 2)), Found None, Deleted, Failed (VaultNotFound ''smtp'')] \<and>
   fst (run_vault (cached sample_conf (embedded sample_vault_env sample_vault)) sample_vault_calls
     \<lparr>cw_inner = sample_vault_world, cw_cache = (\<lambda>_. None)\<rparr>) =
   fst (run_vault (mock sample_vault_env) sample_vault_calls (new_mock 5))"
proof -
  have ok: "\<forall>c \<in> set sample_vault_calls. call_ok plain c"
    by (simp add: sample_vault_calls_def tenant_id_def component_def plain_def)
  have run: "fst (run_vault (mock sample_vault_env) sample_vault_calls (new_mock 5)) =
     [Stored, Found (Some (''one'', 1)), Unseen, Stored, Unseen, Found (Some (''two'', 2)), Found None, Deleted, Failed (VaultNotFound ''smtp'')]"
    by code_simp
  have empty: "no_vault_files (proper ['''', ''data'']) (vw_fs sample_vault_start)" "vw_cache sample_vault_start = (\<lambda>_. None)"
    "\<not> vw_sealed sample_vault_start" "''..'' \<notin> set ['''', ''data'']"
    using sample_no_files by (simp_all add: sample_vault_start_def)
  show ?thesis
    using ok run built_vault_agrees_with_mock [OF sample_crates sample_vault_new empty(4,1,2,3) ok, of sample_conf 5]
    unfolding list_all_iff by blast
qed

end
