(* ===== verification/Vault_Nested.thy ===== *)
theory Vault_Nested
  imports Vault_Agree
begin

text \<open>
  The embedded vault makes the directory of a tenant and none below it, so a name with a slash in it is the path of a file
  in a directory that is not there. A vault that keeps no such name is the locale \<open>slash_refusing\<close>; the embedded vault is
  one, whatever fails, and so is the cache in front of it. The names the platform uses itself have slashes.
\<close>

definition nested :: "string \<Rightarrow> bool" where
  "nested n \<longleftrightarrow> CHR ''/'' \<in> set n \<and> component (takeWhile (\<lambda>c. c \<noteq> CHR ''/'') n)"

fun call_tenant :: "vault_call \<Rightarrow> uuid" where
  "call_tenant (PutSecret t n v) = t"
| "call_tenant (GetSecret t n) = t"
| "call_tenant (DeleteSecret t n) = t"
| "call_tenant (ListSecrets t) = t"
| "call_tenant (EncryptData t k p) = t"
| "call_tenant (DecryptData t k c) = t"
| "call_tenant (RotateKey t k) = t"

section \<open>The contract\<close>

locale slash_refusing =
  fixes V :: "'w vault" and I :: "'w \<Rightarrow> bool"
  assumes encrypt_refuses: "tenant_id t \<Longrightarrow> inv I (v_encrypt V t k p) (\<lambda>_. \<not> nested k)"
    and decrypt_keeps: "tenant_id t \<Longrightarrow> inv I (v_decrypt V t k c) (\<lambda>_. True)"
    and rotate_keeps: "tenant_id t \<Longrightarrow> inv I (v_rotate_key V t k) (\<lambda>_. True)"
    and get_finds_none: "tenant_id t \<Longrightarrow> inv I (v_get_secret V t n) (\<lambda>r. nested n \<longrightarrow> r = None)"
    and put_refuses: "tenant_id t \<Longrightarrow> inv I (v_put_secret V t n x) (\<lambda>_. \<not> nested n)"
    and list_keeps: "tenant_id t \<Longrightarrow> inv I (v_list_secrets V t) (\<lambda>_. True)"
    and delete_keeps: "tenant_id t \<Longrightarrow> inv I (v_delete_secret V t n) (\<lambda>_. True)"
begin

lemma call_keeps:
  assumes "tenant_id (call_tenant c)" "I w"
  shows "I (snd (perform_vault V c w))"
proof (cases c)
  case (PutSecret t n x)
  then show ?thesis using inv_at [OF put_refuses [of t n x], of w] assms by (auto split: prod.splits)
next
  case (GetSecret t n)
  then show ?thesis using inv_at [OF get_finds_none [of t n], of w] assms by (auto split: prod.splits)
next
  case (DeleteSecret t n)
  then show ?thesis using inv_at [OF delete_keeps [of t n], of w] assms by (auto split: prod.splits)
next
  case (EncryptData t k p)
  then show ?thesis using inv_at [OF encrypt_refuses [of t k p], of w] assms by simp
qed (use assms inv_at [OF list_keeps] inv_at [OF decrypt_keeps] inv_at [OF rotate_keeps] in simp_all)

lemma run_keeps: "\<forall>c \<in> set cs. tenant_id (call_tenant c) \<Longrightarrow> I w \<Longrightarrow> I (snd (run_vault V cs w))"
proof (induction cs arbitrary: w)
  case (Cons c cs)
  then have "I (snd (perform_vault V c w))" using call_keeps by simp
  then show ?case using Cons by (auto split: prod.splits) (metis snd_conv)
qed simp

lemma none_succeed:
  assumes "\<And>x. x \<in> set xs \<Longrightarrow> inv I (f x) (\<lambda>_. False)"
  shows "inv I (count_successes f xs n) (\<lambda>m. m = n)"
  using assms
proof (induction xs)
  case (Cons x xs)
  have "inv I (attempt (f x)) (\<lambda>v. \<forall>a. v = Inl a \<longrightarrow> False)" using Cons.prems by (intro inv_attempt) simp
  then show ?case using Cons by (auto intro!: inv_bind split: sum.splits)
qed (simp add: inv_ret)

lemma never: "inv I m Q \<Longrightarrow> (\<And>a. \<not> Q a) \<Longrightarrow> inv I m (\<lambda>_. False)"
  by (erule inv_weaken) blast

lemma bootstrap_creates_none:
  assumes t: "tenant_id t"
  shows "inv I (vault_bootstrap V random now t) (\<lambda>r. r = \<lparr>br_transit_keys_created = 0, br_secrets_created = 0\<rparr>)"
proof -
  have k: "\<forall>k \<in> set transit_keys. nested k" "\<forall>k \<in> set kv_secrets. nested k"
    by (simp_all add: transit_keys_def kv_secrets_def nested_def component_def)
  have "inv I (v_encrypt V t k ''init'') (\<lambda>_. False)" if "k \<in> set transit_keys" for k
    using never [OF encrypt_refuses [OF t]] k that by blast
  then have transit: "inv I (count_successes (\<lambda>k. v_encrypt V t k ''init'') transit_keys 0) (\<lambda>m. m = 0)"
    by (rule none_succeed)
  have "inv I (v_put_secret V t n (new_secret_value (random n) now)) (\<lambda>_. False)" if "n \<in> set kv_secrets" for n
    using never [OF put_refuses [OF t]] k that by blast
  then have kv: "inv I (count_successes (\<lambda>n. v_put_secret V t n (new_secret_value (random n) now)) kv_secrets 0) (\<lambda>m. m = 0)"
    by (rule none_succeed)
  show ?thesis unfolding vault_bootstrap_def
    by (rule inv_bind [OF transit], rule inv_bind [OF kv]) (simp add: inv_ret)
qed

lemma no_token: "tenant_id t \<Longrightarrow> inv I (generate_jwt sign V now t project_ref role) (\<lambda>_. False)"
proof -
  assume t: "tenant_id t"
  have "nested ''keys/jwt-signing''" by (simp add: nested_def component_def)
  then have "inv I (v_get_secret V t ''keys/jwt-signing'') (\<lambda>r. r = None)" by (intro inv_weaken [OF get_finds_none [OF t]]) blast
  then show ?thesis
    unfolding generate_jwt_def by (rule inv_bind [OF inv_map_error]) (auto simp: ok_or_def intro!: inv_bind_lift)
qed

lemma no_provider:
  assumes t: "tenant_id t"
  shows "inv I (save_provider print V t now p config) (\<lambda>_. False)"
proof -
  have "nested (oauth_vault_path p)" by (simp add: oauth_vault_path_def nested_def component_def)
  then have "inv I (v_put_secret V t (oauth_vault_path p) x) (\<lambda>_. False)" for x by (intro never [OF put_refuses [OF t]]) blast
  then show ?thesis unfolding save_provider_def by (rule inv_map_error)
qed

lemma no_encryption: "tenant_id t \<Longrightarrow> inv I (vault_encryptor_encrypt V t p) (\<lambda>_. False)"
proof -
  assume t: "tenant_id t"
  have "nested auth_transit_key" by (simp add: auth_transit_key_def nested_def component_def)
  then have "inv I (v_encrypt V t auth_transit_key p) (\<lambda>_. False)" by (intro never [OF encrypt_refuses [OF t]]) blast
  then show ?thesis unfolding vault_encryptor_encrypt_def by (rule inv_bind [OF inv_map_error]) simp
qed

lemma inv_result: "inv I m Q \<Longrightarrow> I w \<Longrightarrow> fst (m w) = Ok a \<Longrightarrow> Q a"
  unfolding inv_def wp_def by (cases "m w") auto

end

text \<open>The cache in front keeps it: a secret is in the cache when a vault gave it.\<close>

definition slash_free_cache :: "('w \<Rightarrow> bool) \<Rightarrow> 'w cached_world \<Rightarrow> bool" where
  "slash_free_cache I w \<longleftrightarrow> I (cw_inner w) \<and> (\<forall>t n. tenant_id t \<longrightarrow> nested n \<longrightarrow> cw_cache w (secret_cache_key t n) = None)"

lemma inner_inv: "inv I m Q \<Longrightarrow> inv (slash_free_cache I) (inner_op m) Q"
proof -
  have "wp (inner_op m) P E w = wp m (\<lambda>a i. P a (w\<lparr>cw_inner := i\<rparr>)) (\<lambda>i. E (w\<lparr>cw_inner := i\<rparr>)) (cw_inner w)" for P E w
    by (cases "m (cw_inner w)"; cases "fst (m (cw_inner w))") (simp_all add: wp_def inner_op_def)
  then show "inv I m Q \<Longrightarrow> inv (slash_free_cache I) (inner_op m) Q"
    unfolding inv_def slash_free_cache_def by (fastforce elim: wp_mono)
qed

lemma invalidate_inv: "inv (slash_free_cache I) (cache_invalidate k) (\<lambda>_. True)"
  by (simp add: inv_def wp_def cache_invalidate_def slash_free_cache_def)

lemma lookup_inv: "tenant_id t \<Longrightarrow> inv (slash_free_cache I) (cache_lookup cc (secret_cache_key t n)) (\<lambda>r. nested n \<longrightarrow> r = None)"
  by (simp add: inv_def wp_def cache_lookup_def slash_free_cache_def)

lemma fill_inv:
  "tenant_id t \<Longrightarrow> (nested n \<longrightarrow> r = None) \<Longrightarrow> inv (slash_free_cache I) (cache_fill cc (secret_cache_key t n) r) (\<lambda>r. nested n \<longrightarrow> r = None)"
  by (cases r) (auto simp: inv_def wp_def cache_fill_def cache_store_def bind_def slash_free_cache_def secret_cache_key_inj)

locale slash_refusing_cached = slash_refusing V I for V :: "'w vault" and I :: "'w \<Rightarrow> bool" + fixes cc :: "'w cache_config"

sublocale slash_refusing_cached \<subseteq> front: slash_refusing "cached cc V" "slash_free_cache I"
proof
  fix t k p c n x
  assume t: "tenant_id t"
  show "inv (slash_free_cache I) (v_encrypt (cached cc V) t k p) (\<lambda>_. \<not> nested k)"
    "inv (slash_free_cache I) (v_decrypt (cached cc V) t k c) (\<lambda>_. True)"
    "inv (slash_free_cache I) (v_rotate_key (cached cc V) t k) (\<lambda>_. True)"
    "inv (slash_free_cache I) (v_list_secrets (cached cc V) t) (\<lambda>_. True)"
    by (simp_all add: cached_def inner_inv encrypt_refuses decrypt_keeps rotate_keeps list_keeps t)
  show "inv (slash_free_cache I) (v_put_secret (cached cc V) t n x) (\<lambda>_. \<not> nested n)"
    "inv (slash_free_cache I) (v_delete_secret (cached cc V) t n) (\<lambda>_. True)"
    by (simp_all add: cached_def cached_put_secret_def cached_delete_secret_def inv_bind [OF invalidate_inv] inner_inv put_refuses delete_keeps t)
  have "inv (slash_free_cache I) (bind (inner_op (v_get_secret V t n)) (cache_fill cc (secret_cache_key t n))) (\<lambda>r. nested n \<longrightarrow> r = None)"
    by (rule inv_bind [OF inner_inv [OF get_finds_none [OF t, of n]] fill_inv [OF t]])
  then show "inv (slash_free_cache I) (v_get_secret (cached cc V) t n) (\<lambda>r. nested n \<longrightarrow> r = None)"
    by (auto simp: cached_def cached_get_secret_def Let_def intro!: inv_bind [OF lookup_inv [OF t]] inv_ret split: option.split)
qed

section \<open>The embedded vault\<close>

definition no_nested_dir :: "path \<Rightarrow> fsys \<Rightarrow> bool" where
  "no_nested_dir b fs \<longleftrightarrow> (\<forall>t c p. fs (b @ ''keys'' # t # c # p) \<noteq> Some Dir \<and> fs (b @ ''secrets'' # t # c # p) \<noteq> Some Dir)"

definition slash_free :: "embedded_vault \<Rightarrow> vault_world \<Rightarrow> bool" where
  "slash_free v w \<longleftrightarrow> ''..'' \<notin> set (mv_base_path v) \<and> no_nested_dir (proper (mv_base_path v)) (vw_fs w) \<and>
     (\<forall>t k. tenant_id t \<longrightarrow> nested k \<longrightarrow> vw_cache w (t, k) = None)"

lemma nested_path:
  assumes "nested n"
  shows "\<exists>c x p. component c \<and> join_path q (n @ e) = q @ c # x # p"
proof -
  obtain c r where n: "n = c @ CHR ''/'' # r" "CHR ''/'' \<notin> set c" using assms split_list_first unfolding nested_def by metis
  have "takeWhile (\<lambda>x. x \<noteq> CHR ''/'') c = c" using n(2) by (auto simp: takeWhile_eq_all_conv)
  then have c: "component c" using assms n by (simp add: nested_def takeWhile_tail)
  obtain x p where x: "split_char CHR ''/'' (r @ e) = x # p" by (cases "split_char CHR ''/'' (r @ e)") auto
  have "split_char CHR ''/'' (n @ e) = c # x # p" using split_char_append [OF n(2), of "r @ e"] n(1) x by simp
  moreover have "\<not> starts_with ''/'' (n @ e)" using c n by (cases c) (auto simp: component_def starts_with_iff)
  ultimately show ?thesis using c by (simp add: join_path_def)
qed

lemma blocked:
  assumes "slash_free v w" "component t" "component c" "s = ''keys'' \<or> s = ''secrets''"
  shows "resolve (vw_fs w) (mv_base_path v @ s # t # c # x # p) \<noteq> Ok q"
proof
  let ?fs = "vw_fs w"
  assume "resolve ?fs (mv_base_path v @ s # t # c # x # p) = Ok q"
  then obtain m where m: "walk ?fs [] (mv_base_path v) = Ok m" "walk ?fs m (s # t # c # x # p) = Ok q"
    unfolding resolve_def walk_append by (cases "walk ?fs [] (mv_base_path v)") auto
  have "m = proper (mv_base_path v)" using walk_plain [OF m(1)] assms(1) by (simp add: slash_free_def)
  moreover have "?fs (m @ s # t # c # []) = Some Dir"
    using m(2) assms(2-4) component_names(1,2) by (auto simp: component_def split: option.splits fs_node.splits if_splits)
  moreover have "?fs (proper (mv_base_path v) @ s # t # c # []) \<noteq> Some Dir"
    using assms(1,4) unfolding slash_free_def no_nested_dir_def by metis
  ultimately show False by simp
qed

lemma nested_blocked:
  assumes "slash_free v w" "tenant_id t" "nested n"
  shows "resolve (vw_fs w) (key_path v t n) \<noteq> Ok q" "resolve (vw_fs w) (secret_path v t n) \<noteq> Ok q"
proof -
  have t: "component t" using assms(2) by (simp add: tenant_id_def)
  obtain c x p where "component c" "key_path v t n = mv_base_path v @ ''keys'' # t # c # x # p"
    using nested_path [OF assms(3), of "keys_path v t" "''.key''"] vault_paths(1) [OF t, of v] by (auto simp: key_path_def)
  then show "resolve (vw_fs w) (key_path v t n) \<noteq> Ok q" using blocked [OF assms(1) t] by simp
  obtain c x p where "component c" "secret_path v t n = mv_base_path v @ ''secrets'' # t # c # x # p"
    using nested_path [OF assms(3), of "secrets_path v t" "''.json''"] vault_paths(2) [OF t, of v] by (auto simp: secret_path_def)
  then show "resolve (vw_fs w) (secret_path v t n) \<noteq> Ok q" using blocked [OF assms(1) t] by simp
qed

lemma files_stay_free:
  "no_nested_dir b fs \<Longrightarrow> no_nested_dir b (snd (write_file p d fs))"
  "no_nested_dir b fs \<Longrightarrow> no_nested_dir b (snd (remove_file p fs))"
  "snd (read_file p fs) = fs" "snd (read_dir env p fs) = fs" "snd (next_entry fs) = fs"
  by (auto simp: no_nested_dir_def write_file_def remove_file_def read_file_def read_dir_def next_entry_def
      split: result.splits option.splits fs_node.splits)

lemma tenant_dir_stays_free:
  assumes "slash_free v w" "component t" "s = ''keys'' \<or> s = ''secrets''" "no_nested_dir (proper (mv_base_path v)) fs"
  shows "no_nested_dir (proper (mv_base_path v)) (snd (create_dir_all (mv_base_path v @ [s, t]) fs))"
proof -
  let ?p = "mv_base_path v @ [s, t]" and ?b = "proper (mv_base_path v)"
  have "component s" using assms(3) component_names by auto
  then have p: "proper ?p = ?b @ [s, t]" "''..'' \<notin> set ?p" using assms(1,2) by (auto simp: slash_free_def component_def)
  have "?b @ s' # t' # c # q \<notin> {q. \<exists>n. q = take n (proper ?p)}" for s' t' c q
  proof
    assume "?b @ s' # t' # c # q \<in> {q. \<exists>n. q = take n (proper ?p)}"
    then obtain n where "?b @ s' # t' # c # q = take n (proper ?p)" by blast
    then have "length (?b @ s' # t' # c # q) = length (take n (proper ?p))" by (simp only:)
    then have "length (?b @ s' # t' # c # q) \<le> length (proper ?p)" by (simp only: length_take min.cobounded1)
    then show False unfolding p(1) by simp
  qed
  then have "snd (create_dir_all ?p fs) (?b @ s' # t' # c # q) = fs (?b @ s' # t' # c # q)" for s' t' c q
    using changes_create_dir [OF p(2)] unfolding changes_in_def by blast
  then show ?thesis using assms(4) by (simp add: no_nested_dir_def)
qed

lemma free_vio:
  assumes "\<And>w. slash_free v w \<Longrightarrow> no_nested_dir (proper (mv_base_path v)) (snd (f (vw_fs w)))"
  shows "inv (slash_free v) (vio env what f) (\<lambda>_. True)"
proof -
  have "vw_fs (snd (vio env what f w)) \<in> {vw_fs w, snd (f (vw_fs w))} \<and> vw_cache (snd (vio env what f w)) = vw_cache w" for w
    by (cases "f (vw_fs w)") (simp add: vio_def map_error_def vfile_def Let_def)
  then have "slash_free v (snd (vio env what f w))" if "slash_free v w" for w
    using that assms [OF that] by (simp add: slash_free_def) (metis)
  then show ?thesis by (simp add: inv_def wp_snd)
qed

lemma free_vio_never:
  assumes "\<And>w a. slash_free v w \<Longrightarrow> fst (f (vw_fs w)) \<noteq> Ok a \<and> snd (f (vw_fs w)) = vw_fs w"
  shows "inv (slash_free v) (vio env what f) (\<lambda>_. False)"
proof -
  have "wp (vio env what f) (\<lambda>_ _. False) (slash_free v) w" if "slash_free v w" for w
  proof -
    obtain r fs where f: "f (vw_fs w) = (r, fs)" by (cases "f (vw_fs w)")
    have r: "r \<noteq> Ok a" "fs = vw_fs w" for a using assms [OF that, of a] f by simp_all
    have "slash_free v (w\<lparr>vw_effects := x\<rparr>)" for x using that by (simp add: slash_free_def)
    then show ?thesis using r by (cases r) (auto simp: wp_def vio_def map_error_def vfile_def Let_def f)
  qed
  then show ?thesis by (auto simp: inv_def elim: wp_mono)
qed

lemma free_parts:
  "inv (slash_free v) (vexists env p) (\<lambda>there. (\<exists>w q. slash_free v w \<and> resolve (vw_fs w) p = Ok q) \<or> \<not> there)"
  "inv (slash_free v) (vfresh g) (\<lambda>_. True)" "inv (slash_free v) (vget h) (\<lambda>_. True)"
  "\<not> nested k \<or> \<not> tenant_id t \<Longrightarrow> inv (slash_free v) (cache_key t k dk) (\<lambda>_. True)"
  "tenant_id t \<Longrightarrow> inv (slash_free v) (vget (\<lambda>w. vw_cache w (t, k))) (\<lambda>r. nested k \<longrightarrow> r = None)"
  "inv (slash_free v) m Q \<Longrightarrow> inv (slash_free v) (unsealed m) Q"
proof -
  show "inv (slash_free v) (vexists env p) (\<lambda>there. (\<exists>w q. slash_free v w \<and> resolve (vw_fs w) p = Ok q) \<or> \<not> there)"
    by (auto simp: inv_def wp_def vexists_def bind_def attempt_def vfile_def Let_def slash_free_def node_at_def split: result.splits)
qed (auto simp: inv_def wp_def vfresh_def vget_def cache_key_def slash_free_def unsealed_def bind_def lift_def)

lemma free_absent:
  "(\<And>w q. slash_free v w \<Longrightarrow> B \<Longrightarrow> resolve (vw_fs w) p \<noteq> Ok q) \<Longrightarrow> inv (slash_free v) (vexists env p) (\<lambda>there. B \<longrightarrow> \<not> there)"
  by (rule inv_weaken [OF free_parts(1)]) blast

lemma free_reads:
  "inv (slash_free v) (vio env what (read_file p)) (\<lambda>_. True)" "inv (slash_free v) (vio env what (write_file p d)) (\<lambda>_. True)"
  "inv (slash_free v) (vio env what (remove_file p)) (\<lambda>_. True)" "inv (slash_free v) (read_key env p) (\<lambda>_. True)"
  "inv (slash_free v) (read_secret env p) (\<lambda>_. True)"
proof -
  show io: "inv (slash_free v) (vio env what (read_file p)) (\<lambda>_. True)" "inv (slash_free v) (vio env what (write_file p d)) (\<lambda>_. True)"
    "inv (slash_free v) (vio env what (remove_file p)) (\<lambda>_. True)" for what
    by (rule free_vio; simp add: slash_free_def files_stay_free)+
  show "inv (slash_free v) (read_key env p) (\<lambda>_. True)" "inv (slash_free v) (read_secret env p) (\<lambda>_. True)"
    by (auto simp: read_key_def read_secret_def intro!: inv_bind [OF io(1)] inv_lift)
qed

lemma free_dirs:
  "tenant_id t \<Longrightarrow> inv (slash_free v) (vio env what (create_dir_all (keys_path v t))) (\<lambda>_. True)"
  "tenant_id t \<Longrightarrow> inv (slash_free v) (vio env what (create_dir_all (secrets_path v t))) (\<lambda>_. True)"
proof -
  have "no_nested_dir (proper (mv_base_path v)) (vw_fs w)" if "slash_free v w" for w using that by (simp add: slash_free_def)
  then show "tenant_id t \<Longrightarrow> inv (slash_free v) (vio env what (create_dir_all (keys_path v t))) (\<lambda>_. True)"
    "tenant_id t \<Longrightarrow> inv (slash_free v) (vio env what (create_dir_all (secrets_path v t))) (\<lambda>_. True)"
    using tenant_dir_stays_free [of v _ t] by (auto simp: tenant_id_def vault_paths intro!: free_vio)
qed

lemma free_nested_write:
  assumes "tenant_id t"
  shows "inv (slash_free v) (vio env what (write_file (key_path v t k) d)) (\<lambda>_. \<not> nested k)"
    "inv (slash_free v) (vio env what (write_file (secret_path v t k) d)) (\<lambda>_. \<not> nested k)"
proof -
  have "inv (slash_free v) (vio env what (write_file p d)) (\<lambda>_. \<not> nested k)"
    if p: "\<And>w q. slash_free v w \<Longrightarrow> nested k \<Longrightarrow> resolve (vw_fs w) p \<noteq> Ok q" for p
  proof (cases "nested k")
    case True
    have "inv (slash_free v) (vio env what (write_file p d)) (\<lambda>_. False)"
      by (rule free_vio_never) (use p True in \<open>auto simp: write_file_def split: result.splits\<close>)
    then show ?thesis by (rule inv_weaken) simp
  qed (simp add: free_reads)
  then show "inv (slash_free v) (vio env what (write_file (key_path v t k) d)) (\<lambda>_. \<not> nested k)"
    "inv (slash_free v) (vio env what (write_file (secret_path v t k) d)) (\<lambda>_. \<not> nested k)"
    using nested_blocked [OF _ assms] by blast+
qed

lemma free_keys:
  assumes t: "tenant_id t"
  shows "inv (slash_free v) (create_key env v t k) (\<lambda>_. \<not> nested k)"
    "\<not> nested k \<Longrightarrow> inv (slash_free v) (open_key env v t k km) (\<lambda>_. True)"
    "inv (slash_free v) (get_or_create_key env v t k) (\<lambda>_. \<not> nested k)"
proof -
  show create: "inv (slash_free v) (create_key env v t k) (\<lambda>_. \<not> nested k)"
    unfolding create_key_def aead_encrypt_def Let_def
    by (auto intro!: inv_bind [OF free_parts(2)] inv_bind_lift inv_bind [OF free_parts(3)] inv_bind [OF free_dirs(1) [OF t]]
        inv_bind [OF free_nested_write(1) [OF t]] inv_ret)
  have decrypt: "inv (slash_free v) (aead_decrypt env what key nonce c) (\<lambda>_. True)" for what key nonce c
    by (simp add: aead_decrypt_def inv_lift)
  show "open": "\<not> nested k \<Longrightarrow> inv (slash_free v) (open_key env v t k km) (\<lambda>_. True)" for km
    unfolding open_key_def Let_def
    by (rule inv_bind [OF decrypt], rule inv_if [OF inv_lift]) (auto intro!: inv_bind [OF free_parts(4)] inv_ret)
  have absent: "inv (slash_free v) (vexists env (key_path v t k)) (\<lambda>there. nested k \<longrightarrow> \<not> there)"
    by (rule free_absent) (rule nested_blocked(1) [OF _ t])
  have made: "inv (slash_free v) (if there then read_key env (key_path v t k) else create_key env v t k) (\<lambda>_. \<not> nested k)"
    if "nested k \<longrightarrow> \<not> there" for there
    using that create by (auto intro: inv_weaken [OF free_reads(4)])
  have "inv (slash_free v) (bind (vexists env (key_path v t k)) (\<lambda>there.
      bind (if there then read_key env (key_path v t k) else create_key env v t k) (open_key env v t k))) (\<lambda>_. \<not> nested k)"
    by (rule inv_bind [OF absent], rule inv_bind [OF made], assumption, rule inv_weaken [OF "open"]) simp_all
  then show "inv (slash_free v) (get_or_create_key env v t k) (\<lambda>_. \<not> nested k)"
    unfolding get_or_create_key_def
    by (auto intro!: inv_bind [OF free_parts(5) [OF t]] inv_ret split: option.split)
qed

lemma free_ops:
  assumes t: "tenant_id t"
  shows "inv (slash_free v) (encrypt_with_key env v t k p) (\<lambda>_. \<not> nested k)"
    "inv (slash_free v) (decrypt_with_key env v t k c nonce) (\<lambda>_. True)"
proof -
  show "inv (slash_free v) (encrypt_with_key env v t k p) (\<lambda>_. \<not> nested k)"
    unfolding encrypt_with_key_def aead_encrypt_def
    by (rule inv_bind [OF free_keys(3) [OF t]], rule inv_bind [OF free_parts(2)], rule inv_bind_lift, rule inv_ret)
  show "inv (slash_free v) (decrypt_with_key env v t k c nonce) (\<lambda>_. True)"
    unfolding decrypt_with_key_def aead_decrypt_def
    by (rule inv_bind [OF free_keys(3) [OF t]], rule inv_if) (auto intro: inv_lift)
qed

interpretation disk: slash_refusing "embedded env v" "slash_free v"
proof
  fix t k p c n x
  assume t: "tenant_id t"
  have absent: "inv (slash_free v) (vexists env (key_path v t k)) (\<lambda>there. nested k \<longrightarrow> \<not> there)"
    "inv (slash_free v) (vexists env (secret_path v t k)) (\<lambda>there. nested k \<longrightarrow> \<not> there)" for k
    by (rule free_absent, rule nested_blocked [OF _ t], assumption+)+
  show "inv (slash_free v) (v_encrypt (embedded env v) t k p) (\<lambda>_. \<not> nested k)"
    by (auto simp: embedded_def embedded_encrypt_def intro!: free_parts(6) inv_bind [OF free_ops(1) [OF t]] inv_ret split: prod.splits)
  show "inv (slash_free v) (v_decrypt (embedded env v) t k c) (\<lambda>_. True)"
    by (auto simp: embedded_def embedded_decrypt_def intro!: free_parts(6) inv_bind_lift inv_lift free_ops(2) [OF t])
  show "inv (slash_free v) (v_list_secrets (embedded env v) t) (\<lambda>_. True)"
    using inv_list_secrets [of "slash_free v"] by (simp add: embedded_def slash_free_def)
  show "inv (slash_free v) (v_get_secret (embedded env v) t n) (\<lambda>r. nested n \<longrightarrow> r = None)"
    unfolding embedded_def embedded_get_secret_def Let_def vault.select_convs
    by (rule free_parts(6), rule inv_bind [OF absent(2) [of n]])
      (auto intro!: inv_ret inv_bind [OF free_reads(5)] inv_bind [OF free_ops(2) [OF t]])
  show "inv (slash_free v) (v_delete_secret (embedded env v) t n) (\<lambda>_. True)"
    unfolding embedded_def embedded_delete_secret_def Let_def vault.select_convs
    by (rule free_parts(6), rule inv_bind [OF absent(2) [of n]]) (auto intro!: inv_lift free_reads(3))
  show "inv (slash_free v) (v_put_secret (embedded env v) t n x) (\<lambda>_. \<not> nested n)"
    unfolding embedded_def embedded_put_secret_def Let_def vault.select_convs
    by (rule free_parts(6), rule inv_bind [OF free_ops(1) [OF t]], rule inv_prod, rule inv_prod, rule inv_bind [OF absent(2) [of n]])
      (auto intro!: inv_bind [where Q = "\<lambda>_. True"] inv_ret free_reads(5) free_parts(3) free_dirs(2) [OF t] free_nested_write(2) [OF t] split: if_split)
  show "inv (slash_free v) (v_rotate_key (embedded env v) t k) (\<lambda>_. True)"
  proof -
    have cache: "\<not> nested k \<Longrightarrow> inv (slash_free v) (cache_key t k dk) (\<lambda>_. True)" for dk by (rule free_parts(4)) simp
    show ?thesis
      unfolding embedded_def embedded_rotate_key_def Let_def vault.select_convs aead_encrypt_def
      by (rule free_parts(6), rule inv_bind [OF absent(1) [of k]])
        (auto intro!: inv_lift inv_bind [OF free_reads(4)] inv_bind [OF free_parts(2)] inv_bind_lift inv_bind [OF free_parts(3)]
          inv_bind [OF free_nested_write(1) [OF t]] inv_bind [OF cache] inv_ret)
  qed
qed

section \<open>The vault of a server\<close>

lemma new_vault_slash_free:
  assumes new: "new_embedded_vault env base master w0 = (Ok v, w)" and dots: "''..'' \<notin> set base"
    and none: "no_nested_dir (proper base) (vw_fs w0)" "vw_cache w0 = (\<lambda>_. None)"
  shows "slash_free v w"
proof -
  obtain key fs1 where v: "v = \<lparr>mv_base_path = base, mv_master_key = key\<rparr>" and cache: "vw_cache w = vw_cache w0"
    and d1: "create_dir_all (base @ [''keys'']) (vw_fs w0) = (Ok (), fs1)"
    and d2: "create_dir_all (base @ [''secrets'']) fs1 = (Ok (), vw_fs w)" by (rule new_vault_steps [OF new])
  have dd: "''..'' \<notin> set (base @ [''keys''])" "''..'' \<notin> set (base @ [''secrets''])" using dots by simp_all
  have "vw_fs w (proper base @ s # t # c # p) = vw_fs w0 (proper base @ s # t # c # p)" for s t c p
    using create_dir_all_keeps(2) [OF d1 dd(1), of "proper base @ s # t # c # p"]
      create_dir_all_keeps(2) [OF d2 dd(2), of "proper base @ s # t # c # p"] by simp
  then show ?thesis using none dots by (simp add: slash_free_def no_nested_dir_def v cache)
qed

text \<open>Bootstrap drops every error of the vault.\<close>

lemma count_successes_no_error: "fst (count_successes f xs n w) \<noteq> Err e"
  by (induction xs arbitrary: n w) (auto simp: bind_def attempt_def ret_def split: prod.split result.split)

lemma bootstrap_no_error: "fst (vault_bootstrap V random now t w) \<noteq> Err e"
  unfolding vault_bootstrap_def
  by (auto simp: bind_def ret_def split: prod.split result.split dest!: arg_cong [of _ _ fst] simp: count_successes_no_error)

interpretation shop: slash_refusing_cached "embedded env v" "slash_free v" conf for conf :: "vault_world cache_config" ..

text \<open>
  C2. The vault the server builds (\<open>EmbeddedVault\<close> under \<open>CachedVault\<close>, on a directory that holds no nested directories)
  never keeps the keys and secrets of the platform, whose names are all nested (a plain first segment, then a slash).
  After any sequence of calls for any names, whatever file operations fail: \<open>bootstrap\<close> of a project never answers with an
  error, and when it returns it reports that no key and no secret was created; no
  anonymous or service token is ever generated, no OAuth provider saved and no personal data of the identity service
  encrypted. Names that are absolute or start with dots are another matter: they lead out of the directory.
\<close>

theorem platform_secrets_never_kept:
  fixes conf :: "vault_world cache_config" and env :: vault_env and v :: embedded_vault and w :: vault_world
    and cs :: "vault_call list"
  assumes new: "new_embedded_vault env base master w0 = (Ok v, w)" and dots: "''..'' \<notin> set base"
    and none: "no_nested_dir (proper base) (vw_fs w0)" "vw_cache w0 = (\<lambda>_. None)"
    and calls: "\<forall>c \<in> set cs. tenant_id (call_tenant c)" and t: "tenant_id t"
  defines "V \<equiv> cached conf (embedded env v)"
  defines "w1 \<equiv> snd (run_vault V cs \<lparr>cw_inner = w, cw_cache = (\<lambda>_. None)\<rparr>)"
  shows "fst (vault_bootstrap V random now t w1) \<noteq> Err e \<and>
    (fst (vault_bootstrap V random now t w1) = Ok r \<longrightarrow> br_transit_keys_created r = 0 \<and> br_secrets_created r = 0) \<and>
    fst (generate_anon_jwt sign V now t project_ref w1) \<noteq> Ok token \<and>
    fst (generate_service_jwt sign V now t project_ref w1) \<noteq> Ok token \<and>
    fst (save_provider print V t now provider config w1) \<noteq> Ok () \<and>
    fst (vault_encryptor_encrypt V t plaintext w1) \<noteq> Ok data"
proof -
  have "slash_free_cache (slash_free v) \<lparr>cw_inner = w, cw_cache = (\<lambda>_. None)\<rparr>"
    using new_vault_slash_free [OF new dots none] by (simp add: slash_free_cache_def)
  then have w1: "slash_free_cache (slash_free v) w1"
    using shop.front.run_keeps [OF calls] unfolding w1_def V_def by blast
  note result = shop.front.inv_result [OF _ w1]
  have "br_transit_keys_created r = 0 \<and> br_secrets_created r = 0" if "fst (vault_bootstrap V random now t w1) = Ok r"
    using result [OF shop.front.bootstrap_creates_none [OF t] that [unfolded V_def]] by simp
  then show ?thesis
    using result [OF shop.front.no_token [OF t]] result [OF shop.front.no_provider [OF t]] result [OF shop.front.no_encryption [OF t]]
      bootstrap_no_error [of V random now t w1 e]
    unfolding V_def generate_anon_jwt_def generate_service_jwt_def by blast
qed

definition sample_served :: "vault_world cached_world vault" where
  "sample_served = cached sample_conf (embedded sample_vault_env sample_vault)"

definition sample_served_world :: "vault_world cached_world" where
  "sample_served_world = \<lparr>cw_inner = sample_vault_world, cw_cache = (\<lambda>_. None)\<rparr>"

definition sample_sign :: jwt_signer where
  "sample_sign kid claims key = Ok (kid @ key)"

lemma platform_secrets_never_kept_witness:
  "fst (vault_bootstrap sample_served (\<lambda>n. n) 7 ''p'' sample_served_world) =
     Ok \<lparr>br_transit_keys_created = 0, br_secrets_created = 0\<rparr> \<and>
   fst (generate_anon_jwt sample_sign sample_served 7 ''p'' ''ref''
     (snd (run_vault sample_served [PutSecret ''p'' ''keys/jwt-signing'' (new_secret_value ''k'' 7)] sample_served_world))) \<noteq> Ok ''ref:v1k''"
proof -
  have "fst (vault_bootstrap sample_served (\<lambda>n. n) 7 ''p'' sample_served_world) =
     Ok \<lparr>br_transit_keys_created = 0, br_secrets_created = 0\<rparr>" by code_simp
  moreover have "no_nested_dir (proper ['''', ''data'']) (vw_fs sample_vault_start)" "''..'' \<notin> set ['''', ''data'']"
    "vw_cache sample_vault_start = (\<lambda>_. None)" "tenant_id ''p''"
    "\<forall>c \<in> set [PutSecret ''p'' ''keys/jwt-signing'' (new_secret_value ''k'' 7)]. tenant_id (call_tenant c)"
    by (simp_all add: no_nested_dir_def sample_vault_start_def sample_host_def tenant_id_def component_def)
  ultimately show ?thesis
    using platform_secrets_never_kept [OF sample_vault_new, of "[PutSecret ''p'' ''keys/jwt-signing'' (new_secret_value ''k'' 7)]" "''p''" sample_conf]
    unfolding sample_served_def sample_served_world_def by blast
qed

end
