(* ===== verification/Vault_Lost.thy ===== *)
theory Vault_Lost
  imports Vault_Agree
begin

text \<open>
  Where the vault loses or spoils what it keeps: the rotation of the key of the secrets, the names that leave its
  directory, and the reader that meets a writer in front of the cache.
\<close>

section \<open>Rotation\<close>

text \<open>Authenticated encryption: what one key opens no other key of the same size does.\<close>

definition authentic_aead :: "vault_env \<Rightarrow> bool" where
  "authentic_aead env \<longleftrightarrow>
     (\<forall>k k' m c p. ve_aead_decrypt env k m c = Some p \<longrightarrow> length k = key_size \<longrightarrow> length k' = key_size \<longrightarrow> k' \<noteq> k \<longrightarrow>
        ve_aead_decrypt env k' m c = None)"

lemma steady_run:
  assumes "steady_vault env"
  shows "vexists env p w = (Ok (node_at (vw_fs w) p \<noteq> None), w\<lparr>vw_effects := Suc (vw_effects w)\<rparr>)"
    "f (vw_fs w) = (r, fs') \<Longrightarrow> vio env what f w =
       (map_err (\<lambda>e. Connection (what @ '': '' @ ve_io_text env e)) r, w\<lparr>vw_effects := Suc (vw_effects w), vw_fs := fs'\<rparr>)"
  using assms by (simp_all add: vexists_def bind_def attempt_def vio_def map_error_def vfile_def steady_vault_def Let_def)

lemma reply_of_Ok: "m w = (Ok a, w') \<Longrightarrow> reply_of what f m w = (Ok (f a), w')"
  and reply_of_Err: "m w = (Err e, w') \<Longrightarrow>
    reply_of what f m w = (Ok (vault_internal (''failed to '' @ what @ '': '' @ vault_error_text e)), w')"
  by (simp_all add: reply_of_def bind_def attempt_def)

text \<open>
  C17. Rotating the key the vault encrypts secrets with answers 200 and makes every secret of the tenant unreadable: there
  is one key per name, the rotation replaces it in the file and in memory, and what the old key encrypted is answered
  with the error 500 from then on (while the comment of \<open>rotate_key\<close> promises that old ciphertexts can still be decrypted).
\<close>

theorem rotation_loses_secrets:
  assumes e: "steady_vault env" "vault_crates env" and authentic: "authentic_aead env"
    and o: "open_vault env v b w" and t: "tenant_id t" and n: "plain n"
    and stored: "secrets_at env v b (vw_fs w) (t, n) \<noteq> None"
    and fresh: "key_at env v b (vw_fs w) t ''kv-internal'' \<noteq> Some (ve_random_key env (vw_fresh w))"
  shows "\<exists>version w' body. rotate_key_handler (embedded env v) t ''kv-internal'' w = (Ok (200, KeyRotated version), w') \<and>
    fst (get_secret_handler env (embedded env v) t n w) = Ok (200, body) \<and>
    fst (get_secret_handler env (embedded env v) t n w') =
      Ok (500, VaultFailure ''internal_error'' (''failed to get secret: decryption failed: '' @ ve_aead_error env))"
proof -
  have s: "vault_sound env v b (vw_fs w) (vw_cache w)" and u: "\<not> vw_sealed w" using o by (simp_all add: open_vault_def)
  have ct: "component t" using t by (simp add: tenant_id_def)
  obtain x where x: "vw_fs w (b @ [''secrets'', t, n @ ''.json'']) = Some x"
    using stored by (cases "vw_fs w (b @ [''secrets'', t, n @ ''.json''])") (auto simp: secrets_at_def split: if_splits)
  obtain d dek y where d: "x = File d" "key_at env v b (vw_fs w) t ''kv-internal'' = Some dek" "secret_text env dek d = Some y"
    and dir: "vw_fs w (b @ [''secrets'', t]) = Some Dir" using sound_secret [OF s t n x] by blast
  obtain st p where st: "ve_parse_secret env d = Ok st" "length (ss_nonce st) = nonce_size"
    "ve_aead_decrypt env dek (ss_nonce st) (ss_ciphertext st) = Some p"
    using d(3) by (auto simp: secret_text_def split: result.splits if_splits)
  let ?new = "ve_random_key env (vw_fresh w)" and ?key = "b @ [''keys'', t, ''kv-internal'' @ ''.key'']"
  have lost: "ve_aead_decrypt env ?new (ss_nonce st) (ss_ciphertext st) = None"
    using authentic st(3) key_size_of [OF d(2)] crates_lengths(1) [OF e(2)] fresh d(2) unfolding authentic_aead_def by metis
  obtain kf where kf: "vw_fs w ?key = Some kf" using d(2) by (auto simp: key_at_def split: option.splits)
  have no_dir: "kf \<noteq> Dir" using sound_key [OF s t plain_internal kf] by blast
  obtain version kd where
    run: "embedded_rotate_key env v t ''kv-internal'' w = (Ok version, rotated t ''kv-internal'' ?key version ?new kd w)"
    by (rule rotate_run [OF e s u t plain_internal kf])
  let ?w = "rotated t ''kv-internal'' ?key version ?new kd w"
  have fs: "vw_fs ?w = (vw_fs w)(?key \<mapsto> File kd)" by (simp add: rotated_def)
  have base: "base_ready v b (vw_fs ?w)" unfolding fs
    by (rule base_ready_mono [OF conjunct1 [OF sound_base [OF s]]]) (use kf no_dir in auto)
  have there: "vw_fs ?w (b @ [''secrets'', t, n @ ''.json'']) = Some (File d)" "vw_fs ?w (b @ [''secrets'', t]) = Some Dir"
    unfolding fs using x d(1) dir by simp_all
  note leaf = leaf_ops [OF base _ ct component_names(3) [OF n] there(2)]
  have at: "node_at (vw_fs ?w) (secret_path v t n) \<noteq> None" "read_file (secret_path v t n) (vw_fs ?w) = (Ok d, vw_fs ?w)"
    using leaf(1,3) there(1) ct n by (simp_all add: vault_paths)
  have rw: "vw_sealed ?w = False" "vw_cache ?w (t, ''kv-internal'') = Some \<lparr>dk_version = version, dk_dek = ?new\<rparr>"
    using u by (simp_all add: rotated_def)
  have "\<exists>w2. embedded_get_secret env v t n ?w = (Err (DecryptionFailed (ve_aead_error env)), w2)"
    using rw at st lost
    by (simp add: embedded_get_secret_def unsealed_def vget_def steady_run [OF e(1)] read_secret_def decrypt_with_key_def
        get_or_create_key_def aead_decrypt_def ok_or_def bind_def lift_def ret_def Let_def)
  then have after: "fst (get_secret_handler env (embedded env v) t n ?w) =
      Ok (500, VaultFailure ''internal_error'' (''failed to get secret: decryption failed: '' @ ve_aead_error env))"
    by (auto simp: get_secret_handler_def embedded_def reply_of_Err vault_internal_def)
  obtain r w3 where "v_get_secret (embedded env v) t n w = (Ok r, w3)" "map_option secret_view r = secrets_at env v b (vw_fs w) (t, n)"
    using files.get_law [of env v b w t n] e o t n by blast
  then have "\<exists>body. fst (get_secret_handler env (embedded env v) t n w) = Ok (200, body)"
    using stored by (cases r) (auto simp: get_secret_handler_def reply_of_Ok)
  then show ?thesis
    using run after by (auto simp: rotate_key_handler_def embedded_def reply_of_Ok)
qed
definition sample_secret_world :: vault_world where
  "sample_secret_world = snd (embedded_put_secret sample_vault_env sample_vault ''t'' ''smtp'' (new_secret_value ''pass'' 0) sample_vault_world)"

lemma sample_authentic: "authentic_aead sample_vault_env"
  by (auto simp: authentic_aead_def sample_vault_env_def sample_decrypt_def append_eq_append_conv_if split: if_splits)

lemma rotation_loses_secrets_witness:
  "fst (get_secret_handler sample_vault_env (embedded sample_vault_env sample_vault) ''t'' ''smtp'' sample_secret_world) =
     Ok (200, SecretBody ''smtp'' ''pass'' False 1) \<and>
   fst (get_secret_handler sample_vault_env (embedded sample_vault_env sample_vault) ''t'' ''smtp''
     (snd (rotate_key_handler (embedded sample_vault_env sample_vault) ''t'' ''kv-internal'' sample_secret_world))) =
     Ok (500, VaultFailure ''internal_error'' ''failed to get secret: decryption failed: aead::Error'')"
proof -
  have t: "tenant_id ''t''" "plain ''smtp''" by (simp_all add: tenant_id_def component_def plain_def)
  obtain w' where w': "v_put_secret (embedded sample_vault_env sample_vault) ''t'' ''smtp'' (new_secret_value ''pass'' 0) sample_vault_world = (Ok (), w')"
    "open_vault sample_vault_env sample_vault [''data''] w'"
    "secrets_at sample_vault_env sample_vault [''data''] (vw_fs w') (''t'', ''smtp'') = Some (''pass'', 1)"
    using files.put_law [of sample_vault_env sample_vault "[''data'']" sample_vault_world "''t''" "''smtp''" "new_secret_value ''pass'' 0"]
      t sample_crates sample_vault_open sample_vault_empty
    by (auto simp: new_secret_value_def next_version_def)
  then have w: "sample_secret_world = w'" by (simp add: sample_secret_world_def embedded_def)
  have get: "fst (get_secret_handler sample_vault_env (embedded sample_vault_env sample_vault) ''t'' ''smtp'' sample_secret_world) =
     Ok (200, SecretBody ''smtp'' ''pass'' False 1)"
    using files.get_law [of sample_vault_env sample_vault "[''data'']" w' "''t''" "''smtp''"] t sample_crates w'(2,3)
    by (auto simp: get_secret_handler_def reply_of_Ok w secret_view_def sample_vault_env_def)
  have fresh: "key_at sample_vault_env sample_vault [''data''] (vw_fs w') ''t'' ''kv-internal'' \<noteq> Some (ve_random_key sample_vault_env (vw_fresh w'))"
  proof -
    have "map_option dk_dek (vw_cache sample_secret_world (''t'', ''kv-internal'')) = Some (replicate 32 (char_of (65 :: nat)))"
      "vw_fresh sample_secret_world = 3" by code_simp+
    then obtain dk where dk: "vw_cache w' (''t'', ''kv-internal'') = Some dk" "dk_dek dk = replicate 32 (char_of (65 :: nat))"
      "vw_fresh w' = 3" unfolding w by auto
    have "key_at sample_vault_env sample_vault [''data''] (vw_fs w') ''t'' ''kv-internal'' = Some (dk_dek dk)"
      by (rule sound_cached [where cache = "vw_cache w'"]) (use w'(2) t dk(1) in \<open>simp_all add: open_vault_def plain_internal\<close>)
    then show ?thesis by (simp add: dk sample_vault_env_def char_of_def bit_simps)
  qed
  show ?thesis
    using get rotation_loses_secrets [OF sample_crates sample_authentic w'(2) t _ fresh] w'(3)
    unfolding w [symmetric] by (auto simp: sample_vault_env_def)
qed

section \<open>Names that leave the directory\<close>

text \<open>
  C18. The name of a secret is joined to the directory of the tenant unchecked (\<open>InvalidKeyName\<close> is never raised), and an
  absolute name replaces the path: \<open>DELETE /_admin/vault/secrets/:key\<close> with such a key answers 200 and removes the file of
  the host that the key names, if it ends in \<open>.json\<close>, whatever the tenant and wherever the vault is.
\<close>

theorem delete_removes_files_of_the_host:
  assumes e: "steady_vault env" and u: "\<not> vw_sealed w" and absolute: "starts_with ''/'' key"
    and target: "resolve (vw_fs w) (split_char CHR ''/'' (key @ ''.json'')) = Ok q" "vw_fs w q = Some (File d)"
  shows "\<exists>w'. delete_secret_handler (embedded env v) t key w = (Ok (200, VaultDone (''secret '' @ single_quoted key @ '' deleted'')), w') \<and>
    vw_fs w' = (vw_fs w)(q := None)"
proof -
  have "starts_with ''/'' (key @ ''.json'')" using absolute by (auto simp: starts_with_iff)
  then have p: "secret_path v t key = split_char CHR ''/'' (key @ ''.json'')" by (simp add: secret_path_def join_path_def)
  have there: "node_at (vw_fs w) (secret_path v t key) \<noteq> None" using target by (simp add: p node_at_def)
  have rm: "remove_file (secret_path v t key) (vw_fs w) = (Ok (), (vw_fs w)(q := None))" using target by (simp add: p remove_file_def)
  have "\<exists>w'. embedded_delete_secret env v t key w = (Ok (), w') \<and> vw_fs w' = (vw_fs w)(q := None)"
    using u there rm by (simp add: embedded_delete_secret_def unsealed_def vget_def steady_run [OF e] bind_def Let_def)
  then show ?thesis by (auto simp: delete_secret_handler_def embedded_def reply_of_Ok)
qed

lemma delete_removes_files_of_the_host_witness:
  "vw_fs sample_vault_start [''etc'', ''app.json''] = Some (File ''{}'') \<and>
   (\<exists>w'. delete_secret_handler (embedded sample_vault_env sample_vault) ''t'' ''/etc/app'' sample_vault_start =
      (Ok (200, VaultDone (''secret '' @ single_quoted ''/etc/app'' @ '' deleted'')), w') \<and> vw_fs w' [''etc'', ''app.json''] = None)"
proof -
  have f: "vw_fs sample_vault_start [''etc'', ''app.json''] = Some (File ''{}'')" "\<not> vw_sealed sample_vault_start"
    "starts_with ''/'' ''/etc/app''"
    "resolve (vw_fs sample_vault_start) (split_char CHR ''/'' (''/etc/app'' @ ''.json'')) = Ok [''etc'', ''app.json'']"
    by code_simp+
  show ?thesis
    using delete_removes_files_of_the_host [OF sample_crates(1) f(2,3,4,1), of sample_vault "''t''"] f(1) by auto
qed

section \<open>A reader that meets a writer\<close>

text \<open>A put of the cached vault during which another task gets the secret: after the invalidation, before the write.\<close>

definition get_during_put ::
  "'w cache_config \<Rightarrow> 'w vault \<Rightarrow> uuid \<Rightarrow> string \<Rightarrow> secret_value \<Rightarrow> ('w cached_world, secret_value option, vault_error) comp" where
  "get_during_put cc V tenant name value =
     bind (cache_invalidate (secret_cache_key tenant name)) (\<lambda>_.
     bind (cached_get_secret cc V tenant name) (\<lambda>r.
     bind (inner_op (v_put_secret V tenant name value)) (\<lambda>_. ret r)))"

text \<open>
  \<open>CachedVault\<close> drops the cached secret before it writes the new one, so a get between the two puts the old one
  back: in any vault and with any contents, the put succeeds, and from then on every get answers the secret that was
  replaced, until the time to live is over or the cache drops it for lack of room.
\<close>

theorem get_during_put_serves_the_old_secret:
  fixes V :: "'w vault" and w :: "'w cached_world"
  assumes old: "v_get_secret V t n (cw_inner w) = (Ok (Some old), i1)"
    and put: "v_put_secret V t n new i1 = (Ok (), i2)"
    and later: "cc_now conf i < cc_now conf i1 + cc_ttl conf" "\<not> cc_dropped conf i (secret_cache_key t n)"
  shows "\<exists>w'. get_during_put conf V t n new w = (Ok (Some old), w') \<and> cw_inner w' = i2 \<and>
    fst (cached_get_secret conf V t n (w'\<lparr>cw_inner := i\<rparr>)) = Ok (Some old)"
proof -
  let ?k = "secret_cache_key t n"
  have "get_during_put conf V t n new w =
      (Ok (Some old), \<lparr>cw_inner = i2, cw_cache = (cw_cache w)(?k \<mapsto> (old, cc_now conf i1))\<rparr>)"
    using old put by (simp add: get_during_put_def cache_invalidate_def cached_get_secret_def cache_lookup_def inner_op_def cache_fill_def
        cache_store_def bind_def Let_def)
  then show ?thesis using later by (simp add: cached_get_secret_def cache_lookup_def bind_def Let_def)
qed

definition sample_mock_world :: mock_world where
  "sample_mock_world = snd (mock_put_secret ''t'' ''smtp'' (new_secret_value ''old'' 0) (new_mock 0))"

definition sample_mock_conf :: "mock_world cache_config" where
  "sample_mock_conf = \<lparr>cc_now = mk_now, cc_ttl = 60, cc_dropped = (\<lambda>_ _. False)\<rparr>"

lemma get_during_put_serves_the_old_secret_witness:
  "\<exists>w'. get_during_put sample_mock_conf (mock sample_vault_env) ''t'' ''smtp'' (new_secret_value ''new'' 0)
       \<lparr>cw_inner = sample_mock_world, cw_cache = (\<lambda>_. None)\<rparr> = (Ok (Some (new_secret_value ''old'' 0)), w') \<and>
     map_of (mk_secrets (cw_inner w')) (''t'', ''smtp'') \<noteq> Some (new_secret_value ''old'' 0) \<and>
     fst (cached_get_secret sample_mock_conf (mock sample_vault_env) ''t'' ''smtp'' w') = Ok (Some (new_secret_value ''old'' 0))"
proof -
  define i2 where "i2 = snd (mock_put_secret ''t'' ''smtp'' (new_secret_value ''new'' 0) sample_mock_world)"
  have old: "v_get_secret (mock sample_vault_env) ''t'' ''smtp'' sample_mock_world = (Ok (Some (new_secret_value ''old'' 0)), sample_mock_world)"
    and put: "v_put_secret (mock sample_vault_env) ''t'' ''smtp'' (new_secret_value ''new'' 0) sample_mock_world = (Ok (), i2)"
    by (simp_all add: mock_def mock_get_secret_def mock_put_secret_def mock_unsealed_def sample_mock_world_def new_mock_def
        new_secret_value_def Let_def i2_def)
  have "cc_now sample_mock_conf i2 < cc_now sample_mock_conf sample_mock_world + cc_ttl sample_mock_conf"
    "\<not> cc_dropped sample_mock_conf i2 (secret_cache_key ''t'' ''smtp'')"
    by (simp_all add: sample_mock_conf_def i2_def mock_put_secret_def mock_unsealed_def sample_mock_world_def new_mock_def Let_def)
  from get_during_put_serves_the_old_secret [of "mock sample_vault_env" "''t''" "''smtp''"
      "\<lparr>cw_inner = sample_mock_world, cw_cache = (\<lambda>_. None)\<rparr>", OF _ put this] old
  obtain w' where w': "get_during_put sample_mock_conf (mock sample_vault_env) ''t'' ''smtp'' (new_secret_value ''new'' 0)
       \<lparr>cw_inner = sample_mock_world, cw_cache = (\<lambda>_. None)\<rparr> = (Ok (Some (new_secret_value ''old'' 0)), w')" "cw_inner w' = i2"
    "fst (cached_get_secret sample_mock_conf (mock sample_vault_env) ''t'' ''smtp'' (w'\<lparr>cw_inner := i2\<rparr>)) = Ok (Some (new_secret_value ''old'' 0))"
    by auto
  have "w'\<lparr>cw_inner := i2\<rparr> = w'" using w'(2) by (metis cached_world.surjective cached_world.update_convs(1) cached_world.select_convs(1))
  moreover have "map_of (mk_secrets i2) (''t'', ''smtp'') \<noteq> Some (new_secret_value ''old'' 0)"
    by (simp add: i2_def mock_put_secret_def mock_unsealed_def sample_mock_world_def new_mock_def new_secret_value_def Let_def)
  ultimately show ?thesis using w' by auto
qed

end
