(* ===== verification/Cloud_Store.thy ===== *)
theory Cloud_Store
  imports Vault_Agree
begin

text \<open>
  The tables of the control plane (\<open>crates/reactor-cloud-api/\<close>): its types (\<open>types.rs\<close>), errors (\<open>error.rs\<close>) and statements
  (\<open>store.rs\<close>) with the keys, references and triggers of \<open>migrations/001_reactor_cloud_schema.sql\<close>, and the table of
  routes of the gateway it writes to.
\<close>

section \<open>Types (types.rs)\<close>

datatype project_status = Provisioning | ProjectActive | Suspended | Deleting | ProjectFailed

fun status_text :: "project_status \<Rightarrow> string" where
  "status_text Provisioning = ''provisioning''"
| "status_text ProjectActive = ''active''"
| "status_text Suspended = ''suspended''"
| "status_text Deleting = ''deleting''"
| "status_text ProjectFailed = ''failed''"

definition parse_status :: "string \<Rightarrow> (project_status, string) result" where
  "parse_status s =
     (let l = to_lowercase s in
      if l = ''provisioning'' then Ok Provisioning else if l = ''active'' then Ok ProjectActive
      else if l = ''suspended'' then Ok Suspended else if l = ''deleting'' then Ok Deleting
      else if l = ''failed'' then Ok ProjectFailed else Err (''invalid project status: '' @ s))"

definition can_delete :: "project_status \<Rightarrow> bool" where
  "can_delete s \<longleftrightarrow> s \<in> {ProjectActive, Suspended, ProjectFailed}"

datatype project_role = Owner | Admin | Member

fun role_text :: "project_role \<Rightarrow> string" where
  "role_text Owner = ''owner''"
| "role_text Admin = ''admin''"
| "role_text Member = ''member''"

definition parse_role :: "string \<Rightarrow> (project_role, string) result" where
  "parse_role s =
     (let l = to_lowercase s in
      if l = ''owner'' then Ok Owner else if l = ''admin'' then Ok Admin else if l = ''member'' then Ok Member
      else Err (''invalid member role: '' @ s))"

datatype key_kind = Anon | Service | JwtSigning

fun kind_text :: "key_kind \<Rightarrow> string" where
  "kind_text Anon = ''anon''"
| "kind_text Service = ''service''"
| "kind_text JwtSigning = ''jwt-signing''"

definition parse_kind :: "string \<Rightarrow> (key_kind, string) result" where
  "parse_kind s =
     (let l = to_lowercase s in
      if l = ''anon'' then Ok Anon else if l = ''service'' then Ok Service else if l = ''jwt-signing'' then Ok JwtSigning
      else Err (''invalid key kind: '' @ s))"

datatype cloud_action =
    ProjectCreated | ProjectProvisioned | ProjectProvisionFailed | ProjectSuspended | ProjectResumed
  | ProjectDeleteScheduled | ProjectDeleted | MemberAdded | MemberRemoved | MemberRoleChanged | KeyCreated | ProjectKeyRotated
  | KeyRevoked

fun action_text :: "cloud_action \<Rightarrow> string" where
  "action_text ProjectCreated = ''project.created''"
| "action_text ProjectProvisioned = ''project.provisioned''"
| "action_text ProjectProvisionFailed = ''project.provision_failed''"
| "action_text ProjectSuspended = ''project.suspended''"
| "action_text ProjectResumed = ''project.resumed''"
| "action_text ProjectDeleteScheduled = ''project.delete_scheduled''"
| "action_text ProjectDeleted = ''project.deleted''"
| "action_text MemberAdded = ''member.added''"
| "action_text MemberRemoved = ''member.removed''"
| "action_text MemberRoleChanged = ''member.role_changed''"
| "action_text KeyCreated = ''key.created''"
| "action_text ProjectKeyRotated = ''key.rotated''"
| "action_text KeyRevoked = ''key.revoked''"

record project =
  pr_id :: uuid
  pr_ref :: string
  pr_name :: string
  pr_owner_user_id :: uuid
  pr_backend_kind :: string
  pr_status :: string
  pr_region :: string
  pr_created_at :: instant
  pr_updated_at :: instant

definition parsed_status :: "project \<Rightarrow> project_status" where
  "parsed_status p = (case parse_status (pr_status p) of Ok s \<Rightarrow> s | _ \<Rightarrow> ProjectFailed)"

definition hostname_for :: "string \<Rightarrow> project \<Rightarrow> string" where
  "hostname_for base_domain p = pr_ref p @ ''.'' @ base_domain"

record project_member =
  pm_project_id :: uuid
  pm_user_id :: uuid
  pm_role :: string
  pm_created_at :: instant

definition parsed_role :: "project_member \<Rightarrow> project_role" where
  "parsed_role m = (case parse_role (pm_role m) of Ok r \<Rightarrow> r | _ \<Rightarrow> Member)"

record project_key =
  pk_id :: uuid
  pk_project_id :: uuid
  pk_kind :: string
  pk_vault_ref :: string
  pk_revoked_at :: "instant option"
  pk_created_at :: instant

definition key_active :: "project_key \<Rightarrow> bool" where
  "key_active k \<longleftrightarrow> pk_revoked_at k = None"

record audit_entry =
  en_id :: int
  en_project_id :: "uuid option"
  en_actor :: string
  en_action :: string
  en_metadata :: json
  en_created_at :: instant

record project_spec =
  sp_project_id :: uuid
  sp_project_ref :: string
  sp_name :: string
  sp_region :: string
  sp_owner_user_id :: uuid

record provision_result =
  pv_backend_target :: string
  pv_anon_key :: string
  pv_service_key :: string

record project_health =
  ph_healthy :: bool
  ph_schema_exists :: bool
  ph_vault_accessible :: bool
  ph_route_configured :: bool
  ph_error :: "string option"

section \<open>Errors (error.rs)\<close>

text \<open>What the database answers; its text is a parameter.\<close>

datatype sql_error = DuplicateKey | ForeignKey | OtherSql

datatype cloud_error =
    ProjectNotFound string | ProjectAlreadyExists string | MemberNotFound uuid uuid | KeyNotFound uuid
  | InvalidStatusTransition string string | ProvisioningFailed string | TeardownFailed string | CloudVault string
  | CloudDatabase sql_error | InvalidArgument string | CloudInternal string

fun cloud_error_text :: "(sql_error \<Rightarrow> string) \<Rightarrow> cloud_error \<Rightarrow> string" where
  "cloud_error_text sql (ProjectNotFound s) = ''project not found: '' @ s"
| "cloud_error_text sql (ProjectAlreadyExists s) = ''project with ref '' @ single_quoted s @ '' already exists''"
| "cloud_error_text sql (MemberNotFound p u) = ''member not found: project='' @ p @ '', user='' @ u"
| "cloud_error_text sql (KeyNotFound k) = ''key not found: '' @ k"
| "cloud_error_text sql (InvalidStatusTransition f t) =
     ''invalid status transition from '' @ single_quoted f @ '' to '' @ single_quoted t"
| "cloud_error_text sql (ProvisioningFailed s) = ''provisioning failed: '' @ s"
| "cloud_error_text sql (TeardownFailed s) = ''teardown failed: '' @ s"
| "cloud_error_text sql (CloudVault s) = ''vault error: '' @ s"
| "cloud_error_text sql (CloudDatabase e) = ''database error: '' @ sql e"
| "cloud_error_text sql (InvalidArgument s) = ''invalid argument: '' @ s"
| "cloud_error_text sql (CloudInternal s) = ''internal error: '' @ s"

datatype provision_error =
    SchemaCreation string | DatabaseSetup string | MigrationStep string | VaultStep string | RouteCreation string
  | ProvisionInvalidArgument string

fun provision_error_text :: "provision_error \<Rightarrow> string" where
  "provision_error_text (SchemaCreation s) = ''schema creation failed: '' @ s"
| "provision_error_text (DatabaseSetup s) = ''database setup failed: '' @ s"
| "provision_error_text (MigrationStep s) = ''migration failed: '' @ s"
| "provision_error_text (VaultStep s) = ''vault bootstrap failed: '' @ s"
| "provision_error_text (RouteCreation s) = ''route creation failed: '' @ s"
| "provision_error_text (ProvisionInvalidArgument s) = ''invalid argument: '' @ s"

datatype teardown_error = SchemaDrop string | TeardownDatabase string

fun teardown_error_text :: "teardown_error \<Rightarrow> string" where
  "teardown_error_text (SchemaDrop s) = ''schema drop failed: '' @ s"
| "teardown_error_text (TeardownDatabase s) = ''database error: '' @ s"

datatype health_error = SchemaNotFound | DatabaseConnectivity string

section \<open>The tables\<close>

record route_info =
  rt_host :: string
  rt_project_id :: uuid
  rt_project_ref :: string
  rt_backend_kind :: string
  rt_backend_target :: string
  rt_tls_mode :: string
  rt_enabled :: bool

record cloud_db =
  cl_projects :: "project list"
  cl_members :: "project_member list"
  cl_keys :: "project_key list"
  cl_audit :: "audit_entry list"
  cl_audit_seq :: int
  cl_routes :: "route_info list"

type_synonym 'a cloud_statement = "instant \<Rightarrow> cloud_db \<Rightarrow> ('a, cloud_error) result \<times> cloud_db"

text \<open>\<open>LIMIT\<close> and \<open>OFFSET\<close> with numbers of 32 bits: the database refuses negative ones.\<close>

definition paged :: "32 word \<Rightarrow> 32 word \<Rightarrow> 'r list \<Rightarrow> ('r list, cloud_error) result" where
  "paged n skip rows =
     (if sint n < 0 \<or> sint skip < 0 then Err (CloudDatabase OtherSql)
      else Ok (take (nat (sint n)) (drop (nat (sint skip)) rows)))"

definition insert_project_row :: "uuid \<Rightarrow> string \<Rightarrow> string \<Rightarrow> uuid \<Rightarrow> string \<Rightarrow> project cloud_statement" where
  "insert_project_row i project_ref name owner_user_id region t db =
     (if list_ex (\<lambda>p. pr_id p = i \<or> pr_ref p = project_ref) (cl_projects db) then (Err (ProjectAlreadyExists project_ref), db)
      else
        let p = \<lparr>pr_id = i, pr_ref = project_ref, pr_name = name, pr_owner_user_id = owner_user_id, pr_backend_kind = ''dedicated'',
                 pr_status = ''provisioning'', pr_region = region, pr_created_at = t, pr_updated_at = t\<rparr> in
        (Ok p, db\<lparr>cl_projects := cl_projects db @ [p]\<rparr>))"

definition project_by_id :: "uuid \<Rightarrow> project option cloud_statement" where
  "project_by_id i t db = (Ok (find (\<lambda>p. pr_id p = i) (cl_projects db)), db)"

definition project_by_ref :: "string \<Rightarrow> project option cloud_statement" where
  "project_by_ref r t db = (Ok (find (\<lambda>p. pr_ref p = r) (cl_projects db)), db)"

definition projects_of_user :: "uuid \<Rightarrow> 32 word \<Rightarrow> 32 word \<Rightarrow> project list cloud_statement" where
  "projects_of_user user n skip t db =
     (paged n skip (order_desc pr_created_at
        (filter (\<lambda>p. list_ex (\<lambda>m. pm_project_id m = pr_id p \<and> pm_user_id m = user) (cl_members db)) (cl_projects db))), db)"

definition all_projects :: "32 word \<Rightarrow> 32 word \<Rightarrow> project list cloud_statement" where
  "all_projects n skip t db = (paged n skip (order_desc pr_created_at (cl_projects db)), db)"

definition set_project_status :: "uuid \<Rightarrow> project_status \<Rightarrow> unit cloud_statement" where
  "set_project_status i s t db =
     (Ok (), db\<lparr>cl_projects := update_rows (\<lambda>p. pr_id p = i) (\<lambda>p. p\<lparr>pr_status := status_text s, pr_updated_at := t\<rparr>) (cl_projects db)\<rparr>)"

definition projects_with_status :: "project_status \<Rightarrow> project list cloud_statement" where
  "projects_with_status s t db = (Ok (filter (\<lambda>p. pr_status p = status_text s) (cl_projects db)), db)"

text \<open>Members and keys of a project go with it.\<close>

definition delete_project_row :: "uuid \<Rightarrow> unit cloud_statement" where
  "delete_project_row i t db =
     (Ok (), db\<lparr>cl_projects := filter (\<lambda>p. pr_id p \<noteq> i) (cl_projects db), cl_members := filter (\<lambda>m. pm_project_id m \<noteq> i) (cl_members db),
                cl_keys := filter (\<lambda>k. pk_project_id k \<noteq> i) (cl_keys db)\<rparr>)"

definition project_exists :: "uuid \<Rightarrow> cloud_db \<Rightarrow> bool" where
  "project_exists i db \<longleftrightarrow> list_ex (\<lambda>p. pr_id p = i) (cl_projects db)"

definition is_membership :: "uuid \<Rightarrow> uuid \<Rightarrow> project_member \<Rightarrow> bool" where
  "is_membership i user m \<longleftrightarrow> pm_project_id m = i \<and> pm_user_id m = user"

definition insert_member_row :: "uuid \<Rightarrow> uuid \<Rightarrow> project_role \<Rightarrow> project_member cloud_statement" where
  "insert_member_row i user role t db =
     (if list_ex (is_membership i user) (cl_members db) then (Err (CloudDatabase DuplicateKey), db)
      else if \<not> project_exists i db then (Err (CloudDatabase ForeignKey), db)
      else
        let m = \<lparr>pm_project_id = i, pm_user_id = user, pm_role = role_text role, pm_created_at = t\<rparr> in
        (Ok m, db\<lparr>cl_members := cl_members db @ [m]\<rparr>))"

definition member_row :: "uuid \<Rightarrow> uuid \<Rightarrow> project_member option cloud_statement" where
  "member_row i user t db = (Ok (find (is_membership i user) (cl_members db)), db)"

definition member_rows :: "uuid \<Rightarrow> project_member list cloud_statement" where
  "member_rows i t db = (Ok (sort_key pm_created_at (filter (\<lambda>m. pm_project_id m = i) (cl_members db))), db)"

definition set_member_role :: "uuid \<Rightarrow> uuid \<Rightarrow> project_role \<Rightarrow> unit cloud_statement" where
  "set_member_role i user role t db =
     (if \<not> list_ex (is_membership i user) (cl_members db) then (Err (MemberNotFound i user), db)
      else (Ok (), db\<lparr>cl_members := update_rows (is_membership i user) (\<lambda>m. m\<lparr>pm_role := role_text role\<rparr>) (cl_members db)\<rparr>))"

definition delete_member_row :: "uuid \<Rightarrow> uuid \<Rightarrow> unit cloud_statement" where
  "delete_member_row i user t db = (Ok (), db\<lparr>cl_members := filter (\<lambda>m. \<not> is_membership i user m) (cl_members db)\<rparr>)"

definition insert_key_row :: "uuid \<Rightarrow> uuid \<Rightarrow> string \<Rightarrow> string \<Rightarrow> project_key cloud_statement" where
  "insert_key_row key_id i kind vault_ref t db =
     (if list_ex (\<lambda>k. pk_id k = key_id) (cl_keys db) then (Err (CloudDatabase DuplicateKey), db)
      else if \<not> project_exists i db then (Err (CloudDatabase ForeignKey), db)
      else
        let k = \<lparr>pk_id = key_id, pk_project_id = i, pk_kind = kind, pk_vault_ref = vault_ref, pk_revoked_at = None, pk_created_at = t\<rparr> in
        (Ok k, db\<lparr>cl_keys := cl_keys db @ [k]\<rparr>))"

definition key_row :: "uuid \<Rightarrow> project_key option cloud_statement" where
  "key_row key_id t db = (Ok (find (\<lambda>k. pk_id k = key_id) (cl_keys db)), db)"

definition key_rows :: "uuid \<Rightarrow> project_key list cloud_statement" where
  "key_rows i t db = (Ok (sort_key pk_created_at (filter (\<lambda>k. pk_project_id k = i) (cl_keys db))), db)"

definition revoke_key_row :: "uuid \<Rightarrow> unit cloud_statement" where
  "revoke_key_row key_id t db =
     (let open_key = (\<lambda>k. pk_id k = key_id \<and> pk_revoked_at k = None) in
      if \<not> list_ex open_key (cl_keys db) then (Err (KeyNotFound key_id), db)
      else (Ok (), db\<lparr>cl_keys := update_rows open_key (\<lambda>k. k\<lparr>pk_revoked_at := Some t\<rparr>) (cl_keys db)\<rparr>))"

definition insert_audit_row :: "uuid option \<Rightarrow> string \<Rightarrow> cloud_action \<Rightarrow> json \<Rightarrow> unit cloud_statement" where
  "insert_audit_row i actor action metadata t db =
     (Ok (), db\<lparr>cl_audit := cl_audit db @ [\<lparr>en_id = cl_audit_seq db, en_project_id = i, en_actor = actor, en_action = action_text action,
                                           en_metadata = metadata, en_created_at = t\<rparr>],
                cl_audit_seq := cl_audit_seq db + 1\<rparr>)"

definition audit_rows :: "uuid option \<Rightarrow> 32 word \<Rightarrow> 32 word \<Rightarrow> audit_entry list cloud_statement" where
  "audit_rows i n skip t db =
     (paged n skip (order_desc en_created_at
        (case i of Some p \<Rightarrow> filter (\<lambda>e. en_project_id e = Some p) (cl_audit db) | None \<Rightarrow> cl_audit db)), db)"

definition upsert_route_row :: "string \<Rightarrow> uuid \<Rightarrow> string \<Rightarrow> string \<Rightarrow> string \<Rightarrow> string \<Rightarrow> unit cloud_statement" where
  "upsert_route_row host i project_ref backend_kind backend_target tls_mode t db =
     (let r = \<lparr>rt_host = host, rt_project_id = i, rt_project_ref = project_ref, rt_backend_kind = backend_kind,
               rt_backend_target = backend_target, rt_tls_mode = tls_mode, rt_enabled = True\<rparr>;
          here = (\<lambda>x. rt_host x = host) in
      if backend_kind \<notin> {''dedicated'', ''shared''} \<or> tls_mode \<notin> {''wildcard'', ''on_demand'', ''manual''}
      then (Err (CloudDatabase OtherSql), db)
      else (Ok (), db\<lparr>cl_routes := if list_ex here (cl_routes db) then update_rows here (\<lambda>_. r) (cl_routes db) else cl_routes db @ [r]\<rparr>))"

definition route_row_of :: "string \<Rightarrow> route_info option cloud_statement" where
  "route_row_of host t db = (Ok (find (\<lambda>r. rt_host r = host) (cl_routes db)), db)"

definition delete_route_row :: "string \<Rightarrow> unit cloud_statement" where
  "delete_route_row host t db = (Ok (), db\<lparr>cl_routes := filter (\<lambda>r. rt_host r \<noteq> host) (cl_routes db)\<rparr>)"

end
