(* ===== verification/Cloud_Provider.thy ===== *)
theory Cloud_Provider
  imports Cloud_Store
begin

text \<open>
  The infrastructure of a project (\<open>crates/reactor-cloud-api/\<close>): schemas and their migrations (\<open>bootstrap/schema.rs\<close>), the
  trait of providers (\<open>provisioner/mod.rs\<close>) as a record of operations, and its two implementations (\<open>single_node.rs\<close>,
  \<open>shared_cluster.rs\<close>). PostgreSQL is a catalog of schemas, migrations, databases and roles; the database of the pool
  itself has the empty name. Every statement, also of the catalog, may fail.
\<close>

section \<open>The world\<close>

record catalog =
  ct_schemas :: "(string \<times> string) list"
  ct_applied :: "(string \<times> string \<times> nat) list"
  ct_databases :: "(string \<times> string) list"
  ct_roles :: "(string \<times> string) list"

record cloud_env =
  ce_fails :: "nat \<Rightarrow> bool"
  ce_uuid :: "nat \<Rightarrow> uuid"
  ce_ref :: "uuid \<Rightarrow> string"
  ce_random :: "nat \<Rightarrow> string"
  ce_key_material :: "nat \<Rightarrow> string \<Rightarrow> string"
  ce_sign :: jwt_signer
  ce_sql_text :: "sql_error \<Rightarrow> string"
  ce_connect :: "string \<Rightarrow> string option"

record 'w cloud_world =
  kw_db :: cloud_db
  kw_catalog :: catalog
  kw_vault :: 'w
  kw_now :: instant
  kw_fresh :: nat
  kw_effects :: nat

type_synonym ('w, 'a, 'e) cloud_act = "('w cloud_world, 'a, 'e) comp"

definition csql :: "cloud_env \<Rightarrow> 'a cloud_statement \<Rightarrow> ('w, 'a, cloud_error) cloud_act" where
  "csql env st w =
     (let w' = w\<lparr>kw_effects := Suc (kw_effects w)\<rparr> in
      if ce_fails env (kw_effects w) then (Err (CloudDatabase OtherSql), w')
      else case st (kw_now w) (kw_db w) of (r, db') \<Rightarrow> (r, w'\<lparr>kw_db := db'\<rparr>))"

type_synonym 'a catalog_statement = "catalog \<Rightarrow> ('a, sql_error) result \<times> catalog"

definition catalog_sql :: "cloud_env \<Rightarrow> 'a catalog_statement \<Rightarrow> ('w, 'a, sql_error) cloud_act" where
  "catalog_sql env st w =
     (let w' = w\<lparr>kw_effects := Suc (kw_effects w)\<rparr> in
      if ce_fails env (kw_effects w) then (Err OtherSql, w')
      else case st (kw_catalog w) of (r, c) \<Rightarrow> (r, w'\<lparr>kw_catalog := c\<rparr>))"

definition in_vault :: "(instant \<Rightarrow> ('w, 'a, 'e) comp) \<Rightarrow> ('w, 'a, 'e) cloud_act" where
  "in_vault m w = (case m (kw_now w) (kw_vault w) of (r, i) \<Rightarrow> (r, w\<lparr>kw_vault := i\<rparr>))"

definition cfresh :: "(nat \<Rightarrow> 'a) \<Rightarrow> ('w, 'a, 'e) cloud_act" where
  "cfresh f w = (Ok (f (kw_fresh w)), w\<lparr>kw_fresh := Suc (kw_fresh w)\<rparr>)"

section \<open>Statements of the catalog\<close>

text \<open>An identifier without quotes is read in lower case.\<close>

definition create_schema_if_absent :: "string \<Rightarrow> string \<Rightarrow> unit catalog_statement" where
  "create_schema_if_absent d schema c =
     (let s = (d, to_lowercase schema) in (Ok (), if s \<in> set (ct_schemas c) then c else c\<lparr>ct_schemas := ct_schemas c @ [s]\<rparr>))"

text \<open>What makes tables needs the schema; the tables of a migration and its record come together, once.\<close>

definition create_migrations_table :: "string \<Rightarrow> string \<Rightarrow> unit catalog_statement" where
  "create_migrations_table d schema c = (if (d, to_lowercase schema) \<in> set (ct_schemas c) then Ok () else Err OtherSql, c)"

definition apply_migration :: "string \<Rightarrow> string \<Rightarrow> nat \<Rightarrow> unit catalog_statement" where
  "apply_migration d schema version c =
     (let m = (d, to_lowercase schema, version) in
      if (d, to_lowercase schema) \<notin> set (ct_schemas c) then (Err OtherSql, c)
      else (Ok (), if m \<in> set (ct_applied c) then c else c\<lparr>ct_applied := ct_applied c @ [m]\<rparr>))"

definition drop_schema_cascade :: "string \<Rightarrow> string \<Rightarrow> unit catalog_statement" where
  "drop_schema_cascade d schema c =
     (let s = to_lowercase schema in
      (Ok (), c\<lparr>ct_schemas := filter (\<lambda>x. x \<noteq> (d, s)) (ct_schemas c),
                ct_applied := filter (\<lambda>(e, x, n). (e, x) \<noteq> (d, s)) (ct_applied c)\<rparr>))"

definition create_role_stmt :: "string \<Rightarrow> string \<Rightarrow> unit catalog_statement" where
  "create_role_stmt role password c =
     (if role \<in> fst ` set (ct_roles c) then (Err OtherSql, c) else (Ok (), c\<lparr>ct_roles := ct_roles c @ [(role, password)]\<rparr>))"

definition create_database_stmt :: "string \<Rightarrow> string \<Rightarrow> unit catalog_statement" where
  "create_database_stmt name owner c =
     (if name \<in> fst ` set (ct_databases c) \<or> owner \<notin> fst ` set (ct_roles c) then (Err OtherSql, c)
      else (Ok (), c\<lparr>ct_databases := ct_databases c @ [(name, owner)], ct_schemas := ct_schemas c @ [(name, ''public'')]\<rparr>))"

definition drop_database_stmt :: "string \<Rightarrow> unit catalog_statement" where
  "drop_database_stmt name c =
     (Ok (), c\<lparr>ct_databases := filter (\<lambda>x. fst x \<noteq> name) (ct_databases c), ct_schemas := filter (\<lambda>x. fst x \<noteq> name) (ct_schemas c),
               ct_applied := filter (\<lambda>x. fst x \<noteq> name) (ct_applied c)\<rparr>)"

text \<open>A role that owns a database stays.\<close>

definition drop_role_stmt :: "string \<Rightarrow> unit catalog_statement" where
  "drop_role_stmt role c =
     (if role \<in> snd ` set (ct_databases c) then (Err OtherSql, c)
      else (Ok (), c\<lparr>ct_roles := filter (\<lambda>x. fst x \<noteq> role) (ct_roles c)\<rparr>))"

definition no_change :: "unit catalog_statement" where
  "no_change c = (Ok (), c)"

section \<open>Schemas (bootstrap/schema.rs)\<close>

datatype schema_error = CreationFailed string | SchemaMigrationFailed string | DropFailed string | SchemaDatabase sql_error

fun schema_error_text :: "(sql_error \<Rightarrow> string) \<Rightarrow> schema_error \<Rightarrow> string" where
  "schema_error_text sql (CreationFailed s) = ''schema creation failed: '' @ s"
| "schema_error_text sql (SchemaMigrationFailed s) = ''migration failed: '' @ s"
| "schema_error_text sql (DropFailed s) = ''schema drop failed: '' @ s"
| "schema_error_text sql (SchemaDatabase e) = ''database error: '' @ sql e"

definition identifier_char :: "char \<Rightarrow> bool" where
  "identifier_char c \<longleftrightarrow> is_ascii_alphanumeric c \<or> c = CHR ''_''"

record bootstrap_config =
  bo_auth :: bool
  bo_data :: bool
  bo_storage :: bool
  bo_functions :: bool
  bo_jobs :: bool
  bo_sites :: bool

definition default_bootstrap_config :: bootstrap_config where
  "default_bootstrap_config = \<lparr>bo_auth = True, bo_data = True, bo_storage = True, bo_functions = True, bo_jobs = True, bo_sites = True\<rparr>"

definition schema_exists :: "cloud_env \<Rightarrow> string \<Rightarrow> ('w, bool, schema_error) cloud_act" where
  "schema_exists env schema = map_error SchemaDatabase (catalog_sql env (\<lambda>c. (Ok ((''''::string, schema) \<in> set (ct_schemas c)), c)))"

definition create_schema :: "cloud_env \<Rightarrow> string \<Rightarrow> ('w, unit, schema_error) cloud_act" where
  "create_schema env schema =
     (if \<not> starts_with ''tenant_'' schema then
        lift (Err (CreationFailed (''invalid schema name: must start with '' @ single_quoted ''tenant_'' @ '', got '' @ single_quoted schema)))
      else if \<not> list_all identifier_char schema then
        lift (Err (CreationFailed (''invalid schema name: contains invalid characters: '' @ single_quoted schema)))
      else
        bind (map_error (\<lambda>e. CreationFailed (ce_sql_text env e)) (catalog_sql env (create_schema_if_absent '''' schema))) (\<lambda>_.
          map_error (\<lambda>e. CreationFailed (ce_sql_text env e)) (catalog_sql env (create_migrations_table '''' schema))))"

definition capabilities :: "bootstrap_config \<Rightarrow> (string \<times> nat) list" where
  "capabilities config =
     map snd (filter fst
       [(bo_auth config, ''auth'', 1), (bo_data config, ''data'', 2), (bo_storage config, ''storage'', 3),
        (bo_functions config, ''functions'', 4), (bo_jobs config, ''jobs'', 5), (bo_sites config, ''sites'', 6)])"

definition run_capability :: "cloud_env \<Rightarrow> string \<Rightarrow> string \<Rightarrow> string \<times> nat \<Rightarrow> ('w, unit, schema_error) cloud_act" where
  "run_capability env d schema x =
     map_error (\<lambda>e. SchemaMigrationFailed (fst x @ '': '' @ ce_sql_text env e)) (catalog_sql env (apply_migration d schema (snd x)))"

definition run_migrations :: "cloud_env \<Rightarrow> string \<Rightarrow> string \<Rightarrow> bootstrap_config \<Rightarrow> ('w, unit, schema_error) cloud_act" where
  "run_migrations env d schema config =
     bind (map_error (\<lambda>e. SchemaMigrationFailed (''create citext: '' @ ce_sql_text env e)) (catalog_sql env no_change)) (\<lambda>_.
     bind (map_error (\<lambda>e. SchemaMigrationFailed (''create _migrations: '' @ ce_sql_text env e))
            (catalog_sql env (create_migrations_table d schema))) (\<lambda>_.
     bind (map_error SchemaDatabase (catalog_sql env no_change)) (\<lambda>conn.
     bind (map_error SchemaDatabase (catalog_sql env no_change)) (\<lambda>search_path.
       for_each (run_capability env d schema) (capabilities config)))))"

definition drop_schema :: "cloud_env \<Rightarrow> string \<Rightarrow> ('w, unit, schema_error) cloud_act" where
  "drop_schema env schema =
     (if \<not> starts_with ''tenant_'' schema then lift (Err (DropFailed (''refusing to drop non-tenant schema: '' @ single_quoted schema)))
      else if \<not> list_all identifier_char schema then lift (Err (DropFailed (''invalid schema name: '' @ single_quoted schema)))
      else map_error (\<lambda>e. DropFailed (ce_sql_text env e)) (catalog_sql env (drop_schema_cascade '''' schema)))"

section \<open>Providers (provisioner/mod.rs)\<close>

record 'w cloud_provider =
  cp_backend_kind :: string
  cp_provision :: "project_spec \<Rightarrow> ('w, provision_result, provision_error) cloud_act"
  cp_teardown :: "uuid \<Rightarrow> ('w, unit, teardown_error) cloud_act"
  cp_health :: "uuid \<Rightarrow> ('w, project_health, health_error) cloud_act"

definition tenant_name :: "string \<Rightarrow> string" where
  "tenant_name project_ref = ''tenant_'' @ project_ref"

definition vault_bootstrap_step :: "cloud_env \<Rightarrow> 'w vault \<Rightarrow> uuid \<Rightarrow> ('w, vault_bootstrap_result, provision_error) cloud_act" where
  "vault_bootstrap_step env V i =
     bind (cfresh (ce_key_material env)) (\<lambda>random.
       map_error (\<lambda>e. VaultStep (bootstrap_error_text e)) (in_vault (\<lambda>now. vault_bootstrap V random now i)))"

definition api_keys_step :: "cloud_env \<Rightarrow> 'w vault \<Rightarrow> uuid \<Rightarrow> string \<Rightarrow> ('w, string \<times> string, provision_error) cloud_act" where
  "api_keys_step env V i project_ref =
     bind (map_error (\<lambda>e. VaultStep (''anon JWT: '' @ bootstrap_error_text e))
            (in_vault (\<lambda>now. generate_anon_jwt (ce_sign env) V now i project_ref))) (\<lambda>anon_key.
     bind (map_error (\<lambda>e. VaultStep (''service JWT: '' @ bootstrap_error_text e))
            (in_vault (\<lambda>now. generate_service_jwt (ce_sign env) V now i project_ref))) (\<lambda>service_key.
       ret (anon_key, service_key)))"

record node_config =
  no_backend_target :: string
  no_base_domain :: string
  no_tls_mode :: string

definition provider_hostname :: "node_config \<Rightarrow> string \<Rightarrow> string" where
  "provider_hostname cfg project_ref = project_ref @ ''.'' @ no_base_domain cfg"

definition route_step :: "cloud_env \<Rightarrow> node_config \<Rightarrow> uuid \<Rightarrow> string \<Rightarrow> string \<Rightarrow> ('w, unit, provision_error) cloud_act" where
  "route_step env cfg i project_ref backend_kind =
     map_error (\<lambda>e. RouteCreation (cloud_error_text (ce_sql_text env) e))
       (csql env (upsert_route_row (provider_hostname cfg project_ref) i project_ref backend_kind (no_backend_target cfg) (no_tls_mode cfg)))"

text \<open>The first steps of a teardown, whose failures are logged, and the checks of a health report.\<close>

definition forget_tenant :: "cloud_env \<Rightarrow> 'w vault \<Rightarrow> node_config \<Rightarrow> uuid \<Rightarrow> string \<Rightarrow> ('w, unit, teardown_error) cloud_act" where
  "forget_tenant env V cfg i project_ref =
     bind (ignore_error (csql env (delete_route_row (provider_hostname cfg project_ref)))) (\<lambda>_.
       ignore_error (in_vault (\<lambda>now. vault_cleanup V i)))"

definition teardown_project :: "cloud_env \<Rightarrow> uuid \<Rightarrow> ('w, project, teardown_error) cloud_act" where
  "teardown_project env i =
     bind (map_error (\<lambda>e. TeardownDatabase (cloud_error_text (ce_sql_text env) e)) (csql env (project_by_id i))) (\<lambda>found.
       lift (ok_or (TeardownDatabase ''project not found'') found))"

definition health_project :: "cloud_env \<Rightarrow> uuid \<Rightarrow> ('w, project, health_error) cloud_act" where
  "health_project env i =
     bind (map_error (\<lambda>e. DatabaseConnectivity (cloud_error_text (ce_sql_text env) e)) (csql env (project_by_id i))) (\<lambda>found.
       lift (ok_or SchemaNotFound found))"

definition health_report ::
  "cloud_env \<Rightarrow> 'w vault \<Rightarrow> node_config \<Rightarrow> string \<Rightarrow> string \<Rightarrow> bool \<Rightarrow> ('w, project_health, health_error) cloud_act" where
  "health_report env V cfg project_ref what there =
     bind (\<lambda>w. (Ok (v_is_healthy V (kw_vault w)), w)) (\<lambda>vault_accessible.
     bind (attempt (csql env (route_row_of (provider_hostname cfg project_ref)))) (\<lambda>v.
       let route_configured = (case v of Inl (Some _) \<Rightarrow> True | _ \<Rightarrow> False);
           healthy = (there \<and> vault_accessible \<and> route_configured);
           show_bool = (\<lambda>b. if b then ''true'' else ''false'') in
       ret \<lparr>ph_healthy = healthy, ph_schema_exists = there, ph_vault_accessible = vault_accessible, ph_route_configured = route_configured,
            ph_error = (if healthy then None else Some (what @ ''='' @ show_bool there @ '', vault='' @ show_bool vault_accessible @
                          '', route='' @ show_bool route_configured))\<rparr>))"

section \<open>The single node (single_node.rs)\<close>

definition default_node_config :: node_config where
  "default_node_config = \<lparr>no_backend_target = ''reactor-cloud.internal:8000'', no_base_domain = ''reactor.cloud'', no_tls_mode = ''wildcard''\<rparr>"

definition node_provision :: "cloud_env \<Rightarrow> 'w vault \<Rightarrow> node_config \<Rightarrow> project_spec \<Rightarrow> ('w, provision_result, provision_error) cloud_act" where
  "node_provision env V cfg spec =
     (let schema = tenant_name (sp_project_ref spec); i = sp_project_id spec in
      bind (map_error (\<lambda>e. SchemaCreation (schema_error_text (ce_sql_text env) e)) (create_schema env schema)) (\<lambda>_.
      bind (map_error (\<lambda>e. MigrationStep (schema_error_text (ce_sql_text env) e)) (run_migrations env '''' schema default_bootstrap_config)) (\<lambda>_.
      bind (vault_bootstrap_step env V i) (\<lambda>_.
      bind (api_keys_step env V i (sp_project_ref spec)) (\<lambda>(anon_key, service_key).
      bind (route_step env cfg i (sp_project_ref spec) ''dedicated'') (\<lambda>_.
        ret \<lparr>pv_backend_target = no_backend_target cfg, pv_anon_key = anon_key, pv_service_key = service_key\<rparr>))))))"

definition node_teardown :: "cloud_env \<Rightarrow> 'w vault \<Rightarrow> node_config \<Rightarrow> uuid \<Rightarrow> ('w, unit, teardown_error) cloud_act" where
  "node_teardown env V cfg i =
     bind (teardown_project env i) (\<lambda>p.
     bind (forget_tenant env V cfg i (pr_ref p)) (\<lambda>_.
       map_error (\<lambda>e. SchemaDrop (schema_error_text (ce_sql_text env) e)) (drop_schema env (tenant_name (pr_ref p)))))"

definition node_health :: "cloud_env \<Rightarrow> 'w vault \<Rightarrow> node_config \<Rightarrow> uuid \<Rightarrow> ('w, project_health, health_error) cloud_act" where
  "node_health env V cfg i =
     bind (health_project env i) (\<lambda>p.
     bind (attempt (schema_exists env (tenant_name (pr_ref p)))) (\<lambda>v.
       health_report env V cfg (pr_ref p) ''schema'' (case v of Inl there \<Rightarrow> there | Inr _ \<Rightarrow> False)))"

definition single_node :: "cloud_env \<Rightarrow> 'w vault \<Rightarrow> node_config \<Rightarrow> 'w cloud_provider" where
  "single_node env V cfg =
     \<lparr>cp_backend_kind = ''dedicated'', cp_provision = node_provision env V cfg, cp_teardown = node_teardown env V cfg,
      cp_health = node_health env V cfg\<rparr>"

section \<open>The shared cluster (shared_cluster.rs)\<close>

definition find_text :: "string \<Rightarrow> string \<Rightarrow> nat option" where
  "find_text pat s = find (\<lambda>i. starts_with pat (drop i s)) [0..<Suc (length s)]"

definition swap_db_name :: "string \<Rightarrow> string \<Rightarrow> string" where
  "swap_db_name base_url new_db =
     (let (without_query, query) =
            (case find_char CHR ''?'' base_url of Some i \<Rightarrow> (take i base_url, Some (drop i base_url)) | None \<Rightarrow> (base_url, None));
          body_start = (case find_text ''://'' without_query of Some i \<Rightarrow> i + 3 | None \<Rightarrow> 0);
          new_url = (case find_char CHR ''/'' (drop body_start without_query) of
              Some n \<Rightarrow> take (body_start + n) without_query @ ''/'' @ new_db
            | None \<Rightarrow> without_query @ ''/'' @ new_db) in
      case query of Some q \<Rightarrow> new_url @ q | None \<Rightarrow> new_url)"

definition tenant_db_url :: "string option \<Rightarrow> string \<Rightarrow> string" where
  "tenant_db_url shared_postgres_url project_ref =
     (case shared_postgres_url of
        Some base \<Rightarrow> swap_db_name base (tenant_name project_ref)
      | None \<Rightarrow> ''postgres://postgres@localhost:5432/'' @ tenant_name project_ref)"

definition database_step :: "cloud_env \<Rightarrow> string \<Rightarrow> unit catalog_statement \<Rightarrow> ('w, unit, provision_error) cloud_act" where
  "database_step env what st = map_error (\<lambda>e. DatabaseSetup (''failed to '' @ what @ '': '' @ ce_sql_text env e)) (catalog_sql env st)"

definition create_tenant_database :: "cloud_env \<Rightarrow> string \<Rightarrow> string \<Rightarrow> ('w, unit, provision_error) cloud_act" where
  "create_tenant_database env project_ref password =
     (if \<not> list_all identifier_char project_ref then lift (Err (ProvisionInvalidArgument ''project_ref contains invalid characters''))
      else
        bind (database_step env ''create role'' (create_role_stmt (tenant_name project_ref) password)) (\<lambda>_.
        bind (database_step env ''create database'' (create_database_stmt (tenant_name project_ref) (tenant_name project_ref))) (\<lambda>_.
          database_step env ''grant connect'' no_change)))"

definition connect_stmt :: "string option \<Rightarrow> string catalog_statement" where
  "connect_stmt target c =
     (case target of Some d \<Rightarrow> if d \<in> fst ` set (ct_databases c) then Ok d else Err OtherSql | None \<Rightarrow> Err OtherSql, c)"

definition run_tenant_migrations :: "cloud_env \<Rightarrow> string option \<Rightarrow> string \<Rightarrow> ('w, unit, provision_error) cloud_act" where
  "run_tenant_migrations env shared_postgres_url project_ref =
     bind (map_error (\<lambda>e. MigrationStep (''failed to connect to tenant db: '' @ ce_sql_text env e))
            (catalog_sql env (connect_stmt (ce_connect env (tenant_db_url shared_postgres_url project_ref))))) (\<lambda>d.
       map_error (\<lambda>e. MigrationStep (schema_error_text (ce_sql_text env) e)) (run_migrations env d ''public'' default_bootstrap_config))"

definition drop_tenant_database :: "cloud_env \<Rightarrow> string \<Rightarrow> ('w, unit, teardown_error) cloud_act" where
  "drop_tenant_database env project_ref =
     bind (ignore_error (catalog_sql env no_change)) (\<lambda>_.
     bind (map_error (\<lambda>e. SchemaDrop (''failed to drop database: '' @ ce_sql_text env e))
            (catalog_sql env (drop_database_stmt (tenant_name project_ref)))) (\<lambda>_.
       map_error (\<lambda>e. SchemaDrop (''failed to drop role: '' @ ce_sql_text env e)) (catalog_sql env (drop_role_stmt (tenant_name project_ref)))))"

definition database_exists :: "cloud_env \<Rightarrow> string \<Rightarrow> ('w, bool, health_error) cloud_act" where
  "database_exists env project_ref =
     map_error (\<lambda>e. DatabaseConnectivity (ce_sql_text env e))
       (catalog_sql env (\<lambda>c. (Ok (tenant_name project_ref \<in> fst ` set (ct_databases c)), c)))"

definition cluster_provision ::
  "cloud_env \<Rightarrow> 'w vault \<Rightarrow> node_config \<Rightarrow> string option \<Rightarrow> project_spec \<Rightarrow> ('w, provision_result, provision_error) cloud_act" where
  "cluster_provision env V cfg shared_postgres_url spec =
     (let i = sp_project_id spec; project_ref = sp_project_ref spec in
      bind (cfresh (ce_random env)) (\<lambda>db_password.
      bind (create_tenant_database env project_ref db_password) (\<lambda>_.
      bind (run_tenant_migrations env shared_postgres_url project_ref) (\<lambda>_.
      bind (vault_bootstrap_step env V i) (\<lambda>_.
      bind (map_error (\<lambda>e. VaultStep (''failed to store db password: '' @ vault_error_text e))
             (in_vault (\<lambda>now. v_put_secret V i ''db/password'' (new_secret_value db_password now)))) (\<lambda>_.
      bind (api_keys_step env V i project_ref) (\<lambda>(anon_key, service_key).
      bind (route_step env cfg i project_ref ''shared'') (\<lambda>_.
        ret \<lparr>pv_backend_target = no_backend_target cfg, pv_anon_key = anon_key, pv_service_key = service_key\<rparr>))))))))"

definition cluster_teardown :: "cloud_env \<Rightarrow> 'w vault \<Rightarrow> node_config \<Rightarrow> uuid \<Rightarrow> ('w, unit, teardown_error) cloud_act" where
  "cluster_teardown env V cfg i =
     bind (teardown_project env i) (\<lambda>p.
     bind (forget_tenant env V cfg i (pr_ref p)) (\<lambda>_. drop_tenant_database env (pr_ref p)))"

definition cluster_health :: "cloud_env \<Rightarrow> 'w vault \<Rightarrow> node_config \<Rightarrow> uuid \<Rightarrow> ('w, project_health, health_error) cloud_act" where
  "cluster_health env V cfg i =
     bind (health_project env i) (\<lambda>p.
     bind (database_exists env (pr_ref p)) (\<lambda>there. health_report env V cfg (pr_ref p) ''db'' there))"

definition shared_cluster :: "cloud_env \<Rightarrow> 'w vault \<Rightarrow> node_config \<Rightarrow> string option \<Rightarrow> 'w cloud_provider" where
  "shared_cluster env V cfg shared_postgres_url =
     \<lparr>cp_backend_kind = ''shared'', cp_provision = cluster_provision env V cfg shared_postgres_url,
      cp_teardown = cluster_teardown env V cfg, cp_health = cluster_health env V cfg\<rparr>"

end
