(* ===== verification/Cloud_Service.thy ===== *)
theory Cloud_Service
  imports Cloud_Provider
begin

text \<open>
  The services of the control plane (\<open>projects.rs\<close>, \<open>members.rs\<close>, \<open>keys.rs\<close>, \<open>audit.rs\<close> of \<open>crates/reactor-cloud-api/src/\<close>), its
  endpoints (\<open>crates/reactor-server/src/compose/cloud.rs\<close>) and what a server does with it at its start (\<open>boot/cloud.rs\<close>).
\<close>

section \<open>Projects (projects.rs)\<close>

definition log_action :: "cloud_env \<Rightarrow> uuid \<Rightarrow> string \<Rightarrow> cloud_action \<Rightarrow> json_object \<Rightarrow> ('w, unit, cloud_error) cloud_act" where
  "log_action env i actor action metadata = csql env (insert_audit_row (Some i) actor action (JObject metadata))"

text \<open>The store adds the owner as a member with a statement of its own.\<close>

definition store_create_project ::
  "cloud_env \<Rightarrow> uuid \<Rightarrow> string \<Rightarrow> string \<Rightarrow> uuid \<Rightarrow> string \<Rightarrow> ('w, project, cloud_error) cloud_act" where
  "store_create_project env i project_ref name owner_user_id region =
     bind (csql env (insert_project_row i project_ref name owner_user_id region)) (\<lambda>p.
     bind (csql env (insert_member_row i owner_user_id Owner)) (\<lambda>_. ret p))"

definition require_project :: "cloud_env \<Rightarrow> string \<Rightarrow> ('w, project, cloud_error) cloud_act" where
  "require_project env project_ref =
     bind (csql env (project_by_ref project_ref)) (\<lambda>found. lift (ok_or (ProjectNotFound project_ref) found))"

definition refetch_project :: "cloud_env \<Rightarrow> uuid \<Rightarrow> ('w, project, cloud_error) cloud_act" where
  "refetch_project env i =
     bind (csql env (project_by_id i)) (\<lambda>found. lift (ok_or (CloudInternal ''project disappeared'') found))"

record created_project =
  cr_project :: project
  cr_anon_key :: string
  cr_service_key :: string

definition projects_create ::
  "cloud_env \<Rightarrow> 'w cloud_provider \<Rightarrow> string \<Rightarrow> string option \<Rightarrow> uuid \<Rightarrow> ('w, created_project, cloud_error) cloud_act" where
  "projects_create env P name region owner_user_id =
     bind (cfresh (ce_uuid env)) (\<lambda>i.
       let project_ref = ce_ref env i; region = coalesce region ''iad'';
           spec = \<lparr>sp_project_id = i, sp_project_ref = project_ref, sp_name = name, sp_region = region, sp_owner_user_id = owner_user_id\<rparr> in
       bind (store_create_project env i project_ref name owner_user_id region) (\<lambda>_.
       bind (log_action env i owner_user_id ProjectCreated [(''name'', JString name), (''region'', JString region)]) (\<lambda>_.
       bind (attempt (cp_provision P spec)) (\<lambda>v.
         case v of
           Inl provisioned \<Rightarrow>
             bind (csql env (set_project_status i ProjectActive)) (\<lambda>_.
             bind (log_action env i ''system'' ProjectProvisioned [(''backend_target'', JString (pv_backend_target provisioned))]) (\<lambda>_.
             bind (refetch_project env i) (\<lambda>p.
               ret \<lparr>cr_project = p, cr_anon_key = pv_anon_key provisioned, cr_service_key = pv_service_key provisioned\<rparr>)))
         | Inr e \<Rightarrow>
             bind (csql env (set_project_status i ProjectFailed)) (\<lambda>_.
             bind (log_action env i ''system'' ProjectProvisionFailed [(''error'', JString (provision_error_text e))]) (\<lambda>_.
               lift (Err (ProvisioningFailed (provision_error_text e)))))))))"

definition schedule_delete :: "cloud_env \<Rightarrow> string \<Rightarrow> string \<Rightarrow> ('w, project, cloud_error) cloud_act" where
  "schedule_delete env project_ref actor =
     bind (require_project env project_ref) (\<lambda>p.
     if \<not> can_delete (parsed_status p) then lift (Err (InvalidStatusTransition (status_text (parsed_status p)) ''deleting''))
     else
       bind (csql env (set_project_status (pr_id p) Deleting)) (\<lambda>_.
       bind (log_action env (pr_id p) actor ProjectDeleteScheduled []) (\<lambda>_.
         refetch_project env (pr_id p))))"

definition execute_teardown :: "cloud_env \<Rightarrow> 'w cloud_provider \<Rightarrow> uuid \<Rightarrow> ('w, unit, cloud_error) cloud_act" where
  "execute_teardown env P i =
     bind (map_error (\<lambda>e. TeardownFailed (teardown_error_text e)) (cp_teardown P i)) (\<lambda>_.
     bind (csql env (delete_project_row i)) (\<lambda>_.
       log_action env i ''system'' ProjectDeleted []))"

definition spec_of :: "project \<Rightarrow> project_spec" where
  "spec_of p =
     \<lparr>sp_project_id = pr_id p, sp_project_ref = pr_ref p, sp_name = pr_name p, sp_region = pr_region p,
      sp_owner_user_id = pr_owner_user_id p\<rparr>"

definition resume_one :: "cloud_env \<Rightarrow> 'w cloud_provider \<Rightarrow> project \<Rightarrow> ('w, unit, cloud_error) cloud_act" where
  "resume_one env P p =
     bind (attempt (cp_provision P (spec_of p))) (\<lambda>v.
       case v of
         Inl _ \<Rightarrow> csql env (set_project_status (pr_id p) ProjectActive)
       | Inr _ \<Rightarrow> csql env (set_project_status (pr_id p) ProjectFailed))"

definition resume_provisioning :: "cloud_env \<Rightarrow> 'w cloud_provider \<Rightarrow> ('w, nat, cloud_error) cloud_act" where
  "resume_provisioning env P =
     bind (csql env (projects_with_status Provisioning)) (\<lambda>ps.
     bind (for_each (resume_one env P) ps) (\<lambda>_. ret (length ps)))"

definition resume_teardown :: "cloud_env \<Rightarrow> 'w cloud_provider \<Rightarrow> ('w, nat, cloud_error) cloud_act" where
  "resume_teardown env P =
     bind (csql env (projects_with_status Deleting)) (\<lambda>ps.
     bind (for_each (\<lambda>p. ignore_error (execute_teardown env P (pr_id p))) ps) (\<lambda>_. ret (length ps)))"

section \<open>Members (members.rs)\<close>

definition members_add :: "cloud_env \<Rightarrow> string \<Rightarrow> uuid \<Rightarrow> project_role \<Rightarrow> string \<Rightarrow> ('w, project_member, cloud_error) cloud_act" where
  "members_add env project_ref user role actor =
     bind (require_project env project_ref) (\<lambda>p.
     if role = Owner then lift (Err (InvalidArgument ''cannot add owner role - owners are set at project creation''))
     else
       bind (csql env (insert_member_row (pr_id p) user role)) (\<lambda>m.
       bind (log_action env (pr_id p) actor MemberAdded [(''user_id'', JString user), (''role'', JString (role_text role))]) (\<lambda>_.
         ret m)))"

definition members_list :: "cloud_env \<Rightarrow> string \<Rightarrow> ('w, project_member list, cloud_error) cloud_act" where
  "members_list env project_ref = bind (require_project env project_ref) (\<lambda>p. csql env (member_rows (pr_id p)))"

text \<open>The member is looked up, and the owner is spared, in a statement before the one that changes the row.\<close>

definition unless_owner ::
  "cloud_env \<Rightarrow> uuid \<Rightarrow> uuid \<Rightarrow> string \<Rightarrow> unit cloud_statement \<Rightarrow> ('w, unit, cloud_error) cloud_act" where
  "unless_owner env i user message st =
     bind (csql env (member_row i user)) (\<lambda>found.
     bind (lift (ok_or (MemberNotFound i user) found)) (\<lambda>m.
       if parsed_role m = Owner then lift (Err (InvalidArgument message)) else csql env st))"

definition members_update_role :: "cloud_env \<Rightarrow> string \<Rightarrow> uuid \<Rightarrow> project_role \<Rightarrow> string \<Rightarrow> ('w, unit, cloud_error) cloud_act" where
  "members_update_role env project_ref user role actor =
     bind (require_project env project_ref) (\<lambda>p.
     if role = Owner then lift (Err (InvalidArgument ''cannot change role to owner''))
     else
       bind (unless_owner env (pr_id p) user (''cannot change owner'' @ [CHR 0x27] @ ''s role'') (set_member_role (pr_id p) user role)) (\<lambda>_.
         log_action env (pr_id p) actor MemberRoleChanged [(''user_id'', JString user), (''new_role'', JString (role_text role))]))"

definition members_remove :: "cloud_env \<Rightarrow> string \<Rightarrow> uuid \<Rightarrow> string \<Rightarrow> ('w, unit, cloud_error) cloud_act" where
  "members_remove env project_ref user actor =
     bind (require_project env project_ref) (\<lambda>p.
     bind (unless_owner env (pr_id p) user ''cannot remove project owner'' (delete_member_row (pr_id p) user)) (\<lambda>_.
       log_action env (pr_id p) actor MemberRemoved [(''user_id'', JString user)]))"

definition has_access :: "cloud_env \<Rightarrow> string \<Rightarrow> uuid \<Rightarrow> ('w, bool, cloud_error) cloud_act" where
  "has_access env project_ref user =
     bind (require_project env project_ref) (\<lambda>p.
     bind (csql env (member_row (pr_id p) user)) (\<lambda>m. ret (m \<noteq> None)))"

definition role_suffices :: "project_role \<Rightarrow> project_role \<Rightarrow> bool" where
  "role_suffices role required =
     (case required of Member \<Rightarrow> True | Admin \<Rightarrow> role = Admin \<or> role = Owner | Owner \<Rightarrow> role = Owner)"

definition has_role :: "cloud_env \<Rightarrow> string \<Rightarrow> uuid \<Rightarrow> project_role \<Rightarrow> ('w, bool, cloud_error) cloud_act" where
  "has_role env project_ref user required =
     bind (require_project env project_ref) (\<lambda>p.
     bind (csql env (member_row (pr_id p) user)) (\<lambda>m.
       ret (case m of Some x \<Rightarrow> role_suffices (parsed_role x) required | None \<Rightarrow> False)))"

section \<open>Keys (keys.rs)\<close>

definition keys_value :: "cloud_env \<Rightarrow> 'w vault \<Rightarrow> uuid \<Rightarrow> string \<Rightarrow> key_kind \<Rightarrow> ('w, string, cloud_error) cloud_act" where
  "keys_value env V i project_ref kind =
     (case kind of
        Anon \<Rightarrow> map_error (\<lambda>e. CloudVault (bootstrap_error_text e)) (in_vault (\<lambda>now. generate_anon_jwt (ce_sign env) V now i project_ref))
      | Service \<Rightarrow> map_error (\<lambda>e. CloudVault (bootstrap_error_text e)) (in_vault (\<lambda>now. generate_service_jwt (ce_sign env) V now i project_ref))
      | JwtSigning \<Rightarrow> lift (Err (InvalidArgument ''cannot create jwt-signing keys via API'')))"

definition keys_create :: "cloud_env \<Rightarrow> 'w vault \<Rightarrow> string \<Rightarrow> key_kind \<Rightarrow> string \<Rightarrow> ('w, project_key \<times> string, cloud_error) cloud_act" where
  "keys_create env V project_ref kind actor =
     bind (require_project env project_ref) (\<lambda>p.
     bind (keys_value env V (pr_id p) project_ref kind) (\<lambda>key_value.
     bind (cfresh (ce_uuid env)) (\<lambda>key_id.
     bind (csql env (insert_key_row key_id (pr_id p) (kind_text kind) (''tenant/'' @ pr_id p @ ''/keys/'' @ kind_text kind))) (\<lambda>k.
     bind (log_action env (pr_id p) actor KeyCreated [(''key_id'', JString (pk_id k)), (''kind'', JString (kind_text kind))]) (\<lambda>_.
       ret (k, key_value))))))"

definition keys_list :: "cloud_env \<Rightarrow> string \<Rightarrow> ('w, project_key list, cloud_error) cloud_act" where
  "keys_list env project_ref = bind (require_project env project_ref) (\<lambda>p. csql env (key_rows (pr_id p)))"

definition active_key_of :: "cloud_env \<Rightarrow> uuid \<Rightarrow> uuid \<Rightarrow> ('w, project_key, cloud_error) cloud_act" where
  "active_key_of env i key_id =
     bind (csql env (key_row key_id)) (\<lambda>found.
     bind (lift (ok_or (KeyNotFound key_id) found)) (\<lambda>k.
       if pk_project_id k \<noteq> i then lift (Err (KeyNotFound key_id))
       else if \<not> key_active k then lift (Err (InvalidArgument ''key is already revoked''))
       else ret k))"

definition keys_rotate :: "cloud_env \<Rightarrow> 'w vault \<Rightarrow> string \<Rightarrow> uuid \<Rightarrow> string \<Rightarrow> ('w, project_key \<times> string, cloud_error) cloud_act" where
  "keys_rotate env V project_ref key_id actor =
     bind (require_project env project_ref) (\<lambda>p.
     bind (active_key_of env (pr_id p) key_id) (\<lambda>old_key.
     bind (lift (map_err (\<lambda>_. CloudInternal (''invalid key kind: '' @ pk_kind old_key)) (parse_kind (pk_kind old_key)))) (\<lambda>kind.
     bind (keys_create env V project_ref kind actor) (\<lambda>(k, key_value).
     bind (csql env (revoke_key_row key_id)) (\<lambda>_.
     bind (log_action env (pr_id p) actor ProjectKeyRotated [(''old_key_id'', JString key_id), (''new_key_id'', JString (pk_id k))]) (\<lambda>_.
       ret (k, key_value)))))))"

definition keys_revoke :: "cloud_env \<Rightarrow> string \<Rightarrow> uuid \<Rightarrow> string \<Rightarrow> ('w, unit, cloud_error) cloud_act" where
  "keys_revoke env project_ref key_id actor =
     bind (require_project env project_ref) (\<lambda>p.
     bind (active_key_of env (pr_id p) key_id) (\<lambda>_.
     bind (csql env (revoke_key_row key_id)) (\<lambda>_.
       log_action env (pr_id p) actor KeyRevoked [(''key_id'', JString key_id)])))"

section \<open>The audit log (audit.rs)\<close>

definition audit_for_project :: "cloud_env \<Rightarrow> string \<Rightarrow> 32 word \<Rightarrow> 32 word \<Rightarrow> ('w, audit_entry list, cloud_error) cloud_act" where
  "audit_for_project env project_ref n skip =
     bind (require_project env project_ref) (\<lambda>p. csql env (audit_rows (Some (pr_id p)) n skip))"

section \<open>Endpoints (compose/cloud.rs)\<close>

record 'w cloud_api =
  ca_provider :: "'w cloud_provider"
  ca_vault :: "'w vault"
  ca_base_domain :: string

definition new_cloud_api ::
  "cloud_env \<Rightarrow> 'w vault \<Rightarrow> node_config \<Rightarrow> string option \<Rightarrow> string option \<Rightarrow> 'w cloud_api" where
  "new_cloud_api env V cfg provider_kind shared_postgres_url =
     \<lparr>ca_provider = (if provider_kind = Some ''shared_cluster'' then shared_cluster env V cfg shared_postgres_url else single_node env V cfg),
      ca_vault = V, ca_base_domain = no_base_domain cfg\<rparr>"

datatype cloud_api_error = ApiNotFound string | ApiBadRequest string | ApiCloud cloud_error

fun cloud_api_response :: "(sql_error \<Rightarrow> string) \<Rightarrow> cloud_api_error \<Rightarrow> nat \<times> string \<times> string" where
  "cloud_api_response sql (ApiNotFound m) = (404, ''NOT_FOUND'', m)"
| "cloud_api_response sql (ApiBadRequest m) = (400, ''BAD_REQUEST'', m)"
| "cloud_api_response sql (ApiCloud e) =
     (case e of
        ProjectNotFound s \<Rightarrow> (404, ''PROJECT_NOT_FOUND'', s)
      | ProjectAlreadyExists s \<Rightarrow> (409, ''PROJECT_EXISTS'', s)
      | MemberNotFound p u \<Rightarrow> (404, ''MEMBER_NOT_FOUND'', cloud_error_text sql e)
      | KeyNotFound k \<Rightarrow> (404, ''KEY_NOT_FOUND'', cloud_error_text sql e)
      | InvalidStatusTransition f t \<Rightarrow> (400, ''INVALID_STATUS'', cloud_error_text sql e)
      | InvalidArgument s \<Rightarrow> (400, ''INVALID_ARGUMENT'', s)
      | _ \<Rightarrow> (500, ''INTERNAL_ERROR'', cloud_error_text sql e))"

text \<open>A project in a response comes with its host name, a key with whether it is active.\<close>

datatype cloud_body =
    CreatedBody project string string string
  | ProjectBody project string
  | ProjectsBody "(project \<times> string) list"
  | MemberBody project_member
  | MembersBody "project_member list"
  | RemovedBody uuid
  | KeyBody project_key bool string
  | KeysBody "(project_key \<times> bool) list"
  | RevokedBody uuid
  | AuditBody "audit_entry list"
  | CloudFailure string string

datatype cloud_request =
    CreateProject string "string option" uuid
  | ListProjects "uuid option" "32 word" "32 word"
  | GetProject string
  | DeleteProject string
  | ListMembers string
  | AddMember string uuid string
  | RemoveMember string uuid
  | ListKeys string
  | CreateKey string string
  | RotateProjectKey string uuid
  | RevokeKey string uuid
  | ProjectAudit string "32 word" "32 word"
  | GlobalAudit "32 word" "32 word"

definition in_api :: "('w, 'a, cloud_error) cloud_act \<Rightarrow> ('a \<Rightarrow> nat \<times> cloud_body) \<Rightarrow> ('w, nat \<times> cloud_body, cloud_api_error) cloud_act" where
  "in_api m f = bind (map_error ApiCloud m) (\<lambda>a. ret (f a))"

fun cloud_handler :: "cloud_env \<Rightarrow> 'w cloud_api \<Rightarrow> cloud_request \<Rightarrow> ('w, nat \<times> cloud_body, cloud_api_error) cloud_act" where
  "cloud_handler env A (CreateProject name region owner) =
     in_api (projects_create env (ca_provider A) name region owner)
       (\<lambda>r. (201, CreatedBody (cr_project r) (hostname_for (ca_base_domain A) (cr_project r)) (cr_anon_key r) (cr_service_key r)))"
| "cloud_handler env A (ListProjects owner n skip) =
     in_api (csql env (case owner of Some user \<Rightarrow> projects_of_user user n skip | None \<Rightarrow> all_projects n skip))
       (\<lambda>ps. (200, ProjectsBody (map (\<lambda>p. (p, hostname_for (ca_base_domain A) p)) ps)))"
| "cloud_handler env A (GetProject project_ref) =
     bind (map_error ApiCloud (csql env (project_by_ref project_ref))) (\<lambda>found.
     bind (lift (ok_or (ApiNotFound (''project not found: '' @ project_ref)) found)) (\<lambda>p.
       ret (200, ProjectBody p (hostname_for (ca_base_domain A) p))))"
| "cloud_handler env A (DeleteProject project_ref) =
     in_api (schedule_delete env project_ref ''admin'') (\<lambda>p. (200, ProjectBody p (hostname_for (ca_base_domain A) p)))"
| "cloud_handler env A (ListMembers project_ref) = in_api (members_list env project_ref) (\<lambda>ms. (200, MembersBody ms))"
| "cloud_handler env A (AddMember project_ref user role) =
     bind (lift (map_err (\<lambda>_. ApiBadRequest (''invalid role: '' @ role)) (parse_role role))) (\<lambda>r.
       in_api (members_add env project_ref user r ''admin'') (\<lambda>m. (201, MemberBody m)))"
| "cloud_handler env A (RemoveMember project_ref user) =
     in_api (members_remove env project_ref user ''admin'') (\<lambda>_. (200, RemovedBody user))"
| "cloud_handler env A (ListKeys project_ref) =
     in_api (keys_list env project_ref) (\<lambda>ks. (200, KeysBody (map (\<lambda>k. (k, key_active k)) ks)))"
| "cloud_handler env A (CreateKey project_ref kind) =
     bind (lift (map_err (\<lambda>_. ApiBadRequest (''invalid key kind: '' @ kind)) (parse_kind kind))) (\<lambda>k.
       in_api (keys_create env (ca_vault A) project_ref k ''admin'') (\<lambda>(key, key_value). (201, KeyBody key (key_active key) key_value)))"
| "cloud_handler env A (RotateProjectKey project_ref key_id) =
     in_api (keys_rotate env (ca_vault A) project_ref key_id ''admin'') (\<lambda>(key, key_value). (200, KeyBody key (key_active key) key_value))"
| "cloud_handler env A (RevokeKey project_ref key_id) =
     in_api (keys_revoke env project_ref key_id ''admin'') (\<lambda>_. (200, RevokedBody key_id))"
| "cloud_handler env A (ProjectAudit project_ref n skip) =
     in_api (audit_for_project env project_ref n skip) (\<lambda>es. (200, AuditBody es))"
| "cloud_handler env A (GlobalAudit n skip) = in_api (csql env (audit_rows None n skip)) (\<lambda>es. (200, AuditBody es))"

definition answer_cloud :: "cloud_env \<Rightarrow> 'w cloud_api \<Rightarrow> cloud_request \<Rightarrow> ('w, nat \<times> cloud_body, unit) cloud_act" where
  "answer_cloud env A req =
     bind (attempt (cloud_handler env A req)) (\<lambda>v.
       ret (case v of Inl r \<Rightarrow> r
            | Inr e \<Rightarrow> (case cloud_api_response (ce_sql_text env) e of (status, code, message) \<Rightarrow> (status, CloudFailure code message))))"

section \<open>The start of a server (boot/cloud.rs)\<close>

datatype cloud_bootstrap_error = ResumeProvisioning string | ResumeTeardown string

definition cloud_bootstrap :: "cloud_env \<Rightarrow> 'w vault \<Rightarrow> node_config \<Rightarrow> ('w, nat \<times> nat, cloud_bootstrap_error) cloud_act" where
  "cloud_bootstrap env V cfg =
     (let P = single_node env V cfg in
      bind (map_error (\<lambda>e. ResumeProvisioning (cloud_error_text (ce_sql_text env) e)) (resume_provisioning env P)) (\<lambda>provisioning_resumed.
      bind (map_error (\<lambda>e. ResumeTeardown (cloud_error_text (ce_sql_text env) e)) (resume_teardown env P)) (\<lambda>teardown_resumed.
        ret (provisioning_resumed, teardown_resumed))))"

end
