(* ===== verification/Cloud_Steps.thy ===== *)
theory Cloud_Steps
  imports Cloud_Service Vault_Nested
begin

text \<open>
  What survives the control plane: the changes its statements make to the tables and to the catalog as two step relations,
  and the locale \<open>cloud_invariant\<close> of what they, the vault and the creation of a project keep. It then survives every
  sequence of requests, restarts of the server, calls of the vault by other services and ticks of the clock, whatever
  statements fail. Its three interpretations are of a server's own vault, in which no project becomes active, of the owners
  of projects, and of the databases of a shared cluster.
\<close>

section \<open>Steps\<close>

text \<open>The parameter says whether a project can be provisioned at all. A member is removed only after the look at the row.\<close>

inductive cloud_step :: "bool \<Rightarrow> cloud_db \<Rightarrow> cloud_db \<Rightarrow> bool" for live where
  activated: "live \<Longrightarrow> cloud_step live db (snd (set_project_status i ProjectActive t db))"
| failed: "cloud_step live db (snd (set_project_status i ProjectFailed t db))"
| scheduled: "cloud_step live db (snd (set_project_status i Deleting t db))"
| torn_down: "cloud_step live db (snd (delete_project_row i t db))"
| joined: "role \<noteq> Owner \<Longrightarrow> cloud_step live db (snd (insert_member_row i user role t db))"
| left_project: "find (is_membership i user) (cl_members db) = Some m \<Longrightarrow> parsed_role m \<noteq> Owner \<Longrightarrow>
    cloud_step live db (snd (delete_member_row i user t db))"
| key_made: "cloud_step live db (snd (insert_key_row key_id i kind r t db))"
| key_revoked: "cloud_step live db (snd (revoke_key_row key_id t db))"
| logged: "cloud_step live db (snd (insert_audit_row p actor action metadata t db))"
| routed: "cloud_step live db (snd (upsert_route_row host i r kind target mode t db))"
| unrouted: "cloud_step live db (snd (delete_route_row host t db))"

inductive catalog_step :: "catalog \<Rightarrow> catalog \<Rightarrow> bool" where
  schema_made: "catalog_step c (snd (create_schema_if_absent d s c))"
| migrated: "catalog_step c (snd (apply_migration d s n c))"
| schema_dropped: "catalog_step c (snd (drop_schema_cascade d s c))"
| role_made: "catalog_step c (snd (create_role_stmt role password c))"
| database_made: "catalog_step c (snd (create_database_stmt name owner c))"

datatype cloud_call = Ask cloud_request | Restart | UseVault vault_call | Tick int

fun perform_cloud :: "cloud_env \<Rightarrow> 'w cloud_api \<Rightarrow> node_config \<Rightarrow> cloud_call \<Rightarrow> 'w cloud_world \<Rightarrow> 'w cloud_world" where
  "perform_cloud env A cfg (Ask req) w = snd (answer_cloud env A req w)"
| "perform_cloud env A cfg Restart w = snd (cloud_bootstrap env (ca_vault A) cfg w)"
| "perform_cloud env A cfg (UseVault c) w = w\<lparr>kw_vault := snd (perform_vault (ca_vault A) c (kw_vault w))\<rparr>"
| "perform_cloud env A cfg (Tick n) w = w\<lparr>kw_now := kw_now w + n\<rparr>"

definition run_cloud :: "cloud_env \<Rightarrow> 'w cloud_api \<Rightarrow> node_config \<Rightarrow> cloud_call list \<Rightarrow> 'w cloud_world \<Rightarrow> 'w cloud_world" where
  "run_cloud env A cfg cs w = fold (perform_cloud env A cfg) cs w"

fun cloud_call_ok :: "cloud_call \<Rightarrow> bool" where
  "cloud_call_ok (UseVault c) = tenant_id (call_tenant c)"
| "cloud_call_ok _ = True"

section \<open>The contract\<close>

locale cloud_invariant =
  fixes env :: cloud_env and V :: "'w vault" and I :: "'w cloud_world \<Rightarrow> bool" and live :: bool
  assumes counted: "I w \<Longrightarrow> I (w\<lparr>kw_effects := n\<rparr>)"
    and drawn: "I w \<Longrightarrow> I (w\<lparr>kw_fresh := n\<rparr>)"
    and ticked: "I w \<Longrightarrow> I (w\<lparr>kw_now := t\<rparr>)"
    and ids: "I w \<Longrightarrow> p \<in> set (cl_projects (kw_db w)) \<Longrightarrow> tenant_id (pr_id p)"
    and new_ids: "I w \<Longrightarrow> tenant_id (ce_uuid env n)"
    and db_law: "I w \<Longrightarrow> cloud_step live (kw_db w) db \<Longrightarrow> I (w\<lparr>kw_db := db\<rparr>)"
    and catalog_law: "I w \<Longrightarrow> catalog_step (kw_catalog w) cat \<Longrightarrow> I (w\<lparr>kw_catalog := cat\<rparr>)"
    and create_law: "tenant_id i \<Longrightarrow> inv I (store_create_project env i r name owner region) (\<lambda>_. True)"
    and vault_law: "I w \<Longrightarrow> tenant_id (call_tenant c) \<Longrightarrow> I (w\<lparr>kw_vault := snd (perform_vault V c (kw_vault w))\<rparr>)"
    and bootstrap_law: "tenant_id i \<Longrightarrow> inv I (in_vault (\<lambda>now. vault_bootstrap V random now i)) (\<lambda>_. True)"
    and cleanup_law: "tenant_id i \<Longrightarrow> inv I (in_vault (\<lambda>now. vault_cleanup V i)) (\<lambda>_. True)"
    and password_law: "tenant_id i \<Longrightarrow> inv I (in_vault (\<lambda>now. v_put_secret V i secret (new_secret_value x now))) (\<lambda>_. True)"
    and token_law: "tenant_id i \<Longrightarrow> inv I (in_vault (\<lambda>now. generate_jwt (ce_sign env) V now i r role)) (\<lambda>_. live)"
begin

lemma read_inv:
  assumes "\<And>t db. snd (st t db) = db" and "\<And>w a. I w \<Longrightarrow> fst (st (kw_now w) (kw_db w)) = Ok a \<Longrightarrow> Q a"
  shows "inv I (csql env st) Q"
proof -
  have "wp (csql env st) (\<lambda>a w'. I w' \<and> Q a) I w" if w: "I w" for w
  proof -
    obtain r where st: "st (kw_now w) (kw_db w) = (r, kw_db w)" using assms(1) by (metis surjective_pairing)
    have "w\<lparr>kw_effects := Suc (kw_effects w), kw_db := kw_db w\<rparr> = w\<lparr>kw_effects := Suc (kw_effects w)\<rparr>" by simp
    then show ?thesis using counted [OF w] assms(2) [OF w] st
      by (cases r) (simp_all add: wp_def csql_def Let_def)
  qed
  then show ?thesis by (simp add: inv_def)
qed

lemma step_inv:
  assumes "\<And>w. I w \<Longrightarrow> cloud_step live (kw_db w) (snd (st (kw_now w) (kw_db w)))"
  shows "inv I (csql env st) (\<lambda>_. True)"
proof -
  have "I (snd (csql env st w))" if "I w" for w
    using db_law [OF counted [where n = "Suc (kw_effects w)", OF that], of "snd (st (kw_now w) (kw_db w))"] assms [OF that] counted [OF that]
    by (cases "st (kw_now w) (kw_db w)") (simp add: csql_def Let_def)
  then show ?thesis by (simp add: inv_def wp_snd)
qed

lemma catalog_inv:
  assumes "\<And>c. snd (st c) = c \<or> catalog_step c (snd (st c))"
  shows "inv I (catalog_sql env st) (\<lambda>_. True)"
proof -
  have "I (snd (catalog_sql env st w))" if "I w" for w
  proof -
    let ?w = "w\<lparr>kw_effects := Suc (kw_effects w)\<rparr>"
    have "I (?w\<lparr>kw_catalog := snd (st (kw_catalog w))\<rparr>)"
    proof (cases "snd (st (kw_catalog w)) = kw_catalog w")
      case False
      then show ?thesis using assms [of "kw_catalog w"] catalog_law [OF counted [OF that]] by simp
    qed (use counted [OF that] in simp)
    then show ?thesis using counted [OF that] by (cases "st (kw_catalog w)") (simp add: catalog_sql_def Let_def)
  qed
  then show ?thesis by (simp add: inv_def wp_snd)
qed

lemma fresh_inv: "(\<And>w n. I w \<Longrightarrow> Q (f n)) \<Longrightarrow> inv I (cfresh f) Q"
  by (simp add: inv_def wp_def cfresh_def drawn)

lemma found_inv:
  "inv I (csql env (project_by_ref r)) (\<lambda>v. \<forall>p. v = Some p \<longrightarrow> tenant_id (pr_id p))"
  "inv I (csql env (project_by_id i)) (\<lambda>v. \<forall>p. v = Some p \<longrightarrow> tenant_id (pr_id p))"
  "inv I (csql env (projects_with_status s)) (\<lambda>ps. \<forall>p \<in> set ps. tenant_id (pr_id p))"
  by (rule read_inv; use ids in \<open>auto simp: project_by_ref_def project_by_id_def projects_with_status_def find_Some_iff\<close>)+

lemma reads_inv:
  "inv I (csql env (projects_of_user user n skip)) (\<lambda>_. True)" "inv I (csql env (all_projects n skip)) (\<lambda>_. True)"
  "inv I (csql env (member_rows i)) (\<lambda>_. True)" "inv I (csql env (key_rows i)) (\<lambda>_. True)" "inv I (csql env (key_row i)) (\<lambda>_. True)"
  "inv I (csql env (audit_rows v n skip)) (\<lambda>_. True)" "inv I (csql env (route_row_of host)) (\<lambda>_. True)"
  by (rule read_inv; simp add: projects_of_user_def all_projects_def member_rows_def key_rows_def key_row_def audit_rows_def route_row_of_def)+

lemma writes_inv:
  "live \<Longrightarrow> inv I (csql env (set_project_status i ProjectActive)) (\<lambda>_. True)"
  "inv I (csql env (set_project_status i ProjectFailed)) (\<lambda>_. True)"
  "inv I (csql env (set_project_status i Deleting)) (\<lambda>_. True)"
  "inv I (csql env (delete_project_row i)) (\<lambda>_. True)"
  "role \<noteq> Owner \<Longrightarrow> inv I (csql env (insert_member_row i user role)) (\<lambda>_. True)"
  "inv I (csql env (insert_key_row key_id i kind r)) (\<lambda>_. True)"
  "inv I (csql env (revoke_key_row key_id)) (\<lambda>_. True)"
  "inv I (csql env (upsert_route_row host i r kind target mode)) (\<lambda>_. True)"
  "inv I (csql env (delete_route_row host)) (\<lambda>_. True)"
  "inv I (log_action env i actor action metadata) (\<lambda>_. True)"
  unfolding log_action_def by (rule step_inv; blast intro: cloud_step.intros)+

lemma require_inv:
  "inv I (require_project env r) (\<lambda>p. tenant_id (pr_id p))" "inv I (refetch_project env i) (\<lambda>_. True)"
  unfolding require_project_def refetch_project_def
  by (rule inv_bind [OF found_inv(1)], rule inv_lift, auto simp: ok_or_def split: option.splits)
    (rule inv_bind [OF found_inv(2)], rule inv_lift, simp)

section \<open>Providers\<close>

definition fits :: "'w cloud_provider \<Rightarrow> bool" where
  "fits P \<longleftrightarrow> (\<forall>spec. tenant_id (sp_project_id spec) \<longrightarrow> inv I (cp_provision P spec) (\<lambda>_. live))"

lemma catalogs_inv:
  "inv I (catalog_sql env (create_schema_if_absent d s)) (\<lambda>_. True)" "inv I (catalog_sql env (create_migrations_table d s)) (\<lambda>_. True)"
  "inv I (catalog_sql env (apply_migration d s n)) (\<lambda>_. True)" "inv I (catalog_sql env (drop_schema_cascade d s)) (\<lambda>_. True)"
  "inv I (catalog_sql env (create_role_stmt role password)) (\<lambda>_. True)"
  "inv I (catalog_sql env (create_database_stmt name owner)) (\<lambda>_. True)"
  "inv I (catalog_sql env no_change) (\<lambda>_. True)" "inv I (catalog_sql env (connect_stmt target)) (\<lambda>_. True)"
  by (rule catalog_inv; auto intro: catalog_step.intros simp: create_migrations_table_def no_change_def connect_stmt_def)+

lemma migrations_inv: "inv I (run_migrations env d schema config) (\<lambda>_. True)"
  unfolding run_migrations_def run_capability_def
  by (intro inv_bind [OF inv_map_error [OF catalogs_inv(7)]] inv_bind [OF inv_map_error [OF catalogs_inv(2)]] inv_for_each
      inv_map_error catalogs_inv(3))

lemma schemas_inv: "inv I (create_schema env schema) (\<lambda>_. True)" "inv I (drop_schema env schema) (\<lambda>_. True)"
  unfolding create_schema_def drop_schema_def
  by (intro inv_if inv_lift TrueI inv_bind [OF inv_map_error [OF catalogs_inv(1)]] inv_map_error catalogs_inv)+

lemma provision_parts:
  assumes "tenant_id i"
  shows "inv I (vault_bootstrap_step env V i) (\<lambda>_. True)" "inv I (api_keys_step env V i r) (\<lambda>_. live)"
    "inv I (route_step env cfg i r kind) (\<lambda>_. True)"
proof -
  show "inv I (vault_bootstrap_step env V i) (\<lambda>_. True)"
    unfolding vault_bootstrap_step_def
    by (rule inv_bind [OF fresh_inv [where Q = "\<lambda>_. True"]], simp) (intro inv_map_error bootstrap_law [OF assms])
  show "inv I (api_keys_step env V i r) (\<lambda>_. live)"
    unfolding api_keys_step_def generate_anon_jwt_def generate_service_jwt_def
    by (intro inv_bind [OF inv_map_error [OF token_law [OF assms]]] inv_ret)
  show "inv I (route_step env cfg i r kind) (\<lambda>_. True)"
    unfolding route_step_def by (intro inv_map_error writes_inv)
qed

lemma node_fits: "fits (single_node env V cfg)"
proof -
  have "inv I (node_provision env V cfg spec) (\<lambda>_. live)" if t: "tenant_id (sp_project_id spec)" for spec
    unfolding node_provision_def Let_def
    by (rule inv_bind [OF inv_map_error [OF schemas_inv(1)]], rule inv_bind [OF inv_map_error [OF migrations_inv]],
        rule inv_bind [OF provision_parts(1) [OF t]], rule inv_bind [OF provision_parts(2) [OF t]], rule inv_prod,
        rule inv_bind [OF provision_parts(3) [OF t]], rule inv_ret)
  then show ?thesis by (simp add: fits_def single_node_def)
qed

lemma cluster_fits: "fits (shared_cluster env V cfg url)"
proof -
  have database: "inv I (create_tenant_database env r password) (\<lambda>_. True)" for r password
    unfolding create_tenant_database_def database_step_def
    by (intro inv_if inv_lift TrueI inv_bind [OF inv_map_error [OF catalogs_inv(5)]] inv_bind [OF inv_map_error [OF catalogs_inv(6)]]
        inv_map_error catalogs_inv)
  have migrated: "inv I (run_tenant_migrations env url r) (\<lambda>_. True)" for r
    unfolding run_tenant_migrations_def by (intro inv_bind [OF inv_map_error [OF catalogs_inv(8)]] inv_map_error migrations_inv)
  have "inv I (cluster_provision env V cfg url spec) (\<lambda>_. live)" if t: "tenant_id (sp_project_id spec)" for spec
    unfolding cluster_provision_def Let_def
    by (rule inv_bind [OF fresh_inv [where Q = "\<lambda>_. True"]], simp, rule inv_bind [OF database], rule inv_bind [OF migrated],
        rule inv_bind [OF provision_parts(1) [OF t]], rule inv_bind [OF inv_map_error [OF password_law [OF t]]],
        rule inv_bind [OF provision_parts(2) [OF t]], rule inv_prod, rule inv_bind [OF provision_parts(3) [OF t]], rule inv_ret)
  then show ?thesis by (simp add: fits_def shared_cluster_def)
qed

lemma teardown_inv: "tenant_id i \<Longrightarrow> inv I (cp_teardown (single_node env V cfg) i) (\<lambda>_. True)"
proof -
  assume t: "tenant_id i"
  have found: "inv I (teardown_project env i) (\<lambda>_. True)"
    unfolding teardown_project_def by (rule inv_bind [OF inv_map_error [OF found_inv(2)]]) (simp add: inv_lift)
  have "inv I (forget_tenant env V cfg i r) (\<lambda>_. True)" for r
    unfolding forget_tenant_def by (rule inv_bind [OF inv_ignore [OF writes_inv(9)]]) (rule inv_ignore [OF cleanup_law [OF t]])
  then show ?thesis
    by (auto simp: single_node_def node_teardown_def intro!: inv_bind [OF found] inv_map_error schemas_inv(2) intro: inv_bind)
qed

section \<open>Handlers\<close>

lemma removal_inv:
  "inv I (unless_owner env i user message (delete_member_row i user)) (\<lambda>_. True)"
proof -
  have "wp (unless_owner env i user message (delete_member_row i user)) (\<lambda>_. I) I w" if w: "I w" for w
  proof -
    let ?n = "Suc (kw_effects w)" and ?db = "\<lambda>t. snd (delete_member_row i user t (kw_db w))"
    have "I (w\<lparr>kw_effects := Suc ?n, kw_db := ?db (kw_now w)\<rparr>)"
      if "find (is_membership i user) (cl_members (kw_db w)) = Some m" "parsed_role m \<noteq> Owner" for m
      using db_law [OF counted [where n = "Suc ?n", OF w], of "?db (kw_now w)"] left_project [OF that] by simp
    then show ?thesis
      using counted [OF w] unfolding unless_owner_def wp_bind
      by (auto simp: wp_def csql_def member_row_def ok_or_def delete_member_row_def Let_def lift_def split: option.splits)
  qed
  then show ?thesis by (simp add: inv_def)
qed

lemma attempt_fits:
  "fits P \<Longrightarrow> tenant_id (sp_project_id spec) \<Longrightarrow> inv I (attempt (cp_provision P spec)) (\<lambda>v. \<forall>a. v = Inl a \<longrightarrow> live)"
  by (intro inv_attempt) (simp add: fits_def)

lemma create_inv: "fits P \<Longrightarrow> inv I (projects_create env P name region owner) (\<lambda>_. live)"
  unfolding projects_create_def Let_def
  by (rule inv_bind [OF fresh_inv [where Q = tenant_id]], erule new_ids, rule inv_bind [OF create_law], assumption,
      rule inv_bind [OF writes_inv(10)], rule inv_bind [OF attempt_fits], assumption, simp, rule inv_sum)
    (auto intro!: inv_bind [OF writes_inv(1)] inv_bind [OF writes_inv(2)] inv_bind [OF writes_inv(10)] inv_bind [OF require_inv(2)]
      inv_ret inv_lift)

lemma key_inv:
  "inv I (keys_create env V r kind actor) (\<lambda>_. True)"
  "inv I (active_key_of env i key_id) (\<lambda>_. True)"
proof -
  have "inv I (keys_value env V i r kind) (\<lambda>_. True)" if "tenant_id i" for i
    using inv_map_error [OF inv_True [OF token_law [OF that]]]
    by (cases kind) (simp_all add: keys_value_def generate_anon_jwt_def generate_service_jwt_def inv_lift)
  then show "inv I (keys_create env V r kind actor) (\<lambda>_. True)"
    unfolding keys_create_def
    by (intro inv_bind [OF require_inv(1)] inv_bind [OF writes_inv(6)] inv_bind [OF writes_inv(10)] inv_ret TrueI
        inv_bind [OF fresh_inv [where Q = "\<lambda>_. True"]] inv_bind [where m = "keys_value env V _ r kind" and Q = "\<lambda>_. True"]) simp
  show "inv I (active_key_of env i key_id) (\<lambda>_. True)"
    unfolding active_key_of_def by (intro inv_bind [OF reads_inv(5)] inv_bind_lift inv_if inv_lift inv_ret TrueI)
qed

lemma service_inv:
  "inv I (schedule_delete env r actor) (\<lambda>_. True)" "inv I (members_list env r) (\<lambda>_. True)"
  "inv I (members_add env r user role actor) (\<lambda>_. True)" "inv I (members_remove env r user actor) (\<lambda>_. True)"
  "inv I (keys_list env r) (\<lambda>_. True)" "inv I (keys_rotate env V r key_id actor) (\<lambda>_. True)"
  "inv I (keys_revoke env r key_id actor) (\<lambda>_. True)" "inv I (audit_for_project env r n skip) (\<lambda>_. True)"
proof -
  note steps = inv_bind [OF require_inv(1)] inv_bind [OF writes_inv(3)] inv_bind [OF writes_inv(10)] inv_if inv_ret TrueI require_inv(2)
  show "inv I (schedule_delete env r actor) (\<lambda>_. True)"
    unfolding schedule_delete_def by (intro steps inv_lift)
  show "inv I (members_list env r) (\<lambda>_. True)" "inv I (keys_list env r) (\<lambda>_. True)" "inv I (audit_for_project env r n skip) (\<lambda>_. True)"
    unfolding members_list_def keys_list_def audit_for_project_def by (intro steps reads_inv)+
  show "inv I (members_add env r user role actor) (\<lambda>_. True)"
    unfolding members_add_def by (intro steps inv_lift inv_bind [OF writes_inv(5)])
  show "inv I (members_remove env r user actor) (\<lambda>_. True)"
    unfolding members_remove_def by (intro steps inv_bind [OF removal_inv] writes_inv(10))
  show "inv I (keys_rotate env V r key_id actor) (\<lambda>_. True)"
    unfolding keys_rotate_def
    by (intro inv_bind [OF require_inv(1)] inv_bind [OF key_inv(2)] inv_bind_lift inv_bind [OF key_inv(1)] inv_prod
        inv_bind [OF writes_inv(7)] inv_bind [OF writes_inv(10)] inv_ret TrueI)
  show "inv I (keys_revoke env r key_id actor) (\<lambda>_. True)"
    unfolding keys_revoke_def
    by (intro inv_bind [OF require_inv(1)] inv_bind [OF key_inv(2)] inv_bind [OF writes_inv(7)] writes_inv(10))
qed

text \<open>A request is answered with 201 for a new project only when projects can be provisioned.\<close>

lemma in_api_inv: "inv I m Q \<Longrightarrow> inv I (in_api m f) (\<lambda>x. \<exists>a. Q a \<and> x = f a)"
  unfolding in_api_def by (erule inv_bind [OF inv_map_error]) (auto intro: inv_ret)

lemma handler_inv:
  assumes "fits (ca_provider A)" "ca_vault A = V"
  shows "inv I (cloud_handler env A req) (\<lambda>x. (\<exists>name region owner. req = CreateProject name region owner) \<longrightarrow> live)"
proof -
  note api = inv_weaken [OF in_api_inv]
  show ?thesis
  proof (cases req)
    case (CreateProject name region owner)
    then show ?thesis by (auto intro: api [OF create_inv [OF assms(1)]])
  next
    case (ListProjects owner n skip)
    then show ?thesis by (auto intro!: api [OF reads_inv(1)] api [OF reads_inv(2)] split: option.split)
  next
    case (GetProject r)
    then show ?thesis by (auto intro!: inv_bind [OF inv_map_error [OF found_inv(1)]] inv_bind_lift inv_ret)
  next
    case (AddMember r user role)
    then show ?thesis by (auto intro!: inv_bind_lift api [OF service_inv(3)])
  next
    case (CreateKey r kind)
    then show ?thesis by (auto simp: assms(2) intro!: inv_bind_lift api [OF key_inv(1)])
  qed (auto simp: assms(2) intro: api [OF service_inv(1)] api [OF service_inv(2)] api [OF service_inv(4)] api [OF service_inv(5)]
      api [OF service_inv(6)] api [OF service_inv(7)] api [OF service_inv(8)] api [OF reads_inv(6)])
qed

lemma answer_inv:
  assumes "fits (ca_provider A)" "ca_vault A = V"
  shows "inv I (answer_cloud env A req) (\<lambda>_. True)"
  unfolding answer_cloud_def by (rule inv_bind [OF inv_attempt [OF handler_inv [OF assms]]]) (simp add: inv_ret)

section \<open>The start of a server\<close>

lemma boot_inv: "inv I (cloud_bootstrap env V cfg) (\<lambda>_. True)"
proof -
  let ?P = "single_node env V cfg"
  have "inv I (resume_one env ?P p) (\<lambda>_. True)" if "tenant_id (pr_id p)" for p
    unfolding resume_one_def
    using node_fits that by (intro inv_bind [OF inv_attempt]) (auto simp: fits_def spec_of_def intro!: inv_sum writes_inv)
  then have provisioning: "inv I (resume_provisioning env ?P) (\<lambda>_. True)"
    unfolding resume_provisioning_def
    by (intro inv_bind [OF found_inv(3)] inv_bind [OF inv_for_each] inv_ret TrueI) blast
  have "inv I (execute_teardown env ?P i) (\<lambda>_. True)" if "tenant_id i" for i
    unfolding execute_teardown_def
    by (intro inv_bind [OF inv_map_error [OF teardown_inv [OF that]]] inv_bind [OF writes_inv(4)] writes_inv(10))
  then have teardown: "inv I (resume_teardown env ?P) (\<lambda>_. True)"
    unfolding resume_teardown_def
    by (intro inv_bind [OF found_inv(3)] inv_bind [OF inv_for_each] inv_ret TrueI inv_ignore) blast
  show ?thesis
    unfolding cloud_bootstrap_def Let_def
    by (rule inv_bind [OF inv_map_error [OF provisioning]], rule inv_bind [OF inv_map_error [OF teardown]], rule inv_ret) simp
qed

lemma perform_keeps:
  assumes A: "fits (ca_provider A)" "ca_vault A = V" and c: "cloud_call_ok c" and w: "I w"
  shows "I (perform_cloud env A cfg c w)"
proof (cases c)
  case (Ask req)
  then show ?thesis using inv_at [OF answer_inv [OF A] w] by simp
next
  case Restart
  then show ?thesis using inv_at [OF boot_inv w] A by simp
qed (use c w A vault_law ticked in simp_all)

lemma run_keeps:
  assumes "fits (ca_provider A)" "ca_vault A = V" "\<forall>c \<in> set cs. cloud_call_ok c" "I w"
  shows "I (run_cloud env A cfg cs w)"
  using assms(3,4) unfolding run_cloud_def
  by (induction cs arbitrary: w) (simp_all add: perform_keeps [OF assms(1,2)])

lemma api_fits: "fits (ca_provider (new_cloud_api env V cfg kind url))" "ca_vault (new_cloud_api env V cfg kind url) = V"
  by (simp_all add: new_cloud_api_def node_fits cluster_fits)

end

section \<open>Vaults and rows\<close>

lemma vault_aside: "(\<And>w x. I w \<Longrightarrow> I (w\<lparr>kw_vault := x\<rparr>)) \<Longrightarrow> inv I (in_vault m) (\<lambda>_. True)"
  by (auto simp: inv_def wp_def in_vault_def split: prod.splits result.splits)

lemma in_vault_inv:
  assumes "\<And>now. inv J (m now) Q" and "\<And>w x. K (w\<lparr>kw_vault := x\<rparr>) = K w"
  shows "inv (\<lambda>w. K w \<and> J (kw_vault w)) (in_vault m) Q"
proof -
  have "wp (in_vault m) P E w = wp (m (kw_now w)) (\<lambda>a x. P a (w\<lparr>kw_vault := x\<rparr>)) (\<lambda>x. E (w\<lparr>kw_vault := x\<rparr>)) (kw_vault w)" for P E w
    by (cases "m (kw_now w) (kw_vault w)"; cases "fst (m (kw_now w) (kw_vault w))") (simp_all add: wp_def in_vault_def)
  then show ?thesis using assms unfolding inv_def by (fastforce elim: wp_mono)
qed

definition uuids :: "cloud_env \<Rightarrow> 'w cloud_world \<Rightarrow> bool" where
  "uuids env w \<longleftrightarrow> (\<forall>n. tenant_id (ce_uuid env n)) \<and> (\<forall>p \<in> set (cl_projects (kw_db w)). tenant_id (pr_id p))"

lemma update_rows_set: "x \<in> set (update_rows P f xs) \<Longrightarrow> \<exists>y \<in> set xs. x = y \<or> P y \<and> x = f y"
  by (auto simp: update_rows_def split: if_splits)

lemmas statement_defs = set_project_status_def delete_project_row_def insert_member_row_def delete_member_row_def insert_key_row_def
  revoke_key_row_def insert_audit_row_def upsert_route_row_def delete_route_row_def

lemma step_rows:
  assumes "cloud_step live db db'" "p \<in> set (cl_projects db')"
  shows "\<exists>q \<in> set (cl_projects db). pr_id p = pr_id q \<and> pr_owner_user_id p = pr_owner_user_id q \<and>
    (pr_status p = pr_status q \<or> live \<or> pr_status p \<in> {''failed'', ''deleting''})"
  using assms
  by (cases rule: cloud_step.cases) (auto simp: statement_defs Let_def split: if_splits dest!: update_rows_set)

lemma uuids_laws:
  "uuids env w \<Longrightarrow> cloud_step live (kw_db w) db \<Longrightarrow> uuids env (w\<lparr>kw_db := db\<rparr>)"
  unfolding uuids_def by (auto dest!: step_rows)

lemma create_rows:
  assumes "tenant_id i" and "\<And>w x. K (w\<lparr>kw_effects := x\<rparr>) = K w"
    and "\<And>w. K w \<Longrightarrow> K (w\<lparr>kw_db := snd (insert_project_row i r name owner region (kw_now w) (kw_db w))\<rparr>)"
    and "\<And>w. K w \<Longrightarrow> K (w\<lparr>kw_db := snd (insert_member_row i owner Owner (kw_now w) (kw_db w))\<rparr>)"
  shows "inv K (store_create_project env i r name owner region) (\<lambda>_. True)"
proof -
  have "inv K (csql env st) (\<lambda>_. True)" if st: "\<And>w. K w \<Longrightarrow> K (w\<lparr>kw_db := snd (st (kw_now w) (kw_db w))\<rparr>)" for st :: "'x cloud_statement"
  proof -
    have "K (snd (csql env st w))" if "K w" for w
      using st [of "w\<lparr>kw_effects := Suc (kw_effects w)\<rparr>"] that assms(2)
      by (cases "st (kw_now w) (kw_db w)") (simp add: csql_def Let_def)
    then show ?thesis by (simp add: inv_def wp_snd)
  qed
  note s = this
  show ?thesis
    unfolding store_create_project_def by (intro inv_bind [OF s [OF assms(3)]] inv_bind [OF s [OF assms(4)]] inv_ret TrueI)
qed

section \<open>The databases of a shared cluster\<close>

definition keeps_cluster :: "cloud_env \<Rightarrow> (string \<times> string) set \<Rightarrow> (string \<times> string) set \<Rightarrow> 'w cloud_world \<Rightarrow> bool" where
  "keeps_cluster env D R w \<longleftrightarrow> uuids env w \<and> D \<subseteq> set (ct_databases (kw_catalog w)) \<and> R \<subseteq> set (ct_roles (kw_catalog w))"

lemma catalog_grows:
  assumes "catalog_step c c'"
  shows "set (ct_databases c) \<subseteq> set (ct_databases c')" "set (ct_roles c) \<subseteq> set (ct_roles c')"
  using assms
  by (cases rule: catalog_step.cases,
      auto simp: create_schema_if_absent_def apply_migration_def drop_schema_cascade_def create_role_stmt_def create_database_stmt_def Let_def)+

interpretation cluster: cloud_invariant env V "keeps_cluster env D R" True
  for env :: cloud_env and V :: "'w vault" and D and R
proof
  fix w :: "'w cloud_world" and i r name owner region
  assume i: "tenant_id i"
  show "inv (keeps_cluster env D R) (store_create_project env i r name owner region) (\<lambda>_. True)"
    by (rule create_rows [OF i])
      (use i in \<open>auto simp: keeps_cluster_def uuids_def insert_project_row_def insert_member_row_def Let_def\<close>)
next
  fix w :: "'w cloud_world" and db
  show "keeps_cluster env D R w \<Longrightarrow> cloud_step True (kw_db w) db \<Longrightarrow> keeps_cluster env D R (w\<lparr>kw_db := db\<rparr>)"
    using uuids_laws by (auto simp: keeps_cluster_def)
next
  fix w :: "'w cloud_world" and cat
  show "keeps_cluster env D R w \<Longrightarrow> catalog_step (kw_catalog w) cat \<Longrightarrow> keeps_cluster env D R (w\<lparr>kw_catalog := cat\<rparr>)"
    using catalog_grows by (fastforce simp: keeps_cluster_def uuids_def)
qed (auto simp: keeps_cluster_def uuids_def intro!: vault_aside)

text \<open>
  C19. No database and no role of a shared cluster is ever dropped: not by a request, not by the teardown of a project at the
  start of a server, which always uses the provider of a single node and drops a schema of the pool's own database. This is
  for any vault, both providers, any sequence of requests, restarts and calls of the vault, and whatever statements fail.
\<close>

theorem cluster_databases_never_dropped:
  fixes V :: "'w vault" and cfg boot :: node_config and kind url :: "string option"
  assumes uuids: "\<forall>n. tenant_id (ce_uuid env n)" "\<forall>p \<in> set (cl_projects (kw_db w)). tenant_id (pr_id p)"
    and calls: "\<forall>c \<in> set cs. cloud_call_ok c"
  defines "w' \<equiv> run_cloud env (new_cloud_api env V cfg kind url) boot cs w"
  shows "set (ct_databases (kw_catalog w)) \<subseteq> set (ct_databases (kw_catalog w')) \<and>
    set (ct_roles (kw_catalog w)) \<subseteq> set (ct_roles (kw_catalog w'))"
proof -
  have "keeps_cluster env (set (ct_databases (kw_catalog w))) (set (ct_roles (kw_catalog w))) w"
    using uuids by (simp add: keeps_cluster_def uuids_def)
  then have "keeps_cluster env (set (ct_databases (kw_catalog w))) (set (ct_roles (kw_catalog w))) w'"
    unfolding w'_def by (rule cluster.run_keeps [OF cluster.api_fits calls])
  then show ?thesis by (simp add: keeps_cluster_def)
qed

section \<open>Owners\<close>

definition owner_row :: "project \<Rightarrow> project_member \<Rightarrow> bool" where
  "owner_row p m \<longleftrightarrow> is_membership (pr_id p) (pr_owner_user_id p) m \<and> pm_role m = ''owner''"

definition member_key :: "project_member \<Rightarrow> uuid \<times> uuid" where
  "member_key m = (pm_project_id m, pm_user_id m)"

definition owned :: "cloud_db \<Rightarrow> bool" where
  "owned db \<longleftrightarrow> (\<forall>p \<in> set (cl_projects db). \<exists>m \<in> set (cl_members db). owner_row p m) \<and>
     distinct (map member_key (cl_members db)) \<and> (\<forall>m \<in> set (cl_members db). project_exists (pm_project_id m) db)"

lemma parsed_owner: "owner_row p m \<Longrightarrow> parsed_role m = Owner"
proof -
  have "parse_role ''owner'' = Ok Owner" by code_simp
  then show "owner_row p m \<Longrightarrow> parsed_role m = Owner" by (simp add: owner_row_def parsed_role_def)
qed

lemma find_membership:
  assumes "distinct (map member_key ms)" "m \<in> set ms" "is_membership i user m"
  shows "find (is_membership i user) ms = Some m"
  using assms by (induction ms) (auto simp: is_membership_def member_key_def rev_image_eqI)

lemma owned_laws:
  assumes db: "owned db" and step: "cloud_step True db db'"
  shows "owned db'"
proof -
  have same: "owned db'" if "map (\<lambda>p. (pr_id p, pr_owner_user_id p)) (cl_projects db') = map (\<lambda>p. (pr_id p, pr_owner_user_id p)) (cl_projects db)"
    "cl_members db' = cl_members db" for db'
  proof -
    let ?f = "\<lambda>p. (pr_id p, pr_owner_user_id p)"
    have "?f ` set (cl_projects db') = ?f ` set (cl_projects db)" using arg_cong [OF that(1), of set] by simp
    then have "\<forall>p \<in> set (cl_projects db'). \<exists>q \<in> set (cl_projects db). ?f p = ?f q"
      "\<forall>q \<in> set (cl_projects db). \<exists>p \<in> set (cl_projects db'). ?f q = ?f p" by (metis (no_types, lifting) imageE imageI)+
    then have "\<forall>p \<in> set (cl_projects db'). \<exists>q \<in> set (cl_projects db). pr_id p = pr_id q \<and> pr_owner_user_id p = pr_owner_user_id q"
      "\<forall>q \<in> set (cl_projects db). \<exists>p \<in> set (cl_projects db'). pr_id p = pr_id q" by fastforce+
    then show ?thesis using db that(2) unfolding owned_def owner_row_def project_exists_def list_ex_iff by metis
  qed
  have status: "map (\<lambda>p. (pr_id p, pr_owner_user_id p)) (update_rows P (\<lambda>p. p\<lparr>pr_status := s, pr_updated_at := t\<rparr>) ps) =
      map (\<lambda>p. (pr_id p, pr_owner_user_id p)) ps" for P s t ps
    by (induction ps) (simp_all add: update_rows_def)
  show ?thesis using step
  proof (cases rule: cloud_step.cases)
    case (torn_down i t)
    then show ?thesis using db
      by (auto simp: owned_def owner_row_def is_membership_def delete_project_row_def project_exists_def list_ex_iff distinct_map
          intro: inj_on_subset) metis+
  next
    case (joined role i user t)
    then show ?thesis using db
      by (auto simp: owned_def insert_member_row_def project_exists_def list_ex_iff is_membership_def member_key_def Let_def)
  next
    case (left_project i user m t)
    have "\<not> is_membership i user x" if "owner_row p x" "x \<in> set (cl_members db)" for p x
      using find_membership [OF _ that(2), of i user] parsed_owner [OF that(1)] left_project(2,3) db by (auto simp: owned_def)
    then show ?thesis using db left_project(1)
      by (auto simp: owned_def delete_member_row_def project_exists_def distinct_map intro: inj_on_subset) blast
  qed (auto intro!: same simp: statement_defs status Let_def)
qed

definition keeps_owners :: "cloud_env \<Rightarrow> 'w cloud_world \<Rightarrow> bool" where
  "keeps_owners env w \<longleftrightarrow> uuids env w \<and> (\<forall>n. \<not> ce_fails env n) \<and> owned (kw_db w)"

lemma create_owned:
  assumes "tenant_id i"
  shows "inv (keeps_owners env :: 'w cloud_world \<Rightarrow> bool) (store_create_project env i r name owner region) (\<lambda>_. True)"
proof -
  have "wp (store_create_project env i r name owner region) (\<lambda>_. keeps_owners env) (keeps_owners env) w"
    if w: "keeps_owners env w" for w :: "'w cloud_world"
  proof (cases "list_ex (\<lambda>p. pr_id p = i \<or> pr_ref p = r) (cl_projects (kw_db w))")
    case True
    then show ?thesis using w
      by (simp add: store_create_project_def wp_def bind_def csql_def Let_def insert_project_row_def keeps_owners_def uuids_def)
  next
    case False
    then have new: "\<not> list_ex (is_membership i owner) (cl_members (kw_db w))"
      using w by (auto simp: keeps_owners_def owned_def project_exists_def list_ex_iff is_membership_def)
    then have "(i, owner) \<notin> member_key ` set (cl_members (kw_db w))"
      by (auto simp: list_ex_iff is_membership_def member_key_def)
    then show ?thesis using w new False assms
      by (auto simp: store_create_project_def wp_def bind_def csql_def Let_def insert_project_row_def insert_member_row_def
          keeps_owners_def uuids_def owned_def project_exists_def list_ex_iff owner_row_def is_membership_def member_key_def)
  qed
  then show ?thesis by (simp add: inv_def)
qed

interpretation owners: cloud_invariant env V "keeps_owners env" True
  for env :: cloud_env and V :: "'w vault"
proof
  fix w :: "'w cloud_world" and db
  show "keeps_owners env w \<Longrightarrow> cloud_step True (kw_db w) db \<Longrightarrow> keeps_owners env (w\<lparr>kw_db := db\<rparr>)"
    using uuids_laws owned_laws by (auto simp: keeps_owners_def)
qed (auto simp: keeps_owners_def uuids_def intro!: vault_aside create_owned)

text \<open>
  C13. While no statement fails, every project keeps its owner as a member with that role, through any sequence of
  requests and restarts: owners are not removed, a removed project takes its members with it, and a project that is
  refused adds no row.
\<close>

theorem projects_keep_their_owner:
  fixes V :: "'w vault" and cfg boot :: node_config and kind url :: "string option"
  assumes uuids: "\<forall>n. tenant_id (ce_uuid env n)" "\<forall>p \<in> set (cl_projects (kw_db w)). tenant_id (pr_id p)"
    and works: "\<forall>n. \<not> ce_fails env n" and owned: "owned (kw_db w)"
    and calls: "\<forall>c \<in> set cs. cloud_call_ok c"
  defines "w' \<equiv> run_cloud env (new_cloud_api env V cfg kind url) boot cs w"
  assumes there: "p \<in> set (cl_projects (kw_db w'))"
  shows "\<exists>m \<in> set (cl_members (kw_db w')). is_membership (pr_id p) (pr_owner_user_id p) m \<and> pm_role m = ''owner''"
proof -
  have "keeps_owners env w" using uuids works owned by (simp add: keeps_owners_def uuids_def)
  then have "keeps_owners env w'" unfolding w'_def by (rule owners.run_keeps [OF owners.api_fits calls])
  then show ?thesis using there by (auto simp: keeps_owners_def owned_def owner_row_def)
qed

section \<open>The vault of a server\<close>

definition never_active :: "cloud_env \<Rightarrow> embedded_vault \<Rightarrow> vault_world cached_world cloud_world \<Rightarrow> bool" where
  "never_active env v w \<longleftrightarrow> (uuids env w \<and> (\<forall>p \<in> set (cl_projects (kw_db w)). pr_status p \<noteq> ''active'')) \<and>
     slash_free_cache (slash_free v) (kw_vault w)"

lemma never_active_vault:
  "(\<And>now. inv (slash_free_cache (slash_free v)) (m now) Q) \<Longrightarrow> inv (never_active env v) (in_vault m) Q"
  using in_vault_inv [of "slash_free_cache (slash_free v)" m Q "\<lambda>w. uuids env w \<and> (\<forall>p \<in> set (cl_projects (kw_db w)). pr_status p \<noteq> ''active'')"]
  by (simp add: uuids_def never_active_def [abs_def])

interpretation quiet: cloud_invariant env "cached conf (embedded venv v)" "never_active env v" False
  for env :: cloud_env and conf :: "vault_world cache_config" and venv :: vault_env and v :: embedded_vault
proof
  fix w :: "vault_world cached_world cloud_world" and db
  assume w: "never_active env v w" and step: "cloud_step False (kw_db w) db"
  have "pr_status p \<noteq> ''active''" if "p \<in> set (cl_projects db)" for p
    using step_rows [OF step that] w by (auto simp: never_active_def)
  then show "never_active env v (w\<lparr>kw_db := db\<rparr>)" using w uuids_laws [OF _ step] by (simp add: never_active_def)
next
  fix i r name owner region
  assume i: "tenant_id i"
  show "inv (never_active env v) (store_create_project env i r name owner region) (\<lambda>_. True)"
    by (rule create_rows [OF i])
      (use i in \<open>auto simp: never_active_def uuids_def insert_project_row_def insert_member_row_def Let_def\<close>)
next
  fix w :: "vault_world cached_world cloud_world" and c
  assume "never_active env v w" "tenant_id (call_tenant c)"
  then show "never_active env v (w\<lparr>kw_vault := snd (perform_vault (cached conf (embedded venv v)) c (kw_vault w))\<rparr>)"
    using shop.front.call_keeps [of c v "kw_vault w" conf venv] by (simp add: never_active_def uuids_def)
next
  fix i random n x r role
  assume i: "tenant_id i"
  show "inv (never_active env v) (in_vault (\<lambda>now. vault_bootstrap (cached conf (embedded venv v)) random now i)) (\<lambda>_. True)"
    by (rule never_active_vault) (rule inv_True [OF shop.front.bootstrap_creates_none [OF i]])
  show "inv (never_active env v) (in_vault (\<lambda>now. vault_cleanup (cached conf (embedded venv v)) i)) (\<lambda>_. True)"
    unfolding vault_cleanup_def
    by (rule never_active_vault, rule inv_for_each, rule inv_ignore, rule shop.front.delete_keeps [OF i])
  show "inv (never_active env v) (in_vault (\<lambda>now. v_put_secret (cached conf (embedded venv v)) i n (new_secret_value x now))) (\<lambda>_. True)"
    by (rule never_active_vault) (rule inv_True [OF shop.front.put_refuses [OF i]])
  show "inv (never_active env v) (in_vault (\<lambda>now. generate_jwt (ce_sign env) (cached conf (embedded venv v)) now i r role)) (\<lambda>_. False)"
    by (rule never_active_vault) (rule shop.front.no_token [OF i])
qed (auto simp: never_active_def uuids_def)

text \<open>
  C3. With the vault a server builds for itself no project is ever provisioned: for both providers, after any sequence of
  requests, restarts and calls of the vault, and whatever statements and file operations fail, no project is active and a
  request for a new one is never answered with it. The signing key of a project has a name with a slash, which that vault
  cannot store.
\<close>

theorem no_project_activates:
  fixes cfg boot :: node_config and kind url :: "string option" and conf :: "vault_world cache_config" and venv :: vault_env
  assumes new: "new_embedded_vault venv base master w0 = (Ok v, w1)" and dots: "''..'' \<notin> set base"
    and none: "no_nested_dir (proper base) (vw_fs w0)" "vw_cache w0 = (\<lambda>_. None)"
    and fresh: "kw_vault w = \<lparr>cw_inner = w1, cw_cache = (\<lambda>_. None)\<rparr>"
    and uuids: "\<forall>n. tenant_id (ce_uuid env n)" "\<forall>p \<in> set (cl_projects (kw_db w)). tenant_id (pr_id p) \<and> pr_status p \<noteq> ''active''"
    and calls: "\<forall>c \<in> set cs. cloud_call_ok c"
  defines "A \<equiv> new_cloud_api env (cached conf (embedded venv v)) cfg kind url"
  defines "w' \<equiv> run_cloud env A boot cs w"
  shows "(\<forall>p \<in> set (cl_projects (kw_db w')). pr_status p \<noteq> ''active'') \<and>
    fst (cloud_handler env A (CreateProject name region owner) w') \<noteq> Ok r"
proof -
  have "never_active env v w"
    using new_vault_slash_free [OF new dots none] uuids fresh by (simp add: never_active_def uuids_def slash_free_cache_def)
  then have w': "never_active env v w'"
    unfolding w'_def A_def by (rule quiet.run_keeps [OF quiet.api_fits calls])
  have "inv (never_active env v) (cloud_handler env A (CreateProject name region owner))
      (\<lambda>_. (\<exists>n r u. CreateProject name region owner = CreateProject n r u) \<longrightarrow> False)"
    unfolding A_def by (rule quiet.handler_inv [OF quiet.api_fits])
  then have "fst (cloud_handler env A (CreateProject name region owner) w') \<noteq> Ok r"
    using w' unfolding inv_def wp_def by (cases "cloud_handler env A (CreateProject name region owner) w'") fastforce
  then show ?thesis using w' by (simp add: never_active_def)
qed

section \<open>Runs\<close>

definition sample_cloud_env :: cloud_env where
  "sample_cloud_env =
     \<lparr>ce_fails = (\<lambda>n. False), ce_uuid = (\<lambda>n. CHR ''p'' # replicate n CHR ''i''), ce_ref = (\<lambda>i. ''r'' @ i), ce_random = (\<lambda>n. ''secret''),
      ce_key_material = (\<lambda>n name. name), ce_sign = sample_sign, ce_sql_text = (\<lambda>e. ''sql''), ce_connect = (\<lambda>url. Some (drop 35 url))\<rparr>"

definition empty_tables :: cloud_db where
  "empty_tables = \<lparr>cl_projects = [], cl_members = [], cl_keys = [], cl_audit = [], cl_audit_seq = 1, cl_routes = []\<rparr>"

definition cloud_start :: "'w \<Rightarrow> 'w cloud_world" where
  "cloud_start x =
     \<lparr>kw_db = empty_tables, kw_catalog = \<lparr>ct_schemas = [], ct_applied = [], ct_databases = [], ct_roles = []\<rparr>, kw_vault = x,
      kw_now = 0, kw_fresh = 0, kw_effects = 0\<rparr>"

definition sample_cluster :: "mock_world cloud_api" where
  "sample_cluster =
     new_cloud_api sample_cloud_env (mock sample_vault_env) default_node_config (Some ''shared_cluster'') (Some ''postgres://postgres@localhost:5432/x'')"

lemma sample_uuids: "tenant_id (ce_uuid sample_cloud_env n)"
  by (simp add: sample_cloud_env_def tenant_id_def component_def)

definition shop_created :: "mock_world cloud_world" where
  "shop_created =
     run_cloud sample_cloud_env sample_cluster default_node_config [Ask (CreateProject ''shop'' None ''u'')] (cloud_start (new_mock 0))"

lemma shop_created_rows:
  "map (\<lambda>p. (pr_id p, pr_ref p, pr_owner_user_id p, pr_status p)) (cl_projects (kw_db shop_created)) = [(''p'', ''rp'', ''u'', ''active'')]"
  "ct_databases (kw_catalog shop_created) = [(''tenant_rp'', ''tenant_rp'')]"
  by code_simp+

lemma shop_created_uuids: "\<forall>p \<in> set (cl_projects (kw_db shop_created)). tenant_id (pr_id p)"
  using shop_created_rows(1) by (auto simp: map_eq_Cons_conv tenant_id_def component_def)

lemma cluster_databases_never_dropped_witness:
  "cl_projects (kw_db (run_cloud sample_cloud_env sample_cluster default_node_config [Ask (DeleteProject ''rp''), Restart] shop_created)) = [] \<and>
   (''tenant_rp'', ''tenant_rp'') \<in> set (ct_databases (kw_catalog
     (run_cloud sample_cloud_env sample_cluster default_node_config [Ask (DeleteProject ''rp''), Restart] shop_created)))"
proof
  show "cl_projects (kw_db (run_cloud sample_cloud_env sample_cluster default_node_config [Ask (DeleteProject ''rp''), Restart] shop_created)) = []"
    by code_simp
  have "\<forall>c \<in> set [Ask (DeleteProject ''rp''), Restart]. cloud_call_ok c" by simp
  then show "(''tenant_rp'', ''tenant_rp'') \<in> set (ct_databases (kw_catalog
      (run_cloud sample_cloud_env sample_cluster default_node_config [Ask (DeleteProject ''rp''), Restart] shop_created)))"
    using cluster_databases_never_dropped [OF allI [OF sample_uuids] shop_created_uuids] shop_created_rows(2)
    unfolding sample_cluster_def by fastforce
qed

lemma projects_keep_their_owner_witness:
  "list_all (\<lambda>p. list_ex (\<lambda>m. pm_user_id m = pr_owner_user_id p \<and> pm_role m = ''owner'') (cl_members (kw_db shop_created)))
     (cl_projects (kw_db shop_created)) \<and> map pr_owner_user_id (cl_projects (kw_db shop_created)) = [''u'']"
proof -
  have "\<forall>n. \<not> ce_fails sample_cloud_env n" "owned (kw_db (cloud_start (new_mock 0)))"
    "\<forall>p \<in> set (cl_projects (kw_db (cloud_start (new_mock 0)))). tenant_id (pr_id p)"
    "\<forall>c \<in> set [Ask (CreateProject ''shop'' None ''u'')]. cloud_call_ok c"
    by (simp_all add: sample_cloud_env_def cloud_start_def empty_tables_def owned_def)
  then have "\<exists>m \<in> set (cl_members (kw_db shop_created)). is_membership (pr_id p) (pr_owner_user_id p) m \<and> pm_role m = ''owner''"
    if "p \<in> set (cl_projects (kw_db shop_created))" for p
    using projects_keep_their_owner [OF allI [OF sample_uuids]] that unfolding shop_created_def sample_cluster_def by blast
  then show ?thesis using shop_created_rows(1) by (auto simp: list_all_iff list_ex_iff is_membership_def)
qed

definition sample_host_api :: "vault_world cached_world cloud_api" where
  "sample_host_api = new_cloud_api sample_cloud_env sample_served default_node_config None None"

lemma no_project_activates_witness:
  "fst (answer_cloud sample_cloud_env sample_host_api (CreateProject ''shop'' None ''u'') (cloud_start sample_served_world)) =
     Ok (500, CloudFailure ''INTERNAL_ERROR''
       ''provisioning failed: vault bootstrap failed: anon JWT: JWT generation failed: jwt-signing key not found'') \<and>
   list_all (\<lambda>p. pr_status p \<noteq> ''active'') (cl_projects (kw_db
     (run_cloud sample_cloud_env sample_host_api default_node_config [Ask (CreateProject ''shop'' None ''u''), Restart, UseVault (PutSecret ''p'' ''k'' (new_secret_value ''x'' 7))]
        (cloud_start sample_served_world))))"
proof
  show "fst (answer_cloud sample_cloud_env sample_host_api (CreateProject ''shop'' None ''u'') (cloud_start sample_served_world)) =
     Ok (500, CloudFailure ''INTERNAL_ERROR''
       ''provisioning failed: vault bootstrap failed: anon JWT: JWT generation failed: jwt-signing key not found'')" by code_simp
  have "no_nested_dir (proper ['''', ''data'']) (vw_fs sample_vault_start)" "''..'' \<notin> set ['''', ''data'']"
    "vw_cache sample_vault_start = (\<lambda>_. None)" "kw_vault (cloud_start sample_served_world) = \<lparr>cw_inner = sample_vault_world, cw_cache = (\<lambda>_. None)\<rparr>"
    "\<forall>p \<in> set (cl_projects (kw_db (cloud_start sample_served_world))). tenant_id (pr_id p) \<and> pr_status p \<noteq> ''active''"
    "\<forall>c \<in> set [Ask (CreateProject ''shop'' None ''u''), Restart, UseVault (PutSecret ''p'' ''k'' (new_secret_value ''x'' 7))]. cloud_call_ok c"
    by (simp_all add: no_nested_dir_def sample_vault_start_def sample_host_def tenant_id_def component_def cloud_start_def empty_tables_def
        sample_served_world_def)
  then show "list_all (\<lambda>p. pr_status p \<noteq> ''active'') (cl_projects (kw_db
     (run_cloud sample_cloud_env sample_host_api default_node_config [Ask (CreateProject ''shop'' None ''u''), Restart, UseVault (PutSecret ''p'' ''k'' (new_secret_value ''x'' 7))]
        (cloud_start sample_served_world))))"
    using no_project_activates [OF sample_vault_new _ _ _ _ allI [OF sample_uuids]]
    unfolding list_all_iff sample_host_api_def sample_served_def by blast
qed

text \<open>
  The owner is added with a statement of its own: when it fails, the project is left without an owner, and the next start
  of the server activates it.
\<close>

definition failing_once :: cloud_env where
  "failing_once = sample_cloud_env\<lparr>ce_fails := (\<lambda>n. n = 1)\<rparr>"

lemma project_without_owner_activates:
  "let w = run_cloud failing_once (new_cloud_api failing_once (mock sample_vault_env) default_node_config None None) default_node_config
             [Ask (CreateProject ''shop'' None ''u''), Restart] (cloud_start (new_mock 0)) in
   map pr_status (cl_projects (kw_db w)) = [''active''] \<and> cl_members (kw_db w) = []"
  unfolding Let_def by (rule conjI; code_simp)

end
