(* ===== verification/Spec2Isabelle.thy ===== *)
theory Spec2Isabelle
  imports Quota_Threads Quota_Service Data_Query_Props Policy_Statement
    Auth_Sessions Auth_Accounts Auth_Owners
    Cache_Props Jobs_Lost Jobs_Limit Jobs_Replay Jobs_Webhook
    Storage_Roundtrip Storage_Policy Gateway_Sync
    Sites_Isolation Sites_Hosts Sites_Visitors Sites_Roundtrip
    Vault_Agree Vault_Nested Vault_Lost Cloud_Steps
begin

text \<open>
  A verification library for reactor-cloud, a backend platform written in Rust as a workspace of crates under
  \<open>src/crates/\<close>. A tenant's \<^emph>\<open>project\<close> is served by one server process that composes the services
  (identity, data API, jobs, and others) over one PostgreSQL database; the services share the request context,
  the policy language and the permission strings of \<open>reactor-core\<close> and \<open>reactor-policy\<close>.

  \<^bold>\<open>How the code is read.\<close> A struct is a record, an enum a datatype, a machine integer a word of its width
  wherever its width can be felt, a Rust \<open>str\<close> the list of its bytes (\<open>Rust_Str\<close>), an instant a number of
  microseconds. A fallible function returns \<open>result\<close> (\<open>Prelude\<close>): \<open>Ok\<close>, \<open>Err\<close>, \<open>Panic\<close> or, for fuelled
  recursion, \<open>Diverge\<close>; the latter is proved not to happen where fuel is used. A handler is a computation
  (\<open>Computation\<close>): a function from the state of the world to its outcome and the state it leaves, where the
  operator \<open>?\<close> is \<open>bind\<close>; a database statement is a function on lists of rows, with its keys, its references and
  its clock. Every statement may fail: the environment says which ones do, and the theorems quantify over it.
  Random values, hashes, encryption, encodings, other services and the meaning of SQL conditions are fields
  of the environment; the theorems that need their documented behaviour assume it by name.

  \<^bold>\<open>Components.\<close>
  \<^item> \<^emph>\<open>Policies\<close> (\<open>reactor-policy\<close>): \<open>Policy_Ast\<close> the expression tree and the builtins (\<open>ast.rs\<close>, \<open>builtins.rs\<close>,
    \<open>context.rs\<close>), \<open>Policy_Parser\<close> the recursive-descent parser (\<open>grammar.rs\<close>), \<open>Policy_Eval\<close> partial evaluation to
    SQL (\<open>eval.rs\<close>), \<open>Policy_Compile\<close> the combination of policies (\<open>compile.rs\<close>). The lemmas: the parser stops on
    every input (its fuel, one more than the length of the input, is enough) and what it returns is well
    formed (\<open>Policy_Parser_Props\<close>), evaluation and compilation keep the three-valued meaning of a policy on a row
    (\<open>Policy_Eval\<close>, \<open>Policy_Compile\<close>), and the text of a residual stays inside its own quotes and parentheses
    (\<open>Policy_Residual\<close>, over the SQL reader of \<open>Sql_Lex\<close>).
  \<^item> \<^emph>\<open>Permissions and identity\<close> (\<open>reactor-core\<close>): \<open>Permissions\<close>, \<open>Core_Auth\<close>.
  \<^item> \<^emph>\<open>Data API\<close> (\<open>reactor-data\<close>): \<open>Data_Query\<close> the PostgREST query language (\<open>query/\<close>), \<open>Data_Sql\<close> the statements built
    (\<open>execute/format.rs\<close>), \<open>Data_Policy\<close> policies of tables (\<open>policy/\<close>), \<open>Data_Embed\<close> embedded resources
    (\<open>execute/embed.rs\<close>), \<open>Data_Execute\<close> execution, audit and handlers (\<open>execute/mod.rs\<close>, \<open>routes/\<close>). The lemmas say how a
    database reads the statements (\<open>Data_Sql_Props\<close>), that a statement carries its policy and holds no value in
    its text, that requests are atomic and audited (\<open>Data_Execute_Props\<close>), that embeds follow foreign keys and
    obey the policies of their tables (\<open>Data_Embed_Props\<close>); \<open>Policy_Statement\<close> joins the policy language with the
    statements. The database that runs a statement is a parameter.
  \<^item> \<^emph>\<open>Identity service\<close> (\<open>reactor-auth\<close>): \<open>Auth_Store\<close> the tables and statements (\<open>store/postgres.rs\<close>), \<open>Auth_Keys\<close> the
    keyring (\<open>token/keyring.rs\<close>), \<open>Auth_Service\<close> and \<open>Auth_Orgs\<close> the service (\<open>service.rs\<close>, \<open>token/\<close>, \<open>password.rs\<close>),
    \<open>Auth_Routes\<close> the handlers (\<open>routes/\<close>). \<open>Auth_Steps\<close> lists the calls that reach the service and holds the locale
    \<open>kept_statements\<close>: a relation between states that every statement keeps is kept by every sequence of
    calls. \<open>Auth_Sessions\<close>, \<open>Auth_Accounts\<close>, and \<open>Auth_Owners\<close> interpret it and hold the properties.
  \<^item> \<^emph>\<open>Cache and queues\<close> (\<open>reactor-cache\<close>): \<open>Cache_Store\<close> the PostgreSQL backend, \<open>Cache_Props\<close> runs of queue operations by
    any clients while the clock moves.
  \<^item> \<^emph>\<open>Jobs\<close> (\<open>reactor-jobs\<close>): \<open>Jobs_Store\<close> manifests, tables and statements, \<open>Jobs_Service\<close> the handlers of jobs and
    triggers, \<open>Jobs_Runs\<close> runs, dead letters, the executor, the worker and the schedulers. A worker's round is
    cut in two at the request it sends, so that anything may happen in between (\<open>Jobs_Steps\<close>). \<open>Jobs_Kept\<close> is the contract
    \<open>kept_by_statements\<close> between statements and calls, interpreted by \<open>Jobs_Limit\<close>, \<open>Jobs_Replay\<close> and twice by
    \<open>Jobs_Lost\<close>, one per property; \<open>Jobs_Webhook\<close> evaluates handlers where nothing fails.
  \<^item> \<^emph>\<open>Storage\<close> (\<open>reactor-storage\<close>): \<open>Storage_Store\<close> the metadata tables (\<open>store/metadata.rs\<close>), \<open>Storage_Fs\<close> the file
    backend (\<open>fs.rs\<close>) over a model of directories, files and path resolution, \<open>Storage_Policy\<close> the policies of
    buckets (\<open>policy/eval.rs\<close>), \<open>Storage_Service\<close> middleware and handlers (\<open>middleware/\<close>, \<open>routes/\<close>). \<open>Storage_Paths\<close> has what
    the operating system makes of a path, for the vault too. \<open>Storage_Steps\<close> lists the
    calls and holds the locale \<open>storage_invariant\<close>, interpreted in \<open>Storage_Isolation\<close>: where keys are plain, organizations do not
    reach each other's files. \<open>Storage_Escape\<close> shows what other keys reach and what signed URLs open,
    \<open>Storage_Roundtrip\<close> that a download returns what was uploaded, \<open>Storage_Policy\<close> the two readings of \<open>LIKE\<close>.
  \<^item> \<^emph>\<open>Gateway\<close> (\<open>reactor-gateway\<close>, \<open>reactor-gateway-server\<close>): \<open>Gateway_Routing\<close> routes, domains and their tables (\<open>routing.rs\<close>,
    \<open>store/pg.rs\<close>), \<open>Gateway_Caddy\<close> the configuration written for Caddy (\<open>caddy_admin.rs\<close>) and, as a hypothesis on a parameter,
    what Caddy documents of its routes and handlers, \<open>Gateway_Server\<close> the server (\<open>main.rs\<close>) with the locale \<open>gateway_invariant\<close> of what survives its calls,
    interpreted three times in \<open>Gateway_Domains\<close> and \<open>Gateway_Sync\<close>. \<open>Gateway_Sync\<close> holds the sync loop as a step relation
    (\<open>sync.rs\<close>, \<open>snapshot.rs\<close>): an invariant of its reachable states says when Caddy is up to date.
  \<^item> \<^emph>\<open>Sites\<close> (\<open>reactor-sites\<close>, \<open>reactor-server/src/admin/\<close>): \<open>Sites_Store\<close> the tables (\<open>store/\<close>), \<open>Sites_Route\<close> patterns, resolver and
    decisions (\<open>route/\<close>, \<open>dispatch/\<close>), \<open>Sites_Service\<close> the serve plane, the handlers, domain verification (\<open>middleware/\<close>, \<open>routes/\<close>,
    \<open>domain/\<close>) and the deployment of a bundle (\<open>admin/deploy.rs\<close>). \<open>Sites_Steps\<close> lists the calls and holds the locale
    \<open>sites_invariant\<close>, interpreted by \<open>Sites_Isolation\<close> and twice by \<open>Sites_Hosts\<close>. \<open>Sites_Visitors\<close> composes the service with the
    server it runs in and the middleware of the administration (\<open>compose/sites.rs\<close>, \<open>admin/auth.rs\<close>), \<open>Sites_Roundtrip\<close> follows
    a file from the bundle to the visitor. The router \<open>matchit\<close>, the URL parser, other services, DNS and the web are
    parameters; what is documented of them is stated in \<open>Sites_Steps\<close> beside an instance.
  \<^item> \<^emph>\<open>Vault\<close> (\<open>reactor-core/src/primitives/vault.rs\<close>, \<open>reactor-vault\<close>): \<open>Vault_Store\<close> the trait as a record of operations, the embedded
    adapter over the files of \<open>Storage_Fs\<close> and the adapter in memory, \<open>Vault_Service\<close> the cache in front of a vault
    (\<open>boot/vault.rs\<close>), its administration (\<open>admin/vault.rs\<close>) and the services that keep something in one. \<open>Vault_Laws\<close> is the
    contract of a vault, the locale \<open>secret_store\<close>, interpreted on the adapter in memory and, in \<open>Vault_Embedded\<close>, on the embedded
    one, and carried through the cache by a \<open>sublocale\<close>: \<open>Vault_Agree\<close> compares the two. \<open>Vault_Nested\<close> is the locale
    \<open>slash_refusing\<close> of vaults that keep no nested name (a plain segment, then a slash), of which the embedded vault is one. \<open>Vault_Lost\<close> shows what
    rotation, absolute names and a reader beside a writer do.
  \<^item> \<^emph>\<open>Control plane\<close> (\<open>reactor-cloud-api\<close>): \<open>Cloud_Store\<close> types, errors and tables (\<open>types.rs\<close>, \<open>error.rs\<close>, \<open>store.rs\<close>),
    \<open>Cloud_Provider\<close> schemas and the two providers (\<open>bootstrap/schema.rs\<close>, \<open>provisioner/\<close>) over a catalog of schemas, databases
    and roles, \<open>Cloud_Service\<close> projects, members, keys, their endpoints (\<open>compose/cloud.rs\<close>) and the start of a server
    (\<open>boot/cloud.rs\<close>). \<open>Cloud_Steps\<close> lists what the statements change and holds the locale \<open>cloud_invariant\<close>, interpreted
    three times: on the server's own vault (\<open>Vault_Nested\<close>) no project becomes active, projects keep their owners, and the
    databases of a shared cluster are never dropped.
  \<^item> \<^emph>\<open>Quotas\<close> (\<open>reactor-server/src/quota\<close>): \<open>Quota_Bucket\<close> the token bucket on 64-bit words and \<open>f64\<close> (\<open>F64\<close>), \<open>Quota_Threads\<close>
    its atomic accesses interleaved by threads, \<open>Quota_Service\<close> the per-tenant service and middleware.

  \<open>Prelude\<close> and \<open>Rust_Str\<close> hold what all of them share; \<open>Auth_Steps\<close> and \<open>Jobs_Steps\<close> end in small worlds on which the
  witnesses evaluate the definitions.

  \<^bold>\<open>Properties.\<close> They are the theorems labelled C1, C2 and so on. Most say that the code does what it means
  to; some show what it does not, where the code and its purpose part (requests in which a filter
  hides the policy, queues nobody reads, endpoints without a guard). Properties about a service quantify over all sequences
  of calls, all failures of statements and, where it matters, all interleavings.

  \<^bold>\<open>Bounds and fuel.\<close> The policy parser is fuelled by one more than the length of its input, which is proved sufficient
  (\<open>parse_policy_expr_returns\<close>). Printing an \<open>f64\<close> (\<open>F64\<close>) tries at most 17 significant digits, which always identify a
  binary64 value, and searches its decimal exponent between -324 and 309. Every other recursion follows its data.
  Words wrap as the release build does; where a debug build would panic, the definition says so.

  \<^bold>\<open>Clocks.\<close> The queues tell the clock of a client from the clock of the database; everywhere else a service and its
  database read one clock.

  \<^bold>\<open>Not modelled.\<close> SQL execution and the plans PostgreSQL chooses: a statement is its effect on rows, and a
  handler that runs several statements without a transaction is a sequence of them, not an interleaving with other
  handlers. A file operation happens or fails as a whole, and the file system has no links. TLS, HTTP parsing, JSON printing, JWT, argon2, RSA and AES are parameters. Redis, object stores, container
  runtimes and third-party APIs are reached through clients whose behaviour is not in the repository.
  Requests of the control plane are taken one after
  the other; the tables a migration makes are its record in the catalog. The services of connectors, functions, analytics and
  models, the command line and the operator interface are listed in the manifest as not modelled.
\<close>

end
